(* ===== verification/Js_Base.thy ===== *)
theory Js_Base
  imports Complex_Main
begin

section \<open>JavaScript values: strings, numbers, objects\<close>

text \<open>
  The prelude of the development: the part of the JavaScript language that the client relies on,
  as HOL data. A string is the list of its UTF-16 code units, a number is an IEEE double (a
  rational, an infinity or NaN; the two zeros are one value, which no construct of the client can
  tell apart), and a value is one of the JSON-like shapes plus \<open>undefined\<close>. Objects are property
  lists in insertion order, as \<^verbatim>\<open>Object.entries\<close> shows them.

  The collections below gather the rewrite rules that the component theories share.
\<close>

named_theorems js_simps \<open>evaluation of property access, coercions and shape checks\<close>
named_theorems js_shape \<open>shape facts of the model's operations\<close>

subsection \<open>Generic list lemmas\<close>

lemma take_Cons_length: "length xs \<le> n \<Longrightarrow> length (take n (x # xs)) \<le> n"
  by simp

lemma set_take_Cons: "y \<in> set (take n (x # xs)) \<Longrightarrow> y = x \<or> y \<in> set xs"
  by (metis in_set_takeD set_ConsD)

lemma map_of_append_eq: "map_of (xs @ ys) k = (case map_of xs k of None \<Rightarrow> map_of ys k | Some v \<Rightarrow> Some v)"
  by (simp add: map_add_def)

subsection \<open>Strings\<close>

type_synonym jstr = "nat list"

text \<open>\<open>js\<close> reads an ASCII literal of the source.\<close>

definition js :: "string \<Rightarrow> jstr" where
  "js s = map of_char s"

lemma js_eq_iff [simp]: "js a = js b \<longleftrightarrow> a = b"
proof
  assume "js a = js b"
  then show "a = b"
  proof (induction a arbitrary: b)
    case Nil
    then show ?case by (simp add: js_def)
  next
    case (Cons c a)
    from Cons.prems obtain d b' where b: "b = d # b'" and cd: "of_char c = (of_char d :: nat)"
      and rest: "js a = js b'"
      by (cases b) (auto simp: js_def)
    from cd have "c = d" by simp
    with b Cons.IH [OF rest] show ?case by simp
  qed
qed simp

lemma js_Nil [simp]: "js [] = []"
  by (simp add: js_def)

lemma js_eq_Nil_iff [simp]: "js a = [] \<longleftrightarrow> a = []" "[] = js a \<longleftrightarrow> a = []"
  by (auto simp: js_def)

lemma js_append: "js (a @ b) = js a @ js b"
  by (simp add: js_def)

lemma length_js [simp]: "length (js a) = length a"
  by (simp add: js_def)

subsection \<open>Numbers\<close>

datatype jsnum = Fin rat | PInf | NInf | NaN

text \<open>
  Rounding to the nearest double, ties to even, with gradual underflow and overflow to an
  infinity. \<open>ilog2\<close> is the position of the highest bit.
\<close>

fun ilog2 :: "nat \<Rightarrow> nat" where
  "ilog2 n = (if n < 2 then 0 else Suc (ilog2 (n div 2)))"

declare ilog2.simps [simp del]

definition pow2 :: "int \<Rightarrow> rat" where
  "pow2 e = (if 0 \<le> e then 2 ^ nat e else 1 / 2 ^ nat (- e))"

definition rat_log2 :: "rat \<Rightarrow> int" where
  "rat_log2 q =
     (let (a, b) = quotient_of q; e = int (ilog2 (nat a)) - int (ilog2 (nat b))
      in if pow2 e \<le> q then e else e - 1)"

definition rne :: "rat \<Rightarrow> int" where
  "rne q =
     (let f = \<lfloor>q\<rfloor>; r = q - of_int f
      in if r < 1 / 2 then f else if 1 / 2 < r then f + 1 else if even f then f else f + 1)"

definition fl :: "rat \<Rightarrow> jsnum" where
  "fl q =
     (if q = 0 then Fin 0
      else let e = max (rat_log2 \<bar>q\<bar> - 52) (- 1074); y = of_int (rne (q / pow2 e)) * pow2 e
           in if 2 ^ 1024 \<le> y then PInf else if y \<le> - (2 ^ 1024) then NInf else Fin y)"

fun is_finite :: "jsnum \<Rightarrow> bool" where
  "is_finite (Fin _) = True"
| "is_finite _ = False"

fun num_neg :: "jsnum \<Rightarrow> jsnum" where
  "num_neg (Fin a) = Fin (- a)"
| "num_neg PInf = NInf"
| "num_neg NInf = PInf"
| "num_neg NaN = NaN"

fun num_add :: "jsnum \<Rightarrow> jsnum \<Rightarrow> jsnum" where
  "num_add NaN _ = NaN"
| "num_add _ NaN = NaN"
| "num_add PInf NInf = NaN"
| "num_add NInf PInf = NaN"
| "num_add PInf _ = PInf"
| "num_add _ PInf = PInf"
| "num_add NInf _ = NInf"
| "num_add _ NInf = NInf"
| "num_add (Fin a) (Fin b) = fl (a + b)"

definition num_sub :: "jsnum \<Rightarrow> jsnum \<Rightarrow> jsnum" where
  "num_sub a b = num_add a (num_neg b)"

definition inf_of_sign :: "bool \<Rightarrow> jsnum" where
  "inf_of_sign pos = (if pos then PInf else NInf)"

text \<open>The sign of a number as \<open>Some True\<close> (positive), \<open>Some False\<close> (negative), \<open>None\<close> (zero, NaN).\<close>

fun num_pos :: "jsnum \<Rightarrow> bool option" where
  "num_pos (Fin a) = (if a = 0 then None else Some (0 < a))"
| "num_pos PInf = Some True"
| "num_pos NInf = Some False"
| "num_pos NaN = None"

fun num_mul :: "jsnum \<Rightarrow> jsnum \<Rightarrow> jsnum" where
  "num_mul (Fin a) (Fin b) = fl (a * b)"
| "num_mul a b =
     (case (num_pos a, num_pos b) of
        (Some p, Some q) \<Rightarrow> inf_of_sign (p = q)
      | _ \<Rightarrow> NaN)"

text \<open>Division by a finite non-zero divisor, which is all the client does.\<close>

fun num_div :: "jsnum \<Rightarrow> jsnum \<Rightarrow> jsnum" where
  "num_div (Fin a) (Fin b) =
     (if b = 0 then (if a = 0 then NaN else inf_of_sign (0 < a)) else fl (a / b))"
| "num_div (Fin a) PInf = Fin 0"
| "num_div (Fin a) NInf = Fin 0"
| "num_div PInf (Fin b) = inf_of_sign (0 \<le> b)"
| "num_div NInf (Fin b) = inf_of_sign (b < 0)"
| "num_div _ _ = NaN"

fun num_lt :: "jsnum \<Rightarrow> jsnum \<Rightarrow> bool" where
  "num_lt NaN _ = False"
| "num_lt _ NaN = False"
| "num_lt PInf _ = False"
| "num_lt _ NInf = False"
| "num_lt NInf _ = True"
| "num_lt _ PInf = True"
| "num_lt (Fin a) (Fin b) = (a < b)"

definition num_le :: "jsnum \<Rightarrow> jsnum \<Rightarrow> bool" where
  "num_le a b = (a \<noteq> NaN \<and> b \<noteq> NaN \<and> \<not> num_lt b a)"

text \<open>Strict equality: NaN differs from itself.\<close>

definition num_eq :: "jsnum \<Rightarrow> jsnum \<Rightarrow> bool" where
  "num_eq a b = (a = b \<and> a \<noteq> NaN)"

definition num_min :: "jsnum \<Rightarrow> jsnum \<Rightarrow> jsnum" where
  "num_min a b = (if a = NaN \<or> b = NaN then NaN else if num_lt b a then b else a)"

definition num_max :: "jsnum \<Rightarrow> jsnum \<Rightarrow> jsnum" where
  "num_max a b = (if a = NaN \<or> b = NaN then NaN else if num_lt a b then b else a)"

fun num_abs :: "jsnum \<Rightarrow> jsnum" where
  "num_abs (Fin a) = Fin \<bar>a\<bar>"
| "num_abs PInf = PInf"
| "num_abs NInf = PInf"
| "num_abs NaN = NaN"

text \<open>\<open>Math.round\<close> rounds half up (towards plus infinity).\<close>

fun num_round :: "jsnum \<Rightarrow> jsnum" where
  "num_round (Fin a) = Fin (of_int \<lfloor>a + 1 / 2\<rfloor>)"
| "num_round x = x"

lemma num_lt_Fin [simp]: "num_lt (Fin a) (Fin b) = (a < b)"
  by simp

lemma num_le_Fin [simp]: "num_le (Fin a) (Fin b) = (a \<le> b)"
  by (auto simp: num_le_def)

lemma num_eq_Fin [simp]: "num_eq (Fin a) (Fin b) = (a = b)"
  by (auto simp: num_eq_def)

lemma num_min_Fin [simp]: "num_min (Fin a) (Fin b) = Fin (min a b)"
  by (auto simp: num_min_def min_def)

lemma num_max_Fin [simp]: "num_max (Fin a) (Fin b) = Fin (max a b)"
  by (auto simp: num_max_def max_def)

lemma is_finite_iff: "is_finite x \<longleftrightarrow> (\<exists>q. x = Fin q)"
  by (cases x) auto

subsection \<open>Values\<close>

datatype jsval =
    Undef
  | Null
  | Bool bool
  | Num jsnum
  | Str jstr
  | Arr "jsval list"
  | Obj "(jstr \<times> jsval) list"

abbreviation S :: "string \<Rightarrow> jsval" where
  "S lit \<equiv> Str (js lit)"

abbreviation N :: "rat \<Rightarrow> jsval" where
  "N q \<equiv> Num (Fin q)"

text \<open>An object literal with ASCII property names.\<close>

definition obj :: "(string \<times> jsval) list \<Rightarrow> jsval" where
  "obj kvs = Obj (map (\<lambda>(k, v). (js k, v)) kvs)"

lemma obj_eq_simps [simp]:
  "obj kvs \<noteq> Undef" "obj kvs \<noteq> Null" "obj kvs \<noteq> Bool b" "obj kvs \<noteq> Num n" "obj kvs \<noteq> Str s"
  "obj kvs \<noteq> Arr vs" "Undef \<noteq> obj kvs" "Null \<noteq> obj kvs"
  by (auto simp: obj_def)

text \<open>
  Property access: \<open>fld v k\<close> is \<^verbatim>\<open>v?.k\<close> (\<open>undefined\<close> on \<open>undefined\<close> and \<open>null\<close>). Only own
  properties and \<^verbatim>\<open>length\<close> exist in the model; no property the client reads is inherited.
\<close>

fun getp :: "jsval \<Rightarrow> jstr \<Rightarrow> jsval" where
  "getp (Obj kvs) k = (case map_of kvs k of None \<Rightarrow> Undef | Some v \<Rightarrow> v)"
| "getp (Arr vs) k = (if k = js ''length'' then N (of_nat (length vs)) else Undef)"
| "getp (Str s) k = (if k = js ''length'' then N (of_nat (length s)) else Undef)"
| "getp _ k = Undef"

definition fld :: "jsval \<Rightarrow> string \<Rightarrow> jsval" where
  "fld v k = getp v (js k)"

lemma map_of_js: "map_of (map (\<lambda>(k, v). (js k, v)) kvs) (js k) = map_of kvs k"
  by (induction kvs) auto

lemma fld_obj [simp]: "fld (obj kvs) k = (case map_of kvs k of None \<Rightarrow> Undef | Some v \<Rightarrow> v)"
  by (simp add: fld_def obj_def map_of_js)

lemma fld_simps [simp]:
  "fld Undef k = Undef" "fld Null k = Undef" "fld (Bool b) k = Undef" "fld (Num n) k = Undef"
  by (simp_all add: fld_def)

lemma fld_Arr [simp]: "fld (Arr vs) k = (if k = ''length'' then N (of_nat (length vs)) else Undef)"
  by (simp add: fld_def)

lemma fld_Str [simp]: "fld (Str s) k = (if k = ''length'' then N (of_nat (length s)) else Undef)"
  by (simp add: fld_def)

text \<open>Writing a property in place or appending it, and object spread \<^verbatim>\<open>{...a, ...b}\<close>.\<close>

fun put :: "(jstr \<times> jsval) list \<Rightarrow> jstr \<Rightarrow> jsval \<Rightarrow> (jstr \<times> jsval) list" where
  "put [] k v = [(k, v)]"
| "put ((k', v') # kvs) k v = (if k' = k then (k, v) # kvs else (k', v') # put kvs k v)"

definition put_all :: "(jstr \<times> jsval) list \<Rightarrow> (jstr \<times> jsval) list \<Rightarrow> (jstr \<times> jsval) list" where
  "put_all kvs new = fold (\<lambda>(k, v) acc. put acc k v) new kvs"

fun entries :: "jsval \<Rightarrow> (jstr \<times> jsval) list" where
  "entries (Obj kvs) = kvs"
| "entries _ = []"

definition spread :: "jsval \<Rightarrow> (string \<times> jsval) list \<Rightarrow> jsval" where
  "spread v kvs = Obj (put_all (entries v) (map (\<lambda>(k, x). (js k, x)) kvs))"

lemma map_of_put: "map_of (put kvs k v) = (map_of kvs)(k \<mapsto> v)"
  by (induction kvs k v rule: put.induct) (auto simp: fun_upd_twist)

lemma map_of_put_all: "map_of (put_all kvs new) k =
    (case map_of (rev new) k of None \<Rightarrow> map_of kvs k | Some v \<Rightarrow> Some v)"
  unfolding put_all_def
  by (induction new arbitrary: kvs)
     (auto simp: map_of_put map_of_append_eq split: option.splits)

lemma map_of_rev_js: "map_of (rev (map (\<lambda>(k, v). (js k, v)) kvs)) (js k) = map_of (rev kvs) k"
  by (metis map_of_js rev_map)

lemma fld_spread: "fld (spread v kvs) k =
    (case map_of (rev kvs) k of Some x \<Rightarrow> x | None \<Rightarrow> fld (Obj (entries v)) k)"
  by (simp add: fld_def spread_def map_of_put_all map_of_rev_js split: option.split)

lemma fld_entries [simp]: "fld (Obj (entries (Obj kvs))) k = fld (Obj kvs) k"
  by simp

subsection \<open>Truth and shape\<close>

fun truthy :: "jsval \<Rightarrow> bool" where
  "truthy Undef = False"
| "truthy Null = False"
| "truthy (Bool b) = b"
| "truthy (Num n) = (n \<noteq> NaN \<and> n \<noteq> Fin 0)"
| "truthy (Str s) = (s \<noteq> [])"
| "truthy (Arr _) = True"
| "truthy (Obj _) = True"

lemma truthy_obj [simp]: "truthy (obj kvs)"
  by (simp add: obj_def)

definition js_or :: "jsval \<Rightarrow> jsval \<Rightarrow> jsval" where
  "js_or a b = (if truthy a then a else b)"

text \<open>\<open>??\<close>\<close>

definition coalesce :: "jsval \<Rightarrow> jsval \<Rightarrow> jsval" where
  "coalesce a b = (if a = Undef \<or> a = Null then b else a)"

text \<open>\<^verbatim>\<open>typeof v === "object"\<close>: true of \<open>null\<close>, arrays and objects.\<close>

fun is_object :: "jsval \<Rightarrow> bool" where
  "is_object Null = True"
| "is_object (Arr _) = True"
| "is_object (Obj _) = True"
| "is_object _ = False"

fun is_arr :: "jsval \<Rightarrow> bool" where
  "is_arr (Arr _) = True"
| "is_arr _ = False"

fun is_str :: "jsval \<Rightarrow> bool" where
  "is_str (Str _) = True"
| "is_str _ = False"

text \<open>\<^verbatim>\<open>Array.isArray(v) ? v : []\<close>\<close>

fun elems :: "jsval \<Rightarrow> jsval list" where
  "elems (Arr vs) = vs"
| "elems _ = []"

lemma is_object_obj [simp]: "is_object (obj kvs)" "\<not> is_arr (obj kvs)" "elems (obj kvs) = []"
  by (simp_all add: obj_def)

text \<open>Strict equality on the primitive values the client compares (\<open>===\<close> against a literal).\<close>

definition is_lit :: "jsval \<Rightarrow> string \<Rightarrow> bool" where
  "is_lit v lit = (v = S lit)"

lemma is_lit_S [simp]: "is_lit (S a) b = (a = b)"
  by (simp add: is_lit_def)

lemma is_lit_other [simp]: "\<not> is_lit Undef b" "\<not> is_lit Null b" "\<not> is_lit (Bool c) b" "\<not> is_lit (Num n) b"
  by (simp_all add: is_lit_def)

end
