(* ===== verification/Js_Text.thy ===== *)
theory Js_Text
  imports Js_Base
begin

section \<open>JavaScript strings, number formatting and URL encoding\<close>

text \<open>
  The string functions of the language that the client calls, on UTF-16 code units: trimming and
  splitting, case folding (of the ASCII letters; other code units are left as they are, a bound of
  the model), searching, decimal printing and reading of numbers, the coercions \<^verbatim>\<open>String(v)\<close> and
  \<^verbatim>\<open>Number(v)\<close>, \<^verbatim>\<open>encodeURIComponent\<close> and \<^verbatim>\<open>URLSearchParams\<close>.
\<close>

subsection \<open>Rounding leaves small integers alone\<close>

lemma ilog2_bounds: "0 < n \<Longrightarrow> 2 ^ ilog2 n \<le> n \<and> n < 2 ^ Suc (ilog2 n)"
proof (induction n rule: ilog2.induct)
  case (1 n)
  show ?case
  proof (cases "n < 2")
    case True
    with "1.prems" show ?thesis by (simp add: ilog2.simps [of n])
  next
    case False
    with "1.IH" have "2 ^ ilog2 (n div 2) \<le> n div 2 \<and> n div 2 < 2 ^ Suc (ilog2 (n div 2))"
      by simp
    with False show ?thesis by (auto simp: ilog2.simps [of n])
  qed
qed

lemma rne_of_int [simp]: "rne (of_int n) = n"
  by (simp add: rne_def)

lemma rat_log2_of_int:
  assumes "0 < n"
  shows "rat_log2 (of_int n) = int (ilog2 (nat n))"
proof -
  have "2 ^ ilog2 (nat n) \<le> nat n" using ilog2_bounds [of "nat n"] assms by simp
  then have "(2::int) ^ ilog2 (nat n) \<le> n"
    by (metis assms int_nat_eq less_imp_le numeral_power_le_nat_cancel_iff zle_int of_nat_numeral of_nat_power)
  then have "(2::rat) ^ ilog2 (nat n) \<le> of_int n"
    by (metis of_int_le_iff of_int_numeral of_int_power)
  moreover have "quotient_of (of_int n :: rat) = (n, 1)" using quotient_of_int [of n] by (simp add: Rat.of_int_def)
  moreover have "ilog2 1 = 0" by (simp add: ilog2.simps)
  ultimately show ?thesis by (simp add: rat_log2_def Let_def pow2_def)
qed

lemma fl_of_int_pos:
  assumes "0 < n" and "n \<le> 2 ^ 53"
  shows "fl (of_int n) = Fin (of_int n)" and "fl (of_int (- n)) = Fin (of_int (- n))"
proof -
  let ?k = "ilog2 (nat n)"
  let ?e = "max (int ?k - 52) (- 1074)"
  have k: "2 ^ ?k \<le> nat n" "nat n < 2 ^ Suc ?k" using ilog2_bounds [of "nat n"] assms by auto
  have "\<exists>m. (of_int n :: rat) / pow2 ?e = of_int m"
  proof (cases "?k \<le> 52")
    case True
    then have "(of_int n :: rat) / pow2 ?e = of_int (n * 2 ^ nat (- ?e))"
      by (simp add: pow2_def)
    then show ?thesis by blast
  next
    case False
    have "nat n \<le> 2 ^ 53" using assms(2) by (simp add: nat_le_iff)
    with k(1) have up: "(2::nat) ^ ?k \<le> 2 ^ 53" by (rule le_trans)
    then have "?k \<le> 53" by (rule power_le_imp_le_exp [rotated]) simp
    with False have "?k = 53" by simp
    with k(1) \<open>nat n \<le> 2 ^ 53\<close> have "nat n = 2 ^ 53" by simp
    then have n: "n = 2 ^ 53" by simp
    have e: "?e = 1" using \<open>?k = 53\<close> by simp
    have "(of_int n :: rat) / pow2 ?e = of_int (2 ^ 52)" unfolding e by (simp add: n pow2_def)
    then show ?thesis by blast
  qed
  then obtain m where m: "(of_int n :: rat) / pow2 ?e = of_int m" ..
  have p: "pow2 ?e \<noteq> 0" by (simp add: pow2_def)
  from m p have y: "of_int m * pow2 ?e = (of_int n :: rat)" by (simp add: field_simps)
  have big: "(of_int n :: rat) \<le> 2 ^ 53"
    using assms(2) by (metis of_int_le_iff of_int_numeral of_int_power)
  have lt: "(2::rat) ^ 53 < 2 ^ 1024" by (rule power_strict_increasing) simp_all
  have l: "rat_log2 \<bar>of_int n\<bar> = int ?k" "rat_log2 \<bar>of_int (- n)\<bar> = int ?k"
    using rat_log2_of_int [OF assms(1)] assms(1) by simp_all
  show "fl (of_int n) = Fin (of_int n)"
    using assms(1) big lt by (simp only: fl_def l m rne_of_int y Let_def) simp
  have m': "(of_int (- n) :: rat) / pow2 ?e = of_int (- m)" using m by simp
  have y': "of_int (- m) * pow2 ?e = (of_int (- n) :: rat)" using y by simp
  show "fl (of_int (- n)) = Fin (of_int (- n))"
    using assms(1) big lt by (simp only: fl_def l m' rne_of_int y' Let_def) simp
qed

lemma fl_0 [simp]: "fl 0 = Fin 0"
  by (simp add: fl_def)

lemma fl_of_int:
  assumes "\<bar>n\<bar> \<le> 2 ^ 53"
  shows "fl (of_int n) = Fin (of_int n)"
proof (cases "n = 0")
  case False
  show ?thesis
  proof (cases "0 < n")
    case True
    then show ?thesis using fl_of_int_pos(1) [of n] assms by simp
  next
    case False
    with \<open>n \<noteq> 0\<close> show ?thesis using fl_of_int_pos(2) [of "- n"] assms by simp
  qed
qed simp

lemma fl_nonneg: "0 \<le> q \<Longrightarrow> fl q = Fin r \<Longrightarrow> 0 \<le> r"
proof -
  assume q: "0 \<le> q" and r: "fl q = Fin r"
  have nn: "0 \<le> rne x" if "0 \<le> x" for x :: rat
    using that by (simp add: rne_def Let_def)
  have "0 \<le> pow2 e" for e by (simp add: pow2_def)
  with q r nn show ?thesis
    by (auto simp: fl_def Let_def split: if_splits)
qed

subsection \<open>White space, case, search\<close>

text \<open>The code units of \<^verbatim>\<open>\s\<close>, which are also those \<^verbatim>\<open>trim\<close> removes.\<close>

definition is_ws :: "nat \<Rightarrow> bool" where
  "is_ws c \<longleftrightarrow> (9 \<le> c \<and> c \<le> 13) \<or> c = 32 \<or> c = 160 \<or> c = 5760 \<or> (8192 \<le> c \<and> c \<le> 8202) \<or>
     c = 8232 \<or> c = 8233 \<or> c = 8239 \<or> c = 8287 \<or> c = 12288 \<or> c = 65279"

definition trim :: "jstr \<Rightarrow> jstr" where
  "trim s = rev (dropWhile is_ws (rev (dropWhile is_ws s)))"

definition lower_unit :: "nat \<Rightarrow> nat" where
  "lower_unit c = (if 65 \<le> c \<and> c \<le> 90 then c + 32 else c)"

definition upper_unit :: "nat \<Rightarrow> nat" where
  "upper_unit c = (if 97 \<le> c \<and> c \<le> 122 then c - 32 else c)"

definition lower :: "jstr \<Rightarrow> jstr" where
  "lower s = map lower_unit s"

definition upper :: "jstr \<Rightarrow> jstr" where
  "upper s = map upper_unit s"

fun starts_with :: "jstr \<Rightarrow> jstr \<Rightarrow> bool" where
  "starts_with s [] = True"
| "starts_with [] (c # p) = False"
| "starts_with (d # s) (c # p) = (d = c \<and> starts_with s p)"

definition ends_with :: "jstr \<Rightarrow> jstr \<Rightarrow> bool" where
  "ends_with s p = starts_with (rev s) (rev p)"

fun contains :: "jstr \<Rightarrow> jstr \<Rightarrow> bool" where
  "contains [] p = (p = [])"
| "contains (c # s) p = (starts_with (c # s) p \<or> contains s p)"

text \<open>\<^verbatim>\<open>split\<close> on a single code unit, and on maximal runs of a class (\<^verbatim>\<open>/[...]+/\<close>).\<close>

fun split_at :: "(nat \<Rightarrow> bool) \<Rightarrow> jstr \<Rightarrow> jstr list" where
  "split_at P [] = [[]]"
| "split_at P (c # s) =
     (if P c then [] # split_at P s
      else case split_at P s of [] \<Rightarrow> [[c]] | t # ts \<Rightarrow> (c # t) # ts)"

function split_runs :: "(nat \<Rightarrow> bool) \<Rightarrow> jstr \<Rightarrow> jstr list" where
  "split_runs P s =
     (case dropWhile (\<lambda>c. \<not> P c) s of
        [] \<Rightarrow> [s]
      | c # r \<Rightarrow> takeWhile (\<lambda>c. \<not> P c) s # split_runs P (dropWhile P r))"
  by pat_completeness auto
termination
proof (relation "measure (length \<circ> snd)")
  fix P :: "nat \<Rightarrow> bool" and s c r
  assume "dropWhile (\<lambda>c. \<not> P c) s = c # r"
  then have "length (c # r) \<le> length s" by (metis length_dropWhile_le)
  moreover have "length (dropWhile P r) \<le> length r" by (rule length_dropWhile_le)
  ultimately show "((P, dropWhile P r), (P, s)) \<in> measure (length \<circ> snd)" by simp
qed simp

declare split_runs.simps [simp del]

text \<open>\<^verbatim>\<open>replace(/\s+/g, " ")\<close>\<close>

fun squeeze_ws :: "jstr \<Rightarrow> jstr" where
  "squeeze_ws [] = []"
| "squeeze_ws [c] = (if is_ws c then [32] else [c])"
| "squeeze_ws (c # d # s) =
     (if is_ws c then (if is_ws d then squeeze_ws (d # s) else 32 # squeeze_ws (d # s))
      else c # squeeze_ws (d # s))"

fun join :: "jstr \<Rightarrow> jstr list \<Rightarrow> jstr" where
  "join sep [] = []"
| "join sep [s] = s"
| "join sep (s # t # ts) = s @ sep @ join sep (t # ts)"

lemma lower_append [simp]: "lower (s @ t) = lower s @ lower t"
  by (simp add: lower_def)

lemma length_lower [simp]: "length (lower s) = length s"
  by (simp add: lower_def)

lemma starts_with_iff: "starts_with s p \<longleftrightarrow> (\<exists>t. s = p @ t)"
  by (induction s p rule: starts_with.induct) auto

lemma includes_iff: "contains s p \<longleftrightarrow> (\<exists>a b. s = a @ p @ b)"
proof (induction s)
  case (Cons c s)
  have "(\<exists>a b. c # s = a @ p @ b) \<longleftrightarrow> (\<exists>b. c # s = p @ b) \<or> (\<exists>a b. s = a @ p @ b)"
    by (metis append_Cons append_Nil list.exhaust list.inject)
  with Cons show ?case by (auto simp: starts_with_iff)
qed auto

lemma includes_append: "contains s p \<Longrightarrow> contains (a @ s @ b) p"
  unfolding includes_iff by (metis append.assoc)

lemma set_dropWhile_hd: "dropWhile P xs = y # ys \<Longrightarrow> \<not> P y"
  by (metis hd_dropWhile list.distinct(1) list.sel(1))

lemma trim_idem [simp]: "trim (trim s) = trim s"
proof -
  let ?t = "dropWhile is_ws (rev (dropWhile is_ws s))"
  have 1: "dropWhile is_ws ?t = ?t" by simp
  have 2: "dropWhile is_ws (rev ?t) = rev ?t"
  proof (cases "rev ?t")
    case (Cons c r)
    obtain u where "rev (dropWhile is_ws s) = u @ ?t" by (metis takeWhile_dropWhile_id)
    then have "dropWhile is_ws s = rev ?t @ rev u" by (metis rev_append rev_rev_ident)
    with Cons have "dropWhile is_ws s = c # r @ rev u" by simp
    then have "\<not> is_ws c" by (rule set_dropWhile_hd)
    with Cons show ?thesis by simp
  next
    case Nil
    then show ?thesis by (simp only: dropWhile.simps)
  qed
  show ?thesis by (simp only: trim_def 2 rev_rev_ident 1)
qed

lemma trim_Nil [simp]: "trim [] = []"
  by (simp add: trim_def)

subsection \<open>Printing numbers\<close>

fun nat_digits :: "nat \<Rightarrow> jstr" where
  "nat_digits n = (if n < 10 then [48 + n] else nat_digits (n div 10) @ [48 + n mod 10])"

declare nat_digits.simps [simp del]

definition pow10 :: "int \<Rightarrow> rat" where
  "pow10 e = (if 0 \<le> e then 10 ^ nat e else 1 / 10 ^ nat (- e))"

text \<open>\<open>num_len q\<close>: the \<open>n\<close> with \<open>10 ^ (n - 1) \<le> q < 10 ^ n\<close>, for \<open>q > 0\<close>.\<close>

definition num_len :: "rat \<Rightarrow> int" where
  "num_len q =
     (let (a, b) = quotient_of q;
          n = int (length (nat_digits (nat a))) - int (length (nat_digits (nat b)))
      in if pow10 n \<le> q then n + 1 else n)"

text \<open>
  \<open>Number::toString\<close>: the shortest digit string that reads back as the number; among those of
  that length the closest one. Seventeen digits always suffice for a double.
\<close>

fun shortest :: "nat \<Rightarrow> nat \<Rightarrow> rat \<Rightarrow> nat \<times> int" where
  "shortest 0 k q = (nat \<lfloor>q\<rfloor>, num_len q)"
| "shortest (Suc fuel) k q =
     (let n = num_len q; s = nat \<lfloor>q * pow10 (int k - n) + 1 / 2\<rfloor>
      in if fl (of_nat s * pow10 (n - int k)) = Fin q \<or> fuel = 0
         then (if s = 10 ^ k then (1, n + 1) else (s, n))
         else shortest fuel (Suc k) q)"

definition pos_to_string :: "rat \<Rightarrow> jstr" where
  "pos_to_string q =
     (let (s, n) = shortest 17 1 q; ds = nat_digits s; k = int (length ds)
      in if k \<le> n \<and> n \<le> 21 then ds @ replicate (nat (n - k)) 48
         else if 0 < n \<and> n \<le> 21 then take (nat n) ds @ 46 # drop (nat n) ds
         else if - 6 < n \<and> n \<le> 0 then [48, 46] @ replicate (nat (- n)) 48 @ ds
         else let e = n - 1; es = (if e < 0 then 45 # nat_digits (nat (- e)) else 43 # nat_digits (nat e))
              in hd ds # (if k = 1 then [] else 46 # tl ds) @ 101 # es)"

definition int_to_string :: "int \<Rightarrow> jstr" where
  "int_to_string n = (if n < 0 then 45 # nat_digits (nat (- n)) else nat_digits (nat n))"

text \<open>
  Integers below \<open>10 ^ 21\<close> that are doubles print as their decimal digits (for those up to \<open>2 ^ 53\<close>
  this is the general rule's result; beyond, the shortest digits are padded with zeros).
\<close>

fun num_to_string :: "jsnum \<Rightarrow> jstr" where
  "num_to_string NaN = js ''NaN''"
| "num_to_string PInf = js ''Infinity''"
| "num_to_string NInf = js ''-Infinity''"
| "num_to_string (Fin q) =
     (if of_int \<lfloor>q\<rfloor> = q \<and> \<bar>q\<bar> \<le> 2 ^ 53 then int_to_string \<lfloor>q\<rfloor>
      else if q < 0 then 45 # pos_to_string (- q) else pos_to_string q)"

text \<open>\<^verbatim>\<open>toFixed(d)\<close> for \<open>0 < d\<close> and for \<open>d = 0\<close>; from \<open>10 ^ 21\<close> on it is \<^verbatim>\<open>String\<close>.\<close>

definition fixed_digits :: "nat \<Rightarrow> nat \<Rightarrow> jstr" where
  "fixed_digits d n =
     (let m = nat_digits n;
          z = (if length m \<le> d then replicate (Suc d - length m) 48 @ m else m);
          k = length z - d
      in if d = 0 then m else take k z @ 46 # drop k z)"

fun to_fixed :: "nat \<Rightarrow> jsnum \<Rightarrow> jstr" where
  "to_fixed d (Fin q) =
     (if 10 ^ 21 \<le> \<bar>q\<bar> then num_to_string (Fin q)
      else if q < 0 then 45 # fixed_digits d (nat \<lfloor>- q * 10 ^ d + 1 / 2\<rfloor>)
      else fixed_digits d (nat \<lfloor>q * 10 ^ d + 1 / 2\<rfloor>))"
| "to_fixed d x = num_to_string x"

subsection \<open>Reading numbers\<close>

definition is_digit :: "nat \<Rightarrow> bool" where
  "is_digit c \<longleftrightarrow> 48 \<le> c \<and> c \<le> 57"

definition digits_val :: "jstr \<Rightarrow> nat" where
  "digits_val ds = fold (\<lambda>c acc. 10 * acc + (c - 48)) ds 0"

text \<open>The exponent part: \<open>Some 0\<close> if empty, \<open>None\<close> if malformed.\<close>

fun read_exp :: "jstr \<Rightarrow> int option" where
  "read_exp [] = Some 0"
| "read_exp (c # r) =
     (if c = 101 \<or> c = 69 then
        (let sg = (case r of d # _ \<Rightarrow> if d = 45 then -1 else 1 | [] \<Rightarrow> 1);
             ds = (case r of d # r' \<Rightarrow> if d = 45 \<or> d = 43 then r' else r | [] \<Rightarrow> [])
         in if ds \<noteq> [] \<and> list_all is_digit ds then Some (sg * int (digits_val ds)) else None)
      else None)"

definition read_decimal :: "jstr \<Rightarrow> rat option" where
  "read_decimal s =
     (let ip = takeWhile is_digit s; r = dropWhile is_digit s;
          dot = (r \<noteq> [] \<and> hd r = 46);
          fp = (if dot then takeWhile is_digit (tl r) else []);
          r2 = (if dot then dropWhile is_digit (tl r) else r)
      in if ip = [] \<and> fp = [] then None
         else case read_exp r2 of None \<Rightarrow> None
              | Some e \<Rightarrow> Some (of_nat (digits_val (ip @ fp)) * pow10 (e - int (length fp))))"

definition radix_digit :: "nat \<Rightarrow> nat option" where
  "radix_digit c = (if is_digit c then Some (c - 48)
     else if 97 \<le> c \<and> c \<le> 102 then Some (c - 87) else if 65 \<le> c \<and> c \<le> 70 then Some (c - 55) else None)"

fun read_radix :: "nat \<Rightarrow> nat \<Rightarrow> jstr \<Rightarrow> nat option" where
  "read_radix b acc [] = Some acc"
| "read_radix b acc (c # s) =
     (case radix_digit c of None \<Rightarrow> None
      | Some d \<Rightarrow> if d < b then read_radix b (b * acc + d) s else None)"

definition radix_of_prefix :: "jstr \<Rightarrow> nat option" where
  "radix_of_prefix s =
     (if s = js ''0x'' \<or> s = js ''0X'' then Some 16 else if s = js ''0o'' \<or> s = js ''0O'' then Some 8
      else if s = js ''0b'' \<or> s = js ''0B'' then Some 2 else None)"

definition read_unsigned :: "jstr \<Rightarrow> jsnum" where
  "read_unsigned s =
     (if s = js ''Infinity'' then PInf
      else case read_decimal s of None \<Rightarrow> NaN | Some q \<Rightarrow> fl q)"

text \<open>\<open>StringToNumber\<close>\<close>

definition read_number :: "jstr \<Rightarrow> jsnum" where
  "read_number str =
     (let s = trim str
      in if s = [] then Fin 0
         else case radix_of_prefix (take 2 s) of
           Some b \<Rightarrow> (if drop 2 s = [] then NaN
                      else case read_radix b 0 (drop 2 s) of None \<Rightarrow> NaN | Some n \<Rightarrow> fl (of_nat n))
         | None \<Rightarrow>
             (if hd s = 45 then num_neg (read_unsigned (tl s))
              else if hd s = 43 then read_unsigned (tl s)
              else read_unsigned s))"

subsection \<open>Coercions\<close>

text \<open>
  \<^verbatim>\<open>String(v)\<close>; an array prints its elements joined by commas, with \<open>undefined\<close> and \<open>null\<close> empty.
  (An object whose own property is named \<^verbatim>\<open>toString\<close> is outside the model.)
\<close>

fun to_str :: "jsval \<Rightarrow> jstr" where
  "to_str Undef = js ''undefined''"
| "to_str Null = js ''null''"
| "to_str (Bool b) = (if b then js ''true'' else js ''false'')"
| "to_str (Num n) = num_to_string n"
| "to_str (Str s) = s"
| "to_str (Arr vs) = join [44] (map (\<lambda>v. if v = Undef \<or> v = Null then [] else to_str v) vs)"
| "to_str (Obj _) = js ''[object Object]''"

fun to_num :: "jsval \<Rightarrow> jsnum" where
  "to_num Undef = NaN"
| "to_num Null = Fin 0"
| "to_num (Bool b) = (if b then Fin 1 else Fin 0)"
| "to_num (Num n) = n"
| "to_num (Str s) = read_number s"
| "to_num (Arr vs) = read_number (to_str (Arr vs))"
| "to_num (Obj _) = NaN"

text \<open>\<^verbatim>\<open>String(v || "")\<close>, \<^verbatim>\<open>String(v || "").trim()\<close>\<close>

definition str_or :: "jsval \<Rightarrow> jstr \<Rightarrow> jstr" where
  "str_or v d = (if truthy v then to_str v else d)"

definition text_of :: "jsval \<Rightarrow> jstr" where
  "text_of v = trim (str_or v [])"

lemma to_str_S [simp]: "to_str (S a) = js a"
  by simp

lemma text_of_falsy [simp]: "\<not> truthy v \<Longrightarrow> text_of v = []"
  by (simp add: text_of_def str_or_def)

lemma text_of_Str [simp]: "text_of (Str s) = trim s"
  by (simp add: text_of_def str_or_def)

lemma num_to_string_int [simp]:
  "\<bar>n\<bar> \<le> 2 ^ 53 \<Longrightarrow> num_to_string (Fin (of_int n)) = int_to_string n"
proof -
  assume "\<bar>n\<bar> \<le> 2 ^ 53"
  then have "\<bar>of_int n :: rat\<bar> \<le> 2 ^ 53"
    by (metis of_int_abs of_int_le_iff of_int_numeral of_int_power)
  then show ?thesis by simp
qed

subsection \<open>URL encoding\<close>

text \<open>
  Code points of a UTF-16 string. A surrogate without its partner is malformed:
  \<^verbatim>\<open>encodeURIComponent\<close> throws a \<^verbatim>\<open>URIError\<close> on it, \<^verbatim>\<open>URLSearchParams\<close> replaces it by U+FFFD.
\<close>

definition is_high :: "nat \<Rightarrow> bool" where "is_high c \<longleftrightarrow> 55296 \<le> c \<and> c \<le> 56319"
definition is_low :: "nat \<Rightarrow> bool" where "is_low c \<longleftrightarrow> 56320 \<le> c \<and> c \<le> 57343"

fun code_points :: "jstr \<Rightarrow> nat option list" where
  "code_points [] = []"
| "code_points [c] = [if is_high c \<or> is_low c then None else Some c]"
| "code_points (c # d # s) =
     (if is_high c \<and> is_low d then Some (65536 + (c - 55296) * 1024 + (d - 56320)) # code_points s
      else (if is_high c \<or> is_low c then None else Some c) # code_points (d # s))"

definition utf8 :: "nat \<Rightarrow> nat list" where
  "utf8 c =
     (if c < 128 then [c]
      else if c < 2048 then [192 + c div 64, 128 + c mod 64]
      else if c < 65536 then [224 + c div 4096, 128 + c div 64 mod 64, 128 + c mod 64]
      else [240 + c div 262144, 128 + c div 4096 mod 64, 128 + c div 64 mod 64, 128 + c mod 64])"

definition hex_digit :: "nat \<Rightarrow> nat" where
  "hex_digit n = (if n < 10 then 48 + n else 55 + n)"

definition percent :: "nat \<Rightarrow> jstr" where
  "percent b = [37, hex_digit (b div 16), hex_digit (b mod 16)]"

definition is_alnum :: "nat \<Rightarrow> bool" where
  "is_alnum c \<longleftrightarrow> is_digit c \<or> (65 \<le> c \<and> c \<le> 90) \<or> (97 \<le> c \<and> c \<le> 122)"

definition uri_unreserved :: "nat \<Rightarrow> bool" where
  "uri_unreserved c \<longleftrightarrow> is_alnum c \<or> c \<in> {33, 39, 40, 41, 42, 45, 46, 95, 126}"

datatype js_error = URIError

definition encodeURIComponent :: "jstr \<Rightarrow> js_error + jstr" where
  "encodeURIComponent s =
     (let cs = code_points s
      in if None \<in> set cs then Inl URIError
         else Inr (concat (map (\<lambda>c. case c of None \<Rightarrow> [] | Some u \<Rightarrow>
                if uri_unreserved u then [u] else concat (map percent (utf8 u))) cs)))"

text \<open>
  The encoding of an identifier inside a link. The identifiers come out of the gateway's JSON,
  which has no lone surrogates, so the error branch is not taken there; on a malformed identifier
  the code would throw where this function returns the empty string.
\<close>

definition uri_component :: "jstr \<Rightarrow> jstr" where
  "uri_component s = (case encodeURIComponent s of Inr t \<Rightarrow> t | Inl _ \<Rightarrow> [])"

definition form_encode :: "jstr \<Rightarrow> jstr" where
  "form_encode s =
     concat (map (\<lambda>c. let u = (case c of None \<Rightarrow> 65533 | Some u \<Rightarrow> u)
       in if is_alnum u \<or> u \<in> {42, 45, 46, 95} then [u]
          else if u = 32 then [43] else concat (map percent (utf8 u))) (code_points s))"

text \<open>\<^verbatim>\<open>new URLSearchParams(pairs).toString()\<close>\<close>

definition query_string :: "(jstr \<times> jstr) list \<Rightarrow> jstr" where
  "query_string kvs = join [38] (map (\<lambda>(k, v). form_encode k @ 61 # form_encode v) kvs)"

text \<open>\<^verbatim>\<open>qs.set(k, v)\<close>: the first entry of that key is replaced and later ones removed, else appended.\<close>

fun qs_set :: "(jstr \<times> jstr) list \<Rightarrow> jstr \<Rightarrow> jstr \<Rightarrow> (jstr \<times> jstr) list" where
  "qs_set [] k v = [(k, v)]"
| "qs_set ((k', v') # kvs) k v =
     (if k' = k then (k, v) # filter (\<lambda>(k'', _). k'' \<noteq> k) kvs else (k', v') # qs_set kvs k v)"

lemma map_of_filter_key:
  "map_of (filter (\<lambda>(k', _). k' \<noteq> k) kvs) j = (if j = k then None else map_of kvs j)"
  by (induction kvs) auto

lemma map_of_qs_set: "map_of (qs_set kvs k v) = (map_of kvs)(k \<mapsto> v)"
  by (induction kvs k v rule: qs_set.induct) (auto simp: map_of_filter_key fun_eq_iff)

end
