(* ===== verification/Js_Json.thy ===== *)
theory Js_Json
  imports Js_Text
begin

section \<open>JSON text and dates\<close>

text \<open>
  \<^verbatim>\<open>JSON.stringify\<close> and \<^verbatim>\<open>JSON.parse\<close> on model values, and \<^verbatim>\<open>Date.prototype.toISOString\<close>. The
  parser takes fuel; \<open>json_parse\<close> gives it one unit per code unit of the text and one more, and
  every nested value consumes at least one code unit, so the fuel never runs out before the text.
  A syntax error of \<^verbatim>\<open>JSON.parse\<close> is \<open>None\<close>.
\<close>

subsection \<open>Printing\<close>

definition hex_lower :: "nat \<Rightarrow> nat" where
  "hex_lower n = (if n < 10 then 48 + n else 87 + n)"

definition unicode_escape :: "nat \<Rightarrow> jstr" where
  "unicode_escape c = [92, 117, hex_lower (c div 4096 mod 16), hex_lower (c div 256 mod 16),
     hex_lower (c div 16 mod 16), hex_lower (c mod 16)]"

definition json_unit :: "nat \<Rightarrow> jstr" where
  "json_unit c =
     (if c = 34 then [92, 34] else if c = 92 then [92, 92]
      else if c = 8 then [92, 98] else if c = 12 then [92, 102] else if c = 10 then [92, 110]
      else if c = 13 then [92, 114] else if c = 9 then [92, 116]
      else if c < 32 then unicode_escape c else [c])"

text \<open>A surrogate pair is copied, a lone surrogate is escaped.\<close>

fun json_units :: "jstr \<Rightarrow> jstr" where
  "json_units [] = []"
| "json_units [c] = (if is_high c \<or> is_low c then unicode_escape c else json_unit c)"
| "json_units (c # d # s) =
     (if is_high c \<and> is_low d then c # d # json_units s
      else (if is_high c \<or> is_low c then unicode_escape c else json_unit c) @ json_units (d # s))"

definition json_quote :: "jstr \<Rightarrow> jstr" where
  "json_quote s = 34 # json_units s @ [34]"

fun json_enc :: "jsval \<Rightarrow> jstr option" where
  "json_enc Undef = None"
| "json_enc Null = Some (js ''null'')"
| "json_enc (Bool b) = Some (if b then js ''true'' else js ''false'')"
| "json_enc (Num n) = Some (if is_finite n then num_to_string n else js ''null'')"
| "json_enc (Str s) = Some (json_quote s)"
| "json_enc (Arr vs) =
     Some (91 # join [44] (map (\<lambda>v. case json_enc v of None \<Rightarrow> js ''null'' | Some t \<Rightarrow> t) vs) @ [93])"
| "json_enc (Obj kvs) =
     Some (123 # join [44] (concat (map (\<lambda>kv. case json_enc (snd kv) of None \<Rightarrow> []
        | Some t \<Rightarrow> [json_quote (fst kv) @ 58 # t]) kvs)) @ [125])"

text \<open>\<^verbatim>\<open>JSON.stringify\<close> of a value that is not \<open>undefined\<close>.\<close>

definition json_stringify :: "jsval \<Rightarrow> jstr" where
  "json_stringify v = (case json_enc v of None \<Rightarrow> js ''undefined'' | Some t \<Rightarrow> t)"

subsection \<open>Parsing\<close>

definition json_ws :: "nat \<Rightarrow> bool" where
  "json_ws c \<longleftrightarrow> c = 32 \<or> c = 9 \<or> c = 10 \<or> c = 13"

definition skip_ws :: "jstr \<Rightarrow> jstr" where
  "skip_ws s = dropWhile json_ws s"

definition hex4 :: "jstr \<Rightarrow> nat option" where
  "hex4 s = (if length s = 4 then read_radix 16 0 s else None)"

definition simple_escape :: "nat \<Rightarrow> nat option" where
  "simple_escape c =
     (if c = 34 \<or> c = 92 \<or> c = 47 then Some c
      else if c = 98 then Some 8 else if c = 102 then Some 12 else if c = 110 then Some 10
      else if c = 114 then Some 13 else if c = 116 then Some 9 else None)"

text \<open>The rest of a string literal after its opening quote.\<close>

function json_string :: "jstr \<Rightarrow> (jstr \<times> jstr) option" where
  "json_string s =
     (case s of
        [] \<Rightarrow> None
      | c # r \<Rightarrow>
          (if c = 34 then Some ([], r)
           else if c < 32 then None
           else if c \<noteq> 92 then map_option (apfst (Cons c)) (json_string r)
           else case r of
             [] \<Rightarrow> None
           | d # r' \<Rightarrow>
               (if d = 117 then
                  (case hex4 (take 4 r') of None \<Rightarrow> None
                   | Some u \<Rightarrow> map_option (apfst (Cons u)) (json_string (drop 4 r')))
                else case simple_escape d of None \<Rightarrow> None
                  | Some u \<Rightarrow> map_option (apfst (Cons u)) (json_string r'))))"
  by pat_completeness auto
termination
  by (relation "measure length") auto

declare json_string.simps [simp del]

text \<open>A number token: \<open>-?(0|[1-9]d*)(.d+)?([eE][+-]?d+)?\<close>\<close>

text \<open>The digits behind a decimal point, and the exponent (0 if there is none).\<close>

definition json_fraction :: "jstr \<Rightarrow> jstr \<times> jstr" where
  "json_fraction r =
     (if r \<noteq> [] \<and> hd r = 46 then (takeWhile is_digit (tl r), dropWhile is_digit (tl r)) else ([], r))"

definition json_exponent :: "jstr \<Rightarrow> (int \<times> jstr) option" where
  "json_exponent r =
     (if r \<noteq> [] \<and> (hd r = 101 \<or> hd r = 69) then
        (let signed = (tl r \<noteq> [] \<and> (hd (tl r) = 43 \<or> hd (tl r) = 45));
             s = (if signed then tl (tl r) else tl r);
             ep = takeWhile is_digit s
         in if ep = [] then None
            else Some (if signed \<and> hd (tl r) = 45 then - int (digits_val ep) else int (digits_val ep),
                       dropWhile is_digit s))
      else Some (0, r))"

definition json_unsigned :: "jstr \<Rightarrow> (jsnum \<times> jstr) option" where
  "json_unsigned s =
     (let ip = takeWhile is_digit s; r = dropWhile is_digit s
      in if ip = [] \<or> (hd ip = 48 \<and> 1 < length ip) then None
         else case json_fraction r of (fp, r2) \<Rightarrow>
           if r \<noteq> [] \<and> hd r = 46 \<and> fp = [] then None
           else case json_exponent r2 of
               None \<Rightarrow> None
             | Some (e, r3) \<Rightarrow> Some (fl (of_nat (digits_val (ip @ fp)) * pow10 (e - int (length fp))), r3))"

definition json_number :: "jstr \<Rightarrow> (jsnum \<times> jstr) option" where
  "json_number s =
     (if s \<noteq> [] \<and> hd s = 45 then map_option (apfst num_neg) (json_unsigned (tl s)) else json_unsigned s)"

fun json_val :: "nat \<Rightarrow> jstr \<Rightarrow> (jsval \<times> jstr) option"
  and json_elems :: "nat \<Rightarrow> jstr \<Rightarrow> (jsval list \<times> jstr) option"
  and json_members :: "nat \<Rightarrow> (jstr \<times> jsval) list \<Rightarrow> jstr \<Rightarrow> ((jstr \<times> jsval) list \<times> jstr) option"
where
  "json_val 0 s = None"
| "json_val (Suc f) s0 =
     (case skip_ws s0 of
        [] \<Rightarrow> None
      | c # r \<Rightarrow>
          (if c = 34 then map_option (apfst Str) (json_string r)
           else if c = 91 then
             (case skip_ws r of [] \<Rightarrow> None
              | d # r' \<Rightarrow> if d = 93 then Some (Arr [], r')
                          else map_option (apfst Arr) (json_elems f r))
           else if c = 123 then
             (case skip_ws r of [] \<Rightarrow> None
              | d # r' \<Rightarrow> if d = 125 then Some (Obj [], r')
                          else map_option (apfst Obj) (json_members f [] r))
           else if starts_with (c # r) (js ''null'') then Some (Null, drop 3 r)
           else if starts_with (c # r) (js ''true'') then Some (Bool True, drop 3 r)
           else if starts_with (c # r) (js ''false'') then Some (Bool False, drop 4 r)
           else map_option (apfst Num) (json_number (c # r))))"
| "json_elems 0 s = None"
| "json_elems (Suc f) s =
     (case json_val f s of None \<Rightarrow> None
      | Some (v, r) \<Rightarrow>
          (case skip_ws r of [] \<Rightarrow> None
           | c # r' \<Rightarrow> if c = 93 then Some ([v], r')
                       else if c = 44 then map_option (apfst (Cons v)) (json_elems f r')
                       else None))"
| "json_members 0 acc s = None"
| "json_members (Suc f) acc s0 =
     (case skip_ws s0 of [] \<Rightarrow> None
      | c # r0 \<Rightarrow>
     (if c \<noteq> 34 then None else
      case json_string r0 of None \<Rightarrow> None
      | Some (k, r1) \<Rightarrow>
     (case skip_ws r1 of [] \<Rightarrow> None
      | d # r2 \<Rightarrow>
     (if d \<noteq> 58 then None else
      case json_val f r2 of None \<Rightarrow> None
      | Some (v, r3) \<Rightarrow>
     (case skip_ws r3 of [] \<Rightarrow> None
      | e # r4 \<Rightarrow> if e = 125 then Some (put acc k v, r4)
                  else if e = 44 then json_members f (put acc k v) r4
                  else None)))))"

definition json_parse :: "jstr \<Rightarrow> jsval option" where
  "json_parse s =
     (case json_val (Suc (length s)) s of
        Some (v, r) \<Rightarrow> if skip_ws r = [] then Some v else None
      | None \<Rightarrow> None)"

subsection \<open>Strings survive the round trip\<close>

lemma hex_lower_digit: "n < 16 \<Longrightarrow> radix_digit (hex_lower n) = Some n"
proof -
  assume "n < 16"
  then consider "n < 10" | "10 \<le> n" "n < 16" by linarith
  then show ?thesis
    by cases (auto simp: hex_lower_def radix_digit_def is_digit_def)
qed

lemma hex4_escape:
  assumes "c < 65536"
  shows "hex4 [hex_lower (c div 4096 mod 16), hex_lower (c div 256 mod 16),
     hex_lower (c div 16 mod 16), hex_lower (c mod 16)] = Some c"
proof -
  have d: "c div 256 = c div 16 div 16" "c div 4096 = c div 16 div 16 div 16"
    by (simp_all flip: div_mult2_eq)
  have "c div 16 div 16 div 16 < 16" using assms by (simp flip: div_mult2_eq)
  moreover have "n = 16 * (n div 16) + n mod 16" for n :: nat by simp
  note this [of c] this [of "c div 16"] this [of "c div 16 div 16"]
  ultimately have "16 * (16 * (16 * (c div 16 div 16 div 16 mod 16) + c div 16 div 16 mod 16) + c div 16 mod 16) + c mod 16 = c"
    by simp
  then show ?thesis unfolding d by (simp add: hex4_def hex_lower_digit)
qed

lemma json_string_plain:
  "c \<noteq> 34 \<Longrightarrow> c \<noteq> 92 \<Longrightarrow> \<not> c < 32 \<Longrightarrow> json_string (c # r) = map_option (apfst (Cons c)) (json_string r)"
  by (subst json_string.simps) simp

lemma json_string_simple_escape:
  "simple_escape d = Some u \<Longrightarrow> d \<noteq> 117 \<Longrightarrow>
   json_string (92 # d # r) = map_option (apfst (Cons u)) (json_string r)"
  by (subst json_string.simps) simp

lemma json_string_unicode_escape:
  "c < 65536 \<Longrightarrow> json_string (unicode_escape c @ r) = map_option (apfst (Cons c)) (json_string r)"
  using hex4_escape [of c] by (subst json_string.simps) (simp add: unicode_escape_def)

lemma json_string_unit:
  "c < 65536 \<Longrightarrow> json_string (json_unit c @ r) = map_option (apfst (Cons c)) (json_string r)"
  by (simp add: json_unit_def json_string_plain json_string_simple_escape json_string_unicode_escape
      simple_escape_def)

lemma surrogate_range: "is_high c \<or> is_low c \<Longrightarrow> \<not> c < 32 \<and> c \<noteq> 34 \<and> c \<noteq> 92"
  by (auto simp: is_high_def is_low_def)

text \<open>Printing a string and reading it back gives the string, whatever its code units.\<close>

lemma json_string_units:
  assumes "list_all (\<lambda>c. c < 65536) s"
  shows "json_string (json_units s @ 34 # r) = Some (s, r)"
  using assms
proof (induction s rule: json_units.induct)
  case 1
  show ?case by (subst json_string.simps) simp
next
  case (2 c)
  have "json_string (34 # r) = Some ([], r)" by (subst json_string.simps) simp
  with 2 show ?case by (simp add: json_string_unit json_string_unicode_escape)
next
  case (3 c d s)
  show ?case
  proof (cases "is_high c \<and> is_low d")
    case True
    then have "\<not> c < 32 \<and> c \<noteq> 34 \<and> c \<noteq> 92" "\<not> d < 32 \<and> d \<noteq> 34 \<and> d \<noteq> 92"
      using surrogate_range by blast+
    with True 3 show ?thesis by (simp add: json_string_plain)
  next
    case False
    with 3 show ?thesis by (auto simp: json_string_unit json_string_unicode_escape)
  qed
qed

lemma json_parse_quote:
  assumes "list_all (\<lambda>c. c < 65536) s"
  shows "json_parse (json_quote s) = Some (Str s)"
  using json_string_units [OF assms, of "[]"]
  by (simp add: json_parse_def json_quote_def skip_ws_def json_ws_def)

subsection \<open>Dates\<close>

text \<open>
  \<^verbatim>\<open>toISOString\<close> of a time value in milliseconds since 1970 (an integer, as every \<^verbatim>\<open>Date\<close> holds): the
  civil date of the day number, by 400-year eras of 146097 days that start on the first of March.
\<close>

definition civil :: "int \<Rightarrow> int \<times> int \<times> int" where
  "civil days =
     (let z = days + 719468; era = z div 146097; doe = z mod 146097;
          yoe = (doe - doe div 1460 + doe div 36524 - doe div 146096) div 365;
          doy = doe - (365 * yoe + yoe div 4 - yoe div 100);
          mp = (5 * doy + 2) div 153;
          d = doy - (153 * mp + 2) div 5 + 1;
          m = (if mp < 10 then mp + 3 else mp - 9);
          y = yoe + era * 400 + (if m \<le> 2 then 1 else 0)
      in (y, m, d))"

definition pad :: "nat \<Rightarrow> int \<Rightarrow> jstr" where
  "pad w n = (let ds = nat_digits (nat n) in replicate (w - length ds) 48 @ ds)"

definition iso_year :: "int \<Rightarrow> jstr" where
  "iso_year y = (if 0 \<le> y \<and> y \<le> 9999 then pad 4 y else if y < 0 then 45 # pad 6 (- y) else 43 # pad 6 y)"

definition iso_of_ms :: "int \<Rightarrow> jstr" where
  "iso_of_ms t =
     (let (y, m, d) = civil (t div 86400000); r = t mod 86400000
      in iso_year y @ [45] @ pad 2 m @ [45] @ pad 2 d @ [84] @ pad 2 (r div 3600000) @ [58] @
         pad 2 (r div 60000 mod 60) @ [58] @ pad 2 (r div 1000 mod 60) @ [46] @ pad 3 (r mod 1000) @ [90])"

text \<open>
  A \<^verbatim>\<open>Date\<close> object holds \<open>None\<close> (an invalid date) or a time value. \<^verbatim>\<open>toISOString\<close> throws a
  \<^verbatim>\<open>RangeError\<close> on the former.
\<close>

type_synonym date = "int option"

definition valid_date :: "date \<Rightarrow> bool" where
  "valid_date d \<longleftrightarrow> d \<noteq> None"

datatype range_error = RangeError

definition toISOString :: "date \<Rightarrow> range_error + jstr" where
  "toISOString d = (case d of None \<Rightarrow> Inl RangeError | Some t \<Rightarrow> Inr (iso_of_ms t))"

end
