(* ===== verification/Js_Round.thy ===== *)
theory Js_Round
  imports Js_Text
begin

section \<open>The rounding error of double arithmetic\<close>

text \<open>
  \<open>fl\<close> rounds to the nearest double: within the range of the normal numbers the relative error is at
  most \<open>2 ^ -53\<close>, so a rounded rate, cap or score stays where its exact value is up to that factor.
\<close>

lemma pow2_powi: "pow2 e = 2 powi e"
  by (simp add: pow2_def power_int_def power_inverse field_simps)

lemma pow2_pos [simp]: "0 < pow2 e"
  by (simp add: pow2_powi)

lemma pow2_add: "pow2 (a + b) = pow2 a * pow2 b"
  by (simp add: pow2_powi power_int_add)

lemma pow2_mono: "a \<le> b \<Longrightarrow> pow2 a \<le> pow2 b"
  by (simp add: pow2_powi power_int_increasing)

lemma pow2_nat: "pow2 (int n) = 2 ^ n"
  by (simp add: pow2_def)

lemma rne_error: "\<bar>of_int (rne x) - x\<bar> \<le> 1 / 2"
proof -
  have "of_int \<lfloor>x\<rfloor> \<le> x" and "x < of_int \<lfloor>x\<rfloor> + 1" by linarith+
  then show ?thesis by (auto simp: rne_def Let_def abs_le_iff)
qed

lemma ilog2_pow2:
  assumes "0 < n"
  shows "pow2 (int (ilog2 (nat n))) \<le> of_int n" and "of_int n < pow2 (int (ilog2 (nat n)) + 1)"
proof -
  have b: "2 ^ ilog2 (nat n) \<le> nat n" "nat n < 2 ^ Suc (ilog2 (nat n))"
    using ilog2_bounds [of "nat n"] assms by auto
  have "(of_nat (2 ^ ilog2 (nat n)) :: rat) \<le> of_nat (nat n)" using b(1) by (simp only: of_nat_le_iff)
  then show "pow2 (int (ilog2 (nat n))) \<le> of_int n" using assms by (simp add: pow2_nat)
  have "(of_nat (nat n) :: rat) < of_nat (2 ^ Suc (ilog2 (nat n)))" using b(2) by (simp only: of_nat_less_iff)
  then show "of_int n < pow2 (int (ilog2 (nat n)) + 1)"
    using assms pow2_nat [of "Suc (ilog2 (nat n))"] by (simp add: add.commute)
qed

lemma rat_log2_bounds:
  assumes "0 < q"
  shows "pow2 (rat_log2 q) \<le> q"
proof -
  obtain a b where ab: "quotient_of q = (a, b)" by (cases "quotient_of q")
  then have b: "0 < b" by (rule quotient_of_denom_pos)
  have q: "q = of_int a / of_int b" using ab by (rule quotient_of_div)
  with assms b have a: "0 < a" by (simp add: zero_less_divide_iff)
  let ?k = "int (ilog2 (nat a))" and ?l = "int (ilog2 (nat b))"
  have "pow2 (?k - ?l - 1) * of_int b \<le> pow2 (?k - ?l - 1) * pow2 (?l + 1)"
    using ilog2_pow2(2) [OF b] by (intro mult_left_mono) (simp_all add: less_imp_le)
  also have "\<dots> = pow2 ?k" by (simp add: pow2_add [symmetric])
  also have "\<dots> \<le> of_int a" by (rule ilog2_pow2(1) [OF a])
  finally have "pow2 (?k - ?l - 1) \<le> q" using b by (simp add: q field_simps)
  then show ?thesis by (simp add: rat_log2_def ab Let_def)
qed

lemma fl_error:
  assumes "0 < q" and "q \<le> 2 ^ 1000" and "pow2 (- 1000) \<le> q"
  shows "\<exists>r. fl q = Fin r \<and> \<bar>r - q\<bar> \<le> q / 2 ^ 53"
proof -
  let ?e = "max (rat_log2 q - 52) (- 1074)" and ?p = "pow2 (max (rat_log2 q - 52) (- 1074))"
  let ?y = "of_int (rne (q / ?p)) * ?p"
  have "pow2 (rat_log2 q - 52) = pow2 (rat_log2 q) / 2 ^ 52"
    using pow2_add [of "rat_log2 q - 52" 52] pow2_nat [of 52] by (simp add: field_simps)
  also have "\<dots> \<le> q / 2 ^ 52" using rat_log2_bounds [OF assms(1)] by (simp add: divide_right_mono)
  finally have p1: "pow2 (rat_log2 q - 52) \<le> q / 2 ^ 52" .
  have "pow2 (- 1074) = pow2 (- 1000) / 2 ^ 74"
    using pow2_add [of "- 1074" 74] pow2_nat [of 74] by (simp add: field_simps)
  also have "\<dots> \<le> q / 2 ^ 74" using assms(3) by (simp add: divide_right_mono)
  also have "\<dots> \<le> q / 2 ^ 52" using assms(1) by (intro divide_left_mono) simp_all
  finally have "?p \<le> q / 2 ^ 52" using p1 by (simp add: max_def)
  then have half: "?p / 2 \<le> q / 2 ^ 53" by simp
  have "\<bar>?y - q\<bar> = \<bar>of_int (rne (q / ?p)) - q / ?p\<bar> * ?p"
  proof -
    have "?y - q = (of_int (rne (q / ?p)) - q / ?p) * ?p"
      using pow2_pos [of ?e] by (simp only: left_diff_distrib nonzero_eq_divide_eq [symmetric] less_imp_neq [THEN not_sym] times_divide_eq_left nonzero_mult_div_cancel_right not_False_eq_True)
    then show ?thesis using pow2_pos [of ?e] by (simp only: abs_mult abs_of_pos)
  qed
  also have "\<dots> \<le> 1 / 2 * ?p" using rne_error by (intro mult_right_mono) (simp_all add: less_imp_le)
  finally have err: "\<bar>?y - q\<bar> \<le> q / 2 ^ 53" using half by simp
  have "?y \<le> q + q / 2 ^ 53" using err by linarith
  also have "\<dots> \<le> 2 * q" using assms(1) by (simp add: field_simps)
  also have "\<dots> \<le> 2 * 2 ^ 1000" using assms(2) by simp
  also have "\<dots> < 2 ^ 1024" by (simp only: power_Suc [symmetric]) (rule power_strict_increasing; simp)
  finally have up: "?y < 2 ^ 1024" .
  have "q / 2 ^ 53 \<le> q" using assms(1) by (simp add: field_simps)
  with err have "0 \<le> ?y" by linarith
  moreover have "- (2 ^ 1024 :: rat) < 0" by simp
  ultimately have low: "- (2 ^ 1024) < ?y" by linarith
  have "fl q = Fin ?y"
    using assms(1) up low by (simp only: fl_def Let_def abs_of_pos) (simp only: not_le [symmetric] if_not_P less_imp_neq [THEN not_sym] if_False)
  with err show ?thesis by blast
qed

lemma fl_1 [simp]: "fl 1 = Fin 1"
  using fl_of_int [of 1] by simp

lemma fl_numeral: "(numeral k :: int) \<le> 2 ^ 53 \<Longrightarrow> fl (numeral k) = Fin (numeral k)"
  using fl_of_int [of "numeral k"] by simp

text \<open>A fraction between \<open>2 ^ -10\<close> and 1 stays between 0 and 1.\<close>

lemma pow2_tiny: "pow2 (- 1000) \<le> 1 / 2 ^ 10"
  using pow2_mono [of "- 1000" "- 10"] by (simp add: pow2_def)

lemma fl_fraction:
  assumes "1 / 2 ^ 10 \<le> q" and "q \<le> 1 - 1 / 2 ^ 53"
  shows "\<exists>r. fl q = Fin r \<and> 0 < r \<and> r \<le> 1"
proof -
  have q: "0 < q" "q \<le> 1" using assms by simp_all
  have "(1::rat) \<le> 2 ^ 1000" by (rule one_le_power) simp
  with q have "q \<le> 2 ^ 1000" by linarith
  with q pow2_tiny assms(1) obtain r where r: "fl q = Fin r" "\<bar>r - q\<bar> \<le> q / 2 ^ 53"
    using fl_error [of q] by (metis order_trans)
  have "q / 2 ^ 53 < q" "q / 2 ^ 53 \<le> 1 / 2 ^ 53" using q by (simp_all add: divide_right_mono field_simps)
  with r(2) assms(2) have "0 < r" "r \<le> 1" by linarith+
  with r(1) show ?thesis by blast
qed

text \<open>Sharper: the relative error is below one part in a thousand.\<close>

lemma fl_near:
  assumes "1 / 2 ^ 10 \<le> q" and "q \<le> 2 ^ 53"
  shows "\<exists>r. fl q = Fin r \<and> 999 / 1000 * q < r \<and> r < 1001 / 1000 * q"
proof -
  have q: "0 < q" by (rule less_le_trans [OF _ assms(1)]) simp
  have "(2::rat) ^ 53 \<le> 2 ^ 1000" by (rule power_increasing) simp_all
  with assms(2) have "q \<le> 2 ^ 1000" by linarith
  with q pow2_tiny assms(1) obtain r where r: "fl q = Fin r" "\<bar>r - q\<bar> \<le> q / 2 ^ 53"
    using fl_error [of q] by (metis order_trans)
  moreover have "q / 2 ^ 53 < q / 1000" using q by (simp add: field_simps)
  ultimately have "\<bar>r - q\<bar> < q / 1000" by linarith
  then have "999 / 1000 * q < r \<and> r < 1001 / 1000 * q" by linarith
  with r(1) show ?thesis by blast
qed

end
