(* ===== verification/Js_Number.thy ===== *)
theory Js_Number
  imports Js_Round
begin

section \<open>Printing and reading numbers\<close>

text \<open>
  \<^verbatim>\<open>Number(String(x))\<close> is \<open>x\<close> for every double: seventeen digits determine it, so the search for the
  shortest digits that read back succeeds, and the printed forms are read digit by digit. The links of
  the client and its stored JSON rest on this.
\<close>

subsection \<open>The doubles\<close>

lemma of_int_power_less: "(of_int m :: rat) < 2 ^ k \<longleftrightarrow> m < 2 ^ k"
  by (metis of_int_less_iff of_int_numeral of_int_power)

lemma of_int_power_le: "2 ^ k \<le> (of_int m :: rat) \<longleftrightarrow> 2 ^ k \<le> m"
  by (simp only: not_less [symmetric] of_int_power_less)

lemma rat_log2_upper:
  assumes "0 < q"
  shows "q < pow2 (rat_log2 q + 1)"
proof -
  obtain a b where ab: "quotient_of q = (a, b)" by (cases "quotient_of q")
  then have b: "0 < b" by (rule quotient_of_denom_pos)
  have q: "q = of_int a / of_int b" using ab by (rule quotient_of_div)
  with assms b have a: "0 < a" by (simp add: zero_less_divide_iff)
  let ?k = "int (ilog2 (nat a))" and ?l = "int (ilog2 (nat b))"
  have "of_int a < pow2 (?k + 1)" by (rule ilog2_pow2(2) [OF a])
  also have "\<dots> = pow2 (?k - ?l + 1) * pow2 ?l" by (simp add: pow2_add [symmetric])
  also have "\<dots> \<le> pow2 (?k - ?l + 1) * of_int b"
    using ilog2_pow2(1) [OF b] by (intro mult_left_mono) (simp_all add: less_imp_le)
  finally have "q < pow2 (?k - ?l + 1)" using b by (simp add: q field_simps)
  then show ?thesis by (simp add: rat_log2_def ab Let_def)
qed

lemma pow2_less_iff [simp]: "pow2 a < pow2 b \<longleftrightarrow> a < b"
proof
  assume "pow2 a < pow2 b"
  then show "a < b" using pow2_mono [of b a] by (meson not_le)
next
  assume "a < b"
  then show "pow2 a < pow2 b" by (simp add: pow2_powi power_int_strict_increasing)
qed

lemma pow2_signs [simp]: "pow2 e \<noteq> 0" "\<not> pow2 e < 0" "0 \<le> pow2 e"
  using pow2_pos [of e] by linarith+

lemma pow2_le_iff [simp]: "pow2 a \<le> pow2 b \<longleftrightarrow> a \<le> b"
  by (simp flip: not_less)

lemma rat_log2_eq: "pow2 m \<le> q \<Longrightarrow> q < pow2 (m + 1) \<Longrightarrow> rat_log2 q = m"
proof -
  assume m: "pow2 m \<le> q" "q < pow2 (m + 1)"
  have "0 < q" using m(1) pow2_pos [of m] by (rule order_less_le_trans [rotated])
  then have "pow2 (rat_log2 q) \<le> q" "q < pow2 (rat_log2 q + 1)"
    by (rule rat_log2_bounds, rule rat_log2_upper)
  with m have "pow2 m < pow2 (rat_log2 q + 1)" "pow2 (rat_log2 q) < pow2 (m + 1)" by (blast intro: le_less_trans)+
  then show ?thesis by simp
qed

text \<open>Every double is a whole number of units in the last place.\<close>

lemma double_form:
  assumes "0 < q" and "fl q = Fin q"
  shows "\<exists>M e. q = of_int M * pow2 e \<and> 0 < M \<and> M < 2 ^ 53 \<and> - 1074 \<le> e \<and> (2 ^ 52 \<le> M \<or> e = - 1074)"
proof -
  let ?e = "max (rat_log2 q - 52) (- 1074)" and ?M = "rne (q / pow2 (max (rat_log2 q - 52) (- 1074)))"
  have q: "q = of_int ?M * pow2 ?e"
    using assms by (auto simp: fl_def Let_def split: if_splits)
  have "0 < of_int ?M * pow2 ?e" using assms(1) q by simp
  then have M: "0 < ?M" by (simp add: zero_less_mult_iff)
  have "of_int ?M * pow2 ?e < pow2 (rat_log2 q + 1)" using rat_log2_upper [OF assms(1)] q by simp
  also have "\<dots> \<le> pow2 (?e + 53)" by simp
  also have "\<dots> = 2 ^ 53 * pow2 ?e" using pow2_add [of ?e 53] pow2_nat [of 53] by simp
  finally have "of_int ?M < (2 ^ 53 :: rat)" by (rule mult_right_less_imp_less) simp
  then have up: "?M < 2 ^ 53" by (simp only: of_int_power_less)
  have "2 ^ 52 \<le> ?M \<or> ?e = - 1074"
  proof (cases "?e = - 1074")
    case False
    then have e: "?e = rat_log2 q - 52" by (simp add: max_def split: if_splits)
    have "2 ^ 52 * pow2 ?e = pow2 (rat_log2 q)"
      using pow2_add [of ?e 52] pow2_nat [of 52] e by simp
    also have "\<dots> \<le> of_int ?M * pow2 ?e" using rat_log2_bounds [OF assms(1)] q by simp
    finally have "(2 ^ 52 :: rat) \<le> of_int ?M" by (rule mult_right_le_imp_le) simp
    then show ?thesis unfolding of_int_power_le by (rule disjI1)
  qed simp
  with q M up show ?thesis by (intro exI [of _ ?M] exI [of _ ?e]) simp
qed

lemma rne_near: "\<bar>x - of_int m\<bar> < 1 / 2 \<Longrightarrow> rne x = m"
proof -
  assume x: "\<bar>x - of_int m\<bar> < 1 / 2"
  show ?thesis
  proof (cases "of_int m \<le> x")
    case True
    with x have "\<lfloor>x\<rfloor> = m" by (intro floor_unique) (auto simp: abs_less_iff)
    with x True show ?thesis by (simp add: rne_def)
  next
    case False
    with x have "\<lfloor>x\<rfloor> = m - 1" by (intro floor_unique) (auto simp: abs_less_iff)
    with x False show ?thesis by (simp add: rne_def Let_def abs_less_iff)
  qed
qed

lemma fl_to:
  assumes "0 < y" and "max (rat_log2 y - 52) (- 1074) = e" and "\<bar>y / pow2 e - of_int m\<bar> < 1 / 2"
    and "of_int m * pow2 e = q" and "q < 2 ^ 1024" and "0 < q"
  shows "fl y = Fin q"
proof -
  have "rne (y / pow2 e) = m" using assms(3) by (rule rne_near)
  moreover have "- (2 ^ 1024 :: rat) < q" using assms(6) by (rule less_trans [rotated]) simp
  moreover have "\<bar>y\<bar> = y" "y \<noteq> 0" using assms(1) by simp_all
  ultimately show ?thesis
    using assms by (simp only: fl_def Let_def abs_of_pos less_imp_neq [THEN not_sym] if_False not_le [symmetric] if_not_P)
qed

text \<open>A number closer to a double than one part in \<open>2 * 10 ^ 16\<close> is rounded to it.\<close>

lemma fl_close:
  assumes "0 < q" and "fl q = Fin q" and "\<bar>y - q\<bar> \<le> q / (2 * 10 ^ 16)"
  shows "fl y = Fin q"
proof -
  obtain M e where q: "q = of_int M * pow2 e" and M: "0 < M" "M < 2 ^ 53" and e: "- 1074 \<le> e" "2 ^ 52 \<le> M \<or> e = - 1074"
    using double_form [OF assms(1,2)] by blast
  have top: "q < 2 ^ 1024" using assms(1,2) by (auto simp: fl_def Let_def split: if_splits)
  define d where "d = y / pow2 e - of_int M"
  have y: "y = (of_int M + d) * pow2 e" by (simp add: d_def field_simps)
  have "\<bar>d\<bar> * pow2 e = \<bar>y - q\<bar>" by (simp add: y q abs_mult algebra_simps)
  also have "\<dots> \<le> of_int M / (2 * 10 ^ 16) * pow2 e" using assms(3) q by simp
  finally have d: "\<bar>d\<bar> \<le> of_int M / (2 * 10 ^ 16)" by simp
  have Mr: "(1 :: rat) \<le> of_int M" "of_int M \<le> (2 ^ 53 - 1 :: rat)"
  proof -
    show "(1 :: rat) \<le> of_int M" using M(1) by simp
    have "of_int M \<le> (of_int (2 ^ 53 - 1) :: rat)" using M(2) by (simp only: of_int_le_iff)
    then show "of_int M \<le> (2 ^ 53 - 1 :: rat)" by simp
  qed
  have d2: "\<bar>d\<bar> < 46 / 100" using d Mr(2) by simp
  have pos: "0 < y" using Mr(1) d2 by (simp add: y abs_less_iff)
  have lt: "y < pow2 (e + 53)"
    using Mr(2) d2 pow2_add [of e 53] pow2_nat [of 53] by (simp add: y abs_less_iff)
  show ?thesis
  proof (cases "e = - 1074 \<or> pow2 (e + 52) \<le> y")
    case True
    have "max (rat_log2 y - 52) (- 1074) = e"
    proof (cases "pow2 (e + 52) \<le> y")
      case True
      then have "rat_log2 y = e + 52" using lt by (intro rat_log2_eq) (simp_all add: add.assoc)
      with e(1) show ?thesis by simp
    next
      case False
      then have "pow2 (rat_log2 y) < pow2 (e + 52)"
        using rat_log2_bounds [OF pos] by (meson le_less_trans not_le)
      with False True show ?thesis by simp
    qed
    moreover have "\<bar>y / pow2 e - of_int M\<bar> < 1 / 2" using d2 by (simp add: d_def)
    ultimately show ?thesis using pos q top assms(1) by (intro fl_to) simp_all
  next
    case False
    then have e1: "e \<noteq> - 1074" and low: "y < pow2 (e + 52)" and M52: "2 ^ 52 \<le> M" using e(2) by auto
    have "(of_int M + d) < (2 ^ 52 :: rat)"
      using low pow2_add [of e 52] pow2_nat [of 52] by (simp add: y)
    with d2 have "of_int M < (of_int (2 ^ 52 + 1) :: rat)" by (simp add: abs_less_iff)
    then have "M < 2 ^ 52 + 1" by (simp only: of_int_less_iff)
    with M52 have Meq: "M = 2 ^ 52" by simp
    have d4: "\<bar>d\<bar> < 23 / 100" using d by (simp add: Meq)
    have half: "pow2 e = 2 * pow2 (e - 1)" using pow2_add [of 1 "e - 1"] pow2_nat [of 1] by simp
    have "pow2 (e - 1 + 52) \<le> y"
      using d4 pow2_add [of "e - 1" 52] pow2_nat [of 52] by (simp add: y Meq half abs_less_iff)
    then have "rat_log2 y = e - 1 + 52" using low by (intro rat_log2_eq) (simp_all add: add.commute)
    then have "max (rat_log2 y - 52) (- 1074) = e - 1" using e(1) e1 by simp
    moreover have "y / pow2 (e - 1) - of_int (2 ^ 53) = 2 * d"
      by (simp add: y Meq half field_simps)
    then have "\<bar>y / pow2 (e - 1) - of_int (2 ^ 53)\<bar> < 1 / 2" using d4 by simp
    moreover have "of_int (2 ^ 53) * pow2 (e - 1) = q" by (simp add: q Meq half)
    ultimately show ?thesis using pos top assms(1) by (intro fl_to [where m = "2 ^ 53" and e = "e - 1"])
  qed
qed

subsection \<open>Digits\<close>

lemma nat_digits_ne [simp]: "nat_digits n \<noteq> []"
  by (subst nat_digits.simps) simp

lemma nat_digits_digits: "list_all is_digit (nat_digits n)"
proof (induction n rule: nat_digits.induct)
  case (1 n)
  have "is_digit (48 + m)" if "m < 10" for m using that by (simp add: is_digit_def)
  with 1 show ?case by (subst nat_digits.simps) auto
qed

lemma digits_val_snoc: "digits_val (ds @ [d]) = 10 * digits_val ds + (d - 48)"
  by (simp add: digits_val_def)

lemma digits_val_nat_digits [simp]: "digits_val (nat_digits n) = n"
proof (induction n rule: nat_digits.induct)
  case (1 n)
  then show ?case
    by (subst nat_digits.simps) (auto simp: digits_val_snoc, simp add: digits_val_def)
qed

lemma nat_digits_no_leading_zero: "hd (nat_digits n) = 48 \<Longrightarrow> length (nat_digits n) = 1"
proof (induction n rule: nat_digits.induct)
  case (1 n)
  show ?case
  proof (cases "n < 10")
    case True
    then show ?thesis by (subst nat_digits.simps) simp
  next
    case False
    from 1(2) False have "hd (nat_digits (n div 10)) = 48" by (subst (asm) nat_digits.simps) simp
    with 1(1) False have "length (nat_digits (n div 10)) = 1" by simp
    with \<open>hd (nat_digits (n div 10)) = 48\<close> have "nat_digits (n div 10) = [48]"
      by (metis length_0_conv length_Suc_conv list.sel(1) One_nat_def)
    then have "n div 10 = 0" using digits_val_nat_digits [of "n div 10"] by (simp add: digits_val_def)
    with False show ?thesis by simp
  qed
qed

lemma takeWhile_digits: "list_all P ds \<Longrightarrow> r = [] \<or> \<not> P (hd r) \<Longrightarrow>
   takeWhile P (ds @ r) = ds \<and> dropWhile P (ds @ r) = r"
  by (induction ds) (cases r; auto)+

lemma nat_digits_bounds: "n < 10 ^ length (nat_digits n)" "0 < n \<Longrightarrow> 10 ^ (length (nat_digits n) - 1) \<le> n"
proof (induction n rule: nat_digits.induct)
  case (1 n)
  {
    case 1
    show ?case
    proof (cases "n < 10")
      case True
      then show ?thesis by (subst nat_digits.simps) simp
    next
      case False
      then have "n div 10 < 10 ^ length (nat_digits (n div 10))" by (rule "1.IH"(1))
      then have "n < 10 * 10 ^ length (nat_digits (n div 10))" by linarith
      with False show ?thesis by (subst nat_digits.simps) simp
    qed
  next
    case 2
    show ?case
    proof (cases "n < 10")
      case True
      with 2 show ?thesis by (subst nat_digits.simps) simp
    next
      case False
      then have "10 ^ (length (nat_digits (n div 10)) - 1) \<le> n div 10" by (intro "1.IH"(2)) simp_all
      then have "10 * 10 ^ (length (nat_digits (n div 10)) - 1) \<le> n" by linarith
      moreover have "10 * 10 ^ (length (nat_digits (n div 10)) - 1) = (10 :: nat) ^ length (nat_digits (n div 10))"
        by (cases "nat_digits (n div 10)") simp_all
      ultimately show ?thesis using False by (subst nat_digits.simps) simp
    qed
  }
qed

lemma length_nat_digits: "10 ^ k \<le> n \<Longrightarrow> n < 10 ^ Suc k \<Longrightarrow> length (nat_digits n) = Suc k"
proof -
  assume n: "10 ^ k \<le> n" "n < 10 ^ Suc k"
  have "0 < (10 :: nat) ^ k" by simp
  with n(1) have pos: "0 < n" by linarith
  have "(10 :: nat) ^ k < 10 ^ length (nat_digits n)" using n(1) nat_digits_bounds(1) [of n] by linarith
  then have "k < length (nat_digits n)" by simp
  moreover have "(10 :: nat) ^ (length (nat_digits n) - 1) < 10 ^ Suc k"
    using n(2) nat_digits_bounds(2) [OF pos] by linarith
  then have "length (nat_digits n) - 1 < Suc k" by (simp only: power_strict_increasing_iff)
  ultimately show ?thesis by linarith
qed

subsection \<open>Decimal exponents\<close>

lemma pow10_powi: "pow10 e = 10 powi e"
  by (simp add: pow10_def power_int_def power_inverse field_simps)

lemma pow10_add: "pow10 (a + b) = pow10 a * pow10 b"
  by (simp add: pow10_powi power_int_add)

lemma pow10_0 [simp]: "pow10 0 = 1"
  by (simp add: pow10_def)

lemma pow10_pos [simp]: "0 < pow10 e"
  by (simp add: pow10_powi)

lemma pow10_signs [simp]: "pow10 e \<noteq> 0" "\<not> pow10 e < 0" "0 \<le> pow10 e"
  using pow10_pos [of e] by linarith+

lemma pow10_nat: "pow10 (int n) = 10 ^ n"
  by (simp add: pow10_def)

lemma pow10_less_iff [simp]: "pow10 a < pow10 b \<longleftrightarrow> a < b"
proof
  assume "pow10 a < pow10 b"
  moreover have "pow10 b \<le> pow10 a" if "b \<le> a"
    using that by (simp add: pow10_powi power_int_increasing)
  ultimately show "a < b" by (meson not_le)
next
  assume "a < b"
  then show "pow10 a < pow10 b" by (simp add: pow10_powi power_int_strict_increasing)
qed

lemma num_len_bounds:
  assumes "0 < q"
  shows "pow10 (num_len q - 1) \<le> q" and "q < pow10 (num_len q)"
proof -
  obtain a b where ab: "quotient_of q = (a, b)" by (cases "quotient_of q")
  then have b: "0 < b" by (rule quotient_of_denom_pos)
  have q: "q = of_int a / of_int b" using ab by (rule quotient_of_div)
  with assms b have a: "0 < a" by (simp add: zero_less_divide_iff)
  let ?k = "int (length (nat_digits (nat a)))" and ?l = "int (length (nat_digits (nat b)))"
  have dig: "pow10 (int (length (nat_digits (nat n))) - 1) \<le> of_int n" "of_int n < pow10 (int (length (nat_digits (nat n))))"
    if "0 < n" for n :: int
  proof -
    have "of_nat (10 ^ (length (nat_digits (nat n)) - 1)) \<le> (of_nat (nat n) :: rat)"
      unfolding of_nat_le_iff using nat_digits_bounds(2) [of "nat n"] that by simp
    moreover have "int (length (nat_digits (nat n)) - 1) = int (length (nat_digits (nat n))) - 1"
      by (cases "nat_digits (nat n)") simp_all
    ultimately show "pow10 (int (length (nat_digits (nat n))) - 1) \<le> of_int n"
      using pow10_nat [of "length (nat_digits (nat n)) - 1"] that by simp
    have "(of_nat (nat n) :: rat) < of_nat (10 ^ length (nat_digits (nat n)))"
      unfolding of_nat_less_iff by (rule nat_digits_bounds(1))
    then show "of_int n < pow10 (int (length (nat_digits (nat n))))"
      using pow10_nat [of "length (nat_digits (nat n))"] that by simp
  qed
  have "pow10 (?k - ?l - 1) * of_int b < pow10 (?k - ?l - 1) * pow10 ?l"
    using dig(2) [OF b] by (intro mult_strict_left_mono) simp_all
  also have "\<dots> = pow10 (?k - 1)" by (simp add: pow10_add [symmetric])
  also have "\<dots> \<le> of_int a" by (rule dig(1) [OF a])
  finally have low: "pow10 (?k - ?l - 1) \<le> q" using b by (simp add: q field_simps)
  have "of_int a < pow10 ?k" by (rule dig(2) [OF a])
  also have "\<dots> = pow10 (?k - ?l + 1) * pow10 (?l - 1)" by (simp add: pow10_add [symmetric])
  also have "\<dots> \<le> pow10 (?k - ?l + 1) * of_int b"
    using dig(1) [OF b] by (intro mult_left_mono) simp_all
  finally have up: "q < pow10 (?k - ?l + 1)" using b by (simp add: q field_simps)
  show "pow10 (num_len q - 1) \<le> q" "q < pow10 (num_len q)"
    using low up by (auto simp: num_len_def ab Let_def)
qed

subsection \<open>The shortest digits\<close>

text \<open>Cut to \<open>k\<close> digits: the digits, and how far the number they stand for is away.\<close>

lemma cut_digits:
  fixes q :: rat and k :: nat
  assumes "0 < q" and "0 < k"
  defines "n \<equiv> num_len q"
  defines "s \<equiv> nat \<lfloor>q * pow10 (int k - n) + 1 / 2\<rfloor>"
  shows "10 ^ (k - 1) \<le> s" and "s \<le> 10 ^ k" and "\<bar>of_nat s * pow10 (n - int k) - q\<bar> \<le> q / (2 * 10 ^ (k - 1))"
proof -
  let ?x = "q * pow10 (int k - n)"
  have "pow10 (int k - 1) = pow10 (n - 1) * pow10 (int k - n)" by (simp add: pow10_add [symmetric])
  also have "\<dots> \<le> ?x" using num_len_bounds(1) [OF assms(1)] by (simp add: n_def)
  finally have lo: "10 ^ (k - 1) \<le> ?x" using pow10_nat [of "k - 1"] assms(2) by (simp add: of_nat_diff)
  have "?x < pow10 n * pow10 (int k - n)" using num_len_bounds(2) [OF assms(1)] by (simp add: n_def)
  also have "\<dots> = 10 ^ k" using pow10_nat [of k] by (simp add: pow10_add [symmetric])
  finally have hi: "?x < 10 ^ k" .
  have fl: "of_int (10 ^ (k - 1)) \<le> ?x + 1 / 2" "?x + 1 / 2 < of_int (10 ^ k + 1)" using lo hi by simp_all
  then have z: "10 ^ (k - 1) \<le> \<lfloor>?x + 1 / 2\<rfloor>" "\<lfloor>?x + 1 / 2\<rfloor> < 10 ^ k + 1"
    by (simp_all only: le_floor_iff floor_less_iff)
  have "(0 :: int) < 10 ^ (k - 1)" by simp
  with z(1) have "0 \<le> \<lfloor>?x + 1 / 2\<rfloor>" by linarith
  then have s: "int s = \<lfloor>?x + 1 / 2\<rfloor>" unfolding s_def by (rule nat_0_le)
  then have "int (10 ^ (k - 1)) \<le> int s" "int s \<le> int (10 ^ k)" using z by simp_all
  then show "10 ^ (k - 1) \<le> s" "s \<le> 10 ^ k" by (simp_all only: of_nat_le_iff)
  have "\<bar>of_int (int s) - ?x\<bar> \<le> 1 / 2" unfolding s by linarith
  then have d: "\<bar>of_nat s - ?x\<bar> \<le> 1 / 2" by simp
  have pn: "pow10 (n - int k) = pow10 (n - 1) / 10 ^ (k - 1)"
    using pow10_add [of "n - int k" "int (k - 1)"] pow10_nat [of "k - 1"] assms(2) by (simp add: field_simps)
  have inv: "?x * pow10 (n - int k) = q" by (simp add: mult.assoc pow10_add [symmetric])
  have "\<bar>of_nat s * pow10 (n - int k) - q\<bar> = \<bar>of_nat s - ?x\<bar> * pow10 (n - int k)"
    by (subst inv [symmetric]) (simp add: left_diff_distrib [symmetric] abs_mult)
  also have "\<dots> \<le> 1 / 2 * pow10 (n - int k)" using d by (intro mult_right_mono) simp_all
  also have "\<dots> \<le> q / (2 * 10 ^ (k - 1))"
    unfolding pn using num_len_bounds(1) [OF assms(1)] by (simp add: n_def divide_right_mono)
  finally show "\<bar>of_nat s * pow10 (n - int k) - q\<bar> \<le> q / (2 * 10 ^ (k - 1))" .
qed

text \<open>The digits that are printed stand for a number that is read as \<open>q\<close>.\<close>

definition stands_for :: "nat \<times> int \<Rightarrow> rat \<Rightarrow> bool" where
  "stands_for p q \<longleftrightarrow> (case p of (s, n) \<Rightarrow>
     fl (of_nat s * pow10 (n - int (length (nat_digits s)))) = Fin q)"

lemma rounded_digits:
  assumes "0 < q" and "0 < k"
    and "fl (of_nat (nat \<lfloor>q * pow10 (int k - num_len q) + 1 / 2\<rfloor>) * pow10 (num_len q - int k)) = Fin q"
  shows "stands_for (let s = nat \<lfloor>q * pow10 (int k - num_len q) + 1 / 2\<rfloor> in
    if s = 10 ^ k then (1, num_len q + 1) else (s, num_len q)) q"
proof -
  let ?s = "nat \<lfloor>q * pow10 (int k - num_len q) + 1 / 2\<rfloor>"
  note c = cut_digits [OF assms(1,2)]
  show ?thesis
  proof (cases "?s = 10 ^ k")
    case True
    have "length (nat_digits 1) = 1" by (subst nat_digits.simps) simp
    moreover have "(10 :: rat) ^ k * pow10 (num_len q - int k) = pow10 (num_len q)"
      using pow10_add [of "int k" "num_len q - int k"] pow10_nat [of k] by simp
    ultimately show ?thesis using assms(3) True by (simp add: stands_for_def)
  next
    case False
    then have "length (nat_digits ?s) = Suc (k - 1)"
      using c(1,2) assms(2) by (intro length_nat_digits) simp_all
    then show ?thesis using assms(2,3) False by (simp add: stands_for_def)
  qed
qed

lemma shortest_stands:
  assumes "0 < q" and "fl q = Fin q" and "0 < fuel" and "fuel + k = 18" and "0 < k"
  shows "stands_for (shortest fuel k q) q"
  using assms(3-5)
proof (induction fuel arbitrary: k)
  case (Suc fuel)
  let ?s = "nat \<lfloor>q * pow10 (int k - num_len q) + 1 / 2\<rfloor>"
  show ?case
  proof (cases "fl (of_nat ?s * pow10 (num_len q - int k)) = Fin q \<or> fuel = 0")
    case True
    have "fl (of_nat ?s * pow10 (num_len q - int k)) = Fin q"
    proof (cases "fuel = 0")
      case fz: True
      with Suc.prems have k: "k = 17" by simp
      have "\<bar>of_nat ?s * pow10 (num_len q - int k) - q\<bar> \<le> q / (2 * 10 ^ (k - 1))"
        by (rule cut_digits [OF assms(1) Suc.prems(3)])
      then have "\<bar>of_nat ?s * pow10 (num_len q - int k) - q\<bar> \<le> q / (2 * 10 ^ 16)" by (simp add: k)
      then show ?thesis by (rule fl_close [OF assms(1,2)])
    qed (use True in simp)
    from rounded_digits [OF assms(1) Suc.prems(3) this] show ?thesis using True by (simp add: Let_def)
  next
    case False
    then show ?thesis using Suc by (simp add: Let_def)
  qed
qed simp

subsection \<open>Number tokens\<close>

text \<open>
  What is printed for a number without its sign: digits, a fraction, an exponent. The two readers of
  the language, \<open>Number(s)\<close> and \<open>JSON.parse\<close>, agree on such tokens.
\<close>

definition exp_text :: "int option \<Rightarrow> jstr" where
  "exp_text e = (case e of None \<Rightarrow> []
     | Some e \<Rightarrow> 101 # (if e < 0 then 45 # nat_digits (nat (- e)) else 43 # nat_digits (nat e)))"

definition token :: "jstr \<Rightarrow> jstr \<Rightarrow> int option \<Rightarrow> jstr" where
  "token ip fp e = ip @ (if fp = [] then [] else 46 # fp) @ exp_text e"

definition token_ok :: "jstr \<Rightarrow> jstr \<Rightarrow> bool" where
  "token_ok ip fp \<longleftrightarrow> list_all is_digit ip \<and> list_all is_digit fp \<and> ip \<noteq> [] \<and> \<not> (hd ip = 48 \<and> 1 < length ip)"

definition token_value :: "jstr \<Rightarrow> jstr \<Rightarrow> int option \<Rightarrow> rat" where
  "token_value ip fp e =
     of_nat (digits_val (ip @ fp)) * pow10 ((case e of None \<Rightarrow> 0 | Some e \<Rightarrow> e) - int (length fp))"

lemma exp_text_head: "exp_text e @ r = [] \<or> \<not> is_digit (hd (exp_text e @ r)) \<and> hd (exp_text e @ r) \<noteq> 46"
  if "r = [] \<or> \<not> is_digit (hd r) \<and> hd r \<noteq> 46"
  using that by (cases e) (auto simp: exp_text_def is_digit_def)

lemma read_exp_text: "read_exp (exp_text e) = Some (case e of None \<Rightarrow> 0 | Some e \<Rightarrow> e)"
  using nat_digits_digits by (cases e) (auto simp: exp_text_def)

lemma token_split:
  assumes "token_ok ip fp" and "r = [] \<or> \<not> is_digit (hd r) \<and> hd r \<noteq> 46"
  shows "takeWhile is_digit (token ip fp e @ r) = ip"
    and "dropWhile is_digit (token ip fp e @ r) = (if fp = [] then exp_text e @ r else 46 # fp @ exp_text e @ r)"
    and "takeWhile is_digit (fp @ exp_text e @ r) = fp" and "dropWhile is_digit (fp @ exp_text e @ r) = exp_text e @ r"
proof -
  let ?r = "(if fp = [] then [] else 46 # fp) @ exp_text e @ r"
  note h = exp_text_head [OF assms(2), of e]
  have "?r = [] \<or> \<not> is_digit (hd ?r)" using h by (auto simp: is_digit_def)
  with assms(1) have "takeWhile is_digit (ip @ ?r) = ip \<and> dropWhile is_digit (ip @ ?r) = ?r"
    by (intro takeWhile_digits) (simp_all add: token_ok_def)
  then show "takeWhile is_digit (token ip fp e @ r) = ip"
    and "dropWhile is_digit (token ip fp e @ r) = (if fp = [] then exp_text e @ r else 46 # fp @ exp_text e @ r)"
    by (simp_all add: token_def)
  have "takeWhile is_digit (fp @ exp_text e @ r) = fp \<and> dropWhile is_digit (fp @ exp_text e @ r) = exp_text e @ r"
    using assms(1) h by (intro takeWhile_digits) (auto simp: token_ok_def)
  then show "takeWhile is_digit (fp @ exp_text e @ r) = fp" "dropWhile is_digit (fp @ exp_text e @ r) = exp_text e @ r"
    by simp_all
qed

lemma read_decimal_token:
  assumes "token_ok ip fp"
  shows "read_decimal (token ip fp e) = Some (token_value ip fp e)"
proof -
  have ne: "ip \<noteq> []" using assms by (simp add: token_ok_def)
  note t = token_split [OF assms, of "[]" e, simplified]
  have h: "exp_text e = [] \<or> hd (exp_text e) \<noteq> 46" using exp_text_head [of "[]" e] by auto
  show ?thesis
  proof (cases "fp = []")
    case True
    then show ?thesis using ne t(1,2) h
      by (auto simp: read_decimal_def Let_def read_exp_text token_value_def)
  next
    case False
    then show ?thesis using ne t
      by (simp add: read_decimal_def Let_def read_exp_text token_value_def)
  qed
qed

lemma token_start: "token_ok ip fp \<Longrightarrow> token ip fp e \<noteq> [] \<and> is_digit (hd (token ip fp e))"
  by (cases ip) (simp_all add: token_ok_def token_def)

lemma token_chars:
  assumes "token_ok ip fp" and "c \<in> set (token ip fp e)"
  shows "is_digit c \<or> c \<in> {43, 45, 46, 101}"
  using assms nat_digits_digits
  by (auto simp: token_ok_def token_def exp_text_def list_all_iff split: option.splits if_splits)

lemma dropWhile_none: "list_all (\<lambda>c. \<not> P c) s \<Longrightarrow> dropWhile P s = s"
  by (cases s) simp_all

lemma trim_clean: "list_all (\<lambda>c. \<not> is_ws c) s \<Longrightarrow> trim s = s"
  by (simp add: trim_def dropWhile_none)

lemma read_number_token:
  assumes "token_ok ip fp"
  shows "read_number (token ip fp e) = fl (token_value ip fp e)"
    and "read_number (45 # token ip fp e) = num_neg (fl (token_value ip fp e))"
proof -
  let ?t = "token ip fp e"
  have chars: "\<forall>c \<in> set ?t. is_digit c \<or> c \<in> {43, 45, 46, 101}" using token_chars [OF assms] by blast
  obtain c u where t: "?t = c # u" "is_digit c" using token_start [OF assms] by (metis list.collapse)
  have nox: "d \<notin> set ?t" if "d \<in> {120, 88, 111, 79, 98, 66}" for d
    using chars that by (auto simp: is_digit_def)
  have ws: "trim ?t = ?t" "trim (45 # ?t) = 45 # ?t"
    using chars by (intro trim_clean; auto simp: list_all_iff is_ws_def is_digit_def)+
  have r: "radix_of_prefix (take 2 ?t) = None" "radix_of_prefix (take 2 (45 # ?t)) = None"
  proof -
    have "radix_of_prefix [a, b] = None" if "b \<notin> {120, 88, 111, 79, 98, 66}" for a b :: nat
      using that by (auto simp: radix_of_prefix_def js_def)
    moreover have "radix_of_prefix [a] = None" for a :: nat by (simp add: radix_of_prefix_def js_def)
    ultimately show "radix_of_prefix (take 2 ?t) = None" "radix_of_prefix (take 2 (45 # ?t)) = None"
      using nox by (cases u; auto simp: t(1) numeral_2_eq_2)+
  qed
  have inf: "?t \<noteq> js ''Infinity''" using t by (auto simp: js_def is_digit_def)
  have u: "read_unsigned ?t = fl (token_value ip fp e)"
    using inf by (simp add: read_unsigned_def read_decimal_token [OF assms])
  show "read_number ?t = fl (token_value ip fp e)"
    using t r(1) u unfolding read_number_def ws Let_def by (simp add: is_digit_def)
  show "read_number (45 # ?t) = num_neg (fl (token_value ip fp e))"
    using r(2) u unfolding read_number_def ws Let_def by simp
qed

subsection \<open>Printed numbers are tokens\<close>

lemma digits_val_append: "digits_val (a @ b) = digits_val a * 10 ^ length b + digits_val b"
proof (induction b rule: rev_induct)
  case (snoc d b)
  then show ?case using digits_val_snoc [of "a @ b" d] by (simp add: digits_val_snoc algebra_simps)
qed (simp add: digits_val_def)

lemma digits_val_zeros: "digits_val (replicate z 48) = 0"
  by (induction z) (simp_all add: digits_val_def)

lemma digits_zeros: "list_all is_digit (replicate z 48)"
  by (simp add: list_all_iff is_digit_def)

lemma list_all_take_drop: "list_all P xs \<Longrightarrow> list_all P (take n xs) \<and> list_all P (drop n xs)"
  by (auto simp: list_all_iff dest: in_set_takeD in_set_dropD)

lemma pos_token:
  assumes "shortest 17 1 q = (s, n)" and "0 < s"
  shows "\<exists>ip fp e. pos_to_string q = token ip fp e \<and> token_ok ip fp \<and>
    token_value ip fp e = of_nat s * pow10 (n - int (length (nat_digits s)))"
proof -
  let ?ds = "nat_digits s"
  let ?k = "int (length ?ds)"
  have sn: "shortest 17 (Suc 0) q = (s, n)" using assms(1) by simp
  have ds: "list_all is_digit ?ds" "?ds \<noteq> []" by (simp_all add: nat_digits_digits)
  have k1: "\<not> ?k \<le> 0" using ds(2) by (cases ?ds) simp_all
  have val: "digits_val ?ds = s" by simp
  have lz: "hd ?ds \<noteq> 48"
  proof
    assume h: "hd ?ds = 48"
    then have "length ?ds = 1" by (rule nat_digits_no_leading_zero)
    then have "?ds = [48]" using h by (cases ?ds) auto
    then show False using val assms(2) by (simp add: digits_val_def)
  qed
  consider (whole) "?k \<le> n" "n \<le> 21" | (point) "n < ?k" "0 < n" "n \<le> 21"
    | (small) "- 6 < n" "n \<le> 0" | (sci) "n \<le> - 6 \<or> 21 < n" by linarith
  then show ?thesis
  proof cases
    case whole
    then have "pos_to_string q = token (?ds @ replicate (nat (n - ?k)) 48) [] None"
      by (simp add: pos_to_string_def sn Let_def token_def exp_text_def)
    moreover have "token_ok (?ds @ replicate (nat (n - ?k)) 48) []"
      using ds lz by (simp add: token_ok_def digits_zeros)
    moreover have "token_value (?ds @ replicate (nat (n - ?k)) 48) [] None = of_nat s * pow10 (n - ?k)"
      using whole pow10_nat [of "nat (n - ?k)"]
      by (simp add: token_value_def digits_val_append digits_val_zeros)
    ultimately show ?thesis by blast
  next
    case point
    then have d: "drop (nat n) ?ds \<noteq> []" by (simp add: nat_less_iff)
    with point have "pos_to_string q = token (take (nat n) ?ds) (drop (nat n) ?ds) None"
      by (simp add: pos_to_string_def sn Let_def token_def exp_text_def)
    moreover have "token_ok (take (nat n) ?ds) (drop (nat n) ?ds)"
      using ds lz point list_all_take_drop [OF ds(1)] by (simp add: token_ok_def hd_take)
    moreover have "int (length (drop (nat n) ?ds)) = ?k - n" using point by (simp add: of_nat_diff nat_le_iff)
    then have "token_value (take (nat n) ?ds) (drop (nat n) ?ds) None = of_nat s * pow10 (n - ?k)"
      by (simp add: token_value_def)
    ultimately show ?thesis by blast
  next
    case small
    with k1 have k2: "\<not> ?k \<le> n" by linarith
    with small have "pos_to_string q = token [48] (replicate (nat (- n)) 48 @ ?ds) None"
      using k2 by (simp add: pos_to_string_def sn Let_def token_def exp_text_def)
    moreover have "token_ok [48] (replicate (nat (- n)) 48 @ ?ds)"
      using ds by (simp add: token_ok_def digits_zeros is_digit_def)
    moreover have "digits_val (48 # replicate (nat (- n)) 48 @ ?ds) = s"
      using digits_val_append [of "48 # replicate (nat (- n)) 48" ?ds] digits_val_zeros [of "Suc (nat (- n))"] by simp
    then have "token_value [48] (replicate (nat (- n)) 48 @ ?ds) None = of_nat s * pow10 (n - ?k)"
      using small by (simp add: token_value_def)
    ultimately show ?thesis by blast
  next
    case sci
    obtain c r where cr: "?ds = c # r" using ds by (cases ?ds) auto
    have "int (length ?ds) = 1 \<longleftrightarrow> r = []" by (simp add: cr)
    then have "pos_to_string q = token [c] r (Some (n - 1))"
      using sci by (auto simp: pos_to_string_def sn Let_def token_def exp_text_def cr)
    moreover have "token_ok [c] r" using ds(1) by (simp add: token_ok_def cr)
    moreover have "token_value [c] r (Some (n - 1)) = of_nat s * pow10 (n - ?k)"
      using val by (simp add: token_value_def cr algebra_simps)
    ultimately show ?thesis by blast
  qed
qed

lemma rne_minus: "rne (- x) = - rne x"
proof (cases "x = of_int \<lfloor>x\<rfloor>")
  case True
  then show ?thesis by (metis of_int_minus rne_of_int)
next
  case False
  then have "of_int \<lfloor>x\<rfloor> < x" by (metis of_int_floor_le order_le_less)
  then have f: "\<lfloor>- x\<rfloor> = - \<lfloor>x\<rfloor> - 1" by (intro floor_unique) linarith+
  show ?thesis by (auto simp: rne_def Let_def f)
qed

lemma fl_minus: "fl (- q) = num_neg (fl q)"
proof (cases "q = 0")
  case False
  have big: "\<not> (2 ^ 1024 \<le> y \<and> y \<le> - (2 ^ 1024))" for y :: rat
  proof
    assume "2 ^ 1024 \<le> y \<and> y \<le> - (2 ^ 1024)"
    then have "(2 :: rat) ^ 1024 \<le> - (2 ^ 1024)" by linarith
    moreover have "(0 :: rat) < 2 ^ 1024" by simp
    ultimately show False by linarith
  qed
  have m: "(2 :: rat) ^ 1024 \<le> - y \<longleftrightarrow> y \<le> - (2 ^ 1024)" "- y \<le> - (2 ^ 1024 :: rat) \<longleftrightarrow> 2 ^ 1024 \<le> y" for y
    by linarith+
  show ?thesis
    using False big by (simp only: fl_def Let_def abs_minus_cancel neg_equal_0_iff_equal if_False minus_divide_left [symmetric]
        rne_minus of_int_minus mult_minus_left m) auto
qed simp

text \<open>Every double prints as a token that stands for it, behind a minus sign if it is negative.\<close>

lemma printed_double:
  assumes "fl q = Fin q"
  shows "\<exists>ip fp e. token_ok ip fp \<and> fl (token_value ip fp e) = Fin \<bar>q\<bar> \<and>
    num_to_string (Fin q) = (if q < 0 then 45 # token ip fp e else token ip fp e)"
proof (cases "of_int \<lfloor>q\<rfloor> = q \<and> \<bar>q\<bar> \<le> 2 ^ 53")
  case True
  let ?n = "nat \<bar>\<lfloor>q\<rfloor>\<bar>"
  have ok: "token_ok (nat_digits ?n) []"
    using nat_digits_digits nat_digits_no_leading_zero [of ?n] by (auto simp: token_ok_def)
  have abs: "\<bar>q\<bar> = of_int \<bar>\<lfloor>q\<rfloor>\<bar>" using True by (metis of_int_abs)
  have le: "\<bar>\<bar>\<lfloor>q\<rfloor>\<bar>\<bar> \<le> 2 ^ 53"
    using True unfolding abs by (metis abs_abs of_int_le_iff of_int_numeral of_int_power)
  have v: "fl (token_value (nat_digits ?n) [] None) = Fin \<bar>q\<bar>"
    using fl_of_int [OF le] abs by (simp add: token_value_def)
  have neg: "q < 0 \<longleftrightarrow> \<lfloor>q\<rfloor> < 0" by simp
  have "num_to_string (Fin q) = int_to_string \<lfloor>q\<rfloor>" using True by simp
  also have "\<dots> = (if q < 0 then 45 # token (nat_digits ?n) [] None else token (nat_digits ?n) [] None)"
    by (simp add: int_to_string_def token_def exp_text_def neg abs_if del: floor_less_zero)
  finally show ?thesis using ok v by blast
next
  case False
  have q: "q \<noteq> 0" using False by auto
  have dbl: "fl \<bar>q\<bar> = Fin \<bar>q\<bar>" using assms fl_minus [of q] by (cases "q < 0") simp_all
  obtain s n where sn: "shortest 17 1 \<bar>q\<bar> = (s, n)" by (cases "shortest 17 1 \<bar>q\<bar>")
  have st: "fl (of_nat s * pow10 (n - int (length (nat_digits s)))) = Fin \<bar>q\<bar>"
    using shortest_stands [of "\<bar>q\<bar>" 17 1] q dbl sn by (simp add: stands_for_def)
  then have "0 < s" using q by (cases s) auto
  from pos_token [OF sn this] obtain ip fp e where t: "pos_to_string \<bar>q\<bar> = token ip fp e" "token_ok ip fp"
    "token_value ip fp e = of_nat s * pow10 (n - int (length (nat_digits s)))" by blast
  have "num_to_string (Fin q) = (if q < 0 then 45 # pos_to_string \<bar>q\<bar> else pos_to_string \<bar>q\<bar>)"
    using False by (auto simp del: floor_less_zero)
  with t st show ?thesis by metis
qed

text \<open>\<^verbatim>\<open>Number(String(x)) === x\<close> for every double.\<close>

theorem read_printed: "fl q = Fin q \<Longrightarrow> read_number (num_to_string (Fin q)) = Fin q"
proof -
  assume "fl q = Fin q"
  from printed_double [OF this] obtain ip fp e where t: "token_ok ip fp" "fl (token_value ip fp e) = Fin \<bar>q\<bar>"
    "num_to_string (Fin q) = (if q < 0 then 45 # token ip fp e else token ip fp e)" by blast
  then show ?thesis by (simp only: read_number_token split: if_split) simp
qed

end
