(* ===== verification/Json_Trip.thy ===== *)
theory Json_Trip
  imports Js_Json Js_Number
begin

section \<open>JSON round trip\<close>

text \<open>
  What \<^verbatim>\<open>JSON.stringify\<close> writes, \<^verbatim>\<open>JSON.parse\<close> reads back unchanged, for the values the client
  persists: any nesting of arrays and objects over \<^verbatim>\<open>null\<close>, booleans, strings and finite doubles.
  \<open>undefined\<close>, NaN and the infinities do not survive, and are outside \<open>jsonable\<close>.
\<close>

definition units16 :: "jstr \<Rightarrow> bool" where
  "units16 s = list_all (\<lambda>c. c < 65536) s"

lemma units16_js [simp]: "units16 (js s)"
proof -
  have "of_char c < (65536::nat)" for c :: char
    using nat_of_char_less_256 [of c] by linarith
  then show ?thesis by (simp add: units16_def js_def list_all_iff)
qed

fun is_double :: "jsnum \<Rightarrow> bool" where
  "is_double (Fin q) = (fl q = Fin q)"
| "is_double _ = False"

fun jsonable :: "jsval \<Rightarrow> bool" where
  "jsonable Undef = False"
| "jsonable Null = True"
| "jsonable (Bool b) = True"
| "jsonable (Num n) = is_double n"
| "jsonable (Str s) = units16 s"
| "jsonable (Arr vs) = list_all jsonable vs"
| "jsonable (Obj kvs) = (distinct (map fst kvs) \<and> list_all (\<lambda>kv. units16 (fst kv) \<and> jsonable (snd kv)) kvs)"

lemma double_int [simp]: "\<bar>k\<bar> \<le> 2 ^ 53 \<Longrightarrow> is_double (Fin (of_int k))"
  by (simp add: fl_of_int)

lemma double_numeral [simp]: "(numeral k :: int) \<le> 2 ^ 53 \<Longrightarrow> is_double (Fin (numeral k))"
  "is_double (Fin 0)" "is_double (Fin 1)"
  by (simp_all add: fl_numeral)

subsection \<open>Numbers\<close>

text \<open>What follows a value: the end, a comma, a closing bracket or a line break.\<close>

definition delim :: "jstr \<Rightarrow> bool" where
  "delim r \<longleftrightarrow> r = [] \<or> hd r \<in> {44, 93, 125, 10}"

lemma delim_Cons [simp]: "delim (c # r) \<longleftrightarrow> c \<in> {44, 93, 125, 10}"
  by (simp add: delim_def)

lemma delim_head: "delim r \<Longrightarrow> r = [] \<or> \<not> is_digit (hd r) \<and> hd r \<noteq> 46"
  by (auto simp: delim_def is_digit_def)

lemma json_exponent_text:
  assumes "delim r"
  shows "json_exponent (exp_text e @ r) = Some (case e of None \<Rightarrow> 0 | Some e \<Rightarrow> e, r)"
proof -
  have "r = [] \<or> \<not> is_digit (hd r)" and n: "r = [] \<or> hd r \<noteq> 101 \<and> hd r \<noteq> 69"
    using assms by (auto simp: delim_def is_digit_def)
  then have "takeWhile is_digit (nat_digits m @ r) = nat_digits m" "dropWhile is_digit (nat_digits m @ r) = r" for m
    using takeWhile_digits [OF nat_digits_digits] by blast+
  with n show ?thesis by (cases e) (auto simp: exp_text_def json_exponent_def Let_def)
qed

lemma json_unsigned_token:
  assumes "token_ok ip fp" and "delim r"
  shows "json_unsigned (token ip fp e @ r) = Some (fl (token_value ip fp e), r)"
proof -
  have ip: "(ip = [] \<or> hd ip = 48 \<and> 1 < length ip) = False" using assms(1) by (auto simp: token_ok_def)
  note h = delim_head [OF assms(2)]
  note t = token_split [OF assms(1) h, of e]
  have point: "exp_text e @ r = [] \<or> hd (exp_text e @ r) \<noteq> 46" using exp_text_head [OF h, of e] by auto
  have "json_fraction (dropWhile is_digit (token ip fp e @ r)) = (fp, exp_text e @ r)"
    using t(2-4) point by (cases "fp = []") (auto simp: json_fraction_def)
  moreover have "\<not> (dropWhile is_digit (token ip fp e @ r) \<noteq> [] \<and> hd (dropWhile is_digit (token ip fp e @ r)) = 46 \<and> fp = [])"
    using t(2) point by auto
  ultimately show ?thesis
    using t(1) ip json_exponent_text [OF assms(2), of e] by (simp add: json_unsigned_def Let_def token_value_def)
qed

lemma json_number_token:
  assumes "token_ok ip fp" and "delim r"
  shows "json_number (token ip fp e @ r) = Some (fl (token_value ip fp e), r)"
    and "json_number (45 # token ip fp e @ r) = Some (num_neg (fl (token_value ip fp e)), r)"
proof -
  have "hd (token ip fp e @ r) \<noteq> 45" using token_start [OF assms(1), of e] by (auto simp: is_digit_def)
  then show "json_number (token ip fp e @ r) = Some (fl (token_value ip fp e), r)"
    by (simp add: json_number_def json_unsigned_token [OF assms])
  show "json_number (45 # token ip fp e @ r) = Some (num_neg (fl (token_value ip fp e)), r)"
    by (simp add: json_number_def json_unsigned_token [OF assms])
qed

lemma json_number_double:
  assumes "delim r" and "fl q = Fin q"
  shows "json_number (num_to_string (Fin q) @ r) = Some (Fin q, r)"
proof -
  from printed_double [OF assms(2)] obtain ip fp e where t: "token_ok ip fp"
    "fl (token_value ip fp e) = Fin \<bar>q\<bar>"
    "num_to_string (Fin q) = (if q < 0 then 45 # token ip fp e else token ip fp e)" by blast
  note j = json_number_token [OF t(1) assms(1), of e, unfolded t(2)]
  show ?thesis unfolding t(3) using j by (cases "q < 0") simp_all
qed

lemma double_hd: "fl q = Fin q \<Longrightarrow> \<exists>c t. num_to_string (Fin q) = c # t \<and> (c = 45 \<or> is_digit c)"
proof -
  assume "fl q = Fin q"
  from printed_double [OF this] obtain ip fp e where t: "token_ok ip fp"
    "num_to_string (Fin q) = (if q < 0 then 45 # token ip fp e else token ip fp e)" by blast
  obtain c u where "token ip fp e = c # u" "is_digit c" using token_start [OF t(1), of e] by (metis list.collapse)
  then show ?thesis unfolding t(2) by (cases "q < 0") simp_all
qed

subsection \<open>Values\<close>

abbreviation enc :: "jsval \<Rightarrow> jstr" where
  "enc v \<equiv> the (json_enc v)"

lemma json_enc_jsonable: "jsonable v \<Longrightarrow> json_enc v = Some (enc v)"
  by (cases v) auto

lemma json_enc_ex: "jsonable v \<Longrightarrow> \<exists>t. json_enc v = Some t"
  by (cases v) auto

lemma enc_Arr: "list_all jsonable vs \<Longrightarrow> enc (Arr vs) = 91 # join [44] (map enc vs) @ [93]"
proof -
  assume "list_all jsonable vs"
  then have "map (\<lambda>v. case json_enc v of None \<Rightarrow> js ''null'' | Some t \<Rightarrow> t) vs = map enc vs"
    by (induction vs) (use json_enc_ex in fastforce)+
  then show ?thesis by (simp only: json_enc.simps option.sel)
qed

definition enc_member :: "jstr \<times> jsval \<Rightarrow> jstr" where
  "enc_member kv = json_quote (fst kv) @ 58 # enc (snd kv)"

lemma enc_Obj:
  "list_all (\<lambda>kv. units16 (fst kv) \<and> jsonable (snd kv)) kvs \<Longrightarrow>
   enc (Obj kvs) = 123 # join [44] (map enc_member kvs) @ [125]"
proof -
  assume "list_all (\<lambda>kv. units16 (fst kv) \<and> jsonable (snd kv)) kvs"
  then have "concat (map (\<lambda>kv. case json_enc (snd kv) of None \<Rightarrow> []
        | Some t \<Rightarrow> [json_quote (fst kv) @ 58 # t]) kvs) = map enc_member kvs"
    by (induction kvs) (use json_enc_ex in \<open>fastforce simp: enc_member_def\<close>)+
  then show ?thesis by simp
qed

text \<open>The first code unit of a printed value is never white space, so nothing is skipped.\<close>

lemma enc_first:
  assumes "jsonable v"
  shows "\<exists>c t. enc v = c # t \<and> \<not> json_ws c \<and> c \<noteq> 93 \<and> c \<noteq> 125"
proof (cases v)
  case (Num n)
  with assms obtain q where q: "n = Fin q" "fl q = Fin q" by (cases n) auto
  then obtain c t where "num_to_string (Fin q) = c # t" "c = 45 \<or> is_digit c" using double_hd by blast
  then show ?thesis using Num q by (auto simp: json_ws_def is_digit_def simp del: num_to_string.simps)
qed (use assms in \<open>auto simp: json_quote_def json_ws_def js_def\<close>)

lemma skip_ws_Cons [simp]: "\<not> json_ws c \<Longrightarrow> skip_ws (c # s) = c # s"
  by (simp add: skip_ws_def)

lemma json_ws_punct [simp]: "\<not> json_ws 44" "\<not> json_ws 93" "\<not> json_ws 125" "\<not> json_ws 58" "\<not> json_ws 34"
  "\<not> json_ws 91" "\<not> json_ws 123"
  by (simp_all add: json_ws_def)

lemma skip_ws_enc: "jsonable v \<Longrightarrow> skip_ws (enc v @ r) = enc v @ r"
  using enc_first [of v] by auto

lemma json_val_string:
  "units16 s \<Longrightarrow> json_val (Suc f) (json_quote s @ r) = Some (Str s, r)"
  using json_string_units [of s r] by (simp add: json_quote_def units16_def)

lemma json_val_double:
  assumes "delim r" and "fl q = Fin q"
  shows "json_val (Suc f) (num_to_string (Fin q) @ r) = Some (N q, r)"
proof -
  obtain c t where c: "num_to_string (Fin q) = c # t" "c = 45 \<or> is_digit c" using double_hd [OF assms(2)] by blast
  then have "\<not> json_ws c" "c \<noteq> 34" "c \<noteq> 91" "c \<noteq> 123" "c \<noteq> 110" "c \<noteq> 116" "c \<noteq> 102"
    by (auto simp: json_ws_def is_digit_def)
  with json_number_double [OF assms] c show ?thesis by (simp add: js_def del: num_to_string.simps)
qed

lemma json_elems_enc:
  assumes "\<And>v f r. v \<in> set vs \<Longrightarrow> length (enc v) \<le> f \<Longrightarrow> delim r \<Longrightarrow> json_val f (enc v @ r) = Some (v, r)"
    and "vs \<noteq> []" and "Suc (length (join [44] (map enc vs))) \<le> f"
  shows "json_elems f (join [44] (map enc vs) @ 93 # r) = Some (vs, r)"
  using assms
proof (induction vs arbitrary: f rule: induct_list012)
  case (2 v)
  then obtain f' where "f = Suc f'" by (cases f) auto
  with 2 show ?case by simp
next
  case (3 v w vs)
  then obtain f' where f: "f = Suc f'" by (cases f) auto
  have "json_val f' (enc v @ 44 # join [44] (map enc (w # vs)) @ 93 # r)
      = Some (v, 44 # join [44] (map enc (w # vs)) @ 93 # r)"
    using 3(3) 3(5) f by simp
  moreover have "json_elems f' (join [44] (map enc (w # vs)) @ 93 # r) = Some (w # vs, r)"
    using 3(3) 3(5) f by (intro 3(2)) simp_all
  ultimately show ?case by (simp add: f)
qed simp

lemma json_member_step:
  assumes "json_val f (enc (snd kv) @ d # t) = Some (snd kv, d # t)" and "units16 (fst kv)"
    and "\<not> json_ws d"
  shows "json_members (Suc f) acc (enc_member kv @ d # t) =
    (if d = 125 then Some (put acc (fst kv) (snd kv), t)
     else if d = 44 then json_members f (put acc (fst kv) (snd kv)) t else None)"
  using assms json_string_units [of "fst kv" "58 # enc (snd kv) @ d # t"]
  by (simp add: enc_member_def json_quote_def units16_def)

lemma json_members_enc:
  assumes "\<And>kv f r. kv \<in> set kvs \<Longrightarrow> length (enc (snd kv)) \<le> f \<Longrightarrow> delim r \<Longrightarrow>
      json_val f (enc (snd kv) @ r) = Some (snd kv, r)"
    and "list_all (\<lambda>kv. units16 (fst kv)) kvs"
    and "kvs \<noteq> []" and "Suc (length (join [44] (map enc_member kvs))) \<le> f"
  shows "json_members f acc (join [44] (map enc_member kvs) @ 125 # r) = Some (put_all acc kvs, r)"
  using assms
proof (induction kvs arbitrary: f acc rule: induct_list012)
  case (2 kv)
  then obtain f' where f: "f = Suc f'" by (cases f) auto
  have "json_val f' (enc (snd kv) @ 125 # r) = Some (snd kv, 125 # r)"
    using 2(1) 2(4) f by (simp add: enc_member_def)
  with json_member_step [OF this] 2(2) show ?case
    by (simp add: f put_all_def split: prod.splits)
next
  case (3 kv kw kvs)
  then obtain f' where f: "f = Suc f'" by (cases f) auto
  let ?t = "join [44] (map enc_member (kw # kvs)) @ 125 # r"
  have "json_val f' (enc (snd kv) @ 44 # ?t) = Some (snd kv, 44 # ?t)"
    using 3(3) 3(6) f by (simp add: enc_member_def)
  note step = json_member_step [OF this, of acc]
  have "json_members f' (put acc (fst kv) (snd kv)) ?t
      = Some (put_all (put acc (fst kv) (snd kv)) (kw # kvs), r)"
    using 3(3-6) f by (intro 3(2)) simp_all
  with step 3(4) have "json_members (Suc f') acc (enc_member kv @ 44 # ?t)
      = Some (put_all (put acc (fst kv) (snd kv)) (kw # kvs), r)" by simp
  then show ?case by (simp add: f put_all_def split: prod.splits)
qed simp

lemma put_append: "k \<notin> fst ` set acc \<Longrightarrow> put acc k v = acc @ [(k, v)]"
  by (induction acc) auto

lemma put_all_fresh:
  "distinct (map fst kvs) \<Longrightarrow> fst ` set acc \<inter> fst ` set kvs = {} \<Longrightarrow> put_all acc kvs = acc @ kvs"
proof (induction kvs arbitrary: acc)
  case (Cons kv kvs)
  obtain k v where kv: "kv = (k, v)" by force
  have "put acc k v = acc @ [(k, v)]" using Cons.prems kv by (intro put_append) auto
  then show ?case using Cons kv by (auto simp: put_all_def)
qed (simp add: put_all_def)

lemma join_ne: "ss \<noteq> [] \<Longrightarrow> hd ss \<noteq> [] \<Longrightarrow> \<exists>t. join sep ss = hd ss @ t"
  by (cases ss rule: remdups_adj.cases) auto

lemma json_val_Arr:
  "\<not> json_ws c \<Longrightarrow> c \<noteq> 93 \<Longrightarrow>
   json_val (Suc f) (91 # c # t) = map_option (apfst Arr) (json_elems f (c # t))"
  by simp

lemma json_val_Obj:
  "\<not> json_ws c \<Longrightarrow> c \<noteq> 125 \<Longrightarrow>
   json_val (Suc f) (123 # c # t) = map_option (apfst Obj) (json_members f [] (c # t))"
  by simp

lemma json_val_enc:
  "jsonable v \<Longrightarrow> length (enc v) \<le> f \<Longrightarrow> delim r \<Longrightarrow> json_val f (enc v @ r) = Some (v, r)"
proof (induction v arbitrary: f r)
  case (Num n)
  then obtain q where q: "n = Fin q" "fl q = Fin q" by (cases n) auto
  then have e: "enc (Num n) = num_to_string (Fin q)" by (simp del: num_to_string.simps)
  with Num double_hd [OF q(2)] obtain f' where "f = Suc f'" by (cases f) auto
  then show ?case using json_val_double [OF Num(3) q(2)] q(1) e by (simp del: json_val.simps num_to_string.simps)
next
  case (Str s)
  then obtain f' where "f = Suc f'" by (cases f) (auto simp: json_quote_def)
  with Str show ?case by (simp add: json_val_string del: json_val.simps)
next
  case (Arr vs)
  then have J: "list_all jsonable vs" by simp
  from Arr.prems(2) enc_Arr [OF J] obtain f' where f: "f = Suc f'" by (cases f) auto
  show ?case
  proof (cases "vs = []")
    case False
    then obtain v ws where vs: "vs = v # ws" by (cases vs) auto
    with J obtain c t where c: "enc v = c # t" "\<not> json_ws c" "c \<noteq> 93" using enc_first [of v] by auto
    obtain t' where t': "join [44] (map enc vs) = c # t'"
      using join_ne [of "map enc vs" "[44]"] vs c by auto
    have "json_elems f' (join [44] (map enc vs) @ 93 # r) = Some (vs, r)"
      using Arr J enc_Arr [OF J] f False by (intro json_elems_enc) (auto simp: list_all_iff)
    then have "json_val (Suc f') (91 # c # t' @ 93 # r) = Some (Arr vs, r)"
      using c t' json_val_Arr [of c f' "t' @ 93 # r"] by simp
    then show ?thesis using t' by (simp add: enc_Arr [OF J] f del: json_val.simps json_enc.simps)
  qed (simp add: f)
next
  case (Obj kvs)
  then have J: "list_all (\<lambda>kv. units16 (fst kv) \<and> jsonable (snd kv)) kvs" "distinct (map fst kvs)"
    by simp_all
  from Obj.prems(2) enc_Obj [OF J(1)] obtain f' where f: "f = Suc f'" by (cases f) auto
  show ?case
  proof (cases "kvs = []")
    case False
    then obtain t' where t': "join [44] (map enc_member kvs) = 34 # t'"
      using join_ne [of "map enc_member kvs" "[44]"]
      by (cases kvs) (auto simp: enc_member_def json_quote_def)
    have "json_members f' [] (join [44] (map enc_member kvs) @ 125 # r) = Some (put_all [] kvs, r)"
    proof (rule json_members_enc)
      fix kv f r
      assume "kv \<in> set kvs" "length (enc (snd kv)) \<le> f" "delim r"
      then show "json_val f (enc (snd kv) @ r) = Some (snd kv, r)"
        using Obj.IH [of kv "snd kv" f r] J(1) by (simp add: list_all_iff snds.simps)
    qed (use J False Obj.prems(2) enc_Obj [OF J(1)] f in \<open>auto simp: list_all_iff\<close>)
    moreover have "put_all [] kvs = kvs" using put_all_fresh [of kvs "[]"] J by simp
    ultimately have "json_val (Suc f') (123 # 34 # t' @ 125 # r) = Some (Obj kvs, r)"
      using t' json_val_Obj [of 34 f' "t' @ 125 # r"] by simp
    then show ?thesis using t' by (simp add: enc_Obj [OF J(1)] f del: json_val.simps json_enc.simps)
  qed (simp add: f)
next
  case Null
  then show ?case by (cases f) (auto simp: js_def json_ws_def)
next
  case (Bool b)
  then show ?case by (cases f; cases b) (auto simp: js_def json_ws_def)
qed simp

theorem json_round_trip: "jsonable v \<Longrightarrow> json_parse (json_stringify v) = Some v"
proof -
  assume v: "jsonable v"
  then obtain t where t: "json_enc v = Some t" using json_enc_ex by blast
  have "json_val (Suc (length t)) (t @ []) = Some (v, [])"
    using v t json_val_enc [of v "Suc (length t)" "[]"] by (simp add: delim_def del: json_val.simps)
  then show ?thesis by (simp add: json_parse_def json_stringify_def t skip_ws_def del: json_val.simps)
qed

subsection \<open>Members that are undefined\<close>

text \<open>
  \<^verbatim>\<open>JSON.stringify\<close> leaves out the members that are \<open>undefined\<close> (and prints \<open>undefined\<close> elements as
  \<open>null\<close>): \<open>strip\<close> is what comes back.
\<close>

fun strip :: "jsval \<Rightarrow> jsval" where
  "strip (Arr vs) = Arr (map (\<lambda>v. if v = Undef then Null else strip v) vs)"
| "strip (Obj kvs) = Obj (concat (map (\<lambda>kv. if snd kv = Undef then [] else [(fst kv, strip (snd kv))]) kvs))"
| "strip v = v"

lemma json_enc_Undef_iff: "json_enc v = None \<longleftrightarrow> v = Undef"
  by (cases v) auto

lemma strip_Undef_iff [simp]: "strip v = Undef \<longleftrightarrow> v = Undef"
  by (cases v) auto

lemma json_enc_strip: "json_enc (strip v) = json_enc v"
proof (induction v)
  case (Arr vs)
  then have "map (\<lambda>v. case json_enc (if v = Undef then Null else strip v) of None \<Rightarrow> js ''null'' | Some t \<Rightarrow> t) vs
      = map (\<lambda>v. case json_enc v of None \<Rightarrow> js ''null'' | Some t \<Rightarrow> t) vs"
    by (intro map_cong) auto
  then show ?case by (simp only: strip.simps json_enc.simps map_map comp_def)
next
  case (Obj kvs)
  let ?m = "\<lambda>kv. case json_enc (snd kv) of None \<Rightarrow> [] | Some t \<Rightarrow> [json_quote (fst kv) @ 58 # t]"
  have "concat (map ?m (concat (map (\<lambda>kv. if snd kv = Undef then [] else [(fst kv, strip (snd kv))]) kvs)))
      = concat (map ?m kvs)"
    using Obj
  proof (induction kvs)
    case (Cons kv kvs)
    then have "json_enc (strip (snd kv)) = json_enc (snd kv)" by (simp add: snds.simps)
    with Cons show ?case by (simp add: snds.simps split: option.split)
  qed simp
  then show ?case by simp
qed simp_all

lemma json_strip: "jsonable (strip v) \<Longrightarrow> json_parse (json_stringify v) = Some (strip v)"
  using json_round_trip [of "strip v"] by (simp add: json_stringify_def json_enc_strip)

lemma strip_jsonable: "jsonable v \<Longrightarrow> strip v = v"
proof (induction v)
  case (Arr vs)
  then have "map (\<lambda>v. if v = Undef then Null else strip v) vs = vs"
    by (intro map_idI) (auto simp: list_all_iff)
  then show ?case by simp
next
  case (Obj kvs)
  then have "concat (map (\<lambda>kv. if snd kv = Undef then [] else [(fst kv, strip (snd kv))]) kvs) = kvs"
  proof (induction kvs)
    case (Cons kv kvs)
    have "concat (map (\<lambda>kv. if snd kv = Undef then [] else [(fst kv, strip (snd kv))]) kvs) = kvs"
      using Cons.prems by (intro Cons.IH) auto
    moreover have "snd kv \<noteq> Undef" using Cons.prems by auto
    moreover have "strip (snd kv) = snd kv" using Cons.prems by (simp add: snds.simps)
    ultimately show ?case by simp
  qed simp
  then show ?case by simp
qed simp_all

lemma map_of_strip: "distinct (map fst kvs) \<Longrightarrow>
   map_of (concat (map (\<lambda>kv. if snd kv = Undef then [] else [(fst kv, strip (snd kv))]) kvs)) k =
   (case map_of kvs k of None \<Rightarrow> None | Some v \<Rightarrow> if v = Undef then None else Some (strip v))"
proof (induction kvs)
  case (Cons kv kvs)
  have "map_of kvs (fst kv) = None" using Cons.prems by (auto simp: map_of_eq_None_iff)
  with Cons show ?case by (cases kv) auto
qed simp

lemma fld_strip: "distinct (map fst kvs) \<Longrightarrow> fld (strip (Obj kvs)) k = strip (fld (Obj kvs) k)"
  by (auto simp: fld_def map_of_strip split: option.splits)

end
