(* ===== verification/Interfaces.thy ===== *)
theory Interfaces
  imports Json_Trip
begin

section \<open>Contracts shared by the client's components\<close>

text \<open>
  Three components of the client keep a bounded list with the newest entry first: the recent
  resources, the activity log and the event buffers of the stream hooks. \<open>capped_list\<close> states what
  they promise: how an entry goes in, which older entries it displaces, and the bound. Two of them
  keep the list in a cell of \<^verbatim>\<open>localStorage\<close>; \<open>storage_cell\<close> is that contract, and \<open>persisted_list\<close>
  joins the two. Each component interprets the locale it satisfies on its own definitions.
\<close>

locale capped_list =
  fixes add :: "'a \<Rightarrow> 'a list \<Rightarrow> 'a list"
    and same :: "'a \<Rightarrow> 'a \<Rightarrow> bool"
    and cap :: nat
  assumes add_eq: "add x xs = take cap (x # filter (\<lambda>y. \<not> same x y) xs)"
begin

lemma length_add: "length (add x xs) \<le> cap"
  by (simp add: add_eq)

lemma newest_first: "0 < cap \<Longrightarrow> add x xs \<noteq> [] \<and> hd (add x xs) = x"
  by (cases cap) (simp_all add: add_eq)

lemma set_add: "y \<in> set (add x xs) \<Longrightarrow> y = x \<or> y \<in> set xs \<and> \<not> same x y"
  unfolding add_eq by (auto dest: set_take_Cons)

lemma set_add_subset: "set (add x xs) \<subseteq> insert x (set xs)"
  using set_add by fastforce

text \<open>No entry appears twice, and the order by any measure of recency is kept.\<close>

lemma no_twins:
  assumes "sorted_wrt (\<lambda>a b. \<not> same a b) xs"
  shows "sorted_wrt (\<lambda>a b. \<not> same a b) (add x xs)"
  unfolding add_eq using assms by (intro sorted_wrt_take) (simp add: sorted_wrt_filter)

lemma sorted_add:
  assumes "sorted_wrt R xs" and "\<forall>y \<in> set xs. R x y"
  shows "sorted_wrt R (add x xs)"
  unfolding add_eq using assms by (intro sorted_wrt_take) (simp add: sorted_wrt_filter)

lemma length_history: "length xs \<le> cap \<Longrightarrow> length (fold add hist xs) \<le> cap"
  by (induction hist arbitrary: xs) (simp_all add: length_add)

text \<open>Without twins a history is remembered newest first, cut at the bound.\<close>

lemma history:
  assumes "\<And>a b. \<not> same a b" and "length xs \<le> cap"
  shows "fold add hist xs = take cap (rev hist @ xs)"
  using assms(2)
proof (induction hist arbitrary: xs)
  case (Cons h hist)
  have "add h xs = take cap (h # xs)" using assms(1) by (simp add: add_eq)
  moreover have "fold add hist (add h xs) = take cap (rev hist @ add h xs)"
    by (rule Cons.IH) (rule length_add)
  moreover have "take cap (rev hist @ take cap (h # xs)) = take cap (rev hist @ h # xs)"
    by (simp add: min_def)
  ultimately show ?case by simp
qed simp

end

text \<open>
  A storage cell: \<open>load\<close> after \<open>save\<close> gives back the list (through \<open>norm\<close>, what the JSON text keeps
  of it) when the storage accepts the text, and other cells are left alone.
\<close>

locale storage_cell =
  fixes load :: "'s \<Rightarrow> 'a list"
    and save :: "'a list \<Rightarrow> 's \<Rightarrow> 's"
    and other :: "'s \<Rightarrow> jstr \<Rightarrow> jstr option"
    and key :: jstr
    and norm :: "'a \<Rightarrow> 'a"
    and storable :: "'a \<Rightarrow> bool"
    and usable :: "'s \<Rightarrow> bool"
  assumes load_save: "usable s \<Longrightarrow> list_all storable xs \<Longrightarrow> load (save xs s) = map norm xs"
    and usable_save: "usable s \<Longrightarrow> usable (save xs s)"
    and other_save: "k \<noteq> key \<Longrightarrow> other (save xs s) k = other s k"
begin

lemma last_save_wins:
  "usable s \<Longrightarrow> list_all storable ys \<Longrightarrow> load (save ys (save xs s)) = map norm ys"
  by (intro load_save usable_save)

end

locale persisted_list = capped_list add same cap + storage_cell load save other key norm storable usable
  for add :: "'a \<Rightarrow> 'a list \<Rightarrow> 'a list" and same and cap
    and load :: "'s \<Rightarrow> 'a list" and save other key norm storable usable +
  assumes norm_storable: "storable x \<Longrightarrow> norm x = x"
begin

definition remember :: "'a \<Rightarrow> 's \<Rightarrow> 's" where
  "remember x s = save (add x (load s)) s"

lemma load_remember:
  assumes "usable s" and "storable x" and "list_all storable (load s)"
  shows "load (remember x s) = add x (load s)"
proof -
  have "list_all storable (add x (load s))"
    using assms(2,3) set_add_subset [of x "load s"] by (auto simp: list_all_iff)
  moreover from this have "map norm (add x (load s)) = add x (load s)"
    by (intro map_idI) (auto simp: list_all_iff norm_storable)
  ultimately show ?thesis unfolding remember_def using assms(1) by (simp add: load_save)
qed

lemma load_history:
  assumes "usable s" and "list_all storable hist" and "list_all storable (load s)"
  shows "load (fold remember hist s) = fold add hist (load s)"
  using assms
proof (induction hist arbitrary: s)
  case (Cons x hist)
  then have r: "load (remember x s) = add x (load s)" by (intro load_remember) simp_all
  moreover have "list_all storable (add x (load s))"
    using Cons.prems set_add_subset [of x "load s"] by (auto simp: list_all_iff)
  moreover have "usable (remember x s)" unfolding remember_def using Cons.prems by (simp add: usable_save)
  ultimately show ?case using Cons by simp
qed simp

end

subsection \<open>The browser's storage\<close>

text \<open>
  \<^verbatim>\<open>localStorage\<close> with the failures the code guards against: no window, reading denied, writing
  denied or over quota.
\<close>

record browser =
  b_window :: bool
  b_readable :: bool
  b_writable :: bool
  b_store :: "jstr \<Rightarrow> jstr option"

definition get_item :: "browser \<Rightarrow> jstr \<Rightarrow> jstr option" where
  "get_item b k = (if b_window b \<and> b_readable b then b_store b k else None)"

definition set_item :: "jstr \<Rightarrow> jstr \<Rightarrow> browser \<Rightarrow> browser" where
  "set_item k v b = (if b_window b \<and> b_writable b then b\<lparr>b_store := (b_store b)(k \<mapsto> v)\<rparr> else b)"

definition usable_browser :: "browser \<Rightarrow> bool" where
  "usable_browser b \<longleftrightarrow> b_window b \<and> b_readable b \<and> b_writable b"

lemma get_set_item: "usable_browser b \<Longrightarrow> get_item (set_item k v b) k' = (if k' = k then Some v else get_item b k')"
  by (simp add: get_item_def set_item_def usable_browser_def)

lemma usable_set_item: "usable_browser b \<Longrightarrow> usable_browser (set_item k v b)"
  by (simp add: usable_browser_def set_item_def)

lemma store_set_item: "k' \<noteq> k \<Longrightarrow> b_store (set_item k v b) k' = b_store b k'"
  by (simp add: set_item_def)

end
