(* ===== verification/Ts_Types.thy ===== *)
theory Ts_Types
  imports Js_Text
begin

section \<open>The client's TypeScript types\<close>

text \<open>
  TypeScript types as data, and the set of values each of them admits. The declarations of
  \<^verbatim>\<open>src/client/data/type.d.ts\<close> and of \<^verbatim>\<open>src/client/data/api-client.ts\<close> follow, one definition per
  declaration. An optional property may be absent or \<open>undefined\<close>; further properties are allowed
  (structural typing). \<open>ts_sub\<close> is an executable sufficient condition for one type to be a subtype
  of another.
\<close>

datatype ts_type =
    TString
  | TNumber
  | TBoolean
  | TUnknown
  | TNull
  | TUndefined
  | TLit jstr
  | TNumLit int
  | TArray ts_type
  | TRecord ts_type
  | TUnion "ts_type list"
  | TInter ts_type ts_type
  | TObject "(string \<times> bool \<times> ts_type) list"

fun is_plain :: "jsval \<Rightarrow> bool" where
  "is_plain (Obj _) = True"
| "is_plain _ = False"

lemma is_plain_obj [simp]: "is_plain (obj kvs)"
  by (simp add: obj_def)

lemma size_field [termination_simp]:
  "(k, o', t) \<in> set fs \<Longrightarrow> size t < Suc (size_list (size_prod (size_list size) (size_prod size size)) fs)"
  by (induction fs) auto

lemma size_field' [termination_simp]:
  "(k, o', t) \<in> set fs \<Longrightarrow> size t < Suc (size_list (size_prod (\<lambda>_. 0) (size_prod (\<lambda>_. 0) size)) fs)"
  by (induction fs) auto

fun has_type :: "ts_type \<Rightarrow> jsval \<Rightarrow> bool" where
  "has_type TString v = is_str v"
| "has_type TNumber v = (case v of Num _ \<Rightarrow> True | _ \<Rightarrow> False)"
| "has_type TBoolean v = (case v of Bool _ \<Rightarrow> True | _ \<Rightarrow> False)"
| "has_type TUnknown v = True"
| "has_type TNull v = (v = Null)"
| "has_type TUndefined v = (v = Undef)"
| "has_type (TLit s) v = (v = Str s)"
| "has_type (TNumLit n) v = (v = Num (Fin (of_int n)))"
| "has_type (TArray t) v = (case v of Arr vs \<Rightarrow> list_all (has_type t) vs | _ \<Rightarrow> False)"
| "has_type (TRecord t) v = (case v of Obj kvs \<Rightarrow> list_all (\<lambda>kv. has_type t (snd kv)) kvs | _ \<Rightarrow> False)"
| "has_type (TUnion ts) v = list_ex (\<lambda>t. has_type t v) ts"
| "has_type (TInter a b) v = (has_type a v \<and> has_type b v)"
| "has_type (TObject fs) v =
     (is_plain v \<and> list_all (\<lambda>(k, opt, t). (opt \<and> fld v k = Undef) \<or> has_type t (fld v k)) fs)"

subsection \<open>Type operators of the declarations\<close>

fun ts_partial :: "ts_type \<Rightarrow> ts_type" where
  "ts_partial (TObject fs) = TObject (map (\<lambda>(k, _, t). (k, True, t)) fs)"
| "ts_partial t = t"

fun ts_omit :: "string list \<Rightarrow> ts_type \<Rightarrow> ts_type" where
  "ts_omit ks (TObject fs) = TObject (filter (\<lambda>(k, _). k \<notin> set ks) fs)"
| "ts_omit ks t = t"

fun ts_pick :: "string list \<Rightarrow> ts_type \<Rightarrow> ts_type" where
  "ts_pick ks (TObject fs) = TObject (filter (\<lambda>(k, _). k \<in> set ks) fs)"
| "ts_pick ks t = t"

text \<open>\<^verbatim>\<open>T["k"]\<close>; for an optional property the union with \<open>undefined\<close>.\<close>

fun ts_field :: "string \<Rightarrow> ts_type \<Rightarrow> ts_type" where
  "ts_field k (TObject fs) =
     (case map_of fs k of None \<Rightarrow> TUnknown | Some (o', t) \<Rightarrow> (if o' then TUnion [t, TUndefined] else t))"
| "ts_field k t = TUnknown"

subsection \<open>Subtyping\<close>

fun members :: "ts_type \<Rightarrow> ts_type list option" where
  "members (TUnion ts) = Some ts"
| "members _ = None"

fun element :: "ts_type \<Rightarrow> ts_type option" where
  "element (TArray t) = Some t"
| "element _ = None"

fun fields :: "ts_type \<Rightarrow> (string \<times> bool \<times> ts_type) list option" where
  "fields (TObject fs) = Some fs"
| "fields _ = None"

fun ts_sub_base :: "ts_type \<Rightarrow> ts_type \<Rightarrow> bool" where
  "ts_sub_base t TUnknown = True"
| "ts_sub_base (TLit s) TString = True"
| "ts_sub_base (TNumLit n) TNumber = True"
| "ts_sub_base t u = (t = u)"

lemma members_size [termination_simp]: "members t = Some ts \<Longrightarrow> t' \<in> set ts \<Longrightarrow> size t' < size t"
  by (cases t) (auto dest: size_list_estimation' [of _ _ _ size])

lemma element_size [termination_simp]: "element t = Some t' \<Longrightarrow> size t' < size t"
  by (cases t) auto

lemma fields_size [termination_simp]: "fields t = Some fs \<Longrightarrow> (k, o', t') \<in> set fs \<Longrightarrow> size t' < size t"
  by (cases t) (auto dest: size_field')

lemma fields_map_of_size [termination_simp]:
  "fields t = Some fs \<Longrightarrow> map_of fs k = Some (o', t') \<Longrightarrow> size t' < size t"
  by (metis map_of_SomeD fields_size)

lemma element_size2:
  "Some a = element t \<Longrightarrow> Some b = element u \<Longrightarrow> size a + size b < size t + size u"
  using element_size [of t a] element_size [of u b] by simp

lemma fields_size2:
  "Some fs = fields t \<Longrightarrow> Some gs = fields u \<Longrightarrow> (k, opt, u') \<in> set gs \<Longrightarrow>
   map_of fs k = Some (opt', t') \<Longrightarrow> size t' + size u' < size t + size u"
  using fields_size [of u gs k opt u'] fields_map_of_size [of t fs k opt' t'] by simp

function ts_sub :: "ts_type \<Rightarrow> ts_type \<Rightarrow> bool" where
  "ts_sub t u =
     (case members t of
        Some ts \<Rightarrow> list_all (\<lambda>t'. ts_sub t' u) ts
      | None \<Rightarrow>
     (case members u of
        Some us \<Rightarrow> list_ex (\<lambda>u'. ts_sub t u') us
      | None \<Rightarrow>
     (case (element t, element u) of
        (Some t', Some u') \<Rightarrow> ts_sub t' u'
      | _ \<Rightarrow>
     (case (fields t, fields u) of
        (Some fs, Some gs) \<Rightarrow>
          list_all (\<lambda>(k, opt, u'). case map_of fs k of None \<Rightarrow> False
            | Some (opt', t') \<Rightarrow> (opt' \<longrightarrow> opt) \<and> ts_sub t' u') gs
      | _ \<Rightarrow> ts_sub_base t u))))"
  by pat_completeness auto
termination
  by (relation "measure (\<lambda>(t, u). size t + size u)")
     (auto dest: members_size intro: element_size2 fields_size2)

declare ts_sub.simps [simp del]

lemma ts_sub_base_sound: "ts_sub_base t u \<Longrightarrow> has_type t v \<Longrightarrow> has_type u v"
  by (induction t u rule: ts_sub_base.induct) auto

lemma members_Some [simp]: "members t = Some ts \<longleftrightarrow> t = TUnion ts"
  by (cases t) auto

lemma element_Some [simp]: "element t = Some t' \<longleftrightarrow> t = TArray t'"
  by (cases t) auto

lemma fields_Some [simp]: "fields t = Some fs \<longleftrightarrow> t = TObject fs"
  by (cases t) auto

lemma ts_sub_fields_sound:
  assumes "list_all (\<lambda>(k, opt, u'). case map_of fs k of None \<Rightarrow> False
            | Some (opt', t') \<Rightarrow> (opt' \<longrightarrow> opt) \<and> ts_sub t' u') gs"
    and IH: "\<And>k opt u' opt' t' v. (k, opt, u') \<in> set gs \<Longrightarrow> map_of fs k = Some (opt', t') \<Longrightarrow>
      (opt' \<longrightarrow> opt) \<Longrightarrow> ts_sub t' u' \<Longrightarrow> has_type t' v \<Longrightarrow> has_type u' v"
    and v: "has_type (TObject fs) v"
  shows "has_type (TObject gs) v"
proof -
  have "(opt \<and> fld v k = Undef) \<or> has_type u (fld v k)" if g: "(k, opt, u) \<in> set gs" for k opt u
  proof -
    from assms(1) g obtain opt' t where m: "map_of fs k = Some (opt', t)"
      and o: "opt' \<longrightarrow> opt" and s: "ts_sub t u"
      by (fastforce simp: list_all_iff split: option.splits)
    from m have "(k, opt', t) \<in> set fs" by (rule map_of_SomeD)
    with v have "(opt' \<and> fld v k = Undef) \<or> has_type t (fld v k)"
      by (fastforce simp: list_all_iff)
    with o IH [OF g m o s] show ?thesis by blast
  qed
  with v show ?thesis by (auto simp: list_all_iff)
qed

lemma ts_sub_sound: "ts_sub t u \<Longrightarrow> has_type t v \<Longrightarrow> has_type u v"
proof (induction t u arbitrary: v rule: ts_sub.induct)
  case (1 t u)
  show ?case
  proof (cases "members t")
    case (Some ts)
    with 1 show ?thesis by (fastforce simp: ts_sub.simps [of t u] list_all_iff list_ex_iff)
  next
    case mt: None
    show ?thesis
    proof (cases "members u")
      case (Some us)
      with 1 mt show ?thesis by (fastforce simp: ts_sub.simps [of t u] list_ex_iff)
    next
      case mu: None
      note unf = ts_sub.simps [of t u, unfolded mt mu option.case]
      show ?thesis
      proof (cases "element t \<noteq> None \<and> element u \<noteq> None")
        case True
        then obtain t' u' where e: "element t = Some t'" "element u = Some u'" by blast
        have "has_type u' w" if "ts_sub t' u'" "has_type t' w" for w
          by (rule "1.IH"(3) [OF mt mu, of "Some t'" "Some u'" t' u' w]) (use e that in simp_all)
        with "1.prems" e show ?thesis
          by (auto simp: unf list_all_iff split: jsval.splits)
      next
        case ne: False
        show ?thesis
        proof (cases "fields t \<noteq> None \<and> fields u \<noteq> None")
          case True
          then obtain fs gs where f: "t = TObject fs" "u = TObject gs" by auto
          show ?thesis unfolding f
          proof (rule ts_sub_fields_sound [of fs])
            show "list_all (\<lambda>(k, opt, u'). case map_of fs k of None \<Rightarrow> False
                | Some (opt', t') \<Rightarrow> (opt' \<longrightarrow> opt) \<and> ts_sub t' u') gs"
              using "1.prems"(1) [unfolded unf] f by simp
            show "has_type (TObject fs) v" using "1.prems"(2) f by simp
          qed (use "1.IH"(1) f in \<open>fastforce\<close>)
        next
          case False
          with ne have "ts_sub t u = ts_sub_base t u" by (auto simp: unf split: option.splits)
          with "1.prems" show ?thesis by (simp add: ts_sub_base_sound)
        qed
      qed
    qed
  qed
qed

text \<open>Shape checks on object literals reduce to their fields.\<close>

lemma has_type_obj:
  "has_type (TObject fs) (obj kvs) =
     list_all (\<lambda>(k, opt, t). case map_of kvs k of
         None \<Rightarrow> opt \<or> has_type t Undef | Some v \<Rightarrow> (opt \<and> v = Undef) \<or> has_type t v) fs"
  by (simp add: case_prod_beta split: option.splits cong: list.pred_cong)

declare has_type.simps(13) [simp del]

lemmas shape_simps = has_type_obj list.pred_inject list_ex_Nil_iff list_ex_Cons_iff

named_theorems ts_defs \<open>definitions of the declared types\<close>

subsection \<open>Declarations of \<^verbatim>\<open>type.d.ts\<close>\<close>

text \<open>\<^verbatim>\<open>BacktestState\<close>: the integer codes of the worker's backtest states.\<close>

definition BacktestState :: "(string \<times> int) list" where
  "BacktestState = [(''Pending'', 1), (''Running'', 2), (''Completed'', 3), (''Failed'', 4)]"

definition BacktestStateValue :: ts_type where
  "BacktestStateValue = TUnion (map (\<lambda>(_, n). TNumLit n) BacktestState)"

definition TypeCreateOptionResponse :: ts_type where
  "TypeCreateOptionResponse = TObject [
    (''message'', False, TString),
    (''value'', False, TObject [
      (''id'', True, TString),
      (''name'', False, TString)])]"

definition TypeRiskCaps :: ts_type where
  "TypeRiskCaps = TObject [
    (''maxPositionUsd'', False, TNumber),
    (''maxLeverage'', False, TNumber),
    (''dailyLossCapUsd'', False, TNumber)]"

definition TypeLiveMode :: ts_type where
  "TypeLiveMode = TUnion [TLit (js ''testnet''), TLit (js ''mainnet'')]"

definition TypeLiveConfig :: ts_type where
  "TypeLiveConfig = TObject [
    (''enabled'', False, TBoolean),
    (''mode'', False, TypeLiveMode),
    (''accountId'', True, TString),
    (''startedAt'', True, TUnion [TString, TNull])]"

definition TypeOrderStatus :: ts_type where
  "TypeOrderStatus = TUnion [TLit (js ''new''), TLit (js ''partial''), TLit (js ''filled''), TLit (js ''canceled''), TLit (js ''rejected''), TLit (js ''unknown'')]"

definition TypeOrderSide :: ts_type where
  "TypeOrderSide = TUnion [TLit (js ''BUY''), TLit (js ''SELL'')]"

definition TypeOrderType :: ts_type where
  "TypeOrderType = TUnion [TLit (js ''MARKET''), TLit (js ''LIMIT'')]"

definition TypeOrderLog :: ts_type where
  "TypeOrderLog = TObject [
    (''id'', False, TString),
    (''clientOrderId'', False, TString),
    (''exchangeOrderId'', True, TString),
    (''strategyId'', False, TString),
    (''accountId'', False, TString),
    (''symbol'', False, TString),
    (''side'', False, TypeOrderSide),
    (''type'', False, TypeOrderType),
    (''qty'', False, TNumber),
    (''price'', True, TNumber),
    (''filled'', False, TNumber),
    (''avgFillPrice'', False, TNumber),
    (''status'', False, TypeOrderStatus),
    (''mode'', False, TypeLiveMode),
    (''realisedPnlUsd'', False, TNumber),
    (''submittedAt'', False, TString),
    (''lastEventAt'', False, TString)]"

definition TypeSetLive :: ts_type where
  "TypeSetLive = TObject [
    (''enabled'', True, TBoolean),
    (''accountId'', True, TString),
    (''mode'', True, TypeLiveMode)]"

definition TypeSubmitOrder :: ts_type where
  "TypeSubmitOrder = TObject [
    (''accountId'', False, TString),
    (''symbol'', False, TString),
    (''side'', False, TypeOrderSide),
    (''type'', False, TypeOrderType),
    (''qty'', False, TNumber),
    (''price'', True, TNumber),
    (''markPrice'', True, TNumber),
    (''idempotencyKey'', True, TString)]"

definition TypeMainnetStatus :: ts_type where
  "TypeMainnetStatus = TObject [
    (''envEnabled'', False, TBoolean),
    (''mainnetAllowed'', False, TBoolean),
    (''confirmExpiresAt'', True, TString),
    (''pendingTokenCount'', False, TNumber)]"

definition TypeExchange :: ts_type where
  "TypeExchange = TUnion [TLit (js ''binance''), TLit (js ''okx''), TLit (js ''bybit''), TLit (js ''a_share'')]"

definition TypePermissions :: ts_type where
  "TypePermissions = TObject [
    (''canTrade'', False, TBoolean),
    (''canDeposit'', False, TBoolean),
    (''canWithdraw'', False, TBoolean)]"

definition TypeAccount :: ts_type where
  "TypeAccount = TObject [
    (''id'', False, TString),
    (''userId'', False, TString),
    (''exchange'', False, TypeExchange),
    (''label'', False, TString),
    (''email'', False, TString),
    (''permissions'', False, TypePermissions),
    (''lastSnapshotAt'', True, TUnion [TString, TNull]),
    (''createdAt'', False, TString),
    (''updatedAt'', False, TString)]"

definition TypeCreateAccount :: ts_type where
  "TypeCreateAccount = TObject [
    (''exchange'', False, TypeExchange),
    (''label'', False, TString),
    (''email'', False, TString),
    (''apiKey'', False, TString),
    (''secretKey'', False, TString),
    (''passphrase'', True, TString)]"

definition TypeBalance :: ts_type where
  "TypeBalance = TObject [
    (''asset'', False, TString),
    (''free'', False, TString),
    (''locked'', False, TString),
    (''wallet'', False, TString)]"

definition TypePosition :: ts_type where
  "TypePosition = TObject [
    (''symbol'', False, TString),
    (''positionSide'', False, TString),
    (''positionAmt'', False, TString),
    (''entryPrice'', False, TString),
    (''markPrice'', False, TString),
    (''unrealizedProfit'', False, TString),
    (''leverage'', False, TString),
    (''liquidationPrice'', False, TString),
    (''marginType'', False, TString)]"

definition TypeBacktestTrade :: ts_type where
  "TypeBacktestTrade = TObject [
    (''entryTs'', False, TString),
    (''exitTs'', False, TString),
    (''entryPrice'', False, TNumber),
    (''exitPrice'', False, TNumber),
    (''size'', False, TNumber),
    (''pnl'', False, TNumber),
    (''returnPct'', False, TNumber),
    (''nAdds'', False, TNumber),
    (''exitReason'', False, TString)]"

definition TypeBacktest :: ts_type where
  "TypeBacktest = TObject [
    (''runId'', False, TString),
    (''strategyId'', False, TString),
    (''kind'', False, TString),
    (''params'', False, TRecord TUnknown),
    (''request'', False, TRecord TUnknown),
    (''state'', False, BacktestStateValue),
    (''progress'', False, TNumber),
    (''metrics'', False, TRecord TNumber),
    (''trades'', False, TArray TypeBacktestTrade),
    (''createdAt'', False, TString),
    (''startedAt'', False, TUnion [TString, TNull]),
    (''finishedAt'', False, TUnion [TString, TNull]),
    (''error'', False, TString)]"

definition TypeCreateBacktest :: ts_type where
  "TypeCreateBacktest = TObject [
    (''strategyId'', False, TString),
    (''kind'', True, TString),
    (''params'', True, TRecord TUnknown),
    (''symbol'', False, TString),
    (''exchange'', False, TString),
    (''timeframe'', False, TUnion [TLit (js ''1m''), TLit (js ''5m''), TLit (js ''1h''), TLit (js ''1d'')]),
    (''start'', False, TString),
    (''end'', False, TString),
    (''initialCapital'', True, TNumber),
    (''commissionRate'', True, TNumber),
    (''slippageBps'', True, TNumber)]"

definition TypeBacktestHandle :: ts_type where
  "TypeBacktestHandle = TObject [
    (''runId'', False, TString),
    (''enqueuedAt'', False, TString)]"

definition TypeEquityPoint :: ts_type where
  "TypeEquityPoint = TObject [
    (''time'', False, TString),
    (''equity'', False, TNumber),
    (''drawdown'', False, TNumber),
    (''position'', False, TNumber)]"

definition TypeExchangeMeta :: ts_type where
  "TypeExchangeMeta = TObject [
    (''id'', False, TString),
    (''exchange'', False, TypeExchange),
    (''canonicalSymbol'', False, TString),
    (''nativeSymbol'', False, TString),
    (''baseAsset'', False, TString),
    (''quoteAsset'', False, TString),
    (''contractType'', False, TUnion [TLit (js ''spot''), TLit (js ''linear-perp''), TString]),
    (''pricePrecision'', False, TNumber),
    (''qtyPrecision'', False, TNumber),
    (''minNotionalUsd'', False, TNumber),
    (''takerFeeRate'', False, TNumber),
    (''makerFeeRate'', False, TNumber),
    (''lastUpdated'', False, TString)]"

definition TypePortfolioExchangeBreakdown :: ts_type where
  "TypePortfolioExchangeBreakdown = TObject [
    (''exchange'', False, TypeExchange),
    (''totalUsd'', False, TNumber),
    (''accountIds'', False, TArray TString)]"

definition TypePortfolioAssetBreakdown :: ts_type where
  "TypePortfolioAssetBreakdown = TObject [
    (''asset'', False, TString),
    (''qty'', False, TNumber),
    (''usdValue'', False, TNumber)]"

definition TypePortfolioSummary :: ts_type where
  "TypePortfolioSummary = TObject [
    (''totalUsd'', False, TNumber),
    (''perExchange'', False, TArray TypePortfolioExchangeBreakdown),
    (''perAsset'', False, TArray TypePortfolioAssetBreakdown),
    (''generatedAt'', False, TString),
    (''notes'', True, TArray TString)]"

definition TypeRecommendationStatus :: ts_type where
  "TypeRecommendationStatus = TUnion [TLit (js ''pending_review''), TLit (js ''approved''), TLit (js ''rejected''), TLit (js ''superseded'')]"

definition TypeRecommendationPeriod :: ts_type where
  "TypeRecommendationPeriod = TObject [
    (''lookbackDays'', False, TNumber),
    (''inSampleDays'', False, TNumber),
    (''oosDays'', False, TNumber),
    (''sharpeAnnualized'', False, TBoolean)]"

definition TypeRecommendation :: ts_type where
  "TypeRecommendation = TObject [
    (''id'', False, TString),
    (''strategyId'', False, TString),
    (''studyId'', False, TString),
    (''proposedParams'', False, TRecord TUnknown),
    (''expectedDelta'', False, TObject [
      (''sharpe'', False, TNumber),
      (''return'', False, TNumber)]),
    (''rationale'', False, TString),
    (''status'', False, TypeRecommendationStatus),
    (''reviewedBy'', True, TUnion [TString, TNull]),
    (''reviewedAt'', True, TUnion [TString, TNull]),
    (''appliedVersion'', True, TUnion [TNumber, TNull]),
    (''createdAt'', False, TString),
    (''updatedAt'', False, TString),
    (''period'', True, TypeRecommendationPeriod)]"

definition TypeOptimizationCost :: ts_type where
  "TypeOptimizationCost = TObject [
    (''claudeTokensIn'', False, TNumber),
    (''claudeTokensOut'', False, TNumber),
    (''cacheReadTokens'', False, TNumber),
    (''cacheWriteTokens'', False, TNumber),
    (''usdSpent'', False, TNumber)]"

definition TypeOptimizationRun :: ts_type where
  "TypeOptimizationRun = TObject [
    (''studyId'', False, TString),
    (''strategyId'', False, TString),
    (''algorithm'', False, TString),
    (''paramSpace'', False, TRecord TUnknown),
    (''claudeContextHash'', False, TString),
    (''trialsTotal'', False, TNumber),
    (''trialsCompleted'', False, TNumber),
    (''bestValue'', False, TNumber),
    (''bestTrialId'', True, TUnion [TString, TNull]),
    (''cost'', False, TypeOptimizationCost),
    (''state'', False, TString),
    (''startedAt'', False, TString),
    (''finishedAt'', True, TUnion [TString, TNull]),
    (''error'', False, TString),
    (''recommendationId'', True, TUnion [TString, TNull])]"

definition TypeStudyHandle :: ts_type where
  "TypeStudyHandle = TObject [
    (''studyId'', False, TString),
    (''enqueuedAt'', False, TString)]"

definition TypeMacroPoint :: ts_type where
  "TypeMacroPoint = TObject [
    (''source'', False, TString),
    (''code'', False, TString),
    (''ts'', False, TString),
    (''value'', False, TNumber),
    (''unit'', False, TString)]"

definition TypeOnchainPoint :: ts_type where
  "TypeOnchainPoint = TObject [
    (''source'', False, TString),
    (''chain'', False, TString),
    (''metric'', False, TString),
    (''ts'', False, TString),
    (''value'', False, TNumber)]"

definition TypeNewsItem :: ts_type where
  "TypeNewsItem = TObject [
    (''id'', False, TString),
    (''source'', False, TString),
    (''ts'', False, TString),
    (''title'', False, TString),
    (''url'', False, TString),
    (''body'', False, TString),
    (''sentiment'', False, TNumber),
    (''symbols'', False, TArray TString)]"

definition TypeAIGoalRequest :: ts_type where
  "TypeAIGoalRequest = TObject [
    (''goal'', False, TString),
    (''symbols'', True, TArray TString),
    (''horizon'', True, TString),
    (''riskPreference'', True, TString),
    (''executionMode'', True, TUnion [TLit (js ''observe''), TLit (js ''paper''), TLit (js ''testnet''), TLit (js ''mainnet''), TString]),
    (''behaviorConstraints'', True, TArray TString),
    (''marketNarrativeFocus'', True, TArray TString),
    (''avoidScenarios'', True, TArray TString)]"

definition TypeAIGoalProviderStatus :: ts_type where
  "TypeAIGoalProviderStatus = TObject [
    (''status'', False, TUnion [TLit (js ''ready''), TLit (js ''blocked''), TString]),
    (''tone'', False, TUnion [TLit (js ''success''), TLit (js ''warning''), TString]),
    (''providerFamily'', False, TUnion [TLit (js ''anthropic''), TLit (js ''openai''), TLit (js ''deepseek''), TString]),
    (''modelFamily'', False, TUnion [TLit (js ''claude''), TLit (js ''openai''), TLit (js ''deepseek''), TString]),
    (''providerLabel'', False, TString),
    (''model'', False, TString),
    (''keyConfigured'', False, TBoolean),
    (''source'', False, TUnion [TLit (js ''mongo''), TLit (js ''env''), TLit (js ''mixed''), TString]),
    (''primaryHref'', False, TString),
    (''primaryAction'', False, TObject [
      (''kind'', False, TUnion [TLit (js ''open_link''), TString]),
      (''label'', False, TString)]),
    (''summary'', False, TString),
    (''nextActions'', False, TArray TString)]"

definition TypeAIGoalStrategyDraft :: ts_type where
  "TypeAIGoalStrategyDraft = TObject [
    (''name'', False, TString),
    (''kind'', False, TUnion [TLit (js ''grid_dca''), TLit (js ''polymarket_event''), TLit (js ''watch_only''), TString]),
    (''symbol'', False, TString),
    (''thesis'', False, TString),
    (''params'', False, TRecord TUnknown),
    (''riskCaps'', False, TRecord TNumber),
    (''validationPlan'', False, TArray TString),
    (''executionPlan'', False, TArray TString),
    (''blockers'', False, TArray TString)]"

definition TypeAIGoalWatchSignal :: ts_type where
  "TypeAIGoalWatchSignal = TObject [
    (''signal'', False, TString),
    (''source'', False, TString),
    (''interpretation'', False, TString),
    (''action'', False, TString)]"

definition TypeAIGoalExecutionPlan :: ts_type where
  "TypeAIGoalExecutionPlan = TObject [
    (''mode'', False, TString),
    (''canAutoExecute'', False, TBoolean),
    (''nextSteps'', False, TArray TString),
    (''safetyGates'', False, TArray TString)]"

definition TypeAIGoalExecutionContext :: ts_type where
  "TypeAIGoalExecutionContext = TObject [
    (''accountCount'', False, TNumber),
    (''tradeableAccountCount'', False, TNumber),
    (''withdrawalEnabledAccountCount'', False, TNumber),
    (''tradingHalted'', False, TBoolean),
    (''haltedReason'', True, TString),
    (''portfolioLimits'', False, TObject [
      (''userId'', True, TString),
      (''maxOpenNotionalUsd'', False, TNumber),
      (''maxOpenPositionsCount'', False, TNumber),
      (''maxDailyLossUsd'', False, TNumber)])]"

definition TypeAIGoalMarketContextHighlight :: ts_type where
  "TypeAIGoalMarketContextHighlight = TObject [
    (''id'', False, TString),
    (''source'', False, TString),
    (''label'', False, TString),
    (''detail'', False, TString),
    (''at'', True, TString)]"

definition TypeAIGoalRecentRunSummary :: ts_type where
  "TypeAIGoalRecentRunSummary = TObject [
    (''id'', False, TString),
    (''goal'', False, TString),
    (''summary'', False, TString),
    (''aiStatus'', False, TString),
    (''executionMode'', False, TString),
    (''strategyDraftCount'', False, TNumber),
    (''contextNewsCount'', False, TNumber),
    (''contextMacroCount'', False, TNumber),
    (''contextOnchainCount'', False, TNumber),
    (''marketRead'', True, TString),
    (''humanFactors'', True, TArray TString),
    (''watchSignalCount'', True, TNumber),
    (''watchSignalHighlights'', True, TArray TString),
    (''actionCount'', False, TNumber),
    (''doneActionCount'', True, TNumber),
    (''readyActionCount'', True, TNumber),
    (''manualActionCount'', True, TNumber),
    (''blockedActionCount'', True, TNumber),
    (''openActionCount'', True, TNumber)]"

definition TypeAIGoalAnalysis :: ts_type where
  "TypeAIGoalAnalysis = TObject [
    (''id'', False, TString),
    (''createdAt'', False, TString),
    (''goal'', False, TString),
    (''summary'', False, TString),
    (''marketRead'', False, TString),
    (''humanFactors'', False, TArray TString),
    (''strategyDrafts'', False, TArray TypeAIGoalStrategyDraft),
    (''watchSignals'', False, TArray TypeAIGoalWatchSignal),
    (''execution'', False, TypeAIGoalExecutionPlan),
    (''context'', False, TObject [
      (''symbols'', False, TArray TString),
      (''newsCount'', False, TNumber),
      (''macroCount'', False, TNumber),
      (''onchainCount'', False, TNumber),
      (''existingStrategyCount'', False, TNumber),
      (''existingStrategyNames'', False, TArray TString),
      (''marketContextHighlights'', True, TArray TypeAIGoalMarketContextHighlight),
      (''recentRunCount'', True, TNumber),
      (''recentRunSummaries'', True, TArray TypeAIGoalRecentRunSummary),
      (''execution'', True, TypeAIGoalExecutionContext),
      (''operatorConstraints'', True, TObject [
        (''behaviorConstraints'', False, TArray TString),
        (''marketNarrativeFocus'', False, TArray TString),
        (''avoidScenarios'', False, TArray TString)]),
      (''notes'', False, TArray TString)]),
    (''ai'', False, TObject [
      (''status'', False, TUnion [TLit (js ''ok''), TLit (js ''fallback''), TString]),
      (''family'', False, TString),
      (''model'', False, TString),
      (''baseUrl'', False, TString),
      (''latencyMs'', False, TNumber),
      (''error'', True, TString),
      (''contextHash'', True, TString)])]"

definition TypeAIGoalRunActionStatus :: ts_type where
  "TypeAIGoalRunActionStatus = TUnion [TLit (js ''done''), TLit (js ''ready''), TLit (js ''manual''), TLit (js ''blocked''), TString]"

definition TypeAIGoalRunAction :: ts_type where
  "TypeAIGoalRunAction = TObject [
    (''id'', False, TString),
    (''status'', False, TypeAIGoalRunActionStatus),
    (''relatedId'', True, TString),
    (''href'', True, TString),
    (''note'', True, TString),
    (''updatedAt'', False, TString)]"

definition TypeAIGoalRunActionPatch :: ts_type where
  "TypeAIGoalRunActionPatch = TObject [
    (''status'', False, TypeAIGoalRunActionStatus),
    (''relatedId'', True, TString),
    (''href'', True, TString),
    (''note'', True, TString)]"

definition TypeAIGoalRun :: ts_type where
  "TypeAIGoalRun = TObject [
    (''id'', False, TString),
    (''userId'', False, TString),
    (''createdAt'', False, TString),
    (''updatedAt'', False, TString),
    (''goal'', False, TString),
    (''summary'', False, TString),
    (''symbols'', False, TArray TString),
    (''horizon'', True, TString),
    (''riskPreference'', True, TString),
    (''status'', False, TUnion [TLit (js ''ok''), TLit (js ''fallback''), TString]),
    (''aiStatus'', False, TUnion [TLit (js ''ok''), TLit (js ''fallback''), TString]),
    (''aiModel'', True, TString),
    (''executionMode'', False, TString),
    (''strategyDraftCount'', False, TNumber),
    (''contextNewsCount'', False, TNumber),
    (''contextMacroCount'', False, TNumber),
    (''contextOnchainCount'', False, TNumber),
    (''analysis'', True, TypeAIGoalAnalysis),
    (''actions'', True, TArray TypeAIGoalRunAction)]"

definition TypePredictionMarket :: ts_type where
  "TypePredictionMarket = TObject [
    (''source'', False, TString),
    (''marketId'', False, TString),
    (''conditionId'', True, TString),
    (''question'', False, TString),
    (''endDate'', True, TString),
    (''category'', True, TString),
    (''tags'', True, TArray TString),
    (''createdAt'', False, TString)]"

definition TypePredictionQuote :: ts_type where
  "TypePredictionQuote = TObject [
    (''source'', False, TString),
    (''marketId'', False, TString),
    (''tokenId'', False, TString),
    (''ts'', False, TString),
    (''mid'', True, TNumber),
    (''last'', True, TNumber),
    (''bid'', True, TNumber),
    (''ask'', True, TNumber),
    (''volume24h'', True, TNumber)]"

definition TypePredictionTrade :: ts_type where
  "TypePredictionTrade = TObject [
    (''source'', False, TString),
    (''marketId'', False, TString),
    (''tokenId'', False, TString),
    (''ts'', False, TString),
    (''side'', False, TString),
    (''price'', False, TNumber),
    (''size'', False, TNumber),
    (''txHash'', False, TString)]"

definition TypeWallet :: ts_type where
  "TypeWallet = TObject [
    (''id'', False, TString),
    (''userId'', False, TString),
    (''label'', False, TString),
    (''address'', False, TString),
    (''usdcBalanceCached'', True, TNumber),
    (''usdcAllowanceCached'', True, TNumber),
    (''cachedAt'', True, TString),
    (''createdAt'', False, TString),
    (''updatedAt'', False, TString)]"

definition TypeWalletBalance :: ts_type where
  "TypeWalletBalance = TObject [
    (''balanceUsdc'', False, TNumber),
    (''allowanceUsdc'', False, TNumber),
    (''fetchedAt'', False, TString)]"

definition TypeWalletPosition :: ts_type where
  "TypeWalletPosition = TObject [
    (''tokenId'', False, TString),
    (''marketId'', True, TString),
    (''outcome'', True, TString),
    (''balance'', False, TNumber),
    (''updatedAt'', False, TString)]"

definition TypeCreateWallet :: ts_type where
  "TypeCreateWallet = TObject [
    (''label'', False, TString),
    (''privateKey'', False, TString),
    (''expectedAddress'', True, TString)]"

definition TypePredictionRisk :: ts_type where
  "TypePredictionRisk = TObject [
    (''maxNotionalUsd'', False, TNumber),
    (''maxOpenMarkets'', False, TNumber),
    (''maxSlippageBps'', False, TNumber),
    (''dailyLossCapUsd'', False, TNumber)]"

definition TypePredictionStrategy :: ts_type where
  "TypePredictionStrategy = TObject [
    (''id'', False, TString),
    (''userId'', False, TString),
    (''name'', False, TString),
    (''marketId'', False, TString),
    (''outcome'', False, TUnion [TLit (js ''YES''), TLit (js ''NO'')]),
    (''risk'', False, TypePredictionRisk),
    (''live'', False, TObject [
      (''enabled'', False, TBoolean),
      (''mode'', True, TString),
      (''walletId'', True, TString)]),
    (''params'', True, TUnknown),
    (''currentVersion'', False, TNumber),
    (''createdAt'', False, TString),
    (''updatedAt'', False, TString)]"

definition TypeCreatePredictionStrategy :: ts_type where
  "TypeCreatePredictionStrategy = TObject [
    (''name'', False, TString),
    (''marketId'', False, TString),
    (''outcome'', False, TUnion [TLit (js ''YES''), TLit (js ''NO'')]),
    (''risk'', False, TypePredictionRisk),
    (''params'', True, TUnknown)]"

definition TypePredictionOrder :: ts_type where
  "TypePredictionOrder = TObject [
    (''id'', False, TString),
    (''clientOrderId'', False, TString),
    (''strategyId'', False, TString),
    (''walletId'', False, TString),
    (''marketId'', False, TString),
    (''tokenId'', False, TString),
    (''outcome'', False, TUnion [TLit (js ''YES''), TLit (js ''NO'')]),
    (''side'', False, TUnion [TLit (js ''BUY''), TLit (js ''SELL'')]),
    (''price'', False, TNumber),
    (''size'', False, TNumber),
    (''midAtSubmit'', True, TNumber),
    (''slippageBps'', True, TNumber),
    (''status'', False, TString),
    (''exchangeOrderId'', True, TString),
    (''filled'', True, TNumber),
    (''avgFillPrice'', True, TNumber),
    (''realisedPnlUsd'', True, TNumber),
    (''submittedAt'', False, TString),
    (''lastEventAt'', False, TString)]"

definition TypeDashboardSummary :: ts_type where
  "TypeDashboardSummary = TObject [
    (''system'', False, TObject [
      (''tradingHalted'', False, TBoolean),
      (''haltedReason'', False, TString),
      (''haltedBy'', False, TString),
      (''haltedSince'', False, TUnion [TString, TNull])]),
    (''portfolio'', False, TObject [
      (''totalUsd'', False, TNumber),
      (''accountCount'', False, TNumber),
      (''strategyCount'', False, TNumber),
      (''walletCount'', False, TNumber)]),
    (''pnl'', False, TObject [
      (''realised24hUsd'', False, TNumber),
      (''realised30dUsd'', False, TNumber),
      (''tradesLast24h'', False, TNumber)]),
    (''openOrders'', False, TObject [
      (''count'', False, TNumber),
      (''openNotionalUsd'', False, TNumber)]),
    (''recommendations'', False, TObject [
      (''pendingCount'', False, TNumber),
      (''topPendingIds'', False, TArray TString)]),
    (''aiBudget'', False, TObject [
      (''usdSpentToday'', False, TNumber),
      (''usdCapPerDay'', False, TNumber),
      (''anthropicConfigured'', False, TBoolean),
      (''openaiConfigured'', False, TBoolean),
      (''currentFamily'', False, TString)]),
    (''generatedAt'', False, TString),
    (''notes'', True, TArray TString)]"

definition TypeStrategyPerformanceKPIs :: ts_type where
  "TypeStrategyPerformanceKPIs = TObject [
    (''totalPnlUsd'', False, TNumber),
    (''realised24hUsd'', False, TNumber),
    (''realised30dUsd'', False, TNumber),
    (''tradesTotal'', False, TNumber),
    (''tradesLast24h'', False, TNumber),
    (''winRate'', False, TNumber),
    (''maxDrawdownPct'', False, TNumber),
    (''lastTradeAt'', False, TUnion [TString, TNull]),
    (''currentOpenNotionalUsd'', False, TNumber)]"

definition TypeStrategyEquityPoint :: ts_type where
  "TypeStrategyEquityPoint = TObject [
    (''ts'', False, TString),
    (''equityUsd'', False, TNumber)]"

definition TypeStrategyPerformanceOrder :: ts_type where
  "TypeStrategyPerformanceOrder = TObject [
    (''clientOrderId'', False, TString),
    (''exchangeOrderId'', True, TString),
    (''symbol'', False, TString),
    (''side'', False, TypeOrderSide),
    (''type'', False, TypeOrderType),
    (''qty'', False, TNumber),
    (''price'', True, TNumber),
    (''filled'', False, TNumber),
    (''avgFillPrice'', False, TNumber),
    (''status'', False, TypeOrderStatus),
    (''mode'', False, TypeLiveMode),
    (''realisedPnlUsd'', False, TNumber),
    (''submittedAt'', False, TString),
    (''lastEventAt'', False, TString)]"

definition TypeStrategyPerformance :: ts_type where
  "TypeStrategyPerformance = TObject [
    (''strategyId'', False, TString),
    (''userId'', False, TString),
    (''isLive'', False, TBoolean),
    (''mode'', False, TString),
    (''kpis'', False, TypeStrategyPerformanceKPIs),
    (''equityCurve'', False, TArray TypeStrategyEquityPoint),
    (''recentOrders'', False, TArray TypeStrategyPerformanceOrder),
    (''notes'', True, TArray TString)]"

definition TypeDepStatus :: ts_type where
  "TypeDepStatus = TObject [
    (''status'', False, TUnion [TLit (js ''ok''), TLit (js ''error''), TLit (js ''disabled'')]),
    (''latencyMs'', True, TNumber),
    (''lastCheckAt'', False, TString),
    (''err'', True, TString)]"

definition TypeSettingsSystemInfo :: ts_type where
  "TypeSettingsSystemInfo = TObject [
    (''version'', False, TString),
    (''buildAt'', False, TString),
    (''envFlags'', False, TRecord TUnknown),
    (''deps'', False, TRecord TypeDepStatus),
    (''cronStatus'', False, TRecord TUnknown)]"

definition TypeUserRole :: ts_type where
  "TypeUserRole = TUnion [TLit (js ''admin''), TLit (js ''member'')]"

definition TypeUser :: ts_type where
  "TypeUser = TObject [
    (''id'', False, TString),
    (''email'', False, TString),
    (''role'', False, TypeUserRole),
    (''createdAt'', False, TString),
    (''updatedAt'', True, TString),
    (''lastLoginAt'', True, TString),
    (''invitedBy'', True, TString)]"

definition TypeInviteResult :: ts_type where
  "TypeInviteResult = TObject [
    (''inviteUrl'', False, TString),
    (''token'', False, TString),
    (''expiresAt'', False, TString)]"

definition TypeOption :: ts_type where
  "TypeOption = TObject [
    (''name'', False, TString),
    (''positionLevel'', False, TNumber),
    (''openPositionStopTime'', False, TNumber),
    (''execSymbol'', False, TString),
    (''orderGroupMargin'', False, TNumber),
    (''stopProfitRate'', False, TNumber),
    (''stopLossRate'', False, TNumber),
    (''profitRateAfterAtAddPosition'', False, TNumber),
    (''createCostOrderInProfit'', False, TBoolean),
    (''createPositions'', False, TArray (TObject [
      (''marginRate'', False, TNumber),
      (''lossAddRate'', False, TNumber)])),
    (''userEmail'', True, TString),
    (''userApiKey'', True, TString),
    (''userSecretKey'', True, TString),
    (''id'', True, TString),
    (''risk'', True, TypeRiskCaps),
    (''live'', True, TypeLiveConfig),
    (''aiRunId'', True, TString),
    (''currentVersion'', True, TNumber)]"

definition TypeApproveRecommendation :: ts_type where
  "TypeApproveRecommendation = TObject [
    (''recommendation'', False, TypeRecommendation),
    (''strategy'', False, TypeOption),
    (''newVersion'', False, TNumber)]"

subsection \<open>Declarations of \<^verbatim>\<open>api-client.ts\<close>\<close>

definition TypeOhlcvBar :: ts_type where
  "TypeOhlcvBar = TObject [
    (''exchange'', False, TString),
    (''symbol'', False, TString),
    (''timeframe'', False, TString),
    (''time'', False, TString),
    (''open'', False, TNumber),
    (''high'', False, TNumber),
    (''low'', False, TNumber),
    (''close'', False, TNumber),
    (''volume'', False, TNumber)]"

definition TypeSystemState :: ts_type where
  "TypeSystemState = TObject [
    (''id'', False, TString),
    (''tradingHalted'', False, TBoolean),
    (''haltedAt'', True, TString),
    (''haltedReason'', True, TString),
    (''haltedBy'', True, TString)]"

definition TypePortfolioLimits :: ts_type where
  "TypePortfolioLimits = TObject [
    (''userId'', False, TString),
    (''maxOpenNotionalUsd'', False, TNumber),
    (''maxOpenPositionsCount'', False, TNumber),
    (''maxDailyLossUsd'', False, TNumber)]"

definition TypeAuditEntry :: ts_type where
  "TypeAuditEntry = TObject [
    (''id'', False, TString),
    (''ts'', False, TString),
    (''actor'', False, TString),
    (''action'', False, TString),
    (''resourceType'', False, TString),
    (''resourceId'', True, TString),
    (''method'', False, TString),
    (''path'', False, TString),
    (''statusCode'', False, TNumber),
    (''payload'', True, TUnknown),
    (''ip'', True, TString),
    (''userAgent'', True, TString),
    (''requestId'', True, TString)]"

definition TypeAIConfig :: ts_type where
  "TypeAIConfig = TObject [
    (''modelFamily'', False, TUnion [TLit (js ''claude''), TLit (js ''openai''), TLit (js ''deepseek'')]),
    (''anthropicPrimaryModel'', False, TString),
    (''anthropicRefineModel'', False, TString),
    (''openaiPrimaryModel'', False, TString),
    (''openaiRefineModel'', False, TString),
    (''deepseekPrimaryModel'', False, TString),
    (''deepseekRefineModel'', False, TString),
    (''anthropicBaseURL'', False, TString),
    (''openaiBaseURL'', False, TString),
    (''deepseekBaseURL'', False, TString),
    (''budgetUsdPerStudy'', False, TNumber),
    (''budgetUsdPerDay'', False, TNumber),
    (''lookbackDays'', False, TNumber),
    (''streamingEnabled'', False, TBoolean),
    (''updatedAt'', False, TString),
    (''anthropicConfigured'', False, TBoolean),
    (''openaiConfigured'', False, TBoolean),
    (''anthropicApiKeyConfigured'', False, TBoolean),
    (''openaiApiKeyConfigured'', False, TBoolean),
    (''deepseekApiKeyConfigured'', False, TBoolean),
    (''anthropicApiKeyPreview'', False, TString),
    (''openaiApiKeyPreview'', False, TString),
    (''deepseekApiKeyPreview'', False, TString),
    (''source'', False, TUnion [TLit (js ''mongo''), TLit (js ''env''), TLit (js ''mixed'')])]"

definition TypeAIConfigPatch :: ts_type where
  "TypeAIConfigPatch = TInter (ts_partial TypeAIConfig) (TObject [
    (''anthropicApiKey'', True, TString),
    (''openaiApiKey'', True, TString),
    (''deepseekApiKey'', True, TString)])"

definition TypeAIPrompts :: ts_type where
  "TypeAIPrompts = TObject [
    (''defineSearchSpace'', False, TString),
    (''refineSearchSpace'', False, TString),
    (''finalRationale'', False, TString),
    (''version'', False, TString),
    (''promptsHash'', False, TString),
    (''modelFamilyActive'', False, TString),
    (''primaryModelActive'', False, TString),
    (''refineModelActive'', False, TString)]"

definition TypeAITestResult :: ts_type where
  "TypeAITestResult = TObject [
    (''ok'', False, TBoolean),
    (''family'', False, TString),
    (''modelTested'', False, TString),
    (''baseUrl'', False, TString),
    (''latencyMs'', False, TNumber),
    (''error'', True, TString)]"

lemmas ts_type_defs [ts_defs] =
  BacktestStateValue_def
  TypeCreateOptionResponse_def
  TypeRiskCaps_def
  TypeLiveMode_def
  TypeLiveConfig_def
  TypeOrderStatus_def
  TypeOrderSide_def
  TypeOrderType_def
  TypeOrderLog_def
  TypeSetLive_def
  TypeSubmitOrder_def
  TypeMainnetStatus_def
  TypeExchange_def
  TypePermissions_def
  TypeAccount_def
  TypeCreateAccount_def
  TypeBalance_def
  TypePosition_def
  TypeBacktestTrade_def
  TypeBacktest_def
  TypeCreateBacktest_def
  TypeBacktestHandle_def
  TypeEquityPoint_def
  TypeExchangeMeta_def
  TypePortfolioExchangeBreakdown_def
  TypePortfolioAssetBreakdown_def
  TypePortfolioSummary_def
  TypeRecommendationStatus_def
  TypeRecommendationPeriod_def
  TypeRecommendation_def
  TypeOptimizationCost_def
  TypeOptimizationRun_def
  TypeStudyHandle_def
  TypeMacroPoint_def
  TypeOnchainPoint_def
  TypeNewsItem_def
  TypeAIGoalRequest_def
  TypeAIGoalProviderStatus_def
  TypeAIGoalStrategyDraft_def
  TypeAIGoalWatchSignal_def
  TypeAIGoalExecutionPlan_def
  TypeAIGoalExecutionContext_def
  TypeAIGoalMarketContextHighlight_def
  TypeAIGoalRecentRunSummary_def
  TypeAIGoalAnalysis_def
  TypeAIGoalRunActionStatus_def
  TypeAIGoalRunAction_def
  TypeAIGoalRunActionPatch_def
  TypeAIGoalRun_def
  TypePredictionMarket_def
  TypePredictionQuote_def
  TypePredictionTrade_def
  TypeWallet_def
  TypeWalletBalance_def
  TypeWalletPosition_def
  TypeCreateWallet_def
  TypePredictionRisk_def
  TypePredictionStrategy_def
  TypeCreatePredictionStrategy_def
  TypePredictionOrder_def
  TypeDashboardSummary_def
  TypeStrategyPerformanceKPIs_def
  TypeStrategyEquityPoint_def
  TypeStrategyPerformanceOrder_def
  TypeStrategyPerformance_def
  TypeDepStatus_def
  TypeSettingsSystemInfo_def
  TypeUserRole_def
  TypeUser_def
  TypeInviteResult_def
  TypeOption_def
  TypeApproveRecommendation_def
  TypeOhlcvBar_def
  TypeSystemState_def
  TypePortfolioLimits_def
  TypeAuditEntry_def
  TypeAIConfig_def
  TypeAIConfigPatch_def
  TypeAIPrompts_def
  TypeAITestResult_def

end
