(* ===== verification/Ws_Client.thy ===== *)
theory Ws_Client
  imports Interfaces Ts_Types
begin

section \<open>The WebSocket hub\<close>

text \<open>
  \<^verbatim>\<open>src/client/data/ws-client.ts\<close>: \<open>HubClient\<close>, one connection shared by all subscriptions, which
  reconnects with exponential back-off and re-issues its subscriptions, and the stream hooks built on
  it. The browser's sockets are part of the state: each has a ready state and the messages sent on
  it, so that what the gateway believes can be compared with what the client wants. A step is one
  call of the client's API, one socket event, or one timer. The hub's \<open>Map\<close> and \<open>Set\<close> objects are
  lists in insertion order; a listener is the identity of its function.
\<close>

subsection \<open>State\<close>

datatype WsTopic = account | backtest | strategy | optimization

fun topic_name :: "WsTopic \<Rightarrow> jstr" where
  "topic_name account = js ''account''"
| "topic_name backtest = js ''backtest''"
| "topic_name strategy = js ''strategy''"
| "topic_name optimization = js ''optimization''"

definition WsEvent :: ts_type where
  "WsEvent = TObject
     [(''type'', False, TString),
      (''topic'', True, TUnion [TLit (js ''account''), TLit (js ''backtest''), TLit (js ''strategy''),
         TLit (js ''optimization'')]),
      (''id'', True, TString), (''accountId'', True, TString), (''payload'', True, TUnknown),
      (''error'', True, TString), (''reason'', True, TString), (''message'', True, TString)]"

definition tk :: "jstr \<Rightarrow> jstr \<Rightarrow> jstr" where
  "tk topic i = topic @ 58 # i"

abbreviation key_of :: "WsTopic \<Rightarrow> jstr \<Rightarrow> jstr" where
  "key_of t i \<equiv> tk (topic_name t) i"

datatype message = Subscribe WsTopic jstr | Unsubscribe WsTopic jstr

fun wire :: "message \<Rightarrow> jsval" where
  "wire (Subscribe t i) = obj [(''type'', S ''subscribe''), (''topic'', Str (topic_name t)), (''id'', Str i)]"
| "wire (Unsubscribe t i) = obj [(''type'', S ''unsubscribe''), (''topic'', Str (topic_name t)), (''id'', Str i)]"

datatype ready = Connecting | Open | Closing | Closed

record socket =
  ready_state :: ready
  sent :: "message list"

type_synonym listener = nat

record hub =
  ws :: "nat option"
  sockets :: "socket list"
  listeners :: "(jstr \<times> listener list) list"
  subscribed :: "jstr list"
  subscribedMeta :: "(jstr \<times> WsTopic \<times> jstr) list"
  backoff :: nat
  closing :: bool
  timers :: "nat list"

definition maxBackoff :: nat where
  "maxBackoff = 30000"

definition new_hub :: hub where
  "new_hub = \<lparr>ws = None, sockets = [], listeners = [], subscribed = [], subscribedMeta = [],
     backoff = 500, closing = False, timers = []\<rparr>"

subsection \<open>Operations\<close>

text \<open>\<^verbatim>\<open>new WebSocket(...)\<close> becomes the current socket, whatever happened to the previous one.\<close>

definition connect :: "hub \<Rightarrow> hub" where
  "connect h = (if closing h then h
     else h\<lparr>ws := Some (length (sockets h)), sockets := sockets h @ [\<lparr>ready_state = Connecting, sent = []\<rparr>]\<rparr>)"

definition send_message :: "message \<Rightarrow> hub \<Rightarrow> hub" where
  "send_message m h = (case ws h of None \<Rightarrow> h
     | Some n \<Rightarrow> if ready_state (sockets h ! n) = Open
         then h\<lparr>sockets := (sockets h)[n := (sockets h ! n)\<lparr>sent := sent (sockets h ! n) @ [m]\<rparr>]\<rparr>
         else h)"

definition on_open :: "hub \<Rightarrow> hub" where
  "on_open h = fold (\<lambda>k h. case map_of (subscribedMeta h) k of None \<Rightarrow> h
       | Some (t, i) \<Rightarrow> send_message (Subscribe t i) h)
     (subscribed h) (h\<lparr>backoff := 500\<rparr>)"

text \<open>
  Routing: the key of a message, then the listeners it is handed to, in order; a message that is not JSON
  or is falsy is dropped. The loops have no handler for exceptions: a listener that throws is the last one
  that is told, and those after it do not get the message. Which listeners throw on which messages is a
  parameter, \<open>throws\<close>.
\<close>

definition route_key :: "jsval \<Rightarrow> jstr option" where
  "route_key v =
     (if truthy (fld v ''topic'') \<and> truthy (fld v ''id'')
      then Some (tk (to_str (fld v ''topic'')) (to_str (fld v ''id'')))
      else if truthy (fld v ''accountId'') then Some (tk (js ''account'') (to_str (fld v ''accountId'')))
      else None)"

fun tell :: "(listener \<Rightarrow> jsval \<Rightarrow> bool) \<Rightarrow> jsval \<Rightarrow> listener list \<Rightarrow> (listener \<times> jsval) list" where
  "tell throws v [] = []"
| "tell throws v (l # ls) = (l, v) # (if throws l v then [] else tell throws v ls)"

definition recipients :: "jsval \<Rightarrow> hub \<Rightarrow> listener list" where
  "recipients v h =
     (case route_key v of
        None \<Rightarrow> concat (map snd (listeners h))
      | Some k \<Rightarrow> (case map_of (listeners h) k of None \<Rightarrow> [] | Some ls \<Rightarrow> ls))"

definition on_message :: "(listener \<Rightarrow> jsval \<Rightarrow> bool) \<Rightarrow> jstr \<Rightarrow> hub \<Rightarrow> (listener \<times> jsval) list" where
  "on_message throws data h =
     (case json_parse data of None \<Rightarrow> []
      | Some v \<Rightarrow> if \<not> truthy v then [] else tell throws v (recipients v h))"

text \<open>Listeners of which none throws.\<close>

abbreviation calm :: "listener \<Rightarrow> jsval \<Rightarrow> bool" where
  "calm \<equiv> \<lambda>l v. False"

lemma tell_calm: "list_all (\<lambda>l. \<not> throws l v) ls \<Longrightarrow> tell throws v ls = map (\<lambda>l. (l, v)) ls"
  by (induction ls) auto

lemma tell_all_calm [simp]: "tell calm v ls = map (\<lambda>l. (l, v)) ls"
  by (induction ls) auto

lemma tell_prefix: "\<exists>k. tell throws v ls = take k (map (\<lambda>l. (l, v)) ls)"
proof (induction ls)
  case (Cons l ls)
  then obtain k where "tell throws v ls = take k (map (\<lambda>l. (l, v)) ls)" by blast
  then have "tell throws v (l # ls) = take (if throws l v then 1 else Suc k) (map (\<lambda>l. (l, v)) (l # ls))" by simp
  then show ?case by blast
qed simp

lemma tell_stops:
  "tell throws v ls \<noteq> map (\<lambda>l. (l, v)) ls \<Longrightarrow> tell throws v ls \<noteq> [] \<and> throws (fst (last (tell throws v ls))) v"
  by (induction ls) (auto split: if_splits)

definition on_close :: "hub \<Rightarrow> hub" where
  "on_close h =
     (let h = h\<lparr>ws := None\<rparr>
      in if closing h then h
         else h\<lparr>timers := timers h @ [min (backoff h) maxBackoff], backoff := min (backoff h * 2) maxBackoff\<rparr>)"

definition set_ready :: "nat \<Rightarrow> ready \<Rightarrow> hub \<Rightarrow> hub" where
  "set_ready n r h = h\<lparr>sockets := (sockets h)[n := (sockets h ! n)\<lparr>ready_state := r\<rparr>]\<rparr>"

text \<open>\<^verbatim>\<open>this.ws?.close()\<close>\<close>

definition close_current :: "hub \<Rightarrow> hub" where
  "close_current h = (case ws h of None \<Rightarrow> h
     | Some n \<Rightarrow> if ready_state (sockets h ! n) = Closed then h else set_ready n Closing h)"

text \<open>\<open>Map.set\<close> and \<open>Map.delete\<close> on a list in insertion order.\<close>

fun assoc_put :: "'a \<Rightarrow> 'b \<Rightarrow> ('a \<times> 'b) list \<Rightarrow> ('a \<times> 'b) list" where
  "assoc_put k v [] = [(k, v)]"
| "assoc_put k v ((k', v') # m) = (if k' = k then (k, v) # m else (k', v') # assoc_put k v m)"

definition assoc_del :: "'a \<Rightarrow> ('a \<times> 'b) list \<Rightarrow> ('a \<times> 'b) list" where
  "assoc_del k m = filter (\<lambda>(k', _). k' \<noteq> k) m"

definition add_listener :: "jstr \<Rightarrow> listener \<Rightarrow> hub \<Rightarrow> hub" where
  "add_listener k l h =
     (let ls = (case map_of (listeners h) k of None \<Rightarrow> [] | Some ls \<Rightarrow> ls)
      in h\<lparr>listeners := assoc_put k (if l \<in> set ls then ls else ls @ [l]) (listeners h)\<rparr>)"

definition subscribe :: "WsTopic \<Rightarrow> jstr \<Rightarrow> listener \<Rightarrow> hub \<Rightarrow> hub" where
  "subscribe t i l h =
     (let h = (if ws h = None then connect h else h);
          key = key_of t i;
          h = add_listener key l h
      in if key \<in> set (subscribed h) then h
         else send_message (Subscribe t i)
           (h\<lparr>subscribed := subscribed h @ [key],
              subscribedMeta := assoc_put key (t, i) (subscribedMeta h)\<rparr>))"

definition unsubscribe :: "WsTopic \<Rightarrow> jstr \<Rightarrow> listener \<Rightarrow> hub \<Rightarrow> hub" where
  "unsubscribe t i l h =
     (let key = key_of t i
      in case map_of (listeners h) key of
           None \<Rightarrow> h
         | Some cur \<Rightarrow>
             (let cur = remove1 l cur;
                  h = h\<lparr>listeners := assoc_put key cur (listeners h)\<rparr>
              in if cur = []
                 then send_message (Unsubscribe t i)
                   (h\<lparr>listeners := assoc_del key (listeners h),
                      subscribed := filter (\<lambda>k. k \<noteq> key) (subscribed h),
                      subscribedMeta := assoc_del key (subscribedMeta h)\<rparr>)
                 else h))"

definition shutdown :: "hub \<Rightarrow> hub" where
  "shutdown h = close_current (h\<lparr>closing := True\<rparr>)"

subsection \<open>Steps\<close>

datatype hub_event =
    Sub WsTopic jstr listener
  | Unsub WsTopic jstr listener
  | SocketOpen nat
  | SocketMessage nat jstr
  | SocketError nat
  | SocketClose nat
  | Timer nat
  | Shutdown

text \<open>
  The browser opens a connecting socket, delivers messages on open ones, and closes any socket that
  is not closed; timers fire in any order.
\<close>

inductive hub_step :: "hub \<Rightarrow> hub_event \<Rightarrow> hub \<Rightarrow> bool" where
  sub: "hub_step h (Sub t i l) (subscribe t i l h)"
| unsub: "hub_step h (Unsub t i l) (unsubscribe t i l h)"
| opened: "n < length (sockets h) \<Longrightarrow> ready_state (sockets h ! n) = Connecting \<Longrightarrow>
    hub_step h (SocketOpen n) (on_open (set_ready n Open h))"
| message: "n < length (sockets h) \<Longrightarrow> ready_state (sockets h ! n) = Open \<Longrightarrow>
    hub_step h (SocketMessage n d) h"
| error: "n < length (sockets h) \<Longrightarrow> ready_state (sockets h ! n) \<noteq> Closed \<Longrightarrow>
    hub_step h (SocketError n) (close_current h)"
| closed: "n < length (sockets h) \<Longrightarrow> ready_state (sockets h ! n) \<noteq> Closed \<Longrightarrow>
    hub_step h (SocketClose n) (on_close (set_ready n Closed h))"
| timer: "k < length (timers h) \<Longrightarrow>
    hub_step h (Timer k) (connect (h\<lparr>timers := take k (timers h) @ drop (Suc k) (timers h)\<rparr>))"
| shut: "hub_step h Shutdown (shutdown h)"

inductive_cases sub_cases: "hub_step h (Sub t i l) h'"
inductive_cases timer_cases: "hub_step h (Timer k) h'"
inductive_cases closed_cases: "hub_step h (SocketClose n) h'"
inductive_simps opened_iff: "hub_step h (SocketOpen n) h'"

inductive reachable :: "hub \<Rightarrow> bool" where
  start: "reachable new_hub"
| step: "reachable h \<Longrightarrow> hub_step h e h' \<Longrightarrow> reachable h'"

end
