(* ===== verification/Ws_Invariants.thy ===== *)
theory Ws_Invariants
  imports Ws_Client
begin

section \<open>Correctness of the WebSocket hub\<close>

text \<open>
  The invariant of \<open>HubClient\<close> over every reachable state of \<open>Ws_Client\<close>: the three tables agree,
  the back-off and the pending delays stay between half a second and thirty seconds, a lost
  connection always leaves a reconnection timer, and what was sent on the current open socket
  amounts to exactly the current subscriptions. The abstract view of the hub is the set of
  (topic, id, listener) triples; the operations refine the set operations, and a message reaches
  exactly the listeners of its triple.
\<close>

subsection \<open>Keys and tables\<close>

lemma topic_name_no_colon: "58 \<notin> set (topic_name t)"
  by (cases t) (simp_all add: js_def)

lemma topic_name_inj: "topic_name t = topic_name t' \<longleftrightarrow> t = t'"
  by (cases t; cases t') simp_all

lemma append_sep_inj: "c \<notin> set a \<Longrightarrow> c \<notin> set b \<Longrightarrow> a @ c # x = b @ c # y \<longleftrightarrow> a = b \<and> x = y"
proof (induction a arbitrary: b)
  case Nil
  then show ?case by (cases b) auto
next
  case (Cons d a)
  then show ?case by (cases b) auto
qed

lemma key_of_inj [simp]: "key_of t i = key_of t' i' \<longleftrightarrow> t = t' \<and> i = i'"
  using append_sep_inj [OF topic_name_no_colon topic_name_no_colon] by (simp add: tk_def topic_name_inj)

lemma map_of_assoc_put [simp]: "map_of (assoc_put k v m) = (map_of m)(k \<mapsto> v)"
  by (induction k v m rule: assoc_put.induct) (auto simp: fun_eq_iff)

lemma keys_assoc_put: "map fst (assoc_put k v m) = (if k \<in> set (map fst m) then map fst m else map fst m @ [k])"
  by (induction k v m rule: assoc_put.induct) auto

lemma assoc_put_fresh: "k \<notin> set (map fst m) \<Longrightarrow> assoc_put k v m = m @ [(k, v)]"
  by (induction k v m rule: assoc_put.induct) auto

lemma set_assoc_put: "x \<in> set (assoc_put k v m) \<Longrightarrow> x = (k, v) \<or> x \<in> set m"
  by (induction k v m rule: assoc_put.induct) (auto split: if_splits)

lemma map_of_assoc_del: "map_of (assoc_del k m) = (map_of m)(k := None)"
  by (induction m) (auto simp: assoc_del_def fun_eq_iff)

lemma keys_assoc_del: "map fst (assoc_del k m) = filter (\<lambda>j. j \<noteq> k) (map fst m)"
  by (induction m) (auto simp: assoc_del_def)

lemma set_assoc_del: "x \<in> set (assoc_del k m) \<longleftrightarrow> x \<in> set m \<and> fst x \<noteq> k"
  by (auto simp: assoc_del_def)

subsection \<open>The invariant\<close>

definition server_step :: "message \<Rightarrow> (WsTopic \<times> jstr) set \<Rightarrow> (WsTopic \<times> jstr) set" where
  "server_step m A = (case m of Subscribe t i \<Rightarrow> insert (t, i) A | Unsubscribe t i \<Rightarrow> A - {(t, i)})"

text \<open>The subscriptions the gateway holds for a socket after the messages sent on it.\<close>

definition server_subs :: "message list \<Rightarrow> (WsTopic \<times> jstr) set" where
  "server_subs ms = fold server_step ms {}"

lemma server_subs_simps [simp]: "server_subs [] = {}" "server_subs (ms @ [m]) = server_step m (server_subs ms)"
  by (simp_all add: server_subs_def)

definition wanted :: "hub \<Rightarrow> (WsTopic \<times> jstr) set" where
  "wanted h = snd ` set (subscribedMeta h)"

definition tables_ok :: "hub \<Rightarrow> bool" where
  "tables_ok h \<longleftrightarrow> map fst (listeners h) = subscribed h \<and> map fst (subscribedMeta h) = subscribed h \<and>
     distinct (subscribed h) \<and> (\<forall>(k, ls) \<in> set (listeners h). ls \<noteq> [] \<and> distinct ls) \<and>
     (\<forall>(k, t, i) \<in> set (subscribedMeta h). k = key_of t i)"

definition timing_ok :: "hub \<Rightarrow> bool" where
  "timing_ok h \<longleftrightarrow> 500 \<le> backoff h \<and> backoff h \<le> maxBackoff \<and>
     (\<forall>d \<in> set (timers h). 500 \<le> d \<and> d \<le> maxBackoff)"

definition sockets_ok :: "hub \<Rightarrow> bool" where
  "sockets_ok h \<longleftrightarrow> (\<forall>n. ws h = Some n \<longrightarrow> n < length (sockets h)) \<and>
     (\<forall>s \<in> set (sockets h). ready_state s = Connecting \<longrightarrow> sent s = [])"

definition will_reconnect :: "hub \<Rightarrow> bool" where
  "will_reconnect h \<longleftrightarrow> ws h = None \<and> subscribed h \<noteq> [] \<and> \<not> closing h \<longrightarrow> timers h \<noteq> []"

definition coherent :: "hub \<Rightarrow> bool" where
  "coherent h \<longleftrightarrow> (\<forall>n. ws h = Some n \<longrightarrow> ready_state (sockets h ! n) = Open \<longrightarrow>
     server_subs (sent (sockets h ! n)) = wanted h)"

definition hub_inv :: "hub \<Rightarrow> bool" where
  "hub_inv h \<longleftrightarrow> tables_ok h \<and> timing_ok h \<and> sockets_ok h \<and> will_reconnect h \<and> coherent h"

lemmas inv_defs = tables_ok_def timing_ok_def sockets_ok_def will_reconnect_def coherent_def wanted_def

subsection \<open>Sending\<close>

lemma send_fields [simp]:
  "ws (send_message m h) = ws h" "listeners (send_message m h) = listeners h"
  "subscribed (send_message m h) = subscribed h" "subscribedMeta (send_message m h) = subscribedMeta h"
  "backoff (send_message m h) = backoff h" "closing (send_message m h) = closing h"
  "timers (send_message m h) = timers h" "length (sockets (send_message m h)) = length (sockets h)"
  by (simp_all add: send_message_def split: option.split)

lemma nth_upd: "(xs[n := y]) ! k = (if k = n \<and> n < length xs then y else xs ! k)"
  by (cases "n < length xs") (auto simp: nth_list_update list_update_beyond)

lemma send_ready [simp]:
  "ready_state (sockets (send_message m h) ! n) = ready_state (sockets h ! n)"
proof (cases "ws h")
  case (Some k)
  then show ?thesis
    by (cases "n = k"; cases "k < length (sockets h)") (auto simp: send_message_def list_update_beyond)
qed (simp add: send_message_def)

lemma send_sent:
  "ws h = Some n \<Longrightarrow> n < length (sockets h) \<Longrightarrow> ready_state (sockets h ! n) = Open \<Longrightarrow>
   sent (sockets (send_message m h) ! n) = sent (sockets h ! n) @ [m]"
  by (simp add: send_message_def)

lemma send_sockets_ok: "sockets_ok h \<Longrightarrow> sockets_ok (send_message m h)"
  unfolding sockets_ok_def
proof (intro conjI ballI impI)
  fix s
  assume ok: "(\<forall>n. ws h = Some n \<longrightarrow> n < length (sockets h)) \<and>
     (\<forall>s \<in> set (sockets h). ready_state s = Connecting \<longrightarrow> sent s = [])"
    and s: "s \<in> set (sockets (send_message m h))" "ready_state s = Connecting"
  then obtain k where k: "k < length (sockets h)" "s = sockets (send_message m h) ! k"
    by (metis in_set_conv_nth send_fields(8))
  show "sent s = []"
  proof (cases "ws h = Some k \<and> ready_state (sockets h ! k) = Open")
    case True
    with k s(2) show ?thesis by simp
  next
    case False
    then have "s = sockets h ! k"
      using k by (cases "ws h") (auto simp: send_message_def nth_upd)
    moreover have "sockets h ! k \<in> set (sockets h)" using k(1) by (rule nth_mem)
    ultimately show ?thesis using ok s(2) by metis
  qed
qed simp

lemma coherent_send:
  assumes "sockets_ok h"
    and "\<And>n. ws h = Some n \<Longrightarrow> ready_state (sockets h ! n) = Open \<Longrightarrow>
      server_step m (server_subs (sent (sockets h ! n))) = wanted h"
  shows "coherent (send_message m h)"
  using assms unfolding coherent_def wanted_def
  by (simp add: send_sent sockets_ok_def)

subsection \<open>Connecting and closing\<close>

lemma connect_fields [simp]:
  "listeners (connect h) = listeners h" "subscribed (connect h) = subscribed h"
  "subscribedMeta (connect h) = subscribedMeta h" "backoff (connect h) = backoff h"
  "closing (connect h) = closing h" "timers (connect h) = timers h"
  by (simp_all add: connect_def)

lemma connect_inv: "hub_inv h \<Longrightarrow> hub_inv (connect h)"
  by (auto simp: hub_inv_def inv_defs connect_def nth_append less_Suc_eq)

lemma connect_ws: "(ws (connect h) = None) = (ws h = None \<and> closing h)"
  by (simp add: connect_def)

lemma set_ready_fields [simp]:
  "ws (set_ready n r h) = ws h" "listeners (set_ready n r h) = listeners h"
  "subscribed (set_ready n r h) = subscribed h" "subscribedMeta (set_ready n r h) = subscribedMeta h"
  "backoff (set_ready n r h) = backoff h" "closing (set_ready n r h) = closing h"
  "timers (set_ready n r h) = timers h" "length (sockets (set_ready n r h)) = length (sockets h)"
  by (simp_all add: set_ready_def)

lemma set_ready_sockets_ok: "sockets_ok h \<Longrightarrow> r \<noteq> Connecting \<Longrightarrow> sockets_ok (set_ready n r h)"
  unfolding sockets_ok_def set_ready_def
  by (auto dest: set_update_subset_insert [THEN subsetD])

lemma close_current_inv: "hub_inv h \<Longrightarrow> hub_inv (close_current h)"
proof -
  assume h: "hub_inv h"
  show ?thesis
  proof (cases "ws h")
    case None
    with h show ?thesis by (simp add: close_current_def)
  next
    case (Some n)
    then have n: "n < length (sockets h)" using h by (simp add: hub_inv_def sockets_ok_def)
    have "sockets_ok (set_ready n Closing h)"
      using h by (intro set_ready_sockets_ok) (simp_all add: hub_inv_def)
    with h Some n show ?thesis
      by (auto simp: close_current_def hub_inv_def tables_ok_def timing_ok_def will_reconnect_def coherent_def
          set_ready_def)
  qed
qed

lemma on_close_inv: "hub_inv h \<Longrightarrow> hub_inv (on_close (set_ready n Closed h))"
proof -
  assume h: "hub_inv h"
  have "sockets_ok (set_ready n Closed h)"
    using h by (intro set_ready_sockets_ok) (simp_all add: hub_inv_def)
  with h show ?thesis
    by (auto simp: on_close_def hub_inv_def inv_defs Let_def maxBackoff_def)
qed

subsection \<open>Subscribing\<close>

lemma add_listener_fields [simp]:
  "ws (add_listener k l h) = ws h" "sockets (add_listener k l h) = sockets h"
  "subscribed (add_listener k l h) = subscribed h" "subscribedMeta (add_listener k l h) = subscribedMeta h"
  "backoff (add_listener k l h) = backoff h" "closing (add_listener k l h) = closing h"
  "timers (add_listener k l h) = timers h"
  by (simp_all add: add_listener_def Let_def)

lemma listener_lists_ok:
  assumes "\<forall>(k, ls) \<in> set (listeners h). ls \<noteq> [] \<and> distinct ls"
  shows "\<forall>(k, ls) \<in> set (listeners (add_listener k l h)). ls \<noteq> [] \<and> distinct ls"
  using assms
  by (auto simp: add_listener_def Let_def dest!: set_assoc_put map_of_SomeD split: option.splits if_splits)

lemma subscribe_known:
  assumes "hub_inv h" and "key_of t i \<in> set (subscribed h)"
  shows "hub_inv (add_listener (key_of t i) l h)"
proof -
  have "map fst (listeners (add_listener (key_of t i) l h)) = subscribed h"
    using assms by (simp add: add_listener_def Let_def keys_assoc_put hub_inv_def tables_ok_def)
  then show ?thesis
    using assms listener_lists_ok [of h "key_of t i" l]
    unfolding hub_inv_def inv_defs by simp
qed

lemma subscribe_fresh:
  assumes h: "hub_inv h" and fresh: "key_of t i \<notin> set (subscribed h)"
    and alive: "ws h \<noteq> None \<or> closing h"
  shows "hub_inv (send_message (Subscribe t i) ((add_listener (key_of t i) l h)
      \<lparr>subscribed := subscribed h @ [key_of t i],
       subscribedMeta := assoc_put (key_of t i) (t, i) (subscribedMeta h)\<rparr>))"
    (is "hub_inv (send_message _ ?g)")
proof -
  have keys: "key_of t i \<notin> set (map fst (listeners h))" "key_of t i \<notin> set (map fst (subscribedMeta h))"
    using h fresh by (simp_all add: hub_inv_def tables_ok_def del: set_map)
  have meta: "subscribedMeta ?g = subscribedMeta h @ [(key_of t i, t, i)]"
    using keys(2) by (simp add: assoc_put_fresh)
  have "map fst (listeners ?g) = subscribed h @ [key_of t i]"
    using keys(1) h
    by (simp add: add_listener_def Let_def keys_assoc_put hub_inv_def tables_ok_def del: set_map)
  then have "tables_ok ?g"
    using h fresh meta listener_lists_ok [of h "key_of t i" l]
    by (auto simp: hub_inv_def tables_ok_def)
  moreover have s: "sockets_ok ?g" using h by (simp add: hub_inv_def sockets_ok_def)
  moreover have "timing_ok ?g" "will_reconnect ?g"
    using h alive by (auto simp: hub_inv_def timing_ok_def will_reconnect_def)
  moreover have "coherent (send_message (Subscribe t i) ?g)"
  proof (rule coherent_send [OF s])
    fix n
    assume "ws ?g = Some n" "ready_state (sockets ?g ! n) = Open"
    then have "server_subs (sent (sockets ?g ! n)) = wanted h"
      using h by (simp add: hub_inv_def coherent_def)
    then show "server_step (Subscribe t i) (server_subs (sent (sockets ?g ! n))) = wanted ?g"
      using meta by (simp add: server_step_def wanted_def)
  qed
  ultimately show ?thesis
    using send_sockets_ok [OF s]
    by (simp add: hub_inv_def tables_ok_def timing_ok_def will_reconnect_def)
qed

lemma subscribe_inv: "hub_inv h \<Longrightarrow> hub_inv (subscribe t i l h)"
proof -
  assume h: "hub_inv h"
  define g where "g = (if ws h = None then connect h else h)"
  have g: "hub_inv g" using h connect_inv by (simp add: g_def)
  have alive: "ws g \<noteq> None \<or> closing g" using connect_ws [of h] by (auto simp: g_def simp del: not_None_eq)
  show ?thesis
    using subscribe_known [OF g] subscribe_fresh [OF g _ alive]
    by (simp add: subscribe_def Let_def g_def [symmetric])
qed

subsection \<open>Unsubscribing\<close>

lemma wanted_del:
  assumes "tables_ok h"
  shows "snd ` set (assoc_del (key_of t i) (subscribedMeta h)) = wanted h - {(t, i)}"
proof -
  have "fst x \<noteq> key_of t i \<longleftrightarrow> snd x \<noteq> (t, i)" if "x \<in> set (subscribedMeta h)" for x
    using assms that by (cases x) (auto simp: tables_ok_def)
  then show ?thesis unfolding wanted_def by (auto simp: set_assoc_del)
qed

lemma unsubscribe_last:
  assumes h: "hub_inv h"
  shows "hub_inv (send_message (Unsubscribe t i) (h\<lparr>listeners := assoc_del (key_of t i) (listeners h),
      subscribed := filter (\<lambda>k. k \<noteq> key_of t i) (subscribed h),
      subscribedMeta := assoc_del (key_of t i) (subscribedMeta h)\<rparr>))"
    (is "hub_inv (send_message _ ?g)")
proof -
  have T: "tables_ok h" using h by (simp add: hub_inv_def)
  then have "tables_ok ?g"
    by (auto simp: tables_ok_def keys_assoc_del set_assoc_del)
  moreover have s: "sockets_ok ?g" using h by (simp add: hub_inv_def sockets_ok_def)
  moreover have "timing_ok ?g" "will_reconnect ?g"
    using h by (auto simp: hub_inv_def timing_ok_def will_reconnect_def)
  moreover have "coherent (send_message (Unsubscribe t i) ?g)"
  proof (rule coherent_send [OF s])
    fix n
    assume "ws ?g = Some n" "ready_state (sockets ?g ! n) = Open"
    then have "server_subs (sent (sockets ?g ! n)) = wanted h"
      using h by (simp add: hub_inv_def coherent_def)
    then show "server_step (Unsubscribe t i) (server_subs (sent (sockets ?g ! n))) = wanted ?g"
      using wanted_del [OF T] by (simp add: server_step_def wanted_def)
  qed
  ultimately show ?thesis
    using send_sockets_ok [OF s]
    by (simp add: hub_inv_def tables_ok_def timing_ok_def will_reconnect_def)
qed

lemma unsubscribe_one:
  assumes h: "hub_inv h" and cur: "map_of (listeners h) k = Some cur" and ne: "remove1 l cur \<noteq> []"
  shows "hub_inv (h\<lparr>listeners := assoc_put k (remove1 l cur) (listeners h)\<rparr>)"
proof -
  have "(k, cur) \<in> set (listeners h)" using cur by (rule map_of_SomeD)
  moreover have D: "\<forall>(k, ls) \<in> set (listeners h). ls \<noteq> [] \<and> distinct ls"
    using h by (simp add: hub_inv_def tables_ok_def)
  ultimately have d: "distinct cur" and k: "k \<in> set (map fst (listeners h))" by (auto simp: rev_image_eqI)
  let ?m = "assoc_put k (remove1 l cur) (listeners h)"
  have "map fst ?m = subscribed h"
    using h k by (simp add: keys_assoc_put hub_inv_def tables_ok_def)
  moreover have "\<forall>(k, ls) \<in> set ?m. ls \<noteq> [] \<and> distinct ls"
    using D d ne by (auto dest!: set_assoc_put)
  ultimately show ?thesis
    using h by (simp add: hub_inv_def inv_defs)
qed

lemma assoc_del_put: "assoc_del k (assoc_put k v m) = assoc_del k m"
  by (induction k v m rule: assoc_put.induct) (auto simp: assoc_del_def)

lemma unsubscribe_inv: "hub_inv h \<Longrightarrow> hub_inv (unsubscribe t i l h)"
proof (cases "map_of (listeners h) (key_of t i)")
  case (Some cur)
  moreover assume "hub_inv h"
  ultimately show ?thesis
    using unsubscribe_last [of h t i] unsubscribe_one [of h "key_of t i" cur l]
    by (simp add: unsubscribe_def Let_def assoc_del_put)
qed (simp add: unsubscribe_def)

subsection \<open>Opening\<close>

lemma resubscribe:
  assumes "ws h = Some n" and "n < length (sockets h)" and "ready_state (sockets h ! n) = Open"
    and "subscribedMeta h = meta" and "\<forall>k \<in> set ks. k \<in> dom (map_of meta)"
  defines "h' \<equiv> fold (\<lambda>k h. case map_of (subscribedMeta h) k of None \<Rightarrow> h
       | Some (t, i) \<Rightarrow> send_message (Subscribe t i) h) ks h"
  shows "server_subs (sent (sockets h' ! n)) =
      server_subs (sent (sockets h ! n)) \<union> {p. \<exists>k \<in> set ks. map_of meta k = Some p}"
  using assms(1-5) unfolding h'_def
proof (induction ks arbitrary: h)
  case (Cons k ks)
  then obtain t i where k: "map_of meta k = Some (t, i)" by force
  let ?h = "send_message (Subscribe t i) h"
  have "server_subs (sent (sockets (fold (\<lambda>k h. case map_of (subscribedMeta h) k of None \<Rightarrow> h
       | Some (t, i) \<Rightarrow> send_message (Subscribe t i) h) ks ?h) ! n))
    = server_subs (sent (sockets ?h ! n)) \<union> {p. \<exists>k \<in> set ks. map_of meta k = Some p}"
    using Cons.prems by (intro Cons.IH) simp_all
  with Cons.prems k show ?case by (auto simp: send_sent server_step_def)
qed simp

lemma fold_send_fields:
  fixes ks defines "F \<equiv> fold (\<lambda>k h. case map_of (subscribedMeta h) k of None \<Rightarrow> h
       | Some (t, i) \<Rightarrow> send_message (Subscribe t i) h) ks"
  shows "ws (F h) = ws h" "listeners (F h) = listeners h" "subscribed (F h) = subscribed h"
    "subscribedMeta (F h) = subscribedMeta h" "backoff (F h) = backoff h" "closing (F h) = closing h"
    "timers (F h) = timers h" "length (sockets (F h)) = length (sockets h)"
    "ready_state (sockets (F h) ! n) = ready_state (sockets h ! n)"
    "sockets_ok h \<Longrightarrow> sockets_ok (F h)"
  unfolding F_def
  by (induction ks arbitrary: h) (auto simp: send_sockets_ok split: option.split)

lemma on_open_inv:
  assumes h: "hub_inv h" and n: "n < length (sockets h)" "ready_state (sockets h ! n) = Connecting"
  shows "hub_inv (on_open (set_ready n Open h))"
proof -
  let ?g = "(set_ready n Open h)\<lparr>backoff := 500\<rparr>"
  have s: "sockets_ok ?g"
    using h set_ready_sockets_ok [of h Open n] by (simp add: hub_inv_def sockets_ok_def)
  have T: "tables_ok h" using h by (simp add: hub_inv_def)
  have keys: "\<forall>k \<in> set (subscribed h). k \<in> dom (map_of (subscribedMeta h))"
    using T by (metis dom_map_of_conv_image_fst list.set_map tables_ok_def)
  have all: "{p. \<exists>k \<in> set (subscribed h). map_of (subscribedMeta h) k = Some p} = wanted h"
  proof -
    have d: "distinct (map fst (subscribedMeta h))" and m: "map fst (subscribedMeta h) = subscribed h"
      using T by (auto simp: tables_ok_def)
    show ?thesis
    proof (intro set_eqI iffI)
      fix p assume "p \<in> wanted h"
      then obtain k where "(k, p) \<in> set (subscribedMeta h)" by (auto simp: wanted_def)
      with d m show "p \<in> {p. \<exists>k \<in> set (subscribed h). map_of (subscribedMeta h) k = Some p}"
        by (metis (mono_tags, lifting) fst_conv imageI list.set_map map_of_is_SomeI mem_Collect_eq)
    qed (force simp: wanted_def dest: map_of_SomeD)
  qed
  have "coherent (on_open (set_ready n Open h))"
    unfolding coherent_def
  proof (intro allI impI)
    fix m
    assume "ws (on_open (set_ready n Open h)) = Some m"
      and "ready_state (sockets (on_open (set_ready n Open h)) ! m) = Open"
    then have m: "ws ?g = Some m" "ready_state (sockets ?g ! m) = Open"
      by (simp_all add: on_open_def fold_send_fields)
    then have len: "m < length (sockets ?g)" using s by (simp add: sockets_ok_def)
    have "server_subs (sent (sockets (on_open (set_ready n Open h)) ! m)) =
        server_subs (sent (sockets ?g ! m)) \<union> wanted h"
      using resubscribe [OF m(1) len m(2) _ , of "subscribedMeta h" "subscribed h"] keys
      by (simp add: on_open_def all)
    moreover have "server_subs (sent (sockets ?g ! m)) \<subseteq> wanted h"
    proof (cases "m = n")
      case True
      then have "sent (sockets h ! n) = []"
        using h n by (simp add: hub_inv_def sockets_ok_def)
      with True n show ?thesis by (simp add: set_ready_def)
    next
      case False
      then show ?thesis using m h by (simp add: set_ready_def hub_inv_def coherent_def)
    qed
    ultimately show "server_subs (sent (sockets (on_open (set_ready n Open h)) ! m))
        = wanted (on_open (set_ready n Open h))"
      by (auto simp: wanted_def on_open_def fold_send_fields)
  qed
  moreover have "sockets_ok (on_open (set_ready n Open h))"
    unfolding on_open_def by (rule fold_send_fields(10) [OF s])
  ultimately show ?thesis
    using h by (auto simp: hub_inv_def tables_ok_def timing_ok_def will_reconnect_def on_open_def
        fold_send_fields maxBackoff_def)
qed

subsection \<open>Every reachable state\<close>

lemma hub_inv_new: "hub_inv new_hub"
  by (simp add: hub_inv_def inv_defs new_hub_def maxBackoff_def)

lemma timer_inv: "hub_inv h \<Longrightarrow> k < length (timers h) \<Longrightarrow>
   hub_inv (connect (h\<lparr>timers := take k (timers h) @ drop (Suc k) (timers h)\<rparr>))"
  by (auto simp: hub_inv_def inv_defs connect_def nth_append less_Suc_eq dest!: in_set_takeD in_set_dropD)

lemma shutdown_inv: "hub_inv h \<Longrightarrow> hub_inv (shutdown h)"
  unfolding shutdown_def by (rule close_current_inv) (simp add: hub_inv_def inv_defs)

lemma hub_step_inv: "hub_step h e h' \<Longrightarrow> hub_inv h \<Longrightarrow> hub_inv h'"
  by (induction rule: hub_step.induct)
     (simp_all add: subscribe_inv unsubscribe_inv on_open_inv close_current_inv on_close_inv timer_inv
        shutdown_inv)

lemma reachable_inv: "reachable h \<Longrightarrow> hub_inv h"
  by (induction rule: reachable.induct) (simp_all add: hub_inv_new hub_step_inv)

end
