(* ===== verification/Ws_Properties.thy ===== *)
theory Ws_Properties
  imports Ws_Invariants
begin

section \<open>What the hub promises\<close>

text \<open>
  The contract of a subscription service, as a locale, and its interpretation on \<open>HubClient\<close>; then the
  properties of the hub as a whole: consistency with the gateway, delivery, reconnection delays,
  shutdown, and one sequence of events in which two sockets end up subscribed at once.
\<close>

subsection \<open>Subscription services\<close>

locale pub_sub =
  fixes inv :: "'h \<Rightarrow> bool"
    and subs :: "'h \<Rightarrow> ('t \<times> 'i \<times> 'l) set"
    and sub :: "'t \<Rightarrow> 'i \<Rightarrow> 'l \<Rightarrow> 'h \<Rightarrow> 'h"
    and unsub :: "'t \<Rightarrow> 'i \<Rightarrow> 'l \<Rightarrow> 'h \<Rightarrow> 'h"
    and deliver :: "'t \<Rightarrow> 'i \<Rightarrow> 'h \<Rightarrow> 'l list"
  assumes sub_inv: "inv h \<Longrightarrow> inv (sub t i l h)"
    and unsub_inv: "inv h \<Longrightarrow> inv (unsub t i l h)"
    and subs_sub: "inv h \<Longrightarrow> subs (sub t i l h) = insert (t, i, l) (subs h)"
    and subs_unsub: "inv h \<Longrightarrow> subs (unsub t i l h) = subs h - {(t, i, l)}"
    and set_deliver: "inv h \<Longrightarrow> set (deliver t i h) = {l. (t, i, l) \<in> subs h}"
    and distinct_deliver: "inv h \<Longrightarrow> distinct (deliver t i h)"
begin

lemma deliver_once: "inv h \<Longrightarrow> count_list (deliver t i (sub t i l h)) l = 1"
proof -
  assume h: "inv h"
  have "distinct (deliver t i (sub t i l h))" using h by (intro distinct_deliver sub_inv)
  moreover have "l \<in> set (deliver t i (sub t i l h))" using h by (simp add: set_deliver sub_inv subs_sub)
  moreover have "distinct xs \<Longrightarrow> x \<in> set xs \<Longrightarrow> count_list xs x = 1" for x and xs :: "'l list"
    by (induction xs) auto
  ultimately show ?thesis by blast
qed

lemma deliver_none: "inv h \<Longrightarrow> l \<notin> set (deliver t i (unsub t i l h))"
  by (simp add: set_deliver unsub_inv subs_unsub)

lemma deliver_others:
  "inv h \<Longrightarrow> (t', i', l') \<noteq> (t, i, l) \<Longrightarrow>
   (l' \<in> set (deliver t' i' (sub t i l h)) \<longleftrightarrow> l' \<in> set (deliver t' i' h)) \<and>
   (l' \<in> set (deliver t' i' (unsub t i l h)) \<longleftrightarrow> l' \<in> set (deliver t' i' h))"
  by (auto simp: set_deliver sub_inv unsub_inv subs_sub subs_unsub)

text \<open>A component that mounts and unmounts leaves the service as it found it.\<close>

lemma mount_unmount: "inv h \<Longrightarrow> (t, i, l) \<notin> subs h \<Longrightarrow> subs (unsub t i l (sub t i l h)) = subs h"
  by (simp add: sub_inv subs_sub subs_unsub)

end

definition subs_of :: "hub \<Rightarrow> (WsTopic \<times> jstr \<times> listener) set" where
  "subs_of h = {(t, i, l). \<exists>ls. map_of (listeners h) (key_of t i) = Some ls \<and> l \<in> set ls}"

definition listeners_of :: "WsTopic \<Rightarrow> jstr \<Rightarrow> hub \<Rightarrow> listener list" where
  "listeners_of t i h = (case map_of (listeners h) (key_of t i) of None \<Rightarrow> [] | Some ls \<Rightarrow> ls)"

lemma add_listener_cong: "listeners h = listeners g \<Longrightarrow> listeners (add_listener k l h) = listeners (add_listener k l g)"
  by (simp add: add_listener_def Let_def)

lemma listeners_subscribe:
  "listeners (subscribe t i l h) = listeners (add_listener (key_of t i) l h)"
  using add_listener_cong [of "if ws h = None then connect h else h" h "key_of t i" l]
  by (auto simp: subscribe_def Let_def)

lemma set_listeners_of: "set (listeners_of t i h) = {l. (t, i, l) \<in> subs_of h}"
  by (cases "map_of (listeners h) (key_of t i)") (simp_all add: listeners_of_def subs_of_def)

lemma subs_of_iff: "(t, i, l) \<in> subs_of h \<longleftrightarrow> l \<in> set (listeners_of t i h)"
  by (simp add: set_listeners_of)

lemma listeners_of_subscribe:
  "listeners_of t' i' (subscribe t i l h) =
     (if t' = t \<and> i' = i
      then (if l \<in> set (listeners_of t i h) then listeners_of t i h else listeners_of t i h @ [l])
      else listeners_of t' i' h)"
  unfolding listeners_of_def listeners_subscribe by (simp add: add_listener_def Let_def)

lemma subs_subscribe: "subs_of (subscribe t i l h) = insert (t, i, l) (subs_of h)"
proof (intro set_eqI)
  fix p :: "WsTopic \<times> jstr \<times> listener"
  obtain t' i' l' where p: "p = (t', i', l')" by (cases p)
  show "p \<in> subs_of (subscribe t i l h) \<longleftrightarrow> p \<in> insert (t, i, l) (subs_of h)"
    by (auto simp: p subs_of_iff listeners_of_subscribe)
qed

lemma listeners_unsubscribe:
  "listeners (unsubscribe t i l h) = (case map_of (listeners h) (key_of t i) of
     None \<Rightarrow> listeners h
   | Some cur \<Rightarrow> if remove1 l cur = [] then assoc_del (key_of t i) (listeners h)
       else assoc_put (key_of t i) (remove1 l cur) (listeners h))"
  by (simp add: unsubscribe_def Let_def assoc_del_put split: option.split)

lemma listeners_of_unsubscribe:
  "listeners_of t' i' (unsubscribe t i l h) =
     (if t' = t \<and> i' = i then remove1 l (listeners_of t i h) else listeners_of t' i' h)"
proof (cases "map_of (listeners h) (key_of t i)")
  case None
  then show ?thesis by (simp add: listeners_of_def listeners_unsubscribe)
next
  case (Some cur)
  then show ?thesis
    by (cases "remove1 l cur = []") (simp_all add: listeners_of_def listeners_unsubscribe map_of_assoc_del)
qed

lemma distinct_listeners_of:
  assumes "hub_inv h"
  shows "distinct (listeners_of t i h)"
proof (cases "map_of (listeners h) (key_of t i)")
  case (Some ls)
  have "(key_of t i, ls) \<in> set (listeners h)" using Some by (rule map_of_SomeD)
  with assms Some show ?thesis by (auto simp: listeners_of_def hub_inv_def tables_ok_def)
qed (simp add: listeners_of_def)

lemma subs_unsubscribe:
  assumes "hub_inv h"
  shows "subs_of (unsubscribe t i l h) = subs_of h - {(t, i, l)}"
proof (intro set_eqI)
  fix p :: "WsTopic \<times> jstr \<times> listener"
  obtain t' i' l' where p: "p = (t', i', l')" by (cases p)
  show "p \<in> subs_of (unsubscribe t i l h) \<longleftrightarrow> p \<in> subs_of h - {(t, i, l)}"
    using distinct_listeners_of [OF assms, of t i]
    by (auto simp: p subs_of_iff listeners_of_unsubscribe)
qed

interpretation hub: pub_sub hub_inv subs_of subscribe unsubscribe listeners_of
  by unfold_locales
     (simp_all add: subscribe_inv unsubscribe_inv subs_subscribe subs_unsubscribe set_listeners_of
        distinct_listeners_of)

text \<open>The subscriptions to re-issue are those somebody listens to.\<close>

lemma wanted_subs:
  assumes T: "tables_ok h"
  shows "wanted h = {(t, i). \<exists>l. (t, i, l) \<in> subs_of h}"
proof -
  have keys: "fst ` set (subscribedMeta h) = fst ` set (listeners h)"
    using T by (metis list.set_map tables_ok_def)
  have K: "fst x = key_of (fst (snd x)) (snd (snd x))" if "x \<in> set (subscribedMeta h)" for x
    using T that by (cases x) (auto simp: tables_ok_def)
  have NE: "ls \<noteq> []" if "(k, ls) \<in> set (listeners h)" for k ls
    using T that by (auto simp: tables_ok_def)
  have w: "(t, i) \<in> wanted h \<longleftrightarrow> key_of t i \<in> fst ` set (subscribedMeta h)" for t i
  proof
    assume "(t, i) \<in> wanted h"
    then obtain k where "(k, t, i) \<in> set (subscribedMeta h)" by (auto simp: wanted_def)
    moreover from K [OF this] have "k = key_of t i" by simp
    ultimately show "key_of t i \<in> fst ` set (subscribedMeta h)" by (auto simp: rev_image_eqI)
  next
    assume "key_of t i \<in> fst ` set (subscribedMeta h)"
    then obtain x where x: "x \<in> set (subscribedMeta h)" "fst x = key_of t i" by auto
    with K [OF x(1)] have "snd x = (t, i)" by (cases "snd x") simp
    with x show "(t, i) \<in> wanted h" unfolding wanted_def by (metis imageI)
  qed
  have s: "(\<exists>l. (t, i, l) \<in> subs_of h) \<longleftrightarrow> key_of t i \<in> fst ` set (listeners h)" for t i
  proof (cases "map_of (listeners h) (key_of t i)")
    case None
    moreover from this have "key_of t i \<notin> fst ` set (listeners h)" by (simp add: map_of_eq_None_iff)
    ultimately show ?thesis by (simp add: subs_of_def)
  next
    case (Some ls)
    then have m: "(key_of t i, ls) \<in> set (listeners h)" by (rule map_of_SomeD)
    with NE have "ls \<noteq> []" by blast
    then have "\<exists>l. l \<in> set ls" by (cases ls) auto
    with Some m show ?thesis by (auto simp: subs_of_def rev_image_eqI)
  qed
  show ?thesis
  proof (intro set_eqI)
    fix p :: "WsTopic \<times> jstr"
    obtain t i where "p = (t, i)" by force
    then show "p \<in> wanted h \<longleftrightarrow> p \<in> {(t, i). \<exists>l. (t, i, l) \<in> subs_of h}"
      using w [of t i] s [of t i] keys by simp
  qed
qed

subsection \<open>Properties\<close>

text \<open>
  C3: in every reachable state of the hub, whatever order the calls, socket events and timers come
  in: the three tables list the same keys; every pending reconnection delay lies between half a
  second and thirty seconds; while somebody is subscribed and the hub is not shut down, it has a
  socket or a timer that will create one; and what was sent on the current open socket leaves the
  gateway with exactly the subscriptions the client wants.
\<close>

theorem hub_consistent:
  assumes "reachable h"
  shows "map fst (listeners h) = subscribed h \<and> map fst (subscribedMeta h) = subscribed h \<and>
    distinct (subscribed h) \<and>
    (\<forall>d \<in> set (timers h). 500 \<le> d \<and> d \<le> 30000) \<and>
    (subscribed h \<noteq> [] \<and> \<not> closing h \<longrightarrow> ws h \<noteq> None \<or> timers h \<noteq> []) \<and>
    (\<forall>n. ws h = Some n \<and> ready_state (sockets h ! n) = Open \<longrightarrow>
       server_subs (sent (sockets h ! n)) = {(t, i). \<exists>l. (t, i, l) \<in> subs_of h})"
proof (intro conjI)
  have h: "hub_inv h" using assms by (rule reachable_inv)
  then show "map fst (listeners h) = subscribed h" "map fst (subscribedMeta h) = subscribed h"
      "distinct (subscribed h)"
    by (simp_all add: hub_inv_def tables_ok_def)
  show "\<forall>d \<in> set (timers h). 500 \<le> d \<and> d \<le> 30000"
    using h by (simp add: hub_inv_def timing_ok_def maxBackoff_def)
  show "subscribed h \<noteq> [] \<and> \<not> closing h \<longrightarrow> ws h \<noteq> None \<or> timers h \<noteq> []"
    using h by (auto simp: hub_inv_def will_reconnect_def)
  have T: "tables_ok h" using h by (simp add: hub_inv_def)
  have "wanted h = {(t, i). \<exists>l. (t, i, l) \<in> subs_of h}" using T by (rule wanted_subs)
  then show "\<forall>n. ws h = Some n \<and> ready_state (sockets h ! n) = Open \<longrightarrow>
      server_subs (sent (sockets h ! n)) = {(t, i). \<exists>l. (t, i, l) \<in> subs_of h}"
    using h by (simp add: hub_inv_def coherent_def)
qed

definition one_listener :: hub where
  "one_listener = on_open (set_ready 0 Open (subscribe backtest (js ''r1'') 1 new_hub))"

lemma reachable_one_listener: "reachable one_listener"
proof -
  have "reachable (subscribe backtest (js ''r1'') 1 new_hub)"
    by (rule reachable.step [OF reachable.start hub_step.sub])
  then show ?thesis
    unfolding one_listener_def
    by (rule reachable.step)
       (rule hub_step.opened; simp add: subscribe_def new_hub_def connect_def Let_def add_listener_def
          send_message_def)
qed

lemma hub_consistent_witness:
  "server_subs (sent (sockets one_listener ! 0)) = {(t, i). \<exists>l. (t, i, l) \<in> subs_of one_listener}"
proof -
  have "ws one_listener = Some 0 \<and> ready_state (sockets one_listener ! 0) = Open"
    by (simp add: one_listener_def on_open_def set_ready_def subscribe_def new_hub_def connect_def
        Let_def add_listener_def send_message_def)
  then show ?thesis using hub_consistent [OF reachable_one_listener] by blast
qed






text \<open>
  The reconnection delays. From a fresh or just opened connection, \<open>k\<close> closures in a row that are
  not followed by an opening schedule delays of 500 ms doubled each time and capped at 30 s, and an
  opening starts the sequence over.
\<close>

theorem reconnect_delays:
  assumes "backoff h = 500" and "\<not> closing h"
  shows "timers ((on_close ^^ k) h) = timers h @ map (\<lambda>j. min (500 * 2 ^ j) 30000) [0..<k] \<and>
    backoff ((on_close ^^ k) h) = min (500 * 2 ^ k) 30000 \<and> backoff (on_open g) = 500"
proof (intro conjI)
  have k: "\<not> closing ((on_close ^^ k) h) \<and> backoff ((on_close ^^ k) h) = min (500 * 2 ^ k) 30000 \<and>
      timers ((on_close ^^ k) h) = timers h @ map (\<lambda>j. min (500 * 2 ^ j) 30000) [0..<k]" for k
    using assms by (induction k) (auto simp: on_close_def Let_def maxBackoff_def min_def)
  from k [of k] show "timers ((on_close ^^ k) h) = timers h @ map (\<lambda>j. min (500 * 2 ^ j) 30000) [0..<k]"
    and "backoff ((on_close ^^ k) h) = min (500 * 2 ^ k) 30000" by blast+
  show "backoff (on_open g) = 500" by (simp add: on_open_def fold_send_fields)
qed

lemma reconnect_delays_witness: "timers ((on_close ^^ 8) new_hub)
    = [500, 1000, 2000, 4000, 8000, 16000, 30000, 30000]"
  using reconnect_delays [of new_hub 8]
  by (simp add: new_hub_def upt_rec)

text \<open>
  Shutdown is final. Once \<open>shutdown\<close> was called, no step whatever creates another socket or
  schedules another reconnection.
\<close>

theorem shutdown_is_final:
  assumes "closing h" and "hub_step h e h'"
  shows "closing h' \<and> length (sockets h') = length (sockets h) \<and> length (timers h') \<le> length (timers h)"
  using assms(2,1)
proof (induction rule: hub_step.induct)
  case (unsub h t i l)
  then show ?case by (simp add: unsubscribe_def Let_def split: option.split)
next
  case (opened n h)
  then show ?case by (simp add: on_open_def fold_send_fields)
qed (simp_all add: subscribe_def connect_def Let_def close_current_def on_close_def shutdown_def
      split: option.split)

lemma shutdown_is_final_witness:
  "closing (subscribe backtest (js ''r1'') 1 (shutdown new_hub))
   \<and> length (sockets (subscribe backtest (js ''r1'') 1 (shutdown new_hub))) = length (sockets (shutdown new_hub))
   \<and> length (timers (subscribe backtest (js ''r1'') 1 (shutdown new_hub))) \<le> length (timers (shutdown new_hub))"
  by (rule shutdown_is_final [OF _ hub_step.sub]) (simp add: shutdown_def close_current_def new_hub_def)

text \<open>A run in explicit states: the connection is lost, a second subscription comes before the timer.\<close>

definition tables2 :: "hub \<Rightarrow> hub" where
  "tables2 h = h\<lparr>listeners := [(key_of backtest (js ''r1''), [1]), (key_of strategy (js ''s1''), [2])],
     subscribed := [key_of backtest (js ''r1''), key_of strategy (js ''s1'')],
     subscribedMeta := [(key_of backtest (js ''r1''), backtest, js ''r1''), (key_of strategy (js ''s1''), strategy, js ''s1'')]\<rparr>"

abbreviation both_subs :: "message list" where
  "both_subs \<equiv> [Subscribe backtest (js ''r1''), Subscribe strategy (js ''s1'')]"

lemmas run_defs = on_open_def set_ready_def subscribe_def new_hub_def connect_def on_close_def
  Let_def add_listener_def send_message_def maxBackoff_def tables2_def

definition lost :: hub where
  "lost = one_listener\<lparr>ws := None, sockets := [\<lparr>ready_state = Closed, sent = [Subscribe backtest (js ''r1'')]\<rparr>],
     backoff := 1000, timers := [500]\<rparr>"

lemma keys_differ [simp]:
  "tk (js ''strategy'') (js ''s1'') \<noteq> tk (js ''backtest'') (js ''r1'')"
  "tk (js ''backtest'') (js ''r1'') \<noteq> tk (js ''strategy'') (js ''s1'')"
  using key_of_inj [of strategy "js ''s1''" backtest "js ''r1''"] by simp_all

lemma one_listener_eq: "one_listener = \<lparr>ws = Some 0,
    sockets = [\<lparr>ready_state = Open, sent = [Subscribe backtest (js ''r1'')]\<rparr>],
    listeners = [(key_of backtest (js ''r1''), [1])], subscribed = [key_of backtest (js ''r1'')],
    subscribedMeta = [(key_of backtest (js ''r1''), backtest, js ''r1'')], backoff = 500, closing = False, timers = []\<rparr>"
  by (simp add: one_listener_def run_defs)

lemma reachable_lost: "reachable lost"
proof -
  have "lost = on_close (set_ready 0 Closed one_listener)"
    by (simp add: lost_def one_listener_eq run_defs)
  then show ?thesis
    using reachable.step [OF reachable_one_listener hub_step.closed [of 0]] by (simp add: one_listener_eq)
qed

definition resub :: hub where
  "resub = (tables2 lost)\<lparr>ws := Some 1, sockets := sockets lost @ [\<lparr>ready_state = Connecting, sent = []\<rparr>]\<rparr>"

lemma reachable_resub: "reachable resub"
proof -
  have "resub = subscribe strategy (js ''s1'') 2 lost"
    by (simp add: resub_def lost_def one_listener_eq run_defs)
  moreover have "reachable (subscribe strategy (js ''s1'') 2 lost)"
    by (rule reachable.step [OF reachable_lost hub_step.sub])
  ultimately show ?thesis by (simp only:)
qed

definition reopened :: hub where
  "reopened = resub\<lparr>sockets := sockets lost @ [\<lparr>ready_state = Open, sent = both_subs\<rparr>], backoff := 500\<rparr>"

lemma reachable_reopened: "reachable reopened"
proof -
  have "reopened = on_open (set_ready 1 Open resub)"
    by (simp add: reopened_def resub_def lost_def one_listener_eq run_defs)
  then show ?thesis
    using reachable.step [OF reachable_resub hub_step.opened [of 1]]
    by (simp add: resub_def lost_def one_listener_eq run_defs)
qed

definition second :: hub where
  "second = reopened\<lparr>ws := Some 2, sockets := sockets reopened @ [\<lparr>ready_state = Connecting, sent = []\<rparr>], timers := []\<rparr>"

lemma reachable_second: "reachable second"
proof -
  have "second = connect (reopened\<lparr>timers := take 0 (timers reopened) @ drop (Suc 0) (timers reopened)\<rparr>)"
    by (simp add: second_def reopened_def resub_def lost_def one_listener_eq run_defs)
  then show ?thesis
    using reachable.step [OF reachable_reopened hub_step.timer [of 0]]
    by (simp add: reopened_def resub_def lost_def one_listener_eq run_defs)
qed

definition both_open :: hub where
  "both_open = second\<lparr>sockets := sockets reopened @ [\<lparr>ready_state = Open, sent = both_subs\<rparr>]\<rparr>"

lemma reachable_both_open: "reachable both_open"
proof -
  have "both_open = on_open (set_ready 2 Open second)"
    by (simp add: both_open_def second_def reopened_def resub_def lost_def one_listener_eq run_defs)
  moreover have "reachable (on_open (set_ready 2 Open second))"
    by (rule reachable.step [OF reachable_second hub_step.opened])
       (simp_all add: second_def reopened_def resub_def lost_def one_listener_eq run_defs)
  ultimately show ?thesis by (simp only:)
qed

text \<open>
  A subscription made while a reconnection timer is pending opens a socket at once, and the
  timer later opens another without closing the first: a reachable state has two open sockets, both
  subscribed to the same topic and id, so that each event of the gateway is delivered twice.
\<close>

theorem two_sockets_subscribed:
  "\<exists>h. reachable h \<and> ws h = Some 2 \<and>
     map ready_state (sockets h) = [Closed, Open, Open] \<and>
     (backtest, js ''r1'') \<in> server_subs (sent (sockets h ! 1)) \<and>
     (backtest, js ''r1'') \<in> server_subs (sent (sockets h ! 2))"
proof (intro exI [of _ both_open] conjI)
  show "reachable both_open" by (rule reachable_both_open)
qed (simp_all add: both_open_def second_def reopened_def resub_def lost_def one_listener_eq tables2_def
      server_subs_def server_step_def)

end
