(* ===== verification/Api_Client.thy ===== *)
theory Api_Client
  imports Js_Json Ts_Types
begin

section \<open>The gateway client\<close>

text \<open>
  \<^verbatim>\<open>src/client/data/api-base.mjs\<close>, \<^verbatim>\<open>api-auth-event.mjs\<close> and \<^verbatim>\<open>api-client.ts\<close>: how the base URL is
  chosen, how a request is assembled (\<open>apiFetch\<close>: credentials, the \<^verbatim>\<open>X-User-Id\<close> header of the browser,
  the forwarded cookies of the server), how a response becomes a value or an \<open>ApiError\<close>
  (\<open>jsonOrThrow\<close>, with the 401 event), and one definition per endpoint function. An endpoint yields
  the call it makes; the network and the gateway are outside the model.
\<close>

subsection \<open>The environment of the client\<close>

text \<open>
  The process environment, whether there is a \<^verbatim>\<open>window\<close>, what \<^verbatim>\<open>localStorage.getItem\<close> yields for the
  user id (\<open>None\<close> when it is absent or the access throws) and the cookies of the incoming request
  (\<open>None\<close> when \<^verbatim>\<open>next/headers\<close> is not available).
\<close>

type_synonym env = "string \<Rightarrow> jstr option"

record client_env =
  process_env :: env
  has_window :: bool
  stored_user_id :: "jstr option"
  request_cookies :: "(jstr \<times> jstr) list option"
  window_origin :: jstr

definition non_empty :: "jstr option \<Rightarrow> jstr \<Rightarrow> jstr" where
  "non_empty s d = (case s of None \<Rightarrow> d | Some t \<Rightarrow> if t = [] then d else t)"

definition default_browser_url :: jstr where
  "default_browser_url = js ''/api''"

definition default_server_url :: jstr where
  "default_server_url = js ''http://localhost:3001/api''"

definition bundled_url :: "env \<Rightarrow> jstr" where
  "bundled_url penv = non_empty (penv ''NEXT_PUBLIC_API_URL'') default_browser_url"

definition isAbsoluteHttpUrl :: "jstr \<Rightarrow> bool" where
  "isAbsoluteHttpUrl s = (starts_with (lower s) (js ''http://'') \<or> starts_with (lower s) (js ''https://''))"

text \<open>\<open>env\<close> is the optional argument; the client's own calls leave it out.\<close>

definition apiBaseUrl :: "env \<Rightarrow> env option \<Rightarrow> bool \<Rightarrow> jstr" where
  "apiBaseUrl penv env isBrowser =
     (let publicBase = (case env of None \<Rightarrow> bundled_url penv
            | Some e \<Rightarrow> (case e ''NEXT_PUBLIC_API_URL'' of None \<Rightarrow> bundled_url penv
                | Some s \<Rightarrow> if s = [] then bundled_url penv else s));
          runtimeEnv = (case env of None \<Rightarrow> penv | Some e \<Rightarrow> e);
          serverBase = non_empty (runtimeEnv ''NEXT_SERVER_API_URL'')
            (non_empty (runtimeEnv ''NEXT_INTERNAL_API_URL'') [])
      in if \<not> isBrowser then
           (if serverBase \<noteq> [] then serverBase
            else if isAbsoluteHttpUrl publicBase then publicBase
            else default_server_url)
         else publicBase)"

text \<open>\<^verbatim>\<open>s.replace("//", "/")\<close>: the first occurrence only.\<close>

fun collapse_first :: "jstr \<Rightarrow> jstr" where
  "collapse_first (c # d # s) = (if c = 47 \<and> d = 47 then 47 # s else c # collapse_first (d # s))"
| "collapse_first s = s"

definition apiUrl :: "env \<Rightarrow> jstr \<Rightarrow> env option \<Rightarrow> bool \<Rightarrow> jstr" where
  "apiUrl penv p env isBrowser = apiBaseUrl penv env isBrowser @ collapse_first (47 # p)"

subsection \<open>Requests\<close>

datatype http_method = GET | POST | PUT | PATCH | DELETE

text \<open>
  What an endpoint function passes to \<^verbatim>\<open>apiFetch\<close>, whether the response goes through \<^verbatim>\<open>jsonOrThrow\<close>
  (\<open>c_checked\<close>), and the type the result is cast to.
\<close>

record call =
  c_path :: jstr
  c_method :: http_method
  c_headers :: "(jstr \<times> jstr) list"
  c_body :: "jsval option"
  c_no_store :: bool
  c_checked :: bool
  c_reply :: ts_type

definition json_header :: "(jstr \<times> jstr) list" where
  "json_header = [(js ''Content-Type'', js ''application/json'')]"

definition get_call :: "jstr \<Rightarrow> ts_type \<Rightarrow> call" where
  "get_call p t = \<lparr>c_path = p, c_method = GET, c_headers = [], c_body = None, c_no_store = True,
     c_checked = True, c_reply = t\<rparr>"

definition send_call :: "http_method \<Rightarrow> jstr \<Rightarrow> jsval \<Rightarrow> ts_type \<Rightarrow> call" where
  "send_call m p b t = \<lparr>c_path = p, c_method = m, c_headers = json_header, c_body = Some b,
     c_no_store = False, c_checked = True, c_reply = t\<rparr>"

text \<open>With the JSON header but no body, and with neither.\<close>

definition bodyless_call :: "http_method \<Rightarrow> jstr \<Rightarrow> ts_type \<Rightarrow> call" where
  "bodyless_call m p t = \<lparr>c_path = p, c_method = m, c_headers = json_header, c_body = None,
     c_no_store = False, c_checked = True, c_reply = t\<rparr>"

definition bare_call :: "http_method \<Rightarrow> jstr \<Rightarrow> ts_type \<Rightarrow> call" where
  "bare_call m p t = \<lparr>c_path = p, c_method = m, c_headers = [], c_body = None,
     c_no_store = False, c_checked = True, c_reply = t\<rparr>"

lemmas call_defs = get_call_def send_call_def bodyless_call_def bare_call_def

definition userIdHeader :: "client_env \<Rightarrow> (jstr \<times> jstr) list" where
  "userIdHeader ce =
     (if \<not> has_window ce then []
      else case stored_user_id ce of None \<Rightarrow> []
        | Some v \<Rightarrow> if v = [] then [] else [(js ''X-User-Id'', v)])"

definition serverCookieHeader :: "client_env \<Rightarrow> (jstr \<times> jstr) list" where
  "serverCookieHeader ce =
     (if has_window ce then []
      else case request_cookies ce of None \<Rightarrow> []
        | Some cs \<Rightarrow>
            (let joined = join (js ''; '') (map (\<lambda>(n, v). n @ 61 # v) cs)
             in if joined = [] then [] else [(js ''Cookie'', joined)]))"

text \<open>Header objects are spread one over the other: a later entry of the same name replaces the value.\<close>

fun hput :: "(jstr \<times> jstr) list \<Rightarrow> jstr \<Rightarrow> jstr \<Rightarrow> (jstr \<times> jstr) list" where
  "hput [] k v = [(k, v)]"
| "hput ((k', v') # hs) k v = (if k' = k then (k, v) # hs else (k', v') # hput hs k v)"

definition merge_headers :: "(jstr \<times> jstr) list \<Rightarrow> (jstr \<times> jstr) list \<Rightarrow> (jstr \<times> jstr) list" where
  "merge_headers hs new = fold (\<lambda>(k, v) acc. hput acc k v) new hs"

record request =
  q_url :: jstr
  q_method :: http_method
  q_headers :: "(jstr \<times> jstr) list"
  q_body :: "jstr option"
  q_no_store :: bool
  q_credentials :: jstr

definition apiFetch :: "client_env \<Rightarrow> call \<Rightarrow> request" where
  "apiFetch ce c =
     (let serverCookie = serverCookieHeader ce
      in \<lparr>q_url = apiUrl (process_env ce) (c_path c) None (has_window ce),
          q_method = c_method c,
          q_headers = merge_headers (merge_headers (userIdHeader ce) serverCookie) (c_headers c),
          q_body = map_option json_stringify (c_body c),
          q_no_store = c_no_store c,
          q_credentials = js ''include''\<rparr>)"

subsection \<open>Responses\<close>

record response =
  r_status :: int
  r_url :: jstr
  r_text :: jstr

definition r_ok :: "response \<Rightarrow> bool" where
  "r_ok r = (200 \<le> r_status r \<and> r_status r \<le> 299)"

text \<open>
  A failed call throws an \<open>ApiError\<close> with the status, the message and the raw body; a successful
  response whose body is not JSON makes \<^verbatim>\<open>res.json()\<close> throw a \<open>SyntaxError\<close>.
\<close>

datatype api_error =
    ApiError (err_status: int) (err_message: jstr) (err_raw: jstr)
  | SyntaxError

definition shouldDispatchAuthUnauthorizedEvent :: "jsval \<Rightarrow> bool" where
  "shouldDispatchAuthUnauthorizedEvent status = num_eq (to_num status) (Fin 401)"

definition shouldShowAdminReloginHint :: "jsval \<Rightarrow> bool" where
  "shouldShowAdminReloginHint status = shouldDispatchAuthUnauthorizedEvent status"

text \<open>\<^verbatim>\<open>parsed.message ?? parsed.error ?? text\<close> for an object body, else the raw text.\<close>

definition error_message :: "jstr \<Rightarrow> jstr" where
  "error_message body =
     (case json_parse body of None \<Rightarrow> body
      | Some v \<Rightarrow> if truthy v \<and> is_object v
          then to_str (coalesce (fld v ''message'') (coalesce (fld v ''error'') (Str body)))
          else body)"

text \<open>
  The result, and the \<^verbatim>\<open>auth:unauthorized\<close> events (status and URL) dispatched on the way. In a webview
  without \<^verbatim>\<open>CustomEvent\<close> the dispatch throws and is ignored; the model is that of a browser that has it.
\<close>

definition jsonOrThrow :: "client_env \<Rightarrow> response \<Rightarrow> (api_error + jsval) \<times> (int \<times> jstr) list" where
  "jsonOrThrow ce res =
     (if \<not> r_ok res then
        (Inl (ApiError (r_status res) (error_message (r_text res)) (r_text res)),
         if shouldDispatchAuthUnauthorizedEvent (N (of_int (r_status res))) \<and> has_window ce
         then [(r_status res, r_url res)] else [])
      else (case json_parse (r_text res) of None \<Rightarrow> Inl SyntaxError | Some v \<Rightarrow> Inr v, []))"

text \<open>
  One endpoint function run to the point where its body is read, given the gateway's answer to the request:
  the value it has then. \<^verbatim>\<open>deleteAccount\<close>, \<^verbatim>\<open>deleteOption\<close> and \<^verbatim>\<open>deleteWallet\<close> wait for that value, so that
  an error is thrown on, and resolve to nothing; all others resolve to it.
\<close>

definition run_call :: "client_env \<Rightarrow> (request \<Rightarrow> response) \<Rightarrow> call \<Rightarrow> (api_error + jsval) \<times> (int \<times> jstr) list" where
  "run_call ce gateway c =
     (let res = gateway (apiFetch ce c)
      in if c_checked c then jsonOrThrow ce res
         else (case json_parse (r_text res) of None \<Rightarrow> Inl SyntaxError | Some v \<Rightarrow> Inr v, []))"

subsection \<open>Query helpers\<close>

definition bind_sum :: "'e + 'a \<Rightarrow> ('a \<Rightarrow> 'e + 'b) \<Rightarrow> 'e + 'b" where
  "bind_sum x f = (case x of Inl e \<Rightarrow> Inl e | Inr a \<Rightarrow> f a)"

lemma bind_sum_simps [simp]: "bind_sum (Inl e) f = Inl e" "bind_sum (Inr a) f = f a"
  by (simp_all add: bind_sum_def)

lemma bind_sum_Inr_iff: "bind_sum x f = Inr b \<longleftrightarrow> (\<exists>a. x = Inr a \<and> f a = Inr b)"
  by (cases x) auto

definition default_num :: "rat \<Rightarrow> jsnum option \<Rightarrow> jsnum" where
  "default_num d n = (case n of None \<Rightarrow> Fin d | Some m \<Rightarrow> m)"

text \<open>\<^verbatim>\<open>if (v) qs.set(k, v)\<close>\<close>

definition set_opt :: "string \<Rightarrow> jstr option \<Rightarrow> (jstr \<times> jstr) list \<Rightarrow> (jstr \<times> jstr) list" where
  "set_opt k v qs = (case v of None \<Rightarrow> qs | Some s \<Rightarrow> if s = [] then qs else qs_set qs (js k) s)"

definition set_opt_num :: "string \<Rightarrow> jsnum option \<Rightarrow> (jstr \<times> jstr) list \<Rightarrow> (jstr \<times> jstr) list" where
  "set_opt_num k v qs = (case v of None \<Rightarrow> qs
     | Some n \<Rightarrow> if truthy (Num n) then qs_set qs (js k) (num_to_string n) else qs)"

definition set_bool :: "string \<Rightarrow> bool option \<Rightarrow> (jstr \<times> jstr) list \<Rightarrow> (jstr \<times> jstr) list" where
  "set_bool k v qs = (case v of None \<Rightarrow> qs | Some b \<Rightarrow> qs_set qs (js k) (to_str (Bool b)))"

definition set_date :: "string \<Rightarrow> date option \<Rightarrow> (jstr \<times> jstr) list \<Rightarrow> range_error + (jstr \<times> jstr) list" where
  "set_date k v qs = (case v of None \<Rightarrow> Inr qs
     | Some d \<Rightarrow> bind_sum (toISOString d) (\<lambda>s. Inr (qs_set qs (js k) s)))"

definition query_suffix :: "(jstr \<times> jstr) list \<Rightarrow> jstr" where
  "query_suffix qs = (if query_string qs = [] then [] else 63 # query_string qs)"

subsection \<open>Endpoints\<close>

definition getOptions :: "call" where
  "getOptions =
     (get_call (js ''v1/option'') TUnknown)\<lparr>c_checked := False\<rparr>"

definition createOption :: "jsval \<Rightarrow> call" where
  "createOption option = send_call POST (js ''v1/option'') option TypeCreateOptionResponse"

definition listAccounts :: "call" where
  "listAccounts = get_call (js ''v1/accounts'') (TArray TypeAccount)"

definition getAccount :: "jstr \<Rightarrow> call" where
  "getAccount i = get_call (js ''v1/accounts/'' @ i) TypeAccount"

definition createAccount :: "jsval \<Rightarrow> call" where
  "createAccount input = send_call POST (js ''v1/accounts'') input TypeAccount"

definition deleteAccount :: "jstr \<Rightarrow> call" where
  "deleteAccount i = bare_call DELETE (js ''v1/accounts/'' @ i) (TObject [(''success'', False, TBoolean)])"

definition getBalances :: "jstr \<Rightarrow> call" where
  "getBalances i = get_call (js ''v1/accounts/'' @ i @ js ''/balances'') (TArray TypeBalance)"

definition getPositions :: "jstr \<Rightarrow> call" where
  "getPositions i = get_call (js ''v1/accounts/'' @ i @ js ''/positions'') (TArray TypePosition)"

definition getOhlcv :: "jstr \<Rightarrow> jstr \<Rightarrow> jstr \<Rightarrow> date \<Rightarrow> date \<Rightarrow> range_error + call" where
  "getOhlcv exchange symbol timeframe start end =
     bind_sum (toISOString start) (\<lambda>s. bind_sum (toISOString end) (\<lambda>e.
     Inr (get_call (js ''v1/market/ohlcv?'' @ query_string
       [(js ''exchange'', exchange), (js ''symbol'', symbol), (js ''timeframe'', timeframe),
        (js ''start'', s), (js ''end'', e)]) (TArray TypeOhlcvBar))))"

definition listBacktests :: "jstr option \<Rightarrow> js_error + call" where
  "listBacktests strategyId =
     (case strategyId of
       None \<Rightarrow> Inr (get_call (js ''v1/backtests'') (TArray TypeBacktest))
     | Some s \<Rightarrow> (if s = [] then Inr (get_call (js ''v1/backtests'') (TArray TypeBacktest))
         else bind_sum (encodeURIComponent s) (\<lambda>q.
           Inr (get_call (js ''v1/backtests?strategyId='' @ q) (TArray TypeBacktest)))))"

definition getBacktest :: "jstr \<Rightarrow> call" where
  "getBacktest i = get_call (js ''v1/backtests/'' @ i) TypeBacktest"

definition createBacktest :: "jsval \<Rightarrow> call" where
  "createBacktest input = send_call POST (js ''v1/backtests'') input TypeBacktestHandle"

definition getEquityCurve :: "jstr \<Rightarrow> jsnum option \<Rightarrow> call" where
  "getEquityCurve run limit =
     get_call (js ''v1/backtests/'' @ run @ js ''/equity?limit='' @
     num_to_string (default_num 50000 limit)) (TArray TypeEquityPoint)"

definition getTrades :: "jstr \<Rightarrow> call" where
  "getTrades i = get_call (js ''v1/backtests/'' @ i @ js ''/trades'') (TArray TypeBacktestTrade)"

definition getStrategies :: "call" where
  "getStrategies = get_call (js ''v1/option'') (TArray TypeOption)"

definition getStrategy :: "jstr \<Rightarrow> call" where
  "getStrategy i = get_call (js ''v1/option/'' @ i) TypeOption"

definition getStrategyPerformance :: "jstr \<Rightarrow> call" where
  "getStrategyPerformance i = get_call (js ''v1/strategies/'' @ i @ js ''/performance'') TypeStrategyPerformance"

definition deleteOption :: "jstr \<Rightarrow> call" where
  "deleteOption i = bare_call DELETE (js ''v1/option/'' @ i) TUnknown"

definition getOrders :: "jstr \<Rightarrow> jsnum option \<Rightarrow> call" where
  "getOrders strategyId limit =
     get_call (js ''v1/strategies/'' @ strategyId @ js ''/orders?limit='' @
     num_to_string (default_num 50 limit)) (TArray TypeOrderLog)"

definition setLive :: "jstr \<Rightarrow> jsval \<Rightarrow> call" where
  "setLive strategyId body = send_call POST (js ''v1/strategies/'' @ strategyId @ js ''/live'') body TypeOption"

definition setRisk :: "jstr \<Rightarrow> jsval \<Rightarrow> call" where
  "setRisk strategyId risk = send_call PUT (js ''v1/option/'' @ strategyId) (obj [(''risk'', risk)]) TypeOption"

definition updateOption :: "jstr \<Rightarrow> jsval \<Rightarrow> call" where
  "updateOption strategyId patch = send_call PUT (js ''v1/option/'' @ strategyId) patch TypeOption"

definition submitOrder :: "jstr \<Rightarrow> jsval \<Rightarrow> call" where
  "submitOrder strategyId body = send_call POST (js ''v1/strategies/'' @ strategyId @ js ''/live/submit-order'') body (TObject [(''streamId'', False, TString)])"

definition requestMainnetToken :: "call" where
  "requestMainnetToken = bare_call POST (js ''v1/admin/mainnet/request-token'') (TObject [(''message'', False, TString), (''tokenHint'', False, TString), (''ttlSec'', False, TNumber)])"

definition confirmMainnetToken :: "jstr \<Rightarrow> call" where
  "confirmMainnetToken token = send_call POST (js ''v1/admin/mainnet/confirm'') (obj [(''token'', Str token)]) TypeMainnetStatus"

definition getMainnetStatus :: "call" where
  "getMainnetStatus = get_call (js ''v1/admin/mainnet/status'') TypeMainnetStatus"

definition getExchangeMeta :: "jstr option \<Rightarrow> jstr option \<Rightarrow> call" where
  "getExchangeMeta exchange symbol =
     get_call (js ''v1/exchange/meta'' @ query_suffix (set_opt ''symbol'' symbol (set_opt ''exchange'' exchange []))) (TUnion [TypeExchangeMeta, TArray TypeExchangeMeta])"

definition getPortfolioSummary :: "call" where
  "getPortfolioSummary = get_call (js ''v1/portfolio/summary'') TypePortfolioSummary"

definition listRecommendations :: "jstr option \<Rightarrow> jstr option \<Rightarrow> call" where
  "listRecommendations status strategyId =
     get_call (js ''v1/recommendations'' @ query_suffix (set_opt ''strategyId'' strategyId (set_opt ''status'' status []))) (TArray TypeRecommendation)"

definition getRecommendation :: "jstr \<Rightarrow> call" where
  "getRecommendation i = get_call (js ''v1/recommendations/'' @ i) TypeRecommendation"

definition approveRecommendation :: "jstr \<Rightarrow> call" where
  "approveRecommendation i = bodyless_call POST (js ''v1/recommendations/'' @ i @ js ''/approve'') TypeApproveRecommendation"

definition rejectRecommendation :: "jstr \<Rightarrow> call" where
  "rejectRecommendation i = bodyless_call POST (js ''v1/recommendations/'' @ i @ js ''/reject'') TypeRecommendation"

definition startOptimization :: "jstr \<Rightarrow> jsval \<Rightarrow> call" where
  "startOptimization strategyId body =
     send_call POST (js ''v1/strategies/'' @ strategyId @ js ''/optimize'') (coalesce body (obj [])) TypeStudyHandle"

definition getOptimization :: "jstr \<Rightarrow> call" where
  "getOptimization studyId = get_call (js ''v1/optimizations/'' @ studyId) TypeOptimizationRun"

definition listOptimizations :: "jstr option \<Rightarrow> js_error + call" where
  "listOptimizations strategyId =
     (case strategyId of
       None \<Rightarrow> Inr (get_call (js ''v1/optimizations'') (TArray TypeOptimizationRun))
     | Some s \<Rightarrow> (if s = [] then Inr (get_call (js ''v1/optimizations'') (TArray TypeOptimizationRun))
         else bind_sum (encodeURIComponent s) (\<lambda>q.
           Inr (get_call (js ''v1/optimizations?strategyId='' @ q) (TArray TypeOptimizationRun)))))"

definition getSystemState :: "call" where
  "getSystemState = get_call (js ''v1/admin/system-state'') TypeSystemState"

definition haltTrading :: "jstr \<Rightarrow> call" where
  "haltTrading reason = send_call POST (js ''v1/admin/halt'') (obj [(''reason'', Str reason)]) TypeSystemState"

definition resumeTrading :: "call" where
  "resumeTrading = bodyless_call POST (js ''v1/admin/resume'') TypeSystemState"

definition getPortfolioLimits :: "call" where
  "getPortfolioLimits = get_call (js ''v1/admin/portfolio-limits'') TypePortfolioLimits"

definition setPortfolioLimits :: "jsval \<Rightarrow> call" where
  "setPortfolioLimits limits = send_call PUT (js ''v1/admin/portfolio-limits'') limits TypePortfolioLimits"

definition getAdminAIConfig :: "call" where
  "getAdminAIConfig = get_call (js ''v1/admin/ai/config'') TypeAIConfig"

definition updateAdminAIConfig :: "jsval \<Rightarrow> call" where
  "updateAdminAIConfig patch = send_call PUT (js ''v1/admin/ai/config'') patch TypeAIConfig"

definition testAIConnection :: "jsval \<Rightarrow> call" where
  "testAIConnection body = send_call POST (js ''v1/admin/ai/test'') body TypeAITestResult"

definition getAdminAIPrompts :: "call" where
  "getAdminAIPrompts = get_call (js ''v1/admin/ai/prompts'') TypeAIPrompts"

definition getAIGoalProviderStatus :: "call" where
  "getAIGoalProviderStatus = get_call (js ''v1/ai/goals/provider-status'') TypeAIGoalProviderStatus"

definition analyzeAIGoal :: "jsval \<Rightarrow> call" where
  "analyzeAIGoal input = send_call POST (js ''v1/ai/goals/analyze'') input TypeAIGoalAnalysis"

definition listAIGoalRuns :: "jsnum option \<Rightarrow> call" where
  "listAIGoalRuns limit =
     get_call (js ''v1/ai/goals/runs?'' @ query_string
     [(js ''limit'', num_to_string (default_num 20 limit))]) (TArray TypeAIGoalRun)"

definition getAIGoalRun :: "jstr \<Rightarrow> call" where
  "getAIGoalRun i = get_call (js ''v1/ai/goals/runs/'' @ i) TypeAIGoalRun"

definition updateAIGoalRunAction :: "jstr \<Rightarrow> jstr \<Rightarrow> jsval \<Rightarrow> call" where
  "updateAIGoalRunAction runId actionId input = send_call PATCH (js ''v1/ai/goals/runs/'' @ runId @ js ''/actions/'' @ actionId) input TypeAIGoalRun"

definition listAudit :: "jstr option \<Rightarrow> jstr option \<Rightarrow> jstr option \<Rightarrow> jsnum option \<Rightarrow> call" where
  "listAudit actor resourceType since limit =
     get_call (js ''v1/admin/audit'' @ query_suffix (set_opt_num ''limit'' limit (set_opt ''since'' since
     (set_opt ''resourceType'' resourceType (set_opt ''actor'' actor []))))) (TArray TypeAuditEntry)"

definition getEquitiesOhlcv :: "jstr \<Rightarrow> jstr \<Rightarrow> jstr \<Rightarrow> date \<Rightarrow> date \<Rightarrow> range_error + call" where
  "getEquitiesOhlcv exchange symbol timeframe start end =
     bind_sum (toISOString start) (\<lambda>s. bind_sum (toISOString end) (\<lambda>e.
     Inr (get_call (js ''v1/equities/ohlcv?'' @ query_string
       [(js ''exchange'', exchange), (js ''symbol'', symbol), (js ''timeframe'', timeframe),
        (js ''start'', s), (js ''end'', e)]) (TArray TypeOhlcvBar))))"

definition getFuturesOhlcv :: "jstr \<Rightarrow> jstr \<Rightarrow> jstr \<Rightarrow> date \<Rightarrow> date \<Rightarrow> range_error + call" where
  "getFuturesOhlcv exchange contract timeframe start end =
     bind_sum (toISOString start) (\<lambda>s. bind_sum (toISOString end) (\<lambda>e.
     Inr (get_call (js ''v1/futures/ohlcv?'' @ query_string
       [(js ''exchange'', exchange), (js ''contract'', contract), (js ''timeframe'', timeframe),
        (js ''start'', s), (js ''end'', e)]) (TArray TypeOhlcvBar))))"

definition getMacroIndicators :: "jstr \<Rightarrow> jstr \<Rightarrow> date option \<Rightarrow> date option \<Rightarrow> range_error + call" where
  "getMacroIndicators source code start end =
     bind_sum (set_date ''start'' start
       [(js ''source'', source), (js ''code'', code)]) (\<lambda>qs. bind_sum (set_date ''end'' end qs) (\<lambda>qs'.
     Inr (get_call (js ''v1/macro/indicators?'' @ query_string qs') (TArray TypeMacroPoint))))"

definition getOnchainMetrics :: "jstr \<Rightarrow> jstr \<Rightarrow> date option \<Rightarrow> date option \<Rightarrow> range_error + call" where
  "getOnchainMetrics chain metric start end =
     bind_sum (set_date ''start'' start
       [(js ''chain'', chain), (js ''metric'', metric)]) (\<lambda>qs. bind_sum (set_date ''end'' end qs) (\<lambda>qs'.
     Inr (get_call (js ''v1/onchain/metrics?'' @ query_string qs') (TArray TypeOnchainPoint))))"

definition getNews :: "jstr list option \<Rightarrow> date option \<Rightarrow> jsnum option \<Rightarrow> range_error + call" where
  "getNews symbols since limit =
     (let base = [(js ''limit'', num_to_string (default_num 100 limit))];
          qs = (case symbols of None \<Rightarrow> base
                | Some ss \<Rightarrow> if ss = [] then base else qs_set base (js ''symbols'') (join [44] ss))
      in bind_sum (set_date ''since'' since qs) (\<lambda>qs'.
           Inr (get_call (js ''v1/news?'' @ query_string qs') (TArray TypeNewsItem))))"

definition listWallets :: "call" where
  "listWallets = get_call (js ''v1/wallets'') (TArray TypeWallet)"

definition getWallet :: "jstr \<Rightarrow> call" where
  "getWallet i = get_call (js ''v1/wallets/'' @ i) TypeWallet"

definition createWallet :: "jsval \<Rightarrow> call" where
  "createWallet input = send_call POST (js ''v1/wallets'') input TypeWallet"

definition deleteWallet :: "jstr \<Rightarrow> call" where
  "deleteWallet i = bare_call DELETE (js ''v1/wallets/'' @ i) (TObject [(''success'', False, TBoolean)])"

definition getWalletBalance :: "jstr \<Rightarrow> call" where
  "getWalletBalance i = get_call (js ''v1/wallets/'' @ i @ js ''/balance'') TypeWalletBalance"

definition getWalletPositions :: "jstr \<Rightarrow> call" where
  "getWalletPositions i = get_call (js ''v1/wallets/'' @ i @ js ''/positions'') (TArray TypeWalletPosition)"

definition approveWallet :: "jstr \<Rightarrow> jsnum \<Rightarrow> call" where
  "approveWallet wallet amountUsdc =
     send_call POST (js ''v1/wallets/'' @ wallet @ js ''/approve'') (obj [(''amountUsdc'', Num amountUsdc)])
     (TObject [(''txHash'', False, TString), (''amountApproved'', False, TNumber), (''capUsd'', False, TNumber)])"

definition listPredictionMarkets :: "jstr option \<Rightarrow> bool option \<Rightarrow> jsnum option \<Rightarrow> jsnum option \<Rightarrow> call" where
  "listPredictionMarkets category active limit offset =
     get_call (js ''v1/prediction/markets'' @ query_suffix (set_opt_num ''offset'' offset (set_opt_num ''limit'' limit
     (set_bool ''active'' active (set_opt ''category'' category []))))) (TArray TypePredictionMarket)"

definition getPredictionMarket :: "jstr \<Rightarrow> call" where
  "getPredictionMarket i = get_call (js ''v1/prediction/markets/'' @ i) TypePredictionMarket"

definition getPredictionQuotes :: "jstr \<Rightarrow> date option \<Rightarrow> date option \<Rightarrow> range_error + call" where
  "getPredictionQuotes tokenId start end =
     bind_sum (set_date ''start'' start
       [(js ''token_id'', tokenId)]) (\<lambda>qs. bind_sum (set_date ''end'' end qs) (\<lambda>qs'.
     Inr (get_call (js ''v1/prediction/quotes?'' @ query_string qs') (TArray TypePredictionQuote))))"

definition getPredictionTrades :: "jstr \<Rightarrow> jsnum option \<Rightarrow> call" where
  "getPredictionTrades marketId limit =
     get_call (js ''v1/prediction/trades?'' @ query_string
     [(js ''market_id'', marketId), (js ''limit'', num_to_string (default_num 100 limit))]) (TArray TypePredictionTrade)"

definition listPredictionStrategies :: "call" where
  "listPredictionStrategies = get_call (js ''v1/prediction/strategies'') (TArray TypePredictionStrategy)"

definition getPredictionStrategy :: "jstr \<Rightarrow> call" where
  "getPredictionStrategy i = get_call (js ''v1/prediction/strategies/'' @ i) TypePredictionStrategy"

definition createPredictionStrategy :: "jsval \<Rightarrow> call" where
  "createPredictionStrategy input = send_call POST (js ''v1/prediction/strategies'') input TypePredictionStrategy"

definition togglePredictionLive :: "jstr \<Rightarrow> jsval \<Rightarrow> call" where
  "togglePredictionLive i body = send_call POST (js ''v1/prediction/strategies/'' @ i @ js ''/live'') body TypePredictionStrategy"

definition getDashboardSummary :: "call" where
  "getDashboardSummary = get_call (js ''v1/dashboard/summary'') TypeDashboardSummary"

definition listPredictionOrders :: "jstr \<Rightarrow> jsnum option \<Rightarrow> call" where
  "listPredictionOrders strategy limit =
     get_call (js ''v1/prediction/strategies/'' @ strategy @ js ''/orders?limit='' @
     num_to_string (default_num 50 limit)) (TArray TypePredictionOrder)"

definition getSettingsSystemInfo :: "call" where
  "getSettingsSystemInfo = get_call (js ''v1/settings/system-info'') TypeSettingsSystemInfo"

lemmas endpoint_defs =
  getOptions_def
  createOption_def
  listAccounts_def
  getAccount_def
  createAccount_def
  deleteAccount_def
  getBalances_def
  getPositions_def
  getOhlcv_def
  listBacktests_def
  getBacktest_def
  createBacktest_def
  getEquityCurve_def
  getTrades_def
  getStrategies_def
  getStrategy_def
  getStrategyPerformance_def
  deleteOption_def
  getOrders_def
  setLive_def
  setRisk_def
  updateOption_def
  submitOrder_def
  requestMainnetToken_def
  confirmMainnetToken_def
  getMainnetStatus_def
  getExchangeMeta_def
  getPortfolioSummary_def
  listRecommendations_def
  getRecommendation_def
  approveRecommendation_def
  rejectRecommendation_def
  startOptimization_def
  getOptimization_def
  listOptimizations_def
  getSystemState_def
  haltTrading_def
  resumeTrading_def
  getPortfolioLimits_def
  setPortfolioLimits_def
  getAdminAIConfig_def
  updateAdminAIConfig_def
  testAIConnection_def
  getAdminAIPrompts_def
  getAIGoalProviderStatus_def
  analyzeAIGoal_def
  listAIGoalRuns_def
  getAIGoalRun_def
  updateAIGoalRunAction_def
  listAudit_def
  getEquitiesOhlcv_def
  getFuturesOhlcv_def
  getMacroIndicators_def
  getOnchainMetrics_def
  getNews_def
  listWallets_def
  getWallet_def
  createWallet_def
  deleteWallet_def
  getWalletBalance_def
  getWalletPositions_def
  approveWallet_def
  listPredictionMarkets_def
  getPredictionMarket_def
  getPredictionQuotes_def
  getPredictionTrades_def
  listPredictionStrategies_def
  getPredictionStrategy_def
  createPredictionStrategy_def
  togglePredictionLive_def
  getDashboardSummary_def
  listPredictionOrders_def
  getSettingsSystemInfo_def

subsection \<open>The catalogue of endpoint calls\<close>

text \<open>
  Every endpoint function with its arguments, so that a property of all of them is a property of
  \<open>call_of\<close>. The functions that read a \<^verbatim>\<open>Date\<close> or encode an identifier can throw before the request
  is made.
\<close>

datatype arg_error = ArgRange | ArgUri

datatype (plugins only:) api_op =
    OpGetOptions
  | OpCreateOption jsval
  | OpListAccounts
  | OpGetAccount jstr
  | OpCreateAccount jsval
  | OpDeleteAccount jstr
  | OpGetBalances jstr
  | OpGetPositions jstr
  | OpGetOhlcv jstr jstr jstr date date
  | OpListBacktests "jstr option"
  | OpGetBacktest jstr
  | OpCreateBacktest jsval
  | OpGetEquityCurve jstr "jsnum option"
  | OpGetTrades jstr
  | OpGetStrategies
  | OpGetStrategy jstr
  | OpGetStrategyPerformance jstr
  | OpDeleteOption jstr
  | OpGetOrders jstr "jsnum option"
  | OpSetLive jstr jsval
  | OpSetRisk jstr jsval
  | OpUpdateOption jstr jsval
  | OpSubmitOrder jstr jsval
  | OpRequestMainnetToken
  | OpConfirmMainnetToken jstr
  | OpGetMainnetStatus
  | OpGetExchangeMeta "jstr option" "jstr option"
  | OpGetPortfolioSummary
  | OpListRecommendations "jstr option" "jstr option"
  | OpGetRecommendation jstr
  | OpApproveRecommendation jstr
  | OpRejectRecommendation jstr
  | OpStartOptimization jstr jsval
  | OpGetOptimization jstr
  | OpListOptimizations "jstr option"
  | OpGetSystemState
  | OpHaltTrading jstr
  | OpResumeTrading
  | OpGetPortfolioLimits
  | OpSetPortfolioLimits jsval
  | OpGetAdminAIConfig
  | OpUpdateAdminAIConfig jsval
  | OpTestAIConnection jsval
  | OpGetAdminAIPrompts
  | OpGetAIGoalProviderStatus
  | OpAnalyzeAIGoal jsval
  | OpListAIGoalRuns "jsnum option"
  | OpGetAIGoalRun jstr
  | OpUpdateAIGoalRunAction jstr jstr jsval
  | OpListAudit "jstr option" "jstr option" "jstr option" "jsnum option"
  | OpGetEquitiesOhlcv jstr jstr jstr date date
  | OpGetFuturesOhlcv jstr jstr jstr date date
  | OpGetMacroIndicators jstr jstr "date option" "date option"
  | OpGetOnchainMetrics jstr jstr "date option" "date option"
  | OpGetNews "jstr list option" "date option" "jsnum option"
  | OpListWallets
  | OpGetWallet jstr
  | OpCreateWallet jsval
  | OpDeleteWallet jstr
  | OpGetWalletBalance jstr
  | OpGetWalletPositions jstr
  | OpApproveWallet jstr jsnum
  | OpListPredictionMarkets "jstr option" "bool option" "jsnum option" "jsnum option"
  | OpGetPredictionMarket jstr
  | OpGetPredictionQuotes jstr "date option" "date option"
  | OpGetPredictionTrades jstr "jsnum option"
  | OpListPredictionStrategies
  | OpGetPredictionStrategy jstr
  | OpCreatePredictionStrategy jsval
  | OpTogglePredictionLive jstr jsval
  | OpGetDashboardSummary
  | OpListPredictionOrders jstr "jsnum option"
  | OpGetSettingsSystemInfo

primrec call_of :: "api_op \<Rightarrow> arg_error + call" where
  "call_of OpGetOptions = Inr getOptions"
| "call_of (OpCreateOption x0) = Inr (createOption x0)"
| "call_of OpListAccounts = Inr listAccounts"
| "call_of (OpGetAccount x0) = Inr (getAccount x0)"
| "call_of (OpCreateAccount x0) = Inr (createAccount x0)"
| "call_of (OpDeleteAccount x0) = Inr (deleteAccount x0)"
| "call_of (OpGetBalances x0) = Inr (getBalances x0)"
| "call_of (OpGetPositions x0) = Inr (getPositions x0)"
| "call_of (OpGetOhlcv x0 x1 x2 x3 x4) = map_sum (\<lambda>_. ArgRange) (\<lambda>c. c) (getOhlcv x0 x1 x2 x3 x4)"
| "call_of (OpListBacktests x0) = map_sum (\<lambda>_. ArgUri) (\<lambda>c. c) (listBacktests x0)"
| "call_of (OpGetBacktest x0) = Inr (getBacktest x0)"
| "call_of (OpCreateBacktest x0) = Inr (createBacktest x0)"
| "call_of (OpGetEquityCurve x0 x1) = Inr (getEquityCurve x0 x1)"
| "call_of (OpGetTrades x0) = Inr (getTrades x0)"
| "call_of OpGetStrategies = Inr getStrategies"
| "call_of (OpGetStrategy x0) = Inr (getStrategy x0)"
| "call_of (OpGetStrategyPerformance x0) = Inr (getStrategyPerformance x0)"
| "call_of (OpDeleteOption x0) = Inr (deleteOption x0)"
| "call_of (OpGetOrders x0 x1) = Inr (getOrders x0 x1)"
| "call_of (OpSetLive x0 x1) = Inr (setLive x0 x1)"
| "call_of (OpSetRisk x0 x1) = Inr (setRisk x0 x1)"
| "call_of (OpUpdateOption x0 x1) = Inr (updateOption x0 x1)"
| "call_of (OpSubmitOrder x0 x1) = Inr (submitOrder x0 x1)"
| "call_of OpRequestMainnetToken = Inr requestMainnetToken"
| "call_of (OpConfirmMainnetToken x0) = Inr (confirmMainnetToken x0)"
| "call_of OpGetMainnetStatus = Inr getMainnetStatus"
| "call_of (OpGetExchangeMeta x0 x1) = Inr (getExchangeMeta x0 x1)"
| "call_of OpGetPortfolioSummary = Inr getPortfolioSummary"
| "call_of (OpListRecommendations x0 x1) = Inr (listRecommendations x0 x1)"
| "call_of (OpGetRecommendation x0) = Inr (getRecommendation x0)"
| "call_of (OpApproveRecommendation x0) = Inr (approveRecommendation x0)"
| "call_of (OpRejectRecommendation x0) = Inr (rejectRecommendation x0)"
| "call_of (OpStartOptimization x0 x1) = Inr (startOptimization x0 x1)"
| "call_of (OpGetOptimization x0) = Inr (getOptimization x0)"
| "call_of (OpListOptimizations x0) = map_sum (\<lambda>_. ArgUri) (\<lambda>c. c) (listOptimizations x0)"
| "call_of OpGetSystemState = Inr getSystemState"
| "call_of (OpHaltTrading x0) = Inr (haltTrading x0)"
| "call_of OpResumeTrading = Inr resumeTrading"
| "call_of OpGetPortfolioLimits = Inr getPortfolioLimits"
| "call_of (OpSetPortfolioLimits x0) = Inr (setPortfolioLimits x0)"
| "call_of OpGetAdminAIConfig = Inr getAdminAIConfig"
| "call_of (OpUpdateAdminAIConfig x0) = Inr (updateAdminAIConfig x0)"
| "call_of (OpTestAIConnection x0) = Inr (testAIConnection x0)"
| "call_of OpGetAdminAIPrompts = Inr getAdminAIPrompts"
| "call_of OpGetAIGoalProviderStatus = Inr getAIGoalProviderStatus"
| "call_of (OpAnalyzeAIGoal x0) = Inr (analyzeAIGoal x0)"
| "call_of (OpListAIGoalRuns x0) = Inr (listAIGoalRuns x0)"
| "call_of (OpGetAIGoalRun x0) = Inr (getAIGoalRun x0)"
| "call_of (OpUpdateAIGoalRunAction x0 x1 x2) = Inr (updateAIGoalRunAction x0 x1 x2)"
| "call_of (OpListAudit x0 x1 x2 x3) = Inr (listAudit x0 x1 x2 x3)"
| "call_of (OpGetEquitiesOhlcv x0 x1 x2 x3 x4) = map_sum (\<lambda>_. ArgRange) (\<lambda>c. c) (getEquitiesOhlcv x0 x1 x2 x3 x4)"
| "call_of (OpGetFuturesOhlcv x0 x1 x2 x3 x4) = map_sum (\<lambda>_. ArgRange) (\<lambda>c. c) (getFuturesOhlcv x0 x1 x2 x3 x4)"
| "call_of (OpGetMacroIndicators x0 x1 x2 x3) = map_sum (\<lambda>_. ArgRange) (\<lambda>c. c) (getMacroIndicators x0 x1 x2 x3)"
| "call_of (OpGetOnchainMetrics x0 x1 x2 x3) = map_sum (\<lambda>_. ArgRange) (\<lambda>c. c) (getOnchainMetrics x0 x1 x2 x3)"
| "call_of (OpGetNews x0 x1 x2) = map_sum (\<lambda>_. ArgRange) (\<lambda>c. c) (getNews x0 x1 x2)"
| "call_of OpListWallets = Inr listWallets"
| "call_of (OpGetWallet x0) = Inr (getWallet x0)"
| "call_of (OpCreateWallet x0) = Inr (createWallet x0)"
| "call_of (OpDeleteWallet x0) = Inr (deleteWallet x0)"
| "call_of (OpGetWalletBalance x0) = Inr (getWalletBalance x0)"
| "call_of (OpGetWalletPositions x0) = Inr (getWalletPositions x0)"
| "call_of (OpApproveWallet x0 x1) = Inr (approveWallet x0 x1)"
| "call_of (OpListPredictionMarkets x0 x1 x2 x3) = Inr (listPredictionMarkets x0 x1 x2 x3)"
| "call_of (OpGetPredictionMarket x0) = Inr (getPredictionMarket x0)"
| "call_of (OpGetPredictionQuotes x0 x1 x2) = map_sum (\<lambda>_. ArgRange) (\<lambda>c. c) (getPredictionQuotes x0 x1 x2)"
| "call_of (OpGetPredictionTrades x0 x1) = Inr (getPredictionTrades x0 x1)"
| "call_of OpListPredictionStrategies = Inr listPredictionStrategies"
| "call_of (OpGetPredictionStrategy x0) = Inr (getPredictionStrategy x0)"
| "call_of (OpCreatePredictionStrategy x0) = Inr (createPredictionStrategy x0)"
| "call_of (OpTogglePredictionLive x0 x1) = Inr (togglePredictionLive x0 x1)"
| "call_of OpGetDashboardSummary = Inr getDashboardSummary"
| "call_of (OpListPredictionOrders x0 x1) = Inr (listPredictionOrders x0 x1)"
| "call_of OpGetSettingsSystemInfo = Inr getSettingsSystemInfo"

subsection \<open>What every call satisfies\<close>

definition call_ok :: "call \<Rightarrow> bool" where
  "call_ok c \<longleftrightarrow> starts_with (c_path c) (js ''v1/'') \<and>
     (c_method c = GET \<longrightarrow> c_body c = None \<and> c_no_store c \<and> c_headers c = []) \<and>
     (c_method c \<noteq> GET \<longrightarrow> \<not> c_no_store c \<and> c_checked c) \<and>
     (c_headers c = [] \<or> c_headers c = json_header) \<and>
     (c_body c \<noteq> None \<longrightarrow> c_headers c = json_header)"

lemma starts_with_js: "starts_with (js (p @ q)) (js p)" "starts_with (js (p @ q) @ t) (js p)"
  by (auto simp: starts_with_iff js_append)

lemma starts_with_v1 [js_shape]:
  "starts_with (js (''v1/'' @ q)) (js ''v1/'')" "starts_with (js (''v1/'' @ q) @ t) (js ''v1/'')"
  by (rule starts_with_js)+

definition all_right :: "('a \<Rightarrow> bool) \<Rightarrow> 'e + 'a \<Rightarrow> bool" where
  "all_right P x = (case x of Inl _ \<Rightarrow> True | Inr a \<Rightarrow> P a)"

lemma all_right_Inr [js_shape]: "all_right P (Inr a) = P a"
  by (simp add: all_right_def)

lemma all_right_bind [js_shape]: "(\<And>a. all_right P (f a)) \<Longrightarrow> all_right P (bind_sum x f)"
  by (cases x) (simp_all add: all_right_def)

lemma all_right_map_sum [js_shape]: "all_right P (map_sum f (\<lambda>c. c) x) = all_right P x"
  by (cases x) (simp_all add: all_right_def)

lemma all_right_case [js_shape]:
  "all_right P a \<Longrightarrow> (\<And>s. all_right P (f s)) \<Longrightarrow> all_right P (case x of None \<Rightarrow> a | Some s \<Rightarrow> f s)"
  by (cases x) simp_all

lemma all_right_if [js_shape]: "all_right P a \<Longrightarrow> all_right P b \<Longrightarrow> all_right P (if c then a else b)"
  by simp

lemma call_ok_makers [js_shape]:
  "call_ok (get_call p t) = starts_with p (js ''v1/'')"
  "call_ok ((get_call p t)\<lparr>c_checked := b\<rparr>) = starts_with p (js ''v1/'')"
  "m \<noteq> GET \<Longrightarrow> call_ok (send_call m p v t) = starts_with p (js ''v1/'')"
  "m \<noteq> GET \<Longrightarrow> call_ok (bodyless_call m p t) = starts_with p (js ''v1/'')"
  "m \<noteq> GET \<Longrightarrow> call_ok (bare_call m p t) = starts_with p (js ''v1/'')"
  by (simp_all add: call_ok_def call_defs)

lemma starts_with_v1_cons [js_shape]:
  "starts_with (js (CHR ''v'' # CHR ''1'' # CHR ''/'' # q)) (js ''v1/'')"
  "starts_with (js (CHR ''v'' # CHR ''1'' # CHR ''/'' # q) @ t) (js ''v1/'')"
  using starts_with_v1 [of q] by simp_all

lemma call_checked:
  "c_checked (get_call p t)" "c_checked (send_call m p b t)" "c_checked (bodyless_call m p t)"
  "c_checked (bare_call m p t)"
  by (simp_all add: call_defs)

lemma call_of_right: "all_right call_ok (call_of op)"
  by (cases op)
     (simp_all only: call_of.simps endpoint_defs js_shape Let_def http_method.distinct not_False_eq_True)

lemma call_of_ok: "call_of op = Inr c \<Longrightarrow> call_ok c"
  using call_of_right [of op] by (simp add: all_right_def)

lemma checked_unless_getOptions: "call_of op = Inr c \<Longrightarrow> op \<noteq> OpGetOptions \<Longrightarrow> c_checked c"
proof -
  have "op \<noteq> OpGetOptions \<Longrightarrow> all_right c_checked (call_of op)"
    by (cases op)
       (simp_all only: call_of.simps endpoint_defs js_shape Let_def call_checked if_False simp_thms)
  then show "call_of op = Inr c \<Longrightarrow> op \<noteq> OpGetOptions \<Longrightarrow> c_checked c"
    by (simp add: all_right_def)
qed

subsection \<open>Headers\<close>

lemma map_of_hput: "map_of (hput hs k v) = (map_of hs)(k \<mapsto> v)"
  by (induction hs k v rule: hput.induct) (auto simp: fun_eq_iff)

lemma keys_hput: "fst ` set (hput hs k v) = insert k (fst ` set hs)"
  by (induction hs k v rule: hput.induct) auto

lemma distinct_hput: "distinct (map fst hs) \<Longrightarrow> distinct (map fst (hput hs k v))"
proof (induction hs k v rule: hput.induct)
  case (2 k' v' hs k v)
  then show ?case using keys_hput [of hs k v] by auto
qed simp

lemma merge_headers_Nil [simp]: "merge_headers hs [] = hs"
  by (simp add: merge_headers_def)

lemma merge_headers_Cons [simp]: "merge_headers hs ((k, v) # new) = merge_headers (hput hs k v) new"
  by (simp add: merge_headers_def)

lemma call_headers: "call_ok c \<Longrightarrow> c_headers c = [] \<or> c_headers c = json_header"
  by (simp add: call_ok_def)

text \<open>The header list of a request, case by case.\<close>

lemma request_headers:
  assumes "call_ok c"
  shows "q_headers (apiFetch ce c) = userIdHeader ce @ serverCookieHeader ce @ c_headers c"
  using call_headers [OF assms]
  by (auto simp: apiFetch_def userIdHeader_def serverCookieHeader_def json_header_def Let_def
      split: option.splits)

lemma user_id_header_names:
  "map fst (userIdHeader ce) = (if has_window ce \<and> non_empty (stored_user_id ce) [] \<noteq> []
     then [js ''X-User-Id''] else [])"
  by (simp add: userIdHeader_def non_empty_def split: option.splits)

lemma cookie_header_names:
  "map fst (serverCookieHeader ce) \<in> (if has_window ce then {[]} else {[], [js ''Cookie'']})"
  by (simp add: serverCookieHeader_def Let_def split: option.splits)

end
