(* ===== verification/Api_Requests.thy ===== *)
theory Api_Requests
  imports Api_Client
begin

section \<open>What the gateway receives and what a page gets back\<close>

text \<open>
  Properties of the calls of \<^verbatim>\<open>src/client/data/api-client.ts\<close> as a whole: the identity headers of a
  request, the outcome of a response, and the query strings, which are read back here by a decoder
  of \<^verbatim>\<open>application/x-www-form-urlencoded\<close> that plays the part of the gateway's.
\<close>

subsection \<open>Identity headers and outcomes\<close>

text \<open>
  C34: whatever endpoint function is called, the request it leads to stays under \<^verbatim>\<open>v1/\<close>, a GET carries
  no body and is never cached, a body is always announced as JSON, no header is given twice, the
  \<^verbatim>\<open>X-User-Id\<close> header goes out exactly from a browser with a stored user id, and cookies are
  forwarded only from the server.
\<close>

theorem endpoint_request_shape:
  assumes "call_of op = Inr c"
  shows "starts_with (c_path c) (js ''v1/'') \<and>
    (c_method c = GET \<longrightarrow> (q_body (apiFetch ce c), q_no_store (apiFetch ce c)) = (None, True)) \<and>
    (q_body (apiFetch ce c) \<noteq> None \<longrightarrow>
       (js ''Content-Type'', js ''application/json'') \<in> set (q_headers (apiFetch ce c))) \<and>
    distinct (map fst (q_headers (apiFetch ce c))) \<and>
    (js ''X-User-Id'' \<in> set (map fst (q_headers (apiFetch ce c))) \<longleftrightarrow>
       has_window ce \<and> non_empty (stored_user_id ce) [] \<noteq> []) \<and>
    (js ''Cookie'' \<in> set (map fst (q_headers (apiFetch ce c))) \<longrightarrow> \<not> has_window ce)"
proof (intro conjI impI)
  have ok: "call_ok c" using assms by (rule call_of_ok)
  note hs = request_headers [OF ok, of ce]
  have h: "map fst (c_headers c) = [] \<or> map fst (c_headers c) = [js ''Content-Type'']"
    using call_headers [OF ok] by (auto simp: json_header_def)
  show "starts_with (c_path c) (js ''v1/'')" using ok by (simp add: call_ok_def)
  show "c_method c = GET \<Longrightarrow> (q_body (apiFetch ce c), q_no_store (apiFetch ce c)) = (None, True)"
    using ok by (simp add: call_ok_def apiFetch_def Let_def)
  show "(js ''Content-Type'', js ''application/json'') \<in> set (q_headers (apiFetch ce c))"
    if "q_body (apiFetch ce c) \<noteq> None"
  proof -
    have "c_body c \<noteq> None" using that by (auto simp: apiFetch_def Let_def)
    then have "c_headers c = json_header" using ok by (simp add: call_ok_def)
    then show ?thesis unfolding hs by (simp add: json_header_def)
  qed
  show "distinct (map fst (q_headers (apiFetch ce c)))"
    unfolding hs map_append user_id_header_names using cookie_header_names [of ce] h
    by (auto split: if_splits)
  show "js ''X-User-Id'' \<in> set (map fst (q_headers (apiFetch ce c))) \<longleftrightarrow>
           has_window ce \<and> non_empty (stored_user_id ce) [] \<noteq> []"
    unfolding hs map_append user_id_header_names using cookie_header_names [of ce] h
    by (auto split: if_splits)
  show "js ''Cookie'' \<in> set (map fst (q_headers (apiFetch ce c))) \<Longrightarrow> \<not> has_window ce"
    unfolding hs map_append user_id_header_names using cookie_header_names [of ce] h
    by (auto split: if_splits)
qed

lemma endpoint_request_shape_witness:
  "js ''X-User-Id'' \<in> set (map fst (q_headers (apiFetch
      \<lparr>process_env = (\<lambda>_. None), has_window = True, stored_user_id = Some (js ''u1''),
       request_cookies = None, window_origin = []\<rparr> (getAccount (js ''a1'')))))"
  using endpoint_request_shape [of "OpGetAccount (js ''a1'')" "getAccount (js ''a1'')"
      "\<lparr>process_env = (\<lambda>_. None), has_window = True, stored_user_id = Some (js ''u1''),
       request_cookies = None, window_origin = []\<rparr>"]
  by (simp add: non_empty_def)

text \<open>
  C35: the outcome of an endpoint function. A response outside 200--299 is an \<open>ApiError\<close> that carries
  the response's status and raw body; the sign-in event is dispatched exactly for status 401 in a
  browser (a 403 stays with the caller); a success whose body is JSON is returned as it is.
  \<open>getOptions\<close>, which does not look at the status, is the one exception.
\<close>

theorem endpoint_outcome:
  assumes "call_of op = Inr c" and "op \<noteq> OpGetOptions" and "gateway (apiFetch ce c) = r"
  shows "run_call ce gateway c =
    (if r_ok r then
       (case json_parse (r_text r) of None \<Rightarrow> Inl SyntaxError | Some v \<Rightarrow> Inr v)
     else Inl (ApiError (r_status r) (error_message (r_text r)) (r_text r)),
     if r_status r = 401 \<and> has_window ce then [(401, r_url r)] else [])"
  using checked_unless_getOptions [OF assms(1,2)] assms(3)
  by (auto simp: run_call_def jsonOrThrow_def shouldDispatchAuthUnauthorizedEvent_def Let_def r_ok_def
      num_eq_def split: option.splits)

lemma endpoint_outcome_witness:
  "run_call \<lparr>process_env = (\<lambda>_. None), has_window = True, stored_user_id = None,
       request_cookies = None, window_origin = []\<rparr>
     (\<lambda>_. \<lparr>r_status = 403, r_url = [], r_text = []\<rparr>) listAccounts
   = (Inl (ApiError 403 (error_message []) []), [])"
  using endpoint_outcome [of OpListAccounts listAccounts "\<lambda>_. \<lparr>r_status = 403, r_url = [], r_text = []\<rparr>"
     "\<lparr>process_env = (\<lambda>_. None), has_window = True, stored_user_id = None,
       request_cookies = None, window_origin = []\<rparr>"]
  by (simp add: r_ok_def)

text \<open>
  \<open>getOptions\<close> reads the body whatever the status is: a 401 answer whose body is JSON comes back
  as the list of options, with no error and no sign-in event.
\<close>

theorem getOptions_ignores_status:
  assumes "json_parse (r_text r) = Some v" and "gateway (apiFetch ce getOptions) = r"
  shows "run_call ce gateway getOptions = (Inr v, [])"
  using assms by (simp add: run_call_def getOptions_def get_call_def Let_def)

lemma getOptions_ignores_status_witness:
  "run_call \<lparr>process_env = (\<lambda>_. None), has_window = True, stored_user_id = None,
       request_cookies = None, window_origin = []\<rparr>
     (\<lambda>_. \<lparr>r_status = 401, r_url = [], r_text = [123, 125]\<rparr>) getOptions = (Inr (obj []), [])"
proof -
  have "json_parse [123, 125] = Some (obj [])" by code_simp
  then show ?thesis
    using getOptions_ignores_status [of "\<lparr>r_status = 401, r_url = [], r_text = [123, 125]\<rparr>" "obj []"
        "\<lambda>_. \<lparr>r_status = 401, r_url = [], r_text = [123, 125]\<rparr>"
        "\<lparr>process_env = (\<lambda>_. None), has_window = True, stored_user_id = None,
          request_cookies = None, window_origin = []\<rparr>"]
    by simp
qed

end
