(* ===== verification/Url_Query.thy ===== *)
theory Url_Query
  imports Js_Text
begin

section \<open>Reading a query string back\<close>

text \<open>
  The receiving end of \<^verbatim>\<open>URLSearchParams\<close>: splitting a query string at its ampersands, percent
  decoding and UTF-8 decoding, as \<^verbatim>\<open>url.searchParams\<close> and the gateway do. The encoder of
  \<open>Js_Text\<close> is its right inverse on well-formed strings (no surrogate without its partner), which
  is what makes the redirects of the sign-in flow and the queries of the gateway client lose nothing.
\<close>

subsection \<open>The decoder\<close>

fun form_bytes :: "jstr \<Rightarrow> nat list" where
  "form_bytes [] = []"
| "form_bytes (c # s) =
     (if c = 43 then 32 # form_bytes s
      else if c = 37 then
        (case s of
           h # l # r \<Rightarrow>
             (case (radix_digit h, radix_digit l) of
                (Some a, Some b) \<Rightarrow> (16 * a + b) # form_bytes r
              | _ \<Rightarrow> 37 # form_bytes s)
         | _ \<Rightarrow> 37 # form_bytes s)
      else utf8 c @ form_bytes s)"

definition units_of :: "nat \<Rightarrow> jstr" where
  "units_of u = (if u < 65536 then [u] else [55296 + (u - 65536) div 1024, 56320 + (u - 65536) mod 1024])"

text \<open>UTF-8, with every byte that starts no sequence read as U+FFFD.\<close>

fun utf8_decode :: "nat list \<Rightarrow> jstr" where
  "utf8_decode [] = []"
| "utf8_decode (a # s) =
     (if a < 128 then a # utf8_decode s
      else if 192 \<le> a \<and> a < 224 then
        (case s of b # r \<Rightarrow> units_of ((a - 192) * 64 + (b - 128)) @ utf8_decode r | _ \<Rightarrow> [65533])
      else if 224 \<le> a \<and> a < 240 then
        (case s of b # c # r \<Rightarrow>
            units_of ((a - 224) * 4096 + (b - 128) * 64 + (c - 128)) @ utf8_decode r
         | _ \<Rightarrow> [65533])
      else if 240 \<le> a \<and> a < 248 then
        (case s of b # c # d # r \<Rightarrow>
            units_of ((a - 240) * 262144 + (b - 128) * 4096 + (c - 128) * 64 + (d - 128)) @ utf8_decode r
         | _ \<Rightarrow> [65533])
      else 65533 # utf8_decode s)"

definition form_decode :: "jstr \<Rightarrow> jstr" where
  "form_decode s = utf8_decode (form_bytes s)"

definition parse_pair :: "jstr \<Rightarrow> jstr \<times> jstr" where
  "parse_pair p = (form_decode (takeWhile (\<lambda>c. c \<noteq> 61) p), form_decode (drop 1 (dropWhile (\<lambda>c. c \<noteq> 61) p)))"

definition parse_query :: "jstr \<Rightarrow> (jstr \<times> jstr) list" where
  "parse_query s = map parse_pair (filter (\<lambda>p. p \<noteq> []) (split_at (\<lambda>c. c = 38) s))"

subsection \<open>Well-formed strings\<close>

definition well_formed :: "jstr \<Rightarrow> bool" where
  "well_formed s \<longleftrightarrow> list_all (\<lambda>c. c < 65536) s \<and> None \<notin> set (code_points s)"

lemma code_points_join:
  "list_all (\<lambda>c. c < 65536) s \<Longrightarrow> None \<notin> set (code_points s) \<Longrightarrow>
   concat (map (\<lambda>u. units_of (the u)) (code_points s)) = s"
proof (induction s rule: code_points.induct)
  case (2 c)
  then show ?case by (simp add: units_of_def split: if_splits)
next
  case (3 c d s)
  show ?case
  proof (cases "is_high c \<and> is_low d")
    case True
    from True obtain a b where ab: "c = 55296 + a" "d = 56320 + b" "b < 1024"
      by (auto simp: is_high_def is_low_def le_iff_add)
    then have "units_of (65536 + (c - 55296) * 1024 + (d - 56320)) = [c, d]"
      by (simp add: units_of_def)
    with True 3 show ?thesis by simp
  next
    case False
    with 3 show ?thesis by (auto simp: units_of_def split: if_splits)
  qed
qed simp

lemma code_points_bound:
  "list_all (\<lambda>c. c < 65536) s \<Longrightarrow> Some u \<in> set (code_points s) \<Longrightarrow>
   u < 1114112 \<and> \<not> is_high u \<and> \<not> is_low u"
  by (induction s rule: code_points.induct) (auto simp: is_high_def is_low_def split: if_splits)

lemma ascii_well_formed: "list_all (\<lambda>c. c < 128) s \<Longrightarrow> well_formed s"
proof -
  assume a: "list_all (\<lambda>c. c < 128) s"
  have "code_points s = map Some s"
    using a by (induction s rule: code_points.induct) (auto simp: is_high_def is_low_def)
  with a show ?thesis by (auto simp: well_formed_def list_all_iff)
qed

subsection \<open>Round trip\<close>

lemma radix_digit_hex: "n < 16 \<Longrightarrow> radix_digit (hex_digit n) = Some n"
  by (auto simp: radix_digit_def hex_digit_def is_digit_def)

lemma form_bytes_percent: "b < 256 \<Longrightarrow> form_bytes (percent b @ r) = b # form_bytes r"
  by (simp add: percent_def radix_digit_hex)

lemma form_bytes_percents:
  "list_all (\<lambda>b. b < 256) bs \<Longrightarrow> form_bytes (concat (map percent bs) @ r) = bs @ form_bytes r"
proof (induction bs)
  case (Cons b bs)
  then have "form_bytes (percent b @ (concat (map percent bs) @ r)) = b # form_bytes (concat (map percent bs) @ r)"
    by (intro form_bytes_percent) simp
  with Cons show ?case by simp
qed simp

lemma utf8_bytes: "u < 1114112 \<Longrightarrow> list_all (\<lambda>b. b < 256) (utf8 u)"
  by (simp add: utf8_def) (auto simp: less_mult_imp_div_less)

lemma split_64: "u div 4096 * 4096 + u div 64 mod 64 * 64 + u mod 64 = (u::nat)"
proof -
  have "u div 64 div 64 * 64 + u div 64 mod 64 = u div 64" by (rule div_mult_mod_eq)
  moreover have "u div 64 * 64 + u mod 64 = u" by (rule div_mult_mod_eq)
  moreover have "u div 64 div 64 = u div 4096" by (simp add: div_mult2_eq [symmetric])
  ultimately show ?thesis by linarith
qed

lemma utf8_decode_utf8: "u < 1114112 \<Longrightarrow> utf8_decode (utf8 u @ r) = units_of u @ utf8_decode r"
proof -
  assume u: "u < 1114112"
  consider (one) "u < 128" | (two) "128 \<le> u" "u < 2048" | (three) "2048 \<le> u" "u < 65536"
    | (four) "65536 \<le> u" by linarith
  then show ?thesis
  proof cases
    case one
    then show ?thesis by (simp add: utf8_def units_of_def)
  next
    case two
    then have "192 + u div 64 < 224" by simp
    moreover have "u div 64 * 64 + u mod 64 = u" by simp
    ultimately show ?thesis using two by (simp add: utf8_def div_less_iff_less_mult)
  next
    case three
    have "u div 4096 * 4096 + u div 64 mod 64 * 64 + u mod 64 = u" by (rule split_64)
    then show ?thesis using three by (simp add: utf8_def div_less_iff_less_mult)
  next
    case four
    have "u div 64 * 64 + u mod 64 = u" by (rule div_mult_mod_eq)
    moreover have "u div 262144 * 4096 + u div 4096 mod 64 * 64 + u div 64 mod 64 = u div 64"
      using split_64 [of "u div 64"] by (simp add: div_mult2_eq [symmetric])
    ultimately have "u div 262144 * 262144 + u div 4096 mod 64 * 4096 + u div 64 mod 64 * 64 + u mod 64 = u"
      by linarith
    then show ?thesis using four u by (simp add: utf8_def div_less_iff_less_mult)
  qed
qed

definition form_unit :: "nat \<Rightarrow> jstr" where
  "form_unit u = (if is_alnum u \<or> u \<in> {42, 45, 46, 95} then [u]
     else if u = 32 then [43] else concat (map percent (utf8 u)))"

lemma form_encode_eq:
  "None \<notin> set (code_points s) \<Longrightarrow> form_encode s = concat (map (\<lambda>u. form_unit (the u)) (code_points s))"
  unfolding form_encode_def form_unit_def
  by (rule arg_cong [where f = concat], rule map_cong) (auto simp: Let_def split: option.splits)

lemma plain_utf8: "is_alnum u \<or> u \<in> {42, 45, 46, 95} \<Longrightarrow> utf8 u = [u] \<and> u \<noteq> 43 \<and> u \<noteq> 37"
  by (auto simp: utf8_def is_alnum_def is_digit_def)

lemma form_bytes_unit: "u < 1114112 \<Longrightarrow> form_bytes (form_unit u @ r) = utf8 u @ form_bytes r"
  using plain_utf8 [of u] form_bytes_percents [OF utf8_bytes, of u r]
  by (auto simp: form_unit_def utf8_def [of 32])

lemma form_decode_encode:
  assumes "well_formed s"
  shows "form_decode (form_encode s) = s"
proof -
  let ?us = "map the (code_points s)"
  have b: "\<forall>u \<in> set ?us. u < 1114112"
  proof
    fix u assume "u \<in> set ?us"
    then obtain c where "c \<in> set (code_points s)" "u = the c" by auto
    with assms show "u < 1114112"
      using code_points_bound [of s u] by (cases c) (auto simp: well_formed_def)
  qed
  have fb: "form_bytes (concat (map form_unit us)) = concat (map utf8 us)"
    if "\<forall>u \<in> set us. u < 1114112" for us
    using that by (induction us) (simp_all add: form_bytes_unit)
  have ud: "utf8_decode (concat (map utf8 us)) = concat (map units_of us)"
    if "\<forall>u \<in> set us. u < 1114112" for us
    using that by (induction us) (simp_all add: utf8_decode_utf8)
  have "form_encode s = concat (map form_unit ?us)"
    using assms by (simp add: form_encode_eq well_formed_def comp_def)
  moreover have "concat (map units_of ?us) = s"
    using assms code_points_join [of s] by (simp add: well_formed_def comp_def)
  ultimately show ?thesis by (simp only: form_decode_def fb [OF b] ud [OF b])
qed

text \<open>No separator survives the encoding.\<close>

definition form_char :: "nat \<Rightarrow> bool" where
  "form_char c \<longleftrightarrow> is_alnum c \<or> c \<in> {37, 42, 43, 45, 46, 95}"

lemma percent_clean: "b < 256 \<Longrightarrow> list_all form_char (percent b)"
  by (auto simp: percent_def hex_digit_def form_char_def is_alnum_def is_digit_def)

lemma form_unit_clean: "u < 1114112 \<Longrightarrow> list_all form_char (form_unit u)"
  using utf8_bytes [of u] percent_clean
  by (auto simp: form_unit_def form_char_def list_all_iff)

lemma form_encode_clean:
  assumes "well_formed s" and "c \<in> set (form_encode s)"
  shows "c \<noteq> 38 \<and> c \<noteq> 61 \<and> c \<noteq> 35 \<and> c \<noteq> 47 \<and> c \<noteq> 63"
proof -
  from assms obtain u where u: "Some u \<in> set (code_points s)" "c \<in> set (form_unit u)"
    by (auto simp: well_formed_def form_encode_eq) (metis option.exhaust_sel)
  then have "u < 1114112" using assms(1) code_points_bound by (auto simp: well_formed_def)
  from form_unit_clean [OF this] u(2) have "form_char c" by (simp add: list_all_iff)
  then show ?thesis by (auto simp: form_char_def is_alnum_def is_digit_def)
qed

lemma split_at_free: "\<forall>c \<in> set s. \<not> P c \<Longrightarrow> split_at P s = [s]"
  by (induction s) auto

lemma split_at_append: "\<forall>c \<in> set s. \<not> P c \<Longrightarrow> P d \<Longrightarrow> split_at P (s @ d # t) = s # split_at P t"
  by (induction s) auto

lemma split_at_join:
  "\<forall>s \<in> set ss. \<forall>c \<in> set s. c \<noteq> d \<Longrightarrow> ss \<noteq> [] \<Longrightarrow> split_at (\<lambda>c. c = d) (join [d] ss) = ss"
proof (induction ss rule: induct_list012)
  case (2 s)
  then show ?case by (simp add: split_at_free)
next
  case (3 s t ss)
  then show ?case by (simp add: split_at_append)
qed simp

lemma takeWhile_sep: "\<forall>c \<in> set s. c \<noteq> d \<Longrightarrow> takeWhile (\<lambda>c. c \<noteq> d) (s @ d # t) = s"
  by (induction s) auto

lemma dropWhile_sep: "\<forall>c \<in> set s. c \<noteq> d \<Longrightarrow> dropWhile (\<lambda>c. c \<noteq> d) (s @ d # t) = d # t"
  by (induction s) auto

lemma parse_query_string:
  assumes wf: "\<forall>(k, v) \<in> set kvs. well_formed k \<and> well_formed v"
  shows "parse_query (query_string kvs) = kvs"
proof (cases "kvs = []")
  case True
  then show ?thesis by (simp add: parse_query_def query_string_def)
next
  case False
  let ?e = "\<lambda>(k, v). form_encode k @ 61 # form_encode v"
  have clean: "\<forall>p \<in> set (map ?e kvs). \<forall>c \<in> set p. c \<noteq> 38"
    using wf form_encode_clean by fastforce
  have "parse_pair (?e kv) = kv" if "kv \<in> set kvs" for kv
  proof -
    obtain k v where kv: "kv = (k, v)" by force
    with that wf have "well_formed k" "well_formed v" by auto
    moreover have "\<forall>c \<in> set (form_encode k). c \<noteq> 61" using \<open>well_formed k\<close> form_encode_clean by blast
    ultimately show ?thesis
      by (simp add: kv parse_pair_def takeWhile_sep dropWhile_sep form_decode_encode)
  qed
  moreover have "filter (\<lambda>p. p \<noteq> []) (map ?e kvs) = map ?e kvs"
    by (rule filter_True) auto
  moreover have "split_at (\<lambda>c. c = 38) (query_string kvs) = map ?e kvs"
    unfolding query_string_def using clean False by (intro split_at_join) simp_all
  ultimately show ?thesis
    by (simp only: parse_query_def map_map comp_def) (simp add: map_idI)
qed

end
