(* ===== verification/Auth.thy ===== *)
theory Auth
  imports Api_Client Url_Query
begin

section \<open>Sign-in: redirects, the middleware and the auth client\<close>

text \<open>
  \<^verbatim>\<open>src/client/data/auth-redirect.mjs\<close> (which destinations after a sign-in are accepted, and the links
  that carry them), \<^verbatim>\<open>src/client/middleware.ts\<close> (the gate in front of every page),
  \<^verbatim>\<open>src/client/data/auth-client.ts\<close> (the calls to \<^verbatim>\<open>/auth\<close> and their outcomes) and
  \<^verbatim>\<open>src/client/data/auth-server.ts\<close>. A parsed URL is its path and its query (with the question mark);
  its parameters are read with the decoder of \<open>Url_Query\<close>.
\<close>

subsection \<open>Redirect destinations\<close>

record url =
  u_pathname :: jstr
  u_search :: jstr

definition search_param :: "url \<Rightarrow> jstr \<Rightarrow> jstr option" where
  "search_param u k = map_of (parse_query (drop 1 (u_search u))) k"

definition nullable :: "jstr option \<Rightarrow> jsval" where
  "nullable v = (case v of None \<Rightarrow> Null | Some s \<Rightarrow> Str s)"

definition DEFAULT_AUTH_DESTINATION :: jstr where
  "DEFAULT_AUTH_DESTINATION = js ''/ai-money''"

definition safeNextOrDefault :: "jsval \<Rightarrow> jstr \<Rightarrow> jstr" where
  "safeNextOrDefault raw fallback =
     (let next = text_of raw
      in if next \<noteq> [] \<and> starts_with next (js ''/'') \<and> \<not> starts_with next (js ''//'') then next else fallback)"

definition authHrefWithNext :: "jsval \<Rightarrow> jsval \<Rightarrow> jstr" where
  "authHrefWithNext pathname rawNext =
     (let path0 = trim (str_or pathname (js ''/login''));
          path = (if path0 = [] then js ''/login'' else path0);
          next = safeNextOrDefault rawNext []
      in if next = [] then path else path @ 63 # query_string [(js ''next'', next)])"

definition authPageDestinationFromUrl :: "url \<Rightarrow> jstr \<Rightarrow> jstr" where
  "authPageDestinationFromUrl u fallback = safeNextOrDefault (nullable (search_param u (js ''next''))) fallback"

definition protectedNextParamFromUrl :: "url \<Rightarrow> jstr" where
  "protectedNextParamFromUrl u = (if u_pathname u = js ''/'' then [] else u_pathname u @ u_search u)"

definition loginHrefForUrl :: "url \<Rightarrow> jstr" where
  "loginHrefForUrl u = authHrefWithNext (S ''/login'') (Str (protectedNextParamFromUrl u))"

definition loginHrefForPath :: "jsval \<Rightarrow> jsval \<Rightarrow> jstr" where
  "loginHrefForPath pathname search =
     (let path = text_of pathname; query = text_of search;
          next = (if path = js ''/'' then [] else path @ (if starts_with query (js ''?'') then query else []))
      in authHrefWithNext (S ''/login'') (Str next))"

subsection \<open>The middleware\<close>

definition PUBLIC_PREFIXES :: "jstr list" where
  "PUBLIC_PREFIXES = [js ''/login'', js ''/register'', js ''/accept-invite'']"

definition LEGACY_REDIRECTS :: "jstr \<Rightarrow> jstr option" where
  "LEGACY_REDIRECTS = map_of [(js ''/admin'', js ''/settings/system''), (js ''/admin/ai'', js ''/settings/ai'')]"

text \<open>The answer: let the request through, or redirect to a reference resolved against the request's URL.\<close>

datatype gate = Pass | Redirect (gate_status: nat) (gate_location: jstr)

definition is_public :: "jstr \<Rightarrow> bool" where
  "is_public pathname = list_ex (\<lambda>prefix. pathname = prefix \<or> starts_with pathname (prefix @ js ''/'')) PUBLIC_PREFIXES"

definition login_location :: "jstr \<Rightarrow> jstr" where
  "login_location next = (if next = [] then js ''/login'' else js ''/login?'' @ query_string [(js ''next'', next)])"

definition middleware :: "bool \<Rightarrow> url \<Rightarrow> gate" where
  "middleware hasCookie u =
     (if is_public (u_pathname u) then
        (if hasCookie then Redirect 307 (authPageDestinationFromUrl u DEFAULT_AUTH_DESTINATION) else Pass)
      else if hasCookie then
        (case LEGACY_REDIRECTS (u_pathname u) of Some target \<Rightarrow> Redirect 308 target | None \<Rightarrow> Pass)
      else Redirect 307 (login_location (protectedNextParamFromUrl u)))"

text \<open>
  The matcher: the middleware runs on a path whose part after the slash does not begin with one of
  the listed names (in which a dot, being a regular expression's, matches any code unit).
\<close>

fun glob_prefix :: "jstr \<Rightarrow> jstr \<Rightarrow> bool" where
  "glob_prefix s [] = True"
| "glob_prefix [] (c # p) = False"
| "glob_prefix (d # s) (c # p) = ((c = 46 \<or> d = c) \<and> glob_prefix s p)"

definition middleware_runs :: "jstr \<Rightarrow> bool" where
  "middleware_runs pathname =
     (case pathname of [] \<Rightarrow> False
      | c # rest \<Rightarrow> c = 47 \<and> \<not> list_ex (glob_prefix rest)
          [js ''_next/static'', js ''_next/image'', js ''_next/data'', js ''favicon.ico'', js ''robots.txt'',
           js ''sitemap.xml''])"

subsection \<open>The auth client\<close>

datatype auth_outcome = Auth_Value jsval | Auth_Null | Auth_Void | AuthError int jstr | Auth_Syntax

text \<open>\<^verbatim>\<open>statusText\<close> is the status line's text, the last resort of \<^verbatim>\<open>readErr\<close>.\<close>

definition readErr :: "jstr \<Rightarrow> jstr \<Rightarrow> jstr" where
  "readErr body statusText =
     (let rest = (if body = [] then statusText else body)
      in case json_parse body of None \<Rightarrow> rest
         | Some v \<Rightarrow> if truthy v \<and> is_object v
             then to_str (coalesce (fld v ''message'') (coalesce (fld v ''error'') (Str body)))
             else rest)"

definition auth_json :: "response \<Rightarrow> jstr \<Rightarrow> auth_outcome" where
  "auth_json r st =
     (if \<not> r_ok r then AuthError (r_status r) (readErr (r_text r) st)
      else case json_parse (r_text r) of None \<Rightarrow> Auth_Syntax | Some v \<Rightarrow> Auth_Value v)"

definition auth_void :: "response \<Rightarrow> jstr \<Rightarrow> auth_outcome" where
  "auth_void r st =
     (if \<not> r_ok r \<and> r_status r \<noteq> 204 then AuthError (r_status r) (readErr (r_text r) st) else Auth_Void)"

definition auth_me :: "response \<Rightarrow> jstr \<Rightarrow> auth_outcome" where
  "auth_me r st = (if r_status r = 401 \<or> r_status r = 403 then Auth_Null else auth_json r st)"

datatype auth_op =
    Register jsval
  | Login jsval
  | Logout
  | GetMe
  | Invite jsval
  | AcceptInvite jsval
  | ChangePassword jsval
  | DeleteSelf jsval

text \<open>Each function is the request it makes and how it reads the answer.\<close>

definition register :: "jsval \<Rightarrow> call \<times> (response \<Rightarrow> jstr \<Rightarrow> auth_outcome)" where
  "register input = (send_call POST (js ''v1/auth/register'') input TypeUser, auth_json)"

definition login :: "jsval \<Rightarrow> call \<times> (response \<Rightarrow> jstr \<Rightarrow> auth_outcome)" where
  "login input = (send_call POST (js ''v1/auth/login'') input TypeUser, auth_json)"

definition logout :: "call \<times> (response \<Rightarrow> jstr \<Rightarrow> auth_outcome)" where
  "logout = (bare_call POST (js ''v1/auth/logout'') TUnknown, auth_void)"

definition getMe :: "call \<times> (response \<Rightarrow> jstr \<Rightarrow> auth_outcome)" where
  "getMe = (get_call (js ''v1/auth/me'') TypeUser, auth_me)"

definition invite :: "jsval \<Rightarrow> call \<times> (response \<Rightarrow> jstr \<Rightarrow> auth_outcome)" where
  "invite input = (send_call POST (js ''v1/auth/invite'') input TypeInviteResult, auth_json)"

definition acceptInvite :: "jsval \<Rightarrow> call \<times> (response \<Rightarrow> jstr \<Rightarrow> auth_outcome)" where
  "acceptInvite input = (send_call POST (js ''v1/auth/accept-invite'') input TypeUser, auth_json)"

definition changePassword :: "jsval \<Rightarrow> call \<times> (response \<Rightarrow> jstr \<Rightarrow> auth_outcome)" where
  "changePassword input = (send_call POST (js ''v1/auth/change-password'') input TUnknown, auth_void)"

definition deleteSelf :: "jsval \<Rightarrow> call \<times> (response \<Rightarrow> jstr \<Rightarrow> auth_outcome)" where
  "deleteSelf input = (send_call DELETE (js ''v1/auth/me'') input TUnknown, auth_void)"

fun auth_call :: "auth_op \<Rightarrow> call \<times> (response \<Rightarrow> jstr \<Rightarrow> auth_outcome)" where
  "auth_call (Register x) = register x"
| "auth_call (Login x) = login x"
| "auth_call Logout = logout"
| "auth_call GetMe = getMe"
| "auth_call (Invite x) = invite x"
| "auth_call (AcceptInvite x) = acceptInvite x"
| "auth_call (ChangePassword x) = changePassword x"
| "auth_call (DeleteSelf x) = deleteSelf x"

lemmas auth_defs = register_def login_def logout_def getMe_def invite_def acceptInvite_def
  changePassword_def deleteSelf_def auth_json_def auth_void_def auth_me_def

text \<open>
  The server-side variant: no token, no request; every failure is \<open>Null\<close>. \<open>token\<close> is the cookie's value
  (\<open>None\<close> when absent or unreadable), \<open>answer\<close> the response or \<open>None\<close> when the request throws.
\<close>

definition getMeServer :: "jstr option \<Rightarrow> env \<Rightarrow> (jstr \<Rightarrow> (jstr \<times> jstr) list \<Rightarrow> response option) \<Rightarrow> jsval" where
  "getMeServer token penv fetch =
     (case token of None \<Rightarrow> Null
      | Some t \<Rightarrow>
          if t = [] then Null
          else case fetch (apiUrl penv (js ''v1/auth/me'') None False) [(js ''Cookie'', js ''auth_token='' @ t)] of
            None \<Rightarrow> Null
          | Some r \<Rightarrow> if \<not> r_ok r then Null
              else case json_parse (r_text r) of None \<Rightarrow> Null | Some v \<Rightarrow> v)"

subsection \<open>References and origins\<close>

text \<open>
  How the URL parser reads a reference against an \<^verbatim>\<open>http(s)\<close> base: control characters and spaces in
  front are skipped, tabs and newlines are removed; then a scheme (a letter, further letters, digits, plus,
  minus or dot, and a colon) makes the reference absolute, and two leading slashes, each of which may be a
  backslash, introduce another authority. Every absolute reference is counted as leaving the site.
\<close>

definition url_input :: "jstr \<Rightarrow> jstr" where
  "url_input s = filter (\<lambda>c. c \<noteq> 9 \<and> c \<noteq> 10 \<and> c \<noteq> 13) (dropWhile (\<lambda>c. c \<le> 32) s)"

definition is_letter :: "nat \<Rightarrow> bool" where
  "is_letter c \<longleftrightarrow> 65 \<le> c \<and> c \<le> 90 \<or> 97 \<le> c \<and> c \<le> 122"

fun has_scheme :: "jstr \<Rightarrow> bool" where
  "has_scheme [] = False"
| "has_scheme (c # s) =
     (is_letter c \<and>
      (case dropWhile (\<lambda>d. is_letter d \<or> 48 \<le> d \<and> d \<le> 57 \<or> d = 43 \<or> d = 45 \<or> d = 46) s of
         d # _ \<Rightarrow> d = 58 | [] \<Rightarrow> False))"

definition leaves_origin :: "jstr \<Rightarrow> bool" where
  "leaves_origin r =
     (has_scheme (url_input r) \<or>
      (case url_input r of c # d # _ \<Rightarrow> (c = 47 \<or> c = 92) \<and> (d = 47 \<or> d = 92) | _ \<Rightarrow> False))"

subsection \<open>Properties\<close>

lemma js_slash: "js ''/'' = [47]" "js ''//'' = [47, 47]"
  by (simp_all add: js_def)

lemma slash_path: "url_input (47 # s) = 47 # filter (\<lambda>c. c \<noteq> 9 \<and> c \<noteq> 10 \<and> c \<noteq> 13) s" "\<not> has_scheme (47 # s)"
  by (simp_all add: url_input_def is_letter_def)

text \<open>
  A reference with a scheme or with two leading slashes leaves the site, a path does not.
\<close>

lemma leaving_examples:
  "leaves_origin (js ''https://evil.example'')" "leaves_origin (js '' javascript:alert(1)'')" "leaves_origin (js ''//evil.example'')"
  "\<not> leaves_origin (js ''/ai-money?runId=1:2'')"
  by (simp_all add: leaves_origin_def url_input_def is_letter_def js_def)

text \<open>
  C37: where a sign-in can lead. For any requested destination without a backslash, a tab or a line break,
  the destination is exactly the requested one when that is a path of the site, and the default page
  otherwise: absolute addresses, scripts, relative names and addresses of another host are refused. In
  either case it does not leave the site.
\<close>

theorem safe_next_stays_on_site:
  assumes "\<forall>c \<in> set (text_of raw). c \<noteq> 9 \<and> c \<noteq> 10 \<and> c \<noteq> 13 \<and> c \<noteq> 92"
  shows "\<not> leaves_origin (safeNextOrDefault raw DEFAULT_AUTH_DESTINATION) \<and>
    safeNextOrDefault raw DEFAULT_AUTH_DESTINATION =
      (if starts_with (text_of raw) (js ''/'') \<and> \<not> leaves_origin (text_of raw) then text_of raw else DEFAULT_AUTH_DESTINATION)"
proof -
  have d: "\<not> leaves_origin DEFAULT_AUTH_DESTINATION"
    by (simp add: leaves_origin_def url_input_def is_letter_def DEFAULT_AUTH_DESTINATION_def js_def)
  show ?thesis
  proof (cases "starts_with (text_of raw) (js ''/'')")
    case True
    then obtain s where s: "text_of raw = 47 # s" by (auto simp: js_slash starts_with_iff)
    have "filter (\<lambda>c. c \<noteq> 9 \<and> c \<noteq> 10 \<and> c \<noteq> 13) s = s" using assms by (auto simp: s filter_id_conv)
    then have u: "url_input (47 # s) = 47 # s" by (simp only: slash_path(1))
    have ns: "has_scheme (47 # s) = False" using slash_path(2) by simp
    have "leaves_origin (47 # s) \<longleftrightarrow> (case s of [] \<Rightarrow> False | c # _ \<Rightarrow> c = 47 \<or> c = 92)"
      unfolding leaves_origin_def u ns by (cases s) simp_all
    also have "\<dots> \<longleftrightarrow> (case s of [] \<Rightarrow> False | c # _ \<Rightarrow> c = 47)"
      using assms unfolding s by (cases s) simp_all
    also have "\<dots> \<longleftrightarrow> starts_with (47 # s) (js ''//'')" unfolding js_slash by (cases s) (simp_all add: eq_commute)
    finally show ?thesis using d True by (simp add: safeNextOrDefault_def Let_def s)
  qed (use d in \<open>simp add: safeNextOrDefault_def Let_def\<close>)
qed

lemma safe_next_stays_on_site_witness:
  "safeNextOrDefault (S ''/reports?a=1'') DEFAULT_AUTH_DESTINATION = js ''/reports?a=1'' \<and>
   safeNextOrDefault (S ''https://evil.example'') DEFAULT_AUTH_DESTINATION = js ''/ai-money''"
proof
  have "\<not> leaves_origin (js ''/reports?a=1'')" by (simp add: leaves_origin_def url_input_def is_letter_def js_def)
  then show "safeNextOrDefault (S ''/reports?a=1'') DEFAULT_AUTH_DESTINATION = js ''/reports?a=1''"
    using safe_next_stays_on_site [of "S ''/reports?a=1''"] by (simp add: trim_def is_ws_def js_def)
  show "safeNextOrDefault (S ''https://evil.example'') DEFAULT_AUTH_DESTINATION = js ''/ai-money''"
    using safe_next_stays_on_site [of "S ''https://evil.example''"]
    by (simp add: trim_def is_ws_def js_def DEFAULT_AUTH_DESTINATION_def)
qed

text \<open>
  The guard against foreign destinations misses one spelling: a slash followed by a backslash is
  accepted by \<open>safeNextOrDefault\<close>, and the middleware then sends a signed-in visitor of the login
  page to a reference that the URL parser resolves to another authority.
\<close>

theorem backslash_leaves_site:
  "\<exists>u. is_public (u_pathname u) \<and> middleware True u = Redirect 307 (47 # 92 # js ''evil.example'') \<and>
     leaves_origin (47 # 92 # js ''evil.example'')"
proof -
  let ?n = "47 # 92 # js ''evil.example''"
  let ?u = "\<lparr>u_pathname = js ''/login'', u_search = 63 # query_string [(js ''next'', ?n)]\<rparr>"
  have wf: "well_formed ?n" "well_formed (js ''next'')"
    by (auto intro!: ascii_well_formed simp: js_def)
  have "search_param ?u (js ''next'') = Some ?n"
    using parse_query_string [of "[(js ''next'', ?n)]"] wf by (simp add: search_param_def)
  moreover have "safeNextOrDefault (Str ?n) fb = ?n" for fb
    by (simp add: safeNextOrDefault_def trim_def is_ws_def js_def Let_def)
  ultimately have "middleware True ?u = Redirect 307 ?n"
    by (simp add: middleware_def is_public_def PUBLIC_PREFIXES_def authPageDestinationFromUrl_def nullable_def)
  moreover have "is_public (u_pathname ?u)" by (simp add: is_public_def PUBLIC_PREFIXES_def)
  moreover have "leaves_origin ?n" by (simp add: leaves_origin_def url_input_def is_letter_def js_def)
  ultimately show ?thesis by blast
qed

definition plain_url :: "url \<Rightarrow> bool" where
  "plain_url u \<longleftrightarrow> well_formed (u_pathname u @ u_search u) \<and> u_pathname u \<noteq> js ''/'' \<and>
     starts_with (u_pathname u) (js ''/'') \<and> \<not> starts_with (u_pathname u @ u_search u) (js ''//'') \<and>
     trim (u_pathname u @ u_search u) = u_pathname u @ u_search u"

definition login_url :: "url \<Rightarrow> url" where
  "login_url u = \<lparr>u_pathname = js ''/login'',
     u_search = 63 # query_string [(js ''next'', protectedNextParamFromUrl u)]\<rparr>"

text \<open>
  C15: signing in returns to where one was going. A visitor without the cookie who opens a protected
  page is redirected to the login page; that page is let through; and the destination the login page
  then computes is the page and the query first asked for, character by character.
\<close>

theorem sign_in_returns_to_page:
  assumes "plain_url u" and "\<not> is_public (u_pathname u)"
  shows "middleware False u = Redirect 307 (u_pathname (login_url u) @ u_search (login_url u)) \<and>
    middleware False (login_url u) = Pass \<and>
    authPageDestinationFromUrl (login_url u) fb = u_pathname u @ u_search u \<and>
    middleware True (login_url u) = Redirect 307 (u_pathname u @ u_search u)"
proof (intro conjI)
  let ?n = "u_pathname u @ u_search u"
  have n: "protectedNextParamFromUrl u = ?n" "?n \<noteq> []"
    using assms(1) by (auto simp: protectedNextParamFromUrl_def plain_url_def js_slash)
  have "well_formed ?n" "well_formed (js ''next'')"
    using assms(1) by (auto simp: plain_url_def js_def intro!: ascii_well_formed)
  then have "search_param (login_url u) (js ''next'') = Some ?n"
    using parse_query_string [of "[(js ''next'', ?n)]"] by (simp add: search_param_def login_url_def n)
  moreover have "starts_with ?n (js ''/'')" using assms(1) by (auto simp: plain_url_def starts_with_iff)
  ultimately have d: "authPageDestinationFromUrl (login_url u) fb = ?n" for fb
    using assms(1) n(2)
    by (simp add: authPageDestinationFromUrl_def nullable_def safeNextOrDefault_def plain_url_def)
  then show "authPageDestinationFromUrl (login_url u) fb = ?n" by simp
  have pub: "is_public (u_pathname (login_url u))" by (simp add: login_url_def is_public_def PUBLIC_PREFIXES_def)
  have "js ''/login'' @ 63 # s = js ''/login?'' @ s" for s by (simp add: js_def)
  then show "middleware False u = Redirect 307 (u_pathname (login_url u) @ u_search (login_url u))"
    using assms(2) n by (simp add: middleware_def login_url_def login_location_def)
  show "middleware False (login_url u) = Pass" using pub by (simp add: middleware_def)
  show "middleware True (login_url u) = Redirect 307 ?n" using pub d by (simp add: middleware_def)
qed

lemma sign_in_returns_to_page_witness:
  "middleware True (login_url \<lparr>u_pathname = js ''/backtests/7'', u_search = js ''?tab=a&x=b c''\<rparr>)
   = Redirect 307 (js ''/backtests/7?tab=a&x=b c'')"
proof -
  let ?u = "\<lparr>u_pathname = js ''/backtests/7'', u_search = js ''?tab=a&x=b c''\<rparr>"
  have "plain_url ?u"
    by (simp add: plain_url_def) (auto simp: js_def trim_def is_ws_def intro!: ascii_well_formed)
  moreover have "\<not> is_public (u_pathname ?u)"
    by (simp add: is_public_def PUBLIC_PREFIXES_def js_def)
  ultimately have "middleware True (login_url ?u) = Redirect 307 (u_pathname ?u @ u_search ?u)"
    using sign_in_returns_to_page [of ?u] by blast
  then show ?thesis by (simp add: js_def)
qed

text \<open>
  C16: the gate as a whole. A request without the cookie reaches a page only if the page is public, and is
  otherwise sent to the login page. With the cookie, a public page is answered by the safe destination
  that its address names; of the other pages exactly the two retired administration addresses are
  redirected, permanently and whatever their query, to the settings page that took over from them, and
  these and all others are let through.
\<close>

theorem middleware_gate:
  shows "(middleware False u = Pass \<longleftrightarrow> is_public (u_pathname u)) \<and>
    (\<not> is_public (u_pathname u) \<longrightarrow> (\<exists>q. middleware False u = Redirect 307 (js ''/login'' @ q))) \<and>
    (is_public (u_pathname u) \<longrightarrow> middleware True u = Redirect 307 (authPageDestinationFromUrl u (js ''/ai-money''))) \<and>
    (u_pathname u = js ''/admin'' \<longrightarrow> middleware True u = Redirect 308 (js ''/settings/system'')) \<and>
    (u_pathname u = js ''/admin/ai'' \<longrightarrow> middleware True u = Redirect 308 (js ''/settings/ai'')) \<and>
    (\<not> is_public (u_pathname u) \<and> u_pathname u \<noteq> js ''/admin'' \<and> u_pathname u \<noteq> js ''/admin/ai'' \<longrightarrow> middleware True u = Pass) \<and>
    (u_pathname u = js ''/settings/system'' \<or> u_pathname u = js ''/settings/ai'' \<longrightarrow> middleware True u = Pass)"
proof (intro conjI impI)
  show "middleware False u = Pass \<longleftrightarrow> is_public (u_pathname u)" by (simp add: middleware_def)
  have "\<exists>q. login_location n = js ''/login'' @ q" for n
    by (cases "n = []") (auto simp: login_location_def js_def)
  then show "\<not> is_public (u_pathname u) \<Longrightarrow> \<exists>q. middleware False u = Redirect 307 (js ''/login'' @ q)"
    by (simp add: middleware_def)
  have t: "\<not> is_public (js ''/settings/system'')" "\<not> is_public (js ''/settings/ai'')" "\<not> is_public (js ''/admin'')"
    "\<not> is_public (js ''/admin/ai'')"
    by (simp_all add: is_public_def PUBLIC_PREFIXES_def js_def)
  have r: "LEGACY_REDIRECTS (js ''/settings/system'') = None" "LEGACY_REDIRECTS (js ''/settings/ai'') = None"
    "LEGACY_REDIRECTS (js ''/admin'') = Some (js ''/settings/system'')" "LEGACY_REDIRECTS (js ''/admin/ai'') = Some (js ''/settings/ai'')"
    by (simp_all add: LEGACY_REDIRECTS_def js_def)
  show "is_public (u_pathname u) \<Longrightarrow> middleware True u = Redirect 307 (authPageDestinationFromUrl u (js ''/ai-money''))"
    by (simp add: middleware_def DEFAULT_AUTH_DESTINATION_def)
  show "u_pathname u = js ''/admin'' \<Longrightarrow> middleware True u = Redirect 308 (js ''/settings/system'')"
    "u_pathname u = js ''/admin/ai'' \<Longrightarrow> middleware True u = Redirect 308 (js ''/settings/ai'')"
    using t r by (simp_all add: middleware_def)
  show "\<not> is_public (u_pathname u) \<and> u_pathname u \<noteq> js ''/admin'' \<and> u_pathname u \<noteq> js ''/admin/ai'' \<Longrightarrow> middleware True u = Pass"
    by (simp add: middleware_def LEGACY_REDIRECTS_def)
  show "u_pathname u = js ''/settings/system'' \<or> u_pathname u = js ''/settings/ai'' \<Longrightarrow> middleware True u = Pass"
    using t r by (auto simp: middleware_def)
qed

lemma middleware_gate_witness:
  "middleware True \<lparr>u_pathname = js ''/admin'', u_search = js ''?tab=1''\<rparr> = Redirect 308 (js ''/settings/system'') \<and>
   middleware True \<lparr>u_pathname = js ''/admin/audit'', u_search = []\<rparr> = Pass"
proof -
  have "\<not> is_public (js ''/admin/audit'')" "js ''/admin/audit'' \<noteq> js ''/admin''" "js ''/admin/audit'' \<noteq> js ''/admin/ai''"
    by (simp_all add: is_public_def PUBLIC_PREFIXES_def js_def)
  then show ?thesis
    using middleware_gate [of "\<lparr>u_pathname = js ''/admin'', u_search = js ''?tab=1''\<rparr>"]
      middleware_gate [of "\<lparr>u_pathname = js ''/admin/audit'', u_search = []\<rparr>"] by simp
qed

text \<open>
  Outcomes of the auth client. Each function asks under \<^verbatim>\<open>v1/auth/\<close>; a failed answer is an
  \<open>AuthError\<close> with its status, except that \<open>getMe\<close> reads 401 and 403 as nobody signed in; and none
  of them reports a failure as a value.
\<close>

theorem auth_outcomes:
  assumes "auth_call op = (c, read_answer)"
  shows "starts_with (c_path c) (js ''v1/auth/'') \<and>
    (\<not> r_ok r \<longrightarrow> read_answer r st = (if op = GetMe \<and> (r_status r = 401 \<or> r_status r = 403) then Auth_Null
           else AuthError (r_status r) (readErr (r_text r) st))) \<and>
    (r_ok r \<longrightarrow> read_answer r st \<in> {Auth_Void, Auth_Syntax} \<union> range Auth_Value)"
proof (intro conjI impI)
  show "starts_with (c_path c) (js ''v1/auth/'')"
    using assms by (cases op) (auto simp: auth_defs call_defs starts_with_iff js_def)
  show "\<not> r_ok r \<Longrightarrow> read_answer r st = (if op = GetMe \<and> (r_status r = 401 \<or> r_status r = 403) then Auth_Null
           else AuthError (r_status r) (readErr (r_text r) st))"
    using assms by (cases op) (auto simp: auth_defs r_ok_def)
  show "r_ok r \<Longrightarrow> read_answer r st \<in> {Auth_Void, Auth_Syntax} \<union> range Auth_Value"
    using assms by (cases op) (auto simp: auth_defs r_ok_def split: option.split)
qed

lemma auth_outcomes_witness:
  "auth_me \<lparr>r_status = 403, r_url = [], r_text = []\<rparr> [] = Auth_Null"
  using auth_outcomes [of GetMe "fst getMe" auth_me "\<lparr>r_status = 403, r_url = [], r_text = []\<rparr>" "[]"]
  by (simp add: r_ok_def getMe_def)

end
