(* ===== verification/Activity_Center.thy ===== *)
theory Activity_Center
  imports Interfaces Ts_Types
begin

section \<open>The activity log\<close>

text \<open>
  \<^verbatim>\<open>src/client/data/use-activity-center.tsx\<close>: the log of background operations. The provider's state is
  the \<open>enabled\<close> flag and the list of entries; \<open>push\<close>, \<open>update\<close> and \<open>clear\<close> change it and mirror the
  list into \<^verbatim>\<open>localStorage\<close>; \<open>readPersisted\<close> restores it after a reload. \<open>withActivity\<close> logs the life
  of an asynchronous call. Identifiers (\<^verbatim>\<open>newID\<close>, random) and times are arguments.
\<close>

definition ActivityKind :: ts_type where
  "ActivityKind = TUnion (map (\<lambda>s. TLit (js s))
     [''ingest'', ''backtest'', ''optimization'', ''order'', ''claim-legacy'', ''ai-test'', ''other''])"

definition ActivityStatus :: ts_type where
  "ActivityStatus = TUnion (map (\<lambda>s. TLit (js s)) [''running'', ''success'', ''failed'', ''canceled''])"

definition ActivityItem :: ts_type where
  "ActivityItem = TObject
     [(''id'', False, TString), (''kind'', False, ActivityKind), (''label'', False, TString),
      (''status'', False, ActivityStatus), (''detail'', True, TString), (''href'', True, TString),
      (''startedAt'', False, TNumber), (''completedAt'', True, TNumber)]"

definition enabled_key :: jstr where
  "enabled_key = js ''finance_next_activity_enabled''"

definition items_key :: jstr where
  "items_key = js ''finance_next_activity_items''"

definition MAX_ITEMS :: nat where
  "MAX_ITEMS = 20"

definition is_entry :: "jsval \<Rightarrow> bool" where
  "is_entry i \<longleftrightarrow> is_object i \<and> i \<noteq> Null \<and> is_str (fld i ''id'')"

text \<open>A \<^verbatim>\<open>running\<close> entry of a dead session becomes \<^verbatim>\<open>canceled\<close>.\<close>

definition settle :: "int \<Rightarrow> jsval \<Rightarrow> jsval" where
  "settle now i = (if is_lit (fld i ''status'') ''running''
     then spread i [(''status'', S ''canceled''), (''completedAt'', N (of_int now))] else i)"

definition readPersisted :: "int \<Rightarrow> browser \<Rightarrow> bool \<times> jsval list" where
  "readPersisted now b =
     (get_item b enabled_key \<noteq> Some (js ''false''),
      case get_item b items_key of
        None \<Rightarrow> []
      | Some raw \<Rightarrow>
          if raw = [] then []
          else case json_parse raw of
            None \<Rightarrow> []
          | Some parsed \<Rightarrow>
              if is_arr parsed
              then map (settle now) (filter is_entry (take MAX_ITEMS (elems parsed)))
              else [])"

definition writeItems :: "jsval list \<Rightarrow> browser \<Rightarrow> browser" where
  "writeItems items b = set_item items_key (json_stringify (Arr items)) b"

definition writeEnabled :: "bool \<Rightarrow> browser \<Rightarrow> browser" where
  "writeEnabled enabled b = set_item enabled_key (if enabled then js ''true'' else js ''false'') b"

record activity =
  enabled :: bool
  items :: "jsval list"
  browser :: browser

definition add_entry :: "jsval \<Rightarrow> jsval list \<Rightarrow> jsval list" where
  "add_entry e prev = take MAX_ITEMS (e # prev)"

definition new_entry :: "jstr \<Rightarrow> int \<Rightarrow> jsval \<Rightarrow> jsval" where
  "new_entry i now input = obj
     [(''id'', Str i), (''kind'', fld input ''kind''), (''label'', fld input ''label''),
      (''status'', coalesce (fld input ''status'') (S ''running'')),
      (''detail'', fld input ''detail''), (''href'', fld input ''href''),
      (''startedAt'', N (of_int now))]"

definition merge_entry :: "jstr \<Rightarrow> jsval \<Rightarrow> int \<Rightarrow> jsval \<Rightarrow> jsval" where
  "merge_entry i patch now e =
     (if fld e ''id'' \<noteq> Str i then e
      else let merged = Obj (put_all (entries e) (entries patch))
           in if truthy (fld patch ''status'') \<and> \<not> is_lit (fld patch ''status'') ''running'' \<and>
                 (fld merged ''completedAt'' = Undef \<or> fld merged ''completedAt'' = Null)
              then spread merged [(''completedAt'', N (of_int now))] else merged)"

text \<open>The provider's callbacks.\<close>

definition hydrate :: "int \<Rightarrow> activity \<Rightarrow> activity" where
  "hydrate now st = (let (e, xs) = readPersisted now (browser st) in st\<lparr>enabled := e, items := xs\<rparr>)"

definition setEnabled :: "bool \<Rightarrow> activity \<Rightarrow> activity" where
  "setEnabled v st = st\<lparr>enabled := v, browser := writeEnabled v (browser st)\<rparr>"

definition write_back :: "jsval list \<Rightarrow> activity \<Rightarrow> activity" where
  "write_back xs st = st\<lparr>items := xs, browser := writeItems xs (browser st)\<rparr>"

definition push :: "jstr \<Rightarrow> int \<Rightarrow> jsval \<Rightarrow> activity \<Rightarrow> activity" where
  "push i now input st =
     (if \<not> enabled st then st else write_back (add_entry (new_entry i now input) (items st)) st)"

definition update :: "jstr \<Rightarrow> jsval \<Rightarrow> int \<Rightarrow> activity \<Rightarrow> activity" where
  "update i patch now st = write_back (map (merge_entry i patch now) (items st)) st"

definition clear :: "activity \<Rightarrow> activity" where
  "clear st = write_back [] st"

text \<open>
  \<open>withActivity\<close> is two steps of the provider with the awaited call (and whatever else happens to
  the log meanwhile) in between. A thrown value is an \<^verbatim>\<open>Error\<close> with its message, or any value.
\<close>

datatype thrown = Thrown_Error jstr | Thrown_Value jsval

definition thrown_message :: "thrown \<Rightarrow> jstr" where
  "thrown_message e = (case e of Thrown_Error m \<Rightarrow> m | Thrown_Value v \<Rightarrow> to_str v)"

definition outcome_patch :: "thrown + jsval \<Rightarrow> jsval" where
  "outcome_patch r = (case r of
       Inr _ \<Rightarrow> obj [(''status'', S ''success'')]
     | Inl e \<Rightarrow> obj [(''status'', S ''failed''), (''detail'', Str (take 200 (thrown_message e)))])"

definition withActivity ::
  "jstr \<Rightarrow> int \<Rightarrow> int \<Rightarrow> jsval \<Rightarrow> (activity \<Rightarrow> activity \<times> (thrown + jsval)) \<Rightarrow> activity
     \<Rightarrow> activity \<times> (thrown + jsval)" where
  "withActivity i t0 t1 desc fn st =
     (let (st', r) = fn (push i t0 desc st) in (update i (outcome_patch r) t1 st', r))"

subsection \<open>The contract\<close>

interpretation log: capped_list add_entry "\<lambda>_ _. False" MAX_ITEMS
  by unfold_locales (simp add: add_entry_def)

text \<open>The operations on the log, as one step function.\<close>

datatype activity_op =
    SetEnabled bool
  | Push jstr int jsval
  | Update jstr jsval int
  | Clear
  | Hydrate int

primrec do_op :: "activity_op \<Rightarrow> activity \<Rightarrow> activity" where
  "do_op (SetEnabled v) st = setEnabled v st"
| "do_op (Push i now input) st = push i now input st"
| "do_op (Update i patch now) st = update i patch now st"
| "do_op Clear st = clear st"
| "do_op (Hydrate now) st = hydrate now st"

subsection \<open>The invariant\<close>

text \<open>
  Bounded, every entry an object with a string id, and (in a browser that can store) mirrored:
  once something was written, the storage holds the JSON text of the list.
\<close>

definition bounded :: "activity \<Rightarrow> bool" where
  "bounded st \<longleftrightarrow> length (items st) \<le> MAX_ITEMS"

definition mirrored :: "activity \<Rightarrow> bool" where
  "mirrored st \<longleftrightarrow> get_item (browser st) items_key = Some (json_stringify (Arr (items st)))"

lemma keys_ne: "enabled_key \<noteq> items_key"
  by (simp add: enabled_key_def items_key_def)

lemma mirrored_write_back: "usable_browser (browser st) \<Longrightarrow> mirrored (write_back xs st)"
  by (simp add: mirrored_def write_back_def writeItems_def get_set_item)

lemma usable_do_op: "usable_browser (browser st) \<Longrightarrow> usable_browser (browser (do_op op st))"
  by (cases op)
     (simp_all add: setEnabled_def push_def update_def clear_def hydrate_def write_back_def writeItems_def
        writeEnabled_def usable_set_item split: prod.splits)

lemma bounded_do_op: "bounded st \<Longrightarrow> bounded (do_op op st)"
  using log.length_add
  by (cases op)
     (auto simp: bounded_def setEnabled_def push_def update_def clear_def hydrate_def write_back_def
        readPersisted_def intro: le_trans [OF length_filter_le] split: prod.splits option.splits)

lemma mirrored_do_op:
  "usable_browser (browser st) \<Longrightarrow> mirrored st \<Longrightarrow> \<forall>now. op \<noteq> Hydrate now \<Longrightarrow> mirrored (do_op op st)"
  using keys_ne mirrored_write_back
  by (cases op)
     (auto simp: setEnabled_def push_def update_def clear_def mirrored_def writeEnabled_def get_set_item)

subsection \<open>Properties\<close>

text \<open>
  The log never holds more than twenty entries, whatever operations are applied to it in
  whatever order, reloads included.
\<close>

theorem activity_log_bounded: "length (items (fold do_op ops \<lparr>enabled = True, items = [], browser = b\<rparr>)) \<le> 20"
proof -
  have "bounded (fold do_op ops st)" if "bounded st" for st
    using that by (induction ops arbitrary: st) (simp_all add: bounded_do_op)
  then show ?thesis by (simp add: bounded_def MAX_ITEMS_def)
qed

lemma settle_not_running: "is_entry i \<Longrightarrow> \<not> is_lit (fld (settle now i) ''status'') ''running''"
  by (simp add: settle_def fld_spread)

text \<open>
  After a reload no entry is shown as running, whatever the storage holds: the spinner of a
  dead session cannot come back.
\<close>

theorem reload_has_no_running_entry:
  "list_all (\<lambda>e. \<not> is_lit (fld e ''status'') ''running'') (snd (readPersisted now b))"
  by (auto simp: list_all_iff readPersisted_def settle_not_running split: option.splits if_splits)

text \<open>
  C36: a reload restores the log: in a browser that can store, after any operations that leave
  entries whose values JSON can express, hydrating again yields the very same entries (without the
  members that are \<^verbatim>\<open>undefined\<close>), except that running ones are canceled at the time of the reload.
\<close>

theorem reload_restores_log:
  assumes "usable_browser (browser st)" and "mirrored st" and "bounded st" and "\<forall>now. Hydrate now \<notin> set ops"
    and "st' = fold do_op ops st"
    and "list_all (\<lambda>e. is_entry (strip e) \<and> jsonable (strip e)) (items st')"
  shows "items (hydrate now st') = map (settle now \<circ> strip) (items st')"
proof -
  let ?xs = "items st'"
  have "mirrored (fold do_op ops s) \<and> bounded (fold do_op ops s)"
    if "usable_browser (browser s)" "mirrored s" "bounded s" "\<forall>now. Hydrate now \<notin> set ops" for ops s
    using that
  proof (induction ops arbitrary: s)
    case (Cons op ops)
    then have "usable_browser (browser (do_op op s)) \<and> mirrored (do_op op s) \<and> bounded (do_op op s)"
      using usable_do_op mirrored_do_op [of s op] bounded_do_op by (metis list.set_intros(1))
    with Cons show ?case by simp
  qed simp
  then have m: "mirrored st'" and b: "length ?xs \<le> MAX_ITEMS"
    using assms(1-5) by (auto simp: bounded_def)
  have ne: "\<forall>e \<in> set ?xs. e \<noteq> Undef"
    using assms(6) by (auto simp: list_all_iff is_entry_def)
  then have "strip (Arr ?xs) = Arr (map strip ?xs)" by simp
  moreover have "jsonable (Arr (map strip ?xs))" using assms(6) by (auto simp: list_all_iff)
  ultimately have "json_parse (json_stringify (Arr ?xs)) = Some (Arr (map strip ?xs))"
    using json_strip [of "Arr ?xs"] by (simp only:)
  moreover have "filter is_entry (map strip ?xs) = map strip ?xs"
    using assms(6) by (intro filter_True) (auto simp: list_all_iff)
  moreover have "json_stringify (Arr ?xs) \<noteq> []" by (simp add: json_stringify_def)
  ultimately have "snd (readPersisted now (browser st')) = map (settle now) (map strip ?xs)"
    using m b by (simp add: readPersisted_def mirrored_def)
  then show ?thesis by (cases "readPersisted now (browser st')") (simp add: hydrate_def)
qed

definition demo_activity :: activity where
  "demo_activity = \<lparr>enabled = True, items = [],
     browser = \<lparr>b_window = True, b_readable = True, b_writable = True, b_store = (\<lambda>_. None)\<rparr>\<rparr>"

definition demo_input :: jsval where
  "demo_input = obj [(''kind'', S ''backtest''), (''label'', S ''run'')]"

lemma demo_entry: "strip (new_entry (js ''e1'') 5 demo_input) = obj
   [(''id'', S ''e1''), (''kind'', S ''backtest''), (''label'', S ''run''), (''status'', S ''running''),
    (''startedAt'', N 5)]"
  by (simp add: new_entry_def demo_input_def coalesce_def) (simp add: obj_def)

lemma demo_entry_ok:
  "is_entry (strip (new_entry (js ''e1'') 5 demo_input))" "jsonable (strip (new_entry (js ''e1'') 5 demo_input))"
  unfolding demo_entry by (simp add: is_entry_def) (simp add: obj_def fl_numeral)

lemma reload_restores_log_witness:
  "items (hydrate 9 (fold do_op [Push (js ''e1'') 5 demo_input] (clear demo_activity)))
   = map (settle 9 \<circ> strip) (items (fold do_op [Push (js ''e1'') 5 demo_input] (clear demo_activity)))"
proof (rule reload_restores_log [OF _ _ _ _ refl])
  show "usable_browser (browser (clear demo_activity))"
    by (simp add: demo_activity_def clear_def write_back_def writeItems_def set_item_def usable_browser_def)
  show "mirrored (clear demo_activity)"
    unfolding clear_def by (rule mirrored_write_back) (simp add: demo_activity_def usable_browser_def)
  show "bounded (clear demo_activity)" by (simp add: bounded_def clear_def write_back_def)
  show "\<forall>now. Hydrate now \<notin> set [Push (js ''e1'') 5 demo_input]" by simp
  show "list_all (\<lambda>e. is_entry (strip e) \<and> jsonable (strip e))
     (items (fold do_op [Push (js ''e1'') 5 demo_input] (clear demo_activity)))"
    by (simp add: clear_def push_def demo_activity_def write_back_def add_entry_def MAX_ITEMS_def demo_entry_ok)
qed

text \<open>
  \<open>withActivity\<close> is additive. It returns the outcome of the wrapped call unchanged, and if the
  entry is still in the log when the call ends, then it is marked \<^verbatim>\<open>success\<close> or \<^verbatim>\<open>failed\<close> according
  to that outcome, with a completion time, and no other entry is touched.
\<close>

theorem withActivity_settles:
  assumes "fn (push i t0 desc st) = (st', r)"
    and "fld e ''id'' = Str i" and "is_plain e" and "items st' = xs @ e # ys"
    and "out = withActivity i t0 t1 desc fn st"
  shows "snd out = r \<and>
    fld (items (fst out) ! length xs) ''status'' = (case r of Inr _ \<Rightarrow> S ''success'' | Inl _ \<Rightarrow> S ''failed'') \<and>
    fld (items (fst out) ! length xs) ''completedAt'' \<notin> {Undef, Null} \<and>
    (\<forall>k < length (items st'). fld (items st' ! k) ''id'' \<noteq> Str i \<longrightarrow> items (fst out) ! k = items st' ! k)"
proof (intro conjI)
  have o: "out = (update i (outcome_patch r) t1 st', r)"
    by (simp add: assms(5) withActivity_def assms(1))
  obtain kvs where e: "e = Obj kvs" using assms(3) by (cases e) auto
  have at: "items (fst out) ! length xs = merge_entry i (outcome_patch r) t1 e"
    by (simp add: o update_def write_back_def assms(4) nth_append)
  have st: "fld (outcome_patch r) ''status'' = (case r of Inr _ \<Rightarrow> S ''success'' | Inl _ \<Rightarrow> S ''failed'')"
    by (simp add: outcome_patch_def split: sum.split)
  define merged where "merged = Obj (put_all kvs (entries (outcome_patch r)))"
  have ms: "fld merged ''status'' = fld (outcome_patch r) ''status''"
    by (simp add: merged_def outcome_patch_def obj_def fld_def map_of_put_all split: sum.split)
  have m: "merge_entry i (outcome_patch r) t1 e =
      (if fld merged ''completedAt'' = Undef \<or> fld merged ''completedAt'' = Null
       then spread merged [(''completedAt'', N (of_int t1))] else merged)"
    using assms(2) st by (simp add: merge_entry_def e merged_def Let_def split: sum.splits)
  show "snd out = r" by (simp add: o)
  show "fld (items (fst out) ! length xs) ''status'' = (case r of Inr _ \<Rightarrow> S ''success'' | Inl _ \<Rightarrow> S ''failed'')"
    unfolding at m st [symmetric] ms [symmetric] by (simp add: fld_spread) (simp add: merged_def)
  show "fld (items (fst out) ! length xs) ''completedAt'' \<notin> {Undef, Null}"
    unfolding at m by (simp add: fld_spread)
  show "\<forall>k < length (items st'). fld (items st' ! k) ''id'' \<noteq> Str i \<longrightarrow> items (fst out) ! k = items st' ! k"
    by (simp add: o update_def write_back_def merge_entry_def)
qed

lemma withActivity_settles_witness:
  "snd (withActivity (js ''e1'') 5 9 demo_input (\<lambda>s. (s, Inl (Thrown_Error (js ''boom'')))) demo_activity)
     = Inl (Thrown_Error (js ''boom''))"
  using withActivity_settles [OF _ _ _ _ refl, of "\<lambda>s. (s, Inl (Thrown_Error (js ''boom'')))" "js ''e1''" 5 demo_input
      demo_activity "push (js ''e1'') 5 demo_input demo_activity" "Inl (Thrown_Error (js ''boom''))"
      "new_entry (js ''e1'') 5 demo_input" "[]" "[]"]
  by (simp add: demo_activity_def push_def write_back_def add_entry_def MAX_ITEMS_def new_entry_def)

text \<open>
  Switching the log off is complete for new entries: while disabled, \<open>push\<close> changes neither the
  list nor the storage, and the flag survives a reload.
\<close>

theorem disabled_push_is_noop:
  assumes "usable_browser (browser st)"
  shows "push i now input (setEnabled False st) = setEnabled False st \<and>
    \<not> enabled (hydrate now' (setEnabled False st)) \<and> enabled (hydrate now' (setEnabled True st))"
  using assms by (simp_all add: push_def setEnabled_def hydrate_def readPersisted_def writeEnabled_def
      get_set_item)

lemma disabled_push_is_noop_witness:
  "\<not> enabled (hydrate 9 (setEnabled False demo_activity))"
  using disabled_push_is_noop [of demo_activity] by (simp add: demo_activity_def usable_browser_def)

end
