(* ===== verification/Recent_Resources.thy ===== *)
theory Recent_Resources
  imports Interfaces Ts_Types
begin

section \<open>Recently visited resources\<close>

text \<open>
  \<^verbatim>\<open>src/client/data/use-recent-resources.ts\<close>: the list of the last five detail pages, kept as JSON
  in one \<^verbatim>\<open>localStorage\<close> cell. \<open>pushRecent\<close> puts a resource first, removes the older entry of the
  same kind and id, and cuts the list; \<open>readStorage\<close> tolerates any content of the cell. The
  component interprets the contracts \<open>capped_list\<close> and \<open>persisted_list\<close> of \<open>Interfaces\<close>.
\<close>

definition RecentResourceKind :: ts_type where
  "RecentResourceKind = TUnion (map (\<lambda>s. TLit (js s))
     [''strategy'', ''account'', ''wallet'', ''backtest'', ''market'', ''recommendation''])"

definition RecentResource :: ts_type where
  "RecentResource = TObject
     [(''id'', False, TString), (''kind'', False, RecentResourceKind), (''label'', False, TString),
      (''path'', False, TString), (''lastSeenAt'', False, TNumber)]"

definition STORAGE_KEY :: jstr where
  "STORAGE_KEY = js ''finance_next_recent_resources''"

definition MAX_RECENT :: nat where
  "MAX_RECENT = 5"

fun is_num :: "jsval \<Rightarrow> bool" where
  "is_num (Num _) = True"
| "is_num _ = False"

definition is_recent :: "jsval \<Rightarrow> bool" where
  "is_recent r \<longleftrightarrow> truthy r \<and> is_object r \<and> is_str (fld r ''id'') \<and> is_str (fld r ''kind'') \<and>
     is_str (fld r ''label'') \<and> is_str (fld r ''path'') \<and> is_num (fld r ''lastSeenAt'')"

definition readStorage :: "browser \<Rightarrow> jsval list" where
  "readStorage b =
     (case get_item b STORAGE_KEY of
        None \<Rightarrow> []
      | Some raw \<Rightarrow>
          if raw = [] then []
          else case json_parse raw of
            None \<Rightarrow> []
          | Some parsed \<Rightarrow> if is_arr parsed then filter is_recent (elems parsed) else [])"

text \<open>The update event that \<^verbatim>\<open>writeStorage\<close> dispatches is only reached when \<^verbatim>\<open>setItem\<close> did not throw.\<close>

definition writeStorage :: "jsval list \<Rightarrow> browser \<Rightarrow> browser \<times> bool" where
  "writeStorage items b =
     (set_item STORAGE_KEY (json_stringify (Arr items)) b, b_window b \<and> b_writable b)"

definition same_resource :: "jsval \<Rightarrow> jsval \<Rightarrow> bool" where
  "same_resource a b \<longleftrightarrow> fld b ''kind'' = fld a ''kind'' \<and> fld b ''id'' = fld a ''id''"

definition add_recent :: "jsval \<Rightarrow> jsval list \<Rightarrow> jsval list" where
  "add_recent entry existing =
     take MAX_RECENT (entry # filter (\<lambda>r. \<not> same_resource entry r) existing)"

definition pushRecent :: "jsval \<Rightarrow> int \<Rightarrow> browser \<Rightarrow> browser \<times> bool" where
  "pushRecent resource now b =
     (if \<not> b_window b then (b, False)
      else writeStorage (add_recent (spread resource [(''lastSeenAt'', N (of_int now))]) (readStorage b)) b)"

text \<open>
  The hook: its items are read at mount and again on the update event of the same window and on the
  \<^verbatim>\<open>storage\<close> event of another one.
\<close>

datatype recent_event = Mount | Update | Storage "jstr option"

fun useRecentResources :: "browser \<Rightarrow> recent_event \<Rightarrow> jsval list \<Rightarrow> jsval list" where
  "useRecentResources b Mount items = readStorage b"
| "useRecentResources b Update items = readStorage b"
| "useRecentResources b (Storage k) items = (if k = Some STORAGE_KEY then readStorage b else items)"

subsection \<open>The contracts\<close>

definition storable_recent :: "jsval \<Rightarrow> bool" where
  "storable_recent v \<longleftrightarrow> is_recent v \<and> jsonable v"

interpretation recent: capped_list add_recent same_resource MAX_RECENT
  by unfold_locales (simp add: add_recent_def)

lemma readStorage_filtered: "list_all is_recent (readStorage b)"
  by (auto simp: readStorage_def list_all_iff split: option.splits if_splits)

lemma json_stringify_Arr_ne: "json_stringify (Arr vs) \<noteq> []"
  by (simp add: json_stringify_def)

lemma read_after_write:
  assumes "usable_browser b" and "list_all storable_recent items"
  shows "readStorage (fst (writeStorage items b)) = items"
proof -
  have "jsonable (Arr items)" using assms(2) by (auto simp: storable_recent_def list_all_iff)
  then have "json_parse (json_stringify (Arr items)) = Some (Arr items)" by (rule json_round_trip)
  moreover have "filter is_recent items = items"
    using assms(2) by (intro filter_True) (auto simp: storable_recent_def list_all_iff)
  ultimately show ?thesis
    by (simp add: readStorage_def writeStorage_def get_set_item assms(1) json_stringify_Arr_ne)
qed

interpretation recent_store: persisted_list add_recent same_resource MAX_RECENT
  readStorage "\<lambda>items b. fst (writeStorage items b)" b_store STORAGE_KEY "\<lambda>v. v" storable_recent usable_browser
  by unfold_locales
     (simp_all add: read_after_write [unfolded writeStorage_def fst_conv] writeStorage_def
        usable_set_item store_set_item)

definition entry_of :: "jsval \<Rightarrow> int \<Rightarrow> jsval" where
  "entry_of resource now = spread resource [(''lastSeenAt'', N (of_int now))]"

lemma pushRecent_remember:
  "b_window b \<Longrightarrow> fst (pushRecent resource now b) = recent_store.remember (entry_of resource now) b"
  by (simp add: pushRecent_def recent_store.remember_def entry_of_def)

lemma fold_pushRecent:
  "usable_browser b \<Longrightarrow>
   fold (\<lambda>(r, t) b. fst (pushRecent r t b)) visits b
   = fold recent_store.remember (map (\<lambda>(r, t). entry_of r t) visits) b"
proof (induction visits arbitrary: b)
  case (Cons rt visits)
  obtain r t where rt: "rt = (r, t)" by force
  have "b_window b" using Cons.prems by (simp add: usable_browser_def)
  moreover have "usable_browser (recent_store.remember (entry_of r t) b)"
    using Cons.prems by (simp add: recent_store.remember_def recent_store.usable_save)
  ultimately show ?case using Cons.IH by (simp add: rt pushRecent_remember)
qed simp

subsection \<open>Properties\<close>

text \<open>
  Visiting resources one after the other leaves in the storage exactly what the list operation
  leaves in memory: after any sequence of visits, the list read back is the fold of \<open>add_recent\<close>
  over them, whatever else the storage holds.
\<close>

theorem visits_are_remembered:
  assumes "usable_browser b" and "list_all storable_recent (readStorage b)"
    and "list_all (\<lambda>(r, t). storable_recent (entry_of r t)) visits"
  shows "readStorage (fold (\<lambda>(r, t) b. fst (pushRecent r t b)) visits b)
    = fold add_recent (map (\<lambda>(r, t). entry_of r t) visits) (readStorage b)"
proof -
  have "list_all storable_recent (map (\<lambda>(r, t). entry_of r t) visits)"
    using assms(3) by (auto simp: list_all_iff)
  then show ?thesis
    unfolding fold_pushRecent [OF assms(1)] using assms(1,2) by (intro recent_store.load_history)
qed

definition demo_browser :: browser where
  "demo_browser = \<lparr>b_window = True, b_readable = True, b_writable = True, b_store = (\<lambda>_. None)\<rparr>"

definition demo_resource :: "string \<Rightarrow> jsval" where
  "demo_resource i = obj [(''id'', S i), (''kind'', S ''market''), (''label'', S ''BTC''), (''path'', S ''/m'')]"

lemma demo_storable: "storable_recent (entry_of (demo_resource i) 7)"
proof -
  have "entry_of (demo_resource i) 7 = obj [(''id'', S i), (''kind'', S ''market''), (''label'', S ''BTC''),
      (''path'', S ''/m''), (''lastSeenAt'', N 7)]"
    by (simp add: entry_of_def demo_resource_def spread_def obj_def put_all_def)
  then show ?thesis
    by (simp add: storable_recent_def is_recent_def) (simp add: obj_def units16_js fl_numeral)
qed

lemma visits_are_remembered_witness:
  "readStorage (fold (\<lambda>(r, t) b. fst (pushRecent r t b)) [(demo_resource ''a'', 7)] demo_browser)
   = [entry_of (demo_resource ''a'') 7]"
  using visits_are_remembered [of demo_browser "[(demo_resource ''a'', 7)]"] demo_storable
  by (simp add: usable_browser_def demo_browser_def readStorage_def get_item_def add_recent_def MAX_RECENT_def)

text \<open>
  The invariant of the list. Starting from a list with no resource twice, ordered by the time of
  the visit, each visit keeps at most five entries, no two of the same kind and id, the newest
  first.
\<close>

theorem recent_list_invariant:
  assumes "sorted_wrt (\<lambda>a b. \<not> same_resource a b) xs"
    and "sorted_wrt (\<lambda>a b. num_le (to_num (fld b ''lastSeenAt'')) (to_num (fld a ''lastSeenAt''))) xs"
    and "\<forall>x \<in> set xs. num_le (to_num (fld x ''lastSeenAt'')) (Fin (of_int now))"
  shows "length (add_recent (entry_of r now) xs) \<le> 5 \<and>
    hd (add_recent (entry_of r now) xs) = entry_of r now \<and>
    sorted_wrt (\<lambda>a b. \<not> same_resource a b) (add_recent (entry_of r now) xs) \<and>
    sorted_wrt (\<lambda>a b. num_le (to_num (fld b ''lastSeenAt'')) (to_num (fld a ''lastSeenAt'')))
      (add_recent (entry_of r now) xs)"
proof -
  have "fld (entry_of r now) ''lastSeenAt'' = N (of_int now)"
    by (simp add: entry_of_def fld_spread)
  then show ?thesis
    using recent.length_add [of "entry_of r now" xs] recent.newest_first [of "entry_of r now" xs]
      recent.no_twins [OF assms(1), of "entry_of r now"] recent.sorted_add [OF assms(2), of "entry_of r now"] assms(3)
    by (simp add: MAX_RECENT_def)
qed

lemma recent_list_invariant_witness:
  "length (add_recent (entry_of (demo_resource ''b'') 8) [entry_of (demo_resource ''a'') 7]) \<le> 5"
  using recent_list_invariant [of "[entry_of (demo_resource ''a'') 7]" 8 "demo_resource ''b''"]
  by (simp add: entry_of_def fld_spread)

end
