(* ===== verification/AiMoney_Types.thy ===== *)
theory AiMoney_Types
  imports Ts_Types
begin

section \<open>The state types of the AI Money page\<close>

text \<open>
  The types that \<^verbatim>\<open>src/client/app/(dashboard)/ai-money/client.tsx\<close> declares for the results of the
  untyped state builders of \<^verbatim>\<open>src/client/data/ai-goal-preset.mjs\<close>. The page casts the builders to
  these types (\<^verbatim>\<open>as unknown as\<close>), which the TypeScript compiler does not check; the theories of the
  builders prove that their results do inhabit them.
\<close>

definition StatusTone :: ts_type where
  "StatusTone = TUnion [TLit (js ''success''), TLit (js ''danger''), TLit (js ''warning''), TLit (js ''default''), TLit (js ''primary'')]"

definition ActionQueueItem :: ts_type where
  "ActionQueueItem = TObject [
    (''id'', False, TString),
    (''title'', False, TString),
    (''detail'', False, TString),
    (''status'', False, TString),
    (''action'', False, TString),
    (''targetDraftName'', True, TString),
    (''relatedId'', True, TString),
    (''href'', True, TString),
    (''note'', True, TString),
    (''statusLabel'', True, TString),
    (''hrefLabel'', True, TString),
    (''updatedAt'', True, TString)]"

definition ValidationScoreItem :: ts_type where
  "ValidationScoreItem = TObject [
    (''runId'', False, TString),
    (''strategyId'', False, TString),
    (''state'', False, TNumber),
    (''progress'', False, TNumber),
    (''score'', False, TUnion [TNumber, TNull]),
    (''totalReturn'', False, TNumber),
    (''sharpe'', False, TNumber),
    (''maxDrawdown'', False, TNumber),
    (''nTrades'', False, TNumber),
    (''recommendation'', False, TString),
    (''tone'', False, TUnion [TLit (js ''success''), TLit (js ''warning''), TLit (js ''danger''), TLit (js ''default'')])]"

definition PaperCandidate :: ts_type where
  "PaperCandidate = TObject [
    (''draft'', False, TypeAIGoalStrategyDraft),
    (''runId'', False, TString),
    (''strategyId'', False, TString),
    (''score'', False, TNumber),
    (''totalReturn'', False, TNumber),
    (''sharpe'', False, TNumber),
    (''maxDrawdown'', False, TNumber),
    (''nTrades'', False, TNumber),
    (''recommendation'', False, TString),
    (''strategyHref'', False, TString),
    (''backtestHref'', False, TString)]"

definition AICommandCenterEvidenceItem :: ts_type where
  "AICommandCenterEvidenceItem = TObject [
    (''id'', False, TString),
    (''label'', False, TString),
    (''status'', False, TString),
    (''tone'', False, TUnion [TLit (js ''success''), TLit (js ''warning''), TLit (js ''danger''), TLit (js ''default''), TLit (js ''primary'')]),
    (''detail'', False, TString),
    (''href'', True, TString)]"

definition AICommandCenterState :: ts_type where
  "AICommandCenterState = TObject [
    (''stage'', False, TString),
    (''title'', False, TString),
    (''tone'', False, TUnion [TLit (js ''success''), TLit (js ''warning''), TLit (js ''danger''), TLit (js ''default''), TLit (js ''primary'')]),
    (''summary'', False, TString),
    (''primaryHref'', True, TString),
    (''primaryAction'', True, TObject [
      (''kind'', False, TUnion [TLit (js ''analyze_and_validate''), TLit (js ''scan_today''), TLit (js ''rescan_today''), TLit (js ''run_all_backtests''), TLit (js ''accept_paper_candidate''), TLit (js ''save_and_accept_paper_candidate''), TLit (js ''complete_manual_action''), TLit (js ''open_link''), TString]),
      (''label'', False, TString),
      (''actionId'', True, TString),
      (''runId'', True, TString),
      (''href'', True, TString)]),
    (''metrics'', False, TArray (TObject [
      (''label'', False, TString),
      (''value'', False, TUnion [TString, TNumber]),
      (''hint'', False, TString)])),
    (''evidence'', False, TArray AICommandCenterEvidenceItem),
    (''nextActions'', False, TArray TString)]"

definition AIObservationFocusItem :: ts_type where
  "AIObservationFocusItem = TObject [
    (''id'', False, TString),
    (''label'', False, TString),
    (''status'', False, TString),
    (''tone'', False, TUnion [TLit (js ''success''), TLit (js ''warning''), TLit (js ''danger''), TLit (js ''default''), TLit (js ''primary'')]),
    (''detail'', False, TString),
    (''href'', True, TString)]"

definition AIObservationFocusState :: ts_type where
  "AIObservationFocusState = TObject [
    (''stage'', False, TString),
    (''title'', False, TString),
    (''tone'', False, TUnion [TLit (js ''success''), TLit (js ''warning''), TLit (js ''danger''), TLit (js ''default''), TLit (js ''primary'')]),
    (''summary'', False, TString),
    (''primaryHref'', True, TString),
    (''primaryAction'', True, TObject [
      (''kind'', False, TUnion [TLit (js ''scan_today''), TLit (js ''rescan_today''), TLit (js ''run_all_backtests''), TLit (js ''open_link''), TString]),
      (''label'', False, TString),
      (''href'', True, TString)]),
    (''items'', False, TArray AIObservationFocusItem),
    (''nextActions'', False, TArray TString)]"

definition AIPaperAdoptionPackageStep :: ts_type where
  "AIPaperAdoptionPackageStep = TObject [
    (''id'', False, TString),
    (''label'', False, TString),
    (''status'', False, TString),
    (''detail'', False, TString),
    (''href'', True, TString)]"

definition AIPaperAdoptionPackageState :: ts_type where
  "AIPaperAdoptionPackageState = TObject [
    (''stage'', False, TString),
    (''title'', False, TString),
    (''tone'', False, TUnion [TLit (js ''success''), TLit (js ''warning''), TLit (js ''danger''), TLit (js ''default''), TLit (js ''primary'')]),
    (''summary'', False, TString),
    (''candidate'', False, PaperCandidate),
    (''strategyHref'', False, TString),
    (''backtestHref'', True, TString),
    (''riskSummary'', False, TString),
    (''primaryAction'', False, TObject [
      (''kind'', False, TUnion [TLit (js ''accept_paper_candidate''), TLit (js ''save_and_accept_paper_candidate''), TString]),
      (''label'', False, TString)]),
    (''secondaryAction'', False, TObject [
      (''kind'', False, TUnion [TLit (js ''save_strategy_draft''), TString]),
      (''label'', False, TString)]),
    (''steps'', False, TArray AIPaperAdoptionPackageStep),
    (''guardrails'', False, TArray TString)]"

definition AIDelegationRunbookStep :: ts_type where
  "AIDelegationRunbookStep = TObject [
    (''owner'', False, TUnion [TLit (js ''AI''), TLit (js ''human''), TString]),
    (''title'', False, TString),
    (''detail'', False, TString),
    (''status'', False, TString)]"

definition AIDelegationRunbookState :: ts_type where
  "AIDelegationRunbookState = TObject [
    (''stage'', False, TString),
    (''tone'', False, TUnion [TLit (js ''success''), TLit (js ''warning''), TLit (js ''danger''), TLit (js ''default'')]),
    (''title'', False, TString),
    (''decision'', False, TString),
    (''primaryAction'', True, TObject [
      (''kind'', False, TUnion [TLit (js ''scan_today''), TLit (js ''run_all_backtests''), TLit (js ''accept_paper_candidate''), TLit (js ''open_link''), TString]),
      (''label'', False, TString),
      (''href'', True, TString)]),
    (''metrics'', False, TArray (TObject [
      (''label'', False, TString),
      (''value'', False, TUnion [TString, TNumber]),
      (''hint'', False, TString)])),
    (''aiSteps'', False, TArray AIDelegationRunbookStep),
    (''humanSteps'', False, TArray AIDelegationRunbookStep),
    (''guardrails'', False, TArray TString)]"

definition AIDraftEvidenceState :: ts_type where
  "AIDraftEvidenceState = TObject [
    (''title'', False, TString),
    (''summary'', False, TString),
    (''tone'', False, TUnion [TLit (js ''success''), TLit (js ''warning''), TLit (js ''danger''), TLit (js ''default'')]),
    (''metrics'', False, TArray (TObject [
      (''label'', False, TString),
      (''value'', False, TString),
      (''hint'', False, TString)])),
    (''evidence'', False, TArray TString),
    (''risks'', False, TArray TString),
    (''gates'', False, TArray TString),
    (''actions'', False, TArray TString)]"

definition AIStrategyCreationSummaryState :: ts_type where
  "AIStrategyCreationSummaryState = TObject [
    (''stage'', False, TString),
    (''title'', False, TString),
    (''tone'', False, TUnion [TLit (js ''success''), TLit (js ''warning''), TLit (js ''danger''), TLit (js ''default'')]),
    (''summary'', False, TString),
    (''primaryHref'', True, TString),
    (''primaryAction'', True, TObject [
      (''kind'', False, TUnion [TLit (js ''save_strategy_draft''), TLit (js ''open_strategy_prefill''), TString]),
      (''label'', False, TString)]),
    (''metrics'', False, TArray (TObject [
      (''label'', False, TString),
      (''value'', False, TString),
      (''hint'', False, TString)])),
    (''aiPrepared'', False, TArray TString),
    (''userRequired'', False, TArray TString),
    (''blockers'', False, TArray TString)]"

definition AIStrategyShortlistItem :: ts_type where
  "AIStrategyShortlistItem = TObject [
    (''draftName'', False, TString),
    (''symbol'', False, TString),
    (''kind'', False, TString),
    (''stage'', False, TString),
    (''tone'', False, TUnion [TLit (js ''success''), TLit (js ''warning''), TLit (js ''danger''), TLit (js ''default'')]),
    (''rank'', False, TNumber),
    (''score'', False, TUnion [TNumber, TNull]),
    (''recommendation'', False, TString),
    (''actionKind'', False, TUnion [TLit (js ''run_backtest''), TLit (js ''run_all_backtests''), TLit (js ''accept_paper_candidate''), TLit (js ''open_link''), TString]),
    (''actionLabel'', False, TString),
    (''href'', True, TString),
    (''backtestHref'', True, TString),
    (''strategyHref'', True, TString),
    (''reasons'', False, TArray TString),
    (''blockers'', False, TArray TString)]"

definition AIStrategyShortlistState :: ts_type where
  "AIStrategyShortlistState = TObject [
    (''stage'', False, TString),
    (''title'', False, TString),
    (''tone'', False, TUnion [TLit (js ''success''), TLit (js ''warning''), TLit (js ''danger''), TLit (js ''default'')]),
    (''summary'', False, TString),
    (''primaryAction'', True, TObject [
      (''kind'', False, TUnion [TLit (js ''scan_today''), TLit (js ''run_all_backtests''), TLit (js ''accept_paper_candidate''), TLit (js ''open_link''), TString]),
      (''label'', False, TString)]),
    (''metrics'', False, TArray (TObject [
      (''label'', False, TString),
      (''value'', False, TUnion [TString, TNumber]),
      (''hint'', False, TString)])),
    (''items'', False, TArray AIStrategyShortlistItem),
    (''guardrails'', False, TArray TString),
    (''nextChecks'', False, TArray TString)]"

definition AIOperatorRhythmState :: ts_type where
  "AIOperatorRhythmState = TObject [
    (''stage'', False, TString),
    (''title'', False, TString),
    (''tone'', False, TUnion [TLit (js ''success''), TLit (js ''warning''), TLit (js ''danger''), TLit (js ''default'')]),
    (''cadence'', False, TString),
    (''summary'', False, TString),
    (''primaryAction'', True, TObject [
      (''kind'', False, TUnion [TLit (js ''scan_today''), TLit (js ''refresh_run''), TLit (js ''run_all_backtests''), TLit (js ''accept_paper_candidate''), TLit (js ''open_link''), TString]),
      (''label'', False, TString),
      (''runId'', True, TString),
      (''href'', True, TString)]),
    (''metrics'', False, TArray (TObject [
      (''label'', False, TString),
      (''value'', False, TUnion [TString, TNumber]),
      (''hint'', False, TString)])),
    (''guardrails'', False, TArray TString),
    (''checks'', False, TArray TString)]"

definition PaperObservationPlan :: ts_type where
  "PaperObservationPlan = TObject [
    (''title'', False, TString),
    (''window'', False, TString),
    (''summary'', False, TString),
    (''checklist'', False, TArray TString),
    (''stopRules'', False, TArray TString),
    (''triggers'', False, TArray (TObject [
      (''source'', False, TString),
      (''signal'', False, TString),
      (''interpretation'', False, TString),
      (''action'', False, TString)])),
    (''links'', False, TArray (TObject [
      (''label'', False, TString),
      (''href'', False, TString)]))]"

definition AIGoalDecision :: ts_type where
  "AIGoalDecision = TObject [
    (''stage'', False, TString),
    (''title'', False, TString),
    (''tone'', False, TUnion [TLit (js ''success''), TLit (js ''warning''), TLit (js ''danger''), TLit (js ''default'')]),
    (''summary'', False, TString),
    (''reasons'', False, TArray TString),
    (''nextActions'', False, TArray TString),
    (''primaryHref'', True, TString),
    (''primaryAction'', True, TObject [
      (''kind'', False, TUnion [TLit (js ''run_all_backtests''), TLit (js ''accept_paper_candidate''), TLit (js ''save_and_accept_paper_candidate''), TLit (js ''open_link''), TString]),
      (''label'', False, TString)])]"

definition OpportunityRadarState :: ts_type where
  "OpportunityRadarState = TObject [
    (''stage'', False, TString),
    (''title'', False, TString),
    (''tone'', False, TUnion [TLit (js ''success''), TLit (js ''warning''), TLit (js ''danger''), TLit (js ''default'')]),
    (''summary'', False, TString),
    (''metrics'', False, TArray (TObject [
      (''label'', False, TString),
      (''value'', False, TUnion [TString, TNumber]),
      (''hint'', False, TString)])),
    (''reasons'', False, TArray TString),
    (''nextActions'', False, TArray TString),
    (''primaryHref'', True, TString),
    (''primaryAction'', True, TObject [
      (''kind'', False, TUnion [TLit (js ''analyze_and_validate''), TLit (js ''run_all_backtests''), TLit (js ''accept_paper_candidate''), TLit (js ''open_link''), TString]),
      (''label'', False, TString)])]"

definition AIAutopilotState :: ts_type where
  "AIAutopilotState = TObject [
    (''stage'', False, TString),
    (''title'', False, TString),
    (''tone'', False, TUnion [TLit (js ''success''), TLit (js ''warning''), TLit (js ''danger''), TLit (js ''default'')]),
    (''progress'', False, TNumber),
    (''maxExecutionMode'', False, TString),
    (''canAutoExecute'', False, TBoolean),
    (''summary'', False, TString),
    (''metrics'', False, TArray (TObject [
      (''label'', False, TString),
      (''value'', False, TUnion [TString, TNumber]),
      (''hint'', False, TString)])),
    (''blockers'', False, TArray TString),
    (''safetyGates'', False, TArray TString),
    (''nextActions'', False, TArray TString),
    (''completedSteps'', False, TArray TString),
    (''aiAvailableSteps'', False, TArray TString),
    (''humanRequiredSteps'', False, TArray TString),
    (''primaryHref'', True, TString),
    (''primaryAction'', True, TObject [
      (''kind'', False, TUnion [TLit (js ''analyze_and_validate''), TLit (js ''run_all_backtests''), TLit (js ''accept_paper_candidate''), TLit (js ''open_link''), TString]),
      (''label'', False, TString)])]"

definition AIDecisionJournalItem :: ts_type where
  "AIDecisionJournalItem = TObject [
    (''kind'', False, TString),
    (''tone'', False, TUnion [TLit (js ''success''), TLit (js ''warning''), TLit (js ''danger''), TLit (js ''default'')]),
    (''title'', False, TString),
    (''detail'', False, TString),
    (''href'', True, TString),
    (''at'', True, TString)]"

definition AISentimentCompassState :: ts_type where
  "AISentimentCompassState = TObject [
    (''stage'', False, TString),
    (''title'', False, TString),
    (''tone'', False, TUnion [TLit (js ''success''), TLit (js ''warning''), TLit (js ''danger''), TLit (js ''default'')]),
    (''summary'', False, TString),
    (''metrics'', False, TArray (TObject [
      (''label'', False, TString),
      (''value'', False, TUnion [TString, TNumber]),
      (''hint'', False, TString)])),
    (''risks'', False, TArray TString),
    (''opportunities'', False, TArray TString),
    (''actions'', False, TArray TString)]"

definition AIThesisInvalidationState :: ts_type where
  "AIThesisInvalidationState = TObject [
    (''stage'', False, TString),
    (''title'', False, TString),
    (''tone'', False, TUnion [TLit (js ''success''), TLit (js ''warning''), TLit (js ''danger''), TLit (js ''default'')]),
    (''summary'', False, TString),
    (''primaryAction'', True, TObject [
      (''kind'', False, TUnion [TLit (js ''scan_today''), TLit (js ''run_all_backtests''), TLit (js ''open_link''), TString]),
      (''label'', False, TString),
      (''href'', True, TString)]),
    (''metrics'', False, TArray (TObject [
      (''label'', False, TString),
      (''value'', False, TUnion [TString, TNumber]),
      (''hint'', False, TString)])),
    (''invalidators'', False, TArray TString),
    (''monitors'', False, TArray TString),
    (''stopRules'', False, TArray TString),
    (''guardrails'', False, TArray TString)]"

definition AIMarketWatchSignal :: ts_type where
  "AIMarketWatchSignal = TObject [
    (''id'', False, TString),
    (''label'', False, TString),
    (''source'', False, TString),
    (''severity'', False, TUnion [TLit (js ''high''), TLit (js ''medium''), TLit (js ''watch''), TString]),
    (''detail'', False, TString),
    (''action'', False, TString)]"

definition AIMarketWatchtowerState :: ts_type where
  "AIMarketWatchtowerState = TObject [
    (''stage'', False, TString),
    (''title'', False, TString),
    (''tone'', False, TUnion [TLit (js ''success''), TLit (js ''warning''), TLit (js ''danger''), TLit (js ''default'')]),
    (''summary'', False, TString),
    (''primaryHref'', True, TString),
    (''primaryAction'', True, TObject [
      (''kind'', False, TUnion [TLit (js ''scan_today''), TLit (js ''rescan_today''), TLit (js ''run_all_backtests''), TLit (js ''accept_paper_candidate''), TLit (js ''open_link''), TString]),
      (''label'', False, TString)]),
    (''metrics'', False, TArray (TObject [
      (''label'', False, TString),
      (''value'', False, TUnion [TString, TNumber]),
      (''hint'', False, TString)])),
    (''signals'', False, TArray AIMarketWatchSignal),
    (''stopRules'', False, TArray TString),
    (''nextChecks'', False, TArray TString)]"

definition AIMarketMemoryItem :: ts_type where
  "AIMarketMemoryItem = TObject [
    (''id'', False, TString),
    (''goal'', False, TString),
    (''marketRead'', False, TString),
    (''humanFactors'', False, TArray TString),
    (''watchSignals'', False, TArray TString),
    (''watchSignalCount'', False, TNumber),
    (''openActionCount'', False, TNumber),
    (''href'', True, TString)]"

definition AIMarketMemoryState :: ts_type where
  "AIMarketMemoryState = TObject [
    (''stage'', False, TString),
    (''title'', False, TString),
    (''tone'', False, TUnion [TLit (js ''success''), TLit (js ''warning''), TLit (js ''danger''), TLit (js ''default'')]),
    (''summary'', False, TString),
    (''primaryAction'', True, TObject [
      (''kind'', False, TUnion [TLit (js ''scan_today''), TLit (js ''open_memory''), TString]),
      (''label'', False, TString)]),
    (''metrics'', False, TArray (TObject [
      (''label'', False, TString),
      (''value'', False, TUnion [TString, TNumber]),
      (''hint'', False, TString)])),
    (''items'', False, TArray AIMarketMemoryItem),
    (''nextActions'', False, TArray TString)]"

definition AIMoneyBriefState :: ts_type where
  "AIMoneyBriefState = TObject [
    (''stage'', False, TString),
    (''title'', False, TString),
    (''tone'', False, TUnion [TLit (js ''success''), TLit (js ''warning''), TLit (js ''danger''), TLit (js ''default'')]),
    (''confidence'', False, TNumber),
    (''audit'', False, TObject [
      (''verdict'', False, TString),
      (''tone'', False, TUnion [TLit (js ''success''), TLit (js ''warning''), TLit (js ''danger''), TLit (js ''default'')]),
      (''ready'', False, TArray TString),
      (''warnings'', False, TArray TString),
      (''blockers'', False, TArray TString)]),
    (''summary'', False, TString),
    (''primaryHref'', True, TString),
    (''primaryAction'', True, TObject [
      (''kind'', False, TUnion [TLit (js ''scan_today''), TLit (js ''rescan_today''), TLit (js ''open_today_run''), TLit (js ''run_all_backtests''), TLit (js ''accept_paper_candidate''), TLit (js ''open_link''), TString]),
      (''label'', False, TString)]),
    (''metrics'', False, TArray (TObject [
      (''label'', False, TString),
      (''value'', False, TUnion [TString, TNumber]),
      (''hint'', False, TString)])),
    (''checkpoints'', False, TArray TString)]"

definition AIMoneyPathStep :: ts_type where
  "AIMoneyPathStep = TObject [
    (''id'', False, TString),
    (''label'', False, TString),
    (''status'', False, TUnion [TLit (js ''done''), TLit (js ''current''), TLit (js ''blocked''), TLit (js ''pending''), TString]),
    (''tone'', False, TUnion [TLit (js ''success''), TLit (js ''warning''), TLit (js ''danger''), TLit (js ''default'')]),
    (''detail'', False, TString),
    (''actionKind'', True, TString),
    (''href'', True, TString)]"

definition AIMoneyPathState :: ts_type where
  "AIMoneyPathState = TObject [
    (''stage'', False, TString),
    (''title'', False, TString),
    (''tone'', False, TUnion [TLit (js ''success''), TLit (js ''warning''), TLit (js ''danger''), TLit (js ''default'')]),
    (''summary'', False, TString),
    (''currentStepId'', True, TString),
    (''primaryHref'', True, TString),
    (''primaryAction'', True, TObject [
      (''kind'', False, TUnion [TLit (js ''scan_today''), TLit (js ''run_all_backtests''), TLit (js ''accept_paper_candidate''), TLit (js ''open_link''), TLit (js ''sentiment_review''), TString]),
      (''label'', False, TString)]),
    (''steps'', False, TArray AIMoneyPathStep),
    (''nextActions'', False, TArray TString)]"

definition AICapitalPlanState :: ts_type where
  "AICapitalPlanState = TObject [
    (''stage'', False, TString),
    (''title'', False, TString),
    (''tone'', False, TUnion [TLit (js ''success''), TLit (js ''warning''), TLit (js ''danger''), TLit (js ''default'')]),
    (''summary'', False, TString),
    (''recommendedNotionalUsd'', False, TNumber),
    (''maxDailyLossUsd'', False, TNumber),
    (''riskDiscount'', False, TNumber),
    (''primaryHref'', True, TString),
    (''primaryAction'', True, TObject [
      (''kind'', False, TUnion [TLit (js ''run_all_backtests''), TLit (js ''accept_paper_candidate''), TLit (js ''open_link''), TString]),
      (''label'', False, TString)]),
    (''metrics'', False, TArray (TObject [
      (''label'', False, TString),
      (''value'', False, TUnion [TString, TNumber]),
      (''hint'', False, TString)])),
    (''rules'', False, TArray TString),
    (''actions'', False, TArray TString)]"

definition AIPaperReviewCoachItem :: ts_type where
  "AIPaperReviewCoachItem = TObject [
    (''id'', False, TString),
    (''label'', False, TString),
    (''status'', False, TUnion [TLit (js ''done''), TLit (js ''missing''), TString]),
    (''tone'', False, TUnion [TLit (js ''success''), TLit (js ''warning''), TLit (js ''danger''), TLit (js ''default'')]),
    (''detail'', False, TString)]"

definition AIPaperReviewCoachState :: ts_type where
  "AIPaperReviewCoachState = TObject [
    (''stage'', False, TString),
    (''title'', False, TString),
    (''tone'', False, TUnion [TLit (js ''success''), TLit (js ''warning''), TLit (js ''danger''), TLit (js ''default'')]),
    (''summary'', False, TString),
    (''candidateLabel'', False, TString),
    (''primaryHref'', True, TString),
    (''primaryAction'', True, TObject [
      (''kind'', False, TUnion [TLit (js ''run_all_backtests''), TLit (js ''accept_paper_candidate''), TLit (js ''open_link''), TString]),
      (''label'', False, TString)]),
    (''items'', False, TArray AIPaperReviewCoachItem),
    (''missingEvidence'', False, TArray TString),
    (''completionNote'', False, TString),
    (''nextActions'', False, TArray TString)]"

definition AIExecutionReadinessState :: ts_type where
  "AIExecutionReadinessState = TObject [
    (''stage'', False, TString),
    (''title'', False, TString),
    (''tone'', False, TUnion [TLit (js ''success''), TLit (js ''warning''), TLit (js ''danger''), TLit (js ''default'')]),
    (''score'', False, TNumber),
    (''summary'', False, TString),
    (''primaryHref'', True, TString),
    (''primaryAction'', True, TObject [
      (''kind'', False, TUnion [TLit (js ''scan_today''), TLit (js ''rescan_today''), TLit (js ''run_all_backtests''), TLit (js ''accept_paper_candidate''), TLit (js ''open_link''), TString]),
      (''label'', False, TString)]),
    (''metrics'', False, TArray (TObject [
      (''label'', False, TString),
      (''value'', False, TUnion [TString, TNumber]),
      (''hint'', False, TString)])),
    (''ready'', False, TArray TString),
    (''blockers'', False, TArray TString)]"

definition AIExecutionPreviewState :: ts_type where
  "AIExecutionPreviewState = TObject [
    (''stage'', False, TString),
    (''title'', False, TString),
    (''tone'', False, TUnion [TLit (js ''success''), TLit (js ''warning''), TLit (js ''danger''), TLit (js ''default'')]),
    (''summary'', False, TString),
    (''primaryHref'', True, TString),
    (''primaryAction'', True, TObject [
      (''kind'', False, TUnion [TLit (js ''analyze_and_validate''), TLit (js ''scan_today''), TLit (js ''rescan_today''), TLit (js ''run_all_backtests''), TLit (js ''accept_paper_candidate''), TLit (js ''open_link''), TString]),
      (''label'', False, TString)]),
    (''metrics'', False, TArray (TObject [
      (''label'', False, TString),
      (''value'', False, TUnion [TString, TNumber]),
      (''hint'', False, TString)])),
    (''wouldDo'', False, TArray TString),
    (''willNotDo'', False, TArray TString),
    (''requiredHumanConfirmations'', False, TArray TString)]"

definition AISetupChecklistItem :: ts_type where
  "AISetupChecklistItem = TObject [
    (''id'', False, TString),
    (''label'', False, TString),
    (''status'', False, TUnion [TLit (js ''ready''), TLit (js ''warning''), TLit (js ''blocked''), TString]),
    (''tone'', False, TUnion [TLit (js ''success''), TLit (js ''warning''), TLit (js ''danger''), TLit (js ''default'')]),
    (''detail'', False, TString),
    (''href'', True, TString)]"

definition AISetupChecklistState :: ts_type where
  "AISetupChecklistState = TObject [
    (''stage'', False, TString),
    (''title'', False, TString),
    (''tone'', False, TUnion [TLit (js ''success''), TLit (js ''warning''), TLit (js ''danger''), TLit (js ''default'')]),
    (''score'', False, TNumber),
    (''summary'', False, TString),
    (''primaryHref'', True, TString),
    (''primaryAction'', True, TObject [
      (''kind'', False, TUnion [TLit (js ''scan_today''), TLit (js ''rescan_today''), TLit (js ''run_all_backtests''), TLit (js ''open_link''), TString]),
      (''label'', False, TString)]),
    (''items'', False, TArray AISetupChecklistItem),
    (''nextActions'', False, TArray TString)]"

definition DailyRadarStatus :: ts_type where
  "DailyRadarStatus = TObject [
    (''hasToday'', False, TBoolean),
    (''isStale'', False, TBoolean),
    (''title'', False, TString),
    (''tone'', False, TUnion [TLit (js ''success''), TLit (js ''warning''), TLit (js ''danger''), TLit (js ''default'')]),
    (''summary'', False, TString),
    (''run'', False, TUnion [TypeAIGoalRun, TNull]),
    (''primaryAction'', False, TObject [
      (''kind'', False, TUnion [TLit (js ''scan_today''), TLit (js ''open_today_run''), TLit (js ''rescan_today''), TString]),
      (''label'', False, TString)]),
    (''secondaryAction'', True, TObject [
      (''kind'', False, TUnion [TLit (js ''scan_today''), TLit (js ''open_today_run''), TLit (js ''rescan_today''), TString]),
      (''label'', False, TString)])]"

definition AISettingsReturnPromptState :: ts_type where
  "AISettingsReturnPromptState = TObject [
    (''stage'', False, TString),
    (''tone'', False, TUnion [TLit (js ''success''), TLit (js ''warning''), TLit (js ''danger''), TLit (js ''default''), TLit (js ''primary'')]),
    (''title'', False, TString),
    (''summary'', False, TString),
    (''primaryHref'', True, TString),
    (''primaryAction'', False, TObject [
      (''kind'', False, TUnion [TLit (js ''scan_today''), TLit (js ''rescan_today''), TLit (js ''open_link''), TString]),
      (''label'', False, TString)]),
    (''nextActions'', False, TArray TString)]"

definition AIProviderReadinessGateState :: ts_type where
  "AIProviderReadinessGateState = TObject [
    (''stage'', False, TString),
    (''visible'', False, TBoolean),
    (''blockManualAnalysis'', False, TBoolean),
    (''blockAutoRadar'', False, TBoolean),
    (''tone'', False, TUnion [TLit (js ''success''), TLit (js ''warning''), TLit (js ''danger''), TLit (js ''default''), TLit (js ''primary''), TString]),
    (''title'', False, TString),
    (''summary'', False, TString),
    (''primaryHref'', False, TString),
    (''primaryAction'', False, TObject [
      (''kind'', False, TUnion [TLit (js ''open_link''), TString]),
      (''label'', False, TString)]),
    (''nextActions'', False, TArray TString)]"

definition AIProviderAnalysisAttempt :: ts_type where
  "AIProviderAnalysisAttempt = TObject [
    (''kind'', False, TUnion [TLit (js ''allow''), TLit (js ''redirect''), TString]),
    (''href'', True, TString),
    (''label'', True, TString)]"

definition AIRunFollowupQueueItem :: ts_type where
  "AIRunFollowupQueueItem = TObject [
    (''runId'', False, TString),
    (''goal'', False, TString),
    (''symbols'', False, TString),
    (''title'', False, TString),
    (''detail'', False, TString),
    (''tone'', False, TUnion [TLit (js ''success''), TLit (js ''warning''), TLit (js ''danger''), TLit (js ''default''), TLit (js ''primary'')]),
    (''actionKind'', False, TString),
    (''href'', True, TString),
    (''createdAt'', True, TString)]"

definition AIRunFollowupQueueState :: ts_type where
  "AIRunFollowupQueueState = TObject [
    (''stage'', False, TString),
    (''tone'', False, TUnion [TLit (js ''success''), TLit (js ''warning''), TLit (js ''danger''), TLit (js ''default''), TLit (js ''primary'')]),
    (''title'', False, TString),
    (''summary'', False, TString),
    (''items'', False, TArray AIRunFollowupQueueItem),
    (''nextActions'', False, TArray TString),
    (''primaryAction'', True, TObject [
      (''kind'', False, TUnion [TLit (js ''open_run''), TLit (js ''refresh_run''), TLit (js ''validate_run''), TLit (js ''scan_today''), TString]),
      (''label'', False, TString),
      (''runId'', True, TString),
      (''href'', True, TString)])]"

definition AIRunRefreshComparisonItem :: ts_type where
  "AIRunRefreshComparisonItem = TObject [
    (''oldRunId'', False, TString),
    (''newRunId'', False, TString),
    (''oldGoal'', False, TString),
    (''newGoal'', False, TString),
    (''oldSummary'', False, TString),
    (''newSummary'', False, TString),
    (''href'', False, TString),
    (''contextDelta'', False, TNumber),
    (''draftDelta'', False, TNumber),
    (''humanFactorChange'', False, TString),
    (''highlights'', False, TArray TString),
    (''refreshedAt'', True, TString)]"

definition AIRunRefreshComparisonState :: ts_type where
  "AIRunRefreshComparisonState = TObject [
    (''stage'', False, TString),
    (''tone'', False, TUnion [TLit (js ''success''), TLit (js ''warning''), TLit (js ''danger''), TLit (js ''default''), TLit (js ''primary'')]),
    (''title'', False, TString),
    (''summary'', False, TString),
    (''items'', False, TArray AIRunRefreshComparisonItem)]"

definition AutoDailyRadarDecision :: ts_type where
  "AutoDailyRadarDecision = TObject [
    (''shouldRun'', False, TBoolean),
    (''key'', False, TString),
    (''reason'', False, TString)]"

definition AutoRadarProviderNotice :: ts_type where
  "AutoRadarProviderNotice = TObject [
    (''stage'', False, TString),
    (''tone'', False, StatusTone),
    (''title'', False, TString),
    (''summary'', False, TString),
    (''primaryHref'', False, TString),
    (''primaryAction'', False, TObject [
      (''kind'', False, TUnion [TLit (js ''open_link''), TString]),
      (''label'', False, TString)])]"

definition AIGoalTemplate :: ts_type where
  "AIGoalTemplate = TObject [
    (''id'', False, TString),
    (''label'', False, TString),
    (''goal'', False, TString),
    (''symbols'', False, TArray TString),
    (''horizon'', False, TString),
    (''riskPreference'', False, TString),
    (''executionMode'', False, TString)]"

definition AIGoalFormState :: ts_type where
  "AIGoalFormState = TObject [
    (''goal'', False, TString),
    (''symbolsText'', False, TString),
    (''horizon'', False, TString),
    (''riskPreference'', False, TString),
    (''executionMode'', False, TString),
    (''behaviorText'', True, TString),
    (''narrativeText'', True, TString),
    (''avoidText'', True, TString)]"

definition AIGoalComposerState :: ts_type where
  "AIGoalComposerState = TObject [
    (''stage'', False, TString),
    (''title'', False, TString),
    (''tone'', False, TUnion [TLit (js ''success''), TLit (js ''warning''), TLit (js ''danger''), TLit (js ''default'')]),
    (''summary'', False, TString),
    (''proposedFormState'', False, AIGoalFormState),
    (''checks'', False, TArray TString),
    (''missing'', False, TArray TString),
    (''primaryAction'', False, TObject [
      (''kind'', False, TUnion [TLit (js ''apply_suggestion''), TLit (js ''analyze_and_validate''), TString]),
      (''label'', False, TString)])]"

definition AutoValidationPlan :: ts_type where
  "AutoValidationPlan = TObject [
    (''status'', False, TString),
    (''runnableCount'', False, TNumber),
    (''items'', False, TArray (TObject [
      (''draft'', False, TypeAIGoalStrategyDraft),
      (''request'', False, TypeCreateBacktest)])),
    (''coverage'', False, TArray TString),
    (''guardrails'', False, TArray TString),
    (''skippedDrafts'', False, TArray (TObject [
      (''name'', False, TString),
      (''kind'', False, TString),
      (''symbol'', False, TString),
      (''reason'', False, TString)])),
    (''activityLabel'', False, TString),
    (''activityDetail'', False, TString),
    (''actionNote'', False, TString)]"

definition AIAutonomousCommandState :: ts_type where
  "AIAutonomousCommandState = TObject [
    (''stage'', False, TString),
    (''title'', False, TString),
    (''tone'', False, TUnion [TLit (js ''success''), TLit (js ''warning''), TLit (js ''danger''), TLit (js ''default''), TLit (js ''primary'')]),
    (''owner'', False, TUnion [TLit (js ''AI''), TLit [20320], TString]),
    (''summary'', False, TString),
    (''primaryHref'', True, TString),
    (''primaryAction'', True, TObject [
      (''kind'', False, TUnion [TLit (js ''analyze_and_validate''), TLit (js ''scan_today''), TLit (js ''rescan_today''), TLit (js ''run_all_backtests''), TLit (js ''accept_paper_candidate''), TLit (js ''save_and_accept_paper_candidate''), TLit (js ''complete_manual_action''), TLit (js ''validate_run''), TLit (js ''refresh_run''), TLit (js ''open_link''), TString]),
      (''label'', False, TString),
      (''actionId'', True, TString),
      (''runId'', True, TString),
      (''href'', True, TString)]),
    (''confidenceLabel'', False, TString),
    (''safety'', False, TString),
    (''proposedFormState'', True, AIGoalFormState),
    (''scanFormState'', True, AIGoalFormState),
    (''proposalCard'', True, TObject [
      (''title'', False, TString),
      (''goal'', False, TString),
      (''stats'', False, TArray (TObject [
        (''label'', False, TString),
        (''value'', False, TString),
        (''hint'', False, TString)])),
      (''checks'', False, TArray TString)]),
    (''why'', False, TArray TString),
    (''aiWillDo'', False, TArray TString),
    (''humanMustDo'', False, TArray TString)]"

definition AINowActionState :: ts_type where
  "AINowActionState = TObject [
    (''stage'', False, TString),
    (''title'', False, TString),
    (''tone'', False, TUnion [TLit (js ''success''), TLit (js ''warning''), TLit (js ''danger''), TLit (js ''default''), TLit (js ''primary'')]),
    (''owner'', False, TUnion [TLit (js ''AI''), TLit [20320], TString]),
    (''summary'', False, TString),
    (''primaryHref'', True, TString),
    (''primaryAction'', True, TObject [
      (''kind'', False, TUnion [TLit (js ''analyze_and_validate''), TLit (js ''scan_today''), TLit (js ''rescan_today''), TLit (js ''run_all_backtests''), TLit (js ''accept_paper_candidate''), TLit (js ''save_and_accept_paper_candidate''), TLit (js ''complete_manual_action''), TLit (js ''open_link''), TString]),
      (''label'', False, TString),
      (''actionId'', True, TString),
      (''runId'', True, TString),
      (''href'', True, TString)]),
    (''guardrail'', False, TString),
    (''proposedFormState'', True, AIGoalFormState),
    (''scanFormState'', True, AIGoalFormState),
    (''proposalCard'', True, TObject [
      (''title'', False, TString),
      (''goal'', False, TString),
      (''stats'', False, TArray (TObject [
        (''label'', False, TString),
        (''value'', False, TString),
        (''hint'', False, TString)])),
      (''checks'', False, TArray TString)]),
    (''why'', False, TArray TString),
    (''handoff'', False, TString),
    (''nextActions'', False, TArray TString)]"

definition AIDailyMissionTask :: ts_type where
  "AIDailyMissionTask = TObject [
    (''id'', False, TString),
    (''title'', False, TString),
    (''detail'', False, TString),
    (''priority'', False, TString),
    (''status'', False, TString),
    (''tone'', False, TUnion [TLit (js ''success''), TLit (js ''warning''), TLit (js ''danger''), TLit (js ''default'')]),
    (''actionKind'', True, TString),
    (''href'', True, TString),
    (''runId'', True, TString),
    (''proposedFormState'', True, AIGoalFormState)]"

definition AIDailyMissionState :: ts_type where
  "AIDailyMissionState = TObject [
    (''focus'', False, TString),
    (''title'', False, TString),
    (''tone'', False, TUnion [TLit (js ''success''), TLit (js ''warning''), TLit (js ''danger''), TLit (js ''default'')]),
    (''summary'', False, TString),
    (''tasks'', False, TArray AIDailyMissionTask)]"

lemmas aimoney_type_defs [ts_defs] =
  StatusTone_def
  ActionQueueItem_def
  ValidationScoreItem_def
  PaperCandidate_def
  AICommandCenterEvidenceItem_def
  AICommandCenterState_def
  AIObservationFocusItem_def
  AIObservationFocusState_def
  AIPaperAdoptionPackageStep_def
  AIPaperAdoptionPackageState_def
  AIDelegationRunbookStep_def
  AIDelegationRunbookState_def
  AIDraftEvidenceState_def
  AIStrategyCreationSummaryState_def
  AIStrategyShortlistItem_def
  AIStrategyShortlistState_def
  AIOperatorRhythmState_def
  PaperObservationPlan_def
  AIGoalDecision_def
  OpportunityRadarState_def
  AIAutopilotState_def
  AIDecisionJournalItem_def
  AISentimentCompassState_def
  AIThesisInvalidationState_def
  AIMarketWatchSignal_def
  AIMarketWatchtowerState_def
  AIMarketMemoryItem_def
  AIMarketMemoryState_def
  AIMoneyBriefState_def
  AIMoneyPathStep_def
  AIMoneyPathState_def
  AICapitalPlanState_def
  AIPaperReviewCoachItem_def
  AIPaperReviewCoachState_def
  AIExecutionReadinessState_def
  AIExecutionPreviewState_def
  AISetupChecklistItem_def
  AISetupChecklistState_def
  DailyRadarStatus_def
  AISettingsReturnPromptState_def
  AIProviderReadinessGateState_def
  AIProviderAnalysisAttempt_def
  AIRunFollowupQueueItem_def
  AIRunFollowupQueueState_def
  AIRunRefreshComparisonItem_def
  AIRunRefreshComparisonState_def
  AutoDailyRadarDecision_def
  AutoRadarProviderNotice_def
  AIGoalTemplate_def
  AIGoalFormState_def
  AIGoalComposerState_def
  AutoValidationPlan_def
  AIAutonomousCommandState_def
  AINowActionState_def
  AIDailyMissionTask_def
  AIDailyMissionState_def

end
