(* ===== verification/Js_Ops.thy ===== *)
theory Js_Ops
  imports Js_Json Url_Query
begin

section \<open>The operations of the language on values\<close>

text \<open>
  What the data modules of the client use of JavaScript beyond strings and numbers: operators that
  choose or coerce their operands, array methods, sets and maps, early exits of loops, search
  parameters and dates.

  Conventions of the models that are built from these operations. A property read is
  \<^verbatim>\<open>v?.k\<close>; where the source writes \<^verbatim>\<open>v.k\<close> or calls a method on a value that does not have it,
  JavaScript throws a \<^verbatim>\<open>TypeError\<close> and the model reads \<open>undefined\<close> or the empty value, so a model
  speaks of the executions that do not throw there. An absent argument is \<open>undefined\<close>. A \<^verbatim>\<open>now\<close>
  parameter is a \<^verbatim>\<open>Date\<close>; the reading of the clock by \<^verbatim>\<open>new Date()\<close> is the argument \<open>clock\<close>. A
  local variable that is reassigned becomes a sequence of \<open>let\<close> bindings of the same name.
\<close>

subsection \<open>Operators\<close>

definition dflt :: "jsval \<Rightarrow> jsval \<Rightarrow> jsval" where
  "dflt v d = (if v = Undef then d else v)"

definition js_and :: "jsval \<Rightarrow> jsval \<Rightarrow> jsval" where
  "js_and a b = (if truthy a then b else a)"

definition s_or :: "jstr \<Rightarrow> jstr \<Rightarrow> jstr" where
  "s_or a b = (if a = [] then b else a)"

definition n_or :: "jsnum \<Rightarrow> jsnum \<Rightarrow> jsnum" where
  "n_or a b = (if truthy (Num a) then a else b)"

definition nullish :: "jsval \<Rightarrow> bool" where
  "nullish v \<longleftrightarrow> v = Undef \<or> v = Null"

fun is_num :: "jsval \<Rightarrow> bool" where
  "is_num (Num _) = True"
| "is_num _ = False"

fun is_boolean :: "jsval \<Rightarrow> bool" where
  "is_boolean (Bool _) = True"
| "is_boolean _ = False"

text \<open>\<^verbatim>\<open>Number.isFinite(v)\<close>\<close>

fun is_fin_num :: "jsval \<Rightarrow> bool" where
  "is_fin_num (Num n) = is_finite n"
| "is_fin_num _ = False"

text \<open>The primitive value of an operand of \<open>+\<close> or of a comparison.\<close>

fun prim :: "jsval \<Rightarrow> jsval" where
  "prim (Arr vs) = Str (to_str (Arr vs))"
| "prim (Obj kvs) = Str (to_str (Obj kvs))"
| "prim v = v"

definition js_plus :: "jsval \<Rightarrow> jsval \<Rightarrow> jsval" where
  "js_plus a b =
     (if is_str (prim a) \<or> is_str (prim b) then Str (to_str a @ to_str b)
      else Num (num_add (to_num a) (to_num b)))"

text \<open>\<open>===\<close> on primitive values; two objects are compared by their contents, not their identity.\<close>

fun strict_eq :: "jsval \<Rightarrow> jsval \<Rightarrow> bool" where
  "strict_eq (Num a) (Num b) = num_eq a b"
| "strict_eq a b = (a = b)"

text \<open>The string or number receiver of a method.\<close>

fun str_val :: "jsval \<Rightarrow> jstr" where
  "str_val (Str s) = s"
| "str_val _ = []"

fun num_val :: "jsval \<Rightarrow> jsnum" where
  "num_val (Num n) = n"
| "num_val _ = NaN"

text \<open>\<^verbatim>\<open>Math.floor\<close>, \<^verbatim>\<open>Math.ceil\<close>, \<^verbatim>\<open>Math.trunc\<close>\<close>

fun num_floor :: "jsnum \<Rightarrow> jsnum" where
  "num_floor (Fin a) = Fin (of_int \<lfloor>a\<rfloor>)"
| "num_floor x = x"

fun num_ceil :: "jsnum \<Rightarrow> jsnum" where
  "num_ceil (Fin a) = Fin (of_int \<lceil>a\<rceil>)"
| "num_ceil x = x"

subsection \<open>Arrays, sets and maps\<close>

definition len :: "'a list \<Rightarrow> jsnum" where
  "len xs = Fin (of_nat (length xs))"

definition item_at :: "jsval list \<Rightarrow> nat \<Rightarrow> jsval" where
  "item_at xs i = (if i < length xs then xs ! i else Undef)"

text \<open>A number used as an index or a length; a negative or NaN one is read as 0.\<close>

fun to_len :: "jsnum \<Rightarrow> nat" where
  "to_len (Fin a) = nat \<lfloor>a\<rfloor>"
| "to_len _ = 0"

definition last_n :: "nat \<Rightarrow> 'a list \<Rightarrow> 'a list" where
  "last_n n xs = drop (length xs - n) xs"

definition but_last_n :: "nat \<Rightarrow> 'a list \<Rightarrow> 'a list" where
  "but_last_n n xs = take (length xs - n) xs"

text \<open>\<^verbatim>\<open>v.slice(a, b)\<close> for \<open>a \<ge> 0\<close>, \<open>b \<ge> a\<close> on a string or an array.\<close>

definition cut :: "nat \<Rightarrow> nat option \<Rightarrow> 'a list \<Rightarrow> 'a list" where
  "cut a b xs = drop a (case b of None \<Rightarrow> xs | Some n \<Rightarrow> take n xs)"

fun js_slice :: "nat \<Rightarrow> nat option \<Rightarrow> jsval \<Rightarrow> jsval" where
  "js_slice a b (Str s) = Str (cut a b s)"
| "js_slice a b (Arr vs) = Arr (cut a b vs)"
| "js_slice a b _ = Undef"

text \<open>
  A \<^verbatim>\<open>Set\<close> is the list of its elements in insertion order, a \<^verbatim>\<open>Map\<close> the list of its entries. Their
  elements and keys are primitive values.
\<close>

definition list_has :: "jsval list \<Rightarrow> jsval \<Rightarrow> bool" where
  "list_has xs x \<longleftrightarrow> x \<in> set xs"

definition set_add :: "jsval list \<Rightarrow> jsval \<Rightarrow> jsval list" where
  "set_add xs x = (if x \<in> set xs then xs else xs @ [x])"

definition remdups_first :: "jsval list \<Rightarrow> jsval list" where
  "remdups_first xs = fold (\<lambda>x acc. set_add acc x) xs []"

fun map_get :: "(jsval \<times> jsval) list \<Rightarrow> jsval \<Rightarrow> jsval" where
  "map_get m k = (case map_of m k of None \<Rightarrow> Undef | Some v \<Rightarrow> v)"

fun map_put :: "(jsval \<times> jsval) list \<Rightarrow> jsval \<Rightarrow> jsval \<Rightarrow> (jsval \<times> jsval) list" where
  "map_put [] k v = [(k, v)]"
| "map_put ((k', v') # m) k v = (if k' = k then (k, v) # m else (k', v') # map_put m k v)"

text \<open>\<^verbatim>\<open>new Map(pairs)\<close>\<close>

definition map_of_entries :: "jsval list \<Rightarrow> (jsval \<times> jsval) list" where
  "map_of_entries ps = fold (\<lambda>p m. map_put m (item_at (elems p) 0) (item_at (elems p) 1)) ps []"

definition map_idx :: "(jsval \<Rightarrow> jsnum \<Rightarrow> jsval) \<Rightarrow> jsval list \<Rightarrow> jsval list" where
  "map_idx f xs = map (\<lambda>(i, x). f x (Fin (of_nat i))) (enumerate 0 xs)"

definition js_find :: "(jsval \<Rightarrow> bool) \<Rightarrow> jsval list \<Rightarrow> jsval" where
  "js_find P xs = (case find P xs of None \<Rightarrow> Undef | Some x \<Rightarrow> x)"

definition js_join :: "jstr \<Rightarrow> jsval list \<Rightarrow> jstr" where
  "js_join sep vs = join sep (map (\<lambda>v. if nullish v then [] else to_str v) vs)"

definition js_reduce :: "('a \<Rightarrow> jsval \<Rightarrow> 'a) \<Rightarrow> 'a \<Rightarrow> jsval list \<Rightarrow> 'a" where
  "js_reduce f init xs = foldl f init xs"

text \<open>
  \<^verbatim>\<open>sort(cmp)\<close> is stable: an element is placed behind the earlier ones that do not compare greater.
  (For a comparator that is no weak order, the language leaves the result open.)
\<close>

fun sort_insert :: "(jsval \<Rightarrow> jsval \<Rightarrow> jsnum) \<Rightarrow> jsval \<Rightarrow> jsval list \<Rightarrow> jsval list" where
  "sort_insert cmp x [] = [x]"
| "sort_insert cmp x (y # ys) =
     (if num_lt (Fin 0) (cmp x y) then y # sort_insert cmp x ys else x # y # ys)"

definition js_sort :: "(jsval \<Rightarrow> jsval \<Rightarrow> jsnum) \<Rightarrow> jsval list \<Rightarrow> jsval list" where
  "js_sort cmp xs = foldr (sort_insert cmp) xs []"

text \<open>\<^verbatim>\<open>{...a, ...b}\<close>\<close>

definition merge :: "jsval \<Rightarrow> jsval \<Rightarrow> jsval" where
  "merge a b = Obj (put_all (entries a) (entries b))"

subsection \<open>Loops with early exits\<close>

text \<open>
  The body of a \<^verbatim>\<open>for ... of\<close> loop maps an element and the loop's variables to \<open>Next\<close> (go on),
  \<open>Break\<close>, or \<open>Return\<close> (leave the function with a value).
\<close>

datatype 's flow = Next 's | Break 's | Return jsval

fun loop :: "(jsval \<Rightarrow> 's \<Rightarrow> 's flow) \<Rightarrow> jsval list \<Rightarrow> 's \<Rightarrow> 's flow" where
  "loop f [] s = Next s"
| "loop f (x # xs) s =
     (case f x s of Next s' \<Rightarrow> loop f xs s' | Break s' \<Rightarrow> Break s' | Return r \<Rightarrow> Return r)"

text \<open>A loop without a \<^verbatim>\<open>return\<close> in its body.\<close>

fun iterate :: "(jsval \<Rightarrow> 's \<Rightarrow> 's flow) \<Rightarrow> jsval list \<Rightarrow> 's \<Rightarrow> 's" where
  "iterate f [] s = s"
| "iterate f (x # xs) s =
     (case f x s of Next s' \<Rightarrow> iterate f xs s' | Break s' \<Rightarrow> s' | Return r \<Rightarrow> s)"

subsection \<open>Text\<close>

definition is_upper_unit :: "nat \<Rightarrow> bool" where
  "is_upper_unit c \<longleftrightarrow> 65 \<le> c \<and> c \<le> 90"

definition is_lower_unit :: "nat \<Rightarrow> bool" where
  "is_lower_unit c \<longleftrightarrow> 97 \<le> c \<and> c \<le> 122"

text \<open>The first match of \<^verbatim>\<open>/<prefix>([class]+)/\<close>: the captured group.\<close>

fun after_match :: "jstr \<Rightarrow> (nat \<Rightarrow> bool) \<Rightarrow> jstr \<Rightarrow> jstr option" where
  "after_match p P [] = None"
| "after_match p P (c # s) =
     (let m = takeWhile P (drop (length p) (c # s))
      in if starts_with (c # s) p \<and> m \<noteq> [] then Some m else after_match p P s)"

text \<open>\<^verbatim>\<open>decodeURIComponent\<close> of a well-formed escape sequence (a malformed one throws).\<close>

fun uri_bytes :: "jstr \<Rightarrow> nat list" where
  "uri_bytes [] = []"
| "uri_bytes (c # s) =
     (if c = 37 then
        (case s of
           h # l # r \<Rightarrow>
             (case (radix_digit h, radix_digit l) of
                (Some a, Some b) \<Rightarrow> (16 * a + b) # uri_bytes r
              | _ \<Rightarrow> 37 # uri_bytes s)
         | _ \<Rightarrow> 37 # uri_bytes s)
      else utf8 c @ uri_bytes s)"

definition decode_component :: "jstr \<Rightarrow> jstr" where
  "decode_component s = utf8_decode (uri_bytes s)"

subsection \<open>Search parameters\<close>

definition param :: "(jstr \<times> jstr) list \<Rightarrow> jstr \<Rightarrow> jsval" where
  "param q k = (case map_of q k of None \<Rightarrow> Null | Some v \<Rightarrow> Str v)"

text \<open>\<^verbatim>\<open>new URLSearchParams(init)\<close> of a record of strings or of a query string.\<close>

fun params_of :: "jsval \<Rightarrow> (jstr \<times> jstr) list" where
  "params_of (Obj kvs) = map (\<lambda>(k, v). (k, to_str v)) kvs"
| "params_of (Str s) = parse_query (case s of c # r \<Rightarrow> if c = 63 then r else s | [] \<Rightarrow> [])"
| "params_of _ = []"

subsection \<open>Dates\<close>

definition time_of :: "date \<Rightarrow> jsnum" where
  "time_of d = (case d of None \<Rightarrow> NaN | Some t \<Rightarrow> Fin (of_int t))"

text \<open>\<^verbatim>\<open>toISOString\<close> of a valid date (an invalid one throws a \<^verbatim>\<open>RangeError\<close>).\<close>

definition iso_string :: "date \<Rightarrow> jstr" where
  "iso_string d = (case toISOString d of Inl _ \<Rightarrow> [] | Inr s \<Rightarrow> s)"

fun date_of_num :: "jsnum \<Rightarrow> date" where
  "date_of_num (Fin q) =
     (let t = (if 0 \<le> q then \<lfloor>q\<rfloor> else \<lceil>q\<rceil>) in if \<bar>q\<bar> \<le> 8640000000000000 then Some t else None)"
| "date_of_num _ = None"

text \<open>
  \<^verbatim>\<open>new Date(text)\<close> for the ISO 8601 forms that the gateway and \<^verbatim>\<open>toISOString\<close> print:
  \<^verbatim>\<open>YYYY-MM-DD\<close>, or that with \<^verbatim>\<open>THH:MM:SS\<close>, an optional fraction and \<^verbatim>\<open>Z\<close> or an offset. The forms
  that the language leaves to the engine are read as an invalid date.
\<close>

definition days_of :: "int \<Rightarrow> int \<Rightarrow> int \<Rightarrow> int" where
  "days_of y m d =
     (let y' = (if m \<le> 2 then y - 1 else y); era = y' div 400; yoe = y' mod 400;
          mp = (if 2 < m then m - 3 else m + 9); doy = (153 * mp + 2) div 5 + d - 1;
          doe = 365 * yoe + yoe div 4 - yoe div 100 + doy
      in era * 146097 + doe - 719468)"

definition digits2 :: "jstr \<Rightarrow> int option" where
  "digits2 s = (if length s = 2 \<and> list_all is_digit s then Some (int (digits_val s)) else None)"

definition read_day :: "jstr \<Rightarrow> int option" where
  "read_day s =
     (if length s = 10 \<and> s ! 4 = 45 \<and> s ! 7 = 45 \<and> list_all is_digit (take 4 s) then
        (case (digits2 (take 2 (drop 5 s)), digits2 (drop 8 s)) of
           (Some m, Some d) \<Rightarrow>
             (if 1 \<le> m \<and> m \<le> 12 \<and> 1 \<le> d \<and> d \<le> 31
              then Some (days_of (int (digits_val (take 4 s))) m d) else None)
         | _ \<Rightarrow> None)
      else None)"

definition read_clock :: "jstr \<Rightarrow> int option" where
  "read_clock s =
     (if length s = 8 \<and> s ! 2 = 58 \<and> s ! 5 = 58 then
        (case (digits2 (take 2 s), digits2 (take 2 (drop 3 s)), digits2 (drop 6 s)) of
           (Some h, Some m, Some sec) \<Rightarrow>
             (if h < 24 \<and> m < 60 \<and> sec < 60 then Some ((h * 60 + m) * 60000 + sec * 1000) else None)
         | _ \<Rightarrow> None)
      else None)"

text \<open>A fraction (to the millisecond) and the rest of the text.\<close>

definition read_fraction :: "jstr \<Rightarrow> (int \<times> jstr) option" where
  "read_fraction s =
     (case s of
        c # r \<Rightarrow>
          (if c = 46 then
             (let ds = takeWhile is_digit r
              in if ds = [] then None
                 else Some (int (digits_val (take 3 (ds @ [48, 48]))), dropWhile is_digit r))
           else Some (0, s))
      | [] \<Rightarrow> Some (0, []))"

definition read_offset :: "jstr \<Rightarrow> int option" where
  "read_offset s =
     (if s = [90] then Some 0
      else case s of
        sg # r \<Rightarrow>
          (if (sg = 43 \<or> sg = 45) \<and> length r = 5 \<and> r ! 2 = 58 then
             (case (digits2 (take 2 r), digits2 (drop 3 r)) of
                (Some h, Some m) \<Rightarrow> Some ((if sg = 43 then 1 else -1) * (h * 60 + m) * 60000)
              | _ \<Rightarrow> None)
           else None)
      | [] \<Rightarrow> None)"

definition parse_date :: "jstr \<Rightarrow> date" where
  "parse_date s =
     (case read_day (take 10 s) of
        None \<Rightarrow> None
      | Some d \<Rightarrow>
          (case drop 10 s of
             [] \<Rightarrow> Some (d * 86400000)
           | c # r \<Rightarrow>
               (case (if c = 84 then read_clock (take 8 r) else None, read_fraction (drop 8 r)) of
                  (Some t, Some (ms, rest)) \<Rightarrow>
                    (case read_offset rest of
                       Some off \<Rightarrow> Some (d * 86400000 + t + ms - off) | None \<Rightarrow> None)
                | _ \<Rightarrow> None)))"

fun date_of :: "jsval \<Rightarrow> date" where
  "date_of (Str s) = parse_date s"
| "date_of (Num n) = date_of_num n"
| "date_of (Bool b) = Some (if b then 1 else 0)"
| "date_of Null = Some 0"
| "date_of (Arr vs) = parse_date (to_str (Arr vs))"
| "date_of _ = None"

subsection \<open>Lemmas\<close>

lemma dflt_simps [simp]: "dflt Undef d = d" "v \<noteq> Undef \<Longrightarrow> dflt v d = v"
  by (simp_all add: dflt_def)

lemma js_or_simps [simp]: "truthy a \<Longrightarrow> js_or a b = a" "\<not> truthy a \<Longrightarrow> js_or a b = b"
  by (simp_all add: js_or_def)

lemma coalesce_simps [simp]: "coalesce Undef b = b" "coalesce Null b = b"
    "a \<noteq> Undef \<Longrightarrow> a \<noteq> Null \<Longrightarrow> coalesce a b = a"
  by (simp_all add: coalesce_def)

lemma set_set_add [simp]: "set (set_add xs x) = insert x (set xs)"
  by (auto simp: set_add_def)

lemma distinct_set_add: "distinct xs \<Longrightarrow> distinct (set_add xs x)"
  by (simp add: set_add_def)

lemma set_remdups_first_acc: "set (fold (\<lambda>x acc. set_add acc x) xs acc) = set acc \<union> set xs"
  by (induction xs arbitrary: acc) auto

lemma set_remdups_first [simp]: "set (remdups_first xs) = set xs"
  by (simp add: remdups_first_def set_remdups_first_acc)

lemma distinct_remdups_first: "distinct (remdups_first xs)"
proof -
  have "distinct acc \<Longrightarrow> distinct (fold (\<lambda>x acc. set_add acc x) xs acc)" for acc
    by (induction xs arbitrary: acc) (auto simp: distinct_set_add)
  then show ?thesis by (simp add: remdups_first_def)
qed

lemma map_of_map_put: "map_of (map_put m k v) = (map_of m)(k \<mapsto> v)"
  by (induction m k v rule: map_put.induct) (auto simp: fun_upd_twist)

lemma entries_obj: "entries (obj kvs) = map (\<lambda>(k, v). (js k, v)) kvs"
  by (simp add: obj_def)

lemma fld_merge: "fld (merge a b) k =
    (case map_of (rev (entries b)) (js k) of Some x \<Rightarrow> x | None \<Rightarrow> fld (Obj (entries a)) k)"
  by (simp add: fld_def merge_def map_of_put_all split: option.split)

lemma length_sort_insert [simp]: "length (sort_insert cmp x xs) = Suc (length xs)"
  by (induction cmp x xs rule: sort_insert.induct) auto

lemma set_sort_insert [simp]: "set (sort_insert cmp x xs) = insert x (set xs)"
  by (induction cmp x xs rule: sort_insert.induct) auto

lemma set_js_sort [simp]: "set (js_sort cmp xs) = set xs"
  by (induction xs) (auto simp: js_sort_def)

lemma length_js_sort [simp]: "length (js_sort cmp xs) = length xs"
  by (induction xs) (auto simp: js_sort_def)

lemma loop_step_invariant:
  assumes "P s" and "\<And>x s. P s \<Longrightarrow> (case f x s of Next s' \<Rightarrow> P s' | Break s' \<Rightarrow> P s' | Return r \<Rightarrow> True)"
  shows "P (iterate f xs s)"
  using assms(1)
proof (induction xs arbitrary: s)
  case (Cons x xs)
  then show ?case using assms(2) [of s x] by (auto split: flow.splits)
qed simp

subsection \<open>Reading one field of a large object\<close>

text \<open>
  The builders of the client end in a large object literal under many bindings and branches. These
  rules push the reading of one field inwards, to where the literal is, and drop the bindings that
  the field does not use; with \<open>cong del: if_weak_cong\<close> the simplifier applies them in every branch.
\<close>

lemma fld_if: "fld (if c then a else b) k = (if c then fld a k else fld b k)"
  by simp

lemma fld_case_prod: "fld (case_prod f p) k = case_prod (\<lambda>x y. fld (f x y) k) p"
  by (cases p) simp

lemma fld_Let: "fld (Let x f) k = Let x (\<lambda>y. fld (f y) k)"
  by simp

lemma Let_const: "Let x (\<lambda>y. c) = c"
  by simp

lemma case_prod_const: "case_prod (\<lambda>x y. c) = (\<lambda>_. c)"
  by auto

lemma case_prod_if: "case_prod f (if c then p else q) = (if c then case_prod f p else case_prod f q)"
  by simp

lemma fld_obj_Cons: "fld (obj ((k', v) # kvs)) k = (if k' = k then v else fld (obj kvs) k)"
  by simp

lemma fld_obj_Nil: "fld (obj []) k = Undef"
  by simp

lemmas at_field = fld_if fld_case_prod fld_Let Let_const case_prod_const fld_obj_Cons fld_obj_Nil
  if_True if_False refl prod.case if_cancel list.inject list.distinct char.inject HOL.simp_thms

lemmas let_field = Let_def case_prod_if prod.case case_prod_const if_cancel

lemma fld_dflt_Null [simp]: "fld (dflt a Null) k = fld a k"
  by (simp add: dflt_def)

lemma fld_entries_obj [simp]: "fld (Obj (entries (obj kvs))) k = fld (obj kvs) k"
  by (simp add: obj_def)

lemma fld_entries_spread [simp]: "fld (Obj (entries (spread v kvs))) k = fld (spread v kvs) k"
  by (simp add: spread_def)

lemma fld_entries_merge [simp]: "fld (Obj (entries (merge a b))) k = fld (merge a b) k"
  by (simp add: merge_def)

lemma truthy_spread [simp]: "truthy (spread v kvs)" "truthy (merge a b)"
  by (simp_all add: spread_def merge_def)

text \<open>Overwriting one property.\<close>

lemma fld_spread_1 [simp]: "fld (spread v [(k', x)]) k = (if k' = k then x else fld (Obj (entries v)) k)"
  by (simp add: fld_spread)

end
