(* ===== verification/Ui_Texts.thy ===== *)
theory Ui_Texts
  imports Js_Base
begin

text \<open>
  The user-facing literals of the client, as UTF-16 code units. A literal is looked up by its place
  in the source: the key is ten times the line of its first occurrence, plus its rank among the
  tabled literals of that line. The tables hold the text exactly as written in the source; the
  components refer to a literal by its key.
\<close>

definition text_at :: "(nat \<times> jstr) list \<Rightarrow> nat \<Rightarrow> jstr" where
  "text_at tab k = (case map_of tab k of Some s \<Rightarrow> s | None \<Rightarrow> [])"

text \<open>Literals of \<^verbatim>\<open>src/client/app/(dashboard)/ai-money/client.tsx\<close>.\<close>

definition pg_table_1 :: "(nat \<times> jstr) list" where
  "pg_table_1 = [
    (12650, [29992, 36739, 20302, 22238, 25764, 22312, 26410, 26469, 32, 49, 45, 52, 32, 21608,
      23547, 25214, 32, 66, 84, 67, 47, 69, 84, 72, 32, 30340, 32, 65, 73, 32, 36741, 21161,
      36186, 38065, 26426, 20250, 65292, 21516, 26102, 32771, 34385, 26032, 38395, 24773,
      32490, 12289, 24066, 22330, 25317, 25380, 21644, 38142, 19978, 21464, 21270, 12290]),
    (14990, [65, 73, 32, 30446, 26631, 20998, 26512]),
    (15920, [65, 73, 32, 22238, 27979, 32, 45, 32]),
    (15930, [32, 183, 32, 57, 48, 100, 32, 183, 32]),
    (16030, [24050, 21457, 36215, 32, 65, 73, 32, 33609, 26696, 22238, 27979]),
    (17530, [24050, 37325, 26032, 25195, 25551, 20026, 26032, 32, 65, 73, 32, 114, 117, 110,
      65306]),
    (17910, [27492, 32, 65, 73, 32, 114, 117, 110, 32, 32570, 23569, 21487, 39564, 35777,
      30340, 20998, 26512, 32467, 26524, 12290]),
    (18430, [65, 73, 32, 25512, 33616, 36827, 20837, 32, 112, 97, 112, 101, 114, 32, 35266,
      23519, 65306]),
    (18431, [65292, 35780, 20998, 32]),
    (18432, [65292, 20851, 32852, 22238, 27979, 32]),
    (18510, [26080, 27861, 29983, 25104, 32, 65, 73, 32, 112, 97, 112, 101, 114, 32, 35266,
      23519, 20132, 25509, 12290]),
    (18870, [35813, 32, 65, 73, 32, 33609, 26696, 19981, 26159, 21487, 30452, 25509, 20445,
      23384, 30340, 32, 71, 114, 105, 100, 32, 68, 67, 65, 32, 31574, 30053, 12290]),
    (18980, [20445, 23384, 32, 65, 73, 32, 31574, 30053, 33609, 26696, 32, 45, 32])]"

definition pg :: "nat \<Rightarrow> jstr" where
  "pg k =
     text_at
       (pg_table_1) k"

text \<open>Literals of \<^verbatim>\<open>src/client/data/ai-goal-preset.mjs\<close>.\<close>

definition zh_table_1 :: "(nat \<times> jstr) list" where
  "zh_table_1 = [
    (180, [36807, 28909]),
    (181, [36861, 28072]),
    (190, [25317, 25380]),
    (200, [25191, 34892]),
    (230, [21482, 35266, 23519]),
    (231, [35266, 23519]),
    (270, [12290]),
    (271, [65307]),
    (272, [24066, 22330, 39118, 21521]),
    (273, [33286, 35770]),
    (274, [24773, 32490]),
    (275, [20154, 24615, 20559, 24046]),
    (276, [39118, 21521]),
    (277, [12289]),
    (278, [24050, 22797, 26680, 24066, 22330, 39118, 21521, 12289, 33286, 35770, 24773, 32490,
      21644, 20154, 24615, 20559, 24046, 47, 25317, 25380, 24230, 65307, 30830, 35748, 26410,
      20986, 29616, 32, 70, 79, 77, 79, 32, 36861, 28072, 25110, 21333, 36793, 21465, 20107,
      36807, 28909, 65292, 21482, 20801, 35768, 36827, 20837, 32, 112, 97, 112, 101, 114, 32,
      37319, 29992, 21069, 26816, 26597, 12290]),
    (290, [80, 97, 112, 101, 114, 32, 35266, 23519]),
    (291, [50, 52, 45, 55, 50, 32, 23567, 26102]),
    (292, [65306]),
    (293, [25191, 34892, 25705, 25830]),
    (294, [22238, 25764]),
    (295, [27979, 35797, 32593]),
    (296, [19981, 36827, 20837, 20027, 32593]),
    (297, [22238, 25764, 34920, 29616]),
    (298, [80, 97, 112, 101, 114, 32, 35266, 23519, 24050, 23436, 25104]),
    (299, [32, 23567, 26102]),
    (300, [24050, 23436, 25104]),
    (301, [27979, 35797, 32593, 21069, 26816, 26597]),
    (302, [80, 97, 112, 101, 114, 32, 35266, 23519, 24050, 23436, 25104, 32, 50, 52, 45, 55,
      50, 32, 23567, 26102, 22797, 30424, 65306, 24050, 26816, 26597, 24066, 22330, 39118,
      21521, 12289, 33286, 35770, 21464, 21270, 12289, 20154, 24615, 20559, 24046, 12289,
      25191, 34892, 25705, 25830, 21644, 22238, 25764, 34920, 29616, 65307, 21482, 20801,
      35768, 36827, 20837, 27979, 35797, 32593, 21069, 26816, 26597, 65292, 19981, 36827,
      20837, 20027, 32593, 12290]),
    (340, [21152, 23494]),
    (341, [20302, 22238, 25764]),
    (342, [20302, 22238, 25764, 21152, 23494, 26426, 20250]),
    (360, [36186, 38065]),
    (361, [26032, 38395]),
    (362, [38142, 19978]),
    (363, [38142, 19978, 21464, 21270]),
    (364, [29992, 36739, 20302, 22238, 25764, 22312, 26410, 26469, 32, 49, 45, 52, 32, 21608,
      23547, 25214, 32, 66, 84, 67, 47, 69, 84, 72, 32, 30340, 32, 65, 73, 32, 36741, 21161,
      36186, 38065, 26426, 20250, 65292, 21516, 26102, 32771, 34385, 26032, 38395, 24773,
      32490, 12289, 24066, 22330, 25317, 25380, 12289, 38142, 19978, 21464, 21270, 21644,
      20132, 26131, 25191, 34892, 25705, 25830, 12290]),
    (440, [33286, 24773, 36235, 21183, 36319, 36394]),
    (460, [20808, 22238, 27979]),
    (461, [39564, 35777]),
    (462, [22238, 27979]),
    (463, [35266, 23519, 20027, 27969, 21152, 23494, 36164, 20135, 30340, 26032, 38395, 21465,
      20107, 12289, 36164, 37329, 27969, 21644, 20215, 26684, 31361, 30772, 65292, 23547,
      25214, 21482, 36866, 21512, 20808, 22238, 27979, 21644, 32, 112, 97, 112, 101, 114, 32,
      39564, 35777, 30340, 36235, 21183, 26426, 20250, 12290]),
    (540, [20107, 20214, 39044, 27979, 35266, 23519]),
    (560, [65, 73, 32, 31574, 30053]),
    (561, [23439, 35266]),
    (562, [39118, 38505]),
    (563, [22260, 32469, 39640, 27969, 21160, 24615, 39044, 27979, 24066, 22330, 21644, 23439,
      35266, 20107, 20214, 65292, 23547, 25214, 21487, 35266, 23519, 20294, 19981, 30452,
      25509, 20132, 26131, 30340, 32, 65, 73, 32, 31574, 30053, 32447, 32034, 65292, 37325,
      28857, 26816, 26597, 33286, 35770, 20559, 24046, 21644, 25317, 25380, 39118, 38505, 12290]),
    (1420, [21547, 20041, 65306]),
    (1430, [24314, 35758, 65306]),
    (1760, [25379, 38065]),
    (1761, [30408, 21033]),
    (1790, [21608, 26399]),
    (2270, [32, 65, 73, 32, 33258, 21160, 34917, 20840, 36186, 38065, 30446, 26631, 65306,
      22260, 32469, 32]),
    (2271, [32, 26816, 26597, 24066, 22330, 39118, 21521, 12289, 26032, 38395, 33286, 35770,
      12289, 23439, 35266, 20914, 20987, 12289, 38142, 19978, 21464, 21270, 12289, 20132,
      26131, 25317, 25380, 21644, 20154, 24615, 20559, 24046, 65292, 23547, 25214, 32]),
    (2272, [32, 20869, 21487, 20808, 22238, 27979, 21644, 32, 112, 97, 112, 101, 114, 32,
      39564, 35777, 30340, 20302, 22238, 25764, 26426, 20250, 65307, 19981, 30452, 25509,
      20027, 32593, 20132, 26131, 12290]),
    (2273, [30446, 26631, 65306]),
    (2360, [30446, 26631, 22826, 31895, 65292, 24050, 34917, 25104, 21253, 21547, 24066, 22330,
      39118, 21521, 12289, 20154, 24615, 20559, 24046, 21644, 32, 112, 97, 112, 101, 114, 32,
      39564, 35777, 30340, 32, 65, 73, 32, 30446, 26631, 12290]),
    (2390, [26368, 36817, 36816, 34892]),
    (2391, [20851, 27880, 26631, 30340, 20026, 31354, 65292, 24050, 20174, 26368, 36817, 36816,
      34892, 25110, 23433, 20840, 40664, 35748, 20540, 34917, 40784, 12290]),
    (2392, [26631, 30340]),
    (2420, [21608, 26399, 20026, 31354, 65292, 24050, 34917, 40784, 20026, 21487, 22238, 27979,
      35266, 23519, 31383, 21475, 12290]),
    (2421, [21487, 22238, 27979]),
    (2450, [25191, 34892, 20542, 21521, 24050, 38477, 32423, 21040, 32, 111, 98, 115, 101, 114,
      118, 101, 47, 112, 97, 112, 101, 114, 65292, 19981, 20801, 35768, 20174, 30446, 26631,
      34917, 20840, 30452, 25509, 36827, 20837, 27979, 35797, 32593, 25110, 20027, 32593, 12290]),
    (2480, [24050, 33258, 21160, 34917, 20840]),
    (2481, [21487, 29992, 20110, 32, 65, 73, 32, 20998, 26512]),
    (2490, [26631, 30340, 65306]),
    (2500, [21608, 26399, 65306]),
    (2510, [32, 26465]),
    (2511, [20154, 24615, 32422, 26463, 65306]),
    (2520, [39118, 21521, 20851, 27880, 65306]),
    (2530, [31105, 27490, 22330, 26223, 65306]),
    (2531, [31105, 27490]),
    (2700, [30446, 26631, 21487, 20132, 32473, 32, 65, 73, 32, 20998, 26512]),
    (2701, [65, 73, 32, 24050, 34917, 20840, 31895, 30446, 26631]),
    (2720, [19978, 19979, 25991]),
    (2721, [24403, 21069, 30446, 26631, 24050, 21253, 21547, 36275, 22815, 19978, 19979, 25991,
      65307, 65, 73, 32, 20250, 32487, 32493, 32435, 20837, 20154, 24615, 12289, 39118, 21521,
      21644, 31105, 27490, 22330, 26223, 65292, 24182, 20808, 36208, 39564, 35777, 12290]),
    (2722, [32487, 32493]),
    (2730, [30446, 26631, 36807, 31895, 25110, 32570, 23569, 20851, 38190, 23383, 27573, 65292,
      24050, 29983, 25104, 19968, 20010, 23433, 20840, 30340, 32, 65, 73, 32, 20998, 26512,
      30446, 26631, 65307, 34917, 20840, 21518, 30452, 25509, 21551, 21160, 39564, 35777, 12290]),
    (2760, [27809, 26377, 21457, 29616, 20851, 38190, 32570, 21475, 12290]),
    (2780, [29992, 34917, 20840, 30446, 26631, 20998, 26512, 24182, 39564, 35777]),
    (2790, [24212, 29992, 34917, 20840, 24182, 39564, 35777])]"

definition zh_table_2 :: "(nat \<times> jstr) list" where
  "zh_table_2 = [
    (4380, [32, 24050, 20445, 23384, 20026, 32, 65, 73, 32, 31574, 30053, 37197, 32622]),
    (4381, [20445, 23384, 20026, 32, 65, 73, 32, 31574, 30053]),
    (4390, [26469, 28304, 32, 65, 73, 32, 114, 117, 110, 32]),
    (4420, [20551, 35774, 65306]),
    (4430, [108, 105, 118, 101, 32, 20173, 20851, 38381]),
    (4440, [22238, 27979, 35777, 25454]),
    (4441, [20808, 34917, 22238, 27979, 35777, 25454]),
    (4442, [19979, 19968, 27493, 24517, 39035, 20808, 34917, 22238, 27979, 35777, 25454, 65292,
      20877, 36827, 20837, 32, 112, 97, 112, 101, 114, 32, 35266, 23519]),
    (4450, [112, 97, 112, 101, 114, 32, 20013, 32487, 32493, 35760, 24405, 24066, 22330, 39118,
      21521, 12289, 33286, 35770, 21464, 21270, 12289, 20154, 24615, 20559, 24046, 21644,
      30495, 23454, 25191, 34892, 25705, 25830]),
    (4460, [23433, 20840, 36134, 25143]),
    (4461, [36134, 25143]),
    (4462, [26410, 23436, 25104]),
    (4463, [26410, 23436, 25104, 23433, 20840, 36134, 25143, 12289, 39118, 25511, 21644, 27979,
      35797, 32593, 26816, 26597, 21069, 19981, 36827, 20837, 20027, 32593]),
    (4464, [39118, 25511]),
    (5880, [8212]),
    (6150, [20248, 20808, 32, 112, 97, 112, 101, 114]),
    (6170, [28120, 27760]),
    (6180, [22833, 36133]),
    (6300, [32, 20010, 22238, 27979, 24050, 23436, 25104, 65292, 26368, 20339, 35780, 20998, 32]),
    (6301, [35780, 20998, 32]),
    (6320, [32487, 32493, 35266, 23519]),
    (6321, [65292, 32467, 35770, 65306]),
    (6322, [12290, 20808, 22797, 26680, 25910, 30410, 12289, 22238, 25764, 12289, 22799, 26222,
      21644, 20132, 26131, 27425, 25968, 12290]),
    (6340, [32, 20010, 22238, 27979, 24050, 23436, 25104, 65292, 20808, 22797, 26680, 25910,
      30410, 12289, 22238, 25764, 12289, 22799, 26222, 21644, 20132, 26131, 27425, 25968, 12290]),
    (6360, [32, 20010, 22238, 27979, 20173, 22312, 36816, 34892, 65292, 31561, 24453, 23436,
      25104, 21518, 20877, 36827, 20837, 32, 112, 97, 112, 101, 114, 12290]),
    (6361, [22238, 27979, 20173, 22312, 36816, 34892]),
    (6370, [32, 36824, 27809, 26377, 22238, 27979, 35777, 25454, 65292, 20808, 39564, 35777, 32]),
    (6371, [32, 24403, 21069, 21442, 25968, 12290]),
    (6440, [26469, 28304, 32, 65, 73, 32, 36816, 34892]),
    (6470, [26469, 33258, 32, 65, 73, 32, 30446, 26631, 65306]),
    (6480, [21487, 22238, 21040, 32, 65, 73, 32, 77, 111, 110, 101, 121, 32, 26597, 30475,
      21407, 22987, 30446, 26631, 12289, 34892, 21160, 38431, 21015, 21644, 39118, 21521,
      21028, 26029, 12290]),
    (6570, [76, 105, 118, 101, 32, 20445, 25345, 20851, 38381]),
    (6600, [65, 73, 32, 33609, 26696, 21482, 26159, 31574, 30053, 37197, 32622, 65292, 23578,
      26410, 24320, 21551, 27979, 35797, 32593, 25110, 20027, 32593, 25191, 34892, 12290]),
    (6601, [33609, 26696]),
    (6602, [65, 73, 32, 33609, 26696]),
    (6610, [35813, 31574, 30053, 24050, 32463, 24320, 21551, 32, 108, 105, 118, 101, 65292,
      32487, 32493, 21069, 20808, 30830, 35748, 26159, 21542, 31526, 21512, 32, 65, 73, 32,
      33609, 26696, 30340, 23433, 20840, 36793, 30028, 12290]),
    (6720, [39118, 25511, 19978, 38480]),
    (6750, [26368, 22823, 20179, 20301, 32, 36]),
    (6751, [65292, 26368, 22823, 26464, 26438, 32]),
    (6752, [120, 65292, 26085, 20111, 25439, 32, 36]),
    (6753, [26085, 20111, 25439]),
    (6754, [26368, 22823, 20179, 20301, 32]),
    (6755, [65292, 26085, 20111, 25439, 32]),
    (6756, [26464, 26438, 32]),
    (6760, [26368, 22823, 20179, 20301, 12289, 26368, 22823, 26464, 26438, 21644, 27599, 26085,
      20111, 25439, 19978, 38480, 24517, 39035, 20840, 37096, 22823, 20110, 32, 48, 12290]),
    (6761, [26085, 20111, 25439, 19978, 38480]),
    (6840, [32, 20010, 36134, 25143, 21487, 20132, 26131, 19988, 26080, 25552, 29616, 26435,
      38480, 65292, 21487, 29992, 20110, 21518, 32493, 27979, 35797, 32593, 26816, 26597, 12290]),
    (6841, [26080]),
    (6850, [32570, 23569, 21487, 20132, 26131, 19988, 19981, 21487, 25552, 29616, 30340, 36134,
      25143, 65292, 65, 73, 32, 19981, 24212, 25512, 36827, 21040, 25191, 34892, 12290]),
    (6851, [21487, 20132, 26131, 19988, 19981, 21487, 25552, 29616]),
    (6940, [22238, 27979, 36890, 36807, 21518, 20173, 38656, 32, 50, 52, 45, 55, 50, 32, 23567,
      26102, 32, 112, 97, 112, 101, 114, 32, 35266, 23519, 65292, 35760, 24405, 33286, 35770,
      12289, 20154, 24615, 21644, 30495, 23454, 25191, 34892, 25705, 25830, 12290]),
    (6960, [24403, 21069, 22238, 27979, 26410, 36798, 21040, 32, 112, 97, 112, 101, 114, 32,
      26631, 20934, 65292, 20808, 35753, 32, 65, 73, 32, 37325, 26032, 35774, 35745, 25110,
      34917, 20805, 39564, 35777, 12290]),
    (6970, [31561, 24453, 22238, 27979, 35777, 25454, 21518, 20877, 21019, 24314, 32, 112, 97,
      112, 101, 114, 32, 35266, 23519, 35745, 21010, 12290]),
    (6971, [32, 112, 97, 112, 101, 114, 32, 35266, 23519, 35745, 21010]),
    (6972, [31561, 24453, 22238, 27979, 35777, 25454]),
    (6973, [31561, 24453, 22238, 27979]),
    (7030, [36827, 20837, 32, 112, 97, 112, 101, 114, 32, 22797, 26680]),
    (7040, [32, 24050, 30001, 32, 65, 73, 32, 33609, 26696, 20445, 23384, 65292, 108, 105, 118,
      101, 32, 20445, 25345, 20851, 38381, 12290, 22238, 27979, 12289, 39118, 25511, 21644,
      23433, 20840, 36134, 25143, 37117, 20855, 22791, 21518, 65292, 19979, 19968, 27493,
      26159, 32, 112, 97, 112, 101, 114, 32, 35266, 23519, 65292, 19981, 26159, 30452, 25509,
      23454, 30424, 12290]),
    (7070, [26597, 30475, 22238, 27979, 35777, 25454]),
    (7071, [26597, 30475, 22238, 27979]),
    (7100, [22797, 26680, 22238, 27979, 25910, 30410, 12289, 22238, 25764, 12289, 22799, 26222,
      21644, 20132, 26131, 39057, 29575, 12290]),
    (7110, [25226, 33286, 35770, 12289, 20154, 24615, 20559, 24046, 21644, 24066, 22330, 39118,
      21521, 20889, 20837, 32, 112, 97, 112, 101, 114, 32, 35266, 23519, 12290]),
    (7120, [23436, 25104, 32, 112, 97, 112, 101, 114, 32, 21518, 20877, 26816, 26597, 27979,
      35797, 32593, 65292, 19981, 30452, 25509, 36827, 20837, 20027, 32593, 12290]),
    (7180, [20808, 30830, 35748, 32, 108, 105, 118, 101, 32, 29366, 24577]),
    (7190, [32, 24403, 21069, 32, 108, 105, 118, 101, 32, 24050, 24320, 21551, 65292, 21644,
      32, 65, 73, 32, 33609, 26696, 23433, 20840, 36793, 30028, 19981, 19968, 33268, 12290,
      32487, 32493, 21069, 20808, 26816, 26597, 23454, 30424, 32, 47, 32, 39118, 25511, 37197,
      32622, 12290]),
    (7220, [30830, 35748, 26159, 21542, 38656, 35201, 20851, 38381, 32, 108, 105, 118, 101,
      12290]),
    (7221, [22238, 21040, 32, 65, 73, 32, 77, 111, 110, 101, 121, 32, 37325, 26032, 26816,
      26597, 24403, 21069, 30446, 26631, 21644, 39118, 21521, 12290]),
    (7222, [37325, 26032, 26816, 26597]),
    (7270, [32, 24050, 20445, 23384, 20026, 32, 65, 73, 32, 31574, 30053, 33609, 26696, 65292,
      108, 105, 118, 101, 32, 20445, 25345, 20851, 38381, 12290, 19979, 19968, 27493, 20808,
      22238, 27979, 32]),
    (7271, [32, 21442, 25968, 65292, 20877, 20915, 23450, 26159, 21542, 36827, 20837, 32, 112,
      97, 112, 101, 114, 12290]),
    (7290, [20808, 36816, 34892, 22238, 27979]),
    (7310, [36816, 34892, 24403, 21069, 21442, 25968, 22238, 27979, 12290]),
    (7320, [26816, 26597, 25910, 30410, 12289, 26368, 22823, 22238, 25764, 12289, 22799, 26222,
      21644, 20132, 26131, 27425, 25968, 12290]),
    (7330, [22238, 27979, 23436, 25104, 21518, 20877, 36827, 20837, 32, 112, 97, 112, 101, 114,
      32, 35266, 23519, 12290]),
    (7390, [22238, 27979, 26410, 36798, 32, 112, 97, 112, 101, 114, 32, 26631, 20934]),
    (7391, [22238, 27979, 35777, 25454, 36824, 19981, 22815, 24378]),
    (7400, [32, 24050, 23436, 25104, 22238, 27979, 65292, 20294, 26368, 20339, 32467, 35770,
      26159, 12300]),
    (7420, [12301, 65306, 35780, 20998, 32]),
    (7421, [65292, 25910, 30410, 32]),
    (7440, [65292, 22238, 25764, 32])]"

definition zh_table_3 :: "(nat \<times> jstr) list" where
  "zh_table_3 = [
    (7441, [12290, 65, 73, 32, 19981, 24212, 25226, 24369, 35777, 25454, 25512, 36827, 21040,
      32, 112, 97, 112, 101, 114, 12290]),
    (7490, [26597, 30475, 22833, 36133, 35777, 25454]),
    (7520, [22238, 21040, 32, 65, 73, 32, 37325, 26032, 35774, 35745]),
    (7550, [26597, 30475, 24369, 22238, 27979, 35777, 25454, 65292, 30830, 35748, 20111, 25439,
      12289, 22238, 25764, 25110, 20132, 26131, 27425, 25968, 38382, 39064, 12290]),
    (7560, [22238, 21040, 26469, 28304, 32, 65, 73, 32, 30446, 26631, 36816, 34892, 37325,
      26032, 35774, 35745, 21442, 25968, 25110, 25442, 25104, 35266, 23519, 22411, 31574,
      30053, 12290]),
    (7561, [65, 73, 32, 30446, 26631, 36816, 34892]),
    (7570, [37325, 26032, 35774, 35745, 21518, 20877, 36305, 22238, 27979, 65292, 19981, 30452,
      25509, 36827, 20837, 32, 112, 97, 112, 101, 114, 12290]),
    (7620, [20808, 34917, 39118, 25511, 19978, 38480]),
    (7630, [32, 24050, 26377, 22238, 27979, 35777, 25454, 65292, 20294, 39118, 25511, 19978,
      38480, 19981, 23436, 25972, 12290, 65, 73, 32, 19981, 33021, 25512, 36827, 25191, 34892,
      26816, 26597, 12290]),
    (7660, [34917, 40784, 26368, 22823, 20179, 20301, 12289, 26368, 22823, 26464, 26438, 21644,
      27599, 26085, 20111, 25439, 19978, 38480, 12290]),
    (7661, [20445, 23384, 39118, 25511, 21518, 20877, 36827, 20837, 32, 112, 97, 112, 101, 114,
      32, 35266, 23519, 12290]),
    (7700, [20808, 28155, 21152, 23433, 20840, 36134, 25143]),
    (7701, [28155, 21152, 23433, 20840, 36134, 25143]),
    (7710, [32, 24050, 26377, 22238, 27979, 35777, 25454, 65292, 20294, 32570, 23569, 21487,
      20132, 26131, 19988, 19981, 21487, 25552, 29616, 30340, 36134, 25143, 12290, 65, 73, 32,
      21482, 33021, 20572, 22312, 32, 112, 97, 112, 101, 114, 32, 21069, 12290]),
    (7740, [28155, 21152, 26080, 25552, 29616, 26435, 38480, 30340, 20132, 26131, 36134, 25143,
      12290]),
    (7741, [32487, 32493, 32, 112, 97, 112, 101, 114, 32, 35266, 23519, 65292, 19981, 30452,
      25509, 21551, 29992, 20027, 32593, 12290]),
    (7742, [32487, 32493, 32, 112, 97, 112, 101, 114, 32, 35266, 23519]),
    (7770, [38656, 35201, 37325, 20570, 21028, 26029, 26102, 65292, 22238, 21040, 26469, 28304,
      32, 65, 73, 32, 30446, 26631, 36816, 34892, 32487, 32493, 25512, 36827, 12290]),
    (8850, [20998, 26512, 24182, 21551, 21160, 39564, 35777]),
    (8900, [21482, 29983, 25104, 34013, 22270]),
    (8940, [30446, 26631, 21487, 30041, 31354, 65307, 40664, 35748, 35753, 32, 65, 73, 32,
      20808, 33258, 21160, 34917, 20840, 30446, 26631, 65292, 20877, 20998, 26512, 24182,
      33258, 21160, 22238, 27979, 21487, 39564, 35777, 33609, 26696, 65307, 21482, 21019,
      24314, 39564, 35777, 20219, 21153, 65292, 19981, 20250, 19979, 21333, 12290]),
    (9120, [32, 20170, 26085, 32, 65, 73, 32, 26426, 20250, 38647, 36798, 65306, 65, 73, 32,
      33258, 21160, 22260, 32469, 32]),
    (9121, [32, 26816, 26597, 24066, 22330, 39118, 21521, 12289, 36817, 32, 50, 52, 32, 23567,
      26102, 26032, 38395, 33286, 35770, 12289, 23439, 35266, 20914, 20987, 12289, 38142,
      19978, 21464, 21270, 12289, 24066, 22330, 25317, 25380, 21644, 20154, 24615, 20559,
      24046, 65292]),
    (9122, [20170, 26085, 32, 65, 73, 32, 26426, 20250, 38647, 36798]),
    (9130, [23547, 25214, 26410, 26469, 32, 50, 52, 104, 45, 55, 100, 32, 20869, 21487, 20808,
      22238, 27979, 21644, 32, 112, 97, 112, 101, 114, 32, 39564, 35777, 30340, 36186, 38065,
      26426, 20250, 65307, 20248, 20808, 20302, 22238, 25764, 12289, 21487, 35299, 37322,
      12289, 21487, 35266, 23519, 30340, 31574, 30053, 65292, 19981, 30452, 25509, 20027,
      32593, 20132, 26131, 12290]),
    (9310, [65, 73, 32, 33258, 21160, 29983, 25104, 30446, 26631, 24182, 39564, 35777]),
    (9330, [20170, 22825, 24050, 26377, 32, 65, 73, 32, 38647, 36798, 65292, 20173, 21487,
      35753, 32, 65, 73, 32, 29992, 21516, 19968, 35266, 23519, 38754, 37325, 26032, 29983,
      25104, 30446, 26631, 24182, 39564, 35777, 12290]),
    (9340, [31574, 30053, 34013, 22270]),
    (9341, [65, 73, 32, 20250, 20808, 33258, 21160, 34917, 20840, 36186, 38065, 30446, 26631,
      65292, 20877, 35835, 21462, 24066, 22330, 39118, 21521, 12289, 26032, 38395, 33286,
      35770, 12289, 23439, 35266, 12289, 38142, 19978, 21644, 20154, 24615, 20559, 24046,
      65292, 29983, 25104, 31574, 30053, 34013, 22270, 24182, 21551, 21160, 23433, 20840,
      39564, 35777, 12290]),
    (9342, [29983, 25104, 31574, 30053, 34013, 22270]),
    (9360, [33258, 21160, 34917, 20840, 30446, 26631, 12289, 26631, 30340, 12289, 21608, 26399,
      21644, 39118, 38505, 20559, 22909, 12290]),
    (9370, [35835, 21462, 24066, 22330, 39118, 21521, 12289, 26032, 38395, 33286, 35770, 12289,
      23439, 35266, 21644, 38142, 19978, 35777, 25454, 12290]),
    (9380, [29983, 25104, 31574, 30053, 34013, 22270, 21518, 20808, 22238, 27979, 65292, 20877,
      36827, 20837, 32, 112, 97, 112, 101, 114, 32, 35266, 23519, 12290]),
    (9450, [65, 73, 32, 33258, 21160, 30446, 26631, 33609, 26696]),
    (9510, [24066, 22330, 47, 33286, 35770, 25195, 25551, 33539, 22260]),
    (9610, [21482, 20801, 35768, 32, 111, 98, 115, 101, 114, 118, 101, 47, 112, 97, 112, 101,
      114]),
    (9650, [26816, 26597, 24066, 22330, 39118, 21521, 12289, 26032, 38395, 33286, 35770, 21644,
      23439, 35266, 20914, 20987, 12290]),
    (9660, [26816, 26597, 38142, 19978, 21464, 21270, 12289, 24066, 22330, 25317, 25380, 21644,
      20154, 24615, 20559, 24046, 12290]),
    (9680, [19981, 20250, 30452, 25509, 20027, 32593, 20132, 26131, 12290]),
    (10060, [65292, 22799, 26222, 32]),
    (10061, [65292, 35780, 20998, 32]),
    (10120, [112, 97, 112, 101, 114, 32, 20505, 36873]),
    (10121, [19978, 19968, 36718, 22238, 27979, 27809, 26377, 36798, 21040, 32, 112, 97, 112,
      101, 114, 32, 20505, 36873, 26631, 20934]),
    (10190, [19978, 19968, 36718, 20154, 24615, 47, 34892, 20026, 35777, 25454, 65306]),
    (10200, [19978, 19968, 36718, 24066, 22330, 47, 33286, 35770, 35266, 23519, 20449, 21495,
      65306]),
    (10201, [35266, 23519, 20449, 21495]),
    (10202, [20449, 21495]),
    (10260, [22522, 20110, 19978, 19968, 36718, 22238, 27979, 34987, 28120, 27760, 65292, 65,
      73, 32, 37325, 20570, 26356, 20445, 23432, 30340, 36186, 38065, 31574, 30053, 34013,
      22270, 12290]),
    (10270, [21407, 30446, 26631, 65306]),
    (10280, [22833, 36133, 22238, 27979, 35777, 25454, 65306]),
    (10300, [35831, 38477, 20302, 26464, 26438, 21644, 20179, 20301, 26292, 38706, 65292,
      37325, 26032, 26816, 26597, 24066, 22330, 39118, 21521, 12289, 26032, 38395, 33286,
      35770, 12289, 23439, 35266, 47, 38142, 19978, 35777, 25454, 12289, 20154, 24615, 20559,
      24046, 19982, 25317, 25380, 39118, 38505, 65307, 21482, 29983, 25104, 21487, 22238,
      27979, 12289, 21487, 35299, 37322, 12289, 20302, 22238, 25764, 30340, 33609, 26696,
      65292, 24182, 20808, 20570, 32, 112, 97, 112, 101, 114, 32, 39564, 35777, 65292, 19981,
      30452, 25509, 20027, 32593, 20132, 26131, 12290]),
    (10650, [32, 20998, 38047]),
    (10700, [20170, 26085, 38647, 36798, 38656, 21047, 26032]),
    (10720, [19978, 27425, 25195, 25551, 32]),
    (10721, [32, 24050, 36807, 21435, 32]),
    (10722, [65292, 26085, 20869, 33286, 35770, 21644, 38142, 19978, 29366, 24577, 21487,
      33021, 24050, 21464, 21270, 12290]),
    (10740, [37325, 26032, 25195, 25551]),
    (10750, [25171, 24320, 26087, 25195, 25551]),
    (10810, [20170, 26085, 38647, 36798, 24050, 25195, 25551]),
    (10830, [65, 73, 32, 34013, 22270]),
    (10831, [20170, 22825, 24050, 25195, 25551, 32]),
    (10832, [65292, 29983, 25104, 32]),
    (10833, [32, 20010, 32, 65, 73, 32, 34013, 22270, 65307]),
    (10834, [32, 21069, 26356, 26032, 12290]),
    (10850, [25171, 24320, 20170, 26085, 38647, 36798]),
    (10920, [20170, 26085, 38647, 36798, 26410, 25195, 25551]),
    (10940, [20170, 26085, 25195, 25551]),
    (10941, [20170, 22825, 36824, 27809, 26377, 32, 65, 73, 32, 26426, 20250, 38647, 36798,
      35760, 24405, 12290, 20808, 36305, 19968, 27425, 20170, 26085, 25195, 25551, 65292,
      35753, 32, 65, 73, 32, 35835, 21462, 24066, 22330, 12289, 33286, 35770, 12289, 23439,
      35266, 21644, 38142, 19978, 19978, 19979, 25991, 12290]),
    (11130, [26597, 30475, 32, 65, 73, 32, 37197, 32622]),
    (11131, [32487, 32493, 37197, 32622, 32, 65, 73]),
    (11132, [37197, 32622, 32, 65, 73]),
    (11170, [30495, 23454, 32, 65, 73, 32, 112, 114, 111, 118, 105, 100, 101, 114]),
    (11171, [21018, 20174, 32, 65, 73, 32, 37197, 32622, 22238, 26469, 65292, 27491, 22312,
      30830, 35748, 30495, 23454, 32, 65, 73, 32, 112, 114, 111, 118, 105, 100, 101, 114, 32,
      29366, 24577, 12290, 30830, 35748, 21069, 19981, 20250, 21551, 21160, 20170, 26085,
      38647, 36798, 12290]),
    (11180, [21018, 20174, 32, 65, 73, 32, 37197, 32622, 22238, 26469, 65292, 20294, 30495,
      23454, 32, 65, 73, 32, 112, 114, 111, 118, 105, 100, 101, 114, 32, 20173, 19981, 21487,
      29992, 12290, 20808, 23436, 25104, 32, 65, 80, 73, 32, 107, 101, 121, 32, 37197, 32622,
      21644, 36830, 25509, 27979, 35797, 65292, 20877, 35753, 32, 65, 73, 32, 37325, 26032,
      20998, 26512, 30446, 26631, 12290]),
    (11270, [27491, 22312, 30830, 35748, 32, 65, 73, 32, 112, 114, 111, 118, 105, 100, 101, 114]),
    (11280, [65, 73, 32, 37197, 32622, 20173, 26410, 23436, 25104]),
    (11380, [31561, 24453, 32, 65, 73, 32, 112, 114, 111, 118, 105, 100, 101, 114, 32, 37197,
      32622, 29366, 24577, 36820, 22238, 12290]),
    (11390, [30830, 35748, 29366, 24577, 20026, 32, 114, 101, 97, 100, 121, 32, 21518, 20877,
      37325, 26032, 25195, 25551, 30446, 26631, 12290]),
    (11391, [37325, 26032, 25195, 25551, 30446, 26631]),
    (11400, [22914, 26524, 38271, 26102, 38388, 26410, 36820, 22238, 65292, 25171, 24320, 32,
      65, 73, 32, 35774, 32622, 39029, 26816, 26597, 32, 112, 114, 111, 118, 105, 100, 101,
      114, 32, 37197, 32622, 12290])]"

definition zh_table_4 :: "(nat \<times> jstr) list" where
  "zh_table_4 = [
    (11430, [34917, 40784, 24403, 21069, 32, 112, 114, 111, 118, 105, 100, 101, 114, 32, 30340,
      32, 65, 80, 73, 32, 107, 101, 121, 12290]),
    (11440, [22312, 32, 65, 73, 32, 35774, 32622, 39029, 23436, 25104, 19968, 27425, 36830,
      25509, 27979, 35797, 12290]),
    (11450, [27979, 35797, 36890, 36807, 21518, 36820, 22238, 32, 65, 73, 32, 77, 111, 110,
      101, 121, 65292, 37325, 26032, 25195, 25551, 24066, 22330, 12289, 33286, 35770, 12289,
      23439, 35266, 21644, 38142, 19978, 29366, 24577, 12290]),
    (11451, [37325, 26032, 25195, 25551, 24066, 22330, 12289, 33286, 35770, 12289, 23439,
      35266, 21644, 38142, 19978, 29366, 24577, 12290]),
    (11452, [37325, 26032, 25195, 25551, 24066, 22330]),
    (11640, [65, 73, 32, 24050, 20934, 22791, 37325, 26032, 20998, 26512]),
    (11660, [21018, 20174, 32, 65, 73, 32, 37197, 32622, 22238, 26469, 12290, 19979, 19968,
      27493, 24212, 35753, 32, 65, 73, 32, 37325, 26032, 35835, 21462, 24066, 22330, 12289,
      33286, 35770, 12289, 20154, 24615, 20559, 24046, 21644, 25191, 34892, 32422, 26463,
      65292, 26367, 25442, 20043, 21069, 30340, 32, 102, 97, 108, 108, 98, 97, 99, 107, 32,
      25110, 26087, 21028, 26029, 12290]),
    (11740, [35753, 32, 65, 73, 32, 29983, 25104, 26032, 30340, 31574, 30053, 34013, 22270,
      21644, 35266, 23519, 20449, 21495, 12290]),
    (11750, [20808, 22238, 27979, 21644, 32, 112, 97, 112, 101, 114, 32, 35266, 23519, 65292,
      20877, 32771, 34385, 27979, 35797, 32593, 21069, 26816, 26597, 12290]),
    (12370, [37197, 32622, 30495, 23454, 32, 65, 73]),
    (12410, [27491, 22312, 35835, 21462, 32, 65, 73, 32, 112, 114, 111, 118, 105, 100, 101,
      114, 32, 37197, 32622, 65292, 30830, 35748, 21069, 19981, 20250, 33258, 21160, 21551,
      21160, 20170, 26085, 38647, 36798, 12290]),
    (12420, [26080, 27861, 30830, 35748, 30495, 23454, 32, 65, 73, 32, 112, 114, 111, 118, 105,
      100, 101, 114, 65292, 33258, 21160, 38647, 36798, 20250, 31561, 24453, 65292, 36991,
      20813, 29983, 25104, 26412, 22320, 32, 102, 97, 108, 108, 98, 97, 99, 107, 32, 20998,
      26512, 12290]),
    (12470, [33258, 21160, 38647, 36798, 31561, 24453, 30495, 23454, 32, 65, 73]),
    (13590, [32, 24050, 36827, 20837, 32, 112, 97, 112, 101, 114, 32, 35266, 23519, 65292,
      32487, 32493, 35760, 24405, 24066, 22330, 39118, 21521, 12289, 20154, 24615, 20559,
      24046, 21644, 25191, 34892, 25705, 25830, 12290]),
    (13690, [34917, 40784, 32, 112, 97, 112, 101, 114, 32, 22797, 30424, 35777, 25454]),
    (13691, [34917, 40784, 32, 112, 97, 112, 101, 114, 32, 22797, 30424]),
    (13710, [80, 97, 112, 101, 114, 32, 24050, 23436, 25104]),
    (13720, [24066, 22330, 39118, 21521, 12289, 33286, 35770, 12289, 20154, 24615, 20559,
      24046, 21644, 25191, 34892, 25705, 25830]),
    (13721, [65307, 35777, 25454, 19981, 36275, 65292, 34917, 40784, 24066, 22330, 39118,
      21521, 12289, 33286, 35770, 12289, 20154, 24615, 20559, 24046, 21644, 25191, 34892,
      25705, 25830, 21518, 20877, 25512, 36827, 12290]),
    (13730, [26631, 35760, 23436, 25104]),
    (13731, [32, 30340, 32, 112, 97, 112, 101, 114, 32, 24050, 26631, 35760, 23436, 25104,
      65292, 20294, 35777, 25454, 19981, 36275, 65307, 34917, 40784, 24066, 22330, 39118,
      21521, 12289, 33286, 35770, 12289, 20154, 24615, 20559, 24046, 21644, 25191, 34892,
      25705, 25830, 21518, 20877, 25512, 36827, 12290]),
    (13830, [22238, 27979, 39564, 35777]),
    (13831, [22238, 27979, 39564, 35777, 24453, 36319, 36827]),
    (13840, [32, 24050, 29983, 25104, 21487, 39564, 35777, 34013, 22270, 65292, 20808, 36816,
      34892, 25110, 22797, 26680, 22238, 27979, 65292, 19981, 36827, 20837, 20132, 26131, 12290]),
    (14040, [39564, 35777, 36890, 36807, 65292, 22797, 26680, 32, 112, 97, 112, 101, 114, 32,
      20505, 36873]),
    (14070, [12290, 20808, 26597, 30475, 22238, 27979, 35777, 25454, 65292, 24182, 32487,
      32493, 22797, 26680, 24066, 22330, 39118, 21521, 12289, 33286, 35770, 12289, 20154,
      24615, 20559, 24046, 21644, 25191, 34892, 25705, 25830, 12290]),
    (14300, [39564, 35777, 22833, 36133, 65292, 65, 73, 32, 37325, 20570, 34013, 22270]),
    (14350, [12290, 19981, 35201, 32487, 32493, 32, 112, 97, 112, 101, 114, 65292, 20808,
      35753, 32, 65, 73, 32, 24102, 30528, 22833, 36133, 35777, 25454, 12289, 20154, 24615,
      21644, 24066, 22330, 20449, 21495, 37325, 20570, 12290]),
    (14450, [22238, 27979, 39564, 35777, 24050, 21551, 21160]),
    (14460, [26597, 30475, 36827, 24230]),
    (14461, [32, 30340, 32, 65, 73, 32, 34013, 22270, 22238, 27979, 24050, 21551, 21160, 65292,
      20808, 26597, 30475, 36827, 24230, 65292, 19981, 37325, 22797, 21019, 24314, 39564,
      35777, 12290]),
    (14600, [31574, 30053, 33609, 26696, 24453, 33853, 22320]),
    (14610, [23433, 20840, 38392, 38376]),
    (14611, [32, 26377, 31574, 30053, 33609, 26696, 24453, 20445, 23384, 65292, 20445, 23384,
      21518, 20173, 38656, 22238, 27979, 12289, 112, 97, 112, 101, 114, 32, 21644, 23433,
      20840, 38392, 38376, 12290]),
    (14710, [24050, 21047, 26032, 36816, 34892]),
    (14720, [32, 24050, 37325, 26032, 25195, 25551, 65292, 21487, 25171, 24320, 26032, 32, 65,
      73, 32, 114, 117, 110, 32, 32487, 32493, 36319, 36827, 12290]),
    (14721, [26032, 32, 65, 73, 32, 114, 117, 110]),
    (14820, [24050, 20445, 23384, 31574, 30053, 24453, 22238, 27979]),
    (14850, [32, 24050, 20445, 23384, 20026, 31574, 30053, 37197, 32622, 65292, 19979, 19968,
      27493, 20808, 34917, 22238, 27979, 35777, 25454, 65292, 20877, 36827, 20837, 32, 112, 97,
      112, 101, 114, 32, 35266, 23519, 21644, 23433, 20840, 38392, 38376, 12290]),
    (14950, [21047, 26032, 24066, 22330, 39118, 21521]),
    (14951, [34917, 40784, 19978, 19979, 25991]),
    (14970, [32, 30340, 19978, 19979, 25991, 35777, 25454, 20559, 34180, 65292, 20808, 37325,
      26032, 25195, 25551, 26032, 38395, 12289, 23439, 35266, 12289, 38142, 19978, 21644,
      33286, 35770, 12290]),
    (14980, [32, 24050, 36229, 36807, 32]),
    (14981, [32, 23567, 26102, 65292, 20808, 21047, 26032, 24066, 22330, 39118, 21521, 21644,
      20154, 24615, 20559, 24046, 12290]),
    (15080, [24453, 39564, 35777]),
    (15081, [31561, 24453, 39564, 35777]),
    (15082, [34013, 22270, 31561, 24453, 39564, 35777]),
    (15090, [25209, 37327, 22238, 27979]),
    (15091, [32, 26377, 32]),
    (15092, [32, 20010, 32, 65, 73, 32, 34013, 22270, 65292, 19979, 19968, 27493, 24212, 25209,
      37327, 22238, 27979, 65292, 20877, 31579, 32, 112, 97, 112, 101, 114, 32, 20505, 36873,
      12290]),
    (15180, [21487, 22797, 30424, 36816, 34892]),
    (15190, [26242, 26080]),
    (15191, [32, 26242, 26080, 26126, 30830, 25512, 36827, 21160, 20316, 65292, 21487, 25171,
      24320, 22797, 30424, 32]),
    (15192, [32, 30340, 32, 65, 73, 32, 21028, 26029, 12290]),
    (15410, [65, 73, 32, 36319, 36827, 38431, 21015, 38656, 35201, 22788, 29702]),
    (15430, [65, 73, 32, 36816, 34892, 26242, 26080, 32039, 24613, 36319, 36827]),
    (15440, [31561, 24453, 32, 65, 73, 32, 36816, 34892]),
    (15470, [26368, 39640, 20248, 20808, 32423, 26159, 32]),
    (15471, [32, 20808, 22788, 29702, 36825, 20010, 32, 65, 73, 32, 114, 117, 110, 65292,
      20877, 25512, 36827, 36186, 38065, 36335, 24452, 12290]),
    (15490, [26368, 36817, 32, 65, 73, 32, 36816, 34892]),
    (15491, [26368, 36817, 32, 65, 73, 32, 36816, 34892, 27809, 26377, 24453, 21150, 38459,
      22622, 65292, 21487, 25171, 24320, 22797, 30424, 25110, 37325, 26032, 25195, 25551,
      20170, 26085, 39118, 21521, 12290]),
    (15500, [36824, 27809, 26377, 21382, 21490, 32, 65, 73, 32, 36816, 34892, 12290, 20808,
      21551, 21160, 20170, 26085, 38647, 36798, 65292, 35753, 32, 65, 73, 32, 29983, 25104,
      21487, 35266, 23519, 30340, 36186, 38065, 36335, 24452, 12290]),
    (15501, [21382, 21490, 32, 65, 73, 32, 36816, 34892]),
    (15540, [37325, 26032, 25195, 25551, 65306]),
    (15550, [36816, 34892, 22238, 27979, 39564, 35777, 65306]),
    (15560, [26597, 30475, 39564, 35777, 36827, 24230]),
    (15561, [26597, 30475, 39564, 35777, 36827, 24230, 65306]),
    (15570, [26597, 30475, 32, 112, 97, 112, 101, 114, 32, 20505, 36873, 35777, 25454, 65306]),
    (15571, [26597, 30475, 32, 112, 97, 112, 101, 114, 32, 20505, 36873, 35777, 25454]),
    (15580, [37325, 20570, 32, 65, 73, 32, 34013, 22270]),
    (15581, [37325, 20570, 32, 65, 73, 32, 34013, 22270, 65306]),
    (15590, [24050, 20445, 23384, 31574, 30053, 34917, 22238, 27979, 65306]),
    (15600, [32487, 32493, 32, 112, 97, 112, 101, 114, 32, 35266, 23519, 65306]),
    (15630, [35753, 32, 65, 73, 32, 29983, 25104, 31574, 30053, 34013, 22270]),
    (15631, [36816, 34892, 20170, 26085, 32, 65, 73, 32, 38647, 36798]),
    (15632, [22238, 27979, 21644, 32, 112, 97, 112, 101, 114, 32, 21518, 20877, 32771, 34385,
      25191, 34892, 26816, 26597]),
    (15760, [39564, 35777, 27492, 32, 65, 73, 32, 36816, 34892]),
    (15830, [37325, 26032, 25195, 25551, 27492, 36816, 34892]),
    (16040, [35753, 32, 65, 73, 32, 37325, 20570, 27492, 36816, 34892]),
    (16120, [25171, 24320, 24050, 20445, 23384, 31574, 30053])]"

definition zh_table_5 :: "(nat \<times> jstr) list" where
  "zh_table_5 = [
    (16180, [25171, 24320, 26368, 39640, 20248, 20808, 32423, 36816, 34892]),
    (16220, [21551, 21160, 20170, 26085, 25195, 25551]),
    (16830, [20154, 24615, 32, 47, 32, 33286, 35770]),
    (16831, [26242, 26080, 26032, 20154, 24615, 32, 47, 32, 33286, 35770, 21464, 21270, 12290]),
    (16850, [19978, 19979, 25991, 32]),
    (16860, [34013, 22270, 32]),
    (16870, [65, 73, 32, 29366, 24577]),
    (16871, [65, 73, 32, 29366, 24577, 32]),
    (16872, [32, 8594, 32]),
    (16930, [26087, 32, 65, 73, 32, 114, 117, 110]),
    (17260, [65, 73, 32, 37325, 25195, 23545, 27604]),
    (17261, [26242, 26080, 37325, 25195, 23545, 27604]),
    (17290, [24050, 23545, 27604, 26087, 21028, 26029, 21644, 26032, 21028, 26029, 65292,
      20808, 30475, 19978, 19979, 25991, 12289, 34013, 22270, 21644, 20154, 24615, 32, 47, 32,
      33286, 35770, 21464, 21270, 12290]),
    (17300, [23436, 25104, 26087, 32, 114, 117, 110, 32, 37325, 25195, 21518, 65292, 36825,
      37324, 20250, 26174, 31034, 26032, 26087, 21028, 26029, 24046, 24322, 12290]),
    (17870, [21551, 21160, 32, 65, 73, 32, 25195, 25551, 24182, 39564, 35777]),
    (17871, [21551, 21160, 32, 65, 73, 32, 25195, 25551]),
    (17872, [65, 73, 32, 25195, 25551]),
    (17950, [25171, 24320, 39118, 21521, 22797, 26680]),
    (17960, [25171, 24320, 30456, 20851, 39029, 38754]),
    (18150, [37319, 29992, 32, 112, 97, 112, 101, 114]),
    (18151, [20445, 23384, 24182, 37319, 29992, 32, 112, 97, 112, 101, 114]),
    (18410, [27491, 22312, 30830, 35748, 30495, 23454, 32, 65, 73, 32, 112, 114, 111, 118, 105,
      100, 101, 114, 32, 29366, 24577, 65292, 30830, 35748, 21069, 19981, 20250, 21551, 21160,
      32, 65, 73, 32, 25195, 25551, 24182, 39564, 35777, 12290]),
    (18420, [30495, 23454, 32, 65, 73, 32, 112, 114, 111, 118, 105, 100, 101, 114, 32, 36824,
      19981, 21487, 29992, 65292, 20808, 23436, 25104, 32, 65, 80, 73, 32, 107, 101, 121, 32,
      37197, 32622, 21644, 36830, 25509, 27979, 35797, 12290]),
    (18470, [20808, 37197, 32622, 30495, 23454, 32, 65, 73]),
    (18471, [20808, 37197, 32622]),
    (18520, [30830, 35748, 20013]),
    (18521, [26410, 23601, 32490]),
    (18522, [31561, 24453, 30495, 23454, 32, 112, 114, 111, 118, 105, 100, 101, 114]),
    (18523, [23601, 32490]),
    (18540, [20132, 25509]),
    (18541, [48, 32, 65, 73, 32, 47, 32, 49, 32, 20320]),
    (18542, [20808, 30001, 20320, 23436, 25104, 32, 112, 114, 111, 118, 105, 100, 101, 114, 32,
      37197, 32622]),
    (18543, [32, 20320]),
    (18544, [20320]),
    (18550, [24050, 26242, 20572]),
    (18551, [19981, 20250, 21551, 21160, 25195, 25551, 25110, 19979, 21333]),
    (18670, [24066, 22330, 32, 47, 32, 33286, 35770, 19978, 19979, 25991]),
    (18690, [31561, 24453, 30495, 23454, 32, 65, 73, 32, 21487, 29992, 21518, 20877, 25195,
      25551, 26032, 38395, 12289, 23439, 35266, 12289, 38142, 19978, 21644, 24066, 22330,
      39118, 21521, 12290]),
    (18691, [30495, 23454, 32, 65, 73, 32, 21487, 29992]),
    (18750, [31561, 24453, 30495, 23454, 32, 65, 73, 32, 21487, 29992, 21518, 29983, 25104,
      21487, 39564, 35777, 33609, 26696, 12290]),
    (18810, [31561, 24453, 31574, 30053, 33609, 26696]),
    (18811, [31561, 24453, 31574, 30053, 33609, 26696, 21518, 20877, 33258, 21160, 25209,
      37327, 22238, 27979, 12290]),
    (18870, [30495, 23454, 20132, 26131, 21069, 20173, 38656, 22238, 27979, 12289, 112, 97,
      112, 101, 114, 32, 35266, 23519, 12289, 32452, 21512, 38480, 39069, 21644, 20154, 24037,
      30830, 35748, 12290]),
    (18871, [22238, 27979, 12289, 112, 97, 112, 101, 114, 32, 35266, 23519, 12289, 32452,
      21512, 38480, 39069, 21644, 20154, 24037, 30830, 35748, 12290]),
    (18872, [32452, 21512, 38480, 39069]),
    (18920, [31561, 24453, 32, 65, 73, 32, 112, 114, 111, 118, 105, 100, 101, 114, 32, 29366,
      24577, 36820, 22238, 12290]),
    (18921, [31561, 24453, 32, 65, 73, 32, 112, 114, 111, 118, 105, 100, 101, 114, 32, 29366,
      24577, 36820, 22238]),
    (18930, [22914, 38271, 26102, 38388, 26410, 36820, 22238, 65292, 25171, 24320, 32, 65, 73,
      32, 35774, 32622, 26816, 26597, 37197, 32622, 12290]),
    (18931, [25171, 24320, 32, 65, 73, 32, 35774, 32622, 26816, 26597, 37197, 32622]),
    (18940, [30830, 35748, 32, 112, 114, 111, 118, 105, 100, 101, 114, 32, 114, 101, 97, 100,
      121, 32, 21518, 20877, 21551, 21160, 32, 65, 73, 32, 25195, 25551, 24182, 39564, 35777,
      12290]),
    (18970, [37197, 32622, 30495, 23454, 32, 65, 73, 32, 112, 114, 111, 118, 105, 100, 101,
      114, 12290]),
    (18971, [37197, 32622, 30495, 23454, 32, 65, 73, 32, 112, 114, 111, 118, 105, 100, 101, 114]),
    (18980, [27979, 35797, 32, 112, 114, 111, 118, 105, 100, 101, 114, 32, 65, 80, 73, 32, 107,
      101, 121, 32, 36830, 25509, 12290]),
    (18990, [22238, 21040, 32, 65, 73, 32, 77, 111, 110, 101, 121, 32, 21518, 20877, 21551,
      21160, 25195, 25551, 21644, 39564, 35777, 12290]),
    (19070, [21551, 21160, 32, 65, 73, 32, 36186, 38065, 30446, 26631, 25195, 25551]),
    (19090, [20808, 35753, 32, 65, 73, 32, 35835, 21462, 30446, 26631, 12289, 24066, 22330,
      12289, 33286, 35770, 12289, 20154, 24615, 20559, 24046, 21644, 25191, 34892, 32422,
      26463, 65292, 20877, 33258, 21160, 29983, 25104, 31574, 30053, 34013, 22270, 19982,
      39564, 35777, 36335, 24452, 12290]),
    (19120, [24453, 25195, 25551]),
    (19121, [31561, 24453, 30446, 26631, 20998, 26512]),
    (19122, [31561, 24453, 30446, 26631]),
    (19140, [50, 32, 65, 73, 32, 47, 32, 49, 32, 20320]),
    (19141, [65, 73, 32, 21487, 20195, 21150, 25195, 25551, 21644, 34013, 22270, 65307, 20320,
      30830, 35748, 30446, 26631]),
    (19142, [65, 73, 32, 21487, 20195, 21150]),
    (19150, [35266, 23519, 20248, 20808]),
    (19151, [19981, 20250, 30452, 25509, 19979, 21333]),
    (19220, [31561, 24453, 32, 65, 73, 32, 25195, 25551, 26032, 38395, 12289, 23439, 35266,
      12289, 38142, 19978, 21644, 24066, 22330, 39118, 21521, 12290]),
    (19221, [31561, 24453, 32, 65, 73, 32, 25195, 25551]),
    (19280, [31561, 24453, 32, 65, 73, 32, 29983, 25104, 21487, 39564, 35777, 33609, 26696,
      12290]),
    (19400, [31561, 24453, 32, 65, 73, 32, 35782, 21035, 32, 70, 79, 77, 79, 12289, 25317,
      25380, 12289, 24656, 24908, 25110, 21465, 20107, 20559, 24046, 12290]),
    (19401, [24656, 24908]),
    (19402, [31561, 24453, 32, 65, 73, 32, 35782, 21035]),
    (19500, [36755, 20837, 25110, 24212, 29992, 32, 65, 73, 32, 34917, 20840, 30446, 26631,
      12290]),
    (19510, [21551, 21160, 32, 65, 73, 32, 25195, 25551, 24182, 33258, 21160, 36827, 20837,
      23433, 20840, 39564, 35777, 12290]),
    (19520, [20808, 35266, 23519, 21644, 32, 112, 97, 112, 101, 114, 65292, 19981, 30452,
      25509, 36827, 20837, 27979, 35797, 32593, 25110, 20027, 32593, 12290]),
    (19810, [21382, 21490, 36816, 34892]),
    (19880, [26410, 23436, 25104, 32]),
    (19881, [32, 20010, 20132, 25509, 21160, 20316, 12290]),
    (20230, [65, 73, 32, 24050, 31579, 20986, 32, 112, 97, 112, 101, 114, 32, 20505, 36873]),
    (20250, [32, 24403, 21069, 25191, 34892, 23601, 32490, 24230, 32]),
    (20251, [37, 65292, 65, 73, 32, 21482, 25512, 36827, 23433, 20840, 21160, 20316, 12290]),
    (20252, [25191, 34892, 23601, 32490])]"

definition zh_table_6 :: "(nat \<times> jstr) list" where
  "zh_table_6 = [
    (20320, [24050, 20998, 26512]),
    (20370, [32, 26032, 38395, 32, 47, 32]),
    (20371, [32, 23439, 35266, 32, 47, 32]),
    (20372, [32, 38142, 19978]),
    (20373, [26032, 38395, 32]),
    (20480, [32, 36827, 34892, 20013]),
    (20481, [36827, 34892, 20013]),
    (20490, [32, 23436, 25104]),
    (20600, [65, 73, 32, 21487, 20195, 21150, 32]),
    (20601, [32, 39033, 65307, 20320, 30830, 35748, 32]),
    (20602, [32, 39033]),
    (20710, [24050, 32435, 20837, 32]),
    (20711, [32, 26465, 26032, 38395, 12289, 23439, 35266, 25110, 38142, 19978, 19978, 19979,
      25991, 12290]),
    (20712, [32, 26465, 26032, 38395, 12289]),
    (20760, [65, 73, 32, 21382, 21490, 35760, 24518]),
    (20810, [65, 73, 32, 24050, 21442, 32771, 32]),
    (20811, [32, 26465, 21382, 21490, 36816, 34892, 65306]),
    (20812, [21487, 22312, 21382, 21490, 36319, 36827, 20013, 26597, 30475]),
    (20813, [21382, 21490, 36319, 36827]),
    (20814, [24050, 21442, 32771, 32]),
    (20840, [26412, 27425, 27809, 26377, 21487, 29992, 30340, 21382, 21490, 32, 65, 73, 32,
      36816, 34892, 35760, 24518, 12290]),
    (20920, [65, 73, 32, 24050, 29983, 25104, 32]),
    (20921, [32, 20010, 33609, 26696, 12290]),
    (20922, [32, 20010, 33609, 26696]),
    (20930, [36824, 27809, 26377, 21487, 39564, 35777, 31574, 30053, 33609, 26696, 12290]),
    (20931, [27809, 26377, 21487, 39564, 35777, 31574, 30053, 33609, 26696, 12290]),
    (21010, [32, 20010, 22238, 27979, 23436, 25104, 65292, 26368, 20339, 24314, 35758, 65306]),
    (21011, [22797, 26680, 32467, 26524]),
    (21030, [32, 20010, 22238, 27979, 20173, 22312, 36816, 34892, 12290]),
    (21040, [31561, 24453, 32, 65, 73, 32, 25209, 37327, 22238, 27979, 12290]),
    (21230, [22238, 27979, 12289, 112, 97, 112, 101, 114, 32, 35266, 23519, 12289, 32452,
      21512, 38480, 39069, 21644, 20154, 24037, 30830, 35748, 20173, 26159, 25191, 34892,
      21069, 38392, 38376, 12290]),
    (21390, [32487, 32493, 35266, 23519, 32, 65, 73, 32, 24314, 35758, 65292, 19981, 30452,
      25509, 20027, 32593, 20132, 26131, 12290]),
    (21720, [21482, 21019, 24314, 22238, 27979, 39564, 35777, 20219, 21153, 65292, 19981,
      20250, 19979, 21333, 65292, 20063, 19981, 20250, 36827, 20837, 20027, 32593, 12290]),
    (21750, [20808, 20445, 23384, 32, 65, 73, 32, 31574, 30053, 33609, 26696, 24182, 24314,
      31435, 32, 112, 97, 112, 101, 114, 32, 35266, 23519, 65292, 19981, 24320, 21551, 32, 108,
      105, 118, 101, 65292, 19981, 36827, 20837, 27979, 35797, 32593, 25110, 20027, 32593, 12290]),
    (21751, [20445, 23384, 32, 65, 73, 32, 31574, 30053, 33609, 26696]),
    (21780, [21482, 37319, 29992, 20026, 32, 112, 97, 112, 101, 114, 32, 35266, 23519, 65292,
      19981, 36827, 20837, 27979, 35797, 32593, 25110, 20027, 32593, 12290]),
    (21781, [37319, 29992, 20026, 32, 112, 97, 112, 101, 114, 32, 35266, 23519]),
    (21810, [38656, 35201, 20154, 24037, 22797, 26680, 21518, 32, 65, 73, 32, 25165, 33021,
      32487, 32493, 25512, 36827, 12290]),
    (21840, [21482, 25171, 24320, 35777, 25454, 25110, 37197, 32622, 39029, 38754, 65292,
      19981, 20250, 35302, 21457, 20132, 26131, 12290]),
    (21860, [21482, 20998, 26512, 24066, 22330, 12289, 33286, 35770, 12289, 20154, 24615,
      21644, 39564, 35777, 36335, 24452, 65292, 19981, 20250, 19979, 21333, 65292, 20063,
      19981, 20250, 36827, 20837, 20027, 32593, 12290]),
    (21930, [25209, 37327, 21019, 24314, 32, 65, 73, 32, 31574, 30053, 34013, 22270, 30340,
      22238, 27979, 39564, 35777, 20219, 21153, 12290]),
    (21940, [35835, 21462, 25910, 30410, 12289, 22238, 25764, 12289, 22799, 26222, 21644,
      20132, 26131, 27425, 25968, 21518, 31579, 25481, 24369, 20449, 21495, 12290]),
    (21950, [39564, 35777, 23436, 25104, 21069, 19981, 37319, 29992, 31574, 30053, 65292,
      20063, 19981, 36827, 20837, 32, 112, 97, 112, 101, 114, 12290]),
    (22000, [25972, 29702, 32, 112, 97, 112, 101, 114, 32, 20505, 36873, 30340, 22238, 27979,
      35777, 25454, 21644, 39118, 38505, 19978, 38480, 12290]),
    (22010, [29983, 25104, 32, 50, 52, 45, 55, 50, 32, 23567, 26102, 35266, 23519, 37325,
      28857, 12290]),
    (22011, [35266, 23519, 37325, 28857]),
    (22020, [32487, 32493, 36319, 36394, 24066, 22330, 39118, 21521, 12289, 33286, 35770,
      12289, 20154, 24615, 20559, 24046, 21644, 25191, 34892, 25705, 25830, 12290]),
    (22070, [20445, 23384, 32, 65, 73, 32, 31574, 30053, 33609, 26696, 24182, 20445, 25345, 32,
      108, 105, 118, 101, 32, 20851, 38381, 12290]),
    (22080, [24314, 31435, 32, 50, 52, 45, 55, 50, 32, 23567, 26102, 32, 112, 97, 112, 101,
      114, 32, 35266, 23519, 35745, 21010, 12290]),
    (22140, [25171, 24320, 32, 65, 73, 32, 24050, 35782, 21035, 30340, 35777, 25454, 39029,
      38754, 12290]),
    (22150, [22797, 26680, 22238, 27979, 12289, 112, 97, 112, 101, 114, 32, 20505, 36873,
      25110, 23433, 20840, 37197, 32622, 26159, 21542, 28385, 36275, 19979, 19968, 27493, 12290]),
    (22160, [32487, 32493, 25226, 24066, 22330, 39118, 21521, 12289, 33286, 35770, 21644,
      20154, 24615, 20559, 24046, 32435, 20837, 21028, 26029, 12290]),
    (22220, [25195, 25551, 24066, 22330, 12289, 33286, 35770, 12289, 23439, 35266, 12289,
      38142, 19978, 21644, 20154, 24615, 20559, 24046, 12290]),
    (22230, [29983, 25104, 21487, 35299, 37322, 30340, 31574, 30053, 34013, 22270, 21644,
      35266, 23519, 20449, 21495, 12290]),
    (22240, [25226, 21487, 39564, 35777, 33609, 26696, 36865, 20837, 22238, 27979, 39564,
      35777, 12290]),
    (22320, [19981, 35201, 25552, 21069, 37319, 29992, 20219, 20309, 31574, 30053, 12290]),
    (22321, [19981, 35201, 25552, 21069, 37319, 29992]),
    (22330, [31561, 24453, 22238, 27979, 35780, 20998, 12289, 22238, 25764, 21644, 20132,
      26131, 27425, 25968, 20986, 26469, 21518, 20877, 35753, 32, 65, 73, 32, 25490, 24207,
      12290]),
    (22340, [20132, 26131, 38392, 38376]),
    (22341, [30495, 23454, 20132, 26131, 20173, 38656, 20154, 24037, 30830, 35748, 21644,
      20132, 26131, 38392, 38376, 12290]),
    (22420, [30830, 35748, 20445, 23384, 21518, 30340, 31574, 30053, 20173, 22788, 20110,
      20851, 38381, 29366, 24577, 12290]),
    (22430, [21482, 25226, 23427, 32435, 20837, 32, 112, 97, 112, 101, 114, 32, 35266, 23519,
      65292, 19981, 35201, 36339, 21040, 27979, 35797, 32593, 25110, 20027, 32593, 12290]),
    (22440, [35266, 23519, 26399, 38388, 35760, 24405, 24066, 22330, 39118, 21521, 12289,
      33286, 35770, 21644, 20154, 24615, 20559, 24046, 12290]),
    (22490, [20808, 26597, 30475, 22238, 27979, 35777, 25454, 21644, 32, 65, 73, 32, 21028,
      26029, 29702, 30001, 12290]),
    (22500, [30830, 35748, 32, 112, 97, 112, 101, 114, 32, 20505, 36873, 27809, 26377, 34987,
      26032, 22686, 33286, 35770, 12289, 23439, 35266, 25110, 20154, 24615, 20559, 24046,
      25512, 32763, 12290]),
    (22510, [26410, 23436, 25104, 22797, 26680, 21069, 19981, 35201, 36827, 20837, 27979,
      35797, 32593, 25110, 20027, 32593, 12290]),
    (22570, [30830, 35748, 36186, 38065, 30446, 26631, 12289, 39118, 38505, 20559, 22909,
      21644, 31105, 27490, 22330, 26223, 12290]),
    (22580, [19981, 35201, 36339, 36807, 22238, 27979, 12289, 112, 97, 112, 101, 114, 32,
      35266, 23519, 21644, 20154, 24037, 38392, 38376, 12290]),
    (22581, [20154, 24037, 38392, 38376]),
    (23130, [35753, 32, 65, 73, 32, 25509, 31649, 19979, 19968, 27493]),
    (23150, [65, 73, 32, 19979, 19968, 27493, 65306]),
    (23190, [32, 65, 73, 32, 19979, 19968, 27493, 26159, 25209, 37327, 22238, 27979, 31574,
      30053, 34013, 22270, 65292, 21482, 29983, 25104, 39564, 35777, 35777, 25454, 12290]),
    (23191, [25209, 37327, 22238, 27979, 31574, 30053]),
    (23680, [36816, 34892, 32, 65, 73, 32, 25195, 25551]),
    (23810, [27491, 22312, 30830, 35748, 30495, 23454, 32, 65, 73, 32, 112, 114, 111, 118, 105,
      100, 101, 114, 32, 29366, 24577, 65292, 30830, 35748, 21069, 19981, 20250, 21551, 21160,
      25195, 25551, 12290]),
    (24050, [112, 114, 111, 118, 105, 100, 101, 114, 32, 114, 101, 97, 100, 121, 32, 21518,
      20877, 35835, 21462, 26032, 38395, 12289, 23439, 35266, 12289, 38142, 19978, 21644,
      20215, 26684, 19978, 19979, 25991, 12290]),
    (24090, [31574, 30053, 39564, 35777]),
    (24120, [31561, 24453, 30495, 23454, 32, 65, 73, 32, 21487, 29992, 21518, 20877, 29983,
      25104, 21487, 22238, 27979, 33609, 26696, 12290]),
    (24160, [25191, 34892, 36793, 30028]),
    (24190, [112, 114, 111, 118, 105, 100, 101, 114, 32, 26410, 23601, 32490, 26102, 19981,
      20250, 25195, 25551, 12289, 22238, 27979, 12289, 112, 97, 112, 101, 114, 32, 25110,
      20132, 26131, 12290])]"

definition zh_table_7 :: "(nat \<times> jstr) list" where
  "zh_table_7 = [
    (24230, [31561, 24453, 32, 112, 114, 111, 118, 105, 100, 101, 114, 32, 29366, 24577, 36820,
      22238, 12290]),
    (24231, [31561, 24453, 32, 112, 114, 111, 118, 105, 100, 101, 114, 32, 29366, 24577]),
    (24232, [20808, 37197, 32622, 32, 112, 114, 111, 118, 105, 100, 101, 114, 32, 65, 80, 73,
      32, 107, 101, 121, 12290]),
    (24233, [31561, 24453, 32, 112, 114, 111, 118, 105, 100, 101, 114]),
    (24234, [37197, 32622, 32, 112, 114, 111, 118, 105, 100, 101, 114]),
    (24250, [112, 114, 111, 118, 105, 100, 101, 114, 32, 114, 101, 97, 100, 121, 32, 21518,
      20877, 21551, 21160, 20170, 26085, 25195, 25551, 12290]),
    (24320, [65, 73, 32, 35266, 23519, 28966, 28857]),
    (24340, [20808, 35753, 32, 65, 73, 32, 25195, 25551, 24066, 22330, 39118, 21521, 12289,
      33286, 35770, 21644, 20154, 24615, 20559, 24046, 65292, 20877, 29983, 25104, 31574,
      30053, 34013, 22270, 19982, 39564, 35777, 36335, 24452, 65307, 24403, 21069, 19981,
      20250, 19979, 21333, 12290]),
    (24420, [31561, 24453, 32, 65, 73, 32, 27719, 24635, 26032, 38395, 12289, 23439, 35266,
      12289, 38142, 19978, 21644, 20215, 26684, 19978, 19979, 25991, 12290]),
    (24460, [33286, 35770, 32, 47, 32, 20154, 24615]),
    (24490, [31561, 24453, 32, 65, 73, 32, 35782, 21035, 32, 70, 79, 77, 79, 12289, 24656,
      24908, 12289, 25317, 25380, 21465, 20107, 21644, 25805, 20316, 32773, 20559, 24046, 12290]),
    (24570, [36824, 27809, 26377, 31574, 30053, 34013, 22270, 65307, 25195, 25551, 21518,
      30001, 32, 65, 73, 32, 29983, 25104, 21487, 22238, 27979, 33609, 26696, 12290]),
    (24640, [27809, 26377, 20998, 26512, 12289, 22238, 27979, 21644, 32, 112, 97, 112, 101,
      114, 32, 35266, 23519, 21069, 65292, 19981, 36827, 20837, 27979, 35797, 32593, 25110,
      20027, 32593, 12290]),
    (24680, [21487, 20808, 24674, 22797, 26368, 36817, 32, 65, 73, 32, 36816, 34892, 35760,
      24518, 12290]),
    (24681, [36816, 34892, 32, 65, 73, 32, 25195, 25551, 24314, 31435, 31532, 19968, 20221,
      19978, 19979, 25991, 12290]),
    (24690, [35753, 32, 65, 73, 32, 21516, 26102, 30475, 24066, 22330, 12289, 33286, 35770,
      12289, 20154, 24615, 21644, 25968, 25454, 35777, 25454, 12290]),
    (24700, [29983, 25104, 34013, 22270, 21518, 20808, 22238, 27979, 65292, 20877, 36827,
      20837, 32, 112, 97, 112, 101, 114, 32, 35266, 23519, 12290]),
    (25110, [32, 20010, 22238, 27979, 24050, 23436, 25104, 65307, 26368, 20339, 24314, 35758,
      65306]),
    (25111, [31561, 24453, 35780, 20998]),
    (25130, [32, 20010, 22238, 27979, 20173, 22312, 36816, 34892, 65292, 20808, 31561, 24453,
      39564, 35777, 32467, 26524, 12290]),
    (25150, [32, 20010, 32, 65, 73, 32, 34013, 22270, 38656, 35201, 20808, 22238, 27979, 65292,
      19981, 33021, 30452, 25509, 37319, 29992, 12290]),
    (25160, [27809, 26377, 21487, 22238, 27979, 34013, 22270, 65292, 38656, 35201, 35753, 32,
      65, 73, 32, 37325, 26032, 29983, 25104, 31574, 30053, 33609, 26696, 12290]),
    (25190, [26368, 22810, 25512, 36827, 21040, 32, 112, 97, 112, 101, 114, 32, 37319, 29992,
      65307, 19981, 20250, 30452, 25509, 36827, 20837, 27979, 35797, 32593, 25110, 20027,
      32593, 12290]),
    (25210, [20165, 36798, 21040, 27979, 35797, 32593, 21069, 26816, 26597, 65307, 20027,
      32593, 20173, 38656, 20154, 24037, 32, 116, 111, 107, 101, 110, 32, 103, 97, 116, 101,
      12290]),
    (25220, [25191, 34892, 26465, 20214, 26410, 28385, 36275]),
    (25221, [32, 19981, 20250, 30452, 25509, 36827, 20837, 20132, 26131, 12290]),
    (25280, [36816, 34892, 32, 65, 73, 32, 25209, 37327, 22238, 27979]),
    (25340, [20808, 34917, 40784, 35266, 23519, 25968, 25454]),
    (25341, [65, 73, 32, 27491, 22312, 35266, 23519, 36825, 20123, 37325, 28857]),
    (25360, [24066, 22330, 12289, 33286, 35770, 25110, 38142, 19978, 19978, 19979, 25991,
      19981, 36275, 12290]),
    (25361, [20808, 21047, 26032, 32, 65, 73, 32, 38647, 36798, 12290]),
    (25362, [21047, 26032, 32, 65, 73, 32, 38647, 36798]),
    (25370, [65, 73, 32, 24050, 32435, 20837, 24066, 22330, 39118, 21521, 12289, 33286, 35770,
      32, 47, 32, 20154, 24615, 21644, 39564, 35777, 36335, 24452, 65307, 24403, 21069, 37325,
      28857, 26159]),
    (25371, [20808, 22238, 27979, 34013, 22270]),
    (25372, [32487, 32493, 35266, 23519, 35777, 25454]),
    (25470, [32570, 23569, 26032, 38395, 12289, 23439, 35266, 25110, 38142, 19978, 19978,
      19979, 25991]),
    (25471, [32570, 23569, 26032, 38395, 12289, 23439, 35266, 25110, 38142, 19978, 19978,
      19979, 25991, 12290]),
    (25480, [32, 47, 32, 23439, 35266, 32]),
    (25481, [32, 47, 32, 38142, 19978, 32]),
    (25482, [32, 24050, 21442, 19982, 21028, 26029, 65307, 26631, 30340, 32]),
    (25820, [21047, 26032, 20170, 26085, 24066, 22330, 12289, 33286, 35770, 12289, 23439,
      35266, 21644, 38142, 19978, 12290]),
    (25821, [20808, 21047, 26032, 20170, 26085, 24066, 22330, 12289, 33286, 35770, 12289,
      23439, 35266, 21644, 38142, 19978, 12290]),
    (25830, [36816, 34892, 32, 65, 73, 32, 25209, 37327, 22238, 27979, 65292, 20808, 29992,
      25968, 25454, 31579, 31574, 30053, 12290]),
    (25840, [22797, 26680, 33286, 35770, 32, 47, 32, 20154, 24615, 39118, 38505, 65292, 36991,
      20813, 36861, 28072, 21644, 25317, 25380, 20132, 26131, 12290]),
    (25841, [20154, 24615, 39118, 38505]),
    (25850, [26410, 23436, 25104, 22238, 27979, 21644, 32, 112, 97, 112, 101, 114, 32, 35266,
      23519, 21069, 65292, 19981, 36827, 20837, 30495, 23454, 20132, 26131, 12290]),
    (26320, [26410, 21629, 21517, 33609, 26696]),
    (26370, [35266, 23519, 22411, 33609, 26696, 19981, 20250, 36827, 20837, 33258, 21160,
      22238, 27979, 12290]),
    (26380, [33609, 26696, 32570, 23569, 21487, 39564, 35777, 20132, 26131, 21442, 25968, 12290]),
    (26490, [35206, 30422, 26631, 30340, 65306]),
    (26500, [31383, 21475, 65306]),
    (26501, [39564, 35777, 31383, 21475, 65306, 57, 48, 32, 22825, 21382, 21490, 32, 47, 32,
      49, 104, 32, 75, 32, 32447]),
    (26510, [31574, 30053, 33609, 26696, 65306]),
    (26530, [27809, 26377, 21487, 33258, 21160, 39564, 35777, 30340, 31574, 30053, 33609,
      26696, 12290]),
    (26550, [33258, 21160, 39564, 35777, 21482, 21019, 24314, 22238, 27979, 20219, 21153,
      65292, 19981, 20250, 19979, 21333, 12290]),
    (26560, [39564, 35777, 36890, 36807, 21518, 20063, 21482, 20801, 35768, 36827, 20837, 32,
      112, 97, 112, 101, 114, 32, 35266, 23519, 65292, 19981, 20250, 30452, 25509, 24320,
      21551, 20027, 32593, 12290]),
    (26570, [25152, 26377, 20505, 36873, 20173, 38656, 39118, 21521, 32, 47, 32, 20154, 24615,
      22797, 26680, 12289, 32452, 21512, 38480, 39069, 21644, 20154, 24037, 30830, 35748, 12290]),
    (26670, [65, 73, 32, 23433, 20840, 39564, 35777]),
    (26690, [27809, 26377, 21487, 22238, 27979, 30340, 32, 65, 73, 32, 33609, 26696, 65307,
      38656, 35201, 20808, 35843, 25972, 30446, 26631, 25110, 29983, 25104, 26032, 30340,
      31574, 30053, 34013, 22270, 12290]),
    (26790, [65, 73, 32, 23433, 20840, 39564, 35777, 32, 45, 32]),
    (26810, [32, 20010, 32, 65, 73, 32, 33609, 26696]),
    (26811, [24453, 21457, 36215, 32]),
    (26812, [32, 20010, 32, 65, 73, 32, 33609, 26696, 22238, 27979, 65306]),
    (26813, [32, 20010, 32, 65, 73, 32, 33609, 26696, 22238, 27979]),
    (27120, [30475, 35266, 23519, 20449, 21495]),
    (27160, [35813, 33609, 26696, 29992, 20110, 35266, 23519, 24066, 22330, 25110, 33286,
      35770, 65292, 19981, 20250, 36827, 20837, 33258, 21160, 22238, 27979, 12290]),
    (27170, [32570, 23569, 21487, 22238, 27979, 20132, 26131, 21442, 25968, 12290]),
    (27380, [65, 73, 32, 24050, 29983, 25104, 21487, 22238, 27979, 21442, 25968, 65292, 19979,
      19968, 27493, 20808, 36305, 32, 57, 48, 32, 22825, 39564, 35777, 12290]),
    (27390, [27809, 26377, 23436, 25104, 22238, 27979, 21069, 19981, 33021, 37319, 29992,
      20026, 32, 112, 97, 112, 101, 114, 12290]),
    (27580, [22238, 27979, 20173, 22312, 36816, 34892, 65292, 36827, 24230, 32]),
    (27581, [37, 12290]),
    (27590, [31561, 24453, 22238, 27979, 32456, 24577, 21518, 20877, 36827, 20837, 32, 112, 97,
      112, 101, 114, 32, 21028, 26029, 12290]),
    (27800, [28385, 36275, 32, 112, 97, 112, 101, 114, 32, 20505, 36873, 38376, 27099, 65292,
      20294, 20173, 38656, 35266, 23519, 33286, 35770, 12289, 20154, 24615, 21644, 25191,
      34892, 25705, 25830, 12290]),
    (27820, [26410, 23436, 25104, 32, 112, 97, 112, 101, 114, 32, 35266, 23519, 21069, 19981,
      33021, 36827, 20837, 27979, 35797, 32593, 12290]),
    (27970, [26597, 30475, 21407, 22240]),
    (28050, [26410, 36798, 21040, 32, 112, 97, 112, 101, 114, 32, 20505, 36873, 26631, 20934,
      65292, 20808, 22238, 21040, 31574, 30053, 34013, 22270, 12290]),
    (28060, [35777, 25454, 19981, 36275, 20197, 37319, 29992, 20026, 32, 112, 97, 112, 101,
      114, 32, 20505, 36873, 12290]),
    (28061, [37319, 29992, 20026, 32, 112, 97, 112, 101, 114, 32, 20505, 36873, 12290]),
    (28062, [37319, 29992, 20026, 32, 112, 97, 112, 101, 114, 32, 20505, 36873]),
    (28930, [31561, 24453, 32, 65, 73, 32, 24066, 22330, 35760, 24518])]"

definition zh_table_8 :: "(nat \<times> jstr) list" where
  "zh_table_8 = [
    (28940, [36824, 27809, 26377, 21487, 22797, 29992, 30340, 24066, 22330, 39118, 21521,
      12289, 20154, 24615, 20559, 24046, 25110, 35266, 23519, 20449, 21495, 12290, 20808,
      36816, 34892, 20170, 26085, 25195, 25551, 65292, 35753, 32, 65, 73, 32, 24314, 31435,
      36830, 32493, 21028, 26029, 12290]),
    (28960, [35760, 24518, 36816, 34892]),
    (28961, [31561, 24453, 32, 114, 101, 99, 101, 110, 116, 32, 114, 117, 110, 32, 109, 101,
      109, 111, 114, 121]),
    (29020, [36816, 34892, 20170, 26085, 32, 65, 73, 32, 25195, 25551, 12290]),
    (29030, [35753, 32, 65, 73, 32, 35760, 24405, 24066, 22330, 39118, 21521, 21644, 20154,
      24615, 20559, 24046, 12290]),
    (29040, [19979, 19968, 36718, 20998, 26512, 20250, 22797, 29992, 36825, 20123, 35760,
      24518, 12290]),
    (29060, [25195, 25551, 20170, 26085, 24066, 22330]),
    (29140, [65, 73, 32, 27491, 22312, 27839, 29992, 24066, 22330, 35760, 24518]),
    (29150, [65307, 20173, 26377, 32]),
    (29151, [32, 20010, 20132, 25509, 21160, 20316, 26410, 23436, 25104, 12290]),
    (29170, [26368, 36817, 21487, 22797, 29992, 32, 65, 73, 32, 21028, 26029]),
    (29180, [70, 79, 77, 79, 32, 47, 32, 25317, 25380, 32, 47, 32, 24656, 24908, 31561]),
    (29190, [26032, 38395, 32, 47, 32, 23439, 35266, 32, 47, 32, 38142, 19978, 32, 47, 32,
      20215, 26684]),
    (29230, [23545, 27604, 26032, 25195, 25551, 26159, 21542, 25512, 32763, 26087, 39118,
      21521, 12290]),
    (29240, [26410, 23436, 25104, 20132, 25509, 21160, 20316, 35201, 20808, 32487, 32493,
      12289, 35299, 38500, 25110, 24223, 24323, 12290]),
    (29250, [20154, 24615, 47, 33286, 35770]),
    (29251, [20154, 24615, 47, 33286, 35770, 39118, 38505, 21464, 21270, 21518, 20877, 20915,
      23450, 32, 112, 97, 112, 101, 114, 32, 20179, 20301, 12290]),
    (29270, [26597, 30475, 35760, 24518]),
    (29400, [31561, 24453, 32, 65, 73, 32, 31574, 30053, 30701, 21517, 21333]),
    (29401, [30701, 21517, 21333]),
    (29410, [36824, 27809, 26377, 32, 65, 73, 32, 31574, 30053, 33609, 26696, 12290, 20808,
      36816, 34892, 30446, 26631, 25195, 25551, 65292, 35753, 32, 65, 73, 32, 29983, 25104,
      21487, 39564, 35777, 34013, 22270, 12290]),
    (29450, [26410, 39564, 35777]),
    (29460, [31561, 24453, 33609, 26696]),
    (29490, [27809, 26377, 31574, 30053, 33609, 26696, 26102, 65292, 19981, 21019, 24314,
      31574, 30053, 20063, 19981, 25191, 34892, 20132, 26131, 12290]),
    (29500, [36755, 20837, 30446, 26631, 24182, 36816, 34892, 32, 65, 73, 32, 25195, 25551,
      12290]),
    (29501, [35753, 32, 65, 73, 32, 29983, 25104, 21487, 22238, 27979, 31574, 30053, 34013,
      22270, 12290]),
    (29502, [36816, 34892, 32, 65, 73, 32, 25195, 25551, 12290]),
    (29890, [37319, 29992, 26368, 20339, 32, 112, 97, 112, 101, 114]),
    (29910, [39564, 35777, 20840, 37096, 30701, 21517, 21333]),
    (30010, [65, 73, 32, 24050, 25490, 20986, 32, 112, 97, 112, 101, 114, 32, 20505, 36873]),
    (30030, [65, 73, 32, 31574, 30053, 27491, 22312, 39564, 35777]),
    (30050, [65, 73, 32, 31574, 30053, 30701, 21517, 21333, 24453, 39564, 35777]),
    (30070, [65, 73, 32, 31574, 30053, 30701, 21517, 21333, 38656, 37325, 20570]),
    (30080, [65, 73, 32, 31574, 30053, 30701, 21517, 21333, 29992, 20110, 35266, 23519]),
    (30110, [30701, 21517, 21333, 24050, 25353, 22238, 27979, 35777, 25454, 25490, 24207,
      65292, 20808, 37319, 29992, 31532, 19968, 21517, 36827, 20837, 32, 112, 97, 112, 101,
      114, 32, 35266, 23519, 65292, 19981, 30452, 25509, 36827, 20837, 27979, 35797, 32593,
      25110, 20027, 32593, 12290]),
    (30130, [65, 73, 32, 24050, 29983, 25104, 21487, 22238, 27979, 33609, 26696, 65292, 20808,
      25209, 37327, 39564, 35777, 65292, 20877, 35753, 32, 65, 73, 32, 36873, 25321, 32, 112,
      97, 112, 101, 114, 32, 20505, 36873, 12290]),
    (30150, [30701, 21517, 21333, 20013, 20173, 26377, 22238, 27979, 36816, 34892, 20013,
      65292, 31561, 24453, 33258, 21160, 21047, 26032, 32467, 26524, 12290]),
    (30160, [24403, 21069, 30701, 21517, 21333, 27809, 26377, 21487, 30452, 25509, 37319,
      29992, 30340, 32, 112, 97, 112, 101, 114, 32, 20505, 36873, 65292, 32487, 32493, 35266,
      23519, 25110, 37325, 26032, 29983, 25104, 34013, 22270, 12290]),
    (30200, [22238, 27979, 36890, 36807, 19988, 20165, 36827, 20837, 32, 112, 97, 112, 101, 114]),
    (30210, [26410, 23436, 25104, 39564, 35777]),
    (30250, [30701, 21517, 21333, 21482, 25490, 24207, 21644, 24314, 35758, 65292, 19981,
      20250, 19979, 21333, 12290]),
    (30260, [37319, 29992, 32, 112, 97, 112, 101, 114, 32, 21069, 20173, 38656, 22238, 27979,
      12289, 39118, 21521, 32, 47, 32, 20154, 24615, 22797, 26680, 21644, 20154, 24037, 30830,
      35748, 12290]),
    (30270, [28120, 27760, 33609, 26696, 19981, 20250, 36827, 20837, 31574, 30053, 20445,
      23384, 25110, 27979, 35797, 32593, 36335, 24452, 12290]),
    (30310, [22797, 26680, 31532, 19968, 21517, 30340, 25910, 30410, 12289, 22238, 25764,
      21644, 20132, 26131, 27425, 25968, 12290]),
    (30311, [37319, 29992, 20026, 32, 112, 97, 112, 101, 114, 32, 21518, 35266, 23519, 32, 50,
      52, 45, 55, 50, 32, 23567, 26102, 12290]),
    (30312, [35302, 21457, 20572, 27490, 35268, 21017, 26102, 22238, 21040, 31574, 30053,
      34013, 22270, 12290]),
    (30330, [31561, 24453, 22238, 27979, 33258, 21160, 21047, 26032, 12290]),
    (30331, [23436, 25104, 21518, 27604, 36739, 30701, 21517, 21333, 25490, 24207, 12290]),
    (30350, [36816, 34892, 20840, 37096, 30701, 21517, 21333, 22238, 27979, 12290]),
    (30351, [27604, 36739, 25910, 30410, 12289, 22238, 25764, 12289, 22799, 26222, 21644,
      20132, 26131, 27425, 25968, 12290]),
    (30352, [27604, 36739, 25910, 30410, 12289, 22238, 25764, 12289, 22799, 26222, 21644,
      20132, 26131, 27425, 25968]),
    (30360, [37325, 26032, 29983, 25104, 26356, 20445, 23432, 30340, 31574, 30053, 34013,
      22270, 12290]),
    (30361, [26816, 26597, 24066, 22330, 21465, 20107, 21644, 25968, 25454, 32570, 21475, 12290]),
    (30420, [21018, 21018]),
    (30700, [65, 73, 32, 33410, 22863, 38754, 26495, 21482, 23433, 25490, 25195, 25551, 12289,
      39564, 35777, 12289, 112, 97, 112, 101, 114, 32, 21644, 22797, 26680, 65292, 19981,
      20250, 19979, 21333, 12290]),
    (30701, [33410, 22863]),
    (30710, [36827, 20837, 27979, 35797, 32593, 25110, 20027, 32593, 21069, 20173, 38656,
      20154, 24037, 30830, 35748, 12289, 32452, 21512, 38480, 39069, 21644, 20132, 26131,
      38392, 38376, 12290]),
    (30860, [27491, 22312, 30830, 35748, 30495, 23454, 32, 65, 73, 32, 112, 114, 111, 118, 105,
      100, 101, 114, 32, 29366, 24577, 65292, 30830, 35748, 21069, 19981, 20250, 21551, 21160,
      20170, 26085, 25195, 25551, 12290]),
    (30970, [27963, 36291, 21028, 26029]),
    (30971, [21487, 24674, 22797, 26368, 36817, 36816, 34892]),
    (30972, [31561, 24453, 32, 65, 73, 32, 114, 117, 110]),
    (30980, [26368, 36817, 32, 65, 73, 32, 114, 117, 110, 32, 25968, 37327]),
    (31020, [30830, 35748, 30495, 23454, 32, 65, 73, 32, 21069, 19981, 21551, 21160, 25195,
      25551]),
    (31060, [30830, 35748, 30495, 23454, 32, 65, 73, 32, 112, 114, 111, 118, 105, 100, 101,
      114, 32, 21069, 65292, 19981, 20250, 21551, 21160, 25195, 25551, 12289, 39564, 35777,
      25110, 20132, 26131, 12290]),
    (31110, [22312, 32, 65, 73, 32, 35774, 32622, 39029, 23436, 25104, 36830, 25509, 27979,
      35797, 12290]),
    (31190, [20808, 35753, 32, 65, 73, 32, 25195, 25551, 20170, 26085, 26426, 20250]),
    (31200, [20808, 25195, 25551]),
    (31230, [35753, 32, 65, 73, 32, 29983, 25104, 31574, 30053, 34013, 22270, 12290]),
    (31231, [24403, 21069, 27809, 26377, 27963, 36291, 32, 65, 73, 32, 21028, 26029, 12290,
      20808, 25195, 25551, 24066, 22330, 12289, 33286, 35770, 12289, 23439, 35266, 12289,
      38142, 19978, 21644, 20154, 24615, 32422, 26463, 65292, 20877, 35753, 32, 65, 73, 32,
      29983, 25104, 31574, 30053, 34013, 22270, 12290]),
    (31280, [19981, 20250, 30452, 25509, 20132, 26131]),
    (31320, [25195, 25551, 21518, 20808, 30475, 19978, 19979, 25991, 35777, 25454, 26159,
      21542, 20805, 36275, 12290]),
    (31330, [21482, 26377, 21487, 22238, 27979, 31574, 30053, 33609, 26696, 25165, 36827,
      20837, 39564, 35777, 12290]),
    (31340, [27809, 26377, 22238, 27979, 21644, 32, 112, 97, 112, 101, 114, 32, 21069, 19981,
      25512, 36827, 25191, 34892, 12290]),
    (31530, [32467, 35770, 24180, 40836]),
    (31531, [38656, 35201, 21047, 26032]),
    (31532, [20173, 21487, 21442, 32771]),
    (31570, [24050, 26377, 32, 112, 97, 112, 101, 114, 32, 20505, 36873]),
    (31571, [31561, 24453, 26356, 24378, 35777, 25454]),
    (31572, [26377, 32, 112, 97, 112, 101, 114, 32, 20505, 36873]),
    (31590, [26410, 30693])]"

definition zh_table_9 :: "(nat \<times> jstr) list" where
  "zh_table_9 = [
    (31591, [32, 26465, 19978, 19979, 25991]),
    (31660, [20808, 21047, 26032, 32, 65, 73, 32, 21028, 26029]),
    (31680, [24403, 21069, 32, 65, 73, 32, 21028, 26029, 24050, 32463, 32]),
    (31681, [65292, 24066, 22330, 39118, 21521, 12289, 33286, 35770, 21644, 38142, 19978,
      29366, 24577, 21487, 33021, 21464, 21270, 12290, 20808, 37325, 25195, 65292, 20877,
      20915, 23450, 26159, 21542, 32487, 32493, 39564, 35777, 25110, 32, 112, 97, 112, 101,
      114, 12290]),
    (31710, [37325, 26032, 25195, 25551, 24403, 21069, 36816, 34892]),
    (31780, [24403, 21069, 32467, 35770, 24180, 40836, 32]),
    (31790, [37325, 25195, 20250, 29983, 25104, 26032, 30340, 32, 65, 73, 32, 114, 117, 110,
      65292, 24182, 20445, 30041, 26087, 32, 114, 117, 110, 32, 29992, 20110, 23545, 27604,
      12290]),
    (31800, [26087, 32467, 35770, 19981, 33021, 30452, 25509, 25512, 36827, 21040, 32, 112, 97,
      112, 101, 114, 32, 25110, 25191, 34892, 12290]),
    (31890, [22797, 26680, 39118, 21521, 32, 47, 32, 20154, 24615]),
    (31891, [20808, 38477, 36895, 22797, 26680, 39118, 21521, 32, 47, 32, 20154, 24615]),
    (31900, [26242, 20572, 25512, 36827]),
    (31920, [28909, 24230]),
    (31921, [65, 73, 32, 35782, 21035, 21040, 20154, 24615, 12289, 33286, 35770, 25110, 24066,
      22330, 39118, 21521, 21387, 21147, 12290, 21363, 20351, 22238, 27979, 20986, 29616, 32,
      112, 97, 112, 101, 114, 32, 20505, 36873, 65292, 20063, 20808, 22797, 26680, 28909,
      24230, 12289, 25317, 25380, 12289, 24656, 24908, 21644, 31105, 27490, 22330, 26223, 12290]),
    (31922, [39118, 21521, 21387, 21147]),
    (32010, [112, 97, 112, 101, 114, 32, 20505, 36873, 22312, 39118, 21521, 22797, 26680,
      21069, 21482, 20801, 35768, 35266, 23519, 65292, 19981, 36827, 20837, 27979, 35797,
      32593, 12290]),
    (32050, [35760, 24405, 26159, 21542, 23384, 22312, 32, 70, 79, 77, 79, 12289, 36861, 28072,
      12289, 24656, 24908, 27490, 25439, 25110, 21465, 20107, 25317, 25380, 12290]),
    (32140, [31561, 24453, 32, 65, 73, 32, 39564, 35777]),
    (32141, [31561, 24453, 32, 65, 73, 32, 39564, 35777, 36305, 23436]),
    (32150, [33258, 21160, 21047, 26032, 39564, 35777]),
    (32160, [32, 20010, 22238, 27979, 20173, 22312, 36827, 34892, 12290, 20808, 31561, 39564,
      35777, 23436, 25104, 65292, 20877, 35753, 32, 65, 73, 32, 25490, 32, 112, 97, 112, 101,
      114, 32, 20505, 36873, 12290]),
    (32250, [31561, 24453, 32, 112, 101, 110, 100, 105, 110, 103, 32, 47, 32, 114, 117, 110,
      110, 105, 110, 103, 32, 22238, 27979, 23436, 25104, 12290]),
    (32260, [22238, 27979, 23436, 25104, 21518, 37325, 26032, 35835, 21462, 35780, 20998,
      12289, 25910, 30410, 12289, 22238, 25764, 21644, 20132, 26131, 27425, 25968, 12290]),
    (32270, [39564, 35777, 20013]),
    (32271, [39564, 35777, 20013, 19981, 20445, 23384, 20026, 32, 108, 105, 118, 101, 32,
      31574, 30053, 12290]),
    (32360, [20808, 39564, 35777, 32, 65, 73, 32, 31574, 30053, 34013, 22270]),
    (32380, [32, 20010, 34013, 22270]),
    (32381, [32, 20010, 34013, 22270, 65292, 20854, 20013, 32]),
    (32382, [32, 20010, 21487, 22238, 27979, 12290, 20808, 25209, 37327, 39564, 35777, 65292,
      20877, 31579, 32, 112, 97, 112, 101, 114, 32, 20505, 36873, 12290]),
    (32390, [25209, 37327, 39564, 35777, 32, 65, 73, 32, 34013, 22270]),
    (32430, [22238, 27979, 31383, 21475, 20351, 29992, 23433, 20840, 40664, 35748, 21442,
      25968, 12290]),
    (32450, [27809, 26377, 39564, 35777, 35780, 20998, 21069, 19981, 36827, 20837, 32, 112, 97,
      112, 101, 114, 12290]),
    (32580, [80, 97, 112, 101, 114, 32, 35266, 23519, 21487, 22797, 30424]),
    (32600, [35266, 23519, 32, 50, 52, 45, 55, 50, 104]),
    (32630, [32, 24050, 26631, 35760, 32, 112, 97, 112, 101, 114, 32, 23436, 25104, 65292,
      20294, 22797, 30424, 35777, 25454, 19981, 36275, 65307, 38656, 35201, 34917, 40784,
      24066, 22330, 39118, 21521, 12289, 33286, 35770, 12289, 20154, 24615, 20559, 24046,
      21644, 25191, 34892, 25705, 25830, 12290]),
    (32650, [32, 24050, 36827, 20837, 32, 112, 97, 112, 101, 114, 32, 33410, 22863, 65292,
      32487, 32493, 35760, 24405, 20215, 26684, 12289, 33286, 35770, 12289, 20154, 24615,
      20559, 24046, 21644, 25191, 34892, 25705, 25830, 12290]),
    (32680, [25171, 24320, 32, 112, 97, 112, 101, 114, 32, 35777, 25454]),
    (32750, [34917, 40784, 24066, 22330, 39118, 21521, 12289, 33286, 35770, 12289, 20154,
      24615, 20559, 24046, 21644, 25191, 34892, 25705, 25830, 35777, 25454, 12290]),
    (32760, [35760, 24405, 32, 50, 52, 45, 55, 50, 32, 23567, 26102, 35266, 23519, 32467,
      35770, 12290]),
    (32770, [22797, 30424, 26159, 21542, 35302, 21457, 38477, 20179, 12289, 20572, 25163,
      25110, 25918, 24323, 26465, 20214, 12290]),
    (32780, [112, 97, 112, 101, 114, 32, 23436, 25104, 21069, 19981, 36827, 20837, 27979,
      35797, 32593, 12290]),
    (32870, [65, 73, 32, 25214, 21040, 32, 112, 97, 112, 101, 114, 32, 20505, 36873]),
    (32880, [37319, 29992, 21069, 30830, 35748]),
    (32890, [32, 35780, 20998, 32]),
    (32891, [12290, 20808, 37319, 29992, 20026, 32, 112, 97, 112, 101, 114, 32, 35266, 23519,
      65292, 19981, 30452, 25509, 20132, 26131, 12290]),
    (32940, [37319, 29992, 21518, 21482, 36827, 20837, 32, 112, 97, 112, 101, 114, 32, 35266,
      23519, 12290]),
    (32950, [32487, 32493, 35760, 24405, 33286, 35770, 21644, 20154, 24615, 20559, 24046, 12290]),
    (32960, [23436, 25104, 32, 112, 97, 112, 101, 114, 32, 22797, 30424]),
    (32961, [27979, 35797, 32593, 21069, 24517, 39035, 23436, 25104, 32, 112, 97, 112, 101,
      114, 32, 22797, 30424, 12290]),
    (33040, [65, 73, 32, 32467, 26524, 38656, 35201, 37325, 26032, 31579, 36873]),
    (33041, [32500, 25345, 35266, 23519, 33410, 22863]),
    (33050, [35266, 23519, 32, 47, 32, 37325, 20570]),
    (33080, [24050, 26377, 22238, 27979, 32467, 26524, 20294, 27809, 26377, 36798, 21040, 32,
      112, 97, 112, 101, 114, 32, 38376, 27099, 12290, 20808, 35266, 23519, 25110, 35753, 32,
      65, 73, 32, 37325, 20570, 31574, 30053, 34013, 22270, 12290]),
    (33090, [24403, 21069, 27809, 26377, 21487, 25512, 36827, 21160, 20316, 12290, 32487,
      32493, 35266, 23519, 24066, 22330, 39118, 21521, 65292, 24517, 35201, 26102, 37325,
      26032, 25195, 25551, 12290]),
    (33140, [19981, 20026, 20102, 25805, 20316, 32780, 25805, 20316, 12290]),
    (33150, [24369, 39564, 35777, 32467, 26524, 19981, 36827, 20837, 32, 112, 97, 112, 101,
      114, 12290]),
    (33160, [31561, 24453, 26356, 28165, 26224, 30340, 24066, 22330, 12289, 33286, 35770,
      25110, 39564, 35777, 35777, 25454, 12290]),
    (33340, [65, 73, 32, 19978, 19979, 25991]),
    (33410, [21487, 33258, 21160, 22238, 27979, 33609, 26696]),
    (33440, [39564, 35777, 29366, 24577]),
    (33460, [32, 21487, 32, 112, 97, 112, 101, 114]),
    (33461, [31561, 24453, 20505, 36873]),
    (33490, [25191, 34892, 38392, 38376]),
    (33650, [65, 73, 32, 25480, 26435, 25191, 34892, 21333, 21482, 20801, 35768, 25195, 25551,
      12289, 22238, 27979, 12289, 112, 97, 112, 101, 114, 32, 35266, 23519, 21644, 25171,
      24320, 35777, 25454, 65292, 19981, 20250, 19979, 21333, 12290]),
    (33660, [27979, 35797, 32593, 21069, 24517, 39035, 23436, 25104, 32, 112, 97, 112, 101,
      114, 32, 22797, 30424, 65307, 20027, 32593, 20173, 38656, 32, 109, 97, 105, 110, 110,
      101, 116, 32, 116, 111, 107, 101, 110, 32, 103, 97, 116, 101, 12289, 107, 105, 108, 108,
      32, 115, 119, 105, 116, 99, 104, 32, 21644, 20154, 24037, 30830, 35748, 12290]),
    (33800, [27491, 22312, 30830, 35748, 30495, 23454, 32, 65, 73, 32, 112, 114, 111, 118, 105,
      100, 101, 114, 32, 29366, 24577, 65292, 30830, 35748, 21069, 19981, 20250, 25226, 36186,
      38065, 30446, 26631, 20132, 32473, 32, 65, 73, 32, 25195, 25551, 12290]),
    (33910, [112, 114, 111, 118, 105, 100, 101, 114, 32, 114, 101, 97, 100, 121, 32, 21069,
      26242, 20572]),
    (33920, [26410, 24320, 22987]),
    (33930, [19981, 20250, 20132, 26131]),
    (33960, [31561, 24453, 30495, 23454, 32, 65, 73, 32, 112, 114, 111, 118, 105, 100, 101, 114]),
    (33961, [112, 114, 111, 118, 105, 100, 101, 114, 32, 114, 101, 97, 100, 121, 32, 21069,
      19981, 25195, 25551, 12289, 19981, 29983, 25104, 34013, 22270, 12290]),
    (33970, [25195, 25551, 30446, 26631, 21644, 24066, 22330]),
    (33971, [112, 114, 111, 118, 105, 100, 101, 114, 32, 114, 101, 97, 100, 121, 32, 21518,
      20877, 35835, 21462, 24066, 22330, 12289, 33286, 35770, 12289, 23439, 35266, 12289,
      38142, 19978, 21644, 34892, 20026, 32422, 26463, 12290]),
    (33972, [35835, 21462, 24066, 22330, 12289, 33286, 35770, 12289, 23439, 35266, 12289,
      38142, 19978, 21644, 34892, 20026, 32422, 26463, 12290]),
    (34030, [31561, 24453, 32, 65, 73, 32, 35774, 32622, 29366, 24577, 36820, 22238, 65307,
      26410, 30830, 35748, 21069, 19981, 35201, 21551, 21160, 25195, 25551, 12290]),
    (34031, [25171, 24320, 32, 65, 73, 32, 35774, 32622, 39029, 65292, 37197, 32622, 32, 65,
      80, 73, 32, 107, 101, 121, 32, 24182, 23436, 25104, 36830, 25509, 27979, 35797, 12290]),
    (34060, [30830, 35748, 30495, 23454, 20132, 26131]),
    (34061, [20219, 20309, 30495, 23454, 20132, 26131, 37117, 24517, 39035, 20154, 24037,
      30830, 35748, 32452, 21512, 38480, 39069, 21644, 20132, 26131, 38392, 38376, 12290]),
    (34090, [30830, 35748, 30495, 23454, 32, 65, 73, 32, 112, 114, 111, 118, 105, 100, 101,
      114, 32, 21069, 65292, 19981, 20250, 21551, 21160, 25195, 25551, 12289, 22238, 27979,
      12289, 112, 97, 112, 101, 114, 32, 25110, 20132, 26131, 12290]),
    (34170, [20808, 25226, 36186, 38065, 30446, 26631, 20132, 32473, 32, 65, 73]),
    (34180, [24403, 21069, 27809, 26377, 27963, 36291, 32, 65, 73, 32, 114, 117, 110, 12290,
      20808, 35753, 32, 65, 73, 32, 33258, 21160, 25195, 25551, 30446, 26631, 12289, 24066,
      22330, 39118, 21521, 12289, 33286, 35770, 12289, 20154, 24615, 20559, 24046, 21644,
      23433, 20840, 32422, 26463, 12290])]"

definition zh_table_10 :: "(nat \<times> jstr) list" where
  "zh_table_10 = [
    (34210, [31561, 24453, 25195, 25551]),
    (34220, [25195, 25551, 32, 43, 32, 29983, 25104, 34013, 22270]),
    (34280, [36755, 20986, 21487, 22238, 27979, 33609, 26696, 12289, 35266, 23519, 20449,
      21495, 21644, 23433, 20840, 39564, 35777, 35745, 21010, 12290]),
    (34310, [36755, 20837, 36186, 38065, 30446, 26631]),
    (34311, [30830, 35748, 21608, 26399, 12289, 39118, 38505, 20559, 22909, 12289, 31105,
      27490, 22330, 26223, 21644, 26368, 22823, 21487, 25215, 21463, 20111, 25439, 12290]),
    (34720, [20808, 25480, 26435, 32, 65, 73, 32, 21047, 26032, 19978, 19979, 25991]),
    (34730, [24403, 21069, 32, 65, 73, 32, 21028, 26029, 34987, 25968, 25454, 32570, 21475,
      25110, 36807, 26399, 24066, 22330, 39118, 21521, 21345, 20303, 12290, 20808, 21047,
      26032, 65292, 20877, 20915, 23450, 26159, 21542, 39564, 35777, 31574, 30053, 12290]),
    (34760, [26597, 30475, 25968, 25454, 32570, 21475]),
    (34790, [37325, 26032, 35835, 21462, 26032, 38395, 12289, 23439, 35266, 12289, 38142,
      19978, 21644, 20215, 26684, 35266, 23519, 32447, 12290]),
    (34800, [37325, 24314, 31574, 30053, 21028, 26029]),
    (34801, [29992, 26032, 19978, 19979, 25991, 37325, 26032, 21028, 26029, 26159, 21542,
      36824, 20540, 24471, 22238, 27979, 12290]),
    (34830, [24066, 22330, 19978, 19979, 25991]),
    (34831, [22797, 26680, 25968, 25454, 32570, 21475]),
    (34832, [30830, 35748, 20170, 26085, 24066, 22330, 19978, 19979, 25991, 26159, 21542,
      36275, 22815, 12290]),
    (34940, [65, 73, 32, 27491, 22312, 31561, 24453, 39564, 35777, 32467, 26524]),
    (34950, [32, 20010, 22238, 27979, 20173, 22312, 36827, 34892, 12290, 65, 73, 32, 21482,
      31561, 24453, 21644, 21047, 26032, 36827, 24230, 65292, 19981, 25552, 21069, 37319,
      29992, 20505, 36873, 12290]),
    (34980, [26597, 30475, 22238, 27979, 36827, 24230]),
    (34981, [22238, 27979, 36827, 24230]),
    (35030, [36718, 35810, 39564, 35777, 36827, 24230]),
    (35031, [35835, 21462, 32, 112, 101, 110, 100, 105, 110, 103, 32, 47, 32, 114, 117, 110,
      110, 105, 110, 103, 32, 22238, 27979, 65292, 31561, 24453, 32456, 24577, 35780, 20998,
      12290]),
    (35040, [26356, 26032, 20505, 36873, 25490, 24207]),
    (35041, [23436, 25104, 21518, 27604, 36739, 25910, 30410, 12289, 22238, 25764, 12289,
      22799, 26222, 21644, 20132, 26131, 27425, 25968, 12290]),
    (35070, [31561, 24453, 39564, 35777, 23436, 25104]),
    (35071, [39564, 35777, 26410, 23436, 25104, 21069, 19981, 35201, 20445, 23384, 32, 108,
      105, 118, 101, 32, 31574, 30053, 25110, 25193, 22823, 20179, 20301, 12290]),
    (35170, [25480, 26435, 32, 65, 73, 32, 33258, 21160, 39564, 35777, 34013, 22270]),
    (35180, [32, 20010, 21487, 22238, 27979, 33609, 26696, 12290, 19979, 19968, 27493, 24212,
      30001, 32, 65, 73, 32, 25209, 37327, 22238, 27979, 65292, 32780, 19981, 26159, 20154,
      24037, 29468, 21738, 20010, 33021, 36186, 38065, 12290]),
    (35220, [33258, 21160, 21019, 24314, 32]),
    (35221, [32, 20010, 32, 57, 48, 32, 22825, 32, 47, 32, 49, 104, 32, 22238, 27979, 20219,
      21153, 12290]),
    (35230, [31579, 36873, 32, 112, 97, 112, 101, 114, 32, 20505, 36873]),
    (35231, [25353, 25910, 30410, 12289, 22238, 25764, 12289, 22799, 26222, 21644, 20132,
      26131, 27425, 25968, 36807, 28388, 24369, 31574, 30053, 12290]),
    (35260, [27809, 26377, 22238, 27979, 35780, 20998, 21069, 65292, 19981, 36827, 20837, 32,
      112, 97, 112, 101, 114, 12289, 27979, 35797, 32593, 25110, 20027, 32593, 12290]),
    (35360, [65, 73, 32, 21487, 31227, 20132, 27979, 35797, 32593, 21069, 26816, 26597]),
    (35370, [39044, 22635, 31574, 30053]),
    (35371, [32, 24050, 23436, 25104, 32, 112, 97, 112, 101, 114, 32, 35266, 23519, 65292, 65,
      73, 32, 26368, 22810, 21327, 21161, 25171, 24320, 39044, 22635, 31574, 30053, 21644,
      27979, 35797, 32593, 26816, 26597, 12290]),
    (35400, [25171, 24320, 31574, 30053, 39044, 22635]),
    (35450, [20934, 22791, 27979, 35797, 32593, 26816, 26597]),
    (35451, [25171, 24320, 39044, 22635, 31574, 30053, 12289, 22238, 27979, 35777, 25454,
      21644, 39118, 38505, 19978, 38480, 12290]),
    (35480, [30830, 35748, 27979, 35797, 32593]),
    (35481, [30830, 35748, 36134, 25143, 12289, 32452, 21512, 38480, 39069, 12289, 107, 105,
      108, 108, 32, 115, 119, 105, 116, 99, 104, 32, 21644, 32, 112, 97, 112, 101, 114, 32,
      22797, 30424, 21518, 20877, 21551, 29992, 12290]),
    (35580, [20808, 34917, 40784, 32, 112, 97, 112, 101, 114, 32, 22797, 30424, 35777, 25454]),
    (35590, [32, 24050, 26631, 35760, 32, 112, 97, 112, 101, 114, 32, 23436, 25104, 65292,
      20294, 22797, 30424, 35777, 25454, 19981, 36275, 65307, 65, 73, 32, 19981, 24212, 31227,
      20132, 27979, 35797, 32593, 25110, 37325, 26032, 37319, 29992, 32, 112, 97, 112, 101,
      114, 12290]),
    (35670, [26242, 20572, 27979, 35797, 32593, 31227, 20132]),
    (35671, [24050, 35782, 21035, 32, 112, 97, 112, 101, 114, 32, 23436, 25104, 26631, 35760,
      32570, 23569, 39118, 21521, 12289, 20154, 24615, 21644, 25191, 34892, 25705, 25830,
      35777, 25454, 12290]),
    (35700, [34917, 40784, 24066, 22330, 39118, 21521, 12289, 33286, 35770, 12289, 20154,
      24615, 20559, 24046, 12289, 25191, 34892, 25705, 25830, 21644, 22238, 25764, 34920,
      29616, 12290]),
    (35740, [112, 97, 112, 101, 114, 32, 22797, 30424, 35777, 25454, 19981, 36275, 26102,
      65292, 65, 73, 32, 19981, 36827, 20837, 27979, 35797, 32593, 21069, 26816, 26597, 12290]),
    (35840, [39118, 21521, 32, 47, 32, 20154, 24615, 22797, 26680, 26410, 23436, 25104, 12290]),
    (35880, [65, 73, 32, 20505, 36873, 20808, 20132, 32473, 20320, 22797, 26680]),
    (35881, [65, 73, 32, 20505, 36873]),
    (35890, [32, 36798, 21040, 32, 112, 97, 112, 101, 114, 32, 20505, 36873, 65292, 20294,
      24066, 22330, 39118, 21521, 25110, 20154, 24615, 21387, 21147, 20173, 21487, 33021,
      35753, 32, 65, 73, 32, 21028, 26029, 22833, 25928, 12290]),
    (35970, [25972, 29702, 21453, 35777, 20449, 21495]),
    (35971, [24050, 25226, 33286, 35770, 12289, 70, 79, 77, 79, 12289, 25317, 25380, 21644,
      22238, 27979, 35777, 25454, 20132, 32473, 20320, 22797, 26680, 12290]),
    (35972, [21453, 35777]),
    (36000, [22797, 26680, 20505, 36873, 39118, 38505]),
    (36010, [37319, 29992, 32, 112, 97, 112, 101, 114, 32, 20505, 36873]),
    (36011, [20915, 23450, 26159, 21542, 37319, 29992, 32, 112, 97, 112, 101, 114]),
    (36012, [22797, 26680, 23436, 25104, 21069, 19981, 35201, 37319, 29992, 32, 112, 97, 112,
      101, 114, 32, 20505, 36873, 12290]),
    (36050, [39118, 21521, 32, 47, 32, 20154, 24615, 22797, 26680, 21069, 65292, 112, 97, 112,
      101, 114, 32, 20505, 36873, 21482, 20801, 35768, 35266, 23519, 12290]),
    (36140, [65, 73, 32, 24050, 20934, 22791, 32, 112, 97, 112, 101, 114, 32, 31227, 20132]),
    (36150, [12290, 19979, 19968, 27493, 21482, 37319, 29992, 20026, 32, 112, 97, 112, 101,
      114, 32, 35266, 23519, 12290]),
    (36190, [20934, 22791, 32, 112, 97, 112, 101, 114, 32, 35266, 23519]),
    (36191, [24050, 36873, 20986, 20505, 36873, 12289, 35777, 25454, 38142, 25509, 12289,
      39118, 38505, 19978, 38480, 21644, 35266, 23519, 37325, 28857, 12290]),
    (36200, [32487, 32493, 36319, 36394, 39118, 21521]),
    (36201, [112, 97, 112, 101, 114, 32, 21518, 32487, 32493, 30475, 33286, 35770, 12289,
      20154, 24615, 20559, 24046, 12289, 22238, 25764, 21644, 25191, 34892, 25705, 25830, 12290]),
    (36230, [30830, 35748, 21518, 21482, 36827, 20837, 32, 112, 97, 112, 101, 114, 65292,
      19981, 24320, 21551, 27979, 35797, 32593, 25110, 20027, 32593, 12290]),
    (36240, [35760, 24405, 35266, 23519, 32467, 26524]),
    (36241, [25353, 32, 50, 52, 45, 55, 50, 32, 23567, 26102, 35266, 23519, 35745, 21010,
      22797, 30424, 12290]),
    (36330, [65, 73, 32, 38656, 35201, 37325, 20570, 31574, 30053, 34013, 22270]),
    (36331, [65, 73, 32, 26242, 26102, 21482, 35266, 23519]),
    (36360, [35753, 32, 65, 73, 32, 37325, 20570, 34013, 22270]),
    (36361, [24050, 23436, 25104, 39564, 35777, 27809, 26377, 20135, 29983, 32, 112, 97, 112,
      101, 114, 32, 20505, 36873, 12290, 19981, 35201, 20026, 20102, 25191, 34892, 32780,
      25191, 34892, 65292, 20808, 35753, 32, 65, 73, 32, 37325, 20570, 34013, 22270, 12290]),
    (36370, [24403, 21069, 27809, 26377, 21487, 33258, 21160, 25512, 36827, 30340, 31574,
      30053, 35777, 25454, 65292, 32500, 25345, 35266, 23519, 25110, 37325, 26032, 25195,
      25551, 12290]),
    (36410, [37325, 20570, 26426, 20250, 25195, 25551]),
    (36411, [37325, 26032, 35835, 21462, 30446, 26631, 12289, 24066, 22330, 39118, 21521,
      21644, 31574, 30053, 32422, 26463, 12290]),
    (36440, [25298, 32477, 24369, 20449, 21495]),
    (36441, [24369, 39564, 35777, 32467, 26524, 19981, 36827, 20837, 32, 112, 97, 112, 101,
      114, 65292, 26356, 19981, 36827, 20837, 27979, 35797, 32593, 25110, 20027, 32593, 12290]),
    (36740, [65, 73, 32, 21453, 35777, 28165, 21333, 21482, 29992, 20110, 35266, 23519, 21644,
      22797, 26680, 65292, 19981, 33021, 20132, 26131, 12290]),
    (36750, [20219, 20309, 31574, 30053, 25512, 36827, 21069, 37117, 24517, 39035, 20808,
      30475, 21453, 35777, 12289, 20572, 27490, 35268, 21017, 21644, 23433, 20840, 38392,
      38376, 12290]),
    (36820, [20808, 29983, 25104, 21487, 21453, 35777, 30340, 32, 65, 73, 32, 35770, 28857]),
    (36821, [65, 73, 32, 35770, 28857]),
    (36830, [36824, 27809, 26377, 32, 65, 73, 32, 36186, 38065, 35770, 28857, 65292, 19981,
      33021, 21482, 20973, 30452, 35273, 12289, 34892, 24773, 25110, 24773, 32490, 36827,
      20837, 20132, 26131, 12290])]"

definition zh_table_11 :: "(nat \<times> jstr) list" where
  "zh_table_11 = [
    (36860, [20808, 29983, 25104, 32, 65, 73, 32, 35770, 28857]),
    (36890, [31561, 24453, 30446, 26631, 25195, 25551]),
    (36900, [26410, 29983, 25104]),
    (36901, [31561, 24453, 31574, 30053, 34013, 22270]),
    (36910, [27809, 26377, 35770, 28857, 19981, 33021, 20132, 26131]),
    (36930, [36824, 27809, 26377, 32, 65, 73, 32, 35770, 28857, 12289, 31574, 30053, 34013,
      22270, 21644, 39564, 35777, 35777, 25454, 12290]),
    (36940, [20808, 25195, 25551, 24066, 22330, 12289, 33286, 35770, 12289, 23439, 35266,
      21644, 38142, 19978, 19978, 19979, 25991, 12290]),
    (36950, [27809, 26377, 32, 65, 73, 32, 35770, 28857, 21644, 22238, 27979, 35777, 25454,
      21069, 65292, 19981, 36827, 20837, 32, 112, 97, 112, 101, 114, 12289, 27979, 35797,
      32593, 25110, 20027, 32593, 12290]),
    (37170, [35770, 28857, 35777, 25454]),
    (37190, [26032, 38395, 47, 23439, 35266, 47, 38142, 19978]),
    (37191, [26032, 38395, 47, 23439, 35266, 47, 38142, 19978, 32]),
    (37240, [31561, 24453, 25110, 26410, 36890, 36807]),
    (37330, [25968, 25454, 32570, 21475, 27491, 22312, 21453, 35777, 32, 65, 73, 32, 35770,
      28857]),
    (37340, [65, 73, 32, 32467, 35770, 32570, 23569, 36275, 22815, 19978, 19979, 25991, 25903,
      25745, 12290, 20808, 34917, 40784, 25968, 25454, 65292, 20877, 39564, 35777, 31574,
      30053, 65292, 21542, 21017, 23481, 26131, 25226, 26087, 28040, 24687, 25110, 21333,
      19968, 21465, 20107, 24403, 25104, 26426, 20250, 12290]),
    (37341, [34917, 40784, 25968, 25454]),
    (37370, [25171, 24320, 25968, 25454, 32570, 21475]),
    (37430, [26032, 22686, 26032, 38395, 26159, 21542, 25913, 21464, 21407, 24066, 22330,
      21028, 26029, 12290]),
    (37440, [23439, 35266, 25110, 38142, 19978, 25968, 25454, 26159, 21542, 25903, 25345,
      24403, 21069, 26041, 21521, 12290]),
    (37480, [25968, 25454, 32570, 21475, 34917, 40784, 21069, 65292, 19981, 37319, 29992, 32,
      112, 97, 112, 101, 114, 32, 20505, 36873, 12290]),
    (37490, [37325, 26032, 29983, 25104, 32, 65, 73, 32, 34013, 22270]),
    (37491, [19978, 19979, 25991, 20173, 19981, 36275, 26102, 65292, 37325, 26032, 29983,
      25104, 32, 65, 73, 32, 34013, 22270, 12290]),
    (37590, [22238, 27979, 24050, 32463, 21453, 35777, 24403, 21069, 35770, 28857]),
    (37600, [24050, 23436, 25104, 30340, 39564, 35777, 27809, 26377, 36798, 21040, 32, 112, 97,
      112, 101, 114, 32, 38376, 27099, 12290, 19981, 35201, 20026, 20102, 25191, 34892, 32780,
      25191, 34892, 65292, 20808, 35753, 32, 65, 73, 32, 37325, 20570, 31574, 30053, 34013,
      22270, 12290]),
    (37700, [26159, 21542, 23384, 22312, 36807, 25311, 21512, 25110, 20132, 26131, 27425,
      25968, 19981, 36275, 12290]),
    (37710, [26159, 21542, 38656, 35201, 26356, 20445, 23432, 30340, 21442, 25968, 21644,
      26356, 38271, 22238, 27979, 31383, 21475, 12290]),
    (37720, [26159, 21542, 24212, 21482, 35266, 23519, 65292, 19981, 36827, 20837, 32, 112, 97,
      112, 101, 114, 12290]),
    (37760, [25910, 30410, 20026, 36127, 25110, 22238, 25764, 32467, 26500, 24694, 21270,
      26102, 65292, 22238, 21040, 32, 65, 73, 32, 31574, 30053, 34013, 22270, 12290]),
    (37860, [20808, 29992, 21453, 35777, 21387, 21147, 27979, 35797, 32, 65, 73, 32, 35770,
      28857]),
    (37870, [24403, 21069, 35770, 28857, 21487, 33021, 34987, 20154, 24615, 20559, 24046,
      12289, 33286, 35770, 28909, 24230, 25110, 24066, 22330, 25317, 25380, 21453, 35777,
      12290, 20808, 20570, 39118, 21521, 22797, 26680, 65292, 20877, 20915, 23450, 26159,
      21542, 37319, 29992, 32, 112, 97, 112, 101, 114, 12290]),
    (37900, [22797, 26680, 21453, 35777, 20449, 21495]),
    (38000, [24773, 32490, 28909, 24230, 26159, 21542, 32487, 32493, 21319, 28201, 25110,
      36716, 21521, 24656, 24908, 12290]),
    (38010, [20215, 26684, 36208, 21183, 26159, 21542, 19982, 32, 65, 73, 32, 35770, 28857,
      32972, 31163, 12290]),
    (38020, [26159, 21542, 20986, 29616, 36861, 28072, 12289, 39057, 32321, 25913, 21442,
      25968, 25110, 25193, 22823, 20179, 20301, 20914, 21160, 12290]),
    (38070, [39118, 21521, 32, 47, 32, 20154, 24615, 22797, 26680, 26410, 23436, 25104, 21069,
      65292, 19981, 37319, 29992, 32, 112, 97, 112, 101, 114, 32, 20505, 36873, 12290]),
    (38071, [112, 97, 112, 101, 114, 32, 35266, 23519, 21069, 19981, 36827, 20837, 27979,
      35797, 32593, 12290]),
    (38160, [65, 73, 32, 35770, 28857, 36827, 20837, 21487, 35266, 23519, 21453, 35777]),
    (38170, [32, 24050, 36798, 21040, 32, 112, 97, 112, 101, 114, 32, 20505, 36873, 38376,
      27099, 12290, 32487, 32493, 30447, 21453, 35777, 20449, 21495, 65292, 32780, 19981,
      26159, 21482, 23547, 25214, 25903, 25345, 19978, 28072, 25110, 30408, 21033, 30340,
      35777, 25454, 12290]),
    (38200, [25171, 24320, 22238, 27979, 35777, 25454]),
    (38250, [28369, 28857]),
    (38251, [22238, 27979, 25910, 30410, 32]),
    (38252, [32, 19981, 33021, 20195, 34920, 23454, 30424, 65292, 38656, 32487, 32493, 39564,
      35777, 28369, 28857, 12289, 39057, 29575, 21644, 22238, 25764, 12290]),
    (38300, [112, 97, 112, 101, 114, 32, 26399, 38388, 25910, 30410, 12289, 22238, 25764,
      12289, 20132, 26131, 39057, 29575, 21644, 26032, 22686, 33286, 35770, 21464, 21270, 12290]),
    (38350, [112, 97, 112, 101, 114, 32, 35266, 23519, 26410, 23436, 25104, 21069, 65292,
      19981, 36827, 20837, 27979, 35797, 32593, 12290]),
    (38430, [32487, 32493, 25910, 38598, 21453, 35777]),
    (38440, [24403, 21069, 32, 65, 73, 32, 35770, 28857, 36824, 27809, 26377, 36275, 22815,
      35777, 25454, 25512, 36827, 12290, 32487, 32493, 35266, 23519, 24066, 22330, 12289,
      33286, 35770, 12289, 20154, 24615, 20559, 24046, 21644, 39564, 35777, 32467, 26524, 12290]),
    (38470, [20808, 39564, 35777, 32, 65, 73, 32, 34013, 22270]),
    (38500, [23578, 26080, 32, 112, 97, 112, 101, 114, 32, 20505, 36873, 12290]),
    (38501, [32570, 23569, 36275, 22815, 24378, 30340, 39564, 35777, 35777, 25454, 12290]),
    (38510, [31561, 24453, 26032, 22686, 24066, 22330, 12289, 33286, 35770, 21644, 38142,
      19978, 20449, 21495, 12290]),
    (38520, [27809, 26377, 39564, 35777, 32467, 26524, 21069, 65292, 19981, 36827, 20837, 32,
      112, 97, 112, 101, 114, 12290]),
    (38800, [24050, 21457, 36215, 32]),
    (39290, [21551, 21160, 32, 65, 73, 32, 26426, 20250, 38647, 36798]),
    (39320, [26368, 36817, 19968, 27425, 32, 65, 73, 32, 30446, 26631, 26159, 8220]),
    (39321, [26410, 21629, 21517, 30446, 26631]),
    (39322, [8221, 12290, 20808, 29992, 24403, 21069, 30446, 26631, 37325, 26032, 25195, 25551,
      65292, 24182, 33258, 21160, 36827, 20837, 23433, 20840, 39564, 35777, 12290]),
    (39330, [36824, 27809, 26377, 32, 65, 73, 32, 26426, 20250, 25195, 25551, 12290, 20808,
      36755, 20837, 30446, 26631, 25110, 36873, 25321, 27169, 26495, 65292, 35753, 32, 65, 73,
      32, 21516, 26102, 26816, 26597, 24066, 22330, 12289, 33286, 35770, 12289, 20154, 24615,
      22240, 32032, 24182, 36827, 20837, 23433, 20840, 39564, 35777, 12290]),
    (39331, [36755, 20837, 30446, 26631, 25110, 36873, 25321, 27169, 26495]),
    (39410, [24314, 35758, 21160, 20316]),
    (39420, [20998, 26512, 43, 39564, 35777]),
    (39430, [19981, 35302, 21457, 20132, 26131]),
    (39460, [35206, 30422, 33539, 22260]),
    (39470, [24066, 22330, 32, 47, 32, 33286, 35770, 32, 47, 32, 20154, 24615]),
    (39480, [30001, 32, 65, 73, 32, 30446, 26631, 20998, 26512, 29983, 25104]),
    (39510, [24403, 21069, 27809, 26377, 21487, 23637, 31034, 30340, 32, 65, 73, 32, 32467,
      35770]),
    (39520, [28857, 20987, 20998, 26512, 24182, 21551, 21160, 39564, 35777]),
    (39521, [31561, 24453, 22238, 27979, 32467, 26524, 21518, 20877, 36827, 20837, 32, 112, 97,
      112, 101, 114, 32, 20915, 31574]),
    (39530, [21551, 21160, 32, 65, 73, 32, 38647, 36798]),
    (39650, [32, 20010, 32467, 26524]),
    (39660, [32, 24453, 27979]),
    (39760, [26032, 38395, 32, 47, 32, 23439, 35266, 32, 47, 32, 38142, 19978, 32, 183, 32]),
    (39761, [32, 183, 32]),
    (39830, [24050, 35835, 21462, 22238, 27979, 29366, 24577]),
    (40120, [31561, 24453, 32, 65, 73, 32, 30446, 26631]),
    (40170, [36824, 27809, 26377, 32, 65, 73, 32, 20998, 26512, 32467, 26524, 12290]),
    (40200, [48, 32, 23436, 25104]),
    (40201, [31561, 24453, 32, 65, 73, 32, 34013, 22270]),
    (40210, [48, 32, 20449, 21495]),
    (40211, [32, 20449, 21495]),
    (40230, [36755, 20837, 30446, 26631, 24182, 21551, 21160, 32, 65, 73, 32, 20998, 26512]),
    (40240, [30495, 23454, 20132, 26131, 22987, 32456, 38656, 35201, 20154, 24037, 38392, 38376])]"

definition zh_table_12 :: "(nat \<times> jstr) list" where
  "zh_table_12 = [
    (40280, [65, 73, 32, 21487, 33258, 21160, 25195, 25551, 30446, 26631, 12289, 24066, 22330,
      12289, 33286, 35770, 12289, 23439, 35266, 21644, 38142, 19978, 19978, 19979, 25991, 12290]),
    (40290, [65, 73, 32, 21487, 29983, 25104, 31574, 30053, 34013, 22270, 12289, 35266, 23519,
      20449, 21495, 21644, 23433, 20840, 39564, 35777, 35745, 21010, 12290]),
    (40320, [20320, 38656, 35201, 36755, 20837, 36186, 38065, 30446, 26631, 21644, 39118,
      38505, 20559, 22909, 12290]),
    (40330, [30495, 23454, 20132, 26131, 22987, 32456, 38656, 35201, 20154, 24037, 30830,
      35748, 21644, 20132, 26131, 38392, 38376, 12290]),
    (40720, [25171, 24320, 25968, 25454, 19978, 19979, 25991]),
    (40800, [20027, 32593, 20173, 38656, 29420, 31435, 20154, 24037, 30830, 35748, 21644, 32,
      109, 97, 105, 110, 110, 101, 116, 32, 116, 111, 107, 101, 110, 32, 103, 97, 116, 101]),
    (40840, [20154, 24615, 47, 33286, 35770, 26816, 26597, 65306]),
    (40900, [65, 73, 32, 24050, 29983, 25104, 31574, 30053, 34013, 22270, 21644, 25191, 34892,
      36335, 24452, 12290]),
    (40901, [65, 73, 32, 24050, 29983, 25104, 31574, 30053, 34013, 22270]),
    (40920, [65, 73, 32, 24050, 35835, 21462, 24066, 22330, 12289, 33286, 35770, 12289, 23439,
      35266, 25110, 38142, 19978, 19978, 19979, 25991, 12290]),
    (40950, [32, 20010, 22238, 27979, 39564, 35777, 24050, 23436, 25104, 12290]),
    (40980, [112, 97, 112, 101, 114, 32, 35266, 23519, 24050, 23436, 25104, 12290]),
    (40981, [112, 97, 112, 101, 114, 32, 35266, 23519, 24050, 23436, 25104]),
    (41000, [112, 97, 112, 101, 114, 32, 35266, 23519, 24050, 26631, 35760, 23436, 25104,
      65292, 20294, 22797, 30424, 35777, 25454, 20173, 38656, 34917, 40784, 12290]),
    (41020, [112, 97, 112, 101, 114, 32, 20505, 36873, 24050, 37319, 29992, 65292, 20173,
      22312, 35266, 23519, 12290]),
    (41060, [32, 20010, 31574, 30053, 33609, 26696, 12290]),
    (41061, [65, 73, 32, 21487, 33258, 21160, 25209, 37327, 22238, 27979, 32]),
    (41080, [65, 73, 32, 21487, 32487, 32493, 35835, 21462, 22238, 27979, 36827, 24230, 24182,
      26356, 26032, 39564, 35777, 35780, 20998, 12290]),
    (41100, [65, 73, 32, 21487, 29983, 25104, 32, 112, 97, 112, 101, 114, 32, 35266, 23519,
      35745, 21010, 21644, 39044, 22635, 31574, 30053, 21442, 25968, 12290]),
    (41120, [65, 73, 32, 21487, 25171, 24320, 31574, 30053, 39044, 22635, 24182, 20934, 22791,
      27979, 35797, 32593, 21069, 26816, 26597, 12290]),
    (41140, [65, 73, 32, 21487, 25171, 24320, 30456, 20851, 39029, 38754, 65292, 24110, 21161,
      20320, 22797, 26680, 19979, 19968, 27493, 35777, 25454, 12290]),
    (41170, [65, 73, 32, 24403, 21069, 21482, 33021, 32487, 32493, 35266, 23519, 21644, 25972,
      29702, 35777, 25454, 65292, 19981, 33021, 25512, 36827, 25191, 34892, 12290]),
    (41200, [30495, 23454, 20132, 26131, 38656, 35201, 20154, 24037, 30830, 35748, 12289,
      32452, 21512, 38480, 39069, 21644, 20132, 26131, 38392, 38376, 12290]),
    (41220, [20154, 24615, 32, 47, 32, 33286, 35770, 39118, 38505, 38656, 35201, 20154, 24037,
      22797, 26680, 21518, 25165, 33021, 37319, 29992, 32, 112, 97, 112, 101, 114, 32, 20505,
      36873, 12290]),
    (41250, [25968, 25454, 19978, 19979, 25991, 32570, 21475, 38656, 35201, 30830, 35748,
      25110, 34917, 40784, 21518, 20877, 39564, 35777, 12290]),
    (41251, [25968, 25454, 19978, 19979, 25991, 32570, 21475]),
    (41280, [112, 97, 112, 101, 114, 32, 35266, 23519, 24517, 39035, 20154, 24037, 22797,
      30424, 23436, 25104, 21518, 25165, 20801, 35768, 36827, 20837, 27979, 35797, 32593,
      20505, 36873, 12290]),
    (41310, [20027, 32593, 32, 109, 97, 105, 110, 110, 101, 116, 32, 116, 111, 107, 101, 110,
      32, 103, 97, 116, 101, 12289, 107, 105, 108, 108, 32, 115, 119, 105, 116, 99, 104, 32,
      21644, 32452, 21512, 38480, 39069, 24517, 39035, 20154, 24037, 30830, 35748, 12290]),
    (41590, [32, 20010, 20154, 24615, 22240, 23376]),
    (41591, [26242, 26080, 34892, 20026, 22240, 23376]),
    (41620, [31561, 24453, 19979, 19968, 27493, 20154, 24037, 30830, 35748]),
    (41630, [22238, 27979, 12289, 112, 97, 112, 101, 114, 32, 35266, 23519, 21644, 20132,
      26131, 38392, 38376]),
    (41840, [36138, 23146]),
    (41850, [25243, 21806]),
    (41851, [20919, 21364]),
    (41852, [20302, 36855]),
    (41880, [20559, 28909]),
    (41890, [20559, 20919]),
    (41910, [20013, 24615]),
    (42100, [20808, 34917, 40784, 39118, 21521, 35777, 25454]),
    (42101, [39118, 21521, 35777, 25454]),
    (42120, [19978, 19979, 25991, 19981, 36275, 65292, 65, 73, 32, 39118, 21521, 21028, 26029,
      21482, 33021, 20316, 20026, 24369, 20449, 21495, 65292, 19981, 33021, 29992, 26469,
      25512, 36827, 25191, 34892, 12290]),
    (42140, [33286, 35770, 28201, 24230]),
    (42141, [31561, 24453, 26032, 38395, 47, 33286, 24773, 25968, 25454]),
    (42150, [65, 73, 32, 24050, 35782, 21035, 25968, 37327]),
    (42190, [31561, 24453, 19979, 19968, 27425, 32, 65, 73, 32, 38647, 36798, 25195, 25551]),
    (42200, [20808, 34917, 40784, 26032, 38395, 12289, 23439, 35266, 25110, 38142, 19978,
      25968, 25454, 65292, 20877, 35753, 32, 65, 73, 32, 37325, 26032, 25195, 25551, 12290]),
    (42490, [33286, 35770, 19982, 20154, 24615, 20559, 28909]),
    (42510, [24066, 22330, 24773, 32490, 20559, 20919]),
    (42520, [39118, 21521, 30456, 23545, 22343, 34913]),
    (42560, [65, 73, 32, 21457, 29616, 36861, 28072, 12289, 25317, 25380, 25110, 21465, 20107,
      36807, 28909, 36857, 35937, 65292, 36866, 21512, 20808, 35266, 23519, 21644, 32, 112, 97,
      112, 101, 114, 65292, 19981, 36866, 21512, 30452, 25509, 25918, 22823, 25191, 34892, 12290]),
    (42580, [65, 73, 32, 21457, 29616, 24656, 24908, 25110, 21334, 21387, 20449, 21495, 65292,
      26426, 20250, 38656, 35201, 31561, 24453, 30830, 35748, 65292, 20808, 38477, 20302,
      20179, 20301, 20551, 35774, 12290]),
    (42590, [65, 73, 32, 26410, 21457, 29616, 26126, 26174, 21333, 36793, 24773, 32490, 21387,
      21147, 65292, 32487, 32493, 20197, 22238, 27979, 21644, 32, 112, 97, 112, 101, 114, 32,
      35266, 23519, 39564, 35777, 12290]),
    (42610, [65, 73, 32, 24066, 22330, 21028, 26029]),
    (42620, [26242, 26080, 26126, 26174, 20559, 24046]),
    (42650, [26410, 35782, 21035, 21040, 26126, 30830, 20154, 24615, 25110, 24066, 22330,
      21387, 21147]),
    (42690, [31561, 24453, 35266, 23519, 20449, 21495, 19982, 20215, 26684, 32467, 26500,
      20849, 25391]),
    (42730, [32487, 32493, 35266, 23519, 65292, 19981, 22240, 21333, 19968, 21465, 20107,
      30452, 25509, 25512, 36827, 25191, 34892, 12290]),
    (42830, [31561, 24453, 32, 65, 73, 32, 32487, 32493, 35266, 23519, 12290]),
    (42840, [32487, 32493, 35266, 23519, 65292, 19981, 30452, 25509, 25512, 36827, 25191,
      34892, 12290]),
    (42950, [19978, 19979, 25991, 35777, 25454, 32]),
    (42980, [65, 73, 32, 24050, 35835, 21462, 35813, 19978, 19979, 25991, 35777, 25454, 12290]),
    (42990, [19982, 20215, 26684, 32467, 26500, 12289, 22238, 27979, 21644, 32, 112, 97, 112,
      101, 114, 32, 34920, 29616, 20849, 21516, 22797, 26680, 65292, 19981, 21333, 29420,
      35302, 21457, 25191, 34892, 12290]),
    (43080, [35266, 23519, 20449, 21495, 32]),
    (43170, [32435, 20837, 20170, 26085, 35266, 23519, 65292, 19981, 21333, 29420, 35302,
      21457, 25191, 34892, 12290]),
    (43300, [20986, 29616, 35813, 34892, 20026, 20559, 24046, 26102, 26242, 20572, 37319,
      29992, 25110, 38477, 20302, 32, 112, 97, 112, 101, 114, 32, 20179, 20301, 12290]),
    (43400, [27809, 26377, 23436, 25104, 19978, 19979, 25991, 12289, 22238, 27979, 21644,
      39118, 21521, 22797, 26680, 21069, 65292, 19981, 36827, 20837, 20132, 26131, 12290]),
    (43410, [20219, 20309, 20027, 32593, 21160, 20316, 37117, 24517, 39035, 31561, 24453,
      29420, 31435, 38392, 38376, 21644, 20154, 24037, 30830, 35748, 12290]),
    (43510, [65, 73, 32, 35266, 23519, 29366, 24577]),
    (43660, [31561, 24453, 35777, 25454]),
    (43810, [65, 73, 32, 24066, 22330, 35266, 23519, 22612, 24453, 21551, 21160]),
    (43840, [20808, 35753, 32, 65, 73, 32, 25195, 25551, 24066, 22330, 12289, 33286, 35770,
      12289, 23439, 35266, 12289, 38142, 19978, 21644, 20154, 24615, 20559, 24046, 65292,
      24418, 25104, 20170, 26085, 35266, 23519, 28165, 21333, 12290]),
    (43880, [31561, 24453, 32, 65, 73, 32, 24314, 31435, 35266, 23519, 38754]),
    (43950, [26032, 38395, 32, 47, 32, 33286, 35770, 39118, 21521]),
    (43980, [31561, 24453, 32, 65, 73, 32, 25195, 25551, 28909, 28857, 21465, 20107, 12289,
      25317, 25380, 24230, 21644, 31361, 21457, 39118, 38505, 12290]),
    (43990, [20808, 20570, 20170, 26085, 25195, 25551, 12290]),
    (44030, [23439, 35266, 21387, 21147]),
    (44060, [31561, 24453, 32, 65, 73, 32, 27719, 24635, 21033, 29575, 12289, 27969, 21160,
      24615, 21644, 39118, 38505, 20559, 22909, 21464, 21270, 12290]),
    (44140, [31561, 24453, 32, 65, 73, 32, 26816, 26597, 20132, 26131, 25152, 27969, 20837,
      12289, 38142, 19978, 27963, 36291, 24230, 25110, 31283, 23450, 24065, 21464, 21270, 12290]),
    (44190, [36755, 20837, 36186, 38065, 30446, 26631, 12290])]"

definition zh_table_13 :: "(nat \<times> jstr) list" where
  "zh_table_13 = [
    (44191, [31561, 24453, 32, 65, 73, 32, 29983, 25104, 31574, 30053, 34013, 22270, 21644,
      39564, 35777, 35745, 21010, 12290]),
    (44450, [21047, 26032, 32, 65, 73, 32, 38647, 36798, 25110, 34917, 40784, 25968, 25454,
      28304, 21518, 20877, 25512, 36827, 12290]),
    (44510, [32570, 23569, 24066, 22330, 19978, 19979, 25991]),
    (44540, [26032, 38395, 12289, 23439, 35266, 21644, 38142, 19978, 19978, 19979, 25991,
      22343, 20026, 31354, 12290]),
    (44610, [20808, 34917, 40784, 32, 65, 73, 32, 35266, 23519, 35777, 25454]),
    (44620, [24403, 21069, 24066, 22330, 32, 47, 32, 33286, 35770, 32, 47, 32, 38142, 19978,
      35777, 25454, 19981, 36275, 65292, 65, 73, 32, 21482, 33021, 35266, 23519, 65292, 19981,
      33021, 37319, 29992, 20505, 36873, 25110, 25512, 36827, 25191, 34892, 12290]),
    (44660, [25968, 25454, 32570, 21475, 26410, 34917, 40784, 21069, 65292, 19981, 37319,
      29992, 20219, 20309, 32, 112, 97, 112, 101, 114, 32, 20505, 36873, 12290]),
    (44670, [37325, 26032, 25195, 25551, 20170, 26085, 24066, 22330, 19978, 19979, 25991, 12290]),
    (44671, [30830, 35748, 26032, 38395, 12289, 23439, 35266, 25110, 38142, 19978, 25968,
      25454, 24050, 22238, 22635, 12290]),
    (44672, [21047, 26032, 21518, 20877, 27604, 36739, 32, 65, 73, 32, 34013, 22270, 12290]),
    (44760, [35266, 23519, 22238, 27979, 39564, 35777, 36827, 24230]),
    (44770, [32, 20010, 32, 65, 73, 32, 33609, 26696, 20173, 22312, 39564, 35777, 20013, 65292,
      20808, 31561, 24453, 32467, 26524, 65292, 19981, 25552, 21069, 37319, 29992, 32, 112, 97,
      112, 101, 114, 32, 20505, 36873, 12290]),
    (44880, [31561, 24453, 22238, 27979, 32456, 24577, 21518, 20877, 21028, 26029, 32, 112, 97,
      112, 101, 114, 32, 20505, 36873, 12290]),
    (44920, [22238, 27979, 26410, 23436, 25104, 21069, 65292, 19981, 37319, 29992, 32, 112, 97,
      112, 101, 114, 32, 20505, 36873, 12290]),
    (44930, [31561, 24453, 22238, 27979, 36827, 24230, 33258, 21160, 21047, 26032, 12290]),
    (45030, [20808, 30447, 32039, 33286, 35770, 21644, 20154, 24615, 39118, 38505]),
    (45040, [32, 24050, 36798, 21040, 32, 112, 97, 112, 101, 114, 32, 20505, 36873, 65292,
      20294, 32]),
    (45041, [65307, 37319, 29992, 21069, 20808, 22797, 26680, 39118, 21521, 12289, 25317,
      25380, 24230, 21644, 34892, 20026, 20559, 24046, 12290]),
    (45170, [22797, 26680, 21518, 20877, 20915, 23450, 26159, 21542, 38477, 20302, 32, 112, 97,
      112, 101, 114, 32, 20179, 20301, 12290]),
    (45220, [25171, 24320, 26032, 38395, 21644, 33286, 24773, 35777, 25454, 12290]),
    (45221, [30830, 35748, 26159, 21542, 38477, 20302, 32, 112, 97, 112, 101, 114, 32, 20179,
      20301, 12290]),
    (45222, [20154, 24037, 26631, 35760, 39118, 21521, 22797, 26680, 23436, 25104, 21518,
      20877, 37319, 29992, 12290]),
    (45310, [65, 73, 32, 112, 97, 112, 101, 114, 32, 35266, 23519, 22612]),
    (45320, [32, 26159, 24403, 21069, 32, 112, 97, 112, 101, 114, 32, 20505, 36873, 65292,
      32487, 32493, 30447, 24066, 22330, 20449, 21495, 12289, 22238, 25764, 12289, 33286,
      35770, 21464, 21270, 21644, 25191, 34892, 25705, 25830, 12290]),
    (45380, [112, 97, 112, 101, 114, 32, 22238, 25764, 36229, 36807, 32]),
    (45381, [32, 26102, 26242, 20572, 35266, 23519, 12290]),
    (45390, [23433, 20840, 38392, 38376, 26410, 28385, 36275, 65306]),
    (45420, [35760, 24405, 32, 50, 52, 45, 55, 50, 32, 23567, 26102, 32, 112, 97, 112, 101,
      114, 32, 34920, 29616, 12290]),
    (45421, [22797, 26680, 26032, 22686, 26032, 38395, 12289, 23439, 35266, 12289, 38142,
      19978, 21644, 33286, 24773, 21464, 21270, 12290]),
    (45422, [26410, 23436, 25104, 35266, 23519, 21069, 19981, 36827, 20837, 27979, 35797,
      32593, 12290]),
    (45490, [65, 73, 32, 35266, 23519, 36335, 24452]),
    (45500, [32, 35266, 23519, 22612, 20250, 32487, 32493, 25226, 24066, 22330, 12289, 33286,
      35770, 21644, 39564, 35777, 32467, 26524, 20316, 20026, 25191, 34892, 21069, 35777,
      25454, 12290]),
    (45590, [32487, 32493, 35266, 23519, 32, 65, 73, 32, 32473, 20986, 30340, 24066, 22330,
      20449, 21495, 12290]),
    (45591, [34917, 20805, 39564, 35777, 35777, 25454, 21518, 20877, 25512, 36827, 12290]),
    (45780, [36824, 27809, 26377, 21487, 22797, 30424, 30340, 32, 65, 73, 32, 30446, 26631,
      36816, 34892, 12290]),
    (46000, [24050, 23436, 25104, 30446, 26631, 20998, 26512]),
    (46070, [19978, 19979, 25991, 23384, 22312, 32570, 21475]),
    (46071, [19978, 19979, 25991, 24050, 27719, 24635]),
    (46190, [31561, 24453, 23433, 20840, 39564, 35777]),
    (46200, [36824, 27809, 26377, 22238, 27979, 35777, 25454, 65292, 19981, 33021, 36827,
      20837, 32, 112, 97, 112, 101, 114, 32, 25110, 27979, 35797, 32593, 12290]),
    (46280, [22238, 27979, 39564, 35777, 36827, 34892, 20013]),
    (46281, [22238, 27979, 39564, 35777, 24050, 35835, 21462]),
    (46430, [34917, 40784, 32, 80, 97, 112, 101, 114, 32, 22797, 30424, 35777, 25454]),
    (46460, [80, 97, 112, 101, 114, 32, 35266, 23519, 36827, 34892, 20013]),
    (46480, [112, 97, 112, 101, 114, 32, 24050, 26631, 35760, 23436, 25104, 65292, 20294,
      22797, 30424, 35777, 25454, 19981, 36275, 65307, 34917, 40784, 24066, 22330, 39118,
      21521, 12289, 33286, 35770, 12289, 20154, 24615, 20559, 24046, 21644, 25191, 34892,
      25705, 25830, 12290]),
    (46490, [25353, 32, 65, 73, 32, 35266, 23519, 35745, 21010, 36319, 36394, 32, 50, 52, 45,
      55, 50, 32, 23567, 26102, 12290]),
    (46600, [20027, 32593, 34987, 23433, 20840, 38392, 38376, 25318, 25130]),
    (46601, [25191, 34892, 38392, 38376, 24453, 30830, 35748]),
    (46620, [65, 73, 32, 19981, 33021, 30452, 25509, 25512, 36827, 20027, 32593, 65307, 20173,
      38656, 32, 109, 97, 105, 110, 110, 101, 116, 32, 116, 111, 107, 101, 110, 32, 103, 97,
      116, 101, 12289, 32452, 21512, 38480, 39069, 21644, 20154, 24037, 30830, 35748, 12290]),
    (46630, [24403, 21069, 26368, 39640, 25353, 32]),
    (46631, [32, 36335, 24452, 25512, 36827, 65292, 30495, 23454, 20132, 26131, 21069, 20173,
      38656, 20154, 24037, 38392, 38376, 12290]),
    (46890, [27491, 22312, 30830, 35748, 30495, 23454, 32, 65, 73, 32, 112, 114, 111, 118, 105,
      100, 101, 114, 32, 29366, 24577, 65292, 30830, 35748, 21069, 19981, 20250, 21551, 21160,
      20170, 26085, 38647, 36798, 12290]),
    (46940, [20170, 26085, 32, 65, 73, 32, 20219, 21153]),
    (47000, [30830, 35748, 32, 65, 73, 32, 112, 114, 111, 118, 105, 100, 101, 114, 32, 29366,
      24577]),
    (47020, [31561, 24453, 32, 65, 73, 32, 112, 114, 111, 118, 105, 100, 101, 114, 32, 29366,
      24577, 36820, 22238, 65307, 22914, 26524, 38271, 26102, 38388, 26410, 36820, 22238,
      65292, 25171, 24320, 32, 65, 73, 32, 35774, 32622, 39029, 26816, 26597, 37197, 32622,
      12290]),
    (47430, [25171, 24320, 32, 65, 73, 32, 36816, 34892]),
    (47710, [20808, 35753, 32, 65, 73, 32, 33258, 21160, 34917, 20840, 36186, 38065, 30446,
      26631, 65292, 25195, 25551, 20170, 26085, 24066, 22330, 12289, 33286, 35770, 12289,
      23439, 35266, 12289, 38142, 19978, 21644, 20154, 24615, 20559, 24046, 65292, 20877,
      36827, 20837, 39564, 35777, 12290]),
    (48010, [34917, 40784, 25968, 25454, 19978, 19979, 25991]),
    (48270, [25209, 37327, 22238, 27979, 32, 65, 73, 32, 29983, 25104, 30340, 21487, 20132,
      26131, 33609, 26696, 65292, 20808, 30475, 25910, 30410, 12289, 22238, 25764, 12289,
      22799, 26222, 21644, 20132, 26131, 27425, 25968, 12290]),
    (48870, [20445, 23384, 32, 112, 97, 112, 101, 114, 32, 31574, 30053, 33609, 26696]),
    (48900, [20808, 25171, 24320, 32, 65, 73, 32, 39044, 22635, 31574, 30053, 65292, 20445,
      23384, 20026, 32, 112, 97, 112, 101, 114, 32, 35266, 23519, 23545, 35937, 12290]),
    (49130, [22797, 26680, 35266, 23519, 20449, 21495]),
    (49280, [22797, 26680, 23433, 20840, 38392, 38376]),
    (49740, [25171, 24320, 19979, 19968, 27493]),
    (50080, [23436, 25104, 39118, 21521, 32, 47, 32, 20154, 24615, 22797, 26680]),
    (51350, [30830, 35748, 30495, 23454, 32, 65, 73, 32, 112, 114, 111, 118, 105, 100, 101,
      114, 32, 21069, 65292, 19981, 20250, 21551, 21160, 32, 102, 97, 108, 108, 98, 97, 99,
      107, 32, 25195, 25551, 12289, 33258, 21160, 39564, 35777, 25110, 20219, 20309, 20132,
      26131, 21160, 20316, 12290]),
    (51370, [65, 73, 32, 112, 114, 111, 118, 105, 100, 101, 114, 32, 29366, 24577, 20173,
      22312, 35835, 21462, 12290]),
    (51371, [65, 73, 32, 112, 114, 111, 118, 105, 100, 101, 114, 32, 24403, 21069, 19981,
      21487, 29992, 12290]),
    (51380, [20808, 30830, 35748, 30495, 23454, 32, 65, 73, 65292, 20877, 35753, 31995, 32479,
      35835, 21462, 24066, 22330, 12289, 33286, 35770, 12289, 23439, 35266, 21644, 38142,
      19978, 29366, 24577, 12290]),
    (51400, [20320, 23436, 25104, 32, 65, 73, 32, 112, 114, 111, 118, 105, 100, 101, 114, 32,
      37197, 32622, 25110, 31561, 24453, 29366, 24577, 21464, 20026, 32, 114, 101, 97, 100,
      121, 32, 21518, 65292, 65, 73, 32, 25165, 33021, 24320, 22987, 33258, 21160, 29983,
      25104, 30446, 26631, 12290]),
    (51420, [34917, 40784, 32, 112, 114, 111, 118, 105, 100, 101, 114, 32, 65, 80, 73, 32, 107,
      101, 121, 12290]),
    (51440, [22238, 21040, 32, 65, 73, 32, 77, 111, 110, 101, 121, 32, 21518, 37325, 26032,
      25195, 25551, 20170, 26085, 26426, 20250, 12290]),
    (51660, [29616, 22312, 35753, 32, 65, 73, 32, 33258, 21160, 29983, 25104, 30446, 26631]),
    (51760, [36824, 27809, 26377, 24403, 21069, 32, 65, 73, 32, 30446, 26631, 20998, 26512,
      12290]),
    (51770, [65, 73, 32, 36127, 36131, 34917, 20840, 30446, 26631, 12289, 25195, 25551, 35777,
      25454, 12289, 29983, 25104, 34013, 22270, 24182, 21551, 21160, 39564, 35777, 65307,
      20320, 30830, 35748, 39118, 38505, 36793, 30028, 12290]),
    (51790, [33258, 21160, 34917, 20840, 36186, 38065, 30446, 26631, 21644, 35266, 23519,
      26631, 30340, 12290]),
    (51800, [29983, 25104, 31574, 30053, 34013, 22270, 21518, 20808, 36305, 22238, 27979, 12290]),
    (51810, [36890, 36807, 21518, 21482, 36827, 20837, 32, 112, 97, 112, 101, 114, 32, 35266,
      23519, 65292, 19981, 36827, 20027, 32593, 12290]),
    (51930, [112, 97, 112, 101, 114, 32, 24050, 26631, 35760, 23436, 25104, 65292, 20294,
      22797, 30424, 35777, 25454, 19981, 36275, 65307, 38656, 35201, 20808, 34917, 40784,
      24066, 22330, 39118, 21521, 12289, 33286, 35770, 12289, 20154, 24615, 20559, 24046,
      12289, 25191, 34892, 25705, 25830, 21644, 22238, 25764, 34920, 29616, 12290]),
    (52000, [22797, 30424, 35777, 25454, 19981, 36275, 21069, 19981, 20250, 36827, 20837,
      27979, 35797, 32593, 25110, 20027, 32593, 12290])]"

definition zh_table_14 :: "(nat \<times> jstr) list" where
  "zh_table_14 = [
    (52020, [24050, 26377, 32, 112, 97, 112, 101, 114, 95, 119, 97, 116, 99, 104, 32, 23436,
      25104, 26631, 35760, 12290]),
    (52030, [23436, 25104, 22791, 27880, 27809, 26377, 35206, 30422, 32, 50, 52, 45, 55, 50,
      32, 23567, 26102, 22797, 30424, 35777, 25454, 12290]),
    (52050, [20320, 34917, 40784, 22797, 30424, 35777, 25454, 21518, 65292, 65, 73, 32, 25165,
      33021, 32487, 32493, 21028, 26029, 26159, 21542, 36827, 20837, 27979, 35797, 32593,
      20505, 36873, 12290]),
    (52070, [35760, 24405, 32, 50, 52, 45, 55, 50, 32, 23567, 26102, 32, 112, 97, 112, 101,
      114, 32, 35266, 23519, 31383, 21475, 12290]),
    (52090, [20173, 19981, 20801, 35768, 30452, 25509, 36827, 20837, 20027, 32593, 12290]),
    (52310, [21482, 21019, 24314, 22238, 27979, 39564, 35777, 20219, 21153, 65292, 19981,
      20250, 19979, 21333, 12290]),
    (52330, [38656, 35201, 20154, 24037, 21028, 26029, 24066, 22330, 39118, 21521, 12289,
      33286, 35770, 21644, 20154, 24615, 20559, 24046, 65307, 23436, 25104, 21518, 32, 65, 73,
      32, 25165, 32487, 32493, 32, 112, 97, 112, 101, 114, 12290]),
    (52340, [65, 73, 32, 21482, 25512, 36827, 23433, 20840, 21160, 20316, 65307, 30495, 23454,
      20132, 26131, 20173, 38656, 20154, 24037, 38392, 38376, 12290]),
    (52530, [65, 73, 32, 24050, 20934, 22791, 22909, 25191, 34892, 23433, 20840, 20195, 21150,
      65307, 20320, 21482, 38656, 35201, 30830, 35748, 26159, 21542, 32487, 32493, 12290]),
    (52540, [36825, 19968, 27493, 38656, 35201, 20154, 24037, 21028, 26029, 21518, 65292, 65,
      73, 32, 25165, 33021, 32487, 32493, 25512, 36827, 12290]),
    (54270, [12290, 35266, 23519, 65306]),
    (54271, [12290, 20808, 36827, 20837, 32, 112, 97, 112, 101, 114, 32, 35266, 23519, 65292,
      19981, 36827, 20837, 23454, 30424, 12290]),
    (55310, [120, 65292, 26085, 20111, 25439, 19978, 38480, 32]),
    (55311, [65292, 26085, 20111, 25439, 19978, 38480, 32]),
    (55320, [32570, 23569, 23436, 25972, 32, 114, 105, 115, 107, 67, 97, 112, 115, 65292,
      20445, 23384, 25110, 37319, 29992, 21069, 24517, 39035, 20154, 24037, 34917, 40784,
      20179, 20301, 12289, 26464, 26438, 21644, 26085, 20111, 25439, 19978, 38480, 12290]),
    (55390, [32, 112, 97, 112, 101, 114, 32, 37319, 29992, 21253]),
    (55400, [32, 24050, 36798, 21040, 32, 112, 97, 112, 101, 114, 32, 20505, 36873, 26465,
      20214, 65292, 35780, 20998, 32]),
    (55401, [12290, 20808, 20445, 23384, 31574, 30053, 33609, 26696, 24182, 24314, 31435, 32,
      50, 52, 45, 55, 50, 32, 23567, 26102, 32, 112, 97, 112, 101, 114, 32, 35266, 23519,
      65292, 19981, 20250, 33258, 21160, 19979, 21333, 12290]),
    (55402, [20445, 23384, 31574, 30053, 33609, 26696]),
    (55500, [37319, 29992, 32, 112, 97, 112, 101, 114, 32, 35266, 23519]),
    (55540, [24050, 20445, 23384, 32, 65, 73, 32, 31574, 30053]),
    (55620, [65, 73, 32, 31574, 30053, 33609, 26696, 24050, 20445, 23384, 65292, 21487, 32487,
      32493, 32, 112, 97, 112, 101, 114, 32, 35266, 23519, 12290]),
    (55630, [25226, 32, 65, 73, 32, 29983, 25104, 30340, 21442, 25968, 20445, 23384, 20026,
      31574, 30053, 33609, 26696, 65307, 20445, 23384, 19981, 20250, 24320, 21551, 32, 108,
      105, 118, 101, 65292, 20063, 19981, 20250, 19979, 21333, 12290]),
    (55700, [20851, 32852, 22238, 27979, 32]),
    (55701, [65292, 36827, 20837, 32, 50, 52, 45, 55, 50, 32, 23567, 26102, 35266, 23519,
      65292, 35760, 24405, 24066, 22330, 39118, 21521, 12289, 33286, 35770, 12289, 20154,
      24615, 20559, 24046, 21644, 25191, 34892, 25705, 25830, 12290]),
    (55770, [112, 97, 112, 101, 114, 32, 35266, 23519, 12289, 22797, 30424, 35777, 25454,
      12289, 32452, 21512, 38480, 39069, 21644, 20154, 24037, 38392, 38376, 26410, 28385,
      36275, 21069, 65292, 19981, 36827, 20837, 27979, 35797, 32593, 25110, 20027, 32593, 12290]),
    (55820, [37319, 29992, 32, 112, 97, 112, 101, 114, 32, 20505, 36873, 19981, 20250, 33258,
      21160, 19979, 21333, 12290]),
    (55830, [20445, 23384, 31574, 30053, 33609, 26696, 19981, 20250, 24320, 21551, 32, 108,
      105, 118, 101, 12290]),
    (55840, [26410, 23436, 25104, 32, 50, 52, 45, 55, 50, 32, 23567, 26102, 32, 112, 97, 112,
      101, 114, 32, 35266, 23519, 21644, 22797, 30424, 35777, 25454, 21069, 65292, 19981,
      36827, 20837, 27979, 35797, 32593, 25110, 20027, 32593, 12290]),
    (56030, [31561, 24453, 32, 65, 73, 32, 39564, 35777, 20505, 36873]),
    (56050, [36824, 27809, 26377, 36798, 21040, 32, 112, 97, 112, 101, 114, 32, 26465, 20214,
      30340, 22238, 27979, 20505, 36873, 65292, 26242, 19981, 20570, 20179, 20301, 35745,
      21010, 12290]),
    (56110, [31561, 24453, 32, 112, 97, 112, 101, 114, 32, 20505, 36873]),
    (56111, [24314, 35758, 20179, 20301]),
    (56120, [31561, 24453, 32, 114, 105, 115, 107, 67, 97, 112, 115]),
    (56130, [39118, 38505, 25240, 25187]),
    (56150, [27809, 26377, 22238, 27979, 35777, 25454, 21069, 65292, 19981, 20998, 37197, 32,
      112, 97, 112, 101, 114, 47, 116, 101, 115, 116, 110, 101, 116, 32, 20179, 20301, 12290]),
    (56160, [20808, 23436, 25104, 32, 65, 73, 32, 22238, 27979, 39564, 35777, 65292, 31579,
      20986, 32, 112, 97, 112, 101, 114, 32, 20505, 36873, 12290]),
    (56161, [20808, 23436, 25104, 32, 65, 73, 32, 22238, 27979]),
    (56270, [20808, 22797, 26680, 39118, 21521, 20877, 20998, 37197, 36164, 37329]),
    (56290, [65292, 20808, 30830, 35748, 33286, 35770, 21644, 20154, 24615, 39118, 38505,
      65292, 20877, 32473, 32, 112, 97, 112, 101, 114, 32, 20179, 20301, 12290]),
    (56360, [31561, 24453, 39118, 21521, 22797, 26680]),
    (56400, [39118, 21521, 32, 47, 32, 20154, 24615, 22797, 26680, 26410, 23436, 25104, 21069,
      65292, 19981, 20998, 37197, 32, 112, 97, 112, 101, 114, 32, 20179, 20301, 12290]),
    (56410, [23436, 25104, 39118, 21521, 32, 47, 32, 20154, 24615, 22797, 26680, 65292, 20877,
      35753, 32, 65, 73, 32, 29983, 25104, 32, 112, 97, 112, 101, 114, 32, 115, 105, 122, 105,
      110, 103, 12290]),
    (56550, [36164, 37329, 35745, 21010]),
    (56551, [65, 73, 32, 112, 97, 112, 101, 114, 32, 36164, 37329, 35745, 21010]),
    (56570, [24314, 35758, 20808, 29992, 32]),
    (56571, [32, 112, 97, 112, 101, 114, 32, 20179, 20301, 35266, 23519, 65292, 26085, 20111,
      25439, 19978, 38480, 32]),
    (56572, [65292, 26410, 36890, 36807, 35266, 23519, 21069, 19981, 36827, 20837, 30495,
      23454, 36164, 37329, 12290]),
    (56620, [37319, 29992, 32, 112, 97, 112, 101, 114, 32, 35745, 21010]),
    (56640, [19981, 36229, 36807, 32, 65, 73, 32, 114, 105, 115, 107, 67, 97, 112, 115, 32]),
    (56650, [20302, 20110, 32, 114, 105, 115, 107, 67, 97, 112, 115, 32]),
    (56660, [32, 47, 32, 35780, 20998, 32]),
    (56690, [26368, 22823, 26464, 26438, 19981, 36229, 36807, 32]),
    (56691, [120, 12290]),
    (56700, [32, 25110, 26085, 20111, 25439, 36229, 36807, 32]),
    (56701, [32, 26102, 26242, 20572, 12290]),
    (56710, [21482, 29992, 20110, 32, 112, 97, 112, 101, 114, 47, 116, 101, 115, 116, 110, 101,
      116, 32, 35266, 23519, 65292, 19981, 33258, 21160, 25552, 20132, 30495, 23454, 35746,
      21333, 12290]),
    (56740, [29992, 39044, 22635, 31574, 30053, 22797, 26680, 21442, 25968, 21644, 32, 114,
      105, 115, 107, 67, 97, 112, 115, 12290]),
    (56750, [23436, 25104, 32, 50, 52, 45, 55, 50, 32, 23567, 26102, 32, 112, 97, 112, 101,
      114, 32, 35266, 23519, 21518, 20877, 32771, 34385, 27979, 35797, 32593, 12290]),
    (56910, [32, 24050, 21442, 19982, 21028, 26029, 12290]),
    (56960, [65292, 21160, 20316, 65306]),
    (56980, [19978, 19979, 25991, 32570, 21475, 65306]),
    (57040, [114, 105, 115, 107, 67, 97, 112, 115, 58, 32, 26368, 22823, 20179, 20301, 32]),
    (57060, [32570, 23569, 32, 65, 73, 32, 114, 105, 115, 107, 67, 97, 112, 115, 65292, 24517,
      39035, 20154, 24037, 34917, 40784, 20179, 20301, 12289, 26464, 26438, 21644, 26085,
      20111, 25439, 19978, 38480, 12290]),
    (57090, [21482, 35266, 23519, 33609, 26696, 19981, 33021, 22238, 27979, 65292, 20063,
      19981, 33021, 39044, 22635, 20132, 26131, 31574, 30053, 12290]),
    (57100, [34917, 40784, 19978, 19979, 25991, 32570, 21475, 21518, 20877, 25512, 36827,
      39564, 35777, 12290]),
    (57140, [20808, 36816, 34892, 22238, 27979, 39564, 35777, 25910, 30410, 12289, 22238,
      25764, 12289, 22799, 26222, 21644, 20132, 26131, 25968, 12290]),
    (57150, [36890, 36807, 39118, 21521, 32, 47, 32, 20154, 24615, 22797, 26680, 21518, 65292,
      21482, 37319, 29992, 20026, 32, 112, 97, 112, 101, 114, 32, 20505, 36873, 12290]),
    (57180, [34917, 40784, 25968, 25454, 25110, 37325, 26032, 29983, 25104, 21487, 22238,
      27979, 33609, 26696, 12290]),
    (57190, [21482, 29992, 20110, 35266, 23519, 20449, 21495, 65292, 19981, 36827, 20837,
      20132, 26131, 25191, 34892, 12290]),
    (57240, [32, 35777, 25454, 25688, 35201]),
    (57260, [65292, 26464, 26438, 19981, 36229, 36807, 32]),
    (57261, [65307, 65, 73, 32, 114, 105, 115, 107, 67, 97, 112, 115, 32, 23558, 21333, 31574,
      30053, 20179, 20301, 38480, 21046, 22312, 32]),
    (57270, [65307, 32570, 23569, 23436, 25972, 32, 114, 105, 115, 107, 67, 97, 112, 115,
      65292, 19981, 33021, 30452, 25509, 36827, 20837, 25191, 34892, 12290]),
    (57340, [26242, 26080, 20154, 24615, 22240, 23376]),
    (57560, [32570, 23569, 32, 65, 73, 32, 31574, 30053, 33609, 26696, 65292, 19981, 33021,
      21019, 24314, 31574, 30053, 12290]),
    (57590, [35813, 33609, 26696, 26159, 21482, 35266, 23519, 20449, 21495, 25110, 19981,
      21487, 22238, 27979, 33609, 26696, 65292, 38656, 35201, 32, 65, 73, 32, 37325, 26032,
      29983, 25104, 21487, 25191, 34892, 31574, 30053, 12290]),
    (57620, [32570, 23569, 23436, 25972, 32, 114, 105, 115, 107, 67, 97, 112, 115, 65292,
      24517, 39035, 20808, 34917, 40784, 26368, 22823, 20179, 20301, 12289, 26368, 22823,
      26464, 26438, 21644, 26085, 20111, 25439, 19978, 38480, 12290]),
    (57730, [32, 47, 32, 26368, 22823, 26464, 26438, 32]),
    (57731, [32, 47, 32, 26085, 20111, 25439, 32])]"

definition zh_table_15 :: "(nat \<times> jstr) list" where
  "zh_table_15 = [
    (57780, [32, 21487, 21019, 24314, 20026, 31574, 30053, 33609, 26696]),
    (57781, [32, 26242, 19981, 33021, 21019, 24314, 31574, 30053]),
    (57810, [65, 73, 32, 24050, 25226, 20132, 26131, 21442, 25968, 21644, 32, 114, 105, 115,
      107, 67, 97, 112, 115, 32, 25972, 29702, 25104, 32, 47, 111, 112, 116, 105, 111, 110, 32,
      21487, 39044, 22635, 37197, 32622, 65307, 21487, 20197, 20808, 20445, 23384, 20026,
      33609, 26696, 65292, 36134, 25143, 21644, 20973, 35777, 31245, 21518, 20877, 32465,
      23450, 12290]),
    (57820, [36825, 20010, 33609, 26696, 36824, 19981, 33021, 36827, 20837, 31574, 30053,
      21019, 24314, 39029, 65292, 20808, 22788, 29702, 38459, 22622, 39033, 25110, 37325,
      26032, 36816, 34892, 32, 65, 73, 32, 20998, 26512, 12290]),
    (57890, [20132, 26131, 23545]),
    (58010, [21019, 24314, 31574, 30053, 19981, 20250, 33258, 21160, 19979, 21333]),
    (58070, [20132, 26131, 23545, 32]),
    (58071, [65292, 31574, 30053, 21517, 32]),
    (58080, [120, 65292, 35746, 21333, 32452, 20445, 35777, 37329, 32]),
    (58090, [27490, 30408, 32]),
    (58091, [65292, 27490, 25439, 32]),
    (58110, [65, 73, 32, 36824, 27809, 26377, 32473, 20986, 21487, 20445, 23384, 30340, 20132,
      26131, 21442, 25968, 12290]),
    (58200, [31245, 21518, 32465, 23450, 20132, 26131, 25152, 36134, 25143, 65307, 23494,
      38053, 19981, 20250, 30001, 32, 65, 73, 32, 33258, 21160, 29983, 25104, 25110, 33258,
      21160, 20445, 23384, 12290]),
    (58210, [20154, 24037, 22797, 26680, 20132, 26131, 21442, 25968, 12289, 114, 105, 115, 107,
      67, 97, 112, 115, 32, 21644, 20998, 25209, 24320, 20179, 27604, 20363, 12290]),
    (58220, [21019, 24314, 21518, 20808, 20445, 25345, 32, 108, 105, 118, 101, 32, 20851,
      38381, 65292, 23436, 25104, 32, 112, 97, 112, 101, 114, 47, 116, 101, 115, 116, 110, 101,
      116, 32, 35266, 23519, 21518, 20877, 32771, 34385, 24320, 21551, 12290]),
    (58250, [35753, 32, 65, 73, 32, 37325, 26032, 29983, 25104, 21487, 22238, 27979, 12289,
      24102, 23436, 25972, 32, 114, 105, 115, 107, 67, 97, 112, 115, 32, 30340, 31574, 30053,
      33609, 26696, 12290]),
    (58260, [19981, 35201, 25226, 21482, 35266, 23519, 20449, 21495, 30452, 25509, 20445,
      23384, 25104, 20132, 26131, 31574, 30053, 12290]),
    (59060, [31561, 24453, 32, 65, 73, 32, 29983, 25104, 25191, 34892, 36335, 24452]),
    (59070, [20808, 35753, 32, 65, 73, 32, 20998, 26512, 30446, 26631, 24182, 29983, 25104,
      33609, 26696, 65292, 26242, 19981, 20855, 22791, 32, 112, 97, 112, 101, 114, 47, 116,
      101, 115, 116, 110, 101, 116, 32, 25512, 36827, 26465, 20214, 12290]),
    (59100, [20808, 20998, 26512, 30446, 26631]),
    (59120, [26410, 26816, 26597]),
    (59121, [31561, 24453, 36134, 25143, 35835, 21462]),
    (59150, [32570, 23569, 32, 65, 73, 32, 20998, 26512, 32467, 26524, 12290]),
    (59190, [65, 73, 32, 24050, 29983, 25104, 30446, 26631, 20998, 26512, 21644, 31574, 30053,
      33609, 26696, 12290]),
    (59210, [24066, 22330, 32, 47, 32, 33286, 35770, 32, 47, 32, 38142, 19978, 19978, 19979,
      25991, 19981, 36275, 65292, 20808, 21047, 26032, 32, 65, 73, 32, 38647, 36798, 12290]),
    (59230, [24066, 22330, 12289, 33286, 35770, 25110, 38142, 19978, 19978, 19979, 25991,
      24050, 21442, 19982, 21028, 26029, 12290]),
    (59270, [23578, 26080, 23436, 25104, 30340, 22238, 27979, 39564, 35777, 12290]),
    (59330, [36824, 27809, 26377, 36798, 21040, 32, 112, 97, 112, 101, 114, 32, 26465, 20214,
      30340, 20505, 36873, 31574, 30053, 12290]),
    (59350, [112, 97, 112, 101, 114, 32, 20505, 36873, 32]),
    (59351, [32, 24050, 31579, 20986, 12290]),
    (59390, [39118, 21521, 32, 47, 32, 20154, 24615, 39118, 38505, 26410, 22797, 26680, 23436,
      25104, 12290]),
    (59410, [39118, 21521, 32, 47, 32, 20154, 24615, 22797, 26680, 24050, 28385, 36275, 12290]),
    (59460, [20840, 23616, 20132, 26131, 24050, 26242, 20572]),
    (59500, [32452, 21512, 38480, 39069, 26410, 35774, 32622, 65292, 19981, 33021, 35753, 32,
      65, 73, 32, 25512, 36827, 21040, 25191, 34892, 26816, 26597, 12290]),
    (59501, [32452, 21512, 38480, 39069, 26410, 35774, 32622]),
    (59540, [32570, 23569, 21487, 20132, 26131, 19988, 26080, 25552, 29616, 26435, 38480,
      30340, 36134, 25143, 12290]),
    (59560, [36134, 25143, 21015, 34920]),
    (59561, [21518, 31471, 25191, 34892, 24555, 29031]),
    (59570, [32, 20010, 21487, 20132, 26131, 36134, 25143, 21487, 29992, 20110, 27979, 35797,
      32593, 21069, 26816, 26597, 65288]),
    (59571, [65289, 12290]),
    (59600, [32, 20010, 24102, 25552, 29616, 26435, 38480, 36134, 25143, 24050, 25490, 38500,
      22312, 23433, 20840, 25191, 34892, 36134, 25143, 20043, 22806, 12290]),
    (59640, [112, 97, 112, 101, 114, 32, 35266, 23519, 23578, 26410, 37319, 29992, 12290]),
    (59660, [112, 97, 112, 101, 114, 32, 35266, 23519, 23578, 26410, 26631, 35760, 23436,
      25104, 12290]),
    (59680, [27979, 35797, 32593, 36793, 30028]),
    (59681, [112, 97, 112, 101, 114, 32, 22797, 30424, 35777, 25454, 19981, 36275, 65306,
      38656, 35201, 35760, 24405, 24066, 22330, 39118, 21521, 12289, 33286, 35770, 12289,
      20154, 24615, 20559, 24046, 12289, 25191, 34892, 25705, 25830, 12289, 22238, 25764,
      34920, 29616, 21644, 27979, 35797, 32593, 36793, 30028, 12290]),
    (59700, [112, 97, 112, 101, 114, 32, 35266, 23519, 24050, 26631, 35760, 23436, 25104,
      65292, 19988, 22797, 30424, 35777, 25454, 24050, 35206, 30422, 39118, 21521, 12289,
      20154, 24615, 12289, 25191, 34892, 25705, 25830, 12289, 22238, 25764, 21644, 27979,
      35797, 32593, 36793, 30028, 12290]),
    (59750, [65, 73, 32, 25191, 34892, 26465, 20214, 26410, 28385, 36275]),
    (59760, [65, 73, 32, 24050, 32473, 20986, 26041, 21521, 65292, 20294, 20173, 26377, 25191,
      34892, 21069, 38392, 38376, 26410, 23436, 25104, 12290]),
    (59820, [20808, 21047, 26032, 24066, 22330, 21644, 33286, 35770, 35777, 25454]),
    (59870, [31561, 24453, 22238, 27979, 23436, 25104]),
    (59910, [20808, 22797, 26680, 39118, 21521, 32, 47, 32, 20154, 24615]),
    (59980, [24403, 21069, 31995, 32479, 22788, 20110, 20572, 26426, 29366, 24577, 65306]),
    (59981, [12290, 65, 73, 32, 21482, 33021, 32487, 32493, 35266, 23519, 65292, 19981, 33021,
      25512, 36827, 25191, 34892, 12290]),
    (59990, [24403, 21069, 31995, 32479, 22788, 20110, 20572, 26426, 29366, 24577, 12290, 65,
      73, 32, 21482, 33021, 32487, 32493, 35266, 23519, 65292, 19981, 33021, 25512, 36827,
      25191, 34892, 12290]),
    (60010, [26597, 30475, 20132, 26131, 20572, 26426]),
    (60050, [65, 73, 32, 24050, 31579, 20986, 20505, 36873, 65292, 20294, 32452, 21512, 32423,
      26368, 22823, 25950, 21475, 12289, 25345, 20179, 25968, 25110, 26085, 20111, 25439,
      19978, 38480, 26410, 35774, 32622, 65292, 19981, 33021, 36827, 20837, 27979, 35797,
      32593, 21069, 26816, 26597, 12290]),
    (60070, [35774, 32622, 32452, 21512, 38480, 39069]),
    (60100, [32570, 23569, 23433, 20840, 20132, 26131, 36134, 25143]),
    (60110, [65, 73, 32, 24050, 31579, 20986, 20505, 36873, 65292, 20294, 27809, 26377, 21487,
      20132, 26131, 19988, 19981, 21487, 25552, 29616, 30340, 36134, 25143, 65292, 19981,
      33021, 36827, 20837, 27979, 35797, 32593, 21069, 26816, 26597, 12290]),
    (60130, [28155, 21152, 20132, 26131, 36134, 25143]),
    (60170, [21487, 20197, 37319, 29992, 20026, 32, 112, 97, 112, 101, 114, 32, 20505, 36873]),
    (60180, [65, 73, 32, 20505, 36873, 24050, 36890, 36807, 39564, 35777, 21644, 39118, 21521,
      22797, 26680, 65292, 19979, 19968, 27493, 26159, 37319, 29992, 24182, 36827, 20837, 32,
      50, 52, 45, 55, 50, 32, 23567, 26102, 32, 112, 97, 112, 101, 114, 32, 35266, 23519, 12290]),
    (60250, [112, 97, 112, 101, 114, 32, 35266, 23519, 34429, 24050, 26631, 35760, 23436,
      25104, 65292, 20294, 32570, 23569, 24066, 22330, 39118, 21521, 12289, 33286, 35770,
      12289, 20154, 24615, 20559, 24046, 12289, 25191, 34892, 25705, 25830, 12289, 22238,
      25764, 34920, 29616, 25110, 27979, 35797, 32593, 36793, 30028, 22797, 30424, 35777,
      25454, 65292, 19981, 24212, 36827, 20837, 27979, 35797, 32593, 12290]),
    (60260, [112, 97, 112, 101, 114, 32, 20505, 36873, 24050, 37319, 29992, 65292, 20294,
      35266, 23519, 23578, 26410, 23436, 25104, 65292, 19981, 24212, 36827, 20837, 27979,
      35797, 32593, 12290]),
    (60300, [26597, 30475, 32, 112, 97, 112, 101, 114, 32, 35266, 23519]),
    (60350, [21487, 36827, 20837, 27979, 35797, 32593, 21069, 26816, 26597]),
    (60360, [65, 73, 12289, 22238, 27979, 12289, 39118, 21521, 12289, 36134, 25143, 21644, 32,
      112, 97, 112, 101, 114, 32, 35266, 23519, 22343, 28385, 36275, 65307, 19979, 19968,
      27493, 26368, 22810, 36827, 20837, 27979, 35797, 32593, 65292, 20027, 32593, 20173,
      38656, 29420, 31435, 38392, 38376, 12290]),
    (60380, [25171, 24320, 27979, 35797, 32593, 31574, 30053]),
    (60390, [20027, 32593, 20173, 38656, 32, 101, 110, 118, 32, 43, 32, 116, 111, 107, 101,
      110, 32, 103, 97, 116, 101, 32, 43, 32, 20154, 24037, 30830, 35748, 12290]),
    (60980, [65, 73, 32, 25191, 34892, 39044, 28436, 24453, 21551, 21160]),
    (60990, [20808, 36755, 20837, 30446, 26631, 24182, 21551, 21160, 32, 65, 73, 32, 38647,
      36798, 65292, 65, 73, 32, 25165, 33021, 39044, 28436, 20174, 20998, 26512, 12289, 39564,
      35777, 21040, 32, 112, 97, 112, 101, 114, 32, 35266, 23519, 30340, 19979, 19968, 27493,
      36335, 24452, 12290]),
    (61020, [26410, 21551, 21160]),
    (61021, [39044, 28436, 38454, 27573]),
    (61030, [65, 73, 32, 21160, 20316]),
    (61040, [30446, 26631, 32, 43, 32, 30495, 23454, 20132, 26131, 30830, 35748]),
    (61070, [65, 73, 32, 20250, 25195, 25551, 30446, 26631, 12289, 24066, 22330, 12289, 33286,
      35770, 12289, 23439, 35266, 21644, 38142, 19978, 19978, 19979, 25991, 12290]),
    (61080, [65, 73, 32, 20250, 29983, 25104, 31574, 30053, 34013, 22270, 12289, 35266, 23519,
      20449, 21495, 21644, 23433, 20840, 39564, 35777, 35745, 21010, 12290]),
    (61110, [65, 73, 32, 39044, 28436, 19981, 20250, 19979, 21333, 65292, 20063, 19981, 20250,
      36830, 25509, 30495, 23454, 20132, 26131, 25191, 34892, 12290]),
    (61120, [65, 73, 32, 19981, 20250, 36339, 36807, 22238, 27979, 12289, 112, 97, 112, 101,
      114, 32, 35266, 23519, 25110, 20154, 24037, 38392, 38376, 12290]),
    (61150, [20320, 38656, 35201, 36755, 20837, 36186, 38065, 30446, 26631, 12289, 39118,
      38505, 20559, 22909, 21644, 31105, 27490, 22330, 26223, 12290])]"

definition zh_table_16 :: "(nat \<times> jstr) list" where
  "zh_table_16 = [
    (61160, [30495, 23454, 20132, 26131, 22987, 32456, 38656, 35201, 20154, 24037, 30830,
      35748, 12289, 32452, 21512, 38480, 39069, 21644, 20132, 26131, 38392, 38376, 12290]),
    (61390, [65, 73, 32, 20250, 32487, 32493, 25972, 29702, 24066, 22330, 12289, 33286, 35770,
      12289, 20154, 24615, 21644, 39118, 38505, 35777, 25454, 12290]),
    (61410, [65, 73, 32, 20250, 20808, 21047, 26032, 25968, 25454, 19978, 19979, 25991, 65292,
      20877, 37325, 26032, 21028, 26029, 26159, 21542, 39564, 35777, 31574, 30053, 12290]),
    (61440, [65, 73, 32, 20250, 25209, 37327, 22238, 27979, 21487, 39564, 35777, 30340, 31574,
      30053, 33609, 26696, 12290]),
    (61470, [65, 73, 32, 20250, 31561, 24453, 24182, 35835, 21462, 22238, 27979, 36827, 24230,
      65292, 19981, 25552, 21069, 37319, 29992, 20505, 36873, 12290]),
    (61500, [65, 73, 32, 20250, 25226, 39118, 21521, 32, 47, 32, 20154, 24615, 22797, 26680,
      20316, 20026, 37319, 29992, 32, 112, 97, 112, 101, 114, 32, 21069, 32622, 26465, 20214,
      12290]),
    (61530, [65, 73, 32, 20250, 25226, 32]),
    (61531, [32, 20316, 20026, 32, 112, 97, 112, 101, 114, 32, 20505, 36873, 20379, 20320,
      37319, 29992, 12290]),
    (61560, [65, 73, 32, 20250, 32487, 32493, 36319, 36394, 32, 112, 97, 112, 101, 114, 32,
      35266, 23519, 65292, 19981, 25512, 36827, 27979, 35797, 32593, 12290]),
    (61590, [65, 73, 32, 20250, 25171, 24320, 31574, 30053, 39044, 22635, 65292, 26368, 22810,
      25512, 36827, 21040, 27979, 35797, 32593, 21069, 26816, 26597, 12290]),
    (61620, [65, 73, 32, 20250, 20572, 22312, 36134, 25143, 26816, 26597, 65292, 31561, 24453,
      23433, 20840, 20132, 26131, 36134, 25143, 12290]),
    (61650, [65, 73, 32, 20250, 20572, 22312, 32452, 21512, 38480, 39069, 26816, 26597, 65292,
      31561, 24453, 39118, 38505, 19978, 38480, 12290]),
    (61680, [65, 73, 32, 20250, 20445, 25345, 35266, 23519, 65292, 19981, 25512, 36827, 20219,
      20309, 25191, 34892, 21160, 20316, 12290]),
    (61710, [65, 73, 32, 39044, 28436, 19981, 20250, 19979, 21333, 65292, 20063, 19981, 20250,
      21019, 24314, 30495, 23454, 35746, 21333, 12290]),
    (61720, [65, 73, 32, 19981, 20250, 32469, 36807, 22238, 27979, 12289, 112, 97, 112, 101,
      114, 32, 35266, 23519, 12289, 32452, 21512, 38480, 39069, 25110, 20154, 24037, 30830,
      35748, 12290]),
    (61730, [65, 73, 32, 19981, 20250, 36827, 20837, 20027, 32593, 65307, 109, 97, 105, 110,
      110, 101, 116, 32, 20173, 38656, 35201, 32, 101, 110, 118, 12289, 116, 111, 107, 101,
      110, 32, 103, 97, 116, 101, 32, 21644, 20154, 24037, 30830, 35748, 12290]),
    (61750, [65, 73, 32, 19981, 20250, 36234, 36807, 24403, 21069, 38459, 22622, 39033, 65306]),
    (61780, [30495, 23454, 20132, 26131, 38656, 35201, 20154, 24037, 30830, 35748, 12289,
      32452, 21512, 38480, 39069, 12289, 107, 105, 108, 108, 32, 115, 119, 105, 116, 99, 104,
      32, 21644, 20132, 26131, 38392, 38376, 12290]),
    (61800, [112, 97, 112, 101, 114, 32, 35266, 23519, 38656, 35201, 20154, 24037, 37319,
      29992, 12289, 35760, 24405, 21644, 22797, 30424, 23436, 25104, 12290]),
    (63010, [30495, 23454, 32, 65, 73, 32, 37197, 32622]),
    (63120, [31561, 24453, 32, 112, 114, 111, 118, 105, 100, 101, 114, 32, 29366, 24577, 30830,
      35748, 21518, 65292, 65, 73, 32, 25165, 33021, 25195, 25551, 20170, 26085, 24066, 22330,
      12290]),
    (63130, [37197, 32622, 30495, 23454, 32, 65, 73, 32, 112, 114, 111, 118, 105, 100, 101,
      114, 32, 21518, 25165, 33021, 21551, 21160, 25195, 25551, 12290]),
    (63190, [31561, 24453, 30495, 23454, 32, 65, 73, 32, 21487, 29992, 21518, 27719, 24635,
      26032, 38395, 12289, 23439, 35266, 12289, 38142, 19978, 21644, 33286, 35770, 35777,
      25454, 12290]),
    (63250, [31561, 24453, 32, 65, 73, 32, 26681, 25454, 30446, 26631, 29983, 25104, 21487,
      39564, 35777, 31574, 30053, 33609, 26696, 12290]),
    (63310, [31561, 24453, 31574, 30053, 34013, 22270, 29983, 25104, 21518, 20877, 25209,
      37327, 22238, 27979, 12290]),
    (63370, [31561, 24453, 32, 65, 73, 32, 35782, 21035, 32, 70, 79, 77, 79, 12289, 25317,
      25380, 12289, 24656, 24908, 25110, 21465, 20107, 36807, 28909, 12290]),
    (63430, [21482, 26377, 36890, 36807, 22238, 27979, 21644, 22797, 26680, 30340, 20505,
      36873, 25165, 33021, 36827, 20837, 32, 112, 97, 112, 101, 114, 12290]),
    (63490, [30495, 23454, 20132, 26131, 19981, 20250, 20174, 36825, 37324, 30452, 25509,
      21551, 21160, 65307, 27979, 35797, 32593, 20063, 35201, 31561, 24453, 30495, 23454, 32,
      65, 73, 12289, 22238, 27979, 21644, 32, 112, 97, 112, 101, 114, 32, 22797, 30424, 12290]),
    (63630, [30830, 35748, 21518, 20877, 21551, 21160, 20170, 26085, 25195, 25551]),
    (63640, [27979, 35797, 32, 65, 80, 73, 32, 107, 101, 121, 32, 36830, 25509]),
    (63641, [30830, 35748, 21518, 20877, 35753, 32, 65, 73, 32, 25195, 25551, 20170, 26085,
      24066, 22330]),
    (63740, [20170, 26085, 25195, 25551, 24050, 23384, 22312, 65292, 21487, 25171, 24320,
      36816, 34892, 25110, 37325, 26032, 25195, 25551, 12290]),
    (63750, [36816, 34892, 32, 65, 73, 32, 25195, 25551, 65292, 35753, 31995, 32479, 35835,
      21462, 24066, 22330, 12289, 33286, 35770, 12289, 23439, 35266, 12289, 38142, 19978,
      21644, 20154, 24615, 20559, 24046, 12290]),
    (63820, [31561, 24453, 32, 65, 73, 32, 25226, 26032, 38395, 12289, 23439, 35266, 12289,
      38142, 19978, 21644, 33286, 35770, 35777, 25454, 27719, 24635, 36827, 30446, 26631,
      20998, 26512, 12290]),
    (64120, [30495, 23454, 20132, 26131, 19981, 20250, 20174, 36825, 37324, 30452, 25509,
      21551, 21160, 65307, 27979, 35797, 32593, 20063, 35201, 31561, 24453, 32, 112, 97, 112,
      101, 114, 32, 22797, 30424, 12290]),
    (64170, [20174, 32, 65, 73, 32, 25195, 25551, 24320, 22987]),
    (64210, [20808, 25171, 24320, 25110, 21047, 26032, 26368, 36817, 30340, 32, 65, 73, 32,
      30446, 26631, 36816, 34892, 65292, 20877, 35753, 32, 65, 73, 32, 32487, 32493, 36208,
      23436, 39564, 35777, 36335, 24452, 12290]),
    (64220, [36824, 27809, 26377, 32, 65, 73, 32, 36186, 38065, 36335, 24452, 12290, 20808,
      35753, 32, 65, 73, 32, 25195, 25551, 30446, 26631, 21644, 24066, 22330, 39118, 21521,
      65292, 19981, 20250, 35302, 21457, 20219, 20309, 19979, 21333, 12290]),
    (64260, [20808, 22238, 27979, 21644, 32, 112, 97, 112, 101, 114, 65292, 20877, 32771,
      34385, 27979, 35797, 32593, 21069, 26816, 26597]),
    (64610, [65, 73, 32, 30446, 26631, 20998, 26512, 24050, 21551, 21160, 12290]),
    (64680, [24066, 22330, 12289, 33286, 35770, 12289, 23439, 35266, 25110, 38142, 19978,
      35777, 25454, 19981, 36275, 12290]),
    (64690, [24050, 32435, 20837, 26032, 38395, 32]),
    (64691, [12289, 23439, 35266, 32]),
    (64692, [12289, 38142, 19978, 32]),
    (64780, [32, 20010, 32, 65, 73, 32, 31574, 30053, 34013, 22270, 24050, 29983, 25104, 12290]),
    (64790, [65, 73, 32, 27809, 26377, 29983, 25104, 31574, 30053, 34013, 22270, 65292, 38656,
      35201, 35843, 25972, 30446, 26631, 21518, 37325, 35797, 12290]),
    (64870, [32, 20010, 22238, 27979, 24050, 23436, 25104, 65292, 26368, 20339, 24314, 35758,
      65306]),
    (64910, [32, 20010, 33609, 26696, 21487, 36827, 20837, 25209, 37327, 22238, 27979, 12290]),
    (64920, [27809, 26377, 21487, 22238, 27979, 33609, 26696]),
    (64921, [27809, 26377, 21487, 22238, 27979, 33609, 26696, 12290]),
    (65020, [65292, 37319, 29992, 32, 112, 97, 112, 101, 114, 32, 21069, 38656, 35201, 20154,
      24037, 22797, 26680, 12290]),
    (65030, [20154, 24615, 12289, 33286, 35770, 21644, 24066, 22330, 39118, 21521, 24050,
      32435, 20837, 36335, 24452, 21028, 26029, 12290]),
    (65130, [112, 97, 112, 101, 114, 32, 35266, 23519, 24050, 23436, 25104, 24182, 26631,
      35760, 22797, 30424, 12290]),
    (65150, [112, 97, 112, 101, 114, 32, 24050, 26631, 35760, 23436, 25104, 65292, 20294,
      22797, 30424, 35777, 25454, 19981, 36275, 65292, 38656, 34917, 40784, 39118, 21521,
      12289, 20154, 24615, 21644, 25191, 34892, 25705, 25830, 12290]),
    (65170, [31561, 24453, 39118, 21521, 32, 47, 32, 20154, 24615, 22797, 26680, 35777, 25454,
      23436, 25972, 21518, 65292, 25165, 33021, 37319, 29992, 32, 112, 97, 112, 101, 114, 32,
      20505, 36873, 12290]),
    (65190, [32, 24050, 36798, 21040, 32, 112, 97, 112, 101, 114, 32, 20505, 36873, 26465,
      20214, 12290]),
    (65200, [31561, 24453, 22238, 27979, 21644, 39118, 21521, 22797, 26680, 31579, 20986, 32,
      112, 97, 112, 101, 114, 32, 20505, 36873, 12290]),
    (65340, [26368, 22810, 36827, 20837, 27979, 35797, 32593, 21069, 26816, 26597, 65307,
      20027, 32593, 20173, 38656, 29420, 31435, 38392, 38376, 12290]),
    (65350, [31561, 24453, 32, 112, 97, 112, 101, 114, 32, 35266, 23519, 23436, 25104, 12289,
      36134, 25143, 23433, 20840, 21644, 32452, 21512, 38480, 39069, 26816, 26597, 12290]),
    (65590, [32, 24050, 36890, 36807, 39564, 35777, 65292, 24403, 21069, 21482, 25512, 36827,
      21040, 32, 112, 97, 112, 101, 114, 32, 20505, 36873, 37319, 29992, 65292, 19981, 36827,
      20837, 20027, 32593, 12290]),
    (65610, [65, 73, 32, 36335, 24452, 24050, 36208, 23436, 32, 112, 97, 112, 101, 114, 32,
      21069, 32622, 27493, 39588, 65292, 19979, 19968, 27493, 26368, 22810, 36827, 20837,
      27979, 35797, 32593, 21069, 26816, 26597, 65292, 20027, 32593, 20173, 38656, 20154,
      24037, 38392, 38376, 12290]),
    (65660, [24403, 21069, 65306]),
    (65990, [25171, 24320, 27979, 35797, 32593, 21069, 26816, 26597]),
    (66390, [30495, 23454, 32, 65, 73, 32, 112, 114, 111, 118, 105, 100, 101, 114, 32, 24050,
      21487, 29992, 12290]),
    (66420, [65, 73, 32, 112, 114, 111, 118, 105, 100, 101, 114, 32, 107, 101, 121, 32, 26410,
      37197, 32622, 65292, 20808, 37197, 32622, 30495, 23454, 32, 65, 73, 12290]),
    (66460, [27491, 22312, 30830, 35748, 32, 65, 73, 32, 112, 114, 111, 118, 105, 100, 101,
      114, 32, 37197, 32622, 12290]),
    (66510, [65, 73, 32, 112, 114, 111, 118, 105, 100, 101, 114, 32, 21487, 29992]),
    (66530, [65, 73, 32, 112, 114, 111, 118, 105, 100, 101, 114, 32, 26410, 36820, 22238,
      21487, 29992, 27169, 22411, 65292, 20808, 37197, 32622, 32, 65, 80, 73, 32, 107, 101,
      121, 12290]),
    (66540, [36824, 27809, 26377, 36816, 34892, 32, 65, 73, 32, 20998, 26512, 65292, 26080,
      27861, 30830, 35748, 32, 112, 114, 111, 118, 105, 100, 101, 114, 32, 29366, 24577, 12290]),
    (66650, [32, 20010, 23439, 35266, 28857, 12289]),
    (66651, [32, 20010, 38142, 19978, 28857, 12290]),
    (66690, [24066, 22330, 12289, 33286, 35770, 12289, 23439, 35266, 25110, 38142, 19978,
      35777, 25454, 20026, 31354, 65292, 20808, 21047, 26032, 32, 65, 73, 32, 38647, 36798,
      12290]),
    (66700, [20808, 36816, 34892, 20170, 26085, 25195, 25551, 65292, 35753, 32, 65, 73, 32,
      25226, 24066, 22330, 39118, 21521, 21644, 33286, 35770, 32435, 20837, 21028, 26029, 12290]),
    (66750, [32, 20010, 32, 65, 73, 32, 31574, 30053, 34013, 22270, 21487, 20379, 39564, 35777,
      12290]),
    (66770, [65, 73, 32, 27809, 26377, 29983, 25104, 21487, 29992, 31574, 30053, 34013, 22270,
      65292, 20808, 35843, 25972, 30446, 26631, 37325, 26032, 20998, 26512, 12290]),
    (66780, [31561, 24453, 32, 65, 73, 32, 26681, 25454, 30446, 26631, 29983, 25104, 31574,
      30053, 34013, 22270, 12290]),
    (66860, [32, 20010, 34013, 22270, 21487, 22238, 27979, 65292, 20808, 36816, 34892, 32, 65,
      73, 32, 25209, 37327, 39564, 35777, 12290]),
    (66870, [27809, 26377, 21487, 22238, 27979, 33609, 26696, 65292, 20808, 35753, 32, 65, 73,
      32, 29983, 25104, 21487, 39564, 35777, 34013, 22270, 12290]),
    (66970, [36134, 25143, 35835, 21462, 20013]),
    (67010, [32, 20010, 36134, 25143, 21487, 20132, 26131, 19988, 26080, 25552, 29616, 26435,
      38480, 12290])]"

definition zh_table_17 :: "(nat \<times> jstr) list" where
  "zh_table_17 = [
    (67030, [32570, 23569, 21487, 20132, 26131, 19988, 19981, 21487, 25552, 29616, 30340,
      36134, 25143, 65292, 19981, 33021, 35753, 32, 65, 73, 32, 25512, 36827, 21040, 25191,
      34892, 26816, 26597, 12290]),
    (67040, [36134, 25143, 21015, 34920, 36824, 22312, 35835, 21462, 65292, 65, 73, 32, 26242,
      19981, 21028, 26029, 25191, 34892, 36134, 25143, 12290]),
    (67140, [32452, 21512, 38480, 39069, 24050, 35774, 32622, 65306, 26368, 22823, 25950,
      21475, 32]),
    (67141, [65292, 25345, 20179, 25968, 32]),
    (67160, [32452, 21512, 26368, 22823, 25950, 21475, 12289, 25345, 20179, 25968, 25110,
      26085, 20111, 25439, 19978, 38480, 20026, 32, 48, 65292, 20808, 35774, 32622, 20132,
      26131, 38392, 38376, 12290]),
    (67170, [23578, 26410, 35835, 21462, 21518, 31471, 25191, 34892, 19978, 19979, 25991,
      65292, 20808, 36816, 34892, 32, 65, 73, 32, 20998, 26512, 25110, 31561, 24453, 31995,
      32479, 29366, 24577, 12290]),
    (67240, [20027, 32593, 19981, 33021, 30001, 32, 65, 73, 32, 33258, 21160, 25512, 36827,
      65292, 38656, 35201, 29420, 31435, 32, 116, 111, 107, 101, 110, 32, 103, 97, 116, 101,
      32, 21644, 20154, 24037, 30830, 35748, 12290]),
    (67260, [24403, 21069, 26368, 22810, 25353, 32]),
    (67261, [32, 36335, 24452, 25512, 36827, 65292, 30495, 23454, 20132, 26131, 20173, 38656,
      20154, 24037, 30830, 35748, 12290]),
    (67270, [20808, 36816, 34892, 32, 65, 73, 32, 20998, 26512, 65292, 30830, 35748, 25191,
      34892, 27169, 24335, 21644, 23433, 20840, 38392, 38376, 12290]),
    (67310, [24066, 22330, 32, 47, 32, 33286, 35770, 35777, 25454]),
    (67470, [65, 73, 32, 24037, 20316, 27969, 24050, 20855, 22791, 20351, 29992, 26465, 20214]),
    (67490, [65, 73, 32, 24037, 20316, 27969, 36824, 19981, 33021, 23433, 20840, 25512, 36827]),
    (67500, [65, 73, 32, 24037, 20316, 27969, 20173, 22312, 20934, 22791, 20013]),
    (67530, [65, 73, 12289, 35777, 25454, 12289, 31574, 30053, 34013, 22270, 12289, 22238,
      27979, 12289, 36134, 25143, 21644, 39118, 25511, 38392, 38376, 37117, 24050, 28385,
      36275, 65292, 21487, 20197, 32487, 32493, 35753, 32, 65, 73, 32, 21028, 26029, 19979,
      19968, 27493, 12290]),
    (67550, [32, 20173, 26159, 20027, 35201, 38459, 22622, 39033, 65292, 20808, 22788, 29702,
      21518, 20877, 35753, 32, 65, 73, 32, 25512, 36827, 39564, 35777, 25110, 25191, 34892,
      26816, 26597, 12290]),
    (67560, [37096, 20998, 31995, 32479, 29366, 24577, 20173, 22312, 35835, 21462, 25110,
      31561, 24453, 39318, 36718, 25195, 25551, 65292, 24403, 21069, 36866, 21512, 20808,
      36816, 34892, 32, 65, 73, 32, 38647, 36798, 12290]),
    (67710, [26816, 26597, 20132, 26131, 38392, 38376]),
    (67730, [36816, 34892, 32, 65, 73, 32, 39564, 35777]),
    (67770, [26597, 30475, 32, 65, 73, 32, 19979, 19968, 27493]),
    (67810, [65306, 25171, 24320, 32]),
    (67830, [36816, 34892, 32, 65, 73, 32, 25209, 37327, 22238, 27979, 65292, 35753, 31995,
      32479, 20808, 29992, 25968, 25454, 39564, 35777, 34013, 22270, 12290]),
    (67840, [32487, 32493, 25191, 34892, 32, 65, 73, 32, 19979, 19968, 27493, 21028, 26029,
      65292, 20294, 30495, 23454, 20132, 26131, 20173, 38656, 20154, 24037, 30830, 35748, 12290]),
    (68080, [20351, 29992, 20102, 26412, 22320, 32, 102, 97, 108, 108, 98, 97, 99, 107, 12290,
      35831, 37197, 32622, 24182, 27979, 35797, 32, 65, 73, 32, 112, 114, 111, 118, 105, 100,
      101, 114, 32, 21518, 37325, 26032, 20998, 26512, 30446, 26631, 12290]),
    (68081, [37197, 32622, 24182, 27979, 35797, 32, 65, 73]),
    (68100, [65, 73, 32, 112, 114, 111, 118, 105, 100, 101, 114, 32, 26410, 23436, 25104,
      30495, 23454, 20998, 26512]),
    (68190, [25171, 24320, 32, 65, 73, 32, 35774, 32622, 24182, 22635, 20889, 32, 112, 114,
      111, 118, 105, 100, 101, 114, 32, 107, 101, 121, 12290]),
    (68200, [20445, 23384, 21518, 28857, 20987, 27979, 35797, 36830, 25509, 12290]),
    (68210, [22238, 21040, 32, 65, 73, 32, 77, 111, 110, 101, 121, 32, 37325, 26032, 20998,
      26512, 30446, 26631, 12290]),
    (68350, [31561, 24453, 32, 65, 73, 32, 37197, 32622, 29366, 24577, 36820, 22238, 21069,
      65292, 26242, 19981, 33258, 21160, 21551, 21160, 20170, 26085, 38647, 36798, 12290]),
    (68490, [65, 73, 32, 112, 114, 111, 118, 105, 100, 101, 114, 32, 29366, 24577, 26410, 30693]),
    (68630, [32, 65, 80, 73, 32, 107, 101, 121, 32, 26410, 37197, 32622, 65292, 65, 73, 32, 77,
      111, 110, 101, 121, 32, 20250, 36864, 22238, 26412, 22320, 32, 102, 97, 108, 108, 98, 97,
      99, 107, 12290]),
    (68640, [32, 24050, 21487, 29992, 20110, 32, 65, 73, 32, 77, 111, 110, 101, 121, 12290]),
    (68770, [20351, 29992, 30495, 23454, 32, 65, 73, 32, 20998, 26512]),
    (69430, [36824, 27809, 26377, 32, 65, 73, 32, 30446, 26631, 20998, 26512, 65292, 19981,
      33021, 29983, 25104, 31574, 30053, 25110, 25191, 34892, 24314, 35758, 12290]),
    (69450, [20170, 26085, 24066, 22330, 12289, 33286, 35770, 12289, 23439, 35266, 21644,
      38142, 19978, 19978, 19979, 25991, 38656, 35201, 25195, 25551, 12290]),
    (69820, [20170, 26085, 24066, 22330, 39118, 21521, 24050, 36807, 26399, 65292, 38656,
      35201, 37325, 26032, 25195, 25551, 21518, 20877, 25512, 36827, 12290]),
    (69850, [25968, 25454, 19978, 19979, 25991, 23384, 22312, 32570, 21475, 65306]),
    (69890, [32570, 23569, 26032, 38395, 12289, 23439, 35266, 25110, 38142, 19978, 25968,
      25454, 19978, 19979, 25991, 12290]),
    (69930, [32, 26465, 21382, 21490, 32, 65, 73, 32, 36816, 34892, 35760, 24518, 12290]),
    (69950, [27809, 26377, 21382, 21490, 32, 65, 73, 32, 36816, 34892, 35760, 24518, 65292,
      21028, 26029, 21482, 22522, 20110, 26412, 27425, 25195, 25551, 12290]),
    (70070, [32, 20010, 22238, 27979, 20173, 22312, 36816, 34892, 65292, 20808, 31561, 24453,
      32467, 26524, 12290]),
    (70090, [27809, 26377, 22238, 27979, 39564, 35777, 65292, 19981, 33021, 37319, 29992, 32,
      112, 97, 112, 101, 114, 32, 25110, 27979, 35797, 32593, 20505, 36873, 12290]),
    (70130, [32, 24050, 36798, 21040, 32, 112, 97, 112, 101, 114, 32, 20505, 36873, 26631,
      20934, 12290]),
    (70150, [29616, 26377, 22238, 27979, 23578, 26410, 31579, 20986, 32, 112, 97, 112, 101,
      114, 32, 20505, 36873, 12290]),
    (70190, [39118, 21521, 32, 47, 32, 20154, 24615, 39118, 38505, 24050, 24179, 34913, 25110,
      24050, 20154, 24037, 22797, 26680, 12290]),
    (70210, [39118, 21521, 32, 47, 32, 20154, 24615, 20559, 24046, 20173, 38656, 22797, 26680,
      65292, 36991, 20813, 32, 70, 79, 77, 79, 32, 25110, 25317, 25380, 20132, 26131, 12290]),
    (70250, [112, 97, 112, 101, 114, 32, 36164, 37329, 35745, 21010, 24050, 29983, 25104, 12290]),
    (70270, [36164, 37329, 35745, 21010, 36824, 19981, 33021, 29992, 20110, 32, 112, 97, 112,
      101, 114, 32, 115, 105, 122, 105, 110, 103, 12290]),
    (70330, [112, 97, 112, 101, 114, 32, 22797, 30424, 35777, 25454, 19981, 36275, 65292,
      38656, 34917, 40784, 24066, 22330, 39118, 21521, 12289, 33286, 35770, 12289, 20154,
      24615, 21644, 25191, 34892, 25705, 25830, 12290]),
    (70350, [112, 97, 112, 101, 114, 32, 35266, 23519, 20173, 22312, 36827, 34892, 65292,
      19981, 33021, 36827, 20837, 27979, 35797, 32593, 20505, 36873, 12290]),
    (70420, [23384, 22312, 38459, 22622]),
    (70440, [35880, 24910, 25512, 36827]),
    (70450, [35777, 25454, 20805, 20998]),
    (70910, [65, 73, 32, 112, 114, 111, 118, 105, 100, 101, 114, 32, 29366, 24577, 20173,
      22312, 35835, 21462, 65292, 30830, 35748, 21069, 19981, 20250, 21551, 21160, 32, 102, 97,
      108, 108, 98, 97, 99, 107, 32, 25195, 25551, 12290]),
    (70920, [65, 73, 32, 112, 114, 111, 118, 105, 100, 101, 114, 32, 24403, 21069, 19981,
      21487, 29992, 65292, 20808, 34917, 40784, 30495, 23454, 32, 65, 73, 32, 37197, 32622,
      12290]),
    (71000, [31561, 24453, 30495, 23454, 32, 65, 73, 32, 29366, 24577]),
    (71001, [30495, 23454, 32, 65, 73, 32, 23578, 19981, 21487, 29992]),
    (71100, [65, 73, 32, 32622, 20449, 24230]),
    (71110, [21487, 24674, 22797, 26087, 30446, 26631]),
    (71120, [25191, 34892, 29366, 24577]),
    (71121, [31561, 24453, 37197, 32622]),
    (71160, [31561, 24453, 30495, 23454, 32, 65, 73, 32, 112, 114, 111, 118, 105, 100, 101,
      114, 32, 29366, 24577, 36820, 22238, 12290]),
    (71170, [22914, 38271, 26102, 38388, 26410, 36820, 22238, 65292, 25171, 24320, 32, 112,
      114, 111, 118, 105, 100, 101, 114, 32, 35774, 32622, 26816, 26597, 32, 65, 80, 73, 32,
      107, 101, 121, 12290]),
    (71180, [30830, 35748, 32, 112, 114, 111, 118, 105, 100, 101, 114, 32, 114, 101, 97, 100,
      121, 32, 21518, 20877, 21551, 21160, 32, 65, 73, 32, 25195, 25551, 21644, 39564, 35777,
      12290]),
    (71210, [20808, 37197, 32622, 30495, 23454, 32, 65, 73, 32, 112, 114, 111, 118, 105, 100,
      101, 114, 12290]),
    (71230, [30830, 35748, 32, 112, 114, 111, 118, 105, 100, 101, 114, 32, 114, 101, 97, 100,
      121, 32, 21518, 20877, 35753, 32, 65, 73, 32, 25195, 25551, 24066, 22330, 24182, 29983,
      25104, 31574, 30053, 12290]),
    (71330, [35753, 32, 65, 73, 32, 24320, 22987, 20170, 26085, 36186, 38065, 25195, 25551]),
    (71390, [32, 20808, 25191, 34892, 20170, 26085, 25195, 25551, 65292, 35753, 32, 65, 73, 32,
      27719, 24635, 24066, 22330, 12289, 33286, 35770, 21644, 38142, 19978, 21464, 21270, 12290]),
    (71410, [36824, 27809, 26377, 32, 65, 73, 32, 30446, 26631, 20998, 26512, 12290, 20808,
      35753, 32, 65, 73, 32, 25195, 25551, 24066, 22330, 12289, 33286, 35770, 12289, 23439,
      35266, 12289, 38142, 19978, 21644, 20154, 24615, 20559, 24046, 65292, 20877, 36827,
      20837, 22238, 27979, 39564, 35777, 12290]),
    (71440, [31561, 24453, 20998, 26512, 35777, 25454]),
    (71490, [25195, 25551, 20170, 26085, 24066, 22330, 12289, 33286, 35770, 12289, 23439,
      35266, 21644, 38142, 19978, 12290]),
    (71500, [35753, 32, 65, 73, 32, 29983, 25104, 31574, 30053, 34013, 22270, 21644, 20154,
      24615, 20559, 24046, 26816, 26597, 12290]),
    (71510, [20808, 22238, 27979, 39564, 35777, 65292, 20877, 32771, 34385, 32, 112, 97, 112,
      101, 114, 32, 35266, 23519, 12290]),
    (71890, [20808, 21047, 26032, 20170, 26085, 24066, 22330, 39118, 21521]),
    (71930, [20170, 26085, 24066, 22330, 19978, 19979, 25991, 21487, 33021, 24050, 36807,
      26399, 12290]),
    (71931, [21047, 26032, 21518, 20877, 35753, 32, 65, 73, 32, 21028, 26029, 26159, 21542,
      32487, 32493, 25512, 36827, 24403, 21069, 36186, 38065, 36335, 24452, 12290]),
    (71970, [24050, 22240, 19978, 19979, 25991, 36807, 26399, 38477, 26435]),
    (72030, [30830, 35748, 20154, 24615, 20559, 24046, 21644, 25317, 25380, 20132, 26131,
      26159, 21542, 21464, 21270, 12290]),
    (72040, [21047, 26032, 21518, 20877, 25512, 36827, 22238, 27979, 12289, 112, 97, 112, 101,
      114, 32, 25110, 36164, 37329, 35745, 21010, 12290])]"

definition zh_table_18 :: "(nat \<times> jstr) list" where
  "zh_table_18 = [
    (72160, [32, 39118, 21521, 65306]),
    (72161, [65307, 36164, 37329, 65306]),
    (72200, [22522, 20110, 19978, 19979, 25991, 12289, 22238, 27979, 12289, 39118, 21521,
      21644, 36164, 37329, 35745, 21010]),
    (72260, [39118, 21521, 32, 47, 32, 20154, 24615, 65306]),
    (72270, [112, 97, 112, 101, 114, 32, 36164, 37329, 65306]),
    (72460, [20154, 24037, 22797, 26680, 21518, 20877, 35843, 25972, 32, 112, 97, 112, 101,
      114, 32, 35266, 23519, 12290]),
    (72540, [34892, 20026, 20559, 24046, 26816, 26597]),
    (72550, [20986, 29616, 35813, 34892, 20026, 20559, 24046, 26102, 26242, 20572, 21152,
      20179, 25110, 38477, 20302, 35266, 23519, 20179, 20301, 12290]),
    (72610, [20808, 29992, 32, 112, 97, 112, 101, 114, 32, 36319, 36394, 32]),
    (72611, [65292, 22238, 27979, 22238, 25764, 32]),
    (72612, [65292, 26410, 36890, 36807, 35266, 23519, 21069, 19981, 36827, 20837, 27979,
      35797, 32593, 25110, 20027, 32593, 12290]),
    (72630, [29992, 39044, 22635, 31574, 30053, 20837, 21475, 22797, 26680, 21442, 25968,
      65292, 20165, 20445, 23384, 20026, 32, 112, 97, 112, 101, 114, 47, 116, 101, 115, 116,
      110, 101, 116, 32, 35266, 23519, 23545, 35937, 12290]),
    (72650, [27599, 26085, 22797, 26680, 25910, 30410, 12289, 22238, 25764, 12289, 20132,
      26131, 39057, 29575, 21644, 28369, 28857, 20551, 35774, 65292, 19981, 21482, 30475,
      21333, 26085, 30408, 20111, 12290]),
    (72660, [25226, 26032, 22686, 26032, 38395, 12289, 23439, 35266, 12289, 38142, 19978,
      21644, 33286, 24773, 20449, 21495, 21516, 27493, 21040, 35266, 23519, 35760, 24405, 12290]),
    (72670, [20934, 22791, 32487, 32493, 25512, 36827, 21069, 65292, 20808, 26816, 26597,
      32452, 21512, 38480, 39069, 12289, 107, 105, 108, 108, 32, 115, 119, 105, 116, 99, 104,
      32, 21644, 20132, 26131, 38392, 38376, 12290]),
    (72700, [112, 97, 112, 101, 114, 32, 26399, 38388, 26368, 22823, 22238, 25764, 36229,
      36807, 32]),
    (72701, [32, 26102, 26242, 20572, 35266, 23519, 24182, 22238, 21040, 31574, 30053, 34013,
      22270, 12290]),
    (72710, [39564, 35777, 35780, 20998, 20302, 20110, 32, 55, 48, 32, 25110, 25910, 30410, 47,
      22238, 25764, 32467, 26500, 24694, 21270, 26102, 65292, 19981, 36827, 20837, 27979,
      35797, 32593, 12290]),
    (72790, [22238, 27979, 35814, 24773]),
    (72880, [36164, 37329, 36793, 30028, 65306, 112, 97, 112, 101, 114, 32, 20179, 20301,
      19981, 36229, 36807, 32]),
    (72940, [8230]),
    (73100, [65, 73, 32, 112, 97, 112, 101, 114, 32, 35266, 23519, 35745, 21010, 65306]),
    (73101, [65292, 20851, 32852, 22238, 27979, 32]),
    (73120, [25351, 26631, 65306, 25910, 30410, 32]),
    (73140, [20572, 27490, 35268, 21017, 65306]),
    (73150, [39318, 20010, 35302, 21457, 22120, 65306]),
    (73350, [32, 24050, 23436, 25104, 22238, 27979, 65307, 35780, 20998, 32]),
    (73360, [36827, 20837, 32, 50, 52, 45, 55, 50, 32, 23567, 26102, 32, 112, 97, 112, 101,
      114, 32, 35266, 23519, 65306, 35760, 24405, 24066, 22330, 39118, 21521, 12289, 33286,
      35770, 21464, 21270, 12289, 20154, 24615, 20559, 24046, 21644, 30495, 23454, 25191,
      34892, 25705, 25830, 65307, 26410, 36890, 36807, 35266, 23519, 21069, 19981, 36827,
      20837, 27979, 35797, 32593, 25110, 20027, 32593, 12290]),
    (73570, [65, 73, 32, 112, 97, 112, 101, 114, 32, 20505, 36873]),
    (73650, [50, 52, 45, 55, 50, 32, 23567, 26102, 31383, 21475]),
    (73660, [30830, 35748, 35266, 23519, 26102, 38388, 36275, 22815, 65292, 19981, 29992,
      21333, 26085, 30408, 20111, 26367, 20195, 22797, 30424, 12290]),
    (73730, [35760, 24405, 20215, 26684, 32467, 26500, 12289, 23439, 35266, 21387, 21147,
      12289, 38142, 19978, 21464, 21270, 25110, 36164, 37329, 27969, 26041, 21521, 12290]),
    (73790, [33286, 35770, 32, 47, 32, 24773, 32490]),
    (73800, [35760, 24405, 26032, 38395, 21465, 20107, 12289, 31038, 23186, 25317, 25380,
      24230, 12289, 24656, 24908, 25110, 36807, 28909, 21464, 21270, 12290]),
    (73870, [35760, 24405, 32, 70, 79, 77, 79, 12289, 36830, 32493, 20111, 25439, 21518, 21152,
      20179, 20914, 21160, 12289, 36861, 28072, 25110, 36807, 24230, 33258, 20449, 12290]),
    (73940, [35760, 24405, 28369, 28857, 12289, 25104, 20132, 39057, 29575, 12289, 25163,
      32493, 36153, 12289, 24310, 36831, 21644, 25191, 34892, 20559, 24046, 12290]),
    (74010, [35760, 24405, 32, 112, 97, 112, 101, 114, 32, 26399, 38388, 22238, 25764, 12289,
      26085, 20111, 25439, 21644, 26159, 21542, 35302, 21457, 20572, 27490, 35268, 21017, 12290]),
    (74080, [26126, 30830, 19979, 19968, 27493, 26368, 22810, 36827, 20837, 27979, 35797,
      32593, 21069, 26816, 26597, 65292, 19981, 36827, 20837, 20027, 32593, 12290]),
    (74210, [31561, 24453, 32, 65, 73, 32, 29983, 25104, 32, 112, 97, 112, 101, 114, 32, 22797,
      30424]),
    (74220, [20808, 21551, 21160, 32, 65, 73, 32, 30446, 26631, 20998, 26512, 21644, 22238,
      27979, 39564, 35777, 65292, 22797, 30424, 21161, 25163, 20250, 22312, 32, 112, 97, 112,
      101, 114, 32, 20505, 36873, 20986, 29616, 21518, 32473, 20986, 35777, 25454, 28165,
      21333, 12290]),
    (74270, [23436, 25104, 22238, 27979, 21518, 20877, 36827, 20837, 32, 112, 97, 112, 101,
      114, 32, 35266, 23519, 12290]),
    (74370, [24050, 26377, 22238, 27979, 32467, 26524, 65292, 20294, 36824, 27809, 26377,
      36798, 21040, 32, 112, 97, 112, 101, 114, 32, 26465, 20214, 30340, 20505, 36873, 12290]),
    (74380, [36824, 27809, 26377, 21487, 22797, 30424, 30340, 32, 112, 97, 112, 101, 114, 32,
      20505, 36873, 65292, 20808, 23436, 25104, 32, 65, 73, 32, 22238, 27979, 39564, 35777,
      12290]),
    (74410, [36816, 34892, 32, 65, 73, 32, 22238, 27979]),
    (74460, [37325, 20570, 31574, 30053, 34013, 22270, 25110, 38477, 20302, 39118, 38505,
      21442, 25968, 12290]),
    (74461, [37325, 26032, 39564, 35777, 21518, 20877, 36827, 20837, 32, 112, 97, 112, 101,
      114, 12290]),
    (74470, [36816, 34892, 32, 65, 73, 32, 25209, 37327, 22238, 27979, 12290]),
    (74471, [31579, 20986, 32, 112, 97, 112, 101, 114, 32, 20505, 36873, 21518, 20877, 22797,
      30424, 12290]),
    (74590, [21487, 20197, 24320, 22987, 32, 112, 97, 112, 101, 114, 32, 35266, 23519]),
    (74600, [32, 24050, 36798, 21040, 32, 112, 97, 112, 101, 114, 32, 26465, 20214, 65292,
      20808, 37319, 29992, 35266, 23519, 35745, 21010, 65292, 20877, 35760, 24405, 22797,
      30424, 35777, 25454, 12290]),
    (74700, [35266, 23519, 26399, 38388, 19981, 35201, 36827, 20837, 27979, 35797, 32593,
      25110, 20027, 32593, 12290]),
    (74790, [32487, 32493, 25910, 38598, 32, 112, 97, 112, 101, 114, 32, 22797, 30424, 35777,
      25454]),
    (74800, [32, 27491, 22312, 32, 112, 97, 112, 101, 114, 32, 35266, 23519, 20013, 65292,
      34917, 40784, 35777, 25454, 21518, 20877, 26631, 35760, 23436, 25104, 12290]),
    (74830, [26597, 30475, 35266, 23519]),
    (74890, [34917, 20805, 24066, 22330, 39118, 21521, 12289, 33286, 35770, 12289, 20154,
      24615, 20559, 24046, 21644, 25191, 34892, 25705, 25830, 12290]),
    (74900, [33509, 35302, 21457, 20572, 27490, 35268, 21017, 65292, 22238, 21040, 31574,
      30053, 34013, 22270, 32780, 19981, 26159, 25512, 36827, 27979, 35797, 32593, 12290]),
    (74990, [80, 97, 112, 101, 114, 32, 22797, 30424, 35777, 25454, 24050, 40784]),
    (75010, [32, 30340, 32, 112, 97, 112, 101, 114, 32, 22797, 30424, 35206, 30422, 20102,
      39118, 21521, 12289, 20154, 24615, 21644, 25191, 34892, 25705, 25830, 65292, 19979,
      19968, 27493, 26368, 22810, 36827, 20837, 27979, 35797, 32593, 21069, 26816, 26597, 12290]),
    (75020, [32, 24050, 26631, 35760, 23436, 25104, 65292, 20294, 22797, 30424, 35777, 25454,
      19981, 36275, 65292, 19981, 33021, 36827, 20837, 27979, 35797, 32593, 20505, 36873, 12290]),
    (75100, [22797, 26680, 32452, 21512, 38480, 39069, 21644, 32, 107, 105, 108, 108, 32, 115,
      119, 105, 116, 99, 104, 12290]),
    (75101, [21482, 36827, 20837, 27979, 35797, 32593, 21069, 26816, 26597, 65292, 19981,
      36827, 20837, 20027, 32593, 12290]),
    (75110, [34917, 40784, 32570, 22833, 35777, 25454, 12290]),
    (75111, [30830, 35748, 27809, 26377, 35302, 21457, 20572, 27490, 35268, 21017, 12290]),
    (75112, [20877, 26631, 35760, 32, 112, 97, 112, 101, 114, 32, 22797, 30424, 23436, 25104,
      12290]),
    (75113, [30830, 35748, 27809, 26377, 35302, 21457, 20572, 27490, 35268, 21017]),
    (75900, [80, 97, 112, 101, 114, 32, 24050, 26631, 35760, 23436, 25104]),
    (75920, [39118, 21521, 32, 47, 32, 20154, 24615, 22797, 26680, 24050, 26631, 35760, 23436,
      25104]),
    (75921, [65307, 35777, 25454, 19981, 36275, 65292, 34917, 40784, 24066, 22330, 39118,
      21521, 12289, 33286, 35770, 21644, 20154, 24615, 20559, 24046, 21518, 20877, 25512,
      36827, 12290]),
    (76930, [65, 73, 32, 26410, 21457, 29616, 26126, 26174, 39069, 22806, 33286, 35770, 25110,
      20154, 24615, 38459, 22622, 12290]),
    (77010, [22797, 26680, 24066, 22330, 21028, 26029, 12289, 20154, 24615, 32, 47, 32, 33286,
      24773, 20551, 35774, 21644, 39118, 38505, 19978, 38480, 12290]),
    (77090, [26032, 38395, 12289, 23439, 35266, 12289, 38142, 19978, 25968, 25454, 27809,
      26377, 26126, 26174, 32570, 21475, 12290]),
    (77240, [36816, 34892, 32, 65, 73, 32, 33609, 26696, 22238, 27979, 65292, 27604, 36739,
      25910, 30410, 12289, 22238, 25764, 12289, 22799, 26222, 21644, 20132, 26131, 27425,
      25968, 12290]),
    (77310, [25226, 32, 65, 73, 32, 21442, 25968, 24102, 20837, 31574, 30053, 34920, 21333,
      65292, 20154, 24037, 22797, 26680, 21518, 20877, 20445, 23384, 12290]),
    (77410, [31561, 24453, 22238, 27979, 32467, 26524, 21518, 29983, 25104, 32, 50, 52, 45, 55,
      50, 32, 23567, 26102, 32, 112, 97, 112, 101, 114, 32, 35266, 23519, 35745, 21010, 65307,
      23436, 25104, 21069, 24517, 39035, 22797, 30424, 24066, 22330, 39118, 21521, 12289,
      33286, 35770, 12289, 20154, 24615, 20559, 24046, 12289, 25191, 34892, 25705, 25830,
      21644, 22238, 25764, 34920, 29616, 12290]),
    (77500, [27979, 35797, 32593, 32, 47, 32, 20027, 32593, 21069, 30830, 35748, 32, 107, 105,
      108, 108, 32, 115, 119, 105, 116, 99, 104, 12289, 32452, 21512, 38480, 39069, 12289,
      20132, 26131, 38392, 38376, 21644, 32, 112, 97, 112, 101, 114, 32, 22797, 30424, 35777,
      25454, 12290]),
    (77610, [34892, 21160, 39033]),
    (77670, [32, 38656, 35201, 37325, 26032, 20154, 24037, 26816, 26597]),
    (77890, [23436, 25104, 25191, 34892, 38392, 38376, 22797, 26680]),
    (77910, [24050, 30830, 35748, 32, 107, 105, 108, 108, 32, 115, 119, 105, 116, 99, 104,
      12289, 32452, 21512, 38480, 39069, 12289, 20132, 26131, 38392, 38376, 21644, 32, 112, 97,
      112, 101, 114, 32, 22797, 30424, 35777, 25454, 65307, 21482, 20801, 35768, 36827, 20837,
      27979, 35797, 32593, 21069, 26816, 26597, 12290]),
    (77970, [32, 24050, 20154, 24037, 30830, 35748, 23436, 25104])]"

definition zh_table_19 :: "(nat \<times> jstr) list" where
  "zh_table_19 = [
    (78270, [20808, 34917, 40784, 25968, 25454, 19978, 19979, 25991]),
    (78290, [65, 73, 32, 24050, 21457, 29616, 25968, 25454, 28304, 32570, 21475, 65292, 20808,
      34917, 40784, 26032, 38395, 12289, 23439, 35266, 25110, 38142, 19978, 19978, 19979,
      25991, 65292, 20877, 36827, 20837, 31574, 30053, 39564, 35777, 12290]),
    (78310, [25171, 24320, 25968, 25454, 27983, 35272, 22120, 26816, 26597, 32570, 21475]),
    (78311, [34917, 40784, 25968, 25454, 21518, 37325, 26032, 29983, 25104, 32, 65, 73, 32,
      34013, 22270]),
    (78410, [24050, 26377, 32, 65, 73, 32, 33609, 26696, 22312, 39564, 35777, 20013, 65292,
      20808, 31561, 24453, 22238, 27979, 23436, 25104, 20877, 36827, 20837, 32, 112, 97, 112,
      101, 114, 32, 20915, 31574, 12290]),
    (78450, [32, 20173, 22312, 39564, 35777, 20013]),
    (78460, [31561, 24453, 22238, 27979, 36827, 24230, 23436, 25104]),
    (78461, [23436, 25104, 21518, 21047, 26032, 32, 65, 73, 32, 30446, 26631, 36816, 34892]),
    (78560, [35835, 21462, 24050, 21551, 21160, 22238, 27979]),
    (78580, [65, 73, 32, 24050, 21551, 21160, 22238, 27979, 39564, 35777, 65292, 20808, 25171,
      24320, 25110, 31561, 24453, 29616, 26377, 32467, 26524, 65292, 19981, 37325, 22797,
      21019, 24314, 22238, 27979, 12290]),
    (78590, [32, 24050, 21551, 21160, 65292, 31561, 24453, 32467, 26524, 24674, 22797]),
    (78600, [25171, 24320, 24050, 21551, 21160, 22238, 27979]),
    (78601, [31561, 24453, 22238, 27979, 23436, 25104, 21518, 20877, 31579, 32, 112, 97, 112,
      101, 114, 32, 20505, 36873]),
    (78690, [20808, 39564, 35777, 32, 65, 73, 32, 33609, 26696]),
    (78730, [36824, 27809, 26377, 22238, 27979, 35777, 25454, 65292, 20808, 25209, 37327,
      22238, 27979, 32, 65, 73, 32, 29983, 25104, 30340, 21487, 20132, 26131, 33609, 26696,
      12290]),
    (78740, [24403, 21069, 21482, 26377, 35266, 23519, 22411, 33609, 26696, 65292, 20808,
      34917, 20805, 21487, 39564, 35777, 31574, 30053, 25110, 32487, 32493, 35266, 23519,
      24066, 22330, 12290]),
    (78770, [32, 20010, 33609, 26696, 21487, 36827, 20837, 22238, 27979]),
    (78820, [37325, 26032, 29983, 25104, 21253, 21547, 21487, 39564, 35777, 31574, 30053,
      30340, 34013, 22270]),
    (78821, [32487, 32493, 35266, 23519, 33286, 24773, 21644, 24066, 22330, 32467, 26500]),
    (78940, [26242, 20572, 25512, 36827, 24182, 37325, 20570, 34013, 22270]),
    (78960, [29616, 26377, 22238, 27979, 27809, 26377, 36798, 21040, 32, 112, 97, 112, 101,
      114, 32, 20505, 36873, 26631, 20934, 65292, 19981, 24212, 36827, 20837, 27979, 35797,
      32593, 25110, 20027, 32593, 12290]),
    (79010, [38477, 20302, 26464, 26438, 25110, 25910, 32039, 39118, 38505, 19978, 38480]),
    (79011, [26816, 26597, 26159, 21542, 23384, 22312, 24066, 22330, 21465, 20107, 25110,
      25968, 25454, 32570, 21475]),
    (79170, [65292, 20294, 32, 65, 73, 32, 39118, 21521, 21028, 26029, 20026, 32]),
    (79171, [12290, 20808, 30830, 35748, 33286, 35770, 12289, 20154, 24615, 20559, 24046,
      21644, 38477, 20179, 26465, 20214, 65292, 20877, 37319, 29992, 32, 112, 97, 112, 101,
      114, 32, 20505, 36873, 12290]),
    (79200, [22797, 26680, 32, 65, 73, 32, 39118, 21521, 32, 47, 32, 20154, 24615, 38754, 26495]),
    (79210, [30830, 35748, 26159, 21542, 38477, 20302, 32, 112, 97, 112, 101, 114, 32, 20179,
      20301, 25110, 26242, 20572, 35266, 23519]),
    (79220, [26631, 35760, 23436, 25104, 21518, 20877, 37319, 29992, 32, 112, 97, 112, 101,
      114, 32, 20505, 36873]),
    (79330, [12290, 20808, 37319, 29992, 20026, 32, 112, 97, 112, 101, 114, 32, 20505, 36873,
      65292, 36827, 20837, 32, 50, 52, 45, 55, 50, 32, 23567, 26102, 35266, 23519, 12290]),
    (79340, [22238, 27979, 28385, 36275, 32, 112, 97, 112, 101, 114, 32, 20505, 36873, 38376,
      27099]),
    (79341, [20173, 38656, 35266, 23519, 33286, 24773, 12289, 20154, 24615, 22240, 32032,
      21644, 30495, 23454, 25191, 34892, 25705, 25830]),
    (79350, [28857, 20987, 37319, 29992, 20026, 32, 112, 97, 112, 101, 114, 32, 20505, 36873]),
    (79351, [25353, 35266, 23519, 35745, 21010, 35760, 24405, 35302, 21457, 22120, 21464, 21270]),
    (79480, [12290, 112, 97, 112, 101, 114, 32, 35266, 23519, 24050, 26631, 35760, 23436,
      25104, 65292, 20294, 22797, 30424, 35777, 25454, 19981, 36275, 65292, 19981, 24314,
      35758, 36827, 20837, 27979, 35797, 32593, 12290]),
    (79490, [12290, 112, 97, 112, 101, 114, 32, 35266, 23519, 23578, 26410, 23436, 25104,
      65292, 19981, 24314, 35758, 36827, 20837, 27979, 35797, 32593, 12290]),
    (79520, [38656, 35201, 35760, 24405, 24066, 22330, 39118, 21521, 12289, 33286, 35770,
      12289, 20154, 24615, 20559, 24046, 21644, 25191, 34892, 25705, 25830, 12290]),
    (79530, [32570, 23569, 32, 112, 97, 112, 101, 114, 32, 22797, 30424, 35760, 24405, 12290]),
    (79560, [38656, 35201, 23436, 25104, 32, 50, 52, 45, 55, 50, 32, 23567, 26102, 35266, 23519]),
    (79570, [35266, 23519, 26399, 38388, 35201, 22797, 26680, 33286, 24773, 12289, 25317,
      25380, 24230, 12289, 28369, 28857, 21644, 22238, 25764]),
    (79600, [20877, 35780, 20272, 26159, 21542, 21482, 36827, 20837, 27979, 35797, 32593,
      21069, 26816, 26597]),
    (79610, [32487, 32493, 35266, 23519, 32, 112, 97, 112, 101, 114, 32, 20505, 36873]),
    (79611, [33509, 35302, 21457, 20572, 27490, 35268, 21017, 21017, 22238, 21040, 31574,
      30053, 34013, 22270]),
    (79740, [21487, 20316, 20026, 27979, 35797, 32593, 20505, 36873]),
    (79760, [65292, 19988, 32, 112, 97, 112, 101, 114, 32, 35266, 23519, 24050, 26631, 35760,
      23436, 25104, 12290, 19979, 19968, 27493, 26368, 22810, 36827, 20837, 27979, 35797,
      32593, 65292, 19981, 24314, 35758, 30452, 25509, 20027, 32593, 12290]),
    (79770, [22238, 27979, 35780, 20998, 21644, 22238, 25764, 32467, 26500, 36798, 26631]),
    (79771, [20027, 32593, 20173, 38656, 29420, 31435, 38392, 38376, 21644, 20154, 24037,
      30830, 35748]),
    (79780, [25171, 24320, 31574, 30053, 39044, 22635, 24182, 34917, 40784, 20973, 35777]),
    (79781, [20808, 21551, 29992, 27979, 35797, 32593, 25110, 32487, 32493, 23567, 39069, 32,
      112, 97, 112, 101, 114]),
    (79782, [26816, 26597, 32, 107, 105, 108, 108, 32, 115, 119, 105, 116, 99, 104, 32, 21644,
      32452, 21512, 38480, 39069]),
    (79860, [32487, 32493, 32, 112, 97, 112, 101, 114, 65292, 19981, 36827, 27979, 35797, 32593]),
    (79880, [65292, 20294, 20173, 26410, 36798, 21040, 27979, 35797, 32593, 20505, 36873,
      38408, 20540, 12290]),
    (79890, [35780, 20998, 12289, 22799, 26222, 25110, 22238, 25764, 32467, 26500, 26410,
      23436, 20840, 36798, 26631]),
    (79891, [32487, 32493, 35266, 23519, 27604, 25552, 39640, 25191, 34892, 39118, 38505,
      26356, 21512, 36866]),
    (79900, [37325, 26032, 20248, 21270, 21442, 25968, 25110, 37325, 20570, 34013, 22270]),
    (80100, [22797, 26680, 32, 65, 73, 32, 32467, 35770]),
    (80110, [20808, 30830, 35748, 24066, 22330, 21028, 26029, 12289, 20154, 24615, 47, 33286,
      24773, 20551, 35774, 21644, 39118, 38505, 19978, 38480, 12290]),
    (80170, [25968, 25454, 19978, 19979, 25991, 24050, 25509, 20837]),
    (80340, [39564, 35777, 32, 65, 73, 32, 33609, 26696, 22238, 27979]),
    (80370, [20248, 20808, 22238, 27979, 32]),
    (80371, [65292, 30475, 25910, 30410, 47, 22238, 25764, 26159, 21542, 21305, 37197, 30446,
      26631, 12290]),
    (80380, [24403, 21069, 21482, 26377, 35266, 23519, 22411, 33609, 26696, 65292, 19981,
      33021, 30452, 25509, 22238, 27979, 12290]),
    (80450, [39044, 22635, 31574, 30053, 33609, 26696]),
    (80480, [25226, 32, 65, 73, 32, 21442, 25968, 24102, 20837, 31574, 30053, 34920, 21333,
      65292, 20154, 24037, 22797, 26680, 21518, 34917, 40784, 20132, 26131, 25152, 20973,
      35777, 12290]),
    (80490, [27809, 26377, 21487, 21019, 24314, 30340, 20132, 26131, 31574, 30053, 33609,
      26696, 12290]),
    (80580, [80, 97, 112, 101, 114, 32, 35266, 23519, 19982, 22797, 30424]),
    (80590, [22238, 27979, 36890, 36807, 21518, 21019, 24314, 32, 50, 52, 45, 55, 50, 32,
      23567, 26102, 32, 112, 97, 112, 101, 114, 32, 35266, 23519, 65307, 23436, 25104, 21069,
      24517, 39035, 35760, 24405, 24066, 22330, 39118, 21521, 12289, 33286, 35770, 12289,
      20154, 24615, 20559, 24046, 21644, 25191, 34892, 25705, 25830, 12290]),
    (80690, [26816, 26597, 25191, 34892, 38392, 38376]),
    (80830, [25353, 32, 65, 73, 32, 35266, 23519, 35745, 21010, 36319, 36394, 32, 50, 52, 45,
      55, 50, 32, 23567, 26102, 65292, 20877, 20915, 23450, 26159, 21542, 36827, 20837, 27979,
      35797, 32593, 12290])]"

definition zh :: "nat \<Rightarrow> jstr" where
  "zh k =
     text_at
       (if k < 4380 then zh_table_1
        else if k < 7441 then zh_table_2
        else if k < 11430 then zh_table_3
        else if k < 16180 then zh_table_4
        else if k < 20320 then zh_table_5
        else if k < 24230 then zh_table_6
        else if k < 28940 then zh_table_7
        else if k < 31591 then zh_table_8
        else if k < 34210 then zh_table_9
        else if k < 36860 then zh_table_10
        else if k < 40280 then zh_table_11
        else if k < 44191 then zh_table_12
        else if k < 52020 then zh_table_13
        else if k < 57780 then zh_table_14
        else if k < 61160 then zh_table_15
        else if k < 67030 then zh_table_16
        else if k < 72160 then zh_table_17
        else if k < 78270 then zh_table_18
        else zh_table_19) k"

end
