(* ===== verification/Preset_Text.thy ===== *)
theory Preset_Text
  imports Js_Ops Ui_Texts
begin

section \<open>Normalising text, symbols and numbers\<close>

text \<open>
  A part of \<^verbatim>\<open>src/client/data/ai-goal-preset.mjs\<close>: the constants of the
  module and the small functions that clean numbers, names, symbols and lists of text before
  anything else uses them. Literals that are not ASCII are looked up in \<open>Ui_Texts\<close>;
  their key is ten times the line of the source file they stand on, plus a rank.
\<close>


definition DEFAULT_PRESET :: "jsval" where
  "DEFAULT_PRESET =
     obj [(''isPreset'', Bool False), (''name'', Str []), (''kind'', S ''grid_dca''),
          (''execSymbol'', S ''BTCUSDT''), (''positionLevel'', N 5),
          (''openPositionStopTime'', N 30), (''orderGroupMargin'', N 100),
          (''stopProfitRate'', Num (fl (1 / 20))), (''stopLossRate'', Num (fl (1 / 20))),
          (''profitRateAfterAtAddPosition'', Num (fl (1 / 50))),
          (''createCostOrderInProfit'', Bool False),
          (''createPositions'', Arr [obj [(''marginRate'', N 1), (''lossAddRate'', N 0)]]),
          (''aiRunId'', Str [])]"

definition AI_DEFAULT_BEHAVIOR_TEXT :: "jstr" where
  "AI_DEFAULT_BEHAVIOR_TEXT =
     [36991, 20813, 32, 70, 79, 77, 79, 32, 36861, 28072, 10, 36830, 32493, 20111, 25439, 21518, 26242, 20572, 21152, 20179, 10, 24066, 22330, 36807, 28909, 26102, 38477, 20302, 20179, 20301]"

definition AI_DEFAULT_NARRATIVE_TEXT :: "jstr" where
  "AI_DEFAULT_NARRATIVE_TEXT =
     [69, 84, 70, 32, 36164, 37329, 27969, 10, 30417, 31649, 28040, 24687, 10, 31038, 23186, 25317, 25380, 24230]"

definition AI_DEFAULT_AVOID_TEXT :: "jstr" where
  "AI_DEFAULT_AVOID_TEXT =
     [39640, 26464, 26438, 10, 25968, 25454, 32570, 21475, 26102, 25191, 34892, 10, 20027, 32593, 33258, 21160, 19979, 21333]"

definition AI_MONEY_DEFAULT_AUTO_RADAR_ENABLED :: "bool" where
  "AI_MONEY_DEFAULT_AUTO_RADAR_ENABLED = True"

definition AI_GOAL_EXECUTION_MODE_OPTIONS :: "jsval list" where
  "AI_GOAL_EXECUTION_MODE_OPTIONS =
     [obj [(''key'', S ''observe''), (''label'', Str (zh 230))],
      obj [(''key'', S ''paper''), (''label'', S ''Paper'')]]"

definition SENTIMENT_REVIEW_COMPLETION_NOTE :: "jstr" where
  "SENTIMENT_REVIEW_COMPLETION_NOTE =
     (zh 278)"

definition PAPER_WATCH_COMPLETION_NOTE :: "jstr" where
  "PAPER_WATCH_COMPLETION_NOTE =
     (zh 302)"

definition AI_GOAL_TEMPLATES :: "jsval list" where
  "AI_GOAL_TEMPLATES =
     [obj [(''id'', S ''low_drawdown_crypto''), (''label'', Str (zh 342)),
           (''goal'', Str (zh 364)),
           (''symbols'', Arr [S ''BTC'', S ''ETH'']), (''horizon'', S ''1-4 weeks''),
           (''riskPreference'', S ''balanced''), (''executionMode'', S ''paper'')],
      obj [(''id'', S ''sentiment_breakout''), (''label'', Str (zh 440)),
           (''goal'', Str (zh 463)),
           (''symbols'', Arr [S ''BTC'', S ''ETH'', S ''SOL'']), (''horizon'', S ''3-10 days''),
           (''riskPreference'', S ''conservative''), (''executionMode'', S ''paper'')],
      obj [(''id'', S ''prediction_event_watch''), (''label'', Str (zh 540)),
           (''goal'', Str (zh 563)),
           (''symbols'', Arr [S ''BTC'', S ''ETH'']), (''horizon'', S ''1-2 weeks''),
           (''riskPreference'', S ''conservative''), (''executionMode'', S ''observe'')]]"

definition ACTION_STATUSES :: "jsval list" where
  "ACTION_STATUSES =
     remdups_first [S ''done'', S ''ready'', S ''manual'', S ''blocked'']"

definition MANUAL_TRANSITION_ACTION_IDS :: "jsval list" where
  "MANUAL_TRANSITION_ACTION_IDS =
     remdups_first [S ''review'',
                    S ''data'',
                    S ''sentiment_review'',
                    S ''paper_watch'',
                    S ''gate'']"

definition clampNumber :: "jsval \<Rightarrow> jsval \<Rightarrow> jsval \<Rightarrow> jsval \<Rightarrow> jsval" where
  "clampNumber value fallback min' max' =
     (let n = to_num value
      in if \<not> is_finite n \<or> num_lt n (to_num min')
         then fallback
         else Num (num_min n (to_num max')))"

definition clampInt :: "jsval \<Rightarrow> jsval \<Rightarrow> jsval \<Rightarrow> jsval \<Rightarrow> jsnum" where
  "clampInt value fallback min' max' = num_round (to_num (clampNumber value fallback min' max'))"

definition normalizeName :: "jsval \<Rightarrow> jsval \<Rightarrow> jstr" where
  "normalizeName name symbol =
     (let symbol = dflt symbol (S ''ai'');
          base =
              filter (\<lambda>c. is_lower_unit c \<or> is_digit c \<or> c = 95 \<or> c = 45)
                (lower (trim (to_str (js_or (js_or name symbol) (S ''ai'')))));
          trimmed = take 8 base
      in if num_le (Fin 3) (len trimmed)
         then trimmed
         else take 8 (s_or trimmed (js ''ai'') @ js ''ai''))"

definition normalizeSymbol :: "jsval \<Rightarrow> jsval" where
  "normalizeSymbol symbol =
     (let raw =
              filter (\<lambda>c. is_upper_unit c \<or> is_digit c)
                (upper (to_str (js_or symbol (fld DEFAULT_PRESET ''execSymbol''))))
      in if raw = []
         then fld DEFAULT_PRESET ''execSymbol''
         else Str (if ends_with raw (js ''USDT'') then raw else raw @ js ''USDT''))"

definition cleanSymbolList :: "jsval \<Rightarrow> jsval list" where
  "cleanSymbolList values =
     (let seen = [];
          out = [];
          (seen, out) =
              iterate
                (\<lambda>item (seen, out).
                   let symbol = upper (trim (to_str (js_or item (Str []))))
                   in if symbol = [] \<or> list_has seen (Str symbol)
                      then Next (seen, out)
                      else let seen = set_add seen (Str symbol);
                               out = out @ [Str symbol]
                           in if num_le (Fin 8) (len out)
                              then Break (seen, out)
                              else Next (seen, out)) (elems values) (seen, out)
      in out)"

definition symbolsFromText :: "jsval \<Rightarrow> jsval list" where
  "symbolsFromText raw =
     cleanSymbolList
       (Arr
          (map Str
             (split_runs (\<lambda>c. c = 44 \<or> is_ws c \<or> c = 65292 \<or> c = 12289)
                (to_str (js_or raw (Str []))))))"

definition cleanOperatorList :: "jsval \<Rightarrow> jsval \<Rightarrow> jsval list" where
  "cleanOperatorList raw limit =
     (let limit = dflt limit (N 8);
          seen = [];
          out = [];
          values =
              if is_arr raw
              then raw
              else Arr
                     (map Str
                        (split_runs
                           (\<lambda>c.
                              c = 10 \<or> c = 44 \<or> c = 59 \<or> c = 65292 \<or> c = 65307 \<or> c = 12289)
                           (to_str (js_or raw (Str [])))));
          (seen, out) =
              iterate
                (\<lambda>item (seen, out).
                   let value = trim (to_str (js_or item (Str [])))
                   in if value = [] \<or> list_has seen (Str value)
                      then Next (seen, out)
                      else let seen = set_add seen (Str value);
                               out = out @ [Str (take 120 value)]
                           in if num_le (to_num limit) (len out)
                              then Break (seen, out)
                              else Next (seen, out)) (elems values) (seen, out)
      in out)"

definition cleanOperatorListOrDefault :: "jsval \<Rightarrow> jsval \<Rightarrow> jsval list" where
  "cleanOperatorListOrDefault raw fallbackText =
     (let values = cleanOperatorList raw Undef
      in if values \<noteq> [] then values else cleanOperatorList fallbackText Undef)"

definition operatorTextFromList :: "jsval \<Rightarrow> jstr" where
  "operatorTextFromList values = js_join [10] (cleanOperatorList values Undef)"

definition watchSignalReviewText :: "jsval \<Rightarrow> jstr" where
  "watchSignalReviewText signal =
     (if is_str signal
      then trim (str_val signal)
      else let label =
                   trim
                     (to_str
                        (js_or (js_or (fld signal ''signal'') (fld signal ''source'')) (Str [])));
               interpretation = trim (to_str (js_or (fld signal ''interpretation'') (Str [])));
               action = trim (to_str (js_or (fld signal ''action'') (Str [])))
           in js_join (zh 271)
                (filter truthy [Str label,
                                Str
                                  (if interpretation \<noteq> []
                                   then (zh 1420) @ interpretation
                                   else []),
                                Str (if action \<noteq> [] then (zh 1430) @ action else [])]))"

definition safeStringList :: "jsval \<Rightarrow> jsval list" where
  "safeStringList value =
     (if \<not> is_arr value
      then []
      else filter truthy
             (map (\<lambda>item. Str (trim (to_str (js_or item (Str []))))) (elems value)))"

definition sentimentReviewNoteFromEvidence :: "jsval \<Rightarrow> jsval \<Rightarrow> jsval \<Rightarrow> jsval" where
  "sentimentReviewNoteFromEvidence humanFactors watchSignals fallback =
     (let signalNotes =
              map (\<lambda>signal. Str (watchSignalReviewText signal))
                (take 2 (elems watchSignals));
          parts = filter truthy (take 2 (safeStringList humanFactors) @ signalNotes)
      in if parts \<noteq> [] then Str (js_join (zh 271) parts) else fallback)"

definition cleanSymbolsForText :: "jsval \<Rightarrow> jstr" where
  "cleanSymbolsForText symbols =
     (if \<not> is_arr symbols
      then []
      else let out = cleanSymbolList symbols in js_join (js '', '') out)"

definition inferredSymbolsFromRuns :: "jsval \<Rightarrow> jsval list" where
  "inferredSymbolsFromRuns runs =
     (let runs = dflt runs (Arr []);
          seeds = [];
          seeds =
              fold
                (\<lambda>run seeds.
                   if is_arr (fld run ''symbols'')
                   then seeds @ elems (fld run ''symbols'')
                   else seeds) (elems runs) seeds;
          fromRuns = take 6 (cleanSymbolList (Arr seeds))
      in if fromRuns \<noteq> []
         then fromRuns
         else cleanSymbolList (Arr [S ''BTC'', S ''ETH'', S ''SOL'']))"

definition safeExecutionModeForGoal :: "jsval \<Rightarrow> jstr" where
  "safeExecutionModeForGoal mode =
     (let value = lower (trim (to_str (js_or mode (S ''paper''))))
      in if value = js ''observe'' then js ''observe'' else js ''paper'')"

definition safeRiskPreferenceForGoal :: "jsval \<Rightarrow> jstr" where
  "safeRiskPreferenceForGoal riskPreference =
     (let value = lower (trim (to_str (js_or riskPreference (S ''balanced''))))
      in if list_has [S ''conservative'', S ''balanced'', S ''aggressive''] (Str value)
         then value
         else js ''balanced'')"

definition normalizeKind :: "jsval \<Rightarrow> jstr" where
  "normalizeKind kind =
     (if kind = S ''polymarket_event'' then js ''polymarket_event'' else js ''grid_dca'')"

definition normalizePositions :: "jsval \<Rightarrow> jsval" where
  "normalizePositions value =
     (if \<not> is_arr value
      then fld DEFAULT_PRESET ''createPositions''
      else let out =
                   take 8
                     (filter (\<lambda>row. num_lt (Fin 0) (to_num (fld row ''marginRate'')))
                        (map
                           (\<lambda>row.
                              obj [(''marginRate'', clampNumber (fld row ''marginRate'') (N 0) (N 0) (N 1)),
                                   (''lossAddRate'', clampNumber (fld row ''lossAddRate'') (N 0) (N 0) (N 1))])
                           (elems value)))
           in if out \<noteq> [] then Arr out else fld DEFAULT_PRESET ''createPositions'')"

definition readPositions :: "jsval \<Rightarrow> jsval" where
  "readPositions raw =
     (if \<not> truthy raw then fld DEFAULT_PRESET ''createPositions''
      else case json_parse (to_str raw) of
        Some v \<Rightarrow> normalizePositions v
      | None \<Rightarrow> fld DEFAULT_PRESET ''createPositions'')"

definition normalizeRiskCaps :: "jsval \<Rightarrow> jsval" where
  "normalizeRiskCaps value =
     (if \<not> truthy value \<or> \<not> is_object value
      then Null
      else let risk =
                   obj [(''maxPositionUsd'', clampNumber (fld value ''maxPositionUsd'') (N 0) (N 0)
                                (N 1000000000)),
                        (''maxLeverage'', clampNumber (fld value ''maxLeverage'') (N 0) (N 0) (N 125)),
                        (''dailyLossCapUsd'', clampNumber (fld value ''dailyLossCapUsd'') (N 0) (N 0)
                                (N 1000000000))]
           in if num_le (to_num (fld risk ''maxPositionUsd'')) (Fin 0) \<or>
                 num_le (to_num (fld risk ''maxLeverage'')) (Fin 0) \<or>
                 num_le (to_num (fld risk ''dailyLossCapUsd'')) (Fin 0)
              then Null
              else risk)"

definition clampScore :: "jsval \<Rightarrow> jsnum" where
  "clampScore n =
     (if \<not> is_fin_num n
      then Fin 0
      else num_max (Fin 0) (num_min (Fin 100) (num_round (to_num n))))"

definition formatPercentValue :: "jsval \<Rightarrow> jstr" where
  "formatPercentValue value =
     (let n = to_num value
      in if \<not> is_finite n then js ''0.00%'' else to_fixed 2 (num_mul n (Fin 100)) @ js ''%'')"

definition formatSharpeValue :: "jsval \<Rightarrow> jstr" where
  "formatSharpeValue value =
     (let n = to_num value in if \<not> is_finite n then js ''0.00'' else to_fixed 2 n)"

definition nonNegativeCount :: "jsval \<Rightarrow> jsnum" where
  "nonNegativeCount value =
     (let n = to_num value
      in if \<not> is_finite n \<or> num_lt n (Fin 0) then Fin 0 else num_round n)"

definition pushUniqueText :: "jsval list \<Rightarrow> jsval \<Rightarrow> jsval list" where
  "pushUniqueText xs value' =
     (let text' = trim (to_str (js_or value' (Str [])))
      in if text' \<noteq> [] \<and> \<not> list_has xs (Str text') then xs @ [Str text'] else xs)"

definition money :: "jsval \<Rightarrow> jstr" where
  "money value =
     (let n = to_num value
      in if \<not> is_finite n \<or> num_le n (Fin 0)
         then (zh 5880)
         else js ''$'' @ num_to_string (num_round n))"

end
