(* ===== verification/Strategy_Preset.thy ===== *)
theory Strategy_Preset
  imports Preset_Text
begin

section \<open>Strategy drafts, presets and their validation requests\<close>

text \<open>
  A part of \<^verbatim>\<open>src/client/data/ai-goal-preset.mjs\<close>: the translation of a
  strategy draft of the AI analysis into the query string of the strategy form and back, the risk
  caps that bound it, and the backtest requests that are made of drafts. Literals that are not
  ASCII are looked up in \<open>Ui_Texts\<close>; their key is ten times the line of the source
  file they stand on, plus a rank.
\<close>


definition riskCapsFromSearchParams :: "(jstr \<times> jstr) list \<Rightarrow> jsval" where
  "riskCapsFromSearchParams searchParams =
     normalizeRiskCaps
       (obj [(''maxPositionUsd'', param searchParams (js ''riskMaxPositionUsd'')),
             (''maxLeverage'', param searchParams (js ''riskMaxLeverage'')),
             (''dailyLossCapUsd'', param searchParams (js ''riskDailyLossCapUsd''))])"

definition strategyPresetFromDraft :: "jsval \<Rightarrow> jsval" where
  "strategyPresetFromDraft draft =
     (let params =
              if truthy (fld draft ''params'') \<and> is_object (fld draft ''params'')
              then fld draft ''params''
              else obj [];
          risk = normalizeRiskCaps (fld draft ''riskCaps'');
          maxLeverage =
              if truthy risk
              then clampInt (fld risk ''maxLeverage'') (N 3) (N 1) (N 125)
              else Fin 125;
          leverageFallback = num_min (Fin 3) maxLeverage;
          maxOrderGroupMargin =
              if truthy risk
              then clampInt (fld risk ''maxPositionUsd'') (N 100) (N 1) (N 1000000)
              else Fin 1000000;
          orderGroupMarginFallback = num_min (Fin 100) maxOrderGroupMargin;
          out =
              obj [(''source'', S ''ai-goal''),
                   (''name'', Str (normalizeName (fld draft ''name'') (fld draft ''symbol''))),
                   (''kind'', Str (normalizeKind (fld draft ''kind''))),
                   (''execSymbol'', normalizeSymbol (fld draft ''symbol'')),
                   (''positionLevel'', Str
                           (num_to_string
                              (clampInt (fld params ''positionLevel'') (Num leverageFallback)
                                 (N 1) (Num maxLeverage)))),
                   (''openPositionStopTime'', Str
                           (num_to_string
                              (clampInt (fld params ''openPositionStopTime'') (N 30) (N 0)
                                 (N 1440)))),
                   (''orderGroupMargin'', Str
                           (num_to_string
                              (clampInt (fld params ''orderGroupMargin'')
                                 (Num orderGroupMarginFallback) (N 0) (Num maxOrderGroupMargin)))),
                   (''stopProfitRate'', Str
                           (to_str
                              (clampNumber (fld params ''stopProfitRate'') (Num (fl (3 / 100)))
                                 (N 0) (N 1)))),
                   (''stopLossRate'', Str
                           (to_str
                              (clampNumber (fld params ''stopLossRate'') (Num (fl (1 / 20))) (N 0)
                                 (N 1)))),
                   (''profitRateAfterAtAddPosition'', Str
                           (to_str
                              (clampNumber (fld params ''profitRateAfterAtAddPosition'')
                                 (Num (fl (1 / 100))) (N 0) (N 1)))),
                   (''createCostOrderInProfit'', Str (to_str (Bool (truthy (fld params ''createCostOrderInProfit''))))),
                   (''createPositions'', Str
                           (json_stringify (normalizePositions (fld params ''createPositions''))))]
      in if truthy risk
         then let out =
                      spread out [(''riskMaxPositionUsd'', Str (to_str (fld risk ''maxPositionUsd'')))];
                  out =
                      spread out [(''riskMaxLeverage'', Str (to_str (fld risk ''maxLeverage'')))]
              in spread out [(''riskDailyLossCapUsd'', Str (to_str (fld risk ''dailyLossCapUsd'')))]
         else out)"

definition strategyPresetSearchFromDraft :: "jsval \<Rightarrow> jstr" where
  "strategyPresetSearchFromDraft draft = query_string (params_of (strategyPresetFromDraft draft))"

definition strategyHrefWithAIRunId ::
    "jsval \<Rightarrow> jsval \<Rightarrow> (jstr \<Rightarrow> (jstr \<times> (jstr \<times> jstr) list) option) \<Rightarrow> jsval" where
  "strategyHrefWithAIRunId href aiRunId url =
     (let sourceRunId = trim (to_str (js_or aiRunId (Str [])));
          rawHref = trim (to_str (js_or href (Str [])))
      in if sourceRunId = [] then href
         else if rawHref = [] then Str rawHref
         else case url rawHref of
           Some (pathname, searchParams) \<Rightarrow>
             Str (pathname @ js ''?'' @ query_string (qs_set searchParams (js ''aiRunId'') sourceRunId))
         | None \<Rightarrow> Str rawHref)"

definition optionPayloadFromStrategyDraft :: "jsval \<Rightarrow> jsval \<Rightarrow> jsval" where
  "optionPayloadFromStrategyDraft draft aiRunId =
     (let aiRunId = dflt aiRunId (Str [])
      in if to_str (js_or (fld draft ''kind'') (Str [])) \<noteq> js ''grid_dca''
         then Null
         else let preset = strategyPresetFromDraft draft;
                  risk =
                      normalizeRiskCaps
                        (obj [(''maxPositionUsd'', fld preset ''riskMaxPositionUsd''),
                              (''maxLeverage'', fld preset ''riskMaxLeverage''),
                              (''dailyLossCapUsd'', fld preset ''riskDailyLossCapUsd'')]);
                  sourceRunId = trim (to_str (js_or aiRunId (Str [])))
              in merge
                   (merge
                      (obj [(''name'', fld preset ''name''),
                            (''positionLevel'', Num (to_num (fld preset ''positionLevel''))),
                            (''openPositionStopTime'', Num (to_num (fld preset ''openPositionStopTime''))),
                            (''execSymbol'', fld preset ''execSymbol''),
                            (''orderGroupMargin'', Num (to_num (fld preset ''orderGroupMargin''))),
                            (''stopProfitRate'', Num (to_num (fld preset ''stopProfitRate''))),
                            (''stopLossRate'', Num (to_num (fld preset ''stopLossRate''))),
                            (''profitRateAfterAtAddPosition'', Num (to_num (fld preset ''profitRateAfterAtAddPosition''))),
                            (''createCostOrderInProfit'', Bool (fld preset ''createCostOrderInProfit'' = S ''true'')),
                            (''createPositions'', readPositions (fld preset ''createPositions''))])
                      (if sourceRunId \<noteq> []
                       then obj [(''aiRunId'', Str sourceRunId)]
                       else obj [])) (if truthy risk then obj [(''risk'', risk)] else obj []))"

definition strategyActionPatchFromSavedDraft :: "jsval \<Rightarrow> jsval \<Rightarrow> jsval \<Rightarrow> jsval \<Rightarrow> jsval" where
  "strategyActionPatchFromSavedDraft analysis draft response href =
     (let analysis = dflt analysis Null;
          draft = dflt draft Null;
          response = dflt response Null;
          href = dflt href (Str []);
          savedId =
              trim
                (to_str
                   (js_or
                      (js_or
                         (js_or (fld (fld response ''value'') ''id'')
                            (fld (fld response ''value'') ''name'')) (fld draft ''name''))
                      (Str [])));
          name =
              trim
                (to_str
                   (js_or (js_or (fld (fld response ''value'') ''name'') (fld draft ''name''))
                      (Str (zh 560))));
          runId = trim (to_str (js_or (fld analysis ''id'') (Str [])));
          goal = trim (to_str (js_or (fld analysis ''goal'') (Str [])));
          symbol =
              trim
                (to_str
                   (js_or
                      (js_or (fld draft ''symbol'') (fld (fld draft ''params'') ''execSymbol''))
                      (Str [])));
          hypothesis =
              trim
                (to_str
                   (js_or (js_or (fld draft ''hypothesis'') (fld draft ''rationale'')) (Str [])));
          detailParts =
              filter truthy [Str (name @ (zh 4380)),
                             Str (if runId \<noteq> [] then (zh 4390) @ runId else []),
                             Str (if goal \<noteq> [] then (zh 2273) @ goal else []),
                             Str (if symbol \<noteq> [] then (zh 2490) @ symbol else []),
                             Str (if hypothesis \<noteq> [] then (zh 4420) @ hypothesis else []),
                             Str (zh 4430),
                             Str (zh 4442),
                             Str (zh 4450),
                             Str (zh 4463)]
      in spread
           (merge (obj [(''status'', S ''done''), (''relatedId'', Str savedId)])
              (if truthy href then obj [(''href'', href)] else obj []))
           [(''note'', Str (js_join (zh 271) detailParts))])"

definition strategyActionPatchFromOptionPresetCreate :: "jsval \<Rightarrow> jsval \<Rightarrow> jsval \<Rightarrow> jsval" where
  "strategyActionPatchFromOptionPresetCreate preset response href =
     (let preset = dflt preset Null;
          response = dflt response Null;
          href = dflt href (Str []);
          runId = trim (to_str (js_or (fld preset ''aiRunId'') (Str [])))
      in if \<not> truthy (fld preset ''isPreset'') \<or> runId = []
         then Null
         else let execSymbol =
                      trim
                        (to_str
                           (js_or
                              (js_or (js_or (fld preset ''execSymbol'') (fld preset ''symbol''))
                                 (fld (fld preset ''params'') ''execSymbol'')) (Str [])));
                  draft =
                      obj [(''name'', fld preset ''name''), (''kind'', fld preset ''kind''),
                           (''symbol'', Str execSymbol),
                           (''params'', obj [(''execSymbol'', Str execSymbol)])]
              in obj [(''runId'', Str runId), (''actionId'', S ''strategy''),
                      (''patch'', strategyActionPatchFromSavedDraft (obj [(''id'', Str runId)]) draft
                              response href)])"

definition savedStrategyBacktestParamsFromOption :: "jsval \<Rightarrow> jsval" where
  "savedStrategyBacktestParamsFromOption strategy =
     obj [(''positionLevel'', Num (to_num (js_or (fld strategy ''positionLevel'') (N 0)))),
          (''orderGroupMargin'', Num (to_num (js_or (fld strategy ''orderGroupMargin'') (N 0)))),
          (''stopProfitRate'', Num (to_num (js_or (fld strategy ''stopProfitRate'') (N 0)))),
          (''stopLossRate'', Num (to_num (js_or (fld strategy ''stopLossRate'') (N 0)))),
          (''profitRateAfterAtAddPosition'', Num (to_num (js_or (fld strategy ''profitRateAfterAtAddPosition'') (N 0)))),
          (''createCostOrderInProfit'', Bool (truthy (fld strategy ''createCostOrderInProfit''))),
          (''createPositions'', Arr (elems (fld strategy ''createPositions'')))]"

definition savedStrategyBacktestHrefFromOption :: "jsval \<Rightarrow> jstr" where
  "savedStrategyBacktestHrefFromOption strategy =
     (let id' =
              trim (to_str (js_or (js_or (fld strategy ''id'') (fld strategy ''name'')) (Str [])));
          symbol = trim (to_str (js_or (fld strategy ''execSymbol'') (Str [])));
          qs = [];
          qs = if id' \<noteq> [] then qs_set qs (js ''strategyId'') id' else qs;
          qs = if symbol \<noteq> [] then qs_set qs (js ''symbol'') symbol else qs;
          qs =
              qs_set qs (js ''proposed'')
                (json_stringify (savedStrategyBacktestParamsFromOption strategy));
          qs = qs_set qs (js ''lookbackDays'') (js ''90'');
          query = query_string qs
      in if query \<noteq> [] then js ''/backtests/new?'' @ query else js ''/backtests/new'')"

definition savedStrategyBacktestRequestFromOption :: "jsval \<Rightarrow> date \<Rightarrow> jsval" where
  "savedStrategyBacktestRequestFromOption strategy now =
     (let id' =
              trim (to_str (js_or (js_or (fld strategy ''id'') (fld strategy ''name'')) (Str [])));
          symbol = trim (to_str (js_or (fld strategy ''execSymbol'') (Str [])))
      in if id' = [] \<or> symbol = []
         then Null
         else let start =
                      date_of_num
                        (num_sub (time_of now)
                           (num_mul
                              (num_mul (num_mul (num_mul (Fin 90) (Fin 24)) (Fin 60)) (Fin 60))
                              (Fin 1000)))
              in obj [(''strategyId'', Str id'), (''kind'', S ''grid_dca''),
                      (''params'', savedStrategyBacktestParamsFromOption strategy),
                      (''symbol'', Str symbol), (''exchange'', S ''binance''),
                      (''timeframe'', S ''1h''), (''start'', Str (iso_string start)),
                      (''end'', Str (iso_string now)), (''initialCapital'', N 10000),
                      (''commissionRate'', Num (fl (1 / 2500))), (''slippageBps'', N 1)])"

definition aiMoneyRunHref :: "jsval \<Rightarrow> jstr" where
  "aiMoneyRunHref runId =
     (let id' = trim (to_str (js_or runId (Str [])))
      in if id' = []
         then js ''/ai-money''
         else let qs = params_of (obj [(''runId'', Str id')])
              in js ''/ai-money?'' @ query_string qs)"

definition optionCreateRedirectHref :: "jsval \<Rightarrow> jsval \<Rightarrow> jsval \<Rightarrow> jstr" where
  "optionCreateRedirectHref isAIPreset response runId =
     (let isAIPreset = dflt isAIPreset (Bool False);
          response = dflt response Null;
          runId = dflt runId (Str [])
      in if \<not> truthy isAIPreset
         then js ''/strategies''
         else let id' = trim (to_str (js_or (fld (fld response ''value'') ''id'') (Str [])))
              in if id' = []
                 then js ''/strategies''
                 else let qs = params_of (obj [(''from'', S ''ai-draft'')]);
                          sourceRunId = trim (to_str (js_or runId (Str [])));
                          qs =
                              if sourceRunId \<noteq> []
                              then qs_set qs (js ''aiRunId'') sourceRunId
                              else qs
                      in js ''/strategies/'' @ uri_component id' @ js ''?'' @ query_string qs)"

definition backtestRequestFromDraft :: "jsval \<Rightarrow> date \<Rightarrow> jsval" where
  "backtestRequestFromDraft draft now =
     (if fld draft ''kind'' = S ''watch_only''
      then Null
      else let preset = strategyPresetFromDraft draft;
               start =
                   date_of_num
                     (num_sub (time_of now)
                        (num_mul (num_mul (num_mul (num_mul (Fin 90) (Fin 24)) (Fin 60)) (Fin 60))
                           (Fin 1000)))
           in obj [(''strategyId'', fld preset ''name''),
                   (''kind'', Str (normalizeKind (fld draft ''kind''))),
                   (''params'', if truthy (fld draft ''params'') \<and> is_object (fld draft ''params'')
                         then fld draft ''params''
                         else obj []),
                   (''symbol'', fld preset ''execSymbol''), (''exchange'', S ''binance''),
                   (''timeframe'', S ''1h''), (''start'', Str (iso_string start)),
                   (''end'', Str (iso_string now)), (''initialCapital'', N 10000),
                   (''commissionRate'', Num (fl (1 / 2500))), (''slippageBps'', N 1)])"

definition runnableBacktestRequestsFromAnalysis :: "jsval \<Rightarrow> date \<Rightarrow> jsval list" where
  "runnableBacktestRequestsFromAnalysis analysis now =
     (let drafts = elems (fld analysis ''strategyDrafts'');
          seen = [];
          out = [];
          (seen, out) =
              fold
                (\<lambda>draft (seen, out).
                   let request = backtestRequestFromDraft draft now
                   in if request = Null
                      then (seen, out)
                      else let key =
                                   to_str (fld request ''strategyId'') @
                                   js '':'' @
                                   to_str (fld request ''symbol'')
                           in if list_has seen (Str key)
                              then (seen, out)
                              else let seen = set_add seen (Str key);
                                       out =
                                           out @
                                           [obj [(''draft'', draft), (''request'', request)]]
                                   in (seen, out)) drafts (seen, out)
      in out)"

text \<open>
  The drafts that \<open>runnableBacktestRequestsFromAnalysis\<close> did not select. The code finds them by the
  identity of the draft objects, so a draft that equals an earlier one counts as not selected.
\<close>

definition unselectedDrafts :: "jsval list \<Rightarrow> date \<Rightarrow> jsval list" where
  "unselectedDrafts drafts now =
     snd (fold
            (\<lambda>draft (seen, out).
               let request = backtestRequestFromDraft draft now;
                   key = to_str (fld request ''strategyId'') @ js '':'' @ to_str (fld request ''symbol'')
               in if request = Null \<or> list_has seen (Str key) then (seen, out @ [draft])
                  else (set_add seen (Str key), out)) drafts ([], []))"

definition autoValidationPlanFromAnalysis :: "jsval \<Rightarrow> date \<Rightarrow> jsval" where
  "autoValidationPlanFromAnalysis analysis now =
     (let items = runnableBacktestRequestsFromAnalysis analysis now;
          drafts = elems (fld analysis ''strategyDrafts'');
          skippedDrafts =
              map
                (\<lambda>draft.
                   obj [(''name'', Str
                                (to_str
                                   (js_or (js_or (fld draft ''name'') (fld draft ''symbol''))
                                      (Str (zh 26320))))),
                        (''kind'', Str (to_str (js_or (fld draft ''kind'') (S ''unknown'')))),
                        (''symbol'', Str (to_str (js_or (fld draft ''symbol'') (Str [])))),
                        (''reason'', Str
                                (if fld draft ''kind'' = S ''watch_only''
                                 then (zh 26370)
                                 else (zh 26380)))])
                (unselectedDrafts drafts now);
          names =
              js_join (zh 277)
                (take 6
                   (filter truthy
                      (map
                         (\<lambda>x.
                            js_or (fld (fld x ''draft'') ''name'')
                              (fld (fld x ''draft'') ''symbol'')) items)));
          symbols =
              remdups_first
                (filter truthy (map (\<lambda>x. fld (fld x ''request'') ''symbol'') items));
          coverage =
              if items \<noteq> []
              then [Str ((zh 26490) @ js_join (js '', '') symbols),
                    Str (zh 26501),
                    Str ((zh 26510) @ names)]
              else [Str (zh 26530)];
          guardrails =
              [Str (zh 26550),
               Str (zh 26560),
               Str (zh 26570)]
      in if items = []
         then obj [(''status'', S ''blocked''), (''runnableCount'', N 0), (''items'', Arr items),
                   (''coverage'', Arr coverage), (''guardrails'', Arr guardrails),
                   (''skippedDrafts'', Arr skippedDrafts), (''activityLabel'', Str (zh 26670)),
                   (''activityDetail'', S ''no runnable drafts''),
                   (''actionNote'', Str (zh 26690))]
         else obj [(''status'', S ''ready''), (''runnableCount'', Num (len items)),
                   (''items'', Arr items), (''coverage'', Arr coverage),
                   (''guardrails'', Arr guardrails), (''skippedDrafts'', Arr skippedDrafts),
                   (''activityLabel'', Str ((zh 26790) @ num_to_string (len items) @ (zh 20922))),
                   (''activityDetail'', Str
                           (js_join (js '', '')
                              (map (\<lambda>x. fld (fld x ''request'') ''symbol'') items))),
                   (''actionNote'', Str ((zh 26811) @ num_to_string (len items) @ (zh 26812) @ names))])"

definition backtestActionUpdateFromValidationResult :: "jsval \<Rightarrow> jsval \<Rightarrow> jsval" where
  "backtestActionUpdateFromValidationResult plan handles =
     (let runIds =
              if is_arr handles
              then filter truthy
                     (map
                        (\<lambda>handle.
                           Str (trim (to_str (js_or (fld handle ''runId'') (Str [])))))
                        (elems handles))
              else []
      in if runIds = []
         then obj [(''status'', S ''blocked''), (''relatedId'', Str []), (''href'', Str []),
                   (''note'', js_or (fld plan ''actionNote'') (Str (zh 26690)))]
         else let names =
                      if is_arr (fld plan ''items'')
                      then js_join (zh 277)
                             (take 6
                                (filter truthy
                                   (map
                                      (\<lambda>x.
                                         js_or (fld (fld x ''draft'') ''name'')
                                           (fld (fld x ''draft'') ''symbol''))
                                      (elems (fld plan ''items'')))))
                      else []
              in obj [(''status'', S ''done''),
                      (''relatedId'', Str (take 200 (js_join (js '','') runIds))),
                      (''href'', Str (js ''/backtests/'' @ to_str (item_at runIds 0))),
                      (''note'', Str
                              ((zh 38800) @
                               num_to_string (len runIds) @
                               (zh 26813) @
                               (if names \<noteq> [] then (zh 292) @ names else [])))])"

definition safeDateISOString :: "jsval \<Rightarrow> date \<Rightarrow> jstr" where
  "safeDateISOString value fallback =
     (let date = if truthy value then date_of value else fallback
      in if time_of date = NaN then iso_string fallback else iso_string date)"

definition optimisticValidationRunsFromHandles :: "jsval \<Rightarrow> jsval \<Rightarrow> date \<Rightarrow> date \<Rightarrow> jsval list" where
  "optimisticValidationRunsFromHandles plan handles now clock =
     (let handles = dflt handles (Arr []);
          items = elems (fld plan ''items'');
          fallbackTime = if True \<and> time_of now \<noteq> NaN then now else clock
      in filter truthy
           (map_idx
              (\<lambda>handle index.
                 let runId = trim (to_str (js_or (fld handle ''runId'') (Str [])));
                     item = item_at items (to_len index);
                     request = js_or (fld item ''request'') (obj [])
                 in if runId = [] \<or> \<not> truthy item
                    then Null
                    else obj [(''runId'', Str runId),
                              (''strategyId'', Str
                                      (to_str
                                         (js_or
                                            (js_or (fld request ''strategyId'')
                                               (fld (fld item ''draft'') ''name'')) (Str runId)))),
                              (''kind'', Str
                                      (to_str
                                         (js_or
                                            (js_or (fld request ''kind'')
                                               (fld (fld item ''draft'') ''kind''))
                                            (S ''grid_dca'')))),
                              (''params'', js_or (fld request ''params'') (obj [])),
                              (''request'', request), (''state'', N 1), (''progress'', N 0),
                              (''metrics'', obj []), (''trades'', Arr []),
                              (''createdAt'', Str
                                      (safeDateISOString (fld handle ''enqueuedAt'') fallbackTime)),
                              (''startedAt'', Null), (''finishedAt'', Null), (''error'', Str [])])
              (elems handles)))"

definition aiDraftEvidenceFromAnalysis :: "jsval \<Rightarrow> jsval \<Rightarrow> date \<Rightarrow> jsval" where
  "aiDraftEvidenceFromAnalysis analysis draft clock =
     (let name =
              s_or
                (trim
                   (to_str
                      (js_or (js_or (fld draft ''name'') (fld draft ''symbol'')) (Str (zh 6602)))))
                (zh 6602);
          context = js_or (fld analysis ''context'') (obj []);
          notes = safeStringList (fld context ''notes'');
          watchSignals = elems (fld analysis ''watchSignals'');
          humanFactors = safeStringList (fld analysis ''humanFactors'');
          gates = safeStringList (fld (fld analysis ''execution'') ''safetyGates'');
          risk = normalizeRiskCaps (fld draft ''riskCaps'');
          backtestRequest = backtestRequestFromDraft draft clock;
          contextValue =
              num_to_string (to_num (js_or (fld context ''newsCount'') (N 0))) @
              js ''/'' @
              num_to_string (to_num (js_or (fld context ''macroCount'') (N 0))) @
              js ''/'' @
              num_to_string (to_num (js_or (fld context ''onchainCount'') (N 0)));
          evidence =
              [Str
                 ((zh 20373) @
                  num_to_string (to_num (js_or (fld context ''newsCount'') (N 0))) @
                  (zh 25480) @
                  num_to_string (to_num (js_or (fld context ''macroCount'') (N 0))) @
                  (zh 25481) @
                  num_to_string (to_num (js_or (fld context ''onchainCount'') (N 0))) @
                  (zh 56910))] @
              map
                (\<lambda>item.
                   Str
                     (let source = trim (to_str (js_or (fld item ''source'') (S ''signal'')));
                          signal = trim (to_str (js_or (fld item ''signal'') (Str (zh 10201))));
                          action = trim (to_str (js_or (fld item ''action'') (Str [])))
                      in if action \<noteq> []
                         then source @ js '': '' @ signal @ (zh 56960) @ action
                         else source @ js '': '' @ signal)) (take 3 watchSignals) @
              map (\<lambda>item. Str ((zh 56980) @ to_str item)) (take 3 notes);
          risks =
              take 4 humanFactors @
              (if truthy risk
               then [Str
                       ((zh 57040) @
                        money (fld risk ''maxPositionUsd'') @
                        (zh 6751) @
                        to_fixed 0 (to_num (fld risk ''maxLeverage'')) @
                        (zh 55310) @
                        money (fld risk ''dailyLossCapUsd'') @
                        (zh 270))]
               else [Str (zh 57060)]);
          safetyGates =
              (if truthy backtestRequest then gates else [Str (zh 57090)]) @
              (if notes \<noteq> [] then [Str (zh 57100)] else []);
          actions =
              if truthy backtestRequest
              then [Str (zh 57140), Str (zh 57150)]
              else [Str (zh 57180), Str (zh 57190)];
          tone =
              if \<not> truthy backtestRequest \<or> notes \<noteq> [] \<or> \<not> truthy risk
              then js ''warning''
              else js ''success'';
          mode = if truthy backtestRequest then (zh 2421) else (zh 230)
      in obj [(''title'', Str (name @ (zh 57240))),
              (''summary'', Str
                      (if truthy risk
                       then mode @
                            (zh 57261) @
                            money (fld risk ''maxPositionUsd'') @
                            (zh 57260) @
                            to_fixed 0 (to_num (fld risk ''maxLeverage'')) @
                            (zh 56691)
                       else mode @ (zh 57270))),
              (''tone'', Str tone),
              (''metrics'', Arr [obj [(''label'', Str (zh 2720)), (''value'', Str contextValue),
                              (''hint'', Str (zh 37190))],
                         obj [(''label'', Str (zh 10201)),
                              (''value'', Str (num_to_string (len watchSignals))),
                              (''hint'', Str
                                      (if humanFactors \<noteq> []
                                       then num_to_string (len humanFactors) @ (zh 41590)
                                       else (zh 57340)))],
                         obj [(''label'', Str (zh 200)), (''value'', Str mode),
                              (''hint'', Str
                                      (to_str
                                         (js_or (fld (fld analysis ''execution'') ''mode'')
                                            (S ''observe''))))]]),
              (''evidence'', Arr evidence), (''risks'', Arr risks), (''gates'', Arr safetyGates),
              (''actions'', Arr actions)])"

definition aiStrategyCreationSummaryFromDraft :: "jsval \<Rightarrow> jsval \<Rightarrow> date \<Rightarrow> jsval" where
  "aiStrategyCreationSummaryFromDraft analysis draft clock =
     (let analysis = dflt analysis Null;
          draft = dflt draft Null;
          name =
              s_or
                (trim
                   (to_str
                      (js_or (js_or (fld draft ''name'') (fld draft ''symbol'')) (Str (zh 6602)))))
                (zh 6602);
          request = backtestRequestFromDraft draft clock;
          risk = normalizeRiskCaps (fld draft ''riskCaps'');
          executionMode =
              to_str (js_or (fld (fld analysis ''execution'') ''mode'') (S ''observe''));
          blockers = [];
          blockers =
              if \<not> truthy draft then blockers @ [Str (zh 57560)] else blockers;
          blockers =
              if \<not> truthy request
              then blockers @ [Str (zh 57590)]
              else blockers;
          blockers =
              if \<not> truthy risk
              then blockers @ [Str (zh 57620)]
              else blockers;
          preset = if truthy request then strategyPresetFromDraft draft else Null;
          primaryHref =
              if blockers = []
              then Str (js ''/option?'' @ strategyPresetSearchFromDraft draft)
              else Undef;
          isReady = blockers = [];
          maxLeverageText =
              if truthy risk
              then to_fixed 0 (to_num (fld risk ''maxLeverage'')) @ js ''x''
              else (zh 5880);
          riskText =
              if truthy risk
              then money (fld risk ''maxPositionUsd'') @
                   (zh 57730) @
                   maxLeverageText @
                   (zh 57731) @
                   money (fld risk ''dailyLossCapUsd'')
              else (zh 5880)
      in obj [(''stage'', Str (if isReady then js ''ready_to_prefill'' else js ''blocked'')),
              (''title'', Str (if isReady then name @ (zh 57780) else name @ (zh 57781))),
              (''tone'', Str (if isReady then js ''success'' else js ''warning'')),
              (''summary'', Str
                      (if isReady
                       then (zh 57810)
                       else (zh 57820))),
              (''primaryHref'', primaryHref),
              (''primaryAction'', if truthy primaryHref
                    then obj [(''kind'', S ''save_strategy_draft''), (''label'', Str (zh 4381))]
                    else Undef),
              (''metrics'', Arr [obj [(''label'', Str (zh 57890)),
                              (''value'', js_or (fld preset ''execSymbol'') (Str (zh 5880))),
                              (''hint'', js_or (fld draft ''kind'') (Str (zh 36900)))],
                         obj [(''label'', Str (zh 4464)),
                              (''value'', Str
                                      (if truthy risk
                                       then money (fld risk ''maxPositionUsd'')
                                       else (zh 5880))),
                              (''hint'', Str riskText)],
                         obj [(''label'', Str (zh 24160)), (''value'', Str executionMode),
                              (''hint'', Str (zh 58010))]]),
              (''aiPrepared'', Arr
                      ((if truthy preset
                        then [Str
                                ((zh 58070) @
                                 to_str (fld preset ''execSymbol'') @
                                 (zh 58071) @
                                 to_str (fld preset ''name'') @
                                 (zh 270)),
                              Str
                                ((zh 6756) @
                                 to_str (fld preset ''positionLevel'') @
                                 (zh 58080) @
                                 money (fld preset ''orderGroupMargin'') @
                                 (zh 270)),
                              Str
                                ((zh 58090) @
                                 formatPercentValue (fld preset ''stopProfitRate'') @
                                 (zh 58091) @
                                 formatPercentValue (fld preset ''stopLossRate'') @
                                 (zh 270))]
                        else [Str (zh 58110)]) @
                       (if truthy risk
                        then [Str
                                ((zh 57040) @
                                 money (fld risk ''maxPositionUsd'') @
                                 (zh 6751) @
                                 maxLeverageText @
                                 (zh 55311) @
                                 money (fld risk ''dailyLossCapUsd'') @
                                 (zh 270))]
                        else []))),
              (''userRequired'', Arr
                      (if isReady
                       then [Str (zh 58200),
                             Str (zh 58210),
                             Str (zh 58220)]
                       else [Str (zh 58250), Str (zh 58260)])),
              (''blockers'', Arr blockers)])"

definition parseStrategyPreset :: "(jstr \<times> jstr) list \<Rightarrow> jsval" where
  "parseStrategyPreset searchParams =
     (let source = param searchParams (js ''source'');
          isPreset = source = S ''ai-goal'';
          risk = riskCapsFromSearchParams searchParams;
          maxLeverage =
              if truthy risk
              then clampInt (fld risk ''maxLeverage'') (fld DEFAULT_PRESET ''positionLevel'')
                     (N 1) (N 125)
              else Fin 125;
          leverageFallback = num_min (to_num (fld DEFAULT_PRESET ''positionLevel'')) maxLeverage;
          maxOrderGroupMargin =
              if truthy risk
              then clampInt (fld risk ''maxPositionUsd'')
                     (fld DEFAULT_PRESET ''orderGroupMargin'') (N 1) (N 1000000)
              else Fin 1000000;
          orderGroupMarginFallback =
              num_min (to_num (fld DEFAULT_PRESET ''orderGroupMargin'')) maxOrderGroupMargin
      in spread (merge (obj []) DEFAULT_PRESET) [(''isPreset'', Bool isPreset),
                                                 (''name'', Str
                                                         (normalizeName
                                                            (js_or
                                                               (param searchParams (js ''name''))
                                                               (fld DEFAULT_PRESET ''name''))
                                                            Undef)),
                                                 (''kind'', Str
                                                         (normalizeKind
                                                            (param searchParams (js ''kind'')))),
                                                 (''execSymbol'', normalizeSymbol
                                                         (param searchParams (js ''execSymbol''))),
                                                 (''positionLevel'', Num
                                                         (clampInt
                                                            (param searchParams
                                                               (js ''positionLevel''))
                                                            (Num leverageFallback) (N 1)
                                                            (Num maxLeverage))),
                                                 (''openPositionStopTime'', Num
                                                         (clampInt
                                                            (param searchParams
                                                               (js ''openPositionStopTime''))
                                                            (fld DEFAULT_PRESET
                                                               ''openPositionStopTime'') (N 0)
                                                            (N 1440))),
                                                 (''orderGroupMargin'', Num
                                                         (clampInt
                                                            (param searchParams
                                                               (js ''orderGroupMargin''))
                                                            (Num orderGroupMarginFallback) (N 0)
                                                            (Num maxOrderGroupMargin))),
                                                 (''stopProfitRate'', clampNumber
                                                         (param searchParams
                                                            (js ''stopProfitRate''))
                                                         (fld DEFAULT_PRESET ''stopProfitRate'')
                                                         (N 0) (N 1)),
                                                 (''stopLossRate'', clampNumber
                                                         (param searchParams (js ''stopLossRate''))
                                                         (fld DEFAULT_PRESET ''stopLossRate'')
                                                         (N 0) (N 1)),
                                                 (''profitRateAfterAtAddPosition'', clampNumber
                                                         (param searchParams
                                                            (js ''profitRateAfterAtAddPosition''))
                                                         (fld DEFAULT_PRESET
                                                            ''profitRateAfterAtAddPosition'')
                                                         (N 0) (N 1)),
                                                 (''createCostOrderInProfit'', Bool
                                                         (param searchParams
                                                            (js ''createCostOrderInProfit'') =
                                                            S ''true'')),
                                                 (''createPositions'', readPositions
                                                         (param searchParams
                                                            (js ''createPositions''))),
                                                 (''aiRunId'', Str
                                                         (trim
                                                            (to_str
                                                               (js_or
                                                                  (param searchParams
                                                                     (js ''aiRunId'')) (Str []))))),
                                                 (''risk'', risk)])"

end
