(* ===== verification/Backtest_Ranking.thy ===== *)
theory Backtest_Ranking
  imports Preset_Text Strategy_Preset
begin

section \<open>Ranking backtests and the paper candidate\<close>

text \<open>
  A part of \<^verbatim>\<open>src/client/data/ai-goal-preset.mjs\<close>: the scoring and ranking
  of validation runs, the candidate that is good enough for paper trading, its capital plan, and
  the observation plan of a paper position. Literals that are not ASCII are looked up in
  \<open>Ui_Texts\<close>; their key is ten times the line of the source file they stand on, plus
  a rank.
\<close>


definition strategyHandoffTone :: "jsval \<Rightarrow> jstr" where
  "strategyHandoffTone status =
     (if status = S ''done''
      then js ''success''
      else if status = S ''current''
      then js ''warning''
      else if status = S ''blocked''
      then js ''danger''
      else js ''default'')"

definition strategyHandoffItem :: "jsval \<Rightarrow> jsval \<Rightarrow> jsval \<Rightarrow> jsval \<Rightarrow> jsval \<Rightarrow> jsval" where
  "strategyHandoffItem id' label status detail href =
     merge
       (obj [(''id'', id'), (''label'', label), (''status'', status),
             (''tone'', Str (strategyHandoffTone status)), (''detail'', detail)])
       (if truthy href then obj [(''href'', href)] else obj [])"

definition isTradeableSafeAccount :: "jsval \<Rightarrow> bool" where
  "isTradeableSafeAccount account =
     (let permissions = js_or (fld account ''permissions'') (obj [])
      in truthy (fld permissions ''canTrade'') \<and>
         \<not> truthy (fld permissions ''canWithdraw''))"

definition completedBacktests :: "jsval \<Rightarrow> jsval list" where
  "completedBacktests backtests =
     (if \<not> is_arr backtests
      then []
      else filter (\<lambda>run. num_eq (to_num (fld run ''state'')) (Fin 3)) (elems backtests))"

definition activeBacktests :: "jsval \<Rightarrow> jsval list" where
  "activeBacktests backtests =
     (if \<not> is_arr backtests
      then []
      else filter (\<lambda>run. list_has [N 1, N 2] (Num (to_num (fld run ''state''))))
             (elems backtests))"

definition metric :: "jsval \<Rightarrow> jsval \<Rightarrow> jsval \<Rightarrow> jsval" where
  "metric run key fallback =
     (let fallback = dflt fallback (N 0);
          n = to_num (getp (fld run ''metrics'') (to_str key))
      in if is_finite n then Num n else fallback)"

definition rankBacktestValidation :: "jsval \<Rightarrow> jsval list" where
  "rankBacktestValidation backtests =
     (if \<not> is_arr backtests
      then []
      else js_sort
             (\<lambda>a b.
                if fld a ''score'' = Null \<and> fld b ''score'' = Null
                then Fin 0
                else if fld a ''score'' = Null
                then Fin 1
                else if fld b ''score'' = Null
                then Fin (- 1)
                else num_sub (to_num (fld b ''score'')) (to_num (fld a ''score'')))
             (map
                (\<lambda>run.
                   let state = to_num (fld run ''state'')
                   in if num_eq state (Fin 4)
                      then obj [(''runId'', js_or (fld run ''runId'') (Str [])),
                                (''strategyId'', js_or (fld run ''strategyId'') (Str [])),
                                (''state'', Num state),
                                (''progress'', Num (to_num (js_or (fld run ''progress'') (N 0)))),
                                (''score'', N 0),
                                (''totalReturn'', metric run (S ''total_return'') Undef),
                                (''sharpe'', metric run (S ''sharpe'') Undef),
                                (''maxDrawdown'', Num (num_abs (to_num (metric run (S ''max_dd'') Undef)))),
                                (''nTrades'', metric run (S ''n_trades'') Undef),
                                (''recommendation'', Str (zh 6180)), (''tone'', S ''danger'')]
                      else if \<not> num_eq state (Fin 3)
                      then obj [(''runId'', js_or (fld run ''runId'') (Str [])),
                                (''strategyId'', js_or (fld run ''strategyId'') (Str [])),
                                (''state'', Num state),
                                (''progress'', Num (to_num (js_or (fld run ''progress'') (N 0)))),
                                (''score'', Null),
                                (''totalReturn'', metric run (S ''total_return'') Undef),
                                (''sharpe'', metric run (S ''sharpe'') Undef),
                                (''maxDrawdown'', Num (num_abs (to_num (metric run (S ''max_dd'') Undef)))),
                                (''nTrades'', metric run (S ''n_trades'') Undef),
                                (''recommendation'', Str (zh 32270)), (''tone'', S ''warning'')]
                      else let totalReturn = metric run (S ''total_return'') Undef;
                               sharpe = metric run (S ''sharpe'') Undef;
                               maxDrawdown = num_abs (to_num (metric run (S ''max_dd'') Undef));
                               nTrades = metric run (S ''n_trades'') Undef;
                               tradeConfidence =
                                   num_div (num_min (to_num nTrades) (Fin 30)) (Fin 30);
                               score =
                                   clampScore
                                     (Num
                                        (num_add
                                           (num_sub
                                              (num_add
                                                 (num_add (Fin 50)
                                                    (num_mul (to_num totalReturn) (Fin 180)))
                                                 (num_mul (to_num sharpe) (Fin 12)))
                                              (num_mul maxDrawdown (Fin 160)))
                                           (num_mul tradeConfidence (Fin 8))));
                               recommendation = (zh 6320);
                               tone = js ''warning'';
                               (recommendation, tone) =
                                   if num_le (Fin 70) score \<and>
                                      num_lt (Fin 0) (to_num totalReturn) \<and>
                                      num_le (Fin 1) (to_num sharpe) \<and>
                                      num_le maxDrawdown (fl (1 / 5))
                                   then let recommendation = (zh 6150);
                                            tone = js ''success''
                                        in (recommendation, tone)
                                   else if num_lt score (Fin 50) \<or>
                                           num_le (to_num totalReturn) (Fin 0)
                                   then let recommendation = (zh 6170);
                                            tone = js ''danger''
                                        in (recommendation, tone)
                                   else (recommendation, tone)
                           in obj [(''runId'', js_or (fld run ''runId'') (Str [])),
                                   (''strategyId'', js_or (fld run ''strategyId'') (Str [])),
                                   (''state'', Num state),
                                   (''progress'', Num (to_num (js_or (fld run ''progress'') (N 0)))),
                                   (''score'', Num score), (''totalReturn'', totalReturn),
                                   (''sharpe'', sharpe), (''maxDrawdown'', Num maxDrawdown),
                                   (''nTrades'', nTrades),
                                   (''recommendation'', Str recommendation), (''tone'', Str tone)])
                (elems backtests)))"

definition aiSavedStrategyHandoffFromState :: "jsval \<Rightarrow> jsval \<Rightarrow> jsval \<Rightarrow> jsval \<Rightarrow> jsval" where
  "aiSavedStrategyHandoffFromState strategy accounts backtests goalRun =
     (let strategy = dflt strategy Null;
          accounts = dflt accounts (Arr []);
          backtests = dflt backtests (Arr []);
          goalRun = dflt goalRun Null;
          id' = trim (to_str (js_or (fld strategy ''id'') (Str [])));
          name = trim (to_str (js_or (fld strategy ''name'') (Str (zh 560))));
          symbol = trim (to_str (js_or (fld strategy ''execSymbol'') (Str (zh 5880))));
          risk = js_or (fld strategy ''risk'') (obj []);
          riskReady =
              num_lt (Fin 0) (to_num (js_or (fld risk ''maxPositionUsd'') (N 0))) \<and>
              num_lt (Fin 0) (to_num (js_or (fld risk ''maxLeverage'') (N 0))) \<and>
              num_lt (Fin 0) (to_num (js_or (fld risk ''dailyLossCapUsd'') (N 0)));
          liveOff = \<not> truthy (fld (fld strategy ''live'') ''enabled'');
          safeAccounts =
              if is_arr accounts then filter isTradeableSafeAccount (elems accounts) else [];
          completed = completedBacktests backtests;
          active = activeBacktests backtests;
          rankedCompleted = rankBacktestValidation (Arr completed);
          bestValidation = js_or (item_at rankedCompleted 0) Null;
          bestBacktest =
              js_or
                (js_or
                   (js_or
                      (if truthy (fld bestValidation ''runId'')
                       then js_find
                              (\<lambda>run.
                                 to_str (js_or (fld run ''runId'') (Str [])) =
                                   to_str (fld bestValidation ''runId'')) completed
                       else Null) (item_at completed 0)) (item_at active 0)) Null;
          backtestHref =
              if truthy (fld bestBacktest ''runId'')
              then js ''/backtests/'' @ uri_component (to_str (fld bestBacktest ''runId''))
              else if id' \<noteq> []
              then savedStrategyBacktestHrefFromOption strategy
              else js ''/backtests/new'';
          validationRecommendation =
              trim (to_str (js_or (fld bestValidation ''recommendation'') (Str [])));
          validationPaperReady = validationRecommendation = (zh 6150);
          validationFailed =
              validationRecommendation = (zh 6170) \<or>
              validationRecommendation = (zh 6180) \<or>
              fld bestValidation ''tone'' = S ''danger'';
          backtestStatus =
              if completed \<noteq> []
              then if validationPaperReady
                   then js ''done''
                   else if validationFailed
                   then js ''blocked''
                   else js ''current''
              else js ''current'';
          backtestDetail =
              if completed \<noteq> [] \<and> truthy bestValidation
              then num_to_string (len completed) @
                   (zh 6300) @
                   to_str (coalesce (fld bestValidation ''score'') (Str (zh 5880))) @
                   (zh 6321) @
                   s_or validationRecommendation (zh 6320) @
                   (zh 6322)
              else if completed \<noteq> []
              then num_to_string (len completed) @ (zh 6340)
              else if active \<noteq> []
              then num_to_string (len active) @ (zh 6360)
              else name @ (zh 6370) @ symbol @ (zh 6371);
          sourceRunId =
              trim
                (to_str (js_or (js_or (fld goalRun ''id'') (fld strategy ''aiRunId'')) (Str [])));
          sourceGoal = trim (to_str (js_or (fld goalRun ''goal'') (Str [])));
          sourceRunItem =
              if sourceRunId \<noteq> []
              then strategyHandoffItem (S ''source_run'') (Str (zh 6440)) (S ''done'')
                     (Str
                        (if sourceGoal \<noteq> []
                         then (zh 6470) @ sourceGoal
                         else (zh 6480)))
                     (Str (aiMoneyRunHref (Str sourceRunId)))
              else Null;
          items =
              (if truthy sourceRunItem then [sourceRunItem] else []) @
              [strategyHandoffItem (S ''live_off'') (Str (zh 6570))
                 (Str (if liveOff then js ''done'' else js ''blocked''))
                 (Str
                    (if liveOff
                     then (zh 6600)
                     else (zh 6610))) Undef,
               strategyHandoffItem (S ''backtest'') (Str (zh 4440)) (Str backtestStatus)
                 (Str backtestDetail) (Str backtestHref),
               strategyHandoffItem (S ''risk_caps'') (Str (zh 6720))
                 (Str (if riskReady then js ''done'' else js ''blocked''))
                 (Str
                    (if riskReady
                     then (zh 6750) @
                          to_fixed 0 (to_num (fld risk ''maxPositionUsd'')) @
                          (zh 6751) @
                          to_fixed 0 (to_num (fld risk ''maxLeverage'')) @
                          (zh 6752) @
                          to_fixed 0 (to_num (fld risk ''dailyLossCapUsd'')) @
                          (zh 270)
                     else (zh 6760))) Undef,
               strategyHandoffItem (S ''safe_account'') (Str (zh 4460))
                 (Str (if safeAccounts \<noteq> [] then js ''done'' else js ''blocked''))
                 (Str
                    (if safeAccounts \<noteq> []
                     then num_to_string (len safeAccounts) @ (zh 6840)
                     else (zh 6850)))
                 (if safeAccounts \<noteq> [] then Undef else S ''/accounts/new''),
               strategyHandoffItem (S ''paper_watch'') (Str (zh 290))
                 (Str
                    (if validationPaperReady \<and> liveOff \<and> riskReady
                     then js ''current''
                     else js ''pending''))
                 (Str
                    (if validationPaperReady
                     then (zh 6940)
                     else if completed \<noteq> []
                     then (zh 6960)
                     else (zh 6970))) Undef];
          stage = js ''paper_review'';
          tone = js ''success'';
          title = (zh 7030);
          summary = name @ (zh 7040);
          primaryHref = if truthy (fld bestBacktest ''runId'') then Str backtestHref else Undef;
          primaryAction =
              if truthy primaryHref
              then obj [(''kind'', S ''review_backtest''), (''label'', Str (zh 7070))]
              else Undef;
          nextActions =
              [Str (zh 7100),
               Str (zh 7110),
               Str (zh 7120)];
          (stage, tone, title, summary, primaryHref, primaryAction, nextActions) =
              if \<not> liveOff
              then let stage = js ''live_enabled'';
                       tone = js ''warning'';
                       title = (zh 7180);
                       summary = name @ (zh 7190);
                       primaryHref = Undef;
                       primaryAction = Undef;
                       nextActions = [Str (zh 7220), Str (zh 7221)]
                   in (stage, Str tone, title, summary, primaryHref, primaryAction, nextActions)
              else if completed = []
              then let stage = js ''needs_backtest'';
                       tone = js ''warning'';
                       title = (zh 4441);
                       summary =
                           name @
                           (zh 7270) @
                           symbol @
                           (zh 7271);
                       primaryHref = backtestHref;
                       primaryAction =
                           obj [(''kind'', S ''run_backtest''), (''label'', Str (zh 7290))];
                       nextActions =
                           [Str (zh 7310), Str (zh 7320), Str (zh 7330)]
                   in (stage,
                       Str tone,
                       title,
                       summary,
                       Str primaryHref,
                       primaryAction,
                       nextActions)
              else if \<not> validationPaperReady
              then let validationTone = js_or (fld bestValidation ''tone'') (S ''warning'');
                       stage = js ''validation_rejected'';
                       tone = validationTone;
                       title = if validationFailed then (zh 7390) else (zh 7391);
                       summary =
                           name @
                           (zh 7400) @
                           s_or validationRecommendation (zh 6320) @
                           (zh 7420) @
                           to_str (coalesce (fld bestValidation ''score'') (Str (zh 5880))) @
                           (zh 7421) @
                           formatPercentValue (fld bestValidation ''totalReturn'') @
                           (zh 7440) @
                           formatPercentValue (fld bestValidation ''maxDrawdown'') @
                           (zh 7441);
                       primaryHref =
                           if truthy (fld bestBacktest ''runId'') then Str backtestHref else Undef;
                       primaryAction =
                           if truthy primaryHref
                           then obj [(''kind'', S ''review_backtest''),
                                     (''label'', Str (if validationFailed then (zh 7490) else (zh 7070)))]
                           else if sourceRunId \<noteq> []
                           then obj [(''kind'', S ''open_ai_run''), (''label'', Str (zh 7520))]
                           else Undef;
                       nextActions =
                           [Str (zh 7550),
                            Str (zh 7560),
                            Str (zh 7570)]
                   in (stage, tone, title, summary, primaryHref, primaryAction, nextActions)
              else let (stage, tone, title, summary, primaryHref, primaryAction, nextActions) =
                           if \<not> riskReady
                           then let stage = js ''risk_blocked'';
                                    tone = js ''warning'';
                                    title = (zh 7620);
                                    summary = name @ (zh 7630);
                                    primaryHref = Undef;
                                    primaryAction = Undef;
                                    nextActions =
                                        [Str (zh 7660), Str (zh 7661)]
                                in (stage,
                                    tone,
                                    title,
                                    summary,
                                    primaryHref,
                                    primaryAction,
                                    nextActions)
                           else if safeAccounts = []
                           then let stage = js ''account_blocked'';
                                    tone = js ''warning'';
                                    title = (zh 7700);
                                    summary = name @ (zh 7710);
                                    primaryHref = js ''/accounts/new'';
                                    primaryAction =
                                        obj [(''kind'', S ''add_safe_account''),
                                             (''label'', Str (zh 7701))];
                                    nextActions =
                                        [Str (zh 7740), Str (zh 7741)]
                                in (stage,
                                    tone,
                                    title,
                                    summary,
                                    Str primaryHref,
                                    primaryAction,
                                    nextActions)
                           else (stage,
                                 tone,
                                 title,
                                 summary,
                                 primaryHref,
                                 primaryAction,
                                 nextActions)
                   in (stage, Str tone, title, summary, primaryHref, primaryAction, nextActions);
          nextActions =
              if sourceRunId \<noteq> []
              then nextActions @ [Str (zh 7770)]
              else nextActions
      in obj [(''stage'', Str stage), (''tone'', tone), (''title'', Str title),
              (''summary'', Str summary), (''primaryHref'', primaryHref),
              (''primaryAction'', primaryAction), (''items'', Arr items),
              (''nextActions'', Arr nextActions)])"

definition paperCandidateFromValidation :: "jsval \<Rightarrow> jsval \<Rightarrow> date \<Rightarrow> jsval" where
  "paperCandidateFromValidation analysis backtests clock =
     (let ranked = rankBacktestValidation backtests;
          drafts = elems (fld analysis ''strategyDrafts'')
      in case loop
                (\<lambda>row _.
                   if fld row ''recommendation'' \<noteq> Str (zh 6150)
                   then Next ()
                   else let draft =
                                js_find
                                  (\<lambda>d.
                                     strict_eq
                                       (fld (backtestRequestFromDraft d clock) ''strategyId'')
                                       (fld row ''strategyId'')) drafts
                        in if \<not> truthy draft
                           then Next ()
                           else Return
                                  (obj [(''draft'', draft), (''runId'', fld row ''runId''),
                                        (''strategyId'', fld row ''strategyId''),
                                        (''score'', fld row ''score''),
                                        (''totalReturn'', fld row ''totalReturn''),
                                        (''sharpe'', fld row ''sharpe''),
                                        (''maxDrawdown'', fld row ''maxDrawdown''),
                                        (''nTrades'', fld row ''nTrades''),
                                        (''recommendation'', fld row ''recommendation''),
                                        (''strategyHref'', Str
                                                (js ''/option?'' @
                                                 strategyPresetSearchFromDraft draft)),
                                        (''backtestHref'', Str
                                                (js ''/backtests/'' @
                                                 uri_component (to_str (fld row ''runId''))))]))
                ranked () of
           Return r \<Rightarrow>
               r
         | Next _ \<Rightarrow>
               Null
         | Break _ \<Rightarrow>
               Null)"

definition paperAdoptionDetailFromCandidate :: "jsval \<Rightarrow> jsval \<Rightarrow> jstr" where
  "paperAdoptionDetailFromCandidate analysis candidate =
     (let humanSignals = take 1 (safeStringList (fld analysis ''humanFactors''));
          watchSignals =
              if is_arr (fld analysis ''watchSignals'')
              then take 1
                     (filter truthy
                        (map
                           (\<lambda>item.
                              Str (trim (to_str (js_or (fld item ''signal'') (Str [])))))
                           (elems (fld analysis ''watchSignals''))))
              else [];
          observationSignals = remdups_first (humanSignals @ watchSignals);
          observation =
              if observationSignals \<noteq> []
              then js_join (zh 271) observationSignals
              else (zh 13720)
      in to_str (js_or (fld candidate ''strategyId'') (Str (zh 560))) @
         (zh 32890) @
         to_str (coalesce (fld candidate ''score'') (Str (zh 5880))) @
         (zh 7421) @
         formatPercentValue (fld candidate ''totalReturn'') @
         (zh 7440) @
         formatPercentValue (Num (num_abs (to_num (fld candidate ''maxDrawdown'')))) @
         (zh 10060) @
         formatSharpeValue (fld candidate ''sharpe'') @
         (zh 54270) @
         observation @
         (zh 54271))"

definition shortlistStagePriority :: "jsval \<Rightarrow> jsnum" where
  "shortlistStagePriority stage =
     (if stage = S ''paper_candidate''
      then Fin 0
      else if stage = S ''validating''
      then Fin 1
      else if stage = S ''validate_ready''
      then Fin 2
      else if stage = S ''watch''
      then Fin 3
      else if stage = S ''observe_only''
      then Fin 4
      else if stage = S ''rejected''
      then Fin 5
      else Fin 6)"

definition shortlistRowFromDraft :: "jsval \<Rightarrow> (jsval \<times> jsval) list \<Rightarrow> date \<Rightarrow> jsval" where
  "shortlistRowFromDraft draft rankedByStrategyId clock =
     (let request = backtestRequestFromDraft draft clock;
          draftName =
              to_str (js_or (js_or (fld draft ''name'') (fld draft ''symbol'')) (Str (zh 26320)));
          symbol = to_str (js_or (fld draft ''symbol'') (Str []));
          kind = to_str (js_or (fld draft ''kind'') (S ''unknown''));
          strategyHref =
              if truthy request then js ''/option?'' @ strategyPresetSearchFromDraft draft else []
      in if \<not> truthy request
         then obj [(''draftName'', Str draftName), (''symbol'', Str symbol),
                   (''kind'', Str kind), (''stage'', S ''observe_only''),
                   (''tone'', S ''default''), (''rank'', N 0), (''score'', Null),
                   (''recommendation'', Str (zh 230)), (''actionKind'', S ''open_link''),
                   (''actionLabel'', Str (zh 27120)), (''href'', S ''/data-explorer/news''),
                   (''backtestHref'', Str []), (''strategyHref'', Str []),
                   (''reasons'', Arr [Str (zh 27160)]),
                   (''blockers'', Arr [Str (zh 27170)])]
         else let ranked = map_get rankedByStrategyId (fld request ''strategyId'');
                  backtestHref =
                      if truthy (fld ranked ''runId'')
                      then js ''/backtests/'' @ uri_component (to_str (fld ranked ''runId''))
                      else []
              in if \<not> truthy ranked
                 then obj [(''draftName'', Str draftName), (''symbol'', fld request ''symbol''),
                           (''kind'', Str kind), (''stage'', S ''validate_ready''),
                           (''tone'', S ''warning''), (''rank'', N 0), (''score'', Null),
                           (''recommendation'', Str (zh 15080)), (''actionKind'', S ''run_backtest''),
                           (''actionLabel'', Str (zh 460)), (''href'', Str []),
                           (''backtestHref'', Str []), (''strategyHref'', Str strategyHref),
                           (''reasons'', Arr [Str (zh 27380)]),
                           (''blockers'', Arr [Str (zh 27390)])]
                 else if fld ranked ''score'' = Null
                 then obj [(''draftName'', Str draftName), (''symbol'', fld request ''symbol''),
                           (''kind'', Str kind), (''stage'', S ''validating''),
                           (''tone'', S ''warning''), (''rank'', N 0), (''score'', Null),
                           (''recommendation'', fld ranked ''recommendation''),
                           (''actionKind'', S ''open_link''), (''actionLabel'', Str (zh 7071)),
                           (''href'', Str backtestHref), (''backtestHref'', Str backtestHref),
                           (''strategyHref'', Str strategyHref),
                           (''reasons'', Arr [Str
                                        ((zh 27580) @
                                         num_to_string
                                           (num_round
                                              (num_mul
                                                 (to_num (js_or (fld ranked ''progress'') (N 0)))
                                                 (Fin 100))) @
                                         (zh 27581))]),
                           (''blockers'', Arr [Str (zh 27590)])]
                 else if fld ranked ''recommendation'' = Str (zh 6150)
                 then obj [(''draftName'', Str draftName), (''symbol'', fld request ''symbol''),
                           (''kind'', Str kind), (''stage'', S ''paper_candidate''),
                           (''tone'', S ''success''), (''rank'', N 0),
                           (''score'', fld ranked ''score''),
                           (''recommendation'', fld ranked ''recommendation''),
                           (''actionKind'', S ''accept_paper_candidate''),
                           (''actionLabel'', Str (zh 18150)), (''href'', Str backtestHref),
                           (''backtestHref'', Str backtestHref),
                           (''strategyHref'', Str strategyHref),
                           (''reasons'', Arr [Str
                                        ((zh 6301) @
                                         to_str (fld ranked ''score'') @
                                         (zh 7421) @
                                         formatPercentValue (fld ranked ''totalReturn'') @
                                         (zh 7440) @
                                         formatPercentValue (fld ranked ''maxDrawdown'') @
                                         (zh 270)),
                                      Str (zh 27800)]),
                           (''blockers'', Arr [Str (zh 27820)])]
                 else let rejected =
                              fld ranked ''recommendation'' = Str (zh 6170) \<or>
                              fld ranked ''recommendation'' = Str (zh 6180)
                      in obj [(''draftName'', Str draftName),
                              (''symbol'', fld request ''symbol''), (''kind'', Str kind),
                              (''stage'', Str (if rejected then js ''rejected'' else js ''watch'')),
                              (''tone'', Str (if rejected then js ''danger'' else js ''warning'')),
                              (''rank'', N 0), (''score'', fld ranked ''score''),
                              (''recommendation'', fld ranked ''recommendation''),
                              (''actionKind'', S ''open_link''),
                              (''actionLabel'', Str (if rejected then (zh 27970) else (zh 6320))),
                              (''href'', Str backtestHref), (''backtestHref'', Str backtestHref),
                              (''strategyHref'', Str strategyHref),
                              (''reasons'', Arr [Str
                                           ((zh 6301) @
                                            to_str (fld ranked ''score'') @
                                            (zh 7421) @
                                            formatPercentValue (fld ranked ''totalReturn'') @
                                            (zh 7440) @
                                            formatPercentValue (fld ranked ''maxDrawdown'') @
                                            (zh 270))]),
                              (''blockers'', Arr
                                      (if rejected
                                       then [Str (zh 28050)]
                                       else [Str (zh 28060)]))])"

definition aiStrategyShortlistFromState :: "jsval \<Rightarrow> jsval \<Rightarrow> date \<Rightarrow> jsval" where
  "aiStrategyShortlistFromState analysis validationRuns clock =
     (let analysis = dflt analysis Null;
          validationRuns = dflt validationRuns (Arr []);
          drafts = elems (fld analysis ''strategyDrafts'')
      in if drafts = []
         then obj [(''stage'', S ''empty''), (''tone'', S ''warning''),
                   (''title'', Str (zh 29400)),
                   (''summary'', Str (zh 29410)),
                   (''primaryAction'', obj [(''kind'', S ''scan_today''), (''label'', Str (zh 23680))]),
                   (''metrics'', Arr [obj [(''label'', Str (zh 29401)), (''value'', N 0),
                                   (''hint'', Str (zh 18810))],
                              obj [(''label'', Str (zh 10120)), (''value'', N 0),
                                   (''hint'', Str (zh 29450))],
                              obj [(''label'', Str (zh 15080)), (''value'', N 0),
                                   (''hint'', Str (zh 29460))]]),
                   (''items'', Arr []), (''guardrails'', Arr [Str (zh 29490)]),
                   (''nextChecks'', Arr [Str (zh 29500), Str (zh 29501)])]
         else let ranked = rankBacktestValidation validationRuns;
                  rankedByStrategyId =
                      map_of_entries
                        (map (\<lambda>row. Arr [fld row ''strategyId'', row]) ranked);
                  items =
                      map_idx
                        (\<lambda>item index.
                           spread (merge (obj []) item) [(''rank'', Num (num_add index (Fin 1)))])
                        (js_sort
                           (\<lambda>a b.
                              let stageDelta =
                                      num_sub (shortlistStagePriority (fld a ''stage''))
                                        (shortlistStagePriority (fld b ''stage''))
                              in if \<not> num_eq stageDelta (Fin 0)
                                 then stageDelta
                                 else let aScore =
                                              if fld a ''score'' = Null
                                              then Fin (- 1)
                                              else to_num (js_or (fld a ''score'') (N 0));
                                          bScore =
                                              if fld b ''score'' = Null
                                              then Fin (- 1)
                                              else to_num (js_or (fld b ''score'') (N 0))
                                      in num_sub bScore aScore)
                           (map
                              (\<lambda>draft.
                                 shortlistRowFromDraft draft rankedByStrategyId clock) drafts));
                  paperCount =
                      len
                        (filter (\<lambda>item. fld item ''stage'' = S ''paper_candidate'') items);
                  validatingCount =
                      len (filter (\<lambda>item. fld item ''stage'' = S ''validating'') items);
                  validateReadyCount =
                      len
                        (filter (\<lambda>item. fld item ''stage'' = S ''validate_ready'') items);
                  rejectedCount =
                      len (filter (\<lambda>item. fld item ''stage'' = S ''rejected'') items);
                  stage =
                      if num_lt (Fin 0) paperCount
                      then js ''paper_candidate''
                      else if num_lt (Fin 0) validatingCount
                      then js ''validating''
                      else if num_lt (Fin 0) validateReadyCount
                      then js ''validate_ready''
                      else if num_eq rejectedCount (len items)
                      then js ''redesign''
                      else js ''observe'';
                  tone =
                      if stage = js ''paper_candidate''
                      then js ''success''
                      else if stage = js ''redesign''
                      then js ''danger''
                      else js ''warning'';
                  primaryAction =
                      if num_lt (Fin 0) paperCount
                      then obj [(''kind'', S ''accept_paper_candidate''),
                                (''label'', Str (zh 29890))]
                      else if num_lt (Fin 0) validateReadyCount
                      then obj [(''kind'', S ''run_all_backtests''), (''label'', Str (zh 29910))]
                      else if num_lt (Fin 0) validatingCount
                      then obj [(''kind'', S ''open_link''), (''label'', Str (zh 15560))]
                      else Undef
              in obj [(''stage'', Str stage), (''tone'', Str tone),
                      (''title'', Str
                              (if stage = js ''paper_candidate''
                               then (zh 30010)
                               else if stage = js ''validating''
                               then (zh 30030)
                               else if stage = js ''validate_ready''
                               then (zh 30050)
                               else if stage = js ''redesign''
                               then (zh 30070)
                               else (zh 30080))),
                      (''summary'', Str
                              (if stage = js ''paper_candidate''
                               then (zh 30110)
                               else if stage = js ''validate_ready''
                               then (zh 30130)
                               else if stage = js ''validating''
                               then (zh 30150)
                               else (zh 30160))),
                      (''primaryAction'', primaryAction),
                      (''metrics'', Arr [obj [(''label'', Str (zh 29401)), (''value'', Num (len items)),
                                      (''hint'', Str (num_to_string (len drafts) @ (zh 26810)))],
                                 obj [(''label'', Str (zh 10120)), (''value'', Num paperCount),
                                      (''hint'', Str (zh 30200))],
                                 obj [(''label'', Str (zh 15080)),
                                      (''value'', Num (num_add validateReadyCount validatingCount)),
                                      (''hint'', Str (zh 30210))]]),
                      (''items'', Arr items),
                      (''guardrails'', Arr [Str (zh 30250),
                                 Str (zh 30260),
                                 Str (zh 30270)]),
                      (''nextChecks'', Arr
                              (if stage = js ''paper_candidate''
                               then [Str (zh 30310),
                                     Str (zh 30311),
                                     Str (zh 30312)]
                               else if stage = js ''validating''
                               then [Str (zh 30330), Str (zh 30331)]
                               else if stage = js ''validate_ready''
                               then [Str (zh 30350), Str (zh 30351)]
                               else [Str (zh 30360), Str (zh 30361)]))])"

definition paperCandidateCapitalBoundary :: "jsval \<Rightarrow> jstr" where
  "paperCandidateCapitalBoundary candidate =
     (let risk = normalizeRiskCaps (fld (fld candidate ''draft'') ''riskCaps'')
      in if \<not> truthy risk
         then []
         else (zh 72880) @
              money (fld risk ''maxPositionUsd'') @
              (zh 57260) @
              to_fixed 0 (to_num (fld risk ''maxLeverage'')) @
              (zh 55310) @
              money (fld risk ''dailyLossCapUsd'') @
              (zh 270))"

definition paperDrawdownLimit :: "jsval \<Rightarrow> jsnum" where
  "paperDrawdownLimit candidate =
     (let maxDrawdown = num_abs (to_num (fld candidate ''maxDrawdown''));
          base =
              if is_finite maxDrawdown \<and> num_lt (Fin 0) maxDrawdown
              then maxDrawdown
              else fl (1 / 20)
      in num_max (fl (3 / 100)) (num_min (fl (1 / 4)) (num_mul base (fl (3 / 2)))))"

definition paperObservationPlanFromCandidate :: "jsval \<Rightarrow> jsval \<Rightarrow> jsval" where
  "paperObservationPlanFromCandidate analysis candidate =
     (if \<not> truthy candidate
      then Null
      else let draftName =
                   js_or
                     (js_or
                        (js_or (fld (fld candidate ''draft'') ''name'')
                           (fld candidate ''strategyId''))
                        (fld (fld candidate ''draft'') ''symbol'')) (Str (zh 560));
               safetyGates = safeStringList (fld (fld analysis ''execution'') ''safetyGates'');
               humanFactors = safeStringList (fld analysis ''humanFactors'');
               drawdownLimit = paperDrawdownLimit candidate;
               capitalBoundary = paperCandidateCapitalBoundary candidate;
               watchTriggers =
                   if is_arr (fld analysis ''watchSignals'')
                   then take 5
                          (filter (\<lambda>item. truthy (fld item ''signal''))
                             (map
                                (\<lambda>item.
                                   obj [(''source'', Str
                                                (to_str
                                                   (js_or (fld item ''source'') (S ''market'')))),
                                        (''signal'', Str
                                                (trim
                                                   (to_str (js_or (fld item ''signal'') (Str []))))),
                                        (''interpretation'', Str
                                                (trim
                                                   (to_str
                                                      (js_or (fld item ''interpretation'')
                                                         (Str []))))),
                                        (''action'', Str
                                                (trim
                                                   (to_str
                                                      (js_or (fld item ''action'')
                                                         (Str (zh 72460))))))])
                                (elems (fld analysis ''watchSignals''))))
                   else [];
               humanTriggers =
                   map
                     (\<lambda>factor.
                        obj [(''source'', S ''human''), (''signal'', factor),
                             (''interpretation'', Str (zh 72540)),
                             (''action'', Str (zh 72550))]) (take 3 humanFactors)
           in obj [(''title'', Str (to_str draftName @ (zh 6971))),
                   (''window'', Str (zh 291)),
                   (''summary'', Str
                           ((zh 72610) @
                            to_str draftName @
                            (zh 10061) @
                            to_str (coalesce (fld candidate ''score'') (Str (zh 5880))) @
                            (zh 72611) @
                            formatPercentValue (fld candidate ''maxDrawdown'') @
                            (zh 72612))),
                   (''checklist'', Arr
                           (filter truthy [Str (zh 72630),
                                           Str capitalBoundary,
                                           Str (zh 72650),
                                           Str (zh 72660),
                                           Str (zh 72670)])),
                   (''stopRules'', Arr
                           ([Str
                               ((zh 72700) @
                                formatPercentValue (Num drawdownLimit) @
                                (zh 72701)),
                             Str (zh 72710)] @
                            map (\<lambda>gate. Str ((zh 45390) @ to_str gate @ (zh 270)))
                              (take 4 safetyGates))),
                   (''triggers'', Arr (watchTriggers @ humanTriggers)),
                   (''links'', Arr [obj [(''label'', Str (zh 35370)),
                                   (''href'', js_or (fld candidate ''strategyHref'') (S ''/option''))],
                              obj [(''label'', Str (zh 72790)),
                                   (''href'', js_or (fld candidate ''backtestHref'') (S ''/backtests''))],
                              obj [(''label'', Str (zh 22340)), (''href'', S ''/settings/trading'')]])])"

definition validationRunsNeedPolling :: "jsval \<Rightarrow> bool" where
  "validationRunsNeedPolling backtests =
     (let backtests = dflt backtests (Arr [])
      in if \<not> is_arr backtests \<or> fld backtests ''length'' = N 0
         then False
         else list_ex
                (\<lambda>run.
                   let state = to_num (fld run ''state'')
                   in if \<not> is_finite state
                      then truthy (fld run ''runId'') \<or> truthy (fld run ''id'')
                      else \<not> num_eq state (Fin 3) \<and> \<not> num_eq state (Fin 4))
                (elems backtests))"

definition candidateRiskCaps :: "jsval \<Rightarrow> jsval" where
  "candidateRiskCaps candidate =
     (let caps =
              if truthy (fld (fld candidate ''draft'') ''riskCaps'') \<and>
                 is_object (fld (fld candidate ''draft'') ''riskCaps'')
              then fld (fld candidate ''draft'') ''riskCaps''
              else obj [];
          maxPositionUsd = clampNumber (fld caps ''maxPositionUsd'') (N 100) (N 1) (N 1000000000);
          maxLeverage = clampNumber (fld caps ''maxLeverage'') (N 1) (N 1) (N 125);
          dailyLossCapUsd =
              clampNumber (fld caps ''dailyLossCapUsd'')
                (Num (num_max (Fin 10) (num_mul (to_num maxPositionUsd) (fl (1 / 20))))) (N 1)
                (N 1000000000)
      in obj [(''maxPositionUsd'', maxPositionUsd), (''maxLeverage'', maxLeverage),
              (''dailyLossCapUsd'', dailyLossCapUsd)])"

definition candidateScoreDiscount :: "jsval \<Rightarrow> jsnum" where
  "candidateScoreDiscount candidate =
     (let score = to_num (js_or (fld candidate ''score'') (N 0))
      in if num_le (Fin 80) score
         then fl (3 / 4)
         else if num_le (Fin 70) score
         then fl (1 / 2)
         else fl (1 / 4))"

definition sentimentDiscountFromStage :: "jsval \<Rightarrow> jsnum" where
  "sentimentDiscountFromStage stage =
     (if stage = S ''heated'' \<or> stage = S ''fearful''
      then fl (1 / 2)
      else if stage = S ''data_gap''
      then fl (1 / 4)
      else Fin 1)"

definition capitalPlanStrategyHref :: "jsval \<Rightarrow> jsval \<Rightarrow> jstr" where
  "capitalPlanStrategyHref candidate recommendedNotionalUsd =
     (let draft = js_or (fld candidate ''draft'') (obj []);
          params =
              if truthy (fld draft ''params'') \<and> is_object (fld draft ''params'')
              then fld draft ''params''
              else obj []
      in js ''/option?'' @
         strategyPresetSearchFromDraft
           (spread (merge (obj []) draft) [(''params'', spread (merge (obj []) params)
                                                   [(''orderGroupMargin'', recommendedNotionalUsd)])]))"

definition paperCandidateWithCapitalPlan :: "jsval \<Rightarrow> jsval \<Rightarrow> jsval" where
  "paperCandidateWithCapitalPlan candidate capitalPlan =
     (let candidate = dflt candidate Null;
          capitalPlan = dflt capitalPlan Null
      in if \<not> truthy candidate
         then Null
         else if to_str (js_or (fld capitalPlan ''stage'') (Str [])) \<noteq> js ''paper_sizing''
         then candidate
         else let recommendedNotionalUsd = to_num (fld capitalPlan ''recommendedNotionalUsd'');
                  maxDailyLossUsd = to_num (fld capitalPlan ''maxDailyLossUsd'');
                  hasNotional =
                      is_finite recommendedNotionalUsd \<and>
                      num_lt (Fin 0) recommendedNotionalUsd;
                  hasDailyLoss = is_finite maxDailyLossUsd \<and> num_lt (Fin 0) maxDailyLossUsd
              in if \<not> hasNotional \<and> \<not> hasDailyLoss
                 then candidate
                 else let draft =
                              if truthy (fld candidate ''draft'') \<and>
                                 is_object (fld candidate ''draft'')
                              then fld candidate ''draft''
                              else obj [];
                          params =
                              if truthy (fld draft ''params'') \<and>
                                 is_object (fld draft ''params'')
                              then merge (obj []) (fld draft ''params'')
                              else obj [];
                          riskCaps =
                              if truthy (fld draft ''riskCaps'') \<and>
                                 is_object (fld draft ''riskCaps'')
                              then merge (obj []) (fld draft ''riskCaps'')
                              else obj [];
                          (params, riskCaps) =
                              if hasNotional
                              then let notional = num_round recommendedNotionalUsd;
                                       params =
                                           spread params [(''orderGroupMargin'', Num notional)];
                                       riskCaps =
                                           spread riskCaps [(''maxPositionUsd'', Num notional)]
                                   in (params, riskCaps)
                              else (params, riskCaps);
                          riskCaps =
                              if hasDailyLoss
                              then spread riskCaps [(''dailyLossCapUsd'', Num (num_round maxDailyLossUsd))]
                              else riskCaps;
                          sizedDraft =
                              spread (merge (obj []) draft) [(''params'', params),
                                                             (''riskCaps'', riskCaps)]
                      in spread (merge (obj []) candidate) [(''draft'', sizedDraft),
                                                            (''strategyHref'', Str
                                                                    (js ''/option?'' @
                                                                     strategyPresetSearchFromDraft
                                                                       sizedDraft))])"

definition compactPaperWatchNote :: "jsval \<Rightarrow> jsval \<Rightarrow> jstr" where
  "compactPaperWatchNote text limit =
     (let limit = dflt limit (N 480);
          value = trim (squeeze_ws (to_str (js_or text (Str []))))
      in if num_le (len value) (to_num limit)
         then value
         else take (to_len (num_sub (to_num limit) (Fin 1))) value @ (zh 72940))"

definition paperWatchActionPatchFromCandidate :: "jsval \<Rightarrow> jsval \<Rightarrow> jsval" where
  "paperWatchActionPatchFromCandidate analysis candidate =
     (if \<not> truthy candidate
      then Null
      else let plan = paperObservationPlanFromCandidate analysis candidate;
               draftName =
                   js_or
                     (js_or
                        (js_or (fld (fld candidate ''draft'') ''name'')
                           (fld candidate ''strategyId''))
                        (fld (fld candidate ''draft'') ''symbol'')) (Str (zh 560));
               firstStopRule =
                   js_or (item_at (safeStringList (fld plan ''stopRules'')) 0) (Str []);
               capitalBoundary = paperCandidateCapitalBoundary candidate;
               firstTrigger =
                   if is_arr (fld plan ''triggers'')
                   then item_at (elems (fld plan ''triggers'')) 0
                   else Null;
               triggerText =
                   if truthy firstTrigger
                   then to_str (fld firstTrigger ''signal'') @
                        (if truthy (fld firstTrigger ''action'')
                         then js '' -> '' @ to_str (fld firstTrigger ''action'')
                         else [])
                   else [];
               sharpe = to_num (fld candidate ''sharpe'');
               note =
                   js_join (js '' '')
                     (filter truthy [Str
                                       ((zh 73100) @
                                        to_str draftName @
                                        (zh 10061) @
                                        to_str (coalesce (fld candidate ''score'') (Str (zh 5880))) @
                                        (zh 73101) @
                                        to_str (js_or (fld candidate ''runId'') (Str (zh 5880))) @
                                        (zh 270)),
                                     Str
                                       ((zh 26500) @
                                        to_str (js_or (fld plan ''window'') (Str (zh 291))) @
                                        (zh 270)),
                                     Str
                                       ((zh 73120) @
                                        formatPercentValue (fld candidate ''totalReturn'') @
                                        (zh 7440) @
                                        formatPercentValue (fld candidate ''maxDrawdown'') @
                                        (zh 10060) @
                                        (if is_finite sharpe then to_fixed 2 sharpe else (zh 5880)) @
                                        (zh 270)),
                                     Str capitalBoundary,
                                     Str
                                       (if truthy firstStopRule
                                        then (zh 73140) @ to_str firstStopRule
                                        else []),
                                     Str
                                       (if triggerText \<noteq> []
                                        then (zh 73150) @ triggerText
                                        else [])])
           in obj [(''status'', S ''manual''),
                   (''relatedId'', js_or (fld candidate ''strategyId'') draftName),
                   (''href'', js_or (fld candidate ''backtestHref'')
                           (if truthy (fld candidate ''runId'')
                            then Str (js ''/backtests/'' @ to_str (fld candidate ''runId''))
                            else Undef)),
                   (''note'', Str (compactPaperWatchNote (Str note) Undef))])"

definition savedStrategyPaperWatchPatchFromBacktest :: "jsval \<Rightarrow> jsval \<Rightarrow> jsval" where
  "savedStrategyPaperWatchPatchFromBacktest strategy backtest =
     (let runId = trim (to_str (js_or (fld backtest ''runId'') (Str [])))
      in if runId = [] \<or> \<not> num_eq (to_num (fld backtest ''state'')) (Fin 3)
         then Null
         else let ranked = js_or (item_at (rankBacktestValidation (Arr [backtest])) 0) (obj []);
                  name =
                      trim
                        (to_str
                           (js_or (js_or (fld strategy ''name'') (fld backtest ''strategyId''))
                              (Str (zh 560))));
                  symbol = trim (to_str (js_or (fld strategy ''execSymbol'') (Str [])));
                  score = coalesce (fld ranked ''score'') (Str (zh 5880));
                  note =
                      js_join [] [Str
                                    (name @
                                     (if symbol \<noteq> []
                                      then js '' ('' @ symbol @ js '')''
                                      else []) @
                                     (zh 73350) @
                                     to_str score @
                                     (zh 7421) @
                                     formatPercentValue (fld ranked ''totalReturn'') @
                                     (zh 7440) @
                                     formatPercentValue (fld ranked ''maxDrawdown'') @
                                     (zh 270)),
                                  Str
                                    (zh 73360)]
              in obj [(''status'', S ''manual''), (''relatedId'', Str runId),
                      (''href'', Str (js ''/backtests/'' @ uri_component runId)),
                      (''note'', Str (compactPaperWatchNote (Str note) Undef))])"

end
