(* ===== verification/Goal_Actions.thy ===== *)
theory Goal_Actions
  imports Preset_Text Strategy_Preset Backtest_Ranking
begin

section \<open>The actions of a goal run\<close>

text \<open>
  A part of \<^verbatim>\<open>src/client/data/ai-goal-preset.mjs\<close>: the persisted actions
  of a run: their defaults, the evidence that completes the reviews, manual transitions, and the
  overlay of persisted status on the action plan. Literals that are not ASCII are looked up in
  \<open>Ui_Texts\<close>; their key is ten times the line of the source file they stand on, plus
  a rank.
\<close>


definition persistedActionById :: "jsval \<Rightarrow> jsval \<Rightarrow> jsval" where
  "persistedActionById persistedActions id' =
     (if \<not> is_arr persistedActions
      then Null
      else coalesce
             (js_find (\<lambda>action. strict_eq (fld action ''id'') id')
                (elems persistedActions)) Null)"

definition activeRunAction :: "jsval \<Rightarrow> jsval \<Rightarrow> jsval" where
  "activeRunAction run id' =
     (let action = persistedActionById (fld run ''actions'') id'
      in if \<not> truthy action
         then Null
         else let status = lower (to_str (js_or (fld action ''status'') (Str [])))
              in if status = js ''done'' \<or> status = js ''blocked'' then Null else action)"

definition add_run_id :: "jstr \<Rightarrow> jstr list \<Rightarrow> jstr list" where
  "add_run_id value' ids =
     (let id' = trim value' in if id' \<noteq> [] \<and> id' \<notin> set ids then ids @ [id'] else ids)"

definition backtestRunIdsFromAction :: "jsval \<Rightarrow> jsval list" where
  "backtestRunIdsFromAction action =
     (let ids = fold add_run_id (split_at (\<lambda>c. c = 44) (to_str (js_or (fld action ''relatedId'') (Str [])))) [];
          href = to_str (js_or (fld action ''href'') (Str []))
      in map Str (case after_match (js ''/backtests/'') (\<lambda>c. c \<noteq> 47 \<and> c \<noteq> 63 \<and> c \<noteq> 35) href of
           Some m \<Rightarrow> add_run_id (decode_component m) ids
         | None \<Rightarrow> ids))"

definition paperWatchCompletionHasEvidence :: "jsval \<Rightarrow> bool" where
  "paperWatchCompletionHasEvidence action =
     (let note = lower (to_str (js_or (fld action ''note'') (Str [])))
      in if note = []
         then False
         else let groups =
                      [Arr [S ''24-72'', S ''24h'', S ''72h'', Str (zh 231)],
                       Arr [Str (zh 272), S ''market''],
                       Arr [Str (zh 273), S ''sentiment'', Str (zh 274)],
                       Arr [Str (zh 275), S ''fomo'', S ''behavior''],
                       Arr [Str (zh 293), Str (zh 38250), S ''friction''],
                       Arr [Str (zh 294), S ''drawdown'', Str (zh 6753)],
                       Arr [Str (zh 295), Str (zh 296), S ''testnet'', S ''mainnet'']]
              in list_all
                   (\<lambda>items.
                      list_ex (\<lambda>item. contains note (lower (str_val item))) (elems items))
                   groups)"

definition strategyActionSaved :: "jsval \<Rightarrow> bool" where
  "strategyActionSaved persistedActions =
     (let strategyAction = persistedActionById persistedActions (S ''strategy'')
      in lower (to_str (js_or (fld strategyAction ''status'') (Str []))) = js ''done'')"

definition paperCandidatePrimaryActionForState :: "jsval \<Rightarrow> jsval \<Rightarrow> jsval" where
  "paperCandidatePrimaryActionForState primaryAction persistedActions =
     (let kind = to_str (js_or (fld primaryAction ''kind'') (Str []))
      in if kind \<noteq> js ''accept_paper_candidate''
         then primaryAction
         else if strategyActionSaved persistedActions
         then primaryAction
         else spread (merge (obj []) primaryAction) [(''kind'', S ''save_and_accept_paper_candidate''),
                                                     (''label'', Str (zh 18151))])"

definition sentimentReviewCompletionHasEvidence :: "jsval \<Rightarrow> bool" where
  "sentimentReviewCompletionHasEvidence action =
     (let note = lower (to_str (js_or (fld action ''note'') (Str [])))
      in if note = []
         then True
         else let groups =
                      [Arr [Str (zh 272), S ''market''],
                       Arr [Str (zh 273), S ''sentiment'', Str (zh 274)],
                       Arr [Str (zh 275), Str (zh 190), S ''fomo'', S ''behavior'', S ''crowding'']]
              in list_all
                   (\<lambda>items.
                      list_ex (\<lambda>item. contains note (lower (str_val item))) (elems items))
                   groups)"

definition sentimentReviewCompleted :: "jsval \<Rightarrow> bool" where
  "sentimentReviewCompleted action =
     (fld action ''status'' = S ''done'' \<and> sentimentReviewCompletionHasEvidence action)"

definition savedStrategyHandoffHref :: "jsval \<Rightarrow> jsval \<Rightarrow> jstr" where
  "savedStrategyHandoffHref persistedActions candidate =
     (let action = persistedActionById persistedActions (S ''strategy'');
          href = trim (to_str (js_or (fld action ''href'') (Str [])))
      in if \<not> starts_with href (js ''/option?'')
         then []
         else let relatedId = trim (to_str (js_or (fld action ''relatedId'') (Str [])));
                  candidateIds =
                      remdups_first
                        (filter truthy
                           (map (\<lambda>item. Str (trim (to_str (js_or item (Str [])))))
                              [fld candidate ''strategyId'',
                               fld (fld candidate ''draft'') ''name'',
                               fld (fld candidate ''draft'') ''symbol'']))
              in if relatedId = [] \<or> list_has candidateIds (Str relatedId) then href else [])"

definition aiPaperAdoptionPackageFromState :: "jsval \<Rightarrow> jsval \<Rightarrow> jsval \<Rightarrow> jsval \<Rightarrow> jsval \<Rightarrow> date \<Rightarrow> (jstr \<Rightarrow> (jstr \<times> (jstr \<times> jstr) list) option) \<Rightarrow> jsval" where
  "aiPaperAdoptionPackageFromState analysis persistedActions validationRuns capitalPlan aiRunId clock url =
     (let analysis = dflt analysis Null;
          persistedActions = dflt persistedActions (Arr []);
          validationRuns = dflt validationRuns (Arr []);
          capitalPlan = dflt capitalPlan Null;
          baseCandidate = paperCandidateFromValidation analysis validationRuns clock
      in if \<not> truthy baseCandidate
         then Null
         else let sizedCandidate = paperCandidateWithCapitalPlan baseCandidate capitalPlan;
                  candidate = js_or sizedCandidate baseCandidate;
                  runId = trim (to_str (js_or (js_or aiRunId (fld analysis ''id'')) (Str [])));
                  strategyHref =
                      if runId \<noteq> []
                      then strategyHrefWithAIRunId (fld candidate ''strategyHref'') (Str runId)
                             url
                      else fld candidate ''strategyHref'';
                  strategyAction = persistedActionById persistedActions (S ''strategy'');
                  strategySaved =
                      lower (to_str (js_or (fld strategyAction ''status'') (Str []))) =
                        js ''done'';
                  risk = normalizeRiskCaps (fld (fld candidate ''draft'') ''riskCaps'');
                  riskSummary =
                      if truthy risk
                      then (zh 6754) @
                           money (fld risk ''maxPositionUsd'') @
                           (zh 6751) @
                           to_fixed 0 (to_num (fld risk ''maxLeverage'')) @
                           (zh 55310) @
                           money (fld risk ''dailyLossCapUsd'') @
                           (zh 270)
                      else (zh 55320);
                  score = coalesce (fld candidate ''score'') (Str (zh 5880));
                  name =
                      trim
                        (to_str
                           (js_or
                              (js_or (fld (fld candidate ''draft'') ''name'')
                                 (fld candidate ''strategyId'')) (Str (zh 560))))
              in obj [(''stage'', Str
                              (if strategySaved
                               then js ''strategy_saved''
                               else js ''ready_to_package'')),
                      (''tone'', Str (if strategySaved then js ''success'' else js ''warning'')),
                      (''title'', Str (name @ (zh 55390))),
                      (''summary'', Str
                              (name @
                               (zh 55400) @
                               to_str score @
                               (zh 55401))),
                      (''candidate'', spread (merge (obj []) candidate) [(''strategyHref'', strategyHref)]),
                      (''strategyHref'', strategyHref),
                      (''backtestHref'', fld candidate ''backtestHref''),
                      (''riskSummary'', Str riskSummary),
                      (''primaryAction'', obj [(''kind'', Str
                                         (if strategySaved
                                          then js ''accept_paper_candidate''
                                          else js ''save_and_accept_paper_candidate'')),
                                 (''label'', Str
                                         (if strategySaved then (zh 55500) else (zh 18151)))]),
                      (''secondaryAction'', obj [(''kind'', S ''save_strategy_draft''),
                                 (''label'', Str (if strategySaved then (zh 55540) else (zh 21751)))]),
                      (''steps'', Arr [obj [(''id'', S ''save_strategy''), (''label'', Str (zh 55402)),
                                      (''status'', Str
                                              (if strategySaved
                                               then js ''done''
                                               else js ''ready'')),
                                      (''detail'', Str
                                              (if strategySaved
                                               then (zh 55620)
                                               else (zh 55630))),
                                      (''href'', strategyHref)],
                                 obj [(''id'', S ''paper_watch''),
                                      (''label'', Str (zh 55500)), (''status'', S ''ready''),
                                      (''detail'', Str
                                              ((zh 55700) @
                                               to_str (js_or (fld candidate ''runId'') (Str (zh 5880))) @
                                               (zh 55701))),
                                      (''href'', fld candidate ''backtestHref'')],
                                 obj [(''id'', S ''execution_boundary''),
                                      (''label'', Str (zh 24160)), (''status'', S ''blocked''),
                                      (''detail'', Str (zh 55770)),
                                      (''href'', S ''/settings/trading'')]]),
                      (''guardrails'', Arr [Str (zh 55820),
                                 Str (zh 55830),
                                 Str (zh 55840),
                                 Str riskSummary])])"

definition paperEvidenceMatched :: "jsval \<Rightarrow> jsval \<Rightarrow> bool" where
  "paperEvidenceMatched note keywords =
     (let value = lower (to_str (js_or note (Str [])))
      in list_ex (\<lambda>item. contains value (lower (to_str item))) (elems keywords))"

definition paperReviewCoachItem :: "jsval \<Rightarrow> jsval \<Rightarrow> jsval \<Rightarrow> jsval \<Rightarrow> jsval \<Rightarrow> jsval" where
  "paperReviewCoachItem id' label detail note keywords =
     (let matched = paperEvidenceMatched note keywords
      in obj [(''id'', id'), (''label'', label),
              (''status'', Str (if matched then js ''done'' else js ''missing'')),
              (''tone'', Str (if matched then js ''success'' else js ''warning'')),
              (''detail'', detail)])"

definition aiPaperReviewCoachFromState :: "jsval \<Rightarrow> jsval \<Rightarrow> jsval \<Rightarrow> date \<Rightarrow> jsval" where
  "aiPaperReviewCoachFromState analysis persistedActions validationRuns clock =
     (let analysis = dflt analysis Null;
          persistedActions = dflt persistedActions (Arr []);
          validationRuns = dflt validationRuns (Arr []);
          paperWatch = persistedActionById persistedActions (S ''paper_watch'');
          candidate = paperCandidateFromValidation analysis validationRuns clock;
          ranked = rankBacktestValidation validationRuns;
          best = js_or (item_at ranked 0) Null;
          note = to_str (js_or (fld paperWatch ''note'') (Str []));
          candidateLabel =
              js_or
                (js_or
                   (js_or (fld (fld candidate ''draft'') ''name'') (fld candidate ''strategyId''))
                   (fld best ''strategyId'')) (Str (zh 73570));
          paperPlan = paperObservationPlanFromCandidate analysis candidate;
          primaryHref =
              if truthy (fld paperWatch ''href'') \<or>
                 truthy (fld candidate ''backtestHref'') \<or>
                 truthy (fld best ''runId'')
              then js_or (js_or (fld paperWatch ''href'') (fld candidate ''backtestHref''))
                     (Str (js ''/backtests/'' @ uri_component (to_str (fld best ''runId''))))
              else Undef;
          items =
              [paperReviewCoachItem (S ''window'') (Str (zh 73650)) (Str (zh 73660))
                 (Str note) (Arr [S ''24-72'', S ''24h'', S ''72h'', Str (zh 231)]),
               paperReviewCoachItem (S ''market'') (Str (zh 272)) (Str (zh 73730))
                 (Str note) (Arr [Str (zh 272), S ''market'']),
               paperReviewCoachItem (S ''sentiment'') (Str (zh 73790))
                 (Str (zh 73800)) (Str note)
                 (Arr [Str (zh 273), S ''sentiment'', Str (zh 274)]),
               paperReviewCoachItem (S ''human'') (Str (zh 275)) (Str (zh 73870))
                 (Str note) (Arr [Str (zh 275), S ''fomo'', S ''behavior'']),
               paperReviewCoachItem (S ''friction'') (Str (zh 293)) (Str (zh 73940))
                 (Str note) (Arr [Str (zh 293), Str (zh 38250), S ''friction'']),
               paperReviewCoachItem (S ''drawdown'') (Str (zh 297))
                 (Str (zh 74010)) (Str note)
                 (Arr [Str (zh 294), S ''drawdown'', Str (zh 6753)]),
               paperReviewCoachItem (S ''testnet_boundary'') (Str (zh 59680))
                 (Str (zh 74080)) (Str note)
                 (Arr [Str (zh 295), Str (zh 296), S ''testnet'', S ''mainnet''])];
          missingEvidence =
              map (\<lambda>item. fld item ''label'')
                (filter (\<lambda>item. fld item ''status'' \<noteq> S ''done'') items)
      in if \<not> truthy analysis
         then obj [(''stage'', S ''idle''), (''tone'', S ''warning''),
                   (''title'', Str (zh 74210)),
                   (''summary'', Str (zh 74220)),
                   (''candidateLabel'', candidateLabel), (''items'', Arr items),
                   (''missingEvidence'', Arr missingEvidence),
                   (''completionNote'', Str PAPER_WATCH_COMPLETION_NOTE),
                   (''nextActions'', Arr [Str (zh 29502), Str (zh 31230), Str (zh 74270)])]
         else if \<not> truthy candidate
         then obj [(''stage'', Str
                           (if ranked \<noteq> []
                            then js ''waiting_candidate''
                            else js ''waiting_validation'')),
                   (''tone'', S ''warning''), (''title'', Str (zh 56110)),
                   (''summary'', Str
                           (if ranked \<noteq> []
                            then (zh 74370)
                            else (zh 74380))),
                   (''candidateLabel'', candidateLabel), (''primaryHref'', primaryHref),
                   (''primaryAction'', if ranked \<noteq> []
                         then Undef
                         else obj [(''kind'', S ''run_all_backtests''),
                                   (''label'', Str (zh 74410))]),
                   (''items'', Arr items), (''missingEvidence'', Arr missingEvidence),
                   (''completionNote'', Str PAPER_WATCH_COMPLETION_NOTE),
                   (''nextActions'', Arr
                           (if ranked \<noteq> []
                            then [Str (zh 74460), Str (zh 74461)]
                            else [Str (zh 74470), Str (zh 74471)]))]
         else if \<not> truthy paperWatch
         then let primaryAction =
                      paperCandidatePrimaryActionForState
                        (obj [(''kind'', S ''accept_paper_candidate''),
                              (''label'', Str (zh 36010))]) persistedActions
              in obj [(''stage'', S ''ready_to_adopt''), (''tone'', S ''success''),
                      (''title'', Str (zh 74590)),
                      (''summary'', Str (to_str candidateLabel @ (zh 74600))),
                      (''candidateLabel'', candidateLabel),
                      (''primaryHref'', fld candidate ''backtestHref''),
                      (''primaryAction'', primaryAction), (''items'', Arr items),
                      (''missingEvidence'', Arr missingEvidence),
                      (''completionNote'', Str PAPER_WATCH_COMPLETION_NOTE),
                      (''nextActions'', Arr
                              (take 4
                                 ([Str (zh 28061)] @
                                  elems
                                    (js_slice 0 (Some 2)
                                       (js_or (fld paperPlan ''checklist'') (Arr []))) @
                                  [Str (zh 74700)])))]
         else if fld paperWatch ''status'' \<noteq> S ''done''
         then obj [(''stage'', S ''observing''), (''tone'', S ''warning''),
                   (''title'', Str (zh 74790)),
                   (''summary'', Str (to_str candidateLabel @ (zh 74800))),
                   (''candidateLabel'', candidateLabel), (''primaryHref'', primaryHref),
                   (''primaryAction'', if truthy primaryHref
                         then obj [(''kind'', S ''open_link''), (''label'', Str (zh 74830))]
                         else Undef),
                   (''items'', Arr items), (''missingEvidence'', Arr missingEvidence),
                   (''completionNote'', Str PAPER_WATCH_COMPLETION_NOTE),
                   (''nextActions'', Arr [Str (zh 45420),
                              Str (zh 74890),
                              Str (zh 74900)])]
         else let complete' = paperWatchCompletionHasEvidence paperWatch
              in obj [(''stage'', Str
                              (if complete' then js ''review_complete'' else js ''evidence_gap'')),
                      (''tone'', Str (if complete' then js ''success'' else js ''warning'')),
                      (''title'', Str (if complete' then (zh 74990) else (zh 13690))),
                      (''summary'', Str
                              (if complete'
                               then to_str candidateLabel @
                                    (zh 75010)
                               else to_str candidateLabel @ (zh 75020))),
                      (''candidateLabel'', candidateLabel), (''primaryHref'', primaryHref),
                      (''primaryAction'', if truthy primaryHref
                            then obj [(''kind'', S ''open_link''), (''label'', Str (zh 74830))]
                            else Undef),
                      (''items'', Arr items), (''missingEvidence'', Arr missingEvidence),
                      (''completionNote'', Str PAPER_WATCH_COMPLETION_NOTE),
                      (''nextActions'', Arr
                              (if complete'
                               then [Str (zh 75100), Str (zh 75101)]
                               else [Str (zh 75110), Str (zh 75111), Str (zh 75112)]))])"

definition paperReviewCoachPrimaryAction :: "jsval \<Rightarrow> jsval \<Rightarrow> jsval" where
  "paperReviewCoachPrimaryAction state hasCandidate =
     (let hasCandidate = dflt hasCandidate (Bool False);
          primary = fld state ''primaryAction'';
          href = trim (to_str (js_or (fld state ''primaryHref'') (Str [])))
      in if (fld primary ''kind'' = S ''accept_paper_candidate'' \<or>
             fld primary ''kind'' = S ''save_and_accept_paper_candidate'') \<and>
            truthy hasCandidate
         then obj [(''kind'', fld primary ''kind''),
                   (''label'', js_or (fld primary ''label'') (Str (zh 36010))),
                   (''href'', Undef)]
         else if fld primary ''kind'' = S ''open_link'' \<and> href \<noteq> []
         then obj [(''kind'', S ''open_link''),
                   (''label'', js_or (fld primary ''label'') (Str (zh 74830))), (''href'', Str href)]
         else if href \<noteq> []
         then obj [(''kind'', S ''open_link''), (''label'', Str (zh 74830)), (''href'', Str href)]
         else Null)"

definition startedBacktestPresentation :: "jsval \<Rightarrow> jsval \<Rightarrow> jsval" where
  "startedBacktestPresentation item saved =
     (if fld item ''id'' \<noteq> S ''backtest''
      then Null
      else if lower (to_str (js_or (fld saved ''status'') (Str []))) \<noteq> js ''done''
      then Null
      else if backtestRunIdsFromAction saved = []
      then Null
      else obj [(''statusLabel'', Str (zh 32270)), (''hrefLabel'', Str (zh 14460))])"

definition overlayPersistedActions :: "jsval \<Rightarrow> jsval \<Rightarrow> jsval" where
  "overlayPersistedActions items persistedActions =
     (if \<not> is_arr persistedActions \<or> fld persistedActions ''length'' = N 0
      then items
      else Arr
             (let byId = [];
                  byId =
                      fold
                        (\<lambda>action byId.
                           if \<not> truthy (fld action ''id'')
                           then byId
                           else map_put byId (Str (to_str (fld action ''id''))) action)
                        (elems persistedActions) byId
              in map
                   (\<lambda>item.
                      let saved = map_get byId (fld item ''id'')
                      in if \<not> truthy saved
                         then item
                         else let savedStatus = to_str (js_or (fld saved ''status'') (Str []));
                                  thinDonePaperWatch =
                                      fld item ''id'' = S ''paper_watch'' \<and>
                                      lower savedStatus = js ''done'' \<and>
                                      \<not> paperWatchCompletionHasEvidence saved;
                                  thinDoneSentimentReview =
                                      fld item ''id'' = S ''sentiment_review'' \<and>
                                      lower savedStatus = js ''done'' \<and>
                                      \<not> sentimentReviewCompletionHasEvidence saved;
                                  status =
                                      if thinDonePaperWatch \<or> thinDoneSentimentReview
                                      then S ''manual''
                                      else if list_has ACTION_STATUSES (fld saved ''status'')
                                      then fld saved ''status''
                                      else fld item ''status'';
                                  note =
                                      if thinDonePaperWatch
                                      then Str
                                             (to_str
                                                (js_or (fld saved ''note'') (Str (zh 75900))) @
                                              (zh 13721))
                                      else if thinDoneSentimentReview
                                      then Str
                                             (to_str
                                                (js_or (fld saved ''note'') (Str (zh 75920))) @
                                              (zh 75921))
                                      else js_or (fld saved ''note'') (fld item ''note'');
                                  presentation = startedBacktestPresentation item saved
                              in merge
                                   (spread (merge (obj []) item) [(''status'', status),
                                                                  (''relatedId'', js_or
                                                                          (fld saved ''relatedId'')
                                                                          (fld item ''relatedId'')),
                                                                  (''href'', js_or (fld saved ''href'')
                                                                          (fld item ''href'')),
                                                                  (''note'', note),
                                                                  (''updatedAt'', js_or
                                                                          (fld saved ''updatedAt'')
                                                                          (fld item ''updatedAt''))])
                                   (js_or presentation (obj []))) (elems items)))"

definition aiGoalRunActionTimestamp :: "date \<Rightarrow> date \<Rightarrow> jstr" where
  "aiGoalRunActionTimestamp now clock =
     (if time_of now = NaN then iso_string clock else iso_string now)"

definition firstDefaultActionDraft :: "jsval \<Rightarrow> jsval" where
  "firstDefaultActionDraft drafts =
     (if \<not> is_arr drafts
      then Null
      else case loop
                  (\<lambda>draft _.
                     let kind = lower (trim (to_str (js_or (fld draft ''kind'') (Str []))))
                     in if kind = js ''watch_only''
                        then Next ()
                        else let name = trim (to_str (js_or (fld draft ''name'') (Str [])));
                                 symbol = trim (to_str (js_or (fld draft ''symbol'') (Str [])))
                             in if name = [] \<and> symbol = []
                                then Next ()
                                else Return (obj [(''name'', Str name), (''symbol'', Str symbol)]))
                  (elems drafts) () of
             Return r \<Rightarrow>
                 r
           | Next _ \<Rightarrow>
                 Null
           | Break _ \<Rightarrow>
                 Null)"

definition defaultAIGoalRunActionsFromAnalysis :: "jsval \<Rightarrow> date \<Rightarrow> date \<Rightarrow> jsval list" where
  "defaultAIGoalRunActionsFromAnalysis analysis now clock =
     (let updatedAt = aiGoalRunActionTimestamp now clock;
          notes = safeStringList (fld (fld analysis ''context'') ''notes'');
          humanFactors = safeStringList (fld analysis ''humanFactors'');
          watchSignals = elems (fld analysis ''watchSignals'');
          firstDraft = firstDefaultActionDraft (fld analysis ''strategyDrafts'');
          relatedId =
              if truthy firstDraft
              then js_or (fld firstDraft ''name'') (fld firstDraft ''symbol'')
              else Str [];
          dataBlocked = notes \<noteq> [];
          needsSentimentReview = humanFactors \<noteq> [] \<or> watchSignals \<noteq> [];
          sentimentNote =
              sentimentReviewNoteFromEvidence (Arr humanFactors) (Arr watchSignals)
                (Str (zh 76930));
          hasTradableDraft = truthy firstDraft;
          actions =
              [obj [(''id'', S ''review''), (''status'', S ''manual''),
                    (''note'', Str (zh 77010)), (''updatedAt'', Str updatedAt)],
               obj [(''id'', S ''data''),
                    (''status'', Str (if dataBlocked then js ''blocked'' else js ''done'')),
                    (''note'', Str
                            (if dataBlocked
                             then js_join (zh 271) (take 2 notes)
                             else (zh 77090))),
                    (''updatedAt'', Str updatedAt)],
               obj [(''id'', S ''sentiment_review''),
                    (''status'', Str (if needsSentimentReview then js ''manual'' else js ''done'')),
                    (''note'', if needsSentimentReview then sentimentNote else Str (zh 76930)),
                    (''updatedAt'', Str updatedAt)],
               obj [(''id'', S ''backtest''),
                    (''status'', Str (if hasTradableDraft then js ''ready'' else js ''blocked'')),
                    (''relatedId'', relatedId), (''note'', Str (zh 77240)),
                    (''updatedAt'', Str updatedAt)],
               obj [(''id'', S ''strategy''),
                    (''status'', Str (if hasTradableDraft then js ''ready'' else js ''blocked'')),
                    (''relatedId'', relatedId), (''note'', Str (zh 77310)),
                    (''updatedAt'', Str updatedAt)]];
          actions =
              if hasTradableDraft
              then actions @
                   [obj [(''id'', S ''paper_watch''), (''status'', S ''blocked''),
                         (''relatedId'', relatedId),
                         (''note'', Str (zh 77410)),
                         (''updatedAt'', Str updatedAt)]]
              else actions
      in actions @
         [obj [(''id'', S ''gate''), (''status'', S ''blocked''),
               (''note'', Str (zh 77500)),
               (''updatedAt'', Str updatedAt)]])"

definition appendTransitionEvidenceNote :: "jsval \<Rightarrow> jsval \<Rightarrow> jstr" where
  "appendTransitionEvidenceNote existingNote completionNote =
     (let existing = trim (squeeze_ws (to_str (js_or existingNote (Str []))));
          completion = trim (squeeze_ws (to_str (js_or completionNote (Str []))))
      in if existing = []
         then completion
         else if completion = [] \<or> contains existing completion
         then existing
         else existing @ js '' '' @ completion)"

definition manualActionTransition :: "jsval \<Rightarrow> jsval" where
  "manualActionTransition action =
     (let id' = to_str (js_or (fld action ''id'') (Str []))
      in if \<not> list_has MANUAL_TRANSITION_ACTION_IDS (Str id')
         then Null
         else let title =
                      trim (to_str (js_or (js_or (fld action ''title'') (Str id')) (Str (zh 77610))));
                  status = lower (to_str (js_or (fld action ''status'') (Str [])))
              in if fld action ''status'' = S ''done''
                 then obj [(''label'', Str (zh 7222)), (''nextStatus'', S ''manual''),
                           (''note'', Str (title @ (zh 77670)))]
                 else if status = js ''blocked'' \<and>
                         (id' = js ''paper_watch'' \<or> id' = js ''gate'')
                 then Null
                 else if id' = js ''paper_watch''
                 then obj [(''label'', Str (zh 32960)), (''nextStatus'', S ''done''),
                           (''note'', Str
                                   (appendTransitionEvidenceNote (fld action ''note'')
                                      (Str PAPER_WATCH_COMPLETION_NOTE)))]
                 else if id' = js ''sentiment_review''
                 then obj [(''label'', Str (zh 50080)), (''nextStatus'', S ''done''),
                           (''note'', Str SENTIMENT_REVIEW_COMPLETION_NOTE)]
                 else if id' = js ''gate''
                 then obj [(''label'', Str (zh 77890)), (''nextStatus'', S ''done''),
                           (''note'', Str (zh 77910))]
                 else obj [(''label'', Str (zh 13730)), (''nextStatus'', S ''done''),
                           (''note'', Str (title @ (zh 77970)))])"

end
