(* ===== verification/Goal_Decision.thy ===== *)
theory Goal_Decision
  imports Preset_Text Strategy_Preset Backtest_Ranking Goal_Actions
begin

section \<open>Sentiment compass and the next decision\<close>

text \<open>
  A part of \<^verbatim>\<open>src/client/data/ai-goal-preset.mjs\<close>: the sentiment compass
  of an analysis, the decision on what to do next, and the action plan. Literals that are not
  ASCII are looked up in \<open>Ui_Texts\<close>; their key is ten times the line of the source
  file they stand on, plus a rank.
\<close>


definition sentimentTemperature :: "jsval \<Rightarrow> jsval \<Rightarrow> jsval \<Rightarrow> jsval" where
  "sentimentTemperature humanFactors watchSignals context =
     (let joined =
              lower
                (js_join (js '' '')
                   (elems humanFactors @
                    map (\<lambda>item. js_or (fld item ''signal'') (Str [])) (elems watchSignals)));
          hotWords = [S ''fomo'', Str (zh 41840), Str (zh 180), Str (zh 190), Str (zh 181), Str (zh 31920)];
          coldWords = [Str (zh 19401), S ''panic'', Str (zh 41850), Str (zh 41851), Str (zh 41852)];
          hot = list_ex (\<lambda>word. contains joined (lower (str_val word))) hotWords;
          cold = list_ex (\<lambda>word. contains joined (lower (str_val word))) coldWords
      in if hot
         then obj [(''label'', Str (zh 41880)), (''stage'', S ''heated'')]
         else if cold
         then obj [(''label'', Str (zh 41890)), (''stage'', S ''fearful'')]
         else if num_lt (Fin 0) (to_num (js_or (fld context ''newsCount'') (N 0))) \<or>
                 num_lt (Fin 0) (to_num (fld watchSignals ''length''))
         then obj [(''label'', Str (zh 41910)), (''stage'', S ''balanced'')]
         else obj [(''label'', Str (zh 31590)), (''stage'', S ''data_gap'')])"

definition signalItemsBySource :: "jsval \<Rightarrow> jsval \<Rightarrow> jsval list" where
  "signalItemsBySource signals sources =
     (let sourceSet = remdups_first (elems sources)
      in if is_arr signals
         then filter
                (\<lambda>item.
                   list_has sourceSet
                     (Str (lower (to_str (js_or (fld item ''source'') (Str []))))))
                (elems signals)
         else [])"

definition aiSentimentCompassFromAnalysis :: "jsval \<Rightarrow> jsval" where
  "aiSentimentCompassFromAnalysis analysis =
     (let analysis = dflt analysis Null;
          context = js_or (fld analysis ''context'') (obj []);
          humanFactors = safeStringList (fld analysis ''humanFactors'');
          watchSignals = elems (fld analysis ''watchSignals'');
          notes = safeStringList (fld context ''notes'');
          contextCounts =
              obj [(''news'', Num (to_num (js_or (fld context ''newsCount'') (N 0)))),
                   (''macro'', Num (to_num (js_or (fld context ''macroCount'') (N 0)))),
                   (''onchain'', Num (to_num (js_or (fld context ''onchainCount'') (N 0))))];
          hasContext =
              num_lt (Fin 0)
                (to_num
                   (js_plus (js_plus (fld contextCounts ''news'') (fld contextCounts ''macro''))
                      (fld contextCounts ''onchain'')))
      in if \<not> truthy analysis \<or> \<not> hasContext \<and> notes \<noteq> []
         then obj [(''stage'', S ''data_gap''), (''title'', Str (zh 42100)),
                   (''tone'', S ''warning''),
                   (''summary'', Str (zh 42120)),
                   (''metrics'', Arr [obj [(''label'', Str (zh 42140)), (''value'', Str (zh 31590)),
                                   (''hint'', Str (zh 42141))],
                              obj [(''label'', Str (zh 275)), (''value'', Num (len humanFactors)),
                                   (''hint'', Str (zh 42150))],
                              obj [(''label'', Str (zh 34830)),
                                   (''value'', Str
                                           (to_str (fld contextCounts ''news'') @
                                            js ''/'' @
                                            to_str (fld contextCounts ''macro'') @
                                            js ''/'' @
                                            to_str (fld contextCounts ''onchain''))),
                                   (''hint'', Str (zh 37190))]]),
                   (''risks'', Arr (if notes \<noteq> [] then take 3 notes else [Str (zh 25470)])),
                   (''opportunities'', Arr [Str (zh 42190)]),
                   (''actions'', Arr [Str (zh 42200)])]
         else let temperature = sentimentTemperature (Arr humanFactors) (Arr watchSignals) context;
                  newsSignals =
                      signalItemsBySource (Arr watchSignals) (Arr [S ''news'', S ''human'']);
                  marketSignals =
                      signalItemsBySource (Arr watchSignals)
                        (Arr [S ''macro'', S ''onchain'', S ''price'']);
                  riskRows =
                      filter truthy
                        (humanFactors @
                         map
                           (\<lambda>item.
                              Str
                                (trim
                                   (to_str
                                      (js_or
                                         (js_or (fld item ''interpretation'')
                                            (fld item ''signal'')) (Str []))))) marketSignals);
                  opportunityRows =
                      filter truthy
                        (map
                           (\<lambda>item.
                              Str
                                (trim
                                   (to_str
                                      (js_or
                                         (js_or (fld item ''signal'')
                                            (fld item ''interpretation'')) (Str [])))))
                           newsSignals);
                  actionRows =
                      filter truthy
                        (map
                           (\<lambda>item.
                              Str (trim (to_str (js_or (fld item ''action'') (Str [])))))
                           watchSignals);
                  stage =
                      if num_le (Fin 3) (len riskRows) \<or>
                         fld temperature ''stage'' = S ''heated''
                      then js ''heated''
                      else if fld temperature ''stage'' = S ''fearful''
                      then js ''fearful''
                      else js ''balanced'';
                  tone = if stage = js ''balanced'' then js ''success'' else js ''warning''
              in obj [(''stage'', Str stage),
                      (''title'', Str
                              (if stage = js ''heated''
                               then (zh 42490)
                               else if stage = js ''fearful''
                               then (zh 42510)
                               else (zh 42520))),
                      (''tone'', Str tone),
                      (''summary'', Str
                              (if stage = js ''heated''
                               then (zh 42560)
                               else if stage = js ''fearful''
                               then (zh 42580)
                               else (zh 42590))),
                      (''metrics'', Arr [obj [(''label'', Str (zh 42140)),
                                      (''value'', fld temperature ''label''),
                                      (''hint'', js_or (fld analysis ''marketRead'') (Str (zh 42610)))],
                                 obj [(''label'', Str (zh 275)),
                                      (''value'', Num (len humanFactors)),
                                      (''hint'', js_or (item_at humanFactors 0) (Str (zh 42620)))],
                                 obj [(''label'', Str (zh 34830)),
                                      (''value'', Str
                                              (to_str (fld contextCounts ''news'') @
                                               js ''/'' @
                                               to_str (fld contextCounts ''macro'') @
                                               js ''/'' @
                                               to_str (fld contextCounts ''onchain''))),
                                      (''hint'', Str (zh 37190))]]),
                      (''risks'', Arr
                              (if riskRows \<noteq> []
                               then take 4 riskRows
                               else [Str (zh 42650)])),
                      (''opportunities'', Arr
                              (if opportunityRows \<noteq> []
                               then take 4 opportunityRows
                               else [Str (zh 42690)])),
                      (''actions'', Arr
                              (if actionRows \<noteq> []
                               then take 4 actionRows
                               else [Str (zh 42730)]))])"

definition nextAIGoalDecision :: "jsval \<Rightarrow> jsval \<Rightarrow> jsval \<Rightarrow> date \<Rightarrow> jsval" where
  "nextAIGoalDecision analysis persistedActions backtests clock =
     (let persistedActions = dflt persistedActions (Arr []);
          backtests = dflt backtests (Arr []);
          notes = safeStringList (fld (fld analysis ''context'') ''notes'');
          runnableDrafts = runnableBacktestRequestsFromAnalysis analysis clock;
          ranked = rankBacktestValidation backtests;
          candidate = paperCandidateFromValidation analysis backtests clock;
          backtestAction = persistedActionById persistedActions (S ''backtest'');
          backtestActionDone =
              lower (to_str (js_or (fld backtestAction ''status'') (Str []))) = js ''done'';
          startedValidationIds =
              if backtestActionDone then backtestRunIdsFromAction backtestAction else [];
          paperWatch = persistedActionById persistedActions (S ''paper_watch'');
          paperWatchEvidenceComplete =
              fld paperWatch ''status'' = S ''done'' \<and>
              paperWatchCompletionHasEvidence paperWatch;
          sentimentReview = persistedActionById persistedActions (S ''sentiment_review'');
          sentimentReviewEvidenceComplete = sentimentReviewCompleted sentimentReview;
          best = coalesce (item_at ranked 0) Null
      in if notes \<noteq> [] \<and> ranked = []
         then obj [(''stage'', S ''data_gap''), (''title'', Str (zh 78270)),
                   (''tone'', S ''warning''),
                   (''summary'', Str (zh 78290)),
                   (''reasons'', Arr (take 3 notes)),
                   (''nextActions'', Arr [Str (zh 78310), Str (zh 78311)]),
                   (''primaryHref'', S ''/data-explorer/news'')]
         else if list_ex (\<lambda>row. fld row ''score'' = Null) ranked
         then obj [(''stage'', S ''validating''), (''title'', Str (zh 59870)),
                   (''tone'', S ''warning''),
                   (''summary'', Str (zh 78410)),
                   (''reasons'', Arr
                           (map
                              (\<lambda>row.
                                 Str
                                   (to_str (js_or (fld row ''strategyId'') (fld row ''runId'')) @
                                    (zh 78450)))
                              (take 3 (filter (\<lambda>row. fld row ''score'' = Null) ranked)))),
                   (''nextActions'', Arr [Str (zh 78460), Str (zh 78461)]),
                   (''primaryHref'', if truthy (fld best ''runId'')
                         then Str
                                (js ''/backtests/'' @ uri_component (to_str (fld best ''runId'')))
                         else Undef)]
         else if ranked = [] \<and> startedValidationIds \<noteq> []
         then let firstHref =
                      js_or (fld backtestAction ''href'')
                        (Str
                           (js ''/backtests/'' @
                            uri_component (to_str (item_at startedValidationIds 0))))
              in obj [(''stage'', S ''validating''), (''title'', Str (zh 78560)),
                      (''tone'', S ''warning''),
                      (''summary'', Str (zh 78580)),
                      (''reasons'', Arr
                              (map (\<lambda>id'. Str (to_str id' @ (zh 78590)))
                                 (take 3 startedValidationIds))),
                      (''nextActions'', Arr [Str (zh 78600), Str (zh 78601)]),
                      (''primaryHref'', firstHref),
                      (''primaryAction'', obj [(''kind'', S ''open_link''), (''label'', Str (zh 78600))])]
         else if ranked = []
         then obj [(''stage'', S ''backtest''), (''title'', Str (zh 78690)),
                   (''tone'', S ''warning''),
                   (''summary'', Str
                           (if runnableDrafts \<noteq> []
                            then (zh 78730)
                            else (zh 78740))),
                   (''reasons'', Arr
                           (if runnableDrafts \<noteq> []
                            then [Str (num_to_string (len runnableDrafts) @ (zh 78770))]
                            else [Str (zh 64920)])),
                   (''nextActions'', Arr
                           (if runnableDrafts \<noteq> []
                            then [Str (zh 25280), Str (zh 30352)]
                            else [Str (zh 78820), Str (zh 78821)])),
                   (''primaryHref'', Undef),
                   (''primaryAction'', if runnableDrafts \<noteq> []
                         then obj [(''kind'', S ''run_all_backtests''),
                                   (''label'', Str (zh 25280))]
                         else Undef)]
         else if \<not> truthy candidate
         then obj [(''stage'', S ''redesign''), (''title'', Str (zh 78940)),
                   (''tone'', S ''danger''),
                   (''summary'', Str (zh 78960)),
                   (''reasons'', Arr
                           (map
                              (\<lambda>row.
                                 Str
                                   (let score =
                                            if fld row ''score'' = Null
                                            then Str (zh 5880)
                                            else fld row ''score''
                                    in to_str (js_or (fld row ''strategyId'') (fld row ''runId'')) @
                                       js '': '' @
                                       to_str (fld row ''recommendation'') @
                                       (zh 10061) @
                                       to_str score)) (take 3 ranked))),
                   (''nextActions'', Arr [Str (zh 37490), Str (zh 79010), Str (zh 79011)]),
                   (''primaryHref'', Undef),
                   (''primaryAction'', obj [(''kind'', S ''analyze_and_validate''),
                              (''label'', Str (zh 36360))])]
         else let candidateSummary =
                      to_str (fld candidate ''strategyId'') @
                      (zh 32890) @
                      to_str (fld candidate ''score'') @
                      (zh 7421) @
                      formatPercentValue (fld candidate ''totalReturn'') @
                      (zh 7440) @
                      formatPercentValue (fld candidate ''maxDrawdown'') @
                      (zh 10060) @
                      to_fixed 2 (to_num (fld candidate ''sharpe''));
                  sentimentCompass = aiSentimentCompassFromAnalysis analysis;
                  needsSentimentReview =
                      fld sentimentCompass ''stage'' \<noteq> S ''balanced'' \<and>
                      \<not> sentimentReviewEvidenceComplete
              in if \<not> truthy paperWatch \<and> needsSentimentReview
                 then obj [(''stage'', S ''sentiment_review''), (''title'', Str (zh 59910)),
                           (''tone'', S ''warning''),
                           (''summary'', Str
                                   (candidateSummary @
                                    (zh 79170) @
                                    to_str (fld sentimentCompass ''title'') @
                                    (zh 79171))),
                           (''reasons'', js_slice 0 (Some 4) (fld sentimentCompass ''risks'')),
                           (''nextActions'', Arr [Str (zh 79200),
                                      Str (zh 79210),
                                      Str (zh 79220)]),
                           (''primaryHref'', S ''/data-explorer/news'')]
                 else if \<not> truthy paperWatch
                 then obj [(''stage'', S ''paper_candidate''), (''title'', Str (zh 36010)),
                           (''tone'', S ''success''),
                           (''summary'', Str (candidateSummary @ (zh 79330))),
                           (''reasons'', Arr [Str (zh 79340), Str (zh 79341)]),
                           (''nextActions'', Arr [Str (zh 79350), Str (zh 79351)]),
                           (''primaryHref'', fld candidate ''backtestHref''),
                           (''primaryAction'', obj [(''kind'', S ''accept_paper_candidate''),
                                      (''label'', Str (zh 28062))])]
                 else if fld paperWatch ''status'' \<noteq> S ''done'' \<or>
                         \<not> paperWatchEvidenceComplete
                 then let missingEvidence = fld paperWatch ''status'' = S ''done''
                      in obj [(''stage'', S ''paper_watch''),
                              (''title'', Str
                                      (if missingEvidence then (zh 13690) else (zh 7742))),
                              (''tone'', S ''warning''),
                              (''summary'', Str
                                      (if missingEvidence
                                       then candidateSummary @ (zh 79480)
                                       else candidateSummary @ (zh 79490))),
                              (''reasons'', Arr
                                      (if missingEvidence
                                       then [Str (zh 79520),
                                             js_or (fld paperWatch ''note'')
                                               (Str (zh 79530))]
                                       else [js_or (fld paperWatch ''note'')
                                               (Str (zh 79560)),
                                             Str (zh 79570)])),
                              (''nextActions'', Arr
                                      (if missingEvidence
                                       then [Str (zh 13690),
                                             Str (zh 75113),
                                             Str (zh 79600)]
                                       else [Str (zh 79610), Str (zh 79611)])),
                              (''primaryHref'', js_or (fld paperWatch ''href'')
                                      (fld candidate ''backtestHref''))]
                 else let canTestnet =
                              num_le (Fin 75) (to_num (fld candidate ''score'')) \<and>
                              num_lt (Fin 0) (to_num (fld candidate ''totalReturn'')) \<and>
                              num_le (Fin 1) (to_num (fld candidate ''sharpe'')) \<and>
                              num_le (to_num (fld candidate ''maxDrawdown'')) (fl (3 / 25))
                      in if canTestnet
                         then obj [(''stage'', S ''testnet_candidate''),
                                   (''title'', Str (zh 79740)), (''tone'', S ''success''),
                                   (''summary'', Str
                                           (candidateSummary @
                                            (zh 79760))),
                                   (''reasons'', Arr [Str (zh 79770),
                                              Str (zh 40981),
                                              Str (zh 79771)]),
                                   (''nextActions'', Arr [Str (zh 79780),
                                              Str (zh 79781),
                                              Str (zh 79782)]),
                                   (''primaryHref'', fld candidate ''strategyHref''),
                                   (''primaryAction'', obj [(''kind'', S ''open_link''),
                                              (''label'', Str (zh 35400))])]
                         else obj [(''stage'', S ''continue_paper''),
                                   (''title'', Str (zh 79860)), (''tone'', S ''warning''),
                                   (''summary'', Str (candidateSummary @ (zh 79880))),
                                   (''reasons'', Arr [Str (zh 79890), Str (zh 79891)]),
                                   (''nextActions'', Arr [Str (zh 7742), Str (zh 79900)]),
                                   (''primaryHref'', js_or (fld paperWatch ''href'')
                                           (fld candidate ''backtestHref''))])"

definition aiAutopilotStateFromAnalysis :: "jsval \<Rightarrow> jsval \<Rightarrow> jsval \<Rightarrow> date \<Rightarrow> jsval" where
  "aiAutopilotStateFromAnalysis analysis persistedActions validationRuns clock =
     (let analysis = dflt analysis Null;
          persistedActions = dflt persistedActions (Arr []);
          validationRuns = dflt validationRuns (Arr [])
      in if \<not> truthy analysis
         then obj [(''stage'', S ''idle''), (''title'', Str (zh 40120)),
                   (''tone'', S ''warning''), (''progress'', N 0),
                   (''maxExecutionMode'', S ''observe''), (''canAutoExecute'', Bool False),
                   (''summary'', Str (zh 40170)),
                   (''metrics'', Arr [obj [(''label'', Str (zh 2720)), (''value'', S ''0/0/0''),
                                   (''hint'', Str (zh 37190))],
                              obj [(''label'', Str (zh 461)), (''value'', Str (zh 40200)),
                                   (''hint'', Str (zh 40201))],
                              obj [(''label'', Str (zh 231)), (''value'', Str (zh 40210)),
                                   (''hint'', Str (zh 19122))]]),
                   (''blockers'', Arr [Str (zh 40230)]),
                   (''safetyGates'', Arr [Str (zh 40240)]),
                   (''nextActions'', Arr [Str (zh 39530)]), (''completedSteps'', Arr []),
                   (''aiAvailableSteps'', Arr [Str (zh 40280), Str (zh 40290)]),
                   (''humanRequiredSteps'', Arr [Str (zh 40320), Str (zh 40330)]),
                   (''primaryAction'', obj [(''kind'', S ''analyze_and_validate''), (''label'', Str (zh 39530))])]
         else let decision = nextAIGoalDecision analysis persistedActions validationRuns clock;
                  validationPlan = autoValidationPlanFromAnalysis analysis clock;
                  ranked = rankBacktestValidation validationRuns;
                  context = js_or (fld analysis ''context'') (obj []);
                  notes = safeStringList (fld context ''notes'');
                  watchSignals = elems (fld analysis ''watchSignals'');
                  humanFactors = safeStringList (fld analysis ''humanFactors'');
                  execution = js_or (fld analysis ''execution'') (obj []);
                  completedRuns =
                      len (filter (\<lambda>row. fld row ''score'' \<noteq> Null) ranked);
                  runningRuns = len (filter (\<lambda>row. fld row ''score'' = Null) ranked);
                  paperWatch = persistedActionById persistedActions (S ''paper_watch'');
                  paperWatchEvidenceComplete =
                      fld paperWatch ''status'' = S ''done'' \<and>
                      paperWatchCompletionHasEvidence paperWatch;
                  stageProgress =
                      obj [(''data_gap'', N 20), (''backtest'', N 35), (''validating'', N 50),
                           (''redesign'', N 25), (''paper_candidate'', N 60),
                           (''paper_watch'', N 70), (''continue_paper'', N 75),
                           (''testnet_candidate'', N 85)];
                  progress =
                      coalesce (getp stageProgress (to_str (fld decision ''stage''))) (N 40);
                  maxExecutionMode =
                      if fld decision ''stage'' = S ''testnet_candidate''
                      then js ''testnet''
                      else js ''observe'';
                  primaryAction =
                      coalesce (fld decision ''primaryAction'')
                        (if truthy (fld decision ''primaryHref'')
                         then obj [(''kind'', S ''open_link''),
                                   (''label'', Str
                                           (if fld decision ''stage'' = S ''data_gap'' \<or>
                                               fld decision ''stage'' = S ''sentiment_review''
                                            then (zh 40720)
                                            else (zh 17960)))]
                         else Undef);
                  requestedMainnet =
                      lower (to_str (js_or (fld execution ''mode'') (Str []))) = js ''mainnet'';
                  blockers =
                      take 6
                        (safeStringList (fld decision ''reasons'') @
                         notes @
                         (if requestedMainnet then [Str (zh 40800)] else []));
                  safetyGates =
                      take 8
                        (safeStringList (fld execution ''safetyGates'') @
                         map (\<lambda>item. Str ((zh 40840) @ to_str item)) humanFactors);
                  completedSteps = [];
                  aiAvailableSteps = [];
                  humanRequiredSteps = [];
                  completedSteps = pushUniqueText completedSteps (Str (zh 40900));
                  completedSteps =
                      if num_lt (Fin 0)
                           (num_add
                              (num_add (to_num (js_or (fld context ''newsCount'') (N 0)))
                                 (to_num (js_or (fld context ''macroCount'') (N 0))))
                              (to_num (js_or (fld context ''onchainCount'') (N 0))))
                      then pushUniqueText completedSteps (Str (zh 40920))
                      else completedSteps;
                  completedSteps =
                      if num_lt (Fin 0) completedRuns
                      then pushUniqueText completedSteps
                             (Str (num_to_string completedRuns @ (zh 40950)))
                      else completedSteps;
                  completedSteps =
                      if paperWatchEvidenceComplete
                      then pushUniqueText completedSteps (Str (zh 40980))
                      else if fld paperWatch ''status'' = S ''done''
                      then pushUniqueText completedSteps (Str (zh 41000))
                      else if truthy paperWatch
                      then pushUniqueText completedSteps (Str (zh 41020))
                      else completedSteps;
                  aiAvailableSteps =
                      if fld decision ''stage'' = S ''backtest''
                      then pushUniqueText aiAvailableSteps
                             (Str
                                ((zh 41061) @
                                 to_str (fld validationPlan ''runnableCount'') @
                                 (zh 41060)))
                      else if fld decision ''stage'' = S ''validating''
                      then pushUniqueText aiAvailableSteps (Str (zh 41080))
                      else if fld decision ''stage'' = S ''paper_candidate''
                      then pushUniqueText aiAvailableSteps (Str (zh 41100))
                      else if fld decision ''stage'' = S ''testnet_candidate''
                      then pushUniqueText aiAvailableSteps (Str (zh 41120))
                      else if fld (fld decision ''primaryAction'') ''kind'' = S ''open_link'' \<and>
                              truthy (fld decision ''primaryHref'')
                      then pushUniqueText aiAvailableSteps (Str (zh 41140))
                      else aiAvailableSteps;
                  aiAvailableSteps =
                      if aiAvailableSteps = []
                      then pushUniqueText aiAvailableSteps (Str (zh 41170))
                      else aiAvailableSteps;
                  humanRequiredSteps =
                      pushUniqueText humanRequiredSteps (Str (zh 41200));
                  humanRequiredSteps =
                      if humanFactors \<noteq> [] \<or>
                         fld decision ''stage'' = S ''sentiment_review''
                      then pushUniqueText humanRequiredSteps
                             (Str (zh 41220))
                      else humanRequiredSteps;
                  humanRequiredSteps =
                      if notes \<noteq> []
                      then pushUniqueText humanRequiredSteps (Str (zh 41250))
                      else humanRequiredSteps;
                  humanRequiredSteps =
                      if \<not> paperWatchEvidenceComplete
                      then pushUniqueText humanRequiredSteps (Str (zh 41280))
                      else humanRequiredSteps;
                  humanRequiredSteps =
                      if requestedMainnet
                      then pushUniqueText humanRequiredSteps
                             (Str (zh 41310))
                      else humanRequiredSteps
              in obj [(''stage'', fld decision ''stage''), (''title'', fld decision ''title''),
                      (''tone'', fld decision ''tone''), (''progress'', progress),
                      (''maxExecutionMode'', Str maxExecutionMode),
                      (''canAutoExecute'', Bool False), (''summary'', fld decision ''summary''),
                      (''metrics'', Arr [obj [(''label'', Str (zh 2720)),
                                      (''value'', Str
                                              (num_to_string
                                                 (to_num (js_or (fld context ''newsCount'') (N 0))) @
                                               js ''/'' @
                                               num_to_string
                                                 (to_num
                                                    (js_or (fld context ''macroCount'') (N 0))) @
                                               js ''/'' @
                                               num_to_string
                                                 (to_num
                                                    (js_or (fld context ''onchainCount'') (N 0))))),
                                      (''hint'', Str (zh 37190))],
                                 obj [(''label'', Str (zh 461)),
                                      (''value'', Str
                                              (if num_lt (Fin 0) runningRuns
                                               then num_to_string runningRuns @ (zh 20480)
                                               else num_to_string completedRuns @ (zh 20490))),
                                      (''hint'', js_or (fld (item_at ranked 0) ''recommendation'')
                                              (Str (zh 6973)))],
                                 obj [(''label'', Str (zh 231)),
                                      (''value'', Str (num_to_string (len watchSignals) @ (zh 40211))),
                                      (''hint'', Str
                                              (if humanFactors \<noteq> []
                                               then num_to_string (len humanFactors) @ (zh 41590)
                                               else (zh 41591)))]]),
                      (''blockers'', Arr (if blockers \<noteq> [] then blockers else [Str (zh 41620)])),
                      (''safetyGates'', Arr
                              (if safetyGates \<noteq> []
                               then safetyGates
                               else [Str (zh 41630)])),
                      (''nextActions'', Arr (safeStringList (fld decision ''nextActions''))),
                      (''completedSteps'', Arr completedSteps),
                      (''aiAvailableSteps'', Arr aiAvailableSteps),
                      (''humanRequiredSteps'', Arr humanRequiredSteps),
                      (''primaryHref'', fld decision ''primaryHref''),
                      (''primaryAction'', primaryAction)])"

definition opportunityRadarFromState :: "jsval \<Rightarrow> jsval \<Rightarrow> jsval \<Rightarrow> jsval \<Rightarrow> date \<Rightarrow> (date \<Rightarrow> jstr) \<Rightarrow> jsval" where
  "opportunityRadarFromState analysis persistedActions validationRuns runs clock local_time =
     (let analysis = dflt analysis Null;
          persistedActions = dflt persistedActions (Arr []);
          validationRuns = dflt validationRuns (Arr []);
          runs = dflt runs (Arr []);
          recentRuns = elems runs
      in if \<not> truthy analysis
         then let latest = coalesce (item_at recentRuns 0) Null
              in obj [(''stage'', S ''idle''), (''title'', Str (zh 39290)),
                      (''tone'', S ''warning''),
                      (''summary'', Str
                              (if truthy latest
                               then (zh 39320) @
                                    to_str (js_or (fld latest ''goal'') (Str (zh 39321))) @
                                    (zh 39322)
                               else (zh 39330))),
                      (''metrics'', Arr [obj [(''label'', Str (zh 2390)), (''value'', Num (len recentRuns)),
                                      (''hint'', Str
                                              (if truthy (fld latest ''createdAt'')
                                               then local_time
                                                      (date_of (fld latest ''createdAt''))
                                               else (zh 15190)))],
                                 obj [(''label'', Str (zh 39410)), (''value'', Str (zh 39420)),
                                      (''hint'', Str (zh 39430))],
                                 obj [(''label'', Str (zh 39460)), (''value'', Str (zh 39470)),
                                      (''hint'', Str (zh 39480))]]),
                      (''reasons'', Arr [Str (zh 39510)]),
                      (''nextActions'', Arr [Str (zh 39331), Str (zh 39520), Str (zh 39521)]),
                      (''primaryAction'', obj [(''kind'', S ''analyze_and_validate''),
                                 (''label'', Str (zh 39530))])]
         else let decision = nextAIGoalDecision analysis persistedActions validationRuns clock;
                  validationPlan = autoValidationPlanFromAnalysis analysis clock;
                  ranked = rankBacktestValidation validationRuns;
                  context = js_or (fld analysis ''context'') (obj []);
                  drafts = elems (fld analysis ''strategyDrafts'');
                  symbols =
                      s_or (js_join (js '', '') (safeStringList (fld context ''symbols'')))
                        (js ''auto'');
                  validationValue =
                      if ranked \<noteq> []
                      then num_to_string (len ranked) @ (zh 39650)
                      else to_str (fld validationPlan ''runnableCount'') @ (zh 39660)
              in obj [(''stage'', fld decision ''stage''), (''title'', fld decision ''title''),
                      (''tone'', fld decision ''tone''), (''summary'', fld decision ''summary''),
                      (''metrics'', Arr [obj [(''label'', Str (zh 2720)),
                                      (''value'', Str
                                              (num_to_string
                                                 (to_num (js_or (fld context ''newsCount'') (N 0))) @
                                               js '' / '' @
                                               num_to_string
                                                 (to_num
                                                    (js_or (fld context ''macroCount'') (N 0))) @
                                               js '' / '' @
                                               num_to_string
                                                 (to_num
                                                    (js_or (fld context ''onchainCount'') (N 0))))),
                                      (''hint'', Str ((zh 39760) @ symbols))],
                                 obj [(''label'', Str (zh 461)), (''value'', Str validationValue),
                                      (''hint'', if ranked \<noteq> []
                                            then Str (zh 39830)
                                            else fld validationPlan ''actionNote'')],
                                 obj [(''label'', Str (zh 10830)), (''value'', Num (len drafts)),
                                      (''hint'', js_or (fld (fld analysis ''execution'') ''mode'')
                                              (S ''observe''))]]),
                      (''reasons'', fld decision ''reasons''),
                      (''nextActions'', fld decision ''nextActions''),
                      (''primaryHref'', fld decision ''primaryHref''),
                      (''primaryAction'', fld decision ''primaryAction'')])"

definition aiDecisionJournalFromState :: "jsval \<Rightarrow> jsval \<Rightarrow> jsval \<Rightarrow> jsval \<Rightarrow> jsval list" where
  "aiDecisionJournalFromState analysis persistedActions validationRuns runs =
     (let analysis = dflt analysis Null;
          persistedActions = dflt persistedActions (Arr []);
          validationRuns = dflt validationRuns (Arr []);
          runs = dflt runs (Arr []);
          entries' = []
      in if \<not> truthy analysis
         then let latest = if is_arr runs then item_at (elems runs) 0 else Null
              in if \<not> truthy latest
                 then [obj [(''kind'', S ''idle''), (''tone'', S ''warning''),
                            (''title'', Str (zh 15440)), (''detail'', Str (zh 45780))]]
                 else [obj [(''kind'', S ''run''), (''tone'', S ''default''),
                            (''title'', Str (zh 15490)),
                            (''detail'', Str
                                    (to_str (js_or (fld latest ''goal'') (Str (zh 39321))) @
                                     (zh 39761) @
                                     s_or
                                       (js_join (js '', '')
                                          (safeStringList (fld latest ''symbols''))) (js ''auto'') @
                                     (zh 39761) @
                                     num_to_string
                                       (to_num (js_or (fld latest ''strategyDraftCount'') (N 0))) @
                                     (zh 32380))),
                            (''at'', fld latest ''createdAt'')]]
         else let context = js_or (fld analysis ''context'') (obj []);
                  notes = safeStringList (fld context ''notes'');
                  drafts = elems (fld analysis ''strategyDrafts'');
                  entries' =
                      entries' @
                      [obj [(''kind'', S ''analysis''),
                            (''tone'', Str
                                    (if fld (fld analysis ''ai'') ''status'' = S ''fallback''
                                     then js ''warning''
                                     else js ''success'')),
                            (''title'', Str (zh 40901)),
                            (''detail'', Str
                                    (take 120
                                       (to_str (js_or (fld analysis ''summary'') (Str (zh 46000)))) @
                                     (zh 39761) @
                                     num_to_string (len drafts) @
                                     (zh 32380))),
                            (''at'', fld analysis ''createdAt'')]];
                  entries' =
                      entries' @
                      [obj [(''kind'', S ''context''),
                            (''tone'', Str
                                    (if notes \<noteq> [] then js ''warning'' else js ''success'')),
                            (''title'', Str (if notes \<noteq> [] then (zh 46070) else (zh 46071))),
                            (''detail'', Str
                                    (if notes \<noteq> []
                                     then js_join (zh 271) (take 2 notes)
                                     else (zh 37191) @
                                          num_to_string
                                            (to_num (js_or (fld context ''newsCount'') (N 0))) @
                                          js ''/'' @
                                          num_to_string
                                            (to_num (js_or (fld context ''macroCount'') (N 0))) @
                                          js ''/'' @
                                          num_to_string
                                            (to_num (js_or (fld context ''onchainCount'') (N 0)))))]];
                  ranked = rankBacktestValidation validationRuns;
                  entries' =
                      if ranked = []
                      then entries' @
                           [obj [(''kind'', S ''validation''), (''tone'', S ''warning''),
                                 (''title'', Str (zh 46190)),
                                 (''detail'', Str (zh 46200))]]
                      else let best = item_at ranked 0;
                               score =
                                   if fld best ''score'' = Null
                                   then Str (zh 5880)
                                   else fld best ''score''
                           in entries' @
                              [obj [(''kind'', S ''validation''), (''tone'', fld best ''tone''),
                                    (''title'', Str
                                            (if fld best ''score'' = Null
                                             then (zh 46280)
                                             else (zh 46281))),
                                    (''detail'', Str
                                            (to_str
                                               (js_or (fld best ''strategyId'')
                                                  (fld best ''runId'')) @
                                             js '': '' @
                                             to_str (fld best ''recommendation'') @
                                             (zh 10061) @
                                             to_str score @
                                             (zh 7421) @
                                             formatPercentValue (fld best ''totalReturn'') @
                                             (zh 7440) @
                                             formatPercentValue (fld best ''maxDrawdown''))),
                                    (''href'', if truthy (fld best ''runId'')
                                          then Str
                                                 (js ''/backtests/'' @
                                                  uri_component (to_str (fld best ''runId'')))
                                          else Undef)]];
                  paperWatch = persistedActionById persistedActions (S ''paper_watch'');
                  entries' =
                      if truthy paperWatch
                      then let paperWatchEvidenceComplete =
                                   fld paperWatch ''status'' = S ''done'' \<and>
                                   paperWatchCompletionHasEvidence paperWatch;
                               paperWatchMissingEvidence =
                                   fld paperWatch ''status'' = S ''done'' \<and>
                                   \<not> paperWatchEvidenceComplete
                           in entries' @
                              [obj [(''kind'', S ''paper_watch''),
                                    (''tone'', Str
                                            (if paperWatchEvidenceComplete
                                             then js ''success''
                                             else js ''warning'')),
                                    (''title'', Str
                                            (if paperWatchMissingEvidence
                                             then (zh 46430)
                                             else if paperWatchEvidenceComplete
                                             then (zh 298)
                                             else (zh 46460))),
                                    (''detail'', if paperWatchMissingEvidence
                                          then Str (zh 46480)
                                          else js_or (fld paperWatch ''note'')
                                                 (Str (zh 46490))),
                                    (''href'', js_or (fld paperWatch ''href'') Undef),
                                    (''at'', fld paperWatch ''updatedAt'')]]
                      else entries';
                  requestedMode =
                      lower
                        (to_str
                           (js_or (fld (fld analysis ''execution'') ''mode'') (S ''observe'')));
                  requestedMainnet = requestedMode = js ''mainnet'';
                  entries' =
                      entries' @
                      [obj [(''kind'', S ''gate''),
                            (''tone'', Str
                                    (if requestedMainnet then js ''warning'' else js ''default'')),
                            (''title'', Str (if requestedMainnet then (zh 46600) else (zh 46601))),
                            (''detail'', Str
                                    (if requestedMainnet
                                     then (zh 46620)
                                     else (zh 46630) @
                                          s_or requestedMode (js ''observe'') @
                                          (zh 46631)))]]
              in take 8 entries')"

definition aiCapitalPlanFromState :: "jsval \<Rightarrow> jsval \<Rightarrow> jsval \<Rightarrow> date \<Rightarrow> jsval" where
  "aiCapitalPlanFromState analysis candidate persistedActions clock =
     (let analysis = dflt analysis Null;
          candidate = dflt candidate Null;
          persistedActions = dflt persistedActions (Arr [])
      in if \<not> truthy candidate
         then let validationPlan = autoValidationPlanFromAnalysis analysis clock;
                  primaryAction =
                      if num_lt (Fin 0) (to_num (fld validationPlan ''runnableCount''))
                      then obj [(''kind'', S ''run_all_backtests''),
                                (''label'', Str (zh 25280))]
                      else Undef
              in obj [(''stage'', S ''waiting_validation''), (''title'', Str (zh 56030)),
                      (''tone'', S ''warning''),
                      (''summary'', Str (zh 56050)),
                      (''recommendedNotionalUsd'', N 0), (''maxDailyLossUsd'', N 0),
                      (''riskDiscount'', N 0), (''primaryAction'', primaryAction),
                      (''metrics'', Arr [obj [(''label'', Str (zh 56111)), (''value'', Str (zh 5880)),
                                      (''hint'', Str (zh 56110))],
                                 obj [(''label'', Str (zh 6761)), (''value'', Str (zh 5880)),
                                      (''hint'', Str (zh 56120))],
                                 obj [(''label'', Str (zh 56130)), (''value'', Str (zh 5880)),
                                      (''hint'', Str (zh 32140))]]),
                      (''rules'', Arr [Str (zh 56150)]),
                      (''actions'', Arr [Str (zh 56160)])]
         else let sentiment = aiSentimentCompassFromAnalysis analysis;
                  sentimentReview = persistedActionById persistedActions (S ''sentiment_review'');
                  needsReview =
                      fld sentiment ''stage'' \<noteq> S ''balanced'' \<and>
                      \<not> sentimentReviewCompleted sentimentReview;
                  caps = candidateRiskCaps candidate
              in if needsReview
                 then obj [(''stage'', S ''review_before_sizing''),
                           (''title'', Str (zh 56270)), (''tone'', S ''warning''),
                           (''summary'', Str
                                   (to_str (fld sentiment ''title'') @ (zh 56290))),
                           (''recommendedNotionalUsd'', N 0), (''maxDailyLossUsd'', N 0),
                           (''riskDiscount'', N 0), (''primaryHref'', S ''/data-explorer/news''),
                           (''primaryAction'', obj [(''kind'', S ''open_link''), (''label'', Str (zh 17950))]),
                           (''metrics'', Arr [obj [(''label'', Str (zh 56111)), (''value'', Str (zh 5880)),
                                           (''hint'', Str (zh 56360))],
                                      obj [(''label'', Str (zh 6761)), (''value'', Str (zh 5880)),
                                           (''hint'', Str (zh 56360))],
                                      obj [(''label'', Str (zh 56130)), (''value'', S ''0%''),
                                           (''hint'', fld sentiment ''title'')]]),
                           (''rules'', Arr [Str (zh 56400)]),
                           (''actions'', Arr [Str (zh 56410)])]
                 else let scoreDiscount = candidateScoreDiscount candidate;
                          sentimentDiscount = sentimentDiscountFromStage (fld sentiment ''stage'');
                          riskDiscount = num_min scoreDiscount sentimentDiscount;
                          recommendedNotionalUsd =
                              num_round
                                (num_mul (to_num (fld caps ''maxPositionUsd'')) riskDiscount);
                          drawdownLimit = paperDrawdownLimit candidate;
                          drawdownLossUsd =
                              num_round (num_mul recommendedNotionalUsd drawdownLimit);
                          maxDailyLossUsd =
                              num_min (num_round (to_num (fld caps ''dailyLossCapUsd'')))
                                drawdownLossUsd
                      in obj [(''stage'', S ''paper_sizing''), (''title'', Str (zh 56551)),
                              (''tone'', S ''success''),
                              (''summary'', Str
                                      ((zh 56570) @
                                       money (Num recommendedNotionalUsd) @
                                       (zh 56571) @
                                       money (Num maxDailyLossUsd) @
                                       (zh 56572))),
                              (''recommendedNotionalUsd'', Num recommendedNotionalUsd),
                              (''maxDailyLossUsd'', Num maxDailyLossUsd),
                              (''riskDiscount'', Num riskDiscount),
                              (''primaryHref'', Str
                                      (capitalPlanStrategyHref candidate
                                         (Num recommendedNotionalUsd))),
                              (''primaryAction'', obj [(''kind'', S ''accept_paper_candidate''),
                                         (''label'', Str (zh 56620))]),
                              (''metrics'', Arr [obj [(''label'', Str (zh 56111)),
                                              (''value'', Str (money (Num recommendedNotionalUsd))),
                                              (''hint'', Str
                                                      ((zh 56640) @
                                                       money (fld caps ''maxPositionUsd'')))],
                                         obj [(''label'', Str (zh 6761)),
                                              (''value'', Str (money (Num maxDailyLossUsd))),
                                              (''hint'', Str
                                                      ((zh 56650) @
                                                       money (fld caps ''dailyLossCapUsd'')))],
                                         obj [(''label'', Str (zh 56130)),
                                              (''value'', Str
                                                      (num_to_string
                                                         (num_round
                                                            (num_mul riskDiscount (Fin 100))) @
                                                       js ''%'')),
                                              (''hint'', Str
                                                      (to_str (fld sentiment ''title'') @
                                                       (zh 56660) @
                                                       to_str
                                                         (coalesce (fld candidate ''score'')
                                                            (Str (zh 5880)))))]]),
                              (''rules'', Arr [Str
                                           ((zh 56690) @
                                            to_fixed 0 (to_num (fld caps ''maxLeverage'')) @
                                            (zh 56691)),
                                         Str
                                           ((zh 45380) @
                                            formatPercentValue (Num drawdownLimit) @
                                            (zh 56700) @
                                            money (Num maxDailyLossUsd) @
                                            (zh 56701)),
                                         Str (zh 56710)]),
                              (''actions'', Arr [Str (zh 56740),
                                         Str (zh 56750)])])"

definition actionPlanFromAnalysis :: "jsval \<Rightarrow> jsval \<Rightarrow> date \<Rightarrow> jsval" where
  "actionPlanFromAnalysis analysis persistedActions clock =
     (let persistedActions = dflt persistedActions (Arr []);
          drafts = elems (fld analysis ''strategyDrafts'');
          runnableDrafts =
              filter (\<lambda>draft. backtestRequestFromDraft draft clock \<noteq> Null) drafts;
          firstRunnable = coalesce (item_at runnableDrafts 0) Null;
          notes = elems (fld (fld analysis ''context'') ''notes'');
          sentimentCompass = aiSentimentCompassFromAnalysis analysis;
          watchSignals = elems (fld analysis ''watchSignals'');
          needsSentimentReview =
              fld sentimentCompass ''stage'' \<noteq> S ''balanced'' \<or>
              watchSignals \<noteq> [];
          sentimentReviewDetail =
              if needsSentimentReview
              then sentimentReviewNoteFromEvidence (fld analysis ''humanFactors'')
                     (Arr watchSignals) (fld sentimentCompass ''summary'')
              else Str (zh 76930);
          relatedId =
              if truthy firstRunnable
              then js_or (js_or (fld firstRunnable ''name'') (fld firstRunnable ''symbol''))
                     (Str [])
              else Str [];
          baseItems =
              [obj [(''id'', S ''review''), (''title'', Str (zh 80100)),
                    (''detail'', Str (zh 80110)), (''status'', S ''manual''),
                    (''action'', S ''review'')],
               obj [(''id'', S ''data''),
                    (''title'', Str (if notes \<noteq> [] then (zh 48010) else (zh 80170))),
                    (''detail'', Str
                            (if notes \<noteq> []
                             then js_join (zh 271) (take 2 notes)
                             else (zh 77090))),
                    (''status'', Str (if notes \<noteq> [] then js ''blocked'' else js ''done'')),
                    (''action'', S ''data'')],
               obj [(''id'', S ''sentiment_review''), (''title'', Str (zh 31890)),
                    (''detail'', sentimentReviewDetail),
                    (''status'', Str (if needsSentimentReview then js ''manual'' else js ''done'')),
                    (''action'', S ''sentiment_review'')],
               obj [(''id'', S ''backtest''), (''title'', Str (zh 80340)),
                    (''detail'', Str
                            (if firstRunnable \<noteq> Null
                             then (zh 80370) @
                                  to_str
                                    (js_or (fld firstRunnable ''name'')
                                       (fld firstRunnable ''symbol'')) @
                                  (zh 80371)
                             else (zh 80380))),
                    (''status'', Str
                            (if firstRunnable \<noteq> Null then js ''ready'' else js ''blocked'')),
                    (''action'', S ''backtest''),
                    (''targetDraftName'', fld firstRunnable ''name'')],
               obj [(''id'', S ''strategy''), (''title'', Str (zh 80450)),
                    (''detail'', Str
                            (if firstRunnable \<noteq> Null
                             then (zh 80480)
                             else (zh 80490))),
                    (''status'', Str
                            (if firstRunnable \<noteq> Null then js ''ready'' else js ''blocked'')),
                    (''action'', S ''strategy''),
                    (''targetDraftName'', fld firstRunnable ''name'')]] @
              (if firstRunnable \<noteq> Null
               then [obj [(''id'', S ''paper_watch''), (''title'', Str (zh 80580)),
                          (''detail'', Str (zh 80590)),
                          (''status'', S ''blocked''), (''action'', S ''paper_watch''),
                          (''targetDraftName'', fld firstRunnable ''name''),
                          (''relatedId'', relatedId)]]
               else []) @
              [obj [(''id'', S ''gate''), (''title'', Str (zh 80690)),
                    (''detail'', Str (zh 77500)),
                    (''status'', S ''blocked''), (''action'', S ''gate'')]];
          items = overlayPersistedActions (Arr baseItems) persistedActions;
          paperWatch = persistedActionById persistedActions (S ''paper_watch'')
      in if truthy paperWatch \<and>
            \<not> list_ex (\<lambda>item. fld item ''id'' = S ''paper_watch'') (elems items)
         then Arr
                (elems items @
                 [obj [(''id'', S ''paper_watch''), (''title'', Str (zh 80580)),
                       (''detail'', Str (zh 80830)),
                       (''status'', if list_has ACTION_STATUSES (fld paperWatch ''status'')
                             then fld paperWatch ''status''
                             else S ''manual''),
                       (''action'', S ''paper_watch''),
                       (''relatedId'', fld paperWatch ''relatedId''),
                       (''href'', fld paperWatch ''href''), (''note'', fld paperWatch ''note''),
                       (''updatedAt'', fld paperWatch ''updatedAt'')]])
         else items)"

end
