(* ===== verification/Goal_Form.thy ===== *)
theory Goal_Form
  imports Preset_Text
begin

section \<open>The goal form, the daily radar and provider gates\<close>

text \<open>
  A part of \<^verbatim>\<open>src/client/data/ai-goal-preset.mjs\<close>: the goal form:
  completing a vague goal, the request that is sent, templates and redesign proposals, the daily
  radar and when it may start on its own, and the gate of the AI provider. Literals that are not
  ASCII are looked up in \<open>Ui_Texts\<close>; their key is ten times the line of the source
  file they stand on, plus a rank.
\<close>


definition isVagueMoneyGoal :: "jsval \<Rightarrow> bool" where
  "isVagueMoneyGoal goal =
     (let text = lower (trim (to_str (js_or goal (Str []))))
      in if num_lt (len text) (Fin 12)
         then True
         else let vagueWords = [Str (zh 360), Str (zh 1760), Str (zh 1761), S ''make money'', S ''profit''];
                  hasVague = list_ex (\<lambda>word. contains text (to_str word)) vagueWords;
                  hasContext =
                      list_ex (contains (lower text))
                        [js ''btc'',
                         js ''eth'',
                         js ''sol'',
                         js ''usdt'',
                         (zh 340),
                         (zh 361),
                         (zh 273),
                         (zh 274),
                         (zh 561),
                         (zh 362),
                         (zh 462),
                         js ''paper'',
                         (zh 341),
                         (zh 562),
                         (zh 1790)]
              in hasVague \<and> \<not> hasContext)"

definition autoDailyRadarEnabledFromStorage :: "jsval \<Rightarrow> jsval \<Rightarrow> bool" where
  "autoDailyRadarEnabledFromStorage value fallback =
     (let fallback = dflt fallback (Bool AI_MONEY_DEFAULT_AUTO_RADAR_ENABLED);
          text = lower (trim (to_str (coalesce value (Str []))))
      in if text = js ''true''
         then True
         else if text = js ''false''
         then False
         else truthy fallback)"

definition autoDailyRadarPreferencePersistence :: "jsval \<Rightarrow> jsval \<Rightarrow> jsval" where
  "autoDailyRadarPreferencePersistence loaded enabled =
     (if \<not> truthy loaded
      then obj [(''shouldWrite'', Bool False), (''value'', Str [])]
      else obj [(''shouldWrite'', Bool True),
                (''value'', Str (if truthy enabled then js ''true'' else js ''false''))])"

definition aiGoalComposerFromFormState :: "jsval \<Rightarrow> jsval \<Rightarrow> date \<Rightarrow> date \<Rightarrow> jsval" where
  "aiGoalComposerFromFormState state runs now clock =
     (let state = dflt state (obj []);
          runs = dflt runs (Arr []);
          rawGoal = trim (to_str (js_or (fld state ''goal'') (Str [])));
          vague = isVagueMoneyGoal (Str rawGoal);
          symbols = symbolsFromText (fld state ''symbolsText'');
          inferredSymbols = if symbols \<noteq> [] then symbols else inferredSymbolsFromRuns runs;
          symbolsText = js_join (js '', '') inferredSymbols;
          horizon =
              s_or (trim (to_str (js_or (fld state ''horizon'') (Str []))))
                (if vague then js ''24h-7d'' else js ''1-4 weeks'');
          riskPreference = safeRiskPreferenceForGoal (fld state ''riskPreference'');
          safeRiskPreference =
              if vague \<and> riskPreference = js ''aggressive''
              then js ''balanced''
              else riskPreference;
          executionMode = safeExecutionModeForGoal (fld state ''executionMode'');
          day = if time_of now = NaN then take 10 (iso_string clock) else take 10 (iso_string now);
          goal =
              if vague
              then day @
                   (zh 2270) @
                   symbolsText @
                   (zh 2271) @
                   horizon @
                   (zh 2272)
              else rawGoal;
          behaviorText =
              s_or (trim (to_str (js_or (fld state ''behaviorText'') (Str []))))
                AI_DEFAULT_BEHAVIOR_TEXT;
          narrativeText =
              s_or (trim (to_str (js_or (fld state ''narrativeText'') (Str []))))
                AI_DEFAULT_NARRATIVE_TEXT;
          avoidText =
              s_or (trim (to_str (js_or (fld state ''avoidText'') (Str []))))
                AI_DEFAULT_AVOID_TEXT;
          missing = [];
          checks = [];
          missing =
              if vague then missing @ [Str (zh 2360)] else missing;
          missing = if symbols = [] then missing @ [Str (zh 2391)] else missing;
          missing =
              if trim (to_str (js_or (fld state ''horizon'') (Str []))) = []
              then missing @ [Str (zh 2420)]
              else missing;
          missing =
              if lower (to_str (js_or (fld state ''executionMode'') (Str []))) \<noteq>
                   executionMode
              then missing @ [Str (zh 2450)]
              else missing;
          checks = checks @ [Str ((zh 2273) @ (if vague then (zh 2480) else (zh 2481)))];
          checks = checks @ [Str ((zh 2490) @ symbolsText)];
          checks = checks @ [Str ((zh 2500) @ horizon)];
          checks =
              checks @
              [Str
                 ((zh 2511) @
                  num_to_string (len (cleanOperatorList (Str behaviorText) Undef)) @
                  (zh 2510))];
          checks =
              checks @
              [Str
                 ((zh 2520) @
                  num_to_string (len (cleanOperatorList (Str narrativeText) Undef)) @
                  (zh 2510))];
          checks =
              checks @
              [Str
                 ((zh 2530) @ num_to_string (len (cleanOperatorList (Str avoidText) Undef)) @ (zh 2510))];
          proposedFormState =
              obj [(''goal'', Str goal), (''symbolsText'', Str symbolsText),
                   (''horizon'', Str horizon), (''riskPreference'', Str safeRiskPreference),
                   (''executionMode'', Str executionMode), (''behaviorText'', Str behaviorText),
                   (''narrativeText'', Str narrativeText), (''avoidText'', Str avoidText)];
          ready =
              if \<not> vague \<and> symbols \<noteq> []
              then Str (trim (to_str (js_or (fld state ''horizon'') (Str []))))
              else Bool False
      in obj [(''stage'', Str (if truthy ready then js ''ready'' else js ''needs_enrichment'')),
              (''tone'', Str (if truthy ready then js ''success'' else js ''warning'')),
              (''title'', Str (if truthy ready then (zh 2700) else (zh 2701))),
              (''summary'', Str
                      (if truthy ready
                       then (zh 2721)
                       else (zh 2730))),
              (''proposedFormState'', proposedFormState), (''checks'', Arr checks),
              (''missing'', Arr (if missing \<noteq> [] then missing else [Str (zh 2760)])),
              (''primaryAction'', if truthy ready
                    then obj [(''kind'', S ''analyze_and_validate''),
                              (''label'', Str (zh 2780))]
                    else obj [(''kind'', S ''analyze_and_validate''), (''label'', Str (zh 2790))])])"

definition aiGoalExecutableFormStateFromState :: "jsval \<Rightarrow> jsval \<Rightarrow> date \<Rightarrow> date \<Rightarrow> jsval" where
  "aiGoalExecutableFormStateFromState state runs now clock =
     (let state = dflt state (obj []);
          runs = dflt runs (Arr [])
      in fld (aiGoalComposerFromFormState state runs now clock) ''proposedFormState'')"

definition aiGoalAnalyzeTargetFormState :: "jsval \<Rightarrow> jsval \<Rightarrow> jsval \<Rightarrow> date \<Rightarrow> date \<Rightarrow> jsval" where
  "aiGoalAnalyzeTargetFormState state target runs now clock =
     (let state = dflt state (obj []);
          runs = dflt runs (Arr [])
      in if truthy target then target else aiGoalExecutableFormStateFromState state runs now clock)"

definition formStateFromAIGoalRun :: "jsval \<Rightarrow> jsval \<Rightarrow> jsval" where
  "formStateFromAIGoalRun run current =
     (let goal = trim (to_str (js_or (fld run ''goal'') (Str [])));
          symbolsText = cleanSymbolsForText (fld run ''symbols'');
          horizon = trim (to_str (js_or (fld run ''horizon'') (Str [])));
          riskPreference = trim (to_str (js_or (fld run ''riskPreference'') (Str [])));
          executionMode = trim (to_str (js_or (fld run ''executionMode'') (Str [])));
          operatorConstraints =
              js_or (fld (fld (fld run ''analysis'') ''context'') ''operatorConstraints'')
                (obj []);
          behaviorText = operatorTextFromList (fld operatorConstraints ''behaviorConstraints'');
          narrativeText = operatorTextFromList (fld operatorConstraints ''marketNarrativeFocus'');
          avoidText = operatorTextFromList (fld operatorConstraints ''avoidScenarios'')
      in merge
           (merge
              (merge
                 (merge
                    (merge
                       (merge
                          (merge
                             (merge (merge (obj []) current)
                                (if goal \<noteq> [] then obj [(''goal'', Str goal)] else obj []))
                             (if symbolsText \<noteq> []
                              then obj [(''symbolsText'', Str symbolsText)]
                              else obj []))
                          (if horizon \<noteq> []
                           then obj [(''horizon'', Str horizon)]
                           else obj []))
                       (if riskPreference \<noteq> []
                        then obj [(''riskPreference'', Str riskPreference)]
                        else obj []))
                    (if executionMode \<noteq> []
                     then obj [(''executionMode'', Str executionMode)]
                     else obj []))
                 (if behaviorText \<noteq> []
                  then obj [(''behaviorText'', Str behaviorText)]
                  else obj []))
              (if narrativeText \<noteq> []
               then obj [(''narrativeText'', Str narrativeText)]
               else obj []))
           (if avoidText \<noteq> [] then obj [(''avoidText'', Str avoidText)] else obj []))"

definition formStateFromGoalTemplate :: "jsval \<Rightarrow> jsval \<Rightarrow> jsval" where
  "formStateFromGoalTemplate template current =
     (if \<not> truthy template \<or> \<not> is_object template
      then current
      else let symbolsText = cleanSymbolsForText (fld template ''symbols'');
               executionMode =
                   if list_has [S ''observe'', S ''paper''] (fld template ''executionMode'')
                   then fld template ''executionMode''
                   else S ''paper''
           in spread (merge (obj []) current) [(''goal'', Str
                                                       (to_str
                                                          (js_or
                                                             (js_or (fld template ''goal'')
                                                                (fld current ''goal'')) (Str [])))),
                                               (''symbolsText'', js_or
                                                       (js_or (Str symbolsText)
                                                          (fld current ''symbolsText'')) (Str [])),
                                               (''horizon'', Str
                                                       (to_str
                                                          (js_or
                                                             (js_or (fld template ''horizon'')
                                                                (fld current ''horizon''))
                                                             (Str [])))),
                                               (''riskPreference'', Str
                                                       (to_str
                                                          (js_or
                                                             (js_or
                                                                (fld template ''riskPreference'')
                                                                (fld current ''riskPreference''))
                                                             (S ''balanced'')))),
                                               (''executionMode'', executionMode)])"

definition aiGoalRequestFromFormState :: "jsval \<Rightarrow> jsval" where
  "aiGoalRequestFromFormState state =
     (let goal = trim (to_str (js_or (fld state ''goal'') (Str [])));
          horizon = trim (to_str (js_or (fld state ''horizon'') (Str [])));
          riskPreference = safeRiskPreferenceForGoal (fld state ''riskPreference'');
          executionMode = safeExecutionModeForGoal (fld state ''executionMode'');
          request =
              obj [(''goal'', Str goal),
                   (''symbols'', Arr (symbolsFromText (fld state ''symbolsText''))),
                   (''horizon'', Str horizon), (''riskPreference'', Str riskPreference),
                   (''executionMode'', Str executionMode)];
          behaviorConstraints =
              cleanOperatorListOrDefault
                (coalesce (fld state ''behaviorText'') (fld state ''behaviorConstraints''))
                (Str AI_DEFAULT_BEHAVIOR_TEXT);
          marketNarrativeFocus =
              cleanOperatorListOrDefault
                (coalesce (fld state ''narrativeText'') (fld state ''marketNarrativeFocus''))
                (Str AI_DEFAULT_NARRATIVE_TEXT);
          avoidScenarios =
              cleanOperatorListOrDefault
                (coalesce (fld state ''avoidText'') (fld state ''avoidScenarios''))
                (Str AI_DEFAULT_AVOID_TEXT);
          request =
              if behaviorConstraints \<noteq> []
              then spread request [(''behaviorConstraints'', Arr behaviorConstraints)]
              else request;
          request =
              if marketNarrativeFocus \<noteq> []
              then spread request [(''marketNarrativeFocus'', Arr marketNarrativeFocus)]
              else request
      in if avoidScenarios \<noteq> []
         then spread request [(''avoidScenarios'', Arr avoidScenarios)]
         else request)"

definition aiGoalFormPrimaryActions :: "jsval" where
  "aiGoalFormPrimaryActions =
     obj [(''primary'', obj [(''kind'', S ''analyze_and_validate''), (''label'', Str (zh 8850)),
                     (''submit'', Bool True)]),
          (''secondary'', obj [(''kind'', S ''analyze_only''), (''label'', Str (zh 8900))]),
          (''goalRequired'', Bool False),
          (''helperText'', Str (zh 8940))]"

definition dailyRadarFormStateFromRuns :: "jsval \<Rightarrow> date \<Rightarrow> date \<Rightarrow> jsval" where
  "dailyRadarFormStateFromRuns runs now clock =
     (let runs = dflt runs (Arr []);
          symbolSeeds = [S ''BTC'', S ''ETH'', S ''SOL''];
          symbolSeeds =
              fold
                (\<lambda>run symbolSeeds.
                   if is_arr (fld run ''symbols'')
                   then symbolSeeds @ elems (fld run ''symbols'')
                   else symbolSeeds) (elems runs) symbolSeeds;
          symbols = take 6 (cleanSymbolList (Arr symbolSeeds));
          day = if time_of now = NaN then take 10 (iso_string clock) else take 10 (iso_string now)
      in obj [(''goal'', Str
                      ((day @
                        (zh 9120) @
                        js_join (js ''/'') symbols @
                        (zh 9121)) @
                       (zh 9130))),
              (''symbolsText'', Str (js_join (js '', '') symbols)), (''horizon'', S ''24h-7d''),
              (''riskPreference'', S ''balanced''), (''executionMode'', S ''paper'')])"

definition aiAutonomousGoalProposalFromState :: "jsval \<Rightarrow> jsval \<Rightarrow> date \<Rightarrow> date \<Rightarrow> jsval" where
  "aiAutonomousGoalProposalFromState runs dailyRadarStatus now clock =
     (let runs = dflt runs (Arr []);
          dailyRadarStatus = dflt dailyRadarStatus Null;
          proposedFormState = dailyRadarFormStateFromRuns runs now clock;
          actionKind =
              to_str
                (js_or (fld (fld dailyRadarStatus ''primaryAction'') ''kind'') (S ''scan_today''));
          hasFreshRadar = actionKind = js ''open_today_run''
      in obj [(''proposedFormState'', proposedFormState), (''title'', Str (zh 9310)),
              (''summary'', Str
                      (if hasFreshRadar
                       then (zh 9330)
                       else (zh 9341))),
              (''nextActions'', Arr [Str (zh 9360),
                         Str (zh 9370),
                         Str (zh 9380)])])"

definition aiGoalProposalCardFromFormState :: "jsval \<Rightarrow> jsval" where
  "aiGoalProposalCardFromFormState formState =
     (let formState = dflt formState (obj [])
      in obj [(''title'', Str (zh 9450)),
              (''goal'', Str (trim (to_str (js_or (fld formState ''goal'') (Str []))))),
              (''stats'', Arr [obj [(''label'', Str (zh 2392)),
                              (''value'', Str
                                      (s_or
                                         (trim
                                            (to_str
                                               (js_or (fld formState ''symbolsText'') (S ''auto''))))
                                         (js ''auto''))),
                              (''hint'', Str (zh 9510))],
                         obj [(''label'', Str (zh 1790)),
                              (''value'', Str
                                      (s_or
                                         (trim
                                            (to_str
                                               (js_or (fld formState ''horizon'') (S ''auto''))))
                                         (js ''auto''))),
                              (''hint'', Str
                                      (s_or
                                         (trim
                                            (to_str
                                               (js_or (fld formState ''riskPreference'')
                                                  (S ''balanced'')))) (js ''balanced'')))],
                         obj [(''label'', Str (zh 200)),
                              (''value'', Str
                                      (s_or
                                         (trim
                                            (to_str
                                               (js_or (fld formState ''executionMode'')
                                                  (S ''paper'')))) (js ''paper''))),
                              (''hint'', Str (zh 9610))]]),
              (''checks'', Arr [Str (zh 9650),
                         Str (zh 9660),
                         Str (zh 9380),
                         Str (zh 9680)])])"

definition displaySymbolFromGoalSymbol :: "jsval \<Rightarrow> jstr" where
  "displaySymbolFromGoalSymbol symbol =
     (let raw =
              filter (\<lambda>c. is_upper_unit c \<or> is_digit c)
                (upper (trim (to_str (js_or symbol (Str [])))))
      in if raw = []
         then []
         else if ends_with raw (js ''USDT'') \<and> num_lt (Fin 4) (len raw)
         then but_last_n 4 raw
         else raw)"

definition redesignSymbolsTextFromAnalysis :: "jsval \<Rightarrow> jstr" where
  "redesignSymbolsTextFromAnalysis analysis =
     (let seeds =
              safeStringList (fld (fld analysis ''context'') ''symbols'') @
              (if is_arr (fld analysis ''strategyDrafts'')
               then map (\<lambda>draft. Str (displaySymbolFromGoalSymbol (fld draft ''symbol'')))
                      (elems (fld analysis ''strategyDrafts''))
               else []);
          symbols = take 6 (cleanSymbolList (Arr seeds))
      in js_join (js '', '')
           (if symbols \<noteq> []
            then symbols
            else cleanSymbolList (Arr [S ''BTC'', S ''ETH'', S ''SOL''])))"

definition redesignFormStateFromWeakValidation :: "jsval \<Rightarrow> jsval \<Rightarrow> jsval \<Rightarrow> jsval" where
  "redesignFormStateFromWeakValidation analysis rankedRows decision =
     (let rankedRows = dflt rankedRows (Arr []);
          decision = dflt decision (obj []);
          constraints = js_or (fld (fld analysis ''context'') ''operatorConstraints'') (obj []);
          behaviorText =
              s_or (operatorTextFromList (fld constraints ''behaviorConstraints''))
                AI_DEFAULT_BEHAVIOR_TEXT;
          narrativeText =
              s_or (operatorTextFromList (fld constraints ''marketNarrativeFocus''))
                AI_DEFAULT_NARRATIVE_TEXT;
          avoidText =
              s_or (operatorTextFromList (fld constraints ''avoidScenarios''))
                AI_DEFAULT_AVOID_TEXT;
          evidence =
              filter truthy
                (map
                   (\<lambda>row.
                      Str
                        (let id' =
                                 trim
                                   (to_str
                                      (js_or (js_or (fld row ''strategyId'') (fld row ''runId''))
                                         (Str (zh 6601))));
                             score =
                                 if fld row ''score'' = Null \<or> fld row ''score'' = Undef
                                 then Str (zh 5880)
                                 else fld row ''score''
                         in id' @
                            js '': '' @
                            to_str (js_or (fld row ''recommendation'') (Str (zh 6170))) @
                            (zh 10061) @
                            to_str score @
                            (zh 7421) @
                            formatPercentValue (fld row ''totalReturn'') @
                            (zh 7440) @
                            formatPercentValue (fld row ''maxDrawdown'') @
                            (zh 10060) @
                            formatSharpeValue (fld row ''sharpe''))) (take 3 (elems rankedRows)));
          failureSummary =
              if evidence \<noteq> []
              then js_join (zh 271) evidence
              else s_or (js_join (zh 271) (take 3 (safeStringList (fld decision ''reasons''))))
                     (zh 10121);
          humanEvidence = take 3 (safeStringList (fld analysis ''humanFactors''));
          watchEvidence =
              take 3
                (filter truthy
                   (map (\<lambda>signal. Str (watchSignalReviewText signal))
                      (elems (fld analysis ''watchSignals''))));
          contextEvidence =
              js_join [] [Str
                            (if humanEvidence \<noteq> []
                             then (zh 10190) @ js_join (zh 271) humanEvidence @ (zh 270)
                             else []),
                          Str
                            (if watchEvidence \<noteq> []
                             then (zh 10200) @ js_join (zh 271) watchEvidence @ (zh 270)
                             else [])];
          originalGoal = trim (to_str (js_or (fld analysis ''goal'') (Str [])))
      in obj [(''goal'', Str
                      (((((zh 10260) @
                          (if originalGoal \<noteq> [] then (zh 10270) @ originalGoal @ (zh 270) else [])) @
                         (zh 10280) @
                         failureSummary @
                         (zh 270)) @
                        contextEvidence) @
                       (zh 10300))),
              (''symbolsText'', Str (redesignSymbolsTextFromAnalysis analysis)),
              (''horizon'', S ''24h-7d''), (''riskPreference'', S ''conservative''),
              (''executionMode'', S ''paper''), (''behaviorText'', Str behaviorText),
              (''narrativeText'', Str narrativeText), (''avoidText'', Str avoidText)])"

definition dailyRadarStatusFromRuns :: "jsval \<Rightarrow> date \<Rightarrow> date \<Rightarrow> jsval" where
  "dailyRadarStatusFromRuns runs now clock =
     (let runs = dflt runs (Arr []);
          list = elems runs;
          today =
              if time_of now = NaN then take 10 (iso_string clock) else take 10 (iso_string now);
          todayRun =
              coalesce
                (js_find
                   (\<lambda>run.
                      let goal = to_str (js_or (fld run ''goal'') (Str []));
                          created = to_str (js_or (fld run ''createdAt'') (Str []))
                      in contains goal (zh 9122) \<and>
                         (contains goal today \<or> starts_with created today)) list) Null
      in if truthy todayRun
         then let symbolsText = cleanSymbolsForText (fld todayRun ''symbols'');
                  createdAt = date_of (Str (to_str (js_or (fld todayRun ''createdAt'') (Str []))));
                  ageMs =
                      if time_of createdAt = NaN \<or> time_of now = NaN
                      then Fin 0
                      else num_max (Fin 0) (num_sub (time_of now) (time_of createdAt));
                  ageHours = num_div ageMs (num_mul (num_mul (Fin 60) (Fin 60)) (Fin 1000));
                  isStale = num_le (Fin 6) ageHours;
                  ageLabel =
                      if num_le (Fin 1) ageHours
                      then num_to_string (read_number (to_fixed 1 ageHours)) @ (zh 299)
                      else num_to_string
                             (num_max (Fin 1)
                                (num_round (num_div ageMs (num_mul (Fin 60) (Fin 1000))))) @
                           (zh 10650)
              in if isStale
                 then obj [(''hasToday'', Bool True), (''isStale'', Bool isStale),
                           (''title'', Str (zh 10700)), (''tone'', S ''warning''),
                           (''summary'', Str
                                   ((zh 10720) @
                                    s_or symbolsText (js ''auto'') @
                                    (zh 10721) @
                                    ageLabel @
                                    (zh 10722))),
                           (''run'', todayRun),
                           (''primaryAction'', obj [(''kind'', S ''rescan_today''), (''label'', Str (zh 10740))]),
                           (''secondaryAction'', obj [(''kind'', S ''open_today_run''), (''label'', Str (zh 10750))])]
                 else obj [(''hasToday'', Bool True), (''isStale'', Bool isStale),
                           (''title'', Str (zh 10810)), (''tone'', S ''success''),
                           (''summary'', Str
                                   ((zh 10831) @
                                    s_or symbolsText (js ''auto'') @
                                    (zh 10832) @
                                    num_to_string
                                      (to_num (js_or (fld todayRun ''strategyDraftCount'') (N 0))) @
                                    (zh 10833) @
                                    ageLabel @
                                    (zh 10834))),
                           (''run'', todayRun),
                           (''primaryAction'', obj [(''kind'', S ''open_today_run''), (''label'', Str (zh 10850))]),
                           (''secondaryAction'', obj [(''kind'', S ''rescan_today''), (''label'', Str (zh 10740))])]
         else obj [(''hasToday'', Bool False), (''isStale'', Bool True),
                   (''title'', Str (zh 10920)), (''tone'', S ''warning''),
                   (''summary'', Str (zh 10941)),
                   (''run'', Null),
                   (''primaryAction'', obj [(''kind'', S ''scan_today''), (''label'', Str (zh 10940))])])"

definition aiSettingsReturnPromptFromSearch :: "jsval \<Rightarrow> jsval \<Rightarrow> jsval \<Rightarrow> jsval" where
  "aiSettingsReturnPromptFromSearch intent dailyRadarStatus providerGate =
     (let intent = dflt intent (Str []);
          dailyRadarStatus = dflt dailyRadarStatus Null;
          providerGate = dflt providerGate Null
      in if lower (to_str (js_or intent (Str []))) \<noteq> js ''rerun_ai''
         then Null
         else let providerGateStage = lower (to_str (js_or (fld providerGate ''stage'') (Str [])))
              in if providerGateStage = js ''blocked'' \<or> providerGateStage = js ''loading''
                 then let primaryHref =
                              s_or
                                (trim
                                   (to_str
                                      (js_or (fld providerGate ''primaryHref'')
                                         (S ''/settings/ai'')))) (js ''/settings/ai'');
                          primaryLabel =
                              s_or
                                (trim
                                   (to_str
                                      (js_or (fld (fld providerGate ''primaryAction'') ''label'')
                                         (Str []))))
                                (if providerGateStage = js ''loading''
                                 then (zh 11130)
                                 else (zh 11131));
                          summary =
                              s_or (trim (to_str (js_or (fld providerGate ''summary'') (Str []))))
                                (if providerGateStage = js ''loading''
                                 then (zh 11171)
                                 else (zh 11180))
                      in obj [(''stage'', Str
                                      (if providerGateStage = js ''loading''
                                       then js ''settings_return_provider_loading''
                                       else js ''settings_return_provider_blocked'')),
                              (''tone'', S ''warning''),
                              (''title'', Str
                                      (if providerGateStage = js ''loading''
                                       then s_or
                                              (trim
                                                 (to_str
                                                    (js_or (fld providerGate ''title'') (Str []))))
                                              (zh 11270)
                                       else (zh 11280))),
                              (''summary'', Str summary), (''primaryHref'', Str primaryHref),
                              (''primaryAction'', obj [(''kind'', S ''open_link''),
                                         (''label'', Str primaryLabel)]),
                              (''nextActions'', Arr
                                      (if providerGateStage = js ''loading''
                                       then [Str (zh 11380),
                                             Str (zh 11390),
                                             Str (zh 11400)]
                                       else [Str (zh 11430),
                                             Str (zh 11440),
                                             Str (zh 11450)]))]
                 else let primaryAction =
                              js_or (fld dailyRadarStatus ''primaryAction'')
                                (obj [(''kind'', S ''scan_today''), (''label'', Str (zh 10940))]);
                          actionKind = to_str (js_or (fld primaryAction ''kind'') (Str []));
                          label =
                              if actionKind = js ''open_today_run''
                              then (zh 11391)
                              else if fld primaryAction ''label'' = Str (zh 10740)
                              then (zh 11391)
                              else (zh 11391)
                      in obj [(''stage'', S ''settings_return''), (''tone'', S ''primary''),
                              (''title'', Str (zh 11640)),
                              (''summary'', Str
                                      (zh 11660)),
                              (''primaryAction'', spread (merge (obj []) primaryAction)
                                      [(''kind'', Str
                                               (if actionKind = js ''open_today_run''
                                                then js ''rescan_today''
                                                else s_or actionKind (js ''scan_today''))),
                                       (''label'', Str label)]),
                              (''nextActions'', Arr [Str (zh 11451),
                                         Str (zh 11740),
                                         Str (zh 11750)])])"

definition aiSettingsReturnAutoRunDecision :: "jsval \<Rightarrow> jsval \<Rightarrow> jsval \<Rightarrow> jsval \<Rightarrow> jsval \<Rightarrow> jsval" where
  "aiSettingsReturnAutoRunDecision intent busy providerBlocked providerReady lastKey =
     (let intent = dflt intent (Str []);
          busy = dflt busy (Bool False);
          providerBlocked = dflt providerBlocked (Bool False);
          providerReady = dflt providerReady (Bool False);
          lastKey = dflt lastKey (Str []);
          active = lower (to_str (js_or intent (Str []))) = js ''rerun_ai'';
          key = if active then js ''settings_return:rerun_ai'' else []
      in if \<not> active
         then obj [(''shouldRun'', Bool False), (''key'', Str key), (''reason'', S ''no_intent'')]
         else if truthy busy
         then obj [(''shouldRun'', Bool False), (''key'', Str key), (''reason'', S ''busy'')]
         else if truthy providerBlocked
         then obj [(''shouldRun'', Bool False), (''key'', Str key),
                   (''reason'', S ''provider_blocked'')]
         else if \<not> truthy providerReady
         then obj [(''shouldRun'', Bool False), (''key'', Str key),
                   (''reason'', S ''provider_not_ready'')]
         else if to_str (js_or lastKey (Str [])) = key
         then obj [(''shouldRun'', Bool False), (''key'', Str key),
                   (''reason'', S ''already_triggered'')]
         else obj [(''shouldRun'', Bool True), (''key'', Str key), (''reason'', S ''ready'')])"

definition autoDailyRadarDecision :: "jsval \<Rightarrow> jsval \<Rightarrow> jsval \<Rightarrow> jsval \<Rightarrow> jsval \<Rightarrow> date \<Rightarrow> date \<Rightarrow> jsval" where
  "autoDailyRadarDecision enabled busy providerReady status lastKey now clock =
     (let enabled = dflt enabled (Bool False);
          busy = dflt busy (Bool False);
          providerReady = dflt providerReady (Bool False);
          status = dflt status Null;
          lastKey = dflt lastKey (Str [])
      in if \<not> truthy enabled
         then obj [(''shouldRun'', Bool False), (''key'', Str []), (''reason'', S ''disabled'')]
         else if truthy busy
         then obj [(''shouldRun'', Bool False), (''key'', Str []), (''reason'', S ''busy'')]
         else if \<not> truthy providerReady
         then obj [(''shouldRun'', Bool False), (''key'', Str []),
                   (''reason'', S ''provider_not_ready'')]
         else let actionKind =
                      to_str (js_or (fld (fld status ''primaryAction'') ''kind'') (Str []))
              in if actionKind \<noteq> js ''scan_today'' \<and>
                    actionKind \<noteq> js ''rescan_today''
                 then obj [(''shouldRun'', Bool False), (''key'', Str []),
                           (''reason'', S ''fresh'')]
                 else let day =
                              if time_of now = NaN
                              then take 10 (iso_string clock)
                              else take 10 (iso_string now);
                          runID = to_str (js_or (fld (fld status ''run'') ''id'') (S ''none''));
                          key = day @ js '':'' @ actionKind @ js '':'' @ runID
                      in if lastKey = Str key
                         then obj [(''shouldRun'', Bool False), (''key'', Str key),
                                   (''reason'', S ''already_triggered'')]
                         else obj [(''shouldRun'', Bool True), (''key'', Str key),
                                   (''reason'', S ''ready'')])"

definition autoRadarProviderNoticeFromGate :: "jsval \<Rightarrow> jsval \<Rightarrow> jsval" where
  "autoRadarProviderNoticeFromGate autoEnabled gate =
     (let autoEnabled = dflt autoEnabled (Bool False);
          gate = dflt gate Null
      in if \<not> truthy autoEnabled
         then Null
         else let stage = lower (to_str (js_or (fld gate ''stage'') (Str [])))
              in if stage = js ''ready''
                 then Null
                 else let primaryHref =
                              s_or
                                (trim
                                   (to_str (js_or (fld gate ''primaryHref'') (S ''/settings/ai''))))
                                (js ''/settings/ai'');
                          primaryLabel =
                              s_or
                                (trim
                                   (to_str
                                      (js_or (fld (fld gate ''primaryAction'') ''label'') (Str []))))
                                (if stage = js ''blocked'' then (zh 12370) else (zh 11130));
                          gateSummary = trim (to_str (js_or (fld gate ''summary'') (Str [])));
                          fallbackSummary =
                              if stage = js ''loading''
                              then (zh 12410)
                              else (zh 12420)
                      in obj [(''stage'', S ''waiting_provider''),
                              (''tone'', Str
                                      (if stage = js ''ready''
                                       then js ''success''
                                       else js ''warning'')),
                              (''title'', Str (zh 12470)),
                              (''summary'', Str (s_or gateSummary fallbackSummary)),
                              (''primaryHref'', Str primaryHref),
                              (''primaryAction'', obj [(''kind'', Str
                                                 (to_str
                                                    (js_or
                                                       (fld (fld gate ''primaryAction'') ''kind'')
                                                       (S ''open_link'')))),
                                         (''label'', Str primaryLabel)])])"

definition aiProviderSetupPromptFromAnalysis :: "jsval \<Rightarrow> jsval" where
  "aiProviderSetupPromptFromAnalysis analysis =
     (let analysis = dflt analysis Null
      in if lower (to_str (js_or (fld (fld analysis ''ai'') ''status'') (Str []))) \<noteq>
              js ''fallback''
         then Null
         else let message =
                      s_or (trim (to_str (js_or (fld (fld analysis ''ai'') ''error'') (Str []))))
                        (zh 68080)
              in obj [(''title'', Str (zh 68100)), (''tone'', S ''warning''),
                      (''message'', Str message), (''primaryHref'', S ''/settings/ai''),
                      (''primaryAction'', obj [(''kind'', S ''open_link''), (''label'', Str (zh 68081))]),
                      (''nextActions'', Arr [Str (zh 68190),
                                 Str (zh 68200),
                                 Str (zh 68210)])])"

definition aiProviderReadinessGateFromStatus :: "jsval \<Rightarrow> jsval \<Rightarrow> jsval" where
  "aiProviderReadinessGateFromStatus status loading =
     (let status = dflt status Null;
          loading = dflt loading (Bool False)
      in if truthy loading
         then obj [(''stage'', S ''loading''), (''visible'', Bool False),
                   (''blockManualAnalysis'', Bool False), (''blockAutoRadar'', Bool True),
                   (''tone'', S ''warning''), (''title'', Str (zh 11270)),
                   (''summary'', Str (zh 68350)),
                   (''primaryHref'', S ''/settings/ai''),
                   (''primaryAction'', obj [(''kind'', S ''open_link''), (''label'', Str (zh 11130))]),
                   (''nextActions'', Arr [])]
         else if \<not> truthy status \<or> \<not> is_object status
         then obj [(''stage'', S ''unknown''), (''visible'', Bool False),
                   (''blockManualAnalysis'', Bool False), (''blockAutoRadar'', Bool False),
                   (''tone'', S ''default''), (''title'', Str (zh 68490)),
                   (''summary'', Str []), (''primaryHref'', S ''/settings/ai''),
                   (''primaryAction'', obj [(''kind'', S ''open_link''), (''label'', Str (zh 11130))]),
                   (''nextActions'', Arr [])]
         else let stage = lower (to_str (js_or (fld status ''status'') (Str [])));
                  blocked = stage = js ''blocked'' \<or> fld status ''keyConfigured'' = Bool False;
                  provider =
                      trim
                        (to_str
                           (js_or
                              (js_or (fld status ''providerLabel'')
                                 (fld status ''providerFamily'')) (S ''AI provider'')));
                  summary =
                      s_or (trim (to_str (js_or (fld status ''summary'') (Str []))))
                        (if blocked
                         then provider @ (zh 68630)
                         else provider @ (zh 68640))
              in obj [(''stage'', Str (if blocked then js ''blocked'' else js ''ready'')),
                      (''visible'', Bool blocked), (''blockManualAnalysis'', Bool blocked),
                      (''blockAutoRadar'', Bool blocked),
                      (''tone'', Str (if blocked then js ''warning'' else js ''success'')),
                      (''title'', Str (if blocked then (zh 18470) else (zh 18691))),
                      (''summary'', Str summary),
                      (''primaryHref'', Str
                              (s_or
                                 (trim
                                    (to_str
                                       (js_or (fld status ''primaryHref'') (S ''/settings/ai''))))
                                 (js ''/settings/ai''))),
                      (''primaryAction'', obj [(''kind'', Str
                                         (to_str
                                            (js_or (fld (fld status ''primaryAction'') ''kind'')
                                               (S ''open_link'')))),
                                 (''label'', Str
                                         (to_str
                                            (js_or (fld (fld status ''primaryAction'') ''label'')
                                               (Str (if blocked then (zh 12370) else (zh 68770))))))]),
                      (''nextActions'', Arr (safeStringList (fld status ''nextActions'')))])"

definition aiProviderAnalysisAttemptFromGate :: "jsval \<Rightarrow> jsval" where
  "aiProviderAnalysisAttemptFromGate gate =
     (let gate = dflt gate Null
      in if truthy (fld gate ''blockManualAnalysis'')
         then obj [(''kind'', S ''redirect''),
                   (''href'', Str
                           (s_or
                              (trim
                                 (to_str (js_or (fld gate ''primaryHref'') (S ''/settings/ai''))))
                              (js ''/settings/ai''))),
                   (''label'', Str
                           (s_or
                              (trim
                                 (to_str
                                    (js_or (fld (fld gate ''primaryAction'') ''label'')
                                       (Str (zh 12370))))) (zh 12370)))]
         else obj [(''kind'', S ''allow'')])"

end
