(* ===== verification/Goal_Readiness.thy ===== *)
theory Goal_Readiness
  imports Preset_Text Strategy_Preset Backtest_Ranking Goal_Actions Goal_Decision
begin

section \<open>Execution readiness, setup and the money path\<close>

text \<open>
  A part of \<^verbatim>\<open>src/client/data/ai-goal-preset.mjs\<close>: the checks that stand
  between a paper candidate and execution: accounts, portfolio limits, the readiness score and
  stage, the setup checklist, the execution preview and the money path. Literals that are not
  ASCII are looked up in \<open>Ui_Texts\<close>; their key is ten times the line of the source
  file they stand on, plus a rank.
\<close>


definition executionContextFromAnalysis :: "jsval \<Rightarrow> jsval" where
  "executionContextFromAnalysis analysis =
     (let raw = fld (fld analysis ''context'') ''execution''
      in if \<not> truthy raw \<or> \<not> is_object raw
         then Null
         else let limits =
                      if truthy (fld raw ''portfolioLimits'') \<and>
                         is_object (fld raw ''portfolioLimits'')
                      then fld raw ''portfolioLimits''
                      else obj []
              in obj [(''accountCount'', Num (clampInt (fld raw ''accountCount'') (N 0) (N 0) (N 1000000))),
                      (''tradeableAccountCount'', Num
                              (clampInt (fld raw ''tradeableAccountCount'') (N 0) (N 0)
                                 (N 1000000))),
                      (''withdrawalEnabledAccountCount'', Num
                              (clampInt (fld raw ''withdrawalEnabledAccountCount'') (N 0) (N 0)
                                 (N 1000000))),
                      (''tradingHalted'', Bool (truthy (fld raw ''tradingHalted''))),
                      (''haltedReason'', Str (trim (to_str (js_or (fld raw ''haltedReason'') (Str []))))),
                      (''portfolioLimits'', obj [(''maxOpenNotionalUsd'', clampNumber (fld limits ''maxOpenNotionalUsd'') (N 0) (N 0)
                                         (N 1000000000)),
                                 (''maxOpenPositionsCount'', Num
                                         (clampInt (fld limits ''maxOpenPositionsCount'') (N 0)
                                            (N 0) (N 1000000))),
                                 (''maxDailyLossUsd'', clampNumber (fld limits ''maxDailyLossUsd'') (N 0) (N 0)
                                         (N 1000000000))])])"

definition tradeableAccountsFromList :: "jsval \<Rightarrow> jsval list" where
  "tradeableAccountsFromList accounts =
     (if \<not> is_arr accounts
      then []
      else filter
             (\<lambda>account.
                let permissions = js_or (fld account ''permissions'') (obj [])
                in truthy (fld permissions ''canTrade'') \<and>
                   \<not> truthy (fld permissions ''canWithdraw'')) (elems accounts))"

definition portfolioLimitsReady :: "jsval \<Rightarrow> bool" where
  "portfolioLimitsReady executionContext =
     (if \<not> truthy executionContext
      then True
      else let limits = js_or (fld executionContext ''portfolioLimits'') (obj [])
           in num_lt (Fin 0) (to_num (js_or (fld limits ''maxOpenNotionalUsd'') (N 0))) \<and>
              num_lt (Fin 0) (to_num (js_or (fld limits ''maxOpenPositionsCount'') (N 0))) \<and>
              num_lt (Fin 0) (to_num (js_or (fld limits ''maxDailyLossUsd'') (N 0))))"

definition aiExecutionReadinessFromState :: "jsval \<Rightarrow> jsval \<Rightarrow> jsval \<Rightarrow> jsval \<Rightarrow> date \<Rightarrow> jsval" where
  "aiExecutionReadinessFromState analysis persistedActions validationRuns accounts clock =
     (let analysis = dflt analysis Null;
          persistedActions = dflt persistedActions (Arr []);
          validationRuns = dflt validationRuns (Arr []);
          ready = [];
          blockers = [];
          ranked = rankBacktestValidation validationRuns;
          candidate = paperCandidateFromValidation analysis validationRuns clock;
          sentiment = aiSentimentCompassFromAnalysis analysis;
          sentimentReview = persistedActionById persistedActions (S ''sentiment_review'');
          sentimentReviewEvidenceComplete = sentimentReviewCompleted sentimentReview;
          paperWatch = persistedActionById persistedActions (S ''paper_watch'');
          strategyHandoffHref = savedStrategyHandoffHref persistedActions candidate;
          paperWatchEvidenceComplete =
              fld paperWatch ''status'' = S ''done'' \<and>
              paperWatchCompletionHasEvidence paperWatch;
          accountsLoaded = is_arr accounts;
          executionContext = executionContextFromAnalysis analysis;
          tradeableAccounts = tradeableAccountsFromList accounts;
          tradeableAccountCount =
              if accountsLoaded
              then Num (len tradeableAccounts)
              else js_or (fld executionContext ''tradeableAccountCount'') (N 0);
          accountCount =
              if accountsLoaded
              then fld accounts ''length''
              else js_or (fld executionContext ''accountCount'') (N 0);
          withdrawalEnabledAccountCount =
              if accountsLoaded
              then Num
                     (len
                        (filter
                           (\<lambda>account.
                              truthy (fld (fld account ''permissions'') ''canWithdraw''))
                           (elems accounts)))
              else js_or (fld executionContext ''withdrawalEnabledAccountCount'') (N 0);
          completedRuns = filter (\<lambda>row. fld row ''score'' \<noteq> Null) ranked;
          context = js_or (fld analysis ''context'') (obj []);
          notes = safeStringList (fld context ''notes'');
          contextCount =
              num_add
                (num_add (to_num (js_or (fld context ''newsCount'') (N 0)))
                   (to_num (js_or (fld context ''macroCount'') (N 0))))
                (to_num (js_or (fld context ''onchainCount'') (N 0)))
      in if \<not> truthy analysis
         then obj [(''stage'', S ''not_started''), (''tone'', S ''warning''), (''score'', N 0),
                   (''title'', Str (zh 59060)),
                   (''summary'', Str (zh 59070)),
                   (''primaryAction'', obj [(''kind'', S ''scan_today''), (''label'', Str (zh 23680))]),
                   (''metrics'', Arr [obj [(''label'', Str (zh 6602)), (''value'', Str (zh 36900)),
                                   (''hint'', Str (zh 59100))],
                              obj [(''label'', Str (zh 461)), (''value'', Str (zh 33920)),
                                   (''hint'', Str (zh 29460))],
                              obj [(''label'', Str (zh 4461)), (''value'', Str (zh 59120)),
                                   (''hint'', Str (zh 59121))]]),
                   (''ready'', Arr ready), (''blockers'', Arr [Str (zh 59150)])]
         else let ready = ready @ [Str (zh 59190)];
                  (blockers, ready) =
                      if notes \<noteq> [] \<or> num_eq contextCount (Fin 0)
                      then let blockers = blockers @ [Str (zh 59210)]
                           in (blockers, ready)
                      else let ready = ready @ [Str (zh 59230)] in (blockers, ready);
                  (blockers, ready) =
                      if completedRuns = []
                      then let blockers = blockers @ [Str (zh 59270)] in (blockers, ready)
                      else let ready =
                                   ready @
                                   [Str (num_to_string (len completedRuns) @ (zh 40950))]
                           in (blockers, ready);
                  (blockers, ready) =
                      if \<not> truthy candidate
                      then let blockers = blockers @ [Str (zh 59330)]
                           in (blockers, ready)
                      else let ready =
                                   ready @
                                   [Str
                                      ((zh 59350) @
                                       to_str
                                         (js_or (fld (fld candidate ''draft'') ''name'')
                                            (fld candidate ''strategyId'')) @
                                       (zh 59351))]
                           in (blockers, ready);
                  (blockers, ready) =
                      if fld sentiment ''stage'' \<noteq> S ''balanced'' \<and>
                         \<not> sentimentReviewEvidenceComplete
                      then let blockers = blockers @ [Str (zh 59390)] in (blockers, ready)
                      else let ready = ready @ [Str (zh 59410)] in (blockers, ready);
                  blockers =
                      if truthy (fld executionContext ''tradingHalted'')
                      then let reason =
                                   if truthy (fld executionContext ''haltedReason'')
                                   then (zh 292) @ to_str (fld executionContext ''haltedReason'')
                                   else []
                           in blockers @ [Str ((zh 59460) @ reason @ (zh 270))]
                      else blockers;
                  blockers =
                      if \<not> portfolioLimitsReady executionContext
                      then blockers @ [Str (zh 59500)]
                      else blockers;
                  (blockers, ready) =
                      if tradeableAccountCount = N 0
                      then let blockers = blockers @ [Str (zh 59540)] in (blockers, ready)
                      else let source = if accountsLoaded then (zh 59560) else (zh 59561);
                               ready =
                                   ready @
                                   [Str
                                      (to_str tradeableAccountCount @
                                       (zh 59570) @
                                       source @
                                       (zh 59571))]
                           in (blockers, ready);
                  ready =
                      if num_lt (Fin 0) (to_num withdrawalEnabledAccountCount)
                      then ready @
                           [Str (to_str withdrawalEnabledAccountCount @ (zh 59600))]
                      else ready;
                  (blockers, ready) =
                      if \<not> truthy paperWatch
                      then let blockers = blockers @ [Str (zh 59640)] in (blockers, ready)
                      else if fld paperWatch ''status'' \<noteq> S ''done''
                      then let blockers = blockers @ [Str (zh 59660)] in (blockers, ready)
                      else if \<not> paperWatchEvidenceComplete
                      then let blockers =
                                   blockers @
                                   [Str (zh 59681)]
                           in (blockers, ready)
                      else let ready = ready @ [Str (zh 59700)]
                           in (blockers, ready);
                  stage = js ''blocked'';
                  tone = js ''warning'';
                  title = (zh 59750);
                  summary = (zh 59760);
                  (stage, title, primaryAction, primaryHref, summary, tone, blockers) =
                      if notes \<noteq> [] \<or> num_eq contextCount (Fin 0)
                      then let stage = js ''data_gap'';
                               title = (zh 59820);
                               primaryAction =
                                   obj [(''kind'', S ''rescan_today''),
                                        (''label'', Str (zh 25362))]
                           in (stage, title, primaryAction, Undef, summary, tone, blockers)
                      else if \<not> truthy candidate
                      then let running = list_ex (\<lambda>row. fld row ''score'' = Null) ranked;
                               stage =
                                   if running then js ''validating'' else js ''validation_needed'';
                               title = if running then (zh 59870) else (zh 56161);
                               primaryAction =
                                   obj [(''kind'', S ''run_all_backtests''),
                                        (''label'', Str (zh 25280))]
                           in (stage, title, primaryAction, Undef, summary, tone, blockers)
                      else let (stage, title, primaryHref, primaryAction, summary, tone, blockers) =
                                   if fld sentiment ''stage'' \<noteq> S ''balanced'' \<and>
                                      \<not> sentimentReviewEvidenceComplete
                                   then let stage = js ''sentiment_review'';
                                            title = (zh 59910);
                                            primaryHref = js ''/data-explorer/news'';
                                            primaryAction =
                                                obj [(''kind'', S ''open_link''),
                                                     (''label'', Str (zh 17950))]
                                        in (stage,
                                            title,
                                            Str primaryHref,
                                            primaryAction,
                                            summary,
                                            tone,
                                            blockers)
                                   else let (stage, title, summary, primaryHref, primaryAction, tone, blockers) =
                                                if truthy (fld executionContext ''tradingHalted'')
                                                then let stage = js ''trading_halted'';
                                                         title = (zh 59460);
                                                         summary =
                                                             if truthy
                                                                  (fld executionContext
                                                                     ''haltedReason'')
                                                             then (zh 59980) @
                                                                  to_str
                                                                    (fld executionContext
                                                                       ''haltedReason'') @
                                                                  (zh 59981)
                                                             else (zh 59990);
                                                         primaryHref = js ''/settings/trading'';
                                                         primaryAction =
                                                             obj [(''kind'', S ''open_link''),
                                                                  (''label'', Str (zh 60010))]
                                                     in (stage,
                                                         title,
                                                         summary,
                                                         Str primaryHref,
                                                         primaryAction,
                                                         tone,
                                                         blockers)
                                                else if \<not> portfolioLimitsReady executionContext
                                                then let stage = js ''risk_limits_blocked'';
                                                         title = (zh 59501);
                                                         summary =
                                                             (zh 60050);
                                                         primaryHref = js ''/settings/trading'';
                                                         primaryAction =
                                                             obj [(''kind'', S ''open_link''),
                                                                  (''label'', Str (zh 60070))]
                                                     in (stage,
                                                         title,
                                                         summary,
                                                         Str primaryHref,
                                                         primaryAction,
                                                         tone,
                                                         blockers)
                                                else if tradeableAccountCount = N 0
                                                then let stage = js ''account_blocked'';
                                                         title = (zh 60100);
                                                         summary =
                                                             (zh 60110);
                                                         primaryHref = js ''/accounts/new'';
                                                         primaryAction =
                                                             obj [(''kind'', S ''open_link''),
                                                                  (''label'', Str (zh 60130))]
                                                     in (stage,
                                                         title,
                                                         summary,
                                                         Str primaryHref,
                                                         primaryAction,
                                                         tone,
                                                         blockers)
                                                else let (stage, tone, title, summary, primaryAction, primaryHref, blockers) =
                                                             if \<not> truthy paperWatch
                                                             then let stage = js ''paper_ready'';
                                                                      tone = js ''success'';
                                                                      title = (zh 60170);
                                                                      summary =
                                                                          (zh 60180);
                                                                      primaryAction =
                                                                          obj
                                                                            [(''kind'', S ''accept_paper_candidate''),
                                                                             (''label'', Str
                                                                                     (zh 36010))]
                                                                  in (stage,
                                                                      tone,
                                                                      title,
                                                                      summary,
                                                                      primaryAction,
                                                                      Undef,
                                                                      blockers)
                                                             else let (stage, title, summary, primaryHref, primaryAction, tone, blockers) =
                                                                          if fld paperWatch
                                                                               ''status'' \<noteq>
                                                                               S ''done'' \<or>
                                                                             \<not> paperWatchEvidenceComplete
                                                                          then let stage =
                                                                                       js ''paper_watch'';
                                                                                   title =
                                                                                       if fld
                                                                                            paperWatch
                                                                                            ''status'' =
                                                                                            S ''done''
                                                                                       then (zh 13690)
                                                                                       else (zh 7742);
                                                                                   summary =
                                                                                       if fld
                                                                                            paperWatch
                                                                                            ''status'' =
                                                                                            S ''done''
                                                                                       then (zh 60250)
                                                                                       else (zh 60260);
                                                                                   primaryHref =
                                                                                       js_or
                                                                                         (fld
                                                                                            paperWatch
                                                                                            ''href'')
                                                                                         (fld
                                                                                            candidate
                                                                                            ''backtestHref'');
                                                                                   primaryAction =
                                                                                       obj
                                                                                         [(''kind'', S ''open_link''),
                                                                                          (''label'', Str
                                                                                                  (if fld
                                                                                                        paperWatch
                                                                                                        ''status'' =
                                                                                                        S ''done''
                                                                                                   then (zh 13691)
                                                                                                   else (zh 60300)))]
                                                                               in (stage,
                                                                                   title,
                                                                                   summary,
                                                                                   primaryHref,
                                                                                   primaryAction,
                                                                                   tone,
                                                                                   blockers)
                                                                          else let stage =
                                                                                       js ''testnet_ready'';
                                                                                   tone =
                                                                                       js ''success'';
                                                                                   title =
                                                                                       (zh 60350);
                                                                                   summary =
                                                                                       (zh 60360);
                                                                                   primaryHref =
                                                                                       js_or
                                                                                         (Str
                                                                                            strategyHandoffHref)
                                                                                         (fld
                                                                                            candidate
                                                                                            ''strategyHref'');
                                                                                   primaryAction =
                                                                                       obj
                                                                                         [(''kind'', S ''open_link''),
                                                                                          (''label'', Str
                                                                                                  (zh 60380))];
                                                                                   blockers =
                                                                                       blockers @
                                                                                       [Str
                                                                                          (zh 60390)]
                                                                               in (stage,
                                                                                   title,
                                                                                   summary,
                                                                                   primaryHref,
                                                                                   primaryAction,
                                                                                   tone,
                                                                                   blockers)
                                                                  in (stage,
                                                                      tone,
                                                                      title,
                                                                      summary,
                                                                      primaryAction,
                                                                      primaryHref,
                                                                      blockers)
                                                     in (stage,
                                                         title,
                                                         summary,
                                                         primaryHref,
                                                         primaryAction,
                                                         tone,
                                                         blockers)
                                        in (stage,
                                            title,
                                            primaryHref,
                                            primaryAction,
                                            summary,
                                            tone,
                                            blockers)
                           in (stage, title, primaryAction, primaryHref, summary, tone, blockers);
                  score =
                      clampScore
                        (Num
                           (num_add
                              (num_add
                                 (num_add
                                    (num_add
                                       (num_add
                                          (num_add (if truthy analysis then Fin 15 else Fin 0)
                                             (if notes = [] \<and> num_lt (Fin 0) contextCount
                                              then Fin 15
                                              else Fin 0))
                                          (if completedRuns \<noteq> [] then Fin 15 else Fin 0))
                                       (if truthy candidate then Fin 15 else Fin 0))
                                    (if fld sentiment ''stage'' = S ''balanced'' \<or>
                                        sentimentReviewEvidenceComplete
                                     then Fin 10
                                     else Fin 0))
                                 (if num_lt (Fin 0) (to_num tradeableAccountCount)
                                  then Fin 15
                                  else Fin 0))
                              (if paperWatchEvidenceComplete then Fin 15 else Fin 0)))
              in obj [(''stage'', Str stage), (''tone'', Str tone), (''score'', Num score),
                      (''title'', Str title), (''summary'', Str summary),
                      (''primaryHref'', primaryHref), (''primaryAction'', primaryAction),
                      (''metrics'', Arr [obj [(''label'', Str (zh 20252)),
                                      (''value'', Str (num_to_string score @ js ''%'')),
                                      (''hint'', Str stage)],
                                 obj [(''label'', Str (zh 4461)),
                                      (''value'', Str
                                              (to_str tradeableAccountCount @
                                               js ''/'' @
                                               to_str accountCount)),
                                      (''hint'', Str (zh 6851))],
                                 obj [(''label'', Str (zh 462)),
                                      (''value'', Str
                                              (if completedRuns \<noteq> []
                                               then num_to_string (len completedRuns) @ (zh 20490)
                                               else (zh 4462))),
                                      (''hint'', Str
                                              (if truthy candidate then (zh 31572) else (zh 33461)))]]),
                      (''ready'', Arr ready), (''blockers'', Arr blockers)])"

definition aiExecutionPreviewFromState :: "jsval \<Rightarrow> jsval \<Rightarrow> jsval \<Rightarrow> jsval \<Rightarrow> date \<Rightarrow> jsval" where
  "aiExecutionPreviewFromState analysis persistedActions validationRuns accounts clock =
     (let analysis = dflt analysis Null;
          persistedActions = dflt persistedActions (Arr []);
          validationRuns = dflt validationRuns (Arr [])
      in if \<not> truthy analysis
         then obj [(''stage'', S ''idle''), (''tone'', S ''warning''),
                   (''title'', Str (zh 60980)),
                   (''summary'', Str (zh 60990)),
                   (''primaryAction'', obj [(''kind'', S ''analyze_and_validate''), (''label'', Str (zh 39530))]),
                   (''metrics'', Arr [obj [(''label'', Str (zh 61021)), (''value'', Str (zh 61020)),
                                   (''hint'', Str (zh 19122))],
                              obj [(''label'', Str (zh 61030)), (''value'', N 2),
                                   (''hint'', Str (zh 34220))],
                              obj [(''label'', Str (zh 22581)), (''value'', N 2),
                                   (''hint'', Str (zh 61040))]]),
                   (''wouldDo'', Arr [Str (zh 61070), Str (zh 61080)]),
                   (''willNotDo'', Arr [Str (zh 61110), Str (zh 61120)]),
                   (''requiredHumanConfirmations'', Arr [Str (zh 61150), Str (zh 61160)])]
         else let decision = nextAIGoalDecision analysis persistedActions validationRuns clock;
                  readiness =
                      aiExecutionReadinessFromState analysis persistedActions validationRuns
                        accounts clock;
                  autopilot =
                      aiAutopilotStateFromAnalysis analysis persistedActions validationRuns clock;
                  candidate = paperCandidateFromValidation analysis validationRuns clock;
                  paperWatch = persistedActionById persistedActions (S ''paper_watch'');
                  wouldDo = [];
                  willNotDo = [];
                  requiredHumanConfirmations = [];
                  wouldDo = pushUniqueText wouldDo (Str (zh 61390));
                  wouldDo =
                      if fld decision ''stage'' = S ''data_gap'' \<or>
                         fld readiness ''stage'' = S ''data_gap''
                      then pushUniqueText wouldDo (Str (zh 61410))
                      else wouldDo;
                  wouldDo =
                      if fld decision ''stage'' = S ''backtest'' \<or>
                         fld readiness ''stage'' = S ''validation_needed''
                      then pushUniqueText wouldDo (Str (zh 61440))
                      else wouldDo;
                  wouldDo =
                      if fld decision ''stage'' = S ''validating'' \<or>
                         fld readiness ''stage'' = S ''validating''
                      then pushUniqueText wouldDo (Str (zh 61470))
                      else wouldDo;
                  wouldDo =
                      if fld readiness ''stage'' = S ''sentiment_review'' \<or>
                         fld decision ''stage'' = S ''sentiment_review''
                      then pushUniqueText wouldDo (Str (zh 61500))
                      else wouldDo;
                  wouldDo =
                      if truthy candidate \<and> fld readiness ''stage'' = S ''paper_ready''
                      then pushUniqueText wouldDo
                             (Str
                                ((zh 61530) @
                                 to_str (fld candidate ''strategyId'') @
                                 (zh 61531)))
                      else wouldDo;
                  wouldDo =
                      if truthy candidate \<and> fld readiness ''stage'' = S ''paper_watch''
                      then pushUniqueText wouldDo (Str (zh 61560))
                      else wouldDo;
                  wouldDo =
                      if truthy candidate \<and> fld readiness ''stage'' = S ''testnet_ready''
                      then pushUniqueText wouldDo (Str (zh 61590))
                      else wouldDo;
                  wouldDo =
                      if fld readiness ''stage'' = S ''account_blocked''
                      then pushUniqueText wouldDo (Str (zh 61620))
                      else wouldDo;
                  wouldDo =
                      if fld readiness ''stage'' = S ''risk_limits_blocked''
                      then pushUniqueText wouldDo (Str (zh 61650))
                      else wouldDo;
                  wouldDo =
                      if fld readiness ''stage'' = S ''trading_halted''
                      then pushUniqueText wouldDo (Str (zh 61680))
                      else wouldDo;
                  willNotDo = pushUniqueText willNotDo (Str (zh 61710));
                  willNotDo = pushUniqueText willNotDo (Str (zh 61720));
                  willNotDo =
                      pushUniqueText willNotDo (Str (zh 61730));
                  willNotDo =
                      if num_lt (Fin 0) (to_num (fld (fld readiness ''blockers'') ''length''))
                      then pushUniqueText willNotDo
                             (Str
                                ((zh 61750) @
                                 to_str (item_at (elems (fld readiness ''blockers'')) 0)))
                      else willNotDo;
                  requiredHumanConfirmations =
                      pushUniqueText requiredHumanConfirmations
                        (Str (zh 61780));
                  requiredHumanConfirmations =
                      if truthy candidate \<and>
                         (\<not> truthy paperWatch \<or>
                          fld paperWatch ''status'' \<noteq> S ''done'')
                      then pushUniqueText requiredHumanConfirmations
                             (Str (zh 61800))
                      else requiredHumanConfirmations;
                  requiredHumanConfirmations =
                      if num_lt (Fin 0)
                           (to_num (fld (fld autopilot ''humanRequiredSteps'') ''length''))
                      then fold
                             (\<lambda>item requiredHumanConfirmations.
                                pushUniqueText requiredHumanConfirmations item)
                             (elems (js_slice 0 (Some 3) (fld autopilot ''humanRequiredSteps'')))
                             requiredHumanConfirmations
                      else requiredHumanConfirmations;
                  stage =
                      if fld readiness ''stage'' = S ''not_started''
                      then fld decision ''stage''
                      else fld readiness ''stage'';
                  decisionPrimaryAction =
                      if fld readiness ''stage'' = S ''paper_ready'' \<or>
                         fld readiness ''stage'' = S ''testnet_ready''
                      then fld decision ''primaryAction''
                      else Undef;
                  primaryAction =
                      coalesce
                        (coalesce
                           (coalesce
                              (coalesce decisionPrimaryAction (fld readiness ''primaryAction''))
                              (fld decision ''primaryAction'')) (fld autopilot ''primaryAction''))
                        (if truthy (fld decision ''primaryHref'')
                         then obj [(''kind'', S ''open_link''), (''label'', Str (zh 17960))]
                         else Undef);
                  primaryHref =
                      coalesce
                        (coalesce (fld readiness ''primaryHref'') (fld decision ''primaryHref''))
                        (fld autopilot ''primaryHref'')
              in obj [(''stage'', stage),
                      (''tone'', js_or (js_or (fld readiness ''tone'') (fld decision ''tone''))
                              (fld autopilot ''tone'')),
                      (''title'', js_or (js_or (fld readiness ''title'') (fld decision ''title''))
                              (fld autopilot ''title'')),
                      (''summary'', js_or (js_or (fld readiness ''summary'') (fld decision ''summary''))
                              (fld autopilot ''summary'')),
                      (''primaryHref'', primaryHref), (''primaryAction'', primaryAction),
                      (''metrics'', Arr
                              ([obj [(''label'', Str (zh 61021)), (''value'', stage),
                                     (''hint'', js_or (fld readiness ''title'')
                                             (fld decision ''title''))]] @
                               elems (js_slice 0 (Some 2) (fld readiness ''metrics'')))),
                      (''wouldDo'', Arr (take 6 wouldDo)),
                      (''willNotDo'', Arr (take 6 willNotDo)),
                      (''requiredHumanConfirmations'', Arr (take 6 requiredHumanConfirmations))])"

definition moneyPathTone :: "jsval \<Rightarrow> jstr" where
  "moneyPathTone status =
     (if status = S ''done''
      then js ''success''
      else if status = S ''current''
      then js ''warning''
      else if status = S ''blocked''
      then js ''danger''
      else js ''default'')"

definition moneyPathStep :: "jsval \<Rightarrow> jsval \<Rightarrow> jsval \<Rightarrow> jsval \<Rightarrow> jsval \<Rightarrow> jsval \<Rightarrow> jsval" where
  "moneyPathStep id' label status detail actionKind href =
     merge
       (merge
          (obj [(''id'', id'), (''label'', label), (''status'', status),
                (''tone'', Str (moneyPathTone status)), (''detail'', detail)])
          (if truthy actionKind then obj [(''actionKind'', actionKind)] else obj []))
       (if truthy href then obj [(''href'', href)] else obj [])"

definition moneyPathActionLabel :: "jsval \<Rightarrow> jsval \<Rightarrow> jsval" where
  "moneyPathActionLabel step labelsByKind =
     (if fld step ''id'' = S ''testnet'' \<and> fld step ''actionKind'' = S ''open_link''
      then Str (zh 65990)
      else js_or
             (js_or (getp labelsByKind (to_str (fld step ''actionKind''))) (fld step ''label''))
             (Str (zh 2722)))"

definition setupItemTone :: "jsval \<Rightarrow> jstr" where
  "setupItemTone status =
     (if status = S ''ready''
      then js ''success''
      else if status = S ''blocked''
      then js ''warning''
      else js ''default'')"

definition setupItem :: "jsval \<Rightarrow> jsval \<Rightarrow> jsval \<Rightarrow> jsval \<Rightarrow> jsval \<Rightarrow> jsval" where
  "setupItem id' label status detail href =
     merge
       (obj [(''id'', id'), (''label'', label), (''status'', status),
             (''tone'', Str (setupItemTone status)), (''detail'', detail)])
       (if truthy href then obj [(''href'', href)] else obj [])"

definition aiSetupChecklistFromState :: "jsval \<Rightarrow> jsval \<Rightarrow> jsval \<Rightarrow> jsval \<Rightarrow> jsval \<Rightarrow> date \<Rightarrow> jsval" where
  "aiSetupChecklistFromState analysis validationRuns accounts dailyRadarStatus providerGate clock =
     (let analysis = dflt analysis Null;
          validationRuns = dflt validationRuns (Arr []);
          dailyRadarStatus = dflt dailyRadarStatus Null;
          providerGate = dflt providerGate Null;
          context = js_or (fld analysis ''context'') (obj []);
          notes = safeStringList (fld context ''notes'');
          contextCount =
              num_add
                (num_add (to_num (js_or (fld context ''newsCount'') (N 0)))
                   (to_num (js_or (fld context ''macroCount'') (N 0))))
                (to_num (js_or (fld context ''onchainCount'') (N 0)));
          drafts = elems (fld analysis ''strategyDrafts'');
          validationPlan = autoValidationPlanFromAnalysis analysis clock;
          ranked = rankBacktestValidation validationRuns;
          completedRuns = filter (\<lambda>row. fld row ''score'' \<noteq> Null) ranked;
          accountsLoaded = is_arr accounts;
          executionContext = executionContextFromAnalysis analysis;
          tradeableAccounts = tradeableAccountsFromList accounts;
          tradeableAccountCount =
              if accountsLoaded
              then Num (len tradeableAccounts)
              else fld executionContext ''tradeableAccountCount'';
          accountCount =
              if accountsLoaded
              then fld accounts ''length''
              else fld executionContext ''accountCount'';
          requestedMode =
              lower (to_str (js_or (fld (fld analysis ''execution'') ''mode'') (S ''observe'')));
          aiStatus = lower (to_str (js_or (fld (fld analysis ''ai'') ''status'') (Str [])));
          aiError = trim (to_str (js_or (fld (fld analysis ''ai'') ''error'') (Str [])));
          hasAnalysis = truthy analysis;
          providerGateStage = lower (to_str (js_or (fld providerGate ''stage'') (Str [])));
          providerGateSummary = trim (to_str (js_or (fld providerGate ''summary'') (Str [])));
          providerGateHref =
              s_or (trim (to_str (js_or (fld providerGate ''primaryHref'') (S ''/settings/ai''))))
                (js ''/settings/ai'');
          (providerStatus, providerDetail, providerHref) =
              if providerGateStage = js ''ready''
              then let providerStatus = js ''ready'';
                       providerDetail = s_or providerGateSummary (zh 66390)
                   in (providerStatus, providerDetail, Undef)
              else if providerGateStage = js ''blocked''
              then let providerStatus = js ''blocked'';
                       providerDetail = s_or providerGateSummary (zh 66420);
                       providerHref = providerGateHref
                   in (providerStatus, providerDetail, Str providerHref)
              else if providerGateStage = js ''loading''
              then let providerStatus = js ''warning'';
                       providerDetail = s_or providerGateSummary (zh 66460)
                   in (providerStatus, providerDetail, Undef)
              else let providerStatus =
                           if \<not> hasAnalysis
                           then js ''warning''
                           else if aiStatus = js ''ok''
                           then js ''ready''
                           else js ''blocked'';
                       providerDetail =
                           if providerStatus = js ''ready''
                           then (zh 66510) @
                                (if truthy (fld (fld analysis ''ai'') ''model'')
                                 then (zh 292) @ to_str (fld (fld analysis ''ai'') ''model'')
                                 else []) @
                                (zh 270)
                           else if providerStatus = js ''blocked''
                           then s_or aiError (zh 66530)
                           else (zh 66540);
                       providerHref =
                           if providerStatus = js ''blocked'' then S ''/settings/ai'' else Undef
                   in (providerStatus, providerDetail, providerHref);
          contextStatus =
              if \<not> hasAnalysis
              then js ''warning''
              else if notes \<noteq> [] \<or> num_eq contextCount (Fin 0)
              then js ''blocked''
              else js ''ready'';
          contextDetail =
              if contextStatus = js ''ready''
              then (zh 20710) @
                   num_to_string (to_num (js_or (fld context ''newsCount'') (N 0))) @
                   (zh 20712) @
                   num_to_string (to_num (js_or (fld context ''macroCount'') (N 0))) @
                   (zh 66650) @
                   num_to_string (to_num (js_or (fld context ''onchainCount'') (N 0))) @
                   (zh 66651)
              else if notes \<noteq> []
              then js_join (zh 271) (take 2 notes)
              else if hasAnalysis
              then (zh 66690)
              else (zh 66700);
          blueprintStatus =
              if \<not> hasAnalysis
              then js ''warning''
              else if drafts \<noteq> []
              then js ''ready''
              else js ''blocked'';
          blueprintDetail =
              if blueprintStatus = js ''ready''
              then num_to_string (len drafts) @ (zh 66750)
              else if hasAnalysis
              then (zh 66770)
              else (zh 66780);
          validationStatus =
              if completedRuns \<noteq> []
              then js ''ready''
              else if num_lt (Fin 0) (to_num (fld validationPlan ''runnableCount''))
              then js ''warning''
              else js ''blocked'';
          validationDetail =
              if validationStatus = js ''ready''
              then num_to_string (len completedRuns) @
                   (zh 64870) @
                   to_str (js_or (fld (item_at ranked 0) ''recommendation'') (Str (zh 25111))) @
                   (zh 270)
              else if validationStatus = js ''warning''
              then to_str (fld validationPlan ''runnableCount'') @ (zh 66860)
              else (zh 66870);
          accountStatus =
              if num_lt (Fin 0) (to_num (js_or tradeableAccountCount (N 0)))
              then js ''ready''
              else if accountsLoaded \<or> truthy executionContext
              then js ''blocked''
              else js ''warning'';
          accountValue =
              if accountCount = Undef
              then (zh 66970)
              else num_to_string (to_num (js_or tradeableAccountCount (N 0))) @
                   js ''/'' @
                   num_to_string (to_num (js_or accountCount (N 0)));
          accountDetail =
              if accountStatus = js ''ready''
              then accountValue @ (zh 67010)
              else if accountStatus = js ''blocked''
              then (zh 67030)
              else (zh 67040);
          limitsStatus =
              if \<not> truthy executionContext
              then js ''warning''
              else if portfolioLimitsReady executionContext
              then js ''ready''
              else js ''blocked'';
          limits = js_or (fld executionContext ''portfolioLimits'') (obj []);
          limitsDetail =
              if limitsStatus = js ''ready''
              then (zh 67140) @
                   money (fld limits ''maxOpenNotionalUsd'') @
                   (zh 67141) @
                   to_str (fld limits ''maxOpenPositionsCount'') @
                   (zh 6755) @
                   money (fld limits ''maxDailyLossUsd'') @
                   (zh 270)
              else if limitsStatus = js ''blocked''
              then (zh 67160)
              else (zh 67170);
          gateBlocked =
              truthy (fld executionContext ''tradingHalted'') \<or> requestedMode = js ''mainnet'';
          gateStatus =
              if \<not> hasAnalysis
              then js ''warning''
              else if gateBlocked
              then js ''blocked''
              else js ''ready'';
          gateDetail =
              if truthy (fld executionContext ''tradingHalted'')
              then (zh 59460) @
                   (if truthy (fld executionContext ''haltedReason'')
                    then (zh 292) @ to_str (fld executionContext ''haltedReason'')
                    else []) @
                   (zh 270)
              else if requestedMode = js ''mainnet''
              then (zh 67240)
              else if hasAnalysis
              then (zh 67260) @ s_or requestedMode (js ''observe'') @ (zh 67261)
              else (zh 67270);
          items =
              [setupItem (S ''provider'') (S ''AI provider'') (Str providerStatus)
                 (Str providerDetail) providerHref,
               setupItem (S ''context'') (Str (zh 67310)) (Str contextStatus) (Str contextDetail)
                 (if contextStatus = js ''blocked'' then S ''/data-explorer/news'' else Undef),
               setupItem (S ''blueprint'') (Str (zh 9340)) (Str blueprintStatus)
                 (Str blueprintDetail) Undef,
               setupItem (S ''validation'') (Str (zh 13830)) (Str validationStatus)
                 (Str validationDetail) Undef,
               setupItem (S ''safe_account'') (Str (zh 4460)) (Str accountStatus) (Str accountDetail)
                 (if accountStatus = js ''blocked'' then S ''/accounts/new'' else Undef),
               setupItem (S ''risk_limits'') (Str (zh 18872)) (Str limitsStatus) (Str limitsDetail)
                 (if limitsStatus = js ''blocked'' then S ''/settings/trading'' else Undef),
               setupItem (S ''execution_gate'') (Str (zh 33490)) (Str gateStatus) (Str gateDetail)
                 (if gateStatus = js ''blocked'' then S ''/settings/trading'' else Undef)];
          readyCount = len (filter (\<lambda>item. fld item ''status'' = S ''ready'') items);
          warningCount = len (filter (\<lambda>item. fld item ''status'' = S ''warning'') items);
          blocked = filter (\<lambda>item. fld item ''status'' = S ''blocked'') items;
          score =
              clampScore
                (Num
                   (num_mul
                      (num_div (num_add readyCount (num_mul warningCount (fl (7 / 20))))
                         (len items)) (Fin 100)));
          stage =
              if blocked \<noteq> []
              then js ''blocked''
              else if num_lt (Fin 0) warningCount
              then js ''warning''
              else js ''ready'';
          tone = if stage = js ''ready'' then js ''success'' else js ''warning'';
          title =
              if stage = js ''ready''
              then (zh 67470)
              else if stage = js ''blocked''
              then (zh 67490)
              else (zh 67500);
          summary =
              if stage = js ''ready''
              then (zh 67530)
              else if blocked \<noteq> []
              then to_str (fld (item_at blocked 0) ''label'') @ (zh 67550)
              else (zh 67560);
          (primaryHref, primaryAction) =
              if providerStatus = js ''blocked''
              then let primaryHref = js ''/settings/ai'';
                       primaryAction = obj [(''kind'', S ''open_link''), (''label'', Str (zh 11132))]
                   in (Str primaryHref, primaryAction)
              else if contextStatus = js ''blocked''
              then let primaryHref = js ''/data-explorer/news'';
                       primaryAction = obj [(''kind'', S ''open_link''), (''label'', Str (zh 37341))]
                   in (Str primaryHref, primaryAction)
              else if accountStatus = js ''blocked''
              then let primaryHref = js ''/accounts/new'';
                       primaryAction =
                           obj [(''kind'', S ''open_link''), (''label'', Str (zh 7701))]
                   in (Str primaryHref, primaryAction)
              else if limitsStatus = js ''blocked'' \<or> gateStatus = js ''blocked''
              then let primaryHref = js ''/settings/trading'';
                       primaryAction =
                           obj [(''kind'', S ''open_link''), (''label'', Str (zh 67710))]
                   in (Str primaryHref, primaryAction)
              else let primaryAction =
                           if validationStatus = js ''warning''
                           then obj [(''kind'', S ''run_all_backtests''),
                                     (''label'', Str (zh 67730))]
                           else if \<not> hasAnalysis
                           then js_or (fld dailyRadarStatus ''primaryAction'')
                                  (obj [(''kind'', S ''scan_today''), (''label'', Str (zh 39530))])
                           else obj [(''kind'', S ''open_link''), (''label'', Str (zh 67770))]
                   in (Undef, primaryAction);
          nextActions =
              if blocked \<noteq> []
              then map
                     (\<lambda>item.
                        Str
                          (if truthy (fld item ''href'')
                           then to_str (fld item ''label'') @ (zh 67810) @ to_str (fld item ''href'')
                           else to_str (fld item ''label'') @ (zh 292) @ to_str (fld item ''detail'')))
                     (take 3 blocked)
              else if validationStatus \<noteq> js ''ready''
              then [Str (zh 67830)]
              else [Str (zh 67840)]
      in obj [(''stage'', Str stage), (''tone'', Str tone), (''score'', Num score),
              (''title'', Str title), (''summary'', Str summary), (''primaryHref'', primaryHref),
              (''primaryAction'', primaryAction), (''items'', Arr items),
              (''nextActions'', Arr nextActions)])"

definition aiMoneyPathFromState :: "jsval \<Rightarrow> jsval \<Rightarrow> jsval \<Rightarrow> jsval \<Rightarrow> jsval \<Rightarrow> jsval \<Rightarrow> jsval \<Rightarrow> date \<Rightarrow> jsval" where
  "aiMoneyPathFromState analysis persistedActions validationRuns runs accounts dailyRadarStatus providerGate clock =
     (let analysis = dflt analysis Null;
          persistedActions = dflt persistedActions (Arr []);
          validationRuns = dflt validationRuns (Arr []);
          runs = dflt runs (Arr []);
          dailyRadarStatus = dflt dailyRadarStatus Null;
          providerGate = dflt providerGate Null;
          ranked = rankBacktestValidation validationRuns;
          completedRuns = filter (\<lambda>row. fld row ''score'' \<noteq> Null) ranked;
          runningRuns = filter (\<lambda>row. fld row ''score'' = Null) ranked;
          candidate = paperCandidateFromValidation analysis validationRuns clock;
          decision =
              if truthy analysis
              then nextAIGoalDecision analysis persistedActions validationRuns clock
              else Null;
          readiness =
              aiExecutionReadinessFromState analysis persistedActions validationRuns accounts
                clock;
          setup =
              aiSetupChecklistFromState analysis validationRuns accounts dailyRadarStatus
                providerGate clock;
          context = js_or (fld analysis ''context'') (obj []);
          notes = safeStringList (fld context ''notes'');
          contextCount =
              num_add
                (num_add (to_num (js_or (fld context ''newsCount'') (N 0)))
                   (to_num (js_or (fld context ''macroCount'') (N 0))))
                (to_num (js_or (fld context ''onchainCount'') (N 0)));
          drafts = elems (fld analysis ''strategyDrafts'');
          runnableDrafts = runnableBacktestRequestsFromAnalysis analysis clock;
          sentiment = aiSentimentCompassFromAnalysis analysis;
          sentimentReview = persistedActionById persistedActions (S ''sentiment_review'');
          paperWatch = persistedActionById persistedActions (S ''paper_watch'');
          paperEvidenceComplete =
              fld paperWatch ''status'' = S ''done'' \<and>
              paperWatchCompletionHasEvidence paperWatch;
          recentRuns = elems runs;
          hasTodayScan = truthy (fld dailyRadarStatus ''hasToday'')
      in if \<not> truthy analysis
         then let providerGateStage = lower (to_str (js_or (fld providerGate ''stage'') (Str [])))
              in if providerGateStage = js ''blocked'' \<or> providerGateStage = js ''loading''
                 then let loading = providerGateStage = js ''loading'';
                          href =
                              s_or
                                (trim
                                   (to_str
                                      (js_or (fld providerGate ''primaryHref'')
                                         (S ''/settings/ai'')))) (js ''/settings/ai'');
                          label =
                              s_or
                                (trim
                                   (to_str
                                      (js_or (fld (fld providerGate ''primaryAction'') ''label'')
                                         (Str [])))) (if loading then (zh 11130) else (zh 12370));
                          summary =
                              s_or (trim (to_str (js_or (fld providerGate ''summary'') (Str []))))
                                (if loading
                                 then (zh 30860)
                                 else (zh 18420));
                          steps =
                              [moneyPathStep (S ''provider'') (Str (zh 63010))
                                 (Str (if loading then js ''current'' else js ''blocked''))
                                 (Str summary) (S ''open_link'') (Str href),
                               moneyPathStep (S ''scan'') (Str (zh 17872)) (S ''pending'')
                                 (Str
                                    (if loading
                                     then (zh 63120)
                                     else (zh 63130))) Undef Undef,
                               moneyPathStep (S ''context'') (Str (zh 42101)) (S ''pending'')
                                 (Str (zh 63190)) Undef Undef,
                               moneyPathStep (S ''blueprint'') (Str (zh 9340)) (S ''pending'')
                                 (Str (zh 63250)) Undef Undef,
                               moneyPathStep (S ''validation'') (Str (zh 13830)) (S ''pending'')
                                 (Str (zh 63310)) Undef Undef,
                               moneyPathStep (S ''sentiment'') (Str (zh 29250)) (S ''pending'')
                                 (Str (zh 63370)) Undef Undef,
                               moneyPathStep (S ''paper'') (Str (zh 290)) (S ''pending'')
                                 (Str (zh 63430)) Undef Undef,
                               moneyPathStep (S ''testnet'') (Str (zh 301)) (S ''blocked'')
                                 (Str (zh 63490)) Undef Undef]
                      in obj [(''stage'', Str
                                      (if loading
                                       then js ''provider_loading''
                                       else js ''provider_blocked'')),
                              (''title'', Str (if loading then (zh 11270) else (zh 18470))),
                              (''tone'', S ''warning''), (''summary'', Str summary),
                              (''currentStepId'', S ''provider''), (''primaryHref'', Str href),
                              (''primaryAction'', obj [(''kind'', S ''open_link''), (''label'', Str label)]),
                              (''steps'', Arr steps),
                              (''nextActions'', Arr
                                      (if loading
                                       then [Str (zh 18921),
                                             Str (zh 18931),
                                             Str (zh 63630)]
                                       else [Str (zh 18971),
                                             Str (zh 63640),
                                             Str (zh 63641)]))]
                 else let steps =
                              [moneyPathStep (S ''scan'') (Str (zh 17872)) (S ''current'')
                                 (Str
                                    (if hasTodayScan
                                     then (zh 63740)
                                     else (zh 63750))) (S ''scan_today'')
                                 Undef,
                               moneyPathStep (S ''context'') (Str (zh 42101)) (S ''pending'')
                                 (Str (zh 63820)) Undef Undef,
                               moneyPathStep (S ''blueprint'') (Str (zh 9340)) (S ''pending'')
                                 (Str (zh 63250)) Undef Undef,
                               moneyPathStep (S ''validation'') (Str (zh 13830)) (S ''pending'')
                                 (Str (zh 63310)) Undef Undef,
                               moneyPathStep (S ''sentiment'') (Str (zh 29250)) (S ''pending'')
                                 (Str (zh 63370)) Undef Undef,
                               moneyPathStep (S ''paper'') (Str (zh 290)) (S ''pending'')
                                 (Str (zh 63430)) Undef Undef,
                               moneyPathStep (S ''testnet'') (Str (zh 301)) (S ''blocked'')
                                 (Str (zh 64120)) Undef Undef]
                      in obj [(''stage'', S ''idle''), (''title'', Str (zh 64170)),
                              (''tone'', S ''warning''),
                              (''summary'', Str
                                      (if recentRuns \<noteq> []
                                       then (zh 64210)
                                       else (zh 64220))),
                              (''currentStepId'', S ''scan''),
                              (''primaryAction'', obj [(''kind'', S ''scan_today''),
                                         (''label'', Str (zh 23680))]),
                              (''steps'', Arr steps),
                              (''nextActions'', Arr [Str (zh 23680),
                                         Str (zh 15630),
                                         Str (zh 64260)])]
         else let contextBlocked = notes \<noteq> [] \<or> num_eq contextCount (Fin 0);
                  validationStatus =
                      if completedRuns \<noteq> []
                      then js ''done''
                      else if runningRuns \<noteq> []
                      then js ''current''
                      else if runnableDrafts \<noteq> []
                      then js ''current''
                      else js ''blocked'';
                  sentimentNeedsReview =
                      fld sentiment ''stage'' \<noteq> S ''balanced'' \<and>
                      \<not> sentimentReviewCompleted sentimentReview;
                  paperStatus =
                      if sentimentNeedsReview
                      then js ''blocked''
                      else if paperEvidenceComplete
                      then js ''done''
                      else if truthy paperWatch \<or> truthy candidate
                      then js ''current''
                      else if completedRuns \<noteq> []
                      then js ''blocked''
                      else js ''pending'';
                  testnetStatus =
                      if fld readiness ''stage'' = S ''testnet_ready''
                      then js ''current''
                      else if truthy paperWatch
                      then js ''blocked''
                      else js ''pending'';
                  steps =
                      [moneyPathStep (S ''scan'') (Str (zh 17872)) (S ''done'') (Str (zh 64610))
                         Undef Undef,
                       moneyPathStep (S ''context'') (Str (zh 42101))
                         (Str (if contextBlocked then js ''blocked'' else js ''done''))
                         (if contextBlocked
                          then js_or (item_at notes 0) (Str (zh 64680))
                          else Str
                                 ((zh 64690) @
                                  num_to_string (to_num (js_or (fld context ''newsCount'') (N 0))) @
                                  (zh 64691) @
                                  num_to_string
                                    (to_num (js_or (fld context ''macroCount'') (N 0))) @
                                  (zh 64692) @
                                  num_to_string
                                    (to_num (js_or (fld context ''onchainCount'') (N 0))) @
                                  (zh 270))) (if contextBlocked then S ''scan_today'' else Undef) Undef,
                       moneyPathStep (S ''blueprint'') (Str (zh 9340))
                         (Str (if drafts \<noteq> [] then js ''done'' else js ''blocked''))
                         (Str
                            (if drafts \<noteq> []
                             then num_to_string (len drafts) @ (zh 64780)
                             else (zh 64790))) Undef Undef,
                       moneyPathStep (S ''validation'') (Str (zh 13830)) (Str validationStatus)
                         (Str
                            (if completedRuns \<noteq> []
                             then num_to_string (len completedRuns) @
                                  (zh 64870) @
                                  to_str
                                    (js_or (fld (item_at ranked 0) ''recommendation'')
                                       (Str (zh 25111))) @
                                  (zh 270)
                             else if runningRuns \<noteq> []
                             then num_to_string (len runningRuns) @ (zh 21030)
                             else if runnableDrafts \<noteq> []
                             then num_to_string (len runnableDrafts) @ (zh 64910)
                             else (zh 64921)))
                         (if completedRuns = [] \<and> runnableDrafts \<noteq> []
                          then S ''run_all_backtests''
                          else Undef)
                         (if truthy (fld (item_at ranked 0) ''runId'')
                          then Str
                                 (js ''/backtests/'' @
                                  uri_component (to_str (fld (item_at ranked 0) ''runId'')))
                          else Undef),
                       moneyPathStep (S ''sentiment'') (Str (zh 29250))
                         (Str
                            (if sentimentNeedsReview
                             then js ''current''
                             else if truthy analysis
                             then js ''done''
                             else js ''pending''))
                         (Str
                            (if sentimentNeedsReview
                             then to_str (fld sentiment ''title'') @ (zh 65020)
                             else (zh 65030)))
                         (if sentimentNeedsReview then S ''sentiment_review'' else Undef)
                         (if sentimentNeedsReview then S ''/data-explorer/news'' else Undef),
                       moneyPathStep (S ''paper'') (Str (zh 290)) (Str paperStatus)
                         (Str
                            (if paperEvidenceComplete
                             then (zh 65130)
                             else if fld paperWatch ''status'' = S ''done''
                             then (zh 65150)
                             else if sentimentNeedsReview
                             then (zh 65170)
                             else if truthy candidate
                             then to_str (fld candidate ''strategyId'') @ (zh 65190)
                             else (zh 65200)))
                         (if truthy paperWatch \<and> \<not> paperEvidenceComplete
                          then S ''open_link''
                          else if truthy candidate \<and>
                                  \<not> truthy paperWatch \<and>
                                  \<not> sentimentNeedsReview
                          then S ''accept_paper_candidate''
                          else Undef)
                         (js_or (fld paperWatch ''href'') (fld candidate ''backtestHref'')),
                       moneyPathStep (S ''testnet'') (Str (zh 301)) (Str testnetStatus)
                         (Str
                            (if fld readiness ''stage'' = S ''testnet_ready''
                             then (zh 65340)
                             else (zh 65350)))
                         (if fld readiness ''stage'' = S ''testnet_ready''
                          then S ''open_link''
                          else Undef)
                         (if fld readiness ''stage'' = S ''testnet_ready''
                          then fld readiness ''primaryHref''
                          else Undef)];
                  currentStep =
                      coalesce
                        (coalesce
                           (js_find (\<lambda>step. fld step ''status'' = S ''current'') steps)
                           (js_find (\<lambda>step. fld step ''status'' = S ''blocked'') steps))
                        (item_at steps 0);
                  actionLabelByKind =
                      obj [(''scan_today'', Str (zh 23680)),
                           (''run_all_backtests'', Str (zh 25280)),
                           (''accept_paper_candidate'', Str (zh 28062)),
                           (''open_link'', Str (zh 17960)), (''sentiment_review'', Str (zh 31890))];
                  primaryAction =
                      if truthy (fld currentStep ''actionKind'')
                      then obj [(''kind'', fld currentStep ''actionKind''),
                                (''label'', moneyPathActionLabel currentStep actionLabelByKind)]
                      else coalesce (fld readiness ''primaryAction'')
                             (fld decision ''primaryAction'');
                  summary =
                      if fld readiness ''stage'' = S ''paper_ready''
                      then Str
                             (to_str (js_or (fld candidate ''strategyId'') (Str (zh 35881))) @
                              (zh 65590))
                      else if fld readiness ''stage'' = S ''testnet_ready''
                      then Str (zh 65610)
                      else js_or (js_or (fld readiness ''summary'') (fld decision ''summary''))
                             (fld setup ''summary'')
              in obj [(''stage'', if fld readiness ''stage'' = S ''not_started''
                            then js_or (fld decision ''stage'') (S ''idle'')
                            else fld readiness ''stage''),
                      (''title'', if truthy currentStep
                            then Str ((zh 65660) @ to_str (fld currentStep ''label''))
                            else fld setup ''title''),
                      (''tone'', js_or (js_or (fld currentStep ''tone'') (fld readiness ''tone''))
                              (fld setup ''tone'')),
                      (''summary'', summary), (''currentStepId'', fld currentStep ''id''),
                      (''primaryHref'', coalesce
                              (coalesce (fld currentStep ''href'') (fld readiness ''primaryHref''))
                              (fld decision ''primaryHref'')),
                      (''primaryAction'', primaryAction), (''steps'', Arr steps),
                      (''nextActions'', Arr
                              (take 5
                                 (elems (js_or (fld decision ''nextActions'') (Arr [])) @
                                  take 2 (safeStringList (fld readiness ''blockers'')))))])"

end
