(* ===== verification/Run_Followup.thy ===== *)
theory Run_Followup
  imports Preset_Text Strategy_Preset Backtest_Ranking Goal_Actions Goal_Form
begin

section \<open>Following up on earlier runs\<close>

text \<open>
  A part of \<^verbatim>\<open>src/client/data/ai-goal-preset.mjs\<close>: the queue of earlier
  runs that want attention, the comparison of refreshed runs, and the market memory they leave.
  Literals that are not ASCII are looked up in \<open>Ui_Texts\<close>; their key is ten times the
  line of the source file they stand on, plus a rank.
\<close>


definition runAgeHours :: "jsval \<Rightarrow> date \<Rightarrow> jsnum" where
  "runAgeHours run now =
     (let createdAt =
              date_of
                (Str
                   (to_str
                      (js_or (js_or (fld run ''createdAt'') (fld run ''updatedAt'')) (Str []))))
      in if time_of now = NaN \<or> time_of createdAt = NaN
         then Fin 0
         else num_max (Fin 0)
                (num_div (num_sub (time_of now) (time_of createdAt))
                   (num_mul (num_mul (Fin 60) (Fin 60)) (Fin 1000))))"

definition runContextCount :: "jsval \<Rightarrow> jsnum" where
  "runContextCount run =
     num_add
       (num_add (to_num (js_or (fld run ''contextNewsCount'') (N 0)))
          (to_num (js_or (fld run ''contextMacroCount'') (N 0))))
       (to_num (js_or (fld run ''contextOnchainCount'') (N 0)))"

definition analysisFromGoalRunForRedesign :: "jsval \<Rightarrow> jsval" where
  "analysisFromGoalRunForRedesign run =
     (if truthy (fld run ''analysis'') \<and> is_object (fld run ''analysis'')
      then fld run ''analysis''
      else obj [(''goal'', js_or (fld run ''goal'') (Str (zh 7561))),
                (''context'', obj [(''symbols'', Arr (elems (fld run ''symbols''))),
                           (''newsCount'', Num (to_num (js_or (fld run ''contextNewsCount'') (N 0)))),
                           (''macroCount'', Num (to_num (js_or (fld run ''contextMacroCount'') (N 0)))),
                           (''onchainCount'', Num (to_num (js_or (fld run ''contextOnchainCount'') (N 0))))]),
                (''execution'', obj [(''mode'', js_or (fld run ''executionMode'') (S ''paper''))]),
                (''humanFactors'', Arr []), (''watchSignals'', Arr []),
                (''strategyDrafts'', Arr [])])"

definition validationRunsMatchingIds :: "jsval \<Rightarrow> jsval \<Rightarrow> jsval list" where
  "validationRunsMatchingIds validationRuns ids =
     (if \<not> is_arr validationRuns \<or> \<not> is_arr ids \<or> fld ids ''length'' = N 0
      then []
      else let wanted =
                   remdups_first
                     (filter truthy
                        (map (\<lambda>id'. Str (trim (to_str (js_or id' (Str []))))) (elems ids)))
           in filter
                (\<lambda>run.
                   list_has wanted (Str (trim (to_str (js_or (fld run ''runId'') (Str []))))))
                (elems validationRuns))"

definition completedValidationRows :: "jsval \<Rightarrow> jsval list" where
  "completedValidationRows runs =
     filter
       (\<lambda>run.
          let state = to_num (fld run ''state'')
          in num_eq state (Fin 3) \<or> num_eq state (Fin 4)) (elems runs)"

definition aiRunFollowupItem :: "jsval \<Rightarrow> date \<Rightarrow> jsval \<Rightarrow> jsval" where
  "aiRunFollowupItem run now validationRuns =
     (let validationRuns = dflt validationRuns (Arr []);
          runId = trim (to_str (js_or (fld run ''id'') (Str [])))
      in if runId = []
         then Null
         else let goal = trim (to_str (js_or (fld run ''goal'') (Str (zh 7561))));
                  symbols =
                      s_or (js_join (js '', '') (safeStringList (fld run ''symbols'')))
                        (js ''auto'');
                  ageHours = runAgeHours run now;
                  stale = num_le (Fin 6) ageHours;
                  contextCount = runContextCount run;
                  thinContext =
                      num_eq contextCount (Fin 0) \<or>
                      lower (to_str (js_or (fld run ''aiStatus'') (Str []))) = js ''fallback'';
                  refreshed = persistedActionById (fld run ''actions'') (S ''refresh_context'');
                  savedPaperWatch = persistedActionById (fld run ''actions'') (S ''paper_watch'');
                  savedPaperWatchStatus =
                      lower (to_str (js_or (fld savedPaperWatch ''status'') (Str [])));
                  thinCompletedPaperWatch =
                      savedPaperWatchStatus = js ''done'' \<and>
                      \<not> paperWatchCompletionHasEvidence savedPaperWatch;
                  paperWatch = activeRunAction run (S ''paper_watch'');
                  backtest = activeRunAction run (S ''backtest'');
                  savedBacktest = persistedActionById (fld run ''actions'') (S ''backtest'');
                  startedBacktestRunIds =
                      if lower (to_str (js_or (fld savedBacktest ''status'') (Str []))) =
                           js ''done''
                      then backtestRunIdsFromAction savedBacktest
                      else [];
                  startedBacktest =
                      if startedBacktestRunIds \<noteq> [] then savedBacktest else Null;
                  completedStartedValidations =
                      completedValidationRows
                        (Arr
                           (validationRunsMatchingIds validationRuns (Arr startedBacktestRunIds)));
                  rankedStartedValidations =
                      rankBacktestValidation (Arr completedStartedValidations);
                  bestStartedValidation = js_or (item_at rankedStartedValidations 0) Null;
                  strategy = activeRunAction run (S ''strategy'');
                  savedStrategy = persistedActionById (fld run ''actions'') (S ''strategy'');
                  savedStrategyDone =
                      if lower (to_str (js_or (fld savedStrategy ''status'') (Str []))) =
                           js ''done''
                      then savedStrategy
                      else Null;
                  draftCount = to_num (js_or (fld run ''strategyDraftCount'') (N 0));
                  base =
                      obj [(''runId'', Str runId), (''goal'', Str goal),
                           (''symbols'', Str symbols), (''createdAt'', fld run ''createdAt''),
                           (''updatedAt'', fld run ''updatedAt'')]
              in if truthy paperWatch
                 then spread (merge (obj []) base) [(''priority'', N 100),
                                                    (''tone'', S ''success''),
                                                    (''actionKind'', S ''paper_watch''),
                                                    (''title'', Str (zh 7742)),
                                                    (''detail'', js_or (fld paperWatch ''note'')
                                                            (Str
                                                               (goal @
                                                                (zh 13590)))),
                                                    (''href'', js_or (fld paperWatch ''href'')
                                                            (Str (aiMoneyRunHref (Str runId))))]
                 else if thinCompletedPaperWatch
                 then spread (merge (obj []) base) [(''priority'', N 104),
                                                    (''tone'', S ''warning''),
                                                    (''actionKind'', S ''paper_watch''),
                                                    (''title'', Str (zh 13690)),
                                                    (''detail'', Str
                                                            (if truthy
                                                                  (fld savedPaperWatch ''note'') \<and>
                                                                fld savedPaperWatch ''note'' \<noteq>
                                                                  Str (zh 13710)
                                                             then to_str
                                                                    (fld savedPaperWatch ''note'') @
                                                                  (zh 13721)
                                                             else goal @
                                                                  (zh 13731))),
                                                    (''href'', js_or (fld savedPaperWatch ''href'')
                                                            (Str (aiMoneyRunHref (Str runId))))]
                 else if truthy backtest
                 then spread (merge (obj []) base) [(''priority'', N 90),
                                                    (''tone'', S ''warning''),
                                                    (''actionKind'', S ''run_validation''),
                                                    (''title'', Str (zh 13831)),
                                                    (''detail'', js_or (fld backtest ''note'')
                                                            (Str
                                                               (goal @
                                                                (zh 13840)))),
                                                    (''href'', js_or (fld backtest ''href'')
                                                            (Str (aiMoneyRunHref (Str runId))))]
                 else if truthy startedBacktest
                 then if truthy bestStartedValidation \<and>
                         to_str (js_or (fld bestStartedValidation ''recommendation'') (Str [])) =
                           (zh 6150)
                      then let score =
                                   if fld bestStartedValidation ''score'' = Null
                                   then Str (zh 5880)
                                   else fld bestStartedValidation ''score'';
                               evidenceHref =
                                   js_or (fld startedBacktest ''href'')
                                     (Str
                                        (if truthy (fld bestStartedValidation ''runId'')
                                         then js ''/backtests/'' @
                                              uri_component
                                                (to_str (fld bestStartedValidation ''runId''))
                                         else aiMoneyRunHref (Str runId)))
                           in spread (merge (obj []) base) [(''priority'', N 94),
                                                            (''tone'', js_or
                                                                    (fld bestStartedValidation
                                                                       ''tone'') (S ''success'')),
                                                            (''actionKind'', S ''paper_candidate_validation''),
                                                            (''title'', Str (zh 14040)),
                                                            (''detail'', Str
                                                                    (to_str
                                                                       (js_or
                                                                          (js_or
                                                                             (fld
                                                                                bestStartedValidation
                                                                                ''strategyId'')
                                                                             (fld
                                                                                bestStartedValidation
                                                                                ''runId''))
                                                                          (Str goal)) @
                                                                     js '' '' @
                                                                     to_str
                                                                       (fld bestStartedValidation
                                                                          ''recommendation'') @
                                                                     (zh 10061) @
                                                                     to_str score @
                                                                     (zh 14070))),
                                                            (''href'', evidenceHref)]
                      else if truthy bestStartedValidation \<and>
                              to_str
                                (js_or (fld bestStartedValidation ''recommendation'') (Str [])) \<noteq>
                                (zh 6150)
                      then let proposedFormState =
                                   redesignFormStateFromWeakValidation
                                     (analysisFromGoalRunForRedesign run)
                                     (Arr rankedStartedValidations)
                                     (obj [(''reasons'', Arr
                                                   (map
                                                      (\<lambda>row.
                                                         Str
                                                           (let score =
                                                                    if fld row ''score'' = Null
                                                                    then Str (zh 5880)
                                                                    else fld row ''score''
                                                            in to_str
                                                                 (js_or (fld row ''strategyId'')
                                                                    (fld row ''runId'')) @
                                                               js '': '' @
                                                               to_str (fld row ''recommendation'') @
                                                               (zh 10061) @
                                                               to_str score))
                                                      (take 3 rankedStartedValidations)))])
                           in spread (merge (obj []) base) [(''priority'', N 96),
                                                            (''tone'', js_or
                                                                    (fld bestStartedValidation
                                                                       ''tone'') (S ''danger'')),
                                                            (''actionKind'', S ''redesign_validation''),
                                                            (''title'', Str (zh 14300)),
                                                            (''detail'', Str
                                                                    (to_str
                                                                       (js_or
                                                                          (js_or
                                                                             (fld
                                                                                bestStartedValidation
                                                                                ''strategyId'')
                                                                             (fld
                                                                                bestStartedValidation
                                                                                ''runId''))
                                                                          (Str goal)) @
                                                                     js '' '' @
                                                                     to_str
                                                                       (fld bestStartedValidation
                                                                          ''recommendation'') @
                                                                     (zh 10061) @
                                                                     to_str
                                                                       (coalesce
                                                                          (fld
                                                                             bestStartedValidation
                                                                             ''score'') (Str (zh 5880))) @
                                                                     (zh 14350))),
                                                            (''href'', Str (aiMoneyRunHref (Str runId))),
                                                            (''proposedFormState'', proposedFormState)]
                      else spread (merge (obj []) base) [(''priority'', N 88),
                                                         (''tone'', S ''warning''),
                                                         (''actionKind'', S ''validation_progress''),
                                                         (''title'', Str (zh 14450)),
                                                         (''detail'', js_or
                                                                 (fld startedBacktest ''note'')
                                                                 (Str
                                                                    (goal @
                                                                     (zh 14461)))),
                                                         (''href'', js_or
                                                                 (fld startedBacktest ''href'')
                                                                 (Str
                                                                    (if truthy
                                                                          (item_at
                                                                             startedBacktestRunIds
                                                                             0)
                                                                     then js ''/backtests/'' @
                                                                          uri_component
                                                                            (to_str
                                                                               (item_at
                                                                                  startedBacktestRunIds
                                                                                  0))
                                                                     else aiMoneyRunHref
                                                                            (Str runId))))]
                 else if truthy strategy
                 then spread (merge (obj []) base) [(''priority'', N 82),
                                                    (''tone'', S ''warning''),
                                                    (''actionKind'', S ''save_strategy''),
                                                    (''title'', Str (zh 14600)),
                                                    (''detail'', js_or (fld strategy ''note'')
                                                            (Str
                                                               (goal @
                                                                (zh 14611)))),
                                                    (''href'', js_or (fld strategy ''href'')
                                                            (Str (aiMoneyRunHref (Str runId))))]
                 else if fld refreshed ''status'' = S ''done''
                 then spread (merge (obj []) base) [(''priority'', N 35),
                                                    (''tone'', S ''default''),
                                                    (''actionKind'', S ''review_run''),
                                                    (''title'', Str (zh 14710)),
                                                    (''detail'', js_or (fld refreshed ''note'')
                                                            (Str
                                                               (goal @ (zh 14720)))),
                                                    (''href'', js_or (fld refreshed ''href'')
                                                            (Str
                                                               (if truthy
                                                                     (fld refreshed ''relatedId'')
                                                                then aiMoneyRunHref
                                                                       (fld refreshed
                                                                          ''relatedId'')
                                                                else aiMoneyRunHref (Str runId))))]
                 else if truthy savedStrategyDone
                 then spread (merge (obj []) base) [(''priority'', N 78),
                                                    (''tone'', S ''warning''),
                                                    (''actionKind'', S ''saved_strategy_backtest''),
                                                    (''title'', Str (zh 14820)),
                                                    (''detail'', js_or (fld savedStrategyDone ''note'')
                                                            (Str
                                                               (goal @
                                                                (zh 14850)))),
                                                    (''href'', js_or (fld savedStrategyDone ''href'')
                                                            (Str (aiMoneyRunHref (Str runId))))]
                 else if stale \<or> thinContext
                 then spread (merge (obj []) base) [(''priority'', Num (if stale then Fin 76 else Fin 72)),
                                                    (''tone'', S ''warning''),
                                                    (''actionKind'', S ''refresh_context''),
                                                    (''title'', Str
                                                            (if stale then (zh 14950) else (zh 14951))),
                                                    (''detail'', Str
                                                            (if thinContext
                                                             then goal @
                                                                  (zh 14970)
                                                             else goal @
                                                                  (zh 14980) @
                                                                  num_to_string
                                                                    (num_round ageHours) @
                                                                  (zh 14981))),
                                                    (''href'', Str (aiMoneyRunHref (Str runId)))]
                 else if num_lt (Fin 0) draftCount
                 then spread (merge (obj []) base) [(''priority'', N 62),
                                                    (''tone'', S ''warning''),
                                                    (''actionKind'', S ''run_validation''),
                                                    (''title'', Str (zh 15082)),
                                                    (''detail'', Str
                                                            (goal @
                                                             (zh 15091) @
                                                             num_to_string draftCount @
                                                             (zh 15092))),
                                                    (''href'', Str (aiMoneyRunHref (Str runId)))]
                 else spread (merge (obj []) base) [(''priority'', N 30),
                                                    (''tone'', S ''default''),
                                                    (''actionKind'', S ''review_run''),
                                                    (''title'', Str (zh 15180)),
                                                    (''detail'', Str
                                                            (goal @
                                                             (zh 15191) @
                                                             symbols @
                                                             (zh 15192))),
                                                    (''href'', Str (aiMoneyRunHref (Str runId)))])"

definition aiRunFollowupQueueFromRuns :: "jsval \<Rightarrow> date \<Rightarrow> jsval \<Rightarrow> jsval" where
  "aiRunFollowupQueueFromRuns runs now validationRuns =
     (let runs = dflt runs (Arr []);
          validationRuns = dflt validationRuns (Arr []);
          items =
              take 5
                (js_sort
                   (\<lambda>a b.
                      if \<not> strict_eq (fld b ''priority'') (fld a ''priority'')
                      then num_sub (to_num (fld b ''priority'')) (to_num (fld a ''priority''))
                      else let at' =
                                   n_or
                                     (time_of
                                        (date_of
                                           (Str (to_str (js_or (fld a ''createdAt'') (N 0))))))
                                     (Fin 0);
                               bt =
                                   n_or
                                     (time_of
                                        (date_of
                                           (Str (to_str (js_or (fld b ''createdAt'') (N 0))))))
                                     (Fin 0)
                           in num_sub bt at')
                   (filter truthy
                      (map (\<lambda>run. aiRunFollowupItem run now validationRuns) (elems runs))));
          attention =
              filter (\<lambda>item. num_le (Fin 60) (to_num (fld item ''priority''))) items;
          top' = js_or (item_at items 0) Null;
          stage =
              if items = []
              then js ''empty''
              else if attention \<noteq> []
              then js ''needs_attention''
              else js ''steady'';
          tone =
              if stage = js ''needs_attention''
              then js ''warning''
              else if stage = js ''steady''
              then js ''success''
              else js ''default'';
          title =
              if stage = js ''needs_attention''
              then (zh 15410)
              else if stage = js ''steady''
              then (zh 15430)
              else (zh 15440);
          summary =
              if stage = js ''needs_attention''
              then (zh 15470) @
                   to_str (fld top' ''title'') @
                   (zh 292) @
                   to_str (fld top' ''detail'') @
                   (zh 15471)
              else if stage = js ''steady''
              then (zh 15491)
              else (zh 15500);
          nextActions =
              if items \<noteq> []
              then map
                     (\<lambda>item.
                        Str
                          (if fld item ''actionKind'' = S ''refresh_context''
                           then (zh 15540) @ to_str (fld item ''goal'')
                           else if fld item ''actionKind'' = S ''run_validation''
                           then (zh 15550) @ to_str (fld item ''goal'')
                           else if fld item ''actionKind'' = S ''validation_progress''
                           then (zh 15561) @ to_str (fld item ''goal'')
                           else if fld item ''actionKind'' = S ''paper_candidate_validation''
                           then (zh 15570) @ to_str (fld item ''goal'')
                           else if fld item ''actionKind'' = S ''redesign_validation''
                           then (zh 15581) @ to_str (fld item ''goal'')
                           else if fld item ''actionKind'' = S ''saved_strategy_backtest''
                           then (zh 15590) @ to_str (fld item ''goal'')
                           else if fld item ''actionKind'' = S ''paper_watch''
                           then (zh 15600) @ to_str (fld item ''goal'')
                           else to_str (fld item ''title'') @ (zh 292) @ to_str (fld item ''goal'')))
                     (take 3 items)
              else [Str (zh 15631), Str (zh 15630), Str (zh 15632)]
      in obj [(''stage'', Str stage), (''tone'', Str tone), (''title'', Str title),
              (''summary'', Str summary), (''items'', Arr items),
              (''nextActions'', Arr nextActions),
              (''primaryAction'', if truthy top'
                    then if fld top' ''actionKind'' = S ''run_validation''
                         then obj [(''kind'', S ''validate_run''), (''label'', Str (zh 15760)),
                                   (''runId'', fld top' ''runId''),
                                   (''href'', Str (aiMoneyRunHref (fld top' ''runId'')))]
                         else if fld top' ''actionKind'' = S ''refresh_context''
                         then obj [(''kind'', S ''refresh_run''), (''label'', Str (zh 15830)),
                                   (''runId'', fld top' ''runId''),
                                   (''href'', Str (aiMoneyRunHref (fld top' ''runId'')))]
                         else if fld top' ''actionKind'' = S ''validation_progress''
                         then obj [(''kind'', S ''open_link''), (''label'', Str (zh 15560)),
                                   (''runId'', fld top' ''runId''),
                                   (''href'', js_or (fld top' ''href'')
                                           (Str (aiMoneyRunHref (fld top' ''runId''))))]
                         else if fld top' ''actionKind'' = S ''paper_candidate_validation''
                         then obj [(''kind'', S ''open_link''), (''label'', Str (zh 15571)),
                                   (''runId'', fld top' ''runId''),
                                   (''href'', Str (aiMoneyRunHref (fld top' ''runId'')))]
                         else if fld top' ''actionKind'' = S ''redesign_validation''
                         then obj [(''kind'', S ''analyze_and_validate''),
                                   (''label'', Str (zh 16040)),
                                   (''runId'', fld top' ''runId''),
                                   (''href'', Str (aiMoneyRunHref (fld top' ''runId''))),
                                   (''proposedFormState'', fld top' ''proposedFormState'')]
                         else if fld top' ''actionKind'' = S ''saved_strategy_backtest''
                         then obj [(''kind'', S ''open_link''), (''label'', Str (zh 16120)),
                                   (''runId'', fld top' ''runId''),
                                   (''href'', js_or (fld top' ''href'')
                                           (Str (aiMoneyRunHref (fld top' ''runId''))))]
                         else obj [(''kind'', S ''open_run''), (''label'', Str (zh 16180)),
                                   (''runId'', fld top' ''runId''),
                                   (''href'', Str (aiMoneyRunHref (fld top' ''runId'')))]
                    else obj [(''kind'', S ''scan_today''), (''label'', Str (zh 16220))])])"

definition aiInitialRunToOpenFromRuns :: "jsval \<Rightarrow> jsval \<Rightarrow> jsval \<Rightarrow> jsval \<Rightarrow> date \<Rightarrow> jsval" where
  "aiInitialRunToOpenFromRuns runs requestedRunId activeRunId alreadyOpenedRunId now =
     (let runs = dflt runs (Arr []);
          requestedRunId = dflt requestedRunId (Str []);
          activeRunId = dflt activeRunId (Str []);
          alreadyOpenedRunId = dflt alreadyOpenedRunId (Str []);
          list = elems runs
      in if truthy requestedRunId \<or> truthy activeRunId \<or> list = []
         then Null
         else let queue = aiRunFollowupQueueFromRuns (Arr list) now Undef;
                  runId =
                      to_str
                        (js_or
                           (js_or (fld (fld queue ''primaryAction'') ''runId'')
                              (fld (js_find (\<lambda>run. truthy (fld run ''id'')) list) ''id''))
                           (Str []))
              in if runId = [] \<or> alreadyOpenedRunId = Str runId then Null else Str runId)"

definition aiRunFollowupPrimaryActionForQueue :: "jsval \<Rightarrow> jsval" where
  "aiRunFollowupPrimaryActionForQueue queue =
     (let queue = dflt queue (obj []);
          action = fld queue ''primaryAction'';
          kind = to_str (js_or (fld action ''kind'') (Str []));
          label = trim (to_str (js_or (fld action ''label'') (Str [])))
      in if kind = [] \<or> label = []
         then Null
         else if kind = js ''open_link''
         then let href = trim (to_str (js_or (fld action ''href'') (Str [])))
              in if href = []
                 then Null
                 else merge
                        (obj [(''kind'', Str kind), (''label'', Str label), (''href'', Str href)])
                        (if truthy (fld action ''runId'')
                         then obj [(''runId'', fld action ''runId'')]
                         else obj [])
         else merge
                (merge (obj [(''kind'', Str kind), (''label'', Str label)])
                   (if truthy (fld action ''runId'')
                    then obj [(''runId'', fld action ''runId'')]
                    else obj []))
                (if truthy (fld action ''href'')
                 then obj [(''href'', fld action ''href'')]
                 else obj []))"

definition runHumanFactors :: "jsval \<Rightarrow> jsval list" where
  "runHumanFactors run = safeStringList (fld (fld run ''analysis'') ''humanFactors'')"

definition refreshComparisonItem :: "jsval \<Rightarrow> jsval \<Rightarrow> jsval \<Rightarrow> jsval" where
  "refreshComparisonItem oldRun newRun action =
     (let oldContext = runContextCount oldRun;
          newContext = runContextCount newRun;
          oldDrafts = to_num (js_or (fld oldRun ''strategyDraftCount'') (N 0));
          newDrafts = to_num (js_or (fld newRun ''strategyDraftCount'') (N 0));
          contextDelta = num_sub newContext oldContext;
          draftDelta = num_sub newDrafts oldDrafts;
          oldFactors = runHumanFactors oldRun;
          newFactors = runHumanFactors newRun;
          addedFactors = filter (\<lambda>item. \<not> list_has oldFactors item) newFactors;
          humanFactorChange =
              if addedFactors \<noteq> []
              then js_join (zh 271) (take 2 addedFactors)
              else s_or (js_join (zh 271) (take 2 newFactors)) (zh 16831);
          highlights =
              [Str
                 ((zh 16850) @
                  (if num_le (Fin 0) contextDelta then js ''+'' else []) @
                  num_to_string contextDelta),
               Str
                 ((zh 16860) @
                  (if num_le (Fin 0) draftDelta then js ''+'' else []) @
                  num_to_string draftDelta),
               Str
                 ((zh 16871) @
                  to_str (js_or (fld oldRun ''aiStatus'') (S ''unknown'')) @
                  (zh 16872) @
                  to_str (js_or (fld newRun ''aiStatus'') (S ''unknown'')))]
      in obj [(''oldRunId'', fld oldRun ''id''), (''newRunId'', fld newRun ''id''),
              (''oldGoal'', js_or (fld oldRun ''goal'') (Str (zh 16930))),
              (''newGoal'', js_or (fld newRun ''goal'') (Str (zh 14721))),
              (''oldSummary'', js_or (fld oldRun ''summary'') (Str [])),
              (''newSummary'', js_or (fld newRun ''summary'') (Str [])),
              (''href'', js_or (fld action ''href'') (Str (aiMoneyRunHref (fld newRun ''id'')))),
              (''contextDelta'', Num contextDelta), (''draftDelta'', Num draftDelta),
              (''humanFactorChange'', Str humanFactorChange), (''highlights'', Arr highlights),
              (''refreshedAt'', fld action ''updatedAt'')])"

definition aiRunRefreshComparisonFromRuns :: "jsval \<Rightarrow> jsval" where
  "aiRunRefreshComparisonFromRuns runs =
     (let runs = dflt runs (Arr []);
          list = elems runs;
          byID =
              map_of_entries
                (map (\<lambda>run. Arr [Str (to_str (js_or (fld run ''id'') (Str []))), run])
                   list);
          items = [];
          items =
              fold
                (\<lambda>run items.
                   let action = persistedActionById (fld run ''actions'') (S ''refresh_context'')
                   in if fld action ''status'' \<noteq> S ''done'' \<or>
                         \<not> truthy (fld action ''relatedId'')
                      then items
                      else let next = map_get byID (Str (to_str (fld action ''relatedId'')))
                           in if \<not> truthy next
                              then items
                              else items @ [refreshComparisonItem run next action]) list items;
          items =
              js_sort
                (\<lambda>a b.
                   let at' =
                           n_or
                             (time_of
                                (date_of (Str (to_str (js_or (fld a ''refreshedAt'') (N 0))))))
                             (Fin 0);
                       bt =
                           n_or
                             (time_of
                                (date_of (Str (to_str (js_or (fld b ''refreshedAt'') (N 0))))))
                             (Fin 0)
                   in num_sub bt at') items;
          stage = if items \<noteq> [] then js ''has_changes'' else js ''empty''
      in obj [(''stage'', Str stage),
              (''tone'', Str (if items \<noteq> [] then js ''success'' else js ''default'')),
              (''title'', Str (if items \<noteq> [] then (zh 17260) else (zh 17261))),
              (''summary'', Str
                      (if items \<noteq> []
                       then (zh 17290)
                       else (zh 17300))),
              (''items'', Arr items)])"

definition recentRunOpenActionCount :: "jsval \<Rightarrow> jsnum" where
  "recentRunOpenActionCount summaries =
     (if \<not> is_arr summaries
      then Fin 0
      else js_reduce
             (\<lambda>total' run.
                let explicit = nonNegativeCount (fld run ''openActionCount'')
                in if num_lt (Fin 0) explicit
                   then num_add total' explicit
                   else num_add
                          (num_add
                             (num_add total' (nonNegativeCount (fld run ''manualActionCount'')))
                             (nonNegativeCount (fld run ''readyActionCount'')))
                          (nonNegativeCount (fld run ''blockedActionCount''))) (Fin 0)
             (elems summaries))"

definition marketMemoryTextList :: "jsval \<Rightarrow> jsval \<Rightarrow> jsval list" where
  "marketMemoryTextList value limit =
     (let limit = dflt limit (N 4);
          seen = [];
          out = [];
          (seen, out) =
              iterate
                (\<lambda>item (seen, out).
                   if list_has seen item
                   then Next (seen, out)
                   else let seen = set_add seen item;
                            out = out @ [item]
                        in if num_le (to_num limit) (len out)
                           then Break (seen, out)
                           else Next (seen, out)) (safeStringList value) (seen, out)
      in out)"

definition marketMemoryItemsFromSummaries :: "jsval \<Rightarrow> jsval list" where
  "marketMemoryItemsFromSummaries summaries =
     (let summaries = dflt summaries (Arr [])
      in take 3
           (filter truthy
              (map
                 (\<lambda>run.
                    let humanFactors = marketMemoryTextList (fld run ''humanFactors'') (N 4);
                        watchSignals =
                            marketMemoryTextList (fld run ''watchSignalHighlights'') (N 4);
                        marketRead = trim (to_str (js_or (fld run ''marketRead'') (Str [])))
                    in if marketRead = [] \<and> humanFactors = [] \<and> watchSignals = []
                       then Null
                       else let id' = trim (to_str (js_or (fld run ''id'') (Str [])))
                            in obj [(''id'', Str
                                            (s_or id'
                                               (js ''memory_'' @
                                                take 12
                                                  (to_str (js_or (fld run ''goal'') (S ''run'')))))),
                                    (''goal'', Str
                                            (trim
                                               (to_str
                                                  (js_or (js_or (fld run ''goal'') (Str id'))
                                                     (Str (zh 15501)))))),
                                    (''marketRead'', Str marketRead),
                                    (''humanFactors'', Arr humanFactors),
                                    (''watchSignals'', Arr watchSignals),
                                    (''watchSignalCount'', Num
                                            (nonNegativeCount
                                               (js_or (fld run ''watchSignalCount'')
                                                  (Num (len watchSignals))))),
                                    (''openActionCount'', Num (nonNegativeCount (fld run ''openActionCount''))),
                                    (''href'', if id' \<noteq> []
                                          then Str (js ''/ai-money?runId='' @ uri_component id')
                                          else Undef)]) (elems summaries))))"

definition marketMemoryItemsFromRuns :: "jsval \<Rightarrow> jsval list" where
  "marketMemoryItemsFromRuns runs =
     (let runs = dflt runs (Arr [])
      in filter truthy
           (map
              (\<lambda>run.
                 let analysis = fld run ''analysis''
                 in if \<not> truthy analysis
                    then Null
                    else obj [(''id'', js_or (fld run ''id'') (fld analysis ''id'')),
                              (''goal'', js_or (fld run ''goal'') (fld analysis ''goal'')),
                              (''marketRead'', fld analysis ''marketRead''),
                              (''humanFactors'', fld analysis ''humanFactors''),
                              (''watchSignalCount'', if is_arr (fld analysis ''watchSignals'')
                                    then fld (fld analysis ''watchSignals'') ''length''
                                    else N 0),
                              (''watchSignalHighlights'', Arr
                                      (if is_arr (fld analysis ''watchSignals'')
                                       then map (\<lambda>signal. fld signal ''signal'')
                                              (elems (fld analysis ''watchSignals''))
                                       else [])),
                              (''openActionCount'', Num
                                      (recentRunOpenActionCount
                                         (Arr [obj [(''openActionCount'', fld run ''openActionCount''),
                                                    (''manualActionCount'', fld run ''manualActionCount''),
                                                    (''readyActionCount'', fld run ''readyActionCount''),
                                                    (''blockedActionCount'', fld run ''blockedActionCount'')]])))])
              (elems runs)))"

definition aiMarketMemoryFromState :: "jsval \<Rightarrow> jsval \<Rightarrow> jsval" where
  "aiMarketMemoryFromState analysis runs =
     (let analysis = dflt analysis Null;
          runs = dflt runs (Arr []);
          context = js_or (fld analysis ''context'') (obj []);
          summaries =
              if is_arr (fld context ''recentRunSummaries'')
              then fld context ''recentRunSummaries''
              else Arr (marketMemoryItemsFromRuns runs);
          items = marketMemoryItemsFromSummaries summaries;
          humanCount =
              js_reduce
                (\<lambda>total' item.
                   js_plus total' (fld (fld item ''humanFactors'') ''length'')) (N 0) items;
          watchCount =
              js_reduce
                (\<lambda>total' item.
                   num_add total'
                     (num_max (to_num (fld item ''watchSignalCount''))
                        (to_num (fld (fld item ''watchSignals'') ''length'')))) (Fin 0) items;
          openActionCount =
              js_reduce (\<lambda>total' item. js_plus total' (fld item ''openActionCount''))
                (N 0) items
      in if items = []
         then obj [(''stage'', S ''empty''), (''tone'', S ''warning''),
                   (''title'', Str (zh 28930)),
                   (''summary'', Str (zh 28940)),
                   (''metrics'', Arr [obj [(''label'', Str (zh 28960)), (''value'', N 0),
                                   (''hint'', Str (zh 28961))],
                              obj [(''label'', Str (zh 25841)), (''value'', N 0),
                                   (''hint'', Str (zh 19402))],
                              obj [(''label'', Str (zh 10201)), (''value'', N 0),
                                   (''hint'', Str (zh 19402))]]),
                   (''items'', Arr []),
                   (''nextActions'', Arr [Str (zh 29020), Str (zh 29030), Str (zh 29040)]),
                   (''primaryAction'', obj [(''kind'', S ''scan_today''), (''label'', Str (zh 29060))])]
         else let latest = item_at items 0
              in obj [(''stage'', S ''remembering''),
                      (''tone'', Str
                              (if num_lt (Fin 0) (to_num openActionCount)
                               then js ''warning''
                               else js ''success'')),
                      (''title'', Str (zh 29140)),
                      (''summary'', Str
                              (to_str (fld latest ''goal'') @
                               (zh 292) @
                               to_str
                                 (js_or
                                    (js_or (fld latest ''marketRead'')
                                       (item_at (elems (fld latest ''humanFactors'')) 0))
                                    (item_at (elems (fld latest ''watchSignals'')) 0)) @
                               (if num_lt (Fin 0) (to_num openActionCount)
                                then (zh 29150) @ to_str openActionCount @ (zh 29151)
                                else (zh 270)) @
                               js '' '')),
                      (''metrics'', Arr [obj [(''label'', Str (zh 28960)), (''value'', Num (len items)),
                                      (''hint'', Str (zh 29170))],
                                 obj [(''label'', Str (zh 25841)), (''value'', humanCount),
                                      (''hint'', Str (zh 29180))],
                                 obj [(''label'', Str (zh 10201)), (''value'', Num watchCount),
                                      (''hint'', Str (zh 29190))]]),
                      (''items'', Arr items),
                      (''nextActions'', Arr [Str (zh 29230),
                                 Str (zh 29240),
                                 Str (zh 29251)]),
                      (''primaryAction'', obj [(''kind'', S ''open_memory''), (''label'', Str (zh 29270))])])"

end
