(* ===== verification/Goal_Operations.thy ===== *)
theory Goal_Operations
  imports Preset_Text Strategy_Preset Backtest_Ranking Goal_Actions Goal_Decision Goal_Form Goal_Readiness Run_Followup
begin

section \<open>Delegation, watchtower, rhythm and the daily mission\<close>

text \<open>
  A part of \<^verbatim>\<open>src/client/data/ai-goal-preset.mjs\<close>: the panels that run the
  day: who does what, what is watched, what would invalidate the thesis, the operator rhythm and
  the missions of the day. Literals that are not ASCII are looked up in \<open>Ui_Texts\<close>;
  their key is ten times the line of the source file they stand on, plus a rank.
\<close>


definition delegationMetrics :: "jsval \<Rightarrow> jsval \<Rightarrow> jsval \<Rightarrow> jsval \<Rightarrow> jsval \<Rightarrow> jsval list" where
  "delegationMetrics context runnableCount ranked candidate readiness =
     (let contextCount =
              num_add
                (num_add (to_num (js_or (fld context ''newsCount'') (N 0)))
                   (to_num (js_or (fld context ''macroCount'') (N 0))))
                (to_num (js_or (fld context ''onchainCount'') (N 0)));
          runningCount = len (filter (\<lambda>row. fld row ''score'' = Null) (elems ranked));
          completedCount =
              len (filter (\<lambda>row. fld row ''score'' \<noteq> Null) (elems ranked))
      in [obj [(''label'', Str (zh 33340)), (''value'', Str (num_to_string contextCount @ (zh 2510))),
               (''hint'', Str
                       (num_to_string (to_num (js_or (fld context ''newsCount'') (N 0))) @
                        (zh 20370) @
                        num_to_string (to_num (js_or (fld context ''macroCount'') (N 0))) @
                        (zh 20371) @
                        num_to_string (to_num (js_or (fld context ''onchainCount'') (N 0))) @
                        (zh 20372)))],
          obj [(''label'', Str (zh 19142)), (''value'', runnableCount), (''hint'', Str (zh 33410))],
          obj [(''label'', Str (zh 33440)),
               (''value'', Str
                       (if num_lt (Fin 0) runningCount
                        then num_to_string runningCount @ (zh 20480)
                        else num_to_string completedCount @ (zh 20490))),
               (''hint'', Str
                       (if truthy candidate
                        then to_str (fld candidate ''strategyId'') @ (zh 33460)
                        else (zh 33461)))],
          obj [(''label'', Str (zh 33490)),
               (''value'', js_or (fld readiness ''stage'') (S ''observe'')),
               (''hint'', js_or (fld readiness ''title'') (Str (zh 19150)))]])"

definition delegationStep :: "jsval \<Rightarrow> jsval \<Rightarrow> jsval \<Rightarrow> jsval \<Rightarrow> jsval" where
  "delegationStep owner title detail status =
     (let status = dflt status (S ''pending'')
      in obj [(''owner'', owner), (''title'', title), (''detail'', detail), (''status'', status)])"

definition aiDelegationRunbookFromState :: "jsval \<Rightarrow> jsval \<Rightarrow> jsval \<Rightarrow> jsval \<Rightarrow> jsval \<Rightarrow> jsval \<Rightarrow> date \<Rightarrow> jsval" where
  "aiDelegationRunbookFromState analysis persistedActions validationRuns accounts dailyRadarStatus providerGate clock =
     (let analysis = dflt analysis Null;
          persistedActions = dflt persistedActions (Arr []);
          validationRuns = dflt validationRuns (Arr []);
          dailyRadarStatus = dflt dailyRadarStatus Null;
          providerGate = dflt providerGate Null;
          guardrails =
              [Str (zh 33650),
               Str (zh 33660)]
      in if \<not> truthy analysis
         then let providerGateStage = lower (to_str (js_or (fld providerGate ''stage'') (Str [])))
              in if providerGateStage = js ''blocked'' \<or> providerGateStage = js ''loading''
                 then let loading = providerGateStage = js ''loading'';
                          primaryHref =
                              s_or
                                (trim
                                   (to_str
                                      (js_or (fld providerGate ''primaryHref'')
                                         (S ''/settings/ai'')))) (js ''/settings/ai'');
                          primaryLabel =
                              s_or
                                (trim
                                   (to_str
                                      (js_or (fld (fld providerGate ''primaryAction'') ''label'')
                                         (Str [])))) (if loading then (zh 11130) else (zh 12370));
                          decision =
                              s_or (trim (to_str (js_or (fld providerGate ''summary'') (Str []))))
                                (if loading
                                 then (zh 33800)
                                 else (zh 18420))
                      in obj [(''stage'', Str
                                      (if loading
                                       then js ''provider_loading''
                                       else js ''provider_blocked'')),
                              (''tone'', S ''warning''),
                              (''title'', Str (if loading then (zh 11270) else (zh 18470))),
                              (''decision'', Str decision),
                              (''primaryAction'', obj [(''kind'', S ''open_link''),
                                         (''label'', Str primaryLabel),
                                         (''href'', Str primaryHref)]),
                              (''metrics'', Arr [obj [(''label'', Str (zh 33340)), (''value'', N 0),
                                              (''hint'', Str (zh 18522))],
                                         obj [(''label'', Str (zh 19142)), (''value'', N 0),
                                              (''hint'', Str (zh 33910))],
                                         obj [(''label'', Str (zh 33440)), (''value'', Str (zh 33920)),
                                              (''hint'', Str (zh 18810))],
                                         obj [(''label'', Str (zh 33490)),
                                              (''value'', S ''provider''), (''hint'', Str (zh 33930))]]),
                              (''aiSteps'', Arr [delegationStep (S ''AI'') (Str (zh 33960))
                                           (Str (zh 33961)) Undef,
                                         delegationStep (S ''AI'') (Str (zh 33970))
                                           (Str (zh 33971)) Undef]),
                              (''humanSteps'', Arr [delegationStep (S ''human'')
                                           (Str
                                              (if loading
                                               then (zh 24231)
                                               else (zh 18971)))
                                           (Str
                                              (if loading
                                               then (zh 34030)
                                               else (zh 34031)))
                                           (S ''current''),
                                         delegationStep (S ''human'') (Str (zh 34060))
                                           (Str (zh 34061)) Undef]),
                              (''guardrails'', Arr
                                      ([Str (zh 34090)] @
                                       guardrails))]
                 else obj [(''stage'', S ''handoff''), (''tone'', S ''warning''),
                           (''title'', Str (zh 34170)),
                           (''decision'', js_or (fld dailyRadarStatus ''summary'')
                                   (Str (zh 34180))),
                           (''primaryAction'', obj [(''kind'', S ''scan_today''), (''label'', Str (zh 17871))]),
                           (''metrics'', Arr [obj [(''label'', Str (zh 33340)), (''value'', N 0),
                                           (''hint'', Str (zh 34210))],
                                      obj [(''label'', Str (zh 19142)), (''value'', N 2),
                                           (''hint'', Str (zh 34220))],
                                      obj [(''label'', Str (zh 33440)), (''value'', Str (zh 33920)),
                                           (''hint'', Str (zh 18810))],
                                      obj [(''label'', Str (zh 33490)), (''value'', S ''observe''),
                                           (''hint'', Str (zh 33930))]]),
                           (''aiSteps'', Arr [delegationStep (S ''AI'') (Str (zh 33970))
                                        (Str (zh 33972)) (S ''ready''),
                                      delegationStep (S ''AI'') (Str (zh 9342))
                                        (Str (zh 34280)) Undef]),
                           (''humanSteps'', Arr [delegationStep (S ''human'') (Str (zh 34310))
                                        (Str (zh 34311)) (S ''current''),
                                      delegationStep (S ''human'') (Str (zh 34060))
                                        (Str (zh 34061)) Undef]),
                           (''guardrails'', Arr guardrails)]
         else let context = js_or (fld analysis ''context'') (obj []);
                  notes = safeStringList (fld context ''notes'');
                  ranked = rankBacktestValidation validationRuns;
                  running = filter (\<lambda>row. fld row ''score'' = Null) ranked;
                  completed = filter (\<lambda>row. fld row ''score'' \<noteq> Null) ranked;
                  runnable = runnableBacktestRequestsFromAnalysis analysis clock;
                  candidate = paperCandidateFromValidation analysis validationRuns clock;
                  readiness =
                      aiExecutionReadinessFromState analysis persistedActions validationRuns
                        accounts clock;
                  sentiment = aiSentimentCompassFromAnalysis analysis;
                  sentimentReview = persistedActionById persistedActions (S ''sentiment_review'');
                  paperWatch = persistedActionById persistedActions (S ''paper_watch'');
                  paperWatchEvidenceComplete =
                      fld paperWatch ''status'' = S ''done'' \<and>
                      paperWatchCompletionHasEvidence paperWatch;
                  humanFactors = safeStringList (fld analysis ''humanFactors'');
                  sentimentRisks = safeStringList (fld sentiment ''risks'');
                  metrics =
                      delegationMetrics context (Num (len runnable)) (Arr ranked) candidate
                        readiness;
                  staleRadar =
                      truthy (fld dailyRadarStatus ''isStale'') \<or>
                      to_str (js_or (fld dailyRadarStatus ''stage'') (Str [])) = js ''stale''
              in if notes \<noteq> [] \<and> ranked = [] \<or> staleRadar
                 then obj [(''stage'', S ''refresh_context''), (''tone'', S ''warning''),
                           (''title'', Str (zh 34720)),
                           (''decision'', Str (zh 34730)),
                           (''primaryAction'', if staleRadar
                                 then obj [(''kind'', S ''scan_today''), (''label'', Str (zh 10740))]
                                 else obj [(''kind'', S ''open_link''),
                                           (''label'', Str (zh 34760)),
                                           (''href'', S ''/data-explorer/news'')]),
                           (''metrics'', Arr metrics),
                           (''aiSteps'', Arr [delegationStep (S ''AI'') (Str (zh 14950))
                                        (Str (zh 34790)) (S ''current''),
                                      delegationStep (S ''AI'') (Str (zh 34800))
                                        (Str (zh 34801)) Undef]),
                           (''humanSteps'', Arr [delegationStep (S ''human'') (Str (zh 34831))
                                        (js_or (item_at notes 0) (Str (zh 34832)))
                                        (S ''current'')]),
                           (''guardrails'', Arr guardrails)]
                 else if running \<noteq> []
                 then let first = item_at running 0
                      in obj [(''stage'', S ''ai_wait''), (''tone'', S ''warning''),
                              (''title'', Str (zh 34940)),
                              (''decision'', Str
                                      (num_to_string (len running) @
                                       (zh 34950))),
                              (''primaryAction'', obj [(''kind'', S ''open_link''), (''label'', Str (zh 34980)),
                                         (''href'', Str
                                                 (if truthy (fld first ''runId'')
                                                  then js ''/backtests/'' @
                                                       uri_component
                                                         (to_str (fld first ''runId''))
                                                  else js ''/backtests''))]),
                              (''metrics'', Arr metrics),
                              (''aiSteps'', Arr [delegationStep (S ''AI'') (Str (zh 35030))
                                           (Str (zh 35031)) (S ''current''),
                                         delegationStep (S ''AI'') (Str (zh 35040))
                                           (Str (zh 35041)) Undef]),
                              (''humanSteps'', Arr [delegationStep (S ''human'') (Str (zh 35070))
                                           (Str (zh 35071)) Undef]),
                              (''guardrails'', Arr guardrails)]
                 else if runnable \<noteq> [] \<and> ranked = []
                 then obj [(''stage'', S ''ai_validate''), (''tone'', S ''warning''),
                           (''title'', Str (zh 35170)),
                           (''decision'', Str
                                   ((zh 20920) @
                                    num_to_string (len runnable) @
                                    (zh 35180))),
                           (''primaryAction'', obj [(''kind'', S ''run_all_backtests''),
                                      (''label'', Str (zh 25280))]),
                           (''metrics'', Arr metrics),
                           (''aiSteps'', Arr [delegationStep (S ''AI'') (Str (zh 23191))
                                        (Str
                                           ((zh 35220) @
                                            num_to_string (len runnable) @
                                            (zh 35221))) (S ''ready''),
                                      delegationStep (S ''AI'') (Str (zh 35230))
                                        (Str (zh 35231)) Undef]),
                           (''humanSteps'', Arr [delegationStep (S ''human'') (Str (zh 22321))
                                        (Str (zh 35260)) (S ''current'')]),
                           (''guardrails'', Arr guardrails)]
                 else if truthy candidate \<and>
                         paperWatchEvidenceComplete \<and>
                         fld readiness ''stage'' = S ''testnet_ready''
                 then obj [(''stage'', S ''testnet_handoff''), (''tone'', S ''success''),
                           (''title'', Str (zh 35360)),
                           (''decision'', Str
                                   (to_str (fld candidate ''strategyId'') @
                                    (zh 35371))),
                           (''primaryAction'', obj [(''kind'', S ''open_link''), (''label'', Str (zh 35400)),
                                      (''href'', fld candidate ''strategyHref'')]),
                           (''metrics'', Arr metrics),
                           (''aiSteps'', Arr [delegationStep (S ''AI'') (Str (zh 35450))
                                        (Str (zh 35451)) (S ''ready'')]),
                           (''humanSteps'', Arr [delegationStep (S ''human'') (Str (zh 35480))
                                        (Str (zh 35481))
                                        (S ''current'')]),
                           (''guardrails'', Arr guardrails)]
                 else if truthy candidate \<and>
                         fld paperWatch ''status'' = S ''done'' \<and>
                         \<not> paperWatchEvidenceComplete
                 then obj [(''stage'', S ''paper_review''), (''tone'', S ''warning''),
                           (''title'', Str (zh 35580)),
                           (''decision'', Str
                                   (to_str (fld candidate ''strategyId'') @
                                    (zh 35590))),
                           (''primaryAction'', obj [(''kind'', S ''open_link''),
                                      (''label'', Str (zh 32680)),
                                      (''href'', js_or (fld paperWatch ''href'')
                                              (fld candidate ''backtestHref''))]),
                           (''metrics'', Arr metrics),
                           (''aiSteps'', Arr [delegationStep (S ''AI'') (Str (zh 35670))
                                        (Str (zh 35671)) (S ''done'')]),
                           (''humanSteps'', Arr [delegationStep (S ''human'') (Str (zh 13691))
                                        (Str (zh 35700)) (S ''current'')]),
                           (''guardrails'', Arr (guardrails @ [Str (zh 35740)]))]
                 else let needsHumanReview =
                              js_and
                                (js_and candidate
                                   (Bool (fld sentiment ''stage'' \<noteq> S ''balanced'')))
                                (Bool (\<not> sentimentReviewCompleted sentimentReview))
                      in if truthy needsHumanReview
                         then let firstRisk =
                                      js_or
                                        (js_or (item_at humanFactors 0) (item_at sentimentRisks 0))
                                        (Str (zh 35840))
                              in obj [(''stage'', S ''human_review''), (''tone'', S ''warning''),
                                      (''title'', Str (zh 35880)),
                                      (''decision'', Str
                                              (to_str (fld candidate ''strategyId'') @
                                               (zh 35890))),
                                      (''primaryAction'', obj [(''kind'', S ''open_link''),
                                                 (''label'', Str (zh 31890)),
                                                 (''href'', S ''/data-explorer/news'')]),
                                      (''metrics'', Arr metrics),
                                      (''aiSteps'', Arr [delegationStep (S ''AI'') (Str (zh 35970))
                                                   (Str (zh 35971)) (S ''done'')]),
                                      (''humanSteps'', Arr [delegationStep (S ''human'') (Str (zh 36000))
                                                   firstRisk (S ''current''),
                                                 delegationStep (S ''human'') (Str (zh 36011))
                                                   (Str (zh 36012)) Undef]),
                                      (''guardrails'', Arr (guardrails @ [Str (zh 36050)]))]
                         else if truthy candidate
                         then obj [(''stage'', S ''paper_handoff''), (''tone'', S ''success''),
                                   (''title'', Str (zh 36140)),
                                   (''decision'', Str
                                           (to_str (fld candidate ''strategyId'') @
                                            (zh 32890) @
                                            to_str (fld candidate ''score'') @
                                            (zh 7421) @
                                            formatPercentValue (fld candidate ''totalReturn'') @
                                            (zh 7440) @
                                            formatPercentValue (fld candidate ''maxDrawdown'') @
                                            (zh 36150))),
                                   (''primaryAction'', obj [(''kind'', S ''accept_paper_candidate''),
                                              (''label'', Str (zh 21781))]),
                                   (''metrics'', Arr metrics),
                                   (''aiSteps'', Arr [delegationStep (S ''AI'') (Str (zh 36190))
                                                (Str (zh 36191)) (S ''done''),
                                              delegationStep (S ''AI'') (Str (zh 36200))
                                                (Str (zh 36201)) Undef]),
                                   (''humanSteps'', Arr [delegationStep (S ''human'') (Str (zh 36010))
                                                (Str (zh 36230)) (S ''current''),
                                              delegationStep (S ''human'') (Str (zh 36240))
                                                (Str (zh 36241)) Undef]),
                                   (''guardrails'', Arr guardrails)]
                         else obj [(''stage'', Str
                                           (if completed \<noteq> []
                                            then js ''redesign''
                                            else js ''observe'')),
                                   (''tone'', Str
                                           (if completed \<noteq> []
                                            then js ''danger''
                                            else js ''default'')),
                                   (''title'', Str
                                           (if completed \<noteq> []
                                            then (zh 36330)
                                            else (zh 36331))),
                                   (''decision'', Str
                                           (if completed \<noteq> []
                                            then (zh 36361)
                                            else (zh 36370))),
                                   (''primaryAction'', obj [(''kind'', S ''scan_today''),
                                              (''label'', Str (zh 11452))]),
                                   (''metrics'', Arr metrics),
                                   (''aiSteps'', Arr [delegationStep (S ''AI'') (Str (zh 36410))
                                                (Str (zh 36411)) (S ''ready'')]),
                                   (''humanSteps'', Arr [delegationStep (S ''human'') (Str (zh 36440))
                                                (Str (zh 36441)) (S ''current'')]),
                                   (''guardrails'', Arr guardrails)])"

definition aiDailyMissionFromState :: "jsval \<Rightarrow> jsval \<Rightarrow> jsval \<Rightarrow> jsval \<Rightarrow> jsval \<Rightarrow> jsval \<Rightarrow> date \<Rightarrow> date \<Rightarrow> jsval" where
  "aiDailyMissionFromState analysis persistedActions validationRuns runs dailyRadarStatus providerGate now clock =
     (let analysis = dflt analysis Null;
          persistedActions = dflt persistedActions (Arr []);
          validationRuns = dflt validationRuns (Arr []);
          runs = dflt runs (Arr []);
          dailyRadarStatus = dflt dailyRadarStatus Null;
          providerGate = dflt providerGate Null
      in if \<not> truthy analysis
         then let providerGateStage = lower (to_str (js_or (fld providerGate ''stage'') (Str [])))
              in if providerGateStage = js ''blocked'' \<or> providerGateStage = js ''loading''
                 then let loading = providerGateStage = js ''loading'';
                          href =
                              s_or
                                (trim
                                   (to_str
                                      (js_or (fld providerGate ''primaryHref'')
                                         (S ''/settings/ai'')))) (js ''/settings/ai'');
                          label =
                              s_or
                                (trim
                                   (to_str
                                      (js_or (fld (fld providerGate ''primaryAction'') ''label'')
                                         (Str [])))) (if loading then (zh 11130) else (zh 12370));
                          summary =
                              s_or (trim (to_str (js_or (fld providerGate ''summary'') (Str []))))
                                (if loading
                                 then (zh 46890)
                                 else (zh 18420))
                      in obj [(''focus'', Str
                                      (if loading
                                       then js ''provider_loading''
                                       else js ''provider_blocked'')),
                              (''title'', Str (zh 46940)), (''tone'', S ''warning''),
                              (''summary'', Str summary),
                              (''tasks'', Arr [obj [(''id'', Str
                                                      (if loading
                                                       then js ''provider_loading''
                                                       else js ''provider_setup'')),
                                              (''title'', Str
                                                      (if loading
                                                       then (zh 47000)
                                                       else label)),
                                              (''detail'', Str
                                                      (if loading
                                                       then (zh 47020)
                                                       else summary)),
                                              (''priority'', S ''high''),
                                              (''status'', Str
                                                      (if loading
                                                       then js ''pending''
                                                       else js ''blocked'')),
                                              (''tone'', S ''warning''),
                                              (''actionKind'', S ''open_link''),
                                              (''href'', Str href)]])]
                 else let followupQueue = aiRunFollowupQueueFromRuns runs now validationRuns;
                          followupAction =
                              if fld followupQueue ''stage'' = S ''needs_attention''
                              then fld followupQueue ''primaryAction''
                              else Null
                      in if truthy (fld followupAction ''runId'')
                         then let runId =
                                      trim
                                        (to_str (js_or (fld followupAction ''runId'') (Str [])));
                                  item =
                                      coalesce
                                        (coalesce
                                           (js_find
                                              (\<lambda>entry. fld entry ''runId'' = Str runId)
                                              (elems (fld followupQueue ''items'')))
                                           (item_at (elems (fld followupQueue ''items'')) 0)) Null;
                                  actionKind =
                                      if fld followupAction ''kind'' = S ''validate_run''
                                      then js ''validate_run''
                                      else if fld followupAction ''kind'' = S ''refresh_run''
                                      then js ''refresh_run''
                                      else if fld followupAction ''kind'' = S ''open_link''
                                      then js ''open_link''
                                      else if fld followupAction ''kind'' = S ''open_run''
                                      then js ''open_run''
                                      else if fld followupAction ''kind'' =
                                                S ''analyze_and_validate''
                                      then js ''analyze_and_validate''
                                      else js ''open_today_run''
                              in obj [(''focus'', Str actionKind), (''title'', Str (zh 46940)),
                                      (''tone'', js_or
                                              (js_or (fld item ''tone'')
                                                 (fld followupQueue ''tone'')) (S ''warning'')),
                                      (''summary'', fld followupQueue ''summary''),
                                      (''tasks'', Arr [merge
                                                   (obj [(''id'', Str (js ''followup_'' @ runId)),
                                                         (''title'', js_or
                                                                 (js_or
                                                                    (fld followupAction ''label'')
                                                                    (fld item ''title''))
                                                                 (Str (zh 47430))),
                                                         (''detail'', js_or (fld item ''detail'')
                                                                 (fld followupQueue ''summary'')),
                                                         (''priority'', S ''high''),
                                                         (''status'', S ''ready''),
                                                         (''tone'', js_or (fld item ''tone'')
                                                                 (S ''warning'')),
                                                         (''actionKind'', Str actionKind),
                                                         (''runId'', Str runId),
                                                         (''href'', js_or
                                                                 (js_or
                                                                    (fld followupAction ''href'')
                                                                    (fld item ''href''))
                                                                 (Str (aiMoneyRunHref (Str runId))))])
                                                   (if truthy
                                                         (fld followupAction ''proposedFormState'')
                                                    then obj [(''proposedFormState'', fld followupAction
                                                                      ''proposedFormState'')]
                                                    else obj [])])]
                         else let latest = if is_arr runs then item_at (elems runs) 0 else Null;
                                  autonomousProposal =
                                      aiAutonomousGoalProposalFromState runs dailyRadarStatus
                                        clock clock;
                                  actionKind =
                                      to_str
                                        (js_or
                                           (fld (fld dailyRadarStatus ''primaryAction'') ''kind'')
                                           (S ''scan_today''));
                                  label =
                                      if actionKind = js ''scan_today'' \<or>
                                         actionKind = js ''rescan_today''
                                      then fld autonomousProposal ''title''
                                      else Str
                                             (to_str
                                                (js_or
                                                   (fld (fld dailyRadarStatus ''primaryAction'')
                                                      ''label'') (Str (zh 10940))))
                              in obj [(''focus'', Str actionKind), (''title'', Str (zh 46940)),
                                      (''tone'', S ''warning''),
                                      (''summary'', if truthy latest
                                            then fld autonomousProposal ''summary''
                                            else Str (zh 47710)),
                                      (''tasks'', Arr [obj [(''id'', S ''daily_scan''),
                                                      (''title'', label),
                                                      (''detail'', fld
                                                              (fld autonomousProposal
                                                                 ''proposedFormState'') ''goal''),
                                                      (''priority'', S ''high''),
                                                      (''status'', S ''ready''),
                                                      (''tone'', S ''warning''),
                                                      (''actionKind'', Str
                                                              (if actionKind =
                                                                    js ''open_today_run''
                                                               then js ''open_today_run''
                                                               else actionKind)),
                                                      (''proposedFormState'', fld autonomousProposal
                                                              ''proposedFormState''),
                                                      (''href'', if actionKind = js ''open_today_run'' \<and>
                                                               truthy
                                                                 (fld
                                                                    (fld dailyRadarStatus ''run'')
                                                                    ''id'')
                                                            then Str
                                                                   (aiMoneyRunHref
                                                                      (fld
                                                                         (fld dailyRadarStatus
                                                                            ''run'') ''id''))
                                                            else Undef)]])]
         else let decision = nextAIGoalDecision analysis persistedActions validationRuns clock;
                  candidate = paperCandidateFromValidation analysis validationRuns clock;
                  notes = safeStringList (fld (fld analysis ''context'') ''notes'');
                  watchSignals = elems (fld analysis ''watchSignals'');
                  strategyAction = persistedActionById persistedActions (S ''strategy'');
                  tasks = [];
                  tasks =
                      if notes \<noteq> []
                      then tasks @
                           [obj [(''id'', S ''fix_context''), (''title'', Str (zh 48010)),
                                 (''detail'', Str (js_join (zh 271) (take 2 notes))),
                                 (''priority'', S ''high''), (''status'', S ''blocked''),
                                 (''tone'', S ''warning''), (''href'', S ''/data-explorer/news'')]]
                      else tasks;
                  tasks =
                      if fld decision ''stage'' = S ''sentiment_review''
                      then tasks @
                           [obj [(''id'', S ''sentiment_review''), (''title'', Str (zh 31890)),
                                 (''detail'', js_or
                                         (Str
                                            (js_join (zh 271)
                                               (take 3 (safeStringList (fld decision ''reasons'')))))
                                         (fld decision ''summary'')),
                                 (''priority'', S ''high''), (''status'', S ''manual''),
                                 (''tone'', S ''warning''),
                                 (''actionKind'', S ''sentiment_review''),
                                 (''href'', S ''/data-explorer/news'')]]
                      else tasks;
                  tasks =
                      if fld (fld decision ''primaryAction'') ''kind'' = S ''run_all_backtests''
                      then tasks @
                           [obj [(''id'', S ''run_validation''),
                                 (''title'', fld (fld decision ''primaryAction'') ''label''),
                                 (''detail'', Str (zh 48270)),
                                 (''priority'', S ''high''), (''status'', S ''ready''),
                                 (''tone'', S ''warning''),
                                 (''actionKind'', S ''run_all_backtests'')]]
                      else if fld (fld decision ''primaryAction'') ''kind'' =
                                S ''accept_paper_candidate'' \<and>
                              truthy candidate
                      then let paperAction =
                                   paperCandidatePrimaryActionForState
                                     (fld decision ''primaryAction'') persistedActions
                           in tasks @
                              [obj [(''id'', fld paperAction ''kind''),
                                    (''title'', fld paperAction ''label''),
                                    (''detail'', Str
                                            (paperAdoptionDetailFromCandidate analysis candidate)),
                                    (''priority'', S ''high''), (''status'', S ''ready''),
                                    (''tone'', S ''success''),
                                    (''actionKind'', fld paperAction ''kind''),
                                    (''href'', fld candidate ''backtestHref'')]]
                      else if fld (fld decision ''primaryAction'') ''kind'' = S ''open_link'' \<and>
                              truthy (fld decision ''primaryHref'')
                      then tasks @
                           [obj [(''id'', S ''open_next_link''),
                                 (''title'', fld (fld decision ''primaryAction'') ''label''),
                                 (''detail'', fld decision ''summary''),
                                 (''priority'', S ''high''), (''status'', S ''ready''),
                                 (''tone'', fld decision ''tone''),
                                 (''actionKind'', S ''open_link''),
                                 (''href'', fld decision ''primaryHref'')]]
                      else if fld (fld decision ''primaryAction'') ''kind'' =
                                S ''analyze_and_validate''
                      then let proposedFormState =
                                   if fld decision ''stage'' = S ''redesign''
                                   then redesignFormStateFromWeakValidation analysis
                                          (Arr (rankBacktestValidation validationRuns)) decision
                                   else Undef
                           in tasks @
                              [merge
                                 (obj [(''id'', S ''redesign_blueprint''),
                                       (''title'', fld (fld decision ''primaryAction'') ''label''),
                                       (''detail'', js_or
                                               (Str
                                                  (js_join (zh 271)
                                                     (take 3
                                                        (safeStringList (fld decision ''reasons'')))))
                                               (fld decision ''summary'')),
                                       (''priority'', S ''high''), (''status'', S ''ready''),
                                       (''tone'', fld decision ''tone''),
                                       (''actionKind'', S ''analyze_and_validate'')])
                                 (if truthy proposedFormState
                                  then obj [(''proposedFormState'', proposedFormState)]
                                  else obj [])]
                      else tasks;
                  tasks =
                      if fld decision ''stage'' = S ''paper_watch''
                      then let tasks =
                                   if lower
                                        (to_str (js_or (fld strategyAction ''status'') (Str []))) =
                                        js ''ready'' \<and>
                                      trim (to_str (js_or (fld strategyAction ''href'') (Str []))) \<noteq>
                                        []
                                   then tasks @
                                        [obj [(''id'', S ''save_paper_strategy''),
                                              (''title'', Str (zh 48870)),
                                              (''detail'', Str
                                                      (s_or
                                                         (trim
                                                            (to_str
                                                               (js_or
                                                                  (fld strategyAction ''note'')
                                                                  (Str []))))
                                                         (zh 48900))),
                                              (''priority'', S ''high''),
                                              (''status'', S ''ready''),
                                              (''tone'', S ''success''),
                                              (''actionKind'', S ''open_link''),
                                              (''href'', fld strategyAction ''href'')]]
                                   else tasks
                           in tasks @
                              [obj [(''id'', S ''paper_watch''),
                                    (''title'', fld decision ''title''),
                                    (''detail'', js_or
                                            (Str
                                               (js_join (zh 271)
                                                  (take 2
                                                     (safeStringList (fld decision ''reasons'')))))
                                            (fld decision ''summary'')),
                                    (''priority'', S ''high''), (''status'', S ''manual''),
                                    (''tone'', fld decision ''tone''),
                                    (''actionKind'', S ''paper_watch''),
                                    (''href'', fld decision ''primaryHref'')]]
                      else tasks;
                  tasks =
                      if watchSignals \<noteq> []
                      then tasks @
                           [obj [(''id'', S ''watch_signals''), (''title'', Str (zh 49130)),
                                 (''detail'', Str
                                         (js_join (zh 271)
                                            (filter truthy
                                               (map
                                                  (\<lambda>item.
                                                     Str
                                                       (trim
                                                          (to_str
                                                             (js_or (fld item ''signal'') (Str [])))))
                                                  (take 3 watchSignals))))),
                                 (''priority'', S ''medium''), (''status'', S ''manual''),
                                 (''tone'', S ''default''), (''href'', S ''/data-explorer/news'')]]
                      else tasks;
                  tasks =
                      tasks @
                      [obj [(''id'', S ''review_gates''), (''title'', Str (zh 49280)),
                            (''detail'', Str
                                    (s_or
                                       (js_join (zh 271)
                                          (take 3
                                             (safeStringList
                                                (fld (fld analysis ''execution'') ''safetyGates''))))
                                       (zh 18871))),
                            (''priority'', S ''medium''), (''status'', S ''manual''),
                            (''tone'', S ''default''), (''href'', S ''/settings/trading'')]]
              in obj [(''focus'', fld decision ''stage''), (''title'', Str (zh 46940)),
                      (''tone'', fld decision ''tone''), (''summary'', fld decision ''summary''),
                      (''tasks'', Arr (take 5 tasks))])"

definition observationFocusItem :: "jsval \<Rightarrow> jsval \<Rightarrow> jsval \<Rightarrow> jsval \<Rightarrow> jsval \<Rightarrow> jsval \<Rightarrow> jsval" where
  "observationFocusItem id' label status tone detail href =
     (let tone = dflt tone (S ''default'')
      in merge
           (obj [(''id'', id'), (''label'', label), (''status'', status), (''tone'', tone),
                 (''detail'', detail)]) (if truthy href then obj [(''href'', href)] else obj []))"

definition aiObservationFocusFromState :: "jsval \<Rightarrow> jsval \<Rightarrow> jsval \<Rightarrow> jsval \<Rightarrow> jsval \<Rightarrow> jsval \<Rightarrow> date \<Rightarrow> jsval" where
  "aiObservationFocusFromState analysis persistedActions validationRuns runs dailyRadarStatus providerGate clock =
     (let analysis = dflt analysis Null;
          persistedActions = dflt persistedActions (Arr []);
          validationRuns = dflt validationRuns (Arr []);
          runs = dflt runs (Arr []);
          dailyRadarStatus = dflt dailyRadarStatus Null;
          providerGate = dflt providerGate Null;
          recentRuns = elems runs;
          scanAction =
              if truthy (fld dailyRadarStatus ''hasToday'') \<and>
                 truthy (fld dailyRadarStatus ''isStale'')
              then obj [(''kind'', S ''rescan_today''), (''label'', Str (zh 10740))]
              else obj [(''kind'', S ''scan_today''), (''label'', Str (zh 23680))]
      in if \<not> truthy analysis
         then let providerGateStage = lower (to_str (js_or (fld providerGate ''stage'') (Str [])))
              in if providerGateStage = js ''blocked'' \<or> providerGateStage = js ''loading''
                 then let loading = providerGateStage = js ''loading'';
                          href =
                              s_or
                                (trim
                                   (to_str
                                      (js_or (fld providerGate ''primaryHref'')
                                         (S ''/settings/ai'')))) (js ''/settings/ai'');
                          label =
                              s_or
                                (trim
                                   (to_str
                                      (js_or (fld (fld providerGate ''primaryAction'') ''label'')
                                         (Str [])))) (if loading then (zh 11130) else (zh 12370));
                          summary =
                              s_or (trim (to_str (js_or (fld providerGate ''summary'') (Str []))))
                                (if loading
                                 then (zh 23810)
                                 else (zh 18420))
                      in obj [(''stage'', Str
                                      (if loading
                                       then js ''provider_loading''
                                       else js ''provider_blocked'')),
                              (''tone'', S ''warning''),
                              (''title'', Str (if loading then (zh 11270) else (zh 18470))),
                              (''summary'', Str summary),
                              (''primaryAction'', obj [(''kind'', S ''open_link''), (''label'', Str label),
                                         (''href'', Str href)]),
                              (''primaryHref'', Str href),
                              (''items'', Arr [observationFocusItem (S ''provider'')
                                           (Str (zh 11170))
                                           (Str
                                              (if loading
                                               then js ''checking''
                                               else js ''blocked'')) (S ''warning'') (Str summary)
                                           (Str href),
                                         observationFocusItem (S ''market'') (Str (zh 272))
                                           (S ''pending'') (S ''default'')
                                           (Str (zh 24050)) Undef,
                                         observationFocusItem (S ''validation'') (Str (zh 24090))
                                           (S ''pending'') (S ''default'')
                                           (Str (zh 24120)) Undef,
                                         observationFocusItem (S ''execution'') (Str (zh 24160))
                                           (S ''blocked'') (S ''warning'')
                                           (Str (zh 24190)) Undef]),
                              (''nextActions'', Arr [Str
                                           (if loading
                                            then (zh 24230)
                                            else (zh 24232)),
                                         Str (zh 11440),
                                         Str (zh 24250)])]
                 else obj [(''stage'', S ''idle''), (''tone'', S ''warning''),
                           (''title'', Str (zh 24320)),
                           (''summary'', Str (zh 24340)),
                           (''primaryAction'', scanAction),
                           (''items'', Arr [observationFocusItem (S ''market'') (Str (zh 272))
                                        (S ''waiting_scan'') (S ''warning'')
                                        (js_or (fld dailyRadarStatus ''summary'')
                                           (Str (zh 24420))) Undef,
                                      observationFocusItem (S ''sentiment'') (Str (zh 24460))
                                        (S ''waiting_scan'') (S ''warning'')
                                        (Str (zh 24490))
                                        (S ''/data-explorer/news''),
                                      observationFocusItem (S ''validation'') (Str (zh 24090))
                                        (S ''not_started'') (S ''default'')
                                        (Str (zh 24570)) Undef,
                                      observationFocusItem (S ''execution'') (Str (zh 24160))
                                        (S ''blocked'') (S ''warning'')
                                        (Str (zh 24640)) Undef]),
                           (''nextActions'', Arr [Str
                                        (if recentRuns \<noteq> []
                                         then (zh 24680)
                                         else (zh 24681)),
                                      Str (zh 24690),
                                      Str (zh 24700)])]
         else let context = js_or (fld analysis ''context'') (obj []);
                  notes = safeStringList (fld context ''notes'');
                  symbols =
                      s_or (js_join (js '', '') (safeStringList (fld context ''symbols'')))
                        (js ''auto'');
                  newsCount = to_num (js_or (fld context ''newsCount'') (N 0));
                  macroCount = to_num (js_or (fld context ''macroCount'') (N 0));
                  onchainCount = to_num (js_or (fld context ''onchainCount'') (N 0));
                  contextTotal = num_add (num_add newsCount macroCount) onchainCount;
                  sentiment = aiSentimentCompassFromAnalysis analysis;
                  ranked = rankBacktestValidation validationRuns;
                  completedRuns = filter (\<lambda>row. fld row ''score'' \<noteq> Null) ranked;
                  runningRuns = filter (\<lambda>row. fld row ''score'' = Null) ranked;
                  validationPlan = autoValidationPlanFromAnalysis analysis clock;
                  readiness =
                      aiExecutionReadinessFromState analysis persistedActions validationRuns Undef
                        clock;
                  humanFactors = safeStringList (fld analysis ''humanFactors'');
                  watchSignals =
                      if is_arr (fld analysis ''watchSignals'')
                      then filter truthy
                             (map
                                (\<lambda>item.
                                   Str
                                     (trim
                                        (to_str
                                           (js_or
                                              (js_or (fld item ''signal'')
                                                 (fld item ''interpretation'')) (Str [])))))
                                (elems (fld analysis ''watchSignals'')))
                      else [];
                  sentimentDetail =
                      js_or
                        (Str (js_join (zh 271) (take 3 (filter truthy (humanFactors @ watchSignals)))))
                        (fld sentiment ''summary'');
                  validationStatus =
                      if completedRuns \<noteq> []
                      then js ''validated''
                      else if runningRuns \<noteq> []
                      then js ''validating''
                      else if num_lt (Fin 0) (to_num (fld validationPlan ''runnableCount''))
                      then js ''needs_backtest''
                      else js ''blocked'';
                  validationDetail =
                      if completedRuns \<noteq> []
                      then num_to_string (len completedRuns) @
                           (zh 25110) @
                           to_str (js_or (fld (item_at ranked 0) ''recommendation'') (Str (zh 25111))) @
                           (zh 270)
                      else if runningRuns \<noteq> []
                      then num_to_string (len runningRuns) @ (zh 25130)
                      else if num_lt (Fin 0) (to_num (fld validationPlan ''runnableCount''))
                      then to_str (fld validationPlan ''runnableCount'') @ (zh 25150)
                      else (zh 25160);
                  executionDetail =
                      if fld readiness ''stage'' = S ''paper_ready''
                      then (zh 25190)
                      else if fld readiness ''stage'' = S ''testnet_ready''
                      then (zh 25210)
                      else to_str (js_or (fld readiness ''summary'') (Str (zh 25220))) @
                           (zh 25221);
                  marketBlocked = notes \<noteq> [] \<or> num_eq contextTotal (Fin 0);
                  primaryAction =
                      if marketBlocked
                      then scanAction
                      else if validationStatus = js ''needs_backtest''
                      then obj [(''kind'', S ''run_all_backtests''),
                                (''label'', Str (zh 25280))]
                      else js_or (fld readiness ''primaryAction'') scanAction
              in obj [(''stage'', Str (if marketBlocked then js ''data_gap'' else js ''watching'')),
                      (''tone'', if marketBlocked
                            then S ''warning''
                            else js_or (fld sentiment ''tone'') (S ''default'')),
                      (''title'', Str (if marketBlocked then (zh 25340) else (zh 25341))),
                      (''summary'', Str
                              (if marketBlocked
                               then to_str (js_or (item_at notes 0) (Str (zh 25360))) @
                                    (zh 25361)
                               else (zh 25370) @
                                    (if validationStatus = js ''needs_backtest''
                                     then (zh 25371)
                                     else (zh 25372)) @
                                    (zh 270))),
                      (''primaryAction'', primaryAction),
                      (''primaryHref'', fld readiness ''primaryHref''),
                      (''items'', Arr [observationFocusItem (S ''market'') (Str (zh 272))
                                   (Str
                                      (if marketBlocked then js ''data_gap'' else js ''current''))
                                   (Str (if marketBlocked then js ''warning'' else js ''success''))
                                   (if marketBlocked
                                    then js_or (item_at notes 0) (Str (zh 25471))
                                    else Str
                                           ((zh 20373) @
                                            num_to_string newsCount @
                                            (zh 25480) @
                                            num_to_string macroCount @
                                            (zh 25481) @
                                            num_to_string onchainCount @
                                            (zh 25482) @
                                            symbols @
                                            (zh 270)))
                                   (if marketBlocked then S ''/data-explorer/news'' else Undef),
                                 observationFocusItem (S ''sentiment'') (Str (zh 24460))
                                   (fld sentiment ''stage'') (fld sentiment ''tone'')
                                   sentimentDetail
                                   (if fld sentiment ''stage'' \<noteq> S ''balanced''
                                    then S ''/data-explorer/news''
                                    else Undef),
                                 observationFocusItem (S ''validation'') (Str (zh 13830))
                                   (Str validationStatus)
                                   (Str
                                      (if validationStatus = js ''validated''
                                       then js ''success''
                                       else if validationStatus = js ''blocked''
                                       then js ''warning''
                                       else js ''primary'')) (Str validationDetail)
                                   (if truthy (fld (item_at ranked 0) ''runId'')
                                    then Str
                                           (js ''/backtests/'' @
                                            uri_component
                                              (to_str (fld (item_at ranked 0) ''runId'')))
                                    else Undef),
                                 observationFocusItem (S ''execution'') (Str (zh 24160))
                                   (js_or (fld readiness ''stage'') (S ''blocked''))
                                   (js_or (fld readiness ''tone'') (S ''warning''))
                                   (Str executionDetail) (fld readiness ''primaryHref'')]),
                      (''nextActions'', Arr
                              (filter truthy [Str
                                                (if marketBlocked
                                                 then (zh 25821)
                                                 else []),
                                              Str
                                                (if validationStatus = js ''needs_backtest''
                                                 then (zh 25830)
                                                 else []),
                                              Str
                                                (if fld sentiment ''stage'' \<noteq>
                                                      S ''balanced''
                                                 then (zh 25840)
                                                 else []),
                                              Str (zh 25850)]))])"

definition rhythmAgeLabel :: "jsval \<Rightarrow> jstr" where
  "rhythmAgeLabel ageHours =
     (let n = to_num ageHours
      in if \<not> is_finite n \<or> num_le n (Fin 0)
         then (zh 30420)
         else if num_lt n (Fin 1)
         then num_to_string (num_max (Fin 1) (num_round (num_mul n (Fin 60)))) @ (zh 10650)
         else num_to_string (read_number (to_fixed 1 n)) @ (zh 299))"

definition rhythmMetric :: "jsval \<Rightarrow> jsval \<Rightarrow> jsval \<Rightarrow> jsval" where
  "rhythmMetric label value hint = obj [(''label'', label), (''value'', value), (''hint'', hint)]"

definition aiOperatorRhythmFromState :: "jsval \<Rightarrow> jsval \<Rightarrow> jsval \<Rightarrow> jsval \<Rightarrow> jsval \<Rightarrow> jsval \<Rightarrow> date \<Rightarrow> date \<Rightarrow> jsval" where
  "aiOperatorRhythmFromState analysis persistedActions validationRuns runs dailyRadarStatus providerGate now clock =
     (let analysis = dflt analysis Null;
          persistedActions = dflt persistedActions (Arr []);
          validationRuns = dflt validationRuns (Arr []);
          runs = dflt runs (Arr []);
          dailyRadarStatus = dflt dailyRadarStatus Null;
          providerGate = dflt providerGate Null;
          ranked = rankBacktestValidation validationRuns;
          running = filter (\<lambda>row. fld row ''score'' = Null) ranked;
          completed = filter (\<lambda>row. fld row ''score'' \<noteq> Null) ranked;
          candidate = paperCandidateFromValidation analysis validationRuns clock;
          paperWatch = persistedActionById persistedActions (S ''paper_watch'');
          paperWatchEvidenceComplete =
              fld paperWatch ''status'' = S ''done'' \<and>
              paperWatchCompletionHasEvidence paperWatch;
          sentimentReview = persistedActionById persistedActions (S ''sentiment_review'');
          latestRun = if is_arr runs then item_at (elems runs) 0 else Null;
          guardrails = [Str (zh 30700), Str (zh 30710)]
      in if \<not> truthy analysis
         then let runCount = if is_arr runs then fld runs ''length'' else N 0;
                  providerGateStage = lower (to_str (js_or (fld providerGate ''stage'') (Str [])))
              in if providerGateStage = js ''blocked'' \<or> providerGateStage = js ''loading''
                 then let loading = providerGateStage = js ''loading'';
                          primaryHref =
                              s_or
                                (trim
                                   (to_str
                                      (js_or (fld providerGate ''primaryHref'')
                                         (S ''/settings/ai'')))) (js ''/settings/ai'');
                          primaryLabel =
                              s_or
                                (trim
                                   (to_str
                                      (js_or (fld (fld providerGate ''primaryAction'') ''label'')
                                         (Str [])))) (if loading then (zh 11130) else (zh 12370));
                          summary =
                              s_or (trim (to_str (js_or (fld providerGate ''summary'') (Str []))))
                                (if loading
                                 then (zh 30860)
                                 else (zh 18420))
                      in obj [(''stage'', Str
                                      (if loading
                                       then js ''provider_loading''
                                       else js ''provider_blocked'')),
                              (''tone'', S ''warning''),
                              (''title'', Str (if loading then (zh 11270) else (zh 18470))),
                              (''cadence'', Str (if loading then (zh 24233) else (zh 18471))),
                              (''summary'', Str summary),
                              (''primaryAction'', obj [(''kind'', S ''open_link''),
                                         (''label'', Str primaryLabel),
                                         (''href'', Str primaryHref)]),
                              (''metrics'', Arr [rhythmMetric (Str (zh 30970)) (Str (zh 6841))
                                           (Str
                                              (if truthy latestRun
                                               then (zh 30971)
                                               else (zh 30972))),
                                         rhythmMetric (Str (zh 19810)) runCount (Str (zh 30980)),
                                         rhythmMetric (Str (zh 30701))
                                           (Str (if loading then (zh 24233) else (zh 24234)))
                                           (Str (zh 31020))]),
                              (''guardrails'', Arr ([Str (zh 31060)] @ guardrails)),
                              (''checks'', Arr [Str
                                           (if loading
                                            then (zh 24230)
                                            else (zh 24232)),
                                         Str (zh 31110),
                                         Str (zh 24250)])]
                 else obj [(''stage'', S ''scan_due''), (''tone'', S ''warning''),
                           (''title'', Str (zh 31190)), (''cadence'', Str (zh 31200)),
                           (''summary'', js_or (fld dailyRadarStatus ''summary'')
                                   (Str (zh 31231))),
                           (''primaryAction'', obj [(''kind'', S ''scan_today''), (''label'', Str (zh 16220))]),
                           (''metrics'', Arr [rhythmMetric (Str (zh 30970)) (Str (zh 6841))
                                        (Str (if truthy latestRun then (zh 30971) else (zh 30972))),
                                      rhythmMetric (Str (zh 19810)) runCount (Str (zh 30980)),
                                      rhythmMetric (Str (zh 30701)) (Str (zh 231)) (Str (zh 31280))]),
                           (''guardrails'', Arr guardrails),
                           (''checks'', Arr [Str (zh 31320),
                                      Str (zh 31330),
                                      Str (zh 31340)])]
         else let analysisAgeHours = runAgeHours analysis now;
                  ageLabel = rhythmAgeLabel (Num analysisAgeHours);
                  context = js_or (fld analysis ''context'') (obj []);
                  contextCount =
                      num_add
                        (num_add (to_num (js_or (fld context ''newsCount'') (N 0)))
                           (to_num (js_or (fld context ''macroCount'') (N 0))))
                        (to_num (js_or (fld context ''onchainCount'') (N 0)));
                  drafts = elems (fld analysis ''strategyDrafts'');
                  runnable = runnableBacktestRequestsFromAnalysis analysis clock;
                  sentiment = aiSentimentCompassFromAnalysis analysis;
                  staleByAge = num_le (Fin 6) analysisAgeHours;
                  staleByRadar =
                      truthy (fld dailyRadarStatus ''isStale'') \<or>
                      to_str (js_or (fld dailyRadarStatus ''stage'') (Str [])) = js ''stale'';
                  baseMetrics =
                      [rhythmMetric (Str (zh 31530)) (Str ageLabel)
                         (Str (if staleByAge then (zh 31531) else (zh 31532))),
                       rhythmMetric (Str (zh 461))
                         (Str
                            (if running \<noteq> []
                             then num_to_string (len running) @ (zh 20480)
                             else num_to_string (len completed) @ (zh 20490)))
                         (Str (if truthy candidate then (zh 31570) else (zh 31571))),
                       rhythmMetric (Str (zh 276)) (js_or (fld sentiment ''title'') (Str (zh 31590)))
                         (Str (num_to_string contextCount @ (zh 31591)))]
              in if staleByAge \<or> staleByRadar
                 then obj [(''stage'', S ''refresh_due''), (''tone'', S ''warning''),
                           (''title'', Str (zh 31660)), (''cadence'', Str (zh 10740)),
                           (''summary'', Str
                                   ((zh 31680) @
                                    ageLabel @
                                    (zh 31681))),
                           (''primaryAction'', obj [(''kind'', S ''refresh_run''), (''label'', Str (zh 31710)),
                                      (''runId'', fld analysis ''id''),
                                      (''href'', Str (aiMoneyRunHref (fld analysis ''id'')))]),
                           (''metrics'', Arr baseMetrics), (''guardrails'', Arr guardrails),
                           (''checks'', Arr [Str ((zh 31780) @ ageLabel @ (zh 270)),
                                      Str (zh 31790),
                                      Str (zh 31800)])]
                 else if fld sentiment ''stage'' \<noteq> S ''balanced'' \<and>
                         \<not> sentimentReviewCompleted sentimentReview
                 then obj [(''stage'', S ''slow_down''), (''tone'', S ''warning''),
                           (''title'', Str (zh 31891)), (''cadence'', Str (zh 31900)),
                           (''summary'', Str (zh 31921)),
                           (''primaryAction'', obj [(''kind'', S ''open_link''), (''label'', Str (zh 31890)),
                                      (''href'', S ''/data-explorer/news'')]),
                           (''metrics'', Arr baseMetrics),
                           (''guardrails'', Arr (guardrails @ [Str (zh 32010)])),
                           (''checks'', Arr
                                   (filter truthy
                                      (take 3 (safeStringList (fld sentiment ''risks'')) @
                                       [Str (zh 32050)])))]
                 else if running \<noteq> []
                 then obj [(''stage'', S ''validating''), (''tone'', S ''warning''),
                           (''title'', Str (zh 32141)), (''cadence'', Str (zh 32150)),
                           (''summary'', Str
                                   (num_to_string (len running) @
                                    (zh 32160))),
                           (''primaryAction'', obj [(''kind'', S ''open_link''), (''label'', Str (zh 15560)),
                                      (''href'', Str
                                              (if truthy (fld (item_at running 0) ''runId'')
                                               then js ''/backtests/'' @
                                                    uri_component
                                                      (to_str (fld (item_at running 0) ''runId''))
                                               else js ''/backtests''))]),
                           (''metrics'', Arr baseMetrics), (''guardrails'', Arr guardrails),
                           (''checks'', Arr [Str (zh 32250),
                                      Str (zh 32260),
                                      Str (zh 32271)])]
                 else if runnable \<noteq> [] \<and> ranked = []
                 then obj [(''stage'', S ''validate_ready''), (''tone'', S ''warning''),
                           (''title'', Str (zh 32360)), (''cadence'', Str (zh 15090)),
                           (''summary'', Str
                                   ((zh 20920) @
                                    num_to_string (len drafts) @
                                    (zh 32381) @
                                    num_to_string (len runnable) @
                                    (zh 32382))),
                           (''primaryAction'', obj [(''kind'', S ''run_all_backtests''),
                                      (''label'', Str (zh 32390))]),
                           (''metrics'', Arr baseMetrics), (''guardrails'', Arr guardrails),
                           (''checks'', Arr [Str (zh 32430),
                                      Str (zh 26370),
                                      Str (zh 32450)])]
                 else if truthy candidate \<and>
                         list_has [S ''manual'', S ''done'']
                           (Str (lower (to_str (js_or (fld paperWatch ''status'') (Str [])))))
                 then let paperEvidenceMissing =
                              fld paperWatch ''status'' = S ''done'' \<and>
                              \<not> paperWatchEvidenceComplete
                      in obj [(''stage'', S ''paper_watch''),
                              (''tone'', Str
                                      (if paperWatchEvidenceComplete
                                       then js ''success''
                                       else js ''warning'')),
                              (''title'', Str
                                      (if paperEvidenceMissing
                                       then (zh 13690)
                                       else if paperWatchEvidenceComplete
                                       then (zh 32580)
                                       else (zh 7742))),
                              (''cadence'', Str (zh 32600)),
                              (''summary'', if paperEvidenceMissing
                                    then Str
                                           (to_str (fld candidate ''strategyId'') @
                                            (zh 32630))
                                    else js_or (fld paperWatch ''note'')
                                           (Str
                                              (to_str (fld candidate ''strategyId'') @
                                               (zh 32650)))),
                              (''primaryAction'', obj [(''kind'', S ''open_link''),
                                         (''label'', Str (zh 32680)),
                                         (''href'', js_or (fld paperWatch ''href'')
                                                 (fld candidate ''backtestHref''))]),
                              (''metrics'', Arr baseMetrics), (''guardrails'', Arr guardrails),
                              (''checks'', Arr [Str
                                           (if paperEvidenceMissing
                                            then (zh 32750)
                                            else (zh 32760)),
                                         Str (zh 32770),
                                         Str (zh 32780)])]
                 else if truthy candidate
                 then obj [(''stage'', S ''paper_candidate''), (''tone'', S ''success''),
                           (''title'', Str (zh 32870)), (''cadence'', Str (zh 32880)),
                           (''summary'', Str
                                   (to_str (fld candidate ''strategyId'') @
                                    (zh 32890) @
                                    to_str (fld candidate ''score'') @
                                    (zh 7421) @
                                    formatPercentValue (fld candidate ''totalReturn'') @
                                    (zh 7440) @
                                    formatPercentValue (fld candidate ''maxDrawdown'') @
                                    (zh 32891))),
                           (''primaryAction'', obj [(''kind'', S ''accept_paper_candidate''),
                                      (''label'', Str (zh 21781))]),
                           (''metrics'', Arr baseMetrics), (''guardrails'', Arr guardrails),
                           (''checks'', Arr [Str (zh 32940),
                                      Str (zh 32950),
                                      Str (zh 32961)])]
                 else obj [(''stage'', S ''observe''),
                           (''tone'', Str
                                   (if completed \<noteq> []
                                    then js ''warning''
                                    else js ''default'')),
                           (''title'', Str (if completed \<noteq> [] then (zh 33040) else (zh 33041))),
                           (''cadence'', Str (zh 33050)),
                           (''summary'', Str
                                   (if completed \<noteq> []
                                    then (zh 33080)
                                    else (zh 33090))),
                           (''primaryAction'', obj [(''kind'', S ''scan_today''), (''label'', Str (zh 11452))]),
                           (''metrics'', Arr baseMetrics), (''guardrails'', Arr guardrails),
                           (''checks'', Arr [Str (zh 33140),
                                      Str (zh 33150),
                                      Str (zh 33160)])])"

definition invalidationMetric :: "jsval \<Rightarrow> jsval \<Rightarrow> jsval \<Rightarrow> jsval" where
  "invalidationMetric label value hint =
     obj [(''label'', label), (''value'', value), (''hint'', hint)]"

definition watchSignalLines :: "jsval \<Rightarrow> jsval list" where
  "watchSignalLines analysis =
     (if is_arr (fld analysis ''watchSignals'')
      then filter truthy
             (map
                (\<lambda>item.
                   Str
                     (let signal = trim (to_str (js_or (fld item ''signal'') (Str [])));
                          interpretation =
                              trim (to_str (js_or (fld item ''interpretation'') (Str [])));
                          action = trim (to_str (js_or (fld item ''action'') (Str [])))
                      in if signal = []
                         then []
                         else js_join (zh 292)
                                (filter truthy [Str signal, Str interpretation, Str action])))
                (elems (fld analysis ''watchSignals'')))
      else [])"

definition aiThesisInvalidationFromState :: "jsval \<Rightarrow> jsval \<Rightarrow> jsval \<Rightarrow> date \<Rightarrow> jsval" where
  "aiThesisInvalidationFromState analysis validationRuns persistedActions clock =
     (let analysis = dflt analysis Null;
          validationRuns = dflt validationRuns (Arr []);
          persistedActions = dflt persistedActions (Arr []);
          guardrails = [Str (zh 36740), Str (zh 36750)]
      in if \<not> truthy analysis
         then obj [(''stage'', S ''needs_thesis''), (''tone'', S ''warning''),
                   (''title'', Str (zh 36820)),
                   (''summary'', Str (zh 36830)),
                   (''primaryAction'', obj [(''kind'', S ''scan_today''), (''label'', Str (zh 36860))]),
                   (''metrics'', Arr [invalidationMetric (Str (zh 36821)) (Str (zh 6841)) (Str (zh 36890)),
                              invalidationMetric (Str (zh 35972)) (Str (zh 36900)) (Str (zh 36901)),
                              invalidationMetric (Str (zh 200)) (Str (zh 2531)) (Str (zh 36910))]),
                   (''invalidators'', Arr [Str (zh 36930)]),
                   (''monitors'', Arr [Str (zh 36940)]),
                   (''stopRules'', Arr [Str (zh 36950)]),
                   (''guardrails'', Arr guardrails)]
         else let context = js_or (fld analysis ''context'') (obj []);
                  notes = safeStringList (fld context ''notes'');
                  ranked = rankBacktestValidation validationRuns;
                  completed = filter (\<lambda>row. fld row ''score'' \<noteq> Null) ranked;
                  best = coalesce (item_at ranked 0) Null;
                  candidate = paperCandidateFromValidation analysis validationRuns clock;
                  sentiment = aiSentimentCompassFromAnalysis analysis;
                  sentimentReview = persistedActionById persistedActions (S ''sentiment_review'');
                  paperPlan = paperObservationPlanFromCandidate analysis candidate;
                  watchLines = watchSignalLines analysis;
                  humanFactors = safeStringList (fld analysis ''humanFactors'');
                  contextCount =
                      num_add
                        (num_add (to_num (js_or (fld context ''newsCount'') (N 0)))
                           (to_num (js_or (fld context ''macroCount'') (N 0))))
                        (to_num (js_or (fld context ''onchainCount'') (N 0)));
                  baseMetrics =
                      [invalidationMetric (Str (zh 37170)) (Num contextCount)
                         (Str
                            ((zh 37191) @
                             num_to_string (to_num (js_or (fld context ''newsCount'') (N 0))) @
                             js ''/'' @
                             num_to_string (to_num (js_or (fld context ''macroCount'') (N 0))) @
                             js ''/'' @
                             num_to_string (to_num (js_or (fld context ''onchainCount'') (N 0))))),
                       invalidationMetric (Str (zh 461))
                         (Str
                            (if truthy best
                             then to_str (fld best ''recommendation'') @
                                  (if fld best ''score'' = Null
                                   then []
                                   else js '' '' @ to_str (fld best ''score''))
                             else (zh 29450)))
                         (Str (if truthy candidate then (zh 31570) else (zh 37240))),
                       invalidationMetric (Str (zh 31922))
                         (js_or (fld sentiment ''title'') (Str (zh 31590)))
                         (js_or (fld sentiment ''stage'') (S ''unknown''))]
              in if notes \<noteq> [] \<and> completed = []
                 then obj [(''stage'', S ''data_gap''), (''tone'', S ''warning''),
                           (''title'', Str (zh 37330)),
                           (''summary'', Str (zh 37340)),
                           (''primaryAction'', obj [(''kind'', S ''open_link''), (''label'', Str (zh 37370)),
                                      (''href'', S ''/data-explorer/news'')]),
                           (''metrics'', Arr baseMetrics),
                           (''invalidators'', Arr (take 5 notes)),
                           (''monitors'', Arr
                                   (filter truthy
                                      ([Str (zh 37430), Str (zh 37440)] @
                                       take 2 watchLines))),
                           (''stopRules'', Arr [Str (zh 37480), Str (zh 37491)]),
                           (''guardrails'', Arr guardrails)]
                 else if \<not> truthy candidate \<and> completed \<noteq> []
                 then obj [(''stage'', S ''invalidated_by_backtest''), (''tone'', S ''danger''),
                           (''title'', Str (zh 37590)),
                           (''summary'', Str (zh 37600)),
                           (''primaryAction'', obj [(''kind'', S ''scan_today''), (''label'', Str (zh 15580))]),
                           (''metrics'', Arr baseMetrics),
                           (''invalidators'', Arr
                                   (map
                                      (\<lambda>row.
                                         Str
                                           (to_str
                                              (js_or (fld row ''strategyId'') (fld row ''runId'')) @
                                            js '': '' @
                                            to_str (fld row ''recommendation'') @
                                            (zh 10061) @
                                            to_str (fld row ''score'') @
                                            (zh 7421) @
                                            formatPercentValue (fld row ''totalReturn'') @
                                            (zh 7440) @
                                            formatPercentValue (fld row ''maxDrawdown'')))
                                      (take 4 completed))),
                           (''monitors'', Arr [Str (zh 37700),
                                      Str (zh 37710),
                                      Str (zh 37720)]),
                           (''stopRules'', Arr [Str (zh 33150), Str (zh 37760)]),
                           (''guardrails'', Arr guardrails)]
                 else if fld sentiment ''stage'' \<noteq> S ''balanced'' \<and>
                         \<not> sentimentReviewCompleted sentimentReview
                 then obj [(''stage'', S ''pressure_test''), (''tone'', S ''warning''),
                           (''title'', Str (zh 37860)),
                           (''summary'', Str (zh 37870)),
                           (''primaryAction'', obj [(''kind'', S ''open_link''), (''label'', Str (zh 37900)),
                                      (''href'', S ''/data-explorer/news'')]),
                           (''metrics'', Arr baseMetrics),
                           (''invalidators'', Arr
                                   (filter truthy
                                      (take 3 humanFactors @
                                       take 3 watchLines @
                                       take 3 (safeStringList (fld sentiment ''risks''))))),
                           (''monitors'', Arr [Str (zh 38000),
                                      Str (zh 38010),
                                      Str (zh 38020)]),
                           (''stopRules'', if num_lt (Fin 0)
                                      (to_num (fld (fld paperPlan ''stopRules'') ''length''))
                                 then fld paperPlan ''stopRules''
                                 else Arr [Str (zh 38070),
                                           Str (zh 38071)]),
                           (''guardrails'', Arr guardrails)]
                 else if truthy candidate
                 then obj [(''stage'', S ''watch_thesis''), (''tone'', S ''success''),
                           (''title'', Str (zh 38160)),
                           (''summary'', Str
                                   (to_str (fld candidate ''strategyId'') @
                                    (zh 38170))),
                           (''primaryAction'', obj [(''kind'', S ''open_link''), (''label'', Str (zh 38200)),
                                      (''href'', fld candidate ''backtestHref'')]),
                           (''metrics'', Arr baseMetrics),
                           (''invalidators'', Arr
                                   (filter truthy
                                      ([Str
                                          ((zh 38251) @
                                           formatPercentValue (fld candidate ''totalReturn'') @
                                           (zh 38252))] @
                                       take 2 humanFactors))),
                           (''monitors'', Arr (take 4 watchLines @ [Str (zh 38300)])),
                           (''stopRules'', if num_lt (Fin 0)
                                      (to_num (fld (fld paperPlan ''stopRules'') ''length''))
                                 then fld paperPlan ''stopRules''
                                 else Arr [Str (zh 38350)]),
                           (''guardrails'', Arr guardrails)]
                 else obj [(''stage'', S ''observe''), (''tone'', S ''default''),
                           (''title'', Str (zh 38430)),
                           (''summary'', Str (zh 38440)),
                           (''primaryAction'', obj [(''kind'', S ''run_all_backtests''),
                                      (''label'', Str (zh 38470))]),
                           (''metrics'', Arr baseMetrics),
                           (''invalidators'', Arr [Str (zh 38500), Str (zh 38501)]),
                           (''monitors'', Arr
                                   (if watchLines \<noteq> []
                                    then take 4 watchLines
                                    else [Str (zh 38510)])),
                           (''stopRules'', Arr [Str (zh 38520), Str (zh 33140)]),
                           (''guardrails'', Arr guardrails)])"

definition watchtowerSignal :: "jsval \<Rightarrow> jsval \<Rightarrow> jsval \<Rightarrow> jsval \<Rightarrow> jsval \<Rightarrow> jsval \<Rightarrow> jsval" where
  "watchtowerSignal id' label source severity detail action =
     (let severity = dflt severity (S ''watch'')
      in obj [(''id'', id'),
              (''label'', Str (trim (to_str (js_or (js_or label source) (Str (zh 10201)))))),
              (''source'', Str (trim (to_str (js_or source (S ''market''))))),
              (''severity'', severity),
              (''detail'', Str (trim (to_str (js_or detail (Str (zh 42830)))))),
              (''action'', Str (trim (to_str (js_or action (Str (zh 42840))))))])"

definition watchtowerContextSignalsFromAnalysis :: "jsval \<Rightarrow> jsval \<Rightarrow> jsval list" where
  "watchtowerContextSignalsFromAnalysis analysis severity =
     (let severity = dflt severity (S ''watch'');
          highlights = elems (fld (fld analysis ''context'') ''marketContextHighlights'')
      in map_idx
           (\<lambda>highlight index.
              watchtowerSignal
                (Str (js ''context_'' @ to_str (js_or (fld highlight ''id'') (Num index))))
                (js_or (js_or (fld highlight ''label'') (fld highlight ''source''))
                   (Str ((zh 42950) @ num_to_string (num_add index (Fin 1)))))
                (js_or (fld highlight ''source'') (S ''context'')) severity
                (js_or (js_or (fld highlight ''detail'') (fld highlight ''label''))
                   (Str (zh 42980))) (Str (zh 42990)))
           (take 6 highlights))"

definition watchtowerSignalsFromAnalysis :: "jsval \<Rightarrow> jsval \<Rightarrow> jsval list" where
  "watchtowerSignalsFromAnalysis analysis severity =
     (let severity = dflt severity (S ''watch'');
          signals = watchtowerContextSignalsFromAnalysis analysis severity;
          watchSignals = elems (fld analysis ''watchSignals'');
          signals =
              fold
                (\<lambda>(index, signal) signals.
                   let label =
                           trim
                             (to_str
                                (js_or (js_or (fld signal ''signal'') (fld signal ''source''))
                                   (Str
                                      ((zh 43080) @
                                       num_to_string (num_add (Fin (of_nat index)) (Fin 1))))))
                   in if label = []
                      then signals
                      else signals @
                           [watchtowerSignal
                              (Str (js ''watch_'' @ num_to_string (Fin (of_nat index))))
                              (Str label) (js_or (fld signal ''source'') (S ''market'')) severity
                              (js_or (fld signal ''interpretation'') (Str label))
                              (js_or (fld signal ''action'') (Str (zh 43170)))])
                (enumerate 0 watchSignals) signals
      in fold
           (\<lambda>(index, factor) signals.
              signals @
              [watchtowerSignal (Str (js ''human_'' @ num_to_string (Fin (of_nat index)))) factor
                 (S ''human'')
                 (Str (if severity = S ''high'' then js ''high'' else js ''medium'')) factor
                 (Str (zh 43300))])
           (enumerate 0 (safeStringList (fld analysis ''humanFactors''))) signals)"

definition watchtowerBaseStopRules :: "jsval list" where
  "watchtowerBaseStopRules = [Str (zh 43400), Str (zh 43410)]"

definition watchtowerMetrics :: "jsval \<Rightarrow> jsval \<Rightarrow> jsval \<Rightarrow> jsval \<Rightarrow> jsval list" where
  "watchtowerMetrics context ranked candidate sentiment =
     (let contextValue =
              num_to_string (to_num (js_or (fld context ''newsCount'') (N 0))) @
              js ''/'' @
              num_to_string (to_num (js_or (fld context ''macroCount'') (N 0))) @
              js ''/'' @
              num_to_string (to_num (js_or (fld context ''onchainCount'') (N 0)))
      in [obj [(''label'', Str (zh 22011)),
               (''value'', Str
                       (if truthy candidate
                        then (zh 10120)
                        else if list_ex (\<lambda>row. fld row ''score'' = Null) (elems ranked)
                        then (zh 34981)
                        else (zh 10940))),
               (''hint'', js_or (fld sentiment ''title'') (Str (zh 43510)))],
          obj [(''label'', Str (zh 2720)), (''value'', Str contextValue), (''hint'', Str (zh 37190))],
          obj [(''label'', Str (zh 461)),
               (''value'', if fld ranked ''length'' = N 0
                     then Str (zh 29450)
                     else if list_ex (\<lambda>row. fld row ''score'' = Null) (elems ranked)
                     then Str (zh 20481)
                     else js_or (fld (item_at (elems ranked) 0) ''recommendation'') (Str (zh 300))),
               (''hint'', js_or
                       (js_or (fld (item_at (elems ranked) 0) ''strategyId'')
                          (fld (item_at (elems ranked) 0) ''runId'')) (Str (zh 43660)))]])"

definition aiMarketWatchtowerFromState :: "jsval \<Rightarrow> jsval \<Rightarrow> jsval \<Rightarrow> jsval \<Rightarrow> date \<Rightarrow> jsval" where
  "aiMarketWatchtowerFromState analysis persistedActions validationRuns dailyRadarStatus clock =
     (let analysis = dflt analysis Null;
          persistedActions = dflt persistedActions (Arr []);
          validationRuns = dflt validationRuns (Arr []);
          dailyRadarStatus = dflt dailyRadarStatus Null
      in if \<not> truthy analysis
         then obj [(''stage'', S ''scan''), (''tone'', S ''warning''),
                   (''title'', Str (zh 43810)),
                   (''summary'', js_or (fld dailyRadarStatus ''summary'')
                           (Str (zh 43840))),
                   (''primaryAction'', js_or (fld dailyRadarStatus ''primaryAction'')
                           (obj [(''kind'', S ''scan_today''), (''label'', Str (zh 10940))])),
                   (''metrics'', Arr [obj [(''label'', Str (zh 22011)), (''value'', Str (zh 10940)),
                                   (''hint'', Str (zh 43880))],
                              obj [(''label'', Str (zh 10202)), (''value'', N 3),
                                   (''hint'', Str (zh 37190))],
                              obj [(''label'', Str (zh 200)), (''value'', Str (zh 231)),
                                   (''hint'', Str (zh 39430))]]),
                   (''signals'', Arr [watchtowerSignal (S ''idle_news'') (Str (zh 43950)) (S ''news'')
                                (S ''watch'') (Str (zh 43980)) (Str (zh 43990)),
                              watchtowerSignal (S ''idle_macro'') (Str (zh 44030)) (S ''macro'')
                                (S ''watch'') (Str (zh 44060)) (Str (zh 43990)),
                              watchtowerSignal (S ''idle_onchain'') (Str (zh 363)) (S ''onchain'')
                                (S ''watch'') (Str (zh 44140)) (Str (zh 43990))]),
                   (''stopRules'', Arr watchtowerBaseStopRules),
                   (''nextChecks'', Arr [Str (zh 44190), Str (zh 29020), Str (zh 44191)])]
         else let context = js_or (fld analysis ''context'') (obj []);
                  notes = safeStringList (fld context ''notes'');
                  contextCount =
                      num_add
                        (num_add (to_num (js_or (fld context ''newsCount'') (N 0)))
                           (to_num (js_or (fld context ''macroCount'') (N 0))))
                        (to_num (js_or (fld context ''onchainCount'') (N 0)));
                  ranked = rankBacktestValidation validationRuns;
                  candidate = paperCandidateFromValidation analysis validationRuns clock;
                  sentiment = aiSentimentCompassFromAnalysis analysis;
                  sentimentReview = persistedActionById persistedActions (S ''sentiment_review'');
                  decision = nextAIGoalDecision analysis persistedActions validationRuns clock;
                  baseStopRules = watchtowerBaseStopRules;
                  metrics = watchtowerMetrics context (Arr ranked) candidate sentiment
              in if notes \<noteq> [] \<or> num_eq contextCount (Fin 0)
                 then let signals =
                              if notes \<noteq> []
                              then map_idx
                                     (\<lambda>note index.
                                        watchtowerSignal (Str (js ''gap_'' @ num_to_string index))
                                          (Str (zh 41251)) (S ''context'') (S ''high'') note
                                          (Str (zh 44450))) (take 5 notes)
                              else [watchtowerSignal (S ''gap_empty_context'') (Str (zh 44510))
                                      (S ''context'') (S ''high'') (Str (zh 44540))
                                      (Str (zh 25361))]
                      in obj [(''stage'', S ''data_gap''), (''tone'', S ''warning''),
                              (''title'', Str (zh 44610)),
                              (''summary'', Str (zh 44620)),
                              (''primaryAction'', obj [(''kind'', S ''rescan_today''),
                                         (''label'', Str (zh 25362))]),
                              (''metrics'', Arr metrics), (''signals'', Arr signals),
                              (''stopRules'', Arr ([Str (zh 44660)] @ baseStopRules)),
                              (''nextChecks'', Arr [Str (zh 44670),
                                         Str (zh 44671),
                                         Str (zh 44672)])]
                 else let running = filter (\<lambda>row. fld row ''score'' = Null) ranked
                      in if running \<noteq> []
                         then obj [(''stage'', S ''validating''), (''tone'', S ''warning''),
                                   (''title'', Str (zh 44760)),
                                   (''summary'', Str
                                           (num_to_string (len running) @
                                            (zh 44770))),
                                   (''primaryHref'', if truthy (fld (item_at running 0) ''runId'')
                                         then Str
                                                (js ''/backtests/'' @
                                                 uri_component
                                                   (to_str (fld (item_at running 0) ''runId'')))
                                         else Undef),
                                   (''primaryAction'', if truthy (fld (item_at running 0) ''runId'')
                                         then obj [(''kind'', S ''open_link''),
                                                   (''label'', Str (zh 7071))]
                                         else Undef),
                                   (''metrics'', Arr metrics),
                                   (''signals'', Arr
                                           (take 6
                                              ([watchtowerSignal (S ''validation_running'')
                                                  (Str (zh 6361)) (S ''validation'') (S ''medium'')
                                                  (Str
                                                     (js_join (zh 277)
                                                        (map
                                                           (\<lambda>row.
                                                              js_or (fld row ''strategyId'')
                                                                (fld row ''runId''))
                                                           (take 3 running))))
                                                  (Str (zh 44880))] @
                                               watchtowerSignalsFromAnalysis analysis
                                                 (S ''watch'')))),
                                   (''stopRules'', Arr ([Str (zh 44920)] @ baseStopRules)),
                                   (''nextChecks'', Arr [Str (zh 44930), Str (zh 35041)])]
                         else let needsSentimentReview =
                                      js_and
                                        (js_and candidate
                                           (Bool (fld sentiment ''stage'' \<noteq> S ''balanced'')))
                                        (Bool (\<not> sentimentReviewCompleted sentimentReview))
                              in if truthy needsSentimentReview
                                 then obj [(''stage'', S ''sentiment_review''),
                                           (''tone'', S ''warning''),
                                           (''title'', Str (zh 45030)),
                                           (''summary'', Str
                                                   (to_str (fld candidate ''strategyId'') @
                                                    (zh 45040) @
                                                    to_str (fld sentiment ''title'') @
                                                    (zh 45041))),
                                           (''primaryHref'', S ''/data-explorer/news''),
                                           (''primaryAction'', obj [(''kind'', S ''open_link''),
                                                      (''label'', Str (zh 17950))]),
                                           (''metrics'', Arr metrics),
                                           (''signals'', Arr
                                                   (take 6
                                                      (watchtowerSignalsFromAnalysis analysis
                                                         (S ''high'') @
                                                       map_idx
                                                         (\<lambda>risk index.
                                                            watchtowerSignal
                                                              (Str
                                                                 (js ''sentiment_'' @
                                                                  num_to_string index)) risk
                                                              (S ''sentiment'') (S ''high'') risk
                                                              (Str (zh 45170)))
                                                         (elems (fld sentiment ''risks''))))),
                                           (''stopRules'', Arr
                                                   ([Str (zh 38070)] @
                                                    baseStopRules)),
                                           (''nextChecks'', Arr [Str (zh 45220),
                                                      Str (zh 45221),
                                                      Str (zh 45222)])]
                                 else if truthy candidate
                                 then let safetyGates =
                                              safeStringList
                                                (fld (fld analysis ''execution'') ''safetyGates'')
                                      in obj [(''stage'', S ''paper_watch''),
                                              (''tone'', S ''success''),
                                              (''title'', Str (zh 45310)),
                                              (''summary'', Str
                                                      (to_str (fld candidate ''strategyId'') @
                                                       (zh 45320))),
                                              (''primaryHref'', fld candidate ''backtestHref''),
                                              (''primaryAction'', obj [(''kind'', S ''accept_paper_candidate''),
                                                         (''label'', Str (zh 36010))]),
                                              (''metrics'', Arr metrics),
                                              (''signals'', Arr
                                                      (take 6
                                                         (watchtowerSignalsFromAnalysis analysis
                                                            (S ''watch'')))),
                                              (''stopRules'', Arr
                                                      (take 6
                                                         ([Str
                                                             ((zh 45380) @
                                                              formatPercentValue
                                                                (Num
                                                                   (paperDrawdownLimit candidate)) @
                                                              (zh 45381))] @
                                                          map
                                                            (\<lambda>gate.
                                                               Str
                                                                 ((zh 45390) @ to_str gate @ (zh 270)))
                                                            (take 3 safetyGates) @
                                                          baseStopRules))),
                                              (''nextChecks'', Arr [Str (zh 45420),
                                                         Str (zh 45421),
                                                         Str (zh 45422)])]
                                 else obj [(''stage'', fld decision ''stage''),
                                           (''tone'', fld decision ''tone''),
                                           (''title'', Str (zh 45490)),
                                           (''summary'', Str
                                                   (to_str (fld decision ''summary'') @
                                                    (zh 45500))),
                                           (''primaryHref'', fld decision ''primaryHref''),
                                           (''primaryAction'', fld decision ''primaryAction''),
                                           (''metrics'', Arr metrics),
                                           (''signals'', Arr
                                                   (take 6
                                                      (watchtowerSignalsFromAnalysis analysis
                                                         (S ''watch'')))),
                                           (''stopRules'', Arr baseStopRules),
                                           (''nextChecks'', if num_lt (Fin 0)
                                                      (to_num
                                                         (fld (fld decision ''nextActions'')
                                                            ''length''))
                                                 then js_slice 0 (Some 4)
                                                        (fld decision ''nextActions'')
                                                 else Arr [Str (zh 45590),
                                                           Str (zh 45591)])])"

end
