(* ===== verification/Command_Center.thy ===== *)
theory Command_Center
  imports Preset_Text Strategy_Preset Backtest_Ranking Goal_Actions Goal_Decision Goal_Form Goal_Readiness Run_Followup Goal_Operations
begin

section \<open>The command center, the autonomous command and the brief\<close>

text \<open>
  A part of \<^verbatim>\<open>src/client/data/ai-goal-preset.mjs\<close>: the panels at the top
  of the page: the command center, the action of the moment, the autonomous command with its
  safety wording, and the money brief with its audit. Literals that are not ASCII are looked up in
  \<open>Ui_Texts\<close>; their key is ten times the line of the source file they stand on, plus
  a rank.
\<close>


definition commandEvidenceItem :: "jsval \<Rightarrow> jsval \<Rightarrow> jsval \<Rightarrow> jsval \<Rightarrow> jsval \<Rightarrow> jsval" where
  "commandEvidenceItem id' label status detail href =
     (let tone =
              if status = S ''done''
              then js ''success''
              else if status = S ''blocked''
              then js ''danger''
              else if status = S ''current''
              then js ''warning''
              else js ''default''
      in merge
           (obj [(''id'', id'), (''label'', label), (''status'', status), (''tone'', Str tone),
                 (''detail'', detail)]) (if truthy href then obj [(''href'', href)] else obj []))"

definition handoffCountsFromRunbook :: "jsval \<Rightarrow> jsval" where
  "handoffCountsFromRunbook runbook =
     (let countActionable =
              \<lambda>steps.
                if is_arr steps
                then len
                       (filter
                          (\<lambda>step.
                             fld step ''status'' = S ''ready'' \<or>
                             fld step ''status'' = S ''current'') (elems steps))
                else Fin 0
      in obj [(''ai'', Num (countActionable (fld runbook ''aiSteps''))),
              (''human'', Num (countActionable (fld runbook ''humanSteps'')))])"

definition commandPrimaryAction :: "jsval \<Rightarrow> jsval \<Rightarrow> jsval \<Rightarrow> jsval" where
  "commandPrimaryAction decision readiness analysis =
     (if \<not> truthy analysis
      then obj [(''kind'', S ''analyze_and_validate''), (''label'', Str (zh 17870))]
      else if truthy (fld decision ''primaryAction'')
      then fld decision ''primaryAction''
      else if truthy (fld decision ''primaryHref'')
      then obj [(''kind'', S ''open_link''),
                (''label'', Str
                        (if fld decision ''stage'' = S ''sentiment_review''
                         then (zh 17950)
                         else (zh 17960)))]
      else if truthy (fld readiness ''primaryAction'')
      then fld readiness ''primaryAction''
      else Undef)"

definition aiCommandCenterFromState :: "jsval \<Rightarrow> jsval \<Rightarrow> jsval \<Rightarrow> jsval \<Rightarrow> jsval \<Rightarrow> jsval \<Rightarrow> jsval \<Rightarrow> date \<Rightarrow> jsval" where
  "aiCommandCenterFromState analysis persistedActions validationRuns runs accounts dailyRadarStatus providerGate clock =
     (let analysis = dflt analysis Null;
          persistedActions = dflt persistedActions (Arr []);
          validationRuns = dflt validationRuns (Arr []);
          runs = dflt runs (Arr []);
          dailyRadarStatus = dflt dailyRadarStatus Null;
          providerGate = dflt providerGate Null;
          runQueue = aiRunFollowupQueueFromRuns runs clock Undef
      in if \<not> truthy analysis
         then let latestRuns = if is_arr runs then fld runs ''length'' else N 0;
                  providerGateStage = lower (to_str (js_or (fld providerGate ''stage'') (Str [])))
              in if providerGateStage = js ''blocked'' \<or> providerGateStage = js ''loading''
                 then let loading = providerGateStage = js ''loading'';
                          primaryHref =
                              s_or
                                (trim
                                   (to_str
                                      (js_or (fld providerGate ''primaryHref'')
                                         (S ''/settings/ai'')))) (js ''/settings/ai'');
                          primaryLabel =
                              s_or
                                (trim
                                   (to_str
                                      (js_or (fld (fld providerGate ''primaryAction'') ''label'')
                                         (Str [])))) (if loading then (zh 11130) else (zh 12370));
                          summary =
                              s_or (trim (to_str (js_or (fld providerGate ''summary'') (Str []))))
                                (if loading
                                 then (zh 18410)
                                 else (zh 18420))
                      in obj [(''stage'', Str
                                      (if loading
                                       then js ''provider_loading''
                                       else js ''provider_blocked'')),
                              (''tone'', S ''warning''),
                              (''title'', Str (if loading then (zh 11270) else (zh 18470))),
                              (''summary'', Str summary),
                              (''primaryAction'', obj [(''kind'', S ''open_link''),
                                         (''label'', Str primaryLabel)]),
                              (''primaryHref'', Str primaryHref),
                              (''metrics'', Arr [obj [(''label'', Str (zh 16870)),
                                              (''value'', Str (if loading then (zh 18520) else (zh 18521))),
                                              (''hint'', Str (zh 18522))],
                                         obj [(''label'', Str (zh 2390)), (''value'', latestRuns),
                                              (''hint'', fld runQueue ''title'')],
                                         obj [(''label'', Str (zh 18540)),
                                              (''value'', Str (zh 18541)),
                                              (''hint'', Str (zh 18542))],
                                         obj [(''label'', Str (zh 200)), (''value'', Str (zh 18550)),
                                              (''hint'', Str (zh 18551))]]),
                              (''evidence'', Arr [commandEvidenceItem (S ''provider'')
                                           (Str (zh 11170))
                                           (Str
                                              (if loading then js ''current'' else js ''blocked''))
                                           (Str summary) (Str primaryHref),
                                         commandEvidenceItem (S ''market_context'')
                                           (Str (zh 18670)) (S ''pending'')
                                           (Str (zh 18690)) Undef,
                                         commandEvidenceItem (S ''strategy_drafts'') (Str (zh 9340))
                                           (S ''pending'') (Str (zh 18750)) Undef,
                                         commandEvidenceItem (S ''validation'') (Str (zh 13830))
                                           (S ''pending'') (Str (zh 18811)) Undef,
                                         commandEvidenceItem (S ''safety_gates'') (Str (zh 14610))
                                           (S ''blocked'') (Str (zh 18870))
                                           Undef]),
                              (''nextActions'', Arr
                                      (if loading
                                       then [Str (zh 18920),
                                             Str (zh 18930),
                                             Str (zh 18940)]
                                       else [Str (zh 18970),
                                             Str (zh 18980),
                                             Str (zh 18990)]))]
                 else obj [(''stage'', S ''scan''), (''tone'', S ''warning''),
                           (''title'', Str (zh 19070)),
                           (''summary'', Str (zh 19090)),
                           (''primaryAction'', obj [(''kind'', S ''analyze_and_validate''),
                                      (''label'', Str (zh 17870))]),
                           (''metrics'', Arr [obj [(''label'', Str (zh 16870)), (''value'', Str (zh 19120)),
                                           (''hint'', Str (zh 19121))],
                                      obj [(''label'', Str (zh 2390)), (''value'', latestRuns),
                                           (''hint'', fld runQueue ''title'')],
                                      obj [(''label'', Str (zh 18540)), (''value'', Str (zh 19140)),
                                           (''hint'', Str (zh 19141))],
                                      obj [(''label'', Str (zh 200)), (''value'', Str (zh 19150)),
                                           (''hint'', Str (zh 19151))]]),
                           (''evidence'', Arr [commandEvidenceItem (S ''market_context'')
                                        (Str (zh 18670)) (S ''current'')
                                        (js_or (fld dailyRadarStatus ''summary'')
                                           (Str (zh 19220))) Undef,
                                      commandEvidenceItem (S ''strategy_drafts'') (Str (zh 9340))
                                        (S ''pending'') (Str (zh 19280)) Undef,
                                      commandEvidenceItem (S ''validation'') (Str (zh 13830))
                                        (S ''pending'') (Str (zh 18811)) Undef,
                                      commandEvidenceItem (S ''human_sentiment'') (Str (zh 16830))
                                        (S ''pending'') (Str (zh 19400)) Undef,
                                      commandEvidenceItem (S ''safety_gates'') (Str (zh 14610))
                                        (S ''blocked'') (Str (zh 18870))
                                        Undef]),
                           (''nextActions'', Arr [Str (zh 19500),
                                      Str (zh 19510),
                                      Str (zh 19520)]),
                           (''primaryHref'', Undef)]
         else let decision = nextAIGoalDecision analysis persistedActions validationRuns clock;
                  readiness =
                      aiExecutionReadinessFromState analysis persistedActions validationRuns
                        accounts clock;
                  sentiment = aiSentimentCompassFromAnalysis analysis;
                  ranked = rankBacktestValidation validationRuns;
                  completedRuns = filter (\<lambda>row. fld row ''score'' \<noteq> Null) ranked;
                  runningRuns = filter (\<lambda>row. fld row ''score'' = Null) ranked;
                  context = js_or (fld analysis ''context'') (obj []);
                  notes = safeStringList (fld context ''notes'');
                  recentRunSummaries = elems (fld context ''recentRunSummaries'');
                  recentRunCount =
                      num_max (to_num (js_or (fld context ''recentRunCount'') (N 0)))
                        (len recentRunSummaries);
                  recentRunLabels =
                      filter truthy
                        (map
                           (\<lambda>run.
                              Str
                                (let goal =
                                         trim
                                           (to_str
                                              (js_or (js_or (fld run ''goal'') (fld run ''id''))
                                                 (Str (zh 19810))));
                                     summary =
                                         trim (to_str (js_or (fld run ''summary'') (Str [])))
                                 in if summary \<noteq> [] then goal @ (zh 292) @ summary else goal))
                           (take 2 recentRunSummaries));
                  openMemoryActionCount = recentRunOpenActionCount (Arr recentRunSummaries);
                  memoryActionSuffix =
                      if num_lt (Fin 0) openMemoryActionCount
                      then (zh 19880) @ num_to_string openMemoryActionCount @ (zh 19881)
                      else [];
                  contextCount =
                      num_add
                        (num_add (to_num (js_or (fld context ''newsCount'') (N 0)))
                           (to_num (js_or (fld context ''macroCount'') (N 0))))
                        (to_num (js_or (fld context ''onchainCount'') (N 0)));
                  drafts = elems (fld analysis ''strategyDrafts'');
                  humanFactors = safeStringList (fld analysis ''humanFactors'');
                  sentimentReview = persistedActionById persistedActions (S ''sentiment_review'');
                  validationStatus =
                      if completedRuns \<noteq> []
                      then js ''done''
                      else if runningRuns \<noteq> []
                      then js ''current''
                      else js ''pending'';
                  sentimentDone =
                      fld sentiment ''stage'' = S ''balanced'' \<or>
                      sentimentReviewCompleted sentimentReview;
                  safetyDone =
                      list_has [S ''paper_ready'', S ''paper_watch'', S ''testnet_ready'']
                        (fld readiness ''stage'');
                  primaryAction =
                      paperCandidatePrimaryActionForState
                        (commandPrimaryAction decision readiness analysis) persistedActions;
                  primaryHref =
                      js_or
                        (js_or
                           (js_or (fld decision ''primaryHref'') (fld readiness ''primaryHref''))
                           (fld primaryAction ''href'')) Undef;
                  handoffCounts =
                      handoffCountsFromRunbook
                        (aiDelegationRunbookFromState analysis persistedActions validationRuns
                           accounts dailyRadarStatus Undef clock)
              in obj [(''stage'', if fld decision ''stage'' = S ''paper_candidate'' \<and>
                               fld readiness ''stage'' = S ''paper_ready''
                            then S ''paper_candidate''
                            else fld decision ''stage''),
                      (''tone'', fld decision ''tone''),
                      (''title'', if fld decision ''stage'' = S ''paper_candidate''
                            then Str (zh 20230)
                            else fld decision ''title''),
                      (''summary'', Str
                              (to_str (fld decision ''summary'') @
                               (zh 20250) @
                               to_str (coalesce (fld readiness ''score'') (N 0)) @
                               (zh 20251))),
                      (''primaryAction'', primaryAction), (''primaryHref'', primaryHref),
                      (''metrics'', Arr [obj [(''label'', Str (zh 16870)),
                                      (''value'', fld decision ''title''),
                                      (''hint'', js_or (fld (fld analysis ''ai'') ''status'')
                                              (Str (zh 20320)))],
                                 obj [(''label'', Str (zh 2720)),
                                      (''value'', Str (num_to_string contextCount @ (zh 2510))),
                                      (''hint'', Str
                                              (num_to_string
                                                 (to_num (js_or (fld context ''newsCount'') (N 0))) @
                                               (zh 20370) @
                                               num_to_string
                                                 (to_num
                                                    (js_or (fld context ''macroCount'') (N 0))) @
                                               (zh 20371) @
                                               num_to_string
                                                 (to_num
                                                    (js_or (fld context ''onchainCount'') (N 0))) @
                                               (zh 20372)))],
                                 obj [(''label'', Str (zh 10830)), (''value'', Num (len drafts)),
                                      (''hint'', js_or (fld (fld analysis ''execution'') ''mode'')
                                              (S ''observe''))],
                                 obj [(''label'', Str (zh 461)),
                                      (''value'', Str
                                              (if runningRuns \<noteq> []
                                               then num_to_string (len runningRuns) @ (zh 20480)
                                               else num_to_string (len completedRuns) @ (zh 20490))),
                                      (''hint'', js_or (fld (item_at ranked 0) ''recommendation'')
                                              (Str (zh 6972)))],
                                 obj [(''label'', Str (zh 18523)),
                                      (''value'', Str
                                              (to_str (coalesce (fld readiness ''score'') (N 0)) @
                                               js ''%'')),
                                      (''hint'', fld readiness ''stage'')],
                                 obj [(''label'', Str (zh 18540)),
                                      (''value'', Str
                                              (to_str (fld handoffCounts ''ai'') @
                                               js '' AI / '' @
                                               to_str (fld handoffCounts ''human'') @
                                               (zh 18543))),
                                      (''hint'', Str
                                              ((zh 20600) @
                                               to_str (fld handoffCounts ''ai'') @
                                               (zh 20601) @
                                               to_str (fld handoffCounts ''human'') @
                                               (zh 20602)))]]),
                      (''evidence'', Arr [commandEvidenceItem (S ''market_context'') (Str (zh 18670))
                                   (Str
                                      (if notes \<noteq> [] \<or> num_eq contextCount (Fin 0)
                                       then js ''current''
                                       else js ''done''))
                                   (Str
                                      (if notes \<noteq> []
                                       then js_join (zh 271) (take 2 notes)
                                       else (zh 20710) @ num_to_string contextCount @ (zh 20711)))
                                   (if notes \<noteq> []
                                    then S ''/data-explorer/news''
                                    else Undef),
                                 commandEvidenceItem (S ''ai_memory'') (Str (zh 20760))
                                   (Str
                                      (if num_lt (Fin 0) recentRunCount
                                       then js ''done''
                                       else js ''pending''))
                                   (Str
                                      (if num_lt (Fin 0) recentRunCount
                                       then js_join (js '' '')
                                              (filter truthy [Str
                                                                ((zh 20810) @
                                                                 num_to_string recentRunCount @
                                                                 (zh 20811) @
                                                                 s_or
                                                                   (js_join (zh 271) recentRunLabels)
                                                                   (zh 20812) @
                                                                 (zh 270)),
                                                              Str memoryActionSuffix])
                                       else (zh 20840))) Undef,
                                 commandEvidenceItem (S ''strategy_drafts'') (Str (zh 9340))
                                   (Str
                                      (if drafts \<noteq> [] then js ''done'' else js ''pending''))
                                   (Str
                                      (if drafts \<noteq> []
                                       then (zh 20920) @ num_to_string (len drafts) @ (zh 20921)
                                       else (zh 20930))) Undef,
                                 commandEvidenceItem (S ''validation'') (Str (zh 13830))
                                   (Str validationStatus)
                                   (Str
                                      (if completedRuns \<noteq> []
                                       then num_to_string (len completedRuns) @
                                            (zh 21010) @
                                            to_str
                                              (js_or (fld (item_at ranked 0) ''recommendation'')
                                                 (Str (zh 21011))) @
                                            (zh 270)
                                       else if runningRuns \<noteq> []
                                       then num_to_string (len runningRuns) @ (zh 21030)
                                       else (zh 21040)))
                                   (if truthy (fld (item_at ranked 0) ''runId'')
                                    then Str
                                           (js ''/backtests/'' @
                                            uri_component
                                              (to_str (fld (item_at ranked 0) ''runId'')))
                                    else Undef),
                                 commandEvidenceItem (S ''human_sentiment'') (Str (zh 16830))
                                   (Str (if sentimentDone then js ''done'' else js ''current''))
                                   (if humanFactors \<noteq> []
                                    then Str (js_join (zh 271) (take 2 humanFactors))
                                    else fld sentiment ''summary'')
                                   (if sentimentDone then Undef else S ''/data-explorer/news''),
                                 commandEvidenceItem (S ''safety_gates'') (Str (zh 14610))
                                   (Str (if safetyDone then js ''done'' else js ''current''))
                                   (js_or (item_at (elems (fld readiness ''blockers'')) 0)
                                      (Str (zh 21230)))
                                   (fld readiness ''primaryHref''),
                                 commandEvidenceItem (S ''run_queue'') (Str (zh 20813))
                                   (Str
                                      (if num_lt (Fin 0)
                                            (to_num (fld (fld runQueue ''items'') ''length''))
                                       then js ''current''
                                       else js ''done'')) (fld runQueue ''summary'')
                                   (fld (fld runQueue ''primaryAction'') ''href'')]),
                      (''nextActions'', if num_lt (Fin 0)
                                 (to_num (fld (fld decision ''nextActions'') ''length''))
                            then fld decision ''nextActions''
                            else if num_lt (Fin 0)
                                      (to_num (fld (fld readiness ''blockers'') ''length''))
                            then fld readiness ''blockers''
                            else Arr [Str (zh 21390)])])"

definition autonomousCommandStage :: "jsval \<Rightarrow> jsval \<Rightarrow> jsval \<Rightarrow> jsval" where
  "autonomousCommandStage primaryAction analysis commandCenter =
     (let kind = to_str (js_or (fld primaryAction ''kind'') (Str []))
      in if \<not> truthy analysis
         then Str
                (if kind = js ''open_link'' \<or>
                    kind = js ''open_run'' \<or>
                    kind = js ''open_today_run''
                 then js ''followup''
                 else if kind = js ''validate_run'' \<or> kind = js ''run_all_backtests''
                 then js ''ai_validate''
                 else if kind = js ''refresh_run'' \<or> kind = js ''rescan_today''
                 then js ''refresh_context''
                 else if kind = js ''analyze_and_validate'' \<and>
                         truthy (fld primaryAction ''proposedFormState'')
                 then js ''redesign''
                 else js ''start'')
         else if kind = js ''run_all_backtests''
         then S ''ai_validate''
         else if kind = js ''accept_paper_candidate'' \<or>
                 kind = js ''save_and_accept_paper_candidate''
         then S ''paper_candidate''
         else if kind = js ''complete_manual_action''
         then S ''human_review''
         else if kind = js ''refresh_run'' \<or> kind = js ''rescan_today''
         then S ''refresh_context''
         else js_or (js_or (fld commandCenter ''stage'') (Str kind)) (S ''review''))"

definition shouldPrioritizeNoAnalysisFollowup :: "jsval \<Rightarrow> bool" where
  "shouldPrioritizeNoAnalysisFollowup nowAction =
     (let kind = to_str (js_or (fld (fld nowAction ''primaryAction'') ''kind'') (Str []))
      in if kind = []
         then False
         else \<not> list_has [S ''scan_today'', S ''rescan_today''] (Str kind))"

definition autonomousPrimaryActionForState :: "jsval \<Rightarrow> jsval \<Rightarrow> jsval" where
  "autonomousPrimaryActionForState primaryAction persistedActions =
     paperCandidatePrimaryActionForState primaryAction persistedActions"

definition autonomousSafetyForAction :: "jsval \<Rightarrow> jsval \<Rightarrow> jsval" where
  "autonomousSafetyForAction primaryAction nowAction =
     (let kind = to_str (js_or (fld primaryAction ''kind'') (Str []))
      in if kind = js ''run_all_backtests''
         then Str (zh 21720)
         else if kind = js ''save_and_accept_paper_candidate''
         then Str (zh 21750)
         else if kind = js ''accept_paper_candidate''
         then Str (zh 21780)
         else if kind = js ''complete_manual_action''
         then js_or (fld nowAction ''guardrail'') (Str (zh 21810))
         else Str
                (if kind = js ''open_link''
                 then (zh 21840)
                 else (zh 21860)))"

definition autonomousAIWillDo :: "jsval \<Rightarrow> jsval \<Rightarrow> jsval list" where
  "autonomousAIWillDo primaryAction autopilot =
     (let kind = to_str (js_or (fld primaryAction ''kind'') (Str []))
      in if kind = js ''run_all_backtests''
         then [Str (zh 21930),
               Str (zh 21940),
               Str (zh 21950)]
         else if kind = js ''accept_paper_candidate''
         then [Str (zh 22000), Str (zh 22010), Str (zh 22020)]
         else if kind = js ''save_and_accept_paper_candidate''
         then [Str (zh 22070),
               Str (zh 22080),
               Str (zh 22020)]
         else if kind = js ''open_link''
         then [Str (zh 22140),
               Str (zh 22150),
               Str (zh 22160)]
         else let available = safeStringList (fld autopilot ''aiAvailableSteps'')
              in if available \<noteq> []
                 then take 4 available
                 else [Str (zh 22220), Str (zh 22230), Str (zh 22240)])"

definition autonomousHumanMustDo :: "jsval \<Rightarrow> jsval \<Rightarrow> jsval \<Rightarrow> jsval list" where
  "autonomousHumanMustDo primaryAction autopilot nowAction =
     (let kind = to_str (js_or (fld primaryAction ''kind'') (Str []))
      in if kind = js ''run_all_backtests''
         then [Str (zh 22320), Str (zh 22330), Str (zh 22341)]
         else if kind = js ''complete_manual_action''
         then take 4 (safeStringList (fld nowAction ''nextActions''))
         else if kind = js ''save_and_accept_paper_candidate''
         then [Str (zh 22420),
               Str (zh 22430),
               Str (zh 22440)]
         else if kind = js ''open_link''
         then [Str (zh 22490),
               Str (zh 22500),
               Str (zh 22510)]
         else let required = safeStringList (fld autopilot ''humanRequiredSteps'')
              in if required \<noteq> []
                 then take 4 required
                 else [Str (zh 22570), Str (zh 22580)])"

definition nowActionOwner :: "jsval \<Rightarrow> jstr" where
  "nowActionOwner actionKind =
     (if to_str (js_or actionKind (Str [])) = js ''analyze_and_validate'' \<or>
         to_str (js_or actionKind (Str [])) = js ''scan_today'' \<or>
         to_str (js_or actionKind (Str [])) = js ''rescan_today'' \<or>
         to_str (js_or actionKind (Str [])) = js ''open_today_run'' \<or>
         to_str (js_or actionKind (Str [])) = js ''open_run'' \<or>
         to_str (js_or actionKind (Str [])) = js ''validate_run'' \<or>
         to_str (js_or actionKind (Str [])) = js ''refresh_run'' \<or>
         to_str (js_or actionKind (Str [])) = js ''run_all_backtests'' \<or>
         to_str (js_or actionKind (Str [])) = js ''accept_paper_candidate'' \<or>
         to_str (js_or actionKind (Str [])) = js ''save_and_accept_paper_candidate''
      then js ''AI''
      else (zh 18544))"

definition actionableMissionTask :: "jsval \<Rightarrow> jsval" where
  "actionableMissionTask tasks =
     (if \<not> is_arr tasks
      then Null
      else coalesce
             (coalesce
                (js_find
                   (\<lambda>task.
                      list_has [S ''ready'', S ''manual'', S ''blocked'']
                        (Str (to_str (js_or (fld task ''status'') (Str []))))) (elems tasks))
                (item_at (elems tasks) 0)) Null)"

definition nowActionPrimaryFromTask :: "jsval \<Rightarrow> jsval \<Rightarrow> jsval \<Rightarrow> jsval" where
  "nowActionPrimaryFromTask task dailyRadarStatus candidate =
     (let actionKind = to_str (js_or (fld task ''actionKind'') (Str []));
          label = to_str (js_or (js_or (fld task ''title'') (fld task ''label'')) (Str (zh 49740)))
      in if actionKind = js ''open_today_run'' \<and>
            truthy (fld (fld dailyRadarStatus ''run'') ''id'')
         then obj [(''primaryAction'', obj [(''kind'', S ''open_link''), (''label'', Str label)]),
                   (''primaryHref'', Str (aiMoneyRunHref (fld (fld dailyRadarStatus ''run'') ''id'')))]
         else if actionKind = js ''open_link''
         then obj [(''primaryAction'', obj [(''kind'', S ''open_link''), (''label'', Str label)]),
                   (''primaryHref'', fld task ''href'')]
         else if actionKind = js ''open_run''
         then obj [(''primaryAction'', obj [(''kind'', S ''open_link''), (''label'', Str label)]),
                   (''primaryHref'', js_or (fld task ''href'')
                           (if truthy (fld task ''runId'')
                            then Str (aiMoneyRunHref (fld task ''runId''))
                            else Undef))]
         else if actionKind = js ''validate_run'' \<or> actionKind = js ''refresh_run''
         then obj [(''primaryAction'', merge
                           (merge (obj [(''kind'', Str actionKind), (''label'', Str label)])
                              (if truthy (fld task ''runId'')
                               then obj [(''runId'', fld task ''runId'')]
                               else obj []))
                           (if truthy (fld task ''href'')
                            then obj [(''href'', fld task ''href'')]
                            else obj [])),
                   (''primaryHref'', fld task ''href'')]
         else if actionKind = js ''sentiment_review''
         then obj [(''primaryAction'', obj [(''kind'', S ''complete_manual_action''),
                              (''label'', Str (zh 50080)),
                              (''actionId'', S ''sentiment_review'')]),
                   (''primaryHref'', js_or (fld task ''href'') (S ''/data-explorer/news''))]
         else if actionKind = js ''paper_watch''
         then obj [(''primaryAction'', obj [(''kind'', S ''complete_manual_action''),
                              (''label'', Str (zh 32960)), (''actionId'', S ''paper_watch'')]),
                   (''primaryHref'', fld task ''href'')]
         else if actionKind = js ''accept_paper_candidate'' \<or>
                 actionKind = js ''save_and_accept_paper_candidate''
         then obj [(''primaryAction'', obj [(''kind'', Str actionKind), (''label'', Str label)]),
                   (''primaryHref'', js_or (fld candidate ''backtestHref'') (fld task ''href''))]
         else if actionKind = js ''run_all_backtests''
         then obj [(''primaryAction'', obj [(''kind'', S ''run_all_backtests''), (''label'', Str label)]),
                   (''primaryHref'', Undef)]
         else if actionKind = js ''analyze_and_validate''
         then obj [(''primaryAction'', merge
                           (merge
                              (merge
                                 (obj [(''kind'', S ''analyze_and_validate''),
                                       (''label'', Str label)])
                                 (if truthy (fld task ''runId'')
                                  then obj [(''runId'', fld task ''runId'')]
                                  else obj []))
                              (if truthy (fld task ''href'')
                               then obj [(''href'', fld task ''href'')]
                               else obj []))
                           (if truthy (fld task ''proposedFormState'')
                            then obj [(''proposedFormState'', fld task ''proposedFormState'')]
                            else obj [])),
                   (''primaryHref'', fld task ''href'')]
         else obj [(''primaryAction'', obj [(''kind'', Str
                                      (if actionKind = js ''rescan_today''
                                       then js ''rescan_today''
                                       else js ''scan_today'')),
                              (''label'', Str label)]),
                   (''primaryHref'', Undef)])"

definition aiNowActionFromState :: "jsval \<Rightarrow> jsval \<Rightarrow> jsval \<Rightarrow> jsval \<Rightarrow> jsval \<Rightarrow> jsval \<Rightarrow> date \<Rightarrow> date \<Rightarrow> jsval" where
  "aiNowActionFromState analysis persistedActions validationRuns runs dailyRadarStatus providerGate now clock =
     (let analysis = dflt analysis Null;
          persistedActions = dflt persistedActions (Arr []);
          validationRuns = dflt validationRuns (Arr []);
          runs = dflt runs (Arr []);
          dailyRadarStatus = dflt dailyRadarStatus Null;
          providerGate = dflt providerGate Null;
          providerGateStage = lower (to_str (js_or (fld providerGate ''stage'') (Str [])))
      in if \<not> truthy analysis \<and>
            (providerGateStage = js ''blocked'' \<or> providerGateStage = js ''loading'')
         then let loading = providerGateStage = js ''loading'';
                  primaryHref =
                      s_or
                        (trim
                           (to_str (js_or (fld providerGate ''primaryHref'') (S ''/settings/ai''))))
                        (js ''/settings/ai'');
                  primaryLabel =
                      s_or
                        (trim
                           (to_str
                              (js_or (fld (fld providerGate ''primaryAction'') ''label'') (Str []))))
                        (if loading then (zh 11130) else (zh 12370));
                  summary =
                      s_or (trim (to_str (js_or (fld providerGate ''summary'') (Str []))))
                        (if loading
                         then (zh 46890)
                         else (zh 18420))
              in obj [(''stage'', Str
                              (if loading
                               then js ''provider_loading''
                               else js ''provider_blocked'')),
                      (''tone'', S ''warning''), (''owner'', Str (zh 18544)),
                      (''title'', Str (if loading then (zh 11270) else (zh 18470))),
                      (''summary'', Str summary), (''primaryHref'', Str primaryHref),
                      (''primaryAction'', obj [(''kind'', S ''open_link''), (''label'', Str primaryLabel)]),
                      (''guardrail'', Str (zh 51350)),
                      (''why'', Arr [Str
                                   (if loading
                                    then (zh 51370)
                                    else (zh 51371)),
                                 Str (zh 51380)]),
                      (''handoff'', Str (zh 51400)),
                      (''nextActions'', Arr [Str
                                   (if loading
                                    then (zh 24230)
                                    else (zh 51420)),
                                 Str (zh 11440),
                                 Str (zh 51440)])]
         else let mission =
                      aiDailyMissionFromState analysis persistedActions validationRuns runs
                        dailyRadarStatus providerGate now clock;
                  candidate = paperCandidateFromValidation analysis validationRuns clock
              in if \<not> truthy analysis
                 then let task = actionableMissionTask (fld mission ''tasks'');
                          primaryAction =
                              fld (nowActionPrimaryFromTask task dailyRadarStatus candidate)
                                ''primaryAction'';
                          primaryHref =
                              fld (nowActionPrimaryFromTask task dailyRadarStatus candidate)
                                ''primaryHref''
                      in obj [(''stage'', js_or (fld primaryAction ''kind'') (S ''scan_today'')),
                              (''tone'', js_or (js_or (fld task ''tone'') (fld mission ''tone''))
                                      (S ''warning'')),
                              (''owner'', S ''AI''), (''title'', Str (zh 51660)),
                              (''summary'', fld mission ''summary''),
                              (''primaryAction'', primaryAction), (''primaryHref'', primaryHref),
                              (''proposedFormState'', fld task ''proposedFormState''),
                              (''scanFormState'', fld task ''proposedFormState''),
                              (''proposalCard'', if truthy (fld task ''proposedFormState'')
                                    then aiGoalProposalCardFromFormState
                                           (fld task ''proposedFormState'')
                                    else Undef),
                              (''guardrail'', Str (zh 21860)),
                              (''why'', Arr
                                      (filter truthy [js_or (fld task ''detail'')
                                                        (Str (zh 51760))])),
                              (''handoff'', Str (zh 51770)),
                              (''nextActions'', Arr [Str (zh 51790),
                                         Str (zh 51800),
                                         Str (zh 51810)])]
                 else let paperWatch = persistedActionById persistedActions (S ''paper_watch'')
                      in if fld paperWatch ''status'' = S ''done'' \<and>
                            \<not> paperWatchCompletionHasEvidence paperWatch
                         then obj [(''stage'', S ''paper_review''), (''tone'', S ''warning''),
                                   (''owner'', Str (zh 18544)), (''title'', Str (zh 13690)),
                                   (''summary'', Str (zh 51930)),
                                   (''primaryAction'', obj [(''kind'', S ''complete_manual_action''),
                                              (''label'', Str (zh 13690)),
                                              (''actionId'', S ''paper_watch'')]),
                                   (''primaryHref'', js_or (fld paperWatch ''href'')
                                           (Str (aiMoneyRunHref (fld analysis ''id'')))),
                                   (''guardrail'', Str (zh 52000)),
                                   (''why'', Arr [Str (zh 52020),
                                              Str (zh 52030)]),
                                   (''handoff'', Str (zh 52050)),
                                   (''nextActions'', Arr [Str (zh 52070),
                                              Str (zh 35700),
                                              Str (zh 52090)])]
                         else let decision =
                                      nextAIGoalDecision analysis persistedActions validationRuns
                                        clock;
                                  task = actionableMissionTask (fld mission ''tasks'');
                                  primaryAction =
                                      fld
                                        (nowActionPrimaryFromTask task dailyRadarStatus candidate)
                                        ''primaryAction'';
                                  primaryHref =
                                      fld
                                        (nowActionPrimaryFromTask task dailyRadarStatus candidate)
                                        ''primaryHref'';
                                  owner =
                                      nowActionOwner
                                        (js_or (fld task ''actionKind'')
                                           (fld primaryAction ''kind''));
                                  why =
                                      filter truthy
                                        ([fld task ''detail'',
                                          Str
                                            (if truthy candidate
                                             then to_str (fld candidate ''strategyId'') @
                                                  (zh 32890) @
                                                  to_str (fld candidate ''score'') @
                                                  (zh 7421) @
                                                  formatPercentValue
                                                    (fld candidate ''totalReturn'') @
                                                  (zh 7440) @
                                                  formatPercentValue
                                                    (fld candidate ''maxDrawdown'') @
                                                  (zh 270)
                                             else [])] @
                                         take 2 (safeStringList (fld decision ''reasons'')));
                                  guardrail =
                                      if fld primaryAction ''kind'' =
                                           S ''save_and_accept_paper_candidate''
                                      then (zh 21750)
                                      else if fld primaryAction ''kind'' =
                                                S ''accept_paper_candidate''
                                      then (zh 21780)
                                      else if fld primaryAction ''kind'' = S ''run_all_backtests''
                                      then (zh 52310)
                                      else if fld primaryAction ''kind'' =
                                                S ''complete_manual_action''
                                      then (zh 52330)
                                      else (zh 52340)
                              in obj [(''stage'', fld decision ''stage''),
                                      (''tone'', js_or (fld task ''tone'') (fld decision ''tone'')),
                                      (''owner'', Str owner),
                                      (''title'', js_or (fld task ''title'') (fld decision ''title'')),
                                      (''summary'', js_or (fld task ''detail'') (fld decision ''summary'')),
                                      (''primaryAction'', primaryAction),
                                      (''primaryHref'', js_or primaryHref (fld decision ''primaryHref'')),
                                      (''proposedFormState'', fld task ''proposedFormState''),
                                      (''scanFormState'', fld task ''proposedFormState''),
                                      (''proposalCard'', if truthy (fld task ''proposedFormState'')
                                            then aiGoalProposalCardFromFormState
                                                   (fld task ''proposedFormState'')
                                            else Undef),
                                      (''guardrail'', Str guardrail),
                                      (''why'', Arr (take 4 why)),
                                      (''handoff'', Str
                                              (if owner = js ''AI''
                                               then (zh 52530)
                                               else (zh 52540))),
                                      (''nextActions'', if num_lt (Fin 0)
                                                 (to_num
                                                    (fld (fld decision ''nextActions'') ''length''))
                                            then js_slice 0 (Some 3)
                                                   (fld decision ''nextActions'')
                                            else Arr
                                                   (map (\<lambda>item. fld item ''title'')
                                                      (elems
                                                         (js_slice 1 (Some 4)
                                                            (fld mission ''tasks'')))))])"

definition aiAutonomousCommandFromState :: "jsval \<Rightarrow> jsval \<Rightarrow> jsval \<Rightarrow> jsval \<Rightarrow> jsval \<Rightarrow> jsval \<Rightarrow> jsval \<Rightarrow> date \<Rightarrow> jsval" where
  "aiAutonomousCommandFromState analysis persistedActions validationRuns runs accounts dailyRadarStatus providerGate clock =
     (let analysis = dflt analysis Null;
          persistedActions = dflt persistedActions (Arr []);
          validationRuns = dflt validationRuns (Arr []);
          runs = dflt runs (Arr []);
          dailyRadarStatus = dflt dailyRadarStatus Null;
          providerGate = dflt providerGate Null;
          commandCenter =
              aiCommandCenterFromState analysis persistedActions validationRuns runs accounts
                dailyRadarStatus providerGate clock;
          nowAction =
              aiNowActionFromState analysis persistedActions validationRuns runs dailyRadarStatus
                providerGate clock clock;
          autopilot = aiAutopilotStateFromAnalysis analysis persistedActions validationRuns clock;
          prioritizeFollowup =
              \<not> truthy analysis \<and> shouldPrioritizeNoAnalysisFollowup nowAction;
          rawPrimaryAction =
              if truthy analysis
              then js_or
                     (js_or (fld nowAction ''primaryAction'')
                        (fld commandCenter ''primaryAction'')) (fld autopilot ''primaryAction'')
              else if prioritizeFollowup
              then fld nowAction ''primaryAction''
              else js_or
                     (js_or (fld commandCenter ''primaryAction'')
                        (fld nowAction ''primaryAction'')) (fld autopilot ''primaryAction'');
          primaryAction =
              if truthy analysis
              then autonomousPrimaryActionForState rawPrimaryAction persistedActions
              else rawPrimaryAction;
          primaryHref =
              js_or
                (js_or (js_or (fld nowAction ''primaryHref'') (fld commandCenter ''primaryHref''))
                   (fld autopilot ''primaryHref'')) (fld primaryAction ''href'');
          providerCommandStage = to_str (js_or (fld commandCenter ''stage'') (Str []));
          stage =
              if \<not> truthy analysis \<and>
                 (providerCommandStage = js ''provider_blocked'' \<or>
                  providerCommandStage = js ''provider_loading'')
              then Str providerCommandStage
              else autonomousCommandStage primaryAction analysis commandCenter;
          title =
              if stage = S ''provider_blocked'' \<or> stage = S ''provider_loading''
              then js_or (fld nowAction ''title'') (fld commandCenter ''title'')
              else if stage = S ''start''
              then Str (zh 23130)
              else if truthy (fld primaryAction ''label'')
              then Str ((zh 23150) @ to_str (fld primaryAction ''label''))
              else fld commandCenter ''title'';
          summary =
              if to_str (js_or (fld primaryAction ''kind'') (Str [])) = js ''run_all_backtests''
              then Str (to_str (fld commandCenter ''summary'') @ (zh 23190))
              else if prioritizeFollowup
              then fld nowAction ''summary''
              else js_or (js_or (fld commandCenter ''summary'') (fld nowAction ''summary''))
                     (fld autopilot ''summary'')
      in obj [(''stage'', stage),
              (''tone'', js_or (js_or (fld nowAction ''tone'') (fld commandCenter ''tone''))
                      (fld autopilot ''tone'')),
              (''owner'', js_or (fld nowAction ''owner'')
                      (Str (nowActionOwner (fld primaryAction ''kind'')))),
              (''title'', title), (''summary'', summary), (''primaryAction'', primaryAction),
              (''primaryHref'', primaryHref),
              (''confidenceLabel'', Str
                      (num_to_string
                         (num_max (Fin 0)
                            (num_min (Fin 100) (to_num (js_or (fld autopilot ''progress'') (N 0))))) @
                       js ''%'')),
              (''proposedFormState'', fld nowAction ''proposedFormState''),
              (''scanFormState'', fld nowAction ''scanFormState''),
              (''proposalCard'', fld nowAction ''proposalCard''),
              (''safety'', autonomousSafetyForAction primaryAction nowAction),
              (''why'', Arr
                      (if safeStringList (fld nowAction ''why'') \<noteq> []
                       then take 4 (safeStringList (fld nowAction ''why''))
                       else take 4 (safeStringList (fld commandCenter ''nextActions'')))),
              (''aiWillDo'', Arr (autonomousAIWillDo primaryAction autopilot)),
              (''humanMustDo'', Arr (autonomousHumanMustDo primaryAction autopilot nowAction))])"

definition dailyMissionTaskCommandFromTask :: "jsval \<Rightarrow> jsval" where
  "dailyMissionTaskCommandFromTask task =
     (if \<not> truthy task \<or> \<not> is_object task
      then Null
      else let actionKind = trim (to_str (js_or (fld task ''actionKind'') (Str [])));
               label =
                   s_or
                     (trim
                        (to_str
                           (js_or (js_or (fld task ''title'') (fld task ''label'')) (Str (zh 200)))))
                     (zh 200);
               href = trim (to_str (js_or (fld task ''href'') (Str [])));
               runId = trim (to_str (js_or (fld task ''runId'') (Str [])));
               base =
                   merge
                     (merge
                        (merge (obj [(''kind'', Str actionKind), (''label'', Str label)])
                           (if runId \<noteq> [] then obj [(''runId'', Str runId)] else obj []))
                        (if href \<noteq> [] then obj [(''href'', Str href)] else obj []))
                     (if truthy (fld task ''proposedFormState'')
                      then obj [(''proposedFormState'', fld task ''proposedFormState'')]
                      else obj [])
           in if actionKind = js ''scan_today'' \<or>
                 actionKind = js ''rescan_today'' \<or>
                 actionKind = js ''analyze_and_validate'' \<or>
                 actionKind = js ''run_all_backtests'' \<or>
                 actionKind = js ''accept_paper_candidate'' \<or>
                 actionKind = js ''save_and_accept_paper_candidate'' \<or>
                 actionKind = js ''validate_run'' \<or>
                 actionKind = js ''refresh_run'' \<or>
                 actionKind = js ''open_link'' \<or>
                 actionKind = js ''open_run'' \<or>
                 actionKind = js ''open_today_run''
              then base
              else if actionKind = js ''sentiment_review''
              then merge
                     (obj [(''kind'', S ''complete_manual_action''), (''label'', Str label),
                           (''actionId'', S ''sentiment_review'')])
                     (if href \<noteq> [] then obj [(''href'', Str href)] else obj [])
              else if actionKind = js ''paper_watch''
              then merge
                     (obj [(''kind'', S ''complete_manual_action''), (''label'', Str label),
                           (''actionId'', S ''paper_watch'')])
                     (if href \<noteq> [] then obj [(''href'', Str href)] else obj [])
              else if href \<noteq> []
              then obj [(''kind'', S ''open_link''), (''label'', Str label), (''href'', Str href)]
              else Null)"

definition workflowConfidence :: "jsval \<Rightarrow> jsval \<Rightarrow> jsval \<Rightarrow> jsval \<Rightarrow> jsval \<Rightarrow> jsval \<Rightarrow> jsval \<Rightarrow> jsnum" where
  "workflowConfidence analysis ranked candidate sentiment capitalPlan persistedActions dailyRadarStatus =
     (if \<not> truthy analysis
      then Fin 0
      else let context = js_or (fld analysis ''context'') (obj []);
               notes = safeStringList (fld context ''notes'');
               drafts = elems (fld analysis ''strategyDrafts'');
               completedRuns =
                   if is_arr ranked
                   then len
                          (filter (\<lambda>row. fld row ''score'' \<noteq> Null) (elems ranked))
                   else Fin 0;
               sentimentReview = persistedActionById persistedActions (S ''sentiment_review'');
               paperWatch = persistedActionById persistedActions (S ''paper_watch'');
               paperWatchEvidenceComplete =
                   fld paperWatch ''status'' = S ''done'' \<and>
                   paperWatchCompletionHasEvidence paperWatch;
               score = Fin 10;
               score =
                   if num_lt (Fin 0) (to_num (js_or (fld context ''newsCount'') (N 0)))
                   then num_add score (Fin 5)
                   else score;
               score =
                   if num_lt (Fin 0) (to_num (js_or (fld context ''macroCount'') (N 0)))
                   then num_add score (Fin 5)
                   else score;
               score =
                   if num_lt (Fin 0) (to_num (js_or (fld context ''onchainCount'') (N 0)))
                   then num_add score (Fin 5)
                   else score;
               score = if notes = [] then num_add score (Fin 10) else score;
               score = if drafts \<noteq> [] then num_add score (Fin 15) else score;
               score = if num_lt (Fin 0) completedRuns then num_add score (Fin 20) else score;
               score = if truthy candidate then num_add score (Fin 15) else score;
               score =
                   if fld sentiment ''stage'' = S ''balanced'' \<or>
                      sentimentReviewCompleted sentimentReview
                   then num_add score (Fin 10)
                   else score;
               score =
                   if fld capitalPlan ''stage'' = S ''paper_sizing''
                   then num_add score (Fin 10)
                   else score;
               score = if paperWatchEvidenceComplete then num_add score (Fin 10) else score;
               capped =
                   if truthy (fld dailyRadarStatus ''isStale'')
                   then num_min score (Fin 45)
                   else score
           in num_max (Fin 0) (num_min (Fin 95) (num_round capped)))"

definition aiMoneyBriefAuditFromState :: "jsval \<Rightarrow> jsval \<Rightarrow> jsval \<Rightarrow> jsval \<Rightarrow> jsval \<Rightarrow> jsval \<Rightarrow> jsval \<Rightarrow> jsval" where
  "aiMoneyBriefAuditFromState analysis ranked candidate sentiment capitalPlan persistedActions dailyRadarStatus =
     (let analysis = dflt analysis Null;
          ranked = dflt ranked (Arr []);
          candidate = dflt candidate Null;
          sentiment = dflt sentiment Null;
          capitalPlan = dflt capitalPlan Null;
          persistedActions = dflt persistedActions (Arr []);
          dailyRadarStatus = dflt dailyRadarStatus Null;
          ready = [];
          warnings = [];
          blockers = []
      in if \<not> truthy analysis
         then let blockers = pushUniqueText blockers (Str (zh 69430));
                  warnings =
                      if truthy (fld dailyRadarStatus ''isStale'')
                      then pushUniqueText warnings (Str (zh 69450))
                      else warnings
              in obj [(''verdict'', Str (zh 19221)), (''tone'', S ''warning''),
                      (''ready'', Arr ready), (''warnings'', Arr warnings),
                      (''blockers'', Arr blockers)]
         else let context = js_or (fld analysis ''context'') (obj []);
                  notes = safeStringList (fld context ''notes'');
                  contextTotal =
                      num_add
                        (num_add (to_num (js_or (fld context ''newsCount'') (N 0)))
                           (to_num (js_or (fld context ''macroCount'') (N 0))))
                        (to_num (js_or (fld context ''onchainCount'') (N 0)));
                  recentRunSummaries = elems (fld context ''recentRunSummaries'');
                  recentRunCount =
                      num_max (to_num (js_or (fld context ''recentRunCount'') (N 0)))
                        (len recentRunSummaries);
                  drafts = elems (fld analysis ''strategyDrafts'');
                  completedRuns =
                      if is_arr ranked
                      then filter (\<lambda>row. fld row ''score'' \<noteq> Null) (elems ranked)
                      else [];
                  runningRuns =
                      if is_arr ranked
                      then filter (\<lambda>row. fld row ''score'' = Null) (elems ranked)
                      else [];
                  sentimentReview = persistedActionById persistedActions (S ''sentiment_review'');
                  paperWatch = persistedActionById persistedActions (S ''paper_watch'');
                  paperWatchEvidenceComplete =
                      fld paperWatch ''status'' = S ''done'' \<and>
                      paperWatchCompletionHasEvidence paperWatch;
                  blockers =
                      if truthy (fld dailyRadarStatus ''isStale'')
                      then pushUniqueText blockers (Str (zh 69820))
                      else blockers;
                  (blockers, ready) =
                      if notes \<noteq> []
                      then let blockers =
                                   pushUniqueText blockers
                                     (Str ((zh 69850) @ to_str (item_at notes 0)))
                           in (blockers, ready)
                      else let (ready, blockers) =
                                   if num_lt (Fin 0) contextTotal
                                   then let ready =
                                                pushUniqueText ready
                                                  (Str
                                                     ((zh 20710) @
                                                      num_to_string contextTotal @
                                                      (zh 20711)))
                                        in (ready, blockers)
                                   else let blockers =
                                                pushUniqueText blockers (Str (zh 69890))
                                        in (ready, blockers)
                           in (blockers, ready);
                  (ready, warnings) =
                      if num_lt (Fin 0) recentRunCount
                      then let ready =
                                   pushUniqueText ready
                                     (Str
                                        ((zh 20814) @ num_to_string recentRunCount @ (zh 69930)))
                           in (ready, warnings)
                      else let warnings = pushUniqueText warnings (Str (zh 69950))
                           in (ready, warnings);
                  (ready, blockers) =
                      if drafts \<noteq> []
                      then let ready =
                                   pushUniqueText ready
                                     (Str ((zh 20920) @ num_to_string (len drafts) @ (zh 41060)))
                           in (ready, blockers)
                      else let blockers = pushUniqueText blockers (Str (zh 20931))
                           in (ready, blockers);
                  (ready, warnings, blockers) =
                      if completedRuns \<noteq> []
                      then let ready =
                                   pushUniqueText ready
                                     (Str (num_to_string (len completedRuns) @ (zh 40950)))
                           in (ready, warnings, blockers)
                      else let (warnings, blockers) =
                                   if runningRuns \<noteq> []
                                   then let warnings =
                                                pushUniqueText warnings
                                                  (Str
                                                     (num_to_string (len runningRuns) @
                                                      (zh 70070)))
                                        in (warnings, blockers)
                                   else let blockers =
                                                pushUniqueText blockers
                                                  (Str (zh 70090))
                                        in (warnings, blockers)
                           in (ready, warnings, blockers);
                  (ready, blockers) =
                      if truthy candidate
                      then let ready =
                                   pushUniqueText ready
                                     (Str
                                        (to_str (fld candidate ''strategyId'') @
                                         (zh 70130)))
                           in (ready, blockers)
                      else let blockers =
                                   if completedRuns \<noteq> []
                                   then pushUniqueText blockers (Str (zh 70150))
                                   else blockers
                           in (ready, blockers);
                  (ready, warnings) =
                      if fld sentiment ''stage'' = S ''balanced'' \<or>
                         sentimentReviewCompleted sentimentReview
                      then let ready = pushUniqueText ready (Str (zh 70190))
                           in (ready, warnings)
                      else let warnings =
                                   pushUniqueText warnings (Str (zh 70210))
                           in (ready, warnings);
                  (ready, warnings) =
                      if fld capitalPlan ''stage'' = S ''paper_sizing''
                      then let ready = pushUniqueText ready (Str (zh 70250))
                           in (ready, warnings)
                      else let warnings = pushUniqueText warnings (Str (zh 70270))
                           in (ready, warnings);
                  (ready, warnings) =
                      if paperWatchEvidenceComplete
                      then let ready = pushUniqueText ready (Str (zh 40980))
                           in (ready, warnings)
                      else let warnings =
                                   if fld paperWatch ''status'' = S ''done''
                                   then pushUniqueText warnings
                                          (Str (zh 70330))
                                   else if truthy paperWatch
                                   then pushUniqueText warnings (Str (zh 70350))
                                   else warnings
                           in (ready, warnings);
                  tone =
                      if blockers \<noteq> []
                      then js ''danger''
                      else if warnings \<noteq> []
                      then js ''warning''
                      else js ''success''
              in obj [(''verdict'', Str
                              (if blockers \<noteq> []
                               then (zh 70420)
                               else if warnings \<noteq> []
                               then (zh 70440)
                               else (zh 70450))),
                      (''tone'', Str tone), (''ready'', Arr ready), (''warnings'', Arr warnings),
                      (''blockers'', Arr blockers)])"

definition briefValidationLabel :: "jsval \<Rightarrow> jstr" where
  "briefValidationLabel ranked =
     (if \<not> is_arr ranked \<or> fld ranked ''length'' = N 0
      then (zh 29450)
      else let running = len (filter (\<lambda>row. fld row ''score'' = Null) (elems ranked))
           in if num_lt (Fin 0) running
              then num_to_string running @ (zh 20480)
              else to_str (fld ranked ''length'') @ (zh 20490))"

definition briefPrimaryFromDecision :: "jsval \<Rightarrow> jsval" where
  "briefPrimaryFromDecision decision =
     (if truthy (fld decision ''primaryAction'')
      then fld decision ''primaryAction''
      else if truthy (fld decision ''primaryHref'')
      then obj [(''kind'', S ''open_link''), (''label'', Str (zh 49740))]
      else Undef)"

definition aiMoneyBriefFromState :: "jsval \<Rightarrow> jsval \<Rightarrow> jsval \<Rightarrow> jsval \<Rightarrow> jsval \<Rightarrow> jsval \<Rightarrow> date \<Rightarrow> jsval" where
  "aiMoneyBriefFromState analysis persistedActions validationRuns runs dailyRadarStatus providerGate clock =
     (let analysis = dflt analysis Null;
          persistedActions = dflt persistedActions (Arr []);
          validationRuns = dflt validationRuns (Arr []);
          runs = dflt runs (Arr []);
          dailyRadarStatus = dflt dailyRadarStatus Null;
          providerGate = dflt providerGate Null;
          recentRuns = elems runs
      in if \<not> truthy analysis
         then let providerGateStage = lower (to_str (js_or (fld providerGate ''stage'') (Str [])))
              in if providerGateStage = js ''blocked'' \<or> providerGateStage = js ''loading''
                 then let loading = providerGateStage = js ''loading'';
                          href =
                              s_or
                                (trim
                                   (to_str
                                      (js_or (fld providerGate ''primaryHref'')
                                         (S ''/settings/ai'')))) (js ''/settings/ai'');
                          label =
                              s_or
                                (trim
                                   (to_str
                                      (js_or (fld (fld providerGate ''primaryAction'') ''label'')
                                         (Str [])))) (if loading then (zh 11130) else (zh 12370));
                          summary =
                              s_or (trim (to_str (js_or (fld providerGate ''summary'') (Str []))))
                                (if loading
                                 then (zh 30860)
                                 else (zh 18420));
                          providerMessage =
                              if loading
                              then (zh 70910)
                              else (zh 70920)
                      in obj [(''stage'', Str
                                      (if loading
                                       then js ''provider_loading''
                                       else js ''provider_blocked'')),
                              (''title'', Str (if loading then (zh 11270) else (zh 18470))),
                              (''tone'', S ''warning''), (''confidence'', N 0),
                              (''audit'', obj [(''verdict'', Str
                                                 (if loading then (zh 71000) else (zh 71001))),
                                         (''tone'', S ''warning''), (''ready'', Arr []),
                                         (''warnings'', Arr (if loading then [Str providerMessage] else [])),
                                         (''blockers'', Arr (if loading then [] else [Str providerMessage]))]),
                              (''summary'', Str summary), (''primaryHref'', Str href),
                              (''primaryAction'', obj [(''kind'', S ''open_link''), (''label'', Str label)]),
                              (''metrics'', Arr [obj [(''label'', Str (zh 71100)), (''value'', S ''0%''),
                                              (''hint'', Str (zh 18522))],
                                         obj [(''label'', Str (zh 2390)),
                                              (''value'', Num (len recentRuns)),
                                              (''hint'', Str (zh 71110))],
                                         obj [(''label'', Str (zh 71120)), (''value'', Str (zh 71121)),
                                              (''hint'', Str (zh 39430))]]),
                              (''checkpoints'', Arr
                                      (if loading
                                       then [Str (zh 71160),
                                             Str (zh 71170),
                                             Str (zh 71180)]
                                       else [Str (zh 71210),
                                             Str (zh 18980),
                                             Str (zh 71230)]))]
                 else let primaryAction =
                              js_or (fld dailyRadarStatus ''primaryAction'')
                                (obj [(''kind'', S ''scan_today''), (''label'', Str (zh 10940))]);
                          audit =
                              aiMoneyBriefAuditFromState Undef Undef Undef Undef Undef Undef
                                dailyRadarStatus
                      in obj [(''stage'', S ''idle''), (''title'', Str (zh 71330)),
                              (''tone'', S ''warning''), (''confidence'', N 0),
                              (''audit'', audit),
                              (''summary'', Str
                                      (if truthy (fld dailyRadarStatus ''summary'')
                                       then to_str (fld dailyRadarStatus ''summary'') @
                                            (zh 71390)
                                       else (zh 71410))),
                              (''primaryAction'', primaryAction),
                              (''metrics'', Arr [obj [(''label'', Str (zh 71100)), (''value'', S ''0%''),
                                              (''hint'', Str (zh 71440))],
                                         obj [(''label'', Str (zh 2390)),
                                              (''value'', Num (len recentRuns)),
                                              (''hint'', Str (zh 71110))],
                                         obj [(''label'', Str (zh 71120)), (''value'', Str (zh 61020)),
                                              (''hint'', Str (zh 39430))]]),
                              (''checkpoints'', Arr [Str (zh 71490),
                                         Str (zh 71500),
                                         Str (zh 71510)])]
         else let ranked = rankBacktestValidation validationRuns;
                  candidate = paperCandidateFromValidation analysis validationRuns clock;
                  decision = nextAIGoalDecision analysis persistedActions validationRuns clock;
                  sentiment = aiSentimentCompassFromAnalysis analysis;
                  capitalPlan = aiCapitalPlanFromState analysis candidate persistedActions clock;
                  audit =
                      aiMoneyBriefAuditFromState analysis (Arr ranked) candidate sentiment
                        capitalPlan persistedActions dailyRadarStatus;
                  confidence =
                      workflowConfidence analysis (Arr ranked) candidate sentiment capitalPlan
                        persistedActions dailyRadarStatus;
                  context = js_or (fld analysis ''context'') (obj []);
                  contextValue =
                      num_to_string (to_num (js_or (fld context ''newsCount'') (N 0))) @
                      js ''/'' @
                      num_to_string (to_num (js_or (fld context ''macroCount'') (N 0))) @
                      js ''/'' @
                      num_to_string (to_num (js_or (fld context ''onchainCount'') (N 0)));
                  capitalValue =
                      if num_lt (Fin 0) (to_num (fld capitalPlan ''recommendedNotionalUsd''))
                      then Str (money (fld capitalPlan ''recommendedNotionalUsd''))
                      else fld capitalPlan ''title''
              in if truthy (fld dailyRadarStatus ''isStale'')
                 then obj [(''stage'', S ''stale_context''), (''title'', Str (zh 71890)),
                           (''tone'', S ''warning''), (''confidence'', Num confidence),
                           (''audit'', audit),
                           (''summary'', Str
                                   (to_str
                                      (js_or (fld dailyRadarStatus ''summary'')
                                         (Str (zh 71930))) @
                                    (zh 71931))),
                           (''primaryAction'', js_or (fld dailyRadarStatus ''primaryAction'')
                                   (obj [(''kind'', S ''rescan_today''), (''label'', Str (zh 10740))])),
                           (''metrics'', Arr [obj [(''label'', Str (zh 71100)),
                                           (''value'', Str (num_to_string confidence @ js ''%'')),
                                           (''hint'', Str (zh 71970))],
                                      obj [(''label'', Str (zh 2720)), (''value'', Str contextValue),
                                           (''hint'', Str (zh 37190))],
                                      obj [(''label'', Str (zh 461)),
                                           (''value'', Str (briefValidationLabel (Arr ranked))),
                                           (''hint'', js_or (fld (item_at ranked 0) ''recommendation'')
                                                   (Str (zh 15081)))]]),
                           (''checkpoints'', Arr [Str (zh 25820),
                                      Str (zh 72030),
                                      Str (zh 72040)])]
                 else let primaryAction = briefPrimaryFromDecision decision
                      in obj [(''stage'', fld decision ''stage''),
                              (''title'', fld decision ''title''),
                              (''tone'', fld decision ''tone''),
                              (''confidence'', Num confidence), (''audit'', audit),
                              (''summary'', Str
                                      (to_str (fld decision ''summary'') @
                                       (zh 72160) @
                                       to_str (fld sentiment ''title'') @
                                       (zh 72161) @
                                       to_str (fld capitalPlan ''summary''))),
                              (''primaryHref'', fld decision ''primaryHref''),
                              (''primaryAction'', primaryAction),
                              (''metrics'', Arr [obj [(''label'', Str (zh 71100)),
                                              (''value'', Str (num_to_string confidence @ js ''%'')),
                                              (''hint'', Str (zh 72200))],
                                         obj [(''label'', Str (zh 461)),
                                              (''value'', Str (briefValidationLabel (Arr ranked))),
                                              (''hint'', js_or
                                                      (fld (item_at ranked 0) ''recommendation'')
                                                      (Str (zh 6973)))],
                                         obj [(''label'', Str (zh 56550)), (''value'', capitalValue),
                                              (''hint'', fld capitalPlan ''stage'')]]),
                              (''checkpoints'', Arr
                                      (take 5
                                         (take 3 (safeStringList (fld decision ''nextActions'')) @
                                          [Str ((zh 72260) @ to_str (fld sentiment ''title'')),
                                           Str
                                             ((zh 72270) @
                                              to_str
                                                (if num_lt (Fin 0)
                                                      (to_num
                                                         (fld capitalPlan
                                                            ''recommendedNotionalUsd''))
                                                 then Str
                                                        (money
                                                           (fld capitalPlan
                                                              ''recommendedNotionalUsd''))
                                                 else fld capitalPlan ''stage''))])))])"

end
