(* ===== verification/Js_Order.thy ===== *)
theory Js_Order
  imports Js_Ops "HOL-Library.Multiset"
begin

section \<open>Sorting by a comparator\<close>

text \<open>
  The contract under which \<^verbatim>\<open>sort(cmp)\<close> is the stable sort of the library: on the elements at hand
  the comparator is positive exactly where the key of its second argument is the smaller one. The
  ranking of backtests and the table of recent orders are interpretations.
\<close>

locale js_order =
  fixes cmp :: "jsval \<Rightarrow> jsval \<Rightarrow> jsnum" and key :: "jsval \<Rightarrow> 'k::linorder" and elem :: "jsval \<Rightarrow> bool"
  assumes cmp_key: "elem a \<Longrightarrow> elem b \<Longrightarrow> num_lt (Fin 0) (cmp a b) \<longleftrightarrow> key b < key a"
begin

lemma sort_insert_key:
  "elem a \<Longrightarrow> list_all elem xs \<Longrightarrow> sort_insert cmp a xs = insort_key key a xs"
  by (induction xs) (auto simp: cmp_key not_le)

lemma sort_key_eq: "list_all elem xs \<Longrightarrow> js_sort cmp xs = sort_key key xs"
proof (induction xs)
  case (Cons a xs)
  then have "list_all elem (sort_key key xs)" by (simp add: list_all_iff)
  with Cons show ?case by (simp add: js_sort_def sort_key_def sort_insert_key)
qed (simp add: js_sort_def)

lemma sorted_keys: "list_all elem xs \<Longrightarrow> sorted (map key (js_sort cmp xs))"
  by (simp add: sort_key_eq)

lemma stable:
  "list_all elem xs \<Longrightarrow> filter (\<lambda>a. key a = k) (js_sort cmp xs) = filter (\<lambda>a. key a = k) xs"
  by (simp add: sort_key_eq sort_key_stable)

lemma mset_eq: "list_all elem xs \<Longrightarrow> mset (js_sort cmp xs) = mset xs"
  by (simp add: sort_key_eq)

end

end
