(* ===== verification/Preset_Lemmas.thy ===== *)
theory Preset_Lemmas
  imports Strategy_Preset Json_Trip
begin

section \<open>The fields of a strategy preset\<close>

text \<open>
  Projections of \<open>strategyPresetFromDraft\<close>, one per property of the record that it fills, and what the
  normalisers of \<open>Preset_Text\<close> return. The properties of presets, rankings and requests rest on them.
\<close>

subsection \<open>Projections\<close>

definition draft_params :: "jsval \<Rightarrow> jsval" where
  "draft_params d =
     (if truthy (fld d ''params'') \<and> is_object (fld d ''params'') then fld d ''params'' else obj [])"

definition draft_risk :: "jsval \<Rightarrow> jsval" where
  "draft_risk d = normalizeRiskCaps (fld d ''riskCaps'')"

text \<open>The bounds that the risk caps of a draft put on leverage and margin.\<close>

definition leverage_cap :: "jsval \<Rightarrow> jsnum" where
  "leverage_cap d =
     (if truthy (draft_risk d) then clampInt (fld (draft_risk d) ''maxLeverage'') (N 3) (N 1) (N 125) else Fin 125)"

definition margin_cap :: "jsval \<Rightarrow> jsnum" where
  "margin_cap d =
     (if truthy (draft_risk d) then clampInt (fld (draft_risk d) ''maxPositionUsd'') (N 100) (N 1) (N 1000000)
      else Fin 1000000)"

lemmas preset_def = strategyPresetFromDraft_def draft_params_def [symmetric] draft_risk_def [symmetric]

lemma preset_fields:
  "fld (strategyPresetFromDraft d) ''source'' = S ''ai-goal''"
  "fld (strategyPresetFromDraft d) ''name'' = Str (normalizeName (fld d ''name'') (fld d ''symbol''))"
  "fld (strategyPresetFromDraft d) ''kind'' = Str (normalizeKind (fld d ''kind''))"
  "fld (strategyPresetFromDraft d) ''execSymbol'' = normalizeSymbol (fld d ''symbol'')"
  "fld (strategyPresetFromDraft d) ''positionLevel'' =
     Str (num_to_string (clampInt (fld (draft_params d) ''positionLevel'')
       (Num (num_min (Fin 3) (leverage_cap d))) (N 1) (Num (leverage_cap d))))"
  "fld (strategyPresetFromDraft d) ''openPositionStopTime'' =
     Str (num_to_string (clampInt (fld (draft_params d) ''openPositionStopTime'') (N 30) (N 0) (N 1440)))"
  "fld (strategyPresetFromDraft d) ''orderGroupMargin'' =
     Str (num_to_string (clampInt (fld (draft_params d) ''orderGroupMargin'')
       (Num (num_min (Fin 100) (margin_cap d))) (N 0) (Num (margin_cap d))))"
  "fld (strategyPresetFromDraft d) ''createCostOrderInProfit'' =
     Str (to_str (Bool (truthy (fld (draft_params d) ''createCostOrderInProfit''))))"
  unfolding preset_def leverage_cap_def margin_cap_def
  by (simp_all add: at_field Let_def cong del: if_weak_cong)

subsection \<open>Clamped numbers\<close>

lemma clampNumber_bounds:
  assumes "clampNumber v (N f) (N lo) (N hi) = w" and "lo \<le> f" and "f \<le> hi"
  shows "\<exists>q. w = N q \<and> lo \<le> q \<and> q \<le> hi"
proof (cases "to_num v")
  case (Fin q)
  with assms show ?thesis by (auto simp: clampNumber_def Let_def split: if_splits)
qed (use assms in \<open>auto simp: clampNumber_def Let_def\<close>)

lemma clampInt_bounds:
  assumes "lo \<le> f" and "f \<le> hi"
  shows "\<exists>n. clampInt v (N (of_int f)) (N (of_int lo)) (N (of_int hi)) = Fin (of_int n) \<and> lo \<le> n \<and> n \<le> hi"
proof -
  from assms obtain q where q: "clampNumber v (N (of_int f)) (N (of_int lo)) (N (of_int hi)) = N q"
    "of_int lo \<le> q" "q \<le> of_int hi"
    using clampNumber_bounds [OF refl, of "of_int lo" "of_int f" "of_int hi" v] by auto
  have "lo \<le> \<lfloor>q + 1 / 2\<rfloor>" and "\<lfloor>q + 1 / 2\<rfloor> \<le> hi" using q(2,3) by linarith+
  with q(1) show ?thesis by (auto simp: clampInt_def)
qed

end
