(* ===== verification/Ranking_Properties.thy ===== *)
theory Ranking_Properties
  imports Backtest_Ranking Js_Order Js_Round Preset_Lemmas
begin

section \<open>Properties of the ranking and the paper candidate\<close>

text \<open>
  \<open>rankBacktestValidation\<close> is the stable sort of its rows by descending score with the unfinished runs
  last (an interpretation of \<open>js_order\<close>), and \<open>paperCandidateFromValidation\<close> finds the best
  recommended row that belongs to a draft, which pins down the numbers behind every candidate.
\<close>

subsection \<open>Rows\<close>

text \<open>The row that the ranking makes of a run, and the comparator it sorts by.\<close>

definition rank_row :: "jsval \<Rightarrow> jsval" where
  "rank_row run = hd (rankBacktestValidation (Arr [run]))"

definition rank_cmp :: "jsval \<Rightarrow> jsval \<Rightarrow> jsnum" where
  "rank_cmp a b =
     (if fld a ''score'' = Null \<and> fld b ''score'' = Null then Fin 0
      else if fld a ''score'' = Null then Fin 1
      else if fld b ''score'' = Null then Fin (- 1)
      else num_sub (to_num (fld b ''score'')) (to_num (fld a ''score'')))"

text \<open>The place of a row in the ranking: the higher score first, rows without a score at the end.\<close>

datatype rank = Scored rat | Unfinished

instantiation rank :: linorder
begin

fun less_eq_rank :: "rank \<Rightarrow> rank \<Rightarrow> bool" where
  "less_eq_rank (Scored a) (Scored b) \<longleftrightarrow> b \<le> a"
| "less_eq_rank (Scored a) Unfinished \<longleftrightarrow> True"
| "less_eq_rank Unfinished (Scored b) \<longleftrightarrow> False"
| "less_eq_rank Unfinished Unfinished \<longleftrightarrow> True"

definition less_rank :: "rank \<Rightarrow> rank \<Rightarrow> bool" where
  "less_rank x y \<longleftrightarrow> x \<le> y \<and> \<not> y \<le> x"

instance
proof
  fix x y z :: rank
  show "(x < y) = (x \<le> y \<and> \<not> y \<le> x)" by (rule less_rank_def)
  show "x \<le> x" by (cases x) simp_all
  show "x \<le> y \<Longrightarrow> y \<le> z \<Longrightarrow> x \<le> z" by (cases x; cases y; cases z) simp_all
  show "x \<le> y \<Longrightarrow> y \<le> x \<Longrightarrow> x = y" by (cases x; cases y) simp_all
  show "x \<le> y \<or> y \<le> x" by (cases x; cases y) auto
qed

end

lemma less_rank_simps [simp]:
  "Scored a < Scored b \<longleftrightarrow> b < a" "Scored a < Unfinished" "\<not> Unfinished < r"
  by (auto simp only: less_rank_def less_eq_rank.simps) (cases r; simp add: less_rank_def)

definition rank_key :: "jsval \<Rightarrow> rank" where
  "rank_key row = (case fld row ''score'' of Num (Fin q) \<Rightarrow> Scored q | _ \<Rightarrow> Unfinished)"

definition is_score :: "jsval \<Rightarrow> bool" where
  "is_score v \<longleftrightarrow> v = Null \<or> (\<exists>n. 0 \<le> n \<and> n \<le> 100 \<and> v = Num (Fin (of_int n)))"

lemma ranking_ex: "\<exists>f. \<forall>runs. rankBacktestValidation (Arr runs) = js_sort rank_cmp (map f runs)"
  unfolding rankBacktestValidation_def rank_cmp_def [abs_def] is_arr.simps elems.simps
    not_True_eq_False if_False
  by (intro exI allI) (rule refl)

lemma ranking_eq: "rankBacktestValidation (Arr runs) = js_sort rank_cmp (map rank_row runs)"
proof -
  obtain f where f: "\<And>runs. rankBacktestValidation (Arr runs) = js_sort rank_cmp (map f runs)"
    using ranking_ex by blast
  then have "rank_row = f" by (auto simp: rank_row_def js_sort_def)
  with f show ?thesis by simp
qed

lemma clampScore_range: "\<exists>n. 0 \<le> n \<and> n \<le> 100 \<and> clampScore v = Fin (of_int n)"
proof (cases v)
  case (Num x)
  show ?thesis
  proof (cases x)
    case (Fin q)
    let ?n = "max 0 (min 100 \<lfloor>q + 1 / 2\<rfloor>)"
    have "clampScore v = Fin (of_int ?n)"
      by (simp add: Num Fin clampScore_def of_int_max of_int_min)
    then show ?thesis by (intro exI [of _ ?n]) simp
  qed (auto simp: Num clampScore_def intro: exI [of _ 0])
qed (auto simp: clampScore_def intro: exI [of _ 0])

lemmas rank_row_simps = rank_row_def rankBacktestValidation_def js_sort_def

lemma rank_row_score: "is_score (fld (rank_row run) ''score'')"
proof -
  have "is_score (Num (clampScore x))" for x
    using clampScore_range [of x] by (auto simp: is_score_def)
  moreover have "is_score Null" and "is_score (N 0)"
    by (auto simp: is_score_def intro: exI [of _ 0])
  ultimately show ?thesis
    by (simp add: rank_row_simps Let_def fld_if cong del: if_weak_cong)
qed

lemma num_sub_int:
  assumes "\<bar>m - n\<bar> \<le> (2 ^ 53 :: int)"
  shows "num_sub (Fin (of_int m)) (Fin (of_int n)) = Fin (of_int (m - n))"
proof -
  have "fl (of_int (m - n)) = Fin (of_int (m - n))" using assms by (intro fl_of_int) simp
  then show ?thesis by (simp add: num_sub_def)
qed

lemma score_diff:
  assumes "0 \<le> m" "m \<le> 100" "0 \<le> n" "n \<le> (100::int)"
  shows "num_sub (Fin (of_int m)) (Fin (of_int n)) = Fin (of_int (m - n))"
  using assms by (intro num_sub_int) simp

interpretation rank: js_order rank_cmp rank_key "\<lambda>row. is_score (fld row ''score'')"
  by unfold_locales (auto simp: rank_cmp_def rank_key_def is_score_def score_diff)

lemma rows_have_scores: "list_all (\<lambda>row. is_score (fld row ''score'')) (map rank_row runs)"
  by (simp add: list_all_iff rank_row_score)

subsection \<open>Recommended rows\<close>

lemmas recommendation_texts = zh_def text_at_def zh_table_1_def zh_table_2_def zh_table_9_def

lemma recommendation_distinct:
  "zh 6180 \<noteq> zh 6150" "zh 32270 \<noteq> zh 6150" "zh 6320 \<noteq> zh 6150" "zh 6170 \<noteq> zh 6150"
  by (simp_all add: recommendation_texts)

text \<open>What a recommended row certifies of the run it was made of.\<close>

definition recommended :: "jsval \<Rightarrow> bool" where
  "recommended row \<longleftrightarrow> fld row ''recommendation'' = Str (zh 6150)"

definition certifies :: "jsval \<Rightarrow> jsval \<Rightarrow> bool" where
  "certifies row run \<longleftrightarrow>
     to_num (fld run ''state'') = Fin 3 \<and>
     fld row ''runId'' = js_or (fld run ''runId'') (Str []) \<and>
     fld row ''strategyId'' = js_or (fld run ''strategyId'') (Str []) \<and>
     fld row ''totalReturn'' = metric run (S ''total_return'') Undef \<and>
     fld row ''sharpe'' = metric run (S ''sharpe'') Undef \<and>
     fld row ''maxDrawdown'' = Num (num_abs (to_num (metric run (S ''max_dd'') Undef))) \<and>
     num_le (Fin 70) (to_num (fld row ''score'')) \<and>
     num_lt (Fin 0) (to_num (fld row ''totalReturn'')) \<and>
     num_le (Fin 1) (to_num (fld row ''sharpe'')) \<and>
     num_le (to_num (fld row ''maxDrawdown'')) (fl (1 / 5))"

lemma recommended_certifies: "recommended (rank_row run) \<Longrightarrow> certifies (rank_row run) run"
  by (auto simp: recommended_def certifies_def rank_row_simps Let_def recommendation_distinct num_eq_def
      split: if_splits)

lemma recommended_scored: "recommended (rank_row run) \<Longrightarrow> fld (rank_row run) ''score'' \<noteq> Null"
  by (auto dest!: recommended_certifies simp: certifies_def)

subsection \<open>The candidate\<close>

lemma loop_Return:
  "loop f xs s = Return r \<Longrightarrow> \<exists>x\<in>set xs. \<exists>s'. f x s' = Return r"
  by (induction f xs s rule: loop.induct) (auto split: flow.splits)

lemma loop_first:
  fixes f :: "jsval \<Rightarrow> unit \<Rightarrow> unit flow"
  assumes "\<And>x. f x () \<noteq> Break ()" and "x \<in> set xs" and "f x () \<noteq> Next ()"
  shows "\<exists>ys y zs r. xs = ys @ y # zs \<and> f y () = Return r \<and> loop f xs () = Return r \<and> x \<in> set (y # zs)"
  using assms(2)
proof (induction xs)
  case (Cons a xs)
  show ?case
  proof (cases "f a ()")
    case (Next u)
    then have "x \<in> set xs" using Cons.prems assms(3) by auto
    from Cons.IH [OF this] obtain ys y zs r
      where "xs = ys @ y # zs" "f y () = Return r" "loop f xs () = Return r" "x \<in> set (y # zs)" by blast
    with Next show ?thesis by (intro exI [of _ "a # ys"] exI [of _ y] exI [of _ zs] exI [of _ r]) simp
  next
    case (Break u)
    with assms(1) [of a] show ?thesis by (cases u) simp
  next
    case (Return r)
    with Cons.prems show ?thesis
      by (intro exI [of _ "[]"] exI [of _ a] exI [of _ xs] exI [of _ r]) simp
  qed
qed simp

lemma js_find_truthy:
  assumes "truthy (js_find P xs)"
  shows "js_find P xs \<in> set xs" and "P (js_find P xs)"
proof -
  from assms obtain x where x: "find P xs = Some x" by (cases "find P xs") (auto simp: js_find_def)
  then obtain i where "i < length xs" "P (xs ! i)" "x = xs ! i" by (auto simp: find_Some_iff)
  then show "js_find P xs \<in> set xs" and "P (js_find P xs)" by (simp_all add: js_find_def x)
qed

lemma js_find_ex:
  assumes "x \<in> set xs" and "P x" and "list_all truthy xs"
  shows "truthy (js_find P xs)"
proof -
  from assms(1,2) obtain y where y: "find P xs = Some y" by (cases "find P xs") (auto simp: find_None_iff)
  then have "y \<in> set xs" by (auto simp: find_Some_iff)
  with assms(3) y show ?thesis by (simp add: js_find_def list_all_iff)
qed

lemma strict_eq_eq: "strict_eq a b \<Longrightarrow> a = b"
  by (cases "(a, b)" rule: strict_eq.cases) (auto simp: num_eq_def)

lemma strict_eq_Str: "strict_eq (Str s) v \<longleftrightarrow> v = Str s"
  by (cases v) auto

definition draft_of_row :: "jsval \<Rightarrow> date \<Rightarrow> jsval \<Rightarrow> jsval" where
  "draft_of_row analysis clock row =
     js_find (\<lambda>d. strict_eq (fld (backtestRequestFromDraft d clock) ''strategyId'') (fld row ''strategyId''))
       (elems (fld analysis ''strategyDrafts''))"

definition candidate_step :: "jsval \<Rightarrow> date \<Rightarrow> jsval \<Rightarrow> unit \<Rightarrow> unit flow" where
  "candidate_step analysis clock row u =
     (if \<not> recommended row \<or> \<not> truthy (draft_of_row analysis clock row) then Next ()
      else Return (obj [(''draft'', draft_of_row analysis clock row), (''runId'', fld row ''runId''),
        (''strategyId'', fld row ''strategyId''), (''score'', fld row ''score''),
        (''totalReturn'', fld row ''totalReturn''), (''sharpe'', fld row ''sharpe''),
        (''maxDrawdown'', fld row ''maxDrawdown''), (''nTrades'', fld row ''nTrades''),
        (''recommendation'', fld row ''recommendation''),
        (''strategyHref'', Str (js ''/option?'' @ strategyPresetSearchFromDraft (draft_of_row analysis clock row))),
        (''backtestHref'', Str (js ''/backtests/'' @ uri_component (to_str (fld row ''runId''))))]))"

lemma candidate_eq:
  "paperCandidateFromValidation analysis backtests clock =
     (case loop (candidate_step analysis clock) (rankBacktestValidation backtests) () of
        Return r \<Rightarrow> r | _ \<Rightarrow> Null)"
  unfolding paperCandidateFromValidation_def Let_def
  by (intro arg_cong [of _ _ "\<lambda>f. case loop f _ () of Return r \<Rightarrow> r | _ \<Rightarrow> Null"] ext)
    (simp add: candidate_step_def recommended_def draft_of_row_def)

lemma candidate_step_Return:
  assumes "candidate_step analysis clock row u = Return c"
  shows "recommended row \<and> truthy (draft_of_row analysis clock row) \<and> truthy c \<and>
    fld c ''draft'' = draft_of_row analysis clock row \<and> fld c ''runId'' = fld row ''runId'' \<and>
    fld c ''strategyId'' = fld row ''strategyId'' \<and> fld c ''score'' = fld row ''score'' \<and>
    fld c ''totalReturn'' = fld row ''totalReturn'' \<and> fld c ''sharpe'' = fld row ''sharpe'' \<and>
    fld c ''maxDrawdown'' = fld row ''maxDrawdown''"
  using assms by (auto simp: candidate_step_def split: if_splits)

lemma ranked_rows: "set (rankBacktestValidation backtests) = rank_row ` set (elems backtests)"
proof (cases "is_arr backtests")
  case True
  then obtain runs where "backtests = Arr runs" by (cases backtests) auto
  then show ?thesis by (simp add: ranking_eq)
next
  case False
  then show ?thesis by (cases backtests) (auto simp: rankBacktestValidation_def)
qed

lemma recommended_ranked:
  "row \<in> set (rankBacktestValidation backtests) \<Longrightarrow> recommended row \<Longrightarrow>
   is_score (fld row ''score'') \<and> fld row ''score'' \<noteq> Null"
  by (auto simp: ranked_rows rank_row_score recommended_scored)

lemma no_request_for_watch_only:
  "fld d ''kind'' = S ''watch_only'' \<Longrightarrow> backtestRequestFromDraft d clock = Null"
  by (simp add: backtestRequestFromDraft_def)

lemma ranking_sorted: "sorted (map rank_key (rankBacktestValidation backtests))"
proof (cases "is_arr backtests")
  case True
  then obtain runs where "backtests = Arr runs" by (cases backtests) auto
  then show ?thesis by (simp add: ranking_eq rank.sorted_keys [OF rows_have_scores])
next
  case False
  then show ?thesis by (cases backtests) (auto simp: rankBacktestValidation_def)
qed

lemma candidate_origin:
  assumes "truthy (paperCandidateFromValidation analysis backtests clock)"
  shows "\<exists>c run draft. paperCandidateFromValidation analysis backtests clock = c \<and>
    run \<in> set (elems backtests) \<and> certifies c run \<and>
    draft \<in> set (elems (fld analysis ''strategyDrafts'')) \<and> fld c ''draft'' = draft \<and>
    fld draft ''kind'' \<noteq> S ''watch_only'' \<and>
    fld (backtestRequestFromDraft draft clock) ''strategyId'' = fld c ''strategyId''"
proof -
  let ?c = "paperCandidateFromValidation analysis backtests clock"
  from assms have "loop (candidate_step analysis clock) (rankBacktestValidation backtests) () = Return ?c"
    unfolding candidate_eq by (auto split: flow.splits)
  from loop_Return [OF this] obtain row where row: "row \<in> set (rankBacktestValidation backtests)"
    and ret: "candidate_step analysis clock row () = Return ?c" by auto
  from row obtain run where run: "run \<in> set (elems backtests)" "row = rank_row run"
    by (auto simp: ranked_rows)
  note c = candidate_step_Return [OF ret]
  with run(2) have cert: "certifies row run" using recommended_certifies by blast
  then have "certifies ?c run" using c unfolding certifies_def by metis
  from c have "truthy (draft_of_row analysis clock row)" by blast
  note d = js_find_truthy [OF this [unfolded draft_of_row_def], folded draft_of_row_def]
  note eq = strict_eq_eq [OF d(2)]
  have id: "fld row ''strategyId'' \<noteq> Undef"
    using cert by (auto simp: certifies_def js_or_def)
  from eq id have "fld (draft_of_row analysis clock row) ''kind'' \<noteq> S ''watch_only''"
    by (auto simp: no_request_for_watch_only)
  with \<open>certifies ?c run\<close> c run(1) eq d(1) show ?thesis
    by (intro exI [of _ ?c] exI [of _ run] exI [of _ "draft_of_row analysis clock row"]) simp
qed

lemma candidate_certified:
  "truthy (paperCandidateFromValidation analysis backtests clock) \<Longrightarrow>
   \<exists>run. run \<in> set (elems backtests) \<and> certifies (paperCandidateFromValidation analysis backtests clock) run"
  using candidate_origin by metis

subsection \<open>Properties\<close>

text \<open>
  C4: The ranking of validation runs by \<open>rankBacktestValidation\<close> is the stable sort of the rows of the
  single runs by descending score, with the unfinished runs (whose score is \<open>null\<close>) last: the
  comparator that the code passes to \<^verbatim>\<open>sort\<close>, with its rounded differences, induces exactly the key
  order, and rows of equal score keep the order of the runs.\<close>

theorem ranking_is_stable_sort:
  "rankBacktestValidation backtests = sort_key rank_key (map rank_row (elems backtests))"
proof (cases "is_arr backtests")
  case True
  then obtain runs where "backtests = Arr runs" by (cases backtests) auto
  then show ?thesis by (simp add: ranking_eq rank.sort_key_eq [OF rows_have_scores])
next
  case False
  then show ?thesis by (cases backtests) (auto simp: rankBacktestValidation_def)
qed

text \<open>
  C10: A paper candidate is never invented: whenever \<open>paperCandidateFromValidation\<close> returns one, there is
  a run among the backtests that is finished (state 3) and carries the candidate's identifiers and
  metrics, with a score of at least 70, a positive return, a Sharpe ratio of at least 1 and a drawdown
  of at most 20 percent; and the candidate's draft is one of the analysis' strategy drafts, not a
  watch-only one, whose own backtest request has the candidate's strategy id.\<close>

theorem paper_candidate_sound:
  assumes "truthy (paperCandidateFromValidation analysis backtests clock)"
  shows "\<exists>c run draft. paperCandidateFromValidation analysis backtests clock = c \<and>
    run \<in> set (elems backtests) \<and> certifies c run \<and>
    draft \<in> set (elems (fld analysis ''strategyDrafts'')) \<and> fld c ''draft'' = draft \<and>
    fld draft ''kind'' \<noteq> S ''watch_only'' \<and>
    fld (backtestRequestFromDraft draft clock) ''strategyId'' = fld c ''strategyId''"
  by (rule candidate_origin [OF assms])

text \<open>
  C17: The best evidence wins: if some ranked row is recommended and one of the drafts produces the
  strategy it tested, then there is a paper candidate, and no such row has a higher score than it.\<close>

theorem paper_candidate_best:
  assumes "row \<in> set (rankBacktestValidation backtests)" and "recommended row"
    and "draft \<in> set (elems (fld analysis ''strategyDrafts''))"
    and "strict_eq (fld (backtestRequestFromDraft draft clock) ''strategyId'') (fld row ''strategyId'')"
    and "list_all truthy (elems (fld analysis ''strategyDrafts''))"
  shows "truthy (paperCandidateFromValidation analysis backtests clock) \<and>
    num_le (to_num (fld row ''score''))
      (to_num (fld (paperCandidateFromValidation analysis backtests clock) ''score''))"
proof -
  have "truthy (draft_of_row analysis clock row)"
    unfolding draft_of_row_def using assms(3-5) by (intro js_find_ex [of draft])
  with assms(2) have "candidate_step analysis clock row () \<noteq> Next ()" by (simp add: candidate_step_def)
  moreover have "candidate_step analysis clock x () \<noteq> Break ()" for x by (simp add: candidate_step_def)
  ultimately obtain ys y zs c where xs: "rankBacktestValidation backtests = ys @ y # zs"
    and y: "candidate_step analysis clock y () = Return c" and mem: "row \<in> set (y # zs)"
    and loop: "loop (candidate_step analysis clock) (rankBacktestValidation backtests) () = Return c"
    using loop_first [of "candidate_step analysis clock", OF _ assms(1)] by blast
  note cy = candidate_step_Return [OF y]
  have "sorted (map rank_key (rankBacktestValidation backtests))"
    by (simp add: ranking_sorted)
  with xs mem have "rank_key y \<le> rank_key row" by (auto simp: sorted_append)
  moreover have "y \<in> set (rankBacktestValidation backtests)" using xs by simp
  then have "is_score (fld y ''score'') \<and> fld y ''score'' \<noteq> Null" using cy recommended_ranked by blast
  moreover have "is_score (fld row ''score'') \<and> fld row ''score'' \<noteq> Null"
    using assms(1,2) by (rule recommended_ranked)
  ultimately have "num_le (to_num (fld row ''score'')) (to_num (fld y ''score''))"
    by (auto simp: is_score_def rank_key_def)
  with cy loop show ?thesis by (simp add: candidate_eq)
qed

subsection \<open>A run that is good enough\<close>

definition good_run :: jsval where
  "good_run = obj [(''runId'', S ''r1''), (''strategyId'', S ''btca''), (''state'', N 3),
     (''metrics'', obj [(''total_return'', N 1), (''sharpe'', N 2), (''max_dd'', N 0), (''n_trades'', N 30)])]"

definition good_draft :: jsval where
  "good_draft = obj [(''kind'', S ''grid_dca''), (''name'', S ''btca''), (''symbol'', S ''BTC'')]"

definition good_analysis :: jsval where
  "good_analysis = obj [(''strategyDrafts'', Arr [good_draft])]"

lemma fl_fifth: "\<exists>r. fl (1 / 5) = Fin r \<and> 0 < r \<and> r \<le> 1"
  by (rule fl_fraction) simp_all

lemma good_recommended: "recommended (rank_row good_run)"
  using fl_fifth
  by (auto simp: recommended_def rank_row_simps good_run_def Let_def metric_def num_sub_def fl_numeral
      clampScore_def recommendation_distinct num_eq_def fld_def [symmetric])

lemmas good_defs = good_run_def good_draft_def good_analysis_def

lemma request_strategy:
  "fld d ''kind'' \<noteq> S ''watch_only'' \<Longrightarrow>
   fld (backtestRequestFromDraft d clock) ''strategyId'' = Str (normalizeName (fld d ''name'') (fld d ''symbol''))"
  by (simp add: backtestRequestFromDraft_def Let_def preset_fields)

lemma good_strategy:
  "fld (backtestRequestFromDraft good_draft clock) ''strategyId'' = S ''btca''"
proof -
  have "trim (js ''btca'') = js ''btca''" and "lower (js ''btca'') = js ''btca''"
    by (simp_all add: js_def trim_def is_ws_def lower_def lower_unit_def)
  then show ?thesis
    by (simp add: request_strategy good_draft_def normalizeName_def Let_def len_def)
      (simp add: js_def is_lower_unit_def)
qed

lemma good_row_strategy: "fld (rank_row good_run) ''strategyId'' = S ''btca''"
  using recommended_certifies [OF good_recommended] by (simp add: certifies_def good_run_def)

theorem paper_candidate_best_witness:
  "truthy (paperCandidateFromValidation good_analysis (Arr [good_run]) None) \<and>
   num_le (to_num (fld (rank_row good_run) ''score''))
     (to_num (fld (paperCandidateFromValidation good_analysis (Arr [good_run]) None) ''score''))"
  by (rule paper_candidate_best [where draft = good_draft])
    (simp_all add: ranked_rows good_recommended good_analysis_def good_strategy good_row_strategy,
      simp add: good_draft_def)

lemma good_candidate: "truthy (paperCandidateFromValidation good_analysis (Arr [good_run]) clock)"
  by (auto simp: candidate_eq ranking_eq js_sort_def candidate_step_def good_recommended draft_of_row_def
      js_find_def good_analysis_def good_strategy good_row_strategy) (simp add: good_draft_def)

theorem paper_candidate_sound_witness:
  "\<exists>c run draft. paperCandidateFromValidation good_analysis (Arr [good_run]) None = c \<and>
    run \<in> set (elems (Arr [good_run])) \<and> certifies c run \<and>
    draft \<in> set (elems (fld good_analysis ''strategyDrafts'')) \<and> fld c ''draft'' = draft \<and>
    fld draft ''kind'' \<noteq> S ''watch_only'' \<and>
    fld (backtestRequestFromDraft draft None) ''strategyId'' = fld c ''strategyId''"
  by (rule paper_candidate_sound [OF good_candidate])

end
