(* ===== verification/Decision_Properties.thy ===== *)
theory Decision_Properties
  imports Goal_Readiness Ranking_Properties
begin

section \<open>The decision and the readiness check as gates\<close>

text \<open>
  Both \<open>nextAIGoalDecision\<close> and \<open>aiExecutionReadinessFromState\<close> build a large object for the page; what
  they decide is its \<^verbatim>\<open>stage\<close>. \<open>observe\<close> abstracts their inputs to the facts that matter, \<open>decide\<close> and
  \<open>readiness\<close> are the abstract gates, and the refinement theorems state that the code's stage is the
  abstract one. The safety properties are read off the gates.
\<close>

subsection \<open>The facts\<close>

record goal_facts =
  analysed :: bool
  has_notes :: bool
  no_context :: bool
  has_runs :: bool
  running :: bool
  started :: bool
  has_candidate :: bool
  strong_candidate :: bool
  unbalanced :: bool
  reviewed :: bool
  watched :: bool
  watch_complete :: bool
  halted :: bool
  limits_set :: bool
  no_account :: bool

text \<open>The numbers that \<open>nextAIGoalDecision\<close> asks of a candidate for the test net.\<close>

definition strong :: "jsval \<Rightarrow> bool" where
  "strong c \<longleftrightarrow> num_le (Fin 75) (to_num (fld c ''score'')) \<and> num_lt (Fin 0) (to_num (fld c ''totalReturn'')) \<and>
     num_le (Fin 1) (to_num (fld c ''sharpe'')) \<and> num_le (to_num (fld c ''maxDrawdown'')) (fl (3 / 25))"

definition context_count :: "jsval \<Rightarrow> jsnum" where
  "context_count analysis =
     (let context = js_or (fld analysis ''context'') (obj [])
      in num_add (num_add (to_num (js_or (fld context ''newsCount'') (N 0)))
                    (to_num (js_or (fld context ''macroCount'') (N 0))))
           (to_num (js_or (fld context ''onchainCount'') (N 0))))"

definition account_count :: "jsval \<Rightarrow> jsval \<Rightarrow> jsval" where
  "account_count analysis accounts =
     (if is_arr accounts then Num (len (tradeableAccountsFromList accounts))
      else js_or (fld (executionContextFromAnalysis analysis) ''tradeableAccountCount'') (N 0))"

definition observe :: "jsval \<Rightarrow> jsval \<Rightarrow> jsval \<Rightarrow> jsval \<Rightarrow> date \<Rightarrow> goal_facts" where
  "observe analysis actions runs accounts clock =
     \<lparr>analysed = truthy analysis,
      has_notes = safeStringList (fld (fld analysis ''context'') ''notes'') \<noteq> [],
      no_context = num_eq (context_count analysis) (Fin 0),
      has_runs = rankBacktestValidation runs \<noteq> [],
      running = list_ex (\<lambda>row. fld row ''score'' = Null) (rankBacktestValidation runs),
      started = lower (to_str (js_or (fld (persistedActionById actions (S ''backtest'')) ''status'') (Str []))) =
          js ''done'' \<and> backtestRunIdsFromAction (persistedActionById actions (S ''backtest'')) \<noteq> [],
      has_candidate = truthy (paperCandidateFromValidation analysis runs clock),
      strong_candidate = strong (paperCandidateFromValidation analysis runs clock),
      unbalanced = fld (aiSentimentCompassFromAnalysis analysis) ''stage'' \<noteq> S ''balanced'',
      reviewed = sentimentReviewCompleted (persistedActionById actions (S ''sentiment_review'')),
      watched = truthy (persistedActionById actions (S ''paper_watch'')),
      watch_complete = fld (persistedActionById actions (S ''paper_watch'')) ''status'' = S ''done'' \<and>
          paperWatchCompletionHasEvidence (persistedActionById actions (S ''paper_watch'')),
      halted = truthy (fld (executionContextFromAnalysis analysis) ''tradingHalted''),
      limits_set = portfolioLimitsReady (executionContextFromAnalysis analysis),
      no_account = account_count analysis accounts = N 0\<rparr>"

subsection \<open>The gates\<close>

definition decide :: "goal_facts \<Rightarrow> string" where
  "decide g =
     (if has_notes g \<and> \<not> has_runs g then ''data_gap''
      else if running g \<or> \<not> has_runs g \<and> started g then ''validating''
      else if \<not> has_runs g then ''backtest''
      else if \<not> has_candidate g then ''redesign''
      else if \<not> watched g then (if unbalanced g \<and> \<not> reviewed g then ''sentiment_review'' else ''paper_candidate'')
      else if \<not> watch_complete g then ''paper_watch''
      else if strong_candidate g then ''testnet_candidate'' else ''continue_paper'')"

definition readiness :: "goal_facts \<Rightarrow> string" where
  "readiness g =
     (if \<not> analysed g then ''not_started''
      else if has_notes g \<or> no_context g then ''data_gap''
      else if \<not> has_candidate g then (if running g then ''validating'' else ''validation_needed'')
      else if unbalanced g \<and> \<not> reviewed g then ''sentiment_review''
      else if halted g then ''trading_halted''
      else if \<not> limits_set g then ''risk_limits_blocked''
      else if no_account g then ''account_blocked''
      else if \<not> watched g then ''paper_ready''
      else if \<not> watch_complete g then ''paper_watch''
      else ''testnet_ready'')"

subsection \<open>Absent arguments\<close>

lemma persisted_dflt: "persistedActionById (dflt actions (Arr [])) k = persistedActionById actions k"
  by (cases "actions = Undef") (simp_all add: persistedActionById_def js_find_def)

lemma ranking_dflt: "rankBacktestValidation (dflt runs (Arr [])) = rankBacktestValidation runs"
  by (cases "runs = Undef") (simp_all add: rankBacktestValidation_def js_sort_def)

lemma candidate_dflt:
  "paperCandidateFromValidation analysis (dflt runs (Arr [])) clock = paperCandidateFromValidation analysis runs clock"
  "paperCandidateFromValidation (dflt analysis Null) runs clock = paperCandidateFromValidation analysis runs clock"
  by (simp_all add: paperCandidateFromValidation_def ranking_dflt)

lemma compass_dflt: "aiSentimentCompassFromAnalysis (dflt analysis Null) = aiSentimentCompassFromAnalysis analysis"
proof -
  have "dflt (dflt analysis Null) Null = dflt analysis Null" by (simp add: dflt_def)
  then show ?thesis unfolding aiSentimentCompassFromAnalysis_def by (simp only:)
qed

lemma execution_dflt: "executionContextFromAnalysis (dflt analysis Null) = executionContextFromAnalysis analysis"
  unfolding executionContextFromAnalysis_def by (simp only: fld_dflt_Null)

lemma truthy_dflt_Null: "truthy (dflt analysis Null) = truthy analysis"
  by (cases "analysis = Undef") simp_all

lemmas dflt_facts = persisted_dflt ranking_dflt candidate_dflt compass_dflt execution_dflt truthy_dflt_Null fld_dflt_Null

lemma context_notes:
  "safeStringList (fld (js_or (fld analysis ''context'') (obj [])) ''notes'') =
   safeStringList (fld (fld analysis ''context'') ''notes'')"
  by (cases "fld analysis ''context''") (auto simp: js_or_def safeStringList_def)

subsection \<open>Refinement\<close>

lemma decision_stage:
  "fld (nextAIGoalDecision analysis actions runs clock) ''stage'' = S (decide (observe analysis actions runs accounts clock))"
proof -
  have run: "running (observe analysis actions runs accounts clock) \<Longrightarrow> has_runs (observe analysis actions runs accounts clock)"
    by (auto simp: observe_def)
  show ?thesis
    unfolding nextAIGoalDecision_def
    by (simp only: at_field cong del: if_weak_cong, simp only: let_field dflt_facts cong del: if_weak_cong)
      (auto simp: decide_def observe_def strong_def)
qed

lemma readiness_stage:
  "fld (aiExecutionReadinessFromState analysis actions runs accounts clock) ''stage'' =
   S (readiness (observe analysis actions runs accounts clock))"
  unfolding aiExecutionReadinessFromState_def
  by (simp only: at_field cong del: if_weak_cong, simp only: let_field dflt_facts context_notes cong del: if_weak_cong)
    (auto simp: readiness_def observe_def context_count_def account_count_def Let_def)

lemma readiness_blockers:
  assumes "readiness (observe analysis actions runs accounts clock) = ''testnet_ready''"
    and "\<exists>row. row \<in> set (rankBacktestValidation runs) \<and> fld row ''score'' \<noteq> Null"
  shows "fld (aiExecutionReadinessFromState analysis actions runs accounts clock) ''blockers'' = Arr [Str (zh 60390)]"
proof -
  let ?g = "observe analysis actions runs accounts clock"
  have g: "analysed ?g" "\<not> has_notes ?g" "\<not> no_context ?g" "has_candidate ?g" "\<not> (unbalanced ?g \<and> \<not> reviewed ?g)"
    "\<not> halted ?g" "limits_set ?g" "\<not> no_account ?g" "watched ?g" "watch_complete ?g"
    using assms(1) by (auto simp: readiness_def split: if_splits)
  note facts = g [unfolded observe_def context_count_def account_count_def Let_def goal_facts.simps not_not]
  have evidence: "fld (persistedActionById actions (S ''paper_watch'')) ''status'' = S ''done''"
    "paperWatchCompletionHasEvidence (persistedActionById actions (S ''paper_watch''))"
    using facts(10) by blast+
  have scored: "filter (\<lambda>row. fld row ''score'' \<noteq> Null) (rankBacktestValidation runs) \<noteq> []"
    using assms(2) by (auto simp: filter_empty_conv)
  show ?thesis
    unfolding aiExecutionReadinessFromState_def
    by (simp only: at_field cong del: if_weak_cong,
        simp only: let_field dflt_facts context_notes facts(1-9) evidence scored HOL.simp_thms if_True if_False)
      simp
qed

subsection \<open>Properties\<close>

lemma persisted_member:
  assumes "truthy (persistedActionById actions k)"
  shows "persistedActionById actions k \<in> set (elems actions) \<and> fld (persistedActionById actions k) ''id'' = k"
proof -
  let ?P = "\<lambda>action. strict_eq (fld action ''id'') k"
  from assms have arr: "is_arr actions" by (auto simp: persistedActionById_def split: if_splits)
  then have eq: "persistedActionById actions k = coalesce (js_find ?P (elems actions)) Null"
    by (simp add: persistedActionById_def)
  with assms have "js_find ?P (elems actions) = persistedActionById actions k"
    by (auto simp: coalesce_def split: if_splits)
  with assms js_find_truthy [of ?P "elems actions"] show ?thesis by (auto dest: strict_eq_eq)
qed

lemma candidate_scored:
  assumes "truthy (paperCandidateFromValidation analysis runs clock)"
  shows "\<exists>row. row \<in> set (rankBacktestValidation runs) \<and> fld row ''score'' \<noteq> Null"
proof -
  from assms obtain c where "loop (candidate_step analysis clock) (rankBacktestValidation runs) () = Return c"
    unfolding candidate_eq by (auto split: flow.splits)
  from loop_Return [OF this] obtain row where row: "row \<in> set (rankBacktestValidation runs)"
    and "candidate_step analysis clock row () = Return c" by auto
  then have "recommended row" using candidate_step_Return by blast
  with row recommended_ranked show ?thesis by blast
qed

text \<open>
  C2: Refinement: the stage that \<open>nextAIGoalDecision\<close> and the stage that
  \<open>aiExecutionReadinessFromState\<close> put into their objects are those of the abstract gates \<open>decide\<close> and
  \<open>readiness\<close>, applied to the facts that \<open>observe\<close> extracts from the same analysis, actions, runs and
  accounts. Nothing else in these inputs can change a stage.\<close>

theorem stages_refine_gates:
  "fld (nextAIGoalDecision analysis actions runs clock) ''stage'' =
     S (decide (observe analysis actions runs accounts clock)) \<and>
   fld (aiExecutionReadinessFromState analysis actions runs accounts clock) ''stage'' =
     S (readiness (observe analysis actions runs accounts clock))"
  by (rule conjI [OF decision_stage readiness_stage])

text \<open>
  C9: The decision names a test-net candidate only on evidence: every validation run has finished, the
  candidate is backed by a finished run with a score of at least 75, a positive return, a Sharpe ratio
  of at least 1 and a drawdown of at most 12 percent, and among the persisted actions there is a paper
  watch that is marked done and whose note covers all the review topics.\<close>

theorem testnet_candidate_evidence:
  assumes "fld (nextAIGoalDecision analysis actions runs clock) ''stage'' = S ''testnet_candidate''"
  shows "list_all (\<lambda>row. fld row ''score'' \<noteq> Null) (rankBacktestValidation runs) \<and>
    (\<exists>run c. run \<in> set (elems runs) \<and> c = paperCandidateFromValidation analysis runs clock \<and>
       certifies c run \<and> strong c) \<and>
    (\<exists>action. action \<in> set (elems actions) \<and> fld action ''id'' = S ''paper_watch'' \<and>
       fld action ''status'' = S ''done'' \<and> paperWatchCompletionHasEvidence action)"
proof -
  let ?g = "observe analysis actions runs Null clock"
  from assms have "decide ?g = ''testnet_candidate''" by (simp add: decision_stage [where accounts = Null])
  then have g: "\<not> running ?g" "has_candidate ?g" "watched ?g" "watch_complete ?g" "strong_candidate ?g"
    by (auto simp: decide_def split: if_splits)
  note facts = g [unfolded observe_def goal_facts.simps]
  from candidate_certified [OF facts(2)] persisted_member [OF facts(3)] facts(1,4,5) show ?thesis
    by (auto simp: list_all_iff list_ex_iff)
qed

text \<open>
  C8: The readiness check opens the test net only when every gate is passed: there is a candidate backed by
  a finished run, the sentiment is balanced or reviewed with evidence, trading is not halted, the
  portfolio limits are set, there is an account that can trade, and the paper watch is done with
  evidence. The list of blockers then holds the main-net gate and nothing else, so the page never shows
  an open gate next to a reason against it.\<close>

theorem testnet_ready_gates:
  assumes "fld (aiExecutionReadinessFromState analysis actions runs accounts clock) ''stage'' = S ''testnet_ready''"
  shows "(\<exists>run. run \<in> set (elems runs) \<and> certifies (paperCandidateFromValidation analysis runs clock) run) \<and>
    (fld (aiSentimentCompassFromAnalysis analysis) ''stage'' = S ''balanced'' \<or>
     sentimentReviewCompleted (persistedActionById actions (S ''sentiment_review''))) \<and>
    \<not> truthy (fld (executionContextFromAnalysis analysis) ''tradingHalted'') \<and>
    portfolioLimitsReady (executionContextFromAnalysis analysis) \<and>
    account_count analysis accounts \<noteq> N 0 \<and>
    (\<exists>action. action \<in> set (elems actions) \<and> fld action ''id'' = S ''paper_watch'' \<and>
       fld action ''status'' = S ''done'' \<and> paperWatchCompletionHasEvidence action) \<and>
    fld (aiExecutionReadinessFromState analysis actions runs accounts clock) ''blockers'' = Arr [Str (zh 60390)]"
proof -
  let ?g = "observe analysis actions runs accounts clock"
  from assms have r: "readiness ?g = ''testnet_ready''" by (simp add: readiness_stage)
  then have g: "has_candidate ?g" "\<not> (unbalanced ?g \<and> \<not> reviewed ?g)" "\<not> halted ?g" "limits_set ?g"
    "\<not> no_account ?g" "watched ?g" "watch_complete ?g"
    by (auto simp: readiness_def split: if_splits)
  note facts = g [unfolded observe_def goal_facts.simps]
  from candidate_certified [OF facts(1)] persisted_member [OF facts(6)] facts(2-5,7)
    readiness_blockers [OF r candidate_scored [OF facts(1)]]
  show ?thesis by blast
qed

end
