(* ===== verification/Decision_Cases.thy ===== *)
theory Decision_Cases
  imports Decision_Properties
begin

section \<open>Two gates that disagree\<close>

text \<open>
  Concrete states of the page: everything reviewed, one run finished. With a drawdown of 12.5 percent the
  readiness check opens the test net while the decision sends the operator back to paper; with no
  drawdown both agree. The same states are the witnesses of the gate properties.
\<close>

definition run_with_drawdown :: "rat \<Rightarrow> jsval" where
  "run_with_drawdown dd = obj [(''runId'', S ''r1''), (''strategyId'', S ''btca''), (''state'', N 3),
     (''metrics'', obj [(''total_return'', N 1), (''sharpe'', N 2), (''max_dd'', N dd), (''n_trades'', N 30)])]"

definition calm_analysis :: jsval where
  "calm_analysis = obj [(''strategyDrafts'', Arr [good_draft]), (''context'', obj [(''newsCount'', N 3)])]"

definition done_actions :: jsval where
  "done_actions = Arr [obj [(''id'', S ''sentiment_review''), (''status'', S ''done'')],
     obj [(''id'', S ''paper_watch''), (''status'', S ''done''),
          (''note'', S ''24h market sentiment fomo friction drawdown testnet'')]]"

definition one_account :: jsval where
  "one_account = Arr [obj [(''permissions'', obj [(''canTrade'', Bool True)])]]"

lemma thresholds:
  "\<exists>r. fl (1 / 5) = Fin r \<and> 1 / 6 < r" "\<exists>r. fl (3 / 25) = Fin r \<and> 0 < r \<and> r < 1 / 8"
proof -
  obtain r where "fl (1 / 5) = Fin r" "999 / 1000 * (1 / 5) < r" using fl_near [of "1 / 5"] by auto
  then show "\<exists>r. fl (1 / 5) = Fin r \<and> 1 / 6 < r" by (intro exI [of _ r]) simp
  obtain r where "fl (3 / 25) = Fin r" "999 / 1000 * (3 / 25) < r" "r < 1001 / 1000 * (3 / 25)"
    using fl_near [of "3 / 25"] by auto
  then show "\<exists>r. fl (3 / 25) = Fin r \<and> 0 < r \<and> r < 1 / 8" by (intro exI [of _ r]) simp
qed

lemma case_row:
  "recommended (rank_row (run_with_drawdown 0))" "fld (rank_row (run_with_drawdown 0)) ''score'' = N 100"
  "recommended (rank_row (run_with_drawdown (1 / 8)))" "fld (rank_row (run_with_drawdown (1 / 8))) ''score'' = N 100"
  using thresholds(1)
  by (auto simp: recommended_def rank_row_simps run_with_drawdown_def Let_def metric_def num_sub_def fl_numeral
      clampScore_def recommendation_distinct num_eq_def fld_def [symmetric])

lemma case_fields:
  assumes "dd = 0 \<or> dd = 1 / 8"
  shows "recommended (rank_row (run_with_drawdown dd)) \<and>
    fld (rank_row (run_with_drawdown dd)) ''score'' = N 100 \<and>
    fld (rank_row (run_with_drawdown dd)) ''strategyId'' = S ''btca'' \<and>
    fld (rank_row (run_with_drawdown dd)) ''totalReturn'' = N 1 \<and>
    fld (rank_row (run_with_drawdown dd)) ''sharpe'' = N 2 \<and>
    fld (rank_row (run_with_drawdown dd)) ''maxDrawdown'' = N dd"
proof -
  have r: "recommended (rank_row (run_with_drawdown dd))" "fld (rank_row (run_with_drawdown dd)) ''score'' = N 100"
    using assms by (elim disjE; simp only: case_row)+
  then show ?thesis using recommended_certifies [OF r(1)] assms
    by (auto simp: certifies_def run_with_drawdown_def metric_def fld_def [symmetric])
qed

lemma case_candidate:
  fixes clock :: date
  assumes "dd = 0 \<or> dd = 1 / 8"
  defines "c \<equiv> paperCandidateFromValidation calm_analysis (Arr [run_with_drawdown dd]) clock"
  shows "truthy c \<and> fld c ''score'' = N 100 \<and> fld c ''totalReturn'' = N 1 \<and> fld c ''sharpe'' = N 2 \<and>
    fld c ''maxDrawdown'' = N dd"
proof -
  let ?row = "rank_row (run_with_drawdown dd)"
  note f = case_fields [OF assms(1)]
  have "draft_of_row calm_analysis clock ?row = good_draft"
    using f by (simp add: draft_of_row_def js_find_def calm_analysis_def good_strategy)
  then have "candidate_step calm_analysis clock ?row () = Return c"
    using f unfolding c_def by (simp add: candidate_eq ranking_eq js_sort_def candidate_step_def good_draft_def)
  from candidate_step_Return [OF this] f show ?thesis by simp
qed

lemma case_actions:
  "persistedActionById done_actions (S ''backtest'') = Null"
  "sentimentReviewCompleted (persistedActionById done_actions (S ''sentiment_review''))"
  "truthy (persistedActionById done_actions (S ''paper_watch''))"
  "fld (persistedActionById done_actions (S ''paper_watch'')) ''status'' = S ''done''"
  "paperWatchCompletionHasEvidence (persistedActionById done_actions (S ''paper_watch''))"
proof -
  have low: "lower (js ''24h market sentiment fomo friction drawdown testnet'') =
      js ''24h market sentiment fomo friction drawdown testnet''"
    by (simp add: js_def lower_def lower_unit_def)
  have kw: "contains (js ''24h market sentiment fomo friction drawdown testnet'') (lower (js w))"
    if "w \<in> {''24h'', ''market'', ''sentiment'', ''fomo'', ''friction'', ''drawdown'', ''testnet''}" for w
    using that by (auto simp: js_def lower_def lower_unit_def)
  show "persistedActionById done_actions (S ''backtest'') = Null"
    "truthy (persistedActionById done_actions (S ''paper_watch''))"
    "fld (persistedActionById done_actions (S ''paper_watch'')) ''status'' = S ''done''"
    by (simp_all add: persistedActionById_def done_actions_def js_find_def)
  show "sentimentReviewCompleted (persistedActionById done_actions (S ''sentiment_review''))"
    by (simp add: persistedActionById_def done_actions_def js_find_def sentimentReviewCompleted_def
        sentimentReviewCompletionHasEvidence_def lower_def)
  show "paperWatchCompletionHasEvidence (persistedActionById done_actions (S ''paper_watch''))"
    by (simp add: persistedActionById_def done_actions_def js_find_def paperWatchCompletionHasEvidence_def low kw)
qed

lemma case_ranking: "rankBacktestValidation (Arr [run_with_drawdown dd]) = [rank_row (run_with_drawdown dd)]"
  by (simp add: ranking_eq js_sort_def)

lemma case_context:
  "safeStringList (fld (fld calm_analysis ''context'') ''notes'') = []"
  "\<not> num_eq (context_count calm_analysis) (Fin 0)"
  "executionContextFromAnalysis calm_analysis = Null"
  "truthy calm_analysis"
  "account_count calm_analysis one_account = N 1"
  by (simp_all add: calm_analysis_def safeStringList_def context_count_def executionContextFromAnalysis_def Let_def
      fl_numeral account_count_def one_account_def tradeableAccountsFromList_def len_def)

lemma case_stages:
  assumes "dd = 0 \<or> dd = 1 / 8"
  shows "readiness (observe calm_analysis done_actions (Arr [run_with_drawdown dd]) one_account clock) = ''testnet_ready''"
    and "decide (observe calm_analysis done_actions (Arr [run_with_drawdown dd]) one_account clock) =
      (if dd = 0 then ''testnet_candidate'' else ''continue_paper'')"
  using case_fields [OF assms] case_candidate [OF assms, of clock] assms thresholds(2)
  by (auto simp: readiness_def decide_def observe_def case_actions case_ranking case_context portfolioLimitsReady_def
      strong_def)

text \<open>
  The two gates disagree. There is a state of the page, with one finished run whose drawdown is 12.5
  percent and everything reviewed, in which the readiness check reports \<open>testnet_ready\<close> while the
  decision shown beside it is \<open>continue_paper\<close>: the check takes any paper candidate (drawdown up to 20
  percent, score from 70), the decision asks for 12 percent and 75.\<close>

theorem gates_disagree:
  "fld (aiExecutionReadinessFromState calm_analysis done_actions (Arr [run_with_drawdown (1 / 8)]) one_account clock)
     ''stage'' = S ''testnet_ready'' \<and>
   fld (nextAIGoalDecision calm_analysis done_actions (Arr [run_with_drawdown (1 / 8)]) clock) ''stage'' =
     S ''continue_paper''"
  by (simp add: readiness_stage decision_stage [where accounts = one_account] case_stages)

text \<open>Witnesses of the gate properties.\<close>

theorem testnet_candidate_evidence_witness:
  "list_all (\<lambda>row. fld row ''score'' \<noteq> Null) (rankBacktestValidation (Arr [run_with_drawdown 0])) \<and>
    (\<exists>run c. run \<in> set (elems (Arr [run_with_drawdown 0])) \<and>
       c = paperCandidateFromValidation calm_analysis (Arr [run_with_drawdown 0]) None \<and> certifies c run \<and> strong c) \<and>
    (\<exists>action. action \<in> set (elems done_actions) \<and> fld action ''id'' = S ''paper_watch'' \<and>
       fld action ''status'' = S ''done'' \<and> paperWatchCompletionHasEvidence action)"
  by (rule testnet_candidate_evidence) (simp add: decision_stage [where accounts = one_account] case_stages)

theorem testnet_ready_gates_witness:
  "(\<exists>run. run \<in> set (elems (Arr [run_with_drawdown 0])) \<and>
      certifies (paperCandidateFromValidation calm_analysis (Arr [run_with_drawdown 0]) None) run) \<and>
    (fld (aiSentimentCompassFromAnalysis calm_analysis) ''stage'' = S ''balanced'' \<or>
     sentimentReviewCompleted (persistedActionById done_actions (S ''sentiment_review''))) \<and>
    \<not> truthy (fld (executionContextFromAnalysis calm_analysis) ''tradingHalted'') \<and>
    portfolioLimitsReady (executionContextFromAnalysis calm_analysis) \<and>
    account_count calm_analysis one_account \<noteq> N 0 \<and>
    (\<exists>action. action \<in> set (elems done_actions) \<and> fld action ''id'' = S ''paper_watch'' \<and>
       fld action ''status'' = S ''done'' \<and> paperWatchCompletionHasEvidence action) \<and>
    fld (aiExecutionReadinessFromState calm_analysis done_actions (Arr [run_with_drawdown 0]) one_account None)
      ''blockers'' = Arr [Str (zh 60390)]"
  by (rule testnet_ready_gates) (simp add: readiness_stage case_stages)

end
