(* ===== verification/Money_Page.thy ===== *)
theory Money_Page
  imports Command_Center Goal_Form Activity_Center
begin

section \<open>The controller of the AI Money page\<close>

text \<open>
  The component \<^verbatim>\<open>AIGoalClient\<close> of \<^verbatim>\<open>src/client/app/(dashboard)/ai-money/client.tsx\<close> without its
  markup: the state hooks and refs as a record, the handlers, and the effects. A handler is an
  asynchronous function, so it is a resumption: it changes the state, sends a call, and goes on when
  the answer comes, whatever has happened to the state meanwhile. A handler sees the page as it was
  rendered when it was created (its closure, the argument \<open>p\<close>); its updates apply to the state at the
  time they run.

  An answer carries the time at which it arrives and the random identifier that would be drawn next;
  so does the event that starts a handler. \<open>Promise.all\<close> over several requests is one call. The code that
  parses an address (\<^verbatim>\<open>new URL\<close>) is the parameter \<open>url\<close>.
\<close>


subsection \<open>The state\<close>

definition AUTO_DAILY_RADAR_ENABLED_KEY :: jstr where
  "AUTO_DAILY_RADAR_ENABLED_KEY = js ''finance_next.ai_money.auto_daily_radar.enabled''"

definition AUTO_DAILY_RADAR_LAST_KEY :: jstr where
  "AUTO_DAILY_RADAR_LAST_KEY = js ''finance_next.ai_money.auto_daily_radar.last_key''"

record page =
  requestedRunId :: jstr
  requestedIntent :: jstr
  goal :: jsval
  symbolsText :: jsval
  horizon :: jsval
  riskPreference :: jsval
  executionMode :: jsval
  behaviorText :: jsval
  narrativeText :: jsval
  avoidText :: jsval
  analysis :: jsval
  activeRun :: jsval
  runs :: "jsval list"
  accounts :: jsval
  providerStatus :: jsval
  providerStatusBusy :: bool
  error :: "thrown option"
  runError :: "thrown option"
  accountsError :: "thrown option"
  busy :: bool
  runsBusy :: bool
  accountsBusy :: bool
  backtestBusyKey :: jsval
  batchBacktestBusy :: bool
  pipelineBusy :: bool
  actionBusyKey :: jsval
  strategySaveBusyKey :: jsval
  validationRuns :: "jsval list"
  validationBusy :: bool
  validationError :: "thrown option"
  autoRadarEnabled :: bool
  autoRadarPreferenceLoaded :: bool
  autoRadarLastKeyRef :: jstr
  autoOpenedRunIdRef :: jstr
  settingsReturnAutoRunKeyRef :: jstr
  center :: activity
  visited :: "jstr list"
  poll_epoch :: nat
  poll_ids :: "jstr list"
  poll_timer :: bool

text \<open>
  \<open>center\<close> is the activity provider, whose browser storage the page shares; \<open>visited\<close> are the addresses
  given to \<^verbatim>\<open>router.push\<close>, the last one first; \<open>poll_epoch\<close> counts the instances of the polling effect (an
  older instance is no longer \<^verbatim>\<open>alive\<close>), \<open>poll_ids\<close> are the runs it polls, and \<open>poll_timer\<close> says whether
  its timer is set.
\<close>

definition initial_page :: "jstr \<Rightarrow> jstr \<Rightarrow> activity \<Rightarrow> page" where
  "initial_page run_id intent activity = \<lparr>
     requestedRunId = run_id, requestedIntent = intent,
     goal = Str (pg 12650),
     symbolsText = S ''BTC, ETH'', horizon = S ''1-4 weeks'', riskPreference = S ''balanced'', executionMode = S ''paper'',
     behaviorText = Str AI_DEFAULT_BEHAVIOR_TEXT, narrativeText = Str AI_DEFAULT_NARRATIVE_TEXT,
     avoidText = Str AI_DEFAULT_AVOID_TEXT,
     analysis = Null, activeRun = Null, runs = [], accounts = Arr [], providerStatus = Null, providerStatusBusy = True,
     error = None, runError = None, accountsError = None, busy = False, runsBusy = True, accountsBusy = True,
     backtestBusyKey = Null, batchBacktestBusy = False, pipelineBusy = False, actionBusyKey = Null,
     strategySaveBusyKey = Null, validationRuns = [], validationBusy = False, validationError = None,
     autoRadarEnabled = False, autoRadarPreferenceLoaded = False,
     autoRadarLastKeyRef = [], autoOpenedRunIdRef = [], settingsReturnAutoRunKeyRef = [],
     center = activity, visited = [], poll_epoch = 0, poll_ids = [], poll_timer = False\<rparr>"

subsection \<open>Asynchronous handlers\<close>

datatype call =
    AnalyzeGoal jsval
  | GetRun jsval
  | ListRuns
  | UpdateAction jsval jstr jsval
  | CreateBacktest jsval
  | GetBacktests "jstr list"
  | CreateOption jsval
  | ListAccounts
  | ProviderStatus
  | NextTick

record moment =
  now_ms :: int
  new_id :: jstr

datatype reply = Reply "thrown + jsval" moment

datatype act = Stop | Put "page \<Rightarrow> page" act | Ask call "reply \<Rightarrow> act"

abbreviation clock_of :: "moment \<Rightarrow> date" where
  "clock_of m \<equiv> Some (now_ms m)"

text \<open>\<^verbatim>\<open>await api(...)\<close> with the two ways to go on.\<close>

definition await :: "call \<Rightarrow> (jsval \<Rightarrow> moment \<Rightarrow> act) \<Rightarrow> (thrown \<Rightarrow> moment \<Rightarrow> act) \<Rightarrow> act" where
  "await c ok failed = Ask c (\<lambda>r. case r of Reply (Inr v) m \<Rightarrow> ok v m | Reply (Inl e) m \<Rightarrow> failed e m)"

definition on_center :: "(activity \<Rightarrow> activity) \<Rightarrow> page \<Rightarrow> page" where
  "on_center f p = p\<lparr>center := f (center p)\<rparr>"

text \<open>
  \<open>withActivity\<close> around an asynchronous body: the body is told how to go on with its outcome.
\<close>

definition tracked ::
  "moment \<Rightarrow> jsval \<Rightarrow> ((thrown + jsval \<Rightarrow> moment \<Rightarrow> act) \<Rightarrow> act) \<Rightarrow> (thrown + jsval \<Rightarrow> moment \<Rightarrow> act) \<Rightarrow> act" where
  "tracked m desc body k =
     Put (on_center (push (new_id m) (now_ms m) desc))
       (body (\<lambda>r m'. Put (on_center (update (new_id m) (outcome_patch r) (now_ms m'))) (k r m')))"

definition visit :: "jstr \<Rightarrow> page \<Rightarrow> page" where
  "visit href p = p\<lparr>visited := href # visited p\<rparr>"

subsection \<open>Helpers\<close>

definition providerBlocksAction :: "jsval \<Rightarrow> jsval \<Rightarrow> bool" where
  "providerBlocksAction providerGate kind =
     (let actionKind = to_str (js_or kind (Str []))
      in if actionKind = js ''scan_today'' \<or> actionKind = js ''rescan_today''
         then truthy (fld providerGate ''blockAutoRadar'')
         else if actionKind = js ''analyze_and_validate''
         then truthy (js_or (fld providerGate ''blockManualAnalysis'') (fld providerGate ''blockAutoRadar''))
         else False)"

definition runFromAnalysis :: "jsval \<Rightarrow> jsval \<Rightarrow> jsval \<Rightarrow> moment \<Rightarrow> jsval" where
  "runFromAnalysis a h risk m = obj
     [(''id'', fld a ''id''), (''userId'', S ''default''), (''createdAt'', fld a ''createdAt''),
      (''updatedAt'', fld a ''createdAt''), (''goal'', fld a ''goal''),
      (''summary'', fld a ''summary''), (''symbols'', fld (fld a ''context'') ''symbols''),
      (''horizon'', h), (''riskPreference'', risk),
      (''status'', fld (fld a ''ai'') ''status''), (''aiStatus'', fld (fld a ''ai'') ''status''),
      (''aiModel'', fld (fld a ''ai'') ''model''),
      (''executionMode'', fld (fld a ''execution'') ''mode''),
      (''strategyDraftCount'', fld (fld a ''strategyDrafts'') ''length''),
      (''contextNewsCount'', fld (fld a ''context'') ''newsCount''),
      (''contextMacroCount'', fld (fld a ''context'') ''macroCount''),
      (''contextOnchainCount'', fld (fld a ''context'') ''onchainCount''),
      (''analysis'', a),
      (''actions'', Arr (defaultAIGoalRunActionsFromAnalysis a (clock_of m) (clock_of m)))]"

definition providerGate :: "page \<Rightarrow> jsval" where
  "providerGate p = aiProviderReadinessGateFromStatus (providerStatus p) (Bool (providerStatusBusy p))"

text \<open>The address that a blocked analysis leads to.\<close>

definition redirectIfProviderBlocksAnalysis :: "page \<Rightarrow> jstr option" where
  "redirectIfProviderBlocksAnalysis p =
     (let attempt = aiProviderAnalysisAttemptFromGate (providerGate p)
      in if fld attempt ''kind'' \<noteq> S ''redirect'' then None
         else Some (to_str (js_or (fld attempt ''href'') (S ''/settings/ai''))))"

definition validationRunKey :: "page \<Rightarrow> jstr" where
  "validationRunKey p =
     (let backtestAction = js_find (\<lambda>a. strict_eq (fld a ''id'') (S ''backtest'')) (elems (fld (activeRun p) ''actions''))
      in js_join (js '','') (backtestRunIdsFromAction backtestAction))"

definition currentFormState :: "page \<Rightarrow> jsval" where
  "currentFormState p = obj
     [(''goal'', goal p), (''symbolsText'', symbolsText p), (''horizon'', horizon p),
      (''riskPreference'', riskPreference p), (''executionMode'', executionMode p),
      (''behaviorText'', behaviorText p), (''narrativeText'', narrativeText p), (''avoidText'', avoidText p)]"

definition applyFormState :: "jsval \<Rightarrow> page \<Rightarrow> page" where
  "applyFormState next p = p\<lparr>
     goal := fld next ''goal'',
     symbolsText := fld next ''symbolsText'',
     horizon := fld next ''horizon'',
     riskPreference := fld next ''riskPreference'',
     executionMode := fld next ''executionMode'',
     behaviorText := coalesce (fld next ''behaviorText'') (Str AI_DEFAULT_BEHAVIOR_TEXT),
     narrativeText := coalesce (fld next ''narrativeText'') (Str AI_DEFAULT_NARRATIVE_TEXT),
     avoidText := coalesce (fld next ''avoidText'') (Str AI_DEFAULT_AVOID_TEXT)\<rparr>"

text \<open>\<^verbatim>\<open>[run, ...prev.filter((r) => r.id !== run.id)].slice(0, 20)\<close>\<close>

definition remember :: "jsval \<Rightarrow> jsval list \<Rightarrow> jsval list" where
  "remember run prev = take 20 (run # filter (\<lambda>r. \<not> strict_eq (fld r ''id'') (fld run ''id'')) prev)"

text \<open>\<^verbatim>\<open>setActiveRun(updated)\<close> and the update of the list that goes with it.\<close>

definition set_active :: "jsval \<Rightarrow> page \<Rightarrow> page" where
  "set_active run p = p\<lparr>activeRun := run, runs := remember run (runs p)\<rparr>"

subsection \<open>Analysis and validation\<close>

definition runGoalAnalysis :: "moment \<Rightarrow> jsval \<Rightarrow> (jsval \<Rightarrow> moment \<Rightarrow> act) \<Rightarrow> act" where
  "runGoalAnalysis m payload k =
     Put (\<lambda>p. p\<lparr>busy := True, error := None\<rparr>)
     (tracked m
        (obj [(''kind'', S ''optimization''), (''label'', Str (pg 14990)),
              (''detail'', Str (s_or (js_join (js '', '') (elems (fld payload ''symbols''))) (js ''auto'')))])
        (\<lambda>k. await (AnalyzeGoal payload) (\<lambda>v. k (Inr v)) (\<lambda>e. k (Inl e)))
        (\<lambda>r m. case r of
           Inr next \<Rightarrow>
             Put (\<lambda>p. set_active
                    (runFromAnalysis next (coalesce (fld payload ''horizon'') (Str []))
                       (coalesce (fld payload ''riskPreference'') (Str [])) m)
                    (p\<lparr>analysis := next\<rparr>))
             (Put (\<lambda>p. p\<lparr>busy := False\<rparr>) (k next m))
         | Inl e \<Rightarrow>
             Put (\<lambda>p. p\<lparr>error := Some e\<rparr>) (Put (\<lambda>p. p\<lparr>busy := False\<rparr>) (k Null m))))"

text \<open>The loop of \<open>runValidationBacktests\<close> that creates the backtests one after the other.\<close>

primrec create_backtests ::
  "jsval list \<Rightarrow> jsval list \<Rightarrow> moment \<Rightarrow> (thrown + jsval \<Rightarrow> moment \<Rightarrow> act) \<Rightarrow> act" where
  "create_backtests [] out m k = k (Inr (Arr out)) m"
| "create_backtests (item # rest) out m k =
     await (CreateBacktest (fld item ''request''))
       (\<lambda>handle m. create_backtests rest (out @ [handle]) m k) (\<lambda>e. k (Inl e))"

definition runValidationBacktests :: "moment \<Rightarrow> jsval \<Rightarrow> (moment \<Rightarrow> act) \<Rightarrow> act" where
  "runValidationBacktests m target k =
     (let plan = autoValidationPlanFromAnalysis target (clock_of m);
          finally = \<lambda>m. Put (\<lambda>p. p\<lparr>batchBacktestBusy := False\<rparr>) (k m)
      in if elems (fld plan ''items'') = [] then k m
         else Put (\<lambda>p. p\<lparr>batchBacktestBusy := True, error := None\<rparr>)
           (tracked m
              (obj [(''kind'', S ''backtest''), (''label'', fld plan ''activityLabel''),
                    (''detail'', fld plan ''activityDetail'')])
              (create_backtests (elems (fld plan ''items'')) [] m)
              (\<lambda>r m. case r of
                 Inl e \<Rightarrow> Put (\<lambda>p. p\<lparr>error := Some e\<rparr>) (finally m)
               | Inr handles \<Rightarrow>
                   if elems handles = [] then finally m
                   else Put (\<lambda>p. p\<lparr>validationRuns :=
                              optimisticValidationRunsFromHandles plan handles (clock_of m) (clock_of m),
                              validationError := None\<rparr>)
                     (await (UpdateAction (fld target ''id'') (js ''backtest'')
                               (backtestActionUpdateFromValidationResult plan handles))
                        (\<lambda>updated m. Put (set_active updated) (finally m))
                        (\<lambda>e m. Put (\<lambda>p. p\<lparr>error := Some e\<rparr>) (finally m))))))"

definition analyzeAndValidateGoal :: "moment \<Rightarrow> jsval \<Rightarrow> (jsval \<Rightarrow> moment \<Rightarrow> act) \<Rightarrow> act" where
  "analyzeAndValidateGoal m payload k =
     (let finally = \<lambda>next m. Put (\<lambda>p. p\<lparr>pipelineBusy := False\<rparr>) (k next m)
      in Put (\<lambda>p. p\<lparr>pipelineBusy := True\<rparr>)
           (runGoalAnalysis m payload (\<lambda>next m.
              if truthy next then runValidationBacktests m next (finally next) else finally next m)))"

text \<open>The guard of every entry point, and what follows when the provider does not block.\<close>

definition unless_blocked :: "page \<Rightarrow> act \<Rightarrow> act" where
  "unless_blocked p a =
     (case redirectIfProviderBlocksAnalysis p of Some href \<Rightarrow> Put (visit href) Stop | None \<Rightarrow> a)"

definition onAnalyzeAndValidate :: "page \<Rightarrow> moment \<Rightarrow> jsval \<Rightarrow> act" where
  "onAnalyzeAndValidate p m targetFormState = unless_blocked p
     (let next = aiGoalAnalyzeTargetFormState (currentFormState p) targetFormState (Arr (runs p)) (clock_of m) (clock_of m)
      in Put (if truthy targetFormState then applyFormState next else id)
           (analyzeAndValidateGoal m (aiGoalRequestFromFormState next) (\<lambda>_ _. Stop)))"

definition executableFormState :: "page \<Rightarrow> moment \<Rightarrow> jsval" where
  "executableFormState p m =
     aiGoalExecutableFormStateFromState (currentFormState p) (Arr (runs p)) (clock_of m) (clock_of m)"

definition onSubmit :: "page \<Rightarrow> moment \<Rightarrow> act" where
  "onSubmit p m = onAnalyzeAndValidate p m (executableFormState p m)"

definition onDailyRadarScan :: "page \<Rightarrow> moment \<Rightarrow> jsval \<Rightarrow> act" where
  "onDailyRadarScan p m targetFormState = unless_blocked p
     (let next = coalesce targetFormState (dailyRadarFormStateFromRuns (Arr (runs p)) (clock_of m) (clock_of m))
      in Put (applyFormState next) (analyzeAndValidateGoal m (aiGoalRequestFromFormState next) (\<lambda>_ _. Stop)))"

end
