(* ===== verification/Money_Runs.thy ===== *)
theory Money_Runs
  imports Money_Page
begin

section \<open>Handlers and effects of the AI Money page\<close>

text \<open>
  The second part of the controller: opening, refreshing and validating stored runs, saving strategies
  and paper candidates, the actions of a run, and the effects. At the end the events of the page
  and its step relation.
\<close>


subsection \<open>Runs\<close>

definition refreshRuns :: act where
  "refreshRuns =
     Put (\<lambda>p. p\<lparr>runsBusy := True, runError := None\<rparr>)
     (await ListRuns
        (\<lambda>next _. Put (\<lambda>p. p\<lparr>runs := elems next, runsBusy := False\<rparr>) Stop)
        (\<lambda>e _. Put (\<lambda>p. p\<lparr>runError := Some e, runsBusy := False\<rparr>) Stop))"

definition openRun :: "page \<Rightarrow> jsval \<Rightarrow> act" where
  "openRun p id' =
     Put (\<lambda>p. p\<lparr>runsBusy := True, runError := None\<rparr>)
     (await (GetRun id')
        (\<lambda>detail _.
           let restored = formStateFromAIGoalRun detail (currentFormState p)
           in Put (\<lambda>p. set_active detail
                (p\<lparr>analysis := (if truthy (fld detail ''analysis'') then fld detail ''analysis'' else analysis p),
                   goal := fld restored ''goal'',
                   symbolsText := fld restored ''symbolsText'',
                   horizon := fld restored ''horizon'',
                   riskPreference := fld restored ''riskPreference'',
                   executionMode := fld restored ''executionMode''\<rparr>))
             (Put (\<lambda>p. p\<lparr>runsBusy := False\<rparr>) Stop))
        (\<lambda>e _. Put (\<lambda>p. p\<lparr>runError := Some e, runsBusy := False\<rparr>) Stop))"

definition refreshRun :: "page \<Rightarrow> jsval \<Rightarrow> act" where
  "refreshRun p id' =
     (let finally = Put (\<lambda>p. p\<lparr>runsBusy := False\<rparr>) Stop
      in Put (\<lambda>p. p\<lparr>runsBusy := True, runError := None\<rparr>)
         (await (GetRun id')
            (\<lambda>detail m.
               let restored = formStateFromAIGoalRun detail (currentFormState p)
               in Put (applyFormState restored)
                  (case redirectIfProviderBlocksAnalysis p of
                     Some href \<Rightarrow> Put (visit href) finally
                   | None \<Rightarrow>
                       analyzeAndValidateGoal m (aiGoalRequestFromFormState restored)
                         (\<lambda>refreshed m.
                            if \<not> truthy refreshed then finally
                            else await
                              (UpdateAction (fld detail ''id'') (js ''refresh_context'')
                                 (obj [(''status'', S ''done''), (''relatedId'', fld refreshed ''id''),
                                       (''href'', Str (js ''/ai-money?'' @
                                          query_string [(js ''runId'', to_str (fld refreshed ''id''))])),
                                       (''note'', Str ((pg 17530) @ to_str (fld refreshed ''id'')))]))
                              (\<lambda>updated _. Put (\<lambda>p. p\<lparr>runs :=
                                 (if list_ex (\<lambda>r. strict_eq (fld r ''id'') (fld updated ''id'')) (runs p)
                                  then map (\<lambda>r. if strict_eq (fld r ''id'') (fld updated ''id'') then updated else r) (runs p)
                                  else take 20 (updated # runs p))\<rparr>) finally)
                              (\<lambda>e _. Put (\<lambda>p. p\<lparr>error := Some e\<rparr>) finally))))
            (\<lambda>e _. Put (\<lambda>p. p\<lparr>runError := Some e\<rparr>) finally)))"

definition validateRun :: "page \<Rightarrow> jsval \<Rightarrow> act" where
  "validateRun p id' =
     (let finally = Put (\<lambda>p. p\<lparr>runsBusy := False\<rparr>) Stop
      in Put (\<lambda>p. p\<lparr>runsBusy := True, runError := None\<rparr>)
         (await (GetRun id')
            (\<lambda>detail m.
               if \<not> truthy (fld detail ''analysis'')
               then Put (\<lambda>p. p\<lparr>runError := Some (Thrown_Error (pg 17910))\<rparr>) finally
               else let restored = formStateFromAIGoalRun detail (currentFormState p)
                 in Put (\<lambda>p. set_active detail (applyFormState restored (p\<lparr>analysis := fld detail ''analysis''\<rparr>)))
                      (runValidationBacktests m (fld detail ''analysis'') (\<lambda>_. finally)))
            (\<lambda>e _. Put (\<lambda>p. p\<lparr>runError := Some e\<rparr>) finally)))"

definition runBacktestDraft :: "page \<Rightarrow> moment \<Rightarrow> jsval \<Rightarrow> act" where
  "runBacktestDraft p m draft =
     (let request = backtestRequestFromDraft draft (clock_of m);
          finally = Put (\<lambda>p. p\<lparr>backtestBusyKey := Null\<rparr>) Stop;
          leave = \<lambda>handle. Put (visit (js ''/backtests/'' @ to_str (fld handle ''runId''))) finally
      in if \<not> truthy request then Stop
         else Put (\<lambda>p. p\<lparr>backtestBusyKey :=
                     Str (to_str (fld draft ''name'') @ js ''-'' @ to_str (fld draft ''symbol'')), error := None\<rparr>)
           (tracked m
              (obj [(''kind'', S ''backtest''),
                    (''label'', Str ((pg 15920) @ to_str (js_or (fld draft ''name'') (fld draft ''symbol'')))),
                    (''detail'', Str (to_str (fld request ''symbol'') @ (pg 15930) @ to_str (fld request ''timeframe'')))])
              (\<lambda>k. await (CreateBacktest request) (\<lambda>v. k (Inr v)) (\<lambda>e. k (Inl e)))
              (\<lambda>r _. case r of
                 Inl e \<Rightarrow> Put (\<lambda>p. p\<lparr>error := Some e\<rparr>) finally
               | Inr handle \<Rightarrow>
                   if \<not> truthy (fld (analysis p) ''id'') then leave handle
                   else await
                     (UpdateAction (fld (analysis p) ''id'') (js ''backtest'')
                        (obj [(''status'', S ''done''), (''relatedId'', fld handle ''runId''),
                              (''href'', Str (js ''/backtests/'' @ to_str (fld handle ''runId''))),
                              (''note'', Str (pg 16030))]))
                     (\<lambda>updated _. Put (set_active updated) (leave handle))
                     (\<lambda>e _. Put (\<lambda>p. p\<lparr>error := Some e\<rparr>) (leave handle)))))"

definition runAllBacktests :: "moment \<Rightarrow> jsval \<Rightarrow> act" where
  "runAllBacktests m target = runValidationBacktests m target (\<lambda>_. Stop)"

subsection \<open>Candidates and strategies\<close>

definition acceptPaperCandidate ::
  "(jstr \<Rightarrow> (jstr \<times> (jstr \<times> jstr) list) option) \<Rightarrow> page \<Rightarrow> jsval \<Rightarrow> bool \<Rightarrow> act" where
  "acceptPaperCandidate url p candidate skipStrategyActionUpdate =
     (let candidateWithRunHref = spread candidate
            [(''strategyHref'', strategyHrefWithAIRunId (fld candidate ''strategyHref'') (fld (analysis p) ''id'') url)];
          failed = \<lambda>e _. Put (\<lambda>p. p\<lparr>error := Some e\<rparr>) Stop;
          paperWatchPatch = paperWatchActionPatchFromCandidate (analysis p) candidateWithRunHref;
          adopt =
            (if \<not> truthy paperWatchPatch
             then Put (\<lambda>p. p\<lparr>error := Some (Thrown_Error (pg 18510))\<rparr>) Stop
             else await (UpdateAction (fld (analysis p) ''id'') (js ''paper_watch'') paperWatchPatch)
                    (\<lambda>updated _. Put (set_active updated) Stop) failed)
      in if \<not> truthy (fld (analysis p) ''id'') then Stop
         else Put (\<lambda>p. p\<lparr>error := None\<rparr>)
           (if skipStrategyActionUpdate then adopt
            else await
              (UpdateAction (fld (analysis p) ''id'') (js ''strategy'')
                 (obj [(''status'', S ''ready''), (''relatedId'', fld candidateWithRunHref ''strategyId''),
                       (''href'', fld candidateWithRunHref ''strategyHref''),
                       (''note'', Str ((pg 18430) @
                          to_str (fld (fld candidateWithRunHref ''draft'') ''name'') @
                          (pg 18431) @ to_str (fld candidateWithRunHref ''score'') @
                          (pg 18432) @ to_str (fld candidateWithRunHref ''runId'')))]))
              (\<lambda>_ _. adopt) failed))"

definition saveStrategyDraftCore ::
  "page \<Rightarrow> moment \<Rightarrow> jsval \<Rightarrow> bool \<Rightarrow> bool \<Rightarrow> (jsval \<Rightarrow> act) \<Rightarrow> act" where
  "saveStrategyDraftCore p m draft redirect requireRunAction k =
     (let payload = optionPayloadFromStrategyDraft draft (fld (analysis p) ''id'');
          finally = \<lambda>saved. Put (\<lambda>p. p\<lparr>strategySaveBusyKey := Null\<rparr>) (k saved)
      in if \<not> truthy payload
         then Put (\<lambda>p. p\<lparr>error := Some (Thrown_Error (pg 18870))\<rparr>) (k Undef)
         else Put (\<lambda>p. p\<lparr>strategySaveBusyKey :=
                     Str (to_str (fld draft ''name'') @ js ''-'' @ to_str (fld draft ''symbol'')), error := None\<rparr>)
           (tracked m
              (obj [(''kind'', S ''other''), (''label'', Str ((pg 18980) @ to_str (fld payload ''name''))),
                    (''detail'', fld payload ''execSymbol'')])
              (\<lambda>k. await (CreateOption payload) (\<lambda>v. k (Inr v)) (\<lambda>e. k (Inl e)))
              (\<lambda>r _. case r of
                 Inl e \<Rightarrow> Put (\<lambda>p. p\<lparr>error := Some e\<rparr>) (finally Null)
               | Inr response \<Rightarrow>
                   let href = optionCreateRedirectHref (Bool True) response (fld (analysis p) ''id'');
                       saved = obj [(''response'', response), (''href'', Str href)];
                       leave = Put (if redirect then visit href else id) (finally saved)
                   in if \<not> truthy (fld (analysis p) ''id'') then leave
                      else await
                        (UpdateAction (fld (analysis p) ''id'') (js ''strategy'')
                           (strategyActionPatchFromSavedDraft (analysis p) draft response (Str href)))
                        (\<lambda>updated _. Put (set_active updated) leave)
                        (\<lambda>e _. Put (\<lambda>p. p\<lparr>error := Some e\<rparr>)
                           (if requireRunAction then finally Null else leave)))))"

definition saveStrategyDraft :: "page \<Rightarrow> moment \<Rightarrow> jsval \<Rightarrow> act" where
  "saveStrategyDraft p m draft = saveStrategyDraftCore p m draft True False (\<lambda>_. Stop)"

definition saveAndAcceptPaperCandidate ::
  "(jstr \<Rightarrow> (jstr \<times> (jstr \<times> jstr) list) option) \<Rightarrow> page \<Rightarrow> moment \<Rightarrow> jsval \<Rightarrow> act" where
  "saveAndAcceptPaperCandidate url p m candidate =
     (if \<not> truthy (fld (analysis p) ''id'') then Stop
      else saveStrategyDraftCore p m (fld candidate ''draft'') False True
        (\<lambda>saved. if \<not> truthy saved then Stop
           else acceptPaperCandidate url p (spread candidate [(''strategyHref'', fld saved ''href'')]) True))"

definition updateQueueAction :: "page \<Rightarrow> jsval \<Rightarrow> act" where
  "updateQueueAction p item =
     (let transition = manualActionTransition item
      in if \<not> truthy (fld (analysis p) ''id'') then Stop
         else if \<not> truthy transition then Stop
         else Put (\<lambda>p. p\<lparr>actionBusyKey := fld item ''id'', error := None\<rparr>)
           (await
              (UpdateAction (fld (analysis p) ''id'') (to_str (fld item ''id''))
                 (obj [(''status'', fld transition ''nextStatus''), (''relatedId'', fld item ''relatedId''),
                       (''href'', fld item ''href''), (''note'', fld transition ''note'')]))
              (\<lambda>updated _. Put (set_active updated) (Put (\<lambda>p. p\<lparr>actionBusyKey := Null\<rparr>) Stop))
              (\<lambda>e _. Put (\<lambda>p. p\<lparr>error := Some e, actionBusyKey := Null\<rparr>) Stop)))"

subsection \<open>The form\<close>

definition applyGoalTemplate :: "page \<Rightarrow> jsval \<Rightarrow> act" where
  "applyGoalTemplate p template = Put (applyFormState (formStateFromGoalTemplate template (currentFormState p))) Stop"

definition analyzeGoalTemplate :: "page \<Rightarrow> moment \<Rightarrow> jsval \<Rightarrow> act" where
  "analyzeGoalTemplate p m template =
     (let next = formStateFromGoalTemplate template (currentFormState p)
      in Put (applyFormState next)
           (unless_blocked p (runGoalAnalysis m (aiGoalRequestFromFormState next) (\<lambda>_ _. Stop))))"

definition validateGoalTemplate :: "page \<Rightarrow> moment \<Rightarrow> jsval \<Rightarrow> act" where
  "validateGoalTemplate p m template =
     (let next = formStateFromGoalTemplate template (currentFormState p)
      in Put (applyFormState next) (onAnalyzeAndValidate p m next))"

text \<open>The handlers written in the markup: the composer's button, and the secondary button of the form.\<close>

definition composer_pressed :: "page \<Rightarrow> moment \<Rightarrow> jsval \<Rightarrow> act" where
  "composer_pressed p m next = Put (applyFormState next) (onAnalyzeAndValidate p m next)"

definition secondary_pressed :: "page \<Rightarrow> moment \<Rightarrow> act" where
  "secondary_pressed p m =
     (let next = executableFormState p m
      in Put (applyFormState next)
           (unless_blocked p (runGoalAnalysis m (aiGoalRequestFromFormState next) (\<lambda>_ _. Stop))))"

end
