(* ===== verification/Money_Steps.thy ===== *)
theory Money_Steps
  imports Money_Runs
begin

section \<open>Effects, events and steps of the AI Money page\<close>

text \<open>
  The effects of the component (the loads on mounting, the preferences of the automatic radar, the
  polling of validation runs, the runs that start by themselves), the events that start handlers,
  and the step relation: an event starts a handler, or an answer resumes a suspended one. Any order
  of events and answers is possible. The markup disables some buttons while the page is busy; the steps
  do not rely on it. The page stays mounted.
\<close>

subsection \<open>Effects\<close>

definition loadRuns :: act where
  "loadRuns = await ListRuns
     (\<lambda>next _. Put (\<lambda>p. p\<lparr>runs := elems next, runsBusy := False\<rparr>) Stop)
     (\<lambda>e _. Put (\<lambda>p. p\<lparr>runError := Some e, runsBusy := False\<rparr>) Stop)"

definition loadAccounts :: act where
  "loadAccounts = await ListAccounts
     (\<lambda>next _. Put (\<lambda>p. p\<lparr>accounts := next, accountsError := None, accountsBusy := False\<rparr>) Stop)
     (\<lambda>e _. Put (\<lambda>p. p\<lparr>accountsError := Some e, accountsBusy := False\<rparr>) Stop)"

definition loadProvider :: act where
  "loadProvider = await ProviderStatus
     (\<lambda>next _. Put (\<lambda>p. p\<lparr>providerStatus := next, providerStatusBusy := False\<rparr>) Stop)
     (\<lambda>_ _. Put (\<lambda>p. p\<lparr>providerStatus := Null, providerStatusBusy := False\<rparr>) Stop)"

text \<open>The preferences: read at once, applied by a timer of 0 ms; an unreadable storage reads as empty.\<close>

definition readRadarPreference :: "page \<Rightarrow> act" where
  "readRadarPreference p =
     (let item = \<lambda>k. (case get_item (browser (center p)) k of None \<Rightarrow> Null | Some s \<Rightarrow> Str s);
          enabled' = autoDailyRadarEnabledFromStorage (item AUTO_DAILY_RADAR_ENABLED_KEY) Undef;
          lastKey = to_str (js_or (item AUTO_DAILY_RADAR_LAST_KEY) (Str []));
          loaded = Put (\<lambda>p. p\<lparr>autoRadarEnabled := enabled', autoRadarPreferenceLoaded := True\<rparr>) Stop
      in Put (\<lambda>p. p\<lparr>autoRadarLastKeyRef := lastKey\<rparr>) (await NextTick (\<lambda>_ _. loaded) (\<lambda>_ _. loaded)))"

definition store_item :: "jstr \<Rightarrow> jstr \<Rightarrow> page \<Rightarrow> page" where
  "store_item k v = on_center (\<lambda>c. c\<lparr>browser := set_item k v (browser c)\<rparr>)"

definition persistRadarPreference :: "page \<Rightarrow> act" where
  "persistRadarPreference p =
     (let persistence = autoDailyRadarPreferencePersistence (Bool (autoRadarPreferenceLoaded p)) (Bool (autoRadarEnabled p))
      in if \<not> truthy (fld persistence ''shouldWrite'') then Stop
         else Put (store_item AUTO_DAILY_RADAR_ENABLED_KEY (to_str (fld persistence ''value''))) Stop)"

text \<open>
  The polling effect. Each instance has a number; what an instance that is no longer alive still
  receives is dropped.\<close>

definition while_alive :: "nat \<Rightarrow> (page \<Rightarrow> page) \<Rightarrow> page \<Rightarrow> page" where
  "while_alive epoch f p = (if poll_epoch p = epoch then f p else p)"

definition loadValidationRuns :: "nat \<Rightarrow> jstr list \<Rightarrow> bool \<Rightarrow> act" where
  "loadValidationRuns epoch ids showBusy =
     (let finally = Put (while_alive epoch (if showBusy then (\<lambda>p. p\<lparr>validationBusy := False\<rparr>) else id)) Stop
      in Put (while_alive epoch (\<lambda>p. p\<lparr>poll_timer := False\<rparr>))
         (Put (while_alive epoch (if showBusy then (\<lambda>p. p\<lparr>validationBusy := True, validationError := None\<rparr>) else id))
         (await (GetBacktests ids)
            (\<lambda>rows _. Put (while_alive epoch (\<lambda>p. p\<lparr>validationRuns := elems rows, validationError := None,
                        poll_timer := validationRunsNeedPolling rows\<rparr>)) finally)
            (\<lambda>e _. Put (while_alive epoch (\<lambda>p. p\<lparr>validationError := Some e\<rparr>)) finally))))"

definition polled_ids :: "page \<Rightarrow> jstr list" where
  "polled_ids p = filter (\<lambda>s. s \<noteq> []) (split_at (\<lambda>c. c = 44) (validationRunKey p))"

text \<open>The effect runs in one go on the page \<open>p\<close> that was rendered, so it starts the instance after that of \<open>p\<close>.\<close>

definition validationEffect :: "page \<Rightarrow> act" where
  "validationEffect p =
     Put (\<lambda>q. q\<lparr>poll_epoch := Suc (poll_epoch p), poll_ids := polled_ids p, poll_timer := False\<rparr>)
       (if validationRunKey p = [] then Stop
        else loadValidationRuns (Suc (poll_epoch p)) (polled_ids p) True)"

text \<open>The timer of the instance that is alive goes off, 5 s after it was set.\<close>

definition pollTimerFires :: "page \<Rightarrow> act" where
  "pollTimerFires p =
     (if \<not> poll_timer p then Stop else loadValidationRuns (poll_epoch p) (poll_ids p) False)"

definition openRequestedRun :: "page \<Rightarrow> act" where
  "openRequestedRun p =
     (if requestedRunId p = [] \<or> autoOpenedRunIdRef p = requestedRunId p then Stop
      else Put (\<lambda>p. p\<lparr>autoOpenedRunIdRef := requestedRunId p\<rparr>) (openRun p (Str (requestedRunId p))))"

definition openInitialRun :: "page \<Rightarrow> moment \<Rightarrow> act" where
  "openInitialRun p m =
     (let runId = aiInitialRunToOpenFromRuns (Arr (runs p)) (Str (requestedRunId p)) (fld (activeRun p) ''id'')
            (Str (autoOpenedRunIdRef p)) (clock_of m)
      in if runsBusy p then Stop
         else if \<not> truthy runId then Stop
         else Put (\<lambda>p. p\<lparr>autoOpenedRunIdRef := to_str runId\<rparr>) (openRun p runId))"

definition settingsReturnEffect :: "page \<Rightarrow> moment \<Rightarrow> act" where
  "settingsReturnEffect p m =
     (let decision = aiSettingsReturnAutoRunDecision (Str (requestedIntent p))
            (Bool (busy p \<or> pipelineBusy p \<or> batchBacktestBusy p \<or> runsBusy p))
            (fld (providerGate p) ''blockAutoRadar'')
            (Bool (fld (providerGate p) ''stage'' = S ''ready''))
            (Str (settingsReturnAutoRunKeyRef p))
      in if \<not> truthy (fld decision ''shouldRun'') then Stop
         else Put (\<lambda>p. p\<lparr>settingsReturnAutoRunKeyRef := to_str (fld decision ''key'')\<rparr>)
           (onDailyRadarScan p m Undef))"

definition autoRadarEffect :: "page \<Rightarrow> moment \<Rightarrow> act" where
  "autoRadarEffect p m =
     (let decision = autoDailyRadarDecision (Bool (autoRadarEnabled p))
            (Bool (busy p \<or> pipelineBusy p \<or> batchBacktestBusy p))
            (Bool (fld (providerGate p) ''stage'' = S ''ready''))
            (dailyRadarStatusFromRuns (Arr (runs p)) (clock_of m) (clock_of m))
            (Str (autoRadarLastKeyRef p)) (clock_of m) (clock_of m)
      in if lower (requestedIntent p) = js ''rerun_ai'' then Stop
         else if \<not> autoRadarPreferenceLoaded p then Stop
         else if truthy (fld (providerGate p) ''blockAutoRadar'') then Stop
         else if runsBusy p then Stop
         else if \<not> truthy (fld decision ''shouldRun'') then Stop
         else Put (\<lambda>p. p\<lparr>autoRadarLastKeyRef := to_str (fld decision ''key'')\<rparr>)
           (Put (store_item AUTO_DAILY_RADAR_LAST_KEY (to_str (fld decision ''key'')))
           (onDailyRadarScan p m Undef)))"

subsection \<open>Events\<close>

datatype field = Goal | SymbolsText | Horizon | RiskPreference | ExecutionMode | BehaviorText | NarrativeText | AvoidText

fun set_field :: "field \<Rightarrow> jstr \<Rightarrow> page \<Rightarrow> page" where
  "set_field Goal s p = p\<lparr>goal := Str s\<rparr>"
| "set_field SymbolsText s p = p\<lparr>symbolsText := Str s\<rparr>"
| "set_field Horizon s p = p\<lparr>horizon := Str s\<rparr>"
| "set_field RiskPreference s p = p\<lparr>riskPreference := Str s\<rparr>"
| "set_field ExecutionMode s p = p\<lparr>executionMode := Str s\<rparr>"
| "set_field BehaviorText s p = p\<lparr>behaviorText := Str s\<rparr>"
| "set_field NarrativeText s p = p\<lparr>narrativeText := Str s\<rparr>"
| "set_field AvoidText s p = p\<lparr>avoidText := Str s\<rparr>"

datatype event =
    Typed field jstr
  | RadarSwitched bool
  | Submitted
  | SecondaryPressed
  | ComposerApplied jsval
  | ComposerPressed jsval
  | AnalyzePressed jsval
  | ScanPressed jsval
  | TemplateApplied jsval
  | TemplateAnalyzed jsval
  | TemplateValidated jsval
  | RunsRefreshed
  | RunOpened jsval
  | RunRefreshed jsval
  | RunValidated jsval
  | DraftBacktested jsval
  | AllBacktested jsval
  | CandidateAccepted jsval
  | CandidateSaved jsval
  | DraftSaved jsval
  | ActionUpdated jsval
  | RadarPreferenceChanged
  | ValidationKeyChanged
  | PollTimer
  | RequestedRunEffect
  | InitialRunEffect
  | SettingsReturnEffect
  | AutoRadarEffect

primrec handler ::
  "(jstr \<Rightarrow> (jstr \<times> (jstr \<times> jstr) list) option) \<Rightarrow> event \<Rightarrow> page \<Rightarrow> moment \<Rightarrow> act" where
  "handler url (Typed f s) p m = Put (set_field f s) Stop"
| "handler url (RadarSwitched b) p m = Put (\<lambda>p. p\<lparr>autoRadarEnabled := b\<rparr>) Stop"
| "handler url Submitted p m = onSubmit p m"
| "handler url SecondaryPressed p m = secondary_pressed p m"
| "handler url (ComposerApplied next) p m = Put (applyFormState next) Stop"
| "handler url (ComposerPressed next) p m = composer_pressed p m next"
| "handler url (AnalyzePressed target) p m = onAnalyzeAndValidate p m target"
| "handler url (ScanPressed target) p m = onDailyRadarScan p m target"
| "handler url (TemplateApplied t) p m = applyGoalTemplate p t"
| "handler url (TemplateAnalyzed t) p m = analyzeGoalTemplate p m t"
| "handler url (TemplateValidated t) p m = validateGoalTemplate p m t"
| "handler url RunsRefreshed p m = refreshRuns"
| "handler url (RunOpened i) p m = openRun p i"
| "handler url (RunRefreshed i) p m = refreshRun p i"
| "handler url (RunValidated i) p m = validateRun p i"
| "handler url (DraftBacktested d) p m = runBacktestDraft p m d"
| "handler url (AllBacktested a) p m = runAllBacktests m a"
| "handler url (CandidateAccepted c) p m = acceptPaperCandidate url p c False"
| "handler url (CandidateSaved c) p m = saveAndAcceptPaperCandidate url p m c"
| "handler url (DraftSaved d) p m = saveStrategyDraft p m d"
| "handler url (ActionUpdated i) p m = updateQueueAction p i"
| "handler url RadarPreferenceChanged p m = persistRadarPreference p"
| "handler url ValidationKeyChanged p m = validationEffect p"
| "handler url PollTimer p m = pollTimerFires p"
| "handler url RequestedRunEffect p m = openRequestedRun p"
| "handler url InitialRunEffect p m = openInitialRun p m"
| "handler url SettingsReturnEffect p m = settingsReturnEffect p m"
| "handler url AutoRadarEffect p m = autoRadarEffect p m"

subsection \<open>Steps\<close>

text \<open>A handler runs up to its next call.\<close>

primrec proceed :: "act \<Rightarrow> page \<Rightarrow> page \<times> act" where
  "proceed Stop p = (p, Stop)"
| "proceed (Put f a) p = proceed a (f p)"
| "proceed (Ask c k) p = (p, Ask c k)"

text \<open>The page and its suspended handlers.\<close>

type_synonym config = "page \<times> act list"

definition suspend :: "act \<Rightarrow> act list \<Rightarrow> act list" where
  "suspend a as = (case a of Stop \<Rightarrow> as | _ \<Rightarrow> a # as)"

inductive step ::
  "(jstr \<Rightarrow> (jstr \<times> (jstr \<times> jstr) list) option) \<Rightarrow> (call \<Rightarrow> thrown + jsval \<Rightarrow> bool) \<Rightarrow> config \<Rightarrow> config \<Rightarrow> bool"
  for url gateway where
  event: "proceed (handler url e p m) p = (p', a) \<Longrightarrow> step url gateway (p, as) (p', suspend a as)"
| answer: "gateway c r \<Longrightarrow> proceed (k (Reply r m)) p = (p', a) \<Longrightarrow>
    step url gateway (p, as @ Ask c k # bs) (p', suspend a (as @ bs))"

inductive_cases step_cases [consumes 1, case_names event answer]: "step url gateway c c'"

text \<open>The page right after mounting: the loads are under way.\<close>

definition mounted :: "page \<Rightarrow> config" where
  "mounted p = (let (p', a) = proceed (readRadarPreference p) p in (p', [loadRuns, loadAccounts, loadProvider, a]))"

inductive reachable ::
  "(jstr \<Rightarrow> (jstr \<times> (jstr \<times> jstr) list) option) \<Rightarrow> (call \<Rightarrow> thrown + jsval \<Rightarrow> bool) \<Rightarrow> page \<Rightarrow> config \<Rightarrow> bool"
  for url gateway p where
  start: "reachable url gateway p (mounted p)"
| go: "reachable url gateway p c \<Longrightarrow> step url gateway c c' \<Longrightarrow> reachable url gateway p c'"

text \<open>A handler that runs alone, with the answers it gets.\<close>

fun play :: "act \<Rightarrow> reply list \<Rightarrow> page \<Rightarrow> page \<times> act" where
  "play a [] p = proceed a p"
| "play a (r # rs) p = (case proceed a p of (p', Ask c k) \<Rightarrow> play (k r) rs p' | x \<Rightarrow> x)"

subsection \<open>Invariants of the page\<close>

text \<open>
  \<open>obeys gateway I P a\<close>: running the handler \<open>a\<close> keeps \<open>I\<close> whenever it changes the state, and every
  call it makes satisfies \<open>P\<close>, as long as the answers are those of the gateway.\<close>

primrec obeys :: "(call \<Rightarrow> thrown + jsval \<Rightarrow> bool) \<Rightarrow> (page \<Rightarrow> bool) \<Rightarrow> (call \<Rightarrow> bool) \<Rightarrow> act \<Rightarrow> bool" where
  "obeys gateway I P Stop = True"
| "obeys gateway I P (Put f a) = ((\<forall>p. I p \<longrightarrow> I (f p)) \<and> obeys gateway I P a)"
| "obeys gateway I P (Ask c k) = (P c \<and> (\<forall>r m. gateway c r \<longrightarrow> obeys gateway I P (k (Reply r m))))"

definition asks :: "(call \<Rightarrow> bool) \<Rightarrow> act \<Rightarrow> bool" where
  "asks P a = (case a of Ask c k \<Rightarrow> P c | _ \<Rightarrow> True)"

lemma obeys_proceed:
  "obeys gateway I P a \<Longrightarrow> I p \<Longrightarrow> proceed a p = (p', a') \<Longrightarrow> I p' \<and> obeys gateway I P a' \<and> asks P a'"
  by (induction a arbitrary: p) (auto simp: asks_def)

lemma set_suspend: "set (suspend a as) = set as \<union> (if a = Stop then {} else {a})"
  by (auto simp: suspend_def split: act.split)

lemma obeys_await:
  "obeys gateway I P (await c ok failed) \<longleftrightarrow>
     P c \<and> (\<forall>v m. gateway c (Inr v) \<longrightarrow> obeys gateway I P (ok v m)) \<and>
     (\<forall>e m. gateway c (Inl e) \<longrightarrow> obeys gateway I P (failed e m))"
  by (auto simp: await_def split: sum.split)

text \<open>The contract of an invariant: it holds at the start and every handler obeys it.\<close>

locale page_invariant =
  fixes url :: "jstr \<Rightarrow> (jstr \<times> (jstr \<times> jstr) list) option"
    and gateway :: "call \<Rightarrow> thrown + jsval \<Rightarrow> bool"
    and I :: "page \<Rightarrow> bool" and P :: "call \<Rightarrow> bool"
  assumes handlers: "obeys gateway I P (handler url e p m)"
    and loads: "obeys gateway I P loadRuns" "obeys gateway I P loadAccounts" "obeys gateway I P loadProvider"
      "obeys gateway I P (readRadarPreference p)" "P ListRuns" "P ListAccounts" "P ProviderStatus"
begin

definition good :: "config \<Rightarrow> bool" where
  "good c \<longleftrightarrow> I (fst c) \<and> (\<forall>a \<in> set (snd c). obeys gateway I P a \<and> asks P a)"

lemma good_start: "I p \<Longrightarrow> good (mounted p)"
  using obeys_proceed [OF loads(4), of p p] loads(1-3,5-7)
  by (auto simp: good_def mounted_def asks_def loadRuns_def loadAccounts_def loadProvider_def await_def
      split: prod.split)

lemma good_step: "step url gateway c c' \<Longrightarrow> good c \<Longrightarrow> good c'"
proof (induction rule: step.induct)
  case (event e p m p' a as)
  then show ?case using obeys_proceed [OF handlers, of p e p m p' a] by (auto simp: good_def set_suspend)
next
  case (answer c r k m p p' a as bs)
  then have "obeys gateway I P (k (Reply r m))" by (auto simp: good_def)
  with answer show ?case using obeys_proceed [of gateway I P "k (Reply r m)" p p' a] by (auto simp: good_def set_suspend)
qed

lemma invariant: "reachable url gateway p c \<Longrightarrow> I p \<Longrightarrow> good c"
  by (induction rule: reachable.induct) (auto intro: good_start good_step)

end

end
