(* ===== verification/Polling.thy ===== *)
theory Polling
  imports Decision_Properties Money_Steps
begin

section \<open>Polling and the validating stage\<close>

text \<open>
  When the page has read its validation runs it reads them again later if \<open>validationRunsNeedPolling\<close>
  holds of them, and it shows the stage of \<open>nextAIGoalDecision\<close>. Both look at the same runs, in different
  ways; here they are compared.
\<close>

definition identified :: "jsval \<Rightarrow> bool" where
  "identified run \<longleftrightarrow> truthy (fld run ''runId'') \<or> truthy (fld run ''id'')"

definition terminal :: "jsval \<Rightarrow> bool" where
  "terminal run \<longleftrightarrow> to_num (fld run ''state'') = Fin 3 \<or> to_num (fld run ''state'') = Fin 4"

lemma rank_row_unfinished: "fld (rank_row run) ''score'' = Null \<longleftrightarrow> \<not> terminal run"
  by (auto simp: rank_row_simps Let_def fld_if terminal_def num_eq_def cong del: if_weak_cong)

lemma unfinished_run:
  assumes "identified run"
  shows "(if \<not> is_finite (to_num (fld run ''state'')) then truthy (fld run ''runId'') \<or> truthy (fld run ''id'')
     else \<not> num_eq (to_num (fld run ''state'')) (Fin 3) \<and> \<not> num_eq (to_num (fld run ''state'')) (Fin 4)) \<longleftrightarrow>
   \<not> terminal run"
  using assms by (cases "to_num (fld run ''state'')") (auto simp: identified_def terminal_def)

lemma polling_eq:
  "list_all identified rows \<Longrightarrow> validationRunsNeedPolling (Arr rows) \<longleftrightarrow> list_ex (\<lambda>run. \<not> terminal run) rows"
  by (auto simp: validationRunsNeedPolling_def list_ex_iff list_all_iff unfinished_run Let_def)

lemma running_eq:
  "list_ex (\<lambda>row. fld row ''score'' = Null) (rankBacktestValidation (Arr rows)) \<longleftrightarrow> list_ex (\<lambda>run. \<not> terminal run) rows"
  by (auto simp: list_ex_iff ranked_rows rank_row_unfinished)

text \<open>The two readings agree on runs that carry an identifier.\<close>

lemma polling_stage:
  assumes "rows \<noteq> []" and "list_all identified rows"
  shows "validationRunsNeedPolling (Arr rows) \<longleftrightarrow>
    fld (nextAIGoalDecision study actions (Arr rows) clock) ''stage'' = S ''validating''"
proof -
  have "rankBacktestValidation (Arr rows) \<noteq> []"
    using assms(1) ranked_rows [of "Arr rows"] by auto
  then show ?thesis
    by (simp add: polling_eq [OF assms(2)] running_eq [symmetric] decision_stage [where accounts = Null])
      (auto simp: decide_def observe_def)
qed

text \<open>
  C31: How polling follows the decision. Let the instance of the polling effect that is alive read its runs
  (at first or again): its timer is cleared and one request is made. When the runs arrive, whatever has
  happened to the page meanwhile, as long as that instance is still alive, they become the validation runs
  of the page, and the timer for the next read is set exactly when the decision on these runs is in its
  \<open>validating\<close> stage. When the read fails, no timer is set, whatever the stage: the page may then wait
  without polling. The runs are non-empty and carry an identifier, as those of the gateway do.\<close>

theorem polling_iff_validating:
  assumes "proceed (loadValidationRuns (poll_epoch p) ids show_busy) p = (p', Ask c k)"
    and "poll_epoch q = poll_epoch p" and "rows \<noteq> []" and "list_all identified rows"
  shows "c = GetBacktests ids \<and> \<not> poll_timer p' \<and>
    (case proceed (k (Reply (Inr (Arr rows)) m)) q of (q', a) \<Rightarrow> a = Stop \<and> validationRuns q' = rows \<and> validationError q' = None \<and>
       (poll_timer q' \<longleftrightarrow> fld (nextAIGoalDecision study actions (Arr (validationRuns q')) clock) ''stage'' = S ''validating'')) \<and>
    (case proceed (k (Reply (Inl e) m)) q of (q', a) \<Rightarrow> a = Stop \<and> validationRuns q' = validationRuns q \<and>
       validationError q' = Some e \<and> poll_timer q' = poll_timer q)"
proof -
  from assms(1) have "c = GetBacktests ids" "\<not> poll_timer p'"
    by (auto simp: loadValidationRuns_def await_def Let_def while_alive_def split: if_splits)
  moreover from assms(1) have k: "k = (\<lambda>r. case r of
      Reply (Inr v) m \<Rightarrow> Put (while_alive (poll_epoch p) (\<lambda>p. p\<lparr>validationRuns := elems v, validationError := None,
            poll_timer := validationRunsNeedPolling v\<rparr>))
          (Put (while_alive (poll_epoch p) (if show_busy then (\<lambda>p. p\<lparr>validationBusy := False\<rparr>) else id)) Stop)
    | Reply (Inl e) m \<Rightarrow> Put (while_alive (poll_epoch p) (\<lambda>p. p\<lparr>validationError := Some e\<rparr>))
          (Put (while_alive (poll_epoch p) (if show_busy then (\<lambda>p. p\<lparr>validationBusy := False\<rparr>) else id)) Stop))"
    by (simp add: loadValidationRuns_def await_def Let_def)
  ultimately show ?thesis
    using assms(2) by (cases show_busy) (simp_all add: k while_alive_def polling_stage [OF assms(3,4), symmetric])
qed

theorem polling_iff_validating_witness:
  "\<exists>k. proceed (loadValidationRuns 0 [js ''r1''] True) (initial_page [] [] demo_activity) =
      ((initial_page [] [] demo_activity)\<lparr>validationBusy := True\<rparr>, Ask (GetBacktests [js ''r1'']) k) \<and>
    poll_timer (fst (proceed (k (Reply (Inr (Arr [obj [(''runId'', S ''r1''), (''state'', N 2)]])) \<lparr>now_ms = 1, new_id = []\<rparr>)) (initial_page [] [] demo_activity)))"
proof -
  let ?p = "initial_page [] [] demo_activity"
  let ?m = "\<lparr>now_ms = 1, new_id = []\<rparr>"
  let ?run = "obj [(''runId'', S ''r1''), (''state'', N 2)]"
  obtain k where k: "proceed (loadValidationRuns (poll_epoch ?p) [js ''r1''] True) ?p =
      (?p\<lparr>validationBusy := True\<rparr>, Ask (GetBacktests [js ''r1'']) k)"
    by (simp add: loadValidationRuns_def await_def Let_def while_alive_def initial_page_def)
  have stage: "fld (nextAIGoalDecision Null Undef (Arr [?run]) None) ''stage'' = S ''validating''"
    using polling_stage [of "[?run]" Null Undef None] by (simp add: identified_def validationRunsNeedPolling_def)
  obtain q a where q: "proceed (k (Reply (Inr (Arr [?run])) ?m)) ?p = (q, a)" by fastforce
  from polling_iff_validating [OF k refl, where rows = "[?run]" and m = ?m and study = Null and actions = Undef and clock = None]
  have "validationRuns q = [?run]"
    "poll_timer q \<longleftrightarrow> fld (nextAIGoalDecision Null Undef (Arr (validationRuns q)) None) ''stage'' = S ''validating''"
    by (simp_all add: q identified_def)
  with stage have "poll_timer q" by simp
  moreover have "poll_epoch ?p = 0" by (simp add: initial_page_def)
  ultimately show ?thesis using k q by auto
qed

text \<open>
  Without the identifier the equivalence fails: a run with neither identifier nor state is not polled,
  and the decision waits for it.
\<close>

lemma anonymous_run_waits:
  "\<not> validationRunsNeedPolling (Arr [obj []]) \<and>
   fld (nextAIGoalDecision study actions (Arr [obj []]) clock) ''stage'' = S ''validating''"
proof -
  have "running (observe study actions (Arr [obj []]) Null clock)"
    by (simp only: observe_def goal_facts.simps running_eq) (simp add: terminal_def)
  then show ?thesis
    by (auto simp: validationRunsNeedPolling_def decision_stage [where accounts = Null] decide_def observe_def)
qed

end
