(* ===== verification/Action_Properties.thy ===== *)
theory Action_Properties
  imports Goal_Actions
begin

section \<open>Properties of the actions of a goal run\<close>

text \<open>
  The overlay of persisted status keeps the plan it is laid over, and a review counts as done only with
  the evidence that the checks ask for; the buttons of the page produce that evidence.
\<close>

subsection \<open>Search in notes\<close>

lemma contains_refl [simp]: "contains s s"
  unfolding includes_iff by (intro exI [of _ "[]"]) simp

lemma contains_trans: "contains s t \<Longrightarrow> contains t u \<Longrightarrow> contains s u"
  unfolding includes_iff by (metis append.assoc)

lemma contains_lower: "contains s t \<Longrightarrow> contains (lower s) (lower t)"
  unfolding includes_iff by (metis lower_append)

lemma contains_suffix: "contains (s @ t) t"
  unfolding includes_iff by (intro exI [of _ s] exI [of _ "[]"]) simp

lemma contains_nonempty: "contains s t \<Longrightarrow> t \<noteq> [] \<Longrightarrow> s \<noteq> []"
  by (auto simp: includes_iff)

lemma append_note_contains:
  assumes "trim (squeeze_ws c) \<noteq> []"
  shows "contains (appendTransitionEvidenceNote old (Str c)) (trim (squeeze_ws c))"
proof -
  have "c \<noteq> []" using assms by auto
  then show ?thesis using assms
    by (auto simp: appendTransitionEvidenceNote_def Let_def js_or_def
        intro: contains_trans [OF _ contains_suffix] contains_suffix [of "x @ y" for x y, simplified])
qed

subsection \<open>The completion notes\<close>

lemmas note_texts = zh_def text_at_def zh_table_1_def

definition paper_keywords :: "jstr list" where
  "paper_keywords = [js ''24-72'', zh 272, zh 273, zh 275, zh 293, zh 294, zh 295]"

definition sentiment_keywords :: "jstr list" where
  "sentiment_keywords = [zh 272, zh 273, zh 275]"

lemma paper_note: "list_all (\<lambda>w. contains (lower (trim (squeeze_ws PAPER_WATCH_COMPLETION_NOTE))) (lower w)) paper_keywords"
  by (simp add: PAPER_WATCH_COMPLETION_NOTE_def paper_keywords_def note_texts is_ws_def trim_def lower_def lower_unit_def
      js_def)

lemma sentiment_note: "list_all (\<lambda>w. contains (lower SENTIMENT_REVIEW_COMPLETION_NOTE) (lower w)) sentiment_keywords"
  by (simp add: SENTIMENT_REVIEW_COMPLETION_NOTE_def sentiment_keywords_def note_texts lower_def lower_unit_def)

lemma paper_evidence:
  assumes "fld action ''note'' = Str note" and "note \<noteq> []"
    and "list_all (\<lambda>w. contains (lower note) (lower w)) paper_keywords"
  shows "paperWatchCompletionHasEvidence action"
  using assms by (simp add: paperWatchCompletionHasEvidence_def paper_keywords_def js_or_def Let_def lower_def)

lemma sentiment_evidence:
  assumes "fld action ''note'' = Str note"
    and "list_all (\<lambda>w. contains (lower note) (lower w)) sentiment_keywords"
  shows "sentimentReviewCompletionHasEvidence action"
  using assms by (auto simp: sentimentReviewCompletionHasEvidence_def sentiment_keywords_def js_or_def Let_def lower_def)

lemma appended_paper_note:
  fixes old :: jsval
  defines "note \<equiv> appendTransitionEvidenceNote old (Str PAPER_WATCH_COMPLETION_NOTE)"
  shows "note \<noteq> [] \<and> list_all (\<lambda>w. contains (lower note) (lower w)) paper_keywords"
proof -
  let ?c = "trim (squeeze_ws PAPER_WATCH_COMPLETION_NOTE)"
  have "contains (lower ?c) (lower (js ''24-72''))" using paper_note by (simp add: paper_keywords_def)
  then have ne: "?c \<noteq> []" by (auto simp: lower_def js_def)
  then have "contains note ?c" unfolding note_def by (rule append_note_contains)
  then show ?thesis using paper_note contains_nonempty ne
    by (auto simp: list_all_iff intro: contains_trans [OF contains_lower])
qed

subsection \<open>Properties\<close>

text \<open>
  C32: Pressing the button of a review is enough to complete it: whenever \<open>manualActionTransition\<close> offers to
  complete an action, the action with the offered status and note is accepted by the checks that the
  decision and the readiness gate make, for the paper watch (all seven topics of evidence, whatever the
  operator had written before) as for the sentiment review.\<close>

theorem manual_review_completes:
  assumes "manualActionTransition action = t" and "fld t ''nextStatus'' = S ''done''"
  shows "(fld action ''id'' = S ''paper_watch'' \<longrightarrow>
      paperWatchCompletionHasEvidence (spread action [(''status'', fld t ''nextStatus''), (''note'', fld t ''note'')])) \<and>
    (fld action ''id'' = S ''sentiment_review'' \<longrightarrow>
      sentimentReviewCompleted (spread action [(''status'', fld t ''nextStatus''), (''note'', fld t ''note'')]))"
proof (intro conjI impI)
  assume "fld action ''id'' = S ''paper_watch''"
  with assms have "fld t ''note'' = Str (appendTransitionEvidenceNote (fld action ''note'') (Str PAPER_WATCH_COMPLETION_NOTE))"
    by (auto simp: manualActionTransition_def Let_def js_or_def split: if_splits)
  then show "paperWatchCompletionHasEvidence (spread action [(''status'', fld t ''nextStatus''), (''note'', fld t ''note'')])"
    using appended_paper_note by (intro paper_evidence) (auto simp: fld_spread)
next
  assume "fld action ''id'' = S ''sentiment_review''"
  with assms have "fld t ''note'' = Str SENTIMENT_REVIEW_COMPLETION_NOTE"
    by (auto simp: manualActionTransition_def Let_def js_or_def split: if_splits)
  then show "sentimentReviewCompleted (spread action [(''status'', fld t ''nextStatus''), (''note'', fld t ''note'')])"
    using sentiment_note assms(2) by (auto simp: sentimentReviewCompleted_def fld_spread intro!: sentiment_evidence)
qed

theorem manual_review_completes_witness:
  "paperWatchCompletionHasEvidence (spread (obj [(''id'', S ''paper_watch''), (''status'', S ''manual'')])
     [(''status'', S ''done''), (''note'', Str (appendTransitionEvidenceNote Undef (Str PAPER_WATCH_COMPLETION_NOTE)))])"
proof -
  let ?a = "obj [(''id'', S ''paper_watch''), (''status'', S ''manual'')]"
  let ?n = "Str (appendTransitionEvidenceNote Undef (Str PAPER_WATCH_COMPLETION_NOTE))"
  have i: "fld ?a ''id'' = S ''paper_watch''" by simp
  have t: "fld (manualActionTransition ?a) ''nextStatus'' = S ''done''" "fld (manualActionTransition ?a) ''note'' = ?n"
    by (simp_all add: manualActionTransition_def Let_def js_or_def MANUAL_TRANSITION_ACTION_IDS_def list_has_def
        js_def lower_def lower_unit_def)
  from mp [OF conjunct1 [OF manual_review_completes [OF refl t(1)]] i] show ?thesis unfolding t .
qed

subsection \<open>The overlay\<close>

text \<open>An object whose property names are distinct, as those of every JavaScript object are.\<close>

definition well_keyed :: "jsval \<Rightarrow> bool" where
  "well_keyed v \<longleftrightarrow> (\<exists>kvs. v = Obj kvs \<and> distinct (map fst kvs))"

lemma map_of_rev_distinct: "distinct (map fst kvs) \<Longrightarrow> map_of (rev kvs) = map_of kvs"
  by (subst map_of_inject_set) (simp_all add: rev_map [symmetric])

lemma fld_copy: "well_keyed v \<Longrightarrow> fld (merge (obj []) v) k = fld v k"
  by (auto simp: well_keyed_def fld_merge map_of_rev_distinct) (auto simp: fld_def entries_obj split: option.splits)

definition by_id :: "jsval list \<Rightarrow> (jsval \<times> jsval) list" where
  "by_id actions =
     fold (\<lambda>action m. if \<not> truthy (fld action ''id'') then m
       else map_put m (Str (to_str (fld action ''id''))) action) actions []"

lemma by_id_member: "map_of (by_id actions) k = Some a \<Longrightarrow> a \<in> set actions"
proof -
  have "map_of (fold (\<lambda>action m. if \<not> truthy (fld action ''id'') then m
      else map_put m (Str (to_str (fld action ''id''))) action) actions m) k = Some a \<Longrightarrow>
    a \<in> set actions \<or> map_of m k = Some a" for m
    by (induction actions arbitrary: m) (fastforce simp: map_of_map_put split: if_splits)+
  from this [of "[]"] show "map_of (by_id actions) k = Some a \<Longrightarrow> a \<in> set actions"
    by (simp add: by_id_def)
qed

text \<open>What the overlay may change of an item of the plan.\<close>

definition overlaid :: "jsval list \<Rightarrow> jsval \<Rightarrow> jsval \<Rightarrow> bool" where
  "overlaid actions item out \<longleftrightarrow>
     fld out ''id'' = fld item ''id'' \<and> fld out ''title'' = fld item ''title'' \<and>
     fld out ''detail'' = fld item ''detail'' \<and> fld out ''action'' = fld item ''action'' \<and>
     (fld out ''status'' = fld item ''status'' \<or>
      fld out ''status'' \<in> {S ''done'', S ''ready'', S ''manual'', S ''blocked''}) \<and>
     (fld item ''id'' = S ''paper_watch'' \<and> fld out ''status'' = S ''done'' \<and> fld item ''status'' \<noteq> S ''done'' \<longrightarrow>
      list_ex (\<lambda>a. fld a ''status'' = S ''done'' \<and> paperWatchCompletionHasEvidence a) actions) \<and>
     (fld item ''id'' = S ''sentiment_review'' \<and> fld out ''status'' = S ''done'' \<and> fld item ''status'' \<noteq> S ''done'' \<longrightarrow>
      list_ex (\<lambda>a. fld a ''status'' = S ''done'' \<and> sentimentReviewCompletionHasEvidence a) actions)"

lemma overlaid_same: "overlaid actions item item"
  by (simp add: overlaid_def)

lemma action_statuses: "list_has ACTION_STATUSES v \<longleftrightarrow> v \<in> {S ''done'', S ''ready'', S ''manual'', S ''blocked''}"
  by (auto simp: list_has_def ACTION_STATUSES_def)

lemma presentation_fields:
  "k \<notin> {''statusLabel'', ''hrefLabel''} \<Longrightarrow>
   map_of (rev (entries (js_or (startedBacktestPresentation item saved) (obj [])))) (js k) = None"
  by (auto simp: startedBacktestPresentation_def entries_obj js_or_def)

lemma overlay_item:
  fixes actions :: "jsval list" and item :: jsval
  defines "saved \<equiv> map_get (by_id actions) (fld item ''id'')"
  assumes "well_keyed item" and "truthy saved" and st: "lower (to_str (js_or (fld saved ''status'') (Str []))) = low"
    and "out = merge (spread (merge (obj []) item)
        [(''status'', status), (''relatedId'', r), (''href'', h), (''note'', n), (''updatedAt'', u)])
      (js_or (startedBacktestPresentation item saved) (obj []))"
    and "status = (if (fld item ''id'' = S ''paper_watch'' \<and> low = js ''done'' \<and> \<not> paperWatchCompletionHasEvidence saved) \<or>
        (fld item ''id'' = S ''sentiment_review'' \<and> low = js ''done'' \<and> \<not> sentimentReviewCompletionHasEvidence saved)
      then S ''manual'' else if list_has ACTION_STATUSES (fld saved ''status'') then fld saved ''status''
      else fld item ''status'')"
  shows "overlaid actions item out"
proof -
  have mem: "saved \<in> set actions"
    using assms(3) by (auto simp: saved_def dest: by_id_member split: option.splits)
  have f: "fld out k = (case map_of (rev [(''status'', status), (''relatedId'', r), (''href'', h), (''note'', n), (''updatedAt'', u)]) k
      of Some x \<Rightarrow> x | None \<Rightarrow> fld item k)" if "k \<notin> {''statusLabel'', ''hrefLabel''}" for k
    unfolding assms(5) by (subst fld_merge) (simp add: presentation_fields [OF that] fld_spread fld_copy [OF assms(2)])
  have low: "low = js ''done''" if "fld saved ''status'' = S ''done''"
    using st that by (simp add: js_or_def js_def lower_def lower_unit_def)
  show ?thesis
    unfolding overlaid_def using mem low assms(6)
    by (auto simp: f action_statuses list_ex_iff split: if_splits)
qed

text \<open>
  Laying persisted actions over the plan keeps the plan: item by item, in the same order, the
  identifier, title, detail and action stay; the status is the planned one or one of the four action
  statuses; and a paper watch or a sentiment review turns into done only if one of the persisted
  actions is done with the evidence that its check asks for.\<close>

theorem overlay_keeps_plan:
  assumes "list_all well_keyed items"
  shows "list_all2 (overlaid (elems actions)) items (elems (overlayPersistedActions (Arr items) actions))"
proof (cases "\<not> is_arr actions \<or> fld actions ''length'' = N 0")
  case True
  then show ?thesis by (auto simp: overlayPersistedActions_def overlaid_same intro: list_all2_refl)
next
  case False
  have item: "overlaid (elems actions) item (if \<not> truthy (map_get (by_id (elems actions)) (fld item ''id'')) then item else out)"
    if "truthy (map_get (by_id (elems actions)) (fld item ''id'')) \<Longrightarrow> overlaid (elems actions) item out" for item out
    using that by (simp add: overlaid_same)
  show ?thesis
    unfolding overlayPersistedActions_def by_id_def [symmetric]
    using assms
    by (simp only: False if_False Let_def by_id_def [symmetric] elems.simps list_all2_map2 list_all2_same)
      (intro ballI item overlay_item [OF _ _ refl refl refl], simp_all add: list_all_iff)
qed

theorem overlay_keeps_plan_witness:
  "list_all2 (overlaid (elems (Arr [obj [(''id'', S ''paper_watch''), (''status'', S ''done'')]])))
     [obj [(''id'', S ''paper_watch''), (''status'', S ''blocked'')]]
     (elems (overlayPersistedActions (Arr [obj [(''id'', S ''paper_watch''), (''status'', S ''blocked'')]])
       (Arr [obj [(''id'', S ''paper_watch''), (''status'', S ''done'')]])))"
  by (rule overlay_keeps_plan) (simp add: well_keyed_def obj_def)

end
