(* ===== verification/Text_Lists.thy ===== *)
theory Text_Lists
  imports Preset_Text
begin

section \<open>Lists of text: collecting, joining and splitting\<close>

text \<open>
  The form of the AI page keeps lists as text. \<open>cleanSymbolList\<close> and \<open>cleanOperatorList\<close> collect the
  entries in a loop with a set of the texts seen and an early exit; \<open>collect\<close> says what such a loop
  computes, without the loop. The second part shows that joining clean entries and splitting the text
  again gives the entries back.
\<close>

subsection \<open>The collecting loop\<close>

text \<open>The elements of a list that are neither in \<open>seen\<close> nor earlier in the list.\<close>

fun fresh :: "jsval list \<Rightarrow> jsval list \<Rightarrow> jsval list" where
  "fresh seen [] = []"
| "fresh seen (x # xs) = (if x \<in> set seen then fresh seen xs else x # fresh (seen @ [x]) xs)"

lemma remdups_first_fresh: "remdups_first xs = fresh [] xs"
proof -
  have "fold (\<lambda>x acc. set_add acc x) xs seen = seen @ fresh seen xs" for seen
    by (induction xs arbitrary: seen) (auto simp: set_add_def)
  then show ?thesis by (simp add: remdups_first_def)
qed

lemma fresh_id: "distinct xs \<Longrightarrow> set xs \<inter> set seen = {} \<Longrightarrow> fresh seen xs = xs"
  by (induction xs arbitrary: seen) auto

lemma remdups_first_id [simp]: "distinct xs \<Longrightarrow> remdups_first xs = xs"
  by (simp add: remdups_first_fresh fresh_id)

text \<open>The texts of the items that are not empty after cleaning.\<close>

definition texts :: "(jsval \<Rightarrow> jstr) \<Rightarrow> jsval list \<Rightarrow> jsval list" where
  "texts clean xs = filter (\<lambda>v. v \<noteq> Str []) (map (\<lambda>item. Str (clean item)) xs)"

definition collect :: "(jsval \<Rightarrow> jstr) \<Rightarrow> nat \<Rightarrow> jsval list \<Rightarrow> jsval list" where
  "collect clean n xs = take n (remdups_first (texts clean xs))"

definition collect_step ::
  "(jsval \<Rightarrow> jstr) \<Rightarrow> (jstr \<Rightarrow> jsval) \<Rightarrow> jsnum \<Rightarrow> jsval \<Rightarrow> jsval list \<times> jsval list \<Rightarrow> (jsval list \<times> jsval list) flow" where
  "collect_step clean emit limit item = (\<lambda>(seen, out).
     let x = clean item
     in if x = [] \<or> list_has seen (Str x) then Next (seen, out)
        else let seen = set_add seen (Str x); out = out @ [emit x]
          in if num_le limit (len out) then Break (seen, out) else Next (seen, out))"

lemma texts_Cons:
  "texts clean (x # xs) = (if clean x = [] then texts clean xs else Str (clean x) # texts clean xs)"
  by (simp add: texts_def)

lemma num_le_len: "num_le (Fin (of_nat n)) (len xs) \<longleftrightarrow> n \<le> length xs"
  by (simp add: len_def)

lemma collect_loop:
  assumes "length out < n"
  shows "snd (iterate (collect_step clean emit (Fin (of_nat n))) xs (seen, out)) =
    out @ map (\<lambda>v. emit (str_val v)) (take (n - length out) (fresh seen (texts clean xs)))"
  using assms
proof (induction xs arbitrary: seen out)
  case Nil
  then show ?case by (simp add: texts_def)
next
  case (Cons x xs)
  let ?x = "Str (clean x)"
  show ?case
  proof (cases "clean x = [] \<or> ?x \<in> set seen")
    case True
    then have "collect_step clean emit (Fin (of_nat n)) x (seen, out) = Next (seen, out)"
      by (simp add: collect_step_def Let_def list_has_def)
    with True Cons show ?thesis by (auto simp: texts_Cons)
  next
    case False
    then have s: "collect_step clean emit (Fin (of_nat n)) x (seen, out) =
        (if n \<le> Suc (length out) then Break else Next) (seen @ [?x], out @ [emit (clean x)])"
      by (simp add: collect_step_def Let_def list_has_def set_add_def num_le_len)
    have f: "fresh seen (texts clean (x # xs)) = ?x # fresh (seen @ [?x]) (texts clean xs)"
      using False by (simp add: texts_Cons)
    show ?thesis
    proof (cases "n \<le> Suc (length out)")
      case True
      with Cons.prems have "n - length out = 1" by simp
      then show ?thesis using True by (simp only: f) (simp add: s)
    next
      case False
      then have "n - length out = Suc (n - length (out @ [emit (clean x)]))" by simp
      with False Cons.IH [of "out @ [emit (clean x)]" "seen @ [?x]"] show ?thesis
        by (simp only: f) (simp add: s)
    qed
  qed
qed

lemma collect_bounds:
  "length (collect clean n xs) \<le> n" "distinct (collect clean n xs)"
  "set (collect clean n xs) \<subseteq> set (texts clean xs)"
  by (simp_all add: collect_def distinct_remdups_first)
    (metis set_remdups_first set_take_subset)

lemma collect_nonempty: "0 < n \<Longrightarrow> texts clean xs \<noteq> [] \<Longrightarrow> collect clean n xs \<noteq> []"
  by (metis collect_def set_remdups_first set_empty take_eq_Nil less_irrefl)

text \<open>Clean entries are collected as they are.\<close>

lemma collect_id:
  assumes "distinct ss" and "length ss \<le> n" and "list_all (\<lambda>s. s \<noteq> [] \<and> clean (Str s) = s) ss"
  shows "collect clean n (map Str ss) = map Str ss"
proof -
  have "texts clean (map Str ss) = map Str ss"
    using assms(3) by (induction ss) (auto simp: texts_def)
  moreover have "distinct (map Str ss)" using assms(1) by (simp add: distinct_map inj_on_def)
  ultimately show ?thesis using assms(2) by (simp add: collect_def)
qed

subsection \<open>The two collectors of the module\<close>

definition item_text :: "jsval \<Rightarrow> jstr" where
  "item_text item = trim (to_str (js_or item (Str [])))"

definition symbol_text :: "jsval \<Rightarrow> jstr" where
  "symbol_text item = upper (item_text item)"

definition operator_items :: "jsval \<Rightarrow> jsval list" where
  "operator_items raw =
     (if is_arr raw then elems raw
      else map Str (split_runs (\<lambda>c. c = 10 \<or> c = 44 \<or> c = 59 \<or> c = 65292 \<or> c = 65307 \<or> c = 12289)
        (to_str (js_or raw (Str [])))))"

lemma iterate_cong: "(\<And>x s. f x s = g x s) \<Longrightarrow> iterate f xs s = iterate g xs s"
  by (metis ext)

lemma cleanSymbolList_collect: "cleanSymbolList values = collect symbol_text 8 (elems values)"
proof -
  have "cleanSymbolList values = snd (iterate (collect_step symbol_text Str (Fin (of_nat 8))) (elems values) ([], []))"
    by (simp add: cleanSymbolList_def symbol_text_def item_text_def collect_step_def [abs_def] snd_def)
  also have "\<dots> = collect symbol_text 8 (elems values)"
    by (subst collect_loop)
      (auto simp: collect_def remdups_first_fresh [symmetric] texts_def intro!: map_idI dest!: in_set_takeD)
  finally show ?thesis .
qed

lemma cleanOperatorList_collect:
  "cleanOperatorList raw Undef = map (\<lambda>v. Str (take 120 (str_val v))) (collect item_text 8 (operator_items raw))"
proof -
  have "cleanOperatorList raw Undef =
      snd (iterate (collect_step item_text (\<lambda>s. Str (take 120 s)) (Fin (of_nat 8))) (operator_items raw) ([], []))"
    by (simp add: cleanOperatorList_def operator_items_def item_text_def collect_step_def [abs_def] snd_def
          cong del: if_weak_cong)
  then show ?thesis by (subst (asm) collect_loop) (simp_all add: collect_def remdups_first_fresh)
qed

subsection \<open>Joining and splitting\<close>

text \<open>A text that a list can carry as an entry: no separator in it, not empty, no white space around it.\<close>

definition clean_entry :: "(nat \<Rightarrow> bool) \<Rightarrow> jstr \<Rightarrow> bool" where
  "clean_entry P s \<longleftrightarrow> s \<noteq> [] \<and> trim s = s \<and> list_all (\<lambda>c. \<not> P c) s"

lemma split_runs_none: "list_all (\<lambda>c. \<not> P c) s \<Longrightarrow> split_runs P s = [s]"
proof -
  assume "list_all (\<lambda>c. \<not> P c) s"
  then have "dropWhile (\<lambda>c. \<not> P c) s = []" by (simp add: list_all_iff dropWhile_eq_Nil_conv)
  then show ?thesis by (subst split_runs.simps) (simp only: list.case)
qed

lemma split_runs_sep:
  assumes "list_all (\<lambda>c. \<not> P c) s" and "sep \<noteq> []" and "list_all P sep" and "c # r = t" and "\<not> P c"
  shows "split_runs P (s @ sep @ t) = s # split_runs P t"
proof -
  obtain d sep' where sep: "sep = d # sep'" using assms(2) by (cases sep) auto
  have "dropWhile (\<lambda>c. \<not> P c) (s @ sep @ t) = sep @ t" and "takeWhile (\<lambda>c. \<not> P c) (s @ sep @ t) = s"
    using assms(1,3) by (simp_all add: sep list_all_iff dropWhile_append2 takeWhile_append2)
  moreover have "dropWhile P (sep' @ t) = t"
    using assms(3-5) by (auto simp: sep list_all_iff dropWhile_append2)
  ultimately show ?thesis by (subst split_runs.simps) (simp add: sep)
qed

lemma split_join:
  assumes "sep \<noteq> []" and "list_all P sep" and "list_all (clean_entry P) ss" and "ss \<noteq> []"
  shows "split_runs P (join sep ss) = ss"
  using assms(3,4)
proof (induction ss)
  case (Cons s ss)
  show ?case
  proof (cases ss)
    case Nil
    with Cons.prems show ?thesis by (simp add: split_runs_none clean_entry_def)
  next
    case t: (Cons t ts)
    with Cons.prems obtain c r where "t = c # r" and c: "\<not> P c" by (cases t) (auto simp: clean_entry_def)
    then obtain r' where "c # r' = join sep ss" using t by (cases ts) auto
    moreover have "list_all (\<lambda>c. \<not> P c) s" using Cons.prems by (simp add: clean_entry_def)
    ultimately have "split_runs P (s @ sep @ join sep ss) = s # split_runs P (join sep ss)"
      using assms(1,2) c by (intro split_runs_sep)
    with Cons t show ?thesis by simp
  qed
qed simp

lemma list_all_takeWhile: "list_all Q (takeWhile Q t)"
  by (induction t) auto

lemma split_runs_pieces: "s \<in> set (split_runs P t) \<Longrightarrow> list_all (\<lambda>c. \<not> P c) s"
proof (induction P t rule: split_runs.induct)
  case (1 P t)
  show ?case
  proof (cases "dropWhile (\<lambda>c. \<not> P c) t")
    case Nil
    then have "split_runs P t = [t]" by (subst split_runs.simps) (simp only: list.case)
    with "1.prems" Nil show ?thesis by (simp add: list_all_iff dropWhile_eq_Nil_conv)
  next
    case (Cons c r)
    then have "split_runs P t = takeWhile (\<lambda>c. \<not> P c) t # split_runs P (dropWhile P r)"
      by (subst split_runs.simps) (simp only: list.case)
    with "1.prems" have "s = takeWhile (\<lambda>c. \<not> P c) t \<or> s \<in> set (split_runs P (dropWhile P r))"
      by (simp only: list.set insert_iff)
    then show ?thesis
    proof
      assume "s = takeWhile (\<lambda>c. \<not> P c) t"
      then show ?thesis by (simp only: list_all_takeWhile)
    qed (rule "1.IH" [OF Cons])
  qed
qed

end
