(* ===== verification/Goal_Form_Properties.thy ===== *)
theory Goal_Form_Properties
  imports Text_Lists Goal_Form Ts_Types
begin

section \<open>The request of the goal form\<close>

text \<open>
  What the page sends to the gateway: the request always has its declared type, never asks for real
  trading, and keeps its bounds; and a run that the gateway stores for a request leads, read back into the
  form, to the request again, up to what the gateway changes.
\<close>

subsection \<open>Symbols\<close>

abbreviation symbol_sep :: "nat \<Rightarrow> bool" where
  "symbol_sep \<equiv> \<lambda>c. c = 44 \<or> is_ws c \<or> c = 65292 \<or> c = 12289"

abbreviation operator_sep :: "nat \<Rightarrow> bool" where
  "operator_sep \<equiv> \<lambda>c. c = 10 \<or> c = 44 \<or> c = 59 \<or> c = 65292 \<or> c = 65307 \<or> c = 12289"

lemma is_ws_upper_unit [simp]: "is_ws (upper_unit c) = is_ws c"
  by (auto simp: is_ws_def upper_unit_def)

lemma upper_unit_idem [simp]: "upper_unit (upper_unit c) = upper_unit c"
  by (auto simp: upper_unit_def)

lemma upper_unit_sep [simp]: "upper_unit c = 44 \<longleftrightarrow> c = 44" "upper_unit c = 65292 \<longleftrightarrow> c = 65292"
    "upper_unit c = 12289 \<longleftrightarrow> c = 12289"
  by (auto simp: upper_unit_def)

lemma upper_idem [simp]: "upper (upper s) = upper s"
  by (simp add: upper_def)

lemma upper_Nil [simp]: "upper [] = []"
  by (simp add: upper_def)

lemma trim_upper: "trim (upper s) = upper (trim s)"
  by (simp add: trim_def upper_def dropWhile_map rev_map o_def)

lemma set_trim: "set (trim s) \<subseteq> set s"
  by (auto simp: trim_def dest!: set_dropWhileD)

lemma to_str_or [simp]: "to_str (js_or (Str s) (Str [])) = s"
  by (simp add: js_or_def)

lemma item_text_Str [simp]: "item_text (Str s) = trim s"
  by (simp add: item_text_def)

lemma symbol_text_Str [simp]: "symbol_text (Str s) = upper (trim s)"
  by (simp add: symbol_text_def)

lemma symbolsFromText_collect:
  "symbolsFromText raw = collect symbol_text 8 (map Str (split_runs symbol_sep (to_str (js_or raw (Str [])))))"
  by (simp add: symbolsFromText_def cleanSymbolList_collect)

text \<open>A symbol as the collectors leave it.\<close>

definition clean_symbol :: "jstr \<Rightarrow> bool" where
  "clean_symbol s \<longleftrightarrow> clean_entry symbol_sep s \<and> upper s = s"

lemma clean_symbol_piece:
  assumes "list_all (\<lambda>c. \<not> symbol_sep c) s" and "upper (trim s) \<noteq> []"
  shows "clean_symbol (upper (trim s))"
proof -
  have "list_all (\<lambda>c. \<not> symbol_sep c) (trim s)" using assms(1) set_trim [of s] by (auto simp: list_all_iff)
  then have "list_all (\<lambda>c. \<not> symbol_sep c) (upper (trim s))"
    by (simp add: upper_def list_all_iff)
  with assms(2) show ?thesis by (simp add: clean_symbol_def clean_entry_def trim_upper)
qed

lemma collected_strings: "\<exists>ss. collect clean n xs = map Str ss"
proof (intro exI)
  have "Str (str_val v) = v" if "v \<in> set (collect clean n xs)" for v
    using that collect_bounds(3) [of clean n xs] by (auto simp: texts_def)
  then show "collect clean n xs = map Str (map str_val (collect clean n xs))"
    by (simp add: map_idI o_def)
qed

lemma symbols_clean:
  obtains ss where "symbolsFromText raw = map Str ss" and "distinct ss" and "length ss \<le> 8"
    and "list_all clean_symbol ss"
proof -
  let ?ps = "split_runs symbol_sep (to_str (js_or raw (Str [])))"
  obtain ss where "collect symbol_text 8 (map Str ?ps) = map Str ss" by (meson collected_strings)
  then have ss: "symbolsFromText raw = map Str ss" by (simp only: symbolsFromText_collect)
  have "clean_symbol s" if "s \<in> set ss" for s
  proof -
    from that ss have "Str s \<in> set (texts symbol_text (map Str ?ps))"
      using collect_bounds(3) [of symbol_text 8 "map Str ?ps"] by (auto simp: symbolsFromText_collect)
    then obtain p where "p \<in> set ?ps" "s = upper (trim p)" "s \<noteq> []" by (auto simp: texts_def)
    then show ?thesis using clean_symbol_piece [OF split_runs_pieces] by simp
  qed
  moreover have "distinct (map Str ss)" and "length (map Str ss) \<le> 8"
    using collect_bounds(1,2) [of symbol_text 8 "map Str ?ps"] by (simp_all only: ss [symmetric] symbolsFromText_collect)
  ultimately show ?thesis using that [OF ss] by (auto simp: distinct_map list_all_iff)
qed

lemma js_join_strings [simp]: "js_join sep (map Str ss) = join sep ss"
  by (simp add: js_join_def nullish_def o_def)

lemma symbols_again:
  assumes "distinct ss" and "length ss \<le> 8" and "list_all clean_symbol ss"
  shows "cleanSymbolsForText (Arr (map Str ss)) = join (js '', '') ss"
    and "symbolsFromText (Str (join (js '', '') ss)) = map Str ss"
proof -
  have c: "list_all (\<lambda>s. s \<noteq> [] \<and> symbol_text (Str s) = s) ss"
    using assms(3) by (auto simp: list_all_iff clean_symbol_def clean_entry_def)
  note id = collect_id [OF assms(1,2) c]
  show "cleanSymbolsForText (Arr (map Str ss)) = join (js '', '') ss"
    by (simp add: cleanSymbolsForText_def cleanSymbolList_collect id Let_def)
  show "symbolsFromText (Str (join (js '', '') ss)) = map Str ss"
  proof (cases "ss = []")
    case True
    then show ?thesis by (simp add: symbolsFromText_collect split_runs_none collect_def texts_def remdups_first_def)
  next
    case False
    have "list_all (clean_entry symbol_sep) ss" using assms(3) by (simp add: list_all_iff clean_symbol_def)
    then have "split_runs symbol_sep (join (js '', '') ss) = ss"
      by (intro split_join False) (simp_all add: js_def is_ws_def)
    then show ?thesis by (simp add: symbolsFromText_collect id)
  qed
qed

text \<open>
  Printing the symbols of a run into the form and reading the form again gives the same symbols,
  in the same order, whatever the operator had typed.\<close>

theorem symbols_text_roundtrip:
  "symbolsFromText (Str (cleanSymbolsForText (Arr (symbolsFromText raw)))) = symbolsFromText raw"
proof -
  obtain ss where ss: "symbolsFromText raw = map Str ss" "distinct ss" "length ss \<le> 8" "list_all clean_symbol ss"
    by (rule symbols_clean)
  then show ?thesis by (simp add: symbols_again)
qed

subsection \<open>Constraints of the operator\<close>

lemma operator_list: "\<exists>es. cleanOperatorList raw Undef = map Str es \<and> length es \<le> 8 \<and>
    list_all (\<lambda>e. e \<noteq> [] \<and> length e \<le> 120) es"
proof -
  obtain ss where ss: "collect item_text 8 (operator_items raw) = map Str ss" by (meson collected_strings)
  have "length ss \<le> 8" using collect_bounds(1) [of item_text 8 "operator_items raw"] ss by simp
  moreover have "s \<noteq> []" if "s \<in> set ss" for s
  proof -
    from that ss have "Str s \<in> set (texts item_text (operator_items raw))"
      using collect_bounds(3) [of item_text 8 "operator_items raw"] by auto
    then show ?thesis by (auto simp: texts_def)
  qed
  ultimately show ?thesis
    by (intro exI [of _ "map (take 120) ss"]) (simp add: cleanOperatorList_collect ss o_def list_all_iff)
qed

lemma operator_default:
  assumes "\<not> operator_sep c" and "\<not> is_ws c"
  shows "cleanOperatorList (Str (c # s)) Undef \<noteq> []"
proof -
  have "\<exists>r ps. split_runs operator_sep (c # s) = (c # r) # ps"
    using assms(1) by (subst split_runs.simps) (auto split: list.split)
  then obtain r ps where p: "split_runs operator_sep (c # s) = (c # r) # ps" by blast
  have "trim (c # r) \<noteq> []" using assms(2) by (simp add: trim_def dropWhile_append3)
  then have "texts item_text (operator_items (Str (c # s))) \<noteq> []"
    by (simp add: operator_items_def p texts_def)
  then show ?thesis by (simp add: cleanOperatorList_collect collect_nonempty)
qed

lemma default_lists:
  "cleanOperatorList (Str AI_DEFAULT_BEHAVIOR_TEXT) Undef \<noteq> []"
  "cleanOperatorList (Str AI_DEFAULT_NARRATIVE_TEXT) Undef \<noteq> []"
  "cleanOperatorList (Str AI_DEFAULT_AVOID_TEXT) Undef \<noteq> []"
  unfolding AI_DEFAULT_BEHAVIOR_TEXT_def AI_DEFAULT_NARRATIVE_TEXT_def AI_DEFAULT_AVOID_TEXT_def
  by (rule operator_default; simp add: is_ws_def)+

text \<open>A list of constraints as the request carries it.\<close>

definition constraint_list :: "jsval \<Rightarrow> bool" where
  "constraint_list v \<longleftrightarrow> (\<exists>es. v = Arr (map Str es) \<and> es \<noteq> [] \<and> length es \<le> 8 \<and>
     list_all (\<lambda>e. e \<noteq> [] \<and> length e \<le> 120) es)"

lemma constraint_listI:
  assumes "cleanOperatorList d Undef \<noteq> []"
  shows "constraint_list (Arr (cleanOperatorListOrDefault raw d))"
  using operator_list [of raw] operator_list [of d] assms
  unfolding cleanOperatorListOrDefault_def constraint_list_def Let_def by fastforce

lemmas request_constraints = default_lists [THEN constraint_listI]

lemma constraint_list_nonempty: "constraint_list (Arr xs) \<Longrightarrow> xs \<noteq> []"
  by (auto simp: constraint_list_def)

subsection \<open>The request\<close>

definition request_object ::
  "jstr \<Rightarrow> jsval list \<Rightarrow> jstr \<Rightarrow> jstr \<Rightarrow> jstr \<Rightarrow> jsval list \<Rightarrow> jsval list \<Rightarrow> jsval list \<Rightarrow> jsval" where
  "request_object goal symbols horizon risk mode behavior narrative avoid =
     obj [(''goal'', Str goal), (''symbols'', Arr symbols), (''horizon'', Str horizon),
       (''riskPreference'', Str risk), (''executionMode'', Str mode),
       (''behaviorConstraints'', Arr behavior), (''marketNarrativeFocus'', Arr narrative),
       (''avoidScenarios'', Arr avoid)]"

lemma request_eq:
  "aiGoalRequestFromFormState state = request_object
     (trim (to_str (js_or (fld state ''goal'') (Str []))))
     (symbolsFromText (fld state ''symbolsText''))
     (trim (to_str (js_or (fld state ''horizon'') (Str []))))
     (safeRiskPreferenceForGoal (fld state ''riskPreference''))
     (safeExecutionModeForGoal (fld state ''executionMode''))
     (cleanOperatorListOrDefault (coalesce (fld state ''behaviorText'') (fld state ''behaviorConstraints''))
        (Str AI_DEFAULT_BEHAVIOR_TEXT))
     (cleanOperatorListOrDefault (coalesce (fld state ''narrativeText'') (fld state ''marketNarrativeFocus''))
        (Str AI_DEFAULT_NARRATIVE_TEXT))
     (cleanOperatorListOrDefault (coalesce (fld state ''avoidText'') (fld state ''avoidScenarios''))
        (Str AI_DEFAULT_AVOID_TEXT))"
  using request_constraints [THEN constraint_list_nonempty]
  by (simp add: aiGoalRequestFromFormState_def request_object_def Let_def spread_def obj_def put_all_def)

lemma request_object_fields [simp]:
  "fld (request_object g ss h r m b n a) ''goal'' = Str g"
  "fld (request_object g ss h r m b n a) ''symbols'' = Arr ss"
  "fld (request_object g ss h r m b n a) ''horizon'' = Str h"
  "fld (request_object g ss h r m b n a) ''riskPreference'' = Str r"
  "fld (request_object g ss h r m b n a) ''executionMode'' = Str m"
  "fld (request_object g ss h r m b n a) ''behaviorConstraints'' = Arr b"
  "fld (request_object g ss h r m b n a) ''marketNarrativeFocus'' = Arr n"
  "fld (request_object g ss h r m b n a) ''avoidScenarios'' = Arr a"
  by (simp_all add: request_object_def)

lemma request_object_entries [simp]:
  "fld (Obj (entries (request_object g ss h r m b n a))) k = fld (request_object g ss h r m b n a) k"
  by (simp add: request_object_def)

lemma request_object_spread:
  "spread (request_object g ss h r m b n a) [(''symbols'', Arr ss'), (''horizon'', Str h'), (''executionMode'', Str m')] =
    request_object g ss' h' r m' b n a"
  by (simp add: request_object_def spread_def obj_def put_all_def)

lemma safe_mode: "safeExecutionModeForGoal v = js ''observe'' \<or> safeExecutionModeForGoal v = js ''paper''"
  by (simp add: safeExecutionModeForGoal_def Let_def)

lemma safe_risk: "list_has [S ''conservative'', S ''balanced'', S ''aggressive''] (Str (safeRiskPreferenceForGoal v))"
  by (simp add: safeRiskPreferenceForGoal_def Let_def list_has_def)

lemma constraint_list_type: "constraint_list v \<Longrightarrow> has_type (TArray TString) v"
  by (auto simp: constraint_list_def list_all_iff)

text \<open>
  C33: The request that the page sends to the analysis endpoint has the declared type
  \<^verbatim>\<open>TypeAIGoalRequest\<close>, whatever the state of the form holds.\<close>

theorem goal_request_typed: "has_type TypeAIGoalRequest (aiGoalRequestFromFormState state)"
proof -
  obtain ss where "symbolsFromText (fld state ''symbolsText'') = map Str ss" by (rule symbols_clean)
  then show ?thesis
    using request_constraints [THEN constraint_list_type]
    by (simp add: request_eq TypeAIGoalRequest_def request_object_def shape_simps list.pred_map o_def list.pred_True)
qed

lemma request_safe:
  "list_has [S ''observe'', S ''paper''] (fld (aiGoalRequestFromFormState state) ''executionMode'') \<and>
   list_has [S ''conservative'', S ''balanced'', S ''aggressive'']
     (fld (aiGoalRequestFromFormState state) ''riskPreference'') \<and>
   (\<exists>ss. fld (aiGoalRequestFromFormState state) ''symbols'' = Arr (map Str ss) \<and>
      distinct ss \<and> length ss \<le> 8 \<and> list_all (\<lambda>s. s \<noteq> [] \<and> upper s = s) ss) \<and>
   list_all (\<lambda>k. constraint_list (fld (aiGoalRequestFromFormState state) k))
     [''behaviorConstraints'', ''marketNarrativeFocus'', ''avoidScenarios'']"
proof -
  obtain ss where "symbolsFromText (fld state ''symbolsText'') = map Str ss" "distinct ss" "length ss \<le> 8"
    "list_all clean_symbol ss" by (rule symbols_clean)
  then have "\<exists>ss. symbolsFromText (fld state ''symbolsText'') = map Str ss \<and> distinct ss \<and> length ss \<le> 8 \<and>
      list_all (\<lambda>s. s \<noteq> [] \<and> upper s = s) ss"
    by (auto simp: list_all_iff clean_symbol_def clean_entry_def)
  then show ?thesis
    using safe_mode [of "fld state ''executionMode''"] safe_risk [of "fld state ''riskPreference''"] request_constraints
    by (auto simp: request_eq list_has_def)
qed

text \<open>
  A request never asks for more than watching or paper trading: its execution mode is
  \<^verbatim>\<open>observe\<close> or \<^verbatim>\<open>paper\<close> (although the type admits \<^verbatim>\<open>testnet\<close> and \<^verbatim>\<open>mainnet\<close>) and its risk preference one of
  the three known ones; it names at most eight symbols, none twice, in capitals; and each of its lists
  of constraints has between one and eight entries of 1 to 120 characters.\<close>

theorem goal_request_safe:
  "list_has [S ''observe'', S ''paper''] (fld (aiGoalRequestFromFormState state) ''executionMode'') \<and>
   list_has [S ''conservative'', S ''balanced'', S ''aggressive'']
     (fld (aiGoalRequestFromFormState state) ''riskPreference'') \<and>
   (\<exists>ss. fld (aiGoalRequestFromFormState state) ''symbols'' = Arr (map Str ss) \<and>
      distinct ss \<and> length ss \<le> 8 \<and> list_all (\<lambda>s. s \<noteq> [] \<and> upper s = s) ss) \<and>
   list_all (\<lambda>k. constraint_list (fld (aiGoalRequestFromFormState state) k))
     [''behaviorConstraints'', ''marketNarrativeFocus'', ''avoidScenarios'']"
  by (rule request_safe)

subsection \<open>Opening a stored run again\<close>

text \<open>
  What the gateway makes of a request before it stores a run for it (\<^verbatim>\<open>normalizeGoalRequest\<close> of
  \<^verbatim>\<open>src/gateway/internal/http/handlers/ai_goal.go\<close>, on the texts as the client holds them): texts are
  trimmed as Go trims them, an empty horizon is filled in, the suffix USDT is taken off the symbols, and a
  constraint is cut when its UTF-8 form has more than 120 bytes. How it is cut is the parameter \<open>shorten\<close>.
\<close>

definition go_ws :: "nat \<Rightarrow> bool" where
  "go_ws c \<longleftrightarrow> is_ws c \<and> c \<noteq> 65279 \<or> c = 133"

definition go_trim :: "jstr \<Rightarrow> jstr" where
  "go_trim s = rev (dropWhile go_ws (rev (dropWhile go_ws s)))"

definition trim_suffix :: "jstr \<Rightarrow> jstr \<Rightarrow> jstr" where
  "trim_suffix t s = (if drop (length s - length t) s = t then take (length s - length t) s else s)"

definition gateway_symbol :: "jsval \<Rightarrow> jstr" where
  "gateway_symbol v = trim_suffix (js ''USDT'') (trim_suffix (js ''/USDT'') (upper (go_trim (str_val v))))"

definition gateway_symbols :: "jsval list \<Rightarrow> jsval list" where
  "gateway_symbols xs = (let out = collect gateway_symbol 8 xs in if out = [] then [S ''BTC'', S ''ETH''] else out)"

definition gateway_horizon :: "jsval \<Rightarrow> jstr" where
  "gateway_horizon v = (let h = go_trim (str_val v) in if h = [] then js ''1-4 weeks'' else h)"

text \<open>The number of UTF-8 bytes of a text in code units: a surrogate pair makes four.\<close>

definition utf8_size :: "jstr \<Rightarrow> nat" where
  "utf8_size s = sum_list (map (\<lambda>c. if c < 128 then 1 else if c < 2048 \<or> 55296 \<le> c \<and> c \<le> 57343 then 2 else 3) s)"

primrec gateway_texts :: "(jstr \<Rightarrow> jstr) \<Rightarrow> jstr list \<Rightarrow> jsval list \<Rightarrow> jstr list" where
  "gateway_texts shorten out [] = out"
| "gateway_texts shorten out (x # xs) =
     (let v = go_trim (str_val x)
      in if v = [] \<or> v \<in> set out then gateway_texts shorten out xs
         else let out = out @ [if 120 < utf8_size v then shorten v else v]
           in if 8 \<le> length out then out else gateway_texts shorten out xs)"

text \<open>
  A run that the gateway stores for a request of the form: the fields of the normalised request, where the
  execution mode may be \<^verbatim>\<open>observe\<close> if the provider of the analysis asks for less than the request
  (\<^verbatim>\<open>safeGoalExecutionMode\<close>), and, under \<^verbatim>\<open>analysis.context.operatorConstraints\<close>, the three lists.
  Nothing is said of a list of which nothing is left; the gateway then takes its own.
\<close>

definition stored_run :: "(jstr \<Rightarrow> jstr) \<Rightarrow> jsval \<Rightarrow> jsval \<Rightarrow> bool" where
  "stored_run shorten run request \<longleftrightarrow>
     go_trim (str_val (fld request ''goal'')) \<noteq> [] \<and>
     fld run ''goal'' = Str (go_trim (str_val (fld request ''goal''))) \<and>
     fld run ''symbols'' = Arr (gateway_symbols (elems (fld request ''symbols''))) \<and>
     fld run ''horizon'' = Str (gateway_horizon (fld request ''horizon'')) \<and>
     fld run ''riskPreference'' = fld request ''riskPreference'' \<and>
     (fld run ''executionMode'' = fld request ''executionMode'' \<or> fld run ''executionMode'' = S ''observe'') \<and>
     list_all (\<lambda>k. gateway_texts shorten [] (elems (fld request k)) \<noteq> [] \<longrightarrow>
         fld (fld (fld (fld run ''analysis'') ''context'') ''operatorConstraints'') k =
           Arr (map Str (gateway_texts shorten [] (elems (fld request k)))))
       [''behaviorConstraints'', ''marketNarrativeFocus'', ''avoidScenarios'']"

text \<open>Texts within the gateway's limits are stored as they are (133 is white space for Go, not for the client).\<close>

lemma go_trim_id:
  assumes "trim s = s" and "133 \<notin> set s"
  shows "go_trim s = s"
proof -
  have a: "dropWhile is_ws s = s"
  proof (rule ccontr)
    assume "dropWhile is_ws s \<noteq> s"
    then have "length (dropWhile is_ws s) < length s"
      using length_dropWhile_le [of is_ws "tl s"] by (cases s) (auto split: if_splits)
    then have "length (trim s) < length s" using length_dropWhile_le [of is_ws "rev (dropWhile is_ws s)"] by (simp add: trim_def)
    with assms(1) show False by simp
  qed
  then have b: "dropWhile is_ws (rev s) = rev s" using assms(1) by (metis rev_rev_ident trim_def)
  have g: "dropWhile go_ws t = t" if "dropWhile is_ws t = t" "133 \<notin> set t" for t
  proof -
    from that(1) have "t = [] \<or> \<not> is_ws (hd t)" by (simp only: dropWhile_eq_self_iff)
    with that(2) show ?thesis by (cases t) (auto simp: go_ws_def)
  qed
  show ?thesis using g [OF a assms(2)] g [OF b] assms(2) by (simp add: go_trim_def)
qed

definition within_limits :: "jstr \<Rightarrow> bool" where
  "within_limits s \<longleftrightarrow> utf8_size s \<le> 120 \<and> 133 \<notin> set s"

lemma texts_kept:
  assumes "distinct (out @ es)" and "length (out @ es) \<le> 8" and "list_all (\<lambda>e. trim e = e \<and> e \<noteq> [] \<and> within_limits e) es"
  shows "gateway_texts shorten out (map Str es) = out @ es"
  using assms
proof (induction es arbitrary: out)
  case (Cons e es)
  then have "go_trim e = e" using go_trim_id by (simp add: within_limits_def)
  with Cons.prems show ?case using Cons.IH [of "out @ [e]"] by (cases es) (auto simp: within_limits_def Let_def)
qed simp

text \<open>The symbols that the gateway stores can be printed into the form and read again.\<close>

lemma clean_symbol_part:
  assumes "clean_symbol s" and "set t \<subseteq> set s" and "t \<noteq> []"
  shows "clean_symbol t"
proof -
  have n: "list_all (\<lambda>c. \<not> symbol_sep c) t" using assms by (auto simp: clean_symbol_def clean_entry_def list_all_iff)
  moreover have d: "dropWhile is_ws u = u" if "\<forall>c \<in> set u. \<not> is_ws c" for u using that by (cases u) simp_all
  ultimately have "trim t = t" using d [of t] d [of "rev t"] by (simp add: trim_def list_all_iff)
  moreover have "upper t = t"
  proof -
    have "map upper_unit s = map id s" using assms(1) by (simp add: clean_symbol_def upper_def)
    then have "\<forall>c \<in> set s. upper_unit c = c" by (simp only: map_eq_conv id_apply)
    then show ?thesis using assms(2) by (auto simp: upper_def intro: map_idI)
  qed
  ultimately show ?thesis using n assms(3) by (simp add: clean_symbol_def clean_entry_def)
qed

lemma gateway_symbol_part: "upper s = s \<Longrightarrow> set (gateway_symbol (Str s)) \<subseteq> set s"
proof -
  have t: "set (trim_suffix x s) \<subseteq> set s" for x s by (auto simp: trim_suffix_def dest: in_set_takeD)
  have g: "set (go_trim s) \<subseteq> set s" by (auto simp: go_trim_def dest!: set_dropWhileD)
  assume "upper s = s"
  then have "map upper_unit s = map id s" by (simp add: upper_def)
  then have "\<forall>c \<in> set s. upper_unit c = c" by (simp only: map_eq_conv id_apply)
  then have "upper (go_trim s) = go_trim s" using g by (auto simp: upper_def intro: map_idI)
  then have "set (upper (go_trim s)) \<subseteq> set s" using g by simp
  then show ?thesis
    using t [of "js ''/USDT''" "upper (go_trim s)"] t [of "js ''USDT''" "trim_suffix (js ''/USDT'') (upper (go_trim s))"]
    by (auto simp: gateway_symbol_def)
qed

lemma stored_symbols:
  assumes "list_all clean_symbol ss"
  obtains ts where "gateway_symbols (map Str ss) = map Str ts" and "distinct ts" and "length ts \<le> 8"
    and "list_all clean_symbol ts" and "ts \<noteq> []"
proof -
  obtain ts where ts: "collect gateway_symbol 8 (map Str ss) = map Str ts" by (meson collected_strings)
  show thesis
  proof (cases "ts = []")
    case True
    then show ?thesis using ts
      by (intro that [of "[js ''BTC'', js ''ETH'']"])
        (simp_all add: gateway_symbols_def clean_symbol_def clean_entry_def trim_def upper_def upper_unit_def is_ws_def js_def)
  next
    case False
    have "clean_symbol t" if "t \<in> set ts" for t
    proof -
      from that ts have "Str t \<in> set (texts gateway_symbol (map Str ss))"
        using collect_bounds(3) [of gateway_symbol 8 "map Str ss"] by auto
      then obtain s where s: "s \<in> set ss" "t = gateway_symbol (Str s)" "t \<noteq> []" by (auto simp: texts_def)
      with assms have "clean_symbol s" by (simp add: list_all_iff)
      with s show ?thesis
        using clean_symbol_part gateway_symbol_part by (metis clean_symbol_def)
    qed
    moreover have "distinct (map Str ts)" "length (map Str ts) \<le> 8"
      using collect_bounds(1,2) [of gateway_symbol 8 "map Str ss"] by (simp_all only: ts)
    ultimately show ?thesis using False ts by (intro that [of ts]) (auto simp: gateway_symbols_def list_all_iff distinct_map)
  qed
qed

text \<open>A run that carries the fields of a request.\<close>

definition run_of_request :: "jsval \<Rightarrow> jsval \<Rightarrow> bool" where
  "run_of_request run request \<longleftrightarrow>
     list_all (\<lambda>k. fld run k = fld request k) [''goal'', ''symbols'', ''horizon'', ''riskPreference'', ''executionMode''] \<and>
     list_all (\<lambda>k. fld (fld (fld (fld run ''analysis'') ''context'') ''operatorConstraints'') k = fld request k)
       [''behaviorConstraints'', ''marketNarrativeFocus'', ''avoidScenarios'']"

text \<open>A list of constraints that one line of the form per entry can express.\<close>

definition one_per_line :: "jsval \<Rightarrow> bool" where
  "one_per_line v \<longleftrightarrow> distinct (elems v) \<and> list_all (\<lambda>e. clean_entry operator_sep (str_val e)) (elems v)"

lemma operator_lines:
  assumes "constraint_list (Arr vs)" and "one_per_line (Arr vs)"
  shows "operatorTextFromList (Arr vs) \<noteq> []"
    and "cleanOperatorListOrDefault (Str (operatorTextFromList (Arr vs))) d = vs"
proof -
  obtain es where vs: "vs = map Str es" and es: "es \<noteq> []" "length es \<le> 8" "list_all (\<lambda>e. e \<noteq> [] \<and> length e \<le> 120) es"
    using assms(1) by (auto simp: constraint_list_def)
  have d: "distinct es" and c: "list_all (clean_entry operator_sep) es"
    using assms(2) by (auto simp: one_per_line_def vs distinct_map list_all_iff)
  have "list_all (\<lambda>s. s \<noteq> [] \<and> item_text (Str s) = s) es"
    using c by (simp add: list_all_iff clean_entry_def)
  note id = collect_id [OF d es(2) this]
  have cut: "map (\<lambda>x. Str (take 120 x)) es = map Str es"
    using es(3) by (simp add: list_all_iff)
  have join: "operatorTextFromList (Arr vs) = join [10] es"
    by (simp add: operatorTextFromList_def vs cleanOperatorList_collect operator_items_def id o_def cut)
  have split: "split_runs operator_sep (join [10] es) = es"
    by (rule split_join) (use c es(1) in simp_all)
  show "operatorTextFromList (Arr vs) \<noteq> []"
    using es(1) c unfolding join by (cases es; cases "tl es") (auto simp: clean_entry_def)
  show "cleanOperatorListOrDefault (Str (operatorTextFromList (Arr vs))) d = vs"
  proof -
    have "cleanOperatorList (Str (join [10] es)) Undef = map Str es"
      using cut by (simp add: cleanOperatorList_collect operator_items_def split id o_def)
    with es(1) show ?thesis unfolding cleanOperatorListOrDefault_def join unfolding vs by simp
  qed
qed

lemma merge_if:
  "fld (merge a (if c then obj [(k', x)] else obj [])) k = (if c \<and> k = k' then x else fld (Obj (entries a)) k)"
  by (simp add: fld_merge entries_obj)

lemma reopened_fields:
  defines "form run current \<equiv> formStateFromAIGoalRun run current"
  defines "constraints run \<equiv> js_or (fld (fld (fld run ''analysis'') ''context'') ''operatorConstraints'') (obj [])"
  shows
    "trim (to_str (js_or (fld run ''goal'') (Str []))) \<noteq> [] \<Longrightarrow>
       fld (form run current) ''goal'' = Str (trim (to_str (js_or (fld run ''goal'') (Str []))))"
    "cleanSymbolsForText (fld run ''symbols'') \<noteq> [] \<Longrightarrow>
       fld (form run current) ''symbolsText'' = Str (cleanSymbolsForText (fld run ''symbols''))"
    "trim (to_str (js_or (fld run ''horizon'') (Str []))) \<noteq> [] \<Longrightarrow>
       fld (form run current) ''horizon'' = Str (trim (to_str (js_or (fld run ''horizon'') (Str []))))"
    "trim (to_str (js_or (fld run ''riskPreference'') (Str []))) \<noteq> [] \<Longrightarrow>
       fld (form run current) ''riskPreference'' = Str (trim (to_str (js_or (fld run ''riskPreference'') (Str []))))"
    "trim (to_str (js_or (fld run ''executionMode'') (Str []))) \<noteq> [] \<Longrightarrow>
       fld (form run current) ''executionMode'' = Str (trim (to_str (js_or (fld run ''executionMode'') (Str []))))"
    "operatorTextFromList (fld (constraints run) ''behaviorConstraints'') \<noteq> [] \<Longrightarrow>
       fld (form run current) ''behaviorText'' = Str (operatorTextFromList (fld (constraints run) ''behaviorConstraints''))"
    "operatorTextFromList (fld (constraints run) ''marketNarrativeFocus'') \<noteq> [] \<Longrightarrow>
       fld (form run current) ''narrativeText'' = Str (operatorTextFromList (fld (constraints run) ''marketNarrativeFocus''))"
    "operatorTextFromList (fld (constraints run) ''avoidScenarios'') \<noteq> [] \<Longrightarrow>
       fld (form run current) ''avoidText'' = Str (operatorTextFromList (fld (constraints run) ''avoidScenarios''))"
  unfolding form_def constraints_def formStateFromAIGoalRun_def Let_def merge_if fld_entries_merge
  by simp_all

lemma safe_values:
  "v = safeRiskPreferenceForGoal w \<Longrightarrow> v \<noteq> [] \<and> trim v = v \<and> safeRiskPreferenceForGoal (Str v) = v"
  "u = safeExecutionModeForGoal w \<Longrightarrow> u \<noteq> [] \<and> trim u = u \<and> safeExecutionModeForGoal (Str u) = u"
proof -
  show "v \<noteq> [] \<and> trim v = v \<and> safeRiskPreferenceForGoal (Str v) = v" if "v = safeRiskPreferenceForGoal w"
    using safe_risk [of w] unfolding that [symmetric] list_has_def
    by (auto simp: safeRiskPreferenceForGoal_def list_has_def js_or_def trim_def lower_def lower_unit_def is_ws_def js_def)
  show "u \<noteq> [] \<and> trim u = u \<and> safeExecutionModeForGoal (Str u) = u" if "u = safeExecutionModeForGoal w"
    using safe_mode [of w] unfolding that [symmetric]
    by (auto simp: safeExecutionModeForGoal_def js_or_def trim_def lower_def lower_unit_def is_ws_def js_def)
qed

text \<open>The request that follows from a stored run with the given fields.\<close>

lemma reopened_object:
  assumes run: "run_of_request run (request_object g (map Str ss) h rp em b n a)"
    and texts: "trim g = g" "g \<noteq> []" "trim h = h" "h \<noteq> []" "trim rp = rp" "rp \<noteq> []" "trim em = em" "em \<noteq> []"
    and symbols: "distinct ss" "length ss \<le> 8" "list_all clean_symbol ss" "ss \<noteq> []"
    and lists: "constraint_list (Arr b)" "constraint_list (Arr n)" "constraint_list (Arr a)"
    and lines: "one_per_line (Arr b)" "one_per_line (Arr n)" "one_per_line (Arr a)"
  shows "aiGoalRequestFromFormState (formStateFromAIGoalRun run current) =
    request_object g (map Str ss) h (safeRiskPreferenceForGoal (Str rp)) (safeExecutionModeForGoal (Str em)) b n a"
proof -
  let ?c = "fld (fld (fld run ''analysis'') ''context'') ''operatorConstraints''"
  from run have c: "fld ?c ''behaviorConstraints'' = Arr b" "fld ?c ''marketNarrativeFocus'' = Arr n"
    "fld ?c ''avoidScenarios'' = Arr a"
    and r: "fld run ''goal'' = Str g" "fld run ''symbols'' = Arr (map Str ss)" "fld run ''horizon'' = Str h"
    "fld run ''riskPreference'' = Str rp" "fld run ''executionMode'' = Str em"
    by (simp_all add: run_of_request_def)
  from c have "js_or ?c (obj []) = ?c" by (cases ?c) (auto simp: js_or_def fld_def)
  note f = reopened_fields [where run = run and current = current, unfolded this c r to_str_or texts(1,3,5,7)
      symbols_again [OF symbols(1-3)]]
  have "join (js '', '') ss \<noteq> []"
    using symbols(3,4) by (cases ss; cases "tl ss") (auto simp: clean_symbol_def clean_entry_def)
  note f(1) [OF texts(2)] f(2) [OF this] f(3) [OF texts(4)] f(4) [OF texts(6)] f(5) [OF texts(8)]
    f(6) [OF operator_lines(1) [OF lists(1) lines(1)]] f(7) [OF operator_lines(1) [OF lists(2) lines(2)]]
    f(8) [OF operator_lines(1) [OF lists(3) lines(3)]]
  then show ?thesis
    using operator_lines(2) [OF lists(1) lines(1)] operator_lines(2) [OF lists(2) lines(2)]
      operator_lines(2) [OF lists(3) lines(3)] texts(1,3) symbols_again [OF symbols(1-3)]
    by (simp add: request_eq)
qed

text \<open>Constraints that the form can show one per line and that the gateway stores as they are.\<close>

definition storable :: "jsval \<Rightarrow> bool" where
  "storable v \<longleftrightarrow> one_per_line v \<and> list_all (\<lambda>e. within_limits (str_val e)) (elems v)"

lemma storable_kept:
  assumes "constraint_list v" and "storable v"
  shows "gateway_texts shorten [] (elems v) \<noteq> []" "Arr (map Str (gateway_texts shorten [] (elems v))) = v"
proof -
  obtain es where es: "v = Arr (map Str es)" "es \<noteq> []" "length es \<le> 8" using assms(1) by (auto simp: constraint_list_def)
  then have "gateway_texts shorten [] (elems v) = es"
    using assms(2) texts_kept [of "[]" es shorten]
    by (simp add: storable_def one_per_line_def distinct_map list_all_iff clean_entry_def)
  with es show "gateway_texts shorten [] (elems v) \<noteq> []" "Arr (map Str (gateway_texts shorten [] (elems v))) = v" by simp_all
qed

text \<open>The fields that a stored run carries.\<close>

lemma stored_run_carries:
  assumes "stored_run shorten run (request_object g (map Str ss) h rp m b n a)" and "fld run ''executionMode'' = Str em"
    and "go_trim g = g" and "go_trim h = h" and "gateway_symbols (map Str ss) = map Str ts"
    and lists: "constraint_list (Arr b)" "constraint_list (Arr n)" "constraint_list (Arr a)"
    and storable: "storable (Arr b)" "storable (Arr n)" "storable (Arr a)"
  shows "run_of_request run (request_object g (map Str ts) (if h = [] then js ''1-4 weeks'' else h) rp em b n a)"
  using assms(1-5) storable_kept [OF lists(1) storable(1)] storable_kept [OF lists(2) storable(2)]
    storable_kept [OF lists(3) storable(3)]
  by (simp add: run_of_request_def stored_run_def gateway_horizon_def)

lemma stored_mode:
  assumes "stored_run shorten run (request_object g ss h rp (safeExecutionModeForGoal v) b n a)"
  obtains em where "fld run ''executionMode'' = Str em" "em \<noteq> []" "trim em = em" "safeExecutionModeForGoal (Str em) = em"
proof -
  obtain em where em: "fld run ''executionMode'' = Str em" "em = safeExecutionModeForGoal v \<or> em = js ''observe''"
    using assms by (auto simp: stored_run_def)
  have "em \<noteq> [] \<and> trim em = em \<and> safeExecutionModeForGoal (Str em) = em"
    using em(2) safe_values(2) [of em v]
    by (auto simp: safeExecutionModeForGoal_def js_or_def lower_def lower_unit_def trim_def is_ws_def js_def)
  with em(1) that show thesis by blast
qed

text \<open>The request that follows from a run stored for a request of the form.\<close>

lemma stored_request:
  assumes stored: "stored_run shorten run (request_object g (map Str ss) h (safeRiskPreferenceForGoal v) (safeExecutionModeForGoal w) b n a)"
    and texts: "trim g = g" "133 \<notin> set g" "trim h = h" "133 \<notin> set h" and clean: "list_all clean_symbol ss"
    and lists: "constraint_list (Arr b)" "constraint_list (Arr n)" "constraint_list (Arr a)"
    and storable: "storable (Arr b)" "storable (Arr n)" "storable (Arr a)"
  obtains em where "fld run ''executionMode'' = Str em"
    and "aiGoalRequestFromFormState (formStateFromAIGoalRun run current) = request_object g (gateway_symbols (map Str ss))
      (if h = [] then js ''1-4 weeks'' else h) (safeRiskPreferenceForGoal v) em b n a"
proof -
  let ?h = "if h = [] then js ''1-4 weeks'' else h"
  obtain ts where ts: "gateway_symbols (map Str ss) = map Str ts" "distinct ts" "length ts \<le> 8" "list_all clean_symbol ts" "ts \<noteq> []"
    by (rule stored_symbols [OF clean])
  have go: "go_trim g = g" "go_trim h = h" using texts by (simp_all add: go_trim_id)
  obtain em where em: "fld run ''executionMode'' = Str em" "em \<noteq> []" "trim em = em" "safeExecutionModeForGoal (Str em) = em"
    by (rule stored_mode [OF stored])
  have "trim (js ''1-4 weeks'') = js ''1-4 weeks''" "js ''1-4 weeks'' \<noteq> []" by (simp_all add: trim_def is_ws_def js_def)
  then have h: "trim ?h = ?h" "?h \<noteq> []" using texts(3) by simp_all
  have g: "g \<noteq> []" using stored go(1) by (simp add: stored_run_def)
  have "aiGoalRequestFromFormState (formStateFromAIGoalRun run current) =
      request_object g (map Str ts) ?h (safeRiskPreferenceForGoal v) em b n a"
    using reopened_object [OF stored_run_carries [OF stored em(1) go ts(1) lists storable] texts(1) g h _ _ em(3,2) ts(2-5) lists]
      storable safe_values(1) [OF refl, of v] em(4) by (simp add: storable_def)
  with em(1) ts(1) that show thesis by metis
qed

text \<open>
  C11: A stored run repeats its request. Let a request of the form have constraints that fit one per line,
  without repetitions and without U+0085, of at most 120 UTF-8 bytes each, and let the gateway store a run
  for it. When the fields of that run are read into the form (\<^verbatim>\<open>formStateFromAIGoalRun\<close>, as the page does
  to refresh a run), whatever the form held before, its next request is the one of the run except for
  what the gateway changed: the symbols lose the suffix USDT (BTC and ETH when none is left), an empty
  horizon is one to four weeks, and the execution mode is the stored one. If the gateway changed nothing
  of these, it is the same request.\<close>

theorem reopened_run_repeats_request:
  assumes "aiGoalRequestFromFormState state = r" and "stored_run shorten run r"
    and "133 \<notin> set (str_val (fld r ''goal'')) \<union> set (str_val (fld r ''horizon''))"
    and "list_all (\<lambda>k. storable (fld r k)) [''behaviorConstraints'', ''marketNarrativeFocus'', ''avoidScenarios'']"
  shows "aiGoalRequestFromFormState (formStateFromAIGoalRun run current) =
      spread r [(''symbols'', Arr (gateway_symbols (elems (fld r ''symbols'')))),
        (''horizon'', if fld r ''horizon'' = Str [] then S ''1-4 weeks'' else fld r ''horizon''),
        (''executionMode'', fld run ''executionMode'')] \<and>
    (elems (fld r ''symbols'') \<noteq> [] \<and> list_all (\<lambda>v. gateway_symbol v = str_val v) (elems (fld r ''symbols'')) \<and>
       fld r ''horizon'' \<noteq> Str [] \<and> fld run ''executionMode'' = fld r ''executionMode'' \<longrightarrow>
     aiGoalRequestFromFormState (formStateFromAIGoalRun run current) = r)"
proof -
  let ?g = "trim (to_str (js_or (fld state ''goal'') (Str [])))" and ?h = "trim (to_str (js_or (fld state ''horizon'') (Str [])))"
  let ?rp = "safeRiskPreferenceForGoal (fld state ''riskPreference'')" and ?em = "safeExecutionModeForGoal (fld state ''executionMode'')"
  obtain ss where ss: "symbolsFromText (fld state ''symbolsText'') = map Str ss" "distinct ss" "length ss \<le> 8"
    "list_all clean_symbol ss" by (rule symbols_clean)
  note r = assms(1) [unfolded request_eq ss(1), symmetric]
  let ?b = "elems (fld r ''behaviorConstraints'')" and ?n = "elems (fld r ''marketNarrativeFocus'')" and ?a = "elems (fld r ''avoidScenarios'')"
  have rr: "request_object ?g (map Str ss) ?h ?rp ?em ?b ?n ?a = r" by (simp add: r)
  have lists: "constraint_list (Arr ?b)" "constraint_list (Arr ?n)" "constraint_list (Arr ?a)" by (simp_all add: r request_constraints)
  have lines: "storable (Arr ?b)" "storable (Arr ?n)" "storable (Arr ?a)" using assms(4) by (simp_all add: r)
  have u: "133 \<notin> set ?g" "133 \<notin> set ?h" using assms(3) by (simp_all add: r)
  have stored: "stored_run shorten run (request_object ?g (map Str ss) ?h ?rp ?em ?b ?n ?a)" unfolding rr by (rule assms(2))
  obtain em where em: "fld run ''executionMode'' = Str em"
    and again: "aiGoalRequestFromFormState (formStateFromAIGoalRun run current) =
      request_object ?g (gateway_symbols (map Str ss)) (if ?h = [] then js ''1-4 weeks'' else ?h) ?rp em ?b ?n ?a"
    by (rule stored_request [OF stored trim_idem u(1) trim_idem u(2) ss(4) lists lines])
  have e: "elems (fld r ''symbols'') = map Str ss" "fld r ''horizon'' = Str ?h" "fld r ''executionMode'' = Str ?em"
    by (simp_all add: r)
  have h: "(if Str ?h = Str [] then S ''1-4 weeks'' else Str ?h) = Str (if ?h = [] then js ''1-4 weeks'' else ?h)" by simp
  have one: "aiGoalRequestFromFormState (formStateFromAIGoalRun run current) =
      spread r [(''symbols'', Arr (gateway_symbols (elems (fld r ''symbols'')))),
        (''horizon'', if fld r ''horizon'' = Str [] then S ''1-4 weeks'' else fld r ''horizon''),
        (''executionMode'', fld run ''executionMode'')]"
    unfolding again e em h by (rule request_object_spread [of ?g "map Str ss" ?h ?rp ?em ?b ?n ?a, unfolded rr, symmetric])
  have "aiGoalRequestFromFormState (formStateFromAIGoalRun run current) = r"
    if "ss \<noteq> []" "list_all (\<lambda>v. gateway_symbol v = str_val v) (map Str ss)" "?h \<noteq> []" "em = ?em"
  proof -
    have "gateway_symbols (map Str ss) = map Str ss"
      using that(1,2) collect_id [OF ss(2,3), of gateway_symbol] ss(4)
      by (simp add: gateway_symbols_def list_all_iff clean_symbol_def clean_entry_def)
    with that(3,4) show ?thesis unfolding again by (simp add: r)
  qed
  with one show ?thesis using em by (simp add: r)
qed

text \<open>A form, its request, and the run that the gateway stores for it.\<close>

definition sample_form :: jsval where
  "sample_form = obj [(''goal'', S ''Earn''), (''symbolsText'', S ''btcusdt''), (''horizon'', S ''1w''),
     (''behaviorText'', S ''calm''), (''narrativeText'', S ''etf''), (''avoidText'', S ''gaps'')]"

definition sample_request :: jsval where
  "sample_request = request_object (js ''Earn'') [S ''BTCUSDT''] (js ''1w'') (js ''balanced'') (js ''paper'')
     [S ''calm''] [S ''etf''] [S ''gaps'']"

definition sample_run :: jsval where
  "sample_run = spread sample_request [(''symbols'', Arr [S ''BTC'']), (''analysis'', obj [(''context'', obj [(''operatorConstraints'', sample_request)])])]"

lemma one_entry:
  assumes "clean_entry operator_sep s" and "length s \<le> 120"
  shows "cleanOperatorListOrDefault (Str s) d = [Str s]"
  using assms
  by (simp add: cleanOperatorListOrDefault_def cleanOperatorList_collect operator_items_def split_runs_none
      clean_entry_def collect_def texts_def)

lemma one_symbol:
  assumes "list_all (\<lambda>c. \<not> symbol_sep c) s" and "trim s = s" and "s \<noteq> []"
  shows "symbolsFromText (Str s) = [Str (upper s)]"
  using assms by (simp add: symbolsFromText_collect split_runs_none collect_def texts_def upper_def)

lemmas text_eval = trim_def upper_def upper_unit_def lower_def lower_unit_def is_ws_def js_def

lemma sample_request_eq: "aiGoalRequestFromFormState sample_form = sample_request"
  by (simp add: request_eq sample_form_def sample_request_def one_entry one_symbol clean_entry_def text_eval
      safeRiskPreferenceForGoal_def safeExecutionModeForGoal_def list_has_def js_or_def)

lemma sample_run_stored: "stored_run id sample_run sample_request"
  by (simp add: stored_run_def sample_run_def sample_request_def gateway_symbols_def gateway_horizon_def gateway_symbol_def
      trim_suffix_def collect_def texts_def remdups_first_def set_add_def go_trim_def go_ws_def fld_spread utf8_size_def text_eval)

theorem reopened_run_repeats_request_witness:
  "aiGoalRequestFromFormState (formStateFromAIGoalRun sample_run sample_form) = spread sample_request [(''symbols'', Arr [S ''BTC''])]"
proof -
  have u: "133 \<notin> set (str_val (fld sample_request ''goal'')) \<union> set (str_val (fld sample_request ''horizon''))"
    by (simp add: sample_request_def js_def)
  have l: "list_all (\<lambda>k. storable (fld sample_request k)) [''behaviorConstraints'', ''marketNarrativeFocus'', ''avoidScenarios'']"
    by (simp add: sample_request_def storable_def one_per_line_def within_limits_def utf8_size_def clean_entry_def text_eval)
  have "gateway_symbols [S ''BTCUSDT''] = [S ''BTC'']"
    by (simp add: gateway_symbols_def gateway_symbol_def trim_suffix_def collect_def texts_def remdups_first_def set_add_def
        go_trim_def go_ws_def text_eval)
  then have f: "gateway_symbols (elems (fld sample_request ''symbols'')) = [S ''BTC'']" "fld sample_request ''horizon'' = S ''1w''"
    "fld sample_run ''executionMode'' = S ''paper''"
    by (simp_all add: sample_run_def sample_request_def fld_spread)
  have "S ''1w'' \<noteq> Str []" by (simp add: js_def)
  with reopened_run_repeats_request [OF sample_request_eq sample_run_stored u l, of sample_form]
  have "aiGoalRequestFromFormState (formStateFromAIGoalRun sample_run sample_form) =
      spread sample_request [(''symbols'', Arr [S ''BTC'']), (''horizon'', S ''1w''), (''executionMode'', S ''paper'')]"
    unfolding f by (simp only: if_False)
  then show ?thesis by (simp add: sample_request_def request_object_def spread_def obj_def put_all_def)
qed

end
