(* ===== verification/Money_Properties.thy ===== *)
theory Money_Properties
  imports Money_Steps Goal_Form_Properties
begin

section \<open>Invariants of the AI Money page\<close>

text \<open>
  What holds of the page under every interleaving of events and answers: every analysis that is asked
  for is a request of the form, whatever the gateway answers; and the page's own changes keep its list of
  runs short and without repetitions, as long as the lists that it stores as they come are. Both are
  interpretations of \<open>page_invariant\<close> on the model's handlers.
\<close>

subsection \<open>The list of runs\<close>

text \<open>No two entries with the same identifier, at most twenty.\<close>

definition other_run :: "jsval \<Rightarrow> jsval \<Rightarrow> bool" where
  "other_run r s \<longleftrightarrow> \<not> strict_eq (fld r ''id'') (fld s ''id'')"

definition run_list :: "jsval list \<Rightarrow> bool" where
  "run_list rs \<longleftrightarrow> length rs \<le> 20 \<and> sorted_wrt other_run rs"

lemma strict_eq_iff: "strict_eq a b \<longleftrightarrow> a = b \<and> a \<noteq> Num NaN"
  by (cases "(a, b)" rule: strict_eq.cases) (auto simp: num_eq_def)

lemma strict_eq_sym: "strict_eq a b \<longleftrightarrow> strict_eq b a"
  by (auto simp: strict_eq_iff)

lemma strict_eq_trans: "strict_eq a b \<Longrightarrow> strict_eq b c \<Longrightarrow> strict_eq a c"
  by (auto simp: strict_eq_iff)

lemma sorted_wrt_take': "sorted_wrt R xs \<Longrightarrow> sorted_wrt R (take n xs)"
  by (metis append_take_drop_id sorted_wrt_append)

lemma run_list_Cons: "list_all (other_run r) rs \<Longrightarrow> run_list rs \<Longrightarrow> run_list (take 20 (r # rs))"
  unfolding run_list_def by (auto simp: list_all_iff dest: in_set_takeD intro!: sorted_wrt_take')

lemma run_list_filter: "run_list rs \<Longrightarrow> run_list (filter P rs)"
  by (auto simp: run_list_def sorted_wrt_filter intro: order.trans [OF length_filter_le])

lemma run_list_remember [simp]: "run_list rs \<Longrightarrow> run_list (remember r rs)"
  unfolding remember_def by (rule run_list_Cons) (auto simp: list_all_iff other_run_def strict_eq_sym run_list_filter)

lemma run_list_replace:
  assumes "run_list rs"
  shows "run_list (map (\<lambda>r. if strict_eq (fld r ''id'') (fld u ''id'') then u else r) rs)"
proof -
  have "sorted_wrt other_run rs \<Longrightarrow>
      sorted_wrt other_run (map (\<lambda>r. if strict_eq (fld r ''id'') (fld u ''id'') then u else r) rs)"
    by (induction rs) (auto simp: other_run_def strict_eq_sym dest: strict_eq_trans)
  with assms show ?thesis by (simp add: run_list_def)
qed

lemma run_list_updated [simp]:
  assumes "run_list rs"
  shows "run_list (if list_ex (\<lambda>r. strict_eq (fld r ''id'') (fld u ''id'')) rs
     then map (\<lambda>r. if strict_eq (fld r ''id'') (fld u ''id'') then u else r) rs
     else take 20 (u # rs))"
proof (cases "list_ex (\<lambda>r. strict_eq (fld r ''id'') (fld u ''id'')) rs")
  case True
  then show ?thesis by (simp only: if_True run_list_replace [OF assms])
next
  case False
  then have "list_all (other_run u) rs" by (auto simp: list_all_iff list_ex_iff other_run_def strict_eq_sym)
  with False show ?thesis by (simp only: if_False run_list_Cons [OF _ assms])
qed

subsection \<open>Every handler keeps the invariant\<close>

fun safe_call :: "call \<Rightarrow> bool" where
  "safe_call (AnalyzeGoal payload) = (\<exists>form. payload = aiGoalRequestFromFormState form)"
| "safe_call _ = True"

declare safe_call.simps(1) [simp del]

text \<open>The handlers are checked once for both invariants: with \<open>l\<close> the list of runs is looked at, too.\<close>

abbreviation listed :: "bool \<Rightarrow> page \<Rightarrow> bool" where
  "listed l p \<equiv> l \<longrightarrow> run_list (runs p)"

abbreviation kept :: "bool \<Rightarrow> (call \<Rightarrow> thrown + jsval \<Rightarrow> bool) \<Rightarrow> act \<Rightarrow> bool" where
  "kept l gw \<equiv> obeys gw (listed l) safe_call"

definition honest_lists :: "(call \<Rightarrow> thrown + jsval \<Rightarrow> bool) \<Rightarrow> bool" where
  "honest_lists gw \<longleftrightarrow> (\<forall>v. gw ListRuns (Inr v) \<longrightarrow> run_list (elems v))"

lemmas frame = set_active_def on_center_def visit_def applyFormState_def store_item_def
  while_alive_def

lemma kept_create: "(\<And>r m. kept l gw (k r m)) \<Longrightarrow> kept l gw (create_backtests xs out m k)"
  by (induction xs arbitrary: out m) (auto simp: obeys_await)

lemma kept_tracked: "(\<And>k. (\<And>r m. kept l gw (k r m)) \<Longrightarrow> kept l gw (body k)) \<Longrightarrow> (\<And>r m. kept l gw (k r m)) \<Longrightarrow>
    kept l gw (tracked m d body k)"
  by (simp add: tracked_def frame)

lemma kept_validation: "(\<And>m. kept l gw (k m)) \<Longrightarrow> kept l gw (runValidationBacktests m a k)"
  unfolding runValidationBacktests_def Let_def
  by (auto simp: obeys_await frame split: sum.split intro!: kept_tracked kept_create)

lemma kept_analysis:
  "safe_call (AnalyzeGoal q) \<Longrightarrow> (\<And>v m. kept l gw (k v m)) \<Longrightarrow> kept l gw (runGoalAnalysis m q k)"
  unfolding runGoalAnalysis_def
  by (auto simp: obeys_await frame split: sum.split intro!: kept_tracked)

lemma kept_pipeline:
  "safe_call (AnalyzeGoal q) \<Longrightarrow> (\<And>v m. kept l gw (k v m)) \<Longrightarrow> kept l gw (analyzeAndValidateGoal m q k)"
  unfolding analyzeAndValidateGoal_def Let_def by (auto intro!: kept_analysis kept_validation)

lemma safe_form: "safe_call (AnalyzeGoal (aiGoalRequestFromFormState form))"
  by (auto simp: safe_call.simps(1))

lemmas kept_intros = kept_pipeline kept_analysis kept_validation kept_create safe_form kept_tracked

lemma kept_unless_blocked: "kept l gw a \<Longrightarrow> kept l gw (unless_blocked p a)"
  by (auto simp: unless_blocked_def frame split: option.split)

lemma kept_form:
  "kept l gw (onAnalyzeAndValidate p m t)" "kept l gw (onDailyRadarScan p m t)"
  unfolding onAnalyzeAndValidate_def onDailyRadarScan_def Let_def
  by (auto simp: frame intro!: kept_unless_blocked kept_intros)

lemma kept_runs:
  "kept l gw (openRun p i)" "kept l gw (refreshRun p i)" "kept l gw (validateRun p i)"
  unfolding openRun_def refreshRun_def validateRun_def Let_def
  by (auto simp: frame obeys_await run_list_updated simp del: list_ex_iff split: option.split intro!: kept_intros)

lemma kept_saves:
  "kept l gw (runBacktestDraft p m d)" "kept l gw (acceptPaperCandidate url p c b)"
  "(\<And>v. kept l gw (k v)) \<Longrightarrow> kept l gw (saveStrategyDraftCore p m d b b' k)"
  "kept l gw (updateQueueAction p i)"
  unfolding runBacktestDraft_def acceptPaperCandidate_def saveStrategyDraftCore_def updateQueueAction_def Let_def
  by (auto simp: frame obeys_await split: sum.split intro!: kept_tracked)

lemma kept_effects:
  "kept l gw (loadValidationRuns e ids b)" "kept l gw (readRadarPreference p)" "kept l gw (persistRadarPreference p)"
  "kept l gw loadAccounts" "kept l gw loadProvider" "(l \<Longrightarrow> honest_lists gw) \<Longrightarrow> kept l gw loadRuns"
  "(l \<Longrightarrow> honest_lists gw) \<Longrightarrow> kept l gw refreshRuns"
  unfolding loadValidationRuns_def readRadarPreference_def persistRadarPreference_def loadAccounts_def
    loadProvider_def loadRuns_def refreshRuns_def Let_def
  by (auto simp: obeys_await frame honest_lists_def)

lemma runs_set_field [simp]: "runs (set_field f s p) = runs p"
  by (cases f) auto

lemma kept_handler: "(l \<Longrightarrow> honest_lists gw) \<Longrightarrow> kept l gw (handler url e p m)"
  by (cases e)
    (auto simp: onSubmit_def secondary_pressed_def composer_pressed_def applyGoalTemplate_def analyzeGoalTemplate_def
      validateGoalTemplate_def runAllBacktests_def saveAndAcceptPaperCandidate_def saveStrategyDraft_def
      validationEffect_def pollTimerFires_def openRequestedRun_def openInitialRun_def settingsReturnEffect_def
      autoRadarEffect_def Let_def frame kept_form kept_runs kept_saves kept_effects
      intro!: kept_saves(3) kept_unless_blocked kept_intros)

subsection \<open>The invariants\<close>

text \<open>
  The requests, for any gateway; the list of runs, for a gateway whose lists of runs are honest.
\<close>

interpretation requests: page_invariant url gw "\<lambda>_. True" safe_call for url gw
  using kept_handler [where l = False] kept_effects [where l = False] by unfold_locales simp_all

definition honest_gateway :: "(call \<Rightarrow> thrown + jsval \<Rightarrow> bool) \<Rightarrow> call \<Rightarrow> thrown + jsval \<Rightarrow> bool" where
  "honest_gateway gw c r \<longleftrightarrow> gw c r \<and> (c = ListRuns \<longrightarrow> (\<forall>v. r = Inr v \<longrightarrow> run_list (elems v)))"

lemma honest_gateway: "honest_lists (honest_gateway gw)" "honest_lists gw \<Longrightarrow> honest_gateway gw = gw"
  by (auto simp: honest_lists_def honest_gateway_def fun_eq_iff)

interpretation listing: page_invariant url "honest_gateway gw" "\<lambda>p. run_list (runs p)" safe_call for url gw
  using kept_handler [where l = True] kept_effects [where l = True] honest_gateway(1) by unfold_locales simp_all

text \<open>
  The page itself never repeats a run in its list nor lets it grow beyond twenty: it does so only when
  it stores a list of the gateway that is like that.\<close>

lemma runs_stay_listed:
  assumes "honest_lists gw" and "reachable url gw (initial_page run_id intent activity) (p, as)"
  shows "length (runs p) \<le> 20 \<and> sorted_wrt other_run (runs p)"
proof -
  have "run_list (runs (initial_page run_id intent activity))" by (simp add: initial_page_def run_list_def)
  from listing.invariant [of url gw, OF _ this] assms have "listing.good gw (p, as)" by (simp add: honest_gateway(2))
  then have "run_list (runs p)" by (simp add: listing.good_def)
  then show ?thesis by (simp add: run_list_def)
qed

lemma good_request: "requests.good gw (p, as) \<Longrightarrow> Ask (AnalyzeGoal q) k \<in> set as \<Longrightarrow>
    \<exists>form. q = aiGoalRequestFromFormState form"
  by (auto simp: requests.good_def asks_def safe_call.simps(1))

text \<open>
  C5: Every analysis that the page ever asks the gateway for, in any interleaving and whatever the gateway
  answers, is a request of the goal form: it only watches or trades on paper, and its lists are within
  their bounds.\<close>

theorem analysis_requests_are_safe:
  assumes "reachable url gw (initial_page run_id intent activity) (p, as)" and "Ask (AnalyzeGoal q) k \<in> set as"
  shows "list_has [S ''observe'', S ''paper''] (fld q ''executionMode'') \<and>
    (\<exists>ss. fld q ''symbols'' = Arr (map Str ss) \<and> distinct ss \<and> length ss \<le> 8) \<and>
    list_all (\<lambda>k. constraint_list (fld q k)) [''behaviorConstraints'', ''marketNarrativeFocus'', ''avoidScenarios'']"
proof -
  obtain form where q: "q = aiGoalRequestFromFormState form"
    using good_request [OF requests.invariant [OF assms(1) TrueI] assms(2)] by blast
  from request_safe [of form] show ?thesis unfolding q by blast
qed

subsection \<open>Witnesses\<close>

text \<open>A gateway that may answer anything; the page right after mounting.\<close>

definition free_gateway :: "call \<Rightarrow> thrown + jsval \<Rightarrow> bool" where
  "free_gateway c r = True"

definition quiet_center :: activity where
  "quiet_center = \<lparr>enabled = False, items = [], browser = \<lparr>b_window = True, b_readable = True, b_writable = True, b_store = \<lambda>_. None\<rparr>\<rparr>"

abbreviation first_page :: page where
  "first_page \<equiv> initial_page [] [] quiet_center"

text \<open>The provider status is still loading, which does not block an analysis that the operator starts.\<close>

lemma loading_page: "providerStatusBusy p \<Longrightarrow> redirectIfProviderBlocksAnalysis p = None"
  by (simp add: redirectIfProviderBlocksAnalysis_def providerGate_def aiProviderReadinessGateFromStatus_def
      aiProviderAnalysisAttemptFromGate_def Let_def)

definition after_mount :: page where
  "after_mount = fst (mounted first_page)"

lemma mounted_first: "reachable url free_gateway first_page (after_mount, snd (mounted first_page))"
  using reachable.start by (simp add: after_mount_def)

lemma after_mount_loading: "providerStatusBusy after_mount"
  by (simp add: after_mount_def mounted_def readRadarPreference_def await_def initial_page_def Let_def)

text \<open>Submitting the form right then.\<close>

lemma submitted: "\<exists>p' q k as. reachable url free_gateway first_page (p', Ask (AnalyzeGoal q) k # as)"
proof -
  let ?m = "\<lparr>now_ms = 0, new_id = []\<rparr>"
  obtain p' q k where "proceed (handler url Submitted after_mount ?m) after_mount = (p', Ask (AnalyzeGoal q) k)"
    by (simp add: onSubmit_def onAnalyzeAndValidate_def unless_blocked_def loading_page [OF after_mount_loading]
        analyzeAndValidateGoal_def runGoalAnalysis_def tracked_def await_def Let_def)
  from step.event [OF this] have "step url free_gateway (after_mount, snd (mounted first_page))
      (p', suspend (Ask (AnalyzeGoal q) k) (snd (mounted first_page)))" .
  from reachable.go [OF mounted_first this] show ?thesis by (auto simp: suspend_def)
qed

theorem analysis_requests_are_safe_witness:
  "\<exists>p as q k. reachable (\<lambda>_. None) free_gateway first_page (p, as) \<and> Ask (AnalyzeGoal q) k \<in> set as \<and>
    list_has [S ''observe'', S ''paper''] (fld q ''executionMode'')"
proof -
  obtain p' q k as where r: "reachable (\<lambda>_. None) free_gateway first_page (p', Ask (AnalyzeGoal q) k # as)"
    using submitted by blast
  from analysis_requests_are_safe [OF r list.set_intros(1)] have "list_has [S ''observe'', S ''paper''] (fld q ''executionMode'')"
    by simp
  with r show ?thesis by (meson list.set_intros(1))
qed

end
