(* ===== verification/Money_Busy.thy ===== *)
theory Money_Busy
  imports Money_Properties
begin

section \<open>The AI Money page never stays busy\<close>

text \<open>
  The flags that disable buttons and show spinners are set by a handler and cleared in its
  \<^verbatim>\<open>finally\<close>. Handlers overlap, so a flag alone says little about one of them; but whenever a flag is
  set, some suspended handler is going to clear it on every path. So a page with no handler under way is
  idle, and as answers come in every page becomes idle.
\<close>

subsection \<open>Flags\<close>

text \<open>
  \<open>tidy b a must\<close>: the rest \<open>a\<close> of a handler does not leave the flag \<open>b\<close> newly set, and with \<open>must\<close>
  it clears the flag on every path.\<close>

primrec tidy :: "(page \<Rightarrow> bool) \<Rightarrow> act \<Rightarrow> bool \<Rightarrow> bool" where
  "tidy b Stop must \<longleftrightarrow> \<not> must"
| "tidy b (Put f a) must \<longleftrightarrow>
     (if \<forall>p. b (f p) = b p then tidy b a must else if \<forall>p. \<not> b (f p) then tidy b a False else tidy b a True)"
| "tidy b (Ask c k) must \<longleftrightarrow> (\<forall>r. tidy b (k r) must)"

lemma tidy_weaken: "tidy b a must \<Longrightarrow> tidy b a False"
  by (induction a arbitrary: must) auto

lemma tidy_proceed:
  "tidy b a must \<Longrightarrow> proceed a p = (p', a') \<Longrightarrow>
    tidy b a' False \<and> (b p' \<longrightarrow> tidy b a' True \<or> \<not> must \<and> b p)"
proof (induction a arbitrary: p must)
  case (Put f a)
  then show ?case by (fastforce split: if_splits)
next
  case (Ask c k)
  then have "p' = p" "a' = Ask c k" by simp_all
  with Ask.prems(1) tidy_weaken [of b "Ask c k" must] show ?case by (cases must) auto
qed auto

lemma all_replies: "(\<forall>r. P r) \<longleftrightarrow> (\<forall>v m. P (Reply (Inr v) m)) \<and> (\<forall>e m. P (Reply (Inl e) m))"
  by (metis reply.exhaust sum.exhaust)

lemma tidy_await:
  "tidy b (await c ok failed) must \<longleftrightarrow> (\<forall>v m. tidy b (ok v m) must) \<and> (\<forall>e m. tidy b (failed e m) must)"
  by (simp add: await_def all_replies)

text \<open>
  The contract of a flag: every handler is tidy, and a flag that is set at the start is cleared by one
  of the loads.\<close>

locale busy_flag =
  fixes b :: "page \<Rightarrow> bool" and url :: "jstr \<Rightarrow> (jstr \<times> (jstr \<times> jstr) list) option"
  assumes handlers: "tidy b (handler url e p m) False"
    and loads: "tidy b loadAccounts False" "tidy b loadProvider False" "tidy b (readRadarPreference p) False"
    and runs_load: "tidy b loadRuns False"
    and start: "b (initial_page i t ac) \<Longrightarrow> tidy b loadRuns True \<or> tidy b loadAccounts True \<or> tidy b loadProvider True"
begin

definition covered :: "config \<Rightarrow> bool" where
  "covered c \<longleftrightarrow> (\<forall>a \<in> set (snd c). tidy b a False) \<and> (b (fst c) \<longrightarrow> (\<exists>a \<in> set (snd c). tidy b a True))"

lemma covered_start: "covered (mounted (initial_page i t ac))"
proof -
  obtain p' a where q: "proceed (readRadarPreference (initial_page i t ac)) (initial_page i t ac) = (p', a)"
    by fastforce
  from tidy_proceed [OF loads(3) q] have "tidy b a False" "b p' \<longrightarrow> tidy b a True \<or> b (initial_page i t ac)" by auto
  then show ?thesis using start [of i t ac] runs_load loads(1,2) by (auto simp: covered_def mounted_def q)
qed

lemma covered_step: "step url gateway c c' \<Longrightarrow> covered c \<Longrightarrow> covered c'"
proof (induction rule: step.induct)
  case (event e p m p' a as)
  from tidy_proceed [OF handlers event(1)] have "tidy b a False" "b p' \<longrightarrow> tidy b a True \<or> b p" by auto
  with event show ?case by (auto simp: covered_def set_suspend)
next
  case (answer c r k m p p' a as bs)
  from answer(3) have k: "tidy b (k (Reply r m)) False" by (simp add: covered_def)
  from tidy_proceed [OF this answer(2)] have 1: "tidy b a False" "b p' \<longrightarrow> tidy b a True \<or> b p" by auto
  have 2: "b p' \<longrightarrow> tidy b a True" if "tidy b (Ask c k) True"
  proof -
    from that have "tidy b (k (Reply r m)) True" by simp
    from tidy_proceed [OF this answer(2)] show ?thesis by auto
  qed
  from answer(3) 1 2 show ?case by (auto simp: covered_def set_suspend)
qed

lemma reachable_covered: "reachable url gateway (initial_page i t ac) c \<Longrightarrow> covered c"
  by (induction rule: reachable.induct) (auto intro: covered_start covered_step)

lemma idle: "reachable url gateway (initial_page i t ac) (p, []) \<Longrightarrow> \<not> b p"
  using reachable_covered [of gateway i t ac "(p, [])"] by (auto simp: covered_def)

end

subsection \<open>The handlers\<close>

text \<open>
  Every flag and every key of the page: an analysis, a pipeline, a validation under way, the loads of the
  runs, the accounts and the provider status, the spinners of a draft's backtest, of an action and of a
  saved strategy; and, one for each instance of the polling effect that has runs to poll, the flag of a
  validation whose runs are read for the first time.
\<close>

definition validating :: "nat \<Rightarrow> page \<Rightarrow> bool" where
  "validating e p \<longleftrightarrow> validationBusy p \<and> poll_epoch p = e \<and> poll_ids p \<noteq> []"

definition flags :: "nat \<Rightarrow> (page \<Rightarrow> bool) list" where
  "flags e =
     [busy, pipelineBusy, batchBacktestBusy, runsBusy, accountsBusy, providerStatusBusy,
      \<lambda>p. backtestBusyKey p \<noteq> Null, \<lambda>p. actionBusyKey p \<noteq> Null, \<lambda>p. strategySaveBusyKey p \<noteq> Null, validating e]"

lemma flag_cases:
  "b \<in> set (flags e) \<Longrightarrow>
    b = busy \<or> b = pipelineBusy \<or> b = batchBacktestBusy \<or> b = runsBusy \<or> b = accountsBusy \<or> b = providerStatusBusy \<or>
    b = (\<lambda>p. backtestBusyKey p \<noteq> Null) \<or> b = (\<lambda>p. actionBusyKey p \<noteq> Null) \<or> b = (\<lambda>p. strategySaveBusyKey p \<noteq> Null) \<or>
    b = validating e"
  by (simp add: flags_def)

text \<open>A flag is neither always set nor always clear, so the conditions of \<open>tidy\<close> evaluate.\<close>

lemma varies:
  assumes "\<And>v. key (f v) = v" and "v \<noteq> w"
  shows "\<not> (\<forall>p. c = (key p = w))" "\<not> (\<forall>p. key p = w)" "\<not> (\<forall>p. key p \<noteq> w)"
  using assms(1) [of v] assms(1) [of w] assms(2) by metis+

lemma flag_varies:
  assumes "\<And>v. b (f v) = v"
  shows "\<not> (\<forall>p. c = b p)" "\<not> (\<forall>p. b p)" "\<not> (\<forall>p. \<not> b p)"
  using assms [of True] assms [of False] by metis+

lemma busy_varies [simp]: "\<not> (\<forall>p. c = busy p)" "\<not> (\<forall>p. busy p)" "\<not> (\<forall>p. \<not> busy p)"
  by (rule flag_varies [of busy "\<lambda>v. undefined\<lparr>busy := v\<rparr>"]; simp)+

lemma pipelineBusy_varies [simp]: "\<not> (\<forall>p. c = pipelineBusy p)" "\<not> (\<forall>p. pipelineBusy p)" "\<not> (\<forall>p. \<not> pipelineBusy p)"
  by (rule flag_varies [of pipelineBusy "\<lambda>v. undefined\<lparr>pipelineBusy := v\<rparr>"]; simp)+

lemma batchBacktestBusy_varies [simp]: "\<not> (\<forall>p. c = batchBacktestBusy p)" "\<not> (\<forall>p. batchBacktestBusy p)" "\<not> (\<forall>p. \<not> batchBacktestBusy p)"
  by (rule flag_varies [of batchBacktestBusy "\<lambda>v. undefined\<lparr>batchBacktestBusy := v\<rparr>"]; simp)+

lemma runsBusy_varies [simp]: "\<not> (\<forall>p. c = runsBusy p)" "\<not> (\<forall>p. runsBusy p)" "\<not> (\<forall>p. \<not> runsBusy p)"
  by (rule flag_varies [of runsBusy "\<lambda>v. undefined\<lparr>runsBusy := v\<rparr>"]; simp)+

lemma accountsBusy_varies [simp]: "\<not> (\<forall>p. c = accountsBusy p)" "\<not> (\<forall>p. accountsBusy p)" "\<not> (\<forall>p. \<not> accountsBusy p)"
  by (rule flag_varies [of accountsBusy "\<lambda>v. undefined\<lparr>accountsBusy := v\<rparr>"]; simp)+

lemma providerStatusBusy_varies [simp]: "\<not> (\<forall>p. c = providerStatusBusy p)" "\<not> (\<forall>p. providerStatusBusy p)" "\<not> (\<forall>p. \<not> providerStatusBusy p)"
  by (rule flag_varies [of providerStatusBusy "\<lambda>v. undefined\<lparr>providerStatusBusy := v\<rparr>"]; simp)+

lemma backtestBusyKey_varies [simp]: "\<not> (\<forall>p. c = (backtestBusyKey p = Null))" "\<not> (\<forall>p. backtestBusyKey p = Null)" "\<not> (\<forall>p. backtestBusyKey p \<noteq> Null)"
  by (rule varies [of backtestBusyKey "\<lambda>v. undefined\<lparr>backtestBusyKey := v\<rparr>" Undef Null]; simp)+

lemma actionBusyKey_varies [simp]: "\<not> (\<forall>p. c = (actionBusyKey p = Null))" "\<not> (\<forall>p. actionBusyKey p = Null)" "\<not> (\<forall>p. actionBusyKey p \<noteq> Null)"
  by (rule varies [of actionBusyKey "\<lambda>v. undefined\<lparr>actionBusyKey := v\<rparr>" Undef Null]; simp)+

lemma strategySaveBusyKey_varies [simp]: "\<not> (\<forall>p. c = (strategySaveBusyKey p = Null))" "\<not> (\<forall>p. strategySaveBusyKey p = Null)" "\<not> (\<forall>p. strategySaveBusyKey p \<noteq> Null)"
  by (rule varies [of strategySaveBusyKey "\<lambda>v. undefined\<lparr>strategySaveBusyKey := v\<rparr>" Undef Null]; simp)+

text \<open>
  How a change of the page is judged: for the flag of a validation by the fields it depends on, for the
  others by evaluation.\<close>

declare tidy.simps(2) [simp del]

lemmas tidy_put = tidy.simps(2)

lemmas tidy_flag [simp] =
  tidy_put [of busy] tidy_put [of pipelineBusy] tidy_put [of batchBacktestBusy] tidy_put [of runsBusy]
  tidy_put [of accountsBusy] tidy_put [of providerStatusBusy] tidy_put [of "\<lambda>p. backtestBusyKey p \<noteq> Null"]
  tidy_put [of "\<lambda>p. actionBusyKey p \<noteq> Null"] tidy_put [of "\<lambda>p. strategySaveBusyKey p \<noteq> Null"]

lemma tidy_quiet [simp]:
  assumes "\<And>p. validationBusy (f p) = validationBusy p" "\<And>p. poll_epoch (f p) = poll_epoch p" "\<And>p. poll_ids (f p) = poll_ids p"
  shows "tidy (validating e) (Put f a) must = tidy (validating e) a must"
  using assms by (simp add: tidy_put validating_def)

lemma tidy_create:
  "(\<And>r m. tidy b (k r m) must) \<Longrightarrow> tidy b (create_backtests xs out m k) must"
  by (induction xs arbitrary: out m) (auto simp: tidy_await)

lemma tidy_analysis:
  assumes "b \<in> set (flags e)" and k: "\<And>v m. tidy b (k v m) must"
  shows "tidy b (runGoalAnalysis m q k) must"
  using flag_cases [OF assms(1)] k k [THEN tidy_weaken] unfolding runGoalAnalysis_def tracked_def
  by (elim disjE) (simp_all add: frame tidy_await)

lemma tidy_validation:
  assumes "b \<in> set (flags e)" and k: "\<And>m. tidy b (k m) must"
  shows "tidy b (runValidationBacktests m a k) must"
  using flag_cases [OF assms(1)] k k [THEN tidy_weaken]
  unfolding runValidationBacktests_def tracked_def Let_def
  by (elim disjE) (auto simp: frame tidy_await split: sum.split intro!: tidy_create)

lemma tidy_pipeline:
  assumes "b \<in> set (flags e)" and k: "\<And>v m. tidy b (k v m) must"
  shows "tidy b (analyzeAndValidateGoal m q k) must"
  using flag_cases [OF assms(1)] k k [THEN tidy_weaken] tidy_analysis [OF assms(1)] tidy_validation [OF assms(1)]
  unfolding analyzeAndValidateGoal_def Let_def
  by (elim disjE) (auto simp:)

lemma tidy_unless_blocked:
  assumes "b \<in> set (flags e)" and "tidy b a False"
  shows "tidy b (unless_blocked p a) False"
  using flag_cases [OF assms(1)] assms(2) unfolding unless_blocked_def
  by (elim disjE) (simp_all add: visit_def split: option.split)

lemma tidy_form:
  assumes "b \<in> set (flags e)"
  shows "tidy b (onAnalyzeAndValidate p m t) False" "tidy b (onDailyRadarScan p m t) False"
proof -
  note pipe = tidy_pipeline [OF assms, of "\<lambda>_ _. Stop" False]
  show "tidy b (onAnalyzeAndValidate p m t) False"
    unfolding onAnalyzeAndValidate_def
    by (rule tidy_unless_blocked [OF assms], use flag_cases [OF assms] pipe in \<open>elim disjE\<close>)
      (simp_all add: Let_def applyFormState_def)
  show "tidy b (onDailyRadarScan p m t) False"
    unfolding onDailyRadarScan_def
    by (rule tidy_unless_blocked [OF assms], use flag_cases [OF assms] pipe in \<open>elim disjE\<close>)
      (simp_all add: Let_def applyFormState_def)
qed

lemma flag_members [simp]:
  "busy \<in> set (flags e)" "pipelineBusy \<in> set (flags e)" "batchBacktestBusy \<in> set (flags e)" "runsBusy \<in> set (flags e)"
  "accountsBusy \<in> set (flags e)" "providerStatusBusy \<in> set (flags e)" "(\<lambda>p. backtestBusyKey p \<noteq> Null) \<in> set (flags e)"
  "(\<lambda>p. actionBusyKey p \<noteq> Null) \<in> set (flags e)" "(\<lambda>p. strategySaveBusyKey p \<noteq> Null) \<in> set (flags e)"
  "validating e \<in> set (flags e)"
  by (simp_all add: flags_def)

lemma tidy_openRun:
  assumes "b \<in> set (flags e)"
  shows "tidy b (openRun p i) False"
  using flag_cases [OF assms] unfolding openRun_def Let_def
  by (elim disjE) (simp_all add: frame tidy_await split: option.split)

lemma tidy_refreshRun:
  assumes "b \<in> set (flags e)"
  shows "tidy b (refreshRun p i) False"
  using flag_cases [OF assms] unfolding refreshRun_def Let_def
  by (elim disjE) (auto simp: frame tidy_await split: option.split intro!: tidy_pipeline [of _ e])

lemma tidy_validateRun:
  assumes "b \<in> set (flags e)"
  shows "tidy b (validateRun p i) False"
  using flag_cases [OF assms] unfolding validateRun_def Let_def
  by (elim disjE) (auto simp: frame tidy_await split: option.split intro!: tidy_pipeline [of _ e] tidy_validation [of _ e])

lemma tidy_runBacktestDraft:
  assumes "b \<in> set (flags e)"
  shows "tidy b (runBacktestDraft p m d) False"
  using flag_cases [OF assms] unfolding runBacktestDraft_def tracked_def Let_def
  by (elim disjE) (simp_all add: frame tidy_await split: sum.split)

lemma tidy_acceptPaperCandidate:
  assumes "b \<in> set (flags e)"
  shows "tidy b (acceptPaperCandidate url p c x) False"
  using flag_cases [OF assms] unfolding acceptPaperCandidate_def Let_def
  by (elim disjE) (simp_all add: frame tidy_await split: sum.split)

lemma tidy_saveStrategyDraftCore:
  assumes "b \<in> set (flags e)" and "\<And>v. tidy b (k v) False"
  shows "tidy b (saveStrategyDraftCore p m d x y k) False"
  using flag_cases [OF assms(1)] assms(2) unfolding saveStrategyDraftCore_def tracked_def Let_def
  by (elim disjE) (simp_all add: frame tidy_await split: sum.split)

lemma tidy_updateQueueAction:
  assumes "b \<in> set (flags e)"
  shows "tidy b (updateQueueAction p i) False"
  using flag_cases [OF assms] unfolding updateQueueAction_def Let_def
  by (elim disjE) (simp_all add: frame tidy_await split: sum.split)

lemmas tidy_runs = tidy_openRun tidy_refreshRun tidy_validateRun
lemmas tidy_saves = tidy_runBacktestDraft tidy_acceptPaperCandidate tidy_saveStrategyDraftCore tidy_updateQueueAction

lemma flag_alive:
  assumes "\<And>p. b (f p) = b p"
  shows "b (while_alive e f p) = b p"
  using assms by (simp add: while_alive_def)

text \<open>An instance of the polling effect touches no flag but its own, and clears that however the answers are.\<close>

lemma alive_frame [simp]:
  "poll_epoch (while_alive e f p) = poll_epoch p" if "\<And>p. poll_epoch (f p) = poll_epoch p"
  using that by (simp add: while_alive_def)

lemma tidy_alive:
  assumes "\<And>p. validationBusy (f p) = validationBusy p" "\<And>p. poll_epoch (f p) = poll_epoch p" "\<And>p. poll_ids (f p) = poll_ids p"
  shows "tidy (validating e) (Put (while_alive i f) a) must = tidy (validating e) a must"
  using assms by (intro tidy_quiet) (simp_all add: while_alive_def)

lemma tidy_other:
  assumes "i \<noteq> e" and "\<And>p. poll_epoch (f p) = poll_epoch p"
  shows "tidy (validating e) (Put (while_alive i f) a) must = tidy (validating e) a must"
proof -
  have "validating e (while_alive i f p) = validating e p" for p
    using assms by (auto simp: validating_def while_alive_def)
  then show ?thesis by (simp add: tidy_put)
qed

lemma tidy_poll_other:
  assumes "b \<in> set (flags e)" and "b = validating e \<Longrightarrow> i \<noteq> e"
  shows "tidy b (loadValidationRuns i ids x) False"
proof (cases "b = validating e")
  case True
  with assms(2) show ?thesis
    by (cases x) (simp_all add: loadValidationRuns_def Let_def tidy_await tidy_other)
next
  case False
  with flag_cases [OF assms(1)] show ?thesis unfolding loadValidationRuns_def Let_def
    by (elim disjE; cases x) (simp_all add: tidy_await flag_alive)
qed

lemma tidy_poll_again:
  assumes "b \<in> set (flags e)"
  shows "tidy b (loadValidationRuns i ids False) False"
proof (cases "b = validating e")
  case True
  then show ?thesis by (simp add: loadValidationRuns_def Let_def tidy_await tidy_alive)
qed (rule tidy_poll_other [OF assms], simp)

lemma tidy_cleared:
  assumes "b q" and "\<forall>p. \<not> b (f p)" and "tidy b a False"
  shows "tidy b (Put f a) must"
proof -
  have "\<not> (\<forall>p. b (f p) = b p)" using assms(1,2) by blast
  with assms(2,3) show ?thesis by (simp only: tidy_put if_False if_True simp_thms)
qed

lemma validating_ex: "\<exists>q. validating e q"
  by (rule exI [of _ "undefined\<lparr>validationBusy := True, poll_epoch := e, poll_ids := [[]]\<rparr>"]) (simp add: validating_def)

lemma tidy_finally: "tidy (validating e) (Put (while_alive e (\<lambda>p. p\<lparr>validationBusy := False\<rparr>)) Stop) must"
proof -
  obtain q where q: "validating e q" using validating_ex by blast
  show ?thesis by (rule tidy_cleared [where q = q], rule q) (auto simp: while_alive_def validating_def)
qed

lemma tidy_always: "(\<And>must. tidy b a must) \<Longrightarrow> tidy b (Put f a) must"
  by (simp add: tidy_put)

lemma tidy_first_poll: "tidy (validating e) (loadValidationRuns e ids True) must"
proof -
  have "tidy (validating e) (await (GetBacktests ids)
      (\<lambda>rows _. Put (while_alive e (\<lambda>p. p\<lparr>validationRuns := elems rows, validationError := None,
          poll_timer := validationRunsNeedPolling rows\<rparr>)) (Put (while_alive e (\<lambda>p. p\<lparr>validationBusy := False\<rparr>)) Stop))
      (\<lambda>x _. Put (while_alive e (\<lambda>p. p\<lparr>validationError := Some x\<rparr>))
         (Put (while_alive e (\<lambda>p. p\<lparr>validationBusy := False\<rparr>)) Stop))) must" for must
    by (simp add: tidy_await tidy_alive tidy_finally)
  then show ?thesis
    unfolding loadValidationRuns_def Let_def if_True by (intro tidy_always)
qed

lemma tidy_validationEffect:
  assumes "b \<in> set (flags e)"
  shows "tidy b (validationEffect p) False"
proof -
  let ?f = "\<lambda>q. q\<lparr>poll_epoch := Suc (poll_epoch p), poll_ids := polled_ids p, poll_timer := False\<rparr>"
  let ?a = "if validationRunKey p = [] then Stop else loadValidationRuns (Suc (poll_epoch p)) (polled_ids p) True"
  consider "b \<noteq> validating e" | "b = validating e" "e = Suc (poll_epoch p)" "polled_ids p \<noteq> []"
    | "b = validating e" "e \<noteq> Suc (poll_epoch p)" | "b = validating e" "polled_ids p = []" by blast
  then show ?thesis unfolding validationEffect_def
  proof cases
    case 1
    then have "\<And>q. b (?f q) = b q" using flag_cases [OF assms] by auto
    moreover have "tidy b ?a False" using 1 tidy_poll_other [OF assms] by simp
    ultimately show "tidy b (Put ?f ?a) False" by (simp add: tidy_put)
  next
    case 2
    then have "validationRunKey p \<noteq> []" by (auto simp: polled_ids_def)
    then show "tidy b (Put ?f ?a) False" using 2 by (intro tidy_always) (simp add: tidy_first_poll)
  next
    case 3
    then have "\<forall>q. \<not> b (?f q)" by (auto simp: validating_def)
    moreover have "tidy b ?a False" using 3 tidy_poll_other [OF assms] by simp
    ultimately show "tidy b (Put ?f ?a) False" by (simp add: tidy_put)
  next
    case 4
    then have "\<forall>q. \<not> b (?f q)" by (auto simp: validating_def)
    moreover have "tidy b ?a False"
      using 4 tidy_poll_other [OF assms] tidy_first_poll [of e _ False] by (cases "e = Suc (poll_epoch p)") simp_all
    ultimately show "tidy b (Put ?f ?a) False" by (simp add: tidy_put)
  qed
qed

lemma tidy_loads:
  assumes "b \<in> set (flags e)"
  shows "tidy b loadAccounts False" "tidy b loadProvider False" "tidy b loadRuns False" "tidy b refreshRuns False"
  using flag_cases [OF assms] unfolding loadAccounts_def loadProvider_def loadRuns_def refreshRuns_def
  by (elim disjE; simp add: tidy_await)+

lemma tidy_own_loads: "tidy runsBusy loadRuns True" "tidy accountsBusy loadAccounts True" "tidy providerStatusBusy loadProvider True"
  by (simp_all add: loadRuns_def loadAccounts_def loadProvider_def tidy_await)

lemma tidy_preference:
  assumes "b \<in> set (flags e)"
  shows "tidy b (readRadarPreference p) False" "tidy b (persistRadarPreference p) False"
  using flag_cases [OF assms] unfolding readRadarPreference_def persistRadarPreference_def Let_def
  by (elim disjE; simp add: tidy_await store_item_def on_center_def)+

text \<open>Updates that no flag notices, and the handlers as a whole.\<close>

lemma quiet:
  assumes "b \<in> set (flags e)"
  shows "b (set_field f s p) = b p" "b (p\<lparr>autoRadarEnabled := x\<rparr>) = b p" "b (applyFormState n p) = b p"
    "b (p\<lparr>autoOpenedRunIdRef := i\<rparr>) = b p"
    "b (p\<lparr>settingsReturnAutoRunKeyRef := i\<rparr>) = b p" "b (p\<lparr>autoRadarLastKeyRef := i\<rparr>) = b p" "b (store_item k v p) = b p"
  using flag_cases [OF assms]
  by (elim disjE; cases f; simp add: applyFormState_def store_item_def on_center_def validating_def)+

lemma tidy_skip: "(\<And>p. b (f p) = b p) \<Longrightarrow> tidy b a must \<Longrightarrow> tidy b (Put f a) must"
  unfolding tidy_put by simp

lemma tidy_adopt: "b \<in> set (flags e) \<Longrightarrow> tidy b (saveAndAcceptPaperCandidate url p m c) False"
  by (simp add: saveAndAcceptPaperCandidate_def tidy_saves)

lemma tidy_handler:
  assumes "b \<in> set (flags e)"
  shows "tidy b (handler url ev p m) False"
proof -
  note q = tidy_skip [of b, OF quiet(1) [OF assms]] tidy_skip [of b, OF quiet(2) [OF assms]]
    tidy_skip [of b, OF quiet(3) [OF assms]] tidy_skip [of b, OF quiet(4) [OF assms]]
    tidy_skip [of b, OF quiet(5) [OF assms]] tidy_skip [of b, OF quiet(6) [OF assms]]
    tidy_skip [of b, OF quiet(7) [OF assms]]
  note h = tidy_form [OF assms] tidy_runs [OF assms] tidy_saves [OF assms] tidy_loads [OF assms]
    tidy_preference [OF assms] tidy_poll_again [OF assms] tidy_validationEffect [OF assms] tidy_unless_blocked [OF assms]
    tidy_analysis [OF assms] tidy_validation [OF assms] tidy_adopt [OF assms]
  show ?thesis
    by (cases ev)
      (auto simp only: handler.simps onSubmit_def secondary_pressed_def composer_pressed_def applyGoalTemplate_def
        analyzeGoalTemplate_def validateGoalTemplate_def runAllBacktests_def saveStrategyDraft_def
        pollTimerFires_def openRequestedRun_def openInitialRun_def
        settingsReturnEffect_def autoRadarEffect_def Let_def tidy.simps(1) not_False_eq_True
        split: if_split intro!: q h)
qed

text \<open>The contract holds for every flag.\<close>

lemma flag_contract:
  assumes "b \<in> set (flags e)"
    and "b (initial_page [] [] demo_activity) \<Longrightarrow> tidy b loadRuns True \<or> tidy b loadAccounts True \<or> tidy b loadProvider True"
  shows "busy_flag b url"
proof
  show "tidy b (handler url ev p m) False" for ev p m by (rule tidy_handler [OF assms(1)])
  have "b (initial_page i t ac) \<Longrightarrow> b (initial_page [] [] demo_activity)" for i t ac
    using flag_cases [OF assms(1)] by (elim disjE) (simp_all add: initial_page_def validating_def)
  with assms(2) show "b (initial_page i t ac) \<Longrightarrow> tidy b loadRuns True \<or> tidy b loadAccounts True \<or> tidy b loadProvider True"
    for i t ac by blast
qed (simp_all add: tidy_loads [OF assms(1)] tidy_preference [OF assms(1)])

lemmas contract_simps = flags_def initial_page_def validating_def tidy_own_loads

interpretation analysis_flag: busy_flag busy url for url
  by (rule flag_contract) (simp_all add: contract_simps)

interpretation pipeline_flag: busy_flag pipelineBusy url for url
  by (rule flag_contract) (simp_all add: contract_simps)

interpretation batch_flag: busy_flag batchBacktestBusy url for url
  by (rule flag_contract) (simp_all add: contract_simps)

interpretation runs_flag: busy_flag runsBusy url for url
  by (rule flag_contract) (simp_all add: contract_simps)

interpretation accounts_flag: busy_flag accountsBusy url for url
  by (rule flag_contract) (simp_all add: contract_simps)

interpretation provider_flag: busy_flag providerStatusBusy url for url
  by (rule flag_contract) (simp_all add: contract_simps)

interpretation backtest_flag: busy_flag "\<lambda>p. backtestBusyKey p \<noteq> Null" url for url
  by (rule flag_contract) (simp_all add: contract_simps)

interpretation action_flag: busy_flag "\<lambda>p. actionBusyKey p \<noteq> Null" url for url
  by (rule flag_contract) (simp_all add: contract_simps)

interpretation save_flag: busy_flag "\<lambda>p. strategySaveBusyKey p \<noteq> Null" url for url
  by (rule flag_contract) (simp_all add: contract_simps)

interpretation validation_flag: busy_flag "validating e" url for e url
  by (rule flag_contract [of _ e]) (simp_all add: contract_simps)

text \<open>
  At rest: every flag and every key is cleared. \<open>validationBusy\<close> alone can be left over, when the last
  instance of the polling effect had no runs: it replaces an instance that has not cleared the flag and
  does not touch it. The page does not show the flag then (client.tsx, line 2957).
\<close>

definition idle :: "page \<Rightarrow> bool" where
  "idle p \<longleftrightarrow> \<not> busy p \<and> \<not> pipelineBusy p \<and> \<not> batchBacktestBusy p \<and>
     \<not> runsBusy p \<and> \<not> accountsBusy p \<and> \<not> providerStatusBusy p \<and>
     backtestBusyKey p = Null \<and> actionBusyKey p = Null \<and> strategySaveBusyKey p = Null \<and>
     \<not> (validationBusy p \<and> poll_ids p \<noteq> [])"

lemma nothing_pending: "reachable url gw (initial_page i t ac) (p, []) \<Longrightarrow> idle p"
  using analysis_flag.idle [of url gw i t ac p] pipeline_flag.idle [of url gw i t ac p]
    batch_flag.idle [of url gw i t ac p] runs_flag.idle [of url gw i t ac p]
    accounts_flag.idle [of url gw i t ac p] provider_flag.idle [of url gw i t ac p]
    backtest_flag.idle [of url gw i t ac p] action_flag.idle [of url gw i t ac p]
    save_flag.idle [of url gw i t ac p] validation_flag.idle [of url gw i t ac p "poll_epoch p"]
  by (auto simp: idle_def validating_def)

subsection \<open>Answers lead to rest\<close>

text \<open>A gateway that has some answer for every call, be it a failure.\<close>

definition responsive :: "(call \<Rightarrow> thrown + jsval \<Rightarrow> bool) \<Rightarrow> bool" where
  "responsive gw \<longleftrightarrow> (\<forall>c. \<exists>r. gw c r)"

lemma drain_one:
  assumes "responsive gw"
  shows "\<exists>p'. (step url gw)\<^sup>*\<^sup>* (let (q, b) = proceed a p in (q, suspend b as)) (p', as)"
proof (induction a arbitrary: p)
  case Stop
  then show ?case by (auto simp: suspend_def)
next
  case (Put f a)
  then show ?case by simp
next
  case (Ask c k)
  obtain r where r: "gw c r" using assms by (auto simp: responsive_def)
  obtain q b where qb: "proceed (k (Reply r undefined)) p = (q, b)" by fastforce
  from step.answer [of gw c r k undefined p q b url "[]" as, OF r qb]
  have "step url gw (p, Ask c k # as) (q, suspend b as)" by simp
  with Ask.IH [of "k (Reply r undefined)" p] qb show ?case
    by (auto simp: suspend_def intro: converse_rtranclp_into_rtranclp)
qed

definition asking :: "act list \<Rightarrow> bool" where
  "asking as \<longleftrightarrow> (\<forall>a \<in> set as. \<exists>c k. a = Ask c k)"

lemma drain:
  assumes "responsive gw" and "asking as"
  shows "\<exists>p'. (step url gw)\<^sup>*\<^sup>* (p, as) (p', [])"
  using assms(2)
proof (induction as arbitrary: p)
  case (Cons a as)
  then obtain c k where a: "a = Ask c k" by (auto simp: asking_def)
  obtain q where "(step url gw)\<^sup>*\<^sup>* (p, a # as) (q, as)"
    using drain_one [OF assms(1), of url a p as] by (auto simp: a suspend_def)
  with Cons.IH [of q] Cons.prems show ?case
    by (meson asking_def list.set_intros(2) rtranclp_trans)
qed auto

lemma proceed_asks: "proceed a p = (q, b) \<Longrightarrow> asking (suspend b as) \<longleftrightarrow> asking as"
  by (induction a arbitrary: p) (auto simp: suspend_def asking_def)

lemma reachable_asking: "reachable url gw p0 c \<Longrightarrow> asking (snd c)"
proof (induction rule: reachable.induct)
  case start
  show ?case
    by (auto simp: mounted_def readRadarPreference_def loadRuns_def loadAccounts_def loadProvider_def await_def
        asking_def Let_def)
next
  case (go c c')
  from go(2,3) show ?case by (induction rule: step.induct) (auto simp: proceed_asks, auto simp: asking_def)
qed

lemma reachable_star: "(step url gw)\<^sup>*\<^sup>* c c' \<Longrightarrow> reachable url gw p0 c \<Longrightarrow> reachable url gw p0 c'"
  by (induction rule: rtranclp_induct) (auto intro: reachable.go)

text \<open>
  C1: The page never stays busy. From every state it can reach, with any handlers interleaved and
  suspended, the answers to the calls under way (successes or failures) lead to a state in which
  nothing is under way; and there every busy flag and key of the page is cleared: those of an analysis, a
  pipeline, a validation, of the loads of runs, accounts and provider status, of a draft's backtest, an
  action and a saved strategy, and the one of the validation runs as long as there are runs to poll
  (without runs it may be left over, but the page does not show it).\<close>

theorem page_comes_to_rest:
  assumes "responsive gw" and "reachable url gw (initial_page run_id intent activity) (p, as)"
  shows "\<exists>p'. (step url gw)\<^sup>*\<^sup>* (p, as) (p', []) \<and> idle p'"
proof -
  obtain p' where "(step url gw)\<^sup>*\<^sup>* (p, as) (p', [])"
    using drain [OF assms(1)] reachable_asking [OF assms(2)] by fastforce
  with nothing_pending reachable_star [OF this assms(2)] show ?thesis by blast
qed

theorem page_comes_to_rest_witness:
  "\<exists>p'. (step (\<lambda>_. None) (\<lambda>_ _. True))\<^sup>*\<^sup>* (mounted first_page) (p', []) \<and> idle p'"
proof -
  obtain p as where m: "mounted first_page = (p, as)" by fastforce
  have r: "reachable (\<lambda>_. None) (\<lambda>_ _. True) first_page (p, as)" using reachable.start [where p = first_page] by (simp add: m)
  show ?thesis unfolding m by (rule page_comes_to_rest [OF _ r]) (simp add: responsive_def)
qed

end
