(* ===== verification/Money_Cases.thy ===== *)
theory Money_Cases
  imports Money_Busy Preset_Lemmas
begin

section \<open>Single handlers of the AI Money page\<close>

text \<open>
  What particular handlers do with the answers they get: opening and refreshing a stored run, creating
  the validation backtests, polling them, and the scan that starts by itself.
\<close>

subsection \<open>Opening a run\<close>

text \<open>
  C38: Opening a stored run keeps the operator's old constraints. The handler restores the goal, the
  symbols, the horizon, the risk preference and the mode of the run into the form, but none of the
  three lists of constraints, although \<open>formStateFromAIGoalRun\<close> computed them: the next analysis sends
  the constraints that were in the form before, whatever the run was made with.\<close>

theorem open_run_keeps_constraints:
  "behaviorText (fst (play (openRun p i) [Reply (Inr run) m] q)) = behaviorText q \<and>
   narrativeText (fst (play (openRun p i) [Reply (Inr run) m] q)) = narrativeText q \<and>
   avoidText (fst (play (openRun p i) [Reply (Inr run) m] q)) = avoidText q \<and>
   list_all (\<lambda>k.
     fld (aiGoalRequestFromFormState (currentFormState (fst (play (openRun p i) [Reply (Inr run) m] q)))) k =
     fld (aiGoalRequestFromFormState (currentFormState q)) k)
     [''behaviorConstraints'', ''marketNarrativeFocus'', ''avoidScenarios'']"
  by (simp add: openRun_def await_def Let_def set_active_def currentFormState_def request_eq)

text \<open>A run being opened: its state and its suspended handler, and the answer's effect.\<close>

definition loading_run :: "page \<Rightarrow> page" where
  "loading_run p = p\<lparr>runsBusy := True, runError := None\<rparr>"

definition open_rest :: "page \<Rightarrow> jsval \<Rightarrow> reply \<Rightarrow> act" where
  "open_rest p i r = (case openRun p i of Put _ (Ask _ k) \<Rightarrow> k r | _ \<Rightarrow> Stop)"

lemma open_step: "step url gw (p, as) (loading_run p, Ask (GetRun i) (open_rest p i) # as)"
proof -
  have "proceed (handler url (RunOpened i) p undefined) p = (loading_run p, Ask (GetRun i) (open_rest p i))"
    by (simp add: openRun_def await_def loading_run_def open_rest_def [abs_def])
  from step.event [OF this, of gw as] show ?thesis by (simp add: suspend_def)
qed

lemma open_answer: "\<exists>q'. step url (\<lambda>_ _. True) (q, Ask (GetRun i) (open_rest p i) # as) (q', as) \<and> activeRun q' = run"
proof -
  obtain q' where q: "proceed (open_rest p i (Reply (Inr run) undefined)) q = (q', Stop)" and "activeRun q' = run"
    by (simp add: open_rest_def openRun_def await_def Let_def set_active_def)
  from step.answer [where gateway = "\<lambda>_ _. True" and c = "GetRun i" and k = "open_rest p i" and r = "Inr run"
      and m = undefined and as = "[]" and bs = as, OF TrueI q]
  show ?thesis using \<open>activeRun q' = run\<close> by (auto simp: suspend_def)
qed

text \<open>
  The answer that arrives last wins. When the operator opens run \<open>i\<close> and then run \<open>j\<close>, and the gateway
  answers the second request first, the page ends up showing the run that was opened first.\<close>

theorem late_answer_wins:
  "\<exists>k1 p2 k2 p3 p4.
     step url (\<lambda>_ _. True) (p, []) (loading_run p, [Ask (GetRun i) k1]) \<and>
     step url (\<lambda>_ _. True) (loading_run p, [Ask (GetRun i) k1]) (p2, [Ask (GetRun j) k2, Ask (GetRun i) k1]) \<and>
     step url (\<lambda>_ _. True) (p2, [Ask (GetRun j) k2, Ask (GetRun i) k1]) (p3, [Ask (GetRun i) k1]) \<and> activeRun p3 = run_j \<and>
     step url (\<lambda>_ _. True) (p3, [Ask (GetRun i) k1]) (p4, []) \<and> activeRun p4 = run_i"
  using open_step open_answer by meson

subsection \<open>Polling\<close>

text \<open>
  One failed poll ends the polling. After the gateway fails to deliver the validation runs, the error
  is shown, the rows stay as they were and no timer is set, so the runs are never asked for again
  (until the set of runs changes), even if they all were still running.\<close>

theorem polling_stops_on_error:
  "case play (loadValidationRuns (poll_epoch p) ids show_busy) [Reply (Inl e) m] p of (p', a) \<Rightarrow>
     a = Stop \<and> validationError p' = Some e \<and> validationRuns p' = validationRuns p \<and> pollTimerFires p' = Stop"
  by (cases show_busy) (simp_all add: loadValidationRuns_def await_def Let_def while_alive_def pollTimerFires_def)

subsection \<open>Validation backtests\<close>

lemma play_create:
  assumes "length handles < length xs"
  shows "play (create_backtests xs out m k) (map (\<lambda>h. Reply (Inr h) m') handles @ [Reply (Inl e) m'']) p =
    play (k (Inl e) m'') [] p"
  using assms
proof (induction xs arbitrary: handles out m)
  case (Cons x xs)
  then show ?case by (cases handles) (auto simp: await_def)
qed simp

lemma play_Put: "play (Put f a) rs p = play a rs (f p)"
  by (cases rs) simp_all

text \<open>
  A validation that fails halfway loses the backtests it had already started. When a request after the
  first ones is refused, the page shows the error, and neither the list of validation runs, nor the run
  shown, nor the stored action learns the identifiers of the backtests that were created.\<close>

theorem failed_validation_loses_runs:
  assumes "length handles < length (elems (fld (autoValidationPlanFromAnalysis target (clock_of m)) ''items''))"
  shows "case play (runAllBacktests m target) (map (\<lambda>h. Reply (Inr h) m') handles @ [Reply (Inl e) m'']) p of (p', a) \<Rightarrow>
    a = Stop \<and> error p' = Some e \<and> validationRuns p' = validationRuns p \<and> activeRun p' = activeRun p \<and>
    runs p' = runs p \<and> \<not> batchBacktestBusy p'"
proof -
  let ?items = "elems (fld (autoValidationPlanFromAnalysis target (clock_of m)) ''items'')"
  have "?items \<noteq> []" using assms by auto
  then show ?thesis
    using assms by (simp add: runAllBacktests_def runValidationBacktests_def Let_def tracked_def play_Put play_create on_center_def)
qed

text \<open>\<open>ends_within a n\<close>: whatever is answered, the handler makes at most \<open>n\<close> more calls.\<close>

primrec ends_within :: "act \<Rightarrow> nat \<Rightarrow> bool" where
  "ends_within Stop n \<longleftrightarrow> True"
| "ends_within (Put f a) n \<longleftrightarrow> ends_within a n"
| "ends_within (Ask c k) n \<longleftrightarrow> 0 < n \<and> (\<forall>r. ends_within (k r) (n - 1))"

lemma ends_within_mono: "ends_within a n \<Longrightarrow> n \<le> n' \<Longrightarrow> ends_within a n'"
proof (induction a arbitrary: n n')
  case (Ask c k)
  then show ?case by simp (meson diff_le_mono rangeI)
qed auto

lemma ends_within_await:
  "ends_within (await c ok failed) (Suc n) \<longleftrightarrow> (\<forall>v m. ends_within (ok v m) n) \<and> (\<forall>e m. ends_within (failed e m) n)"
  by (simp add: await_def all_replies)

lemma ends_within_proceed: "ends_within a n \<Longrightarrow> proceed a p = (p', a') \<Longrightarrow> ends_within a' n"
  by (induction a arbitrary: p) auto

lemma play_ends: "ends_within a n \<Longrightarrow> n \<le> length rs \<Longrightarrow> snd (play a rs p) = Stop"
proof (induction rs arbitrary: a n p)
  case Nil
  then obtain p' a' where "proceed a p = (p', a')" by fastforce
  with ends_within_proceed [OF Nil(1) this] Nil(2) proceed_asks [OF this, of "[]"] show ?case
    by (cases a') (auto simp: suspend_def asking_def)
next
  case (Cons r rs)
  obtain p' a' where p: "proceed a p = (p', a')" by fastforce
  from ends_within_proceed [OF Cons(2) p] Cons.IH [of _ "n - 1"] Cons(3) proceed_asks [OF p, of "[]"] show ?case
    by (cases a') (auto simp: p suspend_def asking_def)
qed

lemma create_ends:
  "(\<And>r m. ends_within (k r m) n) \<Longrightarrow> ends_within (create_backtests xs out m k) (length xs + n)"
proof (induction xs arbitrary: out m)
  case (Cons x xs)
  have "ends_within (k (Inl e) m) (length xs + n)" for e m
    by (rule ends_within_mono [OF Cons.prems]) simp
  with Cons show ?case by (simp add: ends_within_await)
qed simp

lemma validation_ends:
  "ends_within (runValidationBacktests m target (\<lambda>_. Stop))
     (length (elems (fld (autoValidationPlanFromAnalysis target (clock_of m)) ''items'')) + 1)"
  unfolding runValidationBacktests_def Let_def tracked_def One_nat_def
  by (auto simp: ends_within_await split: sum.split simp del: add_Suc_right intro!: create_ends)

lemma plan_items: "elems (fld (autoValidationPlanFromAnalysis a now) ''items'') = runnableBacktestRequestsFromAnalysis a now"
  unfolding autoValidationPlanFromAnalysis_def by (simp add: Let_def)

lemma plan_length: "length (runnableBacktestRequestsFromAnalysis a now) \<le> length (elems (fld a ''strategyDrafts''))"
proof -
  define f where "f = (\<lambda>draft (seen, out).
      let request = backtestRequestFromDraft draft now
      in if request = Null then (seen, out)
         else let key = to_str (fld request ''strategyId'') @ js '':'' @ to_str (fld request ''symbol'')
           in if list_has seen (Str key) then (seen, out)
              else let seen = set_add seen (Str key); out = out @ [obj [(''draft'', draft), (''request'', request)]]
                in (seen, out))"
  have "length (snd (fold f ds (s, o'))) \<le> length ds + length o'" for ds s o'
  proof (induction ds arbitrary: s o')
    case (Cons d ds)
    obtain s' out' where d: "f d (s, o') = (s', out')" by fastforce
    then have "length out' \<le> Suc (length o')" by (auto simp: f_def Let_def split: if_splits)
    with Cons [of s' out'] d show ?case by simp
  qed simp
  from this [of "elems (fld a ''strategyDrafts'')" "[]" "[]"]
  have "length (snd (fold f (elems (fld a ''strategyDrafts'')) ([], []))) \<le> length (elems (fld a ''strategyDrafts''))" by simp
  moreover have "runnableBacktestRequestsFromAnalysis a now = snd (fold f (elems (fld a ''strategyDrafts'')) ([], []))"
    by (simp add: runnableBacktestRequestsFromAnalysis_def f_def Let_def split_beta)
  ultimately show ?thesis by (simp only:)
qed

text \<open>
  C30: A validation ends: however the gateway answers, it makes at most one call per strategy draft and one
  more to store the result, and then the handler is done.\<close>

theorem validation_terminates:
  assumes "length (elems (fld target ''strategyDrafts'')) < length answers"
  shows "snd (play (runAllBacktests m target) answers p) = Stop"
  unfolding runAllBacktests_def
  by (rule play_ends [OF validation_ends]) (use assms plan_length [of target "clock_of m"] in \<open>simp add: plan_items\<close>)

subsection \<open>The scan that starts by itself\<close>

lemma radar_decision:
  assumes "truthy (fld (autoDailyRadarDecision (Bool en) (Bool bs) (Bool rd) status (Str prev) now now) ''shouldRun'')"
  shows "en \<and> \<not> bs \<and> rd \<and>
    fld (autoDailyRadarDecision (Bool en) (Bool bs) (Bool rd) status (Str prev) now now) ''key'' \<noteq> Str prev \<and>
    is_str (fld (autoDailyRadarDecision (Bool en) (Bool bs) (Bool rd) status (Str prev) now now) ''key'') \<and>
    fld (autoDailyRadarDecision (Bool en) (Bool bs) (Bool rd) status
      (fld (autoDailyRadarDecision (Bool en) (Bool bs) (Bool rd) status (Str prev) now now) ''key'') now now) ''shouldRun'' = Bool False"
  using assms unfolding autoDailyRadarDecision_def Let_def
  by (auto split: if_splits)

lemma gate_of_key: "providerGate (p\<lparr>autoRadarLastKeyRef := k\<rparr>) = providerGate p"
  by (simp add: providerGate_def)

lemma gate_ready:
  assumes "fld (providerGate p) ''stage'' = S ''ready''"
  shows "redirectIfProviderBlocksAnalysis p = None"
proof -
  have "\<not> truthy (fld (providerGate p) ''blockManualAnalysis'')"
    using assms unfolding providerGate_def aiProviderReadinessGateFromStatus_def
    by (auto simp: Let_def split: if_splits)
  then show ?thesis
    by (simp add: redirectIfProviderBlocksAnalysis_def aiProviderAnalysisAttemptFromGate_def Let_def)
qed

text \<open>
  C27: The automatic scan asks first. When the effect of the daily radar starts anything, the operator
  has it switched on and the preference was loaded, the provider is ready, nothing is under way, and
  the scan's key differs from the last one; it then sends one analysis of a safe request, remembers
  its key for this page and (where the storage can be written) for the next one, and in the same
  circumstances does not start again.\<close>

theorem auto_radar_guard:
  assumes "autoRadarEffect p m \<noteq> Stop" and "proceed (autoRadarEffect p m) p = (p', a)"
  shows "autoRadarEnabled p \<and> autoRadarPreferenceLoaded p \<and> fld (providerGate p) ''stage'' = S ''ready'' \<and>
    \<not> busy p \<and> \<not> pipelineBusy p \<and> \<not> batchBacktestBusy p \<and> \<not> runsBusy p \<and>
    autoRadarLastKeyRef p' \<noteq> autoRadarLastKeyRef p \<and>
    (\<exists>form k. a = Ask (AnalyzeGoal (aiGoalRequestFromFormState form)) k) \<and>
    autoRadarEffect (p\<lparr>autoRadarLastKeyRef := autoRadarLastKeyRef p'\<rparr>) m = Stop"
proof -
  let ?d = "\<lambda>prev. autoDailyRadarDecision (Bool (autoRadarEnabled p)) (Bool (busy p \<or> pipelineBusy p \<or> batchBacktestBusy p))
      (Bool (fld (providerGate p) ''stage'' = S ''ready'')) (dailyRadarStatusFromRuns (Arr (runs p)) (clock_of m) (clock_of m))
      prev (clock_of m) (clock_of m)"
  from assms(1) have run: "truthy (fld (?d (Str (autoRadarLastKeyRef p))) ''shouldRun'')"
    and guards: "autoRadarPreferenceLoaded p" "\<not> runsBusy p" "lower (requestedIntent p) \<noteq> js ''rerun_ai''"
      "\<not> truthy (fld (providerGate p) ''blockAutoRadar'')"
    by (auto simp: autoRadarEffect_def Let_def split: if_splits)
  note d = radar_decision [OF run]
  obtain key where key: "fld (?d (Str (autoRadarLastKeyRef p))) ''key'' = Str key"
    using d by (cases "fld (?d (Str (autoRadarLastKeyRef p))) ''key''") auto
  have effect: "autoRadarEffect p m = Put (\<lambda>p. p\<lparr>autoRadarLastKeyRef := key\<rparr>)
      (Put (store_item AUTO_DAILY_RADAR_LAST_KEY key) (onDailyRadarScan p m Undef))"
    using run guards by (simp add: autoRadarEffect_def Let_def key)
  have "redirectIfProviderBlocksAnalysis p = None" using d by (intro gate_ready) simp
  with assms(2) have p': "autoRadarLastKeyRef p' = key" and
    a: "\<exists>form k. a = Ask (AnalyzeGoal (aiGoalRequestFromFormState form)) k"
    by (auto simp: effect onDailyRadarScan_def unless_blocked_def analyzeAndValidateGoal_def runGoalAnalysis_def
        tracked_def await_def Let_def on_center_def applyFormState_def store_item_def)
  have "fld (?d (Str key)) ''shouldRun'' = Bool False" using d unfolding key by blast
  then have "autoRadarEffect (p\<lparr>autoRadarLastKeyRef := key\<rparr>) m = Stop"
    by (simp add: autoRadarEffect_def Let_def gate_of_key)
  with d guards p' a key show ?thesis by auto
qed

subsection \<open>Witnesses\<close>

text \<open>An analysis with two drafts to validate.\<close>

definition draft_named :: "string \<Rightarrow> jsval" where
  "draft_named n = obj [(''name'', S n), (''symbol'', S ''BTC''), (''kind'', S ''grid_dca'')]"

definition two_drafts :: jsval where
  "two_drafts = obj [(''strategyDrafts'', Arr [draft_named ''alpha'', draft_named ''gamma''])]"

lemma draft_request:
  "backtestRequestFromDraft (draft_named n) now \<noteq> Null"
  "fld (backtestRequestFromDraft (draft_named n) now) ''strategyId'' = Str (normalizeName (S n) (S ''BTC''))"
  by (simp_all add: backtestRequestFromDraft_def draft_named_def Let_def preset_fields)

lemma two_requests: "length (runnableBacktestRequestsFromAnalysis two_drafts now) = 2"
proof -
  have "normalizeName (S ''alpha'') (S ''BTC'') = js ''alpha''" "normalizeName (S ''gamma'') (S ''BTC'') = js ''gamma''"
    by (simp_all add: normalizeName_def js_or_def text_eval s_or_def len_def is_lower_unit_def is_digit_def)
  then show ?thesis
    by (simp add: runnableBacktestRequestsFromAnalysis_def two_drafts_def Let_def draft_request list_has_def set_add_def js_def)
qed

theorem failed_validation_loses_runs_witness:
  "case play (runAllBacktests \<lparr>now_ms = 0, new_id = []\<rparr> two_drafts)
      [Reply (Inr (obj [(''runId'', S ''r1'')])) \<lparr>now_ms = 1, new_id = []\<rparr>,
       Reply (Inl (Thrown_Error [])) \<lparr>now_ms = 2, new_id = []\<rparr>] first_page of (p', a) \<Rightarrow>
    a = Stop \<and> error p' = Some (Thrown_Error []) \<and> validationRuns p' = [] \<and> activeRun p' = Null \<and> runs p' = [] \<and>
    \<not> batchBacktestBusy p'"
  using failed_validation_loses_runs [where handles = "[obj [(''runId'', S ''r1'')]]" and target = two_drafts
      and m = "\<lparr>now_ms = 0, new_id = []\<rparr>" and m' = "\<lparr>now_ms = 1, new_id = []\<rparr>" and e = "Thrown_Error []"
      and m'' = "\<lparr>now_ms = 2, new_id = []\<rparr>" and p = first_page]
  by (simp add: plan_items two_requests initial_page_def)

theorem validation_terminates_witness:
  "snd (play (runAllBacktests \<lparr>now_ms = 0, new_id = []\<rparr> two_drafts)
     [Reply (Inr (obj [(''runId'', S ''r1'')])) \<lparr>now_ms = 1, new_id = []\<rparr>,
      Reply (Inr (obj [(''runId'', S ''r2'')])) \<lparr>now_ms = 2, new_id = []\<rparr>,
      Reply (Inl (Thrown_Error [])) \<lparr>now_ms = 3, new_id = []\<rparr>] first_page) = Stop"
  by (rule validation_terminates) (simp add: two_drafts_def)

text \<open>A page on which the automatic scan starts.\<close>

definition radar_page :: page where
  "radar_page = first_page\<lparr>autoRadarEnabled := True, autoRadarPreferenceLoaded := True, runsBusy := False,
     providerStatus := obj [(''status'', S ''ready''), (''keyConfigured'', Bool True)], providerStatusBusy := False\<rparr>"

lemma radar_starts: "autoRadarEffect radar_page \<lparr>now_ms = 0, new_id = []\<rparr> \<noteq> Stop"
proof -
  have g: "fld (providerGate radar_page) ''stage'' = S ''ready''" "\<not> truthy (fld (providerGate radar_page) ''blockAutoRadar'')"
    by (simp_all add: providerGate_def radar_page_def aiProviderReadinessGateFromStatus_def Let_def js_or_def text_eval)
  have "fld (fld (dailyRadarStatusFromRuns (Arr []) d d) ''primaryAction'') ''kind'' = S ''scan_today''" for d
    by (simp add: dailyRadarStatusFromRuns_def Let_def js_find_def)
  with g show ?thesis
    by (simp add: autoRadarEffect_def Let_def autoDailyRadarDecision_def radar_page_def initial_page_def js_or_def
        lower_def)
qed

theorem auto_radar_guard_witness:
  "\<exists>form k. snd (proceed (autoRadarEffect radar_page \<lparr>now_ms = 0, new_id = []\<rparr>) radar_page) =
     Ask (AnalyzeGoal (aiGoalRequestFromFormState form)) k"
proof -
  obtain p' a where p: "proceed (autoRadarEffect radar_page \<lparr>now_ms = 0, new_id = []\<rparr>) radar_page = (p', a)" by fastforce
  from auto_radar_guard [OF radar_starts p] show ?thesis by (simp add: p)
qed

end
