(* ===== verification/Preset_Properties.thy ===== *)
theory Preset_Properties
  imports Preset_Lemmas Ts_Types
begin

section \<open>Presets and risk caps\<close>

text \<open>
  What \<open>strategyPresetFromDraft\<close> makes of the risk caps of a draft: whole caps bound leverage and
  margin, fractional ones do not.
\<close>

lemma halves [simp]: "\<lfloor>1 / 2 :: rat\<rfloor> = 0" "\<lfloor>7 / 2 :: rat\<rfloor> = 3" "\<lfloor>201 / 2 :: rat\<rfloor> = 100"
  by (rule floor_unique; simp)+

lemma clampNumber_in:
  "lo \<le> q \<Longrightarrow> q \<le> hi \<Longrightarrow> clampNumber (N q) f (N lo) (N hi) = N q"
  by (simp add: clampNumber_def Let_def)

lemma clampInt_in:
  "lo \<le> n \<Longrightarrow> n \<le> hi \<Longrightarrow> clampInt (N (of_int n)) f (N (of_int lo)) (N (of_int hi)) = Fin (of_int n)"
  by (simp add: clampInt_def clampNumber_in)

text \<open>The caps of a draft that declares all three.\<close>

definition caps :: "jsval \<Rightarrow> rat \<Rightarrow> rat \<Rightarrow> rat \<Rightarrow> bool" where
  "caps d usd lev loss \<longleftrightarrow> is_plain (fld d ''riskCaps'') \<and> fld (fld d ''riskCaps'') ''maxPositionUsd'' = N usd \<and>
     fld (fld d ''riskCaps'') ''maxLeverage'' = N lev \<and> fld (fld d ''riskCaps'') ''dailyLossCapUsd'' = N loss"

lemma caps_risk:
  assumes "caps d usd lev loss" and "0 < usd" "usd \<le> 1000000000" "0 < lev" "lev \<le> 125" "0 < loss" "loss \<le> 1000000000"
  shows "draft_risk d = obj [(''maxPositionUsd'', N usd), (''maxLeverage'', N lev), (''dailyLossCapUsd'', N loss)]"
proof -
  have "truthy (fld d ''riskCaps'')" "is_object (fld d ''riskCaps'')"
    using assms(1) by (cases "fld d ''riskCaps''"; auto simp: caps_def)+
  with assms show ?thesis
    by (simp add: draft_risk_def normalizeRiskCaps_def caps_def clampNumber_in Let_def)
qed

lemma whole_caps:
  assumes "caps d (of_int usd) (of_int lev) loss" and "1 \<le> usd" "usd \<le> 1000000" "1 \<le> lev" "lev \<le> 125"
    and "0 < loss" "loss \<le> 1000000000"
  shows "leverage_cap d = Fin (of_int lev)" "margin_cap d = Fin (of_int usd)"
proof -
  have r: "draft_risk d = obj [(''maxPositionUsd'', N (of_int usd)), (''maxLeverage'', N (of_int lev)), (''dailyLossCapUsd'', N loss)]"
    by (rule caps_risk [OF assms(1)]) (use assms(2-7) in \<open>simp_all add: le_less_trans\<close>)
  show "leverage_cap d = Fin (of_int lev)"
    using clampInt_in [of 1 lev 125 "N 3"] assms(4,5) by (simp add: leverage_cap_def r)
  show "margin_cap d = Fin (of_int usd)"
    using clampInt_in [of 1 usd 1000000 "N 100"] assms(2,3) by (simp add: margin_cap_def r)
qed

text \<open>
  C26: Whole risk caps are respected: for a draft with whole caps of at least one, the preset's leverage
  (\<^verbatim>\<open>positionLevel\<close>) is a whole number between 1 and the cap and its margin (\<^verbatim>\<open>orderGroupMargin\<close>) one
  between 0 and the cap on the position, whatever the draft's parameters ask for.\<close>

theorem preset_within_caps:
  assumes "caps d (of_int usd) (of_int lev) loss" and "1 \<le> usd" "usd \<le> 1000000" "1 \<le> lev" "lev \<le> 125"
    and "0 < loss" "loss \<le> 1000000000"
  shows "\<exists>n m. fld (strategyPresetFromDraft d) ''positionLevel'' = Str (num_to_string (Fin (of_int n))) \<and> 1 \<le> n \<and> n \<le> lev \<and>
    fld (strategyPresetFromDraft d) ''orderGroupMargin'' = Str (num_to_string (Fin (of_int m))) \<and> 0 \<le> m \<and> m \<le> usd"
proof -
  note c = whole_caps [OF assms]
  have three: "Num (num_min (Fin 3) (Fin (of_int lev))) = N (of_int (min 3 lev))"
    and hundred: "Num (num_min (Fin 100) (Fin (of_int usd))) = N (of_int (min 100 usd))"
    by (simp_all add: min_def)
  obtain n where n: "clampInt (fld (draft_params d) ''positionLevel'') (N (of_int (min 3 lev))) (N (of_int 1)) (N (of_int lev)) = Fin (of_int n)"
    "1 \<le> n" "n \<le> lev"
    using clampInt_bounds [of 1 "min 3 lev" lev "fld (draft_params d) ''positionLevel''"] assms(4) by auto
  obtain m where m: "clampInt (fld (draft_params d) ''orderGroupMargin'') (N (of_int (min 100 usd))) (N (of_int 0)) (N (of_int usd)) = Fin (of_int m)"
    "0 \<le> m" "m \<le> usd"
    using clampInt_bounds [of 0 "min 100 usd" usd "fld (draft_params d) ''orderGroupMargin''"] assms(2) by auto
  have "fld (strategyPresetFromDraft d) ''positionLevel'' = Str (num_to_string (Fin (of_int n)))"
    using n(1) by (simp only: preset_fields c three of_int_1)
  moreover have "fld (strategyPresetFromDraft d) ''orderGroupMargin'' = Str (num_to_string (Fin (of_int m)))"
    using m(1) by (simp only: preset_fields c hundred of_int_0)
  ultimately show ?thesis using n(2,3) m(2,3) by blast
qed

definition sample_draft :: "rat \<Rightarrow> rat \<Rightarrow> jsval" where
  "sample_draft usd lev = obj [(''name'', S ''alpha''), (''params'', obj [(''positionLevel'', N 50), (''orderGroupMargin'', N 5000)]),
     (''riskCaps'', obj [(''maxPositionUsd'', N usd), (''maxLeverage'', N lev), (''dailyLossCapUsd'', N 10)])]"

theorem preset_within_caps_witness:
  "\<exists>n m. fld (strategyPresetFromDraft (sample_draft 200 5)) ''positionLevel'' = Str (num_to_string (Fin (of_int n))) \<and>
    1 \<le> n \<and> n \<le> 5 \<and>
    fld (strategyPresetFromDraft (sample_draft 200 5)) ''orderGroupMargin'' = Str (num_to_string (Fin (of_int m))) \<and>
    0 \<le> m \<and> m \<le> 200"
  using preset_within_caps [of "sample_draft 200 5" 200 5 10] by (simp add: caps_def sample_draft_def)

text \<open>
  Fractional caps are not respected. A leverage cap of one half leads to a leverage of 3, and a position
  cap of half a dollar to a margin of 100 dollars: a value below the lower end of its range is replaced
  by the default, not by the end.\<close>

lemma fractional_caps:
  assumes "caps d (1 / 2) (1 / 2) 10"
  shows "leverage_cap d = Fin 3" "margin_cap d = Fin 100"
proof -
  have "draft_risk d = obj [(''maxPositionUsd'', N (1 / 2)), (''maxLeverage'', N (1 / 2)), (''dailyLossCapUsd'', N 10)]"
    by (rule caps_risk [OF assms]) simp_all
  then show "leverage_cap d = Fin 3" "margin_cap d = Fin 100"
    by (simp_all add: leverage_cap_def margin_cap_def clampInt_def clampNumber_def Let_def)
qed

theorem fractional_caps_exceeded:
  "fld (strategyPresetFromDraft (sample_draft (1 / 2) (1 / 2))) ''positionLevel'' = Str (num_to_string (Fin 3)) \<and>
   fld (strategyPresetFromDraft (sample_draft (1 / 2) (1 / 2))) ''orderGroupMargin'' = Str (num_to_string (Fin 100))"
proof -
  have c: "caps (sample_draft (1 / 2) (1 / 2)) (1 / 2) (1 / 2) 10" by (simp add: caps_def sample_draft_def)
  have p: "fld (draft_params (sample_draft (1 / 2) (1 / 2))) ''positionLevel'' = N 50"
    "fld (draft_params (sample_draft (1 / 2) (1 / 2))) ''orderGroupMargin'' = N 5000"
    by (simp_all add: draft_params_def sample_draft_def)
  show ?thesis
    unfolding preset_fields fractional_caps [OF c] p by (simp add: clampInt_def clampNumber_def Let_def)
qed

end
