(* ===== verification/Preset_Trip.thy ===== *)
theory Preset_Trip
  imports Preset_Properties
begin

section \<open>The link from a draft to the strategy form\<close>

text \<open>
  The AI page links a draft to the strategy form by a query string that
  \<open>strategyPresetSearchFromDraft\<close> prints and \<open>parseStrategyPreset\<close> reads. The lemmas say that the
  normalisers on both sides are idempotent and that printed numbers and positions are read back; the
  round trip at the end says which preset the form opens with.
\<close>

subsection \<open>Doubles\<close>

lemma rne_upper: "x < of_int k \<Longrightarrow> rne x \<le> k"
  unfolding rne_def Let_def by (simp split: if_splits; linarith)

lemma rne_lower: "of_int k \<le> x \<Longrightarrow> k \<le> rne x"
  unfolding rne_def Let_def by (simp split: if_splits; linarith)

lemma fl_scaled:
  assumes "0 < M" and "M < 2 ^ 53" and "- 1074 \<le> e" and "of_int M * pow2 e < 2 ^ 1024"
  shows "fl (of_int M * pow2 e) = Fin (of_int M * pow2 e)"
proof -
  let ?q = "of_int M * pow2 e :: rat"
  let ?e = "max (rat_log2 ?q - 52) (- 1074)"
  have pos: "0 < ?q" using assms(1) by simp
  have "?q < 2 ^ 53 * pow2 e" using assms(2) of_int_power_less [of M 53] by simp
  also have "\<dots> = pow2 (53 + e)" using pow2_add [of 53 e] pow2_nat [of 53] by simp
  finally have up: "?q < pow2 (53 + e)" .
  have "pow2 (rat_log2 ?q) \<le> ?q" using rat_log2_bounds [OF pos] by simp
  then have "pow2 (rat_log2 ?q) < pow2 (53 + e)" using up by (rule le_less_trans)
  then have le: "?e \<le> e" using assms(3) by simp
  then have "pow2 e = 2 ^ nat (e - ?e) * pow2 ?e"
    using pow2_add [of "e - ?e" ?e] pow2_nat [of "nat (e - ?e)"] by simp
  then have form: "of_int (M * 2 ^ nat (e - ?e)) * pow2 ?e = ?q" by simp
  then have "?q / pow2 ?e = of_int (M * 2 ^ nat (e - ?e))"
    by (metis nonzero_mult_div_cancel_right pow2_signs(1))
  then have "\<bar>?q / pow2 ?e - of_int (M * 2 ^ nat (e - ?e))\<bar> < 1 / 2" by simp
  from fl_to [OF pos refl this form assms(4) pos] show ?thesis .
qed

lemma fl_idem_pos:
  assumes "0 < x" and "fl x = Fin q"
  shows "fl q = Fin q"
proof -
  let ?e = "max (rat_log2 x - 52) (- 1074)"
  define m where "m = rne (x / pow2 ?e)"
  have q: "q = of_int m * pow2 ?e" and top: "of_int m * pow2 ?e < 2 ^ 1024"
    using assms by (auto simp: fl_def Let_def m_def split: if_splits)
  have "x < pow2 (rat_log2 x + 1)" using rat_log2_upper [OF assms(1)] .
  also have "\<dots> \<le> pow2 (?e + 53)" by simp
  also have "\<dots> = 2 ^ 53 * pow2 ?e" using pow2_add [of ?e 53] pow2_nat [of 53] by simp
  finally have "x / pow2 ?e < 2 ^ 53" by (simp add: divide_less_eq)
  then have up: "m \<le> 2 ^ 53" unfolding m_def by (intro rne_upper) simp
  have lo: "0 \<le> m" unfolding m_def using assms(1) by (intro rne_lower) simp
  consider "m = 0" | "0 < m" "m < 2 ^ 53" | "m = 2 ^ 53" using lo up by linarith
  then show ?thesis
  proof cases
    case 2
    then show ?thesis using fl_scaled [of m ?e] top q by simp
  next
    case 3
    have "(2 ^ 53 :: rat) * pow2 ?e = 2 ^ 52 * pow2 (?e + 1)" using pow2_add [of ?e 1] pow2_nat [of 1] by simp
    then have q': "q = of_int (2 ^ 52) * pow2 (?e + 1)" using q 3 by simp
    moreover have "of_int (2 ^ 52) * pow2 (?e + 1) < 2 ^ 1024" using top q q' by simp
    ultimately show ?thesis using fl_scaled [of "2 ^ 52" "?e + 1"] by simp
  qed (simp add: q)
qed

lemma fl_idem: "fl x = Fin q \<Longrightarrow> fl q = Fin q"
proof -
  assume x: "fl x = Fin q"
  consider "x = 0" | "0 < x" | "0 < - x" by linarith
  then show ?thesis
  proof cases
    case 3
    have "fl (- x) = Fin (- q)" using x by (simp add: fl_minus)
    from fl_idem_pos [OF 3 this] show ?thesis using fl_minus [of "- q"] by simp
  qed (use x fl_idem_pos in auto)
qed

lemma is_double_fl: "is_finite (fl x) \<Longrightarrow> is_double (fl x)"
  by (cases "fl x") (auto intro: fl_idem)

text \<open>A value whose numbers are doubles, as every number of the language is.\<close>

fun doubles :: "jsval \<Rightarrow> bool" where
  "doubles (Num n) = (is_finite n \<longrightarrow> is_double n)"
| "doubles (Arr vs) = list_all doubles vs"
| "doubles (Obj kvs) = list_all (\<lambda>kv. doubles (snd kv)) kvs"
| "doubles _ = True"

lemma doubles_fld: "doubles v \<Longrightarrow> k \<noteq> ''length'' \<Longrightarrow> doubles (fld v k)"
  by (cases v) (auto simp: fld_def list_all_iff split: option.split dest!: map_of_SomeD)

lemma doubles_obj [simp]: "doubles (obj kvs) = list_all (\<lambda>kv. doubles (snd kv)) kvs"
  by (auto simp: obj_def list_all_iff)

lemma doubles_fl [simp]: "doubles (Num (fl x))"
  using is_double_fl by simp

lemma double_neg: "is_finite (num_neg n) \<longrightarrow> is_double (num_neg n)" if "is_finite n \<longrightarrow> is_double n"
  using that by (cases n) (auto simp: fl_minus)

lemma read_number_double: "is_finite (read_number s) \<longrightarrow> is_double (read_number s)"
proof -
  have "is_finite (read_unsigned t) \<longrightarrow> is_double (read_unsigned t)" for t
    using is_double_fl by (auto simp: read_unsigned_def split: option.split)
  then show ?thesis
    using is_double_fl double_neg by (auto simp: read_number_def Let_def split: option.split)
qed

lemma to_num_double: "doubles v \<Longrightarrow> to_num v = Fin q \<Longrightarrow> fl q = Fin q"
  using read_number_double [of "to_str v"] by (cases v) (auto split: if_splits)

subsection \<open>Clamped numbers\<close>

lemma clampNumber_read: "to_num v = Fin q \<Longrightarrow> lo \<le> q \<Longrightarrow> q \<le> hi \<Longrightarrow> clampNumber v f (N lo) (N hi) = N q"
  by (simp add: clampNumber_def Let_def)

lemma clampNumber_double:
  assumes "doubles v" and "is_double (Fin f)" and "is_double (Fin hi)" and "lo \<le> f" and "f \<le> hi"
  shows "\<exists>q. clampNumber v (N f) (N lo) (N hi) = N q \<and> lo \<le> q \<and> q \<le> hi \<and> fl q = Fin q"
proof (cases "to_num v")
  case (Fin q)
  with assms to_num_double [OF assms(1) Fin] show ?thesis by (auto simp: clampNumber_def Let_def min_def)
qed (use assms in \<open>auto simp: clampNumber_def Let_def\<close>)

lemma read_back: "fl q = Fin q \<Longrightarrow> to_num (Str (num_to_string (Fin q))) = Fin q"
  by (simp add: read_printed del: num_to_string.simps)

text \<open>A clamped number that is printed, read and clamped again is unchanged.\<close>

lemma clampNumber_again:
  assumes "fl q = Fin q" and "lo \<le> q" and "q \<le> hi"
  shows "clampNumber (Str (num_to_string (Fin q))) f (N lo) (N hi) = N q"
  using assms by (intro clampNumber_read read_back)

lemma clampInt_again:
  assumes "lo \<le> n" and "n \<le> hi" and "\<bar>n\<bar> \<le> 2 ^ 53"
  shows "clampInt (Str (num_to_string (Fin (of_int n)))) f (N (of_int lo)) (N (of_int hi)) = Fin (of_int n)"
  using clampNumber_again [OF fl_of_int [OF assms(3)], of "of_int lo" "of_int hi" f] assms(1,2)
  by (simp add: clampInt_def del: num_to_string.simps)

subsection \<open>ASCII texts\<close>

abbreviation ascii :: "jstr \<Rightarrow> bool" where
  "ascii s \<equiv> list_all (\<lambda>c. c < 128) s"

lemma ascii_number: "fl q = Fin q \<Longrightarrow> ascii (num_to_string (Fin q))"
proof -
  assume "fl q = Fin q"
  from printed_double [OF this] obtain ip fp e where t: "token_ok ip fp"
    "num_to_string (Fin q) = (if q < 0 then 45 # token ip fp e else token ip fp e)" by blast
  have "ascii (token ip fp e)" using token_chars [OF t(1), of _ e] by (fastforce simp: list_all_iff is_digit_def)
  then show ?thesis unfolding t(2) by simp
qed

lemma ascii_join: "ascii sep \<Longrightarrow> list_all ascii ss \<Longrightarrow> ascii (join sep ss)"
  by (induction sep ss rule: join.induct) auto

subsection \<open>Names, symbols and kinds\<close>

definition name_unit :: "nat \<Rightarrow> bool" where
  "name_unit c \<longleftrightarrow> is_lower_unit c \<or> is_digit c \<or> c = 95 \<or> c = 45"

lemma name_unit_facts: "name_unit c \<Longrightarrow> c < 128 \<and> \<not> is_ws c \<and> lower_unit c = c"
  by (auto simp: name_unit_def is_lower_unit_def is_digit_def is_ws_def lower_unit_def)

lemma name_unit_ai: "list_all name_unit (js ''ai'')"
  by (simp add: js_def name_unit_def is_lower_unit_def)

lemma normalizeName_eq: "normalizeName v w =
   (let t = take 8 (filter name_unit (lower (trim (to_str (js_or (js_or v (dflt w (S ''ai''))) (S ''ai''))))))
    in if 3 \<le> length t then t else take 8 (s_or t (js ''ai'') @ js ''ai''))"
  unfolding normalizeName_def Let_def name_unit_def by (simp add: len_def)

lemma normalizeName_units: "list_all name_unit (normalizeName v w)"
proof -
  have "list_all name_unit (filter name_unit s)" for s
    by (simp add: list_all_iff)
  then show ?thesis
    using name_unit_ai list_all_take_drop [of name_unit] by (simp add: normalizeName_eq Let_def s_or_def)
qed

lemma normalizeName_length: "3 \<le> length (normalizeName v w) \<and> length (normalizeName v w) \<le> 8"
proof -
  have "3 \<le> length (take 8 (s_or t (js ''ai'') @ js ''ai''))" for t
    by (cases t) (auto simp: s_or_def js_def)
  then show ?thesis by (simp add: normalizeName_eq Let_def del: take_append)
qed

lemma normalizeName_text:
  assumes "list_all name_unit n" and "3 \<le> length n" and "length n \<le> 8"
  shows "normalizeName (Str n) w = n"
proof -
  have "trim n = n" using assms(1) name_unit_facts by (intro trim_clean) (auto simp: list_all_iff)
  moreover have "lower n = n" using assms(1) name_unit_facts by (simp add: lower_def list_all_iff map_idI)
  moreover have "filter name_unit n = n" using assms(1) by (simp add: list_all_iff)
  moreover have "n \<noteq> []" using assms(2) by auto
  ultimately show ?thesis using assms by (simp add: normalizeName_eq js_or_def)
qed

lemma normalizeName_ne: "normalizeName v w \<noteq> []"
  using normalizeName_length [of v w] by auto

lemma normalizeName_again: "normalizeName (Str (normalizeName v w)) x = normalizeName v w"
  using normalizeName_units normalizeName_length by (intro normalizeName_text) auto

lemma ascii_name: "ascii (normalizeName v w)"
  using normalizeName_units [of v w] name_unit_facts by (auto simp: list_all_iff)

lemma trim_name: "trim (normalizeName v w) = normalizeName v w"
  using normalizeName_units [of v w] name_unit_facts by (intro trim_clean) (auto simp: list_all_iff)

definition symbol_unit :: "nat \<Rightarrow> bool" where
  "symbol_unit c \<longleftrightarrow> is_upper_unit c \<or> is_digit c"

lemma symbol_unit_facts: "symbol_unit c \<Longrightarrow> c < 128 \<and> \<not> is_ws c \<and> upper_unit c = c"
  by (auto simp: symbol_unit_def is_upper_unit_def is_digit_def is_ws_def upper_unit_def)

lemma normalizeSymbol_form:
  "\<exists>s. normalizeSymbol v = Str s \<and> list_all symbol_unit s \<and> ends_with s (js ''USDT'')"
proof -
  let ?raw = "filter (\<lambda>c. is_upper_unit c \<or> is_digit c) (upper (to_str (js_or v (fld DEFAULT_PRESET ''execSymbol''))))"
  have raw: "list_all symbol_unit ?raw" by (simp add: list_all_iff symbol_unit_def)
  have e: "ends_with (r @ js ''USDT'') (js ''USDT'')" for r
    by (simp add: ends_with_def starts_with_iff)
  have u: "list_all symbol_unit (js ''USDT'')" "list_all symbol_unit (js ''BTCUSDT'')"
    by (simp_all add: js_def symbol_unit_def is_upper_unit_def)
  have b: "ends_with (js ''BTCUSDT'') (js ''USDT'')" by (simp add: js_def ends_with_def)
  show ?thesis using raw e u b
    by (auto simp: normalizeSymbol_def Let_def DEFAULT_PRESET_def)
qed

lemma normalizeSymbol_again: "normalizeSymbol (normalizeSymbol v) = normalizeSymbol v"
proof -
  obtain s where s: "normalizeSymbol v = Str s" "list_all symbol_unit s" "ends_with s (js ''USDT'')"
    using normalizeSymbol_form by blast
  have ne: "s \<noteq> []" using s(3) by (auto simp: ends_with_def js_def)
  have "upper s = s" using s(2) symbol_unit_facts by (simp add: upper_def list_all_iff map_idI)
  moreover have "filter (\<lambda>c. is_upper_unit c \<or> is_digit c) s = s" using s(2) by (simp add: list_all_iff symbol_unit_def)
  ultimately show ?thesis using s(3) ne by (simp add: s(1) normalizeSymbol_def [of "Str s"] Let_def js_or_def)
qed

lemma normalizeKind_again: "normalizeKind (Str (normalizeKind v)) = normalizeKind v"
  by (simp add: normalizeKind_def)

lemma ascii_kind: "ascii (normalizeKind v)"
  by (simp add: normalizeKind_def js_def)

subsection \<open>Positions\<close>

definition position_row :: "jsval \<Rightarrow> bool" where
  "position_row v \<longleftrightarrow> (\<exists>a b. v = obj [(''marginRate'', N a), (''lossAddRate'', N b)] \<and>
     0 < a \<and> a \<le> 1 \<and> 0 \<le> b \<and> b \<le> 1 \<and> fl a = Fin a \<and> fl b = Fin b)"

lemma row_intro: "0 < a \<Longrightarrow> a \<le> 1 \<Longrightarrow> 0 \<le> b \<Longrightarrow> b \<le> 1 \<Longrightarrow> fl a = Fin a \<Longrightarrow> fl b = Fin b \<Longrightarrow>
   position_row (obj [(''marginRate'', N a), (''lossAddRate'', N b)])"
  unfolding position_row_def by blast

lemma row_elim:
  assumes "position_row v"
  obtains a b where "v = obj [(''marginRate'', N a), (''lossAddRate'', N b)]" "0 < a" "a \<le> 1" "0 \<le> b" "b \<le> 1"
    "fl a = Fin a" "fl b = Fin b"
  using assms unfolding position_row_def by blast

definition position_rows :: "jsval \<Rightarrow> bool" where
  "position_rows v \<longleftrightarrow> (\<exists>rows. v = Arr rows \<and> rows \<noteq> [] \<and> length rows \<le> 8 \<and> list_all position_row rows)"

definition clamp_row :: "jsval \<Rightarrow> jsval" where
  "clamp_row row = obj [(''marginRate'', clampNumber (fld row ''marginRate'') (N 0) (N 0) (N 1)),
     (''lossAddRate'', clampNumber (fld row ''lossAddRate'') (N 0) (N 0) (N 1))]"

lemma normalizePositions_rows:
  "normalizePositions (Arr rows) =
     (let out = take 8 (filter (\<lambda>row. num_lt (Fin 0) (to_num (fld row ''marginRate''))) (map clamp_row rows))
      in if out \<noteq> [] then Arr out else fld DEFAULT_PRESET ''createPositions'')"
  unfolding normalizePositions_def clamp_row_def by simp

lemma default_rows: "position_rows (fld DEFAULT_PRESET ''createPositions'')"
  using row_intro [of 1 0] by (simp add: DEFAULT_PRESET_def position_rows_def)

lemma clamp_row_double:
  assumes "doubles row" and "num_lt (Fin 0) (to_num (fld (clamp_row row) ''marginRate''))"
  shows "position_row (clamp_row row)"
proof -
  have "doubles (fld row k)" if "k \<in> {''marginRate'', ''lossAddRate''}" for k
    using that by (intro doubles_fld [OF assms(1)]) auto
  then obtain a b where a: "clampNumber (fld row ''marginRate'') (N 0) (N 0) (N 1) = N a" "0 \<le> a" "a \<le> 1" "fl a = Fin a"
    and b: "clampNumber (fld row ''lossAddRate'') (N 0) (N 0) (N 1) = N b" "0 \<le> b" "b \<le> 1" "fl b = Fin b"
    using clampNumber_double [of "fld row ''marginRate''" 0 1 0] clampNumber_double [of "fld row ''lossAddRate''" 0 1 0]
    by auto
  from assms(2) have "0 < a" by (simp add: clamp_row_def a(1))
  then show ?thesis unfolding clamp_row_def a(1) b(1) using a b by (intro row_intro)
qed

lemma position_rows_normal: "doubles v \<Longrightarrow> position_rows (normalizePositions v)"
proof (cases v)
  case (Arr rows)
  assume "doubles v"
  with Arr have d: "list_all doubles rows" by simp
  have "list_all position_row
    (take 8 (filter (\<lambda>row. num_lt (Fin 0) (to_num (fld row ''marginRate''))) (map clamp_row rows)))"
    using d clamp_row_double by (auto simp: list_all_iff dest!: in_set_takeD)
  then show ?thesis using default_rows by (auto simp: Arr normalizePositions_rows Let_def position_rows_def)
qed (use default_rows in \<open>auto simp: normalizePositions_def\<close>)

lemma clamp_position_row: "position_row r \<Longrightarrow> clamp_row r = r \<and> num_lt (Fin 0) (to_num (fld r ''marginRate''))"
  by (erule row_elim) (simp add: clamp_row_def clampNumber_in)

lemma normalizePositions_again: "position_rows v \<Longrightarrow> normalizePositions v = v"
proof -
  assume "position_rows v"
  then obtain rows where v: "v = Arr rows" "rows \<noteq> []" "length rows \<le> 8" "list_all position_row rows"
    by (auto simp: position_rows_def)
  have "map clamp_row rows = rows" using v(4) clamp_position_row by (intro map_idI) (auto simp: list_all_iff)
  moreover have "filter (\<lambda>row. num_lt (Fin 0) (to_num (fld row ''marginRate''))) rows = rows"
    using v(4) clamp_position_row by (auto simp: list_all_iff)
  ultimately show ?thesis using v(2,3) by (simp add: v(1) normalizePositions_rows Let_def)
qed

lemma ascii_quote: "list_all (\<lambda>c. 35 \<le> c \<and> c \<noteq> 92 \<and> c < 128) s \<Longrightarrow> ascii (json_quote s)"
proof -
  assume s: "list_all (\<lambda>c. 35 \<le> c \<and> c \<noteq> 92 \<and> c < 128) s"
  have "json_units s = s"
    using s by (induction s rule: json_units.induct) (auto simp: json_unit_def is_high_def is_low_def)
  with s show ?thesis by (auto simp: json_quote_def list_all_iff)
qed

lemma ascii_Obj:
  assumes "list_all (\<lambda>kv. units16 (fst kv) \<and> jsonable (snd kv)) kvs"
    and "list_all (\<lambda>kv. ascii (json_quote (fst kv)) \<and> ascii (enc (snd kv))) kvs"
  shows "ascii (enc (Obj kvs))"
proof -
  have "list_all ascii (map enc_member kvs)"
    using assms(2) by (induction kvs) (simp_all add: enc_member_def del: json_enc.simps)
  then show ?thesis by (simp add: enc_Obj [OF assms(1)] ascii_join del: json_enc.simps)
qed

lemma row_json:
  assumes "position_row r"
  shows "jsonable r" and "ascii (enc r)"
proof -
  from assms obtain a b where r: "r = obj [(''marginRate'', N a), (''lossAddRate'', N b)]" "fl a = Fin a" "fl b = Fin b"
    by (rule row_elim)
  then show j: "jsonable r" by (simp add: obj_def js_def units16_def)
  have "enc (N a) = num_to_string (Fin a)" "enc (N b) = num_to_string (Fin b)"
    by (simp_all del: num_to_string.simps)
  moreover have "ascii (json_quote (js ''marginRate''))" "ascii (json_quote (js ''lossAddRate''))"
    by (simp_all add: ascii_quote js_def)
  ultimately have "list_all (\<lambda>kv. ascii (json_quote (fst kv)) \<and> ascii (enc (snd kv)))
      [(js ''marginRate'', N a), (js ''lossAddRate'', N b)]"
    using ascii_number [OF r(2)] ascii_number [OF r(3)] by (simp del: json_enc.simps num_to_string.simps)
  moreover have "list_all (\<lambda>kv. units16 (fst kv) \<and> jsonable (snd kv)) [(js ''marginRate'', N a), (js ''lossAddRate'', N b)]"
    using r by simp
  ultimately show "ascii (enc r)"
    using ascii_Obj [of "[(js ''marginRate'', N a), (js ''lossAddRate'', N b)]"] by (simp add: r(1) obj_def del: json_enc.simps)
qed

lemma rows_json:
  assumes "position_rows v"
  shows "jsonable v" and "ascii (json_stringify v)"
proof -
  from assms obtain rows where v: "v = Arr rows" "list_all position_row rows" by (auto simp: position_rows_def)
  have j: "list_all jsonable rows" using v(2) row_json(1) by (auto simp: list_all_iff)
  then show jv: "jsonable v" by (simp add: v(1))
  have "list_all ascii (map enc rows)"
    using v(2) row_json(2) by (simp add: list_all_iff [of _ "map enc rows"] list_all_iff [of _ rows] del: json_enc.simps)
  then have a: "ascii (enc v)"
    by (simp add: v(1) enc_Arr [OF j] ascii_join del: json_enc.simps)
  obtain t where "json_enc v = Some t" using json_enc_ex [OF jv] ..
  with a show "ascii (json_stringify v)" by (simp add: json_stringify_def)
qed

lemma readPositions_again: "position_rows v \<Longrightarrow> readPositions (Str (json_stringify v)) = v"
proof -
  assume p: "position_rows v"
  then have j: "jsonable v" by (rule rows_json)
  then have "json_stringify v \<noteq> []"
    using enc_first [OF j] json_enc_jsonable [OF j] by (auto simp: json_stringify_def)
  with p show ?thesis
    by (simp add: readPositions_def json_round_trip [OF j] normalizePositions_again)
qed

end
