(* ===== verification/Preset_Link.thy ===== *)
theory Preset_Link
  imports Preset_Trip
begin

section \<open>The preset that the strategy form opens with\<close>

text \<open>
  \<open>strategyPresetFromDraft\<close> prints a draft's values into the query of the strategy form,
  \<open>parseStrategyPreset\<close> reads them. Both clamp, with different defaults; the values that were clamped by
  the first are left alone by the second.
\<close>

subsection \<open>Numbers that are clamped, printed, read and clamped again\<close>

definition fallback_ok :: "jsval \<Rightarrow> rat \<Rightarrow> rat \<Rightarrow> bool" where
  "fallback_ok w lo hi \<longleftrightarrow> (\<exists>f. w = N f \<and> lo \<le> f \<and> f \<le> hi \<and> fl f = Fin f)"

lemma fallback_number: "lo \<le> f \<Longrightarrow> f \<le> hi \<Longrightarrow> fl f = Fin f \<Longrightarrow> fallback_ok (N f) lo hi"
  by (simp add: fallback_ok_def)

lemma fallback_rate: "1 / 2 ^ 10 \<le> x \<Longrightarrow> x \<le> 1 / 2 \<Longrightarrow> fallback_ok (Num (fl x)) 0 1"
proof -
  assume "1 / 2 ^ 10 \<le> x" "x \<le> 1 / 2"
  then obtain r where "fl x = Fin r" "0 < r" "r \<le> 1" using fl_fraction [of x] by fastforce
  then show ?thesis using fl_idem by (auto simp: fallback_ok_def)
qed

lemma clampNumber_ok:
  assumes "doubles v" and "fallback_ok w lo hi" and "fl hi = Fin hi"
  shows "fallback_ok (clampNumber v w (N lo) (N hi)) lo hi"
  using assms clampNumber_double [OF assms(1)] by (fastforce simp: fallback_ok_def)

lemma printed_again:
  assumes "fallback_ok w lo hi"
  shows "clampNumber (Str (to_str w)) f (N lo) (N hi) = w" and "Num (to_num (Str (to_str w))) = w"
    and "ascii (to_str w)" and "doubles w"
proof -
  from assms obtain q where q: "w = N q" "lo \<le> q" "q \<le> hi" "fl q = Fin q" by (auto simp: fallback_ok_def)
  then show "clampNumber (Str (to_str w)) f (N lo) (N hi) = w"
    using clampNumber_again [OF q(4,2,3)] by (simp del: num_to_string.simps)
  show "Num (to_num (Str (to_str w))) = w" using q read_back by (simp del: num_to_string.simps)
  show "ascii (to_str w)" using q ascii_number by (simp del: num_to_string.simps)
  show "doubles w" using q by simp
qed

definition whole :: "jsnum \<Rightarrow> int \<Rightarrow> int \<Rightarrow> bool" where
  "whole x lo hi \<longleftrightarrow> (\<exists>n. x = Fin (of_int n) \<and> lo \<le> n \<and> n \<le> hi)"

lemma clampInt_whole:
  assumes "whole f lo hi"
  shows "whole (clampInt v (Num f) (N (of_int lo)) (N (of_int hi))) lo hi"
  using assms clampInt_bounds [of lo _ hi v] by (fastforce simp: whole_def)

lemma whole_again:
  assumes "whole x lo hi" and "- (2 ^ 53) \<le> lo" and "hi \<le> 2 ^ 53" and "hi \<le> hi'"
  shows "clampInt (Str (num_to_string x)) f (N (of_int lo)) (N (of_int hi')) = x"
    and "to_num (Str (num_to_string x)) = x" and "ascii (num_to_string x)"
proof -
  from assms obtain n where n: "x = Fin (of_int n)" "lo \<le> n" "n \<le> hi'" "\<bar>n\<bar> \<le> 2 ^ 53"
    by (auto simp: whole_def)
  note d = fl_of_int [OF n(4)]
  show "clampInt (Str (num_to_string x)) f (N (of_int lo)) (N (of_int hi')) = x"
    unfolding n(1) by (rule clampInt_again) (use n in auto)
  show "to_num (Str (num_to_string x)) = x" unfolding n(1) by (rule read_back [OF d])
  show "ascii (num_to_string x)" unfolding n(1) by (rule ascii_number [OF d])
qed

subsection \<open>Risk caps\<close>

definition risk_ok :: "jsval \<Rightarrow> bool" where
  "risk_ok r \<longleftrightarrow> (\<exists>a b c. r = obj [(''maxPositionUsd'', N a), (''maxLeverage'', N b), (''dailyLossCapUsd'', N c)] \<and>
     0 < a \<and> a \<le> 1000000000 \<and> 0 < b \<and> b \<le> 125 \<and> 0 < c \<and> c \<le> 1000000000 \<and>
     fl a = Fin a \<and> fl b = Fin b \<and> fl c = Fin c)"

lemma risk_intro: "0 < a \<Longrightarrow> a \<le> 1000000000 \<Longrightarrow> 0 < b \<Longrightarrow> b \<le> 125 \<Longrightarrow> 0 < c \<Longrightarrow> c \<le> 1000000000 \<Longrightarrow>
   fl a = Fin a \<Longrightarrow> fl b = Fin b \<Longrightarrow> fl c = Fin c \<Longrightarrow>
   risk_ok (obj [(''maxPositionUsd'', N a), (''maxLeverage'', N b), (''dailyLossCapUsd'', N c)])"
  unfolding risk_ok_def by blast

lemma cap_double:
  assumes "doubles v" and "0 \<le> hi" and "fl hi = Fin hi"
  shows "\<exists>a. clampNumber v (N 0) (N 0) (N hi) = N a \<and> 0 \<le> a \<and> a \<le> hi \<and> fl a = Fin a"
  using clampNumber_double [of v 0 hi 0] assms by auto

lemma draft_risk_ok:
  assumes "doubles v"
  shows "normalizeRiskCaps v = Null \<or> risk_ok (normalizeRiskCaps v)"
proof -
  obtain a b c where n:
    "clampNumber (fld v ''maxPositionUsd'') (N 0) (N 0) (N 1000000000) = N a"
    "0 \<le> a" "a \<le> 1000000000" "fl a = Fin a"
    "clampNumber (fld v ''maxLeverage'') (N 0) (N 0) (N 125) = N b" "0 \<le> b" "b \<le> 125" "fl b = Fin b"
    "clampNumber (fld v ''dailyLossCapUsd'') (N 0) (N 0) (N 1000000000) = N c"
    "0 \<le> c" "c \<le> 1000000000" "fl c = Fin c"
    using cap_double [OF doubles_fld [OF assms, of "''maxPositionUsd''"], of 1000000000]
      cap_double [OF doubles_fld [OF assms, of "''maxLeverage''"], of 125]
      cap_double [OF doubles_fld [OF assms, of "''dailyLossCapUsd''"], of 1000000000]
    by (auto simp: fl_numeral)
  show ?thesis
    unfolding normalizeRiskCaps_def Let_def n(1,5,9) using n risk_intro [of a b c]
    by (auto simp: not_le)
qed

lemma risk_again:
  assumes "risk_ok r"
  shows "normalizeRiskCaps (obj [(''maxPositionUsd'', Str (to_str (fld r ''maxPositionUsd''))),
      (''maxLeverage'', Str (to_str (fld r ''maxLeverage''))),
      (''dailyLossCapUsd'', Str (to_str (fld r ''dailyLossCapUsd'')))]) = r"
proof -
  from assms obtain a b c where r: "r = obj [(''maxPositionUsd'', N a), (''maxLeverage'', N b), (''dailyLossCapUsd'', N c)]"
    and n: "0 < a" "a \<le> 1000000000" "0 < b" "b \<le> 125" "0 < c" "c \<le> 1000000000" "fl a = Fin a" "fl b = Fin b" "fl c = Fin c"
    unfolding risk_ok_def by blast
  have "clampNumber (Str (num_to_string (Fin a))) (N 0) (N 0) (N 1000000000) = N a"
    "clampNumber (Str (num_to_string (Fin b))) (N 0) (N 0) (N 125) = N b"
    "clampNumber (Str (num_to_string (Fin c))) (N 0) (N 0) (N 1000000000) = N c"
    using n by (simp_all add: clampNumber_again del: num_to_string.simps)
  then show ?thesis
    using n by (simp add: r normalizeRiskCaps_def Let_def del: num_to_string.simps)
qed

lemma risk_ascii:
  assumes "risk_ok r"
  shows "ascii (to_str (fld r ''maxPositionUsd''))" "ascii (to_str (fld r ''maxLeverage''))"
    "ascii (to_str (fld r ''dailyLossCapUsd''))"
  using assms ascii_number unfolding risk_ok_def by (auto simp del: num_to_string.simps)

lemma no_risk: "normalizeRiskCaps (obj [(''maxPositionUsd'', Null), (''maxLeverage'', Null), (''dailyLossCapUsd'', Null)]) = Null"
  "normalizeRiskCaps (obj [(''maxPositionUsd'', Undef), (''maxLeverage'', Undef), (''dailyLossCapUsd'', Undef)]) = Null"
  by (simp_all add: normalizeRiskCaps_def Let_def clampNumber_def)

text \<open>The caps of leverage and margin under the defaults of the link and of the form.\<close>

lemma cap_whole:
  assumes "risk_ok r"
  shows "\<exists>c d. clampInt (fld r ''maxLeverage'') (N 3) (N 1) (N 125) = Fin (of_int c) \<and>
      clampInt (fld r ''maxLeverage'') (N 5) (N 1) (N 125) = Fin (of_int d) \<and> 1 \<le> c \<and> c \<le> d \<and> d \<le> 125"
    and "whole (clampInt (fld r ''maxPositionUsd'') (N 100) (N 1) (N 1000000)) 1 1000000"
proof -
  from assms obtain b where b: "fld r ''maxLeverage'' = N b" "b \<le> 125" unfolding risk_ok_def by auto
  have "\<lfloor>b + 1 / 2\<rfloor> \<le> 125" "1 \<le> b \<Longrightarrow> 1 \<le> \<lfloor>b + 1 / 2\<rfloor>" using b(2) by linarith+
  then show "\<exists>c d. clampInt (fld r ''maxLeverage'') (N 3) (N 1) (N 125) = Fin (of_int c) \<and>
      clampInt (fld r ''maxLeverage'') (N 5) (N 1) (N 125) = Fin (of_int d) \<and> 1 \<le> c \<and> c \<le> d \<and> d \<le> 125"
    using b by (cases "1 \<le> b")
      (auto simp: clampInt_def clampNumber_def Let_def min_def not_le intro!: exI [of _ "3 :: int"] exI [of _ "5 :: int"])
  have fin100: "\<exists>n. (100 :: rat) = of_int n \<and> 1 \<le> n \<and> n \<le> 1000000" by (intro exI [of _ 100]) simp
  show "whole (clampInt (fld r ''maxPositionUsd'') (N 100) (N 1) (N 1000000)) 1 1000000"
    using fin100 clampInt_whole [of "Fin 100" 1 1000000 "fld r ''maxPositionUsd''"]
    by (simp add: whole_def)
qed

subsection \<open>The printed preset\<close>

definition rate :: "jsval \<Rightarrow> string \<Rightarrow> rat \<Rightarrow> jsval" where
  "rate d k f = clampNumber (fld (draft_params d) k) (Num (fl f)) (N 0) (N 1)"

definition draft_level :: "jsval \<Rightarrow> jsnum" where
  "draft_level d = clampInt (fld (draft_params d) ''positionLevel'')
     (Num (num_min (Fin 3) (leverage_cap d))) (N 1) (Num (leverage_cap d))"

definition draft_stop_time :: "jsval \<Rightarrow> jsnum" where
  "draft_stop_time d = clampInt (fld (draft_params d) ''openPositionStopTime'') (N 30) (N 0) (N 1440)"

definition draft_margin :: "jsval \<Rightarrow> jsnum" where
  "draft_margin d = clampInt (fld (draft_params d) ''orderGroupMargin'')
     (Num (num_min (Fin 100) (margin_cap d))) (N 0) (Num (margin_cap d))"

definition draft_rows :: "jsval \<Rightarrow> jsval" where
  "draft_rows d = normalizePositions (fld (draft_params d) ''createPositions'')"

definition preset_risk :: "jsval \<Rightarrow> (string \<times> jsval) list" where
  "preset_risk d =
     (if truthy (draft_risk d)
      then [(''riskMaxPositionUsd'', Str (to_str (fld (draft_risk d) ''maxPositionUsd''))),
            (''riskMaxLeverage'', Str (to_str (fld (draft_risk d) ''maxLeverage''))),
            (''riskDailyLossCapUsd'', Str (to_str (fld (draft_risk d) ''dailyLossCapUsd'')))]
      else [])"

definition preset_base :: "jsval \<Rightarrow> (string \<times> jsval) list" where
  "preset_base d =
     [(''source'', S ''ai-goal''), (''name'', Str (normalizeName (fld d ''name'') (fld d ''symbol''))),
      (''kind'', Str (normalizeKind (fld d ''kind''))), (''execSymbol'', normalizeSymbol (fld d ''symbol'')),
      (''positionLevel'', Str (num_to_string (draft_level d))),
      (''openPositionStopTime'', Str (num_to_string (draft_stop_time d))),
      (''orderGroupMargin'', Str (num_to_string (draft_margin d))),
      (''stopProfitRate'', Str (to_str (rate d ''stopProfitRate'' (3 / 100)))),
      (''stopLossRate'', Str (to_str (rate d ''stopLossRate'' (1 / 20)))),
      (''profitRateAfterAtAddPosition'', Str (to_str (rate d ''profitRateAfterAtAddPosition'' (1 / 100)))),
      (''createCostOrderInProfit'', Str (to_str (Bool (truthy (fld (draft_params d) ''createCostOrderInProfit''))))),
      (''createPositions'', Str (json_stringify (draft_rows d)))]"

lemma spread_fresh: "k \<notin> fst ` set kvs \<Longrightarrow> spread (obj kvs) [(k, v)] = obj (kvs @ [(k, v)])"
proof -
  assume "k \<notin> fst ` set kvs"
  then have "js k \<notin> fst ` set (map (\<lambda>(k, v). (js k, v)) kvs)" by force
  from put_append [OF this] show ?thesis by (simp add: spread_def obj_def put_all_def)
qed

lemma preset_object: "strategyPresetFromDraft d = obj (preset_base d @ preset_risk d)"
proof (cases "truthy (draft_risk d)")
  case True
  have "spread (spread (spread (obj (preset_base d)) [(''riskMaxPositionUsd'', a)]) [(''riskMaxLeverage'', b)])
      [(''riskDailyLossCapUsd'', c)] =
    obj (preset_base d @ [(''riskMaxPositionUsd'', a), (''riskMaxLeverage'', b), (''riskDailyLossCapUsd'', c)])" for a b c
    by (simp add: spread_fresh preset_base_def)
  with True show ?thesis
    unfolding preset_def Let_def preset_risk_def
    by (simp add: preset_base_def draft_level_def draft_stop_time_def draft_margin_def draft_rows_def rate_def
        leverage_cap_def margin_cap_def)
next
  case False
  then show ?thesis
    unfolding preset_def Let_def preset_risk_def
    by (simp add: preset_base_def draft_level_def draft_stop_time_def draft_margin_def draft_rows_def rate_def
        leverage_cap_def margin_cap_def)
qed

lemma param_preset:
  "param (params_of (obj kvs)) (js k) = (case map_of kvs k of None \<Rightarrow> Null | Some v \<Rightarrow> Str (to_str v))"
proof -
  have "map_of (map (\<lambda>(k, v). (k, to_str v)) (map (\<lambda>(k, v). (js k, v)) kvs)) (js k) = map_option to_str (map_of kvs k)"
    by (induction kvs) auto
  then show ?thesis by (simp add: param_def obj_def split: option.split)
qed

subsection \<open>What the form reads\<close>

definition form_level_cap :: "jsval \<Rightarrow> jsnum" where
  "form_level_cap r = (if truthy r then clampInt (fld r ''maxLeverage'') (N 5) (N 1) (N 125) else Fin 125)"

definition form_margin_cap :: "jsval \<Rightarrow> jsnum" where
  "form_margin_cap r = (if truthy r then clampInt (fld r ''maxPositionUsd'') (N 100) (N 1) (N 1000000) else Fin 1000000)"

lemma default_fields:
  "fld DEFAULT_PRESET ''name'' = Str []" "fld DEFAULT_PRESET ''positionLevel'' = N 5"
  "fld DEFAULT_PRESET ''orderGroupMargin'' = N 100" "fld DEFAULT_PRESET ''openPositionStopTime'' = N 30"
  by (simp_all add: DEFAULT_PRESET_def)

lemma form_fields:
  defines "p q \<equiv> parseStrategyPreset q" and "r q \<equiv> riskCapsFromSearchParams q"
  shows "fld (p q) ''isPreset'' = Bool (param q (js ''source'') = S ''ai-goal'')"
    and "fld (p q) ''name'' = Str (normalizeName (js_or (param q (js ''name'')) (Str [])) Undef)"
    and "fld (p q) ''kind'' = Str (normalizeKind (param q (js ''kind'')))"
    and "fld (p q) ''execSymbol'' = normalizeSymbol (param q (js ''execSymbol''))"
    and "fld (p q) ''positionLevel'' = Num (clampInt (param q (js ''positionLevel''))
           (Num (num_min (Fin 5) (form_level_cap (r q)))) (N 1) (Num (form_level_cap (r q))))"
    and "fld (p q) ''openPositionStopTime'' = Num (clampInt (param q (js ''openPositionStopTime'')) (N 30) (N 0) (N 1440))"
    and "fld (p q) ''orderGroupMargin'' = Num (clampInt (param q (js ''orderGroupMargin''))
           (Num (num_min (Fin 100) (form_margin_cap (r q)))) (N 0) (Num (form_margin_cap (r q))))"
    and "fld (p q) ''stopProfitRate'' =
           clampNumber (param q (js ''stopProfitRate'')) (fld DEFAULT_PRESET ''stopProfitRate'') (N 0) (N 1)"
    and "fld (p q) ''stopLossRate'' =
           clampNumber (param q (js ''stopLossRate'')) (fld DEFAULT_PRESET ''stopLossRate'') (N 0) (N 1)"
    and "fld (p q) ''profitRateAfterAtAddPosition'' =
           clampNumber (param q (js ''profitRateAfterAtAddPosition'')) (fld DEFAULT_PRESET ''profitRateAfterAtAddPosition'') (N 0) (N 1)"
    and "fld (p q) ''createCostOrderInProfit'' = Bool (param q (js ''createCostOrderInProfit'') = S ''true'')"
    and "fld (p q) ''createPositions'' = readPositions (param q (js ''createPositions''))"
    and "fld (p q) ''aiRunId'' = Str (trim (to_str (js_or (param q (js ''aiRunId'')) (Str []))))"
    and "fld (p q) ''risk'' = r q"
  unfolding p_def r_def parseStrategyPreset_def Let_def fld_spread form_level_cap_def form_margin_cap_def
  by (simp_all only: rev.simps append.simps map_of.simps fst_conv snd_conv fun_upd_apply default_fields to_num.simps)
    (simp_all cong del: if_weak_cong)

subsection \<open>Ranges\<close>

lemma draft_parts: "doubles d \<Longrightarrow> k \<noteq> ''length'' \<Longrightarrow> doubles (fld (draft_params d) k)"
  by (intro doubles_fld) (simp_all add: draft_params_def doubles_fld)

lemma draft_risk_cases: "doubles d \<Longrightarrow> draft_risk d = Null \<or> risk_ok (draft_risk d)"
  unfolding draft_risk_def by (intro draft_risk_ok doubles_fld) simp_all

lemma risk_truthy: "risk_ok r \<Longrightarrow> truthy r"
  unfolding risk_ok_def by (auto simp: obj_def)

lemma level_caps:
  assumes "doubles d"
  shows "\<exists>c c'. leverage_cap d = Fin (of_int c) \<and> form_level_cap (draft_risk d) = Fin (of_int c') \<and>
      1 \<le> c \<and> c \<le> c' \<and> c' \<le> 125"
  using draft_risk_cases [OF assms]
proof
  assume "draft_risk d = Null"
  then show ?thesis
    by (intro exI [of _ 125]) (simp add: leverage_cap_def form_level_cap_def)
next
  assume "risk_ok (draft_risk d)"
  with cap_whole(1) [OF this] risk_truthy show ?thesis by (simp add: leverage_cap_def form_level_cap_def)
qed

lemma margin_caps:
  assumes "doubles d"
  shows "form_margin_cap (draft_risk d) = margin_cap d" and "\<exists>c. margin_cap d = Fin (of_int c) \<and> 1 \<le> c \<and> c \<le> 1000000"
proof -
  show "form_margin_cap (draft_risk d) = margin_cap d" by (simp add: form_margin_cap_def margin_cap_def)
  show "\<exists>c. margin_cap d = Fin (of_int c) \<and> 1 \<le> c \<and> c \<le> 1000000"
    using draft_risk_cases [OF assms]
  proof
    assume "draft_risk d = Null"
    then show ?thesis by (intro exI [of _ 1000000]) (simp add: margin_cap_def)
  next
    assume "risk_ok (draft_risk d)"
    with cap_whole(2) [OF this] risk_truthy show ?thesis by (simp add: margin_cap_def whole_def)
  qed
qed

lemma draft_level_read:
  assumes "doubles d"
  shows "clampInt (Str (num_to_string (draft_level d))) f (N 1) (Num (form_level_cap (draft_risk d))) = draft_level d"
    and "to_num (Str (num_to_string (draft_level d))) = draft_level d" and "ascii (num_to_string (draft_level d))"
proof -
  from level_caps [OF assms] obtain c c' where c: "leverage_cap d = Fin (of_int c)"
    "form_level_cap (draft_risk d) = Fin (of_int c')" "1 \<le> c" "c \<le> c'" "c' \<le> 125" by blast
  have "whole (num_min (Fin 3) (leverage_cap d)) 1 c"
    unfolding whole_def c(1) using c(3) by (intro exI [of _ "min 3 c"]) (simp add: min_def)
  then have w: "whole (draft_level d) 1 c"
    unfolding draft_level_def c(1) using clampInt_whole [of _ 1 c] by simp
  have b: "- (2 ^ 53) \<le> (1 :: int)" "c \<le> 2 ^ 53" using c by simp_all
  from whole_again [OF w b c(4)]
  show "clampInt (Str (num_to_string (draft_level d))) f (N 1) (Num (form_level_cap (draft_risk d))) = draft_level d"
    and "to_num (Str (num_to_string (draft_level d))) = draft_level d" and "ascii (num_to_string (draft_level d))"
    by (simp_all only: c(2) of_int_1)
qed

lemma draft_margin_read:
  assumes "doubles d"
  shows "clampInt (Str (num_to_string (draft_margin d))) f (N 0) (Num (form_margin_cap (draft_risk d))) = draft_margin d"
    and "to_num (Str (num_to_string (draft_margin d))) = draft_margin d" and "ascii (num_to_string (draft_margin d))"
proof -
  note m = margin_caps [OF assms]
  from m(2) obtain c where c: "margin_cap d = Fin (of_int c)" "1 \<le> c" "c \<le> 1000000" by blast
  have "whole (num_min (Fin 100) (margin_cap d)) 0 c"
    unfolding whole_def c(1) using c(2) by (intro exI [of _ "min 100 c"]) (simp add: min_def)
  then have w: "whole (draft_margin d) 0 c"
    unfolding draft_margin_def c(1) using clampInt_whole [of _ 0 c] by simp
  have b: "- (2 ^ 53) \<le> (0 :: int)" "c \<le> 2 ^ 53" using c by simp_all
  from whole_again [OF w b order_refl]
  show "clampInt (Str (num_to_string (draft_margin d))) f (N 0) (Num (form_margin_cap (draft_risk d))) = draft_margin d"
    and "to_num (Str (num_to_string (draft_margin d))) = draft_margin d" and "ascii (num_to_string (draft_margin d))"
    by (simp_all only: m(1) c(1) of_int_0)
qed

lemma draft_stop_time_read:
  shows "clampInt (Str (num_to_string (draft_stop_time d))) f (N 0) (N 1440) = draft_stop_time d"
    and "to_num (Str (num_to_string (draft_stop_time d))) = draft_stop_time d" and "ascii (num_to_string (draft_stop_time d))"
proof -
  have "whole (Fin 30) 0 1440" unfolding whole_def by (intro exI [of _ 30]) simp
  then have w: "whole (draft_stop_time d) 0 1440"
    unfolding draft_stop_time_def using clampInt_whole [of "Fin 30" 0 1440] by simp
  from whole_again [OF w _ _ order_refl]
  show "clampInt (Str (num_to_string (draft_stop_time d))) f (N 0) (N 1440) = draft_stop_time d"
    and "to_num (Str (num_to_string (draft_stop_time d))) = draft_stop_time d" and "ascii (num_to_string (draft_stop_time d))"
    by simp_all
qed

lemma rate_ok: "doubles d \<Longrightarrow> k \<noteq> ''length'' \<Longrightarrow> 1 / 2 ^ 10 \<le> f \<Longrightarrow> f \<le> 1 / 2 \<Longrightarrow> fallback_ok (rate d k f) 0 1"
  unfolding rate_def by (intro clampNumber_ok draft_parts fallback_rate) simp_all

lemma draft_rows_ok: "doubles d \<Longrightarrow> position_rows (draft_rows d)"
  unfolding draft_rows_def by (intro position_rows_normal draft_parts) simp_all

subsection \<open>The opened preset\<close>

lemma symbol_text: "Str (to_str (normalizeSymbol v)) = normalizeSymbol v" "ascii (to_str (normalizeSymbol v))"
  using normalizeSymbol_form [of v] symbol_unit_facts by (auto simp: list_all_iff)

text \<open>A query that carries the parameters of the draft's preset, and perhaps others.\<close>

definition link_keys :: "string list" where
  "link_keys = [''source'', ''name'', ''kind'', ''execSymbol'', ''positionLevel'', ''openPositionStopTime'',
     ''orderGroupMargin'', ''stopProfitRate'', ''stopLossRate'', ''profitRateAfterAtAddPosition'',
     ''createCostOrderInProfit'', ''createPositions'', ''riskMaxPositionUsd'', ''riskMaxLeverage'', ''riskDailyLossCapUsd'']"

definition carries :: "(jstr \<times> jstr) list \<Rightarrow> jsval \<Rightarrow> bool" where
  "carries q d \<longleftrightarrow> list_all (\<lambda>k. param q (js k) = param (params_of (strategyPresetFromDraft d)) (js k)) link_keys"

lemma carried:
  assumes "carries q d"
  shows "param q (js ''source'') = S ''ai-goal''"
    and "param q (js ''name'') = Str (normalizeName (fld d ''name'') (fld d ''symbol''))"
    and "param q (js ''kind'') = Str (normalizeKind (fld d ''kind''))"
    and "param q (js ''execSymbol'') = normalizeSymbol (fld d ''symbol'')"
    and "param q (js ''positionLevel'') = Str (num_to_string (draft_level d))"
    and "param q (js ''openPositionStopTime'') = Str (num_to_string (draft_stop_time d))"
    and "param q (js ''orderGroupMargin'') = Str (num_to_string (draft_margin d))"
    and "param q (js ''stopProfitRate'') = Str (to_str (rate d ''stopProfitRate'' (3 / 100)))"
    and "param q (js ''stopLossRate'') = Str (to_str (rate d ''stopLossRate'' (1 / 20)))"
    and "param q (js ''profitRateAfterAtAddPosition'') = Str (to_str (rate d ''profitRateAfterAtAddPosition'' (1 / 100)))"
    and "param q (js ''createCostOrderInProfit'') = Str (to_str (Bool (truthy (fld (draft_params d) ''createCostOrderInProfit''))))"
    and "param q (js ''createPositions'') = Str (json_stringify (draft_rows d))"
  using assms symbol_text unfolding carries_def link_keys_def preset_object param_preset
  by (simp_all add: preset_base_def del: to_str.simps(3,4))

lemma carried_risk:
  assumes "carries q d" and "doubles d"
  shows "riskCapsFromSearchParams q = draft_risk d"
proof -
  have "param q (js ''riskMaxPositionUsd'') =
      (if truthy (draft_risk d) then Str (to_str (fld (draft_risk d) ''maxPositionUsd'')) else Null)"
    "param q (js ''riskMaxLeverage'') =
      (if truthy (draft_risk d) then Str (to_str (fld (draft_risk d) ''maxLeverage'')) else Null)"
    "param q (js ''riskDailyLossCapUsd'') =
      (if truthy (draft_risk d) then Str (to_str (fld (draft_risk d) ''dailyLossCapUsd'')) else Null)"
    using assms(1) unfolding carries_def link_keys_def preset_object param_preset
    by (simp_all add: preset_base_def preset_risk_def)
  with draft_risk_cases [OF assms(2)] risk_again no_risk(1) risk_truthy show ?thesis
    by (auto simp: riskCapsFromSearchParams_def)
qed

lemma opened_fields:
  assumes "carries q d" and "doubles d"
  defines "p \<equiv> parseStrategyPreset q"
  shows "fld p ''isPreset'' = Bool True"
    and "fld p ''name'' = Str (normalizeName (fld d ''name'') (fld d ''symbol''))"
    and "fld p ''kind'' = Str (normalizeKind (fld d ''kind''))"
    and "fld p ''execSymbol'' = normalizeSymbol (fld d ''symbol'')"
    and "fld p ''positionLevel'' = Num (draft_level d)"
    and "fld p ''openPositionStopTime'' = Num (draft_stop_time d)"
    and "fld p ''orderGroupMargin'' = Num (draft_margin d)"
    and "fld p ''stopProfitRate'' = rate d ''stopProfitRate'' (3 / 100)"
    and "fld p ''stopLossRate'' = rate d ''stopLossRate'' (1 / 20)"
    and "fld p ''profitRateAfterAtAddPosition'' = rate d ''profitRateAfterAtAddPosition'' (1 / 100)"
    and "fld p ''createCostOrderInProfit'' = Bool (truthy (fld (draft_params d) ''createCostOrderInProfit''))"
    and "fld p ''createPositions'' = draft_rows d"
    and "fld p ''risk'' = draft_risk d"
    and "fld p ''aiRunId'' = Str (trim (to_str (js_or (param q (js ''aiRunId'')) (Str []))))"
proof -
  note c = carried [OF assms(1)] and r = carried_risk [OF assms(1,2)]
  note f = form_fields [of q, folded p_def, unfolded r c]
  show "fld p ''isPreset'' = Bool True" by (simp add: f)
  show "fld p ''name'' = Str (normalizeName (fld d ''name'') (fld d ''symbol''))"
    by (simp add: f js_or_def normalizeName_ne normalizeName_again)
  show "fld p ''kind'' = Str (normalizeKind (fld d ''kind''))" by (simp add: f normalizeKind_again)
  show "fld p ''execSymbol'' = normalizeSymbol (fld d ''symbol'')" by (simp add: f normalizeSymbol_again)
  show "fld p ''positionLevel'' = Num (draft_level d)" by (simp only: f draft_level_read [OF assms(2)])
  show "fld p ''openPositionStopTime'' = Num (draft_stop_time d)" by (simp only: f draft_stop_time_read)
  show "fld p ''orderGroupMargin'' = Num (draft_margin d)" by (simp only: f draft_margin_read [OF assms(2)])
  show "fld p ''stopProfitRate'' = rate d ''stopProfitRate'' (3 / 100)"
    and "fld p ''stopLossRate'' = rate d ''stopLossRate'' (1 / 20)"
    and "fld p ''profitRateAfterAtAddPosition'' = rate d ''profitRateAfterAtAddPosition'' (1 / 100)"
    unfolding f by (rule printed_again(1) [OF rate_ok [OF assms(2)]]; simp)+
  show "fld p ''createCostOrderInProfit'' = Bool (truthy (fld (draft_params d) ''createCostOrderInProfit''))"
    by (simp add: f)
  show "fld p ''createPositions'' = draft_rows d"
    by (simp only: f readPositions_again [OF draft_rows_ok [OF assms(2)]])
  show "fld p ''risk'' = draft_risk d" by (simp only: f)
  show "fld p ''aiRunId'' = Str (trim (to_str (js_or (param q (js ''aiRunId'')) (Str []))))" by (simp only: f)
qed

subsection \<open>The query string\<close>

lemma ascii_js: "list_all (\<lambda>c. of_char c < (128 :: nat)) s \<Longrightarrow> ascii (js s)"
  by (simp add: js_def list_all_iff)

lemma link_params_ascii:
  assumes "doubles d"
  shows "list_all (\<lambda>(k, v). ascii k \<and> ascii v) (params_of (strategyPresetFromDraft d))"
proof -
  have r: "ascii (to_str (rate d k f))" if "k \<noteq> ''length''" "1 / 2 ^ 10 \<le> f" "f \<le> 1 / 2" for k f
    using printed_again(3) [OF rate_ok [OF assms that]] .
  have base: "list_all (\<lambda>(k, v). ascii (js k) \<and> ascii (to_str v)) (preset_base d)"
    unfolding preset_base_def
    using symbol_text(2) ascii_name ascii_kind draft_level_read(3) [OF assms] draft_margin_read(3) [OF assms]
      draft_stop_time_read(3) rows_json(2) [OF draft_rows_ok [OF assms]] r
    by (simp add: ascii_js)
  have risk: "list_all (\<lambda>(k, v). ascii (js k) \<and> ascii (to_str v)) (preset_risk d)"
    using draft_risk_cases [OF assms] risk_ascii [of "draft_risk d"] by (auto simp: preset_risk_def ascii_js)
  show ?thesis
    using base risk by (auto simp: preset_object obj_def list_all_iff split_beta simp del: to_str.simps)
qed

text \<open>
  The address of the form: the link's query, to which \<open>strategyHrefWithAIRunId\<close> adds the run.
\<close>

definition link_params :: "jsval \<Rightarrow> jstr \<Rightarrow> (jstr \<times> jstr) list" where
  "link_params d run =
     (let q = params_of (strategyPresetFromDraft d) in if run = [] then q else qs_set q (js ''aiRunId'') run)"

lemma set_qs_set: "set (qs_set kvs k v) \<subseteq> insert (k, v) (set kvs)"
  by (induction kvs k v rule: qs_set.induct) auto

lemma link_params_read:
  assumes "doubles d" and "well_formed run"
  shows "parse_query (query_string (link_params d run)) = link_params d run"
proof (rule parse_query_string, clarify)
  fix k v
  assume kv: "(k, v) \<in> set (link_params d run)"
  have "(k, v) = (js ''aiRunId'', run) \<or> (k, v) \<in> set (params_of (strategyPresetFromDraft d))"
    using kv set_qs_set by (fastforce simp: link_params_def Let_def split: if_splits)
  moreover have "ascii (js ''aiRunId'')" by (simp add: ascii_js)
  ultimately show "well_formed k \<and> well_formed v"
    using link_params_ascii [OF assms(1)] assms(2) ascii_well_formed by (auto simp: list_all_iff)
qed

lemma link_params_carries: "carries (link_params d run) d"
  by (simp add: carries_def link_keys_def link_params_def Let_def param_def map_of_qs_set)

lemma param_link_run:
  "param (link_params d run) (js ''aiRunId'') = (if run = [] then Null else Str run)"
proof -
  have "param (params_of (strategyPresetFromDraft d)) (js ''aiRunId'') = Null"
    unfolding preset_object param_preset by (simp add: preset_base_def preset_risk_def)
  then show ?thesis by (simp add: link_params_def Let_def param_def map_of_qs_set split: option.splits)
qed

lemma link_search: "strategyPresetSearchFromDraft d = query_string (link_params d [])"
  by (simp add: strategyPresetSearchFromDraft_def link_params_def)

text \<open>
  C20: The link to the strategy form is faithful. Opening the form by the query that
  \<^verbatim>\<open>strategyPresetSearchFromDraft\<close> prints for a draft yields a preset marked as coming from the AI, in
  which every value is the printed one: each text and number of the form prints as the parameter of the
  link, the positions and the risk caps are those of the draft after normalisation, and no run is set. The
  clamping of the form changes nothing that the link's clamping has left.
\<close>

theorem link_opens_preset:
  assumes "doubles d" and "p = parseStrategyPreset (parse_query (strategyPresetSearchFromDraft d))"
  shows "fld p ''isPreset'' = Bool True \<and>
    (\<forall>k \<in> {''name'', ''kind'', ''execSymbol'', ''positionLevel'', ''openPositionStopTime'', ''orderGroupMargin'',
       ''stopProfitRate'', ''stopLossRate'', ''profitRateAfterAtAddPosition'', ''createCostOrderInProfit''}.
       Str (to_str (fld p k)) = fld (strategyPresetFromDraft d) k) \<and>
    json_stringify (fld p ''createPositions'') = to_str (fld (strategyPresetFromDraft d) ''createPositions'') \<and>
    fld p ''risk'' = normalizeRiskCaps (fld d ''riskCaps'') \<and> fld p ''aiRunId'' = Str []"
proof -
  have p: "p = parseStrategyPreset (link_params d [])"
    using link_params_read [OF assms(1), of "[]"] by (simp add: assms(2) link_search well_formed_def)
  note o = opened_fields [OF link_params_carries assms(1), of "[]", folded p]
  show ?thesis
    using symbol_text(1)
    by (simp add: preset_object preset_base_def o param_link_run draft_risk_def js_or_def del: num_to_string.simps)
qed

lemma sample_doubles: "doubles (sample_draft 200 5)"
  by (simp add: sample_draft_def fl_numeral)

theorem link_opens_preset_witness:
  "to_str (fld (parseStrategyPreset (parse_query (strategyPresetSearchFromDraft (sample_draft 200 5)))) ''positionLevel'') = js ''5'' \<and>
   fld (parseStrategyPreset (parse_query (strategyPresetSearchFromDraft (sample_draft 200 5)))) ''risk'' =
     obj [(''maxPositionUsd'', N 200), (''maxLeverage'', N 5), (''dailyLossCapUsd'', N 10)]"
proof -
  have r: "normalizeRiskCaps (fld (sample_draft 200 5) ''riskCaps'') =
      obj [(''maxPositionUsd'', N 200), (''maxLeverage'', N 5), (''dailyLossCapUsd'', N 10)]"
    by (simp add: sample_draft_def normalizeRiskCaps_def Let_def clampNumber_def)
  have "\<lfloor>11 / 2 :: rat\<rfloor> = 5" by (rule floor_unique; simp)
  then have "draft_level (sample_draft 200 5) = Fin 5"
    by (simp add: draft_level_def leverage_cap_def draft_risk_def r) (simp add: draft_params_def sample_draft_def clampInt_def clampNumber_def)
  moreover have "num_to_string (Fin 5) = js ''5''"
    using num_to_string_int [of 5] by (simp add: int_to_string_def nat_digits.simps js_def)
  ultimately show ?thesis
    using link_opens_preset [OF sample_doubles refl] r
    by (simp add: preset_object preset_base_def del: to_str.simps(4) num_to_string.simps)
qed

end
