(* ===== verification/Option_Form.thy ===== *)
theory Option_Form
  imports Preset_Link Money_Page
begin

section \<open>The strategy form\<close>

text \<open>
  \<^verbatim>\<open>NewStrategyPage\<close> of \<^verbatim>\<open>src/client/app/(dashboard)/option/page.tsx\<close>: the form that creates a strategy,
  blank or filled from the query of an AI draft. The state is that of the component's hooks, of the
  activity log, the calls made and the addresses pushed. \<open>submit\<close> is the handler up to its first
  \<^verbatim>\<open>await\<close>; \<open>answer\<close> goes on with the gateway's answers. While a call is pending the fields may be
  edited and the query may change; the handler keeps the values of the render it was called in.

  The \<open>call\<close>s are those of the AI Money page. The browser's check of the required inputs happens before
  a submission and is not modelled; the submit button is disabled for prediction strategies and, being in
  its loading state, while \<open>busy\<close> is set.
\<close>


subsection \<open>State\<close>

record option_form =
  searchParams :: "(jstr \<times> jstr) list"
  kind :: jsval
  name :: jsval
  positionLevel :: jsval
  openPositionStopTime :: jsval
  execSymbol :: jsval
  orderGroupMargin :: jsval
  stopProfitRate :: jsval
  stopLossRate :: jsval
  profitRateAfterAtAddPosition :: jsval
  createCostOrderInProfit :: jsval
  positions :: "jsval list"
  riskMaxPositionUsd :: jsval
  riskMaxLeverage :: jsval
  riskDailyLossCapUsd :: jsval
  userEmail :: jstr
  userApiKey :: jstr
  userSecretKey :: jstr
  form_error :: "thrown option"
  form_busy :: bool

definition aiPreset :: "option_form \<Rightarrow> jsval" where
  "aiPreset f = parseStrategyPreset (searchParams f)"

definition initial_form :: "(jstr \<times> jstr) list \<Rightarrow> option_form" where
  "initial_form q =
     (let p = parseStrategyPreset q
      in \<lparr>searchParams = q, kind = fld p ''kind'', name = fld p ''name'', positionLevel = fld p ''positionLevel'',
          openPositionStopTime = fld p ''openPositionStopTime'', execSymbol = fld p ''execSymbol'',
          orderGroupMargin = fld p ''orderGroupMargin'', stopProfitRate = fld p ''stopProfitRate'',
          stopLossRate = fld p ''stopLossRate'',
          profitRateAfterAtAddPosition = fld p ''profitRateAfterAtAddPosition'',
          createCostOrderInProfit = fld p ''createCostOrderInProfit'',
          positions = elems (fld p ''createPositions''),
          riskMaxPositionUsd = coalesce (fld (fld p ''risk'') ''maxPositionUsd'') (N 0),
          riskMaxLeverage = coalesce (fld (fld p ''risk'') ''maxLeverage'') (N 0),
          riskDailyLossCapUsd = coalesce (fld (fld p ''risk'') ''dailyLossCapUsd'') (N 0),
          userEmail = [], userApiKey = [], userSecretKey = [], form_error = None, form_busy = False\<rparr>)"

definition credentialRequired :: "option_form \<Rightarrow> bool" where
  "credentialRequired f \<longleftrightarrow> \<not> truthy (fld (aiPreset f) ''isPreset'')"

subsection \<open>Editing\<close>

definition addRow :: "option_form \<Rightarrow> option_form" where
  "addRow f = f\<lparr>positions := positions f @ [obj [(''marginRate'', N 0), (''lossAddRate'', N 0)]]\<rparr>"

definition removeRow :: "nat \<Rightarrow> option_form \<Rightarrow> option_form" where
  "removeRow idx f =
     f\<lparr>positions := map snd (filter (\<lambda>(i, _). i \<noteq> idx) (enumerate 0 (positions f)))\<rparr>"

definition patchRow :: "nat \<Rightarrow> jsval \<Rightarrow> option_form \<Rightarrow> option_form" where
  "patchRow idx patch f =
     f\<lparr>positions := map (\<lambda>(i, r). if i = idx then merge r patch else r) (enumerate 0 (positions f))\<rparr>"

text \<open>
  The inputs of the form. A number input passes its value through \<^verbatim>\<open>Number\<close>; the button of a row is
  disabled when it is the last one; the kind is chosen from the selected keys, if there is one.
\<close>

datatype number_field =
    Level | Stop_Time | Margin | Profit_Rate | Loss_Rate | Added_Rate | Max_Position | Max_Leverage | Loss_Cap

datatype edit =
    Choose_Kind "jstr option"
  | Type_Name jstr
  | Type_Symbol jstr
  | Set_Number number_field jsval
  | Switch_Cost bool
  | Add_Row
  | Remove_Row nat
  | Set_Margin nat jsval
  | Set_Loss_Add nat jsval
  | Type_Email jstr
  | Type_Key jstr
  | Type_Secret jstr
  | New_Query "(jstr \<times> jstr) list"

fun set_number :: "number_field \<Rightarrow> jsval \<Rightarrow> option_form \<Rightarrow> option_form" where
  "set_number Level v f = f\<lparr>positionLevel := v\<rparr>"
| "set_number Stop_Time v f = f\<lparr>openPositionStopTime := v\<rparr>"
| "set_number Margin v f = f\<lparr>orderGroupMargin := v\<rparr>"
| "set_number Profit_Rate v f = f\<lparr>stopProfitRate := v\<rparr>"
| "set_number Loss_Rate v f = f\<lparr>stopLossRate := v\<rparr>"
| "set_number Added_Rate v f = f\<lparr>profitRateAfterAtAddPosition := v\<rparr>"
| "set_number Max_Position v f = f\<lparr>riskMaxPositionUsd := v\<rparr>"
| "set_number Max_Leverage v f = f\<lparr>riskMaxLeverage := v\<rparr>"
| "set_number Loss_Cap v f = f\<lparr>riskDailyLossCapUsd := v\<rparr>"

fun edit_form :: "edit \<Rightarrow> option_form \<Rightarrow> option_form" where
  "edit_form (Choose_Kind k) f = (case k of Some k \<Rightarrow> if k = [] then f else f\<lparr>kind := Str k\<rparr> | None \<Rightarrow> f)"
| "edit_form (Type_Name s) f = f\<lparr>name := Str s\<rparr>"
| "edit_form (Type_Symbol s) f = f\<lparr>execSymbol := Str s\<rparr>"
| "edit_form (Set_Number k v) f = set_number k (Num (to_num v)) f"
| "edit_form (Switch_Cost b) f = f\<lparr>createCostOrderInProfit := Bool b\<rparr>"
| "edit_form Add_Row f = addRow f"
| "edit_form (Remove_Row i) f = (if length (positions f) \<le> 1 then f else removeRow i f)"
| "edit_form (Set_Margin i v) f = patchRow i (obj [(''marginRate'', Num (to_num v))]) f"
| "edit_form (Set_Loss_Add i v) f = patchRow i (obj [(''lossAddRate'', Num (to_num v))]) f"
| "edit_form (Type_Email s) f = f\<lparr>userEmail := s\<rparr>"
| "edit_form (Type_Key s) f = f\<lparr>userApiKey := s\<rparr>"
| "edit_form (Type_Secret s) f = f\<lparr>userSecretKey := s\<rparr>"
| "edit_form (New_Query q) f = f\<lparr>searchParams := q\<rparr>"

subsection \<open>Submission\<close>

definition form_risk :: "option_form \<Rightarrow> jsval" where
  "form_risk f =
     (if num_lt (Fin 0) (to_num (riskMaxPositionUsd f)) \<and> num_lt (Fin 0) (to_num (riskMaxLeverage f)) \<and>
         num_lt (Fin 0) (to_num (riskDailyLossCapUsd f))
      then obj [(''maxPositionUsd'', riskMaxPositionUsd f), (''maxLeverage'', riskMaxLeverage f),
                (''dailyLossCapUsd'', riskDailyLossCapUsd f)]
      else Undef)"

definition credentialPatch :: "option_form \<Rightarrow> jsval" where
  "credentialPatch f =
     (let c = obj [];
          c = (if trim (userEmail f) \<noteq> [] then spread c [(''userEmail'', Str (trim (userEmail f)))] else c);
          c = (if trim (userApiKey f) \<noteq> [] then spread c [(''userApiKey'', Str (trim (userApiKey f)))] else c)
      in if trim (userSecretKey f) \<noteq> [] then spread c [(''userSecretKey'', Str (trim (userSecretKey f)))] else c)"

definition form_payload :: "option_form \<Rightarrow> jsval" where
  "form_payload f =
     merge
       (merge
          (merge
             (obj [(''name'', name f), (''positionLevel'', positionLevel f),
                   (''openPositionStopTime'', openPositionStopTime f), (''execSymbol'', execSymbol f),
                   (''orderGroupMargin'', orderGroupMargin f), (''stopProfitRate'', stopProfitRate f),
                   (''stopLossRate'', stopLossRate f),
                   (''profitRateAfterAtAddPosition'', profitRateAfterAtAddPosition f),
                   (''createCostOrderInProfit'', createCostOrderInProfit f),
                   (''createPositions'', Arr (positions f))])
             (credentialPatch f))
          (if truthy (fld (aiPreset f) ''aiRunId'') then obj [(''aiRunId'', fld (aiPreset f) ''aiRunId'')] else obj []))
       (if truthy (form_risk f) then obj [(''risk'', form_risk f)] else obj [])"

text \<open>
  A submission waits for the answer to \<^verbatim>\<open>createOption\<close>, with the identifier of its log entry and the
  preset of its render, and then perhaps for that to \<^verbatim>\<open>updateAIGoalRunAction\<close>, with the address to open.
\<close>

datatype phase = Creating jstr jsval | Syncing jstr

record option_session =
  form :: option_form
  activity_log :: activity
  calls :: "call list"
  pushed :: "jstr list"
  pending :: "phase option"

definition new_session :: "(jstr \<times> jstr) list \<Rightarrow> activity \<Rightarrow> option_session" where
  "new_session q st = \<lparr>form = initial_form q, activity_log = st, calls = [], pushed = [], pending = None\<rparr>"

definition can_submit :: "option_form \<Rightarrow> bool" where
  "can_submit f \<longleftrightarrow> kind f \<noteq> S ''polymarket_event'' \<and> \<not> form_busy f"

definition submit :: "moment \<Rightarrow> option_session \<Rightarrow> option_session" where
  "submit m s =
     (let f = form s
      in s\<lparr>form := f\<lparr>form_error := None, form_busy := True\<rparr>,
           activity_log := push (new_id m) (now_ms m)
             (obj [(''kind'', S ''other''), (''label'', Str ([26032, 24314, 31574, 30053, 32, 45, 32] @ to_str (js_or (name f) (Str [26410, 21629, 21517])))),
                   (''detail'', execSymbol f)]) (activity_log s),
           calls := calls s @ [CreateOption (form_payload f)],
           pending := Some (Creating (new_id m) (aiPreset f))\<rparr>)"

definition finish :: "thrown + jstr \<Rightarrow> option_session \<Rightarrow> option_session" where
  "finish r s =
     (case r of
        Inr href \<Rightarrow> s\<lparr>pushed := pushed s @ [href], form := (form s)\<lparr>form_busy := False\<rparr>, pending := None\<rparr>
      | Inl e \<Rightarrow> s\<lparr>form := (form s)\<lparr>form_error := Some e, form_busy := False\<rparr>, pending := None\<rparr>)"

definition created :: "jsval \<Rightarrow> jsval \<Rightarrow> option_session \<Rightarrow> option_session" where
  "created preset response s =
     (let href = optionCreateRedirectHref (fld preset ''isPreset'') response (fld preset ''aiRunId'');
          handoff = strategyActionPatchFromOptionPresetCreate preset response (Str href)
      in if truthy handoff
         then s\<lparr>calls := calls s @
                  [UpdateAction (fld handoff ''runId'') (to_str (fld handoff ''actionId'')) (fld handoff ''patch'')],
                pending := Some (Syncing href)\<rparr>
         else finish (Inr href) s)"

fun answer :: "reply \<Rightarrow> option_session \<Rightarrow> option_session" where
  "answer (Reply r m) s =
     (case pending s of
        None \<Rightarrow> s
      | Some (Creating i preset) \<Rightarrow>
          let s = s\<lparr>activity_log := update i (outcome_patch r) (now_ms m) (activity_log s)\<rparr>
          in (case r of Inr response \<Rightarrow> created preset response s | Inl e \<Rightarrow> finish (Inl e) s)
      | Some (Syncing href) \<Rightarrow> finish (Inr href) s)"

datatype form_event = Edit edit | Submit moment | Answer reply

fun form_step :: "form_event \<Rightarrow> option_session \<Rightarrow> option_session" where
  "form_step (Edit e) s = s\<lparr>form := edit_form e (form s)\<rparr>"
| "form_step (Submit m) s = (if can_submit (form s) then submit m s else s)"
| "form_step (Answer r) s = answer r s"

definition form_run :: "form_event list \<Rightarrow> option_session \<Rightarrow> option_session" where
  "form_run es s = fold form_step es s"

end
