(* ===== verification/Option_Properties.thy ===== *)
theory Option_Properties
  imports Option_Form
begin

section \<open>Properties of the strategy form\<close>

text \<open>
  What the form makes of the link to a draft, how a submission ends whatever is edited meanwhile, and
  which defaults a blank form has.
\<close>

subsection \<open>The link with its run\<close>

lemma query_string_units: "list_all (\<lambda>(k, v). well_formed k \<and> well_formed v) kvs \<Longrightarrow>
   c \<in> set (query_string kvs) \<Longrightarrow> \<not> is_ws c"
proof -
  have enc: "\<not> is_ws c" if "well_formed s" "c \<in> set (form_encode s)" for s c
  proof -
    from that obtain u where u: "Some u \<in> set (code_points s)" "c \<in> set (form_unit u)"
      by (auto simp: well_formed_def form_encode_eq) (metis option.exhaust_sel)
    then have "u < 1114112" using that(1) code_points_bound by (auto simp: well_formed_def)
    from form_unit_clean [OF this] u(2) have "form_char c" by (simp add: list_all_iff)
    then show ?thesis by (auto simp: form_char_def is_alnum_def is_digit_def is_ws_def)
  qed
  have join: "c \<in> set (join [38] ss) \<Longrightarrow> c = 38 \<or> (\<exists>s \<in> set ss. c \<in> set s)" for ss and c :: nat
    by (induction "[38 :: nat]" ss rule: join.induct) auto
  assume kvs: "list_all (\<lambda>(k, v). well_formed k \<and> well_formed v) kvs" "c \<in> set (query_string kvs)"
  then consider "c = 38" | k v where "(k, v) \<in> set kvs" "c \<in> set (form_encode k @ 61 # form_encode v)"
    using join [of c "map (\<lambda>(k, v). form_encode k @ 61 # form_encode v) kvs"] by (auto simp: query_string_def)
  then show "\<not> is_ws c"
  proof cases
    case 2
    then have "well_formed k" "well_formed v" using kvs(1) by (auto simp: list_all_iff)
    moreover have "c \<in> set (form_encode k) \<or> c = 61 \<or> c \<in> set (form_encode v)" using 2 by auto
    moreover have "\<not> is_ws 61" by (simp add: is_ws_def)
    ultimately show ?thesis using enc by blast
  qed (simp add: is_ws_def)
qed

lemma trim_link: "doubles d \<Longrightarrow>
   trim (js ''/option?'' @ strategyPresetSearchFromDraft d) = js ''/option?'' @ strategyPresetSearchFromDraft d"
proof (rule trim_clean)
  assume d: "doubles d"
  have "list_all (\<lambda>(k, v). well_formed k \<and> well_formed v) (params_of (strategyPresetFromDraft d))"
    using link_params_ascii [OF d] ascii_well_formed by (auto simp: list_all_iff)
  from query_string_units [OF this] have "list_all (\<lambda>c. \<not> is_ws c) (strategyPresetSearchFromDraft d)"
    by (auto simp: strategyPresetSearchFromDraft_def list_all_iff)
  moreover have "list_all (\<lambda>c. \<not> is_ws c) (js ''/option?'')" by (simp add: js_def is_ws_def)
  ultimately show "list_all (\<lambda>c. \<not> is_ws c) (js ''/option?'' @ strategyPresetSearchFromDraft d)" by simp
qed

lemma link_href:
  assumes "doubles d" and "trim run = run"
    and "url (js ''/option?'' @ strategyPresetSearchFromDraft d) =
      Some (js ''/option'', parse_query (strategyPresetSearchFromDraft d))"
  shows "strategyHrefWithAIRunId (Str (js ''/option?'' @ strategyPresetSearchFromDraft d)) (Str run) url =
    Str (js ''/option?'' @ query_string (link_params d run))"
proof -
  have "parse_query (strategyPresetSearchFromDraft d) = params_of (strategyPresetFromDraft d)"
    using link_params_read [OF assms(1), of "[]"] by (simp add: link_search well_formed_def link_params_def Let_def)
  then show ?thesis
    using assms(2,3) trim_link [OF assms(1)]
    by (cases "run = []")
      (simp_all add: strategyHrefWithAIRunId_def Let_def js_or_def link_params_def strategyPresetSearchFromDraft_def, simp_all add: js_def)
qed

subsection \<open>The payload\<close>

lemma merge_empty: "merge (obj kvs) (obj []) = obj kvs"
  by (simp_all add: merge_def obj_def put_all_def)

definition draft_payload :: "jsval \<Rightarrow> jstr \<Rightarrow> jsval" where
  "draft_payload d run =
     merge
       (merge
          (obj [(''name'', Str (normalizeName (fld d ''name'') (fld d ''symbol''))),
             (''positionLevel'', Num (draft_level d)), (''openPositionStopTime'', Num (draft_stop_time d)),
             (''execSymbol'', normalizeSymbol (fld d ''symbol'')), (''orderGroupMargin'', Num (draft_margin d)),
             (''stopProfitRate'', rate d ''stopProfitRate'' (3 / 100)), (''stopLossRate'', rate d ''stopLossRate'' (1 / 20)),
             (''profitRateAfterAtAddPosition'', rate d ''profitRateAfterAtAddPosition'' (1 / 100)),
             (''createCostOrderInProfit'', Bool (truthy (fld (draft_params d) ''createCostOrderInProfit''))),
             (''createPositions'', draft_rows d)])
          (if run \<noteq> [] then obj [(''aiRunId'', Str run)] else obj []))
       (if truthy (draft_risk d) then obj [(''risk'', draft_risk d)] else obj [])"

lemma preset_values:
  assumes "doubles d"
  defines "p \<equiv> strategyPresetFromDraft d"
  shows "fld p ''name'' = Str (normalizeName (fld d ''name'') (fld d ''symbol''))"
    and "Num (to_num (fld p ''positionLevel'')) = Num (draft_level d)"
    and "Num (to_num (fld p ''openPositionStopTime'')) = Num (draft_stop_time d)"
    and "fld p ''execSymbol'' = normalizeSymbol (fld d ''symbol'')"
    and "Num (to_num (fld p ''orderGroupMargin'')) = Num (draft_margin d)"
    and "Num (to_num (fld p ''stopProfitRate'')) = rate d ''stopProfitRate'' (3 / 100)"
    and "Num (to_num (fld p ''stopLossRate'')) = rate d ''stopLossRate'' (1 / 20)"
    and "Num (to_num (fld p ''profitRateAfterAtAddPosition'')) = rate d ''profitRateAfterAtAddPosition'' (1 / 100)"
    and "(fld p ''createCostOrderInProfit'' = S ''true'') = truthy (fld (draft_params d) ''createCostOrderInProfit'')"
    and "readPositions (fld p ''createPositions'') = draft_rows d"
    and "normalizeRiskCaps (obj [(''maxPositionUsd'', fld p ''riskMaxPositionUsd''),
       (''maxLeverage'', fld p ''riskMaxLeverage''), (''dailyLossCapUsd'', fld p ''riskDailyLossCapUsd'')]) = draft_risk d"
proof -
  have r: "Num (to_num (Str (to_str (rate d k f)))) = rate d k f" if "k \<noteq> ''length''" "1 / 2 ^ 10 \<le> f" "f \<le> 1 / 2" for k f
    using printed_again(2) [OF rate_ok [OF assms(1) that]] .
  note look = p_def preset_object preset_base_def
  show "fld p ''name'' = Str (normalizeName (fld d ''name'') (fld d ''symbol''))"
    and "Num (to_num (fld p ''positionLevel'')) = Num (draft_level d)"
    and "Num (to_num (fld p ''openPositionStopTime'')) = Num (draft_stop_time d)"
    and "fld p ''execSymbol'' = normalizeSymbol (fld d ''symbol'')"
    and "Num (to_num (fld p ''orderGroupMargin'')) = Num (draft_margin d)"
    and "(fld p ''createCostOrderInProfit'' = S ''true'') = truthy (fld (draft_params d) ''createCostOrderInProfit'')"
    and "readPositions (fld p ''createPositions'') = draft_rows d"
    using draft_level_read(2) [OF assms(1)] draft_margin_read(2) [OF assms(1)] draft_stop_time_read(2)
      readPositions_again [OF draft_rows_ok [OF assms(1)]]
    by (simp_all add: look del: to_num.simps)
  show "Num (to_num (fld p ''stopProfitRate'')) = rate d ''stopProfitRate'' (3 / 100)"
    and "Num (to_num (fld p ''stopLossRate'')) = rate d ''stopLossRate'' (1 / 20)"
    and "Num (to_num (fld p ''profitRateAfterAtAddPosition'')) = rate d ''profitRateAfterAtAddPosition'' (1 / 100)"
    using r by (simp_all add: look del: to_num.simps)
  show "normalizeRiskCaps (obj [(''maxPositionUsd'', fld p ''riskMaxPositionUsd''),
       (''maxLeverage'', fld p ''riskMaxLeverage''), (''dailyLossCapUsd'', fld p ''riskDailyLossCapUsd'')]) = draft_risk d"
    using draft_risk_cases [OF assms(1)] risk_again no_risk(2) risk_truthy
    by (auto simp: look preset_risk_def)
qed

lemma option_payload_draft:
  assumes "doubles d" and "fld d ''kind'' = S ''grid_dca''" and "trim run = run"
  shows "optionPayloadFromStrategyDraft d (Str run) = draft_payload d run"
proof -
  have "trim (to_str (js_or (dflt (Str run) (Str [])) (Str []))) = run"
    using assms(3) by (simp add: dflt_def js_or_def)
  note r = this
  have k: "to_str (js_or (fld d ''kind'') (Str [])) = js ''grid_dca''" by (simp add: assms(2) js_or_def)
  show ?thesis
    unfolding optionPayloadFromStrategyDraft_def Let_def draft_payload_def preset_values [OF assms(1)] r k by simp
qed

lemma form_payload_draft:
  assumes "doubles d" and "trim run = run"
  shows "form_payload (initial_form (link_params d run)) = draft_payload d run"
proof -
  let ?q = "link_params d run" and ?f = "initial_form (link_params d run)"
  note o = opened_fields [OF link_params_carries assms(1), of run]
  have run: "fld (aiPreset ?f) ''aiRunId'' = Str run"
    unfolding aiPreset_def by (simp add: initial_form_def Let_def o param_link_run js_or_def assms(2))
  have cred: "credentialPatch ?f = obj []"
    by (simp add: credentialPatch_def initial_form_def Let_def)
  have rows: "Arr (positions ?f) = draft_rows d"
    using draft_rows_ok [OF assms(1)] by (auto simp: initial_form_def Let_def o position_rows_def)
  have risk: "(if truthy (form_risk ?f) then obj [(''risk'', form_risk ?f)] else obj []) =
      (if truthy (draft_risk d) then obj [(''risk'', draft_risk d)] else obj [])"
    using draft_risk_cases [OF assms(1)]
  proof
    assume "draft_risk d = Null"
    then show ?thesis by (simp add: form_risk_def initial_form_def Let_def o coalesce_def)
  next
    assume "risk_ok (draft_risk d)"
    then obtain a b c where "draft_risk d = obj [(''maxPositionUsd'', N a), (''maxLeverage'', N b), (''dailyLossCapUsd'', N c)]"
      "0 < a" "0 < b" "0 < c" unfolding risk_ok_def by blast
    then show ?thesis by (simp add: form_risk_def initial_form_def Let_def o coalesce_def)
  qed
  show ?thesis
    unfolding form_payload_def draft_payload_def cred risk run rows merge_empty
    by (simp add: initial_form_def Let_def o)
qed

text \<open>
  C12: Opening the form of an AI draft and submitting it unchanged saves what the one-click save of the AI
  page saves: when the link carries the run of the draft, the first call of the form is the creation of
  exactly the payload that \<^verbatim>\<open>optionPayloadFromStrategyDraft\<close> builds. The parser of addresses (\<open>url\<close>) is
  only assumed to split the link at its question mark and to read its query.
\<close>

theorem opened_form_saves_draft:
  assumes "doubles d" and "fld d ''kind'' = S ''grid_dca''" and "well_formed run" and "trim run = run"
    and "url (js ''/option?'' @ strategyPresetSearchFromDraft d) =
      Some (js ''/option'', parse_query (strategyPresetSearchFromDraft d))"
    and "strategyHrefWithAIRunId (Str (js ''/option?'' @ strategyPresetSearchFromDraft d)) (Str run) url =
      Str (js ''/option?'' @ query)"
  shows "calls (submit m (new_session (parse_query query) st)) =
    [CreateOption (optionPayloadFromStrategyDraft d (Str run))]"
proof -
  have q: "query = query_string (link_params d run)"
    using assms(6) link_href [OF assms(1,4), of url, OF assms(5)] by simp
  have "parse_query query = link_params d run" unfolding q by (rule link_params_read [OF assms(1,3)])
  then show ?thesis
    by (simp add: submit_def new_session_def Let_def form_payload_draft [OF assms(1,4)]
        option_payload_draft [OF assms(1,2,4)])
qed

definition grid_draft :: jsval where
  "grid_draft = obj [(''name'', S ''alpha''), (''kind'', S ''grid_dca''), (''symbol'', S ''ETH'')]"

definition local_url :: "jstr \<Rightarrow> (jstr \<times> (jstr \<times> jstr) list) option" where
  "local_url a = Some (takeWhile (\<lambda>c. c \<noteq> 63) a, parse_query (tl (dropWhile (\<lambda>c. c \<noteq> 63) a)))"

lemma local_url_option: "local_url (js ''/option?'' @ s) = Some (js ''/option'', parse_query s)"
  by (simp add: local_url_def js_def)

theorem opened_form_saves_draft_witness:
  "\<exists>query. strategyHrefWithAIRunId (Str (js ''/option?'' @ strategyPresetSearchFromDraft grid_draft)) (S ''run-7'') local_url =
      Str (js ''/option?'' @ query) \<and>
    calls (submit \<lparr>now_ms = 5, new_id = js ''e1''\<rparr> (new_session (parse_query query) demo_activity)) =
      [CreateOption (optionPayloadFromStrategyDraft grid_draft (S ''run-7''))]"
proof -
  have d: "doubles grid_draft" "fld grid_draft ''kind'' = S ''grid_dca''" by (simp_all add: grid_draft_def)
  have t: "trim (js ''run-7'') = js ''run-7''" by (rule trim_clean) (simp add: js_def is_ws_def)
  have w: "well_formed (js ''run-7'')" by (intro ascii_well_formed ascii_js) simp
  note h = link_href [OF d(1) t, of local_url, OF local_url_option]
  show ?thesis
    using h opened_form_saves_draft [OF d w t, of local_url, OF local_url_option h, of "\<lparr>now_ms = 5, new_id = js ''e1''\<rparr>" demo_activity]
    by blast
qed

subsection \<open>How a submission ends\<close>

lemma set_number_keeps [simp]:
  "form_busy (set_number k v f) = form_busy f" "form_error (set_number k v f) = form_error f"
  by (cases k; simp)+

lemma edit_keeps [simp]:
  "form_busy (edit_form e f) = form_busy f" "form_error (edit_form e f) = form_error f"
  by (cases e; simp add: addRow_def removeRow_def patchRow_def split: option.split)+

lemma edits_keep [simp]:
  "form_busy (fold edit_form es f) = form_busy f" "form_error (fold edit_form es f) = form_error f"
  by (induction es arbitrary: f) simp_all

lemma edits_run: "form_run (map Edit es) s = s\<lparr>form := fold edit_form es (form s)\<rparr>"
  unfolding form_run_def by (induction es arbitrary: s) simp_all

lemma form_run_append: "form_run (es @ es') s = form_run es' (form_run es s)"
  by (simp add: form_run_def)

lemma form_run_Cons: "form_run (e # es) s = form_run es (form_step e s)"
  by (simp add: form_run_def)

lemmas form_run_simps = form_run_Cons form_run_append edits_run

text \<open>The address and the hand-over of a created strategy, from the preset of the submission.\<close>

definition opened_href :: "jsval \<Rightarrow> jsval \<Rightarrow> jstr" where
  "opened_href preset response = optionCreateRedirectHref (fld preset ''isPreset'') response (fld preset ''aiRunId'')"

definition handoff_calls :: "jsval \<Rightarrow> jsval \<Rightarrow> call list" where
  "handoff_calls preset response =
     (let handoff = strategyActionPatchFromOptionPresetCreate preset response (Str (opened_href preset response))
      in if truthy handoff
         then [UpdateAction (fld handoff ''runId'') (to_str (fld handoff ''actionId'')) (fld handoff ''patch'')] else [])"

lemma created_cases: "created preset response s =
   (if handoff_calls preset response = [] then finish (Inr (opened_href preset response)) s
    else s\<lparr>calls := calls s @ handoff_calls preset response, pending := Some (Syncing (opened_href preset response))\<rparr>)"
  by (simp add: created_def handoff_calls_def opened_href_def Let_def)

text \<open>
  C23: A submission that the form accepts always ends, and with the values it was made with, whatever is
  edited and whichever query the page shows while it waits. When the strategy is created, the form makes
  one hand-over to the run of the preset (if the preset has one), leaves for the strategy whether the
  hand-over succeeds or fails, and is no longer busy. When the creation fails, the form stays, shows the
  error, keeps every edit and can be submitted again.
\<close>

theorem submission_settles:
  assumes "can_submit (form s)"
    and "done = form_run (Submit m # map Edit during @ Answer (Reply (Inr response) m1) # map Edit after @
      [Answer (Reply synced m2)]) s"
    and "failed = form_run (Submit m # map Edit during @ [Answer (Reply (Inl e) m1)]) s"
  shows "calls done = calls s @ CreateOption (form_payload (form s)) # handoff_calls (aiPreset (form s)) response \<and>
    pushed done = pushed s @ [opened_href (aiPreset (form s)) response] \<and>
    pending done = None \<and> \<not> form_busy (form done) \<and>
    calls failed = calls s @ [CreateOption (form_payload (form s))] \<and> pushed failed = pushed s \<and> pending failed = None \<and>
    form failed = (fold edit_form during ((form s)\<lparr>form_error := None, form_busy := True\<rparr>))
      \<lparr>form_error := Some e, form_busy := False\<rparr>"
  unfolding assms(2,3) form_run_simps using assms(1)
  by (simp add: submit_def Let_def created_cases finish_def form_run_def)

theorem submission_settles_witness:
  "pushed (form_run [Submit \<lparr>now_ms = 5, new_id = js ''e1''\<rparr>, Edit Add_Row,
      Answer (Reply (Inr (obj [(''value'', obj [(''id'', S ''s1'')])])) \<lparr>now_ms = 6, new_id = js ''e2''\<rparr>),
      Answer (Reply (Inl (Thrown_Error [])) \<lparr>now_ms = 7, new_id = js ''e3''\<rparr>)] (new_session [] demo_activity)) =
    [js ''/strategies'']"
proof -
  have c: "can_submit (form (new_session [] demo_activity))"
    by (simp add: can_submit_def new_session_def initial_form_def Let_def form_fields normalizeKind_def param_def)
  have h: "opened_href (aiPreset (form (new_session [] demo_activity))) r = js ''/strategies''" for r
    by (simp add: opened_href_def aiPreset_def new_session_def initial_form_def Let_def form_fields param_def
        optionCreateRedirectHref_def dflt_def)
  show ?thesis
    using submission_settles [OF c refl refl, of "\<lparr>now_ms = 5, new_id = js ''e1''\<rparr>" "[Add_Row]"
        "obj [(''value'', obj [(''id'', S ''s1'')])]" "\<lparr>now_ms = 6, new_id = js ''e2''\<rparr>" "[]"
        "Inl (Thrown_Error [])" "\<lparr>now_ms = 7, new_id = js ''e3''\<rparr>"]
    unfolding h by (simp add: new_session_def)
qed

subsection \<open>The blank form\<close>

text \<open>
  C40: A blank form does not open with the defaults. \<^verbatim>\<open>parseStrategyPreset\<close> passes \<open>DEFAULT_PRESET\<close> as the
  fallback of every number, but a parameter that is missing reads as \<open>null\<close>, which is the number 0 and in
  range wherever 0 is: the stop rates, the time limit and the margin open as 0 instead of 0.05, 0.05, 0.02,
  30 and 100. Only the leverage, whose range starts at 1, falls back. The name opens as \<^verbatim>\<open>aiai\<close>, not empty.
\<close>

theorem blank_form_loses_defaults:
  "stopProfitRate (initial_form []) = N 0 \<and> stopLossRate (initial_form []) = N 0 \<and>
   profitRateAfterAtAddPosition (initial_form []) = N 0 \<and> openPositionStopTime (initial_form []) = N 0 \<and>
   orderGroupMargin (initial_form []) = N 0 \<and> positionLevel (initial_form []) = fld DEFAULT_PRESET ''positionLevel'' \<and>
   name (initial_form []) = S ''aiai'' \<and>
   list_all (\<lambda>k. fld DEFAULT_PRESET k \<noteq> N 0) [''stopProfitRate'', ''stopLossRate'', ''profitRateAfterAtAddPosition'',
     ''openPositionStopTime'', ''orderGroupMargin'']"
proof -
  have r: "riskCapsFromSearchParams [] = Null" by (simp add: riskCapsFromSearchParams_def param_def no_risk)
  have n: "normalizeName (Str []) Undef = js ''aiai''"
    by (simp add: normalizeName_eq js_or_def dflt_def s_or_def Let_def) (simp add: js_def s_or_def Let_def trim_def is_ws_def lower_def lower_unit_def name_unit_def is_lower_unit_def)
  have p: "param [] k = Null" for k by (simp add: param_def)
  have f: "\<lfloor>11 / 2 :: rat\<rfloor> = 5" by (rule floor_unique; simp)
  have "fl (1 / 20) \<noteq> Fin 0" "fl (1 / 50) \<noteq> Fin 0"
    using fl_fraction [of "1 / 20"] fl_fraction [of "1 / 50"] by auto
  then have z: "list_all (\<lambda>k. fld DEFAULT_PRESET k \<noteq> N 0) [''stopProfitRate'', ''stopLossRate'', ''profitRateAfterAtAddPosition'',
     ''openPositionStopTime'', ''orderGroupMargin'']"
    by (simp add: DEFAULT_PRESET_def)
  show ?thesis
    using z by (simp add: initial_form_def Let_def form_fields p r n js_or_def clampNumber_def clampInt_def
        form_level_cap_def form_margin_cap_def default_fields f)
qed

end
