(* ===== verification/Ws_Streams.thy ===== *)
theory Ws_Streams
  imports Ws_Properties Js_Ops
begin

section \<open>The stream hooks\<close>

text \<open>
  The public hooks of \<^verbatim>\<open>src/client/data/ws-client.ts\<close>: each subscribes a listener to one topic and
  identifier and keeps what it is told in the state of a component. A hook is the record of its
  \<^verbatim>\<open>useState\<close> cells, its listener a function on that record, its effect the change of the
  subscription when the identifier changes. At the end the hub and a hook run together: what a
  listener is told over any run of the hub, and what the hook then shows.
\<close>

subsection \<open>The buffer of events\<close>

definition push_event :: "nat \<Rightarrow> jsval \<Rightarrow> jsval list \<Rightarrow> jsval list" where
  "push_event bufferSize ev prev = take bufferSize (ev # prev)"

interpretation buffer: capped_list "push_event n" "\<lambda>_ _. False" n for n
  by unfold_locales (simp add: push_event_def)

text \<open>\<^verbatim>\<open>events[0] ?? null\<close>\<close>

definition newest :: "jsval list \<Rightarrow> jsval" where
  "newest evs = coalesce (item_at evs 0) Null"

definition payload_of :: "jsval \<Rightarrow> jsval" where
  "payload_of ev = coalesce (fld ev ''payload'') (obj [])"

text \<open>\<^verbatim>\<open>if (typeof payload[k] === "number") set(payload[k])\<close>\<close>

definition number_or :: "jsval \<Rightarrow> jsval \<Rightarrow> jsval" where
  "number_or v old = (if is_num v then v else old)"

subsection \<open>\<open>useAccountStream\<close>\<close>

record account_stream =
  account_events :: "jsval list"
  account_connected :: bool
  account_notice :: jsval

definition new_account_stream :: account_stream where
  "new_account_stream = \<lparr>account_events = [], account_connected = False, account_notice = Null\<rparr>"

definition on_account_event :: "nat \<Rightarrow> jsval \<Rightarrow> account_stream \<Rightarrow> account_stream" where
  "on_account_event bufferSize ev s =
     (let s = (if fld ev ''type'' = S ''account.event'' then s\<lparr>account_connected := True\<rparr> else s);
          s = (if fld ev ''type'' = S ''account.upstream_closed'' then s\<lparr>account_connected := False\<rparr> else s);
          s = (if fld ev ''type'' = S ''notice'' \<and> is_str (fld ev ''message'')
               then s\<lparr>account_notice := fld ev ''message''\<rparr> else s)
      in s\<lparr>account_events := push_event bufferSize ev (account_events s)\<rparr>)"

definition leave_account :: "account_stream \<Rightarrow> account_stream" where
  "leave_account s = s\<lparr>account_connected := False, account_notice := Null\<rparr>"

subsection \<open>\<open>useBacktestStream\<close>\<close>

record backtest_stream =
  backtest_events :: "jsval list"
  backtest_progress :: jsval
  backtest_state :: jsval
  backtest_completed :: bool

definition new_backtest_stream :: backtest_stream where
  "new_backtest_stream = \<lparr>backtest_events = [], backtest_progress = N 0, backtest_state = Null,
     backtest_completed = False\<rparr>"

definition on_backtest_event :: "nat \<Rightarrow> jsval \<Rightarrow> backtest_stream \<Rightarrow> backtest_stream" where
  "on_backtest_event bufferSize ev s =
     (let payload = payload_of ev
      in s\<lparr>backtest_progress := number_or (fld payload ''progress'') (backtest_progress s),
           backtest_state := number_or (fld payload ''state'') (backtest_state s),
           backtest_completed := backtest_completed s \<or> fld ev ''type'' = S ''backtest.completed'',
           backtest_events := push_event bufferSize ev (backtest_events s)\<rparr>)"

subsection \<open>\<open>useStrategyStream\<close>\<close>

record strategy_stream =
  strategy_events :: "jsval list"
  strategy_connected :: bool

definition new_strategy_stream :: strategy_stream where
  "new_strategy_stream = \<lparr>strategy_events = [], strategy_connected = False\<rparr>"

text \<open>
  \<^verbatim>\<open>ev.type.startsWith\<close> throws when the type is missing or no string; the state is then unchanged.
\<close>

datatype listener_error = TypeError

definition on_strategy_event :: "nat \<Rightarrow> jsval \<Rightarrow> strategy_stream \<Rightarrow> listener_error + strategy_stream" where
  "on_strategy_event bufferSize ev s =
     (if \<not> is_str (fld ev ''type'') then Inl TypeError
      else let s = (if starts_with (str_val (fld ev ''type'')) (js ''event.order.'')
                    then s\<lparr>strategy_connected := True\<rparr> else s);
               s = (if fld ev ''type'' = S ''strategy.upstream_closed''
                    then s\<lparr>strategy_connected := False\<rparr> else s)
           in Inr (s\<lparr>strategy_events := push_event bufferSize ev (strategy_events s)\<rparr>))"

definition leave_strategy :: "strategy_stream \<Rightarrow> strategy_stream" where
  "leave_strategy s = s\<lparr>strategy_connected := False\<rparr>"

subsection \<open>\<open>useOptimizationStream\<close>\<close>

record optimization_stream =
  study_events :: "jsval list"
  trialsCompleted :: jsval
  trialsTotal :: jsval
  bestValue :: jsval
  costUsd :: jsval
  study_state :: jsval
  recommendationId :: jsval

definition new_optimization_stream :: optimization_stream where
  "new_optimization_stream = \<lparr>study_events = [], trialsCompleted = N 0, trialsTotal = N 0, bestValue = N 0,
     costUsd = N 0, study_state = Null, recommendationId = Null\<rparr>"

definition on_optimization_event :: "nat \<Rightarrow> jsval \<Rightarrow> optimization_stream \<Rightarrow> optimization_stream" where
  "on_optimization_event bufferSize ev s =
     (let payload = payload_of ev
      in s\<lparr>trialsCompleted := number_or (fld payload ''trials_completed'') (trialsCompleted s),
           trialsTotal := number_or (fld payload ''trials_total'') (trialsTotal s),
           bestValue := number_or (fld payload ''best_value'') (bestValue s),
           costUsd := number_or (fld payload ''current_cost_usd'') (costUsd s),
           study_state := number_or (fld payload ''state'') (study_state s),
           recommendationId :=
             (if fld ev ''type'' = S ''optimization.suggested'' \<and> is_str (fld payload ''recommendation_id'')
              then fld payload ''recommendation_id'' else recommendationId s),
           study_events := push_event bufferSize ev (study_events s)\<rparr>)"

definition study_progress :: "optimization_stream \<Rightarrow> jsnum" where
  "study_progress s =
     (if num_lt (Fin 0) (num_val (trialsTotal s))
      then num_div (num_val (trialsCompleted s)) (num_val (trialsTotal s)) else Fin 0)"

subsection \<open>The effect\<close>

text \<open>
  When the identifier changes, React runs the clean-up of the old subscription and then the effect
  for the new one; a falsy identifier has no subscription. The listener is a new function each time.
\<close>

definition leave_stream :: "WsTopic \<Rightarrow> jsval \<Rightarrow> listener \<Rightarrow> hub \<Rightarrow> hub" where
  "leave_stream t i l h = (if truthy i then unsubscribe t (to_str i) l h else h)"

definition enter_stream :: "WsTopic \<Rightarrow> jsval \<Rightarrow> listener \<Rightarrow> hub \<Rightarrow> hub" where
  "enter_stream t i l h = (if truthy i then subscribe t (to_str i) l h else h)"

definition change_stream :: "WsTopic \<Rightarrow> jsval \<Rightarrow> listener \<Rightarrow> jsval \<Rightarrow> listener \<Rightarrow> hub \<Rightarrow> hub" where
  "change_stream t i l i' l' h = enter_stream t i' l' (leave_stream t i l h)"

end
