(* ===== verification/Stream_Properties.thy ===== *)
theory Stream_Properties
  imports Ws_Streams "HOL-Library.Sublist"
begin

section \<open>What a stream hook shows\<close>

text \<open>
  The hub and the hooks together: which of the frames that concern its subscription a mounted listener is
  told over any run of the hub, and what the hook then shows. The listener of \<open>useStrategyStream\<close> throws
  on a frame without a type and so keeps the frame from the listeners after it; every other frame reaches
  all its listeners.
\<close>

subsection \<open>Runs of the hub\<close>

text \<open>
  The listeners of the hub are those of the four hooks: \<open>hook l\<close> is the topic of the hook that made the
  listener \<open>l\<close>. Only the listener of \<open>useStrategyStream\<close> can throw, whatever its state is.
\<close>

definition typed_event :: "jsval \<Rightarrow> bool" where
  "typed_event v \<longleftrightarrow> is_str (fld v ''type'')"

definition hook_throws :: "(listener \<Rightarrow> WsTopic) \<Rightarrow> listener \<Rightarrow> jsval \<Rightarrow> bool" where
  "hook_throws hook l v \<longleftrightarrow> hook l = strategy \<and> isl (on_strategy_event 50 v new_strategy_stream)"

lemma strategy_throws: "isl (on_strategy_event n v s) \<longleftrightarrow> \<not> typed_event v"
  by (simp add: on_strategy_event_def typed_event_def Let_def)

lemma hook_throws_iff: "hook_throws hook l v \<longleftrightarrow> hook l = strategy \<and> \<not> typed_event v"
  by (simp add: hook_throws_def strategy_throws)

definition told :: "(listener \<Rightarrow> WsTopic) \<Rightarrow> hub_event \<Rightarrow> hub \<Rightarrow> (listener \<times> jsval) list" where
  "told hook e h = (case e of SocketMessage n d \<Rightarrow> on_message (hook_throws hook) d h | _ \<Rightarrow> [])"

inductive live :: "(listener \<Rightarrow> WsTopic) \<Rightarrow> hub \<Rightarrow> hub_event list \<Rightarrow> (listener \<times> jsval) list \<Rightarrow> hub \<Rightarrow> bool" for hook where
  rest: "live hook h [] [] h"
| go: "hub_step h e h' \<Longrightarrow> live hook h' es out h'' \<Longrightarrow> live hook h (e # es) (told hook e h @ out) h''"

definition heard :: "listener \<Rightarrow> (listener \<times> jsval) list \<Rightarrow> jsval list" where
  "heard l out = map snd (filter (\<lambda>p. fst p = l) out)"

text \<open>What an event says to the listeners of a key: a frame for it, or one without an address.\<close>

definition concerns :: "jstr \<Rightarrow> jsval \<Rightarrow> bool" where
  "concerns k v \<longleftrightarrow> truthy v \<and> (route_key v = Some k \<or> route_key v = None)"

definition addressed :: "jstr \<Rightarrow> hub_event \<Rightarrow> jsval list" where
  "addressed k e = (case e of
       SocketMessage n d \<Rightarrow> (case json_parse d of None \<Rightarrow> [] | Some v \<Rightarrow> if concerns k v then [v] else [])
     | _ \<Rightarrow> [])"

text \<open>The listener is registered for one key, and stays so.\<close>

definition mounted :: "WsTopic \<Rightarrow> jstr \<Rightarrow> listener \<Rightarrow> hub \<Rightarrow> bool" where
  "mounted t i l h \<longleftrightarrow> (\<forall>t' i'. (t', i', l) \<in> subs_of h \<longleftrightarrow> t' = t \<and> i' = i)"

definition keeps :: "WsTopic \<Rightarrow> jstr \<Rightarrow> listener \<Rightarrow> hub_event \<Rightarrow> bool" where
  "keeps t i l e \<longleftrightarrow> (case e of
       Sub t' i' l' \<Rightarrow> l' = l \<longrightarrow> t' = t \<and> i' = i
     | Unsub t' i' l' \<Rightarrow> (t', i', l') \<noteq> (t, i, l)
     | _ \<Rightarrow> True)"

subsection \<open>Delivery\<close>

lemma heard_simps [simp]: "heard l [] = []" "heard l (xs @ ys) = heard l xs @ heard l ys"
  "heard l (map (\<lambda>l. (l, v)) ls) = map (\<lambda>_. v) (filter (\<lambda>l'. l' = l) ls)"
  by (simp_all add: heard_def filter_map comp_def)

lemma filter_once: "distinct ls \<Longrightarrow> filter (\<lambda>l'. l' = l) ls = (if l \<in> set ls then [l] else [])"
  by (induction ls) auto

lemma heard_broadcast:
  assumes "distinct (map fst m)" and "\<forall>(k, ls) \<in> set m. distinct ls \<and> (l \<in> set ls \<longleftrightarrow> k = K)"
  shows "heard l (map (\<lambda>l. (l, v)) (concat (map snd m))) = (if K \<in> fst ` set m then [v] else [])"
  using assms
proof (induction m)
  case (Cons x m)
  obtain k ls where x: "x = (k, ls)" by force
  have ls: "distinct ls" "l \<in> set ls \<longleftrightarrow> k = K" using Cons.prems(2) by (auto simp: x)
  have "heard l (map (\<lambda>l. (l, v)) ls) = (if k = K then [v] else [])"
    using ls by (simp add: filter_once)
  moreover have "k = K \<Longrightarrow> K \<notin> fst ` set m" using Cons.prems(1) by (auto simp: x)
  moreover have "heard l (map (\<lambda>l. (l, v)) (concat (map snd m))) = (if K \<in> fst ` set m then [v] else [])"
    using Cons.prems by (intro Cons.IH) auto
  ultimately show ?case by (auto simp: x)
qed simp

lemma tables_keys:
  assumes "hub_inv h" and "(k, ls) \<in> set (listeners h)"
  obtains t i where "k = key_of t i"
proof -
  have T: "tables_ok h" using assms(1) by (simp add: hub_inv_def)
  then have "fst ` set (listeners h) = fst ` set (subscribedMeta h)" by (metis list.set_map tables_ok_def)
  with assms(2) have "k \<in> fst ` set (subscribedMeta h)" by (metis fst_conv imageI)
  then obtain t i where "(k, t, i) \<in> set (subscribedMeta h)" by auto
  with T that show ?thesis by (auto simp: tables_ok_def)
qed

lemma listener_tables:
  assumes "hub_inv h" and "mounted t i l h"
  shows "distinct (map fst (listeners h))"
    and "\<forall>(k, ls) \<in> set (listeners h). distinct ls \<and> (l \<in> set ls \<longleftrightarrow> k = key_of t i)"
    and "key_of t i \<in> fst ` set (listeners h)"
proof -
  have T: "tables_ok h" using assms(1) by (simp add: hub_inv_def)
  then show d: "distinct (map fst (listeners h))" by (simp add: tables_ok_def)
  have "(t, i, l) \<in> subs_of h" using assms(2) by (simp add: mounted_def)
  then show "key_of t i \<in> fst ` set (listeners h)"
    by (auto simp: subs_of_def dest!: map_of_SomeD intro: rev_image_eqI)
  have "l \<in> set ls \<longleftrightarrow> k = key_of t i" if e: "(k, ls) \<in> set (listeners h)" for k ls
  proof -
    obtain t' i' where k: "k = key_of t' i'" using tables_keys [OF assms(1) e] .
    have "map_of (listeners h) k = Some ls" using d e by simp
    then have "l \<in> set ls \<longleftrightarrow> (t', i', l) \<in> subs_of h" by (simp add: subs_of_def k)
    with assms(2) show ?thesis by (auto simp: mounted_def k)
  qed
  with T show "\<forall>(k, ls) \<in> set (listeners h). distinct ls \<and> (l \<in> set ls \<longleftrightarrow> k = key_of t i)"
    by (auto simp: tables_ok_def)
qed

lemma heard_all:
  assumes "hub_inv h" and "mounted t i l h"
  shows "heard l (map (\<lambda>l. (l, v)) (recipients v h)) = (if route_key v = Some (key_of t i) \<or> route_key v = None then [v] else [])"
proof (cases "route_key v")
  case None
  then show ?thesis using heard_broadcast [OF listener_tables(1,2) [OF assms]] listener_tables(3) [OF assms]
    by (simp add: recipients_def)
next
  case (Some k)
  show ?thesis
  proof (cases "map_of (listeners h) k")
    case None
    then have "k \<noteq> key_of t i" using listener_tables(3) [OF assms] by (auto simp: map_of_eq_None_iff)
    with None Some show ?thesis by (simp add: recipients_def)
  next
    case ls: (Some ls)
    then have "(k, ls) \<in> set (listeners h)" by (rule map_of_SomeD)
    with listener_tables(2) [OF assms] have "distinct ls" "l \<in> set ls \<longleftrightarrow> k = key_of t i" by auto
    with ls Some show ?thesis by (auto simp: recipients_def filter_once)
  qed
qed

text \<open>A frame with a type is heard by all, another one perhaps not.\<close>

lemma heard_frame:
  assumes "hub_inv h" and "mounted t i l h"
  shows "subseq (heard l (told hook e h)) (addressed (key_of t i) e) \<and>
    filter typed_event (heard l (told hook e h)) = filter typed_event (addressed (key_of t i) e)"
proof (cases "\<exists>n d v. e = SocketMessage n d \<and> json_parse d = Some v \<and> truthy v")
  case True
  then obtain n d v where e: "e = SocketMessage n d" "json_parse d = Some v" "truthy v" by blast
  let ?all = "map (\<lambda>l. (l, v)) (recipients v h)" and ?told = "tell (hook_throws hook) v (recipients v h)"
  have t: "told hook e h = ?told" using e by (simp add: told_def on_message_def)
  have a: "addressed (key_of t i) e = heard l ?all"
    using e heard_all [OF assms, of v] by (simp add: addressed_def concerns_def)
  show ?thesis
  proof (cases "typed_event v")
    case True
    then have "?told = ?all" by (intro tell_calm) (simp add: hook_throws_iff list_all_iff)
    then show ?thesis by (simp add: t a)
  next
    case False
    obtain k where k: "?told = take k ?all" using tell_prefix by blast
    have "heard l ?all = heard l (take k ?all) @ heard l (drop k ?all)"
      by (metis append_take_drop_id heard_simps(2))
    moreover have "filter typed_event (heard l ?all) = []" using False by (simp add: filter_empty_conv)
    ultimately show ?thesis unfolding t a k by (simp add: prefix_imp_subseq)
  qed
qed (auto simp: told_def addressed_def concerns_def on_message_def split: hub_event.splits option.splits)

lemma subs_of_cong: "listeners h = listeners g \<Longrightarrow> subs_of h = subs_of g"
  by (simp add: subs_of_def)

lemma listeners_kept [simp]:
  "listeners (set_ready n r h) = listeners h" "listeners (connect h) = listeners h"
  "listeners (close_current h) = listeners h" "listeners (on_close h) = listeners h"
  "listeners (shutdown h) = listeners h"
  by (auto simp: set_ready_def connect_def close_current_def on_close_def shutdown_def Let_def split: option.split)

lemma listeners_on_open [simp]: "listeners (on_open h) = listeners h"
  by (simp add: on_open_def fold_send_fields)

lemma mounted_step:
  assumes "hub_step h e h'" and "hub_inv h" and "mounted t i l h" and "keeps t i l e"
  shows "mounted t i l h'"
  using assms
proof cases
  case (sub t' i' l')
  with assms(3,4) show ?thesis by (auto simp: mounted_def keeps_def subs_subscribe)
next
  case (unsub t' i' l')
  with assms(2-4) show ?thesis by (auto simp: mounted_def keeps_def subs_unsubscribe)
qed (use assms(3) in \<open>auto simp: mounted_def cong: subs_of_cong\<close>)

lemma heard_live:
  assumes "live hook h es out h'" and "hub_inv h" and "mounted t i l h" and "list_all (keeps t i l) es"
  shows "subseq (heard l out) (concat (map (addressed (key_of t i)) es)) \<and>
    filter typed_event (heard l out) = filter typed_event (concat (map (addressed (key_of t i)) es))"
  using assms
proof (induction rule: live.induct)
  case (go h e h' es out h'')
  moreover have "hub_inv h'" using go by (blast intro: hub_step_inv)
  moreover have "mounted t i l h'" using go by (auto intro: mounted_step)
  ultimately show ?case using heard_frame [of h t i l hook e] by (simp add: list_emb_append_mono)
qed simp

lemma subseq_all: "subseq xs ys \<Longrightarrow> list_all P ys \<Longrightarrow> filter P xs = filter P ys \<Longrightarrow> xs = ys"
proof -
  assume s: "subseq xs ys" and "list_all P ys" and f: "filter P xs = filter P ys"
  then have "filter P ys = ys" by (simp add: list_all_iff)
  then have "length ys \<le> length xs" using f length_filter_le [of P xs] by simp
  moreover have "length xs \<le> length ys" using s by (rule list_emb_length)
  ultimately show "xs = ys" using s by (simp add: subseq_same_length)
qed

subsection \<open>What the hooks make of it\<close>

text \<open>A listener that throws leaves its component's state as it was.\<close>

definition strategy_step :: "nat \<Rightarrow> jsval \<Rightarrow> strategy_stream \<Rightarrow> strategy_stream" where
  "strategy_step n ev s = (case on_strategy_event n ev s of Inl _ \<Rightarrow> s | Inr s' \<Rightarrow> s')"

lemma events_pushed [simp]:
  "account_events (on_account_event n ev a) = push_event n ev (account_events a)"
  "backtest_events (on_backtest_event n ev b) = push_event n ev (backtest_events b)"
  "study_events (on_optimization_event n ev p) = push_event n ev (study_events p)"
  "strategy_events (strategy_step n ev s)
     = (if typed_event ev then push_event n ev (strategy_events s) else strategy_events s)"
  by (simp_all add: on_account_event_def on_backtest_event_def on_optimization_event_def strategy_step_def
      on_strategy_event_def typed_event_def Let_def)

lemma fold_events:
  "account_events (fold (on_account_event n) evs a) = fold (push_event n) evs (account_events a)"
  "backtest_events (fold (on_backtest_event n) evs b) = fold (push_event n) evs (backtest_events b)"
  "study_events (fold (on_optimization_event n) evs p) = fold (push_event n) evs (study_events p)"
  "strategy_events (fold (strategy_step n) evs s) = fold (push_event n) (filter typed_event evs) (strategy_events s)"
  by (induction evs arbitrary: a b p s) simp_all

lemma buffer_latest: "fold (push_event n) evs [] = take n (rev evs)"
  by (simp add: buffer.history)

lemma completed_sticky:
  "backtest_completed (fold (on_backtest_event n) evs b)
     \<longleftrightarrow> backtest_completed b \<or> (\<exists>v \<in> set evs. fld v ''type'' = S ''backtest.completed'')"
  by (induction evs arbitrary: b) (auto simp: on_backtest_event_def Let_def)

lemma completion_typed:
  "filter typed_event xs = filter typed_event ys \<Longrightarrow>
    (\<exists>v \<in> set xs. fld v ''type'' = S ''backtest.completed'') \<longleftrightarrow> (\<exists>v \<in> set ys. fld v ''type'' = S ''backtest.completed'')"
proof -
  have "(\<exists>v \<in> set xs. fld v ''type'' = S ''backtest.completed'') \<longleftrightarrow>
      (\<exists>v \<in> set (filter typed_event xs). fld v ''type'' = S ''backtest.completed'')" for xs
    by (auto simp: typed_event_def)
  then show "filter typed_event xs = filter typed_event ys \<Longrightarrow> ?thesis" by metis
qed

text \<open>
  C14: a stream hook shows the latest messages of its subscription. Mount a listener for one topic and
  identifier on any reachable hub, among listeners of any of the four hooks; whatever then happens (other
  components subscribe and leave, the connection is lost, reopened, or doubled), as long as the component
  stays mounted it is told frames addressed to its pair, or without an address, only, in the order of
  arrival and at most once, and it is told every such frame that has a type. The hooks keep the latest
  \<open>n\<close> of what they are told, newest first: the strategy hook therefore the latest \<open>n\<close> typed frames, all
  hooks the latest \<open>n\<close> frames if all have types; and the backtest hook reports completion exactly when a
  completion was among the frames. A frame without a type can be missed, since the listener of the
  strategy hook throws on it.
\<close>

theorem stream_shows_latest:
  assumes "reachable h" and "\<forall>t' i'. (t', i', l) \<notin> subs_of h"
    and "live hook (subscribe t i l h) es out h'" and "list_all (keeps t i l) es"
  defines "evs \<equiv> concat (map (addressed (key_of t i)) es)"
  shows "subseq (heard l out) evs \<and> filter typed_event (heard l out) = filter typed_event evs \<and>
    (list_all typed_event evs \<longrightarrow> heard l out = evs) \<and>
    account_events (fold (on_account_event n) (heard l out) new_account_stream) = take n (rev (heard l out)) \<and>
    backtest_events (fold (on_backtest_event n) (heard l out) new_backtest_stream) = take n (rev (heard l out)) \<and>
    study_events (fold (on_optimization_event n) (heard l out) new_optimization_stream) = take n (rev (heard l out)) \<and>
    strategy_events (fold (strategy_step n) (heard l out) new_strategy_stream)
      = take n (rev (filter typed_event evs)) \<and>
    (backtest_completed (fold (on_backtest_event n) (heard l out) new_backtest_stream)
      \<longleftrightarrow> (\<exists>v \<in> set evs. fld v ''type'' = S ''backtest.completed''))"
proof -
  have h: "hub_inv h" using assms(1) by (rule reachable_inv)
  have e: "subseq (heard l out) evs" "filter typed_event (heard l out) = filter typed_event evs"
    using heard_live [OF assms(3) _ _ assms(4)] assms(2) h
    by (auto simp: evs_def mounted_def subs_subscribe subscribe_inv)
  with subseq_all [OF e(1) _ e(2)] completion_typed [OF e(2)] show ?thesis
    by (simp add: fold_events buffer_latest completed_sticky new_account_stream_def new_backtest_stream_def
        new_optimization_stream_def new_strategy_stream_def)
qed

text \<open>
  The loss: a frame without a type and an address reaches the listeners up to the first one of a strategy
  hook, in the order of subscription, and none after it.
\<close>

lemma untyped_frame_lost:
  assumes "json_parse d = Some v" and "truthy v" and "route_key v = None" and "\<not> typed_event v"
    and "concat (map snd (listeners h)) = before @ l # after" and "list_all (\<lambda>l. hook l \<noteq> strategy) before" and "hook l = strategy"
  shows "map fst (told hook (SocketMessage n d) h) = before @ [l]"
proof -
  have "map fst (tell (hook_throws hook) v (before @ l # after)) = before @ [l]"
    using assms(4,6,7) by (induction before) (auto simp: hook_throws_iff)
  then show ?thesis using assms(1-3,5) by (simp add: told_def on_message_def recipients_def)
qed

text \<open>A run with one frame for another subscription, one for this one, and a lost connection.\<close>

definition other_frame :: jstr where
  "other_frame = json_stringify (obj [(''topic'', S ''backtest''), (''id'', S ''r2'')])"

definition typed_frame :: jstr where
  "typed_frame = json_stringify (obj [(''type'', S ''backtest.completed''), (''topic'', S ''backtest''), (''id'', S ''r1'')])"

definition demo_run :: "hub_event list" where
  "demo_run = [SocketMessage 0 other_frame, SocketMessage 0 typed_frame, SocketClose 0]"

lemma other_frame_parse: "json_parse other_frame = Some (obj [(''topic'', S ''backtest''), (''id'', S ''r2'')])"
  unfolding other_frame_def by (rule json_round_trip) (simp add: obj_def)

lemma typed_frame_parse:
  "json_parse typed_frame = Some (obj [(''type'', S ''backtest.completed''), (''topic'', S ''backtest''), (''id'', S ''r1'')])"
  unfolding typed_frame_def by (rule json_round_trip) (simp add: obj_def)

definition two_listeners :: hub where
  "two_listeners = subscribe backtest (js ''r1'') 2 one_listener"

lemma two_listeners_eq: "two_listeners = one_listener\<lparr>listeners := [(key_of backtest (js ''r1''), [1, 2])]\<rparr>"
  by (simp add: two_listeners_def one_listener_eq subscribe_def add_listener_def Let_def)

lemma live_demo:
  "live (\<lambda>_. backtest) two_listeners demo_run (told (\<lambda>_. backtest) (SocketMessage 0 other_frame) two_listeners @
     told (\<lambda>_. backtest) (SocketMessage 0 typed_frame) two_listeners @ told (\<lambda>_. backtest) (SocketClose 0) two_listeners @ [])
     (on_close (set_ready 0 Closed two_listeners))"
proof -
  have s: "0 < length (sockets two_listeners)" "ready_state (sockets two_listeners ! 0) = Open"
    by (simp_all add: two_listeners_eq one_listener_eq)
  then have "ready_state (sockets two_listeners ! 0) \<noteq> Closed" by simp
  with s show ?thesis unfolding demo_run_def
    by (intro live.go [OF hub_step.message] live.go [OF hub_step.closed] live.rest)
qed

theorem stream_shows_latest_witness:
  "heard 2 (told (\<lambda>_. backtest) (SocketMessage 0 other_frame) two_listeners @
     told (\<lambda>_. backtest) (SocketMessage 0 typed_frame) two_listeners @ told (\<lambda>_. backtest) (SocketClose 0) two_listeners @ [])
   = [obj [(''type'', S ''backtest.completed''), (''topic'', S ''backtest''), (''id'', S ''r1'')]]"
proof -
  let ?v = "obj [(''type'', S ''backtest.completed''), (''topic'', S ''backtest''), (''id'', S ''r1'')]"
  have new: "\<forall>t' i'. (t', i', 2) \<notin> subs_of one_listener"
    by (auto simp: subs_of_def one_listener_eq split: if_splits)
  have keeps: "list_all (keeps backtest (js ''r1'') 2) demo_run" by (simp add: demo_run_def keeps_def)
  have evs: "concat (map (addressed (key_of backtest (js ''r1''))) demo_run) = [?v]"
    by (simp add: demo_run_def addressed_def typed_frame_parse other_frame_parse concerns_def route_key_def tk_def js_def)
  have "list_all typed_event [?v]" by (simp add: typed_event_def)
  with stream_shows_latest [OF reachable_one_listener new live_demo [unfolded two_listeners_def] keeps]
  show ?thesis unfolding two_listeners_def evs by blast
qed

end
