(* ===== verification/Recent_Orders.thy ===== *)
theory Recent_Orders
  imports Ranking_Properties Ws_Streams
begin

section \<open>The table of recent orders\<close>

text \<open>
  \<^verbatim>\<open>src/client/app/(dashboard)/strategies/[id]/recent-orders.tsx\<close>: the rows of the performance
  endpoint, merged by client order id with the events of the strategy stream (newest event first),
  sorted by submission time and cut at ten. \<open>now\<close> is the reading of the clock as an ISO string.
\<close>

subsection \<open>The merge\<close>

definition new_order_row :: "jsval \<Rightarrow> jsval \<Rightarrow> jsval \<Rightarrow> jsval" where
  "new_order_row now cid p = obj
     [(''clientOrderId'', cid),
      (''symbol'', coalesce (fld p ''symbol'') (Str [])),
      (''side'', coalesce (fld p ''side'') (S ''BUY'')),
      (''type'', S ''MARKET''), (''qty'', N 0), (''filled'', N 0), (''avgFillPrice'', N 0),
      (''status'', S ''new''), (''mode'', S ''testnet''), (''realisedPnlUsd'', N 0),
      (''submittedAt'', coalesce (fld p ''ts'') now),
      (''lastEventAt'', coalesce (fld p ''ts'') now)]"

definition patch_order_row :: "jsval \<Rightarrow> jsval \<Rightarrow> jsval \<Rightarrow> jsval \<Rightarrow> jsval" where
  "patch_order_row now existing p row = spread row
     [(''status'', coalesce (coalesce (fld p ''status'') (fld existing ''status'')) (S ''new'')),
      (''exchangeOrderId'', coalesce (fld p ''exchangeOrderId'') (fld existing ''exchangeOrderId'')),
      (''filled'', coalesce (coalesce (fld p ''filled'') (fld existing ''filled'')) (N 0)),
      (''avgFillPrice'', coalesce (coalesce (fld p ''avgFillPrice'') (fld existing ''avgFillPrice'')) (N 0)),
      (''lastEventAt'', coalesce (fld p ''ts'') now)]"

definition merge_event :: "jsval \<Rightarrow> jsval \<Rightarrow> (jsval \<times> jsval) list \<Rightarrow> (jsval \<times> jsval) list" where
  "merge_event now ev byClient =
     (let p = payload_of ev;
          cid = fld p ''clientOrderId''
      in if \<not> truthy cid then byClient
         else let existing = map_get byClient cid
              in map_put byClient cid
                   (patch_order_row now existing p (coalesce existing (new_order_row now cid p))))"

definition orders_by_client :: "jsval list \<Rightarrow> (jsval \<times> jsval) list" where
  "orders_by_client initial = fold (\<lambda>row m. map_put m (fld row ''clientOrderId'') row) initial []"

definition submitted_cmp :: "jsval \<Rightarrow> jsval \<Rightarrow> jsnum" where
  "submitted_cmp a b = num_sub (time_of (date_of (fld b ''submittedAt''))) (time_of (date_of (fld a ''submittedAt'')))"

definition merged_orders :: "jsval \<Rightarrow> jsval list \<Rightarrow> jsval list \<Rightarrow> jsval list" where
  "merged_orders now initial events =
     take 10 (js_sort submitted_cmp (map snd (fold (merge_event now) events (orders_by_client initial))))"

text \<open>\<^verbatim>\<open>v.toFixed(dp).replace(/\.?0+$/, "")\<close> for \<open>dp > 0\<close>.\<close>

definition strip_zeros :: "jstr \<Rightarrow> jstr" where
  "strip_zeros s =
     (let r = dropWhile (\<lambda>c. c = 48) (rev s)
      in rev (if length r < length s \<and> r \<noteq> [] \<and> hd r = 46 then tl r else r))"

definition fmtNum :: "jsval \<Rightarrow> nat \<Rightarrow> jstr" where
  "fmtNum v dp = (if nullish v \<or> num_val v = NaN then [] else strip_zeros (to_fixed dp (num_val v)))"

subsection \<open>The table stays keyed\<close>

text \<open>Every row stands under its own client order id, and no id twice.\<close>

definition keyed :: "(jsval \<times> jsval) list \<Rightarrow> bool" where
  "keyed m \<longleftrightarrow> distinct (map fst m) \<and> (\<forall>(k, row) \<in> set m. fld row ''clientOrderId'' = k)"

lemma keys_map_put: "map fst (map_put m k v) = (if k \<in> fst ` set m then map fst m else map fst m @ [k])"
  by (induction m k v rule: map_put.induct) auto

lemma keys_of_put: "fst ` set (map_put m k v) = insert k (fst ` set m)"
  by (induction m k v rule: map_put.induct) auto

lemma set_map_put: "distinct (map fst m) \<Longrightarrow>
    set (map_put m k v) = insert (k, v) {p \<in> set m. fst p \<noteq> k}"
  by (induction m k v rule: map_put.induct) (auto simp: rev_image_eqI)

lemma keyed_map_put: "keyed m \<Longrightarrow> fld row ''clientOrderId'' = k \<Longrightarrow> keyed (map_put m k row)"
  by (auto simp: keyed_def set_map_put keys_map_put)

lemma keyed_lookup: "keyed m \<Longrightarrow> map_of m k = Some row \<Longrightarrow> fld row ''clientOrderId'' = k"
  by (auto simp: keyed_def dest: map_of_SomeD)

lemma patched_id: "fld (patch_order_row now e p row) ''clientOrderId'' = fld (Obj (entries row)) ''clientOrderId''"
  by (simp add: patch_order_row_def fld_spread)

lemma patched_status:
  "fld (patch_order_row now e p row) ''status''
     = coalesce (coalesce (fld p ''status'') (fld e ''status'')) (S ''new'')"
  by (simp add: patch_order_row_def fld_spread)

lemma patched_object [simp]:
  "patch_order_row now e p row \<noteq> Undef" "patch_order_row now e p row \<noteq> Null"
  "fld (Obj (entries (patch_order_row now e p row))) k = fld (patch_order_row now e p row) k"
  by (simp_all add: patch_order_row_def) (simp_all add: spread_def)

lemma fld_of_object: "fld v ''clientOrderId'' \<noteq> Undef \<Longrightarrow> fld (Obj (entries v)) ''clientOrderId'' = fld v ''clientOrderId''"
  by (cases v) auto

lemma keyed_merge:
  assumes "keyed m"
  shows "keyed (merge_event now ev m)"
proof (cases "truthy (fld (payload_of ev) ''clientOrderId'')")
  case True
  define cid where "cid = fld (payload_of ev) ''clientOrderId''"
  define row where "row = coalesce (map_get m cid) (new_order_row now cid (payload_of ev))"
  have cid: "cid \<noteq> Undef" using True by (auto simp: cid_def)
  have "fld row ''clientOrderId'' = cid"
  proof (cases "map_of m cid")
    case (Some r)
    then have "fld r ''clientOrderId'' = cid" using assms by (simp add: keyed_lookup)
    with cid have "r \<noteq> Undef" "r \<noteq> Null" by auto
    with Some \<open>fld r ''clientOrderId'' = cid\<close> show ?thesis by (simp add: row_def)
  qed (simp add: row_def new_order_row_def)
  with cid have "fld (Obj (entries row)) ''clientOrderId'' = cid" by (simp add: fld_of_object)
  with assms show ?thesis using True
    by (simp add: merge_event_def Let_def patched_id keyed_map_put del: map_get.simps flip: cid_def row_def)
qed (use assms in \<open>simp add: merge_event_def Let_def\<close>)

lemma keyed_initial: "keyed (orders_by_client initial)"
proof -
  have "keyed m \<Longrightarrow> keyed (fold (\<lambda>row m. map_put m (fld row ''clientOrderId'') row) initial m)" for m
    by (induction initial arbitrary: m) (simp_all add: keyed_map_put)
  from this [of "[]"] show ?thesis unfolding orders_by_client_def by (simp add: keyed_def)
qed

lemma keyed_fold: "keyed m \<Longrightarrow> keyed (fold (merge_event now) events m)"
  by (induction events arbitrary: m) (simp_all add: keyed_merge)

lemma merged_row:
  assumes "row \<in> set (merged_orders now initial events)"
  shows "map_of (fold (merge_event now) events (orders_by_client initial)) (fld row ''clientOrderId'') = Some row"
proof -
  let ?m = "fold (merge_event now) events (orders_by_client initial)"
  have k: "keyed ?m" by (intro keyed_fold keyed_initial)
  from assms obtain c where c: "(c, row) \<in> set ?m"
    unfolding merged_orders_def by (auto dest!: in_set_takeD)
  with k have "fld row ''clientOrderId'' = c" by (auto simp: keyed_def)
  with c k show ?thesis by (simp add: keyed_def)
qed

subsection \<open>Which event a row shows\<close>

definition says_status :: "jsval \<Rightarrow> jsval \<Rightarrow> bool" where
  "says_status cid ev \<longleftrightarrow> fld (payload_of ev) ''clientOrderId'' = cid \<and> \<not> nullish (fld (payload_of ev) ''status'')"

lemma coalesce_cases: "coalesce a b = (if nullish a then b else a)"
  by (simp add: coalesce_def nullish_def)

lemma merge_status:
  assumes "truthy cid" and "\<not> nullish x" and "fld (map_get m cid) ''status'' = x" and "\<not> says_status cid ev"
  shows "fld (map_get (merge_event now ev m) cid) ''status'' = x"
proof (cases "fld (payload_of ev) ''clientOrderId'' = cid")
  case True
  with assms have "nullish (fld (payload_of ev) ''status'')" by (simp add: says_status_def)
  with assms True show ?thesis
    by (simp add: merge_event_def Let_def map_of_map_put patched_status coalesce_cases)
qed (use assms in \<open>simp add: merge_event_def Let_def map_of_map_put\<close>)

lemma fold_merge_status:
  assumes "truthy cid" and "\<not> nullish x" and "fld (map_get m cid) ''status'' = x"
    and "list_all (\<lambda>e. \<not> says_status cid e) older"
  shows "fld (map_get (fold (merge_event now) older m) cid) ''status'' = x"
  using assms(3,4)
proof (induction older arbitrary: m)
  case (Cons ev older)
  then have "fld (map_get (merge_event now ev m) cid) ''status'' = x"
    using assms(1,2) by (intro merge_status) simp_all
  with Cons show ?case by simp
qed simp

text \<open>
  C24: the table shows the oldest event it remembers, not the newest. The events come newest first and
  are merged in that order, so each older event overwrites the newer ones: the row of an order has
  the status of the oldest buffered event that carries one, whatever came after it.
\<close>

theorem oldest_event_wins:
  assumes "truthy cid" and "says_status cid ev" and "list_all (\<lambda>e. \<not> says_status cid e) older"
    and "row \<in> set (merged_orders now initial (newer @ ev # older))" and "fld row ''clientOrderId'' = cid"
  shows "fld row ''status'' = fld (payload_of ev) ''status''"
proof -
  let ?m = "fold (merge_event now) newer (orders_by_client initial)"
  have ev: "fld (payload_of ev) ''clientOrderId'' = cid" "\<not> nullish (fld (payload_of ev) ''status'')"
    using assms(2) by (simp_all add: says_status_def)
  then have "fld (map_get (merge_event now ev ?m) cid) ''status'' = fld (payload_of ev) ''status''"
    using assms(1) by (simp add: merge_event_def Let_def map_of_map_put patched_status coalesce_cases)
  with ev assms(1,3) have "fld (map_get (fold (merge_event now) older (merge_event now ev ?m)) cid) ''status''
      = fld (payload_of ev) ''status''"
    by (intro fold_merge_status)
  moreover have "map_of (fold (merge_event now) older (merge_event now ev ?m)) cid = Some row"
    using merged_row [OF assms(4)] by (simp add: assms(5))
  ultimately show ?thesis by simp
qed

text \<open>An order that is accepted and then filled: the table goes on showing it as new.\<close>

definition order_event :: "string \<Rightarrow> jsval" where
  "order_event status = obj [(''type'', S ''event.order.updated''), (''payload'', obj
     [(''clientOrderId'', S ''c1''), (''status'', S status), (''ts'', S ''2026-06-01'')])]"

lemma order_event_payload [simp]: "payload_of (order_event s) = obj
     [(''clientOrderId'', S ''c1''), (''status'', S s), (''ts'', S ''2026-06-01'')]"
  by (simp add: payload_of_def order_event_def)

theorem oldest_event_wins_witness:
  "map (\<lambda>row. fld row ''status'') (merged_orders (S ''now'') [] [order_event ''filled'', order_event ''new''])
   = [S ''new'']"
proof -
  obtain row where row: "merged_orders (S ''now'') [] [order_event ''filled'', order_event ''new''] = [row]"
      "fld row ''clientOrderId'' = S ''c1''"
    by (simp add: merged_orders_def orders_by_client_def merge_event_def Let_def js_sort_def patched_id
        new_order_row_def)
  have "truthy (S ''c1'')" by (simp add: js_def)
  then have "fld row ''status'' = fld (payload_of (order_event ''new'')) ''status''"
    by (rule oldest_event_wins [where cid = "S ''c1''" and older = "[]" and newer = "[order_event ''filled'']"
          and now = "S ''now''" and initial = "[]"])
       (simp_all add: row says_status_def nullish_def)
  with row show ?thesis by simp
qed

subsection \<open>What the table gets right\<close>

definition submitted_ms :: "jsval \<Rightarrow> int" where
  "submitted_ms row = (case date_of (fld row ''submittedAt'') of None \<Rightarrow> 0 | Some t \<Rightarrow> t)"

definition dated :: "jsval \<Rightarrow> bool" where
  "dated row \<longleftrightarrow> (case date_of (fld row ''submittedAt'') of None \<Rightarrow> False | Some t \<Rightarrow> \<bar>t\<bar> \<le> 2 ^ 52)"

interpretation submitted: js_order submitted_cmp "\<lambda>row. - submitted_ms row" dated
proof unfold_locales
  fix a b assume ab: "dated a" "dated b"
  obtain s where s: "date_of (fld a ''submittedAt'') = Some s" "\<bar>s\<bar> \<le> 2 ^ 52"
    using ab(1) by (auto simp: dated_def split: option.splits)
  obtain t where t: "date_of (fld b ''submittedAt'') = Some t" "\<bar>t\<bar> \<le> 2 ^ 52"
    using ab(2) by (auto simp: dated_def split: option.splits)
  from s(2) t(2) have "num_sub (Fin (of_int t)) (Fin (of_int s)) = Fin (of_int (t - s))"
    by (intro num_sub_int) auto
  then show "num_lt (Fin 0) (submitted_cmp a b) \<longleftrightarrow> - submitted_ms b < - submitted_ms a"
    by (simp add: submitted_cmp_def submitted_ms_def s(1) t(1) time_of_def)
qed

lemma merged_ids:
  "fst ` set (fold (merge_event now) events m) \<subseteq>
     fst ` set m \<union> (\<lambda>ev. fld (payload_of ev) ''clientOrderId'') ` set events"
proof (induction events arbitrary: m)
  case (Cons ev events)
  have "fst ` set (merge_event now ev m) \<subseteq> insert (fld (payload_of ev) ''clientOrderId'') (fst ` set m)"
    by (simp add: merge_event_def Let_def keys_of_put subset_insertI)
  with Cons.IH [of "merge_event now ev m"] show ?case by auto
qed simp

lemma initial_ids: "fst ` set (orders_by_client initial) = (\<lambda>row. fld row ''clientOrderId'') ` set initial"
proof -
  have "fst ` set (fold (\<lambda>row m. map_put m (fld row ''clientOrderId'') row) initial m)
      = fst ` set m \<union> (\<lambda>row. fld row ''clientOrderId'') ` set initial" for m
    by (induction initial arbitrary: m) (simp_all add: keys_of_put)
  from this [of "[]"] show ?thesis by (simp add: orders_by_client_def)
qed

text \<open>
  C29: the table of recent orders has at most ten rows, never two for one order, and only orders of the
  performance endpoint or of an event; when the submission times can be read it is sorted with the
  latest first.
\<close>

theorem recent_orders_table:
  shows "length (merged_orders now initial events) \<le> 10 \<and>
    distinct (map (\<lambda>row. fld row ''clientOrderId'') (merged_orders now initial events)) \<and>
    set (map (\<lambda>row. fld row ''clientOrderId'') (merged_orders now initial events)) \<subseteq>
      (\<lambda>row. fld row ''clientOrderId'') ` set initial \<union> (\<lambda>ev. fld (payload_of ev) ''clientOrderId'') ` set events \<and>
    (list_all dated (map snd (fold (merge_event now) events (orders_by_client initial))) \<longrightarrow>
     sorted_wrt (\<lambda>a b. submitted_ms b \<le> submitted_ms a) (merged_orders now initial events))"
proof (intro conjI impI)
  let ?m = "fold (merge_event now) events (orders_by_client initial)"
  let ?rows = "js_sort submitted_cmp (map snd ?m)"
  let ?id = "\<lambda>row. fld row ''clientOrderId''"
  have k: "keyed ?m" by (intro keyed_fold keyed_initial)
  show "length (merged_orders now initial events) \<le> 10" by (simp add: merged_orders_def)
  have ids: "map (?id \<circ> snd) ?m = map fst ?m" using k by (auto simp: keyed_def)
  have "set ?rows = set (map snd ?m)" "length ?rows = length ?m" by simp_all
  moreover have "distinct (map ?id (map snd ?m))" unfolding map_map ids using k by (simp add: keyed_def)
  ultimately have "distinct (map ?id ?rows)"
    by (metis (no_types, lifting) card_distinct distinct_card length_map list.set_map)
  then show "distinct (map ?id (merged_orders now initial events))"
    by (simp add: merged_orders_def take_map [symmetric])
  have "?id ` set ?rows = fst ` set ?m"
    using arg_cong [OF ids, of set] by (simp add: image_comp)
  moreover have "set (merged_orders now initial events) \<subseteq> set ?rows"
    unfolding merged_orders_def by (rule set_take_subset)
  ultimately have "?id ` set (merged_orders now initial events) \<subseteq> fst ` set ?m" by blast
  also have "\<dots> \<subseteq> ?id ` set initial \<union> (\<lambda>ev. fld (payload_of ev) ''clientOrderId'') ` set events"
    using merged_ids [of now events "orders_by_client initial"] by (simp add: initial_ids)
  finally show "set (map ?id (merged_orders now initial events)) \<subseteq>
      ?id ` set initial \<union> (\<lambda>ev. fld (payload_of ev) ''clientOrderId'') ` set events" by simp
  assume "list_all dated (map snd ?m)"
  then have "sorted (map (\<lambda>row. - submitted_ms row) ?rows)" by (rule submitted.sorted_keys)
  then have "sorted_wrt (\<lambda>a b. submitted_ms b \<le> submitted_ms a) ?rows" by (simp add: sorted_map)
  then show "sorted_wrt (\<lambda>a b. submitted_ms b \<le> submitted_ms a) (merged_orders now initial events)"
    by (simp add: merged_orders_def sorted_wrt_take)
qed

text \<open>Two stored orders, the earlier one first in the answer of the gateway.\<close>

definition stored_orders :: "jsval list" where
  "stored_orders = [obj [(''clientOrderId'', S ''c1''), (''submittedAt'', S ''2026-06-01'')],
     obj [(''clientOrderId'', S ''c2''), (''submittedAt'', S ''2026-06-02'')]]"

lemma stored_orders_dated:
  "list_all dated (map snd (fold (merge_event (S ''now'')) [] (orders_by_client stored_orders)))"
  by code_simp

theorem recent_orders_table_witness:
  "sorted_wrt (\<lambda>a b. submitted_ms b \<le> submitted_ms a) (merged_orders (S ''now'') stored_orders [])"
  using recent_orders_table [of "S ''now''" stored_orders "[]"] stored_orders_dated by blast

end
