(* ===== verification/Tune_Now.thy ===== *)
theory Tune_Now
  imports Ws_Streams Activity_Center
begin

section \<open>The tuning button\<close>

text \<open>
  \<^verbatim>\<open>TuneNowButton\<close> of \<^verbatim>\<open>src/client/app/(dashboard)/strategies/[id]/tune-now.tsx\<close>: it starts an
  optimisation study, follows it on the optimization stream and mirrors its end into the activity
  log. The state is that of the component, of its stream hook and of the log; a step is a press of the
  button, the gateway's answer, a frame of the stream, or an operation of another component on the
  log. New identifiers and times are arguments.

  The effect runs after a step that changes one of its dependencies; the provider's value changes with
  its entries or its flag (compared by content here, so that a change to an equal list counts as none).
\<close>

subsection \<open>State and handlers\<close>

record tune =
  studyId :: jsval
  tune_error :: jsval
  tune_busy :: bool
  activityIdRef :: "jstr option"
  study :: optimization_stream
  log :: activity

definition new_tune :: "activity \<Rightarrow> tune" where
  "new_tune st = \<lparr>studyId = Null, tune_error = Null, tune_busy = False, activityIdRef = None,
     study = new_optimization_stream, log = st\<rparr>"

text \<open>\<^verbatim>\<open>state >= 3\<close>: the study has ended.\<close>

definition ended :: "jsval \<Rightarrow> bool" where
  "ended state \<longleftrightarrow> \<not> nullish state \<and> num_le (Fin 3) (to_num state)"

definition end_patch :: "optimization_stream \<Rightarrow> jsval" where
  "end_patch s =
     (let state = study_state s;
          label = (if state = N 3 then S ''success'' else if state = N 4 then S ''failed'' else S ''canceled'');
          detail =
            (if state = N 3
             then to_str (trialsCompleted s) @ js ''/'' @
                  (if truthy (trialsTotal s) then to_str (trialsTotal s) else js ''?'') @
                  [32, 35797, 39564, 32, 183, 32, 36] @ to_fixed 4 (num_val (costUsd s))
             else if state = N 4 then js ''study failed''
             else [39044, 31639, 32791, 23613])
      in obj [(''status'', label), (''detail'', Str detail),
           (''href'', if truthy (recommendationId s)
              then Str (js ''/recommendations/'' @ to_str (recommendationId s)) else Undef)])"

definition mirror_study :: "int \<Rightarrow> tune \<Rightarrow> tune" where
  "mirror_study now p =
     (case activityIdRef p of
        None \<Rightarrow> p
      | Some i \<Rightarrow>
          if \<not> ended (study_state (study p)) then p
          else p\<lparr>log := update i (end_patch (study p)) now (log p), activityIdRef := None\<rparr>)"

definition tune_deps :: "tune \<Rightarrow> jsval list \<times> bool \<times> jsval list" where
  "tune_deps p =
     (let s = study p
      in ([study_state s, trialsCompleted s, trialsTotal s, costUsd s, recommendationId s],
          enabled (log p), items (log p)))"

definition rendered :: "int \<Rightarrow> tune \<Rightarrow> tune \<Rightarrow> tune" where
  "rendered now p p' = (if tune_deps p' = tune_deps p then p' else mirror_study now p')"

definition clicked :: "tune \<Rightarrow> tune" where
  "clicked p = p\<lparr>tune_busy := True, tune_error := Null\<rparr>"

definition started :: "jstr \<Rightarrow> jstr \<Rightarrow> int \<Rightarrow> thrown + jsval \<Rightarrow> tune \<Rightarrow> tune" where
  "started strategyId i now r p =
     (case r of
        Inr handle \<Rightarrow>
          p\<lparr>studyId := fld handle ''studyId'',
            log := push i now (obj
              [(''kind'', S ''optimization''),
               (''label'', Str ([65, 73, 32, 20248, 21270, 32, 183, 32] @ take 8 strategyId)),
               (''detail'', Str (js ''study '' @ take 8 (str_val (fld handle ''studyId'')) @ [8230]))]) (log p),
            activityIdRef := Some i, tune_busy := False\<rparr>
      | Inl e \<Rightarrow>
          let msg = (case e of Thrown_Error m \<Rightarrow> m | Thrown_Value _ \<Rightarrow> [22833, 36133])
          in p\<lparr>tune_error := Str msg,
               log := push i now (obj
                 [(''kind'', S ''optimization''),
                  (''label'', Str ([65, 73, 32, 20248, 21270, 32, 183, 32] @ take 8 strategyId)),
                  (''status'', S ''failed''), (''detail'', Str msg)]) (log p),
               tune_busy := False\<rparr>)"

definition tune_disabled :: "tune \<Rightarrow> bool" where
  "tune_disabled p \<longleftrightarrow> tune_busy p \<or>
     studyId p \<noteq> Null \<and> study_state (study p) \<noteq> Null \<and> num_lt (to_num (study_state (study p))) (Fin 3)"

subsection \<open>Steps\<close>

datatype tune_event =
    Press
  | Answer jstr int "thrown + jsval"
  | Frame jsval int
  | Other activity_op int

primrec tune_step :: "jstr \<Rightarrow> tune_event \<Rightarrow> tune \<Rightarrow> tune" where
  "tune_step sid Press p = (if tune_disabled p then p else clicked p)"
| "tune_step sid (Answer i now r) p = rendered now p (started sid i now r p)"
| "tune_step sid (Frame ev now) p = rendered now p (p\<lparr>study := on_optimization_event 50 ev (study p)\<rparr>)"
| "tune_step sid (Other op now) p = rendered now p (p\<lparr>log := do_op op (log p)\<rparr>)"

definition frames :: "(jsval \<times> int) list \<Rightarrow> tune_event list" where
  "frames evs = map (\<lambda>(ev, now). Frame ev now) evs"

subsection \<open>Lemmas\<close>

lemma frames_simps [simp]: "frames [] = []" "frames ((ev, now) # evs) = Frame ev now # frames evs"
    "frames (xs @ ys) = frames xs @ frames ys"
  by (simp_all add: frames_def)

lemma new_entry_pushed:
  "enabled st \<Longrightarrow> items (push i now input st) = take MAX_ITEMS (new_entry i now input # items st)"
  by (simp add: push_def write_back_def add_entry_def)

lemma enabled_kept [simp]: "enabled (push i now input st) = enabled st" "enabled (update i patch now st) = enabled st"
  by (simp_all add: push_def update_def write_back_def)

lemma answered: "\<not> ended (study_state (study p)) \<Longrightarrow>
    tune_step sid (Answer i t (Inr handle)) p = started sid i t (Inr handle) p"
  by (simp add: rendered_def mirror_study_def started_def)

lemma fld_merge_entry:
  "fld e ''id'' = Str i \<Longrightarrow> k \<noteq> ''completedAt'' \<Longrightarrow> fld (merge_entry i patch now e) k = fld (merge e patch) k"
  unfolding merge_entry_def merge_def [symmetric] by (auto simp: Let_def)

lemma merged_entry:
  assumes "fld e ''id'' = Str i"
  shows "fld (merge_entry i (end_patch s) now e) ''id'' = Str i"
    "fld (merge_entry i (end_patch s) now e) ''status'' = fld (end_patch s) ''status''"
    "fld (merge_entry i (end_patch s) now e) ''detail'' = fld (end_patch s) ''detail''"
    "fld (merge_entry i (end_patch s) now e) ''href'' = fld (end_patch s) ''href''"
proof -
  have e: "fld (Obj (entries e)) ''id'' = Str i" using assms by (cases e) auto
  obtain l d h where p: "end_patch s = obj [(''status'', l), (''detail'', d), (''href'', h)]"
    by (simp add: end_patch_def Let_def)
  show "fld (merge_entry i (end_patch s) now e) ''id'' = Str i"
    "fld (merge_entry i (end_patch s) now e) ''status'' = fld (end_patch s) ''status''"
    "fld (merge_entry i (end_patch s) now e) ''detail'' = fld (end_patch s) ''detail''"
    "fld (merge_entry i (end_patch s) now e) ''href'' = fld (end_patch s) ''href''"
    using e by (simp_all add: fld_merge_entry [OF assms] p fld_merge entries_obj)
qed

text \<open>Without an open entry frames do not touch the log.\<close>

lemma frames_without_entry:
  "activityIdRef p = None \<Longrightarrow>
   log (fold (tune_step sid) (frames evs) p) = log p \<and> activityIdRef (fold (tune_step sid) (frames evs) p) = None"
proof (induction evs arbitrary: p)
  case (Cons e evs)
  obtain ev now where e: "e = (ev, now)" by force
  have "tune_step sid (Frame ev now) p = p\<lparr>study := on_optimization_event 50 ev (study p)\<rparr>"
    using Cons.prems by (simp add: rendered_def mirror_study_def)
  then show ?case using Cons.IH [of "tune_step sid (Frame ev now) p"] Cons.prems by (simp add: e)
qed simp

lemma state_after_frame:
  "study_state (on_optimization_event n ev s) = number_or (fld (payload_of ev) ''state'') (study_state s)"
  by (simp add: on_optimization_event_def Let_def)

definition ends_study :: "jsval \<Rightarrow> bool" where
  "ends_study ev \<longleftrightarrow> is_num (fld (payload_of ev) ''state'') \<and> ended (fld (payload_of ev) ''state'')"

lemma ended_after_frame:
  "\<not> ended (study_state s) \<Longrightarrow> ended (study_state (on_optimization_event n ev s)) \<longleftrightarrow> ends_study ev"
  by (auto simp: state_after_frame number_or_def ends_study_def)

text \<open>While the study runs its entry stays open.\<close>

lemma frames_running:
  assumes "\<not> ended (study_state (study p))" and "list_all (\<lambda>(ev, _). \<not> ends_study ev) evs"
  shows "fold (tune_step sid) (frames evs) p
    = p\<lparr>study := fold (\<lambda>(ev, _). on_optimization_event 50 ev) evs (study p)\<rparr> \<and>
    \<not> ended (study_state (fold (\<lambda>(ev, _). on_optimization_event 50 ev) evs (study p)))"
  using assms
proof (induction evs arbitrary: p)
  case (Cons e evs)
  obtain ev now where e: "e = (ev, now)" by force
  let ?p = "p\<lparr>study := on_optimization_event 50 ev (study p)\<rparr>"
  have n: "\<not> ended (study_state (study ?p))"
    using Cons.prems by (simp add: e ended_after_frame)
  then have "tune_step sid (Frame ev now) p = ?p"
    by (simp add: rendered_def mirror_study_def split: option.split)
  with Cons.IH [OF n] Cons.prems show ?case by (simp add: e)
qed simp

lemma ending_frame:
  assumes "activityIdRef p = Some i" and "\<not> ended (study_state (study p))" and "ends_study ev"
  shows "tune_step sid (Frame ev now) p
    = p\<lparr>study := on_optimization_event 50 ev (study p),
        log := update i (end_patch (on_optimization_event 50 ev (study p))) now (log p), activityIdRef := None\<rparr>"
proof -
  have "ended (study_state (on_optimization_event 50 ev (study p)))"
    using assms(2,3) by (simp add: ended_after_frame)
  moreover from this assms(2) have "study_state (on_optimization_event 50 ev (study p)) \<noteq> study_state (study p)"
    by auto
  ultimately show ?thesis
    using assms(1) by (simp add: rendered_def mirror_study_def tune_deps_def Let_def)
qed

subsection \<open>Properties\<close>

text \<open>
  C28: the end of a study is logged once. From an answered start of a study, while no study has ended
  in this component before, any frames that do not end the study leave the log alone, the first one
  that ends it settles the entry of this study with what the stream says then, and later frames
  change nothing.
\<close>

theorem study_end_is_logged:
  fixes sid i t handle
  assumes "\<not> ended (study_state (study p))" and "list_all (\<lambda>(ev, _). \<not> ends_study ev) before" and "ends_study ev"
  defines "s \<equiv> fold (\<lambda>(ev, _). on_optimization_event 50 ev) before (study p)"
    and "q \<equiv> tune_step sid (Answer i t (Inr handle)) p"
  shows "log (fold (tune_step sid) (frames before) q) = log q \<and>
    log (fold (tune_step sid) (frames (before @ (ev, now) # later)) q)
      = update i (end_patch (on_optimization_event 50 ev s)) now (log q) \<and>
    activityIdRef (fold (tune_step sid) (frames (before @ (ev, now) # later)) q) = None"
proof -
  have q: "q = started sid i t (Inr handle) p"
    unfolding q_def using assms(1) by (rule answered)
  then have st: "study q = study p" and ref: "activityIdRef q = Some i" by (simp_all add: started_def)
  have run: "fold (tune_step sid) (frames before) q = q\<lparr>study := s\<rparr>" and s: "\<not> ended (study_state s)"
    using frames_running [of q before sid] assms(1,2) by (simp_all add: st s_def)
  have "tune_step sid (Frame ev now) (q\<lparr>study := s\<rparr>)
      = q\<lparr>study := on_optimization_event 50 ev s,
          log := update i (end_patch (on_optimization_event 50 ev s)) now (log q), activityIdRef := None\<rparr>"
    using ending_frame [of "q\<lparr>study := s\<rparr>" i ev sid now] ref s assms(3) by simp
  then show ?thesis using run by (simp add: frames_without_entry)
qed

text \<open>
  C25: a second study is logged before it has run. The stream keeps the state of the finished study
  when the identifier changes, so the answer to the second press settles the new entry at once, with
  the outcome, the counts and the recommendation of the first study; nothing the new study reports
  afterwards reaches the log.
\<close>

theorem second_study_logged_early:
  fixes sid i t handle
  assumes "ended (study_state (study p))" and "enabled (log p)"
    and "list_all (\<lambda>e. fld e ''id'' \<noteq> Str i) (items (log p))"
  defines "q \<equiv> tune_step sid (Answer i t (Inr handle)) p"
  shows "activityIdRef q = None \<and> items (log q) \<noteq> [] \<and>
    fld (hd (items (log q))) ''id'' = Str i \<and>
    fld (hd (items (log q))) ''status'' = fld (end_patch (study p)) ''status'' \<and>
    fld (hd (items (log q))) ''detail'' = fld (end_patch (study p)) ''detail'' \<and>
    fld (hd (items (log q))) ''href'' = fld (end_patch (study p)) ''href'' \<and>
    log (fold (tune_step sid) (frames later) q) = log q"
proof -
  let ?q = "started sid i t (Inr handle) p"
  obtain input where log: "log ?q = push i t input (log p)" and ref: "activityIdRef ?q = Some i"
    and st: "study ?q = study p"
    by (simp add: started_def)
  have items: "items (log ?q) = new_entry i t input # take (MAX_ITEMS - 1) (items (log p))"
    using assms(2) by (simp add: log new_entry_pushed MAX_ITEMS_def)
  have "items (log ?q) \<noteq> items (log p)"
    using assms(3) unfolding items by (cases "items (log p)") (auto simp: new_entry_def)
  then have q: "q = ?q\<lparr>log := update i (end_patch (study p)) t (log ?q), activityIdRef := None\<rparr>"
    using assms(1) by (simp add: q_def rendered_def tune_deps_def Let_def mirror_study_def ref st)
  then have "items (log q) = merge_entry i (end_patch (study p)) t (new_entry i t input)
      # map (merge_entry i (end_patch (study p)) t) (take (MAX_ITEMS - 1) (items (log p)))"
    by (simp add: update_def write_back_def items)
  moreover have "fld (new_entry i t input) ''id'' = Str i" by (simp add: new_entry_def)
  ultimately show ?thesis
    using q by (simp add: merged_entry frames_without_entry)
qed

text \<open>A page on which a first study has completed with recommendation \<open>r1\<close>, and the button is pressed again.\<close>

definition study_frame :: jsval where
  "study_frame = obj [(''type'', S ''optimization.suggested''), (''payload'', obj
     [(''state'', N 3), (''trials_completed'', N 5), (''trials_total'', N 5), (''recommendation_id'', S ''r1'')])]"

definition quiet_log :: activity where
  "quiet_log = \<lparr>enabled = True, items = [], browser = \<lparr>b_window = False, b_readable = False, b_writable = False,
     b_store = (\<lambda>_. None)\<rparr>\<rparr>"

definition handle_of :: "string \<Rightarrow> jsval" where
  "handle_of i = obj [(''studyId'', S i)]"

lemma study_frame_ends: "ends_study study_frame"
  by (simp add: ends_study_def payload_of_def study_frame_def ended_def nullish_def num_le_def)

definition after_first :: tune where
  "after_first = fold (tune_step (js ''s1''))
     [Press, Answer (js ''a1'') 1 (Inr (handle_of ''o1'')), Frame study_frame 2, Press] (new_tune quiet_log)"

theorem study_end_is_logged_witness:
  "log (fold (tune_step (js ''s1'')) (frames [(study_frame, 2)])
      (tune_step (js ''s1'') (Answer (js ''a1'') 1 (Inr (handle_of ''o1''))) (clicked (new_tune quiet_log))))
   = update (js ''a1'') (end_patch (on_optimization_event 50 study_frame new_optimization_stream)) 2
      (log (tune_step (js ''s1'') (Answer (js ''a1'') 1 (Inr (handle_of ''o1''))) (clicked (new_tune quiet_log))))"
  using study_end_is_logged [where p = "clicked (new_tune quiet_log)" and before = "[]" and later = "[]"
      and ev = study_frame and now = 2 and sid = "js ''s1''" and i = "js ''a1''" and t = 1 and handle = "handle_of ''o1''"]
  by (simp add: clicked_def new_tune_def new_optimization_stream_def ended_def nullish_def study_frame_ends)

lemma after_first_facts:
  "ended (study_state (study after_first))" "enabled (log after_first)"
  "list_all (\<lambda>e. fld e ''id'' \<noteq> S ''a2'') (items (log after_first))"
  "fld (end_patch (study after_first)) ''status'' = S ''success''"
proof -
  let ?p = "clicked (new_tune quiet_log)"
  let ?a = "started (js ''s1'') (js ''a1'') 1 (Inr (handle_of ''o1'')) ?p"
  let ?s = "on_optimization_event 50 study_frame new_optimization_stream"
  have press: "tune_step sid Press (new_tune st) = clicked (new_tune st)" for sid st
    by (simp add: tune_disabled_def new_tune_def)
  have n: "\<not> ended (study_state (study ?p))"
    by (simp add: clicked_def new_tune_def new_optimization_stream_def ended_def nullish_def)
  have a: "activityIdRef ?a = Some (js ''a1'')" "study ?a = new_optimization_stream" "tune_busy ?a = False"
    by (simp_all add: started_def clicked_def new_tune_def)
  have f: "tune_step (js ''s1'') (Frame study_frame 2) ?a
      = ?a\<lparr>study := ?s, log := update (js ''a1'') (end_patch ?s) 2 (log ?a), activityIdRef := None\<rparr>"
    by (rule ending_frame [OF a(1) _ study_frame_ends, of "js ''s1''" 2, unfolded a(2)])
       (simp add: new_optimization_stream_def ended_def nullish_def)
  have state: "study_state ?s = N 3"
    by (simp add: state_after_frame study_frame_def payload_of_def number_or_def)
  have eq: "after_first = clicked (?a\<lparr>study := ?s, log := update (js ''a1'') (end_patch ?s) 2 (log ?a), activityIdRef := None\<rparr>)"
    by (simp add: after_first_def press answered [OF n] f del: tune_step.simps)
       (simp add: tune_disabled_def state a(3))
  have s: "study after_first = ?s" and l: "log after_first = update (js ''a1'') (end_patch ?s) 2 (log ?a)"
    unfolding eq by (simp_all add: clicked_def)
  show "ended (study_state (study after_first))" "fld (end_patch (study after_first)) ''status'' = S ''success''"
    by (simp_all add: s state ended_def nullish_def num_le_def end_patch_def)
  obtain input where push: "log ?a = push (js ''a1'') 1 input quiet_log"
    by (simp add: started_def clicked_def new_tune_def)
  have quiet: "enabled quiet_log" "items quiet_log = []" by (simp_all add: quiet_log_def)
  show "enabled (log after_first)" by (simp add: l push quiet)
  have "fld (new_entry (js ''a1'') 1 input) ''id'' = S ''a1''" by (simp add: new_entry_def)
  then have "fld (merge_entry (js ''a1'') (end_patch ?s) 2 (new_entry (js ''a1'') 1 input)) ''id'' = S ''a1''"
    by (rule merged_entry(1))
  then show "list_all (\<lambda>e. fld e ''id'' \<noteq> S ''a2'') (items (log after_first))"
    by (simp add: l push update_def write_back_def new_entry_pushed quiet MAX_ITEMS_def)
qed

theorem second_study_logged_early_witness:
  "fld (hd (items (log (tune_step (js ''s1'') (Answer (js ''a2'') 3 (Inr (handle_of ''o2''))) after_first)))) ''status''
   = S ''success''"
  using second_study_logged_early [OF after_first_facts(1-3), of "js ''s1''" 3 "handle_of ''o2''" "[]"]
  by (simp add: after_first_facts(4))

end
