(* ===== verification/Confirmation.thy ===== *)
theory Confirmation
  imports Js_Base
begin

section \<open>Confirmation dialogs\<close>

text \<open>
  \<^verbatim>\<open>ConfirmDialog\<close> of \<^verbatim>\<open>src/client/components/confirm-dialog.tsx\<close>: whether it is shown and whether its
  confirmation is running, and the contract of the components that ask before they act.
\<close>

subsection \<open>The dialog\<close>

record dialog =
  shown :: bool
  confirming :: bool

definition no_dialog :: dialog where
  "no_dialog = \<lparr>shown = False, confirming = False\<rparr>"

definition show_dialog :: "dialog \<Rightarrow> dialog" where
  "show_dialog d = d\<lparr>shown := True\<rparr>"

text \<open>
  While the confirmation runs, neither button can be pressed, nor do the escape key and a press outside
  dismiss the dialog; the close button that the UI library adds to it is not disabled, so a dismissal is
  possible at any time.
\<close>

definition dismiss :: "dialog \<Rightarrow> dialog" where
  "dismiss d = d\<lparr>shown := False\<rparr>"

definition can_confirm :: "dialog \<Rightarrow> bool" where
  "can_confirm d \<longleftrightarrow> shown d \<and> \<not> confirming d"

definition confirm_started :: "dialog \<Rightarrow> dialog" where
  "confirm_started d = d\<lparr>confirming := True\<rparr>"

text \<open>The end of \<^verbatim>\<open>onConfirm\<close>: a thrown error leaves the dialog open for another try.\<close>

definition confirm_ended :: "bool \<Rightarrow> dialog \<Rightarrow> dialog" where
  "confirm_ended ok d = \<lparr>shown = (shown d \<and> \<not> ok), confirming = False\<rparr>"

lemma dialog_simps [simp]:
  "shown (show_dialog d)" "confirming (show_dialog d) = confirming d"
  "shown (confirm_started d) = shown d" "confirming (confirm_started d)"
  "shown (confirm_ended ok d) = (shown d \<and> \<not> ok)" "\<not> confirming (confirm_ended ok d)"
  "\<not> shown no_dialog" "\<not> confirming no_dialog" "\<not> shown (dismiss d)" "confirming (dismiss d) = confirming d"
  by (simp_all add: show_dialog_def confirm_started_def confirm_ended_def no_dialog_def dismiss_def)

subsection \<open>The turns of a run\<close>

text \<open>
  The positions of a run at which an event is taken, given the state it meets: the index of the event in
  the list of all events.
\<close>

definition turns :: "('e \<Rightarrow> 's \<Rightarrow> 's) \<Rightarrow> ('e \<Rightarrow> 's \<Rightarrow> bool) \<Rightarrow> 'e list \<Rightarrow> 's \<Rightarrow> nat list" where
  "turns step taken es s = filter (\<lambda>k. taken (es ! k) (fold step (take k es) s)) [0..<length es]"

lemma turns_Nil [simp]: "turns step taken [] s = []"
  by (simp add: turns_def)

lemma turns_snoc: "turns step taken (es @ [e]) s = turns step taken es s @ (if taken e (fold step es s) then [length es] else [])"
proof -
  have "filter (\<lambda>k. taken ((es @ [e]) ! k) (fold step (take k (es @ [e])) s)) [0..<length es] = turns step taken es s"
    unfolding turns_def by (intro filter_cong) (simp_all add: nth_append)
  then show ?thesis by (simp add: turns_def)
qed

lemma turn_bound: "k \<in> set (turns step taken es s) \<Longrightarrow> k < length es \<and> taken (es ! k) (fold step (take k es) s)"
  by (simp add: turns_def)

subsection \<open>Acting only after a confirmation\<close>

text \<open>
  The contract of a component that asks before it makes guarded calls, which counts the calls: a step adds
  the requested calls when it accepts the confirmation of a dialog that is shown, and no guarded call
  otherwise; a step shows the dialog only when it is the one that opens it. Whatever happens, in any order,
  the guarded calls are then those of the accepted confirmations, one after the other, and at each of them
  the dialog has been shown without a break since it was opened.
\<close>

locale confirmed =
  fixes step :: "'e \<Rightarrow> 's \<Rightarrow> 's" and calls :: "'s \<Rightarrow> 'c list" and guarded :: "'c \<Rightarrow> bool"
    and request :: "'s \<Rightarrow> 'c list" and asked :: "'s \<Rightarrow> bool"
    and opens :: "'e \<Rightarrow> bool" and accepts :: "'e \<Rightarrow> 's \<Rightarrow> bool" and may_open :: "'s \<Rightarrow> bool"
  assumes call: "filter guarded (calls (step e s)) = filter guarded (calls s) @ (if accepts e s then request s else [])"
    and accepted: "accepts e s \<Longrightarrow> asked s"
    and opened: "asked (step e s) \<Longrightarrow> \<not> asked s \<Longrightarrow> opens e \<and> may_open s"
begin

lemma calls_counted:
  "filter guarded (calls (fold step es s)) =
    filter guarded (calls s) @ concat (map (\<lambda>k. request (fold step (take k es) s)) (turns step accepts es s))"
proof (induction es rule: rev_induct)
  case (snoc e es)
  have "map (\<lambda>k. request (fold step (take k (es @ [e])) s)) (turns step accepts es s) =
      map (\<lambda>k. request (fold step (take k es) s)) (turns step accepts es s)"
    by (intro map_cong) (auto dest: turn_bound)
  moreover have "fold step (take (length es) (es @ [e])) s = fold step es s" by simp
  ultimately have "concat (map (\<lambda>k. request (fold step (take k (es @ [e])) s)) (turns step accepts (es @ [e]) s)) =
      concat (map (\<lambda>k. request (fold step (take k es) s)) (turns step accepts es s)) @
      (if accepts e (fold step es s) then request (fold step es s) else [])"
    by (simp only: turns_snoc map_append concat_append split: if_split) simp
  with snoc show ?case by (simp add: call del: take_append)
qed simp

lemma opened_since:
  "\<not> asked s \<Longrightarrow> asked (fold step es s) \<Longrightarrow>
    \<exists>j < length es. opens (es ! j) \<and> may_open (fold step (take j es) s) \<and> \<not> asked (fold step (take j es) s) \<and>
      (\<forall>i. j < i \<and> i \<le> length es \<longrightarrow> asked (fold step (take i es) s))"
proof (induction es rule: rev_induct)
  case (snoc e es)
  have last: "asked (fold step (take (Suc (length es)) (es @ [e])) s)" using snoc.prems(2) by simp
  show ?case
  proof (cases "asked (fold step es s)")
    case True
    then obtain j where j: "j < length es" "opens (es ! j)" "may_open (fold step (take j es) s)"
      "\<not> asked (fold step (take j es) s)" "\<forall>i. j < i \<and> i \<le> length es \<longrightarrow> asked (fold step (take i es) s)"
      using snoc.IH snoc.prems(1) by blast
    have "asked (fold step (take i (es @ [e])) s)" if "j < i" "i \<le> Suc (length es)" for i
      using that j(5) last by (cases "i = Suc (length es)") auto
    with j(1-4) show ?thesis by (intro exI [of _ j]) (simp add: nth_append)
  next
    case False
    with opened [of e "fold step es s"] snoc.prems last show ?thesis
      by (intro exI [of _ "length es"]) (auto simp: le_Suc_eq)
  qed
qed simp

lemma turn_opened:
  assumes "\<not> asked s" and "k \<in> set (turns step accepts es s)"
  shows "\<exists>j < k. opens (es ! j) \<and> may_open (fold step (take j es) s) \<and>
    (\<forall>i. j < i \<and> i \<le> k \<longrightarrow> asked (fold step (take i es) s))"
proof -
  have k: "k < length es" "asked (fold step (take k es) s)" using turn_bound [OF assms(2)] accepted by blast+
  from opened_since [OF assms(1) this(2)] k(1) obtain j where j: "j < k" "opens (es ! j)"
    "may_open (fold step (take j es) s)" "\<forall>i. j < i \<and> i \<le> k \<longrightarrow> asked (fold step (take i (take k es)) s)"
    by auto
  have "asked (fold step (take i es) s)" if "j < i" "i \<le> k" for i
    using j(4) that by (simp add: min.absorb1)
  with j(1-3) show ?thesis by blast
qed

lemma call_confirmed:
  assumes "calls s = []" and "c \<in> set (calls (fold step es s))" and "guarded c"
  shows "\<exists>before e after. es = before @ e # after \<and> accepts e (fold step before s) \<and> c \<in> set (request (fold step before s))"
proof -
  have "c \<in> set (filter guarded (calls (fold step es s)))" using assms by simp
  then obtain k where k: "k \<in> set (turns step accepts es s)" "c \<in> set (request (fold step (take k es) s))"
    unfolding calls_counted using assms(1) by auto
  then show ?thesis using turn_bound [OF k(1)] id_take_nth_drop [of k es] by blast
qed

lemma asked_opened:
  assumes "\<not> asked s" and "asked (fold step es s)"
  shows "\<exists>before e after. es = before @ e # after \<and> opens e \<and> may_open (fold step before s)"
  using opened_since [OF assms] id_take_nth_drop [of _ es] by blast

end

end
