(* ===== verification/Live_Panel.thy ===== *)
theory Live_Panel
  imports Activity_Center Money_Page Confirmation
begin

section \<open>The live switch of a strategy\<close>

text \<open>
  \<^verbatim>\<open>ConfigPanel\<close> of \<^verbatim>\<open>src/client/app/(dashboard)/strategies/[id]/config-panel.tsx\<close> with the two
  \<^verbatim>\<open>ConfirmDialog\<close>s (\<^verbatim>\<open>src/client/components/confirm-dialog.tsx\<close>) it holds: the panel that turns live
  trading on and off, sets the risk caps and deletes the strategy. The state is that of the panel and of
  its dialogs, the activity log, the calls made, what the router was told and the toasts. A handler runs
  up to its \<^verbatim>\<open>await\<close> and leaves a job; the jobs are answered in any order.

  That an open dialog keeps the controls behind it from being pressed is a matter of the UI library and
  not assumed.
\<close>

subsection \<open>State\<close>

datatype panel_call = SetLive jstr jsval | SetRisk jstr jsval | DeleteOption jstr

datatype navigation = Refresh | Go jstr

datatype job = Saving_Live jstr bool | Saving_Risk jstr | Deleting jstr

record panel =
  strategy :: jsval
  enabled :: bool
  mode :: jsval
  accountId :: jsval
  maxPosition :: jsval
  maxLeverage :: jsval
  dailyLoss :: jsval
  panel_busy :: bool
  panel_error :: "jstr option"
  confirmLive :: bool
  confirmDelete :: bool
  live_confirming :: bool
  delete_confirming :: bool
  panel_log :: activity
  panel_calls :: "panel_call list"
  jobs :: "job list"
  navigations :: "navigation list"
  toasts :: "(bool \<times> jstr) list"

definition new_panel :: "jsval \<Rightarrow> activity \<Rightarrow> panel" where
  "new_panel s st =
     \<lparr>strategy = s, enabled = truthy (fld (fld s ''live'') ''enabled''),
      mode = coalesce (fld (fld s ''live'') ''mode'') (S ''testnet''),
      accountId = coalesce (fld (fld s ''live'') ''accountId'') (Str []),
      maxPosition = coalesce (fld (fld s ''risk'') ''maxPositionUsd'') (N 0),
      maxLeverage = coalesce (fld (fld s ''risk'') ''maxLeverage'') (N 0),
      dailyLoss = coalesce (fld (fld s ''risk'') ''dailyLossCapUsd'') (N 0),
      panel_busy = False, panel_error = None, confirmLive = False, confirmDelete = False,
      live_confirming = False, delete_confirming = False, panel_log = st, panel_calls = [], jobs = [],
      navigations = [], toasts = []\<rparr>"

definition option_id :: "panel \<Rightarrow> jstr" where
  "option_id p = to_str (coalesce (fld (strategy p) ''id'') (Str []))"

definition begin_job :: "moment \<Rightarrow> jsval \<Rightarrow> panel_call \<Rightarrow> job \<Rightarrow> panel \<Rightarrow> panel" where
  "begin_job m desc c j p =
     p\<lparr>panel_log := push (new_id m) (now_ms m) desc (panel_log p), panel_calls := panel_calls p @ [c], jobs := jobs p @ [j]\<rparr>"

subsection \<open>Handlers up to their call\<close>

definition live_body :: "panel \<Rightarrow> jsval" where
  "live_body p = obj [(''enabled'', Bool (enabled p)), (''mode'', mode p), (''accountId'', accountId p)]"

definition saveLive :: "moment \<Rightarrow> bool \<Rightarrow> panel \<Rightarrow> panel" where
  "saveLive m by_dialog p =
     begin_job m
       (obj [(''kind'', S ''other''),
             (''label'', Str ((if enabled p then [21551, 29992] else [20851, 38381]) @ [23454, 30424, 32, 45, 32] @ to_str (fld (strategy p) ''name''))),
             (''detail'', Str (to_str (mode p) @
                (if truthy (accountId p) then [32, 183, 32] @ take 8 (to_str (accountId p)) @ [8230] else [])))])
       (SetLive (option_id p) (live_body p)) (Saving_Live (new_id m) by_dialog)
       (p\<lparr>panel_busy := True, panel_error := None\<rparr>)"

definition saveRisk :: "moment \<Rightarrow> panel \<Rightarrow> panel" where
  "saveRisk m p =
     begin_job m
       (obj [(''kind'', S ''other''), (''label'', Str ([26356, 26032, 39118, 25511, 32, 45, 32] @ to_str (fld (strategy p) ''name''))),
             (''detail'', Str (js ''pos $'' @ to_str (maxPosition p) @ [32, 183, 32, 108, 101, 118, 32] @ to_str (maxLeverage p) @
                [215, 32, 183, 32, 100, 97, 105, 108, 121, 32, 36] @ to_str (dailyLoss p)))])
       (SetRisk (option_id p) (obj [(''maxPositionUsd'', maxPosition p), (''maxLeverage'', maxLeverage p),
                                    (''dailyLossCapUsd'', dailyLoss p)]))
       (Saving_Risk (new_id m))
       (p\<lparr>panel_busy := True, panel_error := None\<rparr>)"

definition doDelete :: "moment \<Rightarrow> panel \<Rightarrow> panel" where
  "doDelete m p =
     begin_job m
       (obj [(''kind'', S ''other''), (''label'', Str ([21024, 38500, 31574, 30053, 32, 45, 32] @ to_str (fld (strategy p) ''name'')))])
       (DeleteOption (option_id p)) (Deleting (new_id m)) (p\<lparr>panel_error := None\<rparr>)"

definition onSaveLiveClick :: "moment \<Rightarrow> panel \<Rightarrow> panel" where
  "onSaveLiveClick m p = (if enabled p then p\<lparr>confirmLive := True\<rparr> else saveLive m False p)"

subsection \<open>Answers\<close>

definition log_outcome :: "jstr \<Rightarrow> thrown + jsval \<Rightarrow> moment \<Rightarrow> panel \<Rightarrow> panel" where
  "log_outcome i r m p = p\<lparr>panel_log := update i (outcome_patch r) (now_ms m) (panel_log p)\<rparr>"

text \<open>The answer to \<^verbatim>\<open>setLive\<close>; the dialog, if it waits, closes on success and stays open on an error.\<close>

definition live_saved :: "bool \<Rightarrow> thrown + jsval \<Rightarrow> panel \<Rightarrow> panel" where
  "live_saved by_dialog r p =
     (let p = (case r of
            Inr _ \<Rightarrow> p\<lparr>navigations := navigations p @ [Refresh], toasts := toasts p @ [(True, [23454, 30424, 37197, 32622, 24050, 20445, 23384])],
                       confirmLive := confirmLive p \<and> \<not> by_dialog\<rparr>
          | Inl e \<Rightarrow> p\<lparr>panel_error := Some (thrown_message e), toasts := toasts p @ [(False, [20445, 23384, 22833, 36133])]\<rparr>)
      in p\<lparr>panel_busy := False, live_confirming := live_confirming p \<and> \<not> by_dialog\<rparr>)"

definition risk_saved :: "thrown + jsval \<Rightarrow> panel \<Rightarrow> panel" where
  "risk_saved r p =
     (case r of
        Inr _ \<Rightarrow> p\<lparr>navigations := navigations p @ [Refresh], toasts := toasts p @ [(True, [39118, 25511, 19978, 38480, 24050, 20445, 23384])],
                   panel_busy := False\<rparr>
      | Inl e \<Rightarrow> p\<lparr>panel_error := Some (thrown_message e), toasts := toasts p @ [(False, [20445, 23384, 22833, 36133])],
                   panel_busy := False\<rparr>)"

definition deleted :: "thrown + jsval \<Rightarrow> panel \<Rightarrow> panel" where
  "deleted r p =
     (case r of
        Inr _ \<Rightarrow> p\<lparr>navigations := navigations p @ [Go (js ''/strategies''), Refresh],
                   toasts := toasts p @ [(True, [31574, 30053, 24050, 21024, 38500])], confirmDelete := False, delete_confirming := False\<rparr>
      | Inl e \<Rightarrow> p\<lparr>panel_error := Some (thrown_message e), toasts := toasts p @ [(False, [21024, 38500, 22833, 36133])],
                   delete_confirming := False\<rparr>)"

fun finish_job :: "job \<Rightarrow> thrown + jsval \<Rightarrow> moment \<Rightarrow> panel \<Rightarrow> panel" where
  "finish_job (Saving_Live i by_dialog) r m p = live_saved by_dialog r (log_outcome i r m p)"
| "finish_job (Saving_Risk i) r m p = risk_saved r (log_outcome i r m p)"
| "finish_job (Deleting i) r m p = deleted r (log_outcome i r m p)"

subsection \<open>Events\<close>

datatype panel_event =
    Toggle bool
  | Choose_Mode jstr
  | Choose_Account jstr
  | Type_Position jstr
  | Type_Leverage jstr
  | Type_Loss jstr
  | Press_Live moment
  | Confirm_Live moment
  | Cancel_Live
  | Press_Risk moment
  | Press_Delete
  | Confirm_Delete moment
  | Cancel_Delete
  | Job_Done nat reply

text \<open>
  \<^verbatim>\<open>handleConfirm\<close> of a dialog sets its own flag for the time of the call; meanwhile neither of its buttons
  can be pressed. A dialog can be closed at any time (see \<open>Confirmation.dismiss\<close>); that does not take the
  call back. The two save buttons share the panel's flag.
\<close>

fun panel_step :: "panel_event \<Rightarrow> panel \<Rightarrow> panel" where
  "panel_step (Toggle b) p = p\<lparr>enabled := b\<rparr>"
| "panel_step (Choose_Mode v) p = p\<lparr>mode := Str v\<rparr>"
| "panel_step (Choose_Account v) p = p\<lparr>accountId := Str v\<rparr>"
| "panel_step (Type_Position v) p = p\<lparr>maxPosition := Num (read_number v)\<rparr>"
| "panel_step (Type_Leverage v) p = p\<lparr>maxLeverage := Num (read_number v)\<rparr>"
| "panel_step (Type_Loss v) p = p\<lparr>dailyLoss := Num (read_number v)\<rparr>"
| "panel_step (Press_Live m) p = (if panel_busy p then p else onSaveLiveClick m p)"
| "panel_step (Confirm_Live m) p =
     (if confirmLive p \<and> \<not> live_confirming p then saveLive m True (p\<lparr>live_confirming := True\<rparr>) else p)"
| "panel_step Cancel_Live p = p\<lparr>confirmLive := False\<rparr>"
| "panel_step (Press_Risk m) p = (if panel_busy p then p else saveRisk m p)"
| "panel_step Press_Delete p = p\<lparr>confirmDelete := True\<rparr>"
| "panel_step (Confirm_Delete m) p =
     (if confirmDelete p \<and> \<not> delete_confirming p then doDelete m (p\<lparr>delete_confirming := True\<rparr>) else p)"
| "panel_step Cancel_Delete p = p\<lparr>confirmDelete := False\<rparr>"
| "panel_step (Job_Done k (Reply r m)) p =
     (if k < length (jobs p)
      then finish_job (jobs p ! k) r m (p\<lparr>jobs := take k (jobs p) @ drop (Suc k) (jobs p)\<rparr>) else p)"

definition panel_run :: "panel_event list \<Rightarrow> panel \<Rightarrow> panel" where
  "panel_run es p = fold panel_step es p"

subsection \<open>Live trading starts only by two presses\<close>

definition turns_on :: "panel_call \<Rightarrow> bool" where
  "turns_on c \<longleftrightarrow> (case c of SetLive _ body \<Rightarrow> truthy (fld body ''enabled'') | _ \<Rightarrow> False)"

lemma job_keeps [simp]:
  "panel_calls (finish_job j r m p) = panel_calls p" "enabled (finish_job j r m p) = enabled p"
  by (cases j; simp add: live_saved_def risk_saved_def deleted_def log_outcome_def Let_def split: sum.split)+

lemma job_closes: "confirmLive (finish_job j r m p) \<Longrightarrow> confirmLive p"
  by (cases j; cases r; simp add: live_saved_def risk_saved_def deleted_def log_outcome_def)

lemma calls_made:
  "panel_calls (saveLive m b p) = panel_calls p @ [SetLive (option_id p) (live_body p)]"
  "panel_calls (doDelete m p) = panel_calls p @ [DeleteOption (option_id p)]"
  "\<exists>risk. panel_calls (saveRisk m p) = panel_calls p @ [SetRisk (option_id p) risk]"
  by (simp_all add: saveLive_def doDelete_def saveRisk_def begin_job_def option_id_def live_body_def)

lemma dialog_kept [simp]:
  "confirmLive (saveLive m b p) = confirmLive p" "confirmLive (doDelete m p) = confirmLive p"
  "confirmLive (saveRisk m p) = confirmLive p"
  by (simp_all add: saveLive_def doDelete_def saveRisk_def begin_job_def)

lemma turns_on_cases [simp]:
  "turns_on (SetLive i (live_body p)) = enabled p" "\<not> turns_on (DeleteOption i)" "\<not> turns_on (SetRisk i b)"
  by (simp_all add: turns_on_def live_body_def)

lemma confirming_is_local [simp]:
  "option_id (p\<lparr>live_confirming := b\<rparr>) = option_id p" "live_body (p\<lparr>live_confirming := b\<rparr>) = live_body p"
  by (simp_all add: option_id_def live_body_def)

text \<open>What the panel takes for a confirmation: the dialog is shown and its confirmation is not already running.\<close>

fun confirms_live :: "panel_event \<Rightarrow> panel \<Rightarrow> bool" where
  "confirms_live (Confirm_Live m) p = (confirmLive p \<and> \<not> live_confirming p)"
| "confirms_live _ p = False"

lemma confirms_live_iff: "confirms_live e p \<longleftrightarrow> (\<exists>m. e = Confirm_Live m) \<and> confirmLive p \<and> \<not> live_confirming p"
  by (cases e) auto

definition live_request :: "panel \<Rightarrow> panel_call list" where
  "live_request p = (if enabled p then [SetLive (option_id p) (live_body p)] else [])"

lemma step_turns_on:
  "filter turns_on (panel_calls (panel_step e p)) =
    filter turns_on (panel_calls p) @ (if confirms_live e p then live_request p else [])"
proof (cases e)
  case (Press_Risk m)
  obtain risk where "panel_calls (saveRisk m p) = panel_calls p @ [SetRisk (option_id p) risk]" using calls_made(3) by blast
  with Press_Risk show ?thesis by simp
next
  case (Job_Done k r)
  then show ?thesis by (cases r) simp
qed (simp_all add: onSaveLiveClick_def calls_made live_request_def)

lemma step_opens:
  assumes "confirmLive (panel_step e p)" and "\<not> confirmLive p"
  shows "\<exists>m. e = Press_Live m \<and> enabled p"
proof (cases e)
  case (Press_Live m)
  with assms show ?thesis by (auto simp: onSaveLiveClick_def split: if_splits)
next
  case (Job_Done k r)
  with assms show ?thesis by (cases r) (auto split: if_splits dest: job_closes)
qed (use assms in \<open>auto split: if_splits\<close>)

interpretation live: confirmed panel_step panel_calls turns_on live_request confirmLive
  "\<lambda>e. \<exists>m. e = Press_Live m" confirms_live enabled
  by unfold_locales (use step_turns_on step_opens in \<open>auto simp: confirms_live_iff\<close>)

text \<open>
  C6: Live trading is turned on only by two presses, every time. Whatever is pressed, typed and answered, in
  any order, the requests of the panel that turn live trading on are, one for one and in order, those of
  the accepted confirmations (the dialog shown, its confirmation not running, the switch on), each for the
  mode and the account that the panel held at that moment; no other event makes one, and none is repeated
  by itself. At each of these confirmations the dialog had been shown without a break since the save button
  was pressed with the switch on.
\<close>

theorem live_needs_two_presses:
  "let held = (\<lambda>k. panel_run (take k es) (new_panel s st));
       presses = filter (\<lambda>k. enabled (held k)) (turns panel_step confirms_live es (new_panel s st))
   in filter turns_on (panel_calls (panel_run es (new_panel s st))) =
        map (\<lambda>k. SetLive (option_id (held k)) (live_body (held k))) presses \<and>
      (\<forall>k \<in> set presses. (\<exists>m. es ! k = Confirm_Live m) \<and> confirmLive (held k) \<and> \<not> live_confirming (held k) \<and>
        (\<exists>j m. j < k \<and> es ! j = Press_Live m \<and> enabled (held j) \<and> (\<forall>i. j < i \<and> i \<le> k \<longrightarrow> confirmLive (held i))))"
  unfolding Let_def
proof (intro conjI ballI)
  let ?p = "new_panel s st"
  let ?held = "\<lambda>k. panel_run (take k es) ?p"
  have "concat (map (\<lambda>k. live_request (?held k)) ks) =
      map (\<lambda>k. SetLive (option_id (?held k)) (live_body (?held k))) (filter (\<lambda>k. enabled (?held k)) ks)" for ks
    by (induction ks) (simp_all add: live_request_def)
  moreover have "panel_calls ?p = []" "\<not> confirmLive ?p" by (simp_all add: new_panel_def)
  ultimately show "filter turns_on (panel_calls (panel_run es ?p)) = map (\<lambda>k. SetLive (option_id (?held k)) (live_body (?held k)))
      (filter (\<lambda>k. enabled (?held k)) (turns panel_step confirms_live es ?p))"
    using live.calls_counted [of es ?p] by (simp add: panel_run_def)
  fix k assume "k \<in> set (filter (\<lambda>k. enabled (?held k)) (turns panel_step confirms_live es ?p))"
  then have k: "k \<in> set (turns panel_step confirms_live es ?p)" by simp
  with turn_bound [OF k] show "\<exists>m. es ! k = Confirm_Live m" "confirmLive (?held k)" "\<not> live_confirming (?held k)"
    by (simp_all add: confirms_live_iff panel_run_def)
  from live.turn_opened [OF \<open>\<not> confirmLive ?p\<close> k]
  show "\<exists>j m. j < k \<and> es ! j = Press_Live m \<and> enabled (?held j) \<and> (\<forall>i. j < i \<and> i \<le> k \<longrightarrow> confirmLive (?held i))"
    unfolding panel_run_def by blast
qed

lemma enabling_turns:
  "turns panel_step confirms_live [Toggle True, Press_Live m, Confirm_Live m'] (new_panel Null st) = [2]"
  by (simp add: turns_def onSaveLiveClick_def new_panel_def upt_rec numeral_2_eq_2)

theorem live_needs_two_presses_witness:
  "filter turns_on (panel_calls (panel_run
      [Toggle True, Press_Live \<lparr>now_ms = 1, new_id = []\<rparr>, Confirm_Live \<lparr>now_ms = 2, new_id = []\<rparr>] (new_panel Null demo_activity))) =
    [SetLive [] (obj [(''enabled'', Bool True), (''mode'', S ''testnet''), (''accountId'', Str [])])]"
proof -
  let ?m = "\<lparr>now_ms = 1, new_id = []\<rparr>" and ?m' = "\<lparr>now_ms = 2, new_id = []\<rparr>"
  let ?es = "[Toggle True, Press_Live ?m, Confirm_Live ?m']"
  have "panel_run (take 2 ?es) (new_panel Null demo_activity) = (new_panel Null demo_activity)\<lparr>enabled := True, confirmLive := True\<rparr>"
    by (simp add: panel_run_def onSaveLiveClick_def new_panel_def)
  with live_needs_two_presses [of ?es Null demo_activity] show ?thesis
    unfolding Let_def enabling_turns by (simp add: new_panel_def option_id_def live_body_def coalesce_def)
qed

text \<open>
  What follows the confirmation: an error keeps the dialog open for another try and shows its message,
  success closes it and reloads the strategy.
\<close>

lemma confirmation_settles:
  assumes "confirmLive p" and "\<not> live_confirming p"
    and "q = panel_step (Job_Done (length (jobs p)) (Reply r m')) (panel_step (Confirm_Live m) p)"
  shows "\<not> panel_busy q" "\<not> live_confirming q" "jobs q = jobs p"
    "panel_calls q = panel_calls p @ [SetLive (option_id p) (live_body p)]"
    "case r of
       Inr _ \<Rightarrow> \<not> confirmLive q \<and> navigations q = navigations p @ [Refresh]
     | Inl e \<Rightarrow> confirmLive q \<and> navigations q = navigations p \<and> panel_error q = Some (thrown_message e)"
  using assms(1,2) unfolding assms(3)
  by (simp_all add: saveLive_def begin_job_def live_saved_def log_outcome_def option_id_def live_body_def Let_def split: sum.split)

end
