(* ===== verification/Recommendations.thy ===== *)
theory Recommendations
  imports Activity_Center Money_Page Confirmation Js_Order
begin

section \<open>Recommendations of the optimiser\<close>

text \<open>
  \<^verbatim>\<open>recommendations/page.tsx\<close>, \<^verbatim>\<open>recommendations-list.tsx\<close> and \<^verbatim>\<open>[id]/actions.tsx\<close> of
  \<^verbatim>\<open>src/client/app/(dashboard)/recommendations\<close>: how the list is grouped into studies, how the similar
  recommendations of a study are rejected in one go, and how one recommendation is approved, rejected
  or sent to the backtest form. Requests are represented by the identifiers they are made for; their
  answers arrive in any order.
\<close>

subsection \<open>Studies\<close>

text \<open>A \<^verbatim>\<open>Map\<close> from study to its recommendations, in the order in which the studies first occur.\<close>

primrec push_group :: "jsval \<Rightarrow> jsval \<Rightarrow> (jsval \<times> jsval list) list \<Rightarrow> (jsval \<times> jsval list) list" where
  "push_group k r [] = [(k, [r])]"
| "push_group k r (g # gs) = (if fst g = k then (k, snd g @ [r]) # gs else g # push_group k r gs)"

definition study_key :: "jsval \<Rightarrow> jsval" where
  "study_key r = js_or (fld r ''studyId'') (fld r ''id'')"

definition by_study :: "jsval list \<Rightarrow> (jsval \<times> jsval list) list" where
  "by_study recs = fold (\<lambda>r. push_group (study_key r) r) recs []"

definition sharpe_of :: "jsval \<Rightarrow> jsnum" where
  "sharpe_of r = to_num (coalesce (fld (fld r ''expectedDelta'') ''sharpe'') (Num NInf))"

definition delta_cmp :: "jsval \<Rightarrow> jsval \<Rightarrow> jsnum" where
  "delta_cmp a b = num_sub (sharpe_of b) (sharpe_of a)"

definition cluster_of :: "jsval \<times> jsval list \<Rightarrow> jsval" where
  "cluster_of g =
     (let sorted = js_sort delta_cmp (snd g)
      in obj [(''studyId'', fst g), (''primary'', item_at sorted 0), (''similar'', Arr (drop 1 sorted))])"

definition created_at :: "jsval \<Rightarrow> date" where
  "created_at c = date_of (fld (fld c ''primary'') ''createdAt'')"

definition created_cmp :: "jsval \<Rightarrow> jsval \<Rightarrow> jsnum" where
  "created_cmp a b = num_sub (time_of (created_at b)) (time_of (created_at a))"

definition groupByStudy :: "jsval list \<Rightarrow> jsval list" where
  "groupByStudy recs = js_sort created_cmp (map cluster_of (by_study recs))"

definition members :: "jsval \<Rightarrow> jsval list" where
  "members c = fld c ''primary'' # elems (fld c ''similar'')"

text \<open>
  The strategies of the list, looked up once each; a failed lookup leaves the entry \<^verbatim>\<open>undefined\<close>.
\<close>

definition uniqueStrategyIds :: "jsval list \<Rightarrow> jsval list" where
  "uniqueStrategyIds recs = remdups_first (map (\<lambda>r. fld r ''strategyId'') recs)"

definition strategiesById :: "(jsval \<Rightarrow> thrown + jsval) \<Rightarrow> jsval list \<Rightarrow> (jstr \<times> jsval) list" where
  "strategiesById getStrategy recs =
     fold (\<lambda>i m. put m (to_str i) (case getStrategy i of Inr v \<Rightarrow> v | Inl _ \<Rightarrow> Undef)) (uniqueStrategyIds recs) []"

subsection \<open>Rejecting the similar recommendations of a study\<close>

text \<open>
  The rows of one study: whether the similar ones are listed, the dialog, the message of a failed
  rejection. The requests of one confirmation are answered together (\<^verbatim>\<open>Promise.allSettled\<close>).
\<close>

record cluster_row =
  cluster :: jsval
  expanded :: bool
  bulk :: dialog
  bulk_error :: "jstr option"
  bulk_log :: activity
  bulk_pending :: "jstr option"
  rejections :: "jsval list"
  refreshes :: nat
  bulk_toasts :: "(bool \<times> jstr) list"

definition similar :: "cluster_row \<Rightarrow> jsval list" where
  "similar row = elems (fld (cluster row) ''similar'')"

definition new_row :: "jsval \<Rightarrow> activity \<Rightarrow> cluster_row" where
  "new_row c st =
     \<lparr>cluster = c, expanded = False, bulk = no_dialog, bulk_error = None, bulk_log = st, bulk_pending = None,
      rejections = [], refreshes = 0, bulk_toasts = []\<rparr>"

definition onBulkReject :: "moment \<Rightarrow> cluster_row \<Rightarrow> cluster_row" where
  "onBulkReject m row =
     row\<lparr>bulk_error := None,
       bulk_log := push (new_id m) (now_ms m)
         (obj [(''kind'', S ''optimization''),
               (''label'', Str ([25209, 37327, 25298, 32477, 30456, 20284, 25512, 33616, 32, 40] @ nat_digits (length (similar row)) @ js '')'')),
               (''detail'', Str (js ''study '' @ take 8 (to_str (fld (cluster row) ''studyId'')) @ [8230]))]) (bulk_log row),
       bulk_pending := Some (new_id m),
       rejections := rejections row @ map (\<lambda>r. fld r ''id'') (similar row)\<rparr>"

definition bulk_settled :: "(thrown + jsval) list \<Rightarrow> moment \<Rightarrow> cluster_row \<Rightarrow> cluster_row" where
  "bulk_settled results m row =
     (case bulk_pending row of
        None \<Rightarrow> row
      | Some i \<Rightarrow>
          let failed = length (filter isl results); all = nat_digits (length results);
              row = row\<lparr>bulk_pending := None,
                bulk_log := update i
                  (obj [(''status'', if failed = 0 then S ''success'' else S ''failed''),
                        (''detail'', Str (if failed = 0 then all @ [32, 26465, 24050, 25298, 32477]
                                          else nat_digits failed @ js ''/'' @ all @ [32, 22833, 36133]))])
                  (now_ms m) (bulk_log row)\<rparr>
          in if failed \<noteq> 0
             then let msg = nat_digits failed @ js '' / '' @ all @ [32, 20010, 25512, 33616, 25298, 32477, 22833, 36133]
                  in row\<lparr>bulk_error := Some msg, bulk_toasts := bulk_toasts row @ [(False, msg)],
                         bulk := confirm_ended False (bulk row)\<rparr>
             else row\<lparr>expanded := False,
                      bulk_toasts := bulk_toasts row @ [(True, [24050, 25298, 32477, 32] @ all @ [32, 20010, 30456, 20284, 25512, 33616])],
                      refreshes := Suc (refreshes row), bulk := confirm_ended True (bulk row)\<rparr>)"

datatype row_event =
    Toggle_Similar
  | Press_Bulk
  | Cancel_Bulk
  | Confirm_Bulk moment
  | Bulk_Settled "(thrown + jsval) list" moment

text \<open>The button is part of the expanded rows, the expander is there when there is something to expand.\<close>

fun row_step :: "row_event \<Rightarrow> cluster_row \<Rightarrow> cluster_row" where
  "row_step Toggle_Similar row = (if similar row = [] then row else row\<lparr>expanded := \<not> expanded row\<rparr>)"
| "row_step Press_Bulk row = (if expanded row then row\<lparr>bulk := show_dialog (bulk row)\<rparr> else row)"
| "row_step Cancel_Bulk row = row\<lparr>bulk := dismiss (bulk row)\<rparr>"
| "row_step (Confirm_Bulk m) row =
     (if can_confirm (bulk row) then onBulkReject m (row\<lparr>bulk := confirm_started (bulk row)\<rparr>) else row)"
| "row_step (Bulk_Settled results m) row =
     (if length results = length (similar row) then bulk_settled results m row else row)"

subsection \<open>One recommendation\<close>

datatype rec_call = Approve jsval | Reject jsval

datatype rec_job = Approving jstr | Rejecting jstr

record rec_actions =
  rec_id :: jstr
  rec_strategyId :: jstr
  proposedParams :: jsval
  execSymbol :: jsval
  actionable :: bool
  rec_error :: "jstr option"
  approving :: dialog
  rejecting :: dialog
  rec_log :: activity
  rec_calls :: "rec_call list"
  rec_jobs :: "rec_job list"
  rec_pushed :: "jstr list"
  rec_refreshes :: nat
  rec_toasts :: "(bool \<times> jstr) list"

definition new_rec :: "jstr \<Rightarrow> jstr \<Rightarrow> jsval \<Rightarrow> jsval \<Rightarrow> bool \<Rightarrow> activity \<Rightarrow> rec_actions" where
  "new_rec i strategy params symbol b st =
     \<lparr>rec_id = i, rec_strategyId = strategy, proposedParams = params, execSymbol = symbol, actionable = b, rec_error = None,
      approving = no_dialog, rejecting = no_dialog, rec_log = st, rec_calls = [], rec_jobs = [], rec_pushed = [],
      rec_refreshes = 0, rec_toasts = []\<rparr>"

definition start_review :: "moment \<Rightarrow> jstr \<Rightarrow> rec_call \<Rightarrow> rec_job \<Rightarrow> rec_actions \<Rightarrow> rec_actions" where
  "start_review m label c j a =
     a\<lparr>rec_error := None,
       rec_log := push (new_id m) (now_ms m)
         (obj [(''kind'', S ''optimization''), (''label'', Str (label @ take 8 (rec_id a))),
               (''detail'', Str (take 12 (rec_strategyId a)))]) (rec_log a),
       rec_calls := rec_calls a @ [c], rec_jobs := rec_jobs a @ [j]\<rparr>"

definition doApprove :: "moment \<Rightarrow> rec_actions \<Rightarrow> rec_actions" where
  "doApprove m a = start_review m [25209, 20934, 25512, 33616, 32, 35] (Approve (Str (rec_id a))) (Approving (new_id m)) a"

definition doReject :: "moment \<Rightarrow> rec_actions \<Rightarrow> rec_actions" where
  "doReject m a = start_review m [25298, 32477, 25512, 33616, 32, 35] (Reject (Str (rec_id a))) (Rejecting (new_id m)) a"

text \<open>\<^verbatim>\<open>e instanceof Error ? e.message : fallback\<close>\<close>

definition message_or :: "jstr \<Rightarrow> thrown \<Rightarrow> jstr" where
  "message_or fallback e = (case e of Thrown_Error msg \<Rightarrow> msg | Thrown_Value _ \<Rightarrow> fallback)"

definition end_review :: "jstr \<Rightarrow> jstr \<Rightarrow> jstr \<Rightarrow> thrown + jsval \<Rightarrow> moment \<Rightarrow> rec_actions \<Rightarrow> rec_actions" where
  "end_review i done failed r m a =
     (let a = a\<lparr>rec_log := update i (outcome_patch r) (now_ms m) (rec_log a)\<rparr>
      in case r of
           Inr _ \<Rightarrow> a\<lparr>rec_toasts := rec_toasts a @ [(True, done)], rec_refreshes := Suc (rec_refreshes a)\<rparr>
         | Inl e \<Rightarrow> a\<lparr>rec_error := Some (message_or failed e), rec_toasts := rec_toasts a @ [(False, failed)]\<rparr>)"

definition approved :: "jstr \<Rightarrow> thrown + jsval \<Rightarrow> moment \<Rightarrow> rec_actions \<Rightarrow> rec_actions" where
  "approved i r m a =
     (let a = end_review i [24050, 36890, 36807] [25209, 20934, 22833, 36133] r m a in a\<lparr>approving := confirm_ended (\<not> isl r) (approving a)\<rparr>)"

definition rejected :: "jstr \<Rightarrow> thrown + jsval \<Rightarrow> moment \<Rightarrow> rec_actions \<Rightarrow> rec_actions" where
  "rejected i r m a =
     (let a = end_review i [24050, 25298, 32477] [25298, 32477, 22833, 36133] r m a in a\<lparr>rejecting := confirm_ended (\<not> isl r) (rejecting a)\<rparr>)"

definition onBacktest :: "rec_actions \<Rightarrow> rec_actions" where
  "onBacktest a =
     a\<lparr>rec_pushed := rec_pushed a @
       [js ''/backtests/new?'' @ query_string
          [(js ''strategyId'', rec_strategyId a), (js ''symbol'', to_str (coalesce (execSymbol a) (Str []))),
           (js ''proposed'', json_stringify (coalesce (proposedParams a) (obj []))), (js ''lookbackDays'', js ''30'')]]\<rparr>"

datatype rec_event =
    Press_Approve
  | Press_Reject
  | Cancel_Approve
  | Cancel_Reject
  | Confirm_Approve moment
  | Confirm_Reject moment
  | Review_Done nat reply
  | Press_Backtest
  | New_Actionable bool

fun end_rec_job :: "rec_job \<Rightarrow> thrown + jsval \<Rightarrow> moment \<Rightarrow> rec_actions \<Rightarrow> rec_actions" where
  "end_rec_job (Approving i) r m a = approved i r m a"
| "end_rec_job (Rejecting i) r m a = rejected i r m a"

fun rec_step :: "rec_event \<Rightarrow> rec_actions \<Rightarrow> rec_actions" where
  "rec_step Press_Approve a = (if actionable a then a\<lparr>approving := show_dialog (approving a)\<rparr> else a)"
| "rec_step Press_Reject a = (if actionable a then a\<lparr>rejecting := show_dialog (rejecting a)\<rparr> else a)"
| "rec_step Cancel_Approve a = a\<lparr>approving := dismiss (approving a)\<rparr>"
| "rec_step Cancel_Reject a = a\<lparr>rejecting := dismiss (rejecting a)\<rparr>"
| "rec_step (Confirm_Approve m) a =
     (if can_confirm (approving a) then doApprove m (a\<lparr>approving := confirm_started (approving a)\<rparr>) else a)"
| "rec_step (Confirm_Reject m) a =
     (if can_confirm (rejecting a) then doReject m (a\<lparr>rejecting := confirm_started (rejecting a)\<rparr>) else a)"
| "rec_step (Review_Done k (Reply r m)) a =
     (if k < length (rec_jobs a)
      then end_rec_job (rec_jobs a ! k) r m (a\<lparr>rec_jobs := take k (rec_jobs a) @ drop (Suc k) (rec_jobs a)\<rparr>) else a)"
| "rec_step Press_Backtest a = onBacktest a"
| "rec_step (New_Actionable b) a = a\<lparr>actionable := b\<rparr>"

end
