(* ===== verification/Iso_Dates.thy ===== *)
theory Iso_Dates
  imports Js_Ops Js_Number
begin

section \<open>Dates that are printed and read\<close>

text \<open>
  What \<^verbatim>\<open>toISOString\<close> prints is read back as the same instant. The civil date of a day number is taken
  apart by eras of 400 years that start on the first of March; the lemmas give the ranges of its parts
  and that \<open>days_of\<close> undoes \<open>civil\<close>.
\<close>

lemma div_bounds: "0 < k \<Longrightarrow> k * (a div k) \<le> a \<and> a < k * (a div k) + k" for a k :: int
  using pos_mod_bound [of k a] pos_mod_sign [of k a] mult_div_mod_eq [of k a] by linarith

subsection \<open>The year of a day in its era\<close>

definition year_start :: "int \<Rightarrow> int" where
  "year_start y = 365 * y + y div 4 - y div 100"

definition year_num :: "int \<Rightarrow> int" where
  "year_num doe = doe - doe div 1460 + doe div 36524 - doe div 146096"

lemma year_num_step:
  assumes "0 \<le> n" and "n < 146096"
  shows "year_num n \<le> year_num (n + 1)"
proof (cases "n = 146095")
  case False
  have "(n + 1) div 1460 \<le> n div 1460 + 1" using div_bounds [of 1460 n] div_bounds [of 1460 "n + 1"] by linarith
  moreover have "n div 36524 \<le> (n + 1) div 36524" by (rule zdiv_mono1) simp_all
  moreover have "n div 146096 = 0" "(n + 1) div 146096 = 0" using assms False by (simp_all add: div_pos_pos_trivial)
  ultimately show ?thesis unfolding year_num_def by linarith
qed (simp add: year_num_def)

lemma year_num_mono:
  assumes "0 \<le> a" and "a \<le> b" and "b \<le> 146096"
  shows "year_num a \<le> year_num b"
  using assms(2,3)
proof (induction b rule: int_ge_induct)
  case (step b)
  then have "year_num a \<le> year_num b" "year_num b \<le> year_num (b + 1)"
    using year_num_step [of b] assms(1) by auto
  then show ?case by simp
qed simp

lemma year_start_nonneg: "0 \<le> y \<Longrightarrow> 0 \<le> year_start y"
  using div_bounds [of 4 y] div_bounds [of 100 y] unfolding year_start_def by linarith

lemma year_start_step: "year_start (y + 1) \<le> year_start y + 366"
proof -
  have "(y + 1) div 4 \<le> y div 4 + 1" "y div 100 \<le> (y + 1) div 100"
    using div_bounds [of 4 y] div_bounds [of 4 "y + 1"] div_bounds [of 100 y] div_bounds [of 100 "y + 1"] by linarith+
  then show ?thesis by (simp add: year_start_def)
qed

text \<open>Each of the 400 years of an era contains the days from its start to the next one's.\<close>

lemma years_checked:
  "list_all (\<lambda>y. 365 * y \<le> year_num (year_start y) \<and> year_num (year_start (y + 1) - 1) < 365 * (y + 1)) [0..399]"
  unfolding year_num_def year_start_def by code_simp

lemma year_bounds:
  assumes "0 \<le> y" and "y \<le> 399"
  shows "365 * y \<le> year_num (year_start y)" and "year_num (year_start (y + 1) - 1) < 365 * (y + 1)"
  using years_checked assms by (auto simp: list_all_iff)

lemma year_of_day:
  assumes "0 \<le> doe" and "doe < 146097"
  defines "yoe \<equiv> year_num doe div 365"
  shows "0 \<le> yoe" "yoe \<le> 399" "year_start yoe \<le> doe" "doe - year_start yoe \<le> 365"
proof -
  have n0: "0 \<le> year_num doe" using year_num_mono [of 0 doe] assms by (simp add: year_num_def)
  have "year_num doe \<le> year_num 146096" using year_num_mono [of doe 146096] assms by simp
  then have n1: "year_num doe < 146000" by (simp add: year_num_def)
  show y0: "0 \<le> yoe" using n0 by (simp add: yoe_def pos_imp_zdiv_nonneg_iff)
  show y1: "yoe \<le> 399" using n1 by (simp add: yoe_def)
  have d: "365 * yoe \<le> year_num doe" "year_num doe < 365 * (yoe + 1)"
    using div_bounds [of 365 "year_num doe"] unfolding yoe_def distrib_left by linarith+
  have q: "yoe div 4 \<le> yoe" "0 \<le> yoe div 100"
    using y0 div_bounds [of 4 yoe] div_bounds [of 100 yoe] by linarith+
  show "year_start yoe \<le> doe"
  proof (rule ccontr)
    assume "\<not> year_start yoe \<le> doe"
    then have below: "doe \<le> year_start yoe - 1" by simp
    with assms(1) have "yoe \<noteq> 0" by (auto simp: year_start_def)
    then have "year_num (year_start yoe - 1) < 365 * yoe" using year_bounds(2) [of "yoe - 1"] y0 y1 by simp
    moreover have "year_start yoe - 1 \<le> 146096" using q y1 unfolding year_start_def by linarith
    then have "year_num doe \<le> year_num (year_start yoe - 1)" using year_num_mono assms(1) below by blast
    ultimately show False using d(1) by linarith
  qed
  show "doe - year_start yoe \<le> 365"
  proof (cases "yoe = 399")
    case True
    then show ?thesis using assms(2) by (simp add: year_start_def)
  next
    case False
    show ?thesis
    proof (rule ccontr)
      assume "\<not> doe - year_start yoe \<le> 365"
      then have above: "year_start (yoe + 1) \<le> doe" using year_start_step [of yoe] by linarith
      have "0 \<le> year_start (yoe + 1)" using year_start_nonneg y0 by simp
      then have "year_num (year_start (yoe + 1)) \<le> year_num doe"
        using year_num_mono above assms(2) by auto
      with year_bounds(1) [of "yoe + 1"] y0 y1 False d(2) show False by linarith
    qed
  qed
qed

subsection \<open>The civil date\<close>

lemma month_of_day:
  assumes "0 \<le> (doy :: int)" and "doy \<le> 365"
  defines "mp \<equiv> (5 * doy + 2) div 153"
  shows "0 \<le> mp" "mp \<le> 11" "1 \<le> doy - (153 * mp + 2) div 5 + 1" "doy - (153 * mp + 2) div 5 + 1 \<le> 31"
  using assms(1,2) div_bounds [of 153 "5 * doy + 2", folded mp_def] div_bounds [of 5 "153 * mp + 2"] by linarith+

lemma civil_ranges:
  assumes "civil days = (y, m, d)"
  shows "1 \<le> m" "m \<le> 12" "1 \<le> d" "d \<le> 31" "days_of y m d = days"
proof -
  define doe where "doe = (days + 719468) mod 146097"
  define era where "era = (days + 719468) div 146097"
  define yoe where "yoe = year_num doe div 365"
  define doy where "doy = doe - year_start yoe"
  define mp where "mp = (5 * doy + 2) div 153"
  have doe: "0 \<le> doe" "doe < 146097" by (simp_all add: doe_def)
  note yy = year_of_day [OF doe, folded yoe_def]
  have "0 \<le> doy" "doy \<le> 365" using yy(3,4) by (simp_all add: doy_def)
  note mm = month_of_day [OF this, folded mp_def]
  have c: "m = (if mp < 10 then mp + 3 else mp - 9)" "d = doy - (153 * mp + 2) div 5 + 1"
    "y = yoe + era * 400 + (if m \<le> 2 then 1 else 0)"
  proof -
    have "civil days = (yoe + era * 400 + (if (if mp < 10 then mp + 3 else mp - 9) \<le> 2 then 1 else 0),
        if mp < 10 then mp + 3 else mp - 9, doy - (153 * mp + 2) div 5 + 1)"
      unfolding civil_def Let_def mp_def doy_def yoe_def doe_def era_def year_num_def year_start_def by (rule refl)
    with assms show "m = (if mp < 10 then mp + 3 else mp - 9)" "d = doy - (153 * mp + 2) div 5 + 1"
      "y = yoe + era * 400 + (if m \<le> 2 then 1 else 0)" by auto
  qed
  show "1 \<le> m" "m \<le> 12" using mm(1,2) c(1) by (auto split: if_splits)
  show "1 \<le> d" "d \<le> 31" using mm(3,4) c(2) by simp_all
  have y': "(if m \<le> 2 then y - 1 else y) = yoe + era * 400" using c(3) by simp
  have "(yoe + era * 400) div 400 = era" "(yoe + era * 400) mod 400 = yoe" using yy(1,2) by simp_all
  moreover have "(if 2 < m then m - 3 else m + 9) = mp" using c(1) mm(1,2) by auto
  moreover have "(153 * mp + 2) div 5 + d - 1 = doy" using c(2) by simp
  ultimately have "days_of y m d = era * 146097 + (365 * yoe + yoe div 4 - yoe div 100 + doy) - 719468"
    by (simp only: days_of_def Let_def y')
  also have "\<dots> = era * 146097 + doe - 719468" by (simp add: doy_def year_start_def)
  also have "\<dots> = days" unfolding era_def doe_def by simp
  finally show "days_of y m d = days" .
qed

subsection \<open>Padded numbers\<close>

lemma pad_length: "0 \<le> n \<Longrightarrow> n < 10 ^ w \<Longrightarrow> 0 < w \<Longrightarrow> length (pad w n) = w"
proof -
  assume n: "0 \<le> n" "n < 10 ^ w" "0 < w"
  have "length (nat_digits (nat n)) \<le> w"
  proof (cases "nat n = 0")
    case True
    then show ?thesis using n(3) by (simp add: nat_digits.simps)
  next
    case False
    then have "10 ^ (length (nat_digits (nat n)) - 1) \<le> nat n" by (intro nat_digits_bounds(2)) simp
    also have "nat n < 10 ^ w" using n by (simp add: nat_less_iff)
    finally have "length (nat_digits (nat n)) - 1 < w" by simp
    then show ?thesis by linarith
  qed
  then show ?thesis by (simp add: pad_def Let_def)
qed

lemma pad_digits: "list_all is_digit (pad w n)"
  using nat_digits_digits digits_zeros by (simp add: pad_def Let_def)

lemma pad_value: "0 \<le> n \<Longrightarrow> int (digits_val (pad w n)) = n"
  by (simp add: pad_def Let_def digits_val_append digits_val_zeros)

lemma digits2_pad: "0 \<le> n \<Longrightarrow> n < 100 \<Longrightarrow> digits2 (pad 2 n) = Some n"
  using pad_length [of n 2] pad_digits pad_value by (simp add: digits2_def)

subsection \<open>The text of an instant\<close>

lemma read_day_text:
  assumes "0 \<le> y" "y \<le> 9999" "1 \<le> m" "m \<le> 12" "1 \<le> d" "d \<le> 31"
  shows "read_day (pad 4 y @ [45] @ pad 2 m @ [45] @ pad 2 d) = Some (days_of y m d)"
    and "length (pad 4 y @ [45] @ pad 2 m @ [45] @ pad 2 d) = 10"
proof -
  have l: "length (pad 4 y) = 4" "length (pad 2 m) = 2" "length (pad 2 d) = 2"
    using assms by (intro pad_length; simp)+
  have "digits2 (pad 2 m) = Some m" "digits2 (pad 2 d) = Some d" using assms by (intro digits2_pad; simp)+
  then show "read_day (pad 4 y @ [45] @ pad 2 m @ [45] @ pad 2 d) = Some (days_of y m d)"
    using l assms pad_digits by (simp add: read_day_def nth_append pad_value)
  show "length (pad 4 y @ [45] @ pad 2 m @ [45] @ pad 2 d) = 10" using l by simp
qed

lemma read_clock_text:
  assumes "0 \<le> h" "h < 24" "0 \<le> mi" "mi < 60" "0 \<le> s" "s < 60"
  shows "read_clock (pad 2 h @ [58] @ pad 2 mi @ [58] @ pad 2 s) = Some ((h * 60 + mi) * 60000 + s * 1000)"
    and "length (pad 2 h @ [58] @ pad 2 mi @ [58] @ pad 2 s) = 8"
proof -
  have l: "length (pad 2 h) = 2" "length (pad 2 mi) = 2" "length (pad 2 s) = 2"
    using assms by (intro pad_length; simp)+
  have "digits2 (pad 2 h) = Some h" "digits2 (pad 2 mi) = Some mi" "digits2 (pad 2 s) = Some s"
    using assms by (intro digits2_pad; simp)+
  then show "read_clock (pad 2 h @ [58] @ pad 2 mi @ [58] @ pad 2 s) = Some ((h * 60 + mi) * 60000 + s * 1000)"
    using l assms by (simp add: read_clock_def nth_append)
  show "length (pad 2 h @ [58] @ pad 2 mi @ [58] @ pad 2 s) = 8" using l by simp
qed

lemma clock_parts:
  "(r div 3600000 * 60 + r div 60000 mod 60) * 60000 + r div 1000 mod 60 * 1000 = r div 1000 * 1000" for r :: int
proof -
  define a where "a = r div 1000"
  have b: "r div 60000 = a div 60" unfolding a_def using zdiv_zmult2_eq [of 60 r 1000] by (simp only: mult_numeral_1 arith_simps rel_simps)
  have c: "r div 3600000 = a div 60 div 60"
    unfolding b [symmetric] using zdiv_zmult2_eq [of 60 r 60000] by simp
  have "r div 3600000 * 60 + r div 60000 mod 60 = a div 60" unfolding b c by (rule div_mult_mod_eq)
  moreover have "60 * (a div 60) + a mod 60 = a" by (rule mult_div_mod_eq)
  moreover have "x * 60000 + z * 1000 = a * 1000" if "x = y" "60 * y + z = a" for x y z
    using that by linarith
  ultimately show ?thesis unfolding a_def [symmetric] by blast
qed

text \<open>The instants of the years 0 to 9999, whose text has a year of four digits.\<close>

definition common_era :: "int \<Rightarrow> bool" where
  "common_era t \<longleftrightarrow> (let (y, _, _) = civil (t div 86400000) in 0 \<le> y \<and> y \<le> 9999)"

lemma iso_parts:
  assumes "common_era t"
  defines "r \<equiv> t mod 86400000"
  shows "\<exists>day clock. iso_of_ms t = day @ [84] @ clock @ [46] @ pad 3 (r mod 1000) @ [90] \<and>
    length day = 10 \<and> read_day day = Some (t div 86400000) \<and>
    clock = pad 2 (r div 3600000) @ [58] @ pad 2 (r div 60000 mod 60) @ [58] @ pad 2 (r div 1000 mod 60) \<and>
    length clock = 8 \<and> read_clock clock = Some (r div 1000 * 1000)"
proof -
  obtain y m d where c: "civil (t div 86400000) = (y, m, d)" by (cases "civil (t div 86400000)") auto
  note k = civil_ranges [OF c]
  have y: "0 \<le> y" "y \<le> 9999" using assms(1) c by (simp_all add: common_era_def)
  have r: "0 \<le> r" "r < 86400000" by (simp_all add: r_def)
  have h: "0 \<le> r div 3600000" "r div 3600000 < 24"
    using r div_bounds [of 3600000 r] by linarith+
  have e: "(r div 3600000 * 60 + r div 60000 mod 60) * 60000 + r div 1000 mod 60 * 1000 = r div 1000 * 1000"
    by (rule clock_parts)
  have m60: "0 \<le> x mod (60 :: int)" "x mod (60 :: int) < 60" for x by simp_all
  note clk = read_clock_text [OF h m60 m60, of "r div 60000" "r div 1000", unfolded e]
  note day = read_day_text [OF y k(1-4), unfolded k(5)]
  have "iso_of_ms t = (pad 4 y @ [45] @ pad 2 m @ [45] @ pad 2 d) @ [84] @
      (pad 2 (r div 3600000) @ [58] @ pad 2 (r div 60000 mod 60) @ [58] @ pad 2 (r div 1000 mod 60)) @
      [46] @ pad 3 (r mod 1000) @ [90]"
    by (simp only: iso_of_ms_def Let_def c prod.case iso_year_def y HOL.simp_thms if_True append_assoc r_def)
  with clk day show ?thesis by blast
qed

theorem parse_date_iso: "common_era t \<Longrightarrow> parse_date (iso_of_ms t) = Some t"
proof -
  assume "common_era t"
  from iso_parts [OF this] obtain day clock where i:
    "iso_of_ms t = day @ [84] @ clock @ [46] @ pad 3 (t mod 86400000 mod 1000) @ [90]"
    "length day = 10" "read_day day = Some (t div 86400000)" "length clock = 8"
    "read_clock clock = Some (t mod 86400000 div 1000 * 1000)" by blast
  have l: "length (pad 3 (t mod 86400000 mod 1000)) = 3" by (intro pad_length) simp_all
  have d: "takeWhile is_digit (pad 3 (t mod 86400000 mod 1000) @ [90]) = pad 3 (t mod 86400000 mod 1000) \<and>
      dropWhile is_digit (pad 3 (t mod 86400000 mod 1000) @ [90]) = [90]"
    using takeWhile_digits [OF pad_digits] by (simp add: is_digit_def)
  have "read_fraction ([46] @ pad 3 (t mod 86400000 mod 1000) @ [90]) = Some (t mod 86400000 mod 1000, [90])"
    using d l by (auto simp: read_fraction_def Let_def pad_value)
  moreover have "t mod 86400000 div 1000 * 1000 + t mod 86400000 mod 1000 = t mod 86400000" by (rule div_mult_mod_eq)
  then have "t div 86400000 * 86400000 + t mod 86400000 div 1000 * 1000 + t mod 86400000 mod 1000 = t"
    using div_mult_mod_eq [of t 86400000] by linarith
  ultimately show ?thesis using i by (simp add: parse_date_def read_offset_def)
qed

subsection \<open>Local times\<close>

text \<open>
  The value of a \<^verbatim>\<open>datetime-local\<close> input, \<^verbatim>\<open>YYYY-MM-DDTHH:mm\<close>, has no offset: \<^verbatim>\<open>new Date\<close> reads it as local
  time. The zone is an argument, the milliseconds that the wall clock is ahead of UTC when it shows a
  given time.
\<close>

definition parse_local :: "(int \<Rightarrow> int) \<Rightarrow> jstr \<Rightarrow> date" where
  "parse_local zone s =
     (if length s = 16 \<and> s ! 10 = 84 then
        (case (read_day (take 10 s), read_clock (drop 11 s @ js '':00'')) of
           (Some d, Some t) \<Rightarrow> let w = d * 86400000 + t in Some (w - zone w)
         | _ \<Rightarrow> None)
      else None)"

definition whole_minute :: "int \<Rightarrow> int" where
  "whole_minute t = t div 60000 * 60000"

text \<open>The first sixteen units of an ISO text, read as a local time, are off by the zone.\<close>

theorem parse_local_iso:
  assumes "common_era t"
  shows "parse_local zone (take 16 (iso_of_ms t)) = Some (whole_minute t - zone (whole_minute t))"
proof -
  define r where "r = t mod 86400000"
  from iso_parts [OF assms] obtain day clock where i:
    "iso_of_ms t = day @ [84] @ clock @ [46] @ pad 3 (r mod 1000) @ [90]"
    "length day = 10" "read_day day = Some (t div 86400000)"
    "clock = pad 2 (r div 3600000) @ [58] @ pad 2 (r div 60000 mod 60) @ [58] @ pad 2 (r div 1000 mod 60)"
    "length clock = 8" unfolding r_def by blast
  have r: "0 \<le> r" "r < 86400000" by (simp_all add: r_def)
  have h: "0 \<le> r div 3600000" "r div 3600000 < 24"
    using r div_bounds [of 3600000 r] by linarith+
  have l: "length (pad 2 (r div 3600000)) = 2" "length (pad 2 (r div 60000 mod 60)) = 2"
    using h by (intro pad_length; simp)+
  have z: "pad 2 0 = [48, 48]" by (simp add: pad_def nat_digits.simps)
  have m60: "0 \<le> x mod (60 :: int)" "x mod (60 :: int) < 60" for x by simp_all
  have "take 16 (iso_of_ms t) = day @ [84] @ take 5 clock" using i(2,5) unfolding i(1) by simp
  moreover have "take 5 clock = pad 2 (r div 3600000) @ [58] @ pad 2 (r div 60000 mod 60)" using l unfolding i(4) by simp
  moreover have "read_clock (pad 2 (r div 3600000) @ [58] @ pad 2 (r div 60000 mod 60) @ [58] @ pad 2 0) =
      Some ((r div 3600000 * 60 + r div 60000 mod 60) * 60000)"
    using read_clock_text(1) [OF h m60, of 0 "r div 60000"] by simp
  moreover have "(r div 3600000 * 60 + r div 60000 mod 60) = r div 60000"
    using zdiv_zmult2_eq [of 60 r 60000] div_mult_mod_eq [of "r div 60000" 60] by simp
  moreover have "t div 86400000 * 86400000 + r div 60000 * 60000 = whole_minute t"
  proof -
    have "t = t div 86400000 * 1440 * 60000 + r" using div_mult_mod_eq [of t 86400000] by (simp add: r_def)
    then have "t div 60000 = t div 86400000 * 1440 + r div 60000"
      by (metis add.commute div_mult_self1 numeral_neq_zero mult.commute)
    then show ?thesis by (simp add: whole_minute_def distrib_right)
  qed
  ultimately show ?thesis
    using i(2,3) l by (simp add: parse_local_def z js_def nth_append Let_def)
qed

end
