(* ===== verification/Json_Pretty.thy ===== *)
theory Json_Pretty
  imports Json_Trip
begin

section \<open>Indented JSON\<close>

text \<open>
  \<^verbatim>\<open>JSON.stringify(v, null, 2)\<close>: every element and member on a line of its own, indented by two more
  spaces than what holds it. \<^verbatim>\<open>JSON.parse\<close> reads it back like the text without the white space.
\<close>

definition line :: "nat \<Rightarrow> jstr" where
  "line ind = 10 # replicate ind 32"

fun json_lines :: "nat \<Rightarrow> jsval \<Rightarrow> jstr option" where
  "json_lines ind (Arr vs) =
     (if vs = [] then Some [91, 93]
      else Some (91 # line (ind + 2) @
        join (44 # line (ind + 2))
          (map (\<lambda>v. case json_lines (ind + 2) v of None \<Rightarrow> js ''null'' | Some t \<Rightarrow> t) vs) @ line ind @ [93]))"
| "json_lines ind (Obj kvs) =
     (let ms = concat (map (\<lambda>kv. case json_lines (ind + 2) (snd kv) of None \<Rightarrow> []
        | Some t \<Rightarrow> [json_quote (fst kv) @ 58 # 32 # t]) kvs)
      in if ms = [] then Some [123, 125]
         else Some (123 # line (ind + 2) @ join (44 # line (ind + 2)) ms @ line ind @ [125]))"
| "json_lines ind v = json_enc v"

definition json_pretty :: "jsval \<Rightarrow> jstr" where
  "json_pretty v = (case json_lines 0 v of None \<Rightarrow> js ''undefined'' | Some t \<Rightarrow> t)"

subsection \<open>White space\<close>

lemma skip_line [simp]: "skip_ws (line ind @ s) = skip_ws s"
proof -
  have "dropWhile json_ws (replicate ind 32 @ s) = dropWhile json_ws s" by (induction ind) (simp_all add: json_ws_def)
  then show ?thesis by (simp add: skip_ws_def line_def json_ws_def)
qed

lemma skip_ws_space [simp]: "skip_ws (32 # s) = skip_ws s"
  by (simp add: skip_ws_def json_ws_def)

lemma json_val_ws: "skip_ws s = skip_ws t \<Longrightarrow> json_val f s = json_val f t"
  by (cases f) simp_all

lemma json_elems_ws: "skip_ws s = skip_ws t \<Longrightarrow> json_elems f s = json_elems f t"
  by (cases f) (simp_all add: json_val_ws [of s t])

lemma json_members_ws: "skip_ws s = skip_ws t \<Longrightarrow> json_members f acc s = json_members f acc t"
  by (cases f) simp_all

lemma delim_line [simp]: "delim (line ind @ s)"
  by (simp add: line_def)

subsection \<open>Reading it back\<close>

abbreviation lines :: "nat \<Rightarrow> jsval \<Rightarrow> jstr" where
  "lines ind v \<equiv> the (json_lines ind v)"

lemma json_lines_ex: "jsonable v \<Longrightarrow> \<exists>t. json_lines ind v = Some t"
proof -
  assume "jsonable v"
  then have "json_lines ind v \<noteq> None" by (cases v) (auto simp: Let_def)
  then show ?thesis by (simp only: not_None_eq)
qed

lemma lines_Arr: "list_all jsonable vs \<Longrightarrow> vs \<noteq> [] \<Longrightarrow>
   lines ind (Arr vs) = 91 # line (ind + 2) @ join (44 # line (ind + 2)) (map (lines (ind + 2)) vs) @ line ind @ [93]"
proof -
  assume "list_all jsonable vs" "vs \<noteq> []"
  then have "map (\<lambda>v. case json_lines (ind + 2) v of None \<Rightarrow> js ''null'' | Some t \<Rightarrow> t) vs = map (lines (ind + 2)) vs"
    using json_lines_ex [of _ "ind + 2"] by (intro map_cong refl) (fastforce simp: list_all_iff)
  then show ?thesis using \<open>vs \<noteq> []\<close> by (simp only: json_lines.simps if_False option.sel)
qed

definition lines_member :: "nat \<Rightarrow> jstr \<times> jsval \<Rightarrow> jstr" where
  "lines_member ind kv = json_quote (fst kv) @ 58 # 32 # lines ind (snd kv)"

lemma lines_Obj:
  "list_all (\<lambda>kv. units16 (fst kv) \<and> jsonable (snd kv)) kvs \<Longrightarrow> kvs \<noteq> [] \<Longrightarrow>
   lines ind (Obj kvs) = 123 # line (ind + 2) @ join (44 # line (ind + 2)) (map (lines_member (ind + 2)) kvs) @ line ind @ [125]"
proof -
  assume k: "list_all (\<lambda>kv. units16 (fst kv) \<and> jsonable (snd kv)) kvs" "kvs \<noteq> []"
  from k(1) have "concat (map (\<lambda>kv. case json_lines (ind + 2) (snd kv) of None \<Rightarrow> []
        | Some t \<Rightarrow> [json_quote (fst kv) @ 58 # 32 # t]) kvs) = map (lines_member (ind + 2)) kvs"
  proof (induction kvs)
    case (Cons kv kvs)
    then obtain t where "json_lines (ind + 2) (snd kv) = Some t" using json_lines_ex [of "snd kv" "ind + 2"] by auto
    with Cons show ?case by (simp add: lines_member_def)
  qed simp
  then show ?thesis using k(2) by (simp add: Let_def)
qed

lemma json_elems_lines:
  assumes "\<And>v f r. v \<in> set vs \<Longrightarrow> length (lines k v) \<le> f \<Longrightarrow> delim r \<Longrightarrow> json_val f (lines k v @ r) = Some (v, r)"
    and "vs \<noteq> []" and "Suc (length (join (44 # line k) (map (lines k) vs))) \<le> f"
  shows "json_elems f (join (44 # line k) (map (lines k) vs) @ line ind @ 93 # r) = Some (vs, r)"
  using assms
proof (induction vs arbitrary: f rule: induct_list012)
  case (2 v)
  then obtain f' where "f = Suc f'" by (cases f) auto
  with 2 show ?case by simp
next
  case (3 v w vs)
  then obtain f' where f: "f = Suc f'" by (cases f) auto
  let ?t = "join (44 # line k) (map (lines k) (w # vs)) @ line ind @ 93 # r"
  have "json_val f' (lines k v @ 44 # line k @ ?t) = Some (v, 44 # line k @ ?t)"
    using 3(3) 3(5) f by simp
  moreover have "json_elems f' ?t = Some (w # vs, r)"
    using 3(3) 3(5) f by (intro 3(2)) simp_all
  then have "json_elems f' (line k @ ?t) = Some (w # vs, r)" using json_elems_ws [of "line k @ ?t" ?t] by simp
  ultimately show ?case by (simp add: f)
qed simp

lemma lines_member_step:
  assumes "json_val f (lines k (snd kv) @ d @ t) = Some (snd kv, d @ t)" and "units16 (fst kv)"
    and "skip_ws (d @ t) = c # t'" and "c = 125 \<or> c = 44"
  shows "json_members (Suc f) acc (lines_member k kv @ d @ t) =
    (if c = 125 then Some (put acc (fst kv) (snd kv), t') else json_members f (put acc (fst kv) (snd kv)) t')"
proof -
  have "json_val f (32 # lines k (snd kv) @ d @ t) = Some (snd kv, d @ t)"
    using assms(1) json_val_ws [of "32 # lines k (snd kv) @ d @ t" "lines k (snd kv) @ d @ t"] by simp
  then show ?thesis
    using assms(2-4) json_string_units [of "fst kv" "58 # 32 # lines k (snd kv) @ d @ t"]
    by (auto simp: lines_member_def json_quote_def units16_def)
qed

lemma json_members_lines:
  assumes "\<And>kv f r. kv \<in> set kvs \<Longrightarrow> length (lines k (snd kv)) \<le> f \<Longrightarrow> delim r \<Longrightarrow>
      json_val f (lines k (snd kv) @ r) = Some (snd kv, r)"
    and "list_all (\<lambda>kv. units16 (fst kv)) kvs"
    and "kvs \<noteq> []" and "Suc (length (join (44 # line k) (map (lines_member k) kvs))) \<le> f"
  shows "json_members f acc (join (44 # line k) (map (lines_member k) kvs) @ line ind @ 125 # r) = Some (put_all acc kvs, r)"
  using assms
proof (induction kvs arbitrary: f acc rule: induct_list012)
  case (2 kv)
  then obtain f' where f: "f = Suc f'" by (cases f) auto
  have "json_val f' (lines k (snd kv) @ line ind @ 125 # r) = Some (snd kv, line ind @ 125 # r)"
    using 2(1) 2(4) f by (simp add: lines_member_def)
  from lines_member_step [OF this, of 125 r acc] 2(2) show ?case
    by (simp add: f put_all_def split: prod.splits)
next
  case (3 kv kw kvs)
  then obtain f' where f: "f = Suc f'" by (cases f) auto
  let ?t = "join (44 # line k) (map (lines_member k) (kw # kvs)) @ line ind @ 125 # r"
  have "json_val f' (lines k (snd kv) @ [44] @ line k @ ?t) = Some (snd kv, [44] @ line k @ ?t)"
    using 3(3) 3(6) f by (simp add: lines_member_def)
  note step = lines_member_step [OF this, of 44 "line k @ ?t" acc]
  have "json_members f' (put acc (fst kv) (snd kv)) ?t
      = Some (put_all (put acc (fst kv) (snd kv)) (kw # kvs), r)"
    using 3(3-6) f by (intro 3(2)) simp_all
  then have "json_members f' (put acc (fst kv) (snd kv)) (line k @ ?t)
      = Some (put_all (put acc (fst kv) (snd kv)) (kw # kvs), r)"
    using json_members_ws [of "line k @ ?t" ?t] by simp
  with step 3(4) have "json_members (Suc f') acc (lines_member k kv @ 44 # line k @ ?t)
      = Some (put_all (put acc (fst kv) (snd kv)) (kw # kvs), r)" by simp
  then show ?case by (simp add: f put_all_def split: prod.splits)
qed simp

lemma skip_ws_lines: "jsonable v \<Longrightarrow> \<exists>c t. lines ind v = c # t \<and> \<not> json_ws c \<and> c \<noteq> 93 \<and> c \<noteq> 125"
proof (cases v)
  case (Num n)
  assume "jsonable v"
  with enc_first [of v] Num show ?thesis by simp
qed (auto simp: json_quote_def json_ws_def js_def Let_def)

lemma join_head: "ss \<noteq> [] \<Longrightarrow> hd ss = c # t \<Longrightarrow> \<exists>u. join sep ss = c # u"
  by (cases ss rule: remdups_adj.cases) auto

lemma json_val_lines:
  "jsonable v \<Longrightarrow> length (lines ind v) \<le> f \<Longrightarrow> delim r \<Longrightarrow> json_val f (lines ind v @ r) = Some (v, r)"
proof (induction v arbitrary: f r ind)
  case (Arr vs)
  then have J: "list_all jsonable vs" by simp
  show ?case
  proof (cases "vs = []")
    case False
    then obtain v ws where vs: "vs = v # ws" by (cases vs) auto
    note l = lines_Arr [OF J False, of ind]
    from Arr.prems(2) l obtain f' where f: "f = Suc f'" by (cases f) auto
    obtain c u where c: "join (44 # line (ind + 2)) (map (lines (ind + 2)) vs) = c # u" "\<not> json_ws c" "c \<noteq> 93"
      using skip_ws_lines [of v "ind + 2"] J join_head [of "map (lines (ind + 2)) vs" _ _ "44 # line (ind + 2)"] vs by fastforce
    have "json_elems f' (join (44 # line (ind + 2)) (map (lines (ind + 2)) vs) @ line ind @ 93 # r) = Some (vs, r)"
      using Arr J l f False by (intro json_elems_lines) (auto simp: list_all_iff)
    then have e: "json_elems f' (line (ind + 2) @ c # u @ line ind @ 93 # r) = Some (vs, r)"
      using c(1) json_elems_ws [of "line (ind + 2) @ c # u @ line ind @ 93 # r" "c # u @ line ind @ 93 # r"] by simp
    show ?thesis
      unfolding l f append_Cons append_assoc c(1) using e c(2,3) by (simp del: json_lines.simps)
  next
    case True
    with Arr.prems show ?thesis by (cases f) simp_all
  qed
next
  case (Obj kvs)
  then have J: "list_all (\<lambda>kv. units16 (fst kv) \<and> jsonable (snd kv)) kvs" "distinct (map fst kvs)"
    by simp_all
  show ?case
  proof (cases "kvs = []")
    case False
    note l = lines_Obj [OF J(1) False, of ind]
    from Obj.prems(2) l obtain f' where f: "f = Suc f'" by (cases f) auto
    obtain u where u: "join (44 # line (ind + 2)) (map (lines_member (ind + 2)) kvs) = 34 # u"
      using join_head [of "map (lines_member (ind + 2)) kvs" 34 _ "44 # line (ind + 2)"] False
      by (cases kvs) (auto simp: lines_member_def json_quote_def)
    have "json_members f' [] (join (44 # line (ind + 2)) (map (lines_member (ind + 2)) kvs) @ line ind @ 125 # r) =
        Some (put_all [] kvs, r)"
    proof (rule json_members_lines)
      fix kv f r
      assume "kv \<in> set kvs" "length (lines (ind + 2) (snd kv)) \<le> f" "delim r"
      then show "json_val f (lines (ind + 2) (snd kv) @ r) = Some (snd kv, r)"
        using Obj.IH [of kv "snd kv" "ind + 2" f r] J(1) by (simp add: list_all_iff snds.simps)
    qed (use J False Obj.prems(2) l f in \<open>auto simp: list_all_iff\<close>)
    moreover have "put_all [] kvs = kvs" using put_all_fresh [of kvs "[]"] J by simp
    ultimately have e: "json_members f' [] (line (ind + 2) @ 34 # u @ line ind @ 125 # r) = Some (kvs, r)"
      using u json_members_ws [of "line (ind + 2) @ 34 # u @ line ind @ 125 # r" "34 # u @ line ind @ 125 # r"] by simp
    show ?thesis unfolding l f append_Cons append_assoc u using e by (simp del: json_lines.simps)
  next
    case True
    with Obj.prems show ?thesis by (cases f) simp_all
  qed
qed (use json_val_enc in \<open>auto simp del: json_val.simps json_enc.simps\<close>)

theorem json_pretty_trip: "jsonable v \<Longrightarrow> json_parse (json_pretty v) = Some v"
proof -
  assume v: "jsonable v"
  then obtain t where t: "json_lines 0 v = Some t" using json_lines_ex by blast
  have "json_val (Suc (length t)) (t @ []) = Some (v, [])"
    using v t json_val_lines [of v 0 "Suc (length t)" "[]"] by (simp add: delim_def del: json_val.simps)
  then show ?thesis by (simp add: json_parse_def json_pretty_def t skip_ws_def del: json_val.simps)
qed

end
