(* ===== verification/Backtest_Form.thy ===== *)
theory Backtest_Form
  imports Iso_Dates Json_Pretty Money_Page Backtest_Ranking
begin

section \<open>The backtest form\<close>

text \<open>
  \<^verbatim>\<open>NewBacktestPage\<close> of \<^verbatim>\<open>src/client/app/(dashboard)/backtests/new/page.tsx\<close>: the form that starts a
  backtest, blank or filled from the query of a recommendation or a saved strategy. The clock is an
  argument where the code reads it, the zone of the browser (\<open>parse_local\<close>) where it reads a local time.
  The message of a \<^verbatim>\<open>SyntaxError\<close> is the engine's, an argument (\<open>complaint\<close>).
\<close>

subsection \<open>State\<close>

record backtest_form =
  strategies :: "jsval list"
  strategyId :: jstr
  paramsText :: jstr
  submitting :: bool
  form_failure :: "jstr option"
  initialCapital :: jstr
  commissionRate :: jstr
  slippageBps :: jstr
  datePreset :: jstr
  startTs :: jstr
  endTs :: jstr
  exchange_input :: jstr
  symbol_input :: jstr
  timeframe_input :: jstr

definition defaultParamsFromOption :: "jsval \<Rightarrow> jstr" where
  "defaultParamsFromOption opt =
     json_pretty
       (if \<not> truthy opt
        then obj [(''createPositions'', Arr
                     [obj [(''marginRate'', N (1 / 2)), (''lossAddRate'', N 0)],
                      obj [(''marginRate'', N (1 / 2)), (''lossAddRate'', Num (fl (1 / 20)))]]),
                  (''stopProfitRate'', Num (fl (3 / 100))), (''stopLossRate'', Num (fl (1 / 10))),
                  (''profitRateAfterAtAddPosition'', N 0)]
        else obj [(''createPositions'', coalesce (fld opt ''createPositions'') (Arr [])),
                  (''stopProfitRate'', fld opt ''stopProfitRate''), (''stopLossRate'', fld opt ''stopLossRate''),
                  (''profitRateAfterAtAddPosition'', fld opt ''profitRateAfterAtAddPosition'')])"

definition initialParamsText :: "(jstr \<times> jstr) list \<Rightarrow> jstr" where
  "initialParamsText q =
     (let presetProposedRaw = param q (js ''proposed'')
      in if truthy presetProposedRaw
         then case json_parse (to_str presetProposedRaw) of
             Some v \<Rightarrow> json_pretty v
           | None \<Rightarrow> defaultParamsFromOption Null
         else defaultParamsFromOption Null)"

definition fmtDtLocal :: "int \<Rightarrow> jstr" where
  "fmtDtLocal t = take 16 (iso_of_ms t)"

definition initialPreset :: "(jstr \<times> jstr) list \<Rightarrow> jstr" where
  "initialPreset q =
     (let raw = param q (js ''lookbackDays'');
          ld = (if truthy raw then Num (to_num raw) else Null)
      in if truthy ld \<and> is_fin_num ld
         then if ld = N 7 then js ''7d'' else if ld = N 30 then js ''30d'' else if ld = N 90 then js ''90d'' else js ''30d''
         else js ''30d'')"

definition computeRange :: "int \<Rightarrow> jstr \<Rightarrow> (jstr \<times> jstr) option" where
  "computeRange now preset =
     (let days = (if preset = js ''7d'' then Some 7 else if preset = js ''30d'' then Some 30
                  else if preset = js ''90d'' then Some 90 else None);
          start = (case days of
             Some n \<Rightarrow> Some (now - n * 24 * 60 * 60 * 1000)
           | None \<Rightarrow> if preset = js ''ytd''
                     then Some (days_of (fst (civil (now div 86400000))) 1 1 * 86400000) else None)
      in map_option (\<lambda>s. (fmtDtLocal s, fmtDtLocal now)) start)"

definition open_form :: "int \<Rightarrow> (jstr \<times> jstr) list \<Rightarrow> backtest_form" where
  "open_form now q =
     (let presetSymbol = to_str (coalesce (param q (js ''symbol'')) (Str []));
          (s, e) = (case computeRange now (initialPreset q) of Some r \<Rightarrow> r | None \<Rightarrow> ([], []))
      in \<lparr>strategies = [], strategyId = to_str (coalesce (param q (js ''strategyId'')) (Str [])),
          paramsText = initialParamsText q, submitting = False, form_failure = None,
          initialCapital = js ''10000'', commissionRate = js ''0.0004'', slippageBps = js ''1'',
          datePreset = initialPreset q, startTs = s, endTs = e,
          exchange_input = js ''binance'', symbol_input = s_or presetSymbol (js ''BTCUSDT''),
          timeframe_input = js ''1h''\<rparr>)"

subsection \<open>Editing\<close>

definition onPresetChange :: "int \<Rightarrow> jstr \<Rightarrow> backtest_form \<Rightarrow> backtest_form" where
  "onPresetChange now next f =
     (let f = f\<lparr>datePreset := next\<rparr>
      in if next = js ''custom'' then f
         else case computeRange now next of Some (s, e) \<Rightarrow> f\<lparr>startTs := s, endTs := e\<rparr> | None \<Rightarrow> f)"

definition onManualDateEdit :: "bool \<Rightarrow> jstr \<Rightarrow> backtest_form \<Rightarrow> backtest_form" where
  "onManualDateEdit start v f =
     (let f = (if start then f\<lparr>startTs := v\<rparr> else f\<lparr>endTs := v\<rparr>)
      in if datePreset f \<noteq> js ''custom'' then f\<lparr>datePreset := js ''custom''\<rparr> else f)"

definition onStrategyChange :: "jstr \<Rightarrow> backtest_form \<Rightarrow> backtest_form" where
  "onStrategyChange n f =
     (let opt = coalesce (js_find (\<lambda>s. fld s ''name'' = Str n) (strategies f)) Null
      in f\<lparr>strategyId := n, paramsText := defaultParamsFromOption opt\<rparr>)"

datatype backtest_edit =
    Strategies_Loaded jsval
  | Choose_Preset int jstr
  | Edit_Start jstr
  | Edit_End jstr
  | Choose_Strategy jstr
  | Type_Id jstr
  | Choose_Exchange jstr
  | Type_Pair jstr
  | Choose_Timeframe jstr
  | Type_Capital jstr
  | Type_Commission jstr
  | Type_Slippage jstr
  | Type_Params jstr

fun edit_backtest :: "backtest_edit \<Rightarrow> backtest_form \<Rightarrow> backtest_form" where
  "edit_backtest (Strategies_Loaded opts) f = f\<lparr>strategies := elems (coalesce opts (Arr []))\<rparr>"
| "edit_backtest (Choose_Preset now next) f = onPresetChange now next f"
| "edit_backtest (Edit_Start v) f = onManualDateEdit True v f"
| "edit_backtest (Edit_End v) f = onManualDateEdit False v f"
| "edit_backtest (Choose_Strategy n) f = (if n = [] then f else onStrategyChange n f)"
| "edit_backtest (Type_Id v) f = f\<lparr>strategyId := v\<rparr>"
| "edit_backtest (Choose_Exchange v) f = f\<lparr>exchange_input := v\<rparr>"
| "edit_backtest (Type_Pair v) f = f\<lparr>symbol_input := v\<rparr>"
| "edit_backtest (Choose_Timeframe v) f = f\<lparr>timeframe_input := v\<rparr>"
| "edit_backtest (Type_Capital v) f = f\<lparr>initialCapital := v\<rparr>"
| "edit_backtest (Type_Commission v) f = f\<lparr>commissionRate := v\<rparr>"
| "edit_backtest (Type_Slippage v) f = f\<lparr>slippageBps := v\<rparr>"
| "edit_backtest (Type_Params v) f = f\<lparr>paramsText := v\<rparr>"

subsection \<open>Submission\<close>

text \<open>
  The body of the request, or the error thrown while it is put together: an invalid date has no ISO text.
  The input of the identifier is part of the form data only while no strategies are listed, and shows the
  same state.
\<close>

definition backtest_body :: "(int \<Rightarrow> int) \<Rightarrow> backtest_form \<Rightarrow> jsval \<Rightarrow> thrown + jsval" where
  "backtest_body zone f params =
     (case (parse_local zone (startTs f), parse_local zone (endTs f)) of
        (Some start, Some end') \<Rightarrow>
          Inr (obj [(''strategyId'', Str (strategyId f)), (''kind'', S ''grid_dca''), (''params'', params),
            (''symbol'', Str (symbol_input f)), (''exchange'', Str (exchange_input f)),
            (''timeframe'', Str (timeframe_input f)), (''start'', Str (iso_of_ms start)), (''end'', Str (iso_of_ms end')),
            (''initialCapital'', Num (read_number (s_or (initialCapital f) (js ''10000'')))),
            (''commissionRate'', Num (read_number (s_or (commissionRate f) (js ''0.0004'')))),
            (''slippageBps'', Num (read_number (s_or (slippageBps f) (js ''1''))))])
      | _ \<Rightarrow> Inl (Thrown_Error (js ''Invalid time value'')))"

record backtest_session =
  bt_form :: backtest_form
  bt_log :: activity
  bt_calls :: "call list"
  bt_pushed :: "jstr list"
  bt_pending :: "jstr option"

definition new_backtest :: "int \<Rightarrow> (jstr \<times> jstr) list \<Rightarrow> activity \<Rightarrow> backtest_session" where
  "new_backtest now q st =
     \<lparr>bt_form = open_form now q, bt_log = st, bt_calls = [], bt_pushed = [], bt_pending = None\<rparr>"

definition bt_fail :: "jstr \<Rightarrow> backtest_session \<Rightarrow> backtest_session" where
  "bt_fail msg s = s\<lparr>bt_form := (bt_form s)\<lparr>form_failure := Some msg, submitting := False\<rparr>, bt_pending := None\<rparr>"

definition submit_backtest ::
  "(int \<Rightarrow> int) \<Rightarrow> (jstr \<Rightarrow> jstr) \<Rightarrow> moment \<Rightarrow> backtest_session \<Rightarrow> backtest_session" where
  "submit_backtest zone complaint m s =
     (let f = bt_form s;
          s = s\<lparr>bt_form := f\<lparr>form_failure := None, submitting := True\<rparr>\<rparr>
      in case (if trim (paramsText f) \<noteq> [] then json_parse (paramsText f) else Some (obj [])) of
          None \<Rightarrow> bt_fail (complaint (paramsText f)) s
        | Some params \<Rightarrow>
            let log = push (new_id m) (now_ms m)
                  (obj [(''kind'', S ''backtest''),
                        (''label'', Str ([22238, 27979, 32, 45, 32] @ s_or (strategyId f) [26410, 21629, 21517] @ [32, 183, 32] @ symbol_input f)),
                        (''detail'', Str (timeframe_input f @ [32, 183, 32] @ exchange_input f))]) (bt_log s)
            in (case backtest_body zone f params of
                  Inl e \<Rightarrow> bt_fail (thrown_message e) (s\<lparr>bt_log := update (new_id m) (outcome_patch (Inl e)) (now_ms m) log\<rparr>)
                | Inr body \<Rightarrow>
                    s\<lparr>bt_log := log, bt_calls := bt_calls s @ [CreateBacktest body], bt_pending := Some (new_id m)\<rparr>))"

fun answer_backtest :: "reply \<Rightarrow> backtest_session \<Rightarrow> backtest_session" where
  "answer_backtest (Reply r m) s =
     (case bt_pending s of
        None \<Rightarrow> s
      | Some i \<Rightarrow>
          let s = s\<lparr>bt_log := update i (outcome_patch r) (now_ms m) (bt_log s)\<rparr>
          in (case r of
                Inr handle \<Rightarrow>
                  s\<lparr>bt_pushed := bt_pushed s @ [js ''/backtests/'' @ to_str (fld handle ''runId'')],
                    bt_form := (bt_form s)\<lparr>submitting := False\<rparr>, bt_pending := None\<rparr>
              | Inl e \<Rightarrow> bt_fail (thrown_message e) s))"

end
