(* ===== verification/Backtest_Properties.thy ===== *)
theory Backtest_Properties
  imports Backtest_Form Preset_Link
begin

section \<open>Properties of the backtest form\<close>

text \<open>
  What the form makes of the link of a saved strategy, and what becomes of its time window.
\<close>

subsection \<open>Links to the form\<close>

text \<open>
  The query string of a link to the form: strategy, symbol, parameters as JSON, days of the window. What
  the link says has to survive it: well-formed texts, and parameters that print as ASCII JSON.
\<close>

definition link_params :: "jstr \<Rightarrow> jstr \<Rightarrow> jsval \<Rightarrow> jstr \<Rightarrow> (jstr \<times> jstr) list" where
  "link_params i symbol params days =
     [(js ''strategyId'', i), (js ''symbol'', symbol), (js ''proposed'', json_stringify params), (js ''lookbackDays'', days)]"

definition linkable :: "jstr \<Rightarrow> jstr \<Rightarrow> jsval \<Rightarrow> bool" where
  "linkable i symbol params \<longleftrightarrow>
     well_formed i \<and> well_formed symbol \<and> jsonable params \<and> ascii (json_stringify params)"

definition windows :: "(jstr \<times> jstr \<times> int) set" where
  "windows = {(js ''7'', js ''7d'', 7), (js ''30'', js ''30d'', 30), (js ''90'', js ''90d'', 90)}"

text \<open>A stored strategy: its identifier and symbol, trimmed, and parameters that print as ASCII JSON.\<close>

definition stored_strategy :: "jsval \<Rightarrow> jstr \<Rightarrow> jstr \<Rightarrow> bool" where
  "stored_strategy strategy i symbol \<longleftrightarrow>
     trim (to_str (js_or (js_or (fld strategy ''id'') (fld strategy ''name'')) (Str []))) = i \<and> i \<noteq> [] \<and>
     trim (to_str (js_or (fld strategy ''execSymbol'') (Str []))) = symbol \<and> symbol \<noteq> [] \<and>
     linkable i symbol (savedStrategyBacktestParamsFromOption strategy)"

lemma query_ne: "kvs \<noteq> [] \<Longrightarrow> query_string kvs \<noteq> []"
proof -
  have "join [38] (s # ss) = [] \<longleftrightarrow> s = [] \<and> ss = []" for s :: jstr and ss by (cases ss) simp_all
  then show "kvs \<noteq> [] \<Longrightarrow> query_string kvs \<noteq> []" by (cases kvs) (auto simp: query_string_def)
qed

lemma saved_href:
  assumes "stored_strategy strategy i symbol"
  shows "savedStrategyBacktestHrefFromOption strategy = js ''/backtests/new?'' @
      query_string (link_params i symbol (savedStrategyBacktestParamsFromOption strategy) (js ''90''))"
  using assms query_ne [of "link_params i symbol (savedStrategyBacktestParamsFromOption strategy) (js ''90'')"]
  by (simp add: savedStrategyBacktestHrefFromOption_def stored_strategy_def Let_def link_params_def)

lemma link_query:
  assumes "linkable i symbol params" and "(days, preset, n) \<in> windows"
  shows "parse_query (query_string (link_params i symbol params days)) = link_params i symbol params days"
proof (rule parse_query_string)
  have "well_formed (js k)" if "list_all (\<lambda>c. of_char c < (128 :: nat)) k" for k
    using ascii_js [OF that] by (rule ascii_well_formed)
  then show "\<forall>(k, v) \<in> set (link_params i symbol params days). well_formed k \<and> well_formed v"
    using assms ascii_well_formed by (auto simp: link_params_def linkable_def windows_def)
qed

subsection \<open>The opened form\<close>

lemma trim_ne: "\<not> is_ws c \<Longrightarrow> trim (c # t) \<noteq> []"
proof -
  assume "\<not> is_ws c"
  then have "dropWhile is_ws (rev t @ [c]) \<noteq> []" by (induction t rule: rev_induct) auto
  with \<open>\<not> is_ws c\<close> show "trim (c # t) \<noteq> []" by (simp add: trim_def)
qed

lemma lines_first: "jsonable v \<Longrightarrow> \<exists>c t. lines ind v = c # t \<and> \<not> is_ws c"
proof (cases v)
  case (Num n)
  assume "jsonable v"
  with Num obtain q where q: "n = Fin q" "fl q = Fin q" by (cases n) auto
  then obtain c t where "num_to_string (Fin q) = c # t" "c = 45 \<or> is_digit c" using double_hd by blast
  then show ?thesis using Num q by (auto simp: is_ws_def is_digit_def simp del: num_to_string.simps)
qed (auto simp: json_quote_def is_ws_def js_def Let_def)

lemma pretty_text: "jsonable v \<Longrightarrow> trim (json_pretty v) \<noteq> []"
proof -
  assume v: "jsonable v"
  obtain c t where "lines 0 v = c # t" "\<not> is_ws c" using lines_first [OF v] by blast
  moreover obtain u where "json_lines 0 v = Some u" using json_lines_ex [OF v] by blast
  ultimately show "trim (json_pretty v) \<noteq> []" using trim_ne by (simp add: json_pretty_def)
qed

lemma read_numbers:
  "read_number (js ''10000'') = Fin 10000" "read_number (js ''0.0004'') = fl (1 / 2500)" "read_number (js ''1'') = Fin 1"
  "read_number (js ''7'') = Fin 7" "read_number (js ''30'') = Fin 30" "read_number (js ''90'') = Fin 90"
proof -
  have "token_ok (js ''10000'') []" "token_ok (js ''0'') (js ''0004'')" "token_ok (js ''1'') []" "token_ok (js ''7'') []"
    "token_ok (js ''30'') []" "token_ok (js ''90'') []"
    by (simp_all add: token_ok_def js_def is_digit_def)
  note r = this [THEN read_number_token(1), of None]
  have e: "token (js ''10000'') [] None = js ''10000''" "token (js ''0'') (js ''0004'') None = js ''0.0004''"
    "token (js ''1'') [] None = js ''1''" "token (js ''7'') [] None = js ''7''"
    "token (js ''30'') [] None = js ''30''" "token (js ''90'') [] None = js ''90''"
    by (simp_all add: token_def exp_text_def js_def)
  have v: "token_value (js ''10000'') [] None = 10000" "token_value (js ''0'') (js ''0004'') None = 1 / 2500"
    "token_value (js ''1'') [] None = 1" "token_value (js ''7'') [] None = 7"
    "token_value (js ''30'') [] None = 30" "token_value (js ''90'') [] None = 90"
    by (simp_all add: token_value_def digits_val_def js_def pow10_def)
  show "read_number (js ''10000'') = Fin 10000" "read_number (js ''0.0004'') = fl (1 / 2500)" "read_number (js ''1'') = Fin 1"
    "read_number (js ''7'') = Fin 7" "read_number (js ''30'') = Fin 30" "read_number (js ''90'') = Fin 90"
    using r unfolding e v by (simp_all add: fl_numeral)
qed

lemma opened_form:
  assumes "linkable i symbol params" and "(days, preset, n) \<in> windows" and f: "f = open_form now (link_params i symbol params days)"
  shows "strategyId f = i" "symbol_input f = s_or symbol (js ''BTCUSDT'')" "exchange_input f = js ''binance''"
    "timeframe_input f = js ''1h''" "initialCapital f = js ''10000''" "commissionRate f = js ''0.0004''" "slippageBps f = js ''1''"
    "paramsText f = json_pretty params" "startTs f = fmtDtLocal (now - n * 86400000)" "endTs f = fmtDtLocal now"
proof -
  let ?q = "link_params i symbol params days"
  have s: "json_stringify params \<noteq> []"
    using assms(1) enc_first json_enc_ex by (fastforce simp: linkable_def json_stringify_def)
  have t: "initialParamsText ?q = json_pretty params"
    using assms(1) s by (simp add: initialParamsText_def link_params_def param_def linkable_def json_round_trip)
  have p: "initialPreset ?q = preset"
    using assms(2) by (auto simp: initialPreset_def link_params_def param_def read_numbers Let_def windows_def)
  have r: "computeRange now preset = Some (fmtDtLocal (now - n * 86400000), fmtDtLocal now)"
    using assms(2) by (auto simp: computeRange_def windows_def)
  show "strategyId f = i" "symbol_input f = s_or symbol (js ''BTCUSDT'')" "exchange_input f = js ''binance''"
    "timeframe_input f = js ''1h''" "initialCapital f = js ''10000''" "commissionRate f = js ''0.0004''" "slippageBps f = js ''1''"
    "paramsText f = json_pretty params" "startTs f = fmtDtLocal (now - n * 86400000)" "endTs f = fmtDtLocal now"
    unfolding f open_form_def Let_def p r t using assms(1)
    by (simp_all add: link_params_def param_def coalesce_def)
qed

text \<open>What the opened form requests: everything from the link, the window cut to the minute and shifted by the zone.\<close>

definition linked_body :: "(int \<Rightarrow> int) \<Rightarrow> jstr \<Rightarrow> jstr \<Rightarrow> jsval \<Rightarrow> int \<Rightarrow> int \<Rightarrow> jsval" where
  "linked_body zone i symbol params start end' =
     obj [(''strategyId'', Str i), (''kind'', S ''grid_dca''), (''params'', params), (''symbol'', Str (s_or symbol (js ''BTCUSDT''))),
       (''exchange'', S ''binance''), (''timeframe'', S ''1h''),
       (''start'', Str (iso_of_ms (whole_minute start - zone (whole_minute start)))),
       (''end'', Str (iso_of_ms (whole_minute end' - zone (whole_minute end')))),
       (''initialCapital'', N 10000), (''commissionRate'', Num (fl (1 / 2500))), (''slippageBps'', N 1)]"

lemma link_request:
  assumes "linkable i symbol params" and "(days, preset, n) \<in> windows"
    and "common_era now" and "common_era (now - n * 86400000)"
  shows "bt_calls (submit_backtest zone complaint m
      (new_backtest now (parse_query (query_string (link_params i symbol params days))) st)) =
    [CreateBacktest (linked_body zone i symbol params (now - n * 86400000) now)]"
proof -
  let ?f = "open_form now (link_params i symbol params days)"
  note o = opened_form [OF assms(1,2) refl, of now]
  have j: "jsonable params" using assms(1) by (simp add: linkable_def)
  have dates: "parse_local zone (startTs ?f) =
      Some (whole_minute (now - n * 86400000) - zone (whole_minute (now - n * 86400000)))"
    "parse_local zone (endTs ?f) = Some (whole_minute now - zone (whole_minute now))"
    using parse_local_iso [OF assms(3), of zone] parse_local_iso [OF assms(4), of zone] by (simp_all only: o fmtDtLocal_def)
  have n: "s_or (initialCapital ?f) (js ''10000'') = js ''10000''" "s_or (commissionRate ?f) (js ''0.0004'') = js ''0.0004''"
    "s_or (slippageBps ?f) (js ''1'') = js ''1''"
    by (simp_all only: o s_or_def if_cancel)
  have body: "backtest_body zone ?f params = Inr (linked_body zone i symbol params (now - n * 86400000) now)"
    by (simp only: backtest_body_def linked_body_def dates n o(1-4) read_numbers option.case prod.case)
  have p: "(if trim (paramsText ?f) \<noteq> [] then json_parse (paramsText ?f) else Some (obj [])) = Some params"
    using pretty_text [OF j] json_pretty_trip [OF j] by (simp only: o if_True HOL.simp_thms)
  show ?thesis
    using body p by (simp add: submit_backtest_def new_backtest_def link_query [OF assms(1,2)] Let_def)
qed

subsection \<open>The link of a saved strategy\<close>

text \<open>
  C21: The form opened by the link of a saved strategy asks for the backtest that the one-click validation
  of that strategy asks for: strategy, kind, parameters, symbol, exchange, timeframe, capital, commission
  and slippage are the same, through the query string and the indented JSON of the text field. Only the
  window differs: its ends are cut to the minute and, because the inputs hold UTC digits that are read as
  local time, shifted by the zone of the browser.
\<close>

theorem saved_strategy_form_request:
  assumes "stored_strategy strategy i symbol" and "common_era now" and "common_era (now - 90 * 86400000)"
    and "savedStrategyBacktestHrefFromOption strategy = js ''/backtests/new?'' @ query"
  shows "\<exists>body. bt_calls (submit_backtest zone complaint m (new_backtest now (parse_query query) st)) = [CreateBacktest body] \<and>
    (\<forall>k \<in> {''strategyId'', ''kind'', ''params'', ''symbol'', ''exchange'', ''timeframe'', ''initialCapital'',
       ''commissionRate'', ''slippageBps''}. fld body k = fld (savedStrategyBacktestRequestFromOption strategy (Some now)) k) \<and>
    fld body ''start'' = Str (iso_of_ms (whole_minute (now - 90 * 86400000) - zone (whole_minute (now - 90 * 86400000)))) \<and>
    fld body ''end'' = Str (iso_of_ms (whole_minute now - zone (whole_minute now)))"
proof -
  let ?params = "savedStrategyBacktestParamsFromOption strategy"
  have l: "linkable i symbol ?params" "symbol \<noteq> []" using assms(1) by (simp_all add: stored_strategy_def)
  have w: "(js ''90'', js ''90d'', 90) \<in> windows" by (simp add: windows_def)
  have "query = query_string (link_params i symbol ?params (js ''90''))" using saved_href [OF assms(1)] assms(4) by simp
  then have calls: "bt_calls (submit_backtest zone complaint m (new_backtest now (parse_query query) st)) =
      [CreateBacktest (linked_body zone i symbol ?params (now - 90 * 86400000) now)]"
    using link_request [OF l(1) w assms(2,3)] by simp
  show ?thesis
    by (rule exI, rule conjI, rule calls)
      (use assms(1) l(2) in \<open>simp add: linked_body_def s_or_def savedStrategyBacktestRequestFromOption_def stored_strategy_def Let_def\<close>)
qed

definition sample_strategy :: jsval where
  "sample_strategy = obj [(''id'', S ''s1''), (''execSymbol'', S ''ETHUSDT''), (''positionLevel'', N 3),
     (''orderGroupMargin'', N 100), (''createPositions'', Arr [])]"

lemma sample_stored: "stored_strategy sample_strategy (js ''s1'') (js ''ETHUSDT'')"
proof -
  let ?kvs = "[(js ''positionLevel'', N 3), (js ''orderGroupMargin'', N 100), (js ''stopProfitRate'', N 0),
      (js ''stopLossRate'', N 0), (js ''profitRateAfterAtAddPosition'', N 0), (js ''createCostOrderInProfit'', Bool False),
      (js ''createPositions'', Arr [])]"
  have p: "savedStrategyBacktestParamsFromOption sample_strategy = Obj ?kvs"
    by (simp add: savedStrategyBacktestParamsFromOption_def sample_strategy_def js_or_def) (simp add: obj_def)
  have d: "fl 3 = Fin 3" "fl 100 = Fin 100" "fl 0 = Fin 0" by (simp_all add: fl_numeral)
  have j: "list_all (\<lambda>kv. units16 (fst kv) \<and> jsonable (snd kv)) ?kvs" using d by simp
  have jo: "jsonable (Obj ?kvs)" using j by simp
  have n: "ascii (enc (N 3))" "ascii (enc (N 100))" "ascii (enc (N 0))"
    using d [THEN ascii_number] by (simp_all del: num_to_string.simps)
  have q: "ascii (json_quote (js s))" if "list_all (\<lambda>c. 35 \<le> (of_char c :: nat) \<and> of_char c \<noteq> (92 :: nat) \<and> of_char c < (128 :: nat)) s" for s
    using that by (intro ascii_quote) (simp add: js_def list_all_iff)
  have "list_all (\<lambda>kv. ascii (json_quote (fst kv)) \<and> ascii (enc (snd kv))) ?kvs"
    using n by (simp add: q ascii_js del: json_enc.simps(4))
  from ascii_Obj [OF j this] obtain t where "json_enc (Obj ?kvs) = Some t" "ascii t"
    using json_enc_ex [OF jo] by (metis option.sel)
  then have a: "ascii (json_stringify (Obj ?kvs))" by (simp add: json_stringify_def del: json_enc.simps)
  have t: "trim (js s) = js s" if "list_all (\<lambda>c. \<not> is_ws (of_char c)) s" for s
    using that by (intro trim_clean) (simp add: js_def list_all_iff)
  have w: "well_formed (js ''s1'')" "well_formed (js ''ETHUSDT'')" by (intro ascii_well_formed ascii_js; simp)+
  show ?thesis
    using w a jo unfolding stored_strategy_def linkable_def p by (simp add: sample_strategy_def js_or_def t is_ws_def)
qed

theorem saved_strategy_form_request_witness:
  "\<exists>query body. savedStrategyBacktestHrefFromOption sample_strategy = js ''/backtests/new?'' @ query \<and>
    bt_calls (submit_backtest (\<lambda>_. 0) id \<lparr>now_ms = 1, new_id = js ''e1''\<rparr>
      (new_backtest 1700000000000 (parse_query query) demo_activity)) = [CreateBacktest body] \<and>
    fld body ''end'' = Str (iso_of_ms (whole_minute 1700000000000))"
proof -
  have c: "common_era 1700000000000" "common_era (1700000000000 - 90 * 86400000)" by code_simp+
  note h = saved_href [OF sample_stored]
  from saved_strategy_form_request [OF sample_stored c h, of "\<lambda>_. 0" id "\<lparr>now_ms = 1, new_id = js ''e1''\<rparr>" demo_activity]
  obtain body where b: "bt_calls (submit_backtest (\<lambda>_. 0) id \<lparr>now_ms = 1, new_id = js ''e1''\<rparr>
      (new_backtest 1700000000000 (parse_query (query_string (link_params (js ''s1'') (js ''ETHUSDT'')
        (savedStrategyBacktestParamsFromOption sample_strategy) (js ''90''))))
        demo_activity)) = [CreateBacktest body]"
    "fld body ''end'' = Str (iso_of_ms (whole_minute 1700000000000 - 0))" by (elim exE conjE) blast
  show ?thesis
    by (intro exI conjI, rule h, rule b(1)) (simp only: b(2) diff_zero)
qed

text \<open>
  C39: A preset of the window is shifted by the zone of the browser. After choosing 7, 30 or 90 days the
  inputs show UTC digits, but the submission reads them as local time: with a zone that is \<open>ahead\<close> of UTC
  the whole window lies that much in the past of the one that was chosen, with one behind UTC it ends in
  the future.
\<close>

theorem preset_window_shifted:
  assumes "(preset, days) \<in> {(''7d'', 7), (''30d'', 30), (''90d'', 90)}"
    and "common_era now" and "common_era (now - days * 86400000)"
    and "backtest_body (\<lambda>_. ahead) (onPresetChange now (js preset) f) params = Inr body"
  shows "fld body ''start'' = Str (iso_of_ms (whole_minute (now - days * 86400000) - ahead)) \<and>
    fld body ''end'' = Str (iso_of_ms (whole_minute now - ahead))"
proof -
  have r: "computeRange now (js preset) = Some (fmtDtLocal (now - days * 86400000), fmtDtLocal now)" "js preset \<noteq> js ''custom''"
    using assms(1) by (auto simp: computeRange_def)
  have "parse_local (\<lambda>_. ahead) (fmtDtLocal t) = Some (whole_minute t - ahead)" if "common_era t" for t
    using parse_local_iso [OF that] by (simp add: fmtDtLocal_def)
  then show ?thesis
    using assms(2-4) r by (auto simp: onPresetChange_def backtest_body_def)
qed

theorem preset_window_shifted_witness:
  "\<exists>body. backtest_body (\<lambda>_. 28800000)
      (onPresetChange 1700000000000 (js ''7d'') (open_form 0 [])) Null = Inr body \<and>
    fld body ''end'' = Str (js ''2023-11-14T14:13:00.000Z'') \<and> iso_of_ms 1700000000000 = js ''2023-11-14T22:13:20.000Z''"
proof -
  have c: "common_era 1700000000000" "common_era (1700000000000 - 7 * 86400000)" by code_simp+
  have r: "computeRange 1700000000000 (js ''7d'') = Some (fmtDtLocal (1700000000000 - 7 * 86400000), fmtDtLocal 1700000000000)"
    by (simp add: computeRange_def)
  have preset_name: "js ''7d'' \<noteq> js ''custom''" by simp
  note p = c [THEN parse_local_iso, of "\<lambda>_. 28800000", folded fmtDtLocal_def]
  have "\<exists>body. backtest_body (\<lambda>_. 28800000) (onPresetChange 1700000000000 (js ''7d'') (open_form 0 [])) Null = Inr body"
    unfolding onPresetChange_def r Let_def if_not_P [OF preset_name] option.case prod.case
    unfolding backtest_body_def by (simp add: p(1) p(2) [simplified])
  then obtain body where b: "backtest_body (\<lambda>_. 28800000) (onPresetChange 1700000000000 (js ''7d'') (open_form 0 [])) Null = Inr body" ..
  have t: "iso_of_ms (whole_minute 1700000000000 - 28800000) = js ''2023-11-14T14:13:00.000Z''"
    "iso_of_ms 1700000000000 = js ''2023-11-14T22:13:20.000Z''" by code_simp+
  have "fld body ''end'' = Str (iso_of_ms (whole_minute 1700000000000 - 28800000))"
    using preset_window_shifted [OF _ c b] by simp
  with b t show ?thesis by (metis (no_types))
qed

end
