(* ===== verification/Recommendation_Properties.thy ===== *)
theory Recommendation_Properties
  imports Recommendations Ranking_Properties Backtest_Properties
begin

section \<open>Properties of the recommendations\<close>

text \<open>
  The grouping is a partition whose primaries are the best of their studies; rejecting the similar ones
  spares the primary; reviews and rejections need a confirmation; the link to the backtest form asks for
  the proposed parameters.
\<close>

subsection \<open>The sign of a difference\<close>

text \<open>
  Doubles lie on a grid of \<open>2 ^ -1074\<close>, so the difference of two different ones is not rounded to zero.
\<close>

lemma double_grid:
  assumes "fl q = Fin q"
  shows "\<exists>k. q = of_int k * pow2 (- 1074)"
proof -
  have pos: "\<exists>k. q = of_int k * pow2 (- 1074)" if q: "0 < q" "fl q = Fin q" for q
  proof -
    obtain M e where m: "q = of_int M * pow2 e" "- 1074 \<le> e" using double_form [OF q] by blast
    then have "pow2 e = of_int (2 ^ nat (e + 1074)) * pow2 (- 1074)"
      using pow2_add [of "e + 1074" "- 1074"] pow2_nat [of "nat (e + 1074)"] by simp
    then have "q = of_int (M * 2 ^ nat (e + 1074)) * pow2 (- 1074)" using m(1) by simp
    then show ?thesis by blast
  qed
  consider "q = 0" | "0 < q" | "0 < - q" by linarith
  then show ?thesis
  proof cases
    case 3
    then obtain k where "- q = of_int k * pow2 (- 1074)" using pos [of "- q"] fl_minus [of q] assms by auto
    then have "q = of_int (- k) * pow2 (- 1074)" by simp
    then show ?thesis by blast
  qed (use pos [of q] assms in \<open>auto intro: exI [of _ 0]\<close>)
qed

lemma fl_positive:
  assumes "0 < d" and "d = of_int k * pow2 (- 1074)"
  shows "num_lt (Fin 0) (fl d)"
proof -
  let ?e = "max (rat_log2 d - 52) (- 1074)"
  have "pow2 ?e \<le> d"
  proof (cases "rat_log2 d - 52 \<le> - 1074")
    case True
    have "0 < k" using assms by (simp add: zero_less_mult_iff)
    then have "1 * pow2 (- 1074) \<le> of_int k * pow2 (- 1074)" by (intro mult_right_mono) (simp_all add: less_imp_le)
    then show ?thesis using True assms(2) by (simp add: max_def)
  next
    case False
    then have "pow2 ?e \<le> pow2 (rat_log2 d)" by (intro pow2_mono) simp
    with rat_log2_bounds [OF assms(1)] show ?thesis by (meson order_trans)
  qed
  then have "of_int 1 \<le> d / pow2 ?e" by (simp add: le_divide_eq)
  then have "1 \<le> rne (d / pow2 ?e)" by (rule rne_lower)
  then have "(0 :: rat) < of_int (rne (d / pow2 ?e)) * pow2 ?e" by simp
  moreover have "(0 :: rat) < 2 ^ 1024" by simp
  ultimately show ?thesis using assms(1) by (simp add: fl_def Let_def)
qed

lemma num_sub_sign:
  assumes "fl a = Fin a" and "fl b = Fin b"
  shows "num_lt (Fin 0) (num_sub (Fin b) (Fin a)) \<longleftrightarrow> a < b"
proof -
  obtain j k where g: "a = of_int j * pow2 (- 1074)" "b = of_int k * pow2 (- 1074)"
    using double_grid [OF assms(1)] double_grid [OF assms(2)] by blast
  have up: "b - a = of_int (k - j) * pow2 (- 1074)" and down: "a - b = of_int (j - k) * pow2 (- 1074)"
    using g by (simp_all add: left_diff_distrib)
  consider "a < b" | "a = b" | "b < a" by linarith
  then show ?thesis
  proof cases
    case 1
    then show ?thesis using fl_positive [OF _ up] by (simp add: num_sub_def)
  next
    case 3
    then have "num_lt (Fin 0) (fl (a - b))" using fl_positive [OF _ down] by simp
    then have "\<not> num_lt (Fin 0) (fl (b - a))" using fl_minus [of "a - b"] by (cases "fl (a - b)") auto
    then show ?thesis using 3 by (simp add: num_sub_def)
  qed (simp add: num_sub_def)
qed

subsection \<open>Studies\<close>

text \<open>A recommendation from the gateway: its Sharpe difference is a double or missing, its date can be read.\<close>

definition delta_rank :: "jsval \<Rightarrow> rank" where
  "delta_rank r = (case sharpe_of r of Fin q \<Rightarrow> Scored q | _ \<Rightarrow> Unfinished)"

definition graded :: "jsval \<Rightarrow> bool" where
  "graded r \<longleftrightarrow> (case sharpe_of r of Fin q \<Rightarrow> fl q = Fin q | NInf \<Rightarrow> True | _ \<Rightarrow> False)"

definition created_ms :: "jsval \<Rightarrow> int" where
  "created_ms c = (case created_at c of None \<Rightarrow> 0 | Some t \<Rightarrow> t)"

definition is_dated :: "date \<Rightarrow> bool" where
  "is_dated d \<longleftrightarrow> (case d of None \<Rightarrow> False | Some t \<Rightarrow> \<bar>t\<bar> \<le> 2 ^ 52)"

interpretation delta: js_order delta_cmp delta_rank graded
proof unfold_locales
  fix a b assume "graded a" "graded b"
  then show "num_lt (Fin 0) (delta_cmp a b) \<longleftrightarrow> delta_rank b < delta_rank a"
    by (cases "sharpe_of a"; cases "sharpe_of b") (simp_all add: graded_def delta_rank_def delta_cmp_def num_sub_sign, simp_all add: num_sub_def)
qed

interpretation created: js_order created_cmp "\<lambda>c. - created_ms c" "\<lambda>c. is_dated (created_at c)"
proof unfold_locales
  fix a b assume ab: "is_dated (created_at a)" "is_dated (created_at b)"
  then obtain s t where st: "created_at a = Some s" "\<bar>s\<bar> \<le> 2 ^ 52" "created_at b = Some t" "\<bar>t\<bar> \<le> 2 ^ 52"
    by (auto simp: is_dated_def split: option.splits)
  then have "num_sub (Fin (of_int t)) (Fin (of_int s)) = Fin (of_int (t - s))" by (intro num_sub_int) auto
  then show "num_lt (Fin 0) (created_cmp a b) \<longleftrightarrow> - created_ms b < - created_ms a"
    by (simp add: created_cmp_def created_ms_def st time_of_def)
qed

text \<open>The groups: keys are distinct, every group holds the recommendations of its key, none is lost.\<close>

definition well_grouped :: "(jsval \<times> jsval list) list \<Rightarrow> bool" where
  "well_grouped gs \<longleftrightarrow> distinct (map fst gs) \<and>
     list_all (\<lambda>g. snd g \<noteq> [] \<and> list_all (\<lambda>r. study_key r = fst g) (snd g)) gs"

lemma push_keys: "fst ` set (push_group k r gs) = insert k (fst ` set gs)"
  by (induction gs) auto

lemma push_grouped: "well_grouped gs \<Longrightarrow> study_key r = k \<Longrightarrow> well_grouped (push_group k r gs)"
  by (induction gs) (auto simp: well_grouped_def push_keys, force)

lemma push_mset: "mset (concat (map snd (push_group k r gs))) = add_mset r (mset (concat (map snd gs)))"
  by (induction gs) auto

lemma by_study_grouped: "well_grouped (by_study recs)" "mset (concat (map snd (by_study recs))) = mset recs"
proof -
  have "well_grouped gs \<Longrightarrow> well_grouped (fold (\<lambda>r. push_group (study_key r) r) recs gs)" for gs
    by (induction recs arbitrary: gs) (simp_all add: push_grouped)
  then show "well_grouped (by_study recs)" by (simp add: by_study_def well_grouped_def)
  have "mset (concat (map snd (fold (\<lambda>r. push_group (study_key r) r) recs gs))) = mset recs + mset (concat (map snd gs))" for gs
    by (induction recs arbitrary: gs) (simp_all add: push_mset)
  then show "mset (concat (map snd (by_study recs))) = mset recs" by (simp add: by_study_def)
qed

lemma mset_sort_insert: "mset (sort_insert cmp x xs) = add_mset x (mset xs)"
  by (induction cmp x xs rule: sort_insert.induct) auto

lemma mset_js_sort: "mset (js_sort cmp xs) = mset xs"
  by (induction xs) (simp_all add: js_sort_def mset_sort_insert)

lemma mset_concat_map: "mset (concat (map f xs)) = (\<Sum>x \<in># mset xs. mset (f x))"
  by (induction xs) auto

lemma cluster_members:
  assumes "snd g \<noteq> []"
  shows "members (cluster_of g) = js_sort delta_cmp (snd g)"
proof -
  have "length (js_sort delta_cmp (snd g)) \<noteq> 0" using assms by simp
  then show ?thesis
    by (cases "js_sort delta_cmp (snd g)") (simp_all add: members_def cluster_of_def Let_def item_at_def)
qed

lemma cluster_key [simp]: "fld (cluster_of g) ''studyId'' = fst g"
  by (simp add: cluster_of_def Let_def)

lemma clusters: "set (groupByStudy recs) = cluster_of ` set (by_study recs)"
  by (simp add: groupByStudy_def)

lemma cluster_props:
  assumes "c \<in> set (groupByStudy recs)"
  shows "\<exists>g \<in> set (by_study recs). members c = js_sort delta_cmp (snd g) \<and>
    (\<forall>r \<in> set (members c). study_key r = fld c ''studyId'' \<and> r \<in> set recs)"
proof -
  obtain g where g: "c = cluster_of g" "g \<in> set (by_study recs)" using assms by (auto simp: clusters)
  then have ne: "snd g \<noteq> []" and k: "\<forall>r \<in> set (snd g). study_key r = fst g"
    using by_study_grouped(1) [of recs] by (auto simp: well_grouped_def list_all_iff)
  have m: "members c = js_sort delta_cmp (snd g)" using ne g(1) cluster_members by simp
  have "set (snd g) \<subseteq> set (concat (map snd (by_study recs)))" using g(2) by auto
  then have "set (snd g) \<subseteq> set recs" using mset_eq_setD [OF by_study_grouped(2) [of recs]] by simp
  with k m g show ?thesis by (intro bexI [of _ g]) auto
qed

lemma distinct_group: "distinct (concat xss) \<Longrightarrow> xs \<in> set xss \<Longrightarrow> distinct xs"
  by (induction xss) auto

text \<open>
  C18: The list of recommendations is grouped without loss: every recommendation is in exactly one study,
  under its study identifier (its own identifier when it has none); the primary of a study has the greatest
  Sharpe difference, missing ones counting as smallest; and the studies come newest primary first.
\<close>

theorem studies_partition:
  assumes "list_all (\<lambda>r. graded r \<and> is_dated (date_of (fld r ''createdAt''))) recs"
  shows "mset (concat (map members (groupByStudy recs))) = mset recs \<and>
    distinct (map (\<lambda>c. fld c ''studyId'') (groupByStudy recs)) \<and>
    (\<forall>c \<in> set (groupByStudy recs). \<forall>r \<in> set (members c).
       study_key r = fld c ''studyId'' \<and> delta_rank (fld c ''primary'') \<le> delta_rank r) \<and>
    sorted_wrt (\<lambda>c d. created_ms d \<le> created_ms c) (groupByStudy recs)"
proof (intro conjI ballI)
  let ?gs = "by_study recs"
  have ne: "snd g \<noteq> []" if "g \<in> set ?gs" for g
    using that by_study_grouped(1) [of recs] by (auto simp: well_grouped_def list_all_iff)
  have "mset (concat (map members (groupByStudy recs))) = mset (concat (map members (map cluster_of ?gs)))"
    by (simp only: mset_concat_map groupByStudy_def mset_js_sort)
  also have "\<dots> = mset (concat (map (\<lambda>g. js_sort delta_cmp (snd g)) ?gs))"
    using ne by (simp add: cluster_members comp_def cong: map_cong)
  also have "\<dots> = mset (concat (map snd ?gs))" by (simp add: mset_concat mset_js_sort comp_def)
  finally show "mset (concat (map members (groupByStudy recs))) = mset recs" by (simp add: by_study_grouped(2))
  have "distinct (map (\<lambda>c. fld c ''studyId'') (map cluster_of ?gs))"
    using by_study_grouped(1) [of recs] by (simp add: well_grouped_def comp_def)
  moreover have "mset (map (\<lambda>c. fld c ''studyId'') (groupByStudy recs)) = mset (map (\<lambda>c. fld c ''studyId'') (map cluster_of ?gs))"
    by (simp only: mset_map groupByStudy_def mset_js_sort)
  ultimately show "distinct (map (\<lambda>c. fld c ''studyId'') (groupByStudy recs))" using mset_eq_imp_distinct_iff by blast
next
  fix c r assume c: "c \<in> set (groupByStudy recs)" and r: "r \<in> set (members c)"
  from cluster_props [OF c] obtain g where "g \<in> set (by_study recs)" and gm: "members c = js_sort delta_cmp (snd g) \<and>
      (\<forall>r \<in> set (members c). study_key r = fld c ''studyId'' \<and> r \<in> set recs)" ..
  note g = gm [THEN conjunct1] and m = gm [THEN conjunct2]
  show "study_key r = fld c ''studyId''" using m r by simp
  have "list_all graded (snd g)" using m assms unfolding g by (auto simp: list_all_iff)
  then have "sorted (map delta_rank (members c))" using delta.sorted_keys g by simp
  then show "delta_rank (fld c ''primary'') \<le> delta_rank r" using r by (auto simp: members_def)
next
  have "is_dated (created_at c)" if c: "c \<in> set (groupByStudy recs)" for c
  proof -
    have "fld c ''primary'' \<in> set (members c)" by (simp add: members_def)
    with cluster_props [OF c] assms show ?thesis by (auto simp: created_at_def list_all_iff)
  qed
  then have "list_all (\<lambda>c. is_dated (created_at c)) (map cluster_of (by_study recs))"
    by (auto simp: clusters list_all_iff)
  from created.sorted_keys [OF this] show "sorted_wrt (\<lambda>c d. created_ms d \<le> created_ms c) (groupByStudy recs)"
    by (simp add: groupByStudy_def sorted_map)
qed

definition sample_recs :: "jsval list" where
  "sample_recs =
     [obj [(''id'', S ''r1''), (''studyId'', S ''t1''), (''createdAt'', S ''2026-06-01'')],
      obj [(''id'', S ''r2''), (''createdAt'', S ''2026-06-02'')],
      obj [(''id'', S ''r3''), (''studyId'', S ''t1''), (''createdAt'', S ''2026-06-03''),
           (''expectedDelta'', obj [(''sharpe'', N 1)])]]"

lemma sample_graded: "list_all (\<lambda>r. graded r \<and> is_dated (date_of (fld r ''createdAt''))) sample_recs"
proof -
  have "is_dated (date_of (S ''2026-06-01''))" "is_dated (date_of (S ''2026-06-02''))" "is_dated (date_of (S ''2026-06-03''))"
    by code_simp+
  then show ?thesis by (simp add: sample_recs_def graded_def sharpe_of_def coalesce_def)
qed

theorem studies_partition_witness:
  "mset (concat (map members (groupByStudy sample_recs))) = mset sample_recs \<and> length sample_recs = 3"
  using studies_partition [OF sample_graded] by (simp add: sample_recs_def)

subsection \<open>Rejecting the similar ones\<close>

lemma row_kept [simp]: "cluster (row_step e row) = cluster row"
  by (cases e) (simp_all add: onBulkReject_def bulk_settled_def Let_def split: option.split)

lemma rows_kept [simp]: "cluster (fold row_step es row) = cluster row"
  by (induction es arbitrary: row) simp_all

fun confirms_bulk :: "row_event \<Rightarrow> cluster_row \<Rightarrow> bool" where
  "confirms_bulk (Confirm_Bulk m) row = can_confirm (bulk row)"
| "confirms_bulk _ row = False"

lemma confirms_bulk_iff: "confirms_bulk e row \<longleftrightarrow> (\<exists>m. e = Confirm_Bulk m) \<and> can_confirm (bulk row)"
  by (cases e) auto

interpretation bulk_rejection: confirmed row_step rejections "\<lambda>_. True" "\<lambda>row. map (\<lambda>r. fld r ''id'') (similar row)"
  "\<lambda>row. shown (bulk row)" "\<lambda>e. e = Press_Bulk" confirms_bulk expanded
proof unfold_locales
  fix e row
  show "filter (\<lambda>_. True) (rejections (row_step e row)) = filter (\<lambda>_. True) (rejections row) @
      (if confirms_bulk e row then map (\<lambda>r. fld r ''id'') (similar row) else [])"
    by (cases e) (auto simp: onBulkReject_def bulk_settled_def Let_def similar_def split: option.splits)
  show "confirms_bulk e row \<Longrightarrow> shown (bulk row)" by (simp add: confirms_bulk_iff can_confirm_def)
  show "shown (bulk (row_step e row)) \<Longrightarrow> \<not> shown (bulk row) \<Longrightarrow> e = Press_Bulk \<and> expanded row"
    by (cases e) (auto simp: onBulkReject_def bulk_settled_def Let_def split: if_splits option.splits)
qed

text \<open>
  C19: Rejecting the similar recommendations of a study touches nothing else. Whatever is pressed and
  answered, every request is for a similar recommendation of that study and was made by a confirmation
  of the open dialog, which was opened while the similar ones were listed; the primary and the
  recommendations of other studies are never rejected.
\<close>

theorem bulk_reject_spares_primary:
  assumes "c \<in> set (groupByStudy recs)" and "distinct (map (\<lambda>r. fld r ''id'') recs)"
    and "i \<in> set (rejections (fold row_step es (new_row c st)))"
  shows "(\<exists>r \<in> set (elems (fld c ''similar'')). i = fld r ''id'') \<and> i \<noteq> fld (fld c ''primary'') ''id'' \<and>
    (\<forall>r \<in> set recs. study_key r \<noteq> fld c ''studyId'' \<longrightarrow> i \<noteq> fld r ''id'') \<and>
    (\<exists>before m after. es = before @ Confirm_Bulk m # after \<and> shown (bulk (fold row_step before (new_row c st))) \<and>
      Press_Bulk \<in> set before)"
proof -
  obtain before e after where e: "es = before @ e # after" "\<exists>m. e = Confirm_Bulk m"
    "shown (bulk (fold row_step before (new_row c st)))" "i \<in> (\<lambda>r. fld r ''id'') ` set (similar (fold row_step before (new_row c st)))"
    using bulk_rejection.call_confirmed [of "new_row c st" i es] assms(3)
    by (auto simp: new_row_def confirms_bulk_iff can_confirm_def)
  have "Press_Bulk \<in> set before"
    using bulk_rejection.asked_opened [of "new_row c st" before] e(3) by (auto simp: new_row_def)
  moreover obtain s where s: "s \<in> set (elems (fld c ''similar''))" "i = fld s ''id''"
    using e(4) by (auto simp: similar_def new_row_def)
  from cluster_props [OF assms(1)] obtain g where g0: "g \<in> set (by_study recs)" and gm: "members c = js_sort delta_cmp (snd g) \<and>
      (\<forall>r \<in> set (members c). study_key r = fld c ''studyId'' \<and> r \<in> set recs)" ..
  note g = g0 gm [THEN conjunct1] and m = gm [THEN conjunct2]
  have inj: "inj_on (\<lambda>r. fld r ''id'') (set recs)" "distinct recs" using assms(2) by (auto simp: distinct_map)
  have "distinct (concat (map snd (by_study recs)))"
    using inj(2) by (simp only: mset_eq_imp_distinct_iff [OF by_study_grouped(2)])
  then have "distinct (snd g)" by (rule distinct_group) (use g(1) in simp)
  then have "distinct (members c)" by (simp only: g(2) mset_eq_imp_distinct_iff [OF mset_js_sort])
  then have "s \<noteq> fld c ''primary''" using s(1) by (auto simp: members_def)
  moreover have in_recs: "s \<in> set recs" "fld c ''primary'' \<in> set recs" "study_key s = fld c ''studyId''"
    using m s(1) by (auto simp: members_def)
  ultimately have "i \<noteq> fld (fld c ''primary'') ''id''" using inj(1) s(2) by (auto dest: inj_onD)
  moreover have "i \<noteq> fld r ''id''" if "r \<in> set recs" "study_key r \<noteq> fld c ''studyId''" for r
    using that in_recs inj(1) s(2) by (auto dest: inj_onD)
  ultimately show ?thesis using s e(1-3) \<open>Press_Bulk \<in> set before\<close> by blast
qed

theorem bulk_reject_spares_primary_witness:
  "\<exists>c \<in> set (groupByStudy sample_recs).
    rejections (fold row_step [Toggle_Similar, Press_Bulk, Confirm_Bulk \<lparr>now_ms = 1, new_id = []\<rparr>] (new_row c demo_activity)) = [S ''r1''] \<and>
    S ''r1'' \<noteq> fld (fld c ''primary'') ''id''"
proof -
  let ?r1 = "obj [(''id'', S ''r1''), (''studyId'', S ''t1''), (''createdAt'', S ''2026-06-01'')]"
  let ?r3 = "obj [(''id'', S ''r3''), (''studyId'', S ''t1''), (''createdAt'', S ''2026-06-03''),
           (''expectedDelta'', obj [(''sharpe'', N 1)])]"
  let ?c = "cluster_of (S ''t1'', [?r1, ?r3])"
  let ?es = "[Toggle_Similar, Press_Bulk, Confirm_Bulk \<lparr>now_ms = 1, new_id = []\<rparr>]"
  have "(S ''t1'', [?r1, ?r3]) \<in> set (by_study sample_recs)"
    by (simp add: by_study_def sample_recs_def study_key_def js_or_def)
  then have c: "?c \<in> set (groupByStudy sample_recs)" by (auto simp: clusters)
  have "num_lt (Fin 0) (delta_cmp ?r1 ?r3)" by (simp add: delta_cmp_def sharpe_of_def coalesce_def num_sub_def)
  then have s: "elems (fld ?c ''similar'') = [?r1]" by (simp add: cluster_of_def js_sort_def Let_def)
  then have r: "rejections (fold row_step ?es (new_row ?c demo_activity)) = [S ''r1'']"
    by (simp add: new_row_def similar_def can_confirm_def onBulkReject_def)
  then have "S ''r1'' \<noteq> fld (fld ?c ''primary'') ''id''"
    using bulk_reject_spares_primary [OF c, of "S ''r1''" ?es demo_activity] by (simp add: sample_recs_def)
  with c r show ?thesis by blast
qed

text \<open>
  How a confirmation ends: all requests of the study are made again, each time; without a failure the dialog
  closes, the rows collapse and the page is reloaded, with one the dialog stays open and can be confirmed
  again, the page is not reloaded.
\<close>

lemma bulk_rejection_settles:
  assumes "can_confirm (bulk row)" and "length results = length (similar row)"
    and "next = row_step (Bulk_Settled results m') (row_step (Confirm_Bulk m) row)"
  shows "rejections next = rejections row @ map (\<lambda>r. fld r ''id'') (similar row)" "bulk_pending next = None"
    "if list_all (\<lambda>r. \<not> isl r) results
     then \<not> shown (bulk next) \<and> \<not> expanded next \<and> refreshes next = Suc (refreshes row) \<and> bulk_error next = None
     else can_confirm (bulk next) \<and> expanded next = expanded row \<and> refreshes next = refreshes row \<and> bulk_error next \<noteq> None"
proof -
  have "length (filter isl results) = 0 \<longleftrightarrow> list_all (\<lambda>r. \<not> isl r) results" by (simp add: filter_empty_conv list_all_iff)
  with assms show "rejections next = rejections row @ map (\<lambda>r. fld r ''id'') (similar row)" "bulk_pending next = None"
    "if list_all (\<lambda>r. \<not> isl r) results
     then \<not> shown (bulk next) \<and> \<not> expanded next \<and> refreshes next = Suc (refreshes row) \<and> bulk_error next = None
     else can_confirm (bulk next) \<and> expanded next = expanded row \<and> refreshes next = refreshes row \<and> bulk_error next \<noteq> None"
    by (simp_all add: onBulkReject_def bulk_settled_def similar_def Let_def can_confirm_def)
qed

subsection \<open>Reviewing one\<close>

lemma rec_kept [simp]: "rec_id (rec_step e a) = rec_id a"
proof (cases e)
  case (Review_Done k r)
  then show ?thesis
    by (cases r; cases "rec_jobs a ! k") (auto simp: approved_def rejected_def end_review_def Let_def split: sum.split)
qed (simp_all add: doApprove_def doReject_def start_review_def onBacktest_def)

lemma recs_kept [simp]: "rec_id (fold rec_step es a) = rec_id a"
  by (induction es arbitrary: a) simp_all

lemma job_ends [simp]:
  "rec_calls (end_rec_job j r m a) = rec_calls a"
  "shown (approving (end_rec_job j r m a)) \<Longrightarrow> shown (approving a)"
  "shown (rejecting (end_rec_job j r m a)) \<Longrightarrow> shown (rejecting a)"
  by (cases j; simp add: approved_def rejected_def end_review_def Let_def split: sum.splits)+

lemmas review_defs = doApprove_def doReject_def start_review_def onBacktest_def can_confirm_def

fun is_approval :: "rec_call \<Rightarrow> bool" where
  "is_approval (Approve _) = True"
| "is_approval (Reject _) = False"

fun confirms_approval :: "rec_event \<Rightarrow> rec_actions \<Rightarrow> bool" where
  "confirms_approval (Confirm_Approve m) a = can_confirm (approving a)"
| "confirms_approval _ a = False"

fun confirms_rejection :: "rec_event \<Rightarrow> rec_actions \<Rightarrow> bool" where
  "confirms_rejection (Confirm_Reject m) a = can_confirm (rejecting a)"
| "confirms_rejection _ a = False"

lemma confirms_iff:
  "confirms_approval e a \<longleftrightarrow> (\<exists>m. e = Confirm_Approve m) \<and> can_confirm (approving a)"
  "confirms_rejection e a \<longleftrightarrow> (\<exists>m. e = Confirm_Reject m) \<and> can_confirm (rejecting a)"
  by (cases e; auto)+

lemma review_calls:
  "filter is_approval (rec_calls (rec_step e a)) =
    filter is_approval (rec_calls a) @ (if confirms_approval e a then [Approve (Str (rec_id a))] else [])"
  "filter (\<lambda>c. \<not> is_approval c) (rec_calls (rec_step e a)) =
    filter (\<lambda>c. \<not> is_approval c) (rec_calls a) @ (if confirms_rejection e a then [Reject (Str (rec_id a))] else [])"
proof -
  have "rec_calls (rec_step (Review_Done k r) a) = rec_calls a" for k r by (cases r) simp
  then show "filter is_approval (rec_calls (rec_step e a)) =
      filter is_approval (rec_calls a) @ (if confirms_approval e a then [Approve (Str (rec_id a))] else [])"
    "filter (\<lambda>c. \<not> is_approval c) (rec_calls (rec_step e a)) =
      filter (\<lambda>c. \<not> is_approval c) (rec_calls a) @ (if confirms_rejection e a then [Reject (Str (rec_id a))] else [])"
    by (cases e; simp add: doApprove_def doReject_def start_review_def onBacktest_def)+
qed

lemma dialog_cases:
  shows "shown (approving (rec_step e a)) \<Longrightarrow> \<not> shown (approving a) \<Longrightarrow> e = Press_Approve \<and> actionable a"
    and "shown (rejecting (rec_step e a)) \<Longrightarrow> \<not> shown (rejecting a) \<Longrightarrow> e = Press_Reject \<and> actionable a"
proof -
  have kept: "shown (approving (rec_step (Review_Done k r) a)) \<Longrightarrow> shown (approving a)"
    "shown (rejecting (rec_step (Review_Done k r) a)) \<Longrightarrow> shown (rejecting a)" for k r
    by (cases r; simp split: if_splits; drule job_ends(2); simp) (cases r; simp split: if_splits; drule job_ends(3); simp)
  show "shown (approving (rec_step e a)) \<Longrightarrow> \<not> shown (approving a) \<Longrightarrow> e = Press_Approve \<and> actionable a"
    by (cases e; use kept(1) in \<open>simp add: review_defs split: if_splits\<close>)
  show "shown (rejecting (rec_step e a)) \<Longrightarrow> \<not> shown (rejecting a) \<Longrightarrow> e = Press_Reject \<and> actionable a"
    by (cases e; use kept(2) in \<open>simp add: review_defs split: if_splits\<close>)
qed

interpretation approval: confirmed rec_step rec_calls is_approval "\<lambda>a. [Approve (Str (rec_id a))]"
  "\<lambda>a. shown (approving a)" "\<lambda>e. e = Press_Approve" confirms_approval actionable
  by unfold_locales (fact review_calls(1), simp add: confirms_iff can_confirm_def, fact dialog_cases(1))

interpretation rejection: confirmed rec_step rec_calls "\<lambda>c. \<not> is_approval c" "\<lambda>a. [Reject (Str (rec_id a))]"
  "\<lambda>a. shown (rejecting a)" "\<lambda>e. e = Press_Reject" confirms_rejection actionable
  by unfold_locales (fact review_calls(2), simp add: confirms_iff can_confirm_def, fact dialog_cases(2))

lemma concat_single: "concat (map (\<lambda>k. [f k]) ks) = map f ks"
  by (induction ks) simp_all

text \<open>
  C7: A recommendation is applied to its strategy, or rejected, only by a human, every time. Whatever is
  pressed and answered, in any order, the approvals requested by the page are, one for one, those of the
  accepted confirmations of the approval dialog (shown, its confirmation not running), each for this
  recommendation, and the rejections those of the rejection dialog; nothing else makes such a request, a
  failed one is not repeated by itself. At each of these confirmations its dialog had been shown without a
  break since the button of that kind was pressed while the recommendation was open for review.
\<close>

theorem review_needs_confirmation:
  "let new = new_rec i strategy params symbol b st; held = (\<lambda>k. fold rec_step (take k es) new);
       approvals = turns rec_step confirms_approval es new; refusals = turns rec_step confirms_rejection es new
   in filter is_approval (rec_calls (held (length es))) = map (\<lambda>k. Approve (Str i)) approvals \<and>
      filter (\<lambda>c. \<not> is_approval c) (rec_calls (held (length es))) = map (\<lambda>k. Reject (Str i)) refusals \<and>
      (\<forall>k \<in> set approvals. (\<exists>m. es ! k = Confirm_Approve m) \<and> can_confirm (approving (held k)) \<and>
        (\<exists>j < k. es ! j = Press_Approve \<and> actionable (held j) \<and> (\<forall>l. j < l \<and> l \<le> k \<longrightarrow> shown (approving (held l))))) \<and>
      (\<forall>k \<in> set refusals. (\<exists>m. es ! k = Confirm_Reject m) \<and> can_confirm (rejecting (held k)) \<and>
        (\<exists>j < k. es ! j = Press_Reject \<and> actionable (held j) \<and> (\<forall>l. j < l \<and> l \<le> k \<longrightarrow> shown (rejecting (held l)))))"
  unfolding Let_def
proof (intro conjI ballI)
  let ?s = "new_rec i strategy params symbol b st"
  have s: "rec_calls ?s = []" "\<not> shown (approving ?s)" "\<not> shown (rejecting ?s)" "rec_id ?s = i"
    by (simp_all add: new_rec_def)
  show "filter is_approval (rec_calls (fold rec_step (take (length es) es) ?s)) =
      map (\<lambda>k. Approve (Str i)) (turns rec_step confirms_approval es ?s)"
    using approval.calls_counted [of es ?s] s by (simp add: concat_single)
  show "filter (\<lambda>c. \<not> is_approval c) (rec_calls (fold rec_step (take (length es) es) ?s)) =
      map (\<lambda>k. Reject (Str i)) (turns rec_step confirms_rejection es ?s)"
    using rejection.calls_counted [of es ?s] s by (simp add: concat_single)
  fix k
  {
    assume k: "k \<in> set (turns rec_step confirms_approval es ?s)"
    with turn_bound [OF k] show "\<exists>m. es ! k = Confirm_Approve m" "can_confirm (approving (fold rec_step (take k es) ?s))"
      by (simp_all add: confirms_iff)
    from approval.turn_opened [OF s(2) k] show "\<exists>j < k. es ! j = Press_Approve \<and> actionable (fold rec_step (take j es) ?s) \<and>
        (\<forall>l. j < l \<and> l \<le> k \<longrightarrow> shown (approving (fold rec_step (take l es) ?s)))" .
  next
    assume k: "k \<in> set (turns rec_step confirms_rejection es ?s)"
    with turn_bound [OF k] show "\<exists>m. es ! k = Confirm_Reject m" "can_confirm (rejecting (fold rec_step (take k es) ?s))"
      by (simp_all add: confirms_iff)
    from rejection.turn_opened [OF s(3) k] show "\<exists>j < k. es ! j = Press_Reject \<and> actionable (fold rec_step (take j es) ?s) \<and>
        (\<forall>l. j < l \<and> l \<le> k \<longrightarrow> shown (rejecting (fold rec_step (take l es) ?s)))" .
  }
qed

theorem review_needs_confirmation_witness:
  "filter is_approval (rec_calls (fold rec_step [Press_Approve, Confirm_Approve \<lparr>now_ms = 1, new_id = []\<rparr>]
      (new_rec (js ''r1'') [] Null Undef True demo_activity))) = [Approve (S ''r1'')]"
proof -
  let ?s = "new_rec (js ''r1'') [] Null Undef True demo_activity"
  let ?es = "[Press_Approve, Confirm_Approve \<lparr>now_ms = 1, new_id = []\<rparr>]"
  have "length (turns rec_step confirms_approval ?es ?s) = 1"
    by (simp add: turns_def new_rec_def can_confirm_def upt_rec numeral_2_eq_2)
  with review_needs_confirmation [of "js ''r1''" "[]" Null Undef True demo_activity ?es] show ?thesis
    unfolding Let_def by (simp add: map_replicate_const)
qed

subsection \<open>Backtesting one\<close>

text \<open>
  C22: The button that backtests a recommendation opens the form with its proposal: submitted unchanged, the
  form requests a backtest of the recommendation's strategy with exactly the proposed parameters, on the
  symbol of the strategy, over the last thirty days (cut to the minute and shifted by the zone). When the
  strategy was deleted the request is not left without a symbol: it silently asks for BTCUSDT.
\<close>

theorem recommendation_backtest:
  assumes "linkable (rec_strategyId a) symbol (proposedParams a)" and "\<not> nullish (proposedParams a)"
    and "execSymbol a = (if symbol = [] then Undef else Str symbol)"
    and "common_era now" and "common_era (now - 30 * 86400000)"
  shows "\<exists>query body. rec_pushed (rec_step Press_Backtest a) = rec_pushed a @ [js ''/backtests/new?'' @ query] \<and>
    bt_calls (submit_backtest zone complaint m (new_backtest now (parse_query query) st)) = [CreateBacktest body] \<and>
    fld body ''strategyId'' = Str (rec_strategyId a) \<and> fld body ''params'' = proposedParams a \<and>
    fld body ''symbol'' = (if symbol = [] then S ''BTCUSDT'' else Str symbol) \<and>
    fld body ''start'' = Str (iso_of_ms (whole_minute (now - 30 * 86400000) - zone (whole_minute (now - 30 * 86400000)))) \<and>
    fld body ''end'' = Str (iso_of_ms (whole_minute now - zone (whole_minute now)))"
proof -
  have w: "(js ''30'', js ''30d'', 30) \<in> windows" by (simp add: windows_def)
  let ?query = "query_string (link_params (rec_strategyId a) symbol (proposedParams a) (js ''30''))"
  let ?body = "linked_body zone (rec_strategyId a) symbol (proposedParams a) (now - 30 * 86400000) now"
  have "rec_pushed (rec_step Press_Backtest a) = rec_pushed a @ [js ''/backtests/new?'' @ ?query]"
    using assms(2,3) by (auto simp: onBacktest_def link_params_def coalesce_def nullish_def)
  moreover have "bt_calls (submit_backtest zone complaint m (new_backtest now (parse_query ?query) st)) = [CreateBacktest ?body]"
    by (rule link_request [OF assms(1) w assms(4,5)])
  ultimately show ?thesis
    by (intro exI [of _ ?query] exI [of _ ?body]) (simp add: linked_body_def s_or_def)
qed

definition sample_params :: jsval where
  "sample_params = obj [(''positionLevel'', N 3)]"

lemma sample_linkable: "linkable (js ''s1'') [] sample_params"
proof -
  let ?kvs = "[(js ''positionLevel'', N 3)]"
  have p: "sample_params = Obj ?kvs" by (simp add: sample_params_def obj_def)
  have d: "fl 3 = Fin 3" by (simp add: fl_numeral)
  then have j: "list_all (\<lambda>kv. units16 (fst kv) \<and> jsonable (snd kv)) ?kvs" by simp
  then have jo: "jsonable (Obj ?kvs)" by simp
  have "ascii (enc (N 3))" using ascii_number [OF d] by (simp del: num_to_string.simps)
  moreover have "ascii (json_quote (js ''positionLevel''))" by (intro ascii_quote) (simp add: js_def)
  ultimately have "list_all (\<lambda>kv. ascii (json_quote (fst kv)) \<and> ascii (enc (snd kv))) ?kvs"
    by (simp del: json_enc.simps(4))
  from ascii_Obj [OF j this] obtain t where "json_enc (Obj ?kvs) = Some t" "ascii t"
    using json_enc_ex [OF jo] by (metis option.sel)
  then have "ascii (json_stringify (Obj ?kvs))" by (simp add: json_stringify_def del: json_enc.simps)
  moreover have "well_formed (js ''s1'')" "well_formed []" by (intro ascii_well_formed ascii_js; simp) (simp add: well_formed_def)
  ultimately show ?thesis using jo by (simp add: linkable_def p)
qed

theorem recommendation_backtest_witness:
  "\<exists>query body. rec_pushed (rec_step Press_Backtest (new_rec (js ''r1'') (js ''s1'') sample_params Undef True demo_activity)) =
      [js ''/backtests/new?'' @ query] \<and>
    bt_calls (submit_backtest (\<lambda>_. 0) id \<lparr>now_ms = 1, new_id = js ''e1''\<rparr>
      (new_backtest 1700000000000 (parse_query query) demo_activity)) = [CreateBacktest body] \<and>
    fld body ''symbol'' = S ''BTCUSDT''"
proof -
  let ?a = "new_rec (js ''r1'') (js ''s1'') sample_params Undef True demo_activity"
  have c: "common_era 1700000000000" "common_era (1700000000000 - 30 * 86400000)" by code_simp+
  have a: "linkable (rec_strategyId ?a) [] (proposedParams ?a)" "\<not> nullish (proposedParams ?a)"
    "execSymbol ?a = (if [] = ([] :: jstr) then Undef else Str [])" "rec_pushed ?a = []"
    using sample_linkable by (simp_all add: new_rec_def sample_params_def nullish_def)
  from recommendation_backtest [OF a(1,2,3) c, of "\<lambda>_. 0" id "\<lparr>now_ms = 1, new_id = js ''e1''\<rparr>" demo_activity]
  show ?thesis by (simp only: a(4) append_Nil if_True refl simp_thms) blast
qed

end
