(* ===== verification/Spec2Isabelle.thy ===== *)
theory Spec2Isabelle
  imports Ws_Properties Api_Requests Auth Activity_Center Recent_Resources AiMoney_Types
    Command_Center Goal_Form Ranking_Properties Decision_Cases Polling Action_Properties
    Goal_Form_Properties Money_Cases Preset_Properties Option_Properties Stream_Properties Recent_Orders Tune_Now
    Live_Panel Recommendation_Properties
begin

text \<open>
  A verification library of the web client of \<^verbatim>\<open>finance_next\<close>, the Next.js application under
  \<^verbatim>\<open>src/client\<close> from which an operator states an earnings goal, lets the gateway analyse it,
  validates the strategy drafts of the analysis by backtests, watches the best of them on paper and
  saves strategies. The client decides what the operator is told and what is asked of the gateway;
  orders themselves are placed elsewhere.

  \<^bold>\<open>Parts of the program and their theories.\<close>

  \<^item> Language. \<open>Js_Base\<close> (values, IEEE doubles as rationals with infinities and NaN, strings as lists
    of UTF-16 code units), \<open>Js_Text\<close> (string functions, number printing and reading), \<open>Js_Json\<close>
    (\<^verbatim>\<open>JSON.stringify\<close>, \<^verbatim>\<open>JSON.parse\<close>), \<open>Js_Ops\<close> (operators, array methods, dates), \<open>Url_Query\<close>
    (\<^verbatim>\<open>URLSearchParams\<close>); lemmas about them in \<open>Js_Number\<close>, \<open>Json_Trip\<close>, \<open>Js_Order\<close>, \<open>Js_Round\<close>, \<open>Text_Lists\<close>.
    \<open>Ui_Texts\<close> holds the literals of the user interface, keyed by their line in the source.
  \<^item> Contracts. \<open>Confirmation\<close>: the dialog of \<^verbatim>\<open>components/confirm-dialog.tsx\<close> and the locale \<open>confirmed\<close> of the
    components that ask before they act: their guarded calls are, one for one, those made at the turns at which a
    confirmation is accepted. \<open>Interfaces\<close>: \<open>capped_list\<close>, \<open>storage_cell\<close>, \<open>persisted_list\<close> and the browser's storage.
  \<^item> Data. \<open>Ts_Types\<close> (\<^verbatim>\<open>data/type.d.ts\<close> and the types of \<^verbatim>\<open>data/api-client.ts\<close>) and \<open>AiMoney_Types\<close>
    (the types at the head of \<^verbatim>\<open>ai-money/client.tsx\<close>): one definition per declaration, with the
    predicate \<open>has_type\<close> for the values it admits.
  \<^item> Gateway access. \<open>Api_Client\<close> (\<^verbatim>\<open>data/api-base.mjs\<close>, \<^verbatim>\<open>api-auth-event.mjs\<close>, \<^verbatim>\<open>api-client.ts\<close>: base
    address, requests, responses, every endpoint function) and \<open>Api_Requests\<close>; \<open>Auth\<close>
    (\<^verbatim>\<open>data/auth-redirect.mjs\<close>, \<^verbatim>\<open>middleware.ts\<close>, \<^verbatim>\<open>auth-client.ts\<close>, \<^verbatim>\<open>auth-server.ts\<close>).
  \<^item> Live updates. \<open>Ws_Client\<close> (class \<^verbatim>\<open>HubClient\<close> of \<^verbatim>\<open>data/ws-client.ts\<close>, with the browser's sockets as
    part of the state), \<open>Ws_Invariants\<close>, \<open>Ws_Properties\<close>; \<open>Ws_Streams\<close> (its stream hooks) and
    \<open>Stream_Properties\<close>; \<open>Recent_Orders\<close> and \<open>Tune_Now\<close> (\<^verbatim>\<open>recent-orders.tsx\<close> and \<^verbatim>\<open>tune-now.tsx\<close> of
    \<^verbatim>\<open>app/(dashboard)/strategies/[id]\<close>), two components that live on these streams.
  \<^item> The strategy form. \<open>Option_Form\<close> (\<^verbatim>\<open>app/(dashboard)/option/page.tsx\<close>): form state, edits, the submission
    and the gateway's answers as steps of a session. \<open>Preset_Trip\<close> and \<open>Preset_Link\<close> prepare what is known of
    the link that opens it.
  \<^item> The live switch and the backtest form. \<open>Live_Panel\<close> (\<^verbatim>\<open>strategies/[id]/config-panel.tsx\<close> with its
    \<^verbatim>\<open>ConfirmDialog\<close>) and \<open>Backtest_Form\<close> (\<^verbatim>\<open>backtests/new/page.tsx\<close>), with the indented JSON of its
    parameters in \<open>Json_Pretty\<close> and lemmas on dates in \<open>Iso_Dates\<close>.
  \<^item> \<open>Recommendations\<close> (\<^verbatim>\<open>recommendations/page.tsx\<close>, \<^verbatim>\<open>recommendations-list.tsx\<close>, \<^verbatim>\<open>[id]/actions.tsx\<close>): the
    grouping of the optimiser's recommendations, their bulk rejection, the review of one.
  \<^item> Local logs. \<open>Recent_Resources\<close> (\<^verbatim>\<open>data/use-recent-resources.ts\<close>) and \<open>Activity_Center\<close>
    (\<^verbatim>\<open>data/use-activity-center.tsx\<close>).
  \<^item> The decisions of the AI Money page, \<^verbatim>\<open>data/ai-goal-preset.mjs\<close>, in the order of the file by topic:
    \<open>Preset_Text\<close>, \<open>Goal_Form\<close>, \<open>Strategy_Preset\<close>, \<open>Backtest_Ranking\<close>, \<open>Goal_Actions\<close>, \<open>Goal_Decision\<close>,
    \<open>Goal_Readiness\<close>, \<open>Run_Followup\<close>, \<open>Goal_Operations\<close>, \<open>Command_Center\<close>: one definition per
    function, under the function's name.
  \<^item> The controller of the page, component \<^verbatim>\<open>AIGoalClient\<close> of \<^verbatim>\<open>app/(dashboard)/ai-money/client.tsx\<close>:
    \<open>Money_Page\<close> (the record of its state hooks and refs, the analysis and validation handlers),
    \<open>Money_Runs\<close> (stored runs, strategies, actions), \<open>Money_Steps\<close> (effects, events, the step relation).

  \<^bold>\<open>How the parts interact.\<close> The middleware decides which pages open; the page loads its state through the
  endpoint functions; the operator's events start handlers, which ask the gateway and resume with its
  answers; after each answer the state is handed to the builders of \<^verbatim>\<open>ai-goal-preset.mjs\<close>, whose results
  are rendered and choose the next actions. A handler is an \<open>act\<close>: it stops, sets the state, or asks a
  call and goes on with the answer. \<open>step\<close> starts a handler or answers one of the pending calls, so that
  every interleaving is a path of \<open>reachable\<close>.

  \<^bold>\<open>What the lemmas show.\<close>

  \<^item> \<open>Ws_Invariants\<close>, \<open>Ws_Properties\<close>: the tables of the hub agree, the open socket has exactly the wanted
    subscriptions, delays are bounded, a shut-down hub stays down; a second socket is possible.
    A message is handed over listener by listener; one that throws, as that of the strategy hook does on a
    frame without a type, ends the delivery (\<open>tell\<close>).
  \<^item> \<open>Js_Number\<close>, \<open>Json_Trip\<close>: a printed double is read back as itself, by \<^verbatim>\<open>Number\<close> and by \<^verbatim>\<open>JSON.parse\<close>.
  \<^item> \<open>Stream_Properties\<close>, \<open>Recent_Orders\<close>, \<open>Tune_Now\<close>: what mounted hooks are told and show, which frames
    can be lost, the rows of the table of orders, and how the end of a study reaches the activity log.
  \<^item> \<open>Api_Requests\<close>, \<open>Auth\<close>: the shape of requests, the outcome by status, which pages the
    middleware opens or redirects, where a sign-in leads. A reference leaves the site when the URL parser reads a
    scheme or an authority in it (\<open>leaves_origin\<close>).
  \<^item> \<open>Recent_Resources\<close>, \<open>Activity_Center\<close>: bounds, order and what a reload gives back, as
    interpretations of the contracts.
  \<^item> \<open>Goal_Form_Properties\<close>, \<open>Preset_Lemmas\<close>, \<open>Preset_Properties\<close>: what is sent is typed and within bounds;
    the run that the gateway stores for a request leads, read back into the form, to the request as the gateway
    normalised it (\<open>stored_run\<close>, translated from \<^verbatim>\<open>normalizeGoalRequest\<close> of the gateway's \<^verbatim>\<open>ai_goal.go\<close>: symbols
    without USDT, a horizon filled in, long texts cut); risk caps bound the strategy that is drafted.
  \<^item> \<open>Preset_Trip\<close>, \<open>Preset_Link\<close>, \<open>Option_Properties\<close>: rounding is idempotent, the normalisers of drafts are
    idempotent, the link of a draft opens the form with the draft's preset, and the opened form saves
    what the one-click save does; how a submission ends; what a blank form opens with.
  \<^item> \<open>Live_Panel\<close>: live trading is turned on only through the dialog, once for each confirmation. \<open>Iso_Dates\<close>, \<open>Json_Pretty\<close>: printed dates
    and indented values are read back. \<open>Backtest_Properties\<close>: the form asks for what the one-click validation
    asks for, except for its window, which a preset shifts by the zone.
  \<^item> \<open>Recommendation_Properties\<close>: the grouping is a partition with the best of each study first; reviews are,
    one for one, confirmations of the dialog that was opened for them; bulk rejections spare the primary; the link asks for the proposed parameters.
  \<^item> \<open>Ranking_Properties\<close>: the ranking is the stable sort of the library under a linear order of ranks;
    the paper candidate is sound and the best.
  \<^item> \<open>Decision_Properties\<close>, \<open>Decision_Cases\<close>, \<open>Polling\<close>: two abstract gates over observed facts, and that the
    decision and the readiness check refine them; when a read of the validation runs is followed by another.
  \<^item> \<open>Action_Properties\<close>: reviews are done only with evidence, and the offered transitions produce it.
  \<^item> \<open>Money_Properties\<close> (locale \<open>page_invariant\<close>), \<open>Money_Busy\<close> (locale \<open>busy_flag\<close>), \<open>Money_Cases\<close>: invariants of
    the page under every interleaving (the requests it may send, for any gateway; no run listed twice, for a
    gateway whose lists have none), its return to rest with every busy flag and key cleared, and single handlers
    on their error paths.

  \<^bold>\<open>Conventions and bounds.\<close> Reading a property of \<open>undefined\<close> gives \<open>undefined\<close> where the source would throw
  (see \<open>Js_Ops\<close>). The clock, the local time zone, random identifiers and the page's address are
  arguments. Numbers are rationals rounded to doubles; the two zeros are one value. Case folding
  covers ASCII, dates are ISO dates. The JSON parser's fuel is the length of its text, which every
  recursive call consumes (\<open>Json_Trip\<close> shows that it is enough); printing and reading of numbers are
  bounded by seventeen digits, which \<open>Js_Number\<close> shows to determine a double. \<^verbatim>\<open>Promise.all\<close> is one call; the page stays mounted. Third-party
  code (React, the browser, the gateway) is a parameter or an environment step. The definitions of
  \<^verbatim>\<open>ai-goal-preset.mjs\<close> were evaluated on the repository's own tests: of the 249 cases of
  \<^verbatim>\<open>ai-goal-preset.test.mjs\<close>, the 240 that call the module on data (1343 assertions) hold of the model.

  \<^bold>\<open>Not modelled.\<close> The JSX of pages and components (what is shown where), the other dashboard pages,
  \<^verbatim>\<open>wsUrl\<close> and \<^verbatim>\<open>absoluteApiBaseUrl\<close> (URL objects); the Go
  gateway (but for what it makes of a goal request before it stores a run), the Python service, the protobuf definitions and the deployment files, which are other
  languages and the environment of the client.
\<close>

end
